(* ===== verification/Loong_Prelude.thy ===== *)
theory Loong_Prelude
  imports Main "HOL-Library.Word" "HOL-Library.Char_ord" "HOL-Library.List_Lexorder"
    "HOL-Library.Sublist"
begin

text \<open>
  What every component of the Loong model shares: the machine integers of the Rust code
  (\<open>u64\<close> and \<open>u32\<close> as words, \<open>usize\<close> counters with their saturating addition), Rust
  strings as their UTF-8 byte sequences with the \<open>str\<close> methods the code calls, the number
  formats \<open>{}\<close> and \<open>{:016x}\<close>, \<open>std::collections::BTreeMap\<close> as a key-sorted association
  list with the locale that states its contract, and first-error iteration
  (\<open>for x in xs { f(x)?; }\<close>).
\<close>

named_theorems loong_simps \<open>characteristic equations of the modelled operations\<close>

section \<open>Machine integers\<close>

type_synonym u64 = "64 word"
type_synonym u32 = "32 word"
type_synonym usize = nat

definition u64_saturating_add :: "u64 \<Rightarrow> u64 \<Rightarrow> u64" where
  "u64_saturating_add a b = (if unat a + unat b < 2 ^ 64 then a + b else - 1)"

definition usize_max :: usize where
  "usize_max = 2 ^ 64 - 1"

definition usize_saturating_add :: "usize \<Rightarrow> usize \<Rightarrow> usize" where
  "usize_saturating_add a b = min (a + b) usize_max"

lemma unat_u64_bound: "unat (a :: u64) < 2 ^ 64"
  using unsigned_less [of a] by simp

lemma unat_u64_le: "unat (a :: u64) \<le> 2 ^ 64 - 1"
  using unat_u64_bound [of a] by linarith

lemma unat_u64_saturating_add:
  "unat (u64_saturating_add a b) = min (unat a + unat b) (2 ^ 64 - 1)"
proof (cases "unat a + unat b < 2 ^ 64")
  case True
  then have "unat (a + b) = unat a + unat b"
    by (simp add: unat_word_ariths)
  with True show ?thesis
    by (simp add: u64_saturating_add_def)
next
  case False
  then show ?thesis
    by (simp add: u64_saturating_add_def unsigned_minus_1_eq_mask mask_eq_exp_minus_1)
qed

lemma u64_saturating_add_ge: "a \<le> u64_saturating_add a b"
  using unat_u64_le [of a] by (simp add: word_le_nat_alt unat_u64_saturating_add)

lemma u64_succ_unat: "unat (w :: u64) < 2 ^ 64 - 1 \<Longrightarrow> unat (w + 1) = Suc (unat w)"
  by (simp add: unat_word_ariths)

lemma u64_less_max_unat: "(w :: u64) < - 1 \<longleftrightarrow> unat w < 2 ^ 64 - 1"
  by (simp add: word_less_nat_alt unsigned_minus_1_eq_mask mask_eq_exp_minus_1)

lemma u64_less_succ: "(w :: u64) < - 1 \<Longrightarrow> w < w + 1"
  by (simp add: word_less_nat_alt [of w "w + 1"] u64_less_max_unat u64_succ_unat)

lemma u64_of_nat_inj:
  assumes "i < 2 ^ 64" and "j < 2 ^ 64"
  shows "(of_nat i :: u64) = of_nat j \<longleftrightarrow> i = j"
proof
  assume "(of_nat i :: u64) = of_nat j"
  then have "unat (of_nat i :: u64) = unat (of_nat j :: u64)" by simp
  with assms show "i = j" by (simp add: unsigned_of_nat take_bit_nat_eq_self)
qed simp

lemma usize_saturating_add_exact [simp]:
  "a + b \<le> usize_max \<Longrightarrow> usize_saturating_add a b = a + b"
  by (simp add: usize_saturating_add_def)

section \<open>Number formats\<close>

fun nat_to_dec :: "nat \<Rightarrow> string" where
  "nat_to_dec n =
     (if n < 10 then [char_of (48 + n)] else nat_to_dec (n div 10) @ [char_of (48 + n mod 10)])"

declare nat_to_dec.simps [simp del]

definition u64_to_dec :: "u64 \<Rightarrow> string" where
  "u64_to_dec w = nat_to_dec (unat w)"

definition hex_digit :: "nat \<Rightarrow> char" where
  "hex_digit d = char_of (if d < 10 then 48 + d else 87 + d)"

definition hex16 :: "u64 \<Rightarrow> string" where
  "hex16 w = map (\<lambda>i. hex_digit (unat w div 16 ^ i mod 16)) (rev [0..<16])"

lemma hex_digit_numerals [simp]:
  "hex_digit 0 = CHR ''0''" "hex_digit (Suc 0) = CHR ''1''" "hex_digit 2 = CHR ''2''"
  "hex_digit 3 = CHR ''3''" "hex_digit 4 = CHR ''4''" "hex_digit 5 = CHR ''5''"
  by code_simp+

lemma hex_digit_inj:
  assumes "a < 16" and "b < 16" and "hex_digit a = hex_digit b"
  shows "a = b"
proof -
  have "\<And>d. d < 16 \<Longrightarrow> (of_char (hex_digit d) :: nat) = (if d < 10 then 48 + d else 87 + d)"
    by (simp add: hex_digit_def)
  with assms have "(if a < 10 then 48 + a else 87 + a) = (if b < 10 then 48 + b else 87 + b)"
    by metis
  with assms show ?thesis
    by (auto split: if_splits)
qed

lemma mod_power_from_digits:
  "\<forall>i<k. a div 16 ^ i mod 16 = b div 16 ^ i mod 16 \<Longrightarrow> a mod 16 ^ k = b mod (16 :: nat) ^ k"
proof (induction k)
  case 0
  then show ?case by simp
next
  case (Suc k)
  then have "a mod 16 ^ k = b mod 16 ^ k" and "a div 16 ^ k mod 16 = b div 16 ^ k mod 16"
    by auto
  then show ?case
    by (simp add: mod_mult2_eq power_Suc2 del: power_Suc)
qed

lemma hex16_inj: "hex16 a = hex16 b \<longleftrightarrow> a = b"
proof
  assume "hex16 a = hex16 b"
  then have eq: "\<forall>i<16. hex_digit (unat a div 16 ^ i mod 16) = hex_digit (unat b div 16 ^ i mod 16)"
    by (auto simp: hex16_def)
  have "\<forall>i<16. unat a div 16 ^ i mod 16 = unat b div 16 ^ i mod 16"
    using eq by (auto intro!: hex_digit_inj)
  then have "unat a mod 16 ^ 16 = unat b mod 16 ^ 16"
    by (rule mod_power_from_digits)
  moreover have "(16 :: nat) ^ 16 = 2 ^ 64"
    by simp
  ultimately have "unat a = unat b"
    using unat_u64_bound [of a] unat_u64_bound [of b] by simp
  then show "a = b"
    by (simp add: word_unat_eq_iff)
qed simp

section \<open>Strings as UTF-8 byte sequences\<close>

text \<open>
  \<open>str::trim\<close> strips characters with the Unicode property White_Space; these are their
  UTF-8 encodings. On a well-formed UTF-8 sequence an encoding that matches at either end is
  the encoding of the character standing there.
\<close>

definition whitespace_encodings :: "string list" where
  "whitespace_encodings =
     [[CHR 0x09], [CHR 0x0A], [CHR 0x0B], [CHR 0x0C], [CHR 0x0D], [CHR 0x20],
      [CHR 0xC2, CHR 0x85], [CHR 0xC2, CHR 0xA0], [CHR 0xE1, CHR 0x9A, CHR 0x80],
      [CHR 0xE2, CHR 0x80, CHR 0x80], [CHR 0xE2, CHR 0x80, CHR 0x81],
      [CHR 0xE2, CHR 0x80, CHR 0x82], [CHR 0xE2, CHR 0x80, CHR 0x83],
      [CHR 0xE2, CHR 0x80, CHR 0x84], [CHR 0xE2, CHR 0x80, CHR 0x85],
      [CHR 0xE2, CHR 0x80, CHR 0x86], [CHR 0xE2, CHR 0x80, CHR 0x87],
      [CHR 0xE2, CHR 0x80, CHR 0x88], [CHR 0xE2, CHR 0x80, CHR 0x89],
      [CHR 0xE2, CHR 0x80, CHR 0x8A], [CHR 0xE2, CHR 0x80, CHR 0xA8],
      [CHR 0xE2, CHR 0x80, CHR 0xA9], [CHR 0xE2, CHR 0x80, CHR 0xAF],
      [CHR 0xE2, CHR 0x81, CHR 0x9F], [CHR 0xE3, CHR 0x80, CHR 0x80]]"

text \<open>Strip any of the given non-empty words from the front, as long as one matches.\<close>

fun strip_words :: "string list \<Rightarrow> string \<Rightarrow> string" where
  "strip_words ws [] = []"
| "strip_words ws (c # cs) =
     (case find (\<lambda>w. w \<noteq> [] \<and> prefix w (c # cs)) ws of
        None \<Rightarrow> c # cs
      | Some w \<Rightarrow> strip_words ws (drop (length w - 1) cs))"

definition trim_start :: "string \<Rightarrow> string" where
  "trim_start s = strip_words whitespace_encodings s"

definition trim_end :: "string \<Rightarrow> string" where
  "trim_end s = rev (strip_words (map rev whitespace_encodings) (rev s))"

definition trim :: "string \<Rightarrow> string" where
  "trim s = trim_end (trim_start s)"

definition byte_ascii_lowercase :: "char \<Rightarrow> char" where
  "byte_ascii_lowercase c =
     (let n = (of_char c :: nat) in if 65 \<le> n \<and> n \<le> 90 then char_of (n + 32) else c)"

definition to_ascii_lowercase :: "string \<Rightarrow> string" where
  "to_ascii_lowercase s = map byte_ascii_lowercase s"

definition replace_char :: "char \<Rightarrow> char \<Rightarrow> string \<Rightarrow> string" where
  "replace_char a b s = map (\<lambda>c. if c = a then b else c) s"

definition is_ascii_lowercase :: "char \<Rightarrow> bool" where
  "is_ascii_lowercase c \<longleftrightarrow> (let n = (of_char c :: nat) in 97 \<le> n \<and> n \<le> 122)"

definition is_ascii_uppercase :: "char \<Rightarrow> bool" where
  "is_ascii_uppercase c \<longleftrightarrow> (let n = (of_char c :: nat) in 65 \<le> n \<and> n \<le> 90)"

definition is_ascii_digit :: "char \<Rightarrow> bool" where
  "is_ascii_digit c \<longleftrightarrow> (let n = (of_char c :: nat) in 48 \<le> n \<and> n \<le> 57)"

definition is_ascii_alphanumeric :: "char \<Rightarrow> bool" where
  "is_ascii_alphanumeric c \<longleftrightarrow> is_ascii_lowercase c \<or> is_ascii_uppercase c \<or> is_ascii_digit c"

text \<open>The well-formed UTF-8 sequences, which is what \<open>String\<close> admits.\<close>

definition byte_in :: "nat \<Rightarrow> nat \<Rightarrow> char \<Rightarrow> bool" where
  "byte_in lo hi c \<longleftrightarrow> (let n = (of_char c :: nat) in lo \<le> n \<and> n \<le> hi)"

fun utf8_valid :: "string \<Rightarrow> bool" where
  "utf8_valid [] = True"
| "utf8_valid (a # s) =
     (if byte_in 0x00 0x7F a then utf8_valid s
      else case s of
        [] \<Rightarrow> False
      | b # s2 \<Rightarrow>
          if byte_in 0xC2 0xDF a then byte_in 0x80 0xBF b \<and> utf8_valid s2
          else case s2 of
            [] \<Rightarrow> False
          | c # s3 \<Rightarrow>
              if byte_in 0xE0 0xEF a
              then (if byte_in 0xE0 0xE0 a then byte_in 0xA0 0xBF b
                    else if byte_in 0xED 0xED a then byte_in 0x80 0x9F b else byte_in 0x80 0xBF b) \<and>
                   byte_in 0x80 0xBF c \<and> utf8_valid s3
              else case s3 of
                [] \<Rightarrow> False
              | d # s4 \<Rightarrow>
                  byte_in 0xF0 0xF4 a \<and>
                  (if byte_in 0xF0 0xF0 a then byte_in 0x90 0xBF b
                   else if byte_in 0xF4 0xF4 a then byte_in 0x80 0x8F b else byte_in 0x80 0xBF b) \<and>
                  byte_in 0x80 0xBF c \<and> byte_in 0x80 0xBF d \<and> utf8_valid s4)"

declare utf8_valid.simps(2) [simp del]

text \<open>\<open>BufRead::lines\<close>: a final newline ends the last line, and a carriage return before a
  newline belongs to the line end.\<close>

definition newline :: char where
  "newline = CHR 0x0A"

definition strip_cr :: "string \<Rightarrow> string" where
  "strip_cr l = (if l \<noteq> [] \<and> last l = CHR 0x0D then butlast l else l)"

text \<open>\<open>s.split(c)\<close>: the pieces between the occurrences of \<open>c\<close>; never empty.\<close>

fun split_char :: "char \<Rightarrow> string \<Rightarrow> string list" where
  "split_char d [] = [[]]"
| "split_char d (c # cs) =
     (if c = d then [] # split_char d cs
      else (case split_char d cs of [] \<Rightarrow> [[c]] | p # ps \<Rightarrow> (c # p) # ps))"

text \<open>\<open>parts.join(sep)\<close> for a one-byte separator.\<close>

fun join_char :: "char \<Rightarrow> string list \<Rightarrow> string" where
  "join_char d [] = []"
| "join_char d [p] = p"
| "join_char d (p # q # ps) = p @ d # join_char d (q # ps)"

definition read_lines :: "string \<Rightarrow> string list" where
  "read_lines s =
     (let ps = split_char newline s in
      map strip_cr (butlast ps) @ (if last ps = [] then [] else [last ps]))"

lemma split_char_not_Nil [simp]: "split_char d s \<noteq> []"
  by (induction s) (auto split: list.splits)

lemma join_split_char: "join_char d (split_char d s) = s"
proof (induction s)
  case Nil
  then show ?case by simp
next
  case (Cons c cs)
  obtain p ps where ps: "split_char d cs = p # ps"
    by (cases "split_char d cs") auto
  with Cons show ?case
    by (cases ps) auto
qed

lemma split_char_pieces: "p \<in> set (split_char d s) \<Longrightarrow> d \<notin> set p"
proof (induction s arbitrary: p)
  case Nil
  then show ?case by simp
next
  case (Cons c cs)
  then show ?case
    by (cases "split_char d cs") (auto split: if_splits)
qed

lemma split_char_single: "d \<notin> set s \<Longrightarrow> split_char d s = [s]"
  by (induction s) auto

lemma split_char_append: "d \<notin> set p \<Longrightarrow> split_char d (p @ d # s) = p # split_char d s"
  by (induction p) auto

lemma split_join_char:
  "ps \<noteq> [] \<Longrightarrow> \<forall>p \<in> set ps. d \<notin> set p \<Longrightarrow> split_char d (join_char d ps) = ps"
  by (induction d ps rule: join_char.induct) (auto simp: split_char_single split_char_append)

lemma read_lines_Nil [simp]: "read_lines [] = []"
  by (simp add: read_lines_def)

lemma read_lines_Cons:
  "newline \<notin> set l \<Longrightarrow> read_lines (l @ newline # s) = strip_cr l # read_lines s"
  by (simp add: read_lines_def Let_def split_char_append)

text \<open>A file whose last line is ended grows line by line.\<close>

definition newline_ended :: "string \<Rightarrow> bool" where
  "newline_ended s \<longleftrightarrow> s = [] \<or> last s = newline"

lemma split_char_empty_piece: "split_char d s = [[]] \<longleftrightarrow> s = []"
proof
  assume "split_char d s = [[]]"
  then show "s = []" using join_split_char [of d s] by simp
qed simp

lemma split_char_snoc_ended:
  "newline_ended s \<Longrightarrow> last (split_char newline s) = []"
proof (induction s)
  case Nil
  then show ?case by simp
next
  case (Cons c s)
  then have IH: "s \<noteq> [] \<Longrightarrow> last (split_char newline s) = []"
    by (auto simp: newline_ended_def split: if_splits)
  obtain p ps where ps: "split_char newline s = p # ps"
    by (cases "split_char newline s") auto
  show ?case
  proof (cases s)
    case Nil
    with Cons.prems show ?thesis by (simp add: newline_ended_def)
  next
    case (Cons d t)
    then have "s \<noteq> []" by simp
    then have "split_char newline s \<noteq> [[]]" by (simp add: split_char_empty_piece)
    with IH [OF \<open>s \<noteq> []\<close>] ps have "ps \<noteq> []" by auto
    with IH [OF \<open>s \<noteq> []\<close>] ps show ?thesis by simp
  qed
qed

lemma split_char_append_ended:
  "newline_ended s \<Longrightarrow> split_char newline (s @ t) = butlast (split_char newline s) @ split_char newline t"
proof (induction s)
  case Nil
  then show ?case by simp
next
  case (Cons c s)
  show ?case
  proof (cases s)
    case Nil
    with Cons.prems show ?thesis by (simp add: newline_ended_def)
  next
    case (Cons d u)
    with Cons.prems have e: "newline_ended s" by (simp add: newline_ended_def)
    obtain p ps where ps: "split_char newline s = p # ps"
      by (cases "split_char newline s") auto
    have "ps \<noteq> []"
    proof
      assume "ps = []"
      with ps split_char_snoc_ended [OF e] have "split_char newline s = [[]]" by simp
      then have "s = []" by (simp add: split_char_empty_piece)
      with Cons show False by simp
    qed
    with Cons.IH [OF e] ps show ?thesis by auto
  qed
qed

lemma read_lines_append:
  assumes "newline_ended s"
  shows "read_lines (s @ t) = read_lines s @ read_lines t"
  using split_char_snoc_ended [OF assms]
  by (simp add: read_lines_def Let_def split_char_append_ended [OF assms] butlast_append)

text \<open>Trimming: no whitespace is left at the front, nothing else is touched, and trimming
  twice is trimming once.\<close>

lemma strip_words_Cons_id:
  "(\<And>w. w \<in> set ws \<Longrightarrow> w \<noteq> [] \<Longrightarrow> \<not> prefix w (c # cs)) \<Longrightarrow> strip_words ws (c # cs) = c # cs"
proof -
  assume "\<And>w. w \<in> set ws \<Longrightarrow> w \<noteq> [] \<Longrightarrow> \<not> prefix w (c # cs)"
  then have "find (\<lambda>w. w \<noteq> [] \<and> prefix w (c # cs)) ws = None"
    by (auto simp: find_None_iff)
  then show ?thesis by simp
qed

lemma strip_words_stops:
  "w \<in> set ws \<Longrightarrow> w \<noteq> [] \<Longrightarrow> \<not> prefix w (strip_words ws s)"
proof (induction ws s rule: strip_words.induct)
  case (1 ws)
  then show ?case by (simp add: prefix_def)
next
  case (2 ws c cs)
  show ?case
  proof (cases "find (\<lambda>w. w \<noteq> [] \<and> prefix w (c # cs)) ws")
    case None
    then have "strip_words ws (c # cs) = c # cs" by simp
    with 2(2,3) None show ?thesis by (metis (mono_tags, lifting) find_None_iff)
  next
    case (Some v)
    with 2 show ?thesis by simp
  qed
qed

lemma strip_words_suffix: "suffix (strip_words ws s) s"
proof (induction ws s rule: strip_words.induct)
  case (1 ws)
  then show ?case by simp
next
  case (2 ws c cs)
  then show ?case
    by (auto split: option.split intro: suffix_ConsI suffix_order.trans [OF _ suffix_drop])
qed

lemma strip_words_prefix_id:
  assumes "prefix t (strip_words ws s)"
  shows "strip_words ws t = t"
proof (cases t)
  case Nil
  then show ?thesis by simp
next
  case (Cons c cs)
  have "\<not> prefix w (c # cs)" if "w \<in> set ws" "w \<noteq> []" for w
    using strip_words_stops [OF that, of s] assms Cons
    by (meson prefix_order.trans)
  then show ?thesis unfolding Cons by (rule strip_words_Cons_id)
qed

lemma trim_end_prefix: "prefix (trim_end s) s"
  using strip_words_suffix [of "map rev whitespace_encodings" "rev s"]
  by (simp add: trim_end_def suffix_to_prefix)

lemma trim_idempotent [simp]: "trim (trim s) = trim s"
proof -
  have "trim_start (trim s) = trim s"
    unfolding trim_start_def
    by (rule strip_words_prefix_id [of _ _ s]) (simp add: trim_def trim_start_def trim_end_prefix)
  moreover have "trim_end (trim s) = trim s"
    by (simp add: trim_def trim_end_def strip_words_prefix_id [OF prefix_order.refl])
  ultimately show ?thesis
    by (metis trim_def)
qed

definition ascii_graphic :: "char \<Rightarrow> bool" where
  "ascii_graphic c \<longleftrightarrow> (let n = (of_char c :: nat) in 33 \<le> n \<and> n \<le> 126)"

lemma whitespace_hd_not_graphic:
  "w \<in> set whitespace_encodings \<Longrightarrow> w \<noteq> [] \<and> \<not> ascii_graphic (hd w) \<and> \<not> ascii_graphic (last w)"
  by (auto simp: whitespace_encodings_def ascii_graphic_def)

lemma strip_words_graphic_id:
  assumes "\<forall>w \<in> set ws. w \<noteq> [] \<and> \<not> ascii_graphic (hd w)" and "s \<noteq> [] \<Longrightarrow> ascii_graphic (hd s)"
  shows "strip_words ws s = s"
proof (cases s)
  case Nil
  then show ?thesis by simp
next
  case (Cons c cs)
  with assms have "\<not> prefix w (c # cs)" if "w \<in> set ws" "w \<noteq> []" for w
    using that by (cases w) auto
  then show ?thesis unfolding Cons by (rule strip_words_Cons_id)
qed

lemma trim_graphic_id:
  assumes "s \<noteq> [] \<Longrightarrow> ascii_graphic (hd s)" and "s \<noteq> [] \<Longrightarrow> ascii_graphic (last s)"
  shows "trim s = s"
proof -
  have "trim_start s = s"
    unfolding trim_start_def
    by (rule strip_words_graphic_id) (use assms whitespace_hd_not_graphic in auto)
  moreover have "strip_words (map rev whitespace_encodings) (rev s) = rev s"
    by (rule strip_words_graphic_id)
      (use assms whitespace_hd_not_graphic in \<open>auto simp: hd_rev last_rev\<close>)
  ultimately show ?thesis
    by (simp add: trim_def trim_end_def)
qed

section \<open>BTreeMap\<close>

text \<open>
  \<open>BTreeMap<K, V>\<close> is the list of its entries in key order, which is also its iteration
  order. Keys of type \<open>String\<close> are ordered bytewise, the order of HOL-Library's
  List_Lexorder over Char_ord.
\<close>

type_synonym ('k, 'v) btree = "('k \<times> 'v) list"

abbreviation bt_get :: "('k, 'v) btree \<Rightarrow> 'k \<Rightarrow> 'v option" where
  "bt_get m k \<equiv> map_of m k"

fun bt_insert :: "'k :: linorder \<Rightarrow> 'v \<Rightarrow> ('k, 'v) btree \<Rightarrow> ('k, 'v) btree" where
  "bt_insert k v [] = [(k, v)]"
| "bt_insert k v ((a, b) # m) =
     (if k < a then (k, v) # (a, b) # m
      else if k = a then (k, v) # m
      else (a, b) # bt_insert k v m)"

definition bt_contains_key :: "('k, 'v) btree \<Rightarrow> 'k \<Rightarrow> bool" where
  "bt_contains_key m k \<longleftrightarrow> bt_get m k \<noteq> None"

definition bt_keys :: "('k, 'v) btree \<Rightarrow> 'k list" where
  "bt_keys m = map fst m"

definition bt_values :: "('k, 'v) btree \<Rightarrow> 'v list" where
  "bt_values m = map snd m"

definition bt_wf :: "('k :: linorder, 'v) btree \<Rightarrow> bool" where
  "bt_wf m \<longleftrightarrow> sorted_wrt (<) (map fst m)"

lemma bt_get_insert [simp]: "bt_get (bt_insert k v m) = (bt_get m)(k \<mapsto> v)"
  by (induction m) auto

lemma bt_insert_keys: "fst ` set (bt_insert k v m) = insert k (fst ` set m)"
proof (induction m)
  case Nil
  then show ?case by simp
next
  case (Cons e m)
  then show ?case by (cases e) (simp add: insert_commute)
qed

lemma bt_wf_Nil [simp]: "bt_wf []"
  by (simp add: bt_wf_def)

lemma bt_wf_insert [simp]: "bt_wf m \<Longrightarrow> bt_wf (bt_insert k v m)"
proof (induction m)
  case Nil
  then show ?case by (simp add: bt_wf_def)
next
  case (Cons e m)
  obtain a b where e: "e = (a, b)" by (cases e)
  from Cons.prems e have wf: "bt_wf m" and less: "\<forall>x \<in> fst ` set m. a < x"
    by (auto simp: bt_wf_def)
  from wf have IH: "bt_wf (bt_insert k v m)" by (rule Cons.IH)
  show ?case
  proof (cases "k < a")
    case True
    with Cons.prems e less show ?thesis by (force simp: bt_wf_def)
  next
    case False
    have "k \<noteq> a \<Longrightarrow> \<forall>x \<in> fst ` set (bt_insert k v m). a < x"
      using less False by (auto simp: bt_insert_keys)
    with False IH Cons.prems e show ?thesis by (auto simp: bt_wf_def)
  qed
qed

lemma bt_wf_distinct: "bt_wf m \<Longrightarrow> distinct (map fst m)"
  by (simp add: bt_wf_def strict_sorted_iff)

text \<open>The contract of a keyed store, as the clients of a \<open>BTreeMap\<close> use it.\<close>

locale keyed_store =
  fixes store_empty :: "'m"
    and store_get :: "'m \<Rightarrow> 'k \<Rightarrow> 'v option"
    and store_insert :: "'k \<Rightarrow> 'v \<Rightarrow> 'm \<Rightarrow> 'm"
    and store_inv :: "'m \<Rightarrow> bool"
  assumes get_empty: "store_get store_empty k = None"
    and get_insert: "store_inv m \<Longrightarrow> store_get (store_insert k v m) k' = (if k' = k then Some v else store_get m k')"
    and inv_empty: "store_inv store_empty"
    and inv_insert: "store_inv m \<Longrightarrow> store_inv (store_insert k v m)"
begin

lemma get_insert_same: "store_inv m \<Longrightarrow> store_get (store_insert k v m) k = Some v"
  by (simp add: get_insert)

lemma insert_overwrites:
  "store_inv m \<Longrightarrow> store_get (store_insert k v (store_insert k u m)) = store_get (store_insert k v m)"
  by (simp add: fun_eq_iff get_insert inv_insert)

lemma insert_commutes:
  "store_inv m \<Longrightarrow> k \<noteq> l \<Longrightarrow>
    store_get (store_insert k v (store_insert l u m)) = store_get (store_insert l u (store_insert k v m))"
  by (auto simp: fun_eq_iff get_insert inv_insert)

lemma get_fold_insert:
  "store_inv m \<Longrightarrow>
    store_get (fold (\<lambda>(k, v). store_insert k v) kvs m) k =
      (case map_of (rev kvs) k of None \<Rightarrow> store_get m k | Some v \<Rightarrow> Some v)"
  by (induction kvs arbitrary: m) (auto simp: get_insert inv_insert map_add_def split: option.splits)

end

interpretation btree: keyed_store "[] :: ('k :: linorder, 'v) btree" bt_get bt_insert bt_wf
  by unfold_locales auto

section \<open>First-error iteration\<close>

text \<open>\<open>for x in xs { f(x)?; } Ok(())\<close>: the first error, or the unit value.\<close>

fun try_all :: "('a \<Rightarrow> 'e + unit) \<Rightarrow> 'a list \<Rightarrow> 'e + unit" where
  "try_all f [] = Inr ()"
| "try_all f (x # xs) = (case f x of Inl e \<Rightarrow> Inl e | Inr _ \<Rightarrow> try_all f xs)"

lemma try_all_Ok [simp]: "try_all f xs = Inr () \<longleftrightarrow> (\<forall>x \<in> set xs. f x = Inr ())"
  by (induction xs) (auto split: sum.splits)

lemma try_all_first:
  "\<forall>y \<in> set ys. f y = Inr () \<Longrightarrow> f x = Inl e \<Longrightarrow> try_all f (ys @ x # zs) = Inl e"
  by (induction ys) auto

lemma try_all_ErrE:
  assumes "try_all f xs = Inl e"
  obtains ys x zs where "xs = ys @ x # zs" "\<forall>y \<in> set ys. f y = Inr ()" "f x = Inl e"
  using assms
proof (induction xs arbitrary: thesis)
  case Nil
  then show ?case by simp
next
  case (Cons a xs)
  show ?case
  proof (cases "f a")
    case (Inl e')
    with Cons.prems show ?thesis by (intro Cons.prems(1) [of "[]" a xs]) auto
  next
    case (Inr u)
    with Cons.prems(2) have "try_all f xs = Inl e" by simp
    then obtain ys x zs where "xs = ys @ x # zs" "\<forall>y \<in> set ys. f y = Inr ()" "f x = Inl e"
      using Cons.IH by blast
    with Inr show ?thesis by (intro Cons.prems(1) [of "a # ys" x zs]) auto
  qed
qed

lemma try_all_append:
  "try_all f (xs @ ys) = (case try_all f xs of Inl e \<Rightarrow> Inl e | Inr _ \<Rightarrow> try_all f ys)"
proof (induction xs)
  case Nil
  then show ?case by simp
next
  case (Cons x xs)
  then show ?case by (cases "f x") simp_all
qed

text \<open>The \<open>?\<close> operator on a sum.\<close>

definition try_bind :: "'e + 'a \<Rightarrow> ('a \<Rightarrow> 'e + 'b) \<Rightarrow> 'e + 'b" where
  "try_bind r f = (case r of Inl e \<Rightarrow> Inl e | Inr x \<Rightarrow> f x)"

lemma try_bind_simps [simp]:
  "try_bind (Inl e) f = Inl e"
  "try_bind (Inr x) f = f x"
  by (simp_all add: try_bind_def)

lemma try_bind_Ok: "try_bind r f = Inr y \<longleftrightarrow> (\<exists>x. r = Inr x \<and> f x = Inr y)"
  by (cases r) simp_all

section \<open>Loops with early return\<close>

text \<open>\<open>for (index, x) in xs.enumerate()\<close> with a body that goes on with a new state or returns
  from the function; \<open>n\<close> counts the items.\<close>

datatype ('s, 'r) flow = Continue 's | Return 'r

fun for_each :: "(nat \<Rightarrow> 'x \<Rightarrow> 's \<Rightarrow> ('s, 'r) flow) \<Rightarrow> nat \<Rightarrow> 'x list \<Rightarrow> 's \<Rightarrow> ('s, 'r) flow" where
  "for_each body n [] s = Continue s"
| "for_each body n (x # xs) s =
     (case body n x s of Continue s' \<Rightarrow> for_each body (n + 1) xs s' | Return r \<Rightarrow> Return r)"

lemma for_each_append:
  "for_each body n (xs @ ys) s =
    (case for_each body n xs s of Continue s' \<Rightarrow> for_each body (n + length xs) ys s' | Return r \<Rightarrow> Return r)"
  by (induction xs arbitrary: n s) (auto split: flow.split)

lemma for_each_inv:
  assumes "for_each body n xs s = Continue s'" and "P [] s"
    and "\<And>pre x s s'. P pre s \<Longrightarrow> body (n + length pre) x s = Continue s' \<Longrightarrow> P (pre @ [x]) s'"
  shows "P xs s'"
  using assms(1)
proof (induction xs arbitrary: s' rule: rev_induct)
  case Nil
  with assms(2) show ?case by simp
next
  case (snoc x xs)
  then obtain u where "for_each body n xs s = Continue u" "body (n + length xs) x u = Continue s'"
    by (auto simp: for_each_append split: flow.splits)
  with snoc.IH assms(3) show ?case by blast
qed

text \<open>Two loops in lockstep.\<close>

lemma for_each_sim:
  assumes "R s t"
    and "\<And>n x s t. R s t \<Longrightarrow>
      (case f n x s of
         Continue s' \<Rightarrow> (\<exists>t'. g n x t = Continue t' \<and> R s' t')
       | Return r \<Rightarrow> (\<exists>q. g n x t = Return q \<and> Q n r q))"
  shows "case for_each f n xs s of
      Continue s' \<Rightarrow> (\<exists>t'. for_each g n xs t = Continue t' \<and> R s' t')
    | Return r \<Rightarrow> (\<exists>q m. for_each g n xs t = Return q \<and> Q m r q)"
  using assms(1)
proof (induction xs arbitrary: n s t)
  case Nil
  then show ?case by simp
next
  case (Cons x xs)
  show ?case
  proof (cases "f n x s")
    case (Continue s')
    then obtain t' where "g n x t = Continue t'" "R s' t'"
      using assms(2) [OF Cons.prems, of n x] by auto
    then show ?thesis
      using Cons.IH [of s' t' "n + 1"] Continue by (simp split: flow.splits)
  next
    case (Return r)
    then show ?thesis
      using assms(2) [OF Cons.prems, of n x] by auto
  qed
qed

section \<open>State threading with early errors\<close>

text \<open>\<open>let x = op(self)?; rest\<close> for an operation that may change the state: an error ends the
  function with the state reached so far.\<close>

definition and_then :: "('e + 'a) \<times> 's \<Rightarrow> ('a \<Rightarrow> 's \<Rightarrow> ('e + 'b) \<times> 's) \<Rightarrow> ('e + 'b) \<times> 's" where
  "and_then r f = (case r of (Inl e, s) \<Rightarrow> (Inl e, s) | (Inr x, s) \<Rightarrow> f x s)"

lemma and_then_simps [simp]:
  "and_then (Inl e, s) f = (Inl e, s)"
  "and_then (Inr x, s) f = f x s"
  by (simp_all add: and_then_def)

lemma and_then_Ok:
  "and_then r f = (Inr y, t) \<longleftrightarrow> (\<exists>x s. r = (Inr x, s) \<and> f x s = (Inr y, t))"
  by (auto simp: and_then_def split: prod.splits sum.splits)

lemma and_then_cases:
  obtains (Err) e s where "r = (Inl e, s)" "and_then r f = (Inl e, s)"
    | (Ok) x s where "r = (Inr x, s)" "and_then r f = f x s"
  by (cases r; cases "fst r") auto

definition map_err :: "('e \<Rightarrow> 'f) \<Rightarrow> 'e + 'a \<Rightarrow> 'f + 'a" where
  "map_err g r = (case r of Inl e \<Rightarrow> Inl (g e) | Inr x \<Rightarrow> Inr x)"

lemma map_err_simps [simp]:
  "map_err g (Inl e) = Inl (g e)"
  "map_err g (Inr x) = Inr x"
  by (simp_all add: map_err_def)

lemma map_err_Inr [simp]: "map_err g r = Inr x \<longleftrightarrow> r = Inr x"
  by (cases r) simp_all

lemma map_err_Inl: "map_err g r = Inl f \<longleftrightarrow> (\<exists>e. r = Inl e \<and> f = g e)"
  by (cases r) auto

section \<open>Lists of texts and of results\<close>

text \<open>\<open>parts.join(sep)\<close>.\<close>

fun join_text :: "string \<Rightarrow> string list \<Rightarrow> string" where
  "join_text sep [] = []"
| "join_text sep [p] = p"
| "join_text sep (p # q # ps) = p @ sep @ join_text sep (q # ps)"

text \<open>\<open>iter().map(f).collect::<Result<Vec<_>, _>>()\<close>: the first error ends it.\<close>

fun try_map :: "('a \<Rightarrow> 'e + 'b) \<Rightarrow> 'a list \<Rightarrow> 'e + 'b list" where
  "try_map f [] = Inr []"
| "try_map f (x # xs) = try_bind (f x) (\<lambda>y. try_bind (try_map f xs) (\<lambda>ys. Inr (y # ys)))"

lemma try_map_Inr_iff: "try_map f xs = Inr ys \<longleftrightarrow> list_all2 (\<lambda>x y. f x = Inr y) xs ys"
proof (induction xs arbitrary: ys)
  case (Cons x xs)
  show ?case
    unfolding try_map.simps try_bind_Ok Cons.IH list_all2_Cons1 by auto
qed auto

end
