(* ===== verification/Contracts.thy ===== *)
theory Contracts
  imports Loong_Prelude
begin

text \<open>
  The shared vocabulary of the governed runtime (crates/contracts): capabilities and tokens,
  task and connector requests, vertical packs and namespaces, policy and audit data, the
  error types of every plane with the texts of their \<open>Display\<close> instances, the dispatch
  faults, the task state machine and the test clock. \<open>serde_json::Value\<close> payloads are
  opaque here and a type parameter \<open>'v\<close>. Constructors carry the source's names; where
  two enums share one, it is written with its type, as \<open>kernel_error.Policy\<close>.
\<close>

section \<open>Capabilities\<close>

datatype capability =
    InvokeTool
  | InvokeConnector
  | MemoryRead
  | MemoryWrite
  | FilesystemRead
  | FilesystemWrite
  | NetworkEgress
  | ObserveTelemetry
  | ControlRead
  | ControlWrite
  | ControlApprovals
  | ControlPairing
  | ControlAcp

primrec capability_rank :: "capability \<Rightarrow> nat" where
  "capability_rank InvokeTool = 0"
| "capability_rank InvokeConnector = 1"
| "capability_rank MemoryRead = 2"
| "capability_rank MemoryWrite = 3"
| "capability_rank FilesystemRead = 4"
| "capability_rank FilesystemWrite = 5"
| "capability_rank NetworkEgress = 6"
| "capability_rank ObserveTelemetry = 7"
| "capability_rank ControlRead = 8"
| "capability_rank ControlWrite = 9"
| "capability_rank ControlApprovals = 10"
| "capability_rank ControlPairing = 11"
| "capability_rank ControlAcp = 12"

lemma capability_rank_inj: "capability_rank a = capability_rank b \<longleftrightarrow> a = b"
  by (cases a; cases b) simp_all

text \<open>The derived \<open>Ord\<close> is the declaration order; it is the iteration order of a
  \<open>BTreeSet<Capability>\<close>, which the model keeps as a set.\<close>

instantiation capability :: linorder
begin

definition less_eq_capability :: "capability \<Rightarrow> capability \<Rightarrow> bool" where
  "less_eq_capability a b \<longleftrightarrow> capability_rank a \<le> capability_rank b"

definition less_capability :: "capability \<Rightarrow> capability \<Rightarrow> bool" where
  "less_capability a b \<longleftrightarrow> capability_rank a < capability_rank b"

instance
  by standard (auto simp: less_eq_capability_def less_capability_def capability_rank_inj)

end

definition all_capabilities :: "capability list" where
  "all_capabilities =
     [InvokeTool, InvokeConnector, MemoryRead, MemoryWrite, FilesystemRead, FilesystemWrite,
      NetworkEgress, ObserveTelemetry, ControlRead, ControlWrite, ControlApprovals,
      ControlPairing, ControlAcp]"

definition caps_in_order :: "capability set \<Rightarrow> capability list" where
  "caps_in_order cs = filter (\<lambda>c. c \<in> cs) all_capabilities"

lemma set_all_capabilities [simp]: "set all_capabilities = UNIV"
proof -
  have "c \<in> set all_capabilities" for c
    by (cases c) (simp_all add: all_capabilities_def)
  then show ?thesis by blast
qed

lemma set_caps_in_order [simp]: "set (caps_in_order cs) = cs"
  by (simp add: caps_in_order_def)

lemma sorted_caps_in_order: "sorted_wrt (<) (caps_in_order cs)"
proof -
  have "sorted_wrt (<) all_capabilities"
    by (simp add: all_capabilities_def less_capability_def)
  then show ?thesis
    unfolding caps_in_order_def by (rule sorted_wrt_filter)
qed

lemma caps_in_order_sorted_list: "caps_in_order cs = sorted_list_of_set cs"
  using sorted_caps_in_order [of cs]
  by (metis set_caps_in_order sorted_list_of_set.idem_if_sorted_distinct strict_sorted_iff)

primrec capability_as_str :: "capability \<Rightarrow> string" where
  "capability_as_str InvokeTool = ''invoke_tool''"
| "capability_as_str InvokeConnector = ''invoke_connector''"
| "capability_as_str MemoryRead = ''memory_read''"
| "capability_as_str MemoryWrite = ''memory_write''"
| "capability_as_str FilesystemRead = ''filesystem_read''"
| "capability_as_str FilesystemWrite = ''filesystem_write''"
| "capability_as_str NetworkEgress = ''network_egress''"
| "capability_as_str ObserveTelemetry = ''observe_telemetry''"
| "capability_as_str ControlRead = ''control_read''"
| "capability_as_str ControlWrite = ''control_write''"
| "capability_as_str ControlApprovals = ''control_approvals''"
| "capability_as_str ControlPairing = ''control_pairing''"
| "capability_as_str ControlAcp = ''control_acp''"

definition capability_normalize :: "string \<Rightarrow> string" where
  "capability_normalize raw = replace_char (CHR ''-'') (CHR ''_'') (to_ascii_lowercase (trim raw))"

definition capability_parse :: "string \<Rightarrow> capability option" where
  "capability_parse raw =
     (let s = capability_normalize raw in
      if s = ''invoke_tool'' then Some InvokeTool
      else if s = ''invoke_connector'' then Some InvokeConnector
      else if s = ''memory_read'' then Some MemoryRead
      else if s = ''memory_write'' then Some MemoryWrite
      else if s = ''filesystem_read'' then Some FilesystemRead
      else if s = ''filesystem_write'' then Some FilesystemWrite
      else if s = ''network_egress'' then Some NetworkEgress
      else if s = ''observe_telemetry'' then Some ObserveTelemetry
      else if s = ''control_read'' then Some ControlRead
      else if s = ''control_write'' then Some ControlWrite
      else if s = ''control_approvals'' then Some ControlApprovals
      else if s = ''control_pairing'' then Some ControlPairing
      else if s = ''control_acp'' then Some ControlAcp
      else None)"

text \<open>The derived \<open>Debug\<close> text, which error messages embed.\<close>

primrec capability_debug :: "capability \<Rightarrow> string" where
  "capability_debug InvokeTool = ''InvokeTool''"
| "capability_debug InvokeConnector = ''InvokeConnector''"
| "capability_debug MemoryRead = ''MemoryRead''"
| "capability_debug MemoryWrite = ''MemoryWrite''"
| "capability_debug FilesystemRead = ''FilesystemRead''"
| "capability_debug FilesystemWrite = ''FilesystemWrite''"
| "capability_debug NetworkEgress = ''NetworkEgress''"
| "capability_debug ObserveTelemetry = ''ObserveTelemetry''"
| "capability_debug ControlRead = ''ControlRead''"
| "capability_debug ControlWrite = ''ControlWrite''"
| "capability_debug ControlApprovals = ''ControlApprovals''"
| "capability_debug ControlPairing = ''ControlPairing''"
| "capability_debug ControlAcp = ''ControlAcp''"

lemma capability_as_str_inj: "capability_as_str a = capability_as_str b \<longleftrightarrow> a = b"
  by (cases a; cases b) simp_all

lemma capability_parse_iff_normalize:
  "capability_parse s = Some c \<longleftrightarrow> capability_normalize s = capability_as_str c"
proof
  assume "capability_parse s = Some c"
  then show "capability_normalize s = capability_as_str c"
    by (auto simp: capability_parse_def Let_def split: if_splits)
next
  assume eq: "capability_normalize s = capability_as_str c"
  show "capability_parse s = Some c"
    unfolding capability_parse_def Let_def eq by (cases c) simp_all
qed

lemma capability_normalize_as_str: "capability_normalize (capability_as_str c) = capability_as_str c"
  by (induction c; code_simp)

section \<open>Requests and outcomes\<close>

datatype harness_kind = EmbeddedPi | Acp

primrec harness_kind_debug :: "harness_kind \<Rightarrow> string" where
  "harness_kind_debug EmbeddedPi = ''EmbeddedPi''"
| "harness_kind_debug Acp = ''Acp''"

record execution_route =
  route_harness_kind :: harness_kind
  route_adapter :: "string option"

record capability_token =
  token_id :: string
  token_pack_id :: string
  token_agent_id :: string
  token_allowed_capabilities :: "capability set"
  token_issued_at_epoch_s :: u64
  token_expires_at_epoch_s :: u64
  token_generation :: u64

record 'v task_intent =
  intent_task_id :: string
  intent_objective :: string
  intent_required_capabilities :: "capability set"
  intent_payload :: 'v

record 'v harness_request =
  hr_token_id :: string
  hr_pack_id :: string
  hr_agent_id :: string
  hr_task_id :: string
  hr_objective :: string
  hr_payload :: 'v

record 'v harness_outcome =
  ho_status :: string
  ho_output :: 'v

record 'v connector_command =
  cc_connector_name :: string
  cc_operation :: string
  cc_required_capabilities :: "capability set"
  cc_payload :: 'v

record 'v connector_outcome =
  co_status :: string
  co_payload :: 'v

end
