(* ===== verification/Kernel_Errors.thy ===== *)
theory Kernel_Errors
  imports Contracts
begin

text \<open>
  The error enums of crates/contracts/src/errors.rs with the texts their \<open>thiserror\<close>
  \<open>Display\<close> instances print (the kernel writes these texts into audit events and faults),
  and \<open>Fault\<close>, the coarser error of supervised dispatch, with its two conversions.
\<close>

section \<open>Error enums\<close>

datatype pack_error =
    EmptyPackId
  | EmptyDomain
  | InvalidVersion string
  | EmptyCapabilities

datatype policy_error =
    ExpiredToken string u64
  | MissingCapability string capability
  | PackMismatch string string
  | RevokedToken string
  | ExtensionDenied string string
  | ToolCallDenied string string

datatype harness_error =
    AdapterNotFound string
  | AdapterKindMismatch string harness_kind harness_kind
  | Execution string

datatype connector_error =
    NotFound string
  | CoreAdapterNotFound string
  | ExtensionNotFound string
  | NoDefaultCoreAdapter
  | Execution string

datatype runtime_plane_error =
    CoreAdapterNotFound string
  | ExtensionNotFound string
  | NoDefaultCoreAdapter
  | Execution string

datatype tool_plane_error =
    CoreAdapterNotFound string
  | ExtensionNotFound string
  | NoDefaultCoreAdapter
  | Execution string

datatype memory_plane_error =
    CoreAdapterNotFound string
  | ExtensionNotFound string
  | NoDefaultCoreAdapter
  | Execution string

datatype integration_error =
    ProviderNotFound string
  | ChannelNotFound string
  | ChannelDisabled string
  | PluginScanRootNotFound string
  | PluginFileRead string string
  | PluginManifestParse string string
  | PluginManifestConflict string string string string string
  | AwarenessRootNotFound string
  | AwarenessFileRead string string
  | PluginAbsorbFailed string string

datatype audit_error = Sink string

datatype kernel_error =
    PackNotFound string
  | DuplicatePack string
  | ConnectorNotAllowed string string
  | PackCapabilityBoundary string capability
  | Pack pack_error
  | Policy policy_error
  | Harness harness_error
  | Connector connector_error
  | RuntimePlane runtime_plane_error
  | ToolPlane tool_plane_error
  | MemoryPlane memory_plane_error
  | Integration integration_error
  | Audit audit_error

section \<open>Display\<close>

primrec pack_error_to_string :: "pack_error \<Rightarrow> string" where
  "pack_error_to_string EmptyPackId = ''pack_id must not be empty''"
| "pack_error_to_string EmptyDomain = ''domain must not be empty''"
| "pack_error_to_string (InvalidVersion v) = ''version is not valid semver: '' @ v"
| "pack_error_to_string EmptyCapabilities = ''pack must grant at least one capability''"

primrec policy_error_to_string :: "policy_error \<Rightarrow> string" where
  "policy_error_to_string (ExpiredToken tid e) = ''token '' @ tid @ '' expired at '' @ u64_to_dec e"
| "policy_error_to_string (MissingCapability tid c) =
     ''token '' @ tid @ '' missing required capability '' @ capability_debug c"
| "policy_error_to_string (PackMismatch tp rp) =
     ''token pack mismatch: token pack '' @ tp @ '' vs runtime pack '' @ rp"
| "policy_error_to_string (RevokedToken tid) = ''token '' @ tid @ '' has been revoked''"
| "policy_error_to_string (ExtensionDenied ext reason) =
     ''policy extension '' @ ext @ '' denied request: '' @ reason"
| "policy_error_to_string (ToolCallDenied tool reason) =
     ''tool call denied by policy for `'' @ tool @ ''`: '' @ reason"

primrec harness_error_to_string :: "harness_error \<Rightarrow> string" where
  "harness_error_to_string (AdapterNotFound a) = ''harness adapter not found: '' @ a"
| "harness_error_to_string (AdapterKindMismatch a expected actual) =
     ''harness adapter kind mismatch for adapter '' @ a @ '': expected '' @
     harness_kind_debug expected @ '', actual '' @ harness_kind_debug actual"
| "harness_error_to_string (harness_error.Execution m) = ''harness adapter execution failed: '' @ m"

primrec connector_error_to_string :: "connector_error \<Rightarrow> string" where
  "connector_error_to_string (NotFound c) = ''connector not found: '' @ c"
| "connector_error_to_string (connector_error.CoreAdapterNotFound c) =
     ''core connector adapter not found: '' @ c"
| "connector_error_to_string (connector_error.ExtensionNotFound c) =
     ''connector extension not found: '' @ c"
| "connector_error_to_string connector_error.NoDefaultCoreAdapter =
     ''no default core connector adapter is configured''"
| "connector_error_to_string (connector_error.Execution m) = ''connector execution failed: '' @ m"

primrec runtime_plane_error_to_string :: "runtime_plane_error \<Rightarrow> string" where
  "runtime_plane_error_to_string (runtime_plane_error.CoreAdapterNotFound c) =
     ''core runtime adapter not found: '' @ c"
| "runtime_plane_error_to_string (runtime_plane_error.ExtensionNotFound c) =
     ''runtime extension not found: '' @ c"
| "runtime_plane_error_to_string runtime_plane_error.NoDefaultCoreAdapter =
     ''no default core runtime adapter is configured''"
| "runtime_plane_error_to_string (runtime_plane_error.Execution m) = ''runtime execution failed: '' @ m"

primrec tool_plane_error_to_string :: "tool_plane_error \<Rightarrow> string" where
  "tool_plane_error_to_string (tool_plane_error.CoreAdapterNotFound c) =
     ''core tool adapter not found: '' @ c"
| "tool_plane_error_to_string (tool_plane_error.ExtensionNotFound c) = ''tool extension not found: '' @ c"
| "tool_plane_error_to_string tool_plane_error.NoDefaultCoreAdapter =
     ''no default core tool adapter is configured''"
| "tool_plane_error_to_string (tool_plane_error.Execution m) = ''tool execution failed: '' @ m"

primrec memory_plane_error_to_string :: "memory_plane_error \<Rightarrow> string" where
  "memory_plane_error_to_string (memory_plane_error.CoreAdapterNotFound c) =
     ''core memory adapter not found: '' @ c"
| "memory_plane_error_to_string (memory_plane_error.ExtensionNotFound c) =
     ''memory extension not found: '' @ c"
| "memory_plane_error_to_string memory_plane_error.NoDefaultCoreAdapter =
     ''no default core memory adapter is configured''"
| "memory_plane_error_to_string (memory_plane_error.Execution m) = ''memory execution failed: '' @ m"

primrec integration_error_to_string :: "integration_error \<Rightarrow> string" where
  "integration_error_to_string (ProviderNotFound p) = ''provider not found: '' @ p"
| "integration_error_to_string (ChannelNotFound c) = ''channel not found: '' @ c"
| "integration_error_to_string (ChannelDisabled c) = ''channel is disabled: '' @ c"
| "integration_error_to_string (PluginScanRootNotFound r) = ''plugin scan root does not exist: '' @ r"
| "integration_error_to_string (PluginFileRead p reason) =
     ''failed to read plugin source file '' @ p @ '': '' @ reason"
| "integration_error_to_string (PluginManifestParse p reason) =
     ''invalid plugin manifest in '' @ p @ '': '' @ reason"
| "integration_error_to_string (PluginManifestConflict pkg src fld pv sv) =
     ''plugin manifest conflict between package '' @ pkg @ '' and source '' @ src @ '' on '' @ fld @
     '': package '' @ pv @ '' vs source '' @ sv"
| "integration_error_to_string (AwarenessRootNotFound r) = ''awareness root does not exist: '' @ r"
| "integration_error_to_string (AwarenessFileRead p reason) =
     ''failed to inspect awareness file '' @ p @ '': '' @ reason"
| "integration_error_to_string (PluginAbsorbFailed p reason) =
     ''plugin absorb failed for '' @ p @ '': '' @ reason"

primrec audit_error_to_string :: "audit_error \<Rightarrow> string" where
  "audit_error_to_string (Sink m) = ''audit sink failure: '' @ m"

primrec kernel_error_to_string :: "kernel_error \<Rightarrow> string" where
  "kernel_error_to_string (PackNotFound p) = ''pack not found: '' @ p"
| "kernel_error_to_string (DuplicatePack p) = ''duplicate pack id: '' @ p"
| "kernel_error_to_string (ConnectorNotAllowed c p) =
     ''connector '' @ c @ '' is not allowed by pack '' @ p"
| "kernel_error_to_string (PackCapabilityBoundary p c) =
     ''pack '' @ p @ '' does not grant capability '' @ capability_debug c"
| "kernel_error_to_string (kernel_error.Pack e) = pack_error_to_string e"
| "kernel_error_to_string (kernel_error.Policy e) = policy_error_to_string e"
| "kernel_error_to_string (kernel_error.Harness e) = harness_error_to_string e"
| "kernel_error_to_string (kernel_error.Connector e) = connector_error_to_string e"
| "kernel_error_to_string (kernel_error.RuntimePlane e) = runtime_plane_error_to_string e"
| "kernel_error_to_string (kernel_error.ToolPlane e) = tool_plane_error_to_string e"
| "kernel_error_to_string (kernel_error.MemoryPlane e) = memory_plane_error_to_string e"
| "kernel_error_to_string (kernel_error.Integration e) = integration_error_to_string e"
| "kernel_error_to_string (kernel_error.Audit e) = audit_error_to_string e"

section \<open>Fault\<close>

datatype fault =
    Panic string
  | CapabilityViolation string capability
  | TokenExpired string u64
  | ProtocolViolation string
  | PolicyDenied string

primrec fault_to_string :: "fault \<Rightarrow> string" where
  "fault_to_string (Panic m) = ''panic: '' @ m"
| "fault_to_string (CapabilityViolation tid c) =
     ''capability violation: token '' @ tid @ '' missing '' @ capability_debug c"
| "fault_to_string (TokenExpired tid e) = ''token '' @ tid @ '' expired at '' @ u64_to_dec e"
| "fault_to_string (ProtocolViolation d) = ''protocol violation: '' @ d"
| "fault_to_string (PolicyDenied r) = ''policy denied: '' @ r"

primrec from_policy_error :: "policy_error \<Rightarrow> fault" where
  "from_policy_error (ExpiredToken tid e) = TokenExpired tid e"
| "from_policy_error (MissingCapability tid c) = CapabilityViolation tid c"
| "from_policy_error (RevokedToken tid) = PolicyDenied (''token '' @ tid @ '' revoked'')"
| "from_policy_error (PackMismatch tp rp) =
     PolicyDenied (''pack mismatch: token='' @ tp @ '' runtime='' @ rp)"
| "from_policy_error (ExtensionDenied ext reason) =
     PolicyDenied (''extension '' @ ext @ '': '' @ reason)"
| "from_policy_error (ToolCallDenied tool reason) =
     PolicyDenied (''tool '' @ tool @ '': '' @ reason)"

definition from_kernel_error :: "kernel_error \<Rightarrow> fault" where
  "from_kernel_error err =
     (case err of
        kernel_error.Policy e \<Rightarrow> from_policy_error e
      | PackCapabilityBoundary p c \<Rightarrow> CapabilityViolation (''pack:'' @ p) c
      | _ \<Rightarrow> Panic (kernel_error_to_string err))"

definition is_panic_fault :: "fault \<Rightarrow> bool" where
  "is_panic_fault f \<longleftrightarrow> (case f of Panic _ \<Rightarrow> True | _ \<Rightarrow> False)"

lemma from_policy_error_not_panic: "\<not> is_panic_fault (from_policy_error e)"
  by (cases e) (simp_all add: is_panic_fault_def)

lemma from_kernel_error_panic_iff:
  "is_panic_fault (from_kernel_error e) \<longleftrightarrow>
    (\<forall>p. e \<noteq> kernel_error.Policy p) \<and> (\<forall>p c. e \<noteq> PackCapabilityBoundary p c)"
  by (cases e)
    (simp_all add: from_kernel_error_def from_policy_error_not_panic, simp_all add: is_panic_fault_def)

end
