(* ===== verification/Execution_Planes.thy ===== *)
theory Execution_Planes
  imports Kernel_Errors
begin

text \<open>
  The execution planes of the kernel (crates/kernel/src/runtime.rs, tool.rs, memory.rs and
  connector.rs) and the harness broker (harness.rs). A plane is a registry of core adapters, of
  extension adapters and a default core adapter. An adapter is its name and what its async
  method does: a function of the request and the state \<open>'w\<close> of the outside world. A connector
  adapter may also panic, which \<open>execute_connector_invocation\<close> catches; a panic in another
  plane unwinds the caller and is not modelled. The locale \<open>adapter_registry\<close> states what a
  client of a plane relies on and is interpreted on all four.
\<close>

section \<open>The runtime plane\<close>

datatype runtime_tier = Core | Extension

record 'v runtime_core_request =
  rpcq_action :: string
  rpcq_payload :: 'v

record 'v runtime_core_outcome =
  rpco_status :: string
  rpco_payload :: 'v

record 'v runtime_extension_request =
  rpxq_action :: string
  rpxq_payload :: 'v

record 'v runtime_extension_outcome =
  rpxo_status :: string
  rpxo_payload :: 'v

record ('w, 'v) core_runtime_adapter =
  core_runtime_name :: string
  execute_core_runtime :: "'w \<Rightarrow> 'v runtime_core_request \<Rightarrow> (runtime_plane_error + 'v runtime_core_outcome) \<times> 'w"

record ('w, 'v) runtime_extension_adapter =
  runtime_extension_name :: string
  execute_runtime_extension_fn :: "'w \<Rightarrow> 'v runtime_extension_request \<Rightarrow> ('w, 'v) core_runtime_adapter \<Rightarrow>
    (runtime_plane_error + 'v runtime_extension_outcome) \<times> 'w"

record ('w, 'v) runtime_plane =
  rp_core_adapters :: "(string, ('w, 'v) core_runtime_adapter) btree"
  rp_extension_adapters :: "(string, ('w, 'v) runtime_extension_adapter) btree"
  rp_default_core_adapter :: "string option"

definition runtime_plane_new :: "('w, 'v) runtime_plane" where
  "runtime_plane_new =
     \<lparr>rp_core_adapters = [], rp_extension_adapters = [], rp_default_core_adapter = None\<rparr>"

definition runtime_register_core_adapter ::
  "('w, 'v) core_runtime_adapter \<Rightarrow> ('w, 'v) runtime_plane \<Rightarrow> ('w, 'v) runtime_plane" where
  "runtime_register_core_adapter a pl =
     (let name = core_runtime_name a;
          pl1 = (if rp_default_core_adapter pl = None
                 then pl\<lparr>rp_default_core_adapter := Some name\<rparr> else pl)
      in pl1\<lparr>rp_core_adapters := bt_insert name a (rp_core_adapters pl1)\<rparr>)"

definition runtime_register_extension_adapter ::
  "('w, 'v) runtime_extension_adapter \<Rightarrow> ('w, 'v) runtime_plane \<Rightarrow> ('w, 'v) runtime_plane" where
  "runtime_register_extension_adapter a pl =
     pl\<lparr>rp_extension_adapters := bt_insert (runtime_extension_name a) a (rp_extension_adapters pl)\<rparr>"

definition runtime_set_default_core_adapter ::
  "('w, 'v) runtime_plane \<Rightarrow> string \<Rightarrow> runtime_plane_error + ('w, 'v) runtime_plane" where
  "runtime_set_default_core_adapter pl name =
     (if \<not> bt_contains_key (rp_core_adapters pl) name
      then Inl (runtime_plane_error.CoreAdapterNotFound name)
      else Inr (pl\<lparr>rp_default_core_adapter := Some name\<rparr>))"

definition runtime_default_core_adapter_name :: "('w, 'v) runtime_plane \<Rightarrow> string option" where
  "runtime_default_core_adapter_name pl = rp_default_core_adapter pl"

definition runtime_execute_core ::
  "('w, 'v) runtime_plane \<Rightarrow> 'w \<Rightarrow> string option \<Rightarrow> 'v runtime_core_request \<Rightarrow>
   (runtime_plane_error + 'v runtime_core_outcome) \<times> 'w" where
  "runtime_execute_core pl w core_name request =
     (case (case core_name of Some name \<Rightarrow> Some name | None \<Rightarrow> rp_default_core_adapter pl) of
        None \<Rightarrow> (Inl runtime_plane_error.NoDefaultCoreAdapter, w)
      | Some resolved_name \<Rightarrow>
          (case bt_get (rp_core_adapters pl) resolved_name of
             None \<Rightarrow> (Inl (runtime_plane_error.CoreAdapterNotFound resolved_name), w)
           | Some adapter \<Rightarrow> execute_core_runtime adapter w request))"

definition runtime_execute_extension ::
  "('w, 'v) runtime_plane \<Rightarrow> 'w \<Rightarrow> string \<Rightarrow> string option \<Rightarrow> 'v runtime_extension_request \<Rightarrow>
   (runtime_plane_error + 'v runtime_extension_outcome) \<times> 'w" where
  "runtime_execute_extension pl w extension_name core_name request =
     (case bt_get (rp_extension_adapters pl) extension_name of
        None \<Rightarrow> (Inl (runtime_plane_error.ExtensionNotFound extension_name), w)
      | Some extension \<Rightarrow>
          (case (case core_name of Some name \<Rightarrow> Some name | None \<Rightarrow> rp_default_core_adapter pl) of
             None \<Rightarrow> (Inl runtime_plane_error.NoDefaultCoreAdapter, w)
           | Some resolved_core_name \<Rightarrow>
               (case bt_get (rp_core_adapters pl) resolved_core_name of
                  None \<Rightarrow> (Inl (runtime_plane_error.CoreAdapterNotFound resolved_core_name), w)
                | Some core \<Rightarrow> execute_runtime_extension_fn extension w request core)))"

section \<open>The tool plane\<close>

datatype tool_tier = Core | Extension

record 'v tool_core_request =
  tpcq_tool_name :: string
  tpcq_payload :: 'v

record 'v tool_core_outcome =
  tpco_status :: string
  tpco_payload :: 'v

record 'v tool_extension_request =
  tpxq_extension_action :: string
  tpxq_payload :: 'v

record 'v tool_extension_outcome =
  tpxo_status :: string
  tpxo_payload :: 'v

record ('w, 'v) core_tool_adapter =
  core_tool_name :: string
  execute_core_tool :: "'w \<Rightarrow> 'v tool_core_request \<Rightarrow> (tool_plane_error + 'v tool_core_outcome) \<times> 'w"

record ('w, 'v) tool_extension_adapter =
  tool_extension_name :: string
  execute_tool_extension_fn :: "'w \<Rightarrow> 'v tool_extension_request \<Rightarrow> ('w, 'v) core_tool_adapter \<Rightarrow>
    (tool_plane_error + 'v tool_extension_outcome) \<times> 'w"

record ('w, 'v) tool_plane =
  tp_core_adapters :: "(string, ('w, 'v) core_tool_adapter) btree"
  tp_extension_adapters :: "(string, ('w, 'v) tool_extension_adapter) btree"
  tp_default_core_adapter :: "string option"

definition tool_plane_new :: "('w, 'v) tool_plane" where
  "tool_plane_new =
     \<lparr>tp_core_adapters = [], tp_extension_adapters = [], tp_default_core_adapter = None\<rparr>"

definition tool_register_core_adapter ::
  "('w, 'v) core_tool_adapter \<Rightarrow> ('w, 'v) tool_plane \<Rightarrow> ('w, 'v) tool_plane" where
  "tool_register_core_adapter a pl =
     (let name = core_tool_name a;
          pl1 = (if tp_default_core_adapter pl = None
                 then pl\<lparr>tp_default_core_adapter := Some name\<rparr> else pl)
      in pl1\<lparr>tp_core_adapters := bt_insert name a (tp_core_adapters pl1)\<rparr>)"

definition tool_register_extension_adapter ::
  "('w, 'v) tool_extension_adapter \<Rightarrow> ('w, 'v) tool_plane \<Rightarrow> ('w, 'v) tool_plane" where
  "tool_register_extension_adapter a pl =
     pl\<lparr>tp_extension_adapters := bt_insert (tool_extension_name a) a (tp_extension_adapters pl)\<rparr>"

definition tool_set_default_core_adapter ::
  "('w, 'v) tool_plane \<Rightarrow> string \<Rightarrow> tool_plane_error + ('w, 'v) tool_plane" where
  "tool_set_default_core_adapter pl name =
     (if \<not> bt_contains_key (tp_core_adapters pl) name
      then Inl (tool_plane_error.CoreAdapterNotFound name)
      else Inr (pl\<lparr>tp_default_core_adapter := Some name\<rparr>))"

definition tool_default_core_adapter_name :: "('w, 'v) tool_plane \<Rightarrow> string option" where
  "tool_default_core_adapter_name pl = tp_default_core_adapter pl"

definition tool_execute_core ::
  "('w, 'v) tool_plane \<Rightarrow> 'w \<Rightarrow> string option \<Rightarrow> 'v tool_core_request \<Rightarrow>
   (tool_plane_error + 'v tool_core_outcome) \<times> 'w" where
  "tool_execute_core pl w core_name request =
     (case (case core_name of Some name \<Rightarrow> Some name | None \<Rightarrow> tp_default_core_adapter pl) of
        None \<Rightarrow> (Inl tool_plane_error.NoDefaultCoreAdapter, w)
      | Some resolved_name \<Rightarrow>
          (case bt_get (tp_core_adapters pl) resolved_name of
             None \<Rightarrow> (Inl (tool_plane_error.CoreAdapterNotFound resolved_name), w)
           | Some adapter \<Rightarrow> execute_core_tool adapter w request))"

definition tool_execute_extension ::
  "('w, 'v) tool_plane \<Rightarrow> 'w \<Rightarrow> string \<Rightarrow> string option \<Rightarrow> 'v tool_extension_request \<Rightarrow>
   (tool_plane_error + 'v tool_extension_outcome) \<times> 'w" where
  "tool_execute_extension pl w extension_name core_name request =
     (case bt_get (tp_extension_adapters pl) extension_name of
        None \<Rightarrow> (Inl (tool_plane_error.ExtensionNotFound extension_name), w)
      | Some extension \<Rightarrow>
          (case (case core_name of Some name \<Rightarrow> Some name | None \<Rightarrow> tp_default_core_adapter pl) of
             None \<Rightarrow> (Inl tool_plane_error.NoDefaultCoreAdapter, w)
           | Some resolved_core_name \<Rightarrow>
               (case bt_get (tp_core_adapters pl) resolved_core_name of
                  None \<Rightarrow> (Inl (tool_plane_error.CoreAdapterNotFound resolved_core_name), w)
                | Some core \<Rightarrow> execute_tool_extension_fn extension w request core)))"

section \<open>The memory plane\<close>

datatype memory_tier = Core | Extension

record 'v memory_core_request =
  mpcq_operation :: string
  mpcq_payload :: 'v

record 'v memory_core_outcome =
  mpco_status :: string
  mpco_payload :: 'v

record 'v memory_extension_request =
  mpxq_operation :: string
  mpxq_payload :: 'v

record 'v memory_extension_outcome =
  mpxo_status :: string
  mpxo_payload :: 'v

record ('w, 'v) core_memory_adapter =
  core_memory_name :: string
  execute_core_memory :: "'w \<Rightarrow> 'v memory_core_request \<Rightarrow> (memory_plane_error + 'v memory_core_outcome) \<times> 'w"

record ('w, 'v) memory_extension_adapter =
  memory_extension_name :: string
  execute_memory_extension_fn :: "'w \<Rightarrow> 'v memory_extension_request \<Rightarrow> ('w, 'v) core_memory_adapter \<Rightarrow>
    (memory_plane_error + 'v memory_extension_outcome) \<times> 'w"

record ('w, 'v) memory_plane =
  mp_core_adapters :: "(string, ('w, 'v) core_memory_adapter) btree"
  mp_extension_adapters :: "(string, ('w, 'v) memory_extension_adapter) btree"
  mp_default_core_adapter :: "string option"

definition memory_plane_new :: "('w, 'v) memory_plane" where
  "memory_plane_new =
     \<lparr>mp_core_adapters = [], mp_extension_adapters = [], mp_default_core_adapter = None\<rparr>"

definition memory_register_core_adapter ::
  "('w, 'v) core_memory_adapter \<Rightarrow> ('w, 'v) memory_plane \<Rightarrow> ('w, 'v) memory_plane" where
  "memory_register_core_adapter a pl =
     (let name = core_memory_name a;
          pl1 = (if mp_default_core_adapter pl = None
                 then pl\<lparr>mp_default_core_adapter := Some name\<rparr> else pl)
      in pl1\<lparr>mp_core_adapters := bt_insert name a (mp_core_adapters pl1)\<rparr>)"

definition memory_register_extension_adapter ::
  "('w, 'v) memory_extension_adapter \<Rightarrow> ('w, 'v) memory_plane \<Rightarrow> ('w, 'v) memory_plane" where
  "memory_register_extension_adapter a pl =
     pl\<lparr>mp_extension_adapters := bt_insert (memory_extension_name a) a (mp_extension_adapters pl)\<rparr>"

definition memory_set_default_core_adapter ::
  "('w, 'v) memory_plane \<Rightarrow> string \<Rightarrow> memory_plane_error + ('w, 'v) memory_plane" where
  "memory_set_default_core_adapter pl name =
     (if \<not> bt_contains_key (mp_core_adapters pl) name
      then Inl (memory_plane_error.CoreAdapterNotFound name)
      else Inr (pl\<lparr>mp_default_core_adapter := Some name\<rparr>))"

definition memory_default_core_adapter_name :: "('w, 'v) memory_plane \<Rightarrow> string option" where
  "memory_default_core_adapter_name pl = mp_default_core_adapter pl"

definition memory_execute_core ::
  "('w, 'v) memory_plane \<Rightarrow> 'w \<Rightarrow> string option \<Rightarrow> 'v memory_core_request \<Rightarrow>
   (memory_plane_error + 'v memory_core_outcome) \<times> 'w" where
  "memory_execute_core pl w core_name request =
     (case (case core_name of Some name \<Rightarrow> Some name | None \<Rightarrow> mp_default_core_adapter pl) of
        None \<Rightarrow> (Inl memory_plane_error.NoDefaultCoreAdapter, w)
      | Some resolved_name \<Rightarrow>
          (case bt_get (mp_core_adapters pl) resolved_name of
             None \<Rightarrow> (Inl (memory_plane_error.CoreAdapterNotFound resolved_name), w)
           | Some adapter \<Rightarrow> execute_core_memory adapter w request))"

definition memory_execute_extension ::
  "('w, 'v) memory_plane \<Rightarrow> 'w \<Rightarrow> string \<Rightarrow> string option \<Rightarrow> 'v memory_extension_request \<Rightarrow>
   (memory_plane_error + 'v memory_extension_outcome) \<times> 'w" where
  "memory_execute_extension pl w extension_name core_name request =
     (case bt_get (mp_extension_adapters pl) extension_name of
        None \<Rightarrow> (Inl (memory_plane_error.ExtensionNotFound extension_name), w)
      | Some extension \<Rightarrow>
          (case (case core_name of Some name \<Rightarrow> Some name | None \<Rightarrow> mp_default_core_adapter pl) of
             None \<Rightarrow> (Inl memory_plane_error.NoDefaultCoreAdapter, w)
           | Some resolved_core_name \<Rightarrow>
               (case bt_get (mp_core_adapters pl) resolved_core_name of
                  None \<Rightarrow> (Inl (memory_plane_error.CoreAdapterNotFound resolved_core_name), w)
                | Some core \<Rightarrow> execute_memory_extension_fn extension w request core)))"

section \<open>Tool concurrency classes\<close>

datatype tool_concurrency_class = ReadOnly | Mutating | Unknown

primrec tool_concurrency_class_as_str :: "tool_concurrency_class \<Rightarrow> string" where
  "tool_concurrency_class_as_str ReadOnly = ''read_only''"
| "tool_concurrency_class_as_str Mutating = ''mutating''"
| "tool_concurrency_class_as_str Unknown = ''unknown''"

definition requires_serial_execution :: "tool_concurrency_class \<Rightarrow> bool" where
  "requires_serial_execution c \<longleftrightarrow> \<not> (case c of ReadOnly \<Rightarrow> True | _ \<Rightarrow> False)"

section \<open>The connector plane\<close>

datatype connector_tier = Core | Extension

primrec as_error_scope :: "connector_tier \<Rightarrow> string" where
  "as_error_scope connector_tier.Core = ''connector core adapter''"
| "as_error_scope connector_tier.Extension = ''connector extension adapter''"

text \<open>How an invocation ends: with a result, or with a panic, whose payload is a \<open>String\<close>, a
  string literal or something else.\<close>

datatype panic_payload = StringPayload string | StrPayload string | OtherPayload

datatype 'v invocation =
    Returned "connector_error + 'v connector_outcome"
  | Panicked panic_payload

record ('w, 'v) core_connector_adapter =
  core_connector_name :: string
  invoke_core_fn :: "'w \<Rightarrow> 'v connector_command \<Rightarrow> 'v invocation \<times> 'w"

record ('w, 'v) connector_extension_adapter =
  connector_extension_name :: string
  invoke_extension_fn :: "'w \<Rightarrow> 'v connector_command \<Rightarrow> ('w, 'v) core_connector_adapter \<Rightarrow>
    'v invocation \<times> 'w"

record ('w, 'v) connector_plane =
  cp_core_adapters :: "(string, ('w, 'v) core_connector_adapter) btree"
  cp_extension_adapters :: "(string, ('w, 'v) connector_extension_adapter) btree"
  cp_default_core_adapter :: "string option"

definition extract_connector_panic_message :: "panic_payload \<Rightarrow> string option" where
  "extract_connector_panic_message payload =
     (case payload of StringPayload m \<Rightarrow> Some m | StrPayload m \<Rightarrow> Some m | OtherPayload \<Rightarrow> None)"

definition format_connector_invocation_panic :: "string \<Rightarrow> connector_tier \<Rightarrow> panic_payload \<Rightarrow> string" where
  "format_connector_invocation_panic adapter_name tier payload =
     (case extract_connector_panic_message payload of
        Some message \<Rightarrow> as_error_scope tier @ '' `'' @ adapter_name @ ''` panicked: '' @ message
      | None \<Rightarrow> as_error_scope tier @ '' `'' @ adapter_name @ ''` panicked'')"

definition execute_connector_invocation ::
  "string \<Rightarrow> connector_tier \<Rightarrow> 'v invocation \<Rightarrow> connector_error + 'v connector_outcome" where
  "execute_connector_invocation adapter_name tier invocation =
     (case invocation of
        Returned r \<Rightarrow> r
      | Panicked payload \<Rightarrow>
          Inl (connector_error.Execution (format_connector_invocation_panic adapter_name tier payload)))"

definition panic_isolated_core ::
  "string \<Rightarrow> ('w, 'v) core_connector_adapter \<Rightarrow> ('w, 'v) core_connector_adapter" where
  "panic_isolated_core adapter_name adapter =
     \<lparr>core_connector_name = adapter_name,
      invoke_core_fn = (\<lambda>w command.
        let (invocation, w') = invoke_core_fn adapter w command
        in (Returned (execute_connector_invocation adapter_name connector_tier.Core invocation), w'))\<rparr>"

definition connector_plane_new :: "('w, 'v) connector_plane" where
  "connector_plane_new =
     \<lparr>cp_core_adapters = [], cp_extension_adapters = [], cp_default_core_adapter = None\<rparr>"

definition connector_register_core_adapter ::
  "('w, 'v) core_connector_adapter \<Rightarrow> ('w, 'v) connector_plane \<Rightarrow> ('w, 'v) connector_plane" where
  "connector_register_core_adapter a pl =
     (let name = core_connector_name a;
          pl1 = (if cp_default_core_adapter pl = None
                 then pl\<lparr>cp_default_core_adapter := Some name\<rparr> else pl)
      in pl1\<lparr>cp_core_adapters := bt_insert name a (cp_core_adapters pl1)\<rparr>)"

definition connector_register_extension_adapter ::
  "('w, 'v) connector_extension_adapter \<Rightarrow> ('w, 'v) connector_plane \<Rightarrow> ('w, 'v) connector_plane" where
  "connector_register_extension_adapter a pl =
     pl\<lparr>cp_extension_adapters := bt_insert (connector_extension_name a) a (cp_extension_adapters pl)\<rparr>"

definition connector_set_default_core_adapter ::
  "('w, 'v) connector_plane \<Rightarrow> string \<Rightarrow> connector_error + ('w, 'v) connector_plane" where
  "connector_set_default_core_adapter pl name =
     (if \<not> bt_contains_key (cp_core_adapters pl) name
      then Inl (connector_error.CoreAdapterNotFound name)
      else Inr (pl\<lparr>cp_default_core_adapter := Some name\<rparr>))"

definition connector_default_core_adapter_name :: "('w, 'v) connector_plane \<Rightarrow> string option" where
  "connector_default_core_adapter_name pl = cp_default_core_adapter pl"

definition connector_invoke_core ::
  "('w, 'v) connector_plane \<Rightarrow> 'w \<Rightarrow> string option \<Rightarrow> 'v connector_command \<Rightarrow>
   (connector_error + 'v connector_outcome) \<times> 'w" where
  "connector_invoke_core pl w core_name command =
     (case (case core_name of Some name \<Rightarrow> Some name | None \<Rightarrow> cp_default_core_adapter pl) of
        None \<Rightarrow> (Inl connector_error.NoDefaultCoreAdapter, w)
      | Some resolved_name \<Rightarrow>
          (case bt_get (cp_core_adapters pl) resolved_name of
             None \<Rightarrow> (Inl (connector_error.CoreAdapterNotFound resolved_name), w)
           | Some core \<Rightarrow>
               let (invocation, w') = invoke_core_fn core w command
               in (execute_connector_invocation resolved_name connector_tier.Core invocation, w')))"

definition connector_invoke_extension ::
  "('w, 'v) connector_plane \<Rightarrow> 'w \<Rightarrow> string \<Rightarrow> string option \<Rightarrow> 'v connector_command \<Rightarrow>
   (connector_error + 'v connector_outcome) \<times> 'w" where
  "connector_invoke_extension pl w extension_name core_name command =
     (case bt_get (cp_extension_adapters pl) extension_name of
        None \<Rightarrow> (Inl (connector_error.ExtensionNotFound extension_name), w)
      | Some extension \<Rightarrow>
          (case (case core_name of Some name \<Rightarrow> Some name | None \<Rightarrow> cp_default_core_adapter pl) of
             None \<Rightarrow> (Inl connector_error.NoDefaultCoreAdapter, w)
           | Some resolved_core_name \<Rightarrow>
               (case bt_get (cp_core_adapters pl) resolved_core_name of
                  None \<Rightarrow> (Inl (connector_error.CoreAdapterNotFound resolved_core_name), w)
                | Some core \<Rightarrow>
                    let guarded_core = panic_isolated_core resolved_core_name core;
                        (invocation, w') = invoke_extension_fn extension w command guarded_core
                    in (execute_connector_invocation extension_name connector_tier.Extension invocation, w'))))"

section \<open>The harness broker\<close>

record ('w, 'v) harness_adapter =
  harness_name :: string
  harness_adapter_kind :: harness_kind
  harness_execute_fn :: "'w \<Rightarrow> 'v harness_request \<Rightarrow> (harness_error + 'v harness_outcome) \<times> 'w"

type_synonym ('w, 'v) harness_broker = "(string, ('w, 'v) harness_adapter) btree"

definition harness_broker_new :: "('w, 'v) harness_broker" where
  "harness_broker_new = []"

definition harness_register ::
  "('w, 'v) harness_adapter \<Rightarrow> ('w, 'v) harness_broker \<Rightarrow> ('w, 'v) harness_broker" where
  "harness_register a broker = bt_insert (harness_name a) a broker"

definition harness_select ::
  "('w, 'v) harness_broker \<Rightarrow> execution_route \<Rightarrow> harness_error + ('w, 'v) harness_adapter" where
  "harness_select broker route =
     (case route_adapter route of
        Some adapter_name \<Rightarrow>
          (case bt_get broker adapter_name of
             None \<Rightarrow> Inl (AdapterNotFound adapter_name)
           | Some adapter \<Rightarrow> Inr adapter)
      | None \<Rightarrow>
          (case find (\<lambda>candidate. harness_adapter_kind candidate = route_harness_kind route) (bt_values broker) of
             None \<Rightarrow> Inl (AdapterNotFound (''kind::'' @ harness_kind_debug (route_harness_kind route)))
           | Some adapter \<Rightarrow> Inr adapter))"

definition harness_execute ::
  "('w, 'v) harness_broker \<Rightarrow> 'w \<Rightarrow> execution_route \<Rightarrow> 'v harness_request \<Rightarrow>
   (harness_error + 'v harness_outcome) \<times> 'w" where
  "harness_execute broker w route request =
     (case harness_select broker route of
        Inl e \<Rightarrow> (Inl e, w)
      | Inr adapter \<Rightarrow>
          if harness_adapter_kind adapter \<noteq> route_harness_kind route
          then (Inl (AdapterKindMismatch (harness_name adapter) (route_harness_kind route)
                      (harness_adapter_kind adapter)), w)
          else harness_execute_fn adapter w request)"

section \<open>The registry contract\<close>

text \<open>The first registered core adapter becomes the default, later registrations leave the
  default alone, and only a registered adapter can be made the default.\<close>

locale adapter_registry =
  fixes reg_empty :: "'pl"
    and reg_register :: "'a \<Rightarrow> 'pl \<Rightarrow> 'pl"
    and reg_name :: "'a \<Rightarrow> string"
    and reg_set_default :: "'pl \<Rightarrow> string \<Rightarrow> 'e + 'pl"
    and reg_default :: "'pl \<Rightarrow> string option"
    and reg_core :: "'pl \<Rightarrow> string \<Rightarrow> 'a option"
  assumes default_empty: "reg_default reg_empty = None"
    and core_empty: "reg_core reg_empty n = None"
    and core_register: "reg_core (reg_register a pl) n = (if n = reg_name a then Some a else reg_core pl n)"
    and default_register:
      "reg_default (reg_register a pl) = (case reg_default pl of None \<Rightarrow> Some (reg_name a) | Some d \<Rightarrow> Some d)"
    and set_default_Ok: "reg_set_default pl n = Inr pl' \<Longrightarrow>
      reg_core pl n \<noteq> None \<and> reg_default pl' = Some n \<and> reg_core pl' = reg_core pl"
    and set_default_known: "reg_core pl n \<noteq> None \<Longrightarrow> \<exists>pl'. reg_set_default pl n = Inr pl'"
begin

definition registry_inv :: "'pl \<Rightarrow> bool" where
  "registry_inv pl \<longleftrightarrow>
     (case reg_default pl of None \<Rightarrow> (\<forall>n. reg_core pl n = None) | Some d \<Rightarrow> reg_core pl d \<noteq> None)"

lemma registry_inv_empty: "registry_inv reg_empty"
  by (simp add: registry_inv_def default_empty core_empty)

lemma registry_inv_register: "registry_inv pl \<Longrightarrow> registry_inv (reg_register a pl)"
  by (auto simp: registry_inv_def default_register core_register split: option.splits)

lemma registry_inv_set_default:
  "reg_set_default pl n = Inr pl' \<Longrightarrow> registry_inv pl'"
  using set_default_Ok by (fastforce simp: registry_inv_def)

text \<open>The default after registering a sequence of adapters: the first one, and it resolves.\<close>

lemma default_after_register_all:
  "reg_default (fold reg_register (a # as) reg_empty) = Some (reg_name a)"
proof -
  have "reg_default pl = Some d \<Longrightarrow> reg_default (fold reg_register as pl) = Some d" for pl d
    by (induction as arbitrary: pl) (simp_all add: default_register)
  then show ?thesis by (simp add: default_register default_empty)
qed

lemma registry_inv_register_all: "registry_inv pl \<Longrightarrow> registry_inv (fold reg_register as pl)"
  by (induction as arbitrary: pl) (simp_all add: registry_inv_register)

lemma last_registration_wins:
  "reg_core (fold reg_register (as @ [a]) pl) (reg_name a) = Some a"
  by (simp add: core_register)

end

interpretation runtime: adapter_registry runtime_plane_new runtime_register_core_adapter core_runtime_name
  runtime_set_default_core_adapter runtime_default_core_adapter_name "\<lambda>pl. bt_get (rp_core_adapters pl)"
  by unfold_locales
    (auto simp: runtime_plane_new_def runtime_register_core_adapter_def runtime_set_default_core_adapter_def
      runtime_default_core_adapter_name_def bt_contains_key_def Let_def split: if_splits option.splits)

interpretation tool: adapter_registry tool_plane_new tool_register_core_adapter core_tool_name
  tool_set_default_core_adapter tool_default_core_adapter_name "\<lambda>pl. bt_get (tp_core_adapters pl)"
  by unfold_locales
    (auto simp: tool_plane_new_def tool_register_core_adapter_def tool_set_default_core_adapter_def
      tool_default_core_adapter_name_def bt_contains_key_def Let_def split: if_splits option.splits)

interpretation memory: adapter_registry memory_plane_new memory_register_core_adapter core_memory_name
  memory_set_default_core_adapter memory_default_core_adapter_name "\<lambda>pl. bt_get (mp_core_adapters pl)"
  by unfold_locales
    (auto simp: memory_plane_new_def memory_register_core_adapter_def memory_set_default_core_adapter_def
      memory_default_core_adapter_name_def bt_contains_key_def Let_def split: if_splits option.splits)

interpretation connector: adapter_registry connector_plane_new connector_register_core_adapter core_connector_name
  connector_set_default_core_adapter connector_default_core_adapter_name "\<lambda>pl. bt_get (cp_core_adapters pl)"
  by unfold_locales
    (auto simp: connector_plane_new_def connector_register_core_adapter_def connector_set_default_core_adapter_def
      connector_default_core_adapter_name_def bt_contains_key_def Let_def split: if_splits option.splits)

end
