(* ===== verification/Vertical_Packs.thy ===== *)
theory Vertical_Packs
  imports Kernel_Errors
begin

text \<open>
  Vertical packs (crates/contracts/src/pack.rs), the namespace a kernel projects from one
  (namespace.rs) and the adjustable test clock (clock.rs). Whether a version text parses as
  semver is decided by the \<open>semver\<close> crate and is the parameter \<open>semver_ok\<close>.
\<close>

record pack_manifest =
  pack_id :: string
  pack_domain :: string
  pack_version :: string
  pack_default_route :: execution_route
  pack_allowed_connectors :: "string set"
  pack_granted_capabilities :: "capability set"
  pack_metadata :: "(string, string) btree"

definition pack_validate :: "(string \<Rightarrow> bool) \<Rightarrow> pack_manifest \<Rightarrow> pack_error + unit" where
  "pack_validate semver_ok p =
     (if trim (pack_id p) = [] then Inl EmptyPackId
      else if trim (pack_domain p) = [] then Inl EmptyDomain
      else if \<not> semver_ok (pack_version p) then Inl (InvalidVersion (pack_version p))
      else if pack_granted_capabilities p = {} then Inl EmptyCapabilities
      else Inr ())"

definition pack_grants :: "pack_manifest \<Rightarrow> capability \<Rightarrow> bool" where
  "pack_grants p c \<longleftrightarrow> c \<in> pack_granted_capabilities p"

definition pack_allows_connector :: "pack_manifest \<Rightarrow> string \<Rightarrow> bool" where
  "pack_allows_connector p name \<longleftrightarrow> name \<in> pack_allowed_connectors p"

record namespace =
  ns_pack_id :: string
  ns_domain :: string
  ns_membrane :: string
  ns_default_route :: execution_route
  ns_granted_capabilities :: "capability set"

lemma pack_validate_Ok:
  "pack_validate semver_ok p = Inr () \<longleftrightarrow>
    trim (pack_id p) \<noteq> [] \<and> trim (pack_domain p) \<noteq> [] \<and> semver_ok (pack_version p) \<and>
    pack_granted_capabilities p \<noteq> {}"
  by (simp add: pack_validate_def)

section \<open>The test clock\<close>

record fixed_clock =
  fixed_now_epoch_s :: u64

definition fixed_clock_new :: "u64 \<Rightarrow> fixed_clock" where
  "fixed_clock_new t = \<lparr>fixed_now_epoch_s = t\<rparr>"

definition fixed_clock_set :: "fixed_clock \<Rightarrow> u64 \<Rightarrow> fixed_clock" where
  "fixed_clock_set c t = c\<lparr>fixed_now_epoch_s := t\<rparr>"

definition fixed_clock_advance_by :: "fixed_clock \<Rightarrow> u64 \<Rightarrow> fixed_clock" where
  "fixed_clock_advance_by c d = c\<lparr>fixed_now_epoch_s := fixed_now_epoch_s c + d\<rparr>"

end
