(* ===== verification/Policy_Engine.thy ===== *)
theory Policy_Engine
  imports Vertical_Packs
begin

text \<open>
  The policy engine (crates/kernel/src/policy.rs) and the policy extension chain
  (policy_ext.rs). The trait \<open>PolicyEngine\<close> is the record of its methods over the state
  type \<open>'p\<close> of an implementation; \<open>StaticPolicyEngine\<close>, the engine of the source, is
  given method by method, its atomics and its mutex as fields. A mutex carries the flag that
  says a holder panicked, which \<open>lock\<close> reports. The locale \<open>policy_contract\<close> states what the
  kernel relies on and is interpreted on \<open>StaticPolicyEngine\<close>. The last section runs the
  engine's methods as interleaved atomic steps.
\<close>

section \<open>Data types\<close>

record policy_context =
  pc_conversation_hash :: "string option"
  pc_call_depth :: u32

record 'v policy_request =
  pr_tool_name :: string
  pr_parameters :: 'v
  pr_pack_id :: string
  pr_agent_id :: string
  pr_capabilities_used :: "capability set"
  pr_context :: policy_context

datatype policy_decision = Allow | Deny string

section \<open>The trait\<close>

record 'p policy_engine =
  pe_issue_token :: "'p \<Rightarrow> pack_manifest \<Rightarrow> string \<Rightarrow> u64 \<Rightarrow> u64 \<Rightarrow> (policy_error + capability_token) \<times> 'p"
  pe_authorize :: "'p \<Rightarrow> capability_token \<Rightarrow> string \<Rightarrow> u64 \<Rightarrow> capability set \<Rightarrow> policy_error + unit"
  pe_revoke_token :: "'p \<Rightarrow> string \<Rightarrow> (policy_error + unit) \<times> 'p"
  pe_revoke_generation :: "'p \<Rightarrow> u64 \<Rightarrow> 'p"

section \<open>StaticPolicyEngine\<close>

record 'a mutex =
  mutex_poisoned :: bool
  mutex_value :: 'a

record static_policy_engine =
  token_seq :: u64
  revoked_tokens :: "string set mutex"
  engine_generation :: u64
  revoked_below_generation :: u64

definition static_policy_engine_default :: static_policy_engine where
  "static_policy_engine_default =
     \<lparr>token_seq = 0, revoked_tokens = \<lparr>mutex_poisoned = False, mutex_value = {}\<rparr>,
      engine_generation = 0, revoked_below_generation = 0\<rparr>"

definition next_token_id :: "static_policy_engine \<Rightarrow> string \<times> static_policy_engine" where
  "next_token_id e =
     (let seq = token_seq e + 1
      in (''tok-'' @ hex16 seq, e\<lparr>token_seq := token_seq e + 1\<rparr>))"

definition static_revoke_generation :: "static_policy_engine \<Rightarrow> u64 \<Rightarrow> static_policy_engine" where
  "static_revoke_generation e below =
     e\<lparr>revoked_below_generation := max (revoked_below_generation e) below,
       engine_generation := max (engine_generation e) below\<rparr>"

definition current_generation :: "static_policy_engine \<Rightarrow> u64" where
  "current_generation e = engine_generation e"

definition static_issue_token ::
  "static_policy_engine \<Rightarrow> pack_manifest \<Rightarrow> string \<Rightarrow> u64 \<Rightarrow> u64 \<Rightarrow>
   (policy_error + capability_token) \<times> static_policy_engine" where
  "static_issue_token e pack agent_id now ttl =
     (let generation = engine_generation e + 1;
          e1 = e\<lparr>engine_generation := engine_generation e + 1\<rparr>;
          (tid, e2) = next_token_id e1
      in (Inr \<lparr>token_id = tid,
               token_pack_id = pack_id pack,
               token_agent_id = agent_id,
               token_allowed_capabilities = pack_granted_capabilities pack,
               token_issued_at_epoch_s = now,
               token_expires_at_epoch_s = u64_saturating_add now ttl,
               token_generation = generation\<rparr>, e2))"

definition static_authorize ::
  "static_policy_engine \<Rightarrow> capability_token \<Rightarrow> string \<Rightarrow> u64 \<Rightarrow> capability set \<Rightarrow> policy_error + unit" where
  "static_authorize e token runtime_pack_id now required =
     (if mutex_poisoned (revoked_tokens e) then Inl (RevokedToken (token_id token))
      else if token_id token \<in> mutex_value (revoked_tokens e) then Inl (RevokedToken (token_id token))
      else
        let threshold = revoked_below_generation e in
        if token_generation token > 0 \<and> token_generation token \<le> threshold
        then Inl (RevokedToken (token_id token))
        else if token_pack_id token \<noteq> runtime_pack_id
        then Inl (PackMismatch (token_pack_id token) runtime_pack_id)
        else if now > token_expires_at_epoch_s token
        then Inl (ExpiredToken (token_id token) (token_expires_at_epoch_s token))
        else try_all
               (\<lambda>c. if c \<notin> token_allowed_capabilities token
                    then Inl (MissingCapability (token_id token) c) else Inr ())
               (caps_in_order required))"

definition static_revoke_token ::
  "static_policy_engine \<Rightarrow> string \<Rightarrow> (policy_error + unit) \<times> static_policy_engine" where
  "static_revoke_token e tid =
     (if mutex_poisoned (revoked_tokens e) then (Inl (RevokedToken tid), e)
      else (Inr (),
            e\<lparr>revoked_tokens := (revoked_tokens e)\<lparr>mutex_value := insert tid (mutex_value (revoked_tokens e))\<rparr>\<rparr>))"

definition static_check_tool_call :: "static_policy_engine \<Rightarrow> 'v policy_request \<Rightarrow> policy_decision" where
  "static_check_tool_call e request = Allow"

definition static_engine :: "static_policy_engine policy_engine" where
  "static_engine =
     \<lparr>pe_issue_token = static_issue_token, pe_authorize = static_authorize,
      pe_revoke_token = static_revoke_token, pe_revoke_generation = static_revoke_generation\<rparr>"

section \<open>When authorization succeeds\<close>

definition token_revoked :: "static_policy_engine \<Rightarrow> capability_token \<Rightarrow> bool" where
  "token_revoked e t \<longleftrightarrow>
     mutex_poisoned (revoked_tokens e) \<or> token_id t \<in> mutex_value (revoked_tokens e) \<or>
     (0 < token_generation t \<and> token_generation t \<le> revoked_below_generation e)"

lemma static_authorize_Ok [loong_simps]:
  "static_authorize e t p now req = Inr () \<longleftrightarrow>
    \<not> token_revoked e t \<and> token_pack_id t = p \<and> now \<le> token_expires_at_epoch_s t \<and>
    req \<subseteq> token_allowed_capabilities t"
  by (auto simp: static_authorize_def token_revoked_def Let_def not_less)

lemma static_authorize_revoked:
  "token_revoked e t \<Longrightarrow> static_authorize e t p now req = Inl (RevokedToken (token_id t))"
  by (auto simp: static_authorize_def token_revoked_def Let_def)

lemma static_authorize_missing:
  assumes "\<not> token_revoked e t" and "token_pack_id t = p" and "now \<le> token_expires_at_epoch_s t"
    and "\<not> req \<subseteq> token_allowed_capabilities t"
  shows "static_authorize e t p now req =
    Inl (MissingCapability (token_id t) (Min (req - token_allowed_capabilities t)))"
proof -
  let ?A = "token_allowed_capabilities t"
  let ?f = "\<lambda>c. if c \<notin> ?A then Inl (MissingCapability (token_id t) c) else Inr ()"
  have fin: "finite (req - ?A)" and ne: "req - ?A \<noteq> {}"
    using assms(4) finite_subset [OF subset_UNIV, of "req - ?A"]
    by (auto simp flip: set_all_capabilities)
  let ?m = "Min (req - ?A)"
  have "?m \<in> set (caps_in_order req)"
    using Min_in [OF fin ne] by simp
  then obtain ys zs where split: "caps_in_order req = ys @ ?m # zs"
    by (meson split_list)
  have "c \<in> ?A" if "c \<in> set ys" for c
  proof (rule ccontr)
    assume "c \<notin> ?A"
    moreover have "c \<in> req"
      using that split set_caps_in_order [of req] by (metis Un_iff set_append)
    ultimately have "?m \<le> c" using fin by simp
    moreover have "c < ?m"
      using that sorted_caps_in_order [of req] unfolding split by (simp add: sorted_wrt_append)
    ultimately show False by simp
  qed
  then have "try_all ?f (caps_in_order req) = Inl (MissingCapability (token_id t) ?m)"
    unfolding split using Min_in [OF fin ne] by (intro try_all_first) auto
  then show ?thesis
    using assms(1-3) by (simp add: static_authorize_def token_revoked_def Let_def)
qed

section \<open>The contract of an engine\<close>

text \<open>The calls a client can make on an engine, and running a sequence of them.\<close>

datatype policy_op =
    OpIssue pack_manifest string u64 u64
  | OpRevoke string
  | OpRevokeGeneration u64

primrec policy_op_run :: "'p policy_engine \<Rightarrow> policy_op \<Rightarrow> 'p \<Rightarrow> 'p" where
  "policy_op_run E (OpIssue pack agent now ttl) p = snd (pe_issue_token E p pack agent now ttl)"
| "policy_op_run E (OpRevoke tid) p = snd (pe_revoke_token E p tid)"
| "policy_op_run E (OpRevokeGeneration below) p = pe_revoke_generation E p below"

definition policy_run :: "'p policy_engine \<Rightarrow> policy_op list \<Rightarrow> 'p \<Rightarrow> 'p" where
  "policy_run E ops p = fold (policy_op_run E) ops p"

locale policy_contract =
  fixes E :: "'p policy_engine"
    and revoked :: "'p \<Rightarrow> capability_token \<Rightarrow> bool"
  assumes authorize_sound:
      "pe_authorize E p t pid now req = Inr () \<Longrightarrow>
        \<not> revoked p t \<and> token_pack_id t = pid \<and> now \<le> token_expires_at_epoch_s t \<and>
        req \<subseteq> token_allowed_capabilities t"
    and revoke_revokes:
      "pe_revoke_token E p tid = (Inr (), p') \<Longrightarrow> token_id t = tid \<Longrightarrow> revoked p' t"
    and revoked_after_op: "revoked p t \<Longrightarrow> revoked (policy_op_run E op p) t"
    and issue_scope:
      "pe_issue_token E p pack agent now ttl = (Inr t, p') \<Longrightarrow>
        token_pack_id t = pack_id pack \<and> token_agent_id t = agent \<and>
        token_allowed_capabilities t = pack_granted_capabilities pack \<and>
        token_issued_at_epoch_s t = now"
begin

lemma revoked_after_run: "revoked p t \<Longrightarrow> revoked (policy_run E ops p) t"
  by (induction ops arbitrary: p) (simp_all add: policy_run_def revoked_after_op)

lemma revoked_denied: "revoked p t \<Longrightarrow> pe_authorize E p t pid now req \<noteq> Inr ()"
  using authorize_sound by blast

lemma revoke_then_denied:
  "pe_revoke_token E p tid = (Inr (), p') \<Longrightarrow> token_id t = tid \<Longrightarrow>
    pe_authorize E (policy_run E ops p') t pid now req \<noteq> Inr ()"
  by (meson revoke_revokes revoked_after_run revoked_denied)

end

lemma token_revoked_after_op:
  "token_revoked e t \<Longrightarrow> token_revoked (policy_op_run static_engine op e) t"
  by (cases op)
    (auto simp: token_revoked_def static_engine_def static_issue_token_def next_token_id_def
      static_revoke_token_def static_revoke_generation_def Let_def le_max_iff_disj)

interpretation static: policy_contract static_engine token_revoked
proof
  show "pe_authorize static_engine p t pid now req = Inr () \<Longrightarrow>
      \<not> token_revoked p t \<and> token_pack_id t = pid \<and> now \<le> token_expires_at_epoch_s t \<and>
      req \<subseteq> token_allowed_capabilities t" for p t pid now req
    by (simp add: static_engine_def loong_simps)
  show "token_revoked p' t"
    if "pe_revoke_token static_engine p tid = (Inr (), p')" "token_id t = tid" for p tid p' t
    using that by (auto simp: static_engine_def static_revoke_token_def token_revoked_def split: if_splits)
  show "token_revoked (policy_op_run static_engine op p) t" if "token_revoked p t" for p t op
    using that by (rule token_revoked_after_op)
  show "token_pack_id t = pack_id pack \<and> token_agent_id t = agent \<and>
      token_allowed_capabilities t = pack_granted_capabilities pack \<and> token_issued_at_epoch_s t = now"
    if "pe_issue_token static_engine p pack agent now ttl = (Inr t, p')" for p pack agent now ttl t p'
    using that by (auto simp: static_engine_def static_issue_token_def next_token_id_def Let_def)
qed

section \<open>Issuing\<close>

text \<open>The generation threshold never overtakes the generation counter; a fresh token then
  lies above it, unless the counter is exhausted.\<close>

definition engine_inv :: "static_policy_engine \<Rightarrow> bool" where
  "engine_inv e \<longleftrightarrow> revoked_below_generation e \<le> engine_generation e"

lemma engine_inv_default [simp]: "engine_inv static_policy_engine_default"
  by (simp add: engine_inv_def static_policy_engine_default_def)

lemma engine_inv_op:
  assumes "engine_inv e" and "engine_generation e < - 1"
  shows "engine_inv (policy_op_run static_engine op e)"
  using assms u64_less_succ [OF assms(2)]
  by (cases op)
    (auto simp: engine_inv_def static_engine_def static_issue_token_def next_token_id_def
      static_revoke_token_def static_revoke_generation_def Let_def max_def)

lemma issue_token_result:
  "static_issue_token e pack agent now ttl =
    (Inr \<lparr>token_id = ''tok-'' @ hex16 (token_seq e + 1), token_pack_id = pack_id pack,
         token_agent_id = agent, token_allowed_capabilities = pack_granted_capabilities pack,
         token_issued_at_epoch_s = now, token_expires_at_epoch_s = u64_saturating_add now ttl,
         token_generation = engine_generation e + 1\<rparr>,
     e\<lparr>engine_generation := engine_generation e + 1, token_seq := token_seq e + 1\<rparr>)"
  by (simp add: static_issue_token_def next_token_id_def Let_def)

lemma fresh_token_authorized:
  assumes "static_issue_token e pack agent now ttl = (Inr t, e')"
    and "engine_inv e" and "engine_generation e < - 1"
    and "\<not> mutex_poisoned (revoked_tokens e)"
    and "''tok-'' @ hex16 (token_seq e + 1) \<notin> mutex_value (revoked_tokens e)"
    and "req \<subseteq> pack_granted_capabilities pack" and "now' \<le> u64_saturating_add now ttl"
  shows "static_authorize e' t (pack_id pack) now' req = Inr ()"
  using assms u64_less_succ [OF assms(3)]
  by (auto simp: issue_token_result loong_simps token_revoked_def engine_inv_def)

text \<open>The issued tokens of a run, in order.\<close>

fun issued_tokens :: "policy_op list \<Rightarrow> static_policy_engine \<Rightarrow> capability_token list" where
  "issued_tokens [] e = []"
| "issued_tokens (op # ops) e =
     (case op of
        OpIssue pack agent now ttl \<Rightarrow>
          (case static_issue_token e pack agent now ttl of
             (Inr t, e') \<Rightarrow> t # issued_tokens ops e'
           | (Inl _, e') \<Rightarrow> issued_tokens ops e')
      | _ \<Rightarrow> issued_tokens ops (policy_op_run static_engine op e))"

lemma token_seq_other_ops:
  "(\<And>pack agent now ttl. op \<noteq> OpIssue pack agent now ttl) \<Longrightarrow>
    token_seq (policy_op_run static_engine op e) = token_seq e"
  by (cases op)
    (auto simp: static_engine_def static_revoke_token_def static_revoke_generation_def)

lemma issued_token_ids:
  "map token_id (issued_tokens ops e) =
    map (\<lambda>i. ''tok-'' @ hex16 (token_seq e + of_nat (Suc i))) [0..<length (issued_tokens ops e)]"
proof (induction ops e rule: issued_tokens.induct)
  case (1 e)
  then show ?case by simp
next
  case (2 op ops e)
  show ?case
  proof (cases "\<exists>pack agent now ttl. op = OpIssue pack agent now ttl")
    case True
    then obtain pack agent now ttl where op: "op = OpIssue pack agent now ttl" by blast
    obtain t e' where i: "static_issue_token e pack agent now ttl = (Inr t, e')"
      by (simp add: issue_token_result)
    then have "token_id t = ''tok-'' @ hex16 (token_seq e + 1)" and "token_seq e' = token_seq e + 1"
      by (auto simp: issue_token_result)
    moreover have "map token_id (issued_tokens ops e') =
        map (\<lambda>i. ''tok-'' @ hex16 (token_seq e' + of_nat (Suc i))) [0..<length (issued_tokens ops e')]"
      using 2 op i by simp
    ultimately show ?thesis
      by (simp add: op i upt_conv_Cons map_Suc_upt [symmetric] add.assoc del: upt_Suc)
  next
    case False
    then have "token_seq (policy_op_run static_engine op e) = token_seq e"
      by (intro token_seq_other_ops) blast
    with 2 False show ?thesis by (cases op) simp_all
  qed
qed

lemma issued_token_ids_distinct:
  assumes "length (issued_tokens ops e) < 2 ^ 64"
  shows "distinct (map token_id (issued_tokens ops e))"
  unfolding issued_token_ids distinct_map
  using assms by (auto simp: inj_on_def hex16_inj u64_of_nat_inj simp del: of_nat_Suc)

section \<open>Properties\<close>

text \<open>
  C5. \<open>StaticPolicyEngine::authorize\<close> decides exactly as documented: it accepts when the token is
  neither revoked (by id, by generation, or because the revocation mutex is poisoned), nor for
  another pack, nor expired, and carries every required capability; and when only capabilities
  are missing, it reports the first missing one in capability order.
\<close>

theorem static_authorize_correct:
  "(static_authorize e t pid now req = Inr () \<longleftrightarrow>
      \<not> token_revoked e t \<and> token_pack_id t = pid \<and> now \<le> token_expires_at_epoch_s t \<and>
      req \<subseteq> token_allowed_capabilities t) \<and>
   (token_revoked e t \<longrightarrow> static_authorize e t pid now req = Inl (RevokedToken (token_id t))) \<and>
   (\<not> token_revoked e t \<and> token_pack_id t = pid \<and> now \<le> token_expires_at_epoch_s t \<and>
      \<not> req \<subseteq> token_allowed_capabilities t \<longrightarrow>
      static_authorize e t pid now req =
        Inl (MissingCapability (token_id t) (Min (req - token_allowed_capabilities t))))"
  by (intro conjI impI; (elim conjE)?;
      (rule static_authorize_Ok | erule static_authorize_revoked | rule static_authorize_missing; assumption))

definition sample_pack :: pack_manifest where
  "sample_pack = \<lparr>pack_id = ''p'', pack_domain = ''d'', pack_version = ''1.0.0'',
     pack_default_route = \<lparr>route_harness_kind = EmbeddedPi, route_adapter = None\<rparr>,
     pack_allowed_connectors = {}, pack_granted_capabilities = {InvokeTool}, pack_metadata = []\<rparr>"

definition sample_token :: capability_token where
  "sample_token = \<lparr>token_id = ''tok-0000000000000001'', token_pack_id = ''p'', token_agent_id = ''a'',
     token_allowed_capabilities = {InvokeTool}, token_issued_at_epoch_s = 5,
     token_expires_at_epoch_s = 15, token_generation = 1\<rparr>"

definition sample_engine :: static_policy_engine where
  "sample_engine = static_policy_engine_default\<lparr>engine_generation := 1, token_seq := 1\<rparr>"

lemma sample_issue:
  "static_issue_token static_policy_engine_default sample_pack ''a'' 5 10 = (Inr sample_token, sample_engine)"
  by (simp add: issue_token_result sample_pack_def sample_token_def sample_engine_def
      static_policy_engine_default_def hex16_def u64_saturating_add_def upt_rec)

lemma sample_not_revoked: "\<not> token_revoked sample_engine sample_token"
  by (simp add: token_revoked_def sample_engine_def sample_token_def static_policy_engine_default_def)

theorem static_authorize_correct_witness:
  "static_authorize sample_engine sample_token ''p'' 6 {InvokeTool, MemoryRead} =
    Inl (MissingCapability ''tok-0000000000000001'' (Min ({InvokeTool, MemoryRead} - {InvokeTool})))"
  using static_authorize_correct [of sample_engine sample_token "''p''" 6 "{InvokeTool, MemoryRead}"]
    sample_not_revoked
  by (simp add: sample_token_def)

text \<open>
  A token that \<open>issue_token\<close> has just returned is accepted for its own pack, up to its
  (saturating) expiry time, for any capabilities the pack grants, as long as the generation
  counter is not exhausted and the mutex is not poisoned and the id was not revoked beforehand.
\<close>

theorem issued_token_is_authorized:
  assumes "static_issue_token e pack agent now ttl = (Inr t, e')"
    and "engine_inv e" and "engine_generation e < - 1"
    and "\<not> mutex_poisoned (revoked_tokens e)"
    and "''tok-'' @ hex16 (token_seq e + 1) \<notin> mutex_value (revoked_tokens e)"
    and "req \<subseteq> pack_granted_capabilities pack"
    and "unat now' \<le> min (unat now + unat ttl) (2 ^ 64 - 1)"
  shows "static_authorize e' t (pack_id pack) now' req = Inr ()"
  using fresh_token_authorized [OF assms(1-6)] assms(7)
  by (simp add: word_le_nat_alt unat_u64_saturating_add)

theorem issued_token_is_authorized_witness:
  "static_authorize sample_engine sample_token (pack_id sample_pack) 15 {InvokeTool} = Inr ()"
proof -
  have "engine_generation static_policy_engine_default < - 1"
    by (simp add: static_policy_engine_default_def u64_less_max_unat)
  then show ?thesis
    by (rule issued_token_is_authorized [OF sample_issue engine_inv_default])
      (simp_all add: static_policy_engine_default_def sample_pack_def)
qed

text \<open>
  Revocation is final: after \<open>revoke_token\<close> returned, no sequence of engine calls makes the
  token acceptable again, for any pack, time or request; and the same holds for every token
  whose generation \<open>revoke_generation\<close> covers.
\<close>

theorem revocation_is_final:
  "(static_revoke_token e tid = (Inr (), e') \<and> token_id t = tid \<longrightarrow>
      static_authorize (policy_run static_engine ops e') t pid now req = Inl (RevokedToken tid)) \<and>
   (0 < token_generation t \<and> token_generation t \<le> below \<longrightarrow>
      static_authorize (policy_run static_engine ops (static_revoke_generation e below)) t pid now req =
        Inl (RevokedToken (token_id t)))"
proof (intro conjI impI; elim conjE)
  assume r: "static_revoke_token e tid = (Inr (), e')" and i: "token_id t = tid"
  have "token_revoked e' t"
    using static.revoke_revokes [of e tid e' t] r i by (simp add: static_engine_def)
  then have "token_revoked (policy_run static_engine ops e') t"
    by (rule static.revoked_after_run)
  then show "static_authorize (policy_run static_engine ops e') t pid now req = Inl (RevokedToken tid)"
    using static_authorize_revoked i by blast
next
  assume "0 < token_generation t" "token_generation t \<le> below"
  then show "static_authorize (policy_run static_engine ops (static_revoke_generation e below)) t pid now req =
      Inl (RevokedToken (token_id t))"
    by (intro static_authorize_revoked static.revoked_after_run)
      (simp add: token_revoked_def static_revoke_generation_def le_max_iff_disj)
qed

theorem revocation_is_final_witness:
  "static_authorize
     (policy_run static_engine [OpIssue sample_pack ''b'' 1 1, OpRevokeGeneration 0]
        (snd (static_revoke_token sample_engine ''tok-0000000000000001'')))
     sample_token ''p'' 6 {} = Inl (RevokedToken ''tok-0000000000000001'')"
proof -
  have "static_revoke_token sample_engine ''tok-0000000000000001'' =
      (Inr (), snd (static_revoke_token sample_engine ''tok-0000000000000001''))"
    by (simp add: static_revoke_token_def sample_engine_def static_policy_engine_default_def)
  moreover have "token_id sample_token = ''tok-0000000000000001''"
    by (simp add: sample_token_def)
  ultimately show ?thesis
    using revocation_is_final by blast
qed

text \<open>
  Token ids are unique: whatever calls an engine serves, the tokens it issues carry pairwise
  different ids, as long as it issues fewer than \<open>2 ^ 64\<close> of them.
\<close>

theorem issued_token_ids_unique:
  "length (issued_tokens ops e) < 2 ^ 64 \<Longrightarrow> distinct (map token_id (issued_tokens ops e))"
  by (rule issued_token_ids_distinct)

theorem issued_token_ids_unique_witness:
  "distinct (map token_id (issued_tokens
     [OpIssue sample_pack ''a'' 5 10, OpRevokeGeneration 7, OpIssue sample_pack ''a'' 5 10]
     static_policy_engine_default))"
  by (rule issued_token_ids_unique) (simp add: issue_token_result)

text \<open>
  At the end of its range \<open>revoke_generation\<close> breaks the promise of its comment ("newly
  issued tokens won't be immediately revoked"): after \<open>revoke_generation(u64::MAX)\<close> the first
  issued token has generation 0, which no later generation revocation can reach, and the
  second one is revoked from the start.
\<close>

theorem revoke_generation_max_breaks_issue:
  assumes "static_issue_token (static_revoke_generation e (- 1)) pack agent now ttl = (Inr t1, e1)"
    and "static_issue_token e1 pack agent' now' ttl' = (Inr t2, e2)"
  shows "token_generation t1 = 0 \<and>
    static_authorize e2 t2 pid now'' req = Inl (RevokedToken (token_id t2))"
proof
  have max: "max (g :: u64) (- 1) = - 1" for g
    by (simp add: max_def word_order.extremum_unique)
  show "token_generation t1 = 0"
    using assms(1) by (auto simp: issue_token_result static_revoke_generation_def max)
  show "static_authorize e2 t2 pid now'' req = Inl (RevokedToken (token_id t2))"
    using assms
    by (intro static_authorize_revoked)
      (auto simp: issue_token_result static_revoke_generation_def token_revoked_def max)
qed

theorem revoke_generation_max_breaks_issue_witness:
  "static_authorize
     (snd (static_issue_token (snd (static_issue_token
        (static_revoke_generation static_policy_engine_default (- 1)) sample_pack ''a'' 1 9))
        sample_pack ''b'' 2 9))
     (token_generation_update (\<lambda>_. 1) (token_id_update (\<lambda>_. ''tok-0000000000000002'')
       (sample_token\<lparr>token_agent_id := ''b'', token_issued_at_epoch_s := 2, token_expires_at_epoch_s := 11\<rparr>)))
     ''p'' 3 {} = Inl (RevokedToken ''tok-0000000000000002'')"
proof -
  let ?e1 = "snd (static_issue_token (static_revoke_generation static_policy_engine_default (- 1))
      sample_pack ''a'' 1 9)"
  let ?t2 = "token_generation_update (\<lambda>_. 1) (token_id_update (\<lambda>_. ''tok-0000000000000002'')
       (sample_token\<lparr>token_agent_id := ''b'', token_issued_at_epoch_s := 2, token_expires_at_epoch_s := 11\<rparr>))"
  have 1: "static_issue_token (static_revoke_generation static_policy_engine_default (- 1)) sample_pack ''a'' 1 9
      = (Inr (sample_token\<lparr>token_generation := 0, token_issued_at_epoch_s := 1, token_expires_at_epoch_s := 10\<rparr>), ?e1)"
    by (simp add: issue_token_result sample_pack_def sample_token_def static_revoke_generation_def
        static_policy_engine_default_def hex16_def u64_saturating_add_def upt_rec max_def)
  have 2: "static_issue_token ?e1 sample_pack ''b'' 2 9 = (Inr ?t2, snd (static_issue_token ?e1 sample_pack ''b'' 2 9))"
    by (simp add: issue_token_result sample_pack_def sample_token_def static_revoke_generation_def
        static_policy_engine_default_def hex16_def u64_saturating_add_def upt_rec max_def)
  show ?thesis
    using revoke_generation_max_breaks_issue [OF 1 2, of "''p''" 3 "{}"] by simp
qed

end
