(* ===== verification/Audit_Sinks.thy ===== *)
theory Audit_Sinks
  imports Policy_Engine
begin

text \<open>
  Audit events (crates/contracts/src/audit_types.rs) and the sinks that need no file
  (crates/kernel/src/audit.rs): the trait \<open>AuditSink\<close>, the no-op sink, the in-memory sink
  behind its mutex, and the fan-out sink, which records in every child in order and stops at
  the first error. A sink is a function on the state \<open>'s\<close> of the outside world, so that
  several children can share state as \<open>Arc\<close> lets them.
\<close>

section \<open>Audit events\<close>

datatype execution_plane =
    Connector
  | Runtime
  | Tool
  | Memory

datatype plane_tier =
    Legacy
  | Core
  | Extension

datatype audit_event_kind =
    TokenIssued
      (ti_token: capability_token)
  | TokenRevoked
      (tr_token_id: string)
  | TaskDispatched
      (td_pack_id: string) (td_task_id: string) (td_route: execution_route)
      (td_required_capabilities: "capability list")
  | ConnectorInvoked
      (ci_pack_id: string) (ci_connector_name: string) (ci_operation: string)
      (ci_required_capabilities: "capability list")
  | PlaneInvoked
      (pi_pack_id: string) (pi_plane: execution_plane) (pi_tier: plane_tier)
      (pi_primary_adapter: string) (pi_delegated_core_adapter: "string option")
      (pi_operation: string) (pi_required_capabilities: "capability list")
  | SecurityScanEvaluated
      (ss_pack_id: string) (ss_scanned_plugins: usize) (ss_total_findings: usize)
      (ss_high_findings: usize) (ss_medium_findings: usize) (ss_low_findings: usize)
      (ss_blocked: bool) (ss_block_reason: "string option") (ss_categories: "string list")
      (ss_finding_ids: "string list")
  | PluginTrustEvaluated
      (pt_pack_id: string) (pt_scanned_plugins: usize) (pt_official_plugins: usize)
      (pt_verified_community_plugins: usize) (pt_unverified_plugins: usize)
      (pt_high_risk_plugins: usize) (pt_high_risk_unverified_plugins: usize)
      (pt_blocked_auto_apply_plugins: usize) (pt_review_required_plugin_ids: "string list")
      (pt_review_required_bridges: "string list")
  | ToolSearchEvaluated
      (ts_pack_id: string) (ts_query: string) (ts_returned: usize) (ts_trust_filter_applied: bool)
      (ts_query_requested_tiers: "string list") (ts_structured_requested_tiers: "string list")
      (ts_effective_tiers: "string list") (ts_conflicting_requested_tiers: bool)
      (ts_filtered_out_candidates: usize) (ts_filtered_out_tier_counts: "(string, usize) btree")
      (ts_top_provider_ids: "string list")
  | ProviderFailover
      (pf_pack_id: string) (pf_provider_id: string) (pf_reason: string) (pf_stage: string)
      (pf_model: string) (pf_attempt: usize) (pf_max_attempts: usize)
      (pf_status_code: "16 word option") (pf_request_id: "string option") (pf_cf_ray: "string option")
      (pf_auth_error: "string option") (pf_auth_error_code: "string option")
      (pf_try_next_model: bool) (pf_auto_model_mode: bool) (pf_candidate_index: usize)
      (pf_candidate_count: usize)
  | AuthorizationDenied
      (ad_pack_id: string) (ad_token_id: string) (ad_reason: string)

record audit_event =
  event_id :: string
  event_timestamp_epoch_s :: u64
  event_agent_id :: "string option"
  event_kind :: audit_event_kind

section \<open>Sinks\<close>

type_synonym 's audit_sink = "'s \<Rightarrow> audit_event \<Rightarrow> (audit_error + unit) \<times> 's"

definition noop_record :: "'s audit_sink" where
  "noop_record s event = (Inr (), s)"

type_synonym in_memory_sink = "audit_event list mutex"

definition in_memory_snapshot :: "in_memory_sink \<Rightarrow> audit_event list" where
  "in_memory_snapshot s = (if mutex_poisoned s then [] else mutex_value s)"

definition in_memory_record :: "in_memory_sink audit_sink" where
  "in_memory_record s event =
     (if mutex_poisoned s then (Inl (Sink ''audit mutex poisoned''), s)
      else (Inr (), s\<lparr>mutex_value := mutex_value s @ [event]\<rparr>))"

text \<open>\<open>FanoutAuditSink::new\<close> asserts that there is a child; \<open>None\<close> is that panic.\<close>

definition fanout_new :: "'s audit_sink list \<Rightarrow> 's audit_sink list option" where
  "fanout_new children = (if children = [] then None else Some children)"

primrec record_each :: "'s audit_sink list \<Rightarrow> 's audit_sink" where
  "record_each [] s event = (Inr (), s)"
| "record_each (sink # rest) s event =
     (case sink s event of (Inl e, s') \<Rightarrow> (Inl e, s') | (Inr _, s') \<Rightarrow> record_each rest s' event)"

definition fanout_record :: "'s audit_sink list \<Rightarrow> 's audit_sink" where
  "fanout_record children s event =
     (if children = [] then (Inr (), s)
      else (case record_each (butlast children) s event of
              (Inl e, s') \<Rightarrow> (Inl e, s')
            | (Inr _, s') \<Rightarrow> (case last children s' event of
                (Inl e, s'') \<Rightarrow> (Inl e, s'')
              | (Inr _, s'') \<Rightarrow> (Inr (), s''))))"

lemma record_each_append:
  "record_each (xs @ ys) s event =
    (case record_each xs s event of (Inl e, s') \<Rightarrow> (Inl e, s') | (Inr _, s') \<Rightarrow> record_each ys s' event)"
  by (induction xs arbitrary: s) (auto split: prod.splits sum.splits)

lemma fanout_record_each: "fanout_record children s event = record_each children s event"
proof (cases children rule: rev_cases)
  case Nil
  then show ?thesis by (simp add: fanout_record_def)
next
  case (snoc rest sink)
  then show ?thesis
    by (simp add: fanout_record_def record_each_append split: prod.split sum.split)
qed

lemma in_memory_record_snapshot:
  "in_memory_record s event = (Inr (), s') \<Longrightarrow> in_memory_snapshot s' = in_memory_snapshot s @ [event]"
  by (auto simp: in_memory_record_def in_memory_snapshot_def split: if_splits)

end
