(* ===== verification/Kernel_Core.thy ===== *)
theory Kernel_Core
  imports Execution_Planes Audit_Sinks
begin

text \<open>
  The kernel (crates/kernel/src/kernel.rs) and the policy extension chain (policy_ext.rs). The
  record \<open>loong_kernel\<close> has the fields of \<open>LoongKernel<P>\<close>; the generic engine and the audit
  sink are a dictionary of methods and the state they work on, and \<open>k_world\<close> is the state of
  everything the adapters touch. Methods on \<open>&self\<close> thread the record. The clock reading of a
  call is its argument \<open>now\<close>. The policy parameters of a tool call, a JSON object with two
  members, are the record \<open>tool_policy_params\<close>.
\<close>

section \<open>The policy extension chain\<close>

record 'v tool_policy_params =
  tpp_tool_name :: string
  tpp_payload :: 'v

record 'v policy_extension_context =
  pec_pack :: pack_manifest
  pec_token :: capability_token
  pec_now_epoch_s :: u64
  pec_required_capabilities :: "capability set"
  pec_request_parameters :: "'v tool_policy_params option"

record 'v policy_extension =
  policy_extension_name :: string
  authorize_extension :: "'v policy_extension_context \<Rightarrow> policy_error + unit"

definition chain_register :: "'v policy_extension \<Rightarrow> 'v policy_extension list \<Rightarrow> 'v policy_extension list" where
  "chain_register e chain = chain @ [e]"

definition chain_authorize :: "'v policy_extension list \<Rightarrow> 'v policy_extension_context \<Rightarrow> policy_error + unit" where
  "chain_authorize chain context = try_all (\<lambda>e. authorize_extension e context) chain"

section \<open>The kernel\<close>

record 'v kernel_dispatch =
  kd_adapter_route :: execution_route
  kd_outcome :: "'v harness_outcome"

record 'v connector_dispatch =
  cd_connector_name :: string
  cd_outcome :: "'v connector_outcome"

record plane_invocation_record =
  pir_timestamp_epoch_s :: u64
  pir_agent_id :: string
  pir_pack_id :: string
  pir_plane :: execution_plane
  pir_tier :: plane_tier
  pir_primary_adapter :: string
  pir_delegated_core_adapter :: "string option"
  pir_operation :: string
  pir_required_capabilities :: "capability set"

record ('p, 's, 'w, 'v) loong_kernel =
  k_policy_methods :: "'p policy_engine"
  k_policy :: 'p
  k_packs :: "(string, pack_manifest) btree"
  k_namespaces :: "(string, namespace) btree"
  k_harness :: "('w, 'v) harness_broker"
  k_connector_plane :: "('w, 'v) connector_plane"
  k_runtime_plane :: "('w, 'v) runtime_plane"
  k_tool_plane :: "('w, 'v) tool_plane"
  k_memory_plane :: "('w, 'v) memory_plane"
  k_policy_extensions :: "'v policy_extension list"
  k_audit_record :: "'s audit_sink"
  k_audit :: 's
  k_event_seq :: u64
  k_world :: 'w

definition kernel_with_runtime ::
  "'p policy_engine \<Rightarrow> 'p \<Rightarrow> 's audit_sink \<Rightarrow> 's \<Rightarrow> 'w \<Rightarrow> ('p, 's, 'w, 'v) loong_kernel" where
  "kernel_with_runtime methods policy sink audit world =
     \<lparr>k_policy_methods = methods, k_policy = policy, k_packs = [], k_namespaces = [],
      k_harness = harness_broker_new, k_connector_plane = connector_plane_new,
      k_runtime_plane = runtime_plane_new, k_tool_plane = tool_plane_new,
      k_memory_plane = memory_plane_new, k_policy_extensions = [], k_audit_record = sink,
      k_audit = audit, k_event_seq = 0, k_world = world\<rparr>"

definition kernel_new_with_in_memory_audit ::
  "'p policy_engine \<Rightarrow> 'p \<Rightarrow> 'w \<Rightarrow> ('p, in_memory_sink, 'w, 'v) loong_kernel" where
  "kernel_new_with_in_memory_audit methods policy world =
     kernel_with_runtime methods policy in_memory_record
       \<lparr>mutex_poisoned = False, mutex_value = []\<rparr> world"

definition kernel_new_without_audit ::
  "'p policy_engine \<Rightarrow> 'p \<Rightarrow> 'w \<Rightarrow> ('p, unit, 'w, 'v) loong_kernel" where
  "kernel_new_without_audit methods policy world = kernel_with_runtime methods policy noop_record () world"

section \<open>Registration\<close>

definition kernel_register_pack ::
  "(string \<Rightarrow> bool) \<Rightarrow> ('p, 's, 'w, 'v) loong_kernel \<Rightarrow> pack_manifest \<Rightarrow>
   (kernel_error + unit) \<times> ('p, 's, 'w, 'v) loong_kernel" where
  "kernel_register_pack semver_ok k pack =
     (case pack_validate semver_ok pack of
        Inl e \<Rightarrow> (Inl (kernel_error.Pack e), k)
      | Inr _ \<Rightarrow>
          if bt_contains_key (k_packs k) (pack_id pack) then (Inl (DuplicatePack (pack_id pack)), k)
          else
            let namespace = \<lparr>ns_pack_id = pack_id pack, ns_domain = pack_domain pack,
                  ns_membrane = pack_id pack, ns_default_route = pack_default_route pack,
                  ns_granted_capabilities = pack_granted_capabilities pack\<rparr>
            in (Inr (), k\<lparr>k_namespaces := bt_insert (pack_id pack) namespace (k_namespaces k),
                          k_packs := bt_insert (pack_id pack) pack (k_packs k)\<rparr>))"

definition kernel_get_namespace :: "('p, 's, 'w, 'v) loong_kernel \<Rightarrow> string \<Rightarrow> namespace option" where
  "kernel_get_namespace k pid = bt_get (k_namespaces k) pid"

definition kernel_register_policy_extension ::
  "'v policy_extension \<Rightarrow> ('p, 's, 'w, 'v) loong_kernel \<Rightarrow> ('p, 's, 'w, 'v) loong_kernel" where
  "kernel_register_policy_extension e k = k\<lparr>k_policy_extensions := chain_register e (k_policy_extensions k)\<rparr>"

definition kernel_register_harness_adapter ::
  "('w, 'v) harness_adapter \<Rightarrow> ('p, 's, 'w, 'v) loong_kernel \<Rightarrow> ('p, 's, 'w, 'v) loong_kernel" where
  "kernel_register_harness_adapter a k = k\<lparr>k_harness := harness_register a (k_harness k)\<rparr>"

definition kernel_register_core_connector_adapter ::
  "('w, 'v) core_connector_adapter \<Rightarrow> ('p, 's, 'w, 'v) loong_kernel \<Rightarrow> ('p, 's, 'w, 'v) loong_kernel" where
  "kernel_register_core_connector_adapter a k = k\<lparr>k_connector_plane := connector_register_core_adapter a (k_connector_plane k)\<rparr>"

definition kernel_register_connector_extension_adapter ::
  "('w, 'v) connector_extension_adapter \<Rightarrow> ('p, 's, 'w, 'v) loong_kernel \<Rightarrow> ('p, 's, 'w, 'v) loong_kernel" where
  "kernel_register_connector_extension_adapter a k =
     k\<lparr>k_connector_plane := connector_register_extension_adapter a (k_connector_plane k)\<rparr>"

definition kernel_set_default_core_connector_adapter ::
  "('p, 's, 'w, 'v) loong_kernel \<Rightarrow> string \<Rightarrow> (kernel_error + unit) \<times> ('p, 's, 'w, 'v) loong_kernel" where
  "kernel_set_default_core_connector_adapter k name =
     (case connector_set_default_core_adapter (k_connector_plane k) name of
        Inl e \<Rightarrow> (Inl (kernel_error.Connector e), k)
      | Inr plane \<Rightarrow> (Inr (), k\<lparr>k_connector_plane := plane\<rparr>))"

definition kernel_register_core_runtime_adapter ::
  "('w, 'v) core_runtime_adapter \<Rightarrow> ('p, 's, 'w, 'v) loong_kernel \<Rightarrow> ('p, 's, 'w, 'v) loong_kernel" where
  "kernel_register_core_runtime_adapter a k = k\<lparr>k_runtime_plane := runtime_register_core_adapter a (k_runtime_plane k)\<rparr>"

definition kernel_register_runtime_extension_adapter ::
  "('w, 'v) runtime_extension_adapter \<Rightarrow> ('p, 's, 'w, 'v) loong_kernel \<Rightarrow> ('p, 's, 'w, 'v) loong_kernel" where
  "kernel_register_runtime_extension_adapter a k =
     k\<lparr>k_runtime_plane := runtime_register_extension_adapter a (k_runtime_plane k)\<rparr>"

definition kernel_set_default_core_runtime_adapter ::
  "('p, 's, 'w, 'v) loong_kernel \<Rightarrow> string \<Rightarrow> (kernel_error + unit) \<times> ('p, 's, 'w, 'v) loong_kernel" where
  "kernel_set_default_core_runtime_adapter k name =
     (case runtime_set_default_core_adapter (k_runtime_plane k) name of
        Inl e \<Rightarrow> (Inl (kernel_error.RuntimePlane e), k)
      | Inr plane \<Rightarrow> (Inr (), k\<lparr>k_runtime_plane := plane\<rparr>))"

definition kernel_register_core_tool_adapter ::
  "('w, 'v) core_tool_adapter \<Rightarrow> ('p, 's, 'w, 'v) loong_kernel \<Rightarrow> ('p, 's, 'w, 'v) loong_kernel" where
  "kernel_register_core_tool_adapter a k = k\<lparr>k_tool_plane := tool_register_core_adapter a (k_tool_plane k)\<rparr>"

definition kernel_register_tool_extension_adapter ::
  "('w, 'v) tool_extension_adapter \<Rightarrow> ('p, 's, 'w, 'v) loong_kernel \<Rightarrow> ('p, 's, 'w, 'v) loong_kernel" where
  "kernel_register_tool_extension_adapter a k =
     k\<lparr>k_tool_plane := tool_register_extension_adapter a (k_tool_plane k)\<rparr>"

definition kernel_set_default_core_tool_adapter ::
  "('p, 's, 'w, 'v) loong_kernel \<Rightarrow> string \<Rightarrow> (kernel_error + unit) \<times> ('p, 's, 'w, 'v) loong_kernel" where
  "kernel_set_default_core_tool_adapter k name =
     (case tool_set_default_core_adapter (k_tool_plane k) name of
        Inl e \<Rightarrow> (Inl (kernel_error.ToolPlane e), k)
      | Inr plane \<Rightarrow> (Inr (), k\<lparr>k_tool_plane := plane\<rparr>))"

definition kernel_register_core_memory_adapter ::
  "('w, 'v) core_memory_adapter \<Rightarrow> ('p, 's, 'w, 'v) loong_kernel \<Rightarrow> ('p, 's, 'w, 'v) loong_kernel" where
  "kernel_register_core_memory_adapter a k = k\<lparr>k_memory_plane := memory_register_core_adapter a (k_memory_plane k)\<rparr>"

definition kernel_register_memory_extension_adapter ::
  "('w, 'v) memory_extension_adapter \<Rightarrow> ('p, 's, 'w, 'v) loong_kernel \<Rightarrow> ('p, 's, 'w, 'v) loong_kernel" where
  "kernel_register_memory_extension_adapter a k =
     k\<lparr>k_memory_plane := memory_register_extension_adapter a (k_memory_plane k)\<rparr>"

definition kernel_set_default_core_memory_adapter ::
  "('p, 's, 'w, 'v) loong_kernel \<Rightarrow> string \<Rightarrow> (kernel_error + unit) \<times> ('p, 's, 'w, 'v) loong_kernel" where
  "kernel_set_default_core_memory_adapter k name =
     (case memory_set_default_core_adapter (k_memory_plane k) name of
        Inl e \<Rightarrow> (Inl (kernel_error.MemoryPlane e), k)
      | Inr plane \<Rightarrow> (Inr (), k\<lparr>k_memory_plane := plane\<rparr>))"

section \<open>Events\<close>

definition kernel_new_event ::
  "('p, 's, 'w, 'v) loong_kernel \<Rightarrow> u64 \<Rightarrow> string option \<Rightarrow> audit_event_kind \<Rightarrow>
   audit_event \<times> ('p, 's, 'w, 'v) loong_kernel" where
  "kernel_new_event k timestamp agent kind =
     (let seq = k_event_seq k + 1
      in (\<lparr>event_id = ''evt-'' @ hex16 seq, event_timestamp_epoch_s = timestamp,
           event_agent_id = agent, event_kind = kind\<rparr>,
          k\<lparr>k_event_seq := k_event_seq k + 1\<rparr>))"

text \<open>\<open>self.audit.record(self.new_event(..))?\<close>\<close>

definition kernel_emit ::
  "('p, 's, 'w, 'v) loong_kernel \<Rightarrow> u64 \<Rightarrow> string option \<Rightarrow> audit_event_kind \<Rightarrow>
   (kernel_error + unit) \<times> ('p, 's, 'w, 'v) loong_kernel" where
  "kernel_emit k timestamp agent kind =
     (let (event, k1) = kernel_new_event k timestamp agent kind;
          (result, audit) = k_audit_record k1 (k_audit k1) event
      in (map_err kernel_error.Audit result, k1\<lparr>k_audit := audit\<rparr>))"

definition kernel_record_plane_invocation ::
  "('p, 's, 'w, 'v) loong_kernel \<Rightarrow> plane_invocation_record \<Rightarrow>
   (kernel_error + unit) \<times> ('p, 's, 'w, 'v) loong_kernel" where
  "kernel_record_plane_invocation k r =
     kernel_emit k (pir_timestamp_epoch_s r) (Some (pir_agent_id r))
       (PlaneInvoked (pir_pack_id r) (pir_plane r) (pir_tier r) (pir_primary_adapter r)
          (pir_delegated_core_adapter r) (pir_operation r) (caps_in_order (pir_required_capabilities r)))"

definition kernel_record_audit_event ::
  "('p, 's, 'w, 'v) loong_kernel \<Rightarrow> u64 \<Rightarrow> string option \<Rightarrow> audit_event_kind \<Rightarrow>
   (kernel_error + unit) \<times> ('p, 's, 'w, 'v) loong_kernel" where
  "kernel_record_audit_event k now agent kind = kernel_emit k now agent kind"

section \<open>Tokens\<close>

definition kernel_get_pack :: "('p, 's, 'w, 'v) loong_kernel \<Rightarrow> string \<Rightarrow> kernel_error + pack_manifest" where
  "kernel_get_pack k pid =
     (case bt_get (k_packs k) pid of None \<Rightarrow> Inl (PackNotFound pid) | Some pack \<Rightarrow> Inr pack)"

definition assert_pack_grants :: "pack_manifest \<Rightarrow> capability set \<Rightarrow> kernel_error + unit" where
  "assert_pack_grants pack required =
     try_all (\<lambda>c. if \<not> pack_grants pack c then Inl (PackCapabilityBoundary (pack_id pack) c) else Inr ())
       (caps_in_order required)"

definition assert_connector_allowed :: "pack_manifest \<Rightarrow> string \<Rightarrow> kernel_error + unit" where
  "assert_connector_allowed pack connector =
     (if \<not> pack_allows_connector pack connector
      then Inl (ConnectorNotAllowed connector (pack_id pack)) else Inr ())"

definition policy_issue ::
  "('p, 's, 'w, 'v) loong_kernel \<Rightarrow> pack_manifest \<Rightarrow> string \<Rightarrow> u64 \<Rightarrow> u64 \<Rightarrow>
   (kernel_error + capability_token) \<times> ('p, 's, 'w, 'v) loong_kernel" where
  "policy_issue k pack agent now ttl =
     (let (r, p) = pe_issue_token (k_policy_methods k) (k_policy k) pack agent now ttl
      in (map_err kernel_error.Policy r, k\<lparr>k_policy := p\<rparr>))"

definition kernel_issue_token ::
  "('p, 's, 'w, 'v) loong_kernel \<Rightarrow> u64 \<Rightarrow> string \<Rightarrow> string \<Rightarrow> u64 \<Rightarrow>
   (kernel_error + capability_token) \<times> ('p, 's, 'w, 'v) loong_kernel" where
  "kernel_issue_token k now pid agent ttl =
     and_then (kernel_get_pack k pid, k) (\<lambda>pack k.
     and_then (policy_issue k pack agent now ttl) (\<lambda>token k.
     and_then (kernel_emit k now (Some agent) (TokenIssued token)) (\<lambda>_ k.
     (Inr token, k))))"

definition kernel_issue_scoped_token ::
  "('p, 's, 'w, 'v) loong_kernel \<Rightarrow> u64 \<Rightarrow> string \<Rightarrow> string \<Rightarrow> capability set \<Rightarrow> u64 \<Rightarrow>
   (kernel_error + capability_token) \<times> ('p, 's, 'w, 'v) loong_kernel" where
  "kernel_issue_scoped_token k now pid agent allowed ttl =
     and_then (kernel_get_pack k pid, k) (\<lambda>pack k.
     and_then (assert_pack_grants pack allowed, k) (\<lambda>_ k.
     and_then (policy_issue k (pack\<lparr>pack_granted_capabilities := allowed\<rparr>) agent now ttl) (\<lambda>token k.
     and_then (kernel_emit k now (Some agent) (TokenIssued token)) (\<lambda>_ k.
     (Inr token, k)))))"

definition kernel_revoke_token ::
  "('p, 's, 'w, 'v) loong_kernel \<Rightarrow> u64 \<Rightarrow> string \<Rightarrow> string option \<Rightarrow>
   (kernel_error + unit) \<times> ('p, 's, 'w, 'v) loong_kernel" where
  "kernel_revoke_token k now tid actor =
     and_then (let (r, p) = pe_revoke_token (k_policy_methods k) (k_policy k) tid
               in (map_err kernel_error.Policy r, k\<lparr>k_policy := p\<rparr>)) (\<lambda>_ k.
     and_then (kernel_emit k now actor (TokenRevoked tid)) (\<lambda>_ k.
     (Inr (), k)))"

definition kernel_revoke_generation ::
  "('p, 's, 'w, 'v) loong_kernel \<Rightarrow> u64 \<Rightarrow> ('p, 's, 'w, 'v) loong_kernel" where
  "kernel_revoke_generation k below =
     k\<lparr>k_policy := pe_revoke_generation (k_policy_methods k) (k_policy k) below\<rparr>"

section \<open>Authorization\<close>

definition authorize_or_audit_denial ::
  "('p, 's, 'w, 'v) loong_kernel \<Rightarrow> pack_manifest \<Rightarrow> capability_token \<Rightarrow> u64 \<Rightarrow> capability set \<Rightarrow>
   'v tool_policy_params option \<Rightarrow> (kernel_error + unit) \<times> ('p, 's, 'w, 'v) loong_kernel" where
  "authorize_or_audit_denial k pack token now required params =
     (case pe_authorize (k_policy_methods k) (k_policy k) token (pack_id pack) now required of
        Inl policy_error \<Rightarrow>
          and_then (kernel_emit k now (Some (token_agent_id token))
            (AuthorizationDenied (pack_id pack) (token_id token) (policy_error_to_string policy_error))) (\<lambda>_ k.
          (Inl (kernel_error.Policy policy_error), k))
      | Inr _ \<Rightarrow>
          (case chain_authorize (k_policy_extensions k)
                  \<lparr>pec_pack = pack, pec_token = token, pec_now_epoch_s = now,
                   pec_required_capabilities = required, pec_request_parameters = params\<rparr> of
             Inl policy_error \<Rightarrow>
               and_then (kernel_emit k now (Some (token_agent_id token))
                 (AuthorizationDenied (pack_id pack) (token_id token) (policy_error_to_string policy_error))) (\<lambda>_ k.
               (Inl (kernel_error.Policy policy_error), k))
           | Inr _ \<Rightarrow> (Inr (), k)))"

definition authorize_pack_operation ::
  "('p, 's, 'w, 'v) loong_kernel \<Rightarrow> pack_manifest \<Rightarrow> capability_token \<Rightarrow> u64 \<Rightarrow> capability set \<Rightarrow>
   'v tool_policy_params option \<Rightarrow> (kernel_error + u64) \<times> ('p, 's, 'w, 'v) loong_kernel" where
  "authorize_pack_operation k pack token now required params =
     and_then (assert_pack_grants pack required, k) (\<lambda>_ k.
     and_then (authorize_or_audit_denial k pack token now required params) (\<lambda>_ k.
     (Inr now, k)))"

definition kernel_authorize_operation ::
  "('p, 's, 'w, 'v) loong_kernel \<Rightarrow> u64 \<Rightarrow> string \<Rightarrow> capability_token \<Rightarrow> execution_plane \<Rightarrow> plane_tier \<Rightarrow>
   string \<Rightarrow> string option \<Rightarrow> string \<Rightarrow> capability set \<Rightarrow>
   (kernel_error + unit) \<times> ('p, 's, 'w, 'v) loong_kernel" where
  "kernel_authorize_operation k now pid token plane tier primary delegated operation required =
     and_then (kernel_get_pack k pid, k) (\<lambda>pack k.
     and_then (authorize_pack_operation k pack token now required None) (\<lambda>now k.
     and_then (kernel_record_plane_invocation k
       \<lparr>pir_timestamp_epoch_s = now, pir_agent_id = token_agent_id token, pir_pack_id = pack_id pack,
        pir_plane = plane, pir_tier = tier, pir_primary_adapter = primary,
        pir_delegated_core_adapter = delegated, pir_operation = operation,
        pir_required_capabilities = required\<rparr>) (\<lambda>_ k.
     (Inr (), k))))"

section \<open>Dispatch\<close>

definition kernel_execute_task ::
  "('p, 's, 'w, 'v) loong_kernel \<Rightarrow> u64 \<Rightarrow> string \<Rightarrow> capability_token \<Rightarrow> 'v task_intent \<Rightarrow>
   (kernel_error + 'v kernel_dispatch) \<times> ('p, 's, 'w, 'v) loong_kernel" where
  "kernel_execute_task k now pid token task =
     and_then (kernel_get_pack k pid, k) (\<lambda>pack k.
     and_then (authorize_pack_operation k pack token now (intent_required_capabilities task) None) (\<lambda>now k.
     let request = \<lparr>hr_token_id = token_id token, hr_pack_id = pack_id pack,
           hr_agent_id = token_agent_id token, hr_task_id = intent_task_id task,
           hr_objective = intent_objective task, hr_payload = intent_payload task\<rparr>;
         route = pack_default_route pack in
     and_then (let (r, w) = harness_execute (k_harness k) (k_world k) route request
               in (map_err kernel_error.Harness r, k\<lparr>k_world := w\<rparr>)) (\<lambda>outcome k.
     and_then (kernel_emit k now (Some (token_agent_id token))
       (TaskDispatched (pack_id pack) (intent_task_id task) route
          (caps_in_order (intent_required_capabilities task)))) (\<lambda>_ k.
     (Inr \<lparr>kd_adapter_route = route, kd_outcome = outcome\<rparr>, k)))))"

text \<open>\<open>core_name.or_else(|| plane.default_core_adapter_name()).unwrap_or("default")\<close>\<close>

definition resolved_core_adapter :: "string option \<Rightarrow> string option \<Rightarrow> string" where
  "resolved_core_adapter core_name default_name =
     (case core_name of Some n \<Rightarrow> n | None \<Rightarrow> (case default_name of Some n \<Rightarrow> n | None \<Rightarrow> ''default''))"

definition kernel_execute_connector_core ::
  "('p, 's, 'w, 'v) loong_kernel \<Rightarrow> u64 \<Rightarrow> string \<Rightarrow> capability_token \<Rightarrow> string option \<Rightarrow>
   'v connector_command \<Rightarrow> (kernel_error + 'v connector_dispatch) \<times> ('p, 's, 'w, 'v) loong_kernel" where
  "kernel_execute_connector_core k now pid token core_name command =
     and_then (kernel_get_pack k pid, k) (\<lambda>pack k.
     and_then (assert_connector_allowed pack (cc_connector_name command), k) (\<lambda>_ k.
     and_then (authorize_pack_operation k pack token now (cc_required_capabilities command) None) (\<lambda>now k.
     let resolved = resolved_core_adapter core_name (connector_default_core_adapter_name (k_connector_plane k)) in
     and_then (let (r, w) = connector_invoke_core (k_connector_plane k) (k_world k) core_name command
               in (map_err kernel_error.Connector r, k\<lparr>k_world := w\<rparr>)) (\<lambda>outcome k.
     and_then (kernel_emit k now (Some (token_agent_id token))
       (ConnectorInvoked (pack_id pack) (cc_connector_name command) (cc_operation command)
          (caps_in_order (cc_required_capabilities command)))) (\<lambda>_ k.
     and_then (kernel_record_plane_invocation k
       \<lparr>pir_timestamp_epoch_s = now, pir_agent_id = token_agent_id token, pir_pack_id = pack_id pack,
        pir_plane = execution_plane.Connector, pir_tier = plane_tier.Core, pir_primary_adapter = resolved,
        pir_delegated_core_adapter = None, pir_operation = cc_operation command,
        pir_required_capabilities = cc_required_capabilities command\<rparr>) (\<lambda>_ k.
     (Inr \<lparr>cd_connector_name = cc_connector_name command, cd_outcome = outcome\<rparr>, k)))))))"

definition kernel_execute_connector_extension ::
  "('p, 's, 'w, 'v) loong_kernel \<Rightarrow> u64 \<Rightarrow> string \<Rightarrow> capability_token \<Rightarrow> string \<Rightarrow> string option \<Rightarrow>
   'v connector_command \<Rightarrow> (kernel_error + 'v connector_dispatch) \<times> ('p, 's, 'w, 'v) loong_kernel" where
  "kernel_execute_connector_extension k now pid token extension_name core_name command =
     and_then (kernel_get_pack k pid, k) (\<lambda>pack k.
     and_then (assert_connector_allowed pack (cc_connector_name command), k) (\<lambda>_ k.
     and_then (authorize_pack_operation k pack token now (cc_required_capabilities command) None) (\<lambda>now k.
     let resolved = resolved_core_adapter core_name (connector_default_core_adapter_name (k_connector_plane k)) in
     and_then (let (r, w) = connector_invoke_extension (k_connector_plane k) (k_world k) extension_name core_name command
               in (map_err kernel_error.Connector r, k\<lparr>k_world := w\<rparr>)) (\<lambda>outcome k.
     and_then (kernel_emit k now (Some (token_agent_id token))
       (ConnectorInvoked (pack_id pack) (cc_connector_name command) (cc_operation command)
          (caps_in_order (cc_required_capabilities command)))) (\<lambda>_ k.
     and_then (kernel_record_plane_invocation k
       \<lparr>pir_timestamp_epoch_s = now, pir_agent_id = token_agent_id token, pir_pack_id = pack_id pack,
        pir_plane = execution_plane.Connector, pir_tier = plane_tier.Extension, pir_primary_adapter = extension_name,
        pir_delegated_core_adapter = Some resolved, pir_operation = cc_operation command,
        pir_required_capabilities = cc_required_capabilities command\<rparr>) (\<lambda>_ k.
     (Inr \<lparr>cd_connector_name = cc_connector_name command, cd_outcome = outcome\<rparr>, k)))))))"

definition kernel_execute_runtime_core ::
  "('p, 's, 'w, 'v) loong_kernel \<Rightarrow> u64 \<Rightarrow> string \<Rightarrow> capability_token \<Rightarrow> capability set \<Rightarrow> string option \<Rightarrow>
   'v runtime_core_request \<Rightarrow> (kernel_error + 'v runtime_core_outcome) \<times> ('p, 's, 'w, 'v) loong_kernel" where
  "kernel_execute_runtime_core k now pid token required core_name request =
     and_then (kernel_get_pack k pid, k) (\<lambda>pack k.
     and_then (authorize_pack_operation k pack token now required
       None) (\<lambda>now k.
     let resolved = resolved_core_adapter core_name (runtime_default_core_adapter_name (k_runtime_plane k)) in
     and_then (let (r, w) = runtime_execute_core (k_runtime_plane k) (k_world k) core_name request
               in (map_err kernel_error.RuntimePlane r, k\<lparr>k_world := w\<rparr>)) (\<lambda>outcome k.
     and_then (kernel_record_plane_invocation k
       \<lparr>pir_timestamp_epoch_s = now, pir_agent_id = token_agent_id token, pir_pack_id = pack_id pack,
        pir_plane = execution_plane.Runtime, pir_tier = plane_tier.Core, pir_primary_adapter = resolved,
        pir_delegated_core_adapter = None, pir_operation = rpcq_action request,
        pir_required_capabilities = required\<rparr>) (\<lambda>_ k.
     (Inr outcome, k)))))"

definition kernel_execute_runtime_extension ::
  "('p, 's, 'w, 'v) loong_kernel \<Rightarrow> u64 \<Rightarrow> string \<Rightarrow> capability_token \<Rightarrow> capability set \<Rightarrow> string \<Rightarrow>
   string option \<Rightarrow> 'v runtime_extension_request \<Rightarrow>
   (kernel_error + 'v runtime_extension_outcome) \<times> ('p, 's, 'w, 'v) loong_kernel" where
  "kernel_execute_runtime_extension k now pid token required extension_name core_name request =
     and_then (kernel_get_pack k pid, k) (\<lambda>pack k.
     and_then (authorize_pack_operation k pack token now required
       None) (\<lambda>now k.
     let resolved = resolved_core_adapter core_name (runtime_default_core_adapter_name (k_runtime_plane k)) in
     and_then (let (r, w) = runtime_execute_extension (k_runtime_plane k) (k_world k) extension_name core_name request
               in (map_err kernel_error.RuntimePlane r, k\<lparr>k_world := w\<rparr>)) (\<lambda>outcome k.
     and_then (kernel_record_plane_invocation k
       \<lparr>pir_timestamp_epoch_s = now, pir_agent_id = token_agent_id token, pir_pack_id = pack_id pack,
        pir_plane = execution_plane.Runtime, pir_tier = plane_tier.Extension, pir_primary_adapter = extension_name,
        pir_delegated_core_adapter = Some resolved, pir_operation = rpxq_action request,
        pir_required_capabilities = required\<rparr>) (\<lambda>_ k.
     (Inr outcome, k)))))"

definition kernel_execute_tool_core ::
  "('p, 's, 'w, 'v) loong_kernel \<Rightarrow> u64 \<Rightarrow> string \<Rightarrow> capability_token \<Rightarrow> capability set \<Rightarrow> string option \<Rightarrow>
   'v tool_core_request \<Rightarrow> (kernel_error + 'v tool_core_outcome) \<times> ('p, 's, 'w, 'v) loong_kernel" where
  "kernel_execute_tool_core k now pid token required core_name request =
     and_then (kernel_get_pack k pid, k) (\<lambda>pack k.
     and_then (authorize_pack_operation k pack token now required
       (Some \<lparr>tpp_tool_name = tpcq_tool_name request, tpp_payload = tpcq_payload request\<rparr>)) (\<lambda>now k.
     let resolved = resolved_core_adapter core_name (tool_default_core_adapter_name (k_tool_plane k)) in
     and_then (let (r, w) = tool_execute_core (k_tool_plane k) (k_world k) core_name request
               in (map_err kernel_error.ToolPlane r, k\<lparr>k_world := w\<rparr>)) (\<lambda>outcome k.
     and_then (kernel_record_plane_invocation k
       \<lparr>pir_timestamp_epoch_s = now, pir_agent_id = token_agent_id token, pir_pack_id = pack_id pack,
        pir_plane = execution_plane.Tool, pir_tier = plane_tier.Core, pir_primary_adapter = resolved,
        pir_delegated_core_adapter = None, pir_operation = tpcq_tool_name request,
        pir_required_capabilities = required\<rparr>) (\<lambda>_ k.
     (Inr outcome, k)))))"

definition kernel_execute_tool_extension ::
  "('p, 's, 'w, 'v) loong_kernel \<Rightarrow> u64 \<Rightarrow> string \<Rightarrow> capability_token \<Rightarrow> capability set \<Rightarrow> string \<Rightarrow>
   string option \<Rightarrow> 'v tool_extension_request \<Rightarrow>
   (kernel_error + 'v tool_extension_outcome) \<times> ('p, 's, 'w, 'v) loong_kernel" where
  "kernel_execute_tool_extension k now pid token required extension_name core_name request =
     and_then (kernel_get_pack k pid, k) (\<lambda>pack k.
     and_then (authorize_pack_operation k pack token now required
       (Some \<lparr>tpp_tool_name = tpxq_extension_action request, tpp_payload = tpxq_payload request\<rparr>)) (\<lambda>now k.
     let resolved = resolved_core_adapter core_name (tool_default_core_adapter_name (k_tool_plane k)) in
     and_then (let (r, w) = tool_execute_extension (k_tool_plane k) (k_world k) extension_name core_name request
               in (map_err kernel_error.ToolPlane r, k\<lparr>k_world := w\<rparr>)) (\<lambda>outcome k.
     and_then (kernel_record_plane_invocation k
       \<lparr>pir_timestamp_epoch_s = now, pir_agent_id = token_agent_id token, pir_pack_id = pack_id pack,
        pir_plane = execution_plane.Tool, pir_tier = plane_tier.Extension, pir_primary_adapter = extension_name,
        pir_delegated_core_adapter = Some resolved, pir_operation = tpxq_extension_action request,
        pir_required_capabilities = required\<rparr>) (\<lambda>_ k.
     (Inr outcome, k)))))"

definition kernel_execute_memory_core ::
  "('p, 's, 'w, 'v) loong_kernel \<Rightarrow> u64 \<Rightarrow> string \<Rightarrow> capability_token \<Rightarrow> capability set \<Rightarrow> string option \<Rightarrow>
   'v memory_core_request \<Rightarrow> (kernel_error + 'v memory_core_outcome) \<times> ('p, 's, 'w, 'v) loong_kernel" where
  "kernel_execute_memory_core k now pid token required core_name request =
     and_then (kernel_get_pack k pid, k) (\<lambda>pack k.
     and_then (authorize_pack_operation k pack token now required
       None) (\<lambda>now k.
     let resolved = resolved_core_adapter core_name (memory_default_core_adapter_name (k_memory_plane k)) in
     and_then (let (r, w) = memory_execute_core (k_memory_plane k) (k_world k) core_name request
               in (map_err kernel_error.MemoryPlane r, k\<lparr>k_world := w\<rparr>)) (\<lambda>outcome k.
     and_then (kernel_record_plane_invocation k
       \<lparr>pir_timestamp_epoch_s = now, pir_agent_id = token_agent_id token, pir_pack_id = pack_id pack,
        pir_plane = execution_plane.Memory, pir_tier = plane_tier.Core, pir_primary_adapter = resolved,
        pir_delegated_core_adapter = None, pir_operation = mpcq_operation request,
        pir_required_capabilities = required\<rparr>) (\<lambda>_ k.
     (Inr outcome, k)))))"

definition kernel_execute_memory_extension ::
  "('p, 's, 'w, 'v) loong_kernel \<Rightarrow> u64 \<Rightarrow> string \<Rightarrow> capability_token \<Rightarrow> capability set \<Rightarrow> string \<Rightarrow>
   string option \<Rightarrow> 'v memory_extension_request \<Rightarrow>
   (kernel_error + 'v memory_extension_outcome) \<times> ('p, 's, 'w, 'v) loong_kernel" where
  "kernel_execute_memory_extension k now pid token required extension_name core_name request =
     and_then (kernel_get_pack k pid, k) (\<lambda>pack k.
     and_then (authorize_pack_operation k pack token now required
       None) (\<lambda>now k.
     let resolved = resolved_core_adapter core_name (memory_default_core_adapter_name (k_memory_plane k)) in
     and_then (let (r, w) = memory_execute_extension (k_memory_plane k) (k_world k) extension_name core_name request
               in (map_err kernel_error.MemoryPlane r, k\<lparr>k_world := w\<rparr>)) (\<lambda>outcome k.
     and_then (kernel_record_plane_invocation k
       \<lparr>pir_timestamp_epoch_s = now, pir_agent_id = token_agent_id token, pir_pack_id = pack_id pack,
        pir_plane = execution_plane.Memory, pir_tier = plane_tier.Extension, pir_primary_adapter = extension_name,
        pir_delegated_core_adapter = Some resolved, pir_operation = mpxq_operation request,
        pir_required_capabilities = required\<rparr>) (\<lambda>_ k.
     (Inr outcome, k)))))"

end
