(* ===== verification/Kernel_Calls.thy ===== *)
theory Kernel_Calls
  imports Kernel_Core
begin

text \<open>
  The calls a client can make on a frozen \<open>Kernel<P>\<close> (the second half of
  crates/kernel/src/kernel.rs, with the two methods it reaches through \<open>Deref\<close>), one call as a
  step of the kernel, and what every step keeps: the configuration, the
  packs, the numbering of audit events, and the policy engine's contract.
\<close>

datatype 'v kernel_call =
    IssueToken string string u64
  | IssueScopedToken string string "capability set" u64
  | RevokeToken string "string option"
  | RevokeGeneration u64
  | RecordAuditEvent "string option" audit_event_kind
  | AuthorizeOperation string capability_token execution_plane plane_tier string "string option" string
      "capability set"
  | ExecuteTask string capability_token "'v task_intent"
  | ExecuteConnectorCore string capability_token "string option" "'v connector_command"
  | ExecuteConnectorExtension string capability_token string "string option" "'v connector_command"
  | ExecuteRuntimeCore string capability_token "capability set" "string option" "'v runtime_core_request"
  | ExecuteRuntimeExtension string capability_token "capability set" string "string option"
      "'v runtime_extension_request"
  | ExecuteToolCore string capability_token "capability set" "string option" "'v tool_core_request"
  | ExecuteToolExtension string capability_token "capability set" string "string option"
      "'v tool_extension_request"
  | ExecuteMemoryCore string capability_token "capability set" "string option" "'v memory_core_request"
  | ExecuteMemoryExtension string capability_token "capability set" string "string option"
      "'v memory_extension_request"

datatype 'v kernel_reply =
    TokenReply capability_token
  | UnitReply
  | TaskReply "'v kernel_dispatch"
  | ConnectorReply "'v connector_dispatch"
  | RuntimeCoreReply "'v runtime_core_outcome"
  | RuntimeExtensionReply "'v runtime_extension_outcome"
  | ToolCoreReply "'v tool_core_outcome"
  | ToolExtensionReply "'v tool_extension_outcome"
  | MemoryCoreReply "'v memory_core_outcome"
  | MemoryExtensionReply "'v memory_extension_outcome"

definition reply :: "('a \<Rightarrow> 'v kernel_reply) \<Rightarrow> (kernel_error + 'a) \<times> 'k \<Rightarrow> (kernel_error + 'v kernel_reply) \<times> 'k" where
  "reply f r = and_then r (\<lambda>x k. (Inr (f x), k))"

primrec kernel_step ::
  "('p, 's, 'w, 'v) loong_kernel \<Rightarrow> u64 \<Rightarrow> 'v kernel_call \<Rightarrow>
   (kernel_error + 'v kernel_reply) \<times> ('p, 's, 'w, 'v) loong_kernel" where
  "kernel_step k now (IssueToken pid agent ttl) = reply TokenReply (kernel_issue_token k now pid agent ttl)"
| "kernel_step k now (IssueScopedToken pid agent allowed ttl) =
     reply TokenReply (kernel_issue_scoped_token k now pid agent allowed ttl)"
| "kernel_step k now (RevokeToken tid actor) = reply (\<lambda>_. UnitReply) (kernel_revoke_token k now tid actor)"
| "kernel_step k now (RevokeGeneration below) = (Inr UnitReply, kernel_revoke_generation k below)"
| "kernel_step k now (RecordAuditEvent agent kind) =
     reply (\<lambda>_. UnitReply) (kernel_record_audit_event k now agent kind)"
| "kernel_step k now (AuthorizeOperation pid token plane tier primary delegated operation required) =
     reply (\<lambda>_. UnitReply)
       (kernel_authorize_operation k now pid token plane tier primary delegated operation required)"
| "kernel_step k now (ExecuteTask pid token task) = reply TaskReply (kernel_execute_task k now pid token task)"
| "kernel_step k now (ExecuteConnectorCore pid token core command) =
     reply ConnectorReply (kernel_execute_connector_core k now pid token core command)"
| "kernel_step k now (ExecuteConnectorExtension pid token ext core command) =
     reply ConnectorReply (kernel_execute_connector_extension k now pid token ext core command)"
| "kernel_step k now (ExecuteRuntimeCore pid token required core request) =
     reply RuntimeCoreReply (kernel_execute_runtime_core k now pid token required core request)"
| "kernel_step k now (ExecuteRuntimeExtension pid token required ext core request) =
     reply RuntimeExtensionReply (kernel_execute_runtime_extension k now pid token required ext core request)"
| "kernel_step k now (ExecuteToolCore pid token required core request) =
     reply ToolCoreReply (kernel_execute_tool_core k now pid token required core request)"
| "kernel_step k now (ExecuteToolExtension pid token required ext core request) =
     reply ToolExtensionReply (kernel_execute_tool_extension k now pid token required ext core request)"
| "kernel_step k now (ExecuteMemoryCore pid token required core request) =
     reply MemoryCoreReply (kernel_execute_memory_core k now pid token required core request)"
| "kernel_step k now (ExecuteMemoryExtension pid token required ext core request) =
     reply MemoryExtensionReply (kernel_execute_memory_extension k now pid token required ext core request)"

text \<open>A run is a sequence of calls with the clock reading of each.\<close>

definition kernel_run ::
  "('p, 's, 'w, 'v) loong_kernel \<Rightarrow> (u64 \<times> 'v kernel_call) list \<Rightarrow> ('p, 's, 'w, 'v) loong_kernel" where
  "kernel_run k calls = fold (\<lambda>(now, call) k. snd (kernel_step k now call)) calls k"

lemmas kernel_call_defs =
  kernel_issue_token_def kernel_issue_scoped_token_def kernel_revoke_token_def
  kernel_revoke_generation_def kernel_record_audit_event_def kernel_authorize_operation_def
  kernel_execute_task_def kernel_execute_connector_core_def kernel_execute_connector_extension_def
  kernel_execute_runtime_core_def kernel_execute_runtime_extension_def kernel_execute_tool_core_def
  kernel_execute_tool_extension_def kernel_execute_memory_core_def kernel_execute_memory_extension_def

section \<open>Lifting invariants over calls\<close>

text \<open>A predicate on kernels that events, the policy engine and adapters keep is kept by every
  call: the operations are sequences of such steps.\<close>

definition call_stable :: "(('p, 's, 'w, 'v) loong_kernel \<Rightarrow> bool) \<Rightarrow> bool" where
  "call_stable P \<longleftrightarrow>
     (\<forall>k now agent kind. P k \<longrightarrow> P (snd (kernel_emit k now agent kind))) \<and>
     (\<forall>k w. P k \<longrightarrow> P (k\<lparr>k_world := w\<rparr>)) \<and>
     (\<forall>k op. P k \<longrightarrow> P (k\<lparr>k_policy := policy_op_run (k_policy_methods k) op (k_policy k)\<rparr>))"

lemma call_stable_emit: "call_stable P \<Longrightarrow> P k \<Longrightarrow> P (snd (kernel_emit k now agent kind))"
  by (simp add: call_stable_def)

lemma call_stable_world: "call_stable P \<Longrightarrow> P k \<Longrightarrow> P (k\<lparr>k_world := w\<rparr>)"
  by (simp add: call_stable_def)

lemma call_stable_op:
  "call_stable P \<Longrightarrow> P k \<Longrightarrow> P (k\<lparr>k_policy := policy_op_run (k_policy_methods k) op (k_policy k)\<rparr>)"
  by (simp add: call_stable_def)

lemma and_then_stable:
  "P (snd r) \<Longrightarrow> (\<And>x k. P k \<Longrightarrow> P (snd (f x k))) \<Longrightarrow> P (snd (and_then r f))"
  by (cases r; cases "fst r") auto

lemma adapter_stable:
  "call_stable P \<Longrightarrow> P k \<Longrightarrow> P (snd (let (r, w) = x in (g r, k\<lparr>k_world := w\<rparr>)))"
  by (simp add: call_stable_world split: prod.split)

lemma policy_issue_stable: "call_stable P \<Longrightarrow> P k \<Longrightarrow> P (snd (policy_issue k pack agent now ttl))"
  using call_stable_op [of P k "OpIssue pack agent now ttl"]
  by (simp add: policy_issue_def case_prod_beta)

lemma policy_revoke_stable:
  "call_stable P \<Longrightarrow> P k \<Longrightarrow>
    P (k\<lparr>k_policy := snd (pe_revoke_token (k_policy_methods k) (k_policy k) tid)\<rparr>)"
  using call_stable_op [of P k "OpRevoke tid"] by simp

lemma emit_error_stable:
  "call_stable P \<Longrightarrow> P k \<Longrightarrow> P (snd (and_then (kernel_emit k now agent kind) (\<lambda>_ k. (Inl e, k))))"
  by (rule and_then_stable [of P]) (simp_all add: call_stable_emit)

lemma authorize_stable:
  assumes "call_stable P" and "P k"
  shows "P (snd (authorize_pack_operation k pack token now required params))"
proof -
  have "P (snd (authorize_or_audit_denial k pack token now required params))"
    using assms by (simp add: authorize_or_audit_denial_def emit_error_stable split: sum.split)
  then show ?thesis
    unfolding authorize_pack_operation_def
    by (cases "assert_pack_grants pack required") (simp_all add: assms(2) and_then_stable [of P])
qed

lemma record_plane_stable: "call_stable P \<Longrightarrow> P k \<Longrightarrow> P (snd (kernel_record_plane_invocation k r))"
  by (simp add: kernel_record_plane_invocation_def call_stable_emit)

lemma reply_stable: "P (snd r) \<Longrightarrow> P (snd (reply f r))"
  unfolding reply_def by (rule and_then_stable) simp_all

lemma kernel_operations_stable:
  assumes "call_stable P" and "P k"
  shows "P (snd (kernel_issue_token k now pid agent ttl))"
    and "P (snd (kernel_issue_scoped_token k now pid agent allowed ttl))"
    and "P (snd (kernel_revoke_token k now tid actor))"
    and "P (snd (kernel_authorize_operation k now pid token plane tier primary delegated operation required))"
    and "P (snd (kernel_execute_task k now pid token task))"
    and "P (snd (kernel_execute_connector_core k now pid token core command))"
    and "P (snd (kernel_execute_connector_extension k now pid token ext core command))"
    and "P (snd (kernel_execute_runtime_core k now pid token required core runtime_request))"
    and "P (snd (kernel_execute_tool_core k now pid token required core tool_request))"
    and "P (snd (kernel_execute_memory_core k now pid token required core memory_request))"
    and "P (snd (kernel_execute_runtime_extension k now pid token required ext core runtime_ext_request))"
    and "P (snd (kernel_execute_tool_extension k now pid token required ext core tool_ext_request))"
    and "P (snd (kernel_execute_memory_extension k now pid token required ext core memory_ext_request))"
  using assms unfolding kernel_call_defs Let_def
  by (intro and_then_stable [of P]; simp add: policy_issue_stable policy_revoke_stable
      authorize_stable record_plane_stable call_stable_emit call_stable_world case_prod_beta)+

lemma kernel_step_stable:
  assumes P: "call_stable P" and k: "P k"
  shows "P (snd (kernel_step k now call))"
proof (cases call)
  case (RevokeGeneration below)
  then show ?thesis
    using call_stable_op [OF P k, of "OpRevokeGeneration below"] by (simp add: kernel_revoke_generation_def)
qed (simp_all add: reply_stable [of P] kernel_operations_stable [OF P k] kernel_record_audit_event_def
    call_stable_emit [OF P k])

lemma kernel_run_stable:
  assumes "call_stable P" and "P k"
  shows "P (kernel_run k calls)"
  using assms(2) unfolding kernel_run_def
  by (induction calls arbitrary: k) (auto simp: kernel_step_stable [OF assms(1)])

end
