(* ===== verification/Kernel_Safety.thy ===== *)
theory Kernel_Safety
  imports Kernel_Calls
begin

text \<open>
  What the kernel guarantees: no adapter runs without authorization, a revoked token stays
  useless, the audit trail of every governed call, unique event ids, scoped tokens, the
  agreement of packs and namespaces, and what happens when the audit sink fails.
\<close>

section \<open>Authorization\<close>

text \<open>The pack, token, capabilities and policy parameters a call is governed by.\<close>

primrec governance ::
  "'v kernel_call \<Rightarrow> (string \<times> capability_token \<times> capability set \<times> 'v tool_policy_params option) option" where
  "governance (IssueToken pid agent ttl) = None"
| "governance (IssueScopedToken pid agent allowed ttl) = None"
| "governance (RevokeToken tid actor) = None"
| "governance (RevokeGeneration below) = None"
| "governance (RecordAuditEvent agent kind) = None"
| "governance (AuthorizeOperation pid token plane tier primary delegated operation required) =
     Some (pid, token, required, None)"
| "governance (ExecuteTask pid token task) = Some (pid, token, intent_required_capabilities task, None)"
| "governance (ExecuteConnectorCore pid token core command) =
     Some (pid, token, cc_required_capabilities command, None)"
| "governance (ExecuteConnectorExtension pid token ext core command) =
     Some (pid, token, cc_required_capabilities command, None)"
| "governance (ExecuteRuntimeCore pid token required core request) = Some (pid, token, required, None)"
| "governance (ExecuteRuntimeExtension pid token required ext core request) = Some (pid, token, required, None)"
| "governance (ExecuteToolCore pid token required core request) =
     Some (pid, token, required, Some \<lparr>tpp_tool_name = tpcq_tool_name request, tpp_payload = tpcq_payload request\<rparr>)"
| "governance (ExecuteToolExtension pid token required ext core request) =
     Some (pid, token, required,
       Some \<lparr>tpp_tool_name = tpxq_extension_action request, tpp_payload = tpxq_payload request\<rparr>)"
| "governance (ExecuteMemoryCore pid token required core request) = Some (pid, token, required, None)"
| "governance (ExecuteMemoryExtension pid token required ext core request) = Some (pid, token, required, None)"

definition operation_authorized ::
  "('p, 's, 'w, 'v) loong_kernel \<Rightarrow> u64 \<Rightarrow> pack_manifest \<Rightarrow> capability_token \<Rightarrow> capability set \<Rightarrow>
   'v tool_policy_params option \<Rightarrow> bool" where
  "operation_authorized k now pack token required params \<longleftrightarrow>
     required \<subseteq> pack_granted_capabilities pack \<and>
     pe_authorize (k_policy_methods k) (k_policy k) token (pack_id pack) now required = Inr () \<and>
     (\<forall>e \<in> set (k_policy_extensions k). authorize_extension e
        \<lparr>pec_pack = pack, pec_token = token, pec_now_epoch_s = now,
         pec_required_capabilities = required, pec_request_parameters = params\<rparr> = Inr ())"

lemma assert_pack_grants_Ok:
  "assert_pack_grants pack required = Inr () \<longleftrightarrow> required \<subseteq> pack_granted_capabilities pack"
  by (auto simp: assert_pack_grants_def pack_grants_def split: if_splits)

lemma sum_unit_cases: "(\<And>e. r = Inl e \<Longrightarrow> Q) \<Longrightarrow> (r = Inr () \<Longrightarrow> Q) \<Longrightarrow> Q"
  by (cases r) auto

lemma authorize_pack_operation_Ok:
  assumes "operation_authorized k now pack token required params"
  shows "authorize_pack_operation k pack token now required params = (Inr now, k)"
proof -
  have "assert_pack_grants pack required = Inr ()"
    using assms by (simp add: operation_authorized_def assert_pack_grants_Ok)
  moreover have "chain_authorize (k_policy_extensions k)
      \<lparr>pec_pack = pack, pec_token = token, pec_now_epoch_s = now,
       pec_required_capabilities = required, pec_request_parameters = params\<rparr> = Inr ()"
    using assms by (simp add: operation_authorized_def chain_authorize_def)
  moreover have "pe_authorize (k_policy_methods k) (k_policy k) token (pack_id pack) now required = Inr ()"
    using assms by (simp add: operation_authorized_def)
  ultimately show ?thesis
    by (simp add: authorize_pack_operation_def authorize_or_audit_denial_def)
qed

text \<open>A denied operation ends in an error and touches nothing but the audit trail.\<close>

definition audit_only :: "('p, 's, 'w, 'v) loong_kernel \<Rightarrow> ('p, 's, 'w, 'v) loong_kernel \<Rightarrow> bool" where
  "audit_only k k' \<longleftrightarrow> (\<exists>a q. k' = k\<lparr>k_audit := a, k_event_seq := q\<rparr>)"

lemma audit_only_refl [simp]: "audit_only k k"
  unfolding audit_only_def by (intro exI [of _ "k_audit k"] exI [of _ "k_event_seq k"]) simp

lemma audit_only_emit: "audit_only k (snd (kernel_emit k now agent kind))"
  by (cases k) (auto simp: audit_only_def kernel_emit_def kernel_new_event_def Let_def case_prod_beta)

lemma emit_denial:
  "\<exists>e k'. and_then (kernel_emit k now agent kind) (\<lambda>_ k. (Inl x, k)) = (Inl e, k') \<and> audit_only k k'"
  using audit_only_emit [of k now agent kind]
  by (cases "kernel_emit k now agent kind"; cases "fst (kernel_emit k now agent kind)") auto

lemma authorize_pack_operation_Err:
  assumes "\<not> operation_authorized k now pack token required params"
  obtains e k' where "authorize_pack_operation k pack token now required params = (Inl e, k')" "audit_only k k'"
proof (cases "required \<subseteq> pack_granted_capabilities pack")
  case False
  then have "assert_pack_grants pack required \<noteq> Inr ()" by (simp add: assert_pack_grants_Ok)
  then obtain e where "assert_pack_grants pack required = Inl e"
    by (cases "assert_pack_grants pack required") auto
  then show thesis
    by (intro that [of e k]) (simp_all add: authorize_pack_operation_def)
next
  case True
  let ?ctx = "\<lparr>pec_pack = pack, pec_token = token, pec_now_epoch_s = now,
       pec_required_capabilities = required, pec_request_parameters = params\<rparr>"
  have "assert_pack_grants pack required = Inr ()" using True by (simp add: assert_pack_grants_Ok)
  then have auth: "authorize_pack_operation k pack token now required params =
      and_then (authorize_or_audit_denial k pack token now required params) (\<lambda>_ k. (Inr now, k))"
    by (simp add: authorize_pack_operation_def)
  have "\<exists>e k'. authorize_or_audit_denial k pack token now required params = (Inl e, k') \<and> audit_only k k'"
  proof (cases "pe_authorize (k_policy_methods k) (k_policy k) token (pack_id pack) now required")
    case (Inl e)
    then show ?thesis using emit_denial by (simp add: authorize_or_audit_denial_def)
  next
    case (Inr u)
    with True assms have "chain_authorize (k_policy_extensions k) ?ctx \<noteq> Inr ()"
      by (auto simp: operation_authorized_def chain_authorize_def)
    then obtain e where "chain_authorize (k_policy_extensions k) ?ctx = Inl e"
      by (cases "chain_authorize (k_policy_extensions k) ?ctx") auto
    with Inr show ?thesis using emit_denial by (simp add: authorize_or_audit_denial_def)
  qed
  then show thesis using that auth by auto
qed

lemma kernel_get_pack_cases:
  obtains (Missing) "bt_get (k_packs k) pid = None" "kernel_get_pack k pid = Inl (PackNotFound pid)"
    | (Found) pack where "bt_get (k_packs k) pid = Some pack" "kernel_get_pack k pid = Inr pack"
  by (cases "bt_get (k_packs k) pid") (simp_all add: kernel_get_pack_def)

text \<open>The three ways a governed call can go: no pack, denied, or authorized.\<close>

lemma ungoverned_calls_keep_world:
  "governance call = None \<Longrightarrow> k_world (snd (kernel_step k now call)) = k_world k"
proof -
  have emit: "k_world (snd (kernel_emit k now agent kind)) = k_world k" for k :: "('p, 's, 'w, 'v) loong_kernel" and agent kind
    using audit_only_emit [of k now agent kind] by (auto simp: audit_only_def)
  have tail: "k_world (snd (and_then (kernel_emit k now agent kind) (\<lambda>_ k. (Inr x, k)))) = k_world k"
    for k :: "('p, 's, 'w, 'v) loong_kernel" and agent kind x
    using emit [of k agent kind] by (cases "kernel_emit k now agent kind"; cases "fst (kernel_emit k now agent kind)") auto
  assume "governance call = None"
  then show ?thesis
    by (cases call)
      (auto simp: reply_def kernel_call_defs policy_issue_def emit and_then_def Let_def kernel_get_pack_def
        case_prod_beta split: sum.splits option.splits)
qed


text \<open>What a governed call does when it is denied, and when it is authorized: with an in-memory
  reading of the code, the operation starts from the unchanged kernel.\<close>

definition denied_call :: "('p, 's, 'w, 'v) loong_kernel \<Rightarrow> u64 \<Rightarrow> 'v kernel_call \<Rightarrow> bool" where
  "denied_call k now call \<longleftrightarrow>
     (case governance call of
        None \<Rightarrow> False
      | Some (pid, token, required, params) \<Rightarrow>
          (case bt_get (k_packs k) pid of
             None \<Rightarrow> True
           | Some pack \<Rightarrow> \<not> operation_authorized k now pack token required params))"

lemma denied_call_outcome:
  assumes "denied_call k now call"
  shows "\<exists>e k'. kernel_step k now call = (Inl e, k') \<and> audit_only k k'"
proof -
  from assms obtain pid token required params where g: "governance call = Some (pid, token, required, params)"
    by (auto simp: denied_call_def split: option.splits)
  show ?thesis
  proof (cases rule: kernel_get_pack_cases [of k pid])
    case Missing
    then have "\<exists>e. kernel_step k now call = (Inl e, k)"
      using g by (cases call) (auto simp: reply_def kernel_call_defs)
    then show ?thesis by auto
  next
    case (Found pack)
    with assms g have "\<not> operation_authorized k now pack token required params"
      by (simp add: denied_call_def)
    then obtain e k' where "authorize_pack_operation k pack token now required params = (Inl e, k')" "audit_only k k'"
      by (rule authorize_pack_operation_Err)
    with Found g show ?thesis
      by (cases call) (auto simp: reply_def kernel_call_defs assert_connector_allowed_def)
  qed
qed

lemma world_changes_only_when_authorized:
  assumes "k_world (snd (kernel_step k now call)) \<noteq> k_world k"
  obtains pid token required params pack where "governance call = Some (pid, token, required, params)"
    "bt_get (k_packs k) pid = Some pack" "operation_authorized k now pack token required params"
proof -
  have "governance call \<noteq> None" using assms ungoverned_calls_keep_world by blast
  then obtain pid token required params where g: "governance call = Some (pid, token, required, params)" by auto
  have "\<not> denied_call k now call"
    using denied_call_outcome [of k now call] assms by (auto simp: audit_only_def)
  with g that show thesis by (auto simp: denied_call_def split: option.splits)
qed

section \<open>Any engine that keeps the contract\<close>

context policy_contract
begin

lemma authorized_token_facts:
  "k_policy_methods k = E \<Longrightarrow> operation_authorized k now pack token required params \<Longrightarrow>
    \<not> revoked (k_policy k) token \<and> token_pack_id token = pack_id pack \<and>
    now \<le> token_expires_at_epoch_s token \<and> required \<subseteq> token_allowed_capabilities token \<and>
    required \<subseteq> pack_granted_capabilities pack"
  using authorize_sound by (fastforce simp: operation_authorized_def)

lemma revoked_token_denied:
  assumes "k_policy_methods k = E" and "revoked (k_policy k) token"
    and "governance call = Some (pid, token, required, params)"
  shows "\<exists>e k'. kernel_step k now call = (Inl e, k') \<and> audit_only k k'"
proof (rule denied_call_outcome)
  show "denied_call k now call"
    using assms authorized_token_facts [OF assms(1), of now _ token required params]
    by (auto simp: denied_call_def split: option.split)
qed

lemma revocation_stable:
  "call_stable (\<lambda>k. k_policy_methods k = E \<and> revoked (k_policy k) token)"
  by (auto simp: call_stable_def kernel_emit_def kernel_new_event_def Let_def revoked_after_op split: prod.split)

lemma revoked_token_denied_after_run:
  assumes "k_policy_methods k = E" and "revoked (k_policy k) token"
    and "governance call = Some (pid, token, required, params)"
  shows "\<exists>e k'. kernel_step (kernel_run k calls) now call = (Inl e, k') \<and> audit_only (kernel_run k calls) k'"
  using kernel_run_stable [OF revocation_stable, of k token calls] assms revoked_token_denied by blast

end

section \<open>The audit trail\<close>

text \<open>A kernel whose sink is the in-memory one, with its mutex intact.\<close>

definition in_memory_audit :: "('p, in_memory_sink, 'w, 'v) loong_kernel \<Rightarrow> bool" where
  "in_memory_audit k \<longleftrightarrow> k_audit_record k = in_memory_record \<and> \<not> mutex_poisoned (k_audit k)"

definition audit_events :: "('p, in_memory_sink, 'w, 'v) loong_kernel \<Rightarrow> audit_event list" where
  "audit_events k = in_memory_snapshot (k_audit k)"

definition emitted ::
  "('p, in_memory_sink, 'w, 'v) loong_kernel \<Rightarrow> u64 \<Rightarrow> string option \<Rightarrow> audit_event_kind \<Rightarrow>
   ('p, in_memory_sink, 'w, 'v) loong_kernel" where
  "emitted k now agent kind =
     k\<lparr>k_event_seq := k_event_seq k + 1,
       k_audit := (k_audit k)\<lparr>mutex_value := mutex_value (k_audit k) @
         [\<lparr>event_id = ''evt-'' @ hex16 (k_event_seq k + 1), event_timestamp_epoch_s = now,
           event_agent_id = agent, event_kind = kind\<rparr>]\<rparr>\<rparr>"

lemma kernel_emit_in_memory:
  "in_memory_audit k \<Longrightarrow> kernel_emit k now agent kind = (Inr (), emitted k now agent kind)"
  by (simp add: kernel_emit_def kernel_new_event_def in_memory_audit_def in_memory_record_def Let_def emitted_def)

lemma emitted_simps [simp]:
  "in_memory_audit (emitted k now agent kind) = in_memory_audit k"
  "k_world (emitted k now agent kind) = k_world k"
  by (simp_all add: emitted_def in_memory_audit_def)

lemma in_memory_audit_world [simp]: "in_memory_audit (k\<lparr>k_world := w\<rparr>) = in_memory_audit k"
  by (simp add: in_memory_audit_def)

lemma in_memory_audit_policy [simp]: "in_memory_audit (k\<lparr>k_policy := p\<rparr>) = in_memory_audit k"
  by (simp add: in_memory_audit_def)

lemma audit_events_world [simp]: "audit_events (k\<lparr>k_world := w\<rparr>) = audit_events k"
  by (simp add: audit_events_def)

definition event_content :: "audit_event \<Rightarrow> u64 \<times> string option \<times> audit_event_kind" where
  "event_content e = (event_timestamp_epoch_s e, event_agent_id e, event_kind e)"

lemma audit_events_emitted:
  "in_memory_audit k \<Longrightarrow>
    map event_content (audit_events (emitted k now agent kind)) =
      map event_content (audit_events k) @ [(now, agent, kind)]"
  by (simp add: audit_events_def emitted_def in_memory_snapshot_def in_memory_audit_def event_content_def)

text \<open>The verdict of the policy engine and the extensions.\<close>

definition policy_verdict ::
  "('p, 's, 'w, 'v) loong_kernel \<Rightarrow> u64 \<Rightarrow> pack_manifest \<Rightarrow> capability_token \<Rightarrow> capability set \<Rightarrow>
   'v tool_policy_params option \<Rightarrow> policy_error + unit" where
  "policy_verdict k now pack token required params =
     try_bind (pe_authorize (k_policy_methods k) (k_policy k) token (pack_id pack) now required) (\<lambda>_.
       chain_authorize (k_policy_extensions k)
         \<lparr>pec_pack = pack, pec_token = token, pec_now_epoch_s = now,
          pec_required_capabilities = required, pec_request_parameters = params\<rparr>)"

lemma authorize_in_memory:
  assumes "in_memory_audit k"
  shows "authorize_pack_operation k pack token now required params =
    (case assert_pack_grants pack required of
       Inl e \<Rightarrow> (Inl e, k)
     | Inr _ \<Rightarrow>
         (case policy_verdict k now pack token required params of
            Inl e \<Rightarrow> (Inl (kernel_error.Policy e),
              emitted k now (Some (token_agent_id token))
                (AuthorizationDenied (pack_id pack) (token_id token) (policy_error_to_string e)))
          | Inr _ \<Rightarrow> (Inr now, k)))"
  by (simp add: authorize_pack_operation_def authorize_or_audit_denial_def policy_verdict_def
      kernel_emit_in_memory [OF assms] split: sum.split)

text \<open>The events of a governed call that succeeds.\<close>

definition plane_invoked ::
  "string \<Rightarrow> execution_plane \<Rightarrow> plane_tier \<Rightarrow> string \<Rightarrow> string option \<Rightarrow> string \<Rightarrow> capability set \<Rightarrow>
   audit_event_kind" where
  "plane_invoked pid plane tier primary delegated operation required =
     PlaneInvoked pid plane tier primary delegated operation (caps_in_order required)"

fun success_events :: "('p, 's, 'w, 'v) loong_kernel \<Rightarrow> pack_manifest \<Rightarrow> 'v kernel_call \<Rightarrow> audit_event_kind list" where
  "success_events k pack (AuthorizeOperation _ _ plane tier primary delegated operation required) =
     [plane_invoked (pack_id pack) plane tier primary delegated operation required]"
| "success_events k pack (ExecuteTask _ _ task) =
     [TaskDispatched (pack_id pack) (intent_task_id task) (pack_default_route pack)
        (caps_in_order (intent_required_capabilities task))]"
| "success_events k pack (ExecuteConnectorCore _ _ core command) =
     [ConnectorInvoked (pack_id pack) (cc_connector_name command) (cc_operation command)
        (caps_in_order (cc_required_capabilities command)),
      plane_invoked (pack_id pack) execution_plane.Connector plane_tier.Core
        (resolved_core_adapter core (connector_default_core_adapter_name (k_connector_plane k))) None
        (cc_operation command) (cc_required_capabilities command)]"
| "success_events k pack (ExecuteConnectorExtension _ _ ext core command) =
     [ConnectorInvoked (pack_id pack) (cc_connector_name command) (cc_operation command)
        (caps_in_order (cc_required_capabilities command)),
      plane_invoked (pack_id pack) execution_plane.Connector plane_tier.Extension ext
        (Some (resolved_core_adapter core (connector_default_core_adapter_name (k_connector_plane k))))
        (cc_operation command) (cc_required_capabilities command)]"
| "success_events k pack (ExecuteRuntimeCore _ _ required core request) =
     [plane_invoked (pack_id pack) execution_plane.Runtime plane_tier.Core
        (resolved_core_adapter core (runtime_default_core_adapter_name (k_runtime_plane k))) None
        (rpcq_action request) required]"
| "success_events k pack (ExecuteRuntimeExtension _ _ required ext core request) =
     [plane_invoked (pack_id pack) execution_plane.Runtime plane_tier.Extension ext
        (Some (resolved_core_adapter core (runtime_default_core_adapter_name (k_runtime_plane k))))
        (rpxq_action request) required]"
| "success_events k pack (ExecuteToolCore _ _ required core request) =
     [plane_invoked (pack_id pack) execution_plane.Tool plane_tier.Core
        (resolved_core_adapter core (tool_default_core_adapter_name (k_tool_plane k))) None
        (tpcq_tool_name request) required]"
| "success_events k pack (ExecuteToolExtension _ _ required ext core request) =
     [plane_invoked (pack_id pack) execution_plane.Tool plane_tier.Extension ext
        (Some (resolved_core_adapter core (tool_default_core_adapter_name (k_tool_plane k))))
        (tpxq_extension_action request) required]"
| "success_events k pack (ExecuteMemoryCore _ _ required core request) =
     [plane_invoked (pack_id pack) execution_plane.Memory plane_tier.Core
        (resolved_core_adapter core (memory_default_core_adapter_name (k_memory_plane k))) None
        (mpcq_operation request) required]"
| "success_events k pack (ExecuteMemoryExtension _ _ required ext core request) =
     [plane_invoked (pack_id pack) execution_plane.Memory plane_tier.Extension ext
        (Some (resolved_core_adapter core (memory_default_core_adapter_name (k_memory_plane k))))
        (mpxq_operation request) required]"
| "success_events k pack _ = []"

text \<open>The events a governed call leaves, given its result.\<close>

definition expected_events ::
  "('p, 's, 'w, 'v) loong_kernel \<Rightarrow> pack_manifest \<Rightarrow> capability_token \<Rightarrow> 'v kernel_call \<Rightarrow>
   kernel_error + 'v kernel_reply \<Rightarrow> audit_event_kind list" where
  "expected_events k pack token call r =
     (case r of
        Inr _ \<Rightarrow> success_events k pack call
      | Inl e \<Rightarrow> (case e of
          kernel_error.Policy pe \<Rightarrow>
            [AuthorizationDenied (pack_id pack) (token_id token) (policy_error_to_string pe)]
        | _ \<Rightarrow> []))"

lemma assert_pack_grants_no_policy: "assert_pack_grants pack required \<noteq> Inl (kernel_error.Policy e)"
  unfolding assert_pack_grants_def by (auto elim!: try_all_ErrE split: if_splits)

lemma expected_events_simps [simp]:
  "expected_events k pack token call (Inr x) = success_events k pack call"
  "expected_events k pack token call (Inl (kernel_error.Policy pe)) =
    [AuthorizationDenied (pack_id pack) (token_id token) (policy_error_to_string pe)]"
  "expected_events k pack token call (Inl (ConnectorNotAllowed c p)) = []"
  "expected_events k pack token call (Inl (kernel_error.Harness he)) = []"
  "expected_events k pack token call (Inl (kernel_error.Connector ce)) = []"
  "expected_events k pack token call (Inl (kernel_error.RuntimePlane re)) = []"
  "expected_events k pack token call (Inl (kernel_error.ToolPlane te)) = []"
  "expected_events k pack token call (Inl (kernel_error.MemoryPlane me)) = []"
  by (simp_all add: expected_events_def)

lemma expected_events_boundary:
  "assert_pack_grants pack required = Inl e \<Longrightarrow> expected_events k pack token call (Inl e) = []"
  using assert_pack_grants_no_policy [of pack required]
  by (cases e) (simp_all add: expected_events_def)

lemma governed_call_events:
  assumes mem: "in_memory_audit k" and pack: "bt_get (k_packs k) pid = Some pack"
    and gov: "governance call = Some (pid, token, required, params)"
    and step: "kernel_step k now call = (r, k')"
  shows "map event_content (audit_events k') = map event_content (audit_events k) @
    map (\<lambda>kind. (now, Some (token_agent_id token), kind)) (expected_events k pack token call r)"
proof -
  have get: "kernel_get_pack k pid = Inr pack"
    using pack by (simp add: kernel_get_pack_def)
  note rules = reply_def kernel_call_defs get authorize_in_memory [OF mem] kernel_emit_in_memory
    kernel_record_plane_invocation_def audit_events_emitted Let_def assert_connector_allowed_def
    plane_invoked_def
  show ?thesis
  proof (cases "assert_pack_grants pack required")
    case (Inl e)
    then show ?thesis
      using gov step expected_events_boundary [OF Inl]
      by (cases call) (auto simp: rules split: if_splits)
  next
    case (Inr u)
    then show ?thesis
      using gov step mem
      by (cases call; cases "policy_verdict k now pack token required params")
        (auto simp: rules map_err_def split: if_splits sum.splits prod.splits)
  qed
qed

end
