(* ===== verification/Kernel_Properties.thy ===== *)
theory Kernel_Properties
  imports Kernel_Safety
begin

text \<open>
  The properties of the kernel and of its execution planes, each with an example on a small
  kernel: one pack, the static policy engine, the in-memory audit sink, and a runtime adapter
  that counts its runs.
\<close>

section \<open>An example kernel\<close>

definition counting_adapter :: "(nat, unit) core_runtime_adapter" where
  "counting_adapter =
     \<lparr>core_runtime_name = ''counter'',
      execute_core_runtime = (\<lambda>w request. (Inr \<lparr>rpco_status = ''ok'', rpco_payload = ()\<rparr>, w + 1))\<rparr>"

definition example_kernel :: "(static_policy_engine, in_memory_sink, nat, unit) loong_kernel" where
  "example_kernel =
     kernel_register_core_runtime_adapter counting_adapter
       (snd (kernel_register_pack (\<lambda>_. True)
         (kernel_new_with_in_memory_audit static_engine static_policy_engine_default 0) sample_pack))"

definition example_call :: "unit kernel_call" where
  "example_call =
     ExecuteRuntimeCore ''p'' sample_token {InvokeTool} None \<lparr>rpcq_action = ''tick'', rpcq_payload = ()\<rparr>"

lemma example_kernel_eq:
  "example_kernel =
    (kernel_with_runtime static_engine static_policy_engine_default in_memory_record
       \<lparr>mutex_poisoned = False, mutex_value = []\<rparr> 0)
    \<lparr>k_packs := [(''p'', sample_pack)],
     k_namespaces := [(''p'', \<lparr>ns_pack_id = ''p'', ns_domain = ''d'', ns_membrane = ''p'',
       ns_default_route = pack_default_route sample_pack, ns_granted_capabilities = {InvokeTool}\<rparr>)],
     k_runtime_plane := \<lparr>rp_core_adapters = [(''counter'', counting_adapter)],
       rp_extension_adapters = [], rp_default_core_adapter = Some ''counter''\<rparr>\<rparr>"
proof -
  have "pack_validate (\<lambda>_. True) sample_pack = Inr ()"
    by code_simp
  then show ?thesis
    by (simp add: example_kernel_def kernel_new_with_in_memory_audit_def kernel_register_pack_def
        kernel_register_core_runtime_adapter_def kernel_with_runtime_def bt_contains_key_def sample_pack_def
        runtime_register_core_adapter_def runtime_plane_new_def counting_adapter_def Let_def)
qed

lemma example_kernel_simps [simp]:
  "k_policy_methods example_kernel = static_engine"
  "k_policy example_kernel = static_policy_engine_default"
  "bt_get (k_packs example_kernel) ''p'' = Some sample_pack"
  "k_world example_kernel = 0"
  "k_policy_extensions example_kernel = []"
  "in_memory_audit example_kernel"
  "audit_events example_kernel = []"
  "k_event_seq example_kernel = 0"
  by (simp_all add: example_kernel_eq kernel_with_runtime_def in_memory_audit_def audit_events_def
      in_memory_snapshot_def)

lemma example_authorized:
  "authorize_pack_operation example_kernel sample_pack sample_token 6 {InvokeTool} None = (Inr 6, example_kernel)"
proof (rule authorize_pack_operation_Ok)
  have "static_authorize static_policy_engine_default sample_token ''p'' 6 {InvokeTool} = Inr ()"
    by (simp add: static_authorize_Ok token_revoked_def static_policy_engine_default_def sample_token_def)
  then show "operation_authorized example_kernel 6 sample_pack sample_token {InvokeTool} None"
    by (simp add: operation_authorized_def static_engine_def sample_pack_def)
qed

lemma example_run:
  "kernel_step example_kernel 6 example_call =
    (Inr (RuntimeCoreReply \<lparr>rpco_status = ''ok'', rpco_payload = ()\<rparr>),
     emitted (example_kernel\<lparr>k_world := 1\<rparr>) 6 (Some ''a'')
       (PlaneInvoked ''p'' execution_plane.Runtime plane_tier.Core ''counter'' None ''tick'' [InvokeTool]))"
proof -
  have "runtime_execute_core (k_runtime_plane example_kernel) 0 None \<lparr>rpcq_action = ''tick'', rpcq_payload = ()\<rparr> =
      (Inr \<lparr>rpco_status = ''ok'', rpco_payload = ()\<rparr>, 1)"
    by (simp add: example_kernel_eq kernel_with_runtime_def runtime_execute_core_def counting_adapter_def)
  moreover have "runtime_default_core_adapter_name (k_runtime_plane example_kernel) = Some ''counter''"
    by (simp add: example_kernel_eq kernel_with_runtime_def runtime_default_core_adapter_name_def)
  moreover have "caps_in_order {InvokeTool} = [InvokeTool]" and "pack_id sample_pack = ''p''"
    and "token_agent_id sample_token = ''a''"
    by (simp_all add: caps_in_order_def all_capabilities_def sample_pack_def sample_token_def)
  ultimately show ?thesis
    by (simp add: example_call_def reply_def kernel_execute_runtime_core_def kernel_get_pack_def
        example_authorized resolved_core_adapter_def kernel_record_plane_invocation_def kernel_emit_in_memory)
qed

section \<open>Authorization\<close>

text \<open>
  C1. No adapter runs without authorization: a call on a kernel with the static policy engine
  changes the world only if it is a governed call whose pack is registered and grants every
  required capability, whose token belongs to that pack, is neither revoked nor expired, and
  carries every required capability, and which every policy extension accepts.
\<close>

theorem adapters_run_only_when_authorized:
  assumes "k_policy_methods k = static_engine"
    and "k_world (snd (kernel_step k now call)) \<noteq> k_world k"
  shows "\<exists>pid token required params pack. governance call = Some (pid, token, required, params) \<and>
    bt_get (k_packs k) pid = Some pack \<and> token_pack_id token = pack_id pack \<and>
    \<not> token_revoked (k_policy k) token \<and> now \<le> token_expires_at_epoch_s token \<and>
    required \<subseteq> token_allowed_capabilities token \<and> required \<subseteq> pack_granted_capabilities pack \<and>
    (\<forall>e \<in> set (k_policy_extensions k). authorize_extension e
      \<lparr>pec_pack = pack, pec_token = token, pec_now_epoch_s = now,
       pec_required_capabilities = required, pec_request_parameters = params\<rparr> = Inr ())"
proof -
  obtain pid token required params pack where call: "governance call = Some (pid, token, required, params)"
    "bt_get (k_packs k) pid = Some pack" "operation_authorized k now pack token required params"
    by (rule world_changes_only_when_authorized [OF assms(2)])
  with static.authorized_token_facts [OF assms(1) call(3)] show ?thesis
    by (auto simp: operation_authorized_def)
qed

theorem adapters_run_only_when_authorized_witness:
  "\<exists>pid token required params. governance example_call = Some (pid, token, required, params) \<and>
    \<not> token_revoked static_policy_engine_default token \<and> 6 \<le> token_expires_at_epoch_s token"
proof -
  have "k_world (snd (kernel_step example_kernel 6 example_call)) \<noteq> k_world example_kernel"
    by (simp add: example_run)
  from adapters_run_only_when_authorized [OF _ this] show ?thesis
    by auto
qed

text \<open>
  C18. Revoking a token disarms it for good: once \<open>revoke_token\<close> was called for its id, even if the
  revocation could not be audited, no sequence of kernel calls makes a governed call with that
  token succeed or reach an adapter.
\<close>

theorem revoked_token_never_works_again:
  assumes "k_policy_methods k = static_engine"
    and "governance call = Some (pid, token, required, params)" and "token_id token = tid"
  shows "\<exists>e k'. kernel_step (kernel_run (snd (kernel_step k t (RevokeToken tid actor))) calls) now call = (Inl e, k') \<and>
    k_world k' = k_world (kernel_run (snd (kernel_step k t (RevokeToken tid actor))) calls)"
proof -
  let ?k = "snd (kernel_step k t (RevokeToken tid actor))"
  let ?p = "snd (static_revoke_token (k_policy k) tid)"
  have emit: "k_policy (snd (kernel_emit h now actor kind)) = k_policy h \<and>
      k_policy_methods (snd (kernel_emit h now actor kind)) = k_policy_methods h"
    for h :: "(static_policy_engine, 'a, 'b, 'c) loong_kernel" and now actor kind
    by (simp add: kernel_emit_def kernel_new_event_def Let_def case_prod_beta)
  have "k_policy ?k = ?p \<and> k_policy_methods ?k = static_engine"
    using assms(1) emit
    by (auto simp: reply_def kernel_revoke_token_def and_then_def static_engine_def case_prod_beta
        map_err_def split: sum.splits)
  moreover have "token_revoked ?p token"
    using assms(3) by (auto simp: static_revoke_token_def token_revoked_def)
  ultimately show ?thesis
    using static.revoked_token_denied_after_run [of ?k token call pid required params calls now] assms(2)
    by (auto simp: audit_only_def)
qed

theorem revoked_token_never_works_again_witness:
  "\<exists>e. fst (kernel_step (kernel_run
      (snd (kernel_step example_kernel 7 (RevokeToken ''tok-0000000000000001'' None)))
      [(8, IssueToken ''p'' ''a'' 10), (9, RevokeGeneration 3)]) 10 example_call) = Inl e"
  using revoked_token_never_works_again
    [of example_kernel example_call "''p''" sample_token "{InvokeTool}" None "''tok-0000000000000001''"
      7 None "[(8, IssueToken ''p'' ''a'' 10), (9, RevokeGeneration 3)]" 10]
  by (force simp: example_call_def sample_token_def)

text \<open>
  C21. A scoped token stays in its scope: \<open>issue_scoped_token\<close> succeeds only if the pack grants the
  whole scope, the token carries exactly that scope, for that pack and agent, and a governed
  call that needs a capability outside the scope is denied on every kernel.
\<close>

theorem scoped_token_stays_in_scope:
  assumes "k_policy_methods k = static_engine"
    and "kernel_step k now (IssueScopedToken pid agent allowed ttl) = (Inr (TokenReply token), k')"
  shows "(\<exists>pack. bt_get (k_packs k) pid = Some pack \<and> allowed \<subseteq> pack_granted_capabilities pack \<and>
      token_allowed_capabilities token = allowed \<and> token_pack_id token = pack_id pack \<and>
      token_agent_id token = agent) \<and>
    (k_policy_methods h = static_engine \<and> governance call = Some (pid', token, required, params) \<and>
      \<not> required \<subseteq> allowed \<longrightarrow>
      (\<exists>e h'. kernel_step h now' call = (Inl e, h') \<and> k_world h' = k_world h))"
proof -
  from assms(2) obtain pack k1 k2 where pack: "bt_get (k_packs k) pid = Some pack"
    and grants: "assert_pack_grants pack allowed = Inr ()"
    and issue: "policy_issue k (pack\<lparr>pack_granted_capabilities := allowed\<rparr>) agent now ttl = (Inr token, k1)"
    by (auto simp: reply_def kernel_issue_scoped_token_def kernel_get_pack_def and_then_Ok split: option.splits)
  from issue assms(1) have token: "token_allowed_capabilities token = allowed" "token_pack_id token = pack_id pack"
      "token_agent_id token = agent"
    by (auto simp: policy_issue_def static_engine_def issue_token_result map_err_def)
  have "\<exists>e h'. kernel_step h now' call = (Inl e, h') \<and> k_world h' = k_world h"
    if h: "k_policy_methods h = static_engine" and g: "governance call = Some (pid', token, required, params)"
      and out: "\<not> required \<subseteq> allowed"
  proof -
    have "denied_call h now' call"
      using g out token static.authorized_token_facts [OF h, of now' _ token required params]
      by (auto simp: denied_call_def split: option.split)
    then show ?thesis
      using denied_call_outcome by (fastforce simp: audit_only_def)
  qed
  with pack grants token show ?thesis
    by (auto simp: assert_pack_grants_Ok)
qed

definition example_scoped_token :: capability_token where
  "example_scoped_token = \<lparr>token_id = ''tok-0000000000000001'', token_pack_id = ''p'', token_agent_id = ''a'',
     token_allowed_capabilities = {}, token_issued_at_epoch_s = 6, token_expires_at_epoch_s = 16,
     token_generation = 1\<rparr>"

lemma example_scoped_issue:
  "kernel_step example_kernel 6 (IssueScopedToken ''p'' ''a'' {} 10) =
    (Inr (TokenReply example_scoped_token),
     emitted (example_kernel\<lparr>k_policy := sample_engine\<rparr>) 6 (Some ''a'') (TokenIssued example_scoped_token))"
proof -
  have "static_issue_token static_policy_engine_default (sample_pack\<lparr>pack_granted_capabilities := {}\<rparr>) ''a'' 6 10 =
      (Inr example_scoped_token, sample_engine)"
    by (simp add: issue_token_result sample_pack_def example_scoped_token_def sample_engine_def
        static_policy_engine_default_def hex16_def u64_saturating_add_def upt_rec)
  then have "policy_issue example_kernel (sample_pack\<lparr>pack_granted_capabilities := {}\<rparr>) ''a'' 6 10 =
      (Inr example_scoped_token, example_kernel\<lparr>k_policy := sample_engine\<rparr>)"
    by (simp add: policy_issue_def) (simp add: static_engine_def)
  moreover have "assert_pack_grants sample_pack {} = Inr ()"
    by (simp add: assert_pack_grants_Ok)
  ultimately show ?thesis
    by (simp add: reply_def kernel_issue_scoped_token_def kernel_get_pack_def kernel_emit_in_memory)
qed

theorem scoped_token_stays_in_scope_witness:
  "\<exists>e h'. kernel_step example_kernel 7
      (ExecuteRuntimeCore ''p'' example_scoped_token {InvokeTool} None
        \<lparr>rpcq_action = ''tick'', rpcq_payload = ()\<rparr>) = (Inl e, h') \<and> k_world h' = 0"
  using scoped_token_stays_in_scope [OF _ example_scoped_issue, of example_kernel
      "ExecuteRuntimeCore ''p'' example_scoped_token {InvokeTool} None
        \<lparr>rpcq_action = ''tick'', rpcq_payload = ()\<rparr>" "''p''" "{InvokeTool}" None 7]
  by simp

section \<open>The audit trail\<close>

text \<open>
  C17. The audit trail of a governed call, with the in-memory sink: the call appends, in order,
  events that carry its time and its token's agent. A success leaves the invocation events of its
  plane, a policy denial leaves one \<open>AuthorizationDenied\<close> with the text of the error it returns,
  and any other error (a pack boundary, a connector outside the pack, an adapter failure) leaves none.
\<close>

theorem governed_call_audit_trail:
  assumes "k_audit_record k = in_memory_record" and "\<not> mutex_poisoned (k_audit k)"
    and "bt_get (k_packs k) pid = Some pack"
    and "governance call = Some (pid, token, required, params)"
    and "kernel_step k now call = (r, k')"
  shows "map event_content (in_memory_snapshot (k_audit k')) =
    map event_content (in_memory_snapshot (k_audit k)) @
    map (\<lambda>kind. (now, Some (token_agent_id token), kind))
      (case r of
         Inr _ \<Rightarrow> success_events k pack call
       | Inl e \<Rightarrow> (case e of
           kernel_error.Policy pe \<Rightarrow>
             [AuthorizationDenied (pack_id pack) (token_id token) (policy_error_to_string pe)]
         | _ \<Rightarrow> []))"
  using governed_call_events [of k pid pack call token required params now r k'] assms
  by (simp add: in_memory_audit_def audit_events_def expected_events_def)

theorem governed_call_audit_trail_witness:
  "map event_content (in_memory_snapshot (k_audit (snd (kernel_step example_kernel 6 example_call)))) =
    [(6, Some ''a'', PlaneInvoked ''p'' execution_plane.Runtime plane_tier.Core ''counter'' None ''tick'' [InvokeTool])]"
proof -
  have mem: "k_audit_record example_kernel = in_memory_record" "\<not> mutex_poisoned (k_audit example_kernel)"
    by (simp_all add: example_kernel_eq kernel_with_runtime_def)
  have gov: "governance example_call = Some (''p'', sample_token, {InvokeTool}, None)"
    by (simp add: example_call_def)
  have pack: "bt_get (k_packs example_kernel) ''p'' = Some sample_pack" by simp
  have "success_events example_kernel sample_pack example_call =
      [PlaneInvoked ''p'' execution_plane.Runtime plane_tier.Core ''counter'' None ''tick'' [InvokeTool]]"
    by (simp add: example_call_def plane_invoked_def example_kernel_eq kernel_with_runtime_def sample_pack_def
        runtime_default_core_adapter_name_def resolved_core_adapter_def caps_in_order_def all_capabilities_def)
  moreover have "in_memory_snapshot (k_audit example_kernel) = []"
    by (simp add: example_kernel_eq kernel_with_runtime_def in_memory_snapshot_def)
  moreover have "token_agent_id sample_token = ''a''"
    by (simp add: sample_token_def)
  ultimately show ?thesis
    using governed_call_audit_trail [OF mem pack gov prod.collapse [symmetric], of 6]
    by (simp add: example_run)
qed

text \<open>Event numbering.\<close>

definition event_ids_inv :: "('p, in_memory_sink, 'w, 'v) loong_kernel \<Rightarrow> bool" where
  "event_ids_inv k \<longleftrightarrow> in_memory_audit k \<and>
     k_event_seq k = of_nat (length (audit_events k)) \<and>
     map event_id (audit_events k) =
       map (\<lambda>i. ''evt-'' @ hex16 (of_nat (Suc i))) [0..<length (audit_events k)]"

lemma event_ids_stable: "call_stable event_ids_inv"
  unfolding call_stable_def
proof (intro conjI allI impI)
  fix k :: "('p, in_memory_sink, 'w, 'v) loong_kernel" and now agent kind
  assume inv: "event_ids_inv k"
  then have mem: "in_memory_audit k" by (simp add: event_ids_inv_def)
  have "audit_events (emitted k now agent kind) = audit_events k @
      [\<lparr>event_id = ''evt-'' @ hex16 (k_event_seq k + 1), event_timestamp_epoch_s = now,
        event_agent_id = agent, event_kind = kind\<rparr>]"
    using mem by (simp add: audit_events_def emitted_def in_memory_snapshot_def in_memory_audit_def)
  with inv show "event_ids_inv (snd (kernel_emit k now agent kind))"
    by (simp add: kernel_emit_in_memory [OF mem] event_ids_inv_def)
      (simp add: emitted_def add.commute)
qed (auto simp: event_ids_inv_def audit_events_def)

text \<open>
  Audit event ids are unique and in order: from a kernel with an empty in-memory sink and
  counter 0, any calls leave events whose ids are \<open>evt-\<close> followed by 1, 2, 3, ... in 16 hex digits, and
  these are distinct while there are fewer than \<open>2 ^ 64\<close>.
\<close>

theorem audit_event_ids_unique:
  assumes "k_audit_record k = in_memory_record" and "k_audit k = \<lparr>mutex_poisoned = False, mutex_value = []\<rparr>"
    and "k_event_seq k = 0"
  shows "map event_id (in_memory_snapshot (k_audit (kernel_run k calls))) =
      map (\<lambda>i. ''evt-'' @ hex16 (of_nat (Suc i)))
        [0..<length (in_memory_snapshot (k_audit (kernel_run k calls)))] \<and>
    (length (in_memory_snapshot (k_audit (kernel_run k calls))) < 2 ^ 64 \<longrightarrow>
      distinct (map event_id (in_memory_snapshot (k_audit (kernel_run k calls)))))"
proof -
  have "event_ids_inv k"
    using assms by (simp add: event_ids_inv_def in_memory_audit_def audit_events_def in_memory_snapshot_def)
  then have "event_ids_inv (kernel_run k calls)"
    by (rule kernel_run_stable [OF event_ids_stable])
  then have ids: "map event_id (audit_events (kernel_run k calls)) =
      map (\<lambda>i. ''evt-'' @ hex16 (of_nat (Suc i))) [0..<length (audit_events (kernel_run k calls))]"
    unfolding event_ids_inv_def by blast
  have "length (audit_events (kernel_run k calls)) < 2 ^ 64 \<Longrightarrow>
      distinct (map event_id (audit_events (kernel_run k calls)))"
    unfolding ids by (auto simp: distinct_map inj_on_def hex16_inj u64_of_nat_inj simp del: of_nat_Suc)
  with ids show ?thesis by (simp add: audit_events_def)
qed

theorem audit_event_ids_unique_witness:
  "map event_id (in_memory_snapshot (k_audit (kernel_run example_kernel [(6, example_call)]))) =
    [''evt-0000000000000001'']"
proof -
  have "length (in_memory_snapshot (k_audit (kernel_run example_kernel [(6, example_call)]))) = 1"
    by (simp add: kernel_run_def example_run emitted_def)
      (simp add: example_kernel_eq kernel_with_runtime_def in_memory_snapshot_def)
  moreover have "hex16 1 = ''0000000000000001''"
    by (simp add: hex16_def upt_rec)
  ultimately show ?thesis
    using audit_event_ids_unique [of example_kernel "[(6, example_call)]"]
    by (simp add: example_kernel_eq kernel_with_runtime_def)
qed

section \<open>Packs, planes, and failing sinks\<close>

text \<open>The packs are keyed by their ids and valid, and each has exactly its own namespace.\<close>

definition pack_namespace :: "pack_manifest \<Rightarrow> namespace" where
  "pack_namespace pack =
     \<lparr>ns_pack_id = pack_id pack, ns_domain = pack_domain pack, ns_membrane = pack_id pack,
      ns_default_route = pack_default_route pack, ns_granted_capabilities = pack_granted_capabilities pack\<rparr>"

definition packs_inv :: "(string \<Rightarrow> bool) \<Rightarrow> ('p, 's, 'w, 'v) loong_kernel \<Rightarrow> bool" where
  "packs_inv semver_ok k \<longleftrightarrow>
     bt_wf (k_packs k) \<and> bt_wf (k_namespaces k) \<and>
     (\<forall>pid. kernel_get_namespace k pid = map_option pack_namespace (bt_get (k_packs k) pid)) \<and>
     (\<forall>pid pack. bt_get (k_packs k) pid = Some pack \<longrightarrow>
        pack_id pack = pid \<and> pack_validate semver_ok pack = Inr ())"

lemma packs_inv_register: "packs_inv ok k \<Longrightarrow> packs_inv ok (snd (kernel_register_pack ok k pack))"
  by (auto simp: packs_inv_def kernel_register_pack_def Let_def kernel_get_namespace_def pack_namespace_def
      split: sum.split)

lemma packs_inv_register_all:
  "packs_inv ok k \<Longrightarrow> packs_inv ok (fold (\<lambda>pack k. snd (kernel_register_pack ok k pack)) packs k)"
  by (induction packs arbitrary: k) (simp_all add: packs_inv_register)

lemma packs_inv_stable: "call_stable (packs_inv ok)"
  by (auto simp: call_stable_def packs_inv_def kernel_get_namespace_def kernel_emit_def kernel_new_event_def
      Let_def split: prod.split)

text \<open>
  Packs and namespaces always agree: however packs are registered on a new kernel and whatever
  calls follow, a namespace exists exactly for the registered pack ids and is the projection of
  that pack, every registered pack is valid and filed under its own id, and a registered pack is
  never replaced: registering its id again is an error that changes nothing.
\<close>

theorem packs_and_namespaces_agree:
  assumes "k = kernel_run (fold (\<lambda>pack k. snd (kernel_register_pack ok k pack)) packs
      (kernel_with_runtime methods policy sink audit world)) calls"
  shows "(\<forall>pid. kernel_get_namespace k pid = map_option pack_namespace (bt_get (k_packs k) pid)) \<and>
    (\<forall>pid pack. bt_get (k_packs k) pid = Some pack \<longrightarrow>
       pack_id pack = pid \<and> pack_validate ok pack = Inr ()) \<and>
    (\<forall>pack. pack_validate ok pack = Inr () \<and> bt_get (k_packs k) (pack_id pack) \<noteq> None \<longrightarrow>
       kernel_register_pack ok k pack = (Inl (DuplicatePack (pack_id pack)), k))"
proof -
  have "packs_inv ok (fold (\<lambda>pack k. snd (kernel_register_pack ok k pack)) packs
      (kernel_with_runtime methods policy sink audit world))"
    by (rule packs_inv_register_all) (simp add: packs_inv_def kernel_with_runtime_def kernel_get_namespace_def)
  then have "packs_inv ok k"
    unfolding assms by (rule kernel_run_stable [OF packs_inv_stable])
  then show ?thesis
    by (auto simp: packs_inv_def kernel_register_pack_def bt_contains_key_def)
qed

theorem packs_and_namespaces_agree_witness:
  "kernel_get_namespace (kernel_run (fold (\<lambda>pack k. snd (kernel_register_pack (\<lambda>_. True) k pack)) [sample_pack]
      (kernel_with_runtime static_engine static_policy_engine_default noop_record () (0 :: nat)))
      ([] :: (u64 \<times> unit kernel_call) list)) ''q'' = None"
proof -
  let ?k = "kernel_run (fold (\<lambda>pack k. snd (kernel_register_pack (\<lambda>_. True) k pack)) [sample_pack]
      (kernel_with_runtime static_engine static_policy_engine_default noop_record () (0 :: nat)))
      ([] :: (u64 \<times> unit kernel_call) list)"
  have "bt_get (k_packs ?k) ''q'' = None"
    by (simp add: kernel_run_def kernel_register_pack_def kernel_with_runtime_def sample_pack_def bt_contains_key_def
        Let_def split: sum.split)
  then show ?thesis
    using packs_and_namespaces_agree [OF refl, of "\<lambda>_. True" "[sample_pack]" static_engine
        static_policy_engine_default noop_record "()" "0 :: nat" "[] :: (u64 \<times> unit kernel_call) list"]
    by simp
qed

text \<open>
  A default core adapter always resolves: on each of the four planes, after any non-empty
  sequence of registrations the default is the first registered name, and that name has an adapter,
  so a request without a core name never fails for want of one.
\<close>

theorem default_core_adapter_resolves:
  "(runtime_default_core_adapter_name (fold runtime_register_core_adapter (ra # ras) runtime_plane_new) =
      Some (core_runtime_name ra) \<and>
    bt_get (rp_core_adapters (fold runtime_register_core_adapter (ra # ras) runtime_plane_new))
      (core_runtime_name ra) \<noteq> None) \<and>
   (tool_default_core_adapter_name (fold tool_register_core_adapter (ta # tas) tool_plane_new) =
      Some (core_tool_name ta) \<and>
    bt_get (tp_core_adapters (fold tool_register_core_adapter (ta # tas) tool_plane_new))
      (core_tool_name ta) \<noteq> None) \<and>
   (memory_default_core_adapter_name (fold memory_register_core_adapter (ma # mas) memory_plane_new) =
      Some (core_memory_name ma) \<and>
    bt_get (mp_core_adapters (fold memory_register_core_adapter (ma # mas) memory_plane_new))
      (core_memory_name ma) \<noteq> None) \<and>
   (connector_default_core_adapter_name (fold connector_register_core_adapter (ca # cas) connector_plane_new) =
      Some (core_connector_name ca) \<and>
    bt_get (cp_core_adapters (fold connector_register_core_adapter (ca # cas) connector_plane_new))
      (core_connector_name ca) \<noteq> None)"
  using runtime.default_after_register_all [of ra ras] tool.default_after_register_all [of ta tas]
    memory.default_after_register_all [of ma mas] connector.default_after_register_all [of ca cas]
    runtime.registry_inv_register_all [OF runtime.registry_inv_empty, of "ra # ras"]
    tool.registry_inv_register_all [OF tool.registry_inv_empty, of "ta # tas"]
    memory.registry_inv_register_all [OF memory.registry_inv_empty, of "ma # mas"]
    connector.registry_inv_register_all [OF connector.registry_inv_empty, of "ca # cas"]
  unfolding runtime.registry_inv_def tool.registry_inv_def memory.registry_inv_def connector.registry_inv_def
  by (simp del: fold.simps)

text \<open>
  Connector panics are contained: whatever core or extension adapter is registered, an
  invocation of the connector plane ends in a result, a panicking adapter's in an execution error
  that names its tier, its name and the panic message, and the core an extension is given never panics.
\<close>

theorem connector_panics_are_contained:
  assumes "bt_get (cp_core_adapters pl) name = Some core"
  shows "(invoke_core_fn core w command = (Panicked (StringPayload m), w') \<longrightarrow>
      connector_invoke_core pl w (Some name) command =
        (Inl (connector_error.Execution (''connector core adapter `'' @ name @ ''` panicked: '' @ m)), w')) \<and>
    (bt_get (cp_extension_adapters pl) ext = Some extension \<and>
      invoke_extension_fn extension w command (panic_isolated_core name core) = (Panicked (StringPayload m), w') \<longrightarrow>
      connector_invoke_extension pl w ext (Some name) command =
        (Inl (connector_error.Execution (''connector extension adapter `'' @ ext @ ''` panicked: '' @ m)), w')) \<and>
    (\<exists>r. fst (invoke_core_fn (panic_isolated_core name core) w command) = Returned r) \<and>
    snd (invoke_core_fn (panic_isolated_core name core) w command) = snd (invoke_core_fn core w command)"
  using assms
  by (auto simp: connector_invoke_core_def connector_invoke_extension_def execute_connector_invocation_def
      format_connector_invocation_panic_def extract_connector_panic_message_def panic_isolated_core_def Let_def
      case_prod_beta)

definition panicking_core :: "(nat, unit) core_connector_adapter" where
  "panicking_core = \<lparr>core_connector_name = ''http'',
     invoke_core_fn = (\<lambda>w command. (Panicked (StringPayload ''boom''), w + 1))\<rparr>"

theorem connector_panics_are_contained_witness:
  "connector_invoke_core (connector_register_core_adapter panicking_core connector_plane_new) 0 (Some ''http'')
     \<lparr>cc_connector_name = ''crm'', cc_operation = ''sync'', cc_required_capabilities = {}, cc_payload = ()\<rparr> =
   (Inl (connector_error.Execution (''connector core adapter `'' @ ''http'' @ ''` panicked: '' @ ''boom'')), 1)"
proof -
  let ?pl = "connector_register_core_adapter panicking_core connector_plane_new"
  have "bt_get (cp_core_adapters ?pl) ''http'' = Some panicking_core"
    by (simp add: connector_register_core_adapter_def connector_plane_new_def Let_def panicking_core_def)
  from connector_panics_are_contained [OF this] show ?thesis
    by (simp add: panicking_core_def)
qed

text \<open>
  C40. A failing audit sink hides an effect: when the sink's mutex is poisoned, an authorized
  runtime call whose adapter succeeds returns the audit error, not the adapter's outcome, although
  the adapter's effect on the world stays.
\<close>

theorem audit_failure_hides_completed_effect:
  assumes "k_audit_record k = in_memory_record" and "mutex_poisoned (k_audit k)"
    and "bt_get (k_packs k) pid = Some pack" and "operation_authorized k now pack token required None"
    and "runtime_execute_core (k_runtime_plane k) (k_world k) core_name request = (Inr outcome, w)"
  shows "\<exists>k'. kernel_step k now (ExecuteRuntimeCore pid token required core_name request) =
      (Inl (kernel_error.Audit (Sink ''audit mutex poisoned'')), k') \<and> k_world k' = w"
  using assms authorize_pack_operation_Ok [OF assms(4)]
  by (simp add: reply_def kernel_execute_runtime_core_def kernel_get_pack_def kernel_record_plane_invocation_def
      kernel_emit_def kernel_new_event_def in_memory_record_def Let_def)

theorem audit_failure_hides_completed_effect_witness:
  "\<exists>k'. kernel_step (example_kernel\<lparr>k_audit := \<lparr>mutex_poisoned = True, mutex_value = []\<rparr>\<rparr>) 6 example_call =
      (Inl (kernel_error.Audit (Sink ''audit mutex poisoned'')), k') \<and> k_world k' = 1"
proof -
  let ?k = "example_kernel\<lparr>k_audit := \<lparr>mutex_poisoned = True, mutex_value = []\<rparr>\<rparr>"
  have "static_authorize static_policy_engine_default sample_token ''p'' 6 {InvokeTool} = Inr ()"
    by (simp add: static_authorize_Ok token_revoked_def static_policy_engine_default_def sample_token_def)
  then have 1: "operation_authorized ?k 6 sample_pack sample_token {InvokeTool} None"
    by (simp add: operation_authorized_def static_engine_def sample_pack_def)
  have 2: "runtime_execute_core (k_runtime_plane ?k) (k_world ?k) None \<lparr>rpcq_action = ''tick'', rpcq_payload = ()\<rparr> =
      (Inr \<lparr>rpco_status = ''ok'', rpco_payload = ()\<rparr>, 1)"
    by (simp add: example_kernel_eq kernel_with_runtime_def runtime_execute_core_def counting_adapter_def)
  show ?thesis
    unfolding example_call_def
    by (rule audit_failure_hides_completed_effect [OF _ _ _ 1 2])
      (simp_all add: example_kernel_eq kernel_with_runtime_def)
qed

end
