(* ===== verification/Task_State.thy ===== *)
theory Task_State
  imports Kernel_Errors
begin

text \<open>
  The task life cycle of crates/contracts/src/task_state.rs: the five states, the guarded
  transition methods, the transition relation its documentation lists, and the lemmas that
  the methods implement that relation exactly. The derived \<open>Debug\<close> text of a state, which
  the rejection messages embed and which prints a \<open>serde_json::Value\<close>, is the parameter
  \<open>dbg\<close>.
\<close>

datatype 'v task_state =
    Runnable "'v task_intent"
  | InSend string
  | InReply string
  | Completed "'v harness_outcome"
  | Faulted fault

fun state_task_id :: "'v task_state \<Rightarrow> string option" where
  "state_task_id (Runnable intent) = Some (intent_task_id intent)"
| "state_task_id (InSend tid) = Some tid"
| "state_task_id (InReply tid) = Some tid"
| "state_task_id (Completed _) = None"
| "state_task_id (Faulted _) = None"

fun is_terminal :: "'v task_state \<Rightarrow> bool" where
  "is_terminal (Completed _) = True"
| "is_terminal (Faulted _) = True"
| "is_terminal _ = False"

definition transition_to_in_send ::
  "('v task_state \<Rightarrow> string) \<Rightarrow> 'v task_state \<Rightarrow> string + 'v task_state" where
  "transition_to_in_send dbg s =
     (case s of
        Runnable intent \<Rightarrow> Inr (InSend (intent_task_id intent))
      | other \<Rightarrow> Inl (''invalid transition: cannot move to InSend from '' @ dbg other))"

definition transition_to_in_reply ::
  "('v task_state \<Rightarrow> string) \<Rightarrow> 'v task_state \<Rightarrow> string + 'v task_state" where
  "transition_to_in_reply dbg s =
     (case s of
        InSend tid \<Rightarrow> Inr (InReply tid)
      | other \<Rightarrow> Inl (''invalid transition: cannot move to InReply from '' @ dbg other))"

definition transition_to_completed ::
  "('v task_state \<Rightarrow> string) \<Rightarrow> 'v task_state \<Rightarrow> 'v harness_outcome \<Rightarrow> string + 'v task_state" where
  "transition_to_completed dbg s outcome =
     (case s of
        InReply _ \<Rightarrow> Inr (Completed outcome)
      | other \<Rightarrow> Inl (''invalid transition: cannot move to Completed from '' @ dbg other))"

definition transition_to_faulted :: "'v task_state \<Rightarrow> fault \<Rightarrow> 'v task_state" where
  "transition_to_faulted s f = (if is_terminal s then s else Faulted f)"

text \<open>The documented transitions.\<close>

inductive task_transition :: "'v task_state \<Rightarrow> 'v task_state \<Rightarrow> bool" where
  send: "task_transition (Runnable intent) (InSend (intent_task_id intent))"
| reply: "task_transition (InSend tid) (InReply tid)"
| complete: "task_transition (InReply tid) (Completed outcome)"
| fault: "\<not> is_terminal s \<Longrightarrow> task_transition s (Faulted f)"

inductive_cases task_transition_Runnable: "task_transition (Runnable i) t"
inductive_cases task_transition_InSend: "task_transition (InSend tid) t"
inductive_cases task_transition_InReply: "task_transition (InReply tid) t"
inductive_cases task_transition_Completed [elim!]: "task_transition (Completed r) t"
inductive_cases task_transition_Faulted [elim!]: "task_transition (Faulted f) t"

text \<open>One call of a transition method that the supervisor can make.\<close>

definition task_method ::
  "('v task_state \<Rightarrow> string) \<Rightarrow> 'v task_state \<Rightarrow> 'v task_state \<Rightarrow> bool" where
  "task_method dbg s t \<longleftrightarrow>
     transition_to_in_send dbg s = Inr t \<or> transition_to_in_reply dbg s = Inr t \<or>
     (\<exists>r. transition_to_completed dbg s r = Inr t) \<or>
     (\<exists>f. t = transition_to_faulted s f \<and> s \<noteq> t)"

lemma task_method_transition: "task_method dbg s t \<Longrightarrow> task_transition s t"
  unfolding task_method_def
  by (cases s)
    (auto simp: transition_to_in_send_def transition_to_in_reply_def transition_to_completed_def
      transition_to_faulted_def intro: task_transition.intros split: if_splits)

lemma task_transition_method: "task_transition s t \<Longrightarrow> task_method dbg s t"
  by (induction rule: task_transition.induct)
    (auto simp: task_method_def transition_to_in_send_def transition_to_in_reply_def
      transition_to_completed_def transition_to_faulted_def)

text \<open>Progress of a task: every transition moves strictly forward, so a life cycle has at
  most three transitions, and a terminal state has none.\<close>

fun task_rank :: "'v task_state \<Rightarrow> nat" where
  "task_rank (Runnable _) = 0"
| "task_rank (InSend _) = 1"
| "task_rank (InReply _) = 2"
| "task_rank (Completed _) = 3"
| "task_rank (Faulted _) = 3"

lemma task_transition_rank: "task_transition s t \<Longrightarrow> task_rank s < task_rank t"
proof (induction rule: task_transition.induct)
  case (fault s f)
  then show ?case by (cases s) simp_all
qed simp_all

lemma task_rank_bound: "task_rank s \<le> 3"
  by (cases s) simp_all

lemma terminal_no_transition: "is_terminal s \<Longrightarrow> \<not> task_transition s t"
  by (cases s) (auto elim: task_transition.cases)

lemma nonterminal_can_fault: "\<not> is_terminal s \<Longrightarrow> task_transition s (Faulted f)"
  by (rule task_transition.fault)

lemma task_transition_keeps_id:
  "task_transition s t \<Longrightarrow> \<not> is_terminal t \<Longrightarrow> state_task_id t = state_task_id s"
  by (induction rule: task_transition.induct) simp_all

lemma task_run_rank:
  "(task_transition ^^ n) s t \<Longrightarrow> task_rank s + n \<le> task_rank t"
proof (induction n arbitrary: t)
  case 0
  then show ?case by simp
next
  case (Suc n)
  then obtain u where "(task_transition ^^ n) s u" and "task_transition u t"
    by (auto simp: relcompp_apply)
  then show ?case
    using Suc.IH [of u] task_transition_rank [of u t] by simp
qed

text \<open>
  The transition methods of \<open>TaskState\<close> implement exactly the documented state machine:
  a method call changes the state from \<open>s\<close> to \<open>t\<close> precisely when the documentation lists the
  transition; a run has at most three transitions; a terminal state has none, every other
  state can fault, and a transition between live states keeps the task id.
\<close>

theorem task_state_machine_exact:
  "(task_method dbg s t \<longleftrightarrow> task_transition s t) \<and>
   ((task_transition ^^ n) s t \<longrightarrow> n \<le> 3) \<and>
   (is_terminal s \<longleftrightarrow> (\<forall>u. \<not> task_transition s u)) \<and>
   (task_transition s t \<and> \<not> is_terminal t \<longrightarrow> state_task_id t = state_task_id s)"
proof (intro conjI)
  show "task_method dbg s t \<longleftrightarrow> task_transition s t"
    using task_method_transition task_transition_method by blast
  show "(task_transition ^^ n) s t \<longrightarrow> n \<le> 3"
    using task_run_rank [of n s t] task_rank_bound [of t] by auto
  show "is_terminal s \<longleftrightarrow> (\<forall>u. \<not> task_transition s u)"
    using terminal_no_transition nonterminal_can_fault by blast
  show "task_transition s t \<and> \<not> is_terminal t \<longrightarrow> state_task_id t = state_task_id s"
    using task_transition_keeps_id by blast
qed

theorem task_state_machine_exact_witness:
  "task_transition (InSend ''t'' :: nat task_state) (InReply ''t'') \<and>
   state_task_id (InReply ''t'' :: nat task_state) = state_task_id (InSend ''t'' :: nat task_state)"
  using task_state_machine_exact
      [where dbg = "\<lambda>_. []" and s = "InSend ''t'' :: nat task_state" and t = "InReply ''t''" and n = 1]
  by (simp add: task_transition.reply)

end
