(* ===== verification/Task_Supervisor.thy ===== *)
theory Task_Supervisor
  imports Task_State Kernel_Properties
begin

text \<open>
  The supervisor (crates/kernel/src/task_supervisor.rs): \<open>execute_task\<close> under the guarded
  transitions of the task state machine. \<open>execute\<close> takes the supervisor's state and the kernel
  and returns both; it runs to completion (a future dropped at its await is not modelled).
\<close>

record 'v task_supervisor =
  supervisor_state :: "'v task_state"

definition supervisor_new :: "'v task_intent \<Rightarrow> 'v task_supervisor" where
  "supervisor_new intent = \<lparr>supervisor_state = Runnable intent\<rparr>"

definition supervisor_is_runnable :: "'v task_supervisor \<Rightarrow> bool" where
  "supervisor_is_runnable s \<longleftrightarrow> (case supervisor_state s of Runnable _ \<Rightarrow> True | _ \<Rightarrow> False)"

definition guarded :: "string + 'v task_state \<Rightarrow> 'v task_supervisor \<Rightarrow> (fault + unit) \<times> 'v task_supervisor" where
  "guarded transition s =
     (case transition of
        Inl detail \<Rightarrow> (Inl (ProtocolViolation detail), s)
      | Inr t \<Rightarrow> (Inr (), s\<lparr>supervisor_state := t\<rparr>))"

definition supervisor_execute ::
  "('v task_state \<Rightarrow> string) \<Rightarrow> 'v task_supervisor \<Rightarrow> ('p, 's, 'w, 'v) loong_kernel \<Rightarrow> u64 \<Rightarrow> string \<Rightarrow>
   capability_token \<Rightarrow> (fault + 'v kernel_dispatch) \<times> 'v task_supervisor \<times> ('p, 's, 'w, 'v) loong_kernel" where
  "supervisor_execute dbg s k now pid token =
     (case supervisor_state s of
        Runnable intent \<Rightarrow>
          (case guarded (transition_to_in_send dbg (supervisor_state s)) s of
             (Inl f, s1) \<Rightarrow> (Inl f, s1, k)
           | (Inr _, s1) \<Rightarrow>
             (case guarded (transition_to_in_reply dbg (supervisor_state s1)) s1 of
                (Inl f, s2) \<Rightarrow> (Inl f, s2, k)
              | (Inr _, s2) \<Rightarrow>
                (case kernel_execute_task k now pid token intent of
                   (Inr dispatch, k1) \<Rightarrow>
                     (case guarded (transition_to_completed dbg (supervisor_state s2) (kd_outcome dispatch)) s2 of
                        (Inl f, s3) \<Rightarrow> (Inl f, s3, k1)
                      | (Inr _, s3) \<Rightarrow> (Inr dispatch, s3, k1))
                 | (Inl kernel_err, k1) \<Rightarrow>
                     let f = from_kernel_error kernel_err in
                     (Inl f, s2\<lparr>supervisor_state := transition_to_faulted (supervisor_state s2) f\<rparr>, k1))))
      | _ \<Rightarrow> (Inl (ProtocolViolation ''task is not in Runnable state''), s, k))"

lemma supervisor_execute_runnable:
  assumes "supervisor_state s = Runnable intent"
  shows "supervisor_execute dbg s k now pid token =
    (case kernel_execute_task k now pid token intent of
       (Inr dispatch, k1) \<Rightarrow> (Inr dispatch, s\<lparr>supervisor_state := Completed (kd_outcome dispatch)\<rparr>, k1)
     | (Inl e, k1) \<Rightarrow> (Inl (from_kernel_error e), s\<lparr>supervisor_state := Faulted (from_kernel_error e)\<rparr>, k1))"
  using assms
  by (simp add: supervisor_execute_def guarded_def transition_to_in_send_def transition_to_in_reply_def
      transition_to_completed_def transition_to_faulted_def Let_def split: prod.split sum.split)

lemma supervisor_execute_not_runnable:
  "\<not> supervisor_is_runnable s \<Longrightarrow> supervisor_execute dbg s k now pid token =
    (Inl (ProtocolViolation ''task is not in Runnable state''), s, k)"
  by (auto simp: supervisor_execute_def supervisor_is_runnable_def split: task_state.splits)

text \<open>
  A supervised task runs at most once and always ends: \<open>execute\<close> on a runnable supervisor
  performs exactly the kernel's task call and leaves the terminal state that matches its result,
  reached along the documented transitions, and a second \<open>execute\<close> is a protocol violation that
  touches neither supervisor nor kernel. A policy denial surfaces as a policy fault, never as a panic.
\<close>

theorem supervised_task_runs_once:
  assumes "supervisor_state s = Runnable intent"
    and "supervisor_execute dbg s k now pid token = (r, s', k')"
  shows "k' = snd (kernel_execute_task k now pid token intent) \<and>
    (case fst (kernel_execute_task k now pid token intent) of
       Inr d \<Rightarrow> r = Inr d \<and> supervisor_state s' = Completed (kd_outcome d)
     | Inl e \<Rightarrow> r = Inl (from_kernel_error e) \<and> supervisor_state s' = Faulted (from_kernel_error e) \<and>
         (\<forall>pe. e = kernel_error.Policy pe \<longrightarrow> \<not> is_panic_fault (from_kernel_error e))) \<and>
    task_transition\<^sup>*\<^sup>* (supervisor_state s) (supervisor_state s') \<and> is_terminal (supervisor_state s') \<and>
    supervisor_execute dbg s' k2 now2 pid2 token2 =
      (Inl (ProtocolViolation ''task is not in Runnable state''), s', k2)"
proof -
  let ?mid = "InReply (intent_task_id intent) :: 'a task_state"
  have "task_transition (Runnable intent) (InSend (intent_task_id intent))"
    by (rule task_transition.send)
  moreover have "task_transition (InSend (intent_task_id intent)) ?mid"
    by (rule task_transition.reply)
  ultimately have start: "task_transition\<^sup>*\<^sup>* (supervisor_state s) ?mid"
    unfolding assms(1) by (meson rtranclp.rtrancl_into_rtrancl rtranclp.rtrancl_refl)
  obtain x k1 where run: "kernel_execute_task k now pid token intent = (x, k1)"
    by (cases "kernel_execute_task k now pid token intent")
  show ?thesis
  proof (cases x)
    case (Inl e)
    with run assms have eq: "r = Inl (from_kernel_error e)"
        "s' = s\<lparr>supervisor_state := Faulted (from_kernel_error e)\<rparr>" "k' = k1"
      by (simp_all add: supervisor_execute_runnable)
    have "task_transition ?mid (Faulted (from_kernel_error e))"
      by (rule task_transition.fault) simp
    with start have "task_transition\<^sup>*\<^sup>* (supervisor_state s) (Faulted (from_kernel_error e))"
      by (rule rtranclp.rtrancl_into_rtrancl)
    with eq run Inl show ?thesis
      by (auto simp: supervisor_execute_not_runnable supervisor_is_runnable_def from_kernel_error_panic_iff)
  next
    case (Inr d)
    with run assms have eq: "r = Inr d" "s' = s\<lparr>supervisor_state := Completed (kd_outcome d)\<rparr>" "k' = k1"
      by (simp_all add: supervisor_execute_runnable)
    have "task_transition ?mid (Completed (kd_outcome d))"
      by (rule task_transition.complete)
    with start have "task_transition\<^sup>*\<^sup>* (supervisor_state s) (Completed (kd_outcome d))"
      by (rule rtranclp.rtrancl_into_rtrancl)
    with eq run Inr show ?thesis
      by (simp add: supervisor_execute_not_runnable supervisor_is_runnable_def)
  qed
qed

theorem supervised_task_runs_once_witness:
  "\<exists>s' k'. supervisor_execute (\<lambda>_. []) (supervisor_new \<lparr>intent_task_id = ''t'', intent_objective = ''o'',
      intent_required_capabilities = {}, intent_payload = ()\<rparr>) example_kernel 6 ''nope'' sample_token =
      (Inl (Panic ''pack not found: nope''), s', k') \<and> is_terminal (supervisor_state s')"
proof -
  let ?intent = "\<lparr>intent_task_id = ''t'', intent_objective = ''o'',
      intent_required_capabilities = {}, intent_payload = ()\<rparr> :: unit task_intent"
  have run: "kernel_execute_task example_kernel 6 ''nope'' sample_token ?intent =
      (Inl (PackNotFound ''nope''), example_kernel)"
    by (simp add: kernel_execute_task_def kernel_get_pack_def example_kernel_eq kernel_with_runtime_def)
  have fault: "from_kernel_error (PackNotFound ''nope'') = Panic ''pack not found: nope''"
    by (simp add: from_kernel_error_def)
  obtain r s' k' where exec: "supervisor_execute (\<lambda>_. []) (supervisor_new ?intent) example_kernel 6 ''nope''
      sample_token = (r, s', k')"
    by (metis prod_cases3)
  have "supervisor_state (supervisor_new ?intent) = Runnable ?intent"
    by (simp add: supervisor_new_def)
  from supervised_task_runs_once [OF this exec, where ?k2.0 = example_kernel and ?now2.0 = 7
      and ?pid2.0 = "''p''" and ?token2.0 = sample_token] run fault exec
  show ?thesis by simp
qed

end
