(* ===== verification/Policy_Interleaving.thy ===== *)
theory Policy_Interleaving
  imports Policy_Engine
begin

text \<open>
  \<open>StaticPolicyEngine\<close> takes \<open>&self\<close> and keeps its counters in atomics, so its methods run
  concurrently. Here each atomic access is one step: \<open>issue_token\<close> first takes a generation
  (\<open>fetch_add\<close>) and then a sequence number (\<open>fetch_add\<close>); \<open>revoke_generation\<close> first raises the
  threshold (\<open>fetch_max\<close>) and then fast-forwards the generation (\<open>fetch_max\<close>);
  \<open>revoke_token\<close> holds the mutex for one insertion. Steps of different threads interleave in
  any order (sequential consistency; the source orders its atomics \<open>Relaxed\<close>, whose reorderings
  across different atomics are not modelled).
\<close>

datatype policy_thread =
    Ready
  | IssueHasGeneration u64 pack_manifest string u64 u64
  | RevokeRaised u64

record policy_sys =
  sys_engine :: static_policy_engine
  sys_threads :: "nat \<Rightarrow> policy_thread"
  sys_issued :: "capability_token list"

definition sys_init :: policy_sys where
  "sys_init = \<lparr>sys_engine = static_policy_engine_default, sys_threads = (\<lambda>_. Ready), sys_issued = []\<rparr>"

definition take_generation :: "static_policy_engine \<Rightarrow> u64 \<times> static_policy_engine" where
  "take_generation e =
     (engine_generation e + 1, e\<lparr>engine_generation := engine_generation e + 1\<rparr>)"

definition finish_issue ::
  "static_policy_engine \<Rightarrow> u64 \<Rightarrow> pack_manifest \<Rightarrow> string \<Rightarrow> u64 \<Rightarrow> u64 \<Rightarrow>
   capability_token \<times> static_policy_engine" where
  "finish_issue e generation pack agent now ttl =
     (let (tid, e') = next_token_id e
      in (\<lparr>token_id = tid, token_pack_id = pack_id pack, token_agent_id = agent,
           token_allowed_capabilities = pack_granted_capabilities pack,
           token_issued_at_epoch_s = now, token_expires_at_epoch_s = u64_saturating_add now ttl,
           token_generation = generation\<rparr>, e'))"

definition raise_threshold :: "static_policy_engine \<Rightarrow> u64 \<Rightarrow> static_policy_engine" where
  "raise_threshold e below = e\<lparr>revoked_below_generation := max (revoked_below_generation e) below\<rparr>"

definition forward_generation :: "static_policy_engine \<Rightarrow> u64 \<Rightarrow> static_policy_engine" where
  "forward_generation e below = e\<lparr>engine_generation := max (engine_generation e) below\<rparr>"

text \<open>The atomic steps, run without interruption, are the methods.\<close>

lemma issue_token_as_steps:
  "static_issue_token e pack agent now ttl =
    (let (g, e1) = take_generation e; (t, e2) = finish_issue e1 g pack agent now ttl in (Inr t, e2))"
  by (simp add: static_issue_token_def take_generation_def finish_issue_def Let_def split: prod.split)

lemma revoke_generation_as_steps:
  "static_revoke_generation e below = forward_generation (raise_threshold e below) below"
  by (simp add: static_revoke_generation_def forward_generation_def raise_threshold_def)

text \<open>One step of thread \<open>i\<close>, and what it does. The counters wrap around, as the atomics and the
  additions do in a release build (a debug build panics at the addition instead).\<close>

datatype policy_action =
    TakeGeneration
  | FinishIssue
  | RaiseThreshold u64
  | ForwardGeneration u64
  | RevokeId string

inductive policy_step :: "policy_sys \<Rightarrow> policy_action \<Rightarrow> policy_sys \<Rightarrow> bool" where
  issue_generation:
    "sys_threads s i = Ready \<Longrightarrow> take_generation (sys_engine s) = (g, e) \<Longrightarrow>
     policy_step s TakeGeneration (s\<lparr>sys_engine := e,
       sys_threads := (sys_threads s)(i := IssueHasGeneration g pack agent now ttl)\<rparr>)"
| issue_finish:
    "sys_threads s i = IssueHasGeneration g pack agent now ttl \<Longrightarrow>
     finish_issue (sys_engine s) g pack agent now ttl = (t, e) \<Longrightarrow>
     policy_step s FinishIssue (s\<lparr>sys_engine := e, sys_threads := (sys_threads s)(i := Ready),
       sys_issued := t # sys_issued s\<rparr>)"
| revoke_raise:
    "sys_threads s i = Ready \<Longrightarrow>
     policy_step s (RaiseThreshold below) (s\<lparr>sys_engine := raise_threshold (sys_engine s) below,
       sys_threads := (sys_threads s)(i := RevokeRaised below)\<rparr>)"
| revoke_forward:
    "sys_threads s i = RevokeRaised below \<Longrightarrow>
     policy_step s (ForwardGeneration below) (s\<lparr>sys_engine := forward_generation (sys_engine s) below,
       sys_threads := (sys_threads s)(i := Ready)\<rparr>)"
| revoke_id:
    "sys_threads s i = Ready \<Longrightarrow>
     policy_step s (RevokeId tid) (s\<lparr>sys_engine := snd (static_revoke_token (sys_engine s) tid)\<rparr>)"

text \<open>The runs from a new engine, with their actions in order.\<close>

inductive concurrent_run :: "policy_action list \<Rightarrow> policy_sys \<Rightarrow> bool" where
  start: "concurrent_run [] sys_init"
| step: "concurrent_run actions s \<Longrightarrow> policy_step s a t \<Longrightarrow> concurrent_run (actions @ [a]) t"

text \<open>The counters have no room to wrap in a run: all it revokes and all it issues stay below \<open>2 ^ 64 - 1\<close>.\<close>

definition counters_suffice :: "policy_action list \<Rightarrow> bool" where
  "counters_suffice actions \<longleftrightarrow> length actions < 2 ^ 64 - 1 \<and>
     (\<forall>below. RaiseThreshold below \<in> set actions \<longrightarrow> unat below + length actions < 2 ^ 64 - 1)"

section \<open>Invariants\<close>

definition generations_inv :: "policy_sys \<Rightarrow> bool" where
  "generations_inv s \<longleftrightarrow>
     (\<forall>t \<in> set (sys_issued s). token_generation t \<le> engine_generation (sys_engine s)) \<and>
     (\<forall>i g p a n l. sys_threads s i = IssueHasGeneration g p a n l \<longrightarrow>
        g \<le> engine_generation (sys_engine s) \<and> (\<forall>t \<in> set (sys_issued s). token_generation t \<noteq> g) \<and>
        (\<forall>j g' p' a' n' l'. sys_threads s j = IssueHasGeneration g' p' a' n' l' \<longrightarrow> j \<noteq> i \<longrightarrow> g' \<noteq> g)) \<and>
     distinct (map token_generation (sys_issued s))"

definition ids_inv :: "policy_sys \<Rightarrow> bool" where
  "ids_inv s \<longleftrightarrow>
     distinct (map token_id (sys_issued s)) \<and>
     (\<forall>t \<in> set (sys_issued s). \<exists>k \<le> token_seq (sys_engine s). token_id t = ''tok-'' @ hex16 k)"

definition threshold_inv :: "policy_sys \<Rightarrow> bool" where
  "threshold_inv s \<longleftrightarrow>
     revoked_below_generation (sys_engine s) \<le> engine_generation (sys_engine s) \<or>
     (\<exists>i b. sys_threads s i = RevokeRaised b \<and> revoked_below_generation (sys_engine s) \<le> b)"

text \<open>Neither counter stands at its last value.\<close>

definition unexhausted :: "static_policy_engine \<Rightarrow> bool" where
  "unexhausted e \<longleftrightarrow> engine_generation e < - 1 \<and> token_seq e < - 1"

lemmas step_defs =
  take_generation_def finish_issue_def next_token_id_def raise_threshold_def forward_generation_def
  static_revoke_token_def unexhausted_def

lemma policy_step_ids: "policy_step s a t \<Longrightarrow> unexhausted (sys_engine s) \<Longrightarrow> ids_inv s \<Longrightarrow> ids_inv t"
proof (induction rule: policy_step.induct)
  case (issue_finish s i g pack agent now ttl t e)
  let ?k = "token_seq (sys_engine s) + 1"
  have less: "token_seq (sys_engine s) < ?k"
    using issue_finish.prems(1) by (intro u64_less_succ) (simp add: unexhausted_def)
  have t: "token_id t = ''tok-'' @ hex16 ?k" and e: "token_seq e = ?k"
    using issue_finish.hyps(2) by (auto simp: step_defs Let_def)
  have "token_id t \<noteq> token_id u" if u: "u \<in> set (sys_issued s)" for u
  proof -
    from issue_finish.prems u obtain k where
      "k \<le> token_seq (sys_engine s)" "token_id u = ''tok-'' @ hex16 k"
      by (auto simp: ids_inv_def)
    with less t show ?thesis by (auto simp: hex16_inj)
  qed
  moreover have "\<exists>k \<le> ?k. token_id u = ''tok-'' @ hex16 k" if "u \<in> set (sys_issued s)" for u
    using issue_finish.prems that order.trans [OF _ order.strict_implies_order [OF less]]
    unfolding ids_inv_def by blast
  ultimately show ?case
    using issue_finish.prems t by (fastforce simp: ids_inv_def e)
qed (auto simp: ids_inv_def step_defs split: if_splits)

lemma threshold_inv_move:
  assumes "threshold_inv s" and "\<And>b. sys_threads s i \<noteq> RevokeRaised b"
    and "sys_threads t = (sys_threads s)(i := x)"
    and "revoked_below_generation (sys_engine t) = revoked_below_generation (sys_engine s)"
    and "engine_generation (sys_engine s) \<le> engine_generation (sys_engine t)"
  shows "threshold_inv t"
proof -
  from assms(1) consider
      "revoked_below_generation (sys_engine s) \<le> engine_generation (sys_engine s)"
    | j b where "sys_threads s j = RevokeRaised b" "revoked_below_generation (sys_engine s) \<le> b"
    unfolding threshold_inv_def by blast
  then show ?thesis
  proof cases
    case 1
    from this assms(5) have "revoked_below_generation (sys_engine s) \<le> engine_generation (sys_engine t)"
      by (rule order.trans)
    then show ?thesis by (simp add: threshold_inv_def assms(4))
  next
    case 2
    then have "j \<noteq> i" using assms(2) by auto
    with 2 assms(3,4) show ?thesis unfolding threshold_inv_def by auto
  qed
qed

lemma policy_step_threshold:
  "policy_step s a t \<Longrightarrow> unexhausted (sys_engine s) \<Longrightarrow> threshold_inv s \<Longrightarrow> threshold_inv t"
proof (induction rule: policy_step.induct)
  case (issue_generation s i g e pack agent now ttl)
  then have "engine_generation (sys_engine s) \<le> engine_generation (sys_engine s) + 1"
    by (intro less_imp_le u64_less_succ) (simp add: unexhausted_def)
  moreover have "e = (sys_engine s)\<lparr>engine_generation := engine_generation (sys_engine s) + 1\<rparr>"
    using issue_generation.hyps(2) by (auto simp: take_generation_def)
  ultimately show ?case
    by (intro threshold_inv_move [OF issue_generation.prems(2), where i = i])
      (simp_all add: issue_generation.hyps(1))
next
  case (issue_finish s i g pack agent now ttl t e)
  then have "revoked_below_generation e = revoked_below_generation (sys_engine s)"
    and "engine_generation e = engine_generation (sys_engine s)"
    by (auto simp: step_defs Let_def)
  then show ?case
    by (intro threshold_inv_move [OF issue_finish.prems(2), where i = i])
      (simp_all add: issue_finish.hyps(1))
next
  case (revoke_raise s i below)
  then consider
      "revoked_below_generation (sys_engine s) \<le> engine_generation (sys_engine s)"
    | j b where "sys_threads s j = RevokeRaised b" "revoked_below_generation (sys_engine s) \<le> b"
    unfolding threshold_inv_def by blast
  then show ?case
  proof cases
    case 1
    then show ?thesis by (auto simp: threshold_inv_def step_defs max_def)
  next
    case 2
    with revoke_raise.hyps have "j \<noteq> i" by auto
    with 2 show ?thesis
      by (cases "revoked_below_generation (sys_engine s) \<le> below")
        (auto simp: threshold_inv_def step_defs max_def)
  qed
next
  case (revoke_forward s i below)
  then consider
      "revoked_below_generation (sys_engine s) \<le> max (engine_generation (sys_engine s)) below"
    | j b where "sys_threads s j = RevokeRaised b" "revoked_below_generation (sys_engine s) \<le> b" "j \<noteq> i"
    unfolding threshold_inv_def by (metis le_max_iff_disj policy_thread.inject(2))
  then show ?case
    by cases (auto simp: threshold_inv_def step_defs)
next
  case (revoke_id s i tid)
  then show ?case by (auto simp: threshold_inv_def step_defs)
qed

lemma policy_step_generations:
  "policy_step s a t \<Longrightarrow> unexhausted (sys_engine s) \<Longrightarrow> generations_inv s \<Longrightarrow> generations_inv t"
proof (induction rule: policy_step.induct)
  case (issue_generation s i g e pack agent now ttl)
  let ?g = "engine_generation (sys_engine s)"
  have less: "?g < ?g + 1"
    using issue_generation.prems(1) by (intro u64_less_succ) (simp add: unexhausted_def)
  have g: "g = ?g + 1" and e: "e = (sys_engine s)\<lparr>engine_generation := ?g + 1\<rparr>"
    using issue_generation.hyps(2) by (auto simp: take_generation_def)
  have old: "h \<le> ?g \<Longrightarrow> h \<le> ?g + 1 \<and> h \<noteq> ?g + 1" for h
    using less by auto
  show ?case
    using issue_generation.prems old unfolding generations_inv_def g e by (simp add: eq_commute)
next
  case (issue_finish s i g pack agent now ttl t e)
  then have "token_generation t = g" and "engine_generation e = engine_generation (sys_engine s)"
    by (auto simp: step_defs Let_def)
  moreover have "g \<le> engine_generation (sys_engine s)"
    and "\<forall>u \<in> set (sys_issued s). token_generation u \<noteq> g"
    and "\<And>j g' p a n l. sys_threads s j = IssueHasGeneration g' p a n l \<Longrightarrow> j \<noteq> i \<Longrightarrow> g' \<noteq> g"
    using issue_finish.prems issue_finish.hyps(1) unfolding generations_inv_def by blast+
  ultimately show ?case
    using issue_finish.prems unfolding generations_inv_def
    by (simp add: image_iff) (metis (no_types, lifting))
next
  case (revoke_forward s i below)
  then show ?case by (auto simp: generations_inv_def step_defs le_max_iff_disj)
qed (auto simp: generations_inv_def step_defs split: if_splits)

lemma unat_succ_le: "unat (x + 1 :: u64) \<le> unat x + 1"
  by (simp add: unat_word_ariths)

text \<open>How far the counters can have gone.\<close>

lemma concurrent_run_bounds:
  "concurrent_run actions s \<Longrightarrow> (\<And>below. RaiseThreshold below \<in> set actions \<Longrightarrow> unat below \<le> limit) \<Longrightarrow>
    unat (token_seq (sys_engine s)) \<le> length actions \<and>
    unat (engine_generation (sys_engine s)) \<le> limit + length actions \<and>
    (\<forall>i b. sys_threads s i = RevokeRaised b \<longrightarrow> unat b \<le> limit)"
proof (induction rule: concurrent_run.induct)
  case start
  show ?case by (simp add: sys_init_def static_policy_engine_default_def)
next
  case (step actions s a t)
  then have before: "unat (token_seq (sys_engine s)) \<le> length actions"
    "unat (engine_generation (sys_engine s)) \<le> limit + length actions"
    "\<forall>i b. sys_threads s i = RevokeRaised b \<longrightarrow> unat b \<le> limit" and raised: "\<And>below. a = RaiseThreshold below \<Longrightarrow> unat below \<le> limit"
    by simp_all
  from step(2) show ?case
  proof cases
    case (issue_generation i g e pack agent now ttl)
    with before unat_succ_le [of "engine_generation (sys_engine s)"] show ?thesis
      by (auto simp: take_generation_def)
  next
    case (issue_finish i g pack agent now ttl t e)
    with before unat_succ_le [of "token_seq (sys_engine s)"] show ?thesis
      by (auto simp: finish_issue_def next_token_id_def Let_def)
  next
    case (revoke_raise i below)
    with before raised show ?thesis by (auto simp: raise_threshold_def)
  next
    case (revoke_forward i below)
    moreover have "unat (max (engine_generation (sys_engine s)) below) \<le> limit + length actions"
      using before(2,3) revoke_forward(3) by (auto simp: max_def intro: trans_le_add1)
    ultimately show ?thesis using before by (auto simp: forward_generation_def)
  next
    case (revoke_id i tid)
    with before show ?thesis by (auto simp: static_revoke_token_def)
  qed
qed

lemma counters_suffice_unexhausted:
  assumes "concurrent_run actions s" and "counters_suffice actions"
  shows "unexhausted (sys_engine s)"
proof -
  let ?limit = "2 ^ 64 - 2 - length actions"
  have "unat below \<le> ?limit" if "RaiseThreshold below \<in> set actions" for below
    using assms(2) that by (fastforce simp: counters_suffice_def)
  from concurrent_run_bounds [OF assms(1) this] show ?thesis
    using assms(2) by (simp add: unexhausted_def u64_less_max_unat counters_suffice_def)
qed

lemma counters_suffice_earlier: "counters_suffice (actions @ [a]) \<Longrightarrow> counters_suffice actions"
  by (fastforce simp: counters_suffice_def)

lemma concurrent_run_inv:
  "concurrent_run actions s \<Longrightarrow> counters_suffice actions \<Longrightarrow> ids_inv s \<and> threshold_inv s \<and> generations_inv s"
proof (induction rule: concurrent_run.induct)
  case start
  show ?case
    by (simp add: sys_init_def static_policy_engine_default_def ids_inv_def threshold_inv_def generations_inv_def)
next
  case (step actions s a t)
  then show ?case
    using policy_step_ids policy_step_threshold policy_step_generations counters_suffice_unexhausted counters_suffice_earlier
    by blast
qed

section \<open>Properties\<close>

lemma issued_after_revocation:
  assumes "concurrent_run actions s" and "counters_suffice actions" and "\<And>i b. sys_threads s i \<noteq> RevokeRaised b"
    and "take_generation (sys_engine s) = (g, e)"
  shows "revoked_below_generation (sys_engine s) < g"
proof -
  have "threshold_inv s"
    using assms(1,2) concurrent_run_inv by blast
  then have "revoked_below_generation (sys_engine s) \<le> engine_generation (sys_engine s)"
    using assms(3) by (auto simp: threshold_inv_def)
  also have "\<dots> < engine_generation (sys_engine s) + 1"
    using counters_suffice_unexhausted [OF assms(1,2)] by (intro u64_less_succ) (simp add: unexhausted_def)
  finally show ?thesis
    using assms(4) by (auto simp: take_generation_def)
qed

text \<open>
  C22. In every interleaving of the engine's atomic steps whose counters do not run out, no two
  issued tokens share a token id or a generation, and a generation taken while no
  \<open>revoke_generation\<close> is between its two steps lies above the revocation threshold, so the
  token it goes into is not revoked by it. The counters do not run out when the run has fewer
  than \<open>2 ^ 64 - 1\<close> steps and every generation it revokes lies that far below the last one; the
  code has no guard for this, and lemma \<open>exhausted_engine_revokes_new_tokens\<close> shows what happens
  when the last generation is revoked.
\<close>

theorem concurrent_issue_unique_and_fresh:
  assumes "concurrent_run actions s" and "counters_suffice actions"
  shows "distinct (map token_id (sys_issued s)) \<and>
    distinct (map token_generation (sys_issued s)) \<and>
    ((\<forall>i b. sys_threads s i \<noteq> RevokeRaised b) \<longrightarrow>
      revoked_below_generation (sys_engine s) < fst (take_generation (sys_engine s)))"
  using concurrent_run_inv [OF assms] issued_after_revocation [OF assms]
  unfolding ids_inv_def generations_inv_def by (metis prod.collapse)

text \<open>
  A run in which a token is issued between the two steps of a concurrent revocation: it is
  revoked from the start, the race the documentation of \<open>revoke_generation\<close> admits.
\<close>

definition race_pack :: pack_manifest where
  "race_pack = \<lparr>pack_id = ''p'', pack_domain = ''d'', pack_version = ''1.0.0'',
     pack_default_route = \<lparr>route_harness_kind = EmbeddedPi, route_adapter = None\<rparr>,
     pack_allowed_connectors = {}, pack_granted_capabilities = {InvokeTool}, pack_metadata = []\<rparr>"

definition race_token :: capability_token where
  "race_token = \<lparr>token_id = ''tok-0000000000000001'', token_pack_id = ''p'', token_agent_id = ''a'',
     token_allowed_capabilities = {InvokeTool}, token_issued_at_epoch_s = 0,
     token_expires_at_epoch_s = 10, token_generation = 1\<rparr>"

definition race_state :: policy_sys where
  "race_state = \<lparr>sys_engine = \<lparr>token_seq = 1, revoked_tokens = \<lparr>mutex_poisoned = False, mutex_value = {}\<rparr>,
       engine_generation = 1, revoked_below_generation = 5\<rparr>,
     sys_threads = (\<lambda>_. Ready)(0 := RevokeRaised 5, 1 := Ready), sys_issued = [race_token]\<rparr>"

lemma race_run: "concurrent_run [RaiseThreshold 5, TakeGeneration, FinishIssue] race_state"
proof -
  let ?e0 = static_policy_engine_default
  let ?s1 = "sys_init\<lparr>sys_engine := raise_threshold ?e0 5, sys_threads := (sys_threads sys_init)(0 := RevokeRaised 5)\<rparr>"
  let ?e2 = "(raise_threshold ?e0 5)\<lparr>engine_generation := 1\<rparr>"
  let ?s2 = "?s1\<lparr>sys_engine := ?e2,
      sys_threads := (sys_threads ?s1)(1 := IssueHasGeneration 1 race_pack ''a'' 0 10)\<rparr>"
  have "policy_step sys_init (RaiseThreshold 5) ?s1"
    using policy_step.revoke_raise [of sys_init 0 5] by (simp add: sys_init_def)
  then have 1: "concurrent_run [RaiseThreshold 5] ?s1"
    by (rule concurrent_run.step [OF concurrent_run.start, simplified])
  have "policy_step ?s1 TakeGeneration ?s2"
    by (rule policy_step.issue_generation)
      (simp_all add: sys_init_def raise_threshold_def take_generation_def
        static_policy_engine_default_def)
  with 1 have 2: "concurrent_run [RaiseThreshold 5, TakeGeneration] ?s2" by (rule concurrent_run.step [of "[RaiseThreshold 5]", simplified])
  have "u64_saturating_add 0 10 = 10"
    by (simp add: u64_saturating_add_def)
  then have finish: "finish_issue (sys_engine ?s2) 1 race_pack ''a'' 0 10 = (race_token, ?e2\<lparr>token_seq := 1\<rparr>)"
    by (simp add: raise_threshold_def finish_issue_def next_token_id_def
        static_policy_engine_default_def race_pack_def race_token_def hex16_def upt_rec)
  have "policy_step ?s2 FinishIssue (?s2\<lparr>sys_engine := ?e2\<lparr>token_seq := 1\<rparr>,
      sys_threads := (sys_threads ?s2)(1 := Ready), sys_issued := race_token # sys_issued ?s2\<rparr>)"
    by (rule policy_step.issue_finish [OF _ finish])
      (simp_all add: sys_init_def raise_threshold_def
        static_policy_engine_default_def)
  also have "?s2\<lparr>sys_engine := ?e2\<lparr>token_seq := 1\<rparr>,
      sys_threads := (sys_threads ?s2)(1 := Ready), sys_issued := race_token # sys_issued ?s2\<rparr> = race_state"
    by (simp add: race_state_def sys_init_def raise_threshold_def static_policy_engine_default_def)
  finally show ?thesis
    using 2 by (rule concurrent_run.step [of "[RaiseThreshold 5, TakeGeneration]", simplified, rotated])
qed

text \<open>
  The race the comment on \<open>revoke_generation\<close> admits does occur: some interleaving issues
  a token while a revocation is under way that the engine denies from then on, whatever the
  request, although nobody revoked it by its id.
\<close>

theorem concurrent_issue_may_be_revoked:
  "\<exists>actions s t. concurrent_run actions s \<and> t \<in> set (sys_issued s) \<and>
     token_id t \<notin> mutex_value (revoked_tokens (sys_engine s)) \<and>
     (\<forall>pid now req. static_authorize (sys_engine s) t pid now req = Inl (RevokedToken (token_id t)))"
proof (intro exI conjI allI)
  show "concurrent_run [RaiseThreshold 5, TakeGeneration, FinishIssue] race_state" by (rule race_run)
  show "race_token \<in> set (sys_issued race_state)" by (simp add: race_state_def)
  show "token_id race_token \<notin> mutex_value (revoked_tokens (sys_engine race_state))"
    by (simp add: race_state_def)
  show "static_authorize (sys_engine race_state) race_token pid now req = Inl (RevokedToken (token_id race_token))"
    for pid now req
    by (rule static_authorize_revoked) (simp add: token_revoked_def race_state_def race_token_def)
qed

text \<open>
  Once the last generation has been revoked, the counter wraps: the next token gets generation 0,
  which no revocation of generations ever reaches, and the one after it generation 1, which is
  revoked from the start with no revocation under way.
\<close>

lemma exhausted_engine_revokes_new_tokens:
  assumes "static_issue_token (static_revoke_generation e (- 1)) pack agent now ttl = (Inr t, e')"
    and "static_issue_token e' pack' agent' now' ttl' = (Inr u, e'')"
  shows "token_generation t = 0 \<and> token_generation u = 1 \<and>
    static_authorize e'' u pid later required = Inl (RevokedToken (token_id u))"
proof -
  have gen: "engine_generation (static_revoke_generation e (- 1)) = - 1"
    and threshold: "revoked_below_generation (static_revoke_generation e (- 1)) = - 1"
    by (simp_all add: static_revoke_generation_def max_def word_order.extremum_unique)
  then have first: "token_generation t = 0" "engine_generation e' = 0" "revoked_below_generation e' = - 1"
    using assms(1) by (auto simp: static_issue_token_def next_token_id_def Let_def)
  then have "token_generation u = 1" "revoked_below_generation e'' = - 1"
    using assms(2) by (auto simp: static_issue_token_def next_token_id_def Let_def)
  then show ?thesis
    using first by (simp add: static_authorize_revoked token_revoked_def)
qed

theorem concurrent_issue_unique_and_fresh_witness:
  "distinct (map token_id (sys_issued race_state)) \<and>
   revoked_below_generation (sys_engine sys_init) < fst (take_generation (sys_engine sys_init))"
proof
  have "counters_suffice [RaiseThreshold 5, TakeGeneration, FinishIssue]"
    by (simp add: counters_suffice_def)
  from concurrent_issue_unique_and_fresh [OF race_run this]
  show "distinct (map token_id (sys_issued race_state))" by blast
  have "counters_suffice []" by (simp add: counters_suffice_def)
  from concurrent_issue_unique_and_fresh [OF concurrent_run.start this]
  show "revoked_below_generation (sys_engine sys_init) < fst (take_generation (sys_engine sys_init))"
    by (simp add: sys_init_def)
qed

end
