(* ===== verification/Audit_Journal.thy ===== *)
theory Audit_Journal
  imports Audit_Sinks
begin

text \<open>
  The persistent audit journal (crates/kernel/src/audit.rs): a file of JSON lines whose
  entries carry a hash chain. The model reads and writes the bytes of the file; what the
  source obtains from serde_json and sha2 is the record \<open>journal_codec\<close> of parameters, and
  the outcome of every system call is a field of \<open>journal_io\<close> (\<open>None\<close> for success, else the
  error text), so each \<open>map_err\<close> is a branch. The journal code only passes events on to the
  codec, so their type is a parameter \<open>'e\<close>, which the kernel instantiates with
  \<open>audit_event\<close>.
\<close>

section \<open>Data\<close>

record persisted_audit_integrity =
  integrity_algorithm :: string
  integrity_prev_hash :: "string option"
  integrity_entry_hash :: string

record 'e persisted_audit_event =
  persisted_event :: 'e
  persisted_integrity :: "persisted_audit_integrity option"

record audit_verification_report =
  avr_total_events :: usize
  avr_verified_events :: usize
  avr_valid :: bool
  avr_last_entry_hash :: "string option"
  avr_first_invalid_line :: "usize option"
  avr_reason :: "string option"

datatype audit_repair_outcome = Healthy | Repaired | Refused usize string

record audit_repair_report =
  arr_total_events :: usize
  arr_repaired_events :: usize
  arr_already_valid_events :: usize
  arr_outcome :: audit_repair_outcome

record 'e journal_codec =
  jc_from_str :: "string \<Rightarrow> string + 'e persisted_audit_event"
  jc_to_vec :: "'e persisted_audit_event \<Rightarrow> string + string"
  jc_material :: "'e \<Rightarrow> string option \<Rightarrow> string + string"
  jc_sha256_hex :: "string \<Rightarrow> string"

record journal_path =
  path_display :: string
  path_parent :: "string option"
  path_repair_temp :: string

record journal_io =
  io_create_dir :: "string option"
  io_open :: "string option"
  io_lock :: "string option"
  io_unlock :: "string option"
  io_clone :: "string option"
  io_seek :: "string option"
  io_read :: "nat \<Rightarrow> string option"
  io_write :: "(nat \<times> string) option"
  io_flush :: "string option"
  io_metadata :: "string option"
  io_temp_create :: "string option"
  io_set_permissions :: "string option"
  io_temp_write :: "(nat \<times> string) option"
  io_temp_flush :: "string option"
  io_temp_sync :: "string option"
  io_rename :: "string option"
  io_temp_remove :: "string option"

definition io_ok :: journal_io where
  "io_ok = \<lparr>io_create_dir = None, io_open = None, io_lock = None, io_unlock = None, io_clone = None,
     io_seek = None, io_read = (\<lambda>_. None), io_write = None, io_flush = None, io_metadata = None,
     io_temp_create = None, io_set_permissions = None, io_temp_write = None, io_temp_flush = None,
     io_temp_sync = None, io_rename = None, io_temp_remove = None\<rparr>"

text \<open>The files: the journal (absent or its bytes), whether this process holds its advisory
  lock, and the temporary file of a repair.\<close>

record journal_files =
  journal_file :: "string option"
  journal_locked :: bool
  repair_temp_file :: "string option"

record jsonl_audit_sink =
  jsonl_path :: journal_path
  jsonl_last_entry_hash :: "string option mutex"

text \<open>\<open>reader.lines()\<close>: each item is a line or the error of reading it.\<close>

definition lines_from :: "journal_io \<Rightarrow> string \<Rightarrow> (string + string) list" where
  "lines_from io content =
     map (\<lambda>(i, l). case io_read io i of
            Some e \<Rightarrow> Inl e
          | None \<Rightarrow> if utf8_valid l then Inr l else Inl ''stream did not contain valid UTF-8'')
       (enumerate 0 (read_lines content))"

section \<open>Opening and locking\<close>

definition prepare_audit_journal_parent :: "journal_io \<Rightarrow> journal_path \<Rightarrow> audit_error + unit" where
  "prepare_audit_journal_parent io path =
     (case path_parent path of
        Some parent \<Rightarrow>
          if parent \<noteq> [] then
            (case io_create_dir io of
               Some e \<Rightarrow> Inl (Sink (''failed to prepare audit journal parent directory `'' @ parent @ ''`: '' @ e))
             | None \<Rightarrow> Inr ())
          else Inr ()
      | None \<Rightarrow> Inr ())"

definition open_jsonl_audit_journal ::
  "journal_io \<Rightarrow> journal_path \<Rightarrow> journal_files \<Rightarrow> (audit_error + unit) \<times> journal_files" where
  "open_jsonl_audit_journal io path fs =
     (case prepare_audit_journal_parent io path of
        Inl e \<Rightarrow> (Inl e, fs)
      | Inr _ \<Rightarrow>
          (case io_open io of
             Some e \<Rightarrow> (Inl (Sink (''failed to open audit journal `'' @ path_display path @ ''`: '' @ e)), fs)
           | None \<Rightarrow> (Inr (), fs\<lparr>journal_file :=
               Some (case journal_file fs of None \<Rightarrow> [] | Some content \<Rightarrow> content)\<rparr>)))"

definition lock_audit_journal ::
  "journal_io \<Rightarrow> journal_path \<Rightarrow> journal_files \<Rightarrow> (audit_error + unit) \<times> journal_files" where
  "lock_audit_journal io path fs =
     (case io_lock io of
        Some e \<Rightarrow> (Inl (Sink (''failed to lock audit journal `'' @ path_display path @ ''`: '' @ e)), fs)
      | None \<Rightarrow> (Inr (), fs\<lparr>journal_locked := True\<rparr>))"

definition unlock_audit_journal ::
  "journal_io \<Rightarrow> journal_path \<Rightarrow> journal_files \<Rightarrow> (audit_error + unit) \<times> journal_files" where
  "unlock_audit_journal io path fs =
     (case io_unlock io of
        Some e \<Rightarrow> (Inl (Sink (''failed to unlock audit journal `'' @ path_display path @ ''`: '' @ e)), fs)
      | None \<Rightarrow> (Inr (), fs\<lparr>journal_locked := False\<rparr>))"

definition probe_jsonl_audit_journal_runtime_ready ::
  "journal_io \<Rightarrow> journal_path \<Rightarrow> journal_files \<Rightarrow> (audit_error + unit) \<times> journal_files" where
  "probe_jsonl_audit_journal_runtime_ready io path fs =
     (case open_jsonl_audit_journal io path fs of
        (Inl e, fs1) \<Rightarrow> (Inl e, fs1)
      | (Inr _, fs1) \<Rightarrow>
          (case lock_audit_journal io path fs1 of
             (Inl e, fs2) \<Rightarrow> (Inl e, fs2)
           | (Inr _, fs2) \<Rightarrow> unlock_audit_journal io path fs2))"

section \<open>Entries\<close>

definition compute_audit_event_entry_hash ::
  "'e journal_codec \<Rightarrow> journal_path \<Rightarrow> 'e \<Rightarrow> string option \<Rightarrow> audit_error + string" where
  "compute_audit_event_entry_hash C path event prev_hash =
     (case jc_material C event prev_hash of
        Inl e \<Rightarrow> Inl (Sink (''failed to serialize audit chain material for `'' @ path_display path @ ''`: '' @ e))
      | Inr material \<Rightarrow> Inr (jc_sha256_hex C material))"

definition event_with_integrity :: "'e \<Rightarrow> string option \<Rightarrow> string \<Rightarrow> 'e persisted_audit_event" where
  "event_with_integrity event prev_hash entry_hash =
     \<lparr>persisted_event = event,
      persisted_integrity = Some \<lparr>integrity_algorithm = ''sha256'', integrity_prev_hash = prev_hash,
        integrity_entry_hash = entry_hash\<rparr>\<rparr>"

definition decode_persisted_audit_event_line ::
  "'e journal_codec \<Rightarrow> string \<Rightarrow> journal_path \<Rightarrow> string \<Rightarrow> audit_error + 'e persisted_audit_event" where
  "decode_persisted_audit_event_line C line path label =
     (case jc_from_str C line of
        Inl e \<Rightarrow> Inl (Sink (''failed to decode audit journal `'' @ path_display path @ ''` at '' @ label @ '': '' @ e))
      | Inr p \<Rightarrow> Inr p)"

definition serialize_audit_event_line ::
  "'e journal_codec \<Rightarrow> 'e persisted_audit_event \<Rightarrow> journal_path \<Rightarrow> audit_error + string" where
  "serialize_audit_event_line C event path =
     (case jc_to_vec C event of
        Inl e \<Rightarrow> Inl (Sink (''failed to serialize audit event for `'' @ path_display path @ ''`: '' @ e))
      | Inr encoded \<Rightarrow> Inr (encoded @ [newline]))"

definition decode_last_audit_entry_hash_from_line ::
  "'e journal_codec \<Rightarrow> string \<Rightarrow> journal_path \<Rightarrow> audit_error + string option" where
  "decode_last_audit_entry_hash_from_line C line path =
     try_bind (decode_persisted_audit_event_line C line path ''tail line'')
       (\<lambda>p. Inr (case persisted_integrity p of
                  None \<Rightarrow> None
                | Some v \<Rightarrow> if trim (integrity_entry_hash v) = [] then None
                            else Some (integrity_entry_hash v)))"

text \<open>The last line that is not blank; a read error ends the scan.\<close>

fun last_non_empty_line ::
  "journal_path \<Rightarrow> (string + string) list \<Rightarrow> string option \<Rightarrow> audit_error + string option" where
  "last_non_empty_line path [] last_line = Inr last_line"
| "last_non_empty_line path (Inl e # ls) last_line =
     Inl (Sink (''failed to read audit journal `'' @ path_display path @ ''` while loading tail hash: '' @ e))"
| "last_non_empty_line path (Inr l # ls) last_line =
     last_non_empty_line path ls (if trim l \<noteq> [] then Some l else last_line)"

definition load_last_audit_entry_hash ::
  "'e journal_codec \<Rightarrow> journal_io \<Rightarrow> journal_path \<Rightarrow> journal_files \<Rightarrow> audit_error + string option" where
  "load_last_audit_entry_hash C io path fs =
     (case journal_file fs of
        None \<Rightarrow> Inr None
      | Some content \<Rightarrow>
          (case io_open io of
             Some e \<Rightarrow> Inl (Sink (''failed to inspect audit journal `'' @ path_display path @ ''`: '' @ e))
           | None \<Rightarrow>
               try_bind (last_non_empty_line path (lines_from io content) None)
                 (\<lambda>l. case l of None \<Rightarrow> Inr None
                    | Some line \<Rightarrow> decode_last_audit_entry_hash_from_line C line path)))"

definition load_last_audit_entry_hash_from_file ::
  "'e journal_codec \<Rightarrow> journal_io \<Rightarrow> journal_path \<Rightarrow> string \<Rightarrow> audit_error + string option" where
  "load_last_audit_entry_hash_from_file C io path content =
     (case io_clone io of
        Some e \<Rightarrow> Inl (Sink (''failed to clone audit journal handle `'' @ path_display path @
                        ''` while loading tail hash: '' @ e))
      | None \<Rightarrow>
          (case io_seek io of
             Some e \<Rightarrow> Inl (Sink (''failed to rewind audit journal `'' @ path_display path @
                             ''` while loading tail hash: '' @ e))
           | None \<Rightarrow>
               try_bind (last_non_empty_line path (lines_from io content) None)
                 (\<lambda>l. case l of None \<Rightarrow> Inr None
                    | Some line \<Rightarrow> decode_last_audit_entry_hash_from_line C line path)))"

section \<open>The JSONL sink\<close>

definition jsonl_sink_new ::
  "'e journal_codec \<Rightarrow> journal_io \<Rightarrow> journal_path \<Rightarrow> journal_files \<Rightarrow>
   (audit_error + jsonl_audit_sink) \<times> journal_files" where
  "jsonl_sink_new C io path fs =
     (case open_jsonl_audit_journal io path fs of
        (Inl e, fs1) \<Rightarrow> (Inl e, fs1)
      | (Inr _, fs1) \<Rightarrow>
          (case load_last_audit_entry_hash C io path fs1 of
             Inl e \<Rightarrow> (Inl e, fs1)
           | Inr h \<Rightarrow> (Inr \<lparr>jsonl_path = path,
               jsonl_last_entry_hash = \<lparr>mutex_poisoned = False, mutex_value = h\<rparr>\<rparr>, fs1)))"

text \<open>\<open>write_all\<close> to the journal, then \<open>flush\<close>; a failing write has appended some prefix.\<close>

definition append_and_flush ::
  "journal_io \<Rightarrow> journal_path \<Rightarrow> string \<Rightarrow> journal_files \<Rightarrow> (audit_error + unit) \<times> journal_files" where
  "append_and_flush io path encoded fs =
     (let content = (case journal_file fs of None \<Rightarrow> [] | Some c \<Rightarrow> c) in
      case io_write io of
        Some (k, e) \<Rightarrow>
          (Inl (Sink (''failed to append audit event to `'' @ path_display path @ ''`: '' @ e)),
           fs\<lparr>journal_file := Some (content @ take k encoded)\<rparr>)
      | None \<Rightarrow>
          (case io_flush io of
             Some e \<Rightarrow> Inl (Sink (''failed to flush audit journal `'' @ path_display path @ ''`: '' @ e))
           | None \<Rightarrow> Inr (),
           fs\<lparr>journal_file := Some (content @ encoded)\<rparr>))"

definition jsonl_record ::
  "'e journal_codec \<Rightarrow> journal_io \<Rightarrow> jsonl_audit_sink \<times> journal_files \<Rightarrow> 'e \<Rightarrow>
   (audit_error + unit) \<times> jsonl_audit_sink \<times> journal_files" where
  "jsonl_record C io st event =
     (let (sink, fs) = st; path = jsonl_path sink in
      if mutex_poisoned (jsonl_last_entry_hash sink)
      then (Inl (Sink ''audit journal mutex poisoned''), sink, fs)
      else case lock_audit_journal io path fs of
        (Inl e, fs1) \<Rightarrow> (Inl e, sink, fs1)
      | (Inr _, fs1) \<Rightarrow>
        (case load_last_audit_entry_hash_from_file C io path
                (case journal_file fs1 of None \<Rightarrow> [] | Some c \<Rightarrow> c) of
           Inl e \<Rightarrow> (Inl e, sink, fs1)
         | Inr previous_hash \<Rightarrow>
           (case compute_audit_event_entry_hash C path event previous_hash of
              Inl e \<Rightarrow> (Inl e, sink, fs1)
            | Inr entry_hash \<Rightarrow>
              (case serialize_audit_event_line C (event_with_integrity event previous_hash entry_hash) path of
                 Inl e \<Rightarrow> (Inl e, sink, fs1)
               | Inr encoded \<Rightarrow>
                 (case append_and_flush io path encoded fs1 of
                    (write_result, fs2) \<Rightarrow>
                      (case unlock_audit_journal io path fs2 of
                         (unlock_result, fs3) \<Rightarrow>
                           (case (write_result, unlock_result) of
                              (Inl e, _) \<Rightarrow> (Inl e, sink, fs3)
                            | (Inr _, Inl e) \<Rightarrow> (Inl e, sink, fs3)
                            | (Inr _, Inr _) \<Rightarrow>
                                (Inr (), sink\<lparr>jsonl_last_entry_hash :=
                                   (jsonl_last_entry_hash sink)\<lparr>mutex_value := Some entry_hash\<rparr>\<rparr>, fs3))))))))"

section \<open>Verification\<close>

record verify_state =
  vs_total_events :: usize
  vs_verified_events :: usize
  vs_previous_hash :: "string option"
  vs_protected_chain_started :: bool

definition verify_init :: verify_state where
  "verify_init = \<lparr>vs_total_events = 0, vs_verified_events = 0, vs_previous_hash = None,
     vs_protected_chain_started = False\<rparr>"

definition invalid_report :: "verify_state \<Rightarrow> usize \<Rightarrow> string \<Rightarrow> audit_verification_report" where
  "invalid_report s n why =
     \<lparr>avr_total_events = vs_total_events s, avr_verified_events = vs_verified_events s,
      avr_valid = False, avr_last_entry_hash = vs_previous_hash s,
      avr_first_invalid_line = Some n, avr_reason = Some why\<rparr>"

definition valid_report :: "verify_state \<Rightarrow> audit_verification_report" where
  "valid_report s =
     \<lparr>avr_total_events = vs_total_events s, avr_verified_events = vs_verified_events s,
      avr_valid = True, avr_last_entry_hash = vs_previous_hash s,
      avr_first_invalid_line = None, avr_reason = None\<rparr>"

definition journal_read_error :: "journal_path \<Rightarrow> nat \<Rightarrow> string \<Rightarrow> audit_error" where
  "journal_read_error path n e =
     Sink (''failed to read audit journal `'' @ path_display path @ ''` at line '' @ nat_to_dec n @ '': '' @ e)"

definition unsupported_algorithm :: "string \<Rightarrow> string" where
  "unsupported_algorithm alg = ''unsupported integrity algorithm `'' @ alg @ ''`''"

definition verify_line ::
  "'e journal_codec \<Rightarrow> journal_path \<Rightarrow> nat \<Rightarrow> string + string \<Rightarrow> verify_state \<Rightarrow>
   (verify_state, audit_error + audit_verification_report) flow" where
  "verify_line C path n item s =
     (case item of
        Inl e \<Rightarrow> Return (Inl (journal_read_error path n e))
      | Inr line \<Rightarrow>
        if trim line = [] then Continue s
        else
          let s1 = s\<lparr>vs_total_events := vs_total_events s + 1\<rparr> in
          case decode_persisted_audit_event_line C line path (''line '' @ nat_to_dec n) of
            Inl e \<Rightarrow> Return (Inl e)
          | Inr persisted \<Rightarrow>
            (case persisted_integrity persisted of
               None \<Rightarrow>
                 if vs_protected_chain_started s1
                 then Return (Inr (invalid_report s1 n ''missing integrity envelope''))
                 else Continue s1
             | Some integrity \<Rightarrow>
               if trim (integrity_algorithm integrity) \<noteq> ''sha256''
               then Return (Inr (invalid_report s1 n (unsupported_algorithm (integrity_algorithm integrity))))
               else
                 let s2 = s1\<lparr>vs_protected_chain_started := True\<rparr> in
                 if integrity_prev_hash integrity \<noteq> vs_previous_hash s2
                 then Return (Inr (invalid_report s2 n ''prev_hash mismatch''))
                 else
                   (case compute_audit_event_entry_hash C path (persisted_event persisted)
                           (integrity_prev_hash integrity) of
                      Inl e \<Rightarrow> Return (Inl e)
                    | Inr expected_hash \<Rightarrow>
                      if integrity_entry_hash integrity \<noteq> expected_hash
                      then Return (Inr (invalid_report s2 n ''entry_hash mismatch''))
                      else Continue (s2\<lparr>vs_previous_hash := Some (integrity_entry_hash integrity),
                             vs_verified_events := vs_verified_events s2 + 1\<rparr>))))"

definition verify_lines ::
  "'e journal_codec \<Rightarrow> journal_path \<Rightarrow> (string + string) list \<Rightarrow> audit_error + audit_verification_report" where
  "verify_lines C path ls =
     (case for_each (verify_line C path) 1 ls verify_init of
        Return r \<Rightarrow> r
      | Continue s \<Rightarrow> Inr (valid_report s))"

definition verify_jsonl_audit_journal ::
  "'e journal_codec \<Rightarrow> journal_io \<Rightarrow> journal_path \<Rightarrow> journal_files \<Rightarrow>
   audit_error + audit_verification_report" where
  "verify_jsonl_audit_journal C io path fs =
     (case journal_file fs of
        None \<Rightarrow> Inr (valid_report verify_init)
      | Some content \<Rightarrow>
          (case io_open io of
             Some e \<Rightarrow> Inl (Sink (''failed to open audit journal `'' @ path_display path @
                             ''` for verification: '' @ e))
           | None \<Rightarrow> verify_lines C path (lines_from io content)))"

section \<open>Repair\<close>

record repair_state =
  rs_repaired_lines :: "string list"
  rs_rebuilt_previous_hash :: "string option"
  rs_source_previous_hash :: "string option"
  rs_protected_chain_started :: bool
  rs_total_events :: usize
  rs_repaired_events :: usize
  rs_already_valid_events :: usize

definition repair_init :: repair_state where
  "repair_init = \<lparr>rs_repaired_lines = [], rs_rebuilt_previous_hash = None,
     rs_source_previous_hash = None, rs_protected_chain_started = False, rs_total_events = 0,
     rs_repaired_events = 0, rs_already_valid_events = 0\<rparr>"

definition repair_report :: "repair_state \<Rightarrow> audit_repair_outcome \<Rightarrow> audit_repair_report" where
  "repair_report s outcome =
     \<lparr>arr_total_events = rs_total_events s, arr_repaired_events = rs_repaired_events s,
      arr_already_valid_events = rs_already_valid_events s, arr_outcome = outcome\<rparr>"

text \<open>Sealing an event at the current end of the rebuilt chain.\<close>

definition reseal ::
  "'e journal_codec \<Rightarrow> journal_path \<Rightarrow> 'e \<Rightarrow> repair_state \<Rightarrow>
   (repair_state, audit_error + audit_repair_report) flow" where
  "reseal C path event s =
     (case compute_audit_event_entry_hash C path event (rs_rebuilt_previous_hash s) of
        Inl e \<Rightarrow> Return (Inl e)
      | Inr entry_hash \<Rightarrow>
          (case serialize_audit_event_line C
                  (event_with_integrity event (rs_rebuilt_previous_hash s) entry_hash) path of
             Inl e \<Rightarrow> Return (Inl e)
           | Inr encoded \<Rightarrow>
               Continue (s\<lparr>rs_repaired_lines := rs_repaired_lines s @ [encoded],
                           rs_rebuilt_previous_hash := Some entry_hash,
                           rs_repaired_events := rs_repaired_events s + 1\<rparr>)))"

definition tampered_reason :: string where
  "tampered_reason = ''entry_hash mismatch '' @ [CHR 0xE2, CHR 0x80, CHR 0x94] @ '' event data may be tampered''"

definition repair_line ::
  "'e journal_codec \<Rightarrow> journal_path \<Rightarrow> nat \<Rightarrow> string + string \<Rightarrow> repair_state \<Rightarrow>
   (repair_state, audit_error + audit_repair_report) flow" where
  "repair_line C path n item s =
     (case item of
        Inl e \<Rightarrow> Return (Inl (journal_read_error path n e))
      | Inr line \<Rightarrow>
        if trim line = [] then Continue (s\<lparr>rs_repaired_lines := rs_repaired_lines s @ [[newline]]\<rparr>)
        else
          let s1 = s\<lparr>rs_total_events := rs_total_events s + 1\<rparr> in
          case decode_persisted_audit_event_line C line path (''line '' @ nat_to_dec n) of
            Inl e \<Rightarrow> Return (Inl e)
          | Inr persisted \<Rightarrow>
            (case persisted_integrity persisted of
               Some integrity \<Rightarrow>
                 if trim (integrity_algorithm integrity) \<noteq> ''sha256''
                 then Return (Inr (repair_report s1
                        (Refused n (unsupported_algorithm (integrity_algorithm integrity)))))
                 else if integrity_prev_hash integrity \<noteq> rs_source_previous_hash s1
                 then Return (Inr (repair_report s1 (Refused n ''prev_hash mismatch in source chain'')))
                 else
                   (case compute_audit_event_entry_hash C path (persisted_event persisted)
                           (integrity_prev_hash integrity) of
                      Inl e \<Rightarrow> Return (Inl e)
                    | Inr self_consistent_hash \<Rightarrow>
                      if integrity_entry_hash integrity \<noteq> self_consistent_hash
                      then Return (Inr (repair_report s1 (Refused n tampered_reason)))
                      else
                        let s2 = s1\<lparr>rs_protected_chain_started := True,
                                    rs_source_previous_hash := Some (integrity_entry_hash integrity)\<rparr> in
                        if rs_repaired_events s2 = 0 \<and>
                           integrity_prev_hash integrity = rs_rebuilt_previous_hash s2
                        then Continue (s2\<lparr>rs_rebuilt_previous_hash := Some (integrity_entry_hash integrity),
                               rs_already_valid_events := rs_already_valid_events s2 + 1,
                               rs_repaired_lines := rs_repaired_lines s2 @ [line @ [newline]]\<rparr>)
                        else reseal C path (persisted_event persisted) s2)
             | None \<Rightarrow>
                 if rs_protected_chain_started s1
                 then Return (Inr (repair_report s1
                        (Refused n ''missing integrity envelope after protected chain started'')))
                 else reseal C path (persisted_event persisted) s1))"

text \<open>Writing the repaired lines to the temporary file and renaming it over the journal; any
  failure removes the temporary file (a failing removal is ignored) and leaves the journal.\<close>

definition repair_rewrite ::
  "journal_io \<Rightarrow> journal_path \<Rightarrow> string list \<Rightarrow> journal_files \<Rightarrow> (audit_error + unit) \<times> journal_files" where
  "repair_rewrite io path repaired_lines fs =
     (let temp = path_repair_temp path;
          bytes = concat repaired_lines;
          failed = (\<lambda>why e fs'. (Inl (Sink (why @ e)),
             case io_temp_remove io of None \<Rightarrow> fs'\<lparr>repair_temp_file := None\<rparr> | Some _ \<Rightarrow> fs'))
      in
      case io_temp_create io of
        Some e \<Rightarrow> failed (''failed to create repair temp file `'' @ temp @ ''`: '') e fs
      | None \<Rightarrow>
        let fs1 = fs\<lparr>repair_temp_file := Some []\<rparr> in
        (case io_set_permissions io of
           Some e \<Rightarrow> failed (''failed to apply original permissions to repair temp file `'' @ temp @ ''`: '') e fs1
         | None \<Rightarrow>
           (case io_temp_write io of
              Some (k, e) \<Rightarrow> failed (''failed to write repair temp file `'' @ temp @ ''`: '') e
                (fs1\<lparr>repair_temp_file := Some (take k bytes)\<rparr>)
            | None \<Rightarrow>
              let fs2 = fs1\<lparr>repair_temp_file := Some bytes\<rparr> in
              (case io_temp_flush io of
                 Some e \<Rightarrow> failed (''failed to flush repair temp file `'' @ temp @ ''`: '') e fs2
               | None \<Rightarrow>
                 (case io_temp_sync io of
                    Some e \<Rightarrow> failed (''failed to sync repair temp file `'' @ temp @ ''`: '') e fs2
                  | None \<Rightarrow>
                    (case io_rename io of
                       Some e \<Rightarrow> failed (''failed to replace journal with repaired file `'' @
                                   path_display path @ ''`: '') e fs2
                     | None \<Rightarrow> (Inr (), fs2\<lparr>journal_file := Some bytes, repair_temp_file := None\<rparr>)))))))"

definition repair_finish ::
  "journal_io \<Rightarrow> journal_path \<Rightarrow> repair_state \<Rightarrow> journal_files \<Rightarrow>
   (audit_error + audit_repair_report) \<times> journal_files" where
  "repair_finish io path s fs =
     (if rs_repaired_events s = 0 then (Inr (repair_report s Healthy), fs)
      else case repair_rewrite io path (rs_repaired_lines s) fs of
        (Inl e, fs') \<Rightarrow> (Inl e, fs')
      | (Inr _, fs') \<Rightarrow> (Inr (repair_report s Repaired), fs'))"

definition repair_jsonl_audit_journal ::
  "'e journal_codec \<Rightarrow> journal_io \<Rightarrow> journal_path \<Rightarrow> journal_files \<Rightarrow>
   (audit_error + audit_repair_report) \<times> journal_files" where
  "repair_jsonl_audit_journal C io path fs =
     (case journal_file fs of
        None \<Rightarrow> (Inr (repair_report repair_init Healthy), fs)
      | Some content \<Rightarrow>
        (case io_open io of
           Some e \<Rightarrow> (Inl (Sink (''failed to open audit journal `'' @ path_display path @ ''` for repair: '' @ e)), fs)
         | None \<Rightarrow>
           (case io_metadata io of
              Some e \<Rightarrow> (Inl (Sink (''failed to read audit journal metadata `'' @ path_display path @
                           ''` before repair: '' @ e)), fs)
            | None \<Rightarrow>
              (case for_each (repair_line C path) 1 (lines_from io content) repair_init of
                 Return r \<Rightarrow> (r, fs)
               | Continue s \<Rightarrow> repair_finish io path s fs))))"

end
