(* ===== verification/Audit_Journal_Proofs.thy ===== *)
theory Audit_Journal_Proofs
  imports Audit_Journal
begin

text \<open>
  What the audit journal promises: verification, repair and appending agree. The hypotheses
  on the codec, \<open>codec_ok\<close>, are what serde_json and sha2 document: a sealed entry is printed
  on one line and read back, and a digest is not blank.
\<close>

section \<open>The codec\<close>

definition line_roundtrips :: "'e journal_codec \<Rightarrow> 'e persisted_audit_event \<Rightarrow> bool" where
  "line_roundtrips C p \<longleftrightarrow>
     (\<exists>s. jc_to_vec C p = Inr s \<and> jc_from_str C s = Inr p \<and> newline \<notin> set s \<and> utf8_valid s \<and>
          trim s \<noteq> [] \<and> last s \<noteq> CHR 0x0D)"

definition chain_hash :: "'e journal_codec \<Rightarrow> string option \<Rightarrow> bool" where
  "chain_hash C prev \<longleftrightarrow> prev = None \<or> (\<exists>m. prev = Some (jc_sha256_hex C m))"

definition codec_ok :: "'e journal_codec \<Rightarrow> bool" where
  "codec_ok C \<longleftrightarrow>
     (\<forall>event prev. \<exists>m. jc_material C event prev = Inr m) \<and>
     (\<forall>m. trim (jc_sha256_hex C m) \<noteq> []) \<and>
     (\<forall>event prev m. chain_hash C prev \<longrightarrow>
        line_roundtrips C (event_with_integrity event prev (jc_sha256_hex C m)))"

definition entry_hash_of :: "'e journal_codec \<Rightarrow> 'e \<Rightarrow> string option \<Rightarrow> string" where
  "entry_hash_of C event prev =
     (case jc_material C event prev of Inr m \<Rightarrow> jc_sha256_hex C m | Inl _ \<Rightarrow> [])"

lemma compute_hash:
  assumes "codec_ok C"
  shows "compute_audit_event_entry_hash C path event prev = Inr (entry_hash_of C event prev)"
proof -
  obtain m where "jc_material C event prev = Inr m"
    using assms unfolding codec_ok_def by blast
  then show ?thesis
    by (simp add: compute_audit_event_entry_hash_def entry_hash_of_def)
qed

lemma entry_hash_digest:
  assumes "codec_ok C"
  obtains m where "entry_hash_of C event prev = jc_sha256_hex C m"
proof -
  obtain m where "jc_material C event prev = Inr m"
    using assms unfolding codec_ok_def by blast
  then show thesis
    by (intro that [of m]) (simp add: entry_hash_of_def)
qed

lemma chain_hash_entry: "codec_ok C \<Longrightarrow> chain_hash C (Some (entry_hash_of C event prev))"
  by (rule entry_hash_digest [of C event prev]) (auto simp: chain_hash_def)

lemma chain_hash_None [simp]: "chain_hash C None"
  by (simp add: chain_hash_def)

lemma entry_hash_not_blank: "codec_ok C \<Longrightarrow> trim (entry_hash_of C event prev) \<noteq> []"
  by (rule entry_hash_digest [of C event prev]) (auto simp: codec_ok_def)

lemma trim_Nil [simp]: "trim [] = []"
  by (simp add: trim_def trim_start_def trim_end_def)

lemma trim_sha256 [simp]: "trim ''sha256'' = ''sha256''"
  by (rule trim_graphic_id) (simp_all add: ascii_graphic_def)

text \<open>The line an entry is written as.\<close>

lemma sealed_line:
  assumes "codec_ok C" and "chain_hash C prev"
  obtains l where
    "serialize_audit_event_line C (event_with_integrity event prev (entry_hash_of C event prev)) path
       = Inr (l @ [newline])"
    "jc_from_str C l = Inr (event_with_integrity event prev (entry_hash_of C event prev))"
    "newline \<notin> set l" "utf8_valid l" "trim l \<noteq> []" "last l \<noteq> CHR 0x0D"
proof -
  obtain m where m: "entry_hash_of C event prev = jc_sha256_hex C m"
    using entry_hash_digest [OF assms(1)] .
  then have "line_roundtrips C (event_with_integrity event prev (entry_hash_of C event prev))"
    using assms by (simp add: codec_ok_def)
  then show thesis
    using that by (auto simp: line_roundtrips_def serialize_audit_event_line_def)
qed

lemma verify_sealed_line:
  assumes "codec_ok C" and "trim l \<noteq> []" and "vs_previous_hash s = prev"
    and "jc_from_str C l = Inr (event_with_integrity event prev (entry_hash_of C event prev))"
  shows "verify_line C path n (Inr l) s =
    Continue (s\<lparr>vs_total_events := vs_total_events s + 1, vs_protected_chain_started := True,
      vs_previous_hash := Some (entry_hash_of C event prev),
      vs_verified_events := vs_verified_events s + 1\<rparr>)"
  using assms
  by (simp add: verify_line_def decode_persisted_audit_event_line_def event_with_integrity_def
      compute_hash [OF assms(1)])

lemma reseal_ok:
  assumes "codec_ok C" and "chain_hash C (rs_rebuilt_previous_hash s)"
  obtains l where
    "reseal C path event s =
      Continue (s\<lparr>rs_repaired_lines := rs_repaired_lines s @ [l @ [newline]],
        rs_rebuilt_previous_hash := Some (entry_hash_of C event (rs_rebuilt_previous_hash s)),
        rs_repaired_events := rs_repaired_events s + 1\<rparr>)"
    "jc_from_str C l = Inr (event_with_integrity event (rs_rebuilt_previous_hash s)
       (entry_hash_of C event (rs_rebuilt_previous_hash s)))"
    "newline \<notin> set l" "utf8_valid l" "trim l \<noteq> []" "last l \<noteq> CHR 0x0D"
proof -
  obtain l where l:
    "serialize_audit_event_line C (event_with_integrity event (rs_rebuilt_previous_hash s)
       (entry_hash_of C event (rs_rebuilt_previous_hash s))) path = Inr (l @ [newline])"
    "jc_from_str C l = Inr (event_with_integrity event (rs_rebuilt_previous_hash s)
       (entry_hash_of C event (rs_rebuilt_previous_hash s)))"
    "newline \<notin> set l" "utf8_valid l" "trim l \<noteq> []" "last l \<noteq> CHR 0x0D"
    by (rule sealed_line [OF assms])
  show thesis
    by (rule that [OF _ l(2-6)]) (simp add: reseal_def compute_hash [OF assms(1)] l(1))
qed

section \<open>Repair follows verification\<close>

definition same_scan :: "'e journal_codec \<Rightarrow> verify_state \<Rightarrow> repair_state \<Rightarrow> bool" where
  "same_scan C v r \<longleftrightarrow>
     chain_hash C (rs_rebuilt_previous_hash r) \<and>
     rs_source_previous_hash r = vs_previous_hash v \<and>
     rs_protected_chain_started r = vs_protected_chain_started v \<and>
     rs_total_events r = vs_total_events v \<and>
     vs_verified_events v \<le> vs_total_events v \<and>
     (rs_repaired_events r = 0 \<longleftrightarrow> vs_verified_events v = vs_total_events v) \<and>
     (rs_repaired_events r = 0 \<longrightarrow> rs_rebuilt_previous_hash r = rs_source_previous_hash r)"

definition same_verdict ::
  "nat \<Rightarrow> audit_error + audit_verification_report \<Rightarrow> audit_error + audit_repair_report \<Rightarrow> bool" where
  "same_verdict n v r \<longleftrightarrow>
     (\<exists>e. v = Inl e \<and> r = Inl e) \<or>
     (\<exists>report repair why. v = Inr report \<and> \<not> avr_valid report \<and> avr_first_invalid_line report = Some n \<and>
        r = Inr repair \<and> arr_outcome repair = Refused n why)"

lemma repair_line_follows_verify_line:
  assumes ok: "codec_ok C" and sim: "same_scan C v r"
  shows "case verify_line C path n item v of
      Continue v' \<Rightarrow> (\<exists>r'. repair_line C path n item r = Continue r' \<and> same_scan C v' r')
    | Return x \<Rightarrow> (\<exists>y. repair_line C path n item r = Return y \<and> same_verdict n x y)"
proof (cases item)
  case (Inl e)
  then show ?thesis by (simp add: verify_line_def repair_line_def same_verdict_def)
next
  case (Inr line)
  let ?s1 = "r\<lparr>rs_total_events := rs_total_events r + 1\<rparr>"
  show ?thesis
  proof (cases "trim line = []")
    case True
    with Inr sim show ?thesis by (simp add: verify_line_def repair_line_def same_scan_def)
  next
    case blank: False
    show ?thesis
    proof (cases "jc_from_str C line")
      case (Inl e)
      with \<open>item = Inr line\<close> blank show ?thesis
        by (simp add: verify_line_def repair_line_def same_verdict_def decode_persisted_audit_event_line_def)
    next
      case (Inr p)
      note dec = \<open>item = Inr line\<close> blank Inr
      show ?thesis
      proof (cases "persisted_integrity p")
        case None
        show ?thesis
        proof (cases "vs_protected_chain_started v")
          case True
          with dec None sim show ?thesis
            by (simp add: verify_line_def repair_line_def same_verdict_def same_scan_def
                decode_persisted_audit_event_line_def invalid_report_def repair_report_def)
        next
          case False
          have "chain_hash C (rs_rebuilt_previous_hash ?s1)"
            using sim by (simp add: same_scan_def)
          then obtain l where "reseal C path (persisted_event p) ?s1 =
              Continue (?s1\<lparr>rs_repaired_lines := rs_repaired_lines ?s1 @ [l @ [newline]],
                rs_rebuilt_previous_hash := Some (entry_hash_of C (persisted_event p) (rs_rebuilt_previous_hash ?s1)),
                rs_repaired_events := rs_repaired_events ?s1 + 1\<rparr>)"
            by (rule reseal_ok [OF ok])
          with dec None False sim chain_hash_entry [OF ok] show ?thesis
            by (auto simp: verify_line_def repair_line_def same_scan_def
                decode_persisted_audit_event_line_def)
        qed
      next
        case (Some g)
        let ?s2 = "?s1\<lparr>rs_protected_chain_started := True,
            rs_source_previous_hash := Some (integrity_entry_hash g)\<rparr>"
        have "chain_hash C (rs_rebuilt_previous_hash ?s2)"
          using sim by (simp add: same_scan_def)
        then obtain l where "reseal C path (persisted_event p) ?s2 =
            Continue (?s2\<lparr>rs_repaired_lines := rs_repaired_lines ?s2 @ [l @ [newline]],
              rs_rebuilt_previous_hash := Some (entry_hash_of C (persisted_event p) (rs_rebuilt_previous_hash ?s2)),
              rs_repaired_events := rs_repaired_events ?s2 + 1\<rparr>)"
          by (rule reseal_ok [OF ok])
        then have reseal: "case reseal C path (persisted_event p) ?s2 of
            Continue r' \<Rightarrow> rs_repaired_events r' \<noteq> 0 \<and> chain_hash C (rs_rebuilt_previous_hash r') \<and>
              rs_source_previous_hash r' = Some (integrity_entry_hash g) \<and> rs_protected_chain_started r' \<and>
              rs_total_events r' = rs_total_events r + 1
          | Return _ \<Rightarrow> False"
          by (simp add: chain_hash_entry [OF ok])
        note defs = verify_line_def repair_line_def decode_persisted_audit_event_line_def
          invalid_report_def repair_report_def same_verdict_def compute_hash [OF ok]
        consider (alg) "trim (integrity_algorithm g) \<noteq> ''sha256''"
          | (prev) "trim (integrity_algorithm g) = ''sha256''" "integrity_prev_hash g \<noteq> vs_previous_hash v"
          | (hash) "trim (integrity_algorithm g) = ''sha256''" "integrity_prev_hash g = vs_previous_hash v"
              "integrity_entry_hash g \<noteq> entry_hash_of C (persisted_event p) (integrity_prev_hash g)"
          | (sealed) "trim (integrity_algorithm g) = ''sha256''" "integrity_prev_hash g = vs_previous_hash v"
              "integrity_entry_hash g = entry_hash_of C (persisted_event p) (integrity_prev_hash g)"
          by blast
        then show ?thesis
        proof cases
          case alg
          with dec Some show ?thesis by (simp add: defs)
        next
          case prev
          with dec Some sim show ?thesis by (simp add: defs same_scan_def)
        next
          case hash
          with dec Some sim show ?thesis by (simp add: defs same_scan_def)
        next
          case sealed
          show ?thesis
          proof (cases "rs_repaired_events r = 0")
            case True
            with dec Some sim sealed chain_hash_entry [OF ok] show ?thesis
              by (simp add: defs same_scan_def)
          next
            case False
            obtain r' where "reseal C path (persisted_event p) ?s2 = Continue r'"
              using reseal by (auto split: flow.splits)
            with dec Some sim sealed False reseal show ?thesis
              by (simp add: defs same_scan_def)
          qed
        qed
      qed
    qed
  qed
qed

lemma same_scan_init: "same_scan C verify_init repair_init"
  by (simp add: same_scan_def verify_init_def repair_init_def)

lemma repair_scan_follows_verify:
  assumes "codec_ok C"
  shows "case for_each (verify_line C path) 1 ls verify_init of
      Continue v \<Rightarrow> (\<exists>r. for_each (repair_line C path) 1 ls repair_init = Continue r \<and> same_scan C v r)
    | Return x \<Rightarrow> (\<exists>y m. for_each (repair_line C path) 1 ls repair_init = Return y \<and> same_verdict m x y)"
  by (rule for_each_sim [where R = "same_scan C" and Q = same_verdict, OF same_scan_init])
    (rule repair_line_follows_verify_line [OF assms])

section \<open>What a repair writes\<close>

fun item_event :: "'e journal_codec \<Rightarrow> string + string \<Rightarrow> 'e list" where
  "item_event C (Inl _) = []"
| "item_event C (Inr line) =
     (if trim line = [] then []
      else case jc_from_str C line of Inl _ \<Rightarrow> [] | Inr p \<Rightarrow> [persisted_event p])"

text \<open>The events a journal holds, in order.\<close>

definition journal_events :: "'e journal_codec \<Rightarrow> (string + string) list \<Rightarrow> 'e list" where
  "journal_events C items = concat (map (item_event C) items)"

definition clean_line :: "string \<Rightarrow> bool" where
  "clean_line l \<longleftrightarrow> newline \<notin> set l \<and> utf8_valid l \<and> (l = [] \<or> last l \<noteq> CHR 0x0D)"

text \<open>The rewritten lines so far verify, up to the rebuilt hash, and hold the scanned events.\<close>

definition rebuilt ::
  "'e journal_codec \<Rightarrow> journal_path \<Rightarrow> (string + string) list \<Rightarrow> repair_state \<Rightarrow> bool" where
  "rebuilt C path items r \<longleftrightarrow>
     (\<exists>ls v. rs_repaired_lines r = map (\<lambda>l. l @ [newline]) ls \<and> (\<forall>l \<in> set ls. clean_line l) \<and>
        for_each (verify_line C path) 1 (map Inr ls) verify_init = Continue v \<and>
        vs_previous_hash v = rs_rebuilt_previous_hash r \<and>
        vs_verified_events v = rs_total_events r \<and> vs_total_events v = rs_total_events r \<and>
        journal_events C (map Inr ls) = journal_events C items)"

lemma rebuilt_extend:
  assumes ok: "codec_ok C" and inv: "rebuilt C path items r" and ch: "chain_hash C (rs_rebuilt_previous_hash r)"
    and same: "rs_repaired_lines s = rs_repaired_lines r" "rs_rebuilt_previous_hash s = rs_rebuilt_previous_hash r"
      "rs_total_events s = rs_total_events r + 1"
    and item: "item_event C item = [event]" and step: "reseal C path event s = Continue s'"
  shows "rebuilt C path (items @ [item]) s'"
proof -
  from inv obtain ls v where ls: "rs_repaired_lines r = map (\<lambda>l. l @ [newline]) ls" "\<forall>l \<in> set ls. clean_line l"
      "for_each (verify_line C path) 1 (map Inr ls) verify_init = Continue v"
      "vs_previous_hash v = rs_rebuilt_previous_hash r" "vs_verified_events v = rs_total_events r"
      "vs_total_events v = rs_total_events r" "journal_events C (map Inr ls) = journal_events C items"
    unfolding rebuilt_def by blast
  from ch same obtain l where l: "reseal C path event s =
      Continue (s\<lparr>rs_repaired_lines := rs_repaired_lines s @ [l @ [newline]],
        rs_rebuilt_previous_hash := Some (entry_hash_of C event (rs_rebuilt_previous_hash s)),
        rs_repaired_events := rs_repaired_events s + 1\<rparr>)"
    "jc_from_str C l = Inr (event_with_integrity event (rs_rebuilt_previous_hash s)
       (entry_hash_of C event (rs_rebuilt_previous_hash s)))"
    "newline \<notin> set l" "utf8_valid l" "trim l \<noteq> []" "last l \<noteq> CHR 0x0D"
    by (metis reseal_ok [OF ok])
  note v = verify_sealed_line [OF ok l(5), where s = v and event = event and path = path]
  show ?thesis
    unfolding rebuilt_def
  proof (intro exI conjI)
    show "rs_repaired_lines s' = map (\<lambda>l. l @ [newline]) (ls @ [l])"
      using l(1) step same ls by auto
    show "\<forall>l \<in> set (ls @ [l]). clean_line l"
      using ls l by (auto simp: clean_line_def)
    show "for_each (verify_line C path) 1 (map Inr (ls @ [l])) verify_init =
        Continue (v\<lparr>vs_total_events := vs_total_events v + 1, vs_protected_chain_started := True,
          vs_previous_hash := Some (entry_hash_of C event (rs_rebuilt_previous_hash r)),
          vs_verified_events := vs_verified_events v + 1\<rparr>)"
      using ls(3,4) l(2) same(2) by (simp add: for_each_append v)
    show "journal_events C (map Inr (ls @ [l])) = journal_events C (items @ [item])"
      using ls(7) l(2,5) item by (simp add: journal_events_def event_with_integrity_def)
  qed (use l(1) step same ls in auto)
qed

lemma rebuilt_blank:
  assumes inv: "rebuilt C path items r"
    and same: "rs_repaired_lines s = rs_repaired_lines r @ [[newline]]"
      "rs_rebuilt_previous_hash s = rs_rebuilt_previous_hash r" "rs_total_events s = rs_total_events r"
    and item: "item_event C item = []"
  shows "rebuilt C path (items @ [item]) s"
proof -
  from inv obtain ls v where "rs_repaired_lines r = map (\<lambda>l. l @ [newline]) ls" "\<forall>l \<in> set ls. clean_line l"
      "for_each (verify_line C path) 1 (map Inr ls) verify_init = Continue v"
      "vs_previous_hash v = rs_rebuilt_previous_hash r" "vs_verified_events v = rs_total_events r"
      "vs_total_events v = rs_total_events r" "journal_events C (map Inr ls) = journal_events C items"
    unfolding rebuilt_def by blast
  then show ?thesis
    unfolding rebuilt_def using same item
    by (intro exI [of _ "ls @ [[]]"] exI [of _ v])
      (simp add: for_each_append verify_line_def clean_line_def journal_events_def)
qed

text \<open>Either nothing was repaired and the sealed entries seen are kept as they are, or every
  line written so far is part of the rebuilt chain.\<close>

definition repair_inv ::
  "'e journal_codec \<Rightarrow> journal_path \<Rightarrow> (string + string) list \<Rightarrow> repair_state \<Rightarrow> bool" where
  "repair_inv C path items r \<longleftrightarrow>
     chain_hash C (rs_rebuilt_previous_hash r) \<and>
     (rs_repaired_events r = 0 \<longrightarrow> rs_rebuilt_previous_hash r = rs_source_previous_hash r) \<and>
     (rs_protected_chain_started r \<and> rs_repaired_events r = 0 \<or> rebuilt C path items r)"

lemma repair_inv_init: "repair_inv C path [] repair_init"
  unfolding repair_inv_def rebuilt_def
  by (auto simp: repair_init_def verify_init_def journal_events_def)

lemma repair_inv_reseal:
  assumes "codec_ok C" and "repair_inv C path items r" and "\<not> rs_protected_chain_started r \<or> rs_repaired_events r \<noteq> 0"
    and "rs_repaired_lines s = rs_repaired_lines r" "rs_rebuilt_previous_hash s = rs_rebuilt_previous_hash r"
      "rs_total_events s = rs_total_events r + 1"
    and "item_event C item = [event]" and "reseal C path event s = Continue s'"
  shows "repair_inv C path (items @ [item]) s'"
proof -
  have ch: "chain_hash C (rs_rebuilt_previous_hash s)"
    using assms(2,5) by (simp add: repair_inv_def)
  have "rebuilt C path (items @ [item]) s'"
    using assms(2,3) by (intro rebuilt_extend [OF assms(1) _ _ assms(4-8)]) (auto simp: repair_inv_def)
  moreover have "chain_hash C (rs_rebuilt_previous_hash s')" "rs_repaired_events s' \<noteq> 0"
    using assms(8) chain_hash_entry [OF assms(1)]
    by (rule_tac reseal_ok [OF assms(1) ch, of path event], auto)+
  ultimately show ?thesis
    by (simp add: repair_inv_def)
qed

lemma repair_inv_step:
  assumes ok: "codec_ok C" and inv: "repair_inv C path items r"
    and step: "repair_line C path n item r = Continue r'"
  shows "repair_inv C path (items @ [item]) r'"
proof -
  obtain line where item: "item = Inr line"
    using step by (cases item) (simp_all add: repair_line_def)
  show ?thesis
  proof (cases "trim line = []")
    case True
    then have r': "r' = r\<lparr>rs_repaired_lines := rs_repaired_lines r @ [[newline]]\<rparr>"
      using step item by (simp add: repair_line_def)
    have "rebuilt C path items r \<Longrightarrow> rebuilt C path (items @ [item]) r'"
      by (rule rebuilt_blank) (use True item r' in simp_all)
    with inv r' show ?thesis by (auto simp: repair_inv_def)
  next
    case False
    obtain p where p: "jc_from_str C line = Inr p"
      using step item False
      by (cases "jc_from_str C line") (simp_all add: repair_line_def decode_persisted_audit_event_line_def)
    have ev: "item_event C item = [persisted_event p]"
      using item False p by simp
    let ?s1 = "r\<lparr>rs_total_events := rs_total_events r + 1\<rparr>"
    show ?thesis
    proof (cases "persisted_integrity p")
      case None
      with step item False p have "\<not> rs_protected_chain_started r" "reseal C path (persisted_event p) ?s1 = Continue r'"
        by (auto simp: repair_line_def decode_persisted_audit_event_line_def Let_def split: if_splits)
      then show ?thesis
        by (intro repair_inv_reseal [OF ok inv _ _ _ _ ev, where s = ?s1]) simp_all
    next
      case (Some g)
      let ?s2 = "?s1\<lparr>rs_protected_chain_started := True,
          rs_source_previous_hash := Some (integrity_entry_hash g)\<rparr>"
      from step item False p Some have src: "integrity_prev_hash g = rs_source_previous_hash r"
        and hash: "integrity_entry_hash g = entry_hash_of C (persisted_event p) (integrity_prev_hash g)"
        and r': "(if rs_repaired_events r = 0 \<and> integrity_prev_hash g = rs_rebuilt_previous_hash r
            then Continue (?s2\<lparr>rs_rebuilt_previous_hash := Some (integrity_entry_hash g),
               rs_already_valid_events := rs_already_valid_events r + 1,
               rs_repaired_lines := rs_repaired_lines r @ [line @ [newline]]\<rparr>)
            else reseal C path (persisted_event p) ?s2) = Continue r'"
        by (auto simp: repair_line_def decode_persisted_audit_event_line_def Let_def compute_hash [OF ok]
            split: if_splits)
      show ?thesis
      proof (cases "rs_repaired_events r = 0")
        case True
        with inv src r' hash chain_hash_entry [OF ok] show ?thesis
          by (auto simp: repair_inv_def)
      next
        case False
        with r' have "reseal C path (persisted_event p) ?s2 = Continue r'" by simp
        with False show ?thesis
          by (intro repair_inv_reseal [OF ok inv _ _ _ _ ev, where s = ?s2]) simp_all
      qed
    qed
  qed
qed

lemma repair_inv_scan:
  assumes "codec_ok C" and "for_each (repair_line C path) 1 items repair_init = Continue r"
  shows "repair_inv C path items r"
  using assms(2) repair_inv_init repair_inv_step [OF assms(1)] by (rule for_each_inv)

text \<open>Reading the rewritten bytes gives back the rewritten lines.\<close>

lemma read_lines_written:
  "\<forall>l \<in> set ls. clean_line l \<Longrightarrow> read_lines (concat (map (\<lambda>l. l @ [newline]) ls)) = ls"
  by (induction ls) (auto simp: read_lines_Cons clean_line_def strip_cr_def)

lemma lines_from_ok:
  assumes "io_read io = (\<lambda>_. None)"
  shows "lines_from io content =
    map (\<lambda>l. if utf8_valid l then Inr l else Inl ''stream did not contain valid UTF-8'') (read_lines content)"
proof -
  have "lines_from io content =
      map (\<lambda>p. if utf8_valid (snd p) then Inr (snd p) else Inl ''stream did not contain valid UTF-8'')
        (enumerate 0 (read_lines content))"
    by (simp add: lines_from_def assms case_prod_beta)
  also have "\<dots> = map (\<lambda>l. if utf8_valid l then Inr l else Inl ''stream did not contain valid UTF-8'')
      (map snd (enumerate 0 (read_lines content)))"
    by (simp only: map_map o_def)
  finally show ?thesis by simp
qed

lemma lines_from_written:
  assumes "io_read io = (\<lambda>_. None)" and "\<forall>l \<in> set ls. clean_line l"
  shows "lines_from io (concat (map (\<lambda>l. l @ [newline]) ls)) = map Inr ls"
  using assms(2) by (auto simp: lines_from_ok [OF assms(1)] read_lines_written clean_line_def)

lemma io_ok_simps [simp]:
  "io_read io_ok = (\<lambda>_. None)" "io_open io_ok = None" "io_metadata io_ok = None"
  "io_clone io_ok = None" "io_seek io_ok = None" "io_lock io_ok = None" "io_unlock io_ok = None"
  "io_write io_ok = None" "io_flush io_ok = None" "io_temp_create io_ok = None"
  "io_set_permissions io_ok = None" "io_temp_write io_ok = None" "io_temp_flush io_ok = None"
  "io_temp_sync io_ok = None" "io_rename io_ok = None"
  by (simp_all add: io_ok_def)

section \<open>Appending\<close>

lemma last_non_empty_line_append:
  "last_non_empty_line path (xs @ ys) a =
    try_bind (last_non_empty_line path xs a) (last_non_empty_line path ys)"
  by (induction path xs a rule: last_non_empty_line.induct) simp_all

text \<open>What verification knows of the tail: the hash to chain on.\<close>

definition tail_inv ::
  "'e journal_codec \<Rightarrow> journal_path \<Rightarrow> (string + string) list \<Rightarrow> verify_state \<Rightarrow> bool" where
  "tail_inv C path items v \<longleftrightarrow>
     chain_hash C (vs_previous_hash v) \<and>
     (\<not> vs_protected_chain_started v \<longrightarrow> vs_previous_hash v = None) \<and>
     (\<exists>tail. last_non_empty_line path items None = Inr tail \<and>
        (case tail of
           None \<Rightarrow> vs_previous_hash v = None
         | Some line \<Rightarrow> decode_last_audit_entry_hash_from_line C line path = Inr (vs_previous_hash v)))"

lemma tail_inv_step:
  assumes ok: "codec_ok C" and inv: "tail_inv C path items v"
    and step: "verify_line C path n item v = Continue v'"
  shows "tail_inv C path (items @ [item]) v'"
proof -
  obtain line where item: "item = Inr line"
    using step by (cases item) (simp_all add: verify_line_def)
  show ?thesis
  proof (cases "trim line = []")
    case True
    with inv step item show ?thesis
      by (auto simp: tail_inv_def verify_line_def last_non_empty_line_append)
  next
    case False
    obtain p where p: "jc_from_str C line = Inr p"
      using step item False
      by (cases "jc_from_str C line") (simp_all add: verify_line_def decode_persisted_audit_event_line_def)
    have "decode_last_audit_entry_hash_from_line C line path = Inr (vs_previous_hash v') \<and>
        chain_hash C (vs_previous_hash v') \<and> (\<not> vs_protected_chain_started v' \<longrightarrow> vs_previous_hash v' = None)"
    proof (cases "persisted_integrity p")
      case None
      with step item False p inv show ?thesis
        by (auto simp: verify_line_def decode_persisted_audit_event_line_def tail_inv_def Let_def
            decode_last_audit_entry_hash_from_line_def split: if_splits)
    next
      case (Some g)
      with step item False p inv have
        "integrity_entry_hash g = entry_hash_of C (persisted_event p) (integrity_prev_hash g)"
        "vs_previous_hash v' = Some (integrity_entry_hash g)" "vs_protected_chain_started v'"
        by (auto simp: verify_line_def decode_persisted_audit_event_line_def Let_def
            compute_hash [OF ok] split: if_splits)
      with Some p entry_hash_not_blank [OF ok] chain_hash_entry [OF ok] show ?thesis
        by (simp add: decode_last_audit_entry_hash_from_line_def decode_persisted_audit_event_line_def)
    qed
    with inv item False show ?thesis
      by (auto simp: tail_inv_def last_non_empty_line_append)
  qed
qed

lemma tail_inv_scan:
  assumes "codec_ok C" and "for_each (verify_line C path) 1 items verify_init = Continue v"
  shows "tail_inv C path items v"
proof (rule for_each_inv [OF assms(2), where P = "tail_inv C path"])
  show "tail_inv C path [] verify_init"
    by (simp add: tail_inv_def verify_init_def)
qed (rule tail_inv_step [OF assms(1)])

lemma verify_valid_Continue:
  assumes "verify_lines C path ls = Inr report" and "avr_valid report" and "codec_ok C"
  obtains v where "for_each (verify_line C path) 1 ls verify_init = Continue v" "report = valid_report v"
proof (cases "for_each (verify_line C path) 1 ls verify_init")
  case (Continue v)
  with assms that show thesis by (simp add: verify_lines_def)
next
  case (Return x)
  with repair_scan_follows_verify [OF assms(3), of path ls] assms(1,2) show thesis
    by (auto simp: verify_lines_def same_verdict_def)
qed

text \<open>A successful record appends exactly one sealed line.\<close>

lemma jsonl_record_appends:
  assumes ok: "codec_ok C" and path: "jsonl_path sink = path" "\<not> mutex_poisoned (jsonl_last_entry_hash sink)"
    and content: "journal_file fs = Some content"
    and scan: "for_each (verify_line C path) 1 (lines_from io_ok content) verify_init = Continue v"
  obtains l where
    "jsonl_record C io_ok (sink, fs) event =
       (Inr (), sink\<lparr>jsonl_last_entry_hash := (jsonl_last_entry_hash sink)
           \<lparr>mutex_value := Some (entry_hash_of C event (vs_previous_hash v))\<rparr>\<rparr>,
        fs\<lparr>journal_file := Some (content @ l @ [newline]), journal_locked := False\<rparr>)"
    "jc_from_str C l = Inr (event_with_integrity event (vs_previous_hash v) (entry_hash_of C event (vs_previous_hash v)))"
    "clean_line l" "trim l \<noteq> []"
    "serialize_audit_event_line C (event_with_integrity event (vs_previous_hash v)
       (entry_hash_of C event (vs_previous_hash v))) path = Inr (l @ [newline])"
proof -
  have inv: "tail_inv C path (lines_from io_ok content) v"
    by (rule tail_inv_scan [OF ok scan])
  then have ch: "chain_hash C (vs_previous_hash v)"
    and load: "load_last_audit_entry_hash_from_file C io_ok path content = Inr (vs_previous_hash v)"
    by (auto simp: tail_inv_def load_last_audit_entry_hash_from_file_def split: option.splits)
  obtain l where l:
    "serialize_audit_event_line C (event_with_integrity event (vs_previous_hash v)
       (entry_hash_of C event (vs_previous_hash v))) path = Inr (l @ [newline])"
    "jc_from_str C l = Inr (event_with_integrity event (vs_previous_hash v) (entry_hash_of C event (vs_previous_hash v)))"
    "newline \<notin> set l" "utf8_valid l" "trim l \<noteq> []" "last l \<noteq> CHR 0x0D"
    by (rule sealed_line [OF ok ch])
  show thesis
  proof (rule that)
    show "jsonl_record C io_ok (sink, fs) event =
       (Inr (), sink\<lparr>jsonl_last_entry_hash := (jsonl_last_entry_hash sink)
           \<lparr>mutex_value := Some (entry_hash_of C event (vs_previous_hash v))\<rparr>\<rparr>,
        fs\<lparr>journal_file := Some (content @ l @ [newline]), journal_locked := False\<rparr>)"
      using path content
      by (simp add: jsonl_record_def lock_audit_journal_def load compute_hash [OF ok] l(1)
          append_and_flush_def unlock_audit_journal_def)
  qed (use l in \<open>simp_all add: clean_line_def\<close>)
qed

lemma lines_from_append:
  assumes "newline_ended content" and "clean_line l"
  shows "lines_from io_ok (content @ l @ [newline]) = lines_from io_ok content @ [Inr l]"
  using assms
  by (auto simp: lines_from_ok read_lines_append read_lines_Cons clean_line_def strip_cr_def)

section \<open>Tamper evidence\<close>

text \<open>The hash of a sealed history.\<close>

definition history_hash :: "'e journal_codec \<Rightarrow> 'e list \<Rightarrow> string option" where
  "history_hash C events = fold (\<lambda>event prev. Some (entry_hash_of C event prev)) events None"

lemma history_hash_snoc:
  "history_hash C (events @ [e]) = Some (entry_hash_of C e (history_hash C events))"
  by (simp add: history_hash_def)

lemma history_hash_collision:
  assumes "history_hash C xs = history_hash C ys" and "xs \<noteq> ys"
  shows "\<exists>e p e' p'. (e, p) \<noteq> (e', p') \<and> entry_hash_of C e p = entry_hash_of C e' p'"
  using assms
proof (induction xs arbitrary: ys rule: rev_induct)
  case Nil
  then show ?case
    by (cases ys rule: rev_cases) (simp_all add: history_hash_snoc history_hash_def)
next
  case (snoc x xs)
  then obtain y zs where ys: "ys = zs @ [y]"
    by (cases ys rule: rev_cases) (simp_all add: history_hash_snoc history_hash_def)
  from snoc.prems(1) have eq: "entry_hash_of C x (history_hash C xs) = entry_hash_of C y (history_hash C zs)"
    by (simp add: ys history_hash_snoc)
  show ?case
  proof (cases "(x, history_hash C xs) = (y, history_hash C zs)")
    case True
    with snoc.prems(2) snoc.IH [of zs] ys show ?thesis by simp
  next
    case False
    with eq show ?thesis by blast
  qed
qed

text \<open>A scan that has seen only sealed entries has computed the hash of their history.\<close>

definition sealed_inv :: "'e journal_codec \<Rightarrow> (string + string) list \<Rightarrow> verify_state \<Rightarrow> bool" where
  "sealed_inv C items v \<longleftrightarrow>
     vs_verified_events v \<le> vs_total_events v \<and>
     (vs_verified_events v = vs_total_events v \<longrightarrow> vs_previous_hash v = history_hash C (journal_events C items))"

lemma sealed_inv_step:
  assumes ok: "codec_ok C" and inv: "sealed_inv C items v"
    and step: "verify_line C path n item v = Continue v'"
  shows "sealed_inv C (items @ [item]) v'"
proof -
  obtain line where item: "item = Inr line"
    using step by (cases item) (simp_all add: verify_line_def)
  show ?thesis
  proof (cases "trim line = []")
    case True
    with inv step item show ?thesis
      by (auto simp: sealed_inv_def verify_line_def journal_events_def)
  next
    case False
    obtain p where p: "jc_from_str C line = Inr p"
      using step item False
      by (cases "jc_from_str C line") (simp_all add: verify_line_def decode_persisted_audit_event_line_def)
    have ev: "journal_events C (items @ [item]) = journal_events C items @ [persisted_event p]"
      using item False p by (simp add: journal_events_def)
    show ?thesis
    proof (cases "persisted_integrity p")
      case None
      with step item False p inv show ?thesis
        by (auto simp: sealed_inv_def verify_line_def decode_persisted_audit_event_line_def Let_def split: if_splits)
    next
      case (Some g)
      with step item False p inv show ?thesis
        unfolding sealed_inv_def ev history_hash_snoc
        by (auto simp: verify_line_def decode_persisted_audit_event_line_def Let_def
            compute_hash [OF ok] split: if_splits)
    qed
  qed
qed

lemma sealed_inv_scan:
  assumes "codec_ok C" and "for_each (verify_line C path) 1 items verify_init = Continue v"
  shows "sealed_inv C items v"
proof (rule for_each_inv [OF assms(2), where P = "sealed_inv C"])
  show "sealed_inv C [] verify_init"
    by (simp add: sealed_inv_def verify_init_def history_hash_def journal_events_def)
qed (rule sealed_inv_step [OF assms(1)])

section \<open>A codec for examples\<close>

text \<open>Two events, a one-letter line for a legacy entry, two letters for a sealed one.\<close>

definition sample_codec :: "bool journal_codec" where
  "sample_codec =
     \<lparr>jc_from_str = (\<lambda>l.
        if l = ''t'' then Inr \<lparr>persisted_event = True, persisted_integrity = None\<rparr>
        else if l = ''f'' then Inr \<lparr>persisted_event = False, persisted_integrity = None\<rparr>
        else if l = ''t0'' then Inr (event_with_integrity True None ''h'')
        else if l = ''f0'' then Inr (event_with_integrity False None ''h'')
        else if l = ''t1'' then Inr (event_with_integrity True (Some ''h'') ''h'')
        else if l = ''f1'' then Inr (event_with_integrity False (Some ''h'') ''h'')
        else Inl ''expected value''),
      jc_to_vec = (\<lambda>p. Inr ((if persisted_event p then ''t'' else ''f'') @
        (case persisted_integrity p of None \<Rightarrow> []
         | Some g \<Rightarrow> if integrity_prev_hash g = None then ''0'' else ''1''))),
      jc_material = (\<lambda>e p. Inr []),
      jc_sha256_hex = (\<lambda>_. ''h'')\<rparr>"

definition sample_path :: journal_path where
  "sample_path = \<lparr>path_display = ''audit.jsonl'', path_parent = None, path_repair_temp = ''audit.jsonl.repair-tmp''\<rparr>"

definition sample_files :: "string \<Rightarrow> journal_files" where
  "sample_files content = \<lparr>journal_file = Some content, journal_locked = False, repair_temp_file = None\<rparr>"

lemma sample_codec_ok: "codec_ok sample_codec"
proof -
  have "trim ''h'' = ''h''"
    by (rule trim_graphic_id) (simp_all add: ascii_graphic_def)
  moreover have "trim [a, b] = [a, b]" if "a \<in> {CHR ''t'', CHR ''f''}" "b \<in> {CHR ''0'', CHR ''1''}" for a b
    by (rule trim_graphic_id) (use that in \<open>auto simp: ascii_graphic_def\<close>)
  ultimately show ?thesis
    by (auto simp: codec_ok_def chain_hash_def line_roundtrips_def sample_codec_def event_with_integrity_def
        newline_def utf8_valid.simps(2) byte_in_def)
qed

section \<open>Properties\<close>

text \<open>The events of a journal file, and verification of an absent or readable journal.\<close>

definition journal_history :: "'e journal_codec \<Rightarrow> journal_files \<Rightarrow> 'e list" where
  "journal_history C fs =
     (case journal_file fs of None \<Rightarrow> [] | Some content \<Rightarrow> journal_events C (lines_from io_ok content))"

lemma repair_rewrite_result:
  "(\<exists>e. fst (repair_rewrite io path ls fs) = Inl e \<and>
      journal_file (snd (repair_rewrite io path ls fs)) = journal_file fs) \<or>
   (fst (repair_rewrite io path ls fs) = Inr () \<and>
      journal_file (snd (repair_rewrite io path ls fs)) = Some (concat ls))"
  by (auto simp: repair_rewrite_def Let_def split: option.splits)

text \<open>
  Repair and verification judge a journal alike: repair fails to read what verification fails
  to read; it refuses exactly the journals verification rejects, at the same line, touching
  nothing; it reports a journal as healthy exactly when every entry is verified; and otherwise
  it repairs, or fails leaving the journal file as it was.
\<close>

theorem repair_follows_verification:
  assumes "codec_ok C" and "io_open io = None" and "io_metadata io = None"
  shows "case verify_jsonl_audit_journal C io path fs of
      Inl e \<Rightarrow> repair_jsonl_audit_journal C io path fs = (Inl e, fs)
    | Inr v \<Rightarrow>
        if \<not> avr_valid v
        then \<exists>w n why. repair_jsonl_audit_journal C io path fs = (Inr w, fs) \<and>
               arr_outcome w = Refused n why \<and> avr_first_invalid_line v = Some n
        else if avr_verified_events v = avr_total_events v
        then \<exists>w. repair_jsonl_audit_journal C io path fs = (Inr w, fs) \<and> arr_outcome w = Healthy
        else (\<exists>w. fst (repair_jsonl_audit_journal C io path fs) = Inr w \<and> arr_outcome w = Repaired) \<or>
             (\<exists>e. fst (repair_jsonl_audit_journal C io path fs) = Inl e \<and>
                journal_file (snd (repair_jsonl_audit_journal C io path fs)) = journal_file fs)"
proof (cases "journal_file fs")
  case None
  then show ?thesis
    by (simp add: verify_jsonl_audit_journal_def repair_jsonl_audit_journal_def valid_report_def
        verify_init_def repair_report_def)
next
  case (Some content)
  let ?ls = "lines_from io content"
  have verify: "verify_jsonl_audit_journal C io path fs = verify_lines C path ?ls"
    using Some assms(2) by (simp add: verify_jsonl_audit_journal_def)
  have repair: "repair_jsonl_audit_journal C io path fs =
      (case for_each (repair_line C path) 1 ?ls repair_init of Return r \<Rightarrow> (r, fs)
       | Continue s \<Rightarrow> repair_finish io path s fs)"
    using Some assms(2,3) by (simp add: repair_jsonl_audit_journal_def)
  show ?thesis
  proof (cases "for_each (verify_line C path) 1 ?ls verify_init")
    case (Return x)
    with repair_scan_follows_verify [OF assms(1), of path ?ls] show ?thesis
      unfolding verify repair by (auto simp: verify_lines_def same_verdict_def)
  next
    case (Continue v)
    then obtain r where r: "for_each (repair_line C path) 1 ?ls repair_init = Continue r" "same_scan C v r"
      using repair_scan_follows_verify [OF assms(1), of path ?ls] by auto
    show ?thesis
    proof (cases "rs_repaired_events r = 0")
      case True
      with Continue r show ?thesis
        unfolding verify repair
        by (simp add: verify_lines_def valid_report_def same_scan_def repair_finish_def repair_report_def)
    next
      case False
      have "(\<exists>w. fst (repair_finish io path r fs) = Inr w \<and> arr_outcome w = Repaired) \<or>
          (\<exists>e. fst (repair_finish io path r fs) = Inl e \<and> journal_file (snd (repair_finish io path r fs)) = journal_file fs)"
        using False repair_rewrite_result [of io path "rs_repaired_lines r" fs]
        by (auto simp: repair_finish_def repair_report_def split: prod.splits sum.splits)
      with Continue r False show ?thesis
        unfolding verify repair by (simp add: verify_lines_def valid_report_def same_scan_def)
    qed
  qed
qed

theorem repair_follows_verification_witness:
  "\<exists>w. fst (repair_jsonl_audit_journal sample_codec io_ok sample_path
      (sample_files (''t'' @ newline # ''f0'' @ [newline]))) = Inr w \<and> arr_outcome w = Repaired"
proof -
  let ?fs = "sample_files (''t'' @ newline # ''f0'' @ [newline])"
  have "verify_jsonl_audit_journal sample_codec io_ok sample_path ?fs =
      Inr \<lparr>avr_total_events = 2, avr_verified_events = 1, avr_valid = True,
        avr_last_entry_hash = Some ''h'', avr_first_invalid_line = None, avr_reason = None\<rparr>"
    by code_simp
  then have "(\<exists>w. fst (repair_jsonl_audit_journal sample_codec io_ok sample_path ?fs) = Inr w \<and> arr_outcome w = Repaired) \<or>
      (\<exists>e. fst (repair_jsonl_audit_journal sample_codec io_ok sample_path ?fs) = Inl e)"
    using repair_follows_verification [OF sample_codec_ok, of io_ok sample_path ?fs] by auto
  moreover have "fst (repair_jsonl_audit_journal sample_codec io_ok sample_path ?fs) \<noteq> Inl e" for e
    by (induction e) code_simp
  ultimately show ?thesis by blast
qed

text \<open>
  C6. When repair succeeds, the journal it leaves verifies from the first entry to the last, holds
  the events the journal held before, in order, and a second repair finds it healthy.
\<close>

theorem repair_yields_verified_journal:
  assumes ok: "codec_ok C" and io: "io_read io = (\<lambda>_. None)"
    and run: "repair_jsonl_audit_journal C io path fs = (Inr w, fs')"
    and outcome: "\<forall>n why. arr_outcome w \<noteq> Refused n why"
  shows "\<exists>v. verify_jsonl_audit_journal C io_ok path fs' = Inr v \<and> avr_valid v \<and>
    avr_total_events v = arr_total_events w \<and> avr_verified_events v = avr_total_events v \<and>
    journal_history C fs' = journal_history C fs \<and>
    (\<exists>w'. repair_jsonl_audit_journal C io_ok path fs' = (Inr w', fs') \<and> arr_outcome w' = Healthy)"
proof -
  have healthy: "\<exists>w'. repair_jsonl_audit_journal C io_ok path fs' = (Inr w', fs') \<and> arr_outcome w' = Healthy"
    if "journal_file fs' = Some c" "for_each (verify_line C path) 1 (lines_from io_ok c) verify_init = Continue v"
      "vs_verified_events v = vs_total_events v" for c v
  proof -
    from that(2) obtain r where r: "for_each (repair_line C path) 1 (lines_from io_ok c) repair_init = Continue r"
        "same_scan C v r"
      using repair_scan_follows_verify [OF ok, of path "lines_from io_ok c"] by auto
    with that show ?thesis
      by (simp add: repair_jsonl_audit_journal_def repair_finish_def repair_report_def same_scan_def)
  qed
  show ?thesis
  proof (cases "journal_file fs")
    case None
    with run show ?thesis
      by (auto simp: repair_jsonl_audit_journal_def verify_jsonl_audit_journal_def valid_report_def
          verify_init_def repair_report_def repair_init_def)
  next
    case (Some content)
    let ?ls = "lines_from io_ok content"
    have "lines_from io content = ?ls" by (simp add: lines_from_ok io)
    with run Some outcome have finish: "(case for_each (repair_line C path) 1 ?ls repair_init of
          Return r \<Rightarrow> (r, fs) | Continue s \<Rightarrow> repair_finish io path s fs) = (Inr w, fs')"
      by (simp add: repair_jsonl_audit_journal_def split: option.splits)
    have "\<not> (\<exists>x. for_each (verify_line C path) 1 ?ls verify_init = Return x)"
      using repair_scan_follows_verify [OF ok, of path ?ls] finish outcome
      by (auto simp: same_verdict_def)
    then obtain v where v: "for_each (verify_line C path) 1 ?ls verify_init = Continue v"
      by (meson flow.exhaust)
    then obtain r where r: "for_each (repair_line C path) 1 ?ls repair_init = Continue r" "same_scan C v r"
      using repair_scan_follows_verify [OF ok, of path ?ls] by auto
    show ?thesis
    proof (cases "rs_repaired_events r = 0")
      case True
      with finish r have fs': "fs' = fs" and w: "arr_total_events w = vs_total_events v"
        by (auto simp: repair_finish_def repair_report_def same_scan_def)
      have all: "vs_verified_events v = vs_total_events v" using r True by (simp add: same_scan_def)
      with v Some fs' w healthy [of content v] show ?thesis
        by (simp add: verify_jsonl_audit_journal_def verify_lines_def valid_report_def)
    next
      case False
      have "repair_inv C path ?ls r" by (rule repair_inv_scan [OF ok r(1)])
      with False have "rebuilt C path ?ls r" by (simp add: repair_inv_def)
      then obtain ls u where ls: "rs_repaired_lines r = map (\<lambda>l. l @ [newline]) ls" "\<forall>l \<in> set ls. clean_line l"
          "for_each (verify_line C path) 1 (map Inr ls) verify_init = Continue u"
          "vs_verified_events u = rs_total_events r" "vs_total_events u = rs_total_events r"
          "journal_events C (map Inr ls) = journal_events C ?ls"
        unfolding rebuilt_def by blast
      have w: "w = repair_report r Repaired" and fs': "journal_file fs' = Some (concat (rs_repaired_lines r))"
        using finish r(1) False repair_rewrite_result [of io path "rs_repaired_lines r" fs]
        by (auto simp: repair_finish_def split: prod.splits sum.splits)
      have new: "lines_from io_ok (concat (rs_repaired_lines r)) = map Inr ls"
        using ls(2) by (simp add: ls(1) lines_from_written)
      have "for_each (verify_line C path) 1 (lines_from io_ok (concat (rs_repaired_lines r))) verify_init = Continue u"
        using ls(3) new by simp
      with ls fs' w new Some healthy [OF fs', of u] show ?thesis
        by (simp add: verify_jsonl_audit_journal_def verify_lines_def valid_report_def repair_report_def
            journal_history_def)
    qed
  qed
qed

theorem repair_yields_verified_journal_witness:
  "\<exists>v fs'. repair_jsonl_audit_journal sample_codec io_ok sample_path
      (sample_files (''t'' @ newline # newline # ''f0'' @ [newline])) =
        (Inr \<lparr>arr_total_events = 2, arr_repaired_events = 2, arr_already_valid_events = 0,
           arr_outcome = Repaired\<rparr>, fs') \<and>
     verify_jsonl_audit_journal sample_codec io_ok sample_path fs' = Inr v \<and> avr_valid v \<and>
     avr_verified_events v = 2 \<and> journal_history sample_codec fs' = [True, False]"
proof -
  let ?fs = "sample_files (''t'' @ newline # newline # ''f0'' @ [newline])"
  let ?fs' = "sample_files (''t0'' @ newline # newline # ''f1'' @ [newline])"
  let ?w = "\<lparr>arr_total_events = 2, arr_repaired_events = 2, arr_already_valid_events = 0,
     arr_outcome = Repaired\<rparr>"
  have run: "repair_jsonl_audit_journal sample_codec io_ok sample_path ?fs = (Inr ?w, ?fs')"
    by code_simp
  have "journal_history sample_codec ?fs = [True, False]"
    by code_simp
  then obtain v where "verify_jsonl_audit_journal sample_codec io_ok sample_path ?fs' = Inr v" "avr_valid v"
      "avr_verified_events v = 2" "journal_history sample_codec ?fs' = [True, False]"
    using repair_yields_verified_journal [OF sample_codec_ok _ run] by auto
  with run show ?thesis by blast
qed

text \<open>
  Whatever system call fails, a repair that does not succeed leaves the journal file as it
  was, and removes its temporary file unless the removal itself fails.
\<close>

theorem failed_repair_keeps_journal:
  assumes "repair_jsonl_audit_journal C io path fs = (r, fs')"
    and "\<not> (\<exists>w. r = Inr w \<and> arr_outcome w = Repaired)"
  shows "journal_file fs' = journal_file fs \<and>
    (io_temp_remove io = None \<and> repair_temp_file fs = None \<longrightarrow> repair_temp_file fs' = None)"
proof -
  have rewrite: "journal_file x = journal_file fs"
      "io_temp_remove io = None \<Longrightarrow> repair_temp_file fs = None \<Longrightarrow> repair_temp_file x = None"
    if "repair_rewrite io path ls fs = (Inl e, x)" for x ls e
    using that by (auto simp: repair_rewrite_def Let_def split: option.splits)
  show ?thesis
    using assms rewrite
    by (auto simp: repair_jsonl_audit_journal_def repair_finish_def repair_report_def
        split: option.splits flow.splits if_splits prod.splits sum.splits)
qed

theorem failed_repair_keeps_journal_witness:
  "journal_file (snd (repair_jsonl_audit_journal sample_codec (io_ok\<lparr>io_rename := Some ''EIO''\<rparr>) sample_path
      (sample_files (''t'' @ [newline])))) = Some (''t'' @ [newline])"
proof -
  let ?r = "repair_jsonl_audit_journal sample_codec (io_ok\<lparr>io_rename := Some ''EIO''\<rparr>) sample_path
      (sample_files (''t'' @ [newline]))"
  have "fst ?r = Inl (Sink (''failed to replace journal with repaired file `'' @ ''audit.jsonl'' @ ''`: '' @ ''EIO''))"
    by code_simp
  then have "\<not> (\<exists>w. fst ?r = Inr w \<and> arr_outcome w = Repaired)" by simp
  from failed_repair_keeps_journal [OF prod.collapse [symmetric] this]
  have "journal_file (snd ?r) = journal_file (sample_files (''t'' @ [newline]))" by blast
  then show ?thesis by (simp add: sample_files_def)
qed

text \<open>
  C10. Appending keeps a journal valid: on a journal that verifies and whose last line is ended,
  \<open>record\<close> adds one line, releases the lock, remembers the hash of the new entry, and the longer
  journal verifies with one more verified entry, the new event at the end of the history.
\<close>

theorem append_keeps_journal_valid:
  assumes ok: "codec_ok C" and sink: "\<not> mutex_poisoned (jsonl_last_entry_hash sink)"
    and content: "journal_file fs = Some content" "newline_ended content"
    and valid: "verify_jsonl_audit_journal C io_ok (jsonl_path sink) fs = Inr v" "avr_valid v"
  shows "\<exists>sink' fs' v'. jsonl_record C io_ok (sink, fs) event = (Inr (), sink', fs') \<and>
    \<not> journal_locked fs' \<and> newline_ended (the (journal_file fs')) \<and>
    verify_jsonl_audit_journal C io_ok (jsonl_path sink) fs' = Inr v' \<and> avr_valid v' \<and>
    avr_total_events v' = avr_total_events v + 1 \<and> avr_verified_events v' = avr_verified_events v + 1 \<and>
    avr_last_entry_hash v' = mutex_value (jsonl_last_entry_hash sink') \<and>
    journal_history C fs' = journal_history C fs @ [event]"
proof -
  let ?path = "jsonl_path sink"
  have "verify_lines C ?path (lines_from io_ok content) = Inr v"
    using valid(1) content(1) by (simp add: verify_jsonl_audit_journal_def)
  then obtain s where s: "for_each (verify_line C ?path) 1 (lines_from io_ok content) verify_init = Continue s"
      "v = valid_report s"
    by (rule verify_valid_Continue [OF _ valid(2) ok])
  from jsonl_record_appends [OF ok refl sink content(1) s(1), of event] obtain l where l:
    "jsonl_record C io_ok (sink, fs) event =
       (Inr (), sink\<lparr>jsonl_last_entry_hash := (jsonl_last_entry_hash sink)
           \<lparr>mutex_value := Some (entry_hash_of C event (vs_previous_hash s))\<rparr>\<rparr>,
        fs\<lparr>journal_file := Some (content @ l @ [newline]), journal_locked := False\<rparr>)"
    "jc_from_str C l = Inr (event_with_integrity event (vs_previous_hash s) (entry_hash_of C event (vs_previous_hash s)))"
    "clean_line l" "trim l \<noteq> []" by metis
  note scan = verify_sealed_line [OF ok l(4) refl l(2)]
  show ?thesis
    unfolding l(1)
    using content s(1) l
    by (simp add: verify_jsonl_audit_journal_def lines_from_append verify_lines_def for_each_append scan
        valid_report_def s(2) newline_ended_def journal_history_def journal_events_def event_with_integrity_def)
qed

definition sample_sink :: jsonl_audit_sink where
  "sample_sink = \<lparr>jsonl_path = sample_path, jsonl_last_entry_hash = \<lparr>mutex_poisoned = False, mutex_value = None\<rparr>\<rparr>"

lemma sample_valid:
  "verify_jsonl_audit_journal sample_codec io_ok (jsonl_path sample_sink) (sample_files (''t0'' @ [newline])) =
    Inr \<lparr>avr_total_events = 1, avr_verified_events = 1, avr_valid = True,
      avr_last_entry_hash = Some ''h'', avr_first_invalid_line = None, avr_reason = None\<rparr>"
  by code_simp

theorem append_keeps_journal_valid_witness:
  "\<exists>sink' fs' v'. jsonl_record sample_codec io_ok (sample_sink, sample_files (''t0'' @ [newline])) False =
      (Inr (), sink', fs') \<and>
    verify_jsonl_audit_journal sample_codec io_ok sample_path fs' = Inr v' \<and> avr_verified_events v' = 2"
proof -
  have "\<exists>sink' fs' v'. jsonl_record sample_codec io_ok (sample_sink, sample_files (''t0'' @ [newline])) False =
        (Inr (), sink', fs') \<and> \<not> journal_locked fs' \<and> newline_ended (the (journal_file fs')) \<and>
      verify_jsonl_audit_journal sample_codec io_ok (jsonl_path sample_sink) fs' = Inr v' \<and> avr_valid v' \<and>
      avr_total_events v' = 1 + 1 \<and> avr_verified_events v' = 1 + 1 \<and>
      avr_last_entry_hash v' = mutex_value (jsonl_last_entry_hash sink') \<and>
      journal_history sample_codec fs' = journal_history sample_codec (sample_files (''t0'' @ [newline])) @ [False]"
    using append_keeps_journal_valid [OF sample_codec_ok _ _ _ sample_valid, of "''t0'' @ [newline]" False]
    by (simp add: sample_sink_def sample_files_def newline_ended_def)
  then show ?thesis by (auto simp: sample_sink_def)
qed

text \<open>
  The chain is tamper evident: if two journals verify with every entry sealed and end in the
  same hash, they hold the same history, unless two different entries (with their predecessor
  hashes) have the same digest.
\<close>

theorem equal_tail_hash_means_equal_history:
  assumes ok: "codec_ok C"
    and one: "verify_jsonl_audit_journal C io_ok path fs = Inr v" "avr_valid v"
      "avr_verified_events v = avr_total_events v"
    and two: "verify_jsonl_audit_journal C io_ok path fs' = Inr v'" "avr_valid v'"
      "avr_verified_events v' = avr_total_events v'"
    and hash: "avr_last_entry_hash v = avr_last_entry_hash v'"
    and different: "journal_history C fs \<noteq> journal_history C fs'"
  shows "\<exists>e p e' p'. (e, p) \<noteq> (e', p') \<and> entry_hash_of C e p = entry_hash_of C e' p'"
proof -
  have tail: "avr_last_entry_hash u = history_hash C (journal_history C gs)"
    if verified: "verify_jsonl_audit_journal C io_ok path gs = Inr u" and valid: "avr_valid u"
      and all: "avr_verified_events u = avr_total_events u" for gs u
  proof (cases "journal_file gs")
    case None
    with verified show ?thesis
      by (auto simp: verify_jsonl_audit_journal_def valid_report_def verify_init_def journal_history_def
          history_hash_def)
  next
    case (Some content)
    with verified have "verify_lines C path (lines_from io_ok content) = Inr u"
      by (simp add: verify_jsonl_audit_journal_def)
    then obtain s where s: "for_each (verify_line C path) 1 (lines_from io_ok content) verify_init = Continue s"
        "u = valid_report s"
      by (rule verify_valid_Continue [OF _ valid ok])
    with sealed_inv_scan [OF ok s(1)] all Some show ?thesis
      by (simp add: sealed_inv_def valid_report_def journal_history_def)
  qed
  show ?thesis
    by (rule history_hash_collision [OF _ different]) (use tail [OF one] tail [OF two] hash in simp)
qed

theorem equal_tail_hash_means_equal_history_witness:
  "\<exists>e p e' p'. (e, p) \<noteq> (e', p') \<and> entry_hash_of sample_codec e p = entry_hash_of sample_codec e' p'"
proof -
  let ?v = "\<lparr>avr_total_events = 1, avr_verified_events = 1, avr_valid = True,
      avr_last_entry_hash = Some ''h'', avr_first_invalid_line = None, avr_reason = None\<rparr>"
  have 1: "verify_jsonl_audit_journal sample_codec io_ok sample_path (sample_files (''t0'' @ [newline])) = Inr ?v"
    by code_simp
  have 2: "verify_jsonl_audit_journal sample_codec io_ok sample_path (sample_files (''f0'' @ [newline])) = Inr ?v"
    by code_simp
  have 3: "journal_history sample_codec (sample_files (''t0'' @ [newline])) = [True]"
    by code_simp
  have 4: "journal_history sample_codec (sample_files (''f0'' @ [newline])) = [False]"
    by code_simp
  have 5: "journal_history sample_codec (sample_files (''t0'' @ [newline])) \<noteq>
      journal_history sample_codec (sample_files (''f0'' @ [newline]))"
    unfolding 3 4 by simp
  show ?thesis
    by (rule equal_tail_hash_means_equal_history [OF sample_codec_ok 1 _ _ 2 _ _ _ 5]) simp_all
qed

text \<open>
  An append after a torn write corrupts the journal: when a write failed just before the
  newline of an entry, the journal still verifies, and the next \<open>record\<close> reports success but puts
  its entry onto the same line; once that line is not one JSON value, verification fails.
\<close>

theorem append_after_lost_newline:
  assumes ok: "codec_ok C" and sink: "\<not> mutex_poisoned (jsonl_last_entry_hash sink)"
    and content: "journal_file fs = Some (content @ l)" "newline_ended content" "clean_line l" "l \<noteq> []"
    and valid: "verify_jsonl_audit_journal C io_ok (jsonl_path sink) fs = Inr v" "avr_valid v"
  shows "\<exists>l' sink' fs'. jsonl_record C io_ok (sink, fs) event = (Inr (), sink', fs') \<and>
    journal_file fs' = Some (content @ (l @ l') @ [newline]) \<and>
    (trim (l @ l') \<noteq> [] \<and> jc_from_str C (l @ l') = Inl why \<longrightarrow>
      (\<exists>err. verify_jsonl_audit_journal C io_ok (jsonl_path sink) fs' = Inl err))"
proof -
  let ?path = "jsonl_path sink"
  have unended: "read_lines (content @ l) = read_lines content @ [l]"
    using content by (simp add: read_lines_append) (simp add: read_lines_def clean_line_def split_char_single)
  have scan_all: "verify_lines C ?path (lines_from io_ok (content @ l)) = Inr v"
    using valid(1) content(1) by (simp add: verify_jsonl_audit_journal_def)
  then obtain s where s: "for_each (verify_line C ?path) 1 (lines_from io_ok (content @ l)) verify_init = Continue s"
      "v = valid_report s"
    by (rule verify_valid_Continue [OF _ valid(2) ok])
  from jsonl_record_appends [OF ok refl sink content(1) s(1), of event] obtain l' where l':
    "jsonl_record C io_ok (sink, fs) event =
       (Inr (), sink\<lparr>jsonl_last_entry_hash := (jsonl_last_entry_hash sink)
           \<lparr>mutex_value := Some (entry_hash_of C event (vs_previous_hash s))\<rparr>\<rparr>,
        fs\<lparr>journal_file := Some ((content @ l) @ l' @ [newline]), journal_locked := False\<rparr>)"
    "clean_line l'" "trim l' \<noteq> []" by metis
  obtain u where u: "for_each (verify_line C ?path) 1 (lines_from io_ok content) verify_init = Continue u"
    using s(1) unended by (auto simp: lines_from_ok for_each_append split: flow.splits)
  have "l' \<noteq> []" using l'(3) by auto
  then have joined: "read_lines (content @ (l @ l') @ [newline]) = read_lines content @ [l @ l']"
    using content l'(2,3)
    by (auto simp: read_lines_append read_lines_Cons [of "l @ l'" "[]", simplified] clean_line_def strip_cr_def)
  have "\<exists>err. verify_lines C ?path (lines_from io_ok (content @ (l @ l') @ [newline])) = Inl err"
    if "trim (l @ l') \<noteq> []" "jc_from_str C (l @ l') = Inl why"
    using that u unfolding lines_from_ok [OF io_ok_simps(1)] joined verify_lines_def
    by (simp add: for_each_append verify_line_def decode_persisted_audit_event_line_def)
  with l'(1) show ?thesis
    by (simp add: verify_jsonl_audit_journal_def)
qed

theorem append_after_lost_newline_witness:
  "\<exists>l' sink' fs'. jsonl_record sample_codec io_ok (sample_sink, sample_files ''t0'') True = (Inr (), sink', fs') \<and>
    journal_file fs' = Some ([] @ (''t0'' @ l') @ [newline])"
proof -
  have 1: "verify_jsonl_audit_journal sample_codec io_ok (jsonl_path sample_sink) (sample_files ''t0'') =
    Inr \<lparr>avr_total_events = 1, avr_verified_events = 1, avr_valid = True,
      avr_last_entry_hash = Some ''h'', avr_first_invalid_line = None, avr_reason = None\<rparr>"
    by code_simp
  have 2: "clean_line ''t0''"
    by (simp add: clean_line_def newline_def utf8_valid.simps(2) byte_in_def)
  have 3: "journal_file (sample_files ''t0'') = Some ([] @ ''t0'')"
    by (simp add: sample_files_def)
  have 4: "\<not> mutex_poisoned (jsonl_last_entry_hash sample_sink)"
    by (simp add: sample_sink_def)
  show ?thesis
    using append_after_lost_newline [OF sample_codec_ok 4 3 _ 2 _ 1, of True "''expected value''"]
    by (auto simp: newline_ended_def)
qed

text \<open>
  Error paths of \<open>record\<close> keep the file lock: once the lock is taken, a failure to load the
  tail hash, to hash or to serialize returns without unlocking the journal.
\<close>

theorem record_error_keeps_lock:
  assumes "\<not> mutex_poisoned (jsonl_last_entry_hash sink)" and "io_lock io = None"
    and "journal_file fs = Some content"
    and "load_last_audit_entry_hash_from_file C io (jsonl_path sink) content = Inl err"
  shows "jsonl_record C io (sink, fs) event = (Inl err, sink, fs\<lparr>journal_locked := True\<rparr>)"
  using assms by (simp add: jsonl_record_def lock_audit_journal_def)

theorem record_error_keeps_lock_witness:
  "journal_locked (snd (snd (jsonl_record sample_codec io_ok (sample_sink, sample_files ''garbage'') True)))"
proof -
  have 1: "load_last_audit_entry_hash_from_file sample_codec io_ok (jsonl_path sample_sink) ''garbage'' =
      Inl (Sink (''failed to decode audit journal `'' @ ''audit.jsonl'' @ ''` at '' @ ''tail line'' @ '': '' @ ''expected value''))"
    by code_simp
  have 2: "journal_file (sample_files ''garbage'') = Some ''garbage''" and 3: "io_lock io_ok = None"
    and 4: "\<not> mutex_poisoned (jsonl_last_entry_hash sample_sink)"
    by (simp_all add: sample_files_def sample_sink_def)
  show ?thesis
    by (simp add: record_error_keeps_lock [OF 4 3 2 1])
qed

end
