(* ===== verification/Agent_Mailbox.thy ===== *)
theory Agent_Mailbox
  imports Loong_Prelude
begin

text \<open>
  Agent paths and the inter-agent mailbox (crates/kernel/src/mailbox.rs). The tokio channels are
  parameters: \<open>ch_send\<close> and \<open>ch_try_recv\<close> of the unbounded channel, \<open>watch_send\<close> of the watch
  channel; \<open>fifo_channel\<close> is the documented order of the first. \<open>drain\<close> loops until the channel
  is empty, so it is a partial function whose return is proved.
\<close>

section \<open>Agent paths\<close>

definition slash :: char where
  "slash = CHR ''/''"

definition ROOT_AGENT_PATH :: string where
  "ROOT_AGENT_PATH = ''/root''"

definition is_segment_char :: "char \<Rightarrow> bool" where
  "is_segment_char ch \<longleftrightarrow> is_ascii_alphanumeric ch \<or> ch = CHR ''_'' \<or> ch = CHR ''-'' \<or> ch = CHR ''.'' \<or> ch = CHR '':''"

definition is_valid_segment :: "string \<Rightarrow> bool" where
  "is_valid_segment segment \<longleftrightarrow> (\<forall>ch \<in> set segment. is_segment_char ch)"

text \<open>The loop over the segments.\<close>

fun collect_segments :: "string list \<Rightarrow> string list \<Rightarrow> string + string list" where
  "collect_segments [] segments = Inr segments"
| "collect_segments (segment # rest) segments =
     (if segment = [] then Inl ''agent_path_invalid: empty path segment''
      else if \<not> is_valid_segment segment
      then Inl (''agent_path_invalid: segment `'' @ segment @ ''` contains unsupported characters'')
      else collect_segments rest (segments @ [segment]))"

definition normalize_agent_path :: "string \<Rightarrow> string + string" where
  "normalize_agent_path raw =
     (let trimmed = trim raw in
      if trimmed = [] then Inl ''agent_path_invalid: path must not be empty''
      else if hd trimmed \<noteq> slash then Inl ''agent_path_invalid: path must start with `/`''
      else try_bind (collect_segments (tl (split_char slash trimmed)) []) (\<lambda>segments.
        if segments = [] then Inl ''agent_path_invalid: root segment is required''
        else Inr (slash # join_char slash segments)))"

definition agent_path_from_string :: "string \<Rightarrow> string + string" where
  "agent_path_from_string raw = normalize_agent_path raw"

definition agent_path_root :: string where
  "agent_path_root = ROOT_AGENT_PATH"

definition agent_path_join :: "string \<Rightarrow> string \<Rightarrow> string + string" where
  "agent_path_join path child_arg =
     (let child = trim child_arg in
      if child = [] then Inl ''agent_path_invalid: child segment must not be empty''
      else if slash \<in> set child then Inl ''agent_path_invalid: child segment must not contain `/`''
      else if \<not> is_valid_segment child
      then Inl (''agent_path_invalid: child segment `'' @ child @ ''` contains unsupported characters'')
      else agent_path_from_string (path @ slash # child))"

lemma is_segment_char_graphic: "is_segment_char c \<Longrightarrow> ascii_graphic c \<and> c \<noteq> slash"
  by (auto simp: is_segment_char_def ascii_graphic_def slash_def is_ascii_alphanumeric_def
      is_ascii_lowercase_def is_ascii_uppercase_def is_ascii_digit_def Let_def)

lemma collect_segments_Ok:
  "collect_segments segs acc = Inr out \<longleftrightarrow>
    out = acc @ segs \<and> (\<forall>s \<in> set segs. s \<noteq> [] \<and> is_valid_segment s)"
  by (induction segs arbitrary: acc) auto

lemma valid_segment_no_slash: "is_valid_segment s \<Longrightarrow> slash \<notin> set s"
  using is_segment_char_graphic by (auto simp: is_valid_segment_def)

text \<open>A canonical path: a slash before each of its segments, of which there is at least one.\<close>

definition path_of_segments :: "string list \<Rightarrow> string" where
  "path_of_segments segs = concat (map (\<lambda>s. slash # s) segs)"

definition canonical_segments :: "string list \<Rightarrow> bool" where
  "canonical_segments segs \<longleftrightarrow> segs \<noteq> [] \<and> (\<forall>s \<in> set segs. s \<noteq> [] \<and> is_valid_segment s)"

lemma path_of_segments_join: "segs \<noteq> [] \<Longrightarrow> path_of_segments segs = slash # join_char slash segs"
  by (induction slash segs rule: join_char.induct) (simp_all add: path_of_segments_def)

lemma split_path: "canonical_segments segs \<Longrightarrow> split_char slash (path_of_segments segs) = [] # segs"
  using split_join_char [of segs slash] valid_segment_no_slash
  by (auto simp: canonical_segments_def path_of_segments_join)

lemma path_graphic:
  assumes "canonical_segments segs"
  shows "\<forall>c \<in> set (path_of_segments segs). ascii_graphic c"
  using assms is_segment_char_graphic
  by (auto simp: path_of_segments_def canonical_segments_def is_valid_segment_def)
    (auto simp: slash_def ascii_graphic_def)

lemma slash_graphic [simp]: "ascii_graphic slash"
  by (simp add: slash_def ascii_graphic_def)

lemma path_not_Nil: "canonical_segments segs \<Longrightarrow> path_of_segments segs \<noteq> [] \<and> hd (path_of_segments segs) = slash"
  by (simp add: canonical_segments_def path_of_segments_join)

lemma from_string_canonical:
  assumes "canonical_segments segs"
  shows "agent_path_from_string (path_of_segments segs) = Inr (path_of_segments segs)"
proof -
  have "trim (path_of_segments segs) = path_of_segments segs"
    using path_graphic [OF assms] path_not_Nil [OF assms]
    by (intro trim_graphic_id) simp_all
  moreover have "collect_segments segs [] = Inr segs"
    using assms by (simp add: collect_segments_Ok canonical_segments_def)
  ultimately show ?thesis
    using path_not_Nil [OF assms] split_path [OF assms] assms
    by (simp add: agent_path_from_string_def normalize_agent_path_def Let_def path_of_segments_join
        canonical_segments_def)
qed

lemma from_string_Ok:
  assumes "agent_path_from_string raw = Inr p"
  obtains segs where "canonical_segments segs" "p = path_of_segments segs" "p = trim raw"
proof -
  let ?t = "trim raw"
  from assms obtain segs where t: "?t \<noteq> []" "hd ?t = slash"
    and segs: "collect_segments (tl (split_char slash ?t)) [] = Inr segs" "segs \<noteq> []"
    and p: "p = slash # join_char slash segs"
    by (auto simp: agent_path_from_string_def normalize_agent_path_def Let_def try_bind_Ok split: if_splits)
  then have "segs = tl (split_char slash ?t)" "canonical_segments segs"
    by (auto simp: collect_segments_Ok canonical_segments_def)
  moreover from t have "?t = slash # tl ?t" by (metis list.collapse)
  then have "split_char slash ?t = [] # split_char slash (tl ?t)"
    by (metis split_char.simps(2))
  ultimately have "segs = split_char slash (tl ?t)" by simp
  then have "p = ?t"
    using p \<open>?t = slash # tl ?t\<close> join_split_char [of slash "tl ?t"] by simp
  with \<open>canonical_segments segs\<close> p segs(2) show thesis
    by (intro that [of segs]) (simp_all add: path_of_segments_join)
qed

text \<open>
  Agent paths are canonical: a parsed path is its trimmed input, is a sequence of one or more
  non-empty valid segments each after a slash, and parses to itself; \<open>join\<close> appends exactly one
  segment, the trimmed child, and joined paths determine both parent and child.
\<close>

theorem agent_paths_are_canonical:
  assumes "agent_path_from_string raw = Inr p"
  shows "p = trim raw \<and> agent_path_from_string p = Inr p \<and>
    (\<exists>segs. canonical_segments segs \<and> p = path_of_segments segs) \<and>
    (\<forall>child q. agent_path_join p child = Inr q \<longrightarrow>
       q = p @ slash # trim child \<and> agent_path_from_string q = Inr q \<and> is_valid_segment (trim child)) \<and>
    (\<forall>raw' p' child child' q. agent_path_from_string raw' = Inr p' \<and> agent_path_join p child = Inr q \<and>
       agent_path_join p' child' = Inr q \<longrightarrow> p = p' \<and> trim child = trim child')"
proof -
  have joined: "\<exists>segs. canonical_segments segs \<and> p = path_of_segments segs \<and> canonical_segments (segs @ [trim child]) \<and>
      q = path_of_segments (segs @ [trim child])"
    if p: "agent_path_from_string raw = Inr p" and join: "agent_path_join p child = Inr q" for raw p child q
  proof -
    obtain segs where segs: "canonical_segments segs" "p = path_of_segments segs"
      using from_string_Ok [OF p] by metis
    from join have child: "trim child \<noteq> []" "is_valid_segment (trim child)"
      and q: "agent_path_from_string (p @ slash # trim child) = Inr q"
      by (auto simp: agent_path_join_def Let_def split: if_splits)
    then have c: "canonical_segments (segs @ [trim child])"
      using segs by (auto simp: canonical_segments_def)
    have "path_of_segments (segs @ [trim child]) = p @ slash # trim child"
      by (simp add: segs path_of_segments_def)
    with q from_string_canonical [OF c] segs c show ?thesis by auto
  qed
  obtain segs where segs: "canonical_segments segs" "p = path_of_segments segs" "p = trim raw"
    using from_string_Ok [OF assms] by metis
  have one: "q = p @ slash # trim child \<and> agent_path_from_string q = Inr q \<and> is_valid_segment (trim child)"
    if j: "agent_path_join p child = Inr q" for child q
  proof -
    obtain ss where "canonical_segments ss" "p = path_of_segments ss" "canonical_segments (ss @ [trim child])"
        "q = path_of_segments (ss @ [trim child])"
      using joined [OF assms j] by blast
    then show ?thesis
      using from_string_canonical [of "ss @ [trim child]"]
      by (auto simp: path_of_segments_def canonical_segments_def)
  qed
  have two: "p = p' \<and> trim child = trim child'"
    if p': "agent_path_from_string raw' = Inr p'" and j: "agent_path_join p child = Inr q"
      and j': "agent_path_join p' child' = Inr q"
    for raw' p' child child' q
  proof -
    obtain ss where ss: "p = path_of_segments ss" "canonical_segments (ss @ [trim child])"
        "q = path_of_segments (ss @ [trim child])"
      using joined [OF assms j] by blast
    obtain ts where ts: "p' = path_of_segments ts" "canonical_segments (ts @ [trim child'])"
        "q = path_of_segments (ts @ [trim child'])"
      using joined [OF p' j'] by blast
    have "[] # ss @ [trim child] = [] # ts @ [trim child']"
      using split_path [OF ss(2)] split_path [OF ts(2)] ss(3) ts(3) by metis
    then show ?thesis using ss ts by simp
  qed
  show ?thesis
    using segs from_string_canonical [OF segs(1)] one two by blast
qed

lemma segment_examples: "is_valid_segment ''root''" "is_valid_segment ''task-1''"
  by (simp_all add: is_valid_segment_def is_segment_char_def is_ascii_alphanumeric_def
      is_ascii_lowercase_def is_ascii_digit_def)

theorem agent_paths_are_canonical_witness:
  "\<exists>q. agent_path_join ''/root'' ''task-1'' = Inr q \<and> q = ''/root/task-1'' \<and> agent_path_from_string q = Inr q"
proof -
  have "path_of_segments [''root''] = ''/root''"
    by (simp add: path_of_segments_def slash_def)
  then have p: "agent_path_from_string ''/root'' = Inr ''/root''"
    using from_string_canonical [of "[''root'']"] segment_examples by (simp add: canonical_segments_def)
  have t: "trim ''task-1'' = ''task-1''"
    by (rule trim_graphic_id) (simp_all add: ascii_graphic_def)
  have "path_of_segments [''root'', ''task-1''] = ''/root/task-1''"
    by (simp add: path_of_segments_def slash_def)
  then have "agent_path_from_string ''/root/task-1'' = Inr ''/root/task-1''"
    using from_string_canonical [of "[''root'', ''task-1'']"] segment_examples by (simp add: canonical_segments_def)
  with t segment_examples have j: "agent_path_join ''/root'' ''task-1'' = Inr ''/root/task-1''"
    by (simp add: agent_path_join_def slash_def)
  with agent_paths_are_canonical [OF p] t show ?thesis
    by (simp add: slash_def)
qed

section \<open>The mailbox\<close>

datatype 'v mailbox_content =
    DelegateResult string 'v
  | StatusNotification string

record 'v inter_agent_message =
  message_author :: string
  message_recipient :: string
  message_content :: "'v mailbox_content"
  message_trigger_turn :: bool

record ('m, 'q, 'n) channel_ops =
  ch_new :: 'q
  ch_send :: "'q \<Rightarrow> 'm \<Rightarrow> string + 'q"
  ch_try_recv :: "'q \<Rightarrow> 'm option \<times> 'q"
  watch_new :: "u64 \<Rightarrow> 'n"
  watch_send :: "'n \<Rightarrow> u64 \<Rightarrow> 'n"

record ('q, 'n) agent_mailbox =
  mailbox_channel :: 'q
  mailbox_sequence :: u64
  mailbox_notifier :: 'n

definition mailbox_new :: "('m, 'q, 'n) channel_ops \<Rightarrow> ('q, 'n) agent_mailbox" where
  "mailbox_new C =
     \<lparr>mailbox_channel = ch_new C, mailbox_sequence = 0, mailbox_notifier = watch_new C 0\<rparr>"

definition mailbox_send ::
  "('m, 'q, 'n) channel_ops \<Rightarrow> ('q, 'n) agent_mailbox \<Rightarrow> 'm \<Rightarrow> (string + unit) \<times> ('q, 'n) agent_mailbox" where
  "mailbox_send C mb msg =
     (case ch_send C (mailbox_channel mb) msg of
        Inl e \<Rightarrow> (Inl (''agent_mailbox_closed: '' @ e), mb)
      | Inr q \<Rightarrow>
          let next_seq = mailbox_sequence mb + 1 in
          (Inr (), mb\<lparr>mailbox_channel := q, mailbox_sequence := mailbox_sequence mb + 1,
                      mailbox_notifier := watch_send C (mailbox_notifier mb) next_seq\<rparr>))"

partial_function (option) drain_loop ::
  "('m, 'q, 'n) channel_ops \<Rightarrow> 'q \<Rightarrow> 'm list \<Rightarrow> ('m list \<times> 'q) option" where
  "drain_loop C q drained =
     (case ch_try_recv C q of
        (None, q') \<Rightarrow> Some (drained, q')
      | (Some m, q') \<Rightarrow> drain_loop C q' (drained @ [m]))"

definition mailbox_drain ::
  "('m, 'q, 'n) channel_ops \<Rightarrow> ('q, 'n) agent_mailbox \<Rightarrow> ('m list \<times> ('q, 'n) agent_mailbox) option" where
  "mailbox_drain C mb =
     (case drain_loop C (mailbox_channel mb) [] of
        None \<Rightarrow> None
      | Some (ms, q) \<Rightarrow> Some (ms, mb\<lparr>mailbox_channel := q\<rparr>))"

text \<open>An unbounded channel with a live receiver delivers what was sent, in order.\<close>

definition fifo_channel :: "('m, 'q, 'n) channel_ops \<Rightarrow> ('q \<Rightarrow> 'm list) \<Rightarrow> bool" where
  "fifo_channel C content \<longleftrightarrow>
     content (ch_new C) = [] \<and>
     (\<forall>q m. \<exists>q'. ch_send C q m = Inr q' \<and> content q' = content q @ [m]) \<and>
     (\<forall>q. case content q of
        [] \<Rightarrow> (\<exists>q'. ch_try_recv C q = (None, q') \<and> content q' = [])
      | m # ms \<Rightarrow> (\<exists>q'. ch_try_recv C q = (Some m, q') \<and> content q' = ms))"

lemma fifo_recv:
  assumes "fifo_channel C content"
  shows "content q = [] \<Longrightarrow> \<exists>q'. ch_try_recv C q = (None, q') \<and> content q' = []"
    and "content q = m # ms \<Longrightarrow> \<exists>q'. ch_try_recv C q = (Some m, q') \<and> content q' = ms"
proof -
  have "case content q of
      [] \<Rightarrow> \<exists>q'. ch_try_recv C q = (None, q') \<and> content q' = []
    | m # ms \<Rightarrow> \<exists>q'. ch_try_recv C q = (Some m, q') \<and> content q' = ms"
    using assms unfolding fifo_channel_def by blast
  then show "content q = [] \<Longrightarrow> \<exists>q'. ch_try_recv C q = (None, q') \<and> content q' = []"
    and "content q = m # ms \<Longrightarrow> \<exists>q'. ch_try_recv C q = (Some m, q') \<and> content q' = ms"
    by (simp_all split: list.splits)
qed

lemma drain_loop_fifo:
  assumes "fifo_channel C content"
  shows "\<exists>q'. drain_loop C q acc = Some (acc @ content q, q') \<and> content q' = []"
proof (induction "length (content q)" arbitrary: q acc)
  case 0
  then have empty: "content q = []" by simp
  then obtain q' where "ch_try_recv C q = (None, q')" "content q' = []"
    using fifo_recv(1) [OF assms] by blast
  with empty show ?case by (subst drain_loop.simps) simp
next
  case (Suc n)
  then obtain m ms where ms: "content q = m # ms" by (cases "content q") auto
  then obtain q' where q': "ch_try_recv C q = (Some m, q')" "content q' = ms"
    using fifo_recv(2) [OF assms] by blast
  with Suc.hyps(1) [of q' "acc @ [m]"] Suc.hyps(2) ms show ?case
    by (subst drain_loop.simps) auto
qed

lemma mailbox_sends:
  assumes "fifo_channel C content"
  shows "content (mailbox_channel (fold (\<lambda>m mb. snd (mailbox_send C mb m)) ms mb)) =
      content (mailbox_channel mb) @ ms \<and>
    mailbox_sequence (fold (\<lambda>m mb. snd (mailbox_send C mb m)) ms mb) = mailbox_sequence mb + of_nat (length ms)"
proof (induction ms arbitrary: mb)
  case Nil
  then show ?case by simp
next
  case (Cons m ms)
  obtain q where q: "ch_send C (mailbox_channel mb) m = Inr q" "content q = content (mailbox_channel mb) @ [m]"
    using assms unfolding fifo_channel_def by blast
  with Cons.IH [of "snd (mailbox_send C mb m)"] show ?case
    by (simp add: mailbox_send_def Let_def)
qed

text \<open>
  The mailbox neither loses, duplicates nor reorders: after any sends, \<open>drain\<close> returns, yields
  what was queued before followed by the sent messages in order, and leaves the mailbox empty; the
  sequence number has advanced by the number of sends.
\<close>

theorem mailbox_drain_returns_all_sent:
  assumes "fifo_channel C content"
  shows "\<exists>mb'. mailbox_drain C (fold (\<lambda>m mb. snd (mailbox_send C mb m)) ms mb) =
      Some (content (mailbox_channel mb) @ ms, mb') \<and> content (mailbox_channel mb') = [] \<and>
      mailbox_sequence mb' = mailbox_sequence mb + of_nat (length ms) \<and>
      (\<exists>mb''. mailbox_drain C mb' = Some ([], mb''))"
proof -
  let ?mb = "fold (\<lambda>m mb. snd (mailbox_send C mb m)) ms mb"
  obtain q where q: "drain_loop C (mailbox_channel ?mb) [] = Some (content (mailbox_channel ?mb), q)" "content q = []"
    using drain_loop_fifo [OF assms, of "mailbox_channel ?mb" "[]"] by auto
  obtain q' where "drain_loop C q [] = Some ([], q')"
    using drain_loop_fifo [OF assms, of q "[]"] q(2) by auto
  with q mailbox_sends [OF assms, of ms mb] show ?thesis
    by (simp add: mailbox_drain_def)
qed

definition list_channel :: "(nat, nat list, u64) channel_ops" where
  "list_channel = \<lparr>ch_new = [], ch_send = (\<lambda>q m. Inr (q @ [m])),
     ch_try_recv = (\<lambda>q. case q of [] \<Rightarrow> (None, []) | m # ms \<Rightarrow> (Some m, ms)),
     watch_new = (\<lambda>n. n), watch_send = (\<lambda>_ n. n)\<rparr>"

lemma list_channel_fifo: "fifo_channel list_channel (\<lambda>q. q)"
  unfolding fifo_channel_def
proof (intro conjI allI)
  show "case q of [] \<Rightarrow> \<exists>q'. ch_try_recv list_channel q = (None, q') \<and> q' = []
      | m # ms \<Rightarrow> \<exists>q'. ch_try_recv list_channel q = (Some m, q') \<and> q' = ms" for q
    by (cases q) (simp_all add: list_channel_def)
qed (simp_all add: list_channel_def)

theorem mailbox_drain_returns_all_sent_witness:
  "\<exists>mb. mailbox_drain list_channel
      (fold (\<lambda>m mb. snd (mailbox_send list_channel mb m)) [3, 1, 2] (mailbox_new list_channel)) = Some ([3, 1, 2], mb)"
proof -
  have "mailbox_channel (mailbox_new list_channel) @ [3, 1, 2] = [3, 1, 2]"
    by (simp add: mailbox_new_def list_channel_def)
  with mailbox_drain_returns_all_sent [OF list_channel_fifo, of "[3, 1, 2]" "mailbox_new list_channel"]
  show ?thesis
    by (simp only:) blast
qed

end
