(* ===== verification/Architecture_Guard.thy ===== *)
theory Architecture_Guard
  imports Loong_Prelude
begin

text \<open>
  The architecture guard (crates/kernel/src/architecture.rs): which paths a change may touch.
  Prefix sets are \<open>BTreeSet<String>\<close>, kept here as the list of their elements in order.
\<close>

datatype architecture_path_decision = AllowedMutable | DeniedImmutable | DeniedUnknown

record architecture_path_report =
  apr_path :: string
  apr_decision :: architecture_path_decision
  apr_matched_prefix :: "string option"
  apr_reason :: string

record architecture_guard_report =
  agr_total_paths :: usize
  agr_allowed_paths :: "string list"
  agr_denied_paths :: "string list"
  agr_unknown_paths :: "string list"
  agr_reports :: "architecture_path_report list"

definition architecture_report_default :: architecture_guard_report where
  "architecture_report_default = \<lparr>agr_total_paths = 0, agr_allowed_paths = [], agr_denied_paths = [],
     agr_unknown_paths = [], agr_reports = []\<rparr>"

definition has_denials :: "architecture_guard_report \<Rightarrow> bool" where
  "has_denials r \<longleftrightarrow> \<not> (agr_denied_paths r = [])"

record architecture_boundary_policy =
  immutable_prefixes :: "string list"
  mutable_prefixes :: "string list"

definition architecture_policy_default :: architecture_boundary_policy where
  "architecture_policy_default =
     \<lparr>immutable_prefixes =
        [''crates/kernel/src/contracts.rs'', ''crates/kernel/src/errors.rs'',
         ''crates/kernel/src/harness.rs'', ''crates/kernel/src/kernel.rs'',
         ''crates/kernel/src/policy.rs''],
      mutable_prefixes =
        [''README.md'', ''crates/daemon/src/'', ''crates/kernel/src/architecture.rs'',
         ''crates/kernel/src/audit.rs'', ''crates/kernel/src/awareness.rs'',
         ''crates/kernel/src/connector.rs'', ''crates/kernel/src/integration.rs'',
         ''crates/kernel/src/memory.rs'', ''crates/kernel/src/plugin.rs'',
         ''crates/kernel/src/plugin_ir.rs'', ''crates/kernel/src/policy_ext.rs'',
         ''crates/kernel/src/runtime.rs'', ''crates/kernel/src/tests.rs'',
         ''crates/kernel/src/tool.rs'', ''docs/'', ''examples/'']\<rparr>"

definition normalize_path :: "string \<Rightarrow> string" where
  "normalize_path path =
     (let replaced = replace_char (CHR 0x5C) (CHR ''/'') (trim path);
          without_prefix = (if prefix ''./'' replaced then drop 2 replaced else replaced)
      in dropWhile (\<lambda>c. c = CHR ''/'') without_prefix)"

definition prefix_matches :: "string \<Rightarrow> string \<Rightarrow> bool" where
  "prefix_matches path pre =
     (if pre = [] then False
      else if path = pre then True
      else if last pre = CHR ''/'' then path = butlast pre \<or> prefix pre path
      else prefix (pre @ ''/'') path)"

text \<open>\<open>max_by_key\<close> returns the last of several maximal elements.\<close>

definition max_by_len :: "string list \<Rightarrow> string option" where
  "max_by_len xs =
     fold (\<lambda>x best. case best of None \<Rightarrow> Some x | Some b \<Rightarrow> if length x \<ge> length b then Some x else Some b) xs None"

definition longest_prefix_match :: "string \<Rightarrow> string list \<Rightarrow> string option" where
  "longest_prefix_match path candidates = max_by_len (filter (prefix_matches path) candidates)"

text \<open>The body of the loop over the paths.\<close>

definition evaluate_path ::
  "string list \<Rightarrow> string list \<Rightarrow> string \<Rightarrow> architecture_guard_report \<Rightarrow> architecture_guard_report" where
  "evaluate_path normalized_immutable normalized_mutable path report0 =
     (let normalized = normalize_path path;
          report = report0\<lparr>agr_total_paths := usize_saturating_add (agr_total_paths report0) 1\<rparr> in
      case longest_prefix_match normalized normalized_immutable of
        Some pre \<Rightarrow>
          report\<lparr>agr_denied_paths := agr_denied_paths report @ [normalized],
                 agr_reports := agr_reports report @
                   [\<lparr>apr_path = normalized, apr_decision = DeniedImmutable, apr_matched_prefix = Some pre,
                     apr_reason = ''path is protected by immutable core boundary: '' @ pre\<rparr>]\<rparr>
      | None \<Rightarrow>
          (case longest_prefix_match normalized normalized_mutable of
             Some pre \<Rightarrow>
               report\<lparr>agr_allowed_paths := agr_allowed_paths report @ [normalized],
                      agr_reports := agr_reports report @
                        [\<lparr>apr_path = normalized, apr_decision = AllowedMutable, apr_matched_prefix = Some pre,
                          apr_reason = ''path is inside mutable extension boundary: '' @ pre\<rparr>]\<rparr>
           | None \<Rightarrow>
               report\<lparr>agr_denied_paths := agr_denied_paths report @ [normalized],
                      agr_unknown_paths := agr_unknown_paths report @ [normalized],
                      agr_reports := agr_reports report @
                        [\<lparr>apr_path = normalized, apr_decision = DeniedUnknown, apr_matched_prefix = None,
                          apr_reason = ''path is outside declared mutable boundaries''\<rparr>]\<rparr>))"

definition evaluate_paths ::
  "architecture_boundary_policy \<Rightarrow> string list \<Rightarrow> architecture_guard_report" where
  "evaluate_paths policy paths =
     (let normalized_immutable = map normalize_path (immutable_prefixes policy);
          normalized_mutable = map normalize_path (mutable_prefixes policy)
      in fold (evaluate_path normalized_immutable normalized_mutable) paths architecture_report_default)"

section \<open>Longest match\<close>

lemma max_by_len_spec:
  "case fold (\<lambda>x best. case best of None \<Rightarrow> Some x | Some b \<Rightarrow> if length x \<ge> length b then Some x else Some b) xs acc of
     None \<Rightarrow> xs = [] \<and> acc = None
   | Some m \<Rightarrow> (m \<in> set xs \<or> acc = Some m) \<and> (\<forall>x \<in> set xs. length x \<le> length m) \<and>
       (\<forall>b. acc = Some b \<longrightarrow> length b \<le> length m)"
proof (induction xs arbitrary: acc)
  case Nil
  then show ?case by (simp split: option.split)
next
  case (Cons x xs)
  let ?acc = "case acc of None \<Rightarrow> Some x | Some b \<Rightarrow> if length x \<ge> length b then Some x else Some b"
  from Cons.IH [of ?acc] show ?case
    by (auto split: option.splits if_splits)
qed

lemma longest_prefix_match_None:
  "longest_prefix_match path ps = None \<longleftrightarrow> (\<forall>p \<in> set ps. \<not> prefix_matches path p)"
proof -
  have "max_by_len xs = None \<longleftrightarrow> xs = []" for xs
    using max_by_len_spec [of xs None] by (auto simp: max_by_len_def split: option.splits)
  then show ?thesis
    by (auto simp: longest_prefix_match_def filter_empty_conv)
qed

lemma longest_prefix_match_Some:
  "longest_prefix_match path ps = Some p \<Longrightarrow>
    p \<in> set ps \<and> prefix_matches path p \<and> (\<forall>q \<in> set ps. prefix_matches path q \<longrightarrow> length q \<le> length p)"
  using max_by_len_spec [of "filter (prefix_matches path) ps" None]
  by (auto simp: longest_prefix_match_def max_by_len_def)

section \<open>The specification\<close>

text \<open>The decision, said directly.\<close>

definition guard_decision :: "architecture_boundary_policy \<Rightarrow> string \<Rightarrow> architecture_path_decision" where
  "guard_decision policy path =
     (if \<exists>p \<in> set (immutable_prefixes policy). prefix_matches (normalize_path path) (normalize_path p)
      then DeniedImmutable
      else if \<exists>p \<in> set (mutable_prefixes policy). prefix_matches (normalize_path path) (normalize_path p)
      then AllowedMutable
      else DeniedUnknown)"

definition guard_step :: "architecture_boundary_policy \<Rightarrow> string list \<Rightarrow> architecture_guard_report \<Rightarrow> bool" where
  "guard_step policy paths r \<longleftrightarrow>
     agr_total_paths r = min (length paths) usize_max \<and>
     map apr_path (agr_reports r) = map normalize_path paths \<and>
     map apr_decision (agr_reports r) = map (guard_decision policy) paths \<and>
     agr_allowed_paths r = map normalize_path (filter (\<lambda>p. guard_decision policy p = AllowedMutable) paths) \<and>
     agr_denied_paths r = map normalize_path (filter (\<lambda>p. guard_decision policy p \<noteq> AllowedMutable) paths) \<and>
     agr_unknown_paths r = map normalize_path (filter (\<lambda>p. guard_decision policy p = DeniedUnknown) paths) \<and>
     (\<forall>x \<in> set (agr_reports r). \<forall>m. apr_matched_prefix x = Some m \<longrightarrow> prefix_matches (apr_path x) m)"

lemma evaluate_path_step:
  assumes "guard_step policy paths r"
  shows "guard_step policy (paths @ [path])
    (evaluate_path (map normalize_path (immutable_prefixes policy))
       (map normalize_path (mutable_prefixes policy)) path r)"
proof -
  let ?i = "map normalize_path (immutable_prefixes policy)"
  let ?m = "map normalize_path (mutable_prefixes policy)"
  have total: "usize_saturating_add (min (length paths) usize_max) 1 = min (length (paths @ [path])) usize_max"
    by (simp add: usize_saturating_add_def)
  show ?thesis
  proof (cases "longest_prefix_match (normalize_path path) ?i")
    case (Some p)
    then have "guard_decision policy path = DeniedImmutable" "prefix_matches (normalize_path path) p"
      using longest_prefix_match_Some [OF Some] by (auto simp: guard_decision_def)
    with Some assms total show ?thesis
      by (auto simp: guard_step_def evaluate_path_def Let_def)
  next
    case None
    then have imm: "\<not> (\<exists>p \<in> set (immutable_prefixes policy). prefix_matches (normalize_path path) (normalize_path p))"
      by (auto simp: longest_prefix_match_None)
    show ?thesis
    proof (cases "longest_prefix_match (normalize_path path) ?m")
      case (Some p)
      then have "guard_decision policy path = AllowedMutable" "prefix_matches (normalize_path path) p"
        using imm longest_prefix_match_Some [OF Some] by (auto simp: guard_decision_def)
      with None Some assms total show ?thesis
        by (auto simp: guard_step_def evaluate_path_def Let_def)
    next
      case none: None
      then have "guard_decision policy path = DeniedUnknown"
        using imm by (auto simp: guard_decision_def longest_prefix_match_None)
      with None none assms total show ?thesis
        by (auto simp: guard_step_def evaluate_path_def Let_def)
    qed
  qed
qed

lemma guard_step_evaluate: "guard_step policy paths (evaluate_paths policy paths)"
proof (induction paths rule: rev_induct)
  case Nil
  show ?case
    by (simp add: guard_step_def evaluate_paths_def architecture_report_default_def)
next
  case (snoc path paths)
  from evaluate_path_step [OF this, of path] show ?case
    by (simp add: evaluate_paths_def Let_def)
qed

text \<open>
  The architecture guard reports exactly its specification: one report per path in order, a path
  under an immutable prefix is denied even when it is also under a mutable one, a path under a mutable
  prefix only is allowed, any other path is denied as unknown; the lists of allowed, denied and
  unknown paths are the corresponding paths, and there are denials exactly when some path is not allowed.
\<close>

theorem architecture_guard_decides:
  "map apr_path (agr_reports (evaluate_paths policy paths)) = map normalize_path paths \<and>
   map apr_decision (agr_reports (evaluate_paths policy paths)) = map (guard_decision policy) paths \<and>
   agr_allowed_paths (evaluate_paths policy paths) =
     map normalize_path (filter (\<lambda>p. guard_decision policy p = AllowedMutable) paths) \<and>
   agr_denied_paths (evaluate_paths policy paths) =
     map normalize_path (filter (\<lambda>p. guard_decision policy p \<noteq> AllowedMutable) paths) \<and>
   agr_unknown_paths (evaluate_paths policy paths) =
     map normalize_path (filter (\<lambda>p. guard_decision policy p = DeniedUnknown) paths) \<and>
   agr_total_paths (evaluate_paths policy paths) = min (length paths) usize_max \<and>
   (has_denials (evaluate_paths policy paths) \<longleftrightarrow> (\<exists>p \<in> set paths. guard_decision policy p \<noteq> AllowedMutable))"
  using guard_step_evaluate [of policy paths]
  by (auto simp: guard_step_def has_denials_def filter_empty_conv)

text \<open>
  The guard does not resolve parent segments: with the default policy a path that enters a mutable
  directory and climbs out of it again, to an immutable kernel file, is allowed.
\<close>

theorem parent_segments_bypass_guard:
  "agr_allowed_paths (evaluate_paths architecture_policy_default [''docs/../crates/kernel/src/kernel.rs'']) =
     [''docs/../crates/kernel/src/kernel.rs''] \<and>
   \<not> has_denials (evaluate_paths architecture_policy_default [''docs/../crates/kernel/src/kernel.rs'']) \<and>
   has_denials (evaluate_paths architecture_policy_default [''crates/kernel/src/kernel.rs''])"
proof -
  have climbs: "guard_decision architecture_policy_default ''docs/../crates/kernel/src/kernel.rs'' = AllowedMutable"
    and kernel: "guard_decision architecture_policy_default ''crates/kernel/src/kernel.rs'' = DeniedImmutable"
    and "normalize_path ''docs/../crates/kernel/src/kernel.rs'' = ''docs/../crates/kernel/src/kernel.rs''"
    by code_simp+
  then show ?thesis
    using guard_step_evaluate [of architecture_policy_default "[''docs/../crates/kernel/src/kernel.rs'']"]
      guard_step_evaluate [of architecture_policy_default "[''crates/kernel/src/kernel.rs'']"]
    unfolding guard_step_def has_denials_def by (simp add: climbs kernel)
qed

end
