(* ===== verification/Integration_Catalog.thy ===== *)
theory Integration_Catalog
  imports Vertical_Packs
begin

text \<open>
  The integration catalog and the auto-provisioning agent (crates/kernel/src/integration.rs):
  providers, channels and templates keyed by id, the plan that makes a pack able to reach a
  channel, its application, and hotfixes.
\<close>

record provider_config =
  provider_provider_id :: string
  provider_connector_name :: string
  provider_version :: string
  provider_metadata :: "(string, string) btree"

record channel_config =
  channel_channel_id :: string
  channel_provider_id :: string
  channel_endpoint :: string
  channel_enabled :: bool
  channel_metadata :: "(string, string) btree"

record provider_template =
  template_provider_id :: string
  template_default_connector_name :: string
  template_default_version :: string
  template_metadata :: "(string, string) btree"

record integration_catalog =
  catalog_providers :: "(string, provider_config) btree"
  catalog_channels :: "(string, channel_config) btree"
  catalog_templates :: "(string, provider_template) btree"
  catalog_revision :: u64

datatype provision_action =
    AddProvider provider_config string
  | PatchProvider provider_config string
  | AddChannel channel_config string
  | PatchChannel channel_config string

record provision_plan =
  plan_actions :: "provision_action list"
  plan_pack_connector_additions :: "string set"
  plan_pack_capability_additions :: "capability set"

datatype integration_hotfix =
    ProviderVersion string string
  | ProviderConnector string string
  | ChannelEndpoint string string
  | ChannelEnabled string bool

record auto_provision_request =
  apr_provider_id :: string
  apr_channel_id :: string
  apr_connector_name :: "string option"
  apr_endpoint :: "string option"
  apr_required_capabilities :: "capability set"

section \<open>The catalog\<close>

definition catalog_new :: integration_catalog where
  "catalog_new = \<lparr>catalog_providers = [], catalog_channels = [], catalog_templates = [], catalog_revision = 0\<rparr>"

definition register_template :: "provider_template \<Rightarrow> integration_catalog \<Rightarrow> integration_catalog" where
  "register_template t c = c\<lparr>catalog_templates := bt_insert (template_provider_id t) t (catalog_templates c)\<rparr>"

definition upsert_provider :: "provider_config \<Rightarrow> integration_catalog \<Rightarrow> integration_catalog" where
  "upsert_provider p c =
     c\<lparr>catalog_providers := bt_insert (provider_provider_id p) p (catalog_providers c),
       catalog_revision := u64_saturating_add (catalog_revision c) 1\<rparr>"

definition upsert_channel :: "channel_config \<Rightarrow> integration_catalog \<Rightarrow> integration_catalog" where
  "upsert_channel ch c =
     c\<lparr>catalog_channels := bt_insert (channel_channel_id ch) ch (catalog_channels c),
       catalog_revision := u64_saturating_add (catalog_revision c) 1\<rparr>"

definition channels_for_provider :: "integration_catalog \<Rightarrow> string \<Rightarrow> channel_config list" where
  "channels_for_provider c pid = filter (\<lambda>ch. channel_provider_id ch = pid) (bt_values (catalog_channels c))"

primrec apply_action :: "provision_action \<Rightarrow> integration_catalog \<Rightarrow> integration_catalog" where
  "apply_action (AddProvider p reason) c = upsert_provider p c"
| "apply_action (PatchProvider p reason) c = upsert_provider p c"
| "apply_action (AddChannel ch reason) c = upsert_channel ch c"
| "apply_action (PatchChannel ch reason) c = upsert_channel ch c"

definition apply_plan ::
  "integration_catalog \<Rightarrow> pack_manifest \<Rightarrow> provision_plan \<Rightarrow>
   (integration_error + unit) \<times> integration_catalog \<times> pack_manifest" where
  "apply_plan c pack plan =
     (Inr (), fold apply_action (plan_actions plan) c,
      pack\<lparr>pack_allowed_connectors := pack_allowed_connectors pack \<union> plan_pack_connector_additions plan,
           pack_granted_capabilities := pack_granted_capabilities pack \<union> plan_pack_capability_additions plan\<rparr>)"

definition patch_provider ::
  "integration_catalog \<Rightarrow> string \<Rightarrow> (provider_config \<Rightarrow> provider_config) \<Rightarrow>
   (integration_error + unit) \<times> integration_catalog" where
  "patch_provider c pid f =
     (case bt_get (catalog_providers c) pid of
        None \<Rightarrow> (Inl (ProviderNotFound pid), c)
      | Some p \<Rightarrow> (Inr (), c\<lparr>catalog_providers := bt_insert pid (f p) (catalog_providers c),
                             catalog_revision := u64_saturating_add (catalog_revision c) 1\<rparr>))"

definition patch_channel ::
  "integration_catalog \<Rightarrow> string \<Rightarrow> (channel_config \<Rightarrow> channel_config) \<Rightarrow>
   (integration_error + unit) \<times> integration_catalog" where
  "patch_channel c cid f =
     (case bt_get (catalog_channels c) cid of
        None \<Rightarrow> (Inl (ChannelNotFound cid), c)
      | Some ch \<Rightarrow> (Inr (), c\<lparr>catalog_channels := bt_insert cid (f ch) (catalog_channels c),
                              catalog_revision := u64_saturating_add (catalog_revision c) 1\<rparr>))"

primrec apply_hotfix :: "integration_catalog \<Rightarrow> integration_hotfix \<Rightarrow> (integration_error + unit) \<times> integration_catalog" where
  "apply_hotfix c (ProviderVersion pid v) = patch_provider c pid (provider_version_update (\<lambda>_. v))"
| "apply_hotfix c (ProviderConnector pid n) = patch_provider c pid (provider_connector_name_update (\<lambda>_. n))"
| "apply_hotfix c (ChannelEndpoint cid e) = patch_channel c cid (channel_endpoint_update (\<lambda>_. e))"
| "apply_hotfix c (ChannelEnabled cid b) = patch_channel c cid (channel_enabled_update (\<lambda>_. b))"

section \<open>Planning\<close>

definition plan_is_noop :: "provision_plan \<Rightarrow> bool" where
  "plan_is_noop plan \<longleftrightarrow> plan_actions plan = [] \<and> plan_pack_connector_additions plan = {} \<and>
     plan_pack_capability_additions plan = {}"

definition new_provider_from_request :: "integration_catalog \<Rightarrow> auto_provision_request \<Rightarrow> provider_config" where
  "new_provider_from_request c r =
     (case bt_get (catalog_templates c) (apr_provider_id r) of
        Some t \<Rightarrow>
          \<lparr>provider_provider_id = template_provider_id t,
           provider_connector_name = (case apr_connector_name r of Some n \<Rightarrow> n | None \<Rightarrow> template_default_connector_name t),
           provider_version = template_default_version t, provider_metadata = template_metadata t\<rparr>
      | None \<Rightarrow>
          \<lparr>provider_provider_id = apr_provider_id r,
           provider_connector_name = (case apr_connector_name r of Some n \<Rightarrow> n | None \<Rightarrow> apr_provider_id r @ ''-connector''),
           provider_version = ''0.1.0'', provider_metadata = [(''source'', ''auto-generated'')]\<rparr>)"

definition plan_provider ::
  "integration_catalog \<Rightarrow> auto_provision_request \<Rightarrow> provider_config \<times> provision_action list" where
  "plan_provider c r =
     (case bt_get (catalog_providers c) (apr_provider_id r) of
        Some existing \<Rightarrow>
          (case apr_connector_name r of
             Some expected \<Rightarrow>
               if provider_connector_name existing \<noteq> expected
               then let patched = existing\<lparr>provider_connector_name := expected\<rparr>
                    in (patched, [PatchProvider patched ''connector override required by request''])
               else (existing, [])
           | None \<Rightarrow> (existing, []))
      | None \<Rightarrow>
          let p = new_provider_from_request c r
          in (p, [AddProvider p ''provider missing and generated from template'']))"

definition plan_channel ::
  "integration_catalog \<Rightarrow> auto_provision_request \<Rightarrow> provider_config \<Rightarrow> channel_config \<times> provision_action list" where
  "plan_channel c r provider =
     (case bt_get (catalog_channels c) (apr_channel_id r) of
        Some existing \<Rightarrow>
          let (p1, changed1) =
                (if channel_provider_id existing \<noteq> provider_provider_id provider
                 then (existing\<lparr>channel_provider_id := provider_provider_id provider\<rparr>, True)
                 else (existing, False));
              (p2, changed2) =
                (if \<not> channel_enabled p1 then (p1\<lparr>channel_enabled := True\<rparr>, True) else (p1, changed1));
              (patched, changed) =
                (case apr_endpoint r of
                   Some e \<Rightarrow> if channel_endpoint p2 \<noteq> e then (p2\<lparr>channel_endpoint := e\<rparr>, True) else (p2, changed2)
                 | None \<Rightarrow> (p2, changed2))
          in if changed
             then (patched, [PatchChannel patched ''channel requires repair for provider binding or endpoint''])
             else (existing, [])
      | None \<Rightarrow>
          let ch = \<lparr>channel_channel_id = apr_channel_id r, channel_provider_id = provider_provider_id provider,
                channel_endpoint = (case apr_endpoint r of Some e \<Rightarrow> e
                  | None \<Rightarrow> ''https://'' @ provider_provider_id provider @ ''.local/'' @ apr_channel_id r @ ''/invoke''),
                channel_enabled = True, channel_metadata = []\<rparr>
          in (ch, [AddChannel ch ''channel missing and generated from provider defaults'']))"

definition provision_plan_for ::
  "integration_catalog \<Rightarrow> pack_manifest \<Rightarrow> auto_provision_request \<Rightarrow> integration_error + provision_plan" where
  "provision_plan_for c pack r =
     (let (provider, provider_actions) = plan_provider c r;
          (channel, channel_actions) = plan_channel c r provider;
          connector_name = provider_connector_name provider;
          plan = \<lparr>plan_actions = provider_actions @ channel_actions,
            plan_pack_connector_additions =
              (if connector_name \<notin> pack_allowed_connectors pack then {connector_name} else {}),
            plan_pack_capability_additions =
              (if InvokeConnector \<notin> pack_granted_capabilities pack then {InvokeConnector} else {}) \<union>
              {cap \<in> apr_required_capabilities r. cap \<notin> pack_granted_capabilities pack}\<rparr>
      in if \<not> channel_enabled channel then Inl (ChannelDisabled (channel_channel_id channel)) else Inr plan)"

section \<open>What a plan achieves\<close>

text \<open>Entries are filed under their own ids.\<close>

definition catalog_inv :: "integration_catalog \<Rightarrow> bool" where
  "catalog_inv c \<longleftrightarrow>
     (\<forall>k p. bt_get (catalog_providers c) k = Some p \<longrightarrow> provider_provider_id p = k) \<and>
     (\<forall>k ch. bt_get (catalog_channels c) k = Some ch \<longrightarrow> channel_channel_id ch = k) \<and>
     (\<forall>k t. bt_get (catalog_templates c) k = Some t \<longrightarrow> template_provider_id t = k)"

lemma catalog_inv_new [simp]: "catalog_inv catalog_new"
  by (simp add: catalog_inv_def catalog_new_def)

lemma catalog_inv_ops [simp]:
  assumes "catalog_inv c"
  shows "catalog_inv (register_template t c)" "catalog_inv (upsert_provider p c)" "catalog_inv (upsert_channel ch c)"
  using assms by (auto simp: catalog_inv_def register_template_def upsert_provider_def upsert_channel_def)

lemma catalog_inv_hotfix: "catalog_inv c \<Longrightarrow> catalog_inv (snd (apply_hotfix c h))"
  by (cases h) (auto simp: catalog_inv_def patch_provider_def patch_channel_def split: option.split)

lemma catalog_inv_apply_plan: "catalog_inv c \<Longrightarrow> catalog_inv (fst (snd (apply_plan c pack plan)))"
proof -
  have "catalog_inv c \<Longrightarrow> catalog_inv (fold apply_action as c)" for as
  proof (induction as arbitrary: c)
    case Nil
    then show ?case by simp
  next
    case (Cons a as)
    then have "catalog_inv (apply_action a c)" by (cases a) simp_all
    with Cons.IH show ?case by simp
  qed
  then show "catalog_inv c \<Longrightarrow> ?thesis" by (simp add: apply_plan_def)
qed

lemma plan_provider_result:
  assumes "catalog_inv c" and "plan_provider c r = (p, as)"
  shows "provider_provider_id p = apr_provider_id r"
    and "bt_get (catalog_providers (fold apply_action as c)) (apr_provider_id r) = Some p"
    and "catalog_channels (fold apply_action as c) = catalog_channels c"
    and "catalog_templates (fold apply_action as c) = catalog_templates c"
    and "\<And>n. apr_connector_name r = Some n \<Longrightarrow> provider_connector_name p = n"
  using assms
  by (auto simp: plan_provider_def catalog_inv_def new_provider_from_request_def upsert_provider_def Let_def
      split: option.splits if_splits)

lemma plan_channel_result:
  assumes "catalog_inv c" and "plan_channel c r p = (ch, as)" and "provider_provider_id p = apr_provider_id r"
  shows "channel_channel_id ch = apr_channel_id r" and "channel_provider_id ch = apr_provider_id r"
    and "channel_enabled ch" and "\<And>e. apr_endpoint r = Some e \<Longrightarrow> channel_endpoint ch = e"
    and "bt_get (catalog_channels (fold apply_action as d)) (apr_channel_id r) =
      (if as = [] then bt_get (catalog_channels d) (apr_channel_id r) else Some ch)"
    and "as = [] \<Longrightarrow> bt_get (catalog_channels c) (apr_channel_id r) = Some ch"
    and "catalog_providers (fold apply_action as d) = catalog_providers d"
    and "catalog_templates (fold apply_action as d) = catalog_templates d"
  using assms
  by (auto simp: plan_channel_def catalog_inv_def upsert_channel_def Let_def
      split: option.splits if_splits prod.splits)

text \<open>
  Provisioning succeeds and is idempotent: on a catalog whose entries are filed under their ids,
  planning never fails; after applying the plan the requested channel exists, is enabled, is bound to
  the requested provider and has the requested endpoint, the provider has the requested connector, the
  pack allows that connector and grants \<open>InvokeConnector\<close> and every required capability, nothing is taken
  from the pack, and planning the same request again gives the empty plan.
\<close>

theorem provisioning_is_idempotent:
  assumes inv: "catalog_inv c"
  shows "\<exists>plan c' pack'. provision_plan_for c pack r = Inr plan \<and> apply_plan c pack plan = (Inr (), c', pack') \<and>
    catalog_inv c' \<and>
    (\<exists>p ch. bt_get (catalog_providers c') (apr_provider_id r) = Some p \<and>
       bt_get (catalog_channels c') (apr_channel_id r) = Some ch \<and>
       channel_enabled ch \<and> channel_provider_id ch = apr_provider_id r \<and>
       (\<forall>e. apr_endpoint r = Some e \<longrightarrow> channel_endpoint ch = e) \<and>
       (\<forall>n. apr_connector_name r = Some n \<longrightarrow> provider_connector_name p = n) \<and>
       pack_allows_connector pack' (provider_connector_name p)) \<and>
    insert InvokeConnector (apr_required_capabilities r) \<subseteq> pack_granted_capabilities pack' \<and>
    pack_granted_capabilities pack \<subseteq> pack_granted_capabilities pack' \<and>
    pack_allowed_connectors pack \<subseteq> pack_allowed_connectors pack' \<and>
    (\<exists>plan'. provision_plan_for c' pack' r = Inr plan' \<and> plan_is_noop plan')"
proof -
  obtain p pas where p: "plan_provider c r = (p, pas)" by (cases "plan_provider c r")
  obtain ch cas where ch: "plan_channel c r p = (ch, cas)" by (cases "plan_channel c r p")
  note P = plan_provider_result [OF inv p]
  note H = plan_channel_result [OF inv ch P(1)]
  define c1 where "c1 = fold apply_action pas c"
  define c' where "c' = fold apply_action cas c1"
  let ?plan = "\<lparr>plan_actions = pas @ cas,
      plan_pack_connector_additions =
        (if provider_connector_name p \<notin> pack_allowed_connectors pack then {provider_connector_name p} else {}),
      plan_pack_capability_additions =
        (if InvokeConnector \<notin> pack_granted_capabilities pack then {InvokeConnector} else {}) \<union>
        {cap \<in> apr_required_capabilities r. cap \<notin> pack_granted_capabilities pack}\<rparr>"
  let ?pack = "snd (snd (apply_plan c pack ?plan))"
  have plan: "provision_plan_for c pack r = Inr ?plan"
    using H(3) by (simp add: provision_plan_for_def p ch Let_def)
  have applied: "apply_plan c pack ?plan = (Inr (), c', ?pack)"
    by (simp add: apply_plan_def c'_def c1_def)
  have inv': "catalog_inv c'"
    using catalog_inv_apply_plan [OF inv, of pack ?plan] by (simp add: apply_plan_def c'_def c1_def)
  have provider: "bt_get (catalog_providers c') (apr_provider_id r) = Some p"
    using P(2) H(7) [of c1] by (simp add: c'_def c1_def)
  have channel: "bt_get (catalog_channels c') (apr_channel_id r) = Some ch"
    using H(5) [of c1] H(6) P(3) by (auto simp: c'_def c1_def)
  have pack: "provider_connector_name p \<in> pack_allowed_connectors ?pack"
      "insert InvokeConnector (apr_required_capabilities r) \<subseteq> pack_granted_capabilities ?pack"
      "pack_granted_capabilities pack \<subseteq> pack_granted_capabilities ?pack"
      "pack_allowed_connectors pack \<subseteq> pack_allowed_connectors ?pack"
    by (auto simp: apply_plan_def)
  have "plan_provider c' r = (p, [])"
    using provider P(5) by (auto simp: plan_provider_def split: option.split)
  moreover have "plan_channel c' r p = (ch, [])"
    using channel H(2,3,4) P(1) by (auto simp: plan_channel_def split: option.split)
  ultimately have "\<exists>plan'. provision_plan_for c' ?pack r = Inr plan' \<and> plan_is_noop plan'"
    using pack H(3) by (auto simp: provision_plan_for_def Let_def plan_is_noop_def)
  then show ?thesis
    using plan applied inv' provider channel H(2,3,4) P(5) pack unfolding pack_allows_connector_def by blast
qed

definition sample_request :: auto_provision_request where
  "sample_request = \<lparr>apr_provider_id = ''openai'', apr_channel_id = ''primary'', apr_connector_name = None,
     apr_endpoint = Some ''https://x'', apr_required_capabilities = {NetworkEgress}\<rparr>"

definition sample_manifest :: pack_manifest where
  "sample_manifest = \<lparr>pack_id = ''p'', pack_domain = ''d'', pack_version = ''1.0.0'',
     pack_default_route = \<lparr>route_harness_kind = EmbeddedPi, route_adapter = None\<rparr>,
     pack_allowed_connectors = {}, pack_granted_capabilities = {InvokeTool}, pack_metadata = []\<rparr>"

theorem provisioning_is_idempotent_witness:
  "\<exists>plan c' pack'. provision_plan_for catalog_new sample_manifest sample_request = Inr plan \<and>
    apply_plan catalog_new sample_manifest plan = (Inr (), c', pack') \<and>
    {InvokeConnector, NetworkEgress} \<subseteq> pack_granted_capabilities pack'"
proof -
  have "apr_required_capabilities sample_request = {NetworkEgress}"
    by (simp add: sample_request_def)
  with provisioning_is_idempotent [OF catalog_inv_new, of sample_manifest sample_request] show ?thesis
    by metis
qed

end
