(* ===== verification/Plugin_Bootstrap.thy ===== *)
theory Plugin_Bootstrap
  imports Loong_Prelude
begin

text \<open>
  The plugin bootstrap executor (crates/kernel/src/bootstrap.rs): which activation candidates are
  applied, deferred or skipped. Of a candidate, the fields the executor reads are modelled.
\<close>

datatype plugin_bridge_kind =
    HttpJson
  | ProcessStdio
  | NativeFfi
  | WasmComponent
  | McpServer
  | AcpBridge
  | AcpRuntime
  | Unknown

primrec plugin_bridge_kind_as_str :: "plugin_bridge_kind \<Rightarrow> string" where
  "plugin_bridge_kind_as_str HttpJson = ''http_json''"
| "plugin_bridge_kind_as_str ProcessStdio = ''process_stdio''"
| "plugin_bridge_kind_as_str NativeFfi = ''native_ffi''"
| "plugin_bridge_kind_as_str WasmComponent = ''wasm_component''"
| "plugin_bridge_kind_as_str McpServer = ''mcp_server''"
| "plugin_bridge_kind_as_str AcpBridge = ''acp_bridge''"
| "plugin_bridge_kind_as_str AcpRuntime = ''acp_runtime''"
| "plugin_bridge_kind_as_str Unknown = ''unknown''"

datatype plugin_activation_status =
    Ready
  | SetupIncomplete
  | BlockedInvalidManifestContract
  | BlockedCompatibilityMode
  | BlockedIncompatibleHost
  | BlockedUnsupportedBridge
  | BlockedUnsupportedAdapterFamily
  | BlockedSlotClaimConflict
  | Unknown

datatype plugin_trust_tier = Official | VerifiedCommunity | Unverified

primrec plugin_trust_tier_as_str :: "plugin_trust_tier \<Rightarrow> string" where
  "plugin_trust_tier_as_str Official = ''official''"
| "plugin_trust_tier_as_str VerifiedCommunity = ''verified-community''"
| "plugin_trust_tier_as_str Unverified = ''unverified''"

datatype plugin_compatibility_mode = Native | OpenClawModern | OpenClawLegacy

record plugin_compatibility_shim =
  shim_id :: string
  shim_family :: string

record plugin_activation_candidate =
  pac_plugin_id :: string
  pac_source_path :: string
  pac_trust_tier :: plugin_trust_tier
  pac_compatibility_mode :: plugin_compatibility_mode
  pac_compatibility_shim :: "plugin_compatibility_shim option"
  pac_bridge_kind :: plugin_bridge_kind
  pac_adapter_family :: string
  pac_status :: plugin_activation_status
  pac_bootstrap_hint :: string

record bootstrap_policy =
  allow_http_json_auto_apply :: bool
  allow_process_stdio_auto_apply :: bool
  allow_native_ffi_auto_apply :: bool
  allow_wasm_component_auto_apply :: bool
  allow_mcp_server_auto_apply :: bool
  allow_acp_bridge_auto_apply :: bool
  allow_acp_runtime_auto_apply :: bool
  block_unverified_high_risk_auto_apply :: bool
  enforce_ready_execution :: bool
  bootstrap_max_tasks :: usize

definition bootstrap_policy_default :: bootstrap_policy where
  "bootstrap_policy_default =
     \<lparr>allow_http_json_auto_apply = True, allow_process_stdio_auto_apply = False,
      allow_native_ffi_auto_apply = False, allow_wasm_component_auto_apply = False,
      allow_mcp_server_auto_apply = False, allow_acp_bridge_auto_apply = False,
      allow_acp_runtime_auto_apply = False, block_unverified_high_risk_auto_apply = False,
      enforce_ready_execution = False, bootstrap_max_tasks = 256\<rparr>"

datatype bootstrap_task_status =
    Applied
  | DeferredUnsupportedAutoApply
  | SkippedNotReady
  | SkippedByPolicyLimit

record bootstrap_task =
  bt_plugin_id :: string
  bt_source_path :: string
  bt_trust_tier :: plugin_trust_tier
  bt_compatibility_mode :: plugin_compatibility_mode
  bt_compatibility_shim :: "plugin_compatibility_shim option"
  bt_bridge_kind :: plugin_bridge_kind
  bt_adapter_family :: string
  bt_bootstrap_hint :: string
  bt_status :: bootstrap_task_status
  bt_reason :: string

record bootstrap_report =
  br_total_tasks :: usize
  br_applied_tasks :: usize
  br_deferred_tasks :: usize
  br_skipped_tasks :: usize
  br_blocked :: bool
  br_block_reason :: "string option"
  br_applied_plugin_keys :: "(string \<times> string) set"
  br_tasks :: "bootstrap_task list"

definition bootstrap_report_default :: bootstrap_report where
  "bootstrap_report_default =
     \<lparr>br_total_tasks = 0, br_applied_tasks = 0, br_deferred_tasks = 0, br_skipped_tasks = 0,
      br_blocked = False, br_block_reason = None, br_applied_plugin_keys = {}, br_tasks = []\<rparr>"

definition bridge_auto_apply_allowed :: "plugin_bridge_kind \<Rightarrow> bootstrap_policy \<Rightarrow> bool" where
  "bridge_auto_apply_allowed bridge policy =
     (case bridge of
        HttpJson \<Rightarrow> allow_http_json_auto_apply policy
      | ProcessStdio \<Rightarrow> allow_process_stdio_auto_apply policy
      | NativeFfi \<Rightarrow> allow_native_ffi_auto_apply policy
      | WasmComponent \<Rightarrow> allow_wasm_component_auto_apply policy
      | McpServer \<Rightarrow> allow_mcp_server_auto_apply policy
      | AcpBridge \<Rightarrow> allow_acp_bridge_auto_apply policy
      | AcpRuntime \<Rightarrow> allow_acp_runtime_auto_apply policy
      | plugin_bridge_kind.Unknown \<Rightarrow> False)"

definition plugin_bridge_is_high_risk_auto_apply :: "plugin_bridge_kind \<Rightarrow> bool" where
  "plugin_bridge_is_high_risk_auto_apply bridge \<longleftrightarrow>
     bridge \<in> {ProcessStdio, NativeFfi, WasmComponent, McpServer, AcpBridge, AcpRuntime}"

definition bootstrap_task_for ::
  "plugin_activation_candidate \<Rightarrow> bootstrap_task_status \<Rightarrow> string \<Rightarrow> bootstrap_task" where
  "bootstrap_task_for c status reason =
     \<lparr>bt_plugin_id = pac_plugin_id c, bt_source_path = pac_source_path c, bt_trust_tier = pac_trust_tier c,
      bt_compatibility_mode = pac_compatibility_mode c, bt_compatibility_shim = pac_compatibility_shim c,
      bt_bridge_kind = pac_bridge_kind c, bt_adapter_family = pac_adapter_family c,
      bt_bootstrap_hint = pac_bootstrap_hint c, bt_status = status, bt_reason = reason\<rparr>"

text \<open>The body of the loop: the report and \<open>ready_handled\<close> before and after one candidate.\<close>

definition bootstrap_candidate ::
  "bootstrap_policy \<Rightarrow> plugin_activation_candidate \<Rightarrow> bootstrap_report \<times> usize \<Rightarrow> bootstrap_report \<times> usize" where
  "bootstrap_candidate policy c st =
     (let (report0, ready_handled0) = st;
          report = report0\<lparr>br_total_tasks := usize_saturating_add (br_total_tasks report0) 1\<rparr>;
          push = (\<lambda>status reason r. r\<lparr>br_tasks := br_tasks r @ [bootstrap_task_for c status reason]\<rparr>) in
      if pac_status c \<noteq> Ready
      then (push SkippedNotReady ''activation status is not ready''
              (report\<lparr>br_skipped_tasks := usize_saturating_add (br_skipped_tasks report) 1\<rparr>), ready_handled0)
      else if ready_handled0 \<ge> bootstrap_max_tasks policy
      then (push SkippedByPolicyLimit
              (''max bootstrap task limit reached: '' @ nat_to_dec (bootstrap_max_tasks policy))
              (report\<lparr>br_skipped_tasks := usize_saturating_add (br_skipped_tasks report) 1\<rparr>), ready_handled0)
      else
        let ready_handled = usize_saturating_add ready_handled0 1 in
        if block_unverified_high_risk_auto_apply policy \<and> pac_trust_tier c = Unverified \<and>
           plugin_bridge_is_high_risk_auto_apply (pac_bridge_kind c)
        then (push DeferredUnsupportedAutoApply
                ''bridge is ready but auto-apply is blocked by bootstrap trust policy for unverified high-risk plugins''
                (report\<lparr>br_deferred_tasks := usize_saturating_add (br_deferred_tasks report) 1\<rparr>), ready_handled)
        else if bridge_auto_apply_allowed (pac_bridge_kind c) policy
        then (push Applied ''bridge is allowed for automatic bootstrap apply''
                (report\<lparr>br_applied_tasks := usize_saturating_add (br_applied_tasks report) 1,
                  br_applied_plugin_keys :=
                    insert (pac_source_path c, pac_plugin_id c) (br_applied_plugin_keys report)\<rparr>), ready_handled)
        else (push DeferredUnsupportedAutoApply
                ''bridge is ready but auto-apply is disabled by bootstrap policy''
                (report\<lparr>br_deferred_tasks := usize_saturating_add (br_deferred_tasks report) 1\<rparr>), ready_handled))"

definition bootstrap_execute ::
  "plugin_activation_candidate list \<Rightarrow> bootstrap_policy \<Rightarrow> bootstrap_report" where
  "bootstrap_execute candidates policy =
     (let report = fst (fold (bootstrap_candidate policy) candidates (bootstrap_report_default, 0)) in
      if enforce_ready_execution policy \<and> br_deferred_tasks report > 0
      then report\<lparr>br_blocked := True,
             br_block_reason := Some (''bootstrap policy blocked '' @ nat_to_dec (br_deferred_tasks report) @
               '' ready plugin(s) that were not auto-applied'')\<rparr>
      else report)"

section \<open>The specification\<close>

definition may_auto_apply :: "bootstrap_policy \<Rightarrow> plugin_activation_candidate \<Rightarrow> bool" where
  "may_auto_apply policy c \<longleftrightarrow>
     bridge_auto_apply_allowed (pac_bridge_kind c) policy \<and>
     \<not> (block_unverified_high_risk_auto_apply policy \<and> pac_trust_tier c = Unverified \<and>
        plugin_bridge_is_high_risk_auto_apply (pac_bridge_kind c))"

text \<open>The status of each candidate: \<open>handled\<close> ready candidates came before.\<close>

fun bootstrap_statuses ::
  "bootstrap_policy \<Rightarrow> nat \<Rightarrow> plugin_activation_candidate list \<Rightarrow> bootstrap_task_status list" where
  "bootstrap_statuses policy handled [] = []"
| "bootstrap_statuses policy handled (c # cs) =
     (if pac_status c \<noteq> Ready then SkippedNotReady # bootstrap_statuses policy handled cs
      else if handled \<ge> bootstrap_max_tasks policy then SkippedByPolicyLimit # bootstrap_statuses policy handled cs
      else (if may_auto_apply policy c then Applied else DeferredUnsupportedAutoApply) #
           bootstrap_statuses policy (handled + 1) cs)"

definition status_count :: "bootstrap_task_status set \<Rightarrow> bootstrap_task list \<Rightarrow> nat" where
  "status_count S ts = length (filter (\<lambda>t. bt_status t \<in> S) ts)"

definition bootstrap_counts :: "bootstrap_report \<Rightarrow> bool" where
  "bootstrap_counts r \<longleftrightarrow>
     br_total_tasks r = length (br_tasks r) \<and>
     br_applied_tasks r = status_count {Applied} (br_tasks r) \<and>
     br_deferred_tasks r = status_count {DeferredUnsupportedAutoApply} (br_tasks r) \<and>
     br_skipped_tasks r = status_count {SkippedNotReady, SkippedByPolicyLimit} (br_tasks r) \<and>
     br_applied_plugin_keys r =
       (\<lambda>t. (bt_source_path t, bt_plugin_id t)) ` set (filter (\<lambda>t. bt_status t = Applied) (br_tasks r)) \<and>
     \<not> br_blocked r \<and> br_block_reason r = None"

lemma status_count_le: "status_count S ts \<le> length ts"
  by (simp add: status_count_def)

lemma bootstrap_candidate_step:
  assumes "bootstrap_counts r" and "length (br_tasks r) < usize_max" and "handled \<le> length (br_tasks r)"
    and "bootstrap_candidate policy c (r, handled) = (r', handled')"
  shows "bootstrap_counts r' \<and> handled' \<le> length (br_tasks r') \<and> length (br_tasks r') = length (br_tasks r) + 1 \<and>
    map bt_status (br_tasks r') = map bt_status (br_tasks r) @
      [hd (bootstrap_statuses policy handled [c])] \<and>
    map bt_plugin_id (br_tasks r') = map bt_plugin_id (br_tasks r) @ [pac_plugin_id c] \<and>
    bootstrap_statuses policy handled (c # cs) =
      hd (bootstrap_statuses policy handled [c]) # bootstrap_statuses policy handled' cs"
proof -
  have small: "usize_saturating_add n 1 = n + 1" if "n \<le> length (br_tasks r)" for n
    using that assms(2) by simp
  have adds: "usize_saturating_add (br_total_tasks r) 1 = br_total_tasks r + 1"
      "usize_saturating_add (br_applied_tasks r) 1 = br_applied_tasks r + 1"
      "usize_saturating_add (br_deferred_tasks r) 1 = br_deferred_tasks r + 1"
      "usize_saturating_add (br_skipped_tasks r) 1 = br_skipped_tasks r + 1"
      "usize_saturating_add handled 1 = handled + 1"
    using assms(1,3) small status_count_le by (simp_all add: bootstrap_counts_def)
  note defs = bootstrap_candidate_def bootstrap_task_for_def may_auto_apply_def Let_def
  consider "pac_status c \<noteq> Ready"
    | "pac_status c = Ready" "bootstrap_max_tasks policy \<le> handled"
    | "pac_status c = Ready" "\<not> bootstrap_max_tasks policy \<le> handled" "may_auto_apply policy c"
    | "pac_status c = Ready" "\<not> bootstrap_max_tasks policy \<le> handled" "\<not> may_auto_apply policy c"
    by blast
  then show ?thesis
  proof cases
    case 1
    then obtain why where "r' = r\<lparr>br_total_tasks := br_total_tasks r + 1, br_skipped_tasks := br_skipped_tasks r + 1,
        br_tasks := br_tasks r @ [bootstrap_task_for c SkippedNotReady why]\<rparr> \<and> handled' = handled"
      using assms(4) adds by (cases r) (auto simp: defs)
    with 1 assms(1,3) show ?thesis
      by (simp add: bootstrap_counts_def status_count_def bootstrap_task_for_def)
  next
    case 2
    then obtain why where "r' = r\<lparr>br_total_tasks := br_total_tasks r + 1, br_skipped_tasks := br_skipped_tasks r + 1,
        br_tasks := br_tasks r @ [bootstrap_task_for c SkippedByPolicyLimit why]\<rparr> \<and> handled' = handled"
      using assms(4) adds by (cases r) (auto simp: defs)
    with 2 assms(1,3) show ?thesis
      by (simp add: bootstrap_counts_def status_count_def bootstrap_task_for_def)
  next
    case 3
    then have "r' = r\<lparr>br_total_tasks := br_total_tasks r + 1, br_applied_tasks := br_applied_tasks r + 1,
        br_applied_plugin_keys := insert (pac_source_path c, pac_plugin_id c) (br_applied_plugin_keys r),
        br_tasks := br_tasks r @ [bootstrap_task_for c Applied ''bridge is allowed for automatic bootstrap apply'']\<rparr> \<and>
        handled' = handled + 1"
      using assms(4) adds by (cases r) (auto simp: defs)
    with 3 assms(1,3) show ?thesis
      by (simp add: bootstrap_counts_def status_count_def bootstrap_task_for_def)
  next
    case 4
    then obtain why where "r' = r\<lparr>br_total_tasks := br_total_tasks r + 1, br_deferred_tasks := br_deferred_tasks r + 1,
        br_tasks := br_tasks r @ [bootstrap_task_for c DeferredUnsupportedAutoApply why]\<rparr> \<and>
        handled' = handled + 1"
      using assms(4) adds by (cases r) (auto simp: defs split: if_splits)
    with 4 assms(1,3) show ?thesis
      by (simp add: bootstrap_counts_def status_count_def bootstrap_task_for_def)
  qed
qed

lemma bootstrap_fold:
  assumes "bootstrap_counts r" and "handled \<le> length (br_tasks r)"
    and "length (br_tasks r) + length cs \<le> usize_max"
  shows "bootstrap_counts (fst (fold (bootstrap_candidate policy) cs (r, handled))) \<and>
    map bt_status (br_tasks (fst (fold (bootstrap_candidate policy) cs (r, handled)))) =
      map bt_status (br_tasks r) @ bootstrap_statuses policy handled cs \<and>
    map bt_plugin_id (br_tasks (fst (fold (bootstrap_candidate policy) cs (r, handled)))) =
      map bt_plugin_id (br_tasks r) @ map pac_plugin_id cs"
  using assms
proof (induction cs arbitrary: r handled)
  case Nil
  then show ?case by simp
next
  case (Cons c cs)
  obtain r' handled' where step: "bootstrap_candidate policy c (r, handled) = (r', handled')"
    by (cases "bootstrap_candidate policy c (r, handled)")
  have "length (br_tasks r) < usize_max" using Cons.prems(3) by simp
  note S = bootstrap_candidate_step [OF Cons.prems(1) this Cons.prems(2) step, of cs]
  have "length (br_tasks r') + length cs \<le> usize_max" using S Cons.prems(3) by simp
  with Cons.IH [of r' handled'] S show ?case
    by (simp add: step)
qed

text \<open>
  The bootstrap executor follows its policy: with fewer candidates than \<open>usize\<close> holds, every
  candidate gets exactly one task, in order, with the status the policy gives it (only ready ones are
  applied, only on allowed bridges, never unverified high-risk ones when those are blocked, and no ready
  one beyond the limit); the counters count the tasks, the applied keys are those of the applied
  tasks, and the report is blocked exactly when the policy enforces readiness and some task was deferred.
\<close>

theorem bootstrap_follows_policy:
  assumes "length candidates \<le> usize_max"
  shows "map bt_status (br_tasks (bootstrap_execute candidates policy)) = bootstrap_statuses policy 0 candidates \<and>
    map bt_plugin_id (br_tasks (bootstrap_execute candidates policy)) = map pac_plugin_id candidates \<and>
    br_total_tasks (bootstrap_execute candidates policy) = length candidates \<and>
    br_applied_tasks (bootstrap_execute candidates policy) + br_deferred_tasks (bootstrap_execute candidates policy) +
      br_skipped_tasks (bootstrap_execute candidates policy) = length candidates \<and>
    br_applied_plugin_keys (bootstrap_execute candidates policy) =
      (\<lambda>t. (bt_source_path t, bt_plugin_id t)) `
        {t \<in> set (br_tasks (bootstrap_execute candidates policy)). bt_status t = Applied} \<and>
    (br_blocked (bootstrap_execute candidates policy) \<longleftrightarrow>
      enforce_ready_execution policy \<and>
      DeferredUnsupportedAutoApply \<in> set (bootstrap_statuses policy 0 candidates))"
proof -
  let ?r = "fst (fold (bootstrap_candidate policy) candidates (bootstrap_report_default, 0))"
  have "bootstrap_counts bootstrap_report_default"
    by (simp add: bootstrap_counts_def bootstrap_report_default_def status_count_def)
  then have R: "bootstrap_counts ?r" "map bt_status (br_tasks ?r) = bootstrap_statuses policy 0 candidates"
      "map bt_plugin_id (br_tasks ?r) = map pac_plugin_id candidates"
    using bootstrap_fold [of bootstrap_report_default 0 candidates policy] assms
    by (simp_all add: bootstrap_report_default_def)
  have len: "length (br_tasks ?r) = length candidates"
    using R(3) by (metis length_map)
  have sum: "status_count {Applied} ts + status_count {DeferredUnsupportedAutoApply} ts +
      status_count {SkippedNotReady, SkippedByPolicyLimit} ts = length ts" for ts
  proof (induction ts)
    case Nil
    then show ?case by (simp add: status_count_def)
  next
    case (Cons t ts)
    then show ?case by (cases "bt_status t") (auto simp: status_count_def)
  qed
  have "DeferredUnsupportedAutoApply \<in> set (bootstrap_statuses policy 0 candidates) \<longleftrightarrow>
      0 < status_count {DeferredUnsupportedAutoApply} (br_tasks ?r)"
    unfolding R(2) [symmetric] by (force simp: status_count_def filter_empty_conv)
  with R len sum [of "br_tasks ?r"] show ?thesis
    by (auto simp: bootstrap_execute_def Let_def bootstrap_counts_def)
qed

theorem bootstrap_follows_policy_witness:
  "br_total_tasks (bootstrap_execute
      [\<lparr>pac_plugin_id = ''h'', pac_source_path = ''/h'', pac_trust_tier = Official, pac_compatibility_mode = Native,
        pac_compatibility_shim = None, pac_bridge_kind = HttpJson, pac_adapter_family = ''f'', pac_status = Ready,
        pac_bootstrap_hint = ''''\<rparr>] bootstrap_policy_default) = 1"
  using bootstrap_follows_policy [of "[\<lparr>pac_plugin_id = ''h'', pac_source_path = ''/h'', pac_trust_tier = Official,
        pac_compatibility_mode = Native, pac_compatibility_shim = None, pac_bridge_kind = HttpJson,
        pac_adapter_family = ''f'', pac_status = Ready, pac_bootstrap_hint = ''''\<rparr>]" bootstrap_policy_default]
  by (simp add: usize_max_def)

end
