(* ===== verification/Protocol_Routing.thy ===== *)
theory Protocol_Routing
  imports Loong_Prelude
begin

text \<open>
  The control-plane protocol (crates/protocol/src/lib.rs): routes and their method names, the
  router with its custom routes, and the authorization of a resolved route. The text of an
  invalid-method error is kept as the arguments of its \<open>format!\<close>, one constructor per message;
  \<open>router_error_text\<close> renders it, with \<open>{:?}\<close> of a string as an argument.
\<close>

definition protocol_version :: u32 where
  "protocol_version = 1"

definition control_read_capability :: string where
  "control_read_capability = ''control_read''"

definition control_write_capability :: string where
  "control_write_capability = ''control_write''"

definition control_approvals_capability :: string where
  "control_approvals_capability = ''control_approvals''"

definition control_pairing_capability :: string where
  "control_pairing_capability = ''control_pairing''"

definition control_acp_capability :: string where
  "control_acp_capability = ''control_acp''"

datatype protocol_route =
    ToolsCall | ControlChallenge | ControlConnect | ControlPing | ControlSubscribe | ControlSnapshot
  | ControlEvents | PresenceRead | HealthRead | SessionList | SessionRead | TaskList | TaskRead
  | TurnSubmit | TurnResult | TurnStream | ApprovalList | ApprovalResolve | PairingList
  | PairingResolve | AcpSessionList | AcpSessionRead | Custom string

definition from_method :: "string \<Rightarrow> protocol_route" where
  "from_method method =
     (if method = ''tools/call'' then ToolsCall
      else if method = ''control/challenge'' then ControlChallenge
      else if method = ''control/connect'' then ControlConnect
      else if method = ''control/ping'' then ControlPing
      else if method = ''control/subscribe'' then ControlSubscribe
      else if method = ''control/snapshot'' then ControlSnapshot
      else if method = ''control/events'' then ControlEvents
      else if method = ''presence/read'' then PresenceRead
      else if method = ''health/read'' then HealthRead
      else if method = ''session/list'' then SessionList
      else if method = ''session/read'' then SessionRead
      else if method = ''task/list'' then TaskList
      else if method = ''task/read'' then TaskRead
      else if method = ''turn/submit'' then TurnSubmit
      else if method = ''turn/result'' then TurnResult
      else if method = ''turn/stream'' then TurnStream
      else if method = ''approval/list'' then ApprovalList
      else if method = ''approval/resolve'' then ApprovalResolve
      else if method = ''pairing/list'' then PairingList
      else if method = ''pairing/resolve'' then PairingResolve
      else if method = ''acp/session/list'' then AcpSessionList
      else if method = ''acp/session/read'' then AcpSessionRead
      else Custom method)"

fun route_method :: "protocol_route \<Rightarrow> string" where
  "route_method ToolsCall = ''tools/call''"
| "route_method ControlChallenge = ''control/challenge''"
| "route_method ControlConnect = ''control/connect''"
| "route_method ControlPing = ''control/ping''"
| "route_method ControlSubscribe = ''control/subscribe''"
| "route_method ControlSnapshot = ''control/snapshot''"
| "route_method ControlEvents = ''control/events''"
| "route_method PresenceRead = ''presence/read''"
| "route_method HealthRead = ''health/read''"
| "route_method SessionList = ''session/list''"
| "route_method SessionRead = ''session/read''"
| "route_method TaskList = ''task/list''"
| "route_method TaskRead = ''task/read''"
| "route_method TurnSubmit = ''turn/submit''"
| "route_method TurnResult = ''turn/result''"
| "route_method TurnStream = ''turn/stream''"
| "route_method ApprovalList = ''approval/list''"
| "route_method ApprovalResolve = ''approval/resolve''"
| "route_method PairingList = ''pairing/list''"
| "route_method PairingResolve = ''pairing/resolve''"
| "route_method AcpSessionList = ''acp/session/list''"
| "route_method AcpSessionRead = ''acp/session/read''"
| "route_method (Custom method) = method"

fun is_standard :: "protocol_route \<Rightarrow> bool" where
  "is_standard (Custom _) = False"
| "is_standard _ = True"

record route_policy =
  allow_anonymous :: bool
  required_capability :: "string option"

definition route_policy_default :: route_policy where
  "route_policy_default = \<lparr>allow_anonymous = True, required_capability = None\<rparr>"

record resolved_route =
  rr_route :: protocol_route
  rr_policy :: route_policy

definition resolved_method :: "resolved_route \<Rightarrow> string" where
  "resolved_method r = route_method (rr_route r)"

record protocol_router =
  router_strict :: bool
  custom_routes :: "(string, route_policy) btree"

definition router_new :: "bool \<Rightarrow> protocol_router" where
  "router_new strict = \<lparr>router_strict = strict, custom_routes = []\<rparr>"

datatype invalid_method =
    MethodEmpty
  | SurroundingWhitespace string
  | ExceedsMaxLength nat
  | InvalidSlashPlacement string
  | UnsupportedCharacters string
  | StandardRouteAsCustom string

datatype router_error = UnknownMethod string | InvalidMethod invalid_method

record route_authorization_request =
  rar_authenticated :: bool
  rar_capabilities :: "string list"

datatype route_authorization_decision = Allow

datatype route_authorization_error =
    Unauthenticated string
  | MissingCapability string string

definition method_char :: "char \<Rightarrow> bool" where
  "method_char ch \<longleftrightarrow>
     is_ascii_lowercase ch \<or> is_ascii_digit ch \<or>
     ch = CHR ''-'' \<or> ch = CHR ''_'' \<or> ch = CHR ''/'' \<or> ch = CHR ''.''"

definition validate_method_name :: "string \<Rightarrow> router_error + unit" where
  "validate_method_name method =
     (if trim method = [] then Inl (InvalidMethod MethodEmpty)
      else if trim method \<noteq> method then Inl (InvalidMethod (SurroundingWhitespace method))
      else if length method > 128 then Inl (InvalidMethod (ExceedsMaxLength (length method)))
      else if prefix ''/'' method \<or> suffix ''/'' method \<or> sublist ''//'' method
      then Inl (InvalidMethod (InvalidSlashPlacement method))
      else if \<not> list_all method_char method then Inl (InvalidMethod (UnsupportedCharacters method))
      else Inr ())"

definition normalize_capability :: "string \<Rightarrow> string" where
  "normalize_capability raw =
     map (\<lambda>c. if c = CHR ''.'' \<or> c = CHR ''-'' then CHR ''_'' else c) (to_ascii_lowercase (trim raw))"

definition register_custom_route ::
  "protocol_router \<Rightarrow> string \<Rightarrow> route_policy \<Rightarrow> (router_error + unit) \<times> protocol_router" where
  "register_custom_route router method policy =
     (case validate_method_name method of
        Inl e \<Rightarrow> (Inl e, router)
      | Inr _ \<Rightarrow>
          if is_standard (from_method method)
          then (Inl (InvalidMethod (StandardRouteAsCustom method)), router)
          else (Inr (), router\<lparr>custom_routes := bt_insert method policy (custom_routes router)\<rparr>))"

definition require_capability :: "protocol_route \<Rightarrow> string \<Rightarrow> router_error + resolved_route" where
  "require_capability route cap =
     Inr \<lparr>rr_route = route, rr_policy = \<lparr>allow_anonymous = False, required_capability = Some cap\<rparr>\<rparr>"

definition route_resolve :: "protocol_router \<Rightarrow> string \<Rightarrow> router_error + resolved_route" where
  "route_resolve router method =
     (case validate_method_name method of
        Inl e \<Rightarrow> Inl e
      | Inr _ \<Rightarrow>
          (let route = from_method method in
           case route of
             ToolsCall \<Rightarrow> require_capability route ''invoke''
           | Custom custom \<Rightarrow>
               (case bt_get (custom_routes router) custom of
                  Some policy \<Rightarrow> Inr \<lparr>rr_route = Custom custom, rr_policy = policy\<rparr>
                | None \<Rightarrow>
                    if router_strict router then Inl (UnknownMethod custom)
                    else Inr \<lparr>rr_route = Custom custom, rr_policy = route_policy_default\<rparr>)
           | _ \<Rightarrow>
               if route \<in> {ControlChallenge, ControlConnect}
               then Inr \<lparr>rr_route = route, rr_policy = \<lparr>allow_anonymous = True, required_capability = None\<rparr>\<rparr>
               else if route = TurnSubmit then require_capability route control_write_capability
               else if route \<in> {ApprovalList, ApprovalResolve}
               then require_capability route control_approvals_capability
               else if route \<in> {PairingList, PairingResolve}
               then require_capability route control_pairing_capability
               else if route \<in> {AcpSessionList, AcpSessionRead}
               then require_capability route control_acp_capability
               else require_capability route control_read_capability))"

definition route_authorize ::
  "resolved_route \<Rightarrow> route_authorization_request
    \<Rightarrow> route_authorization_error + route_authorization_decision" where
  "route_authorize resolved request =
     (if \<not> allow_anonymous (rr_policy resolved) \<and> \<not> rar_authenticated request
      then Inl (Unauthenticated (resolved_method resolved))
      else case required_capability (rr_policy resolved) of
        None \<Rightarrow> Inr Allow
      | Some required \<Rightarrow>
          (let normalized_required = normalize_capability required in
           if list_ex (\<lambda>capability.
                let normalized = normalize_capability capability in
                normalized = normalized_required \<or> normalized = ''*'') (rar_capabilities request)
           then Inr Allow
           else Inl (MissingCapability (resolved_method resolved) normalized_required)))"

definition invalid_method_text :: "(string \<Rightarrow> string) \<Rightarrow> invalid_method \<Rightarrow> string" where
  "invalid_method_text fmt_debug m =
     (case m of
        MethodEmpty \<Rightarrow> ''method cannot be empty''
      | SurroundingWhitespace s \<Rightarrow> ''method cannot include surrounding whitespace: '' @ fmt_debug s
      | ExceedsMaxLength n \<Rightarrow> ''method exceeds max length (128): '' @ nat_to_dec n
      | InvalidSlashPlacement s \<Rightarrow> ''method contains invalid slash placement: '' @ s
      | UnsupportedCharacters s \<Rightarrow> ''method contains unsupported characters: '' @ s
      | StandardRouteAsCustom s \<Rightarrow> ''standard route cannot be registered as custom: '' @ s)"

definition router_error_text :: "(string \<Rightarrow> string) \<Rightarrow> router_error \<Rightarrow> string" where
  "router_error_text fmt_debug e =
     (case e of
        UnknownMethod s \<Rightarrow> ''unknown protocol method: '' @ s
      | InvalidMethod m \<Rightarrow> ''invalid protocol method: '' @ invalid_method_text fmt_debug m)"

definition route_authorization_error_text :: "route_authorization_error \<Rightarrow> string" where
  "route_authorization_error_text e =
     (case e of
        Unauthenticated method \<Rightarrow> ''unauthenticated request for method: '' @ method
      | MissingCapability method cap \<Rightarrow> ''missing capability `'' @ cap @ ''` for method: '' @ method)"

section \<open>Routes and their names\<close>

lemma from_method_cases:
  "from_method m = Custom m \<or> is_standard (from_method m) \<and> route_method (from_method m) = m"
  by (simp add: from_method_def)

lemma route_method_from_method [simp]: "route_method (from_method m) = m"
  using from_method_cases [of m] by auto

lemma from_method_route_method: "is_standard r \<Longrightarrow> from_method (route_method r) = r"
  by (cases r) (simp_all add: from_method_def)

lemma from_method_Custom: "from_method m = Custom n \<longleftrightarrow> m = n \<and> \<not> is_standard (from_method m)"
  using from_method_cases [of m] by (cases "from_method m") auto

text \<open>The names the checks admit: at most 128 bytes, \<open>/\<close>-separated non-empty segments over
  lowercase letters, digits, \<open>-\<close>, \<open>_\<close> and \<open>.\<close>.\<close>

definition segment_char :: "char \<Rightarrow> bool" where
  "segment_char ch \<longleftrightarrow> method_char ch \<and> ch \<noteq> CHR ''/''"

definition method_grammar :: "string \<Rightarrow> bool" where
  "method_grammar m \<longleftrightarrow>
     length m \<le> 128 \<and> (\<forall>seg \<in> set (split_char (CHR ''/'') m). seg \<noteq> [] \<and> list_all segment_char seg)"

lemma sublist_pair_after:
  "d \<notin> set p \<Longrightarrow> sublist [d, d] (p @ d # t) \<longleftrightarrow> t \<noteq> [] \<and> hd t = d \<or> sublist [d, d] t"
proof (induction p)
  case Nil
  then show ?case by (cases t) (auto simp: sublist_Cons_right)
next
  case (Cons a p)
  then show ?case by (auto simp: sublist_Cons_right)
qed

lemma split_char_pieces_nonempty:
  "(\<forall>p \<in> set (split_char d s). p \<noteq> []) \<longleftrightarrow>
     s \<noteq> [] \<and> hd s \<noteq> d \<and> last s \<noteq> d \<and> \<not> sublist [d, d] s"
proof (induction s rule: length_induct)
  case (1 s)
  show ?case
  proof (cases "d \<in> set s")
    case False
    then have "\<not> sublist [d, d] s"
      using set_mono_sublist [of "[d, d]" s] by auto
    moreover have "s \<noteq> [] \<Longrightarrow> hd s \<noteq> d \<and> last s \<noteq> d"
      using False by auto
    ultimately show ?thesis
      using False by (auto simp: split_char_single)
  next
    case True
    then obtain p t where s: "s = p @ d # t" "d \<notin> set p"
      by (meson split_list_first)
    have IH: "(\<forall>q \<in> set (split_char d t). q \<noteq> []) \<longleftrightarrow>
        t \<noteq> [] \<and> hd t \<noteq> d \<and> last t \<noteq> d \<and> \<not> sublist [d, d] t"
      using 1 s by simp
    have "p \<noteq> [] \<Longrightarrow> hd (p @ d # t) \<noteq> d"
      using s by (cases p) auto
    then show ?thesis
      using IH s sublist_pair_after [of d p t]
      by (cases "p = []") (auto simp: split_char_append)
  qed
qed

lemma split_char_all:
  "(\<forall>seg \<in> set (split_char d s). \<forall>c \<in> set seg. P c) \<longleftrightarrow> (\<forall>c \<in> set s. c = d \<or> P c)"
proof (induction s)
  case Nil
  then show ?case by simp
next
  case (Cons a s)
  obtain p ps where "split_char d s = p # ps"
    by (cases "split_char d s") auto
  with Cons show ?case by auto
qed

lemma method_char_graphic: "method_char c \<Longrightarrow> ascii_graphic c"
  unfolding method_char_def
  by (elim disjE) (simp_all add: ascii_graphic_def is_ascii_lowercase_def is_ascii_digit_def Let_def)

lemma method_grammar_alt:
  "method_grammar m \<longleftrightarrow>
     length m \<le> 128 \<and> m \<noteq> [] \<and> hd m \<noteq> CHR ''/'' \<and> last m \<noteq> CHR ''/'' \<and> \<not> sublist ''//'' m \<and>
     list_all method_char m"
proof -
  have "(\<forall>seg \<in> set (split_char (CHR ''/'') m). list_all segment_char seg) \<longleftrightarrow> list_all method_char m"
  proof -
    have slash: "method_char (CHR ''/'')" by (simp add: method_char_def)
    have "c = CHR ''/'' \<or> segment_char c \<longleftrightarrow> method_char c" for c
      unfolding segment_char_def using slash by blast
    then show ?thesis
      unfolding list_all_iff split_char_all by simp
  qed
  then show ?thesis
    using split_char_pieces_nonempty [of "CHR ''/''" m] unfolding method_grammar_def by blast
qed

lemma validate_method_name_Ok: "validate_method_name m = Inr () \<longleftrightarrow> method_grammar m"
proof -
  have "prefix ''/'' m \<longleftrightarrow> m \<noteq> [] \<and> hd m = CHR ''/''"
    by (cases m) auto
  moreover have "suffix ''/'' m \<longleftrightarrow> m \<noteq> [] \<and> last m = CHR ''/''"
    by (cases m rule: rev_cases) (auto simp: suffix_def)
  moreover have "list_all method_char m \<Longrightarrow> m \<noteq> [] \<Longrightarrow> trim m = m"
    by (rule trim_graphic_id) (auto simp: list_all_iff intro: method_char_graphic)
  moreover have "trim [] = []"
    by (simp add: trim_graphic_id)
  ultimately show ?thesis
    by (auto simp: validate_method_name_def method_grammar_alt)
qed

section \<open>What a router resolves\<close>

text \<open>A router after a sequence of registrations, accepted or not.\<close>

definition register_all :: "(string \<times> route_policy) list \<Rightarrow> protocol_router \<Rightarrow> protocol_router" where
  "register_all regs router = fold (\<lambda>(m, p) r. snd (register_custom_route r m p)) regs router"

definition registrable :: "string \<Rightarrow> bool" where
  "registrable m \<longleftrightarrow> method_grammar m \<and> \<not> is_standard (from_method m)"

lemma validate_method_name_cases:
  obtains (Ok) "validate_method_name m = Inr ()" "method_grammar m"
    | (Err) e where "validate_method_name m = Inl e" "\<not> method_grammar m"
proof (cases "validate_method_name m")
  case (Inl e)
  then have "\<not> method_grammar m"
    using validate_method_name_Ok [of m] by simp
  with Inl show ?thesis by (rule Err)
next
  case (Inr u)
  then show ?thesis
    using validate_method_name_Ok [of m] Ok by (cases u) simp
qed

lemma register_custom_route_effect:
  "snd (register_custom_route r m p) =
    (if registrable m then r\<lparr>custom_routes := bt_insert m p (custom_routes r)\<rparr> else r)"
  by (cases m rule: validate_method_name_cases) (auto simp: register_custom_route_def registrable_def)

lemma register_all_strict: "router_strict (register_all regs r) = router_strict r"
  by (induction regs arbitrary: r)
    (auto simp: register_all_def register_custom_route_effect split: prod.splits)

lemma register_all_routes:
  "custom_routes (register_all regs r) =
    fold (\<lambda>(m, p). bt_insert m p) (filter (\<lambda>(m, p). registrable m) regs) (custom_routes r)"
proof (induction regs arbitrary: r)
  case Nil
  then show ?case by (simp add: register_all_def)
next
  case (Cons e regs)
  obtain m p where e: "e = (m, p)" by (cases e)
  have "register_all (e # regs) r = register_all regs (snd (register_custom_route r m p))"
    by (simp add: register_all_def e)
  with Cons.IH show ?case
    by (simp add: e register_custom_route_effect)
qed

text \<open>The policy of the last accepted registration of a method.\<close>

definition last_registration :: "(string \<times> route_policy) list \<Rightarrow> string \<Rightarrow> route_policy option" where
  "last_registration regs m =
     map_of (rev (filter (\<lambda>(n, p). registrable n) regs)) m"

lemma register_all_get:
  "bt_get (custom_routes (register_all regs (router_new strict))) m = last_registration regs m"
proof -
  have "bt_get (fold (\<lambda>(m, p). bt_insert m p) xs []) m = map_of (rev xs) m"
    for xs :: "(string \<times> route_policy) list"
    using btree.get_fold_insert [of "[]" xs m] by (simp split: option.splits)
  then show ?thesis
    by (simp add: register_all_routes last_registration_def router_new_def)
qed

text \<open>The capability a standard method needs, read off its name: its namespace decides, and
  only the submission of a turn writes.\<close>

definition namespace_capability :: "string \<Rightarrow> string option" where
  "namespace_capability m =
     (let ns = hd (split_char (CHR ''/'') m) in
      if m \<in> {''control/challenge'', ''control/connect''} then None
      else if ns = ''tools'' then Some ''invoke''
      else if ns = ''approval'' then Some ''control_approvals''
      else if ns = ''pairing'' then Some ''control_pairing''
      else if ns = ''acp'' then Some ''control_acp''
      else if m = ''turn/submit'' then Some ''control_write''
      else Some ''control_read'')"

definition standard_policy :: "string \<Rightarrow> route_policy" where
  "standard_policy m = \<lparr>allow_anonymous = (namespace_capability m = None),
     required_capability = namespace_capability m\<rparr>"

lemmas capability_names = control_read_capability_def control_write_capability_def
  control_approvals_capability_def control_pairing_capability_def control_acp_capability_def

lemma standard_route_policy:
  assumes "is_standard r" and "validate_method_name (route_method r) = Inr ()"
  shows "route_resolve router (route_method r) =
    Inr \<lparr>rr_route = r, rr_policy = standard_policy (route_method r)\<rparr>"
proof -
  have "from_method (route_method r) = r"
    using assms(1) by (rule from_method_route_method)
  with assms show ?thesis
    by (cases r)
      (simp_all add: route_resolve_def require_capability_def standard_policy_def
        namespace_capability_def capability_names)
qed

text \<open>What the registrations make of a method name.\<close>

definition expected_resolution ::
  "bool \<Rightarrow> (string \<times> route_policy) list \<Rightarrow> string \<Rightarrow> router_error + resolved_route" where
  "expected_resolution strict regs m =
     (case validate_method_name m of
        Inl e \<Rightarrow> Inl e
      | Inr _ \<Rightarrow>
          if is_standard (from_method m)
          then Inr \<lparr>rr_route = from_method m, rr_policy = standard_policy m\<rparr>
          else case last_registration regs m of
            Some p \<Rightarrow> Inr \<lparr>rr_route = Custom m, rr_policy = p\<rparr>
          | None \<Rightarrow> if strict then Inl (UnknownMethod m)
                   else Inr \<lparr>rr_route = Custom m, rr_policy = route_policy_default\<rparr>)"

lemma resolve_custom:
  assumes "validate_method_name m = Inr ()" and "from_method m = Custom m"
  shows "route_resolve router m =
    (case bt_get (custom_routes router) m of
       Some p \<Rightarrow> Inr \<lparr>rr_route = Custom m, rr_policy = p\<rparr>
     | None \<Rightarrow> if router_strict router then Inl (UnknownMethod m)
              else Inr \<lparr>rr_route = Custom m, rr_policy = route_policy_default\<rparr>)"
  using assms by (simp add: route_resolve_def Let_def split: option.split)

lemma router_new_strict: "router_strict (router_new strict) = strict"
  by (simp add: router_new_def)

lemma route_resolve_expected:
  "route_resolve (register_all regs (router_new strict)) m = expected_resolution strict regs m"
proof (cases m rule: validate_method_name_cases)
  case (Err e)
  then show ?thesis by (simp add: route_resolve_def expected_resolution_def)
next
  case Ok
  show ?thesis
  proof (cases "is_standard (from_method m)")
    case True
    with Ok standard_route_policy [OF True] show ?thesis
      by (simp add: expected_resolution_def)
  next
    case False
    then have "from_method m = Custom m"
      using from_method_cases [of m] by blast
    with Ok False show ?thesis
      by (simp add: resolve_custom expected_resolution_def register_all_get register_all_strict
          router_new_strict)
  qed
qed

lemma route_authorize_Ok:
  "route_authorize rr req = Inr Allow \<longleftrightarrow>
    (allow_anonymous (rr_policy rr) \<or> rar_authenticated req) \<and>
    (\<forall>c. required_capability (rr_policy rr) = Some c \<longrightarrow>
      (\<exists>cap \<in> set (rar_capabilities req).
        normalize_capability cap \<in> {normalize_capability c, ''*''}))"
  by (auto simp: route_authorize_def list_ex_iff Let_def split: option.splits)

section \<open>Properties\<close>

text \<open>
  C39. Whatever routes were registered before, a router answers a method name as follows: a
  name outside the grammar (at most 128 bytes, non-empty segments of lowercase letters,
  digits, \<open>-\<close>, \<open>_\<close>, \<open>.\<close>) is rejected; a standard method keeps the policy its namespace fixes, so no
  registration shadows it; any other method gets the policy of its last accepted
  registration, and without one it is unknown to a strict router and open in a lenient one.
\<close>
theorem router_resolution_exact:
  "(validate_method_name m = Inr () \<longleftrightarrow> method_grammar m) \<and>
   route_resolve (register_all regs (router_new strict)) m = expected_resolution strict regs m"
  by (simp add: validate_method_name_Ok route_resolve_expected)

text \<open>
  Access control of the protocol: when a call of a method is allowed, then on a standard
  route other than the challenge and connect handshake the caller is authenticated and holds
  the capability the method's namespace needs, or \<open>*\<close>; and an unauthenticated caller gets
  through only on the handshake or on a non-standard route that was registered as anonymous
  or that a lenient router does not know.
\<close>
theorem standard_routes_are_guarded:
  assumes "route_resolve (register_all regs (router_new strict)) m = Inr rr"
    and "route_authorize rr req = Inr Allow"
  shows "(is_standard (from_method m) \<and> m \<notin> {''control/challenge'', ''control/connect''} \<longrightarrow>
      rar_authenticated req \<and>
      (\<exists>cap \<in> set (rar_capabilities req). \<exists>c. namespace_capability m = Some c \<and>
        normalize_capability cap \<in> {normalize_capability c, ''*''})) \<and>
    (\<not> rar_authenticated req \<longrightarrow>
      m \<in> {''control/challenge'', ''control/connect''} \<or>
      \<not> is_standard (from_method m) \<and>
        (case last_registration regs m of None \<Rightarrow> \<not> strict | Some p \<Rightarrow> allow_anonymous p))"
proof -
  have exp: "expected_resolution strict regs m = Inr rr"
    using assms(1) by (simp only: route_resolve_expected)
  have ns: "namespace_capability m = None \<longleftrightarrow> m \<in> {''control/challenge'', ''control/connect''}"
    by (simp add: namespace_capability_def Let_def)
  have std: "rr_policy rr = standard_policy m" if "is_standard (from_method m)"
    using exp that by (auto simp: expected_resolution_def split: sum.splits)
  have cust: "case last_registration regs m of None \<Rightarrow> \<not> strict | Some p \<Rightarrow> rr_policy rr = p"
    if "\<not> is_standard (from_method m)"
    using exp that by (auto simp: expected_resolution_def split: sum.splits option.splits if_splits)
  show ?thesis
    using assms(2) std cust ns unfolding route_authorize_Ok
    by (cases "is_standard (from_method m)"; cases "namespace_capability m")
      (auto simp: standard_policy_def split: option.splits)
qed

theorem standard_routes_are_guarded_witness:
  "\<exists>rr. route_resolve (register_all [(''acme/run'', route_policy_default)] (router_new True)) ''turn/submit'' = Inr rr \<and>
     route_authorize rr \<lparr>rar_authenticated = True, rar_capabilities = ['' Control-Write'']\<rparr> = Inr Allow \<and>
     (\<exists>cap \<in> set ['' Control-Write'']. \<exists>c. namespace_capability ''turn/submit'' = Some c \<and>
        normalize_capability cap \<in> {normalize_capability c, ''*''})"
proof -
  define rr where "rr = \<lparr>rr_route = TurnSubmit, rr_policy = \<lparr>allow_anonymous = False,
    required_capability = Some ''control_write''\<rparr>\<rparr>"
  have 1: "route_resolve (register_all [(''acme/run'', route_policy_default)] (router_new True)) ''turn/submit'' = Inr rr"
    unfolding rr_def by code_simp
  have 2: "route_authorize rr \<lparr>rar_authenticated = True, rar_capabilities = ['' Control-Write'']\<rparr> = Inr Allow"
    unfolding rr_def by code_simp
  have "is_standard (from_method ''turn/submit'')"
    by code_simp
  with standard_routes_are_guarded [OF 1 2] 1 2 show ?thesis
    by (intro exI [of _ rr]) simp
qed

end
