(* ===== verification/Protocol_Transport.thy ===== *)
theory Protocol_Transport
  imports Protocol_Routing
begin

text \<open>
  The transports of crates/protocol/src/lib.rs: the JSON-line transport over a byte reader and a
  byte writer, and the linked pair of channel transports. The JSON codec (serde_json) and the
  writer are arguments; a reader is the bytes still to come and how they end. Tokio's bounded
  channel is its documented behaviour: a FIFO of at most \<open>capacity\<close> frames in which blocked
  senders wait in order.
\<close>

record transport_info =
  ti_name :: string
  ti_version :: string
  ti_secure :: bool

record 'j frame =
  f_method :: string
  f_id :: "string option"
  f_payload :: 'j
  f_version :: u32

type_synonym 'j inbound_frame = "'j frame"
type_synonym 'j outbound_frame = "'j frame"

datatype transport_error = Closed | Failure string | Protocol string

definition transport_error_text :: "transport_error \<Rightarrow> string" where
  "transport_error_text e =
     (case e of
        Closed \<Rightarrow> ''transport closed''
      | Failure s \<Rightarrow> ''transport failure: '' @ s
      | Protocol s \<Rightarrow> ''protocol error: '' @ s)"

section \<open>JSON lines\<close>

record 'j frame_codec =
  fc_encode :: "'j frame \<Rightarrow> string + string"
  fc_decode :: "string \<Rightarrow> string + 'j frame"

record 'w byte_writer =
  bw_write_all :: "string \<Rightarrow> 'w \<Rightarrow> (string + unit) \<times> 'w"
  bw_flush :: "'w \<Rightarrow> (string + unit) \<times> 'w"
  bw_shutdown :: "'w \<Rightarrow> (string + unit) \<times> 'w"

datatype stream_end = Eof | Broken string

record byte_reader =
  br_pending :: string
  br_end :: stream_end

record 'w json_line_transport =
  jl_info :: transport_info
  jl_reader :: byte_reader
  jl_writer :: 'w
  jl_closed :: bool

definition json_line_new :: "transport_info \<Rightarrow> byte_reader \<Rightarrow> 'w \<Rightarrow> 'w json_line_transport" where
  "json_line_new info reader writer =
     \<lparr>jl_info = info, jl_reader = reader, jl_writer = writer, jl_closed = False\<rparr>"

definition json_line_send ::
  "'j frame_codec \<Rightarrow> 'w byte_writer \<Rightarrow> 'j outbound_frame \<Rightarrow> 'w json_line_transport
    \<Rightarrow> (transport_error + unit) \<times> 'w json_line_transport" where
  "json_line_send codec io frame t =
     (if jl_closed t then (Inl Closed, t)
      else case fc_encode codec frame of
        Inl error \<Rightarrow> (Inl (Failure (''failed to encode outbound frame: '' @ error)), t)
      | Inr payload0 \<Rightarrow>
          (let payload = payload0 @ [newline] in
           case bw_write_all io payload (jl_writer t) of
             (Inl error, w) \<Rightarrow>
               (Inl (Failure (''failed to write frame: '' @ error)), t\<lparr>jl_writer := w\<rparr>)
           | (Inr _, w) \<Rightarrow>
               (case bw_flush io w of
                  (Inl error, w') \<Rightarrow>
                    (Inl (Failure (''failed to flush frame: '' @ error)), t\<lparr>jl_writer := w'\<rparr>)
                | (Inr _, w') \<Rightarrow> (Inr (), t\<lparr>jl_writer := w'\<rparr>))))"

text \<open>\<open>read_line\<close>: the bytes up to and with the next newline, or up to the end; a read error wins
  over a line that is not UTF-8, and the bytes read are consumed either way.\<close>

definition read_line :: "byte_reader \<Rightarrow> (string + string) \<times> byte_reader" where
  "read_line r =
     (let pending = br_pending r;
          line = takeWhile (\<lambda>c. c \<noteq> newline) pending in
      if newline \<in> set pending
      then (let full = line @ [newline]; r' = r\<lparr>br_pending := drop (length full) pending\<rparr> in
            if utf8_valid full then (Inr full, r')
            else (Inl ''stream did not contain valid UTF-8'', r'))
      else (let r' = r\<lparr>br_pending := []\<rparr> in
            case br_end r of
              Broken error \<Rightarrow> (Inl error, r')
            | Eof \<Rightarrow> if utf8_valid line then (Inr line, r')
                     else (Inl ''stream did not contain valid UTF-8'', r')))"

definition trim_line_end :: "string \<Rightarrow> string" where
  "trim_line_end line = rev (dropWhile (\<lambda>c. c = newline \<or> c = CHR 0x0D) (rev line))"

definition unsupported_version :: "u32 \<Rightarrow> string" where
  "unsupported_version v =
     ''unsupported frame version '' @ nat_to_dec (unat v) @ '' (max supported: '' @
     nat_to_dec (unat protocol_version) @ '')''"

lemma read_line_shrinks:
  "read_line r = (Inr line, r') \<Longrightarrow> line \<noteq> [] \<Longrightarrow> length (br_pending r') < length (br_pending r)"
  by (cases "br_pending r") (auto simp: read_line_def Let_def split: if_splits stream_end.splits)

function (sequential) json_line_recv_from ::
  "'j frame_codec \<Rightarrow> byte_reader \<Rightarrow> (transport_error + 'j inbound_frame option) \<times> byte_reader" where
  "json_line_recv_from codec r =
     (case read_line r of
        (Inl error, r') \<Rightarrow> (Inl (Failure (''failed to read frame: '' @ error)), r')
      | (Inr line, r') \<Rightarrow>
          if line = [] then (Inr None, r')
          else if trim_line_end line = [] then json_line_recv_from codec r'
          else (case fc_decode codec (trim_line_end line) of
                  Inl error \<Rightarrow> (Inl (Failure (''failed to decode inbound frame: '' @ error)), r')
                | Inr frame \<Rightarrow>
                    if f_version frame > protocol_version
                    then (Inl (Protocol (unsupported_version (f_version frame))), r')
                    else (Inr (Some frame), r')))"
  by pat_completeness auto
termination
  by (relation "measure (\<lambda>(codec, r). length (br_pending r))") (auto dest: read_line_shrinks [OF sym])

declare json_line_recv_from.simps [simp del]

definition json_line_recv ::
  "'j frame_codec \<Rightarrow> 'w json_line_transport
    \<Rightarrow> (transport_error + 'j inbound_frame option) \<times> 'w json_line_transport" where
  "json_line_recv codec t =
     (case json_line_recv_from codec (jl_reader t) of (res, r) \<Rightarrow> (res, t\<lparr>jl_reader := r\<rparr>))"

definition json_line_close ::
  "'w byte_writer \<Rightarrow> 'w json_line_transport \<Rightarrow> (transport_error + unit) \<times> 'w json_line_transport" where
  "json_line_close io t =
     (if jl_closed t then (Inr (), t)
      else case bw_shutdown io (jl_writer t) of
        (Inl error, w) \<Rightarrow>
          (Inl (Failure (''failed to shutdown writer: '' @ error)), t\<lparr>jl_closed := True, jl_writer := w\<rparr>)
      | (Inr _, w) \<Rightarrow> (Inr (), t\<lparr>jl_closed := True, jl_writer := w\<rparr>))"

section \<open>Linked channel transports\<close>

text \<open>
  One direction of a linked pair: the frames in the channel, the sends that wait for room (each
  holds a clone of the sender), whether the transport still has its sender, and whether the
  peer's receiver is still there.
\<close>

record 'j channel =
  ch_capacity :: usize
  ch_queue :: "'j inbound_frame list"
  ch_waiting :: "'j inbound_frame list"
  ch_open :: bool
  ch_receiver :: bool

record 'j link =
  left_to_right :: "'j channel"
  right_to_left :: "'j channel"
  left_info :: transport_info
  right_info :: transport_info

datatype transport_build_error = InvalidCapacity usize

definition channel_new :: "usize \<Rightarrow> 'j channel" where
  "channel_new capacity = \<lparr>ch_capacity = capacity, ch_queue = [], ch_waiting = [], ch_open = True,
     ch_receiver = True\<rparr>"

definition channel_linked ::
  "usize \<Rightarrow> transport_info \<Rightarrow> transport_info \<Rightarrow> transport_build_error + 'j link" where
  "channel_linked capacity l r =
     (if capacity = 0 then Inl (InvalidCapacity capacity)
      else Inr \<lparr>left_to_right = channel_new capacity, right_to_left = channel_new capacity,
                left_info = l, right_info = r\<rparr>)"

text \<open>\<open>send\<close> up to its await: the sender is cloned and the frame waits for room; no sender, or no
  receiver at the other end, is \<open>Closed\<close>.\<close>

definition channel_begin_send ::
  "'j outbound_frame \<Rightarrow> 'j channel \<Rightarrow> (transport_error + unit) \<times> 'j channel" where
  "channel_begin_send fr c =
     (if \<not> ch_open c then (Inl Closed, c)
      else if \<not> ch_receiver c then (Inl Closed, c)
      else (Inr (), c\<lparr>ch_waiting := ch_waiting c @
             [\<lparr>f_method = f_method fr, f_id = f_id fr, f_payload = f_payload fr, f_version = f_version fr\<rparr>]\<rparr>))"

text \<open>The oldest waiting send completes when there is room.\<close>

definition channel_deliver :: "'j channel \<Rightarrow> 'j channel" where
  "channel_deliver c =
     (case ch_waiting c of
        [] \<Rightarrow> c
      | fr # ws \<Rightarrow>
          if length (ch_queue c) < ch_capacity c
          then c\<lparr>ch_queue := ch_queue c @ [fr], ch_waiting := ws\<rparr> else c)"

text \<open>\<open>recv\<close>: the oldest frame, the end of the stream once no sender is left, or waiting.\<close>

datatype 'a recv_poll = Ready 'a | Pending

definition channel_recv :: "'j channel \<Rightarrow> 'j inbound_frame option recv_poll \<times> 'j channel" where
  "channel_recv c =
     (case ch_queue c of
        fr # q \<Rightarrow> (Ready (Some fr), c\<lparr>ch_queue := q\<rparr>)
      | [] \<Rightarrow> if \<not> ch_open c \<and> ch_waiting c = [] then (Ready None, c) else (Pending, c))"

definition channel_close :: "'j channel \<Rightarrow> 'j channel" where
  "channel_close c = c\<lparr>ch_open := False\<rparr>"

text \<open>
  The runs of one direction, with the frames whose send was accepted and the frames received so
  far. A peer that goes away takes the channel's content with it and fails the waiting sends.
\<close>

inductive channel_run ::
  "'j channel \<Rightarrow> 'j frame list \<Rightarrow> 'j frame list \<Rightarrow> 'j channel \<Rightarrow> bool" for c0 where
  start: "channel_run c0 [] [] c0"
| send_ok: "channel_run c0 sent got c \<Longrightarrow> channel_begin_send fr c = (Inr (), c') \<Longrightarrow>
    channel_run c0 (sent @ [fr]) got c'"
| send_failed: "channel_run c0 sent got c \<Longrightarrow> channel_begin_send fr c = (Inl e, c') \<Longrightarrow>
    channel_run c0 sent got c'"
| deliver: "channel_run c0 sent got c \<Longrightarrow> channel_run c0 sent got (channel_deliver c)"
| recv: "channel_run c0 sent got c \<Longrightarrow> ch_receiver c \<Longrightarrow> channel_recv c = (Ready (Some fr), c') \<Longrightarrow>
    channel_run c0 sent (got @ [fr]) c'"
| recv_nothing: "channel_run c0 sent got c \<Longrightarrow> ch_receiver c \<Longrightarrow> channel_recv c = (p, c') \<Longrightarrow>
    p = Pending \<or> p = Ready None \<Longrightarrow> channel_run c0 sent got c'"
| close: "channel_run c0 sent got c \<Longrightarrow> channel_run c0 sent got (channel_close c)"
| peer_gone: "channel_run c0 sent got c \<Longrightarrow>
    channel_run c0 sent got (c\<lparr>ch_queue := [], ch_waiting := [], ch_receiver := False\<rparr>)"

definition channel_inv :: "usize \<Rightarrow> 'j frame list \<Rightarrow> 'j frame list \<Rightarrow> 'j channel \<Rightarrow> bool" where
  "channel_inv capacity sent got c \<longleftrightarrow>
     ch_capacity c = capacity \<and> length (ch_queue c) \<le> capacity \<and> prefix got sent \<and>
     (ch_receiver c \<longrightarrow> sent = got @ ch_queue c @ ch_waiting c)"

lemma frame_eta:
  "\<lparr>f_method = f_method fr, f_id = f_id fr, f_payload = f_payload fr, f_version = f_version fr\<rparr> = fr"
  by (cases fr) simp

lemma channel_begin_send_inv:
  assumes "channel_inv k sent got c" and "channel_begin_send fr c = (r, c')"
  shows "channel_inv k (if r = Inr () then sent @ [fr] else sent) got c'"
  using assms by (auto simp: channel_begin_send_def channel_inv_def frame_eta prefix_def split: if_splits)

lemma channel_deliver_inv: "channel_inv k sent got c \<Longrightarrow> channel_inv k sent got (channel_deliver c)"
  by (auto simp: channel_deliver_def channel_inv_def split: list.split)

lemma channel_recv_inv:
  assumes "channel_inv k sent got c" and "ch_receiver c" and "channel_recv c = (p, c')"
  shows "channel_inv k sent (case p of Ready (Some fr) \<Rightarrow> got @ [fr] | _ \<Rightarrow> got) c'"
  using assms by (auto simp: channel_recv_def channel_inv_def split: list.splits if_splits)

lemma channel_run_inv:
  "channel_run c0 sent got c \<Longrightarrow> channel_inv k [] [] c0 \<Longrightarrow> channel_inv k sent got c"
proof (induction rule: channel_run.induct)
  case (send_ok sent got c fr c')
  then show ?case using channel_begin_send_inv [of k sent got c fr "Inr ()" c'] by simp
next
  case (send_failed sent got c fr e c')
  then show ?case using channel_begin_send_inv [of k sent got c fr "Inl e" c'] by simp
next
  case (recv sent got c fr c')
  then show ?case using channel_recv_inv [of k sent got c "Ready (Some fr)" c'] by simp
next
  case (recv_nothing sent got c p c')
  then show ?case using channel_recv_inv [of k sent got c p c'] by auto
next
  case (peer_gone sent got c)
  then show ?case by (simp add: channel_inv_def)
next
  case (deliver sent got c)
  then show ?case by (simp add: channel_deliver_inv)
next
  case (close sent got c)
  then show ?case by (simp add: channel_inv_def channel_close_def)
qed simp

section \<open>Frames survive the wire\<close>

text \<open>A writer that only appends, and what serde_json documents of an encoded frame: one line of
  UTF-8 that decodes to the frame.\<close>

definition pipe_writer :: "string byte_writer" where
  "pipe_writer = \<lparr>bw_write_all = (\<lambda>p w. (Inr (), w @ p)), bw_flush = (\<lambda>w. (Inr (), w)),
     bw_shutdown = (\<lambda>w. (Inr (), w))\<rparr>"

definition encodes_as_line :: "'j frame_codec \<Rightarrow> 'j frame \<Rightarrow> bool" where
  "encodes_as_line codec f \<longleftrightarrow>
     (case fc_encode codec f of
        Inl _ \<Rightarrow> False
      | Inr s \<Rightarrow> s \<noteq> [] \<and> newline \<notin> set s \<and> last s \<noteq> CHR 0x0D \<and> utf8_valid (s @ [newline]) \<and>
                 fc_decode codec s = Inr f)"

fun send_all ::
  "'j frame_codec \<Rightarrow> 'w byte_writer \<Rightarrow> 'j frame list \<Rightarrow> 'w json_line_transport
    \<Rightarrow> (transport_error + unit) list \<times> 'w json_line_transport" where
  "send_all codec io [] t = ([], t)"
| "send_all codec io (f # fs) t =
     (case json_line_send codec io f t of (r, t1) \<Rightarrow>
      case send_all codec io fs t1 of (rs, t2) \<Rightarrow> (r # rs, t2))"

fun recv_many ::
  "'j frame_codec \<Rightarrow> nat \<Rightarrow> 'w json_line_transport \<Rightarrow> (transport_error + 'j frame option) list" where
  "recv_many codec 0 t = []"
| "recv_many codec (Suc n) t =
     (case json_line_recv codec t of (r, t') \<Rightarrow> r # recv_many codec n t')"

definition wire_line :: "'j frame_codec \<Rightarrow> 'j frame \<Rightarrow> string" where
  "wire_line codec f = (case fc_encode codec f of Inl _ \<Rightarrow> [] | Inr s \<Rightarrow> s @ [newline])"

lemma trim_line_end_line:
  "s \<noteq> [] \<Longrightarrow> newline \<notin> set s \<Longrightarrow> last s \<noteq> CHR 0x0D \<Longrightarrow> trim_line_end (s @ [newline]) = s"
  by (cases s rule: rev_cases) (auto simp: trim_line_end_def)

lemma read_line_line:
  "newline \<notin> set s \<Longrightarrow> utf8_valid (s @ [newline]) \<Longrightarrow>
    read_line \<lparr>br_pending = s @ newline # rest, br_end = e\<rparr> =
      (Inr (s @ [newline]), \<lparr>br_pending = rest, br_end = e\<rparr>)"
proof -
  assume "newline \<notin> set s" and v: "utf8_valid (s @ [newline])"
  then have "takeWhile (\<lambda>c. c \<noteq> newline) (s @ newline # rest) = s"
    by (subst takeWhile_append2) auto
  with v show ?thesis
    by (simp add: read_line_def Let_def)
qed

lemma send_all_pipe:
  assumes "\<forall>f \<in> set fs. encodes_as_line codec f" and "\<not> jl_closed t"
  shows "send_all codec pipe_writer fs t =
    (replicate (length fs) (Inr ()),
     t\<lparr>jl_writer := jl_writer t @ concat (map (wire_line codec) fs)\<rparr>)"
  using assms
proof (induction fs arbitrary: t)
  case Nil
  then show ?case by simp
next
  case (Cons f fs)
  obtain s where s: "fc_encode codec f = Inr s"
    using Cons.prems by (auto simp: encodes_as_line_def split: sum.splits)
  have "json_line_send codec pipe_writer f t = (Inr (), t\<lparr>jl_writer := jl_writer t @ s @ [newline]\<rparr>)"
    using Cons.prems(2) s by (simp add: json_line_send_def pipe_writer_def Let_def)
  with Cons.IH [of "t\<lparr>jl_writer := jl_writer t @ s @ [newline]\<rparr>"] Cons.prems s show ?case
    by (simp add: wire_line_def)
qed

lemma json_line_recv_from_frame:
  assumes "encodes_as_line codec f" and "f_version f \<le> protocol_version"
  shows "json_line_recv_from codec \<lparr>br_pending = wire_line codec f @ rest, br_end = e\<rparr> =
    (Inr (Some f), \<lparr>br_pending = rest, br_end = e\<rparr>)"
proof -
  obtain s where s: "fc_encode codec f = Inr s" "s \<noteq> []" "newline \<notin> set s" "last s \<noteq> CHR 0x0D"
      "utf8_valid (s @ [newline])" "fc_decode codec s = Inr f"
    using assms(1) by (auto simp: encodes_as_line_def split: sum.splits)
  then show ?thesis
    using assms(2)
    by (subst json_line_recv_from.simps) (simp add: wire_line_def read_line_line trim_line_end_line not_less)
qed

lemma recv_many_frames:
  assumes "\<forall>f \<in> set fs. encodes_as_line codec f \<and> f_version f \<le> protocol_version"
    and "jl_reader t = \<lparr>br_pending = concat (map (wire_line codec) fs), br_end = Eof\<rparr>"
  shows "recv_many codec (length fs + 1) t = map (\<lambda>f. Inr (Some f)) fs @ [Inr None]"
  using assms
proof (induction fs arbitrary: t)
  case Nil
  then have "json_line_recv_from codec (jl_reader t) = (Inr None, jl_reader t)"
    by (subst json_line_recv_from.simps) (simp add: read_line_def)
  then show ?case by (simp add: json_line_recv_def)
next
  case (Cons f fs)
  have "json_line_recv codec t =
      (Inr (Some f), t\<lparr>jl_reader := \<lparr>br_pending = concat (map (wire_line codec) fs), br_end = Eof\<rparr>\<rparr>)"
    using Cons.prems by (simp add: json_line_recv_def json_line_recv_from_frame)
  with Cons.IH [of "t\<lparr>jl_reader := \<lparr>br_pending = concat (map (wire_line codec) fs), br_end = Eof\<rparr>\<rparr>"]
    Cons.prems show ?case
    by simp
qed

text \<open>
  Frames sent over a JSON-line transport arrive: if the codec writes each frame as one line
  of UTF-8 that decodes to it and no frame claims a newer protocol version, every send returns
  Ok, and a transport that reads the bytes written receives exactly these frames, in order, and
  then the end of the stream.
\<close>
theorem json_lines_arrive_in_order:
  assumes "\<forall>f \<in> set fs. encodes_as_line codec f"
    and "\<forall>f \<in> set fs. f_version f \<le> protocol_version"
    and "send_all codec pipe_writer fs (json_line_new info reader []) = (results, t)"
  shows "results = replicate (length fs) (Inr ()) \<and>
    recv_many codec (length fs + 1)
      (json_line_new info' \<lparr>br_pending = jl_writer t, br_end = Eof\<rparr> w) =
        map (\<lambda>f. Inr (Some f)) fs @ [Inr None]"
proof -
  from assms(3) have "results = replicate (length fs) (Inr ())"
    and "jl_writer t = concat (map (wire_line codec) fs)"
    using send_all_pipe [OF assms(1), of "json_line_new info reader []"]
    by (auto simp: json_line_new_def)
  moreover have "recv_many codec (length fs + 1)
      (json_line_new info' \<lparr>br_pending = concat (map (wire_line codec) fs), br_end = Eof\<rparr> w) =
        map (\<lambda>f. Inr (Some f)) fs @ [Inr None]"
    by (rule recv_many_frames) (use assms(1,2) in \<open>simp_all add: json_line_new_def\<close>)
  ultimately show ?thesis by simp
qed

text \<open>A codec for frames whose payload and identifier are empty: the line is the method.\<close>

definition method_codec :: "unit frame_codec" where
  "method_codec = \<lparr>fc_encode = (\<lambda>f. Inr (f_method f)),
     fc_decode = (\<lambda>s. Inr \<lparr>f_method = s, f_id = None, f_payload = (), f_version = 1\<rparr>)\<rparr>"

definition ping_frame :: "unit frame" where
  "ping_frame = \<lparr>f_method = ''ping'', f_id = None, f_payload = (), f_version = 1\<rparr>"

theorem json_lines_arrive_in_order_witness:
  "recv_many method_codec 3
     (json_line_new \<lparr>ti_name = [], ti_version = [], ti_secure = False\<rparr>
       \<lparr>br_pending = jl_writer (snd (send_all method_codec pipe_writer [ping_frame, ping_frame]
          (json_line_new \<lparr>ti_name = [], ti_version = [], ti_secure = False\<rparr>
             \<lparr>br_pending = [], br_end = Eof\<rparr> []))), br_end = Eof\<rparr> ()) =
   [Inr (Some ping_frame), Inr (Some ping_frame), Inr None]"
proof -
  let ?i = "\<lparr>ti_name = [], ti_version = [], ti_secure = False\<rparr> :: transport_info"
  let ?r = "\<lparr>br_pending = [], br_end = Eof\<rparr> :: byte_reader"
  have 1: "\<forall>f \<in> set [ping_frame, ping_frame]. encodes_as_line method_codec f"
    by code_simp
  have 2: "\<forall>f \<in> set [ping_frame, ping_frame]. f_version f \<le> protocol_version"
    by code_simp
  obtain rs t where 3: "send_all method_codec pipe_writer [ping_frame, ping_frame] (json_line_new ?i ?r []) = (rs, t)"
    by (cases "send_all method_codec pipe_writer [ping_frame, ping_frame] (json_line_new ?i ?r [])")
  have "recv_many method_codec (length [ping_frame, ping_frame] + 1)
      (json_line_new ?i \<lparr>br_pending = jl_writer t, br_end = Eof\<rparr> ()) =
    map (\<lambda>f. Inr (Some f)) [ping_frame, ping_frame] @ [Inr None]"
    using json_lines_arrive_in_order [OF 1 2 3, of ?i "()"] by (rule conjunct2)
  then show ?thesis
    unfolding 3 by (simp only: snd_conv list.map append_Cons append_Nil list.size) (simp add: eval_nat_numeral)
qed

text \<open>
  The linked pair is a bounded FIFO in each direction: in every interleaving of sends,
  deliveries, receives and closes, what was received is a prefix of what was sent, the channel
  holds at most its capacity, the rest is queued or waiting while the peer is there, and the
  receiver sees the end of the stream only after every accepted frame; a receiver that has to
  wait while a send is waiting gets a frame as soon as that send completes.
\<close>
theorem linked_channel_is_bounded_fifo:
  assumes "channel_linked capacity l r = Inr k" and "channel_run (left_to_right k) sent got c"
  shows "prefix got sent \<and> length (ch_queue c) \<le> capacity \<and>
    (ch_receiver c \<longrightarrow> sent = got @ ch_queue c @ ch_waiting c) \<and>
    (ch_receiver c \<and> fst (channel_recv c) = Ready None \<longrightarrow> got = sent) \<and>
    (ch_receiver c \<and> fst (channel_recv c) = Pending \<and> ch_waiting c \<noteq> [] \<longrightarrow>
       fst (channel_recv (channel_deliver c)) = Ready (Some (hd (ch_waiting c))))"
proof -
  have cap: "0 < capacity" and k: "left_to_right k = channel_new capacity"
    using assms(1) by (auto simp: channel_linked_def split: if_splits)
  have "channel_inv capacity [] [] (channel_new capacity :: 'a channel)"
    by (simp add: channel_inv_def channel_new_def)
  then have inv: "channel_inv capacity sent got c"
    using channel_run_inv [OF assms(2)] k by simp
  have none: "ch_queue c = [] \<and> ch_waiting c = []" if "fst (channel_recv c) = Ready None"
    using that by (auto simp: channel_recv_def split: list.splits if_splits)
  have empty: "ch_queue c = []" if "fst (channel_recv c) = Pending"
    using that by (auto simp: channel_recv_def split: list.splits if_splits)
  have d: "fst (channel_recv (channel_deliver c)) = Ready (Some (hd (ch_waiting c)))"
    if "ch_queue c = []" and "ch_waiting c \<noteq> []"
    using that inv cap
    by (cases "ch_waiting c") (simp_all add: channel_inv_def channel_deliver_def channel_recv_def)
  show ?thesis
    using inv none empty d unfolding channel_inv_def by force
qed

theorem linked_channel_is_bounded_fifo_witness:
  "\<exists>k c. channel_linked 1 \<lparr>ti_name = ''a'', ti_version = [], ti_secure = False\<rparr>
        \<lparr>ti_name = ''b'', ti_version = [], ti_secure = False\<rparr> = Inr k \<and>
     channel_run (left_to_right k) [ping_frame] [ping_frame] c \<and>
     fst (channel_recv c) = Ready None \<and> prefix [ping_frame] [ping_frame]"
proof -
  let ?a = "\<lparr>ti_name = ''a'', ti_version = [], ti_secure = False\<rparr> :: transport_info"
  let ?b = "\<lparr>ti_name = ''b'', ti_version = [], ti_secure = False\<rparr> :: transport_info"
  define c0 :: "unit channel" where "c0 = channel_new 1"
  define k where "k = \<lparr>left_to_right = c0, right_to_left = c0, left_info = ?a, right_info = ?b\<rparr>"
  define c1 where "c1 = c0\<lparr>ch_waiting := [ping_frame]\<rparr>"
  define c2 where "c2 = c0\<lparr>ch_queue := [ping_frame]\<rparr>"
  have k: "channel_linked 1 ?a ?b = Inr k"
    by (simp add: channel_linked_def k_def c0_def)
  have 1: "channel_begin_send ping_frame c0 = (Inr (), c1)"
    by (simp add: c1_def c0_def channel_new_def channel_begin_send_def ping_frame_def)
  have 2: "channel_deliver c1 = c2"
    by (simp add: c2_def c1_def c0_def channel_new_def channel_deliver_def)
  have 3: "channel_recv c2 = (Ready (Some ping_frame), c0)"
    by (simp add: c2_def c0_def channel_new_def channel_recv_def)
  have "channel_run c0 [ping_frame] [ping_frame] c0"
    using channel_run.recv [OF _ _ 3, of c0 "[ping_frame]" "[]"]
      channel_run.deliver [of c0 "[ping_frame]" "[]" c1]
      channel_run.send_ok [OF channel_run.start 1] 2
    by (simp add: c2_def c0_def channel_new_def)
  then have run: "channel_run (left_to_right k) [ping_frame] [ping_frame] (channel_close c0)"
    using channel_run.close by (fastforce simp: k_def)
  have "fst (channel_recv (channel_close c0)) = Ready None"
    by (simp add: channel_recv_def channel_close_def c0_def channel_new_def)
  with linked_channel_is_bounded_fifo [OF k run] k run show ?thesis
    by blast
qed

end
