(* ===== verification/Connector_Circuit.thy ===== *)
theory Connector_Circuit
  imports Loong_Prelude
begin

text \<open>
  The connector circuit breaker (crates/spec/src/spec_runtime/connector_circuit.rs) and its use
  per connector by programmatic tool calls (crates/spec/src/programmatic.rs). A tokio instant is
  the nanoseconds since the clock's start; adding a \<open>u64\<close> of milliseconds to it stays within the
  instant's range. Callers hold a mutex around every operation and read the clock inside it,
  so the runs are the event sequences with non-decreasing times.
\<close>

type_synonym instant = nat

definition ns_per_ms :: nat where
  "ns_per_ms = 1000000"

definition duration_from_millis :: "u64 \<Rightarrow> nat" where
  "duration_from_millis ms = unat ms * ns_per_ms"

datatype circuit_phase = CircuitClosed | CircuitOpen | CircuitHalfOpen

record circuit_state =
  cs_phase :: circuit_phase
  consecutive_failures :: usize
  open_until :: "instant option"
  half_open_remaining_calls :: usize
  half_open_successes :: usize

definition circuit_default :: circuit_state where
  "circuit_default = \<lparr>cs_phase = CircuitClosed, consecutive_failures = 0, open_until = None,
     half_open_remaining_calls = 0, half_open_successes = 0\<rparr>"

record circuit_policy =
  cb_enabled :: bool
  failure_threshold :: usize
  cooldown_ms :: u64
  half_open_max_calls :: usize
  success_threshold :: usize

definition circuit_policy_default :: circuit_policy where
  "circuit_policy_default = \<lparr>cb_enabled = True, failure_threshold = 3, cooldown_ms = 1000,
     half_open_max_calls = 1, success_threshold = 1\<rparr>"

datatype acquire_error = AcquireOpen u64 | HalfOpenReopened

definition validate_circuit_policy :: "circuit_policy \<Rightarrow> string \<Rightarrow> string + unit" where
  "validate_circuit_policy policy context =
     (if \<not> cb_enabled policy then Inr ()
      else if failure_threshold policy = 0
      then Inl (context @ '' failure_threshold must be greater than 0'')
      else if cooldown_ms policy = 0
      then Inl (context @ '' cooldown_ms must be greater than 0'')
      else if half_open_max_calls policy = 0
      then Inl (context @ '' half_open_max_calls must be greater than 0'')
      else if success_threshold policy = 0
      then Inl (context @ '' success_threshold must be greater than 0'')
      else if success_threshold policy > half_open_max_calls policy
      then Inl (context @ '' success_threshold must be <= half_open_max_calls'')
      else Inr ())"

fun phase_label :: "circuit_phase \<Rightarrow> string" where
  "phase_label CircuitClosed = ''closed''"
| "phase_label CircuitOpen = ''open''"
| "phase_label CircuitHalfOpen = ''half_open''"

definition remaining_cooldown_ms :: "circuit_state \<Rightarrow> instant \<Rightarrow> u64 option" where
  "remaining_cooldown_ms state now =
     (case open_until state of
        None \<Rightarrow> None
      | Some until \<Rightarrow>
          if until \<le> now then Some 0
          else Some (of_nat (min ((until - now) div ns_per_ms) (2 ^ 64 - 1))))"

definition reopen_deadline :: "circuit_policy \<Rightarrow> instant \<Rightarrow> instant" where
  "reopen_deadline policy now = now + duration_from_millis (cooldown_ms policy)"

text \<open>The three parts of acquiring a slot: an elapsed cooldown opens the probe window, and a call
  in the window takes one of its slots.\<close>

definition enter_half_open :: "circuit_policy \<Rightarrow> circuit_state \<Rightarrow> circuit_state" where
  "enter_half_open policy state = state\<lparr>cs_phase := CircuitHalfOpen, open_until := None,
     half_open_remaining_calls := half_open_max_calls policy, half_open_successes := 0\<rparr>"

definition half_open_slot ::
  "circuit_policy \<Rightarrow> circuit_state \<Rightarrow> instant \<Rightarrow> (acquire_error + string) \<times> circuit_state" where
  "half_open_slot policy state now =
     (if cs_phase state = CircuitHalfOpen
      then if half_open_remaining_calls state = 0
           then (Inl HalfOpenReopened,
                 state\<lparr>cs_phase := CircuitOpen, open_until := Some (reopen_deadline policy now)\<rparr>)
           else (Inr ''half_open'',
                 state\<lparr>half_open_remaining_calls := half_open_remaining_calls state - 1\<rparr>)
      else (Inr ''closed'', state))"

definition acquire_slot ::
  "circuit_policy \<Rightarrow> circuit_state \<Rightarrow> instant \<Rightarrow> (acquire_error + string) \<times> circuit_state" where
  "acquire_slot policy state now =
     (if \<not> cb_enabled policy then (Inr ''disabled'', state)
      else if cs_phase state = CircuitOpen
      then (case remaining_cooldown_ms state now of
              Some ms \<Rightarrow>
                if ms > 0 then (Inl (AcquireOpen ms), state)
                else half_open_slot policy (enter_half_open policy state) now
            | None \<Rightarrow> half_open_slot policy (enter_half_open policy state) now)
      else half_open_slot policy state now)"

definition record_outcome ::
  "circuit_policy \<Rightarrow> circuit_state \<Rightarrow> bool \<Rightarrow> instant \<Rightarrow> string \<times> circuit_state" where
  "record_outcome policy state success now =
     (if \<not> cb_enabled policy then (''disabled'', state)
      else
        let state' =
          (case cs_phase state of
             CircuitClosed \<Rightarrow>
               if success then state\<lparr>consecutive_failures := 0\<rparr>
               else
                 let failures = usize_saturating_add (consecutive_failures state) 1;
                     counted = state\<lparr>consecutive_failures := failures\<rparr> in
                 if failures \<ge> failure_threshold policy
                 then counted\<lparr>cs_phase := CircuitOpen, open_until := Some (reopen_deadline policy now),
                        half_open_remaining_calls := 0, half_open_successes := 0\<rparr>
                 else counted
           | CircuitHalfOpen \<Rightarrow>
               if success then
                 let successes = usize_saturating_add (half_open_successes state) 1;
                     counted = state\<lparr>half_open_successes := successes\<rparr> in
                 if successes \<ge> success_threshold policy
                 then counted\<lparr>cs_phase := CircuitClosed, consecutive_failures := 0, open_until := None,
                        half_open_remaining_calls := 0, half_open_successes := 0\<rparr>
                 else if half_open_remaining_calls counted = 0
                 then counted\<lparr>cs_phase := CircuitOpen, open_until := Some (reopen_deadline policy now),
                        half_open_successes := 0\<rparr>
                 else counted
               else state\<lparr>cs_phase := CircuitOpen, open_until := Some (reopen_deadline policy now),
                      half_open_remaining_calls := 0, half_open_successes := 0\<rparr>
           | CircuitOpen \<Rightarrow> state)
        in (phase_label (cs_phase state'), state'))"

section \<open>Circuits of programmatic tool calls\<close>

datatype programmatic_error_code =
    InvalidSpec | UnknownStep | PointerNotFound | TemplateError | ConnectorNotAllowedCode
  | CallBudgetExceeded | CircuitOpenCode | ConnectorInvokeFailed

fun error_code_str :: "programmatic_error_code \<Rightarrow> string" where
  "error_code_str InvalidSpec = ''invalid_spec''"
| "error_code_str UnknownStep = ''unknown_step''"
| "error_code_str PointerNotFound = ''pointer_not_found''"
| "error_code_str TemplateError = ''template_error''"
| "error_code_str ConnectorNotAllowedCode = ''connector_not_allowed''"
| "error_code_str CallBudgetExceeded = ''call_budget_exceeded''"
| "error_code_str CircuitOpenCode = ''circuit_open''"
| "error_code_str ConnectorInvokeFailed = ''connector_invoke_failed''"

definition programmatic_error :: "programmatic_error_code \<Rightarrow> string \<Rightarrow> string" where
  "programmatic_error code message = ''programmatic_error['' @ error_code_str code @ '']: '' @ message"

definition call_label :: "string option \<Rightarrow> string" where
  "call_label call_id = (case call_id of None \<Rightarrow> [] | Some i \<Rightarrow> '' call_id='' @ i)"

type_synonym circuit_states = "(string, circuit_state) btree"

text \<open>\<open>guard.entry(name).or_default()\<close>.\<close>

definition circuit_entry :: "circuit_states \<Rightarrow> string \<Rightarrow> circuit_state" where
  "circuit_entry guard name = (case bt_get guard name of Some s \<Rightarrow> s | None \<Rightarrow> circuit_default)"

definition acquire_programmatic_circuit_slot ::
  "string \<Rightarrow> (string, circuit_policy) btree \<Rightarrow> circuit_states \<Rightarrow> string \<Rightarrow> string option \<Rightarrow> instant
    \<Rightarrow> (string + string) \<times> circuit_states" where
  "acquire_programmatic_circuit_slot connector_name policies guard step_id call_id now =
     (case bt_get policies connector_name of
        None \<Rightarrow> (Inr ''disabled'', guard)
      | Some policy \<Rightarrow>
          (case acquire_slot policy (circuit_entry guard connector_name) now of
             (result, entry) \<Rightarrow>
               ((case result of
                   Inr phase \<Rightarrow> Inr phase
                 | Inl (AcquireOpen remaining) \<Rightarrow>
                     Inl (programmatic_error CircuitOpenCode
                       (''programmatic step '' @ step_id @ call_label call_id @ '' connector '' @ connector_name @
                        '' is circuit-open (remaining_cooldown_ms='' @ nat_to_dec (unat remaining) @ '')''))
                 | Inl HalfOpenReopened \<Rightarrow>
                     Inl (programmatic_error CircuitOpenCode
                       (''programmatic step '' @ step_id @ call_label call_id @ '' connector '' @ connector_name @
                        '' half-open window exhausted and re-opened''))),
                bt_insert connector_name entry guard)))"

definition record_programmatic_circuit_outcome ::
  "string \<Rightarrow> bool \<Rightarrow> (string, circuit_policy) btree \<Rightarrow> circuit_states \<Rightarrow> instant
    \<Rightarrow> string \<times> circuit_states" where
  "record_programmatic_circuit_outcome connector_name success policies guard now =
     (case bt_get policies connector_name of
        None \<Rightarrow> (''disabled'', guard)
      | Some policy \<Rightarrow>
          (case record_outcome policy (circuit_entry guard connector_name) success now of
             (phase, entry) \<Rightarrow> (phase, bt_insert connector_name entry guard)))"

section \<open>Runs\<close>

text \<open>Concurrent calls make any sequence of acquires and outcomes; a run also counts the calls it
  admits.\<close>

datatype circuit_event = Acquire instant | Outcome bool instant

fun event_time :: "circuit_event \<Rightarrow> instant" where
  "event_time (Acquire t) = t"
| "event_time (Outcome _ t) = t"

fun circuit_step :: "circuit_policy \<Rightarrow> circuit_state \<Rightarrow> circuit_event \<Rightarrow> bool \<times> circuit_state" where
  "circuit_step policy state (Acquire t) =
     (case acquire_slot policy state t of (r, s) \<Rightarrow> (case r of Inr _ \<Rightarrow> True | Inl _ \<Rightarrow> False, s))"
| "circuit_step policy state (Outcome ok t) = (False, snd (record_outcome policy state ok t))"

fun circuit_run :: "circuit_policy \<Rightarrow> circuit_state \<Rightarrow> circuit_event list \<Rightarrow> nat \<times> circuit_state" where
  "circuit_run policy state [] = (0, state)"
| "circuit_run policy state (e # es) =
     (case circuit_step policy state e of (admitted, s) \<Rightarrow>
      case circuit_run policy s es of (n, s') \<Rightarrow> ((if admitted then n + 1 else n), s'))"

text \<open>The same at the map of all connectors' circuits.\<close>

definition programmatic_circuit_step ::
  "(string, circuit_policy) btree \<Rightarrow> string \<times> circuit_event \<Rightarrow> circuit_states \<Rightarrow> circuit_states" where
  "programmatic_circuit_step policies ce guard =
     (case ce of
        (c, Acquire t) \<Rightarrow> snd (acquire_programmatic_circuit_slot c policies guard [] None t)
      | (c, Outcome ok t) \<Rightarrow> snd (record_programmatic_circuit_outcome c ok policies guard t))"

definition programmatic_circuit_run ::
  "(string, circuit_policy) btree \<Rightarrow> (string \<times> circuit_event) list \<Rightarrow> circuit_states \<Rightarrow> circuit_states" where
  "programmatic_circuit_run policies ces guard = fold (programmatic_circuit_step policies) ces guard"

lemma circuit_entry_insert [simp]:
  "circuit_entry (bt_insert c s guard) d = (if d = c then s else circuit_entry guard d)"
  by (simp add: circuit_entry_def)

lemma programmatic_circuit_step_entry:
  assumes "bt_get policies d = Some policy"
  shows "circuit_entry (programmatic_circuit_step policies (c, e) guard) d =
    (if d = c then snd (circuit_step policy (circuit_entry guard d) e) else circuit_entry guard d)"
  using assms
  by (cases e; cases "bt_get policies c")
    (auto simp: programmatic_circuit_step_def acquire_programmatic_circuit_slot_def
      record_programmatic_circuit_outcome_def split: prod.splits)

lemma circuit_run_append:
  "circuit_run policy s (es @ fs) =
    (case circuit_run policy s es of (n, s1) \<Rightarrow>
     case circuit_run policy s1 fs of (m, s2) \<Rightarrow> (n + m, s2))"
  by (induction es arbitrary: s) (auto split: prod.splits)

text \<open>Connectors do not see each other's circuits.\<close>

lemma programmatic_circuit_run_entry:
  assumes "bt_get policies c = Some policy"
  shows "circuit_entry (programmatic_circuit_run policies ces guard) c =
    snd (circuit_run policy (circuit_entry guard c) (map snd (filter (\<lambda>(d, e). d = c) ces)))"
proof (induction ces arbitrary: guard)
  case Nil
  then show ?case by (simp add: programmatic_circuit_run_def)
next
  case (Cons ce ces)
  obtain d e where ce: "ce = (d, e)" by (cases ce)
  have "programmatic_circuit_run policies (ce # ces) guard =
      programmatic_circuit_run policies ces (programmatic_circuit_step policies (d, e) guard)"
    by (simp add: programmatic_circuit_run_def ce)
  with Cons.IH programmatic_circuit_step_entry [OF assms, of d e guard] show ?case
    by (simp add: ce split: prod.split)
qed

section \<open>An open circuit\<close>

lemma remaining_cooldown_positive:
  assumes "open_until s = Some d" and "t + ns_per_ms \<le> d"
  shows "\<exists>ms. remaining_cooldown_ms s t = Some ms \<and> ms > 0"
proof -
  define k where "k = min ((d - t) div ns_per_ms) (2 ^ 64 - 1)"
  have "ns_per_ms \<le> d - t" and "0 < ns_per_ms"
    using assms(2) by (simp_all add: ns_per_ms_def)
  then have "0 < (d - t) div ns_per_ms"
    by (simp add: div_greater_zero_iff)
  then have "0 < k" and "k < 2 ^ 64"
    by (simp_all add: k_def)
  then have "(of_nat k :: u64) \<noteq> 0"
    using u64_of_nat_inj [of k 0] by simp
  then have "(of_nat k :: u64) > 0"
    by (simp add: word_neq_0_conv)
  with assms show ?thesis
    by (simp add: remaining_cooldown_ms_def k_def ns_per_ms_def)
qed

lemma acquire_slot_open:
  assumes "cb_enabled policy" and "cs_phase s = CircuitOpen" and "open_until s = Some d"
    and "t + ns_per_ms \<le> d"
  shows "\<exists>ms. acquire_slot policy s t = (Inl (AcquireOpen ms), s)"
  using assms remaining_cooldown_positive [OF assms(3,4)] by (auto simp: acquire_slot_def)

lemma circuit_step_open:
  assumes "cb_enabled policy" and "cs_phase s = CircuitOpen" and "open_until s = Some d"
    and "event_time e + ns_per_ms \<le> d"
  shows "circuit_step policy s e = (False, s)"
proof (cases e)
  case (Acquire t)
  with acquire_slot_open [OF assms(1-3), of t] assms(4) show ?thesis by auto
next
  case (Outcome ok t)
  with assms show ?thesis by (simp add: record_outcome_def Let_def)
qed

lemma circuit_run_open:
  assumes "cb_enabled policy" and "cs_phase s = CircuitOpen" and "open_until s = Some d"
    and "\<forall>e \<in> set es. event_time e + ns_per_ms \<le> d"
  shows "circuit_run policy s es = (0, s)"
  using assms(4) by (induction es) (auto simp: circuit_step_open [OF assms(1-3)])

lemma circuit_step_opens:
  assumes "cs_phase s \<noteq> CircuitOpen" and "cs_phase (snd (circuit_step policy s e)) = CircuitOpen"
  shows "cb_enabled policy \<and>
    open_until (snd (circuit_step policy s e)) = Some (reopen_deadline policy (event_time e))"
  using assms
  by (cases e)
    (auto simp: acquire_slot_def half_open_slot_def record_outcome_def Let_def
      split: circuit_phase.splits if_splits)

text \<open>
  A tripped breaker keeps calls away: once the circuit of a connector opens, at time t, then
  whatever acquires and late outcomes follow, on this connector and on others, until a
  millisecond before the cooldown ends, its state does not move and every attempt to acquire a
  slot is refused.
\<close>
theorem open_circuit_admits_nothing:
  assumes "bt_get policies c = Some policy"
    and "cs_phase (circuit_entry guard c) \<noteq> CircuitOpen"
    and "guard' = programmatic_circuit_step policies (c, e) guard"
    and "cs_phase (circuit_entry guard' c) = CircuitOpen"
    and "deadline = event_time e + duration_from_millis (cooldown_ms policy)"
    and "\<forall>(d, e') \<in> set later. d = c \<longrightarrow> event_time e' + ns_per_ms \<le> deadline"
    and "now + ns_per_ms \<le> deadline"
  shows "circuit_entry (programmatic_circuit_run policies later guard') c = circuit_entry guard' c \<and>
    (\<exists>message. fst (acquire_programmatic_circuit_slot c policies
       (programmatic_circuit_run policies later guard') step_id call_id now) =
         Inl (programmatic_error CircuitOpenCode message))"
proof -
  let ?s = "circuit_entry guard' c"
  have s: "?s = snd (circuit_step policy (circuit_entry guard c) e)"
    using programmatic_circuit_step_entry [OF assms(1), of c e guard] assms(3) by simp
  then have en: "cb_enabled policy" and d: "open_until ?s = Some deadline"
    using circuit_step_opens [OF assms(2), of policy e] assms(4,5) by (auto simp: reopen_deadline_def)
  have "circuit_run policy ?s (map snd (filter (\<lambda>(d, e). d = c) later)) = (0, ?s)"
    by (rule circuit_run_open [OF en assms(4) d]) (use assms(6) in auto)
  then have keep: "circuit_entry (programmatic_circuit_run policies later guard') c = ?s"
    using programmatic_circuit_run_entry [OF assms(1), of later guard'] by simp
  obtain ms where "acquire_slot policy ?s now = (Inl (AcquireOpen ms), ?s)"
    using acquire_slot_open [OF en assms(4) d assms(7)] by auto
  with keep assms(1) show ?thesis
    by (auto simp: acquire_programmatic_circuit_slot_def)
qed

theorem open_circuit_admits_nothing_witness:
  "\<exists>message. fst (acquire_programmatic_circuit_slot ''crm'' [(''crm'', circuit_policy_default\<lparr>failure_threshold := 1\<rparr>)]
      (programmatic_circuit_run [(''crm'', circuit_policy_default\<lparr>failure_threshold := 1\<rparr>)]
        [(''crm'', Acquire 5), (''crm'', Outcome True 7)]
        (programmatic_circuit_step [(''crm'', circuit_policy_default\<lparr>failure_threshold := 1\<rparr>)]
           (''crm'', Outcome False 0) [])) ''s1'' None 999000000) =
    Inl (programmatic_error CircuitOpenCode message)"
proof -
  let ?p = "circuit_policy_default\<lparr>failure_threshold := 1\<rparr>"
  have "cs_phase (circuit_entry (programmatic_circuit_step [(''crm'', ?p)] (''crm'', Outcome False 0) []) ''crm'')
      = CircuitOpen"
    by (simp add: programmatic_circuit_step_def record_programmatic_circuit_outcome_def circuit_entry_def
        record_outcome_def circuit_default_def circuit_policy_default_def usize_saturating_add_def usize_max_def)
  moreover have "cs_phase (circuit_entry [] ''crm'') \<noteq> CircuitOpen"
    by (simp add: circuit_entry_def circuit_default_def)
  moreover have "duration_from_millis (cooldown_ms ?p) = 1000000000"
    by (simp add: duration_from_millis_def circuit_policy_default_def ns_per_ms_def)
  ultimately show ?thesis
    using open_circuit_admits_nothing [of "[(''crm'', ?p)]" "''crm''" ?p "[]"
        "programmatic_circuit_step [(''crm'', ?p)] (''crm'', Outcome False 0) []" "Outcome False 0"
        1000000000 "[(''crm'', Acquire 5), (''crm'', Outcome True 7)]" 999000000 "''s1''" None]
    by (simp add: ns_per_ms_def)
qed

section \<open>The probe window\<close>

lemma half_open_run:
  assumes "cb_enabled policy"
    and "\<forall>k \<le> length es. cs_phase (snd (circuit_run policy s (take k es))) = CircuitHalfOpen"
    and "circuit_run policy s es = (n, s')"
  shows "n + half_open_remaining_calls s' = half_open_remaining_calls s"
  using assms(2,3)
proof (induction es arbitrary: s n)
  case Nil
  then show ?case by simp
next
  case (Cons e es)
  obtain a s1 where step: "circuit_step policy s e = (a, s1)"
    by (cases "circuit_step policy s e")
  obtain m where run: "circuit_run policy s1 es = (m, s')" "n = (if a then m + 1 else m)"
    using Cons.prems(2) step by (auto split: prod.splits)
  have h0: "cs_phase s = CircuitHalfOpen"
    using Cons.prems(1) [rule_format, of 0] by simp
  have h: "\<forall>k \<le> length es. cs_phase (snd (circuit_run policy s1 (take k es))) = CircuitHalfOpen"
  proof (intro allI impI)
    fix k assume "k \<le> length es"
    with Cons.prems(1) [rule_format, of "Suc k"] step
    show "cs_phase (snd (circuit_run policy s1 (take k es))) = CircuitHalfOpen"
      by (simp split: prod.splits)
  qed
  then have h1: "cs_phase s1 = CircuitHalfOpen"
    by (metis circuit_run.simps(1) le0 snd_conv take0)
  have "m + half_open_remaining_calls s' = half_open_remaining_calls s1"
    by (rule Cons.IH [OF h run(1)])
  moreover have "half_open_remaining_calls s = (if a then 1 else 0) + half_open_remaining_calls s1"
    using step h0 h1 assms(1)
    by (cases e)
      (auto simp: acquire_slot_def half_open_slot_def record_outcome_def Let_def split: if_splits)
  ultimately show ?case
    using run(2) by simp
qed

text \<open>
  The probe window is bounded: when an acquire moves the circuit to half-open it takes the
  first probe slot, and as long as the circuit stays half-open, the calls admitted and the slots
  left add up to \<open>half_open_max_calls\<close>, however acquires and outcomes interleave.
\<close>
theorem half_open_window_is_bounded:
  assumes "cs_phase s \<noteq> CircuitHalfOpen"
    and "acquire_slot policy s t = (r, s1)" and "cs_phase s1 = CircuitHalfOpen"
    and "circuit_run policy s1 es = (n, s2)"
    and "\<forall>k \<le> length es. cs_phase (snd (circuit_run policy s1 (take k es))) = CircuitHalfOpen"
  shows "r = Inr ''half_open'' \<and> n + 1 + half_open_remaining_calls s2 = half_open_max_calls policy"
proof -
  have en: "cb_enabled policy"
    using assms(1-3) by (auto simp: acquire_slot_def split: if_splits)
  have "r = Inr ''half_open'' \<and> 1 + half_open_remaining_calls s1 = half_open_max_calls policy"
    using assms(1-3) en
    by (auto simp: acquire_slot_def half_open_slot_def enter_half_open_def
        split: if_splits option.splits)
  with half_open_run [OF en assms(5,4)] show ?thesis by simp
qed

lemmas probe_simps = acquire_slot_def half_open_slot_def enter_half_open_def record_outcome_def
  remaining_cooldown_ms_def circuit_default_def circuit_policy_default_def usize_saturating_add_def
  usize_max_def

theorem half_open_window_is_bounded_witness:
  "fst (circuit_run (circuit_policy_default\<lparr>half_open_max_calls := 3, success_threshold := 3\<rparr>)
      (snd (acquire_slot (circuit_policy_default\<lparr>half_open_max_calls := 3, success_threshold := 3\<rparr>)
         (circuit_default\<lparr>cs_phase := CircuitOpen, open_until := Some 9\<rparr>) 9))
      [Acquire 10, Outcome True 11]) + 1 + 1 = 3"
proof -
  let ?p = "circuit_policy_default\<lparr>half_open_max_calls := 3, success_threshold := 3\<rparr>"
  let ?s = "circuit_default\<lparr>cs_phase := CircuitOpen, open_until := Some 9\<rparr>"
  let ?s1 = "snd (acquire_slot ?p ?s 9)"
  let ?es = "[Acquire 10, Outcome True 11]"
  have 1: "cs_phase ?s \<noteq> CircuitHalfOpen" by simp
  have 2: "acquire_slot ?p ?s 9 = (fst (acquire_slot ?p ?s 9), ?s1)" by simp
  have 3: "cs_phase ?s1 = CircuitHalfOpen" by (simp add: probe_simps)
  have 4: "circuit_run ?p ?s1 ?es = (fst (circuit_run ?p ?s1 ?es), snd (circuit_run ?p ?s1 ?es))" by simp
  have 5: "\<forall>k \<in> {0, Suc 0, Suc (Suc 0)}. cs_phase (snd (circuit_run ?p ?s1 (take k ?es))) = CircuitHalfOpen"
    by (simp add: probe_simps)
  have 6: "\<forall>k \<le> length ?es. cs_phase (snd (circuit_run ?p ?s1 (take k ?es))) = CircuitHalfOpen"
  proof (intro allI impI)
    fix k assume "k \<le> length ?es"
    then have "k \<in> {0, Suc 0, Suc (Suc 0)}" by auto
    then show "cs_phase (snd (circuit_run ?p ?s1 (take k ?es))) = CircuitHalfOpen"
      by (rule 5 [rule_format])
  qed
  have 7: "half_open_remaining_calls (snd (circuit_run ?p ?s1 ?es)) = 1" by (simp add: probe_simps)
  have 8: "half_open_max_calls ?p = 3" by simp
  show ?thesis
    using half_open_window_is_bounded [OF 1 2 3 4 6] unfolding 7 8 by (rule conjunct2)
qed

section \<open>Tripping and recovery\<close>

definition validated :: "circuit_policy \<Rightarrow> bool" where
  "validated policy \<longleftrightarrow> cb_enabled policy \<and> validate_circuit_policy policy [] = Inr () \<and>
     failure_threshold policy \<le> usize_max \<and> half_open_max_calls policy \<le> usize_max"

lemma validatedD:
  assumes "validated p"
  shows "cb_enabled p" "0 < failure_threshold p" "failure_threshold p \<le> usize_max"
    "0 < success_threshold p" "success_threshold p \<le> half_open_max_calls p"
    "half_open_max_calls p \<le> usize_max"
  using assms by (auto simp: validated_def validate_circuit_policy_def split: if_splits)

text \<open>The failures since the last success.\<close>

fun trailing_failures :: "nat \<Rightarrow> circuit_event list \<Rightarrow> nat" where
  "trailing_failures n [] = n"
| "trailing_failures n (Acquire t # es) = trailing_failures n es"
| "trailing_failures n (Outcome ok t # es) = trailing_failures (if ok then 0 else n + 1) es"

fun acquires :: "circuit_event list \<Rightarrow> nat" where
  "acquires [] = 0"
| "acquires (Acquire t # es) = acquires es + 1"
| "acquires (Outcome ok t # es) = acquires es"

lemma circuit_run_closed:
  assumes "validated p" and "\<forall>k \<le> length es. trailing_failures n (take k es) < failure_threshold p"
  shows "circuit_run p (circuit_default\<lparr>consecutive_failures := n\<rparr>) es =
    (acquires es, circuit_default\<lparr>consecutive_failures := trailing_failures n es\<rparr>)"
  using assms(2)
proof (induction es arbitrary: n)
  case Nil
  then show ?case by simp
next
  case (Cons e es)
  have k: "trailing_failures n (e # take k es) < failure_threshold p" if "k \<le> length es" for k
    using Cons.prems [rule_format, of "Suc k"] that by simp
  show ?case
  proof (cases e)
    case (Acquire t)
    have "circuit_step p (circuit_default\<lparr>consecutive_failures := n\<rparr>) e =
        (True, circuit_default\<lparr>consecutive_failures := n\<rparr>)"
      using validatedD(1) [OF assms(1)]
      by (simp add: Acquire acquire_slot_def half_open_slot_def circuit_default_def)
    with Cons.IH [of n] k show ?thesis by (simp add: Acquire)
  next
    case (Outcome ok t)
    let ?m = "if ok then 0 else n + 1"
    have less: "?m < failure_threshold p"
      using k [of 0] by (simp add: Outcome)
    have "circuit_step p (circuit_default\<lparr>consecutive_failures := n\<rparr>) e =
        (False, circuit_default\<lparr>consecutive_failures := ?m\<rparr>)"
      using less validatedD(1,3) [OF assms(1)]
      by (cases ok) (simp_all add: Outcome record_outcome_def circuit_default_def Let_def)
    with Cons.IH [of ?m] k show ?thesis by (simp add: Outcome)
  qed
qed

text \<open>
  A closed circuit trips exactly at its threshold: from a fresh circuit, while fewer than
  \<open>failure_threshold\<close> outcomes in a row are failures, every acquire is admitted and the circuit
  stays closed; the failure that completes the row opens it for the cooldown.
\<close>
theorem circuit_trips_at_threshold:
  assumes "validated p"
    and "\<forall>k \<le> length es. trailing_failures 0 (take k es) < failure_threshold p"
    and "circuit_run p circuit_default es = (n, s)"
  shows "n = acquires es \<and> cs_phase s = CircuitClosed \<and>
    (let s' = snd (record_outcome p s False t) in
     if trailing_failures 0 es + 1 = failure_threshold p
     then cs_phase s' = CircuitOpen \<and> open_until s' = Some (t + duration_from_millis (cooldown_ms p))
     else cs_phase s' = CircuitClosed)"
proof -
  have fresh: "circuit_default\<lparr>consecutive_failures := 0\<rparr> = circuit_default"
    by (simp add: circuit_default_def)
  have "n = acquires es" and s: "s = circuit_default\<lparr>consecutive_failures := trailing_failures 0 es\<rparr>"
    using circuit_run_closed [OF assms(1,2)] assms(3) unfolding fresh by simp_all
  moreover have "trailing_failures 0 es < failure_threshold p"
    using assms(2) [rule_format, of "length es"] by simp
  ultimately show ?thesis
    using validatedD(1,3) [OF assms(1)]
    by (auto simp: record_outcome_def circuit_default_def Let_def reopen_deadline_def)
qed

lemma serial_probes:
  assumes "validated p" and "length probes + k = success_threshold p" and "probes \<noteq> []"
    and "cs_phase s = CircuitHalfOpen" and "half_open_successes s = k"
    and "half_open_remaining_calls s + k = half_open_max_calls p" and "open_until s = None"
  shows "circuit_run p s (concat (map (\<lambda>(a, b). [Acquire a, Outcome True b]) probes)) =
    (length probes, circuit_default)"
  using assms(2-7)
proof (induction probes arbitrary: s k)
  case Nil
  then show ?case by simp
next
  case (Cons ab probes)
  obtain a b where ab: "ab = (a, b)" by (cases ab)
  note p = validatedD [OF assms(1)]
  have pos: "half_open_remaining_calls s \<noteq> 0"
    using Cons.prems p(5) by auto
  let ?s1 = "s\<lparr>half_open_remaining_calls := half_open_remaining_calls s - 1\<rparr>"
  have acq: "circuit_step p s (Acquire a) = (True, ?s1)"
    using Cons.prems(3) p(1) pos by (simp add: acquire_slot_def half_open_slot_def)
  have bound: "k + 1 \<le> usize_max"
    using Cons.prems(1) p(5,6) by simp
  show ?case
  proof (cases "probes = []")
    case True
    with Cons.prems acq p(1) bound show ?thesis
      by (simp add: ab record_outcome_def Let_def circuit_default_def)
  next
    case False
    then have less: "k + 1 < success_threshold p"
      using Cons.prems(1) by (cases probes) simp_all
    let ?s2 = "?s1\<lparr>half_open_successes := k + 1\<rparr>"
    have rest: "half_open_remaining_calls s - 1 \<noteq> 0"
      using Cons.prems(5) less p(5) by auto
    have out: "circuit_step p ?s1 (Outcome True b) = (False, ?s2)"
      using Cons.prems(3,4) p(1) bound less rest by (simp add: record_outcome_def Let_def)
    have "circuit_run p ?s2 (concat (map (\<lambda>(a, b). [Acquire a, Outcome True b]) probes)) =
        (length probes, circuit_default)"
      by (rule Cons.IH [of "k + 1"]) (use Cons.prems False pos in auto)
    with acq out show ?thesis
      by (simp add: ab)
  qed
qed

text \<open>
  C26. A validated circuit recovers: once the cooldown has passed, \<open>success_threshold\<close> probes made
  one after the other that succeed are all admitted and leave the circuit closed, as fresh as a
  new one. (The check \<open>success_threshold <= half_open_max_calls\<close> is what makes this possible.)
\<close>
theorem validated_circuit_recovers:
  assumes "validated p" and "cs_phase s = CircuitOpen" and "open_until s = Some d"
    and "length probes = success_threshold p" and "d \<le> fst (hd probes)"
  shows "circuit_run p s (concat (map (\<lambda>(a, b). [Acquire a, Outcome True b]) probes)) =
    (success_threshold p, circuit_default)"
proof -
  note p = validatedD [OF assms(1)]
  obtain a b rest where probes: "probes = (a, b) # rest"
    using assms(4) p(4) by (cases probes) auto
  let ?h = "enter_half_open p s"
  have "acquire_slot p s a = acquire_slot p ?h a"
    using assms(2,3,5) p(1)
    by (simp add: acquire_slot_def remaining_cooldown_ms_def probes enter_half_open_def)
  then have "circuit_run p s (concat (map (\<lambda>(a, b). [Acquire a, Outcome True b]) probes)) =
      circuit_run p ?h (concat (map (\<lambda>(a, b). [Acquire a, Outcome True b]) probes))"
    by (simp add: probes)
  also have "\<dots> = (length probes, circuit_default)"
    by (rule serial_probes [OF assms(1)])
      (use assms(4) probes in \<open>auto simp: enter_half_open_def\<close>)
  finally show ?thesis using assms(4) by simp
qed

definition two_probe_policy :: circuit_policy where
  "two_probe_policy = \<lparr>cb_enabled = True, failure_threshold = 2, cooldown_ms = 1000,
     half_open_max_calls = 2, success_threshold = 2\<rparr>"

lemma two_probe_policy_validated: "validated two_probe_policy"
  by (simp add: validated_def two_probe_policy_def validate_circuit_policy_def usize_max_def)

theorem circuit_trips_at_threshold_witness:
  "acquires [Acquire 1, Outcome False 2, Acquire 3] = 2 \<and>
   cs_phase (snd (record_outcome two_probe_policy
     (snd (circuit_run two_probe_policy circuit_default [Acquire 1, Outcome False 2, Acquire 3])) False 4)) = CircuitOpen"
proof -
  let ?es = "[Acquire 1, Outcome False 2, Acquire 3]"
  obtain n s where r: "circuit_run two_probe_policy circuit_default ?es = (n, s)"
    by (cases "circuit_run two_probe_policy circuit_default ?es")
  have "\<forall>k \<le> length ?es. trailing_failures 0 (take k ?es) < failure_threshold two_probe_policy"
  proof (intro allI impI)
    fix k assume "k \<le> length ?es"
    then have "k \<in> {0, Suc 0, Suc (Suc 0), Suc (Suc (Suc 0))}" by auto
    then show "trailing_failures 0 (take k ?es) < failure_threshold two_probe_policy"
      by (auto simp: two_probe_policy_def)
  qed
  from circuit_trips_at_threshold [OF two_probe_policy_validated this r, of 4] r show ?thesis
    by (simp add: two_probe_policy_def Let_def)
qed

theorem validated_circuit_recovers_witness:
  "circuit_run two_probe_policy (circuit_default\<lparr>cs_phase := CircuitOpen, open_until := Some 9\<rparr>)
     [Acquire 9, Outcome True 10, Acquire 11, Outcome True 12] = (2, circuit_default)"
  using validated_circuit_recovers [OF two_probe_policy_validated,
      of "circuit_default\<lparr>cs_phase := CircuitOpen, open_until := Some 9\<rparr>" 9 "[(9, 10), (11, 12)]"]
  by (simp add: two_probe_policy_def)

text \<open>
  Probes that overlap can keep a healthy circuit open: with two probe slots and a success
  threshold of two, two probes acquired before either reports and then both succeeding leave the
  circuit open again for a full cooldown, where the same two probes one after the other close it.
\<close>
theorem overlapping_probes_reopen_circuit:
  "(let s = circuit_default\<lparr>cs_phase := CircuitOpen, open_until := Some 9\<rparr>;
        (n, s') = circuit_run two_probe_policy s [Acquire 9, Acquire 10, Outcome True 11, Outcome True 12] in
    n = 2 \<and> cs_phase s' = CircuitOpen \<and>
    open_until s' = Some (11 + duration_from_millis (cooldown_ms two_probe_policy))) \<and>
   snd (circuit_run two_probe_policy (circuit_default\<lparr>cs_phase := CircuitOpen, open_until := Some 9\<rparr>)
     [Acquire 9, Outcome True 11, Acquire 11, Outcome True 12]) = circuit_default"
  by (simp add: probe_simps two_probe_policy_def reopen_deadline_def Let_def)

end
