(* ===== verification/Batch_Scheduler.thy ===== *)
theory Batch_Scheduler
  imports Connector_Circuit "HOL-Library.Multiset"
begin

text \<open>
  The scheduler of a programmatic batch (crates/spec/src/programmatic.rs): calls are grouped by
  priority class, taken in round-robin order, and run with a budget of calls in flight that
  adapts to failures. The invocation of a connector is the environment: the order in which calls
  in flight complete and their results are arguments. A call's retry policy, capabilities and
  payload only pass through to its invocation and are its \<open>pc_request\<close>.
\<close>

datatype priority_class = High | Normal | Low

fun priority_rank :: "priority_class \<Rightarrow> nat" where
  "priority_rank High = 0" | "priority_rank Normal = 1" | "priority_rank Low = 2"

lemma priority_rank_inj: "priority_rank a = priority_rank b \<longleftrightarrow> a = b"
  by (cases a; cases b) simp_all

instantiation priority_class :: linorder
begin

definition less_eq_priority_class :: "priority_class \<Rightarrow> priority_class \<Rightarrow> bool" where
  "less_eq_priority_class a b \<longleftrightarrow> priority_rank a \<le> priority_rank b"

definition less_priority_class :: "priority_class \<Rightarrow> priority_class \<Rightarrow> bool" where
  "less_priority_class a b \<longleftrightarrow> priority_rank a < priority_rank b"

instance
  by standard (auto simp: less_eq_priority_class_def less_priority_class_def priority_rank_inj)

end

fun priority_str :: "priority_class \<Rightarrow> string" where
  "priority_str High = ''high''" | "priority_str Normal = ''normal''" | "priority_str Low = ''low''"

datatype fairness_policy = StrictRoundRobin | WeightedRoundRobin

fun fairness_str :: "fairness_policy \<Rightarrow> string" where
  "fairness_str StrictRoundRobin = ''strict_round_robin''"
| "fairness_str WeightedRoundRobin = ''weighted_round_robin''"

datatype adaptive_reduce_on =
    AnyError | OnConnectorExecutionError | OnCircuitOpen | OnConnectorNotFound
  | OnConnectorNotAllowed | OnCapabilityDenied | OnPolicyDenied

fun reduce_on_str :: "adaptive_reduce_on \<Rightarrow> string" where
  "reduce_on_str AnyError = ''any_error''"
| "reduce_on_str OnConnectorExecutionError = ''connector_execution_error''"
| "reduce_on_str OnCircuitOpen = ''circuit_open''"
| "reduce_on_str OnConnectorNotFound = ''connector_not_found''"
| "reduce_on_str OnConnectorNotAllowed = ''connector_not_allowed''"
| "reduce_on_str OnCapabilityDenied = ''capability_denied''"
| "reduce_on_str OnPolicyDenied = ''policy_denied''"

text \<open>The trigger set is a \<open>BTreeSet\<close>, kept as the list of its elements in order.\<close>

record concurrency_policy =
  max_in_flight :: usize
  min_in_flight :: usize
  cp_fairness :: fairness_policy
  adaptive_budget :: bool
  high_weight :: usize
  normal_weight :: usize
  low_weight :: usize
  adaptive_recovery_successes :: usize
  adaptive_upshift_step :: usize
  adaptive_downshift_step :: usize
  adaptive_reduce_triggers :: "adaptive_reduce_on list"

definition concurrency_policy_default :: concurrency_policy where
  "concurrency_policy_default = \<lparr>max_in_flight = 4, min_in_flight = 1, cp_fairness = WeightedRoundRobin,
     adaptive_budget = True, high_weight = 4, normal_weight = 2, low_weight = 1,
     adaptive_recovery_successes = 2, adaptive_upshift_step = 1, adaptive_downshift_step = 1,
     adaptive_reduce_triggers = [OnConnectorExecutionError, OnCircuitOpen]\<rparr>"

definition validate_concurrency_policy :: "concurrency_policy \<Rightarrow> string + unit" where
  "validate_concurrency_policy c =
     (if max_in_flight c = 0 then
        Inl (programmatic_error InvalidSpec
          ''programmatic concurrency.max_in_flight must be greater than 0'')
      else if min_in_flight c = 0 then
        Inl (programmatic_error InvalidSpec
          ''programmatic concurrency.min_in_flight must be greater than 0'')
      else if min_in_flight c > max_in_flight c then
        Inl (programmatic_error InvalidSpec
          ''programmatic concurrency.min_in_flight must be <= max_in_flight'')
      else if high_weight c = 0 \<or> normal_weight c = 0 \<or> low_weight c = 0 then
        Inl (programmatic_error InvalidSpec
          ''programmatic concurrency priority weights must all be greater than 0'')
      else if adaptive_upshift_step c = 0 \<or> adaptive_downshift_step c = 0 then
        Inl (programmatic_error InvalidSpec
          ''programmatic concurrency adaptive_upshift_step and adaptive_downshift_step must be greater than 0'')
      else if adaptive_budget c \<and> adaptive_recovery_successes c = 0 then
        Inl (programmatic_error InvalidSpec
          ''programmatic concurrency.adaptive_recovery_successes must be greater than 0 when adaptive_budget is enabled'')
      else if adaptive_budget c \<and> adaptive_reduce_triggers c = [] then
        Inl (programmatic_error InvalidSpec
          ''programmatic concurrency.adaptive_reduce_on must include at least one trigger when adaptive_budget is enabled'')
      else Inr ())"

definition contains_text :: "string \<Rightarrow> string \<Rightarrow> bool" where
  "contains_text s t \<longleftrightarrow> sublist t s"

definition classify_connector_error_code :: "string \<Rightarrow> string" where
  "classify_connector_error_code err =
     (let normalized = to_ascii_lowercase err in
      if contains_text normalized ''programmatic_error[circuit_open]'' then ''circuit_open''
      else if contains_text normalized ''connector not found'' \<or>
              contains_text normalized ''core connector adapter not found'' then ''connector_not_found''
      else if contains_text normalized ''not allowed'' then ''connector_not_allowed''
      else if contains_text normalized ''missing required capability'' then ''capability_denied''
      else if contains_text normalized ''policy denied'' then ''policy_denied''
      else ''connector_execution_error'')"

definition should_reduce_budget :: "concurrency_policy \<Rightarrow> string \<Rightarrow> bool" where
  "should_reduce_budget c error_code =
     (let triggers = adaptive_reduce_triggers c in
      if AnyError \<in> set triggers then True
      else if error_code = ''connector_execution_error'' then OnConnectorExecutionError \<in> set triggers
      else if error_code = ''circuit_open'' then OnCircuitOpen \<in> set triggers
      else if error_code = ''connector_not_found'' then OnConnectorNotFound \<in> set triggers
      else if error_code = ''connector_not_allowed'' then OnConnectorNotAllowed \<in> set triggers
      else if error_code = ''capability_denied'' then OnCapabilityDenied \<in> set triggers
      else if error_code = ''policy_denied'' then OnPolicyDenied \<in> set triggers
      else False)"

section \<open>The queues\<close>

record 'j prepared_call =
  pc_call_id :: string
  pc_connector_name :: string
  pc_operation :: string
  pc_priority_class :: priority_class
  pc_request :: 'j

type_synonym 'j pending_calls = "(priority_class, 'j prepared_call list) btree"

definition group_calls :: "'j prepared_call list \<Rightarrow> 'j pending_calls" where
  "group_calls calls =
     fold (\<lambda>call grouped.
         bt_insert (pc_priority_class call)
           ((case bt_get grouped (pc_priority_class call) of Some q \<Rightarrow> q | None \<Rightarrow> []) @ [call]) grouped)
       calls [(High, []), (Normal, []), (Low, [])]"

definition has_pending_calls :: "'j pending_calls \<Rightarrow> bool" where
  "has_pending_calls grouped \<longleftrightarrow> list_ex (\<lambda>q. q \<noteq> []) (bt_values grouped)"

definition pending_call_count :: "'j pending_calls \<Rightarrow> usize" where
  "pending_call_count grouped = sum_list (map length (bt_values grouped))"

definition weighted_cycle :: "concurrency_policy \<Rightarrow> priority_class list" where
  "weighted_cycle c =
     replicate (max (high_weight c) 1) High @ replicate (max (normal_weight c) 1) Normal @
     replicate (max (low_weight c) 1) Low"

text \<open>\<open>grouped.get_mut(&priority).and_then(VecDeque::pop_front)\<close>.\<close>

definition pop_class ::
  "'j pending_calls \<Rightarrow> priority_class \<Rightarrow> ('j prepared_call \<times> 'j pending_calls) option" where
  "pop_class grouped p =
     (case bt_get grouped p of
        Some (call # q) \<Rightarrow> Some (call, bt_insert p q grouped)
      | _ \<Rightarrow> None)"

fun pop_scan ::
  "priority_class list \<Rightarrow> usize \<Rightarrow> usize list \<Rightarrow> 'j pending_calls
    \<Rightarrow> ('j prepared_call \<times> 'j pending_calls \<times> usize) option" where
  "pop_scan cycle cursor [] grouped = None"
| "pop_scan cycle cursor (offset # offsets) grouped =
     (let index = usize_saturating_add cursor offset mod length cycle in
      if index < length cycle
      then (case pop_class grouped (cycle ! index) of
              Some (call, grouped') \<Rightarrow> Some (call, grouped', (index + 1) mod length cycle)
            | None \<Rightarrow> pop_scan cycle cursor offsets grouped)
      else pop_scan cycle cursor offsets grouped)"

definition strict_order :: "priority_class list" where
  "strict_order = [High, Normal, Low]"

definition pop_next_call ::
  "fairness_policy \<Rightarrow> priority_class list \<Rightarrow> usize \<Rightarrow> 'j pending_calls
    \<Rightarrow> ('j prepared_call \<times> 'j pending_calls \<times> usize) option" where
  "pop_next_call fairness cycle cursor grouped =
     (case fairness of
        StrictRoundRobin \<Rightarrow> pop_scan strict_order cursor [0..<length strict_order] grouped
      | WeightedRoundRobin \<Rightarrow>
          if cycle = []
          then (case pop_class grouped Normal of
                  Some (call, grouped') \<Rightarrow> Some (call, grouped', cursor)
                | None \<Rightarrow> None)
          else pop_scan cycle cursor [0..<length cycle] grouped)"

section \<open>The batch\<close>

datatype ('o, 'm) dispatch_result = Dispatched string 'o 'm | DispatchFailed string

datatype ('o, 'm) call_report =
    ReportOk string string string 'o 'm
  | ReportError string string string string string

record batch_summary =
  bs_mode :: string
  bs_fairness :: string
  bs_adaptive_budget :: bool
  configured_max_in_flight :: usize
  configured_min_in_flight :: usize
  peak_in_flight :: usize
  final_in_flight_budget :: usize
  budget_reductions :: usize
  budget_increases :: usize
  bs_upshift_step :: usize
  bs_downshift_step :: usize
  bs_reduce_on :: "string list"
  scheduler_wait_cycles :: usize
  dispatch_order :: "string list"
  priority_dispatch_counts :: "(string, usize) btree"

record ('j, 'o, 'm) batch_state =
  ba_pending :: "'j pending_calls"
  ba_cursor :: usize
  ba_inflight :: "'j prepared_call list"
  ba_budget :: usize
  ba_successes :: usize
  ba_reports :: "(string, ('o, 'm) call_report) btree"
  ba_first_error :: "string option"
  ba_summary :: batch_summary

definition summary_start :: "concurrency_policy \<Rightarrow> bool \<Rightarrow> batch_summary" where
  "summary_start c parallel_mode =
     \<lparr>bs_mode = (if parallel_mode then ''parallel'' else ''serial''),
      bs_fairness = fairness_str (cp_fairness c),
      bs_adaptive_budget = (parallel_mode \<and> adaptive_budget c),
      configured_max_in_flight = max_in_flight c, configured_min_in_flight = min_in_flight c,
      peak_in_flight = 0, final_in_flight_budget = 1, budget_reductions = 0, budget_increases = 0,
      bs_upshift_step = adaptive_upshift_step c, bs_downshift_step = adaptive_downshift_step c,
      bs_reduce_on = map reduce_on_str (adaptive_reduce_triggers c), scheduler_wait_cycles = 0,
      dispatch_order = [],
      priority_dispatch_counts = [(''high'', 0), (''low'', 0), (''normal'', 0)]\<rparr>"

definition count_dispatch :: "'j prepared_call \<Rightarrow> batch_summary \<Rightarrow> batch_summary" where
  "count_dispatch call s =
     s\<lparr>dispatch_order := dispatch_order s @ [pc_call_id call],
       priority_dispatch_counts :=
         (case bt_get (priority_dispatch_counts s) (priority_str (pc_priority_class call)) of
            Some n \<Rightarrow> bt_insert (priority_str (pc_priority_class call)) (usize_saturating_add n 1)
                        (priority_dispatch_counts s)
          | None \<Rightarrow> priority_dispatch_counts s)\<rparr>"

text \<open>The inner loop: fill the budget.\<close>

function dispatch_calls ::
  "concurrency_policy \<Rightarrow> ('j, 'o, 'm) batch_state \<Rightarrow> ('j, 'o, 'm) batch_state" where
  "dispatch_calls c st =
     (if length (ba_inflight st) < ba_budget st
      then (case pop_next_call (cp_fairness c) (weighted_cycle c) (ba_cursor st) (ba_pending st) of
              None \<Rightarrow> st
            | Some (call, grouped, cursor) \<Rightarrow>
                (let inflight = ba_inflight st @ [call];
                     summary = count_dispatch call (ba_summary st) in
                 dispatch_calls c
                   (st\<lparr>ba_pending := grouped, ba_cursor := cursor, ba_inflight := inflight,
                       ba_summary := summary\<lparr>peak_in_flight := max (peak_in_flight summary) (length inflight)\<rparr>\<rparr>)))
      else st)"
  by pat_completeness auto
termination
  by (relation "measure (\<lambda>(c, st). ba_budget st - length (ba_inflight st))") auto

declare dispatch_calls.simps [simp del]

text \<open>The budget after a completed call.\<close>

definition adapt_budget ::
  "concurrency_policy \<Rightarrow> string option \<Rightarrow> ('j, 'o, 'm) batch_state \<Rightarrow> ('j, 'o, 'm) batch_state" where
  "adapt_budget c failure st =
     (if \<not> bs_adaptive_budget (ba_summary st) then st
      else case failure of
        None \<Rightarrow>
          (let successes = usize_saturating_add (ba_successes st) 1 in
           if ba_budget st < max_in_flight c \<and> successes \<ge> adaptive_recovery_successes c
           then st\<lparr>ba_budget := min (usize_saturating_add (ba_budget st) (adaptive_upshift_step c)) (max_in_flight c),
                   ba_successes := 0,
                   ba_summary := (ba_summary st)\<lparr>budget_increases :=
                     usize_saturating_add (budget_increases (ba_summary st)) 1\<rparr>\<rparr>
           else st\<lparr>ba_successes := successes\<rparr>)
      | Some error_code \<Rightarrow>
          (let st0 = st\<lparr>ba_successes := 0\<rparr> in
           if should_reduce_budget c error_code \<and> ba_budget st0 > min_in_flight c
           then st0\<lparr>ba_budget := max (ba_budget st0 - adaptive_downshift_step c) (min_in_flight c),
                    ba_summary := (ba_summary st0)\<lparr>budget_reductions :=
                      usize_saturating_add (budget_reductions (ba_summary st0)) 1\<rparr>\<rparr>
           else st0))"

definition batch_call_failed :: "string \<Rightarrow> string \<Rightarrow> string \<Rightarrow> string" where
  "batch_call_failed step_id call_id err =
     programmatic_error ConnectorInvokeFailed
       (''programmatic batch step '' @ step_id @ '' call '' @ call_id @ '' failed: '' @ err)"

fun call_report_of :: "'j prepared_call \<Rightarrow> ('o, 'm) dispatch_result \<Rightarrow> ('o, 'm) call_report" where
  "call_report_of call (Dispatched connector outcome metrics) =
     ReportOk (pc_call_id call) connector (pc_operation call) outcome metrics"
| "call_report_of call (DispatchFailed err) =
     ReportError (pc_call_id call) (pc_connector_name call) (pc_operation call) err
       (classify_connector_error_code err)"

text \<open>\<open>inflight.next().await\<close> yields the call at position \<open>i\<close> with its result.\<close>

definition complete_call ::
  "concurrency_policy \<Rightarrow> string \<Rightarrow> nat \<Rightarrow> ('o, 'm) dispatch_result
    \<Rightarrow> ('j, 'o, 'm) batch_state \<Rightarrow> ('j, 'o, 'm) batch_state" where
  "complete_call c step_id i result st =
     (let call = ba_inflight st ! i;
          st1 = st\<lparr>ba_inflight := take i (ba_inflight st) @ drop (Suc i) (ba_inflight st),
                   ba_reports := bt_insert (pc_call_id call) (call_report_of call result) (ba_reports st)\<rparr>;
          st2 = (case result of
                   Dispatched _ _ _ \<Rightarrow> st1
                 | DispatchFailed err \<Rightarrow>
                     (case ba_first_error st1 of
                        None \<Rightarrow> st1\<lparr>ba_first_error := Some (batch_call_failed step_id (pc_call_id call) err)\<rparr>
                      | Some _ \<Rightarrow> st1));
          st3 = adapt_budget c
                  (case result of Dispatched _ _ _ \<Rightarrow> None
                   | DispatchFailed err \<Rightarrow> Some (classify_connector_error_code err)) st2
      in st3\<lparr>ba_summary := (ba_summary st3)\<lparr>final_in_flight_budget := ba_budget st3\<rparr>\<rparr>)"

definition count_wait :: "usize \<Rightarrow> ('j, 'o, 'm) batch_state \<Rightarrow> ('j, 'o, 'm) batch_state" where
  "count_wait pending_before st =
     (if pending_before > 0 \<and> length (ba_inflight st) \<ge> ba_budget st
      then st\<lparr>ba_summary := (ba_summary st)\<lparr>scheduler_wait_cycles :=
             usize_saturating_add (scheduler_wait_cycles (ba_summary st)) 1\<rparr>\<rparr>
      else st)"

text \<open>
  The outer loop. The environment supplies the completions: which call in flight (its position,
  modulo their number) and its result. Without a further completion the loop waits, which is
  \<open>None\<close>.
\<close>

fun batch_loop ::
  "concurrency_policy \<Rightarrow> string \<Rightarrow> (nat \<times> ('o, 'm) dispatch_result) list
    \<Rightarrow> ('j, 'o, 'm) batch_state \<Rightarrow> ('j, 'o, 'm) batch_state option" where
  "batch_loop c step_id completions st =
     (if \<not> has_pending_calls (ba_pending st) \<and> ba_inflight st = [] then Some st
      else
        let pending_before = pending_call_count (ba_pending st);
            st1 = dispatch_calls c st in
        if ba_inflight st1 = [] then Some st1
        else case completions of
          [] \<Rightarrow> None
        | (i, result) # rest \<Rightarrow>
            batch_loop c step_id rest
              (complete_call c step_id (i mod length (ba_inflight st1)) result (count_wait pending_before st1)))"

declare batch_loop.simps [simp del]

definition batch_start ::
  "concurrency_policy \<Rightarrow> 'j prepared_call list \<Rightarrow> ('j, 'o, 'm) batch_state" where
  "batch_start c calls =
     \<lparr>ba_pending = group_calls calls, ba_cursor = 0, ba_inflight = [], ba_budget = max_in_flight c,
      ba_successes = 0, ba_reports = [], ba_first_error = None,
      ba_summary = (summary_start c True)\<lparr>final_in_flight_budget := max_in_flight c\<rparr>\<rparr>"

text \<open>The serial loop: one result per call; an error ends it unless the step continues on error.\<close>

fun serial_loop ::
  "string \<Rightarrow> bool \<Rightarrow> ('j prepared_call \<times> ('o, 'm) dispatch_result) list
    \<Rightarrow> (string, ('o, 'm) call_report) btree \<Rightarrow> batch_summary
    \<Rightarrow> string + ((string, ('o, 'm) call_report) btree \<times> batch_summary)" where
  "serial_loop step_id continue_on_error [] reports s = Inr (reports, s)"
| "serial_loop step_id continue_on_error ((call, result) # rest) reports s =
     (let s1 = (count_dispatch call s)\<lparr>peak_in_flight := 1\<rparr> in
      case result of
        DispatchFailed err \<Rightarrow>
          if \<not> continue_on_error then Inl (batch_call_failed step_id (pc_call_id call) err)
          else serial_loop step_id continue_on_error rest
                 (bt_insert (pc_call_id call) (call_report_of call result) reports) s1
      | Dispatched _ _ _ \<Rightarrow>
          serial_loop step_id continue_on_error rest
            (bt_insert (pc_call_id call) (call_report_of call result) reports) s1)"

definition reports_in_order ::
  "string list \<Rightarrow> (string, ('o, 'm) call_report) btree \<Rightarrow> ('o, 'm) call_report list" where
  "reports_in_order call_order reports = List.map_filter (bt_get reports) call_order"

definition execute_batch_calls ::
  "concurrency_policy \<Rightarrow> string \<Rightarrow> bool \<Rightarrow> bool \<Rightarrow> 'j prepared_call list
    \<Rightarrow> (nat \<times> ('o, 'm) dispatch_result) list
    \<Rightarrow> (string + (('o, 'm) call_report list \<times> batch_summary)) option" where
  "execute_batch_calls c step_id parallel_step continue_on_error calls completions =
     (let call_order = map pc_call_id calls in
      if parallel_step \<and> length calls > 1
      then (case batch_loop c step_id completions (batch_start c calls) of
              None \<Rightarrow> None
            | Some st \<Rightarrow>
                (case (ba_first_error st, continue_on_error) of
                   (Some err, False) \<Rightarrow> Some (Inl err)
                 | _ \<Rightarrow> Some (Inr (reports_in_order call_order (ba_reports st), ba_summary st))))
      else if length completions < length calls then None
      else (case serial_loop step_id continue_on_error (zip calls (map snd completions)) []
                   (summary_start c False) of
              Inl err \<Rightarrow> Some (Inl err)
            | Inr (reports, s) \<Rightarrow>
                Some (Inr (reports_in_order call_order reports, s\<lparr>final_in_flight_budget := 1\<rparr>))))"

section \<open>Grouping and popping\<close>

definition queue_of :: "'j pending_calls \<Rightarrow> priority_class \<Rightarrow> 'j prepared_call list" where
  "queue_of grouped p = (case bt_get grouped p of Some q \<Rightarrow> q | None \<Rightarrow> [])"

text \<open>Three queues, in class order, each holding calls of its class.\<close>

definition pending_wf :: "'j pending_calls \<Rightarrow> bool" where
  "pending_wf grouped \<longleftrightarrow> bt_keys grouped = [High, Normal, Low] \<and>
     (\<forall>p. \<forall>call \<in> set (queue_of grouped p). pc_priority_class call = p)"

definition all_pending :: "'j pending_calls \<Rightarrow> 'j prepared_call list" where
  "all_pending grouped = concat (bt_values grouped)"

lemma three_classes: "p = High \<or> p = Normal \<or> p = Low"
  by (cases p) auto

lemma pending_shape:
  assumes "bt_keys grouped = [High, Normal, Low]"
  obtains h n l where "grouped = [(High, h), (Normal, n), (Low, l)]"
  using assms by (auto simp: bt_keys_def map_eq_Cons_conv)

lemma class_less [simp]:
  "High < Normal" "High < Low" "Normal < Low" "\<not> Normal < High" "\<not> Low < High" "\<not> Low < Normal"
  by (simp_all add: less_priority_class_def)

lemma bt_insert_class:
  assumes "bt_keys grouped = [High, Normal, Low]"
  shows "bt_keys (bt_insert p q grouped) = [High, Normal, Low]"
    and "queue_of (bt_insert p q grouped) p' = (if p' = p then q else queue_of grouped p')"
    and "mset (all_pending (bt_insert p q grouped)) + mset (queue_of grouped p) =
      mset (all_pending grouped) + mset q"
proof -
  obtain h n l where g: "grouped = [(High, h), (Normal, n), (Low, l)]"
    using assms by (rule pending_shape)
  show "bt_keys (bt_insert p q grouped) = [High, Normal, Low]"
    unfolding g by (cases p) (simp_all add: bt_keys_def)
  show "queue_of (bt_insert p q grouped) p' = (if p' = p then q else queue_of grouped p')"
    by (simp add: queue_of_def)
  show "mset (all_pending (bt_insert p q grouped)) + mset (queue_of grouped p) =
      mset (all_pending grouped) + mset q"
    unfolding g by (cases p) (simp_all add: all_pending_def queue_of_def bt_values_def ac_simps)
qed

lemma pending_wf_insert:
  assumes "pending_wf grouped" and "\<forall>call \<in> set q. pc_priority_class call = p"
  shows "pending_wf (bt_insert p q grouped)"
  using assms bt_insert_class(1,2) [of grouped p q] by (auto simp: pending_wf_def)

lemma group_calls_wf:
  "pending_wf (group_calls calls) \<and> mset (all_pending (group_calls calls)) = mset calls"
proof (induction calls rule: rev_induct)
  case Nil
  then show ?case
    by (simp add: group_calls_def pending_wf_def bt_keys_def queue_of_def all_pending_def bt_values_def)
next
  case (snoc call calls)
  let ?g = "group_calls calls" and ?p = "pc_priority_class call"
  have g: "group_calls (calls @ [call]) = bt_insert ?p (queue_of ?g ?p @ [call]) ?g"
    by (simp add: group_calls_def queue_of_def)
  have keys: "bt_keys ?g = [High, Normal, Low]"
    using snoc by (simp add: pending_wf_def)
  have "pending_wf (bt_insert ?p (queue_of ?g ?p @ [call]) ?g)"
    by (rule pending_wf_insert) (use snoc in \<open>auto simp: pending_wf_def\<close>)
  moreover have "mset (all_pending (bt_insert ?p (queue_of ?g ?p @ [call]) ?g)) = mset (calls @ [call])"
    using bt_insert_class(3) [OF keys, of ?p "queue_of ?g ?p @ [call]"] snoc by simp
  ultimately show ?case
    unfolding g by simp
qed

lemma has_pending_iff: "has_pending_calls grouped \<longleftrightarrow> all_pending grouped \<noteq> []"
  by (auto simp: has_pending_calls_def all_pending_def list_ex_iff)

lemma pending_wf_member:
  assumes "pending_wf grouped" and "call \<in> set (all_pending grouped)"
  shows "call \<in> set (queue_of grouped (pc_priority_class call))"
proof -
  have keys: "bt_keys grouped = [High, Normal, Low]"
    using assms(1) by (simp add: pending_wf_def)
  obtain h n l where g: "grouped = [(High, h), (Normal, n), (Low, l)]"
    using keys by (rule pending_shape)
  then have q: "queue_of grouped High = h" "queue_of grouped Normal = n" "queue_of grouped Low = l"
    by (simp_all add: queue_of_def)
  have "call \<in> set h \<or> call \<in> set n \<or> call \<in> set l"
    using assms(2) by (simp add: g all_pending_def bt_values_def)
  then show ?thesis
    using assms(1) q unfolding pending_wf_def by metis
qed

definition fair_cycle :: "concurrency_policy \<Rightarrow> priority_class list" where
  "fair_cycle c = (case cp_fairness c of StrictRoundRobin \<Rightarrow> strict_order | WeightedRoundRobin \<Rightarrow> weighted_cycle c)"

text \<open>A \<open>Vec\<close> holds at most \<open>isize::MAX\<close> bytes.\<close>

definition cycle_fits :: "concurrency_policy \<Rightarrow> bool" where
  "cycle_fits c \<longleftrightarrow> 2 * length (fair_cycle c) \<le> usize_max"

lemma fair_cycle_classes [simp]: "set (fair_cycle c) = {High, Normal, Low}"
  by (cases "cp_fairness c") (auto simp: fair_cycle_def strict_order_def weighted_cycle_def)

lemma fair_cycle_not_Nil [simp]: "fair_cycle c \<noteq> []"
  using fair_cycle_classes [of c] by force

lemma pop_next_call_scan:
  "pop_next_call (cp_fairness c) (weighted_cycle c) cursor grouped =
    pop_scan (fair_cycle c) cursor [0..<length (fair_cycle c)] grouped"
  by (cases "cp_fairness c") (simp_all add: pop_next_call_def fair_cycle_def weighted_cycle_def)

definition take_call ::
  "priority_class list \<Rightarrow> 'j pending_calls \<Rightarrow> usize \<Rightarrow> 'j prepared_call \<times> 'j pending_calls \<times> usize" where
  "take_call cycle grouped i =
     (let p = cycle ! i; q = queue_of grouped p in
      (hd q, bt_insert p (tl q) grouped, (i + 1) mod length cycle))"

lemma pop_class_queue:
  "pop_class grouped p =
    (if queue_of grouped p = [] then None
     else Some (hd (queue_of grouped p), bt_insert p (tl (queue_of grouped p)) grouped))"
  by (auto simp: pop_class_def queue_of_def split: option.splits list.splits)

lemma pop_scan_find:
  assumes "cycle \<noteq> []" and "\<forall>k \<in> set offsets. cursor + k \<le> usize_max"
  shows "pop_scan cycle cursor offsets grouped =
    map_option (\<lambda>k. take_call cycle grouped ((cursor + k) mod length cycle))
      (find (\<lambda>k. queue_of grouped (cycle ! ((cursor + k) mod length cycle)) \<noteq> []) offsets)"
  using assms(2)
proof (induction offsets)
  case Nil
  then show ?case by simp
next
  case (Cons k offsets)
  have "(cursor + k) mod length cycle < length cycle"
    using assms(1) by simp
  with Cons show ?case
    by (simp add: pop_class_queue take_call_def Let_def)
qed

lemma mod_reaches:
  fixes i n cursor :: nat
  assumes "i < n" and "cursor < n"
  shows "\<exists>k < n. (cursor + k) mod n = i"
proof (cases "cursor \<le> i")
  case True
  with assms have "i - cursor < n" and "(cursor + (i - cursor)) mod n = i" by simp_all
  then show ?thesis by blast
next
  case False
  with assms have "n - cursor + i < n" and "(cursor + (n - cursor + i)) mod n = i" by simp_all
  then show ?thesis by blast
qed

text \<open>What a pop does: it fails only when nothing is pending, and otherwise takes the head of the
  first non-empty class at or after the cursor.\<close>

lemma pop_next_call_cases [consumes 3, case_names Nothing Popped]:
  assumes "cycle_fits c" and "pending_wf grouped" and "cursor < length (fair_cycle c)"
  obtains (Nothing) "pop_next_call (cp_fairness c) (weighted_cycle c) cursor grouped = None"
      "all_pending grouped = []"
    | (Popped) k where
      "pop_next_call (cp_fairness c) (weighted_cycle c) cursor grouped =
        Some (take_call (fair_cycle c) grouped ((cursor + k) mod length (fair_cycle c)))"
      "k < length (fair_cycle c)"
      "queue_of grouped (fair_cycle c ! ((cursor + k) mod length (fair_cycle c))) \<noteq> []"
      "\<forall>j < k. queue_of grouped (fair_cycle c ! ((cursor + j) mod length (fair_cycle c))) = []"
proof -
  let ?n = "length (fair_cycle c)"
  let ?P = "\<lambda>k. queue_of grouped (fair_cycle c ! ((cursor + k) mod ?n)) \<noteq> []"
  have scan: "pop_next_call (cp_fairness c) (weighted_cycle c) cursor grouped =
      map_option (\<lambda>k. take_call (fair_cycle c) grouped ((cursor + k) mod ?n)) (find ?P [0..<?n])"
    unfolding pop_next_call_scan
    by (rule pop_scan_find) (use assms(1,3) in \<open>auto simp: cycle_fits_def\<close>)
  show ?thesis
  proof (cases "find ?P [0..<?n]")
    case None
    then have none: "\<forall>k < ?n. \<not> ?P k"
      by (auto simp: find_None_iff)
    have "queue_of grouped p = []" for p
    proof -
      have "p \<in> set (fair_cycle c)" using three_classes [of p] by auto
      then obtain i where "i < ?n" "fair_cycle c ! i = p"
        unfolding in_set_conv_nth by blast
      with mod_reaches [OF \<open>i < ?n\<close> assms(3)] none show ?thesis by auto
    qed
    then have "all_pending grouped = []"
      using pending_wf_member [OF assms(2)] by (metis empty_iff empty_set hd_in_set)
    with None scan show ?thesis by (intro that(1)) simp_all
  next
    case (Some k)
    then have k: "k < ?n" "?P k" "\<forall>j < k. \<not> ?P j"
      by (auto simp: find_Some_iff)
    with Some scan show ?thesis by (intro that(2) [of k]) simp_all
  qed
qed

lemma take_call_effect:
  assumes "pending_wf grouped" and "queue_of grouped (cycle ! i) \<noteq> []"
    and "take_call cycle grouped i = (call, grouped', cursor)"
  shows "pending_wf grouped'" "mset (all_pending grouped) = add_mset call (mset (all_pending grouped'))"
    "pc_priority_class call = cycle ! i" "queue_of grouped (cycle ! i) = call # queue_of grouped' (cycle ! i)"
    "p \<noteq> cycle ! i \<Longrightarrow> queue_of grouped' p = queue_of grouped p" "cursor = (i + 1) mod length cycle"
proof -
  let ?p = "cycle ! i"
  obtain q where q: "queue_of grouped ?p = call # q"
    using assms(2,3) by (cases "queue_of grouped ?p") (auto simp: take_call_def Let_def)
  have keys: "bt_keys grouped = [High, Normal, Low]"
    using assms(1) by (simp add: pending_wf_def)
  have g: "grouped' = bt_insert ?p q grouped"
    using assms(3) q by (simp add: take_call_def)
  have cls: "\<forall>x \<in> set (call # q). pc_priority_class x = ?p"
    using assms(1) q unfolding pending_wf_def by metis
  show "pending_wf grouped'"
    unfolding g by (rule pending_wf_insert [OF assms(1)]) (use cls in simp)
  show "mset (all_pending grouped) = add_mset call (mset (all_pending grouped'))"
    using bt_insert_class(3) [OF keys, of ?p q] q g by simp
  show "pc_priority_class call = ?p"
    using cls by simp
  show "queue_of grouped ?p = call # queue_of grouped' ?p"
    unfolding g q using bt_insert_class(2) [OF keys, of ?p q ?p] by simp
  show "p \<noteq> ?p \<Longrightarrow> queue_of grouped' p = queue_of grouped p"
    unfolding g using bt_insert_class(2) [OF keys, of ?p q p] by simp
  show "cursor = (i + 1) mod length cycle"
    using assms(3) by (simp add: take_call_def Let_def)
qed

section \<open>The invariant of the batch loop\<close>

fun report_call_id :: "('o, 'm) call_report \<Rightarrow> string" where
  "report_call_id (ReportOk i _ _ _ _) = i"
| "report_call_id (ReportError i _ _ _ _) = i"

lemma report_call_id_of [simp]: "report_call_id (call_report_of call result) = pc_call_id call"
  by (cases result) simp_all

definition reports_cover :: "(string, ('o, 'm) call_report) btree \<Rightarrow> string set \<Rightarrow> bool" where
  "reports_cover reports ids \<longleftrightarrow>
     (\<forall>i. (bt_get reports i = None) = (i \<notin> ids)) \<and>
     (\<forall>i r. bt_get reports i = Some r \<longrightarrow> report_call_id r = i)"

lemma reports_cover_insert:
  "reports_cover reports ids \<Longrightarrow>
    reports_cover (bt_insert (pc_call_id call) (call_report_of call result) reports) (insert (pc_call_id call) ids)"
  by (auto simp: reports_cover_def)

lemma reports_in_order_ids:
  assumes "reports_cover reports ids" and "set order \<subseteq> ids"
  shows "map report_call_id (reports_in_order order reports) = order"
  using assms(2)
proof (induction order)
  case Nil
  then show ?case by (simp add: reports_in_order_def List.map_filter_simps)
next
  case (Cons i order)
  then obtain r where "bt_get reports i = Some r" "report_call_id r = i"
    using assms(1) by (fastforce simp: reports_cover_def)
  with Cons show ?case by (simp add: reports_in_order_def List.map_filter_simps)
qed

definition queues_inv ::
  "concurrency_policy \<Rightarrow> 'j prepared_call list \<Rightarrow> 'j prepared_call list
    \<Rightarrow> ('j, 'o, 'm) batch_state \<Rightarrow> bool" where
  "queues_inv c calls fin st \<longleftrightarrow>
     pending_wf (ba_pending st) \<and> ba_cursor st < length (fair_cycle c) \<and>
     mset (all_pending (ba_pending st)) + mset (ba_inflight st) + mset fin = mset calls \<and>
     mset (dispatch_order (ba_summary st)) = mset (map pc_call_id (ba_inflight st @ fin))"

definition budget_inv :: "concurrency_policy \<Rightarrow> ('j, 'o, 'm) batch_state \<Rightarrow> bool" where
  "budget_inv c st \<longleftrightarrow>
     min_in_flight c \<le> ba_budget st \<and> ba_budget st \<le> max_in_flight c \<and>
     length (ba_inflight st) \<le> max_in_flight c \<and> peak_in_flight (ba_summary st) \<le> max_in_flight c \<and>
     min_in_flight c \<le> final_in_flight_budget (ba_summary st) \<and>
     final_in_flight_budget (ba_summary st) \<le> max_in_flight c"

definition reports_inv ::
  "string \<Rightarrow> 'j prepared_call list \<Rightarrow> ('j, 'o, 'm) batch_state \<Rightarrow> bool" where
  "reports_inv step_id fin st \<longleftrightarrow>
     reports_cover (ba_reports st) (pc_call_id ` set fin) \<and>
     (\<forall>e. ba_first_error st = Some e \<longrightarrow>
       (\<exists>call \<in> set fin. \<exists>err. e = batch_call_failed step_id (pc_call_id call) err))"

lemma validate_concurrency_policyD:
  assumes "validate_concurrency_policy c = Inr ()"
  shows "0 < min_in_flight c" "min_in_flight c \<le> max_in_flight c"
  using assms by (auto simp: validate_concurrency_policy_def split: if_splits)

lemma count_dispatch_fields [simp]:
  "dispatch_order (count_dispatch call s) = dispatch_order s @ [pc_call_id call]"
  "peak_in_flight (count_dispatch call s) = peak_in_flight s"
  "final_in_flight_budget (count_dispatch call s) = final_in_flight_budget s"
  by (simp_all add: count_dispatch_def)

lemma dispatch_calls_inv:
  assumes "cycle_fits c" and "queues_inv c calls fin st" and "budget_inv c st"
  shows "queues_inv c calls fin (dispatch_calls c st) \<and> budget_inv c (dispatch_calls c st) \<and>
    ba_reports (dispatch_calls c st) = ba_reports st \<and>
    ba_first_error (dispatch_calls c st) = ba_first_error st \<and>
    (0 < min_in_flight c \<and> ba_inflight (dispatch_calls c st) = [] \<longrightarrow>
      all_pending (ba_pending (dispatch_calls c st)) = [])"
  using assms
proof (induction c st rule: dispatch_calls.induct)
  case (1 c st)
  show ?case
  proof (cases "length (ba_inflight st) < ba_budget st")
    case False
    then have "dispatch_calls c st = st" by (simp add: dispatch_calls.simps [of c st])
    moreover have "ba_inflight st = [] \<Longrightarrow> min_in_flight c = 0"
      using False 1(4) by (auto simp: budget_inv_def)
    ultimately show ?thesis using 1(3,4) by auto
  next
    case True
    have wf: "pending_wf (ba_pending st)" and cur: "ba_cursor st < length (fair_cycle c)"
      using 1(3) by (simp_all add: queues_inv_def)
    from 1(2) wf cur show ?thesis
    proof (cases rule: pop_next_call_cases)
      case Nothing
      then have "dispatch_calls c st = st"
        using True by (simp add: dispatch_calls.simps [of c st])
      then show ?thesis using 1(3,4) Nothing by simp
    next
      case (Popped k)
      let ?i = "(ba_cursor st + k) mod length (fair_cycle c)"
      obtain call g cu where t: "take_call (fair_cycle c) (ba_pending st) ?i = (call, g, cu)"
        by (cases "take_call (fair_cycle c) (ba_pending st) ?i")
      note eff = take_call_effect [OF wf Popped(3) t]
      let ?s = "count_dispatch call (ba_summary st)"
      let ?st = "st\<lparr>ba_pending := g, ba_cursor := cu, ba_inflight := ba_inflight st @ [call],
        ba_summary := ?s\<lparr>peak_in_flight := max (peak_in_flight ?s) (length (ba_inflight st @ [call]))\<rparr>\<rparr>"
      have d: "dispatch_calls c st = dispatch_calls c ?st"
        using True Popped(1) t by (simp add: dispatch_calls.simps [of c st] Let_def)
      have q: "queues_inv c calls fin ?st"
        using 1(3) eff(1,2,6) by (simp add: queues_inv_def)
      have b: "budget_inv c ?st"
        using 1(4) True by (auto simp: budget_inv_def)
      show ?thesis
        unfolding d using 1(1) [OF True _ _ _ refl refl 1(2) q b] Popped(1) t by simp
    qed
  qed
qed

text \<open>A completion moves one call from the calls in flight to those done.\<close>

lemma adapt_budget_fields [simp]:
  "ba_pending (adapt_budget c f st) = ba_pending st"
  "ba_cursor (adapt_budget c f st) = ba_cursor st"
  "ba_inflight (adapt_budget c f st) = ba_inflight st"
  "ba_reports (adapt_budget c f st) = ba_reports st"
  "ba_first_error (adapt_budget c f st) = ba_first_error st"
  "dispatch_order (ba_summary (adapt_budget c f st)) = dispatch_order (ba_summary st)"
  "peak_in_flight (ba_summary (adapt_budget c f st)) = peak_in_flight (ba_summary st)"
  "final_in_flight_budget (ba_summary (adapt_budget c f st)) = final_in_flight_budget (ba_summary st)"
  by (simp_all add: adapt_budget_def Let_def split: option.split)

lemma adapt_budget_bounds:
  assumes "min_in_flight c \<le> ba_budget st" and "ba_budget st \<le> max_in_flight c"
    and "max_in_flight c \<le> usize_max"
  shows "min_in_flight c \<le> ba_budget (adapt_budget c f st) \<and> ba_budget (adapt_budget c f st) \<le> max_in_flight c"
  using assms
  by (auto simp: adapt_budget_def Let_def usize_saturating_add_def split: option.split)

lemma remove_nth_mset:
  "i < length xs \<Longrightarrow> add_mset (xs ! i) (mset (take i xs @ drop (Suc i) xs)) = mset xs"
  by (metis add_mset_add_single id_take_nth_drop mset_append mset.simps(2) union_mset_add_mset_right)

lemma complete_call_fields:
  "ba_pending (complete_call c step_id i result st) = ba_pending st"
  "ba_cursor (complete_call c step_id i result st) = ba_cursor st"
  "ba_inflight (complete_call c step_id i result st) = take i (ba_inflight st) @ drop (Suc i) (ba_inflight st)"
  "ba_reports (complete_call c step_id i result st) =
    bt_insert (pc_call_id (ba_inflight st ! i)) (call_report_of (ba_inflight st ! i) result) (ba_reports st)"
  "dispatch_order (ba_summary (complete_call c step_id i result st)) = dispatch_order (ba_summary st)"
  "peak_in_flight (ba_summary (complete_call c step_id i result st)) = peak_in_flight (ba_summary st)"
  "final_in_flight_budget (ba_summary (complete_call c step_id i result st)) =
    ba_budget (complete_call c step_id i result st)"
  by (simp_all add: complete_call_def Let_def split: dispatch_result.split option.split)

lemma complete_call_first_error:
  assumes "ba_first_error (complete_call c step_id i result st) = Some e"
  shows "ba_first_error st = Some e \<or>
    (\<exists>err. e = batch_call_failed step_id (pc_call_id (ba_inflight st ! i)) err)"
  using assms
  by (auto simp: complete_call_def Let_def split: dispatch_result.splits option.splits)

lemma complete_call_budget:
  fixes st :: "('j, 'o, 'm) batch_state"
  assumes "min_in_flight c \<le> ba_budget st" and "ba_budget st \<le> max_in_flight c"
    and "max_in_flight c \<le> usize_max"
  shows "min_in_flight c \<le> ba_budget (complete_call c step_id i result st) \<and>
    ba_budget (complete_call c step_id i result st) \<le> max_in_flight c"
  unfolding complete_call_def Let_def
  by (cases result; cases "ba_first_error st") (simp_all add: adapt_budget_bounds assms)

lemma complete_call_inv:
  assumes "queues_inv c calls fin st" and "budget_inv c st" and "reports_inv step_id fin st"
    and "i < length (ba_inflight st)" and "max_in_flight c \<le> usize_max"
    and "call = ba_inflight st ! i"
  shows "queues_inv c calls (call # fin) (complete_call c step_id i result st) \<and>
    budget_inv c (complete_call c step_id i result st) \<and>
    reports_inv step_id (call # fin) (complete_call c step_id i result st)"
proof -
  let ?st = "complete_call c step_id i result st"
  note f = complete_call_fields [of c step_id i result st]
  let ?rest = "take i (ba_inflight st) @ drop (Suc i) (ba_inflight st)"
  have m: "mset (ba_inflight st) = add_mset call (mset ?rest)"
    using remove_nth_mset [OF assms(4)] assms(6) by simp
  have "mset (map pc_call_id (ba_inflight st @ fin)) = mset (map pc_call_id (?rest @ call # fin))"
    using m by (simp only: mset_map mset_append) (simp add: m)
  then have q: "queues_inv c calls (call # fin) ?st"
    using assms(1) m f(1-3,5) by (simp add: queues_inv_def)
  have "length ?rest \<le> length (ba_inflight st)"
    by simp
  then have b: "budget_inv c ?st"
    using assms(2) f(3,6,7) complete_call_budget [OF _ _ assms(5), of st step_id i result]
    by (simp add: budget_inv_def)
  have r: "reports_inv step_id (call # fin) ?st"
    using assms(3) reports_cover_insert [of "ba_reports st" "pc_call_id ` set fin" call result]
      f(4) complete_call_first_error [of c step_id i result st] assms(6) by (fastforce simp: reports_inv_def)
  show ?thesis using q b r by blast
qed

lemma count_wait_inv:
  "queues_inv c calls fin (count_wait n st) = queues_inv c calls fin st"
  "budget_inv c (count_wait n st) = budget_inv c st"
  "reports_inv step_id fin (count_wait n st) = reports_inv step_id fin st"
  "ba_inflight (count_wait n st) = ba_inflight st"
  by (simp_all add: count_wait_def queues_inv_def budget_inv_def reports_inv_def)

lemma batch_loop_finishes:
  assumes "cycle_fits c" and "0 < min_in_flight c" and "max_in_flight c \<le> usize_max"
    and "queues_inv c calls fin st" and "budget_inv c st" and "reports_inv step_id fin st"
    and "length completions + length fin \<ge> length calls"
  shows "\<exists>st' fin'. batch_loop c step_id completions st = Some st' \<and> mset fin' = mset calls \<and>
    queues_inv c calls fin' st' \<and> budget_inv c st' \<and> reports_inv step_id fin' st' \<and>
    ba_inflight st' = []"
  using assms(4-7)
proof (induction completions arbitrary: fin st)
  case (Nil fin st)
  have "size (mset (all_pending (ba_pending st)) + mset (ba_inflight st) + mset fin) = length calls"
    using Nil(1) unfolding queues_inv_def by (metis size_mset)
  then have "length (all_pending (ba_pending st)) + length (ba_inflight st) + length fin = length calls"
    by simp
  moreover have "length calls \<le> length fin"
    using Nil(4) by simp
  ultimately have "length (all_pending (ba_pending st)) = 0" and "length (ba_inflight st) = 0"
    by linarith+
  then have "all_pending (ba_pending st) = []" and i: "ba_inflight st = []"
    by simp_all
  moreover have "mset fin = mset calls"
    using Nil(1) calculation by (simp add: queues_inv_def)
  ultimately show ?case
    using Nil by (auto simp: batch_loop.simps [of c step_id "[]"] has_pending_iff)
next
  case (Cons ir completions fin st)
  obtain i result where ir: "ir = (i, result)" by (cases ir)
  show ?case
  proof (cases "\<not> has_pending_calls (ba_pending st) \<and> ba_inflight st = []")
    case True
    then have "mset fin = mset calls"
      using Cons.prems(1) by (simp add: queues_inv_def has_pending_iff)
    with True Cons.prems show ?thesis
      by (auto simp: batch_loop.simps [of c step_id "ir # completions"])
  next
    case False
    let ?st1 = "dispatch_calls c st"
    note d = dispatch_calls_inv [OF assms(1) Cons.prems(1,2)]
    have r1: "reports_inv step_id fin ?st1"
      using d Cons.prems(3) by (simp add: reports_inv_def)
    show ?thesis
    proof (cases "ba_inflight ?st1 = []")
      case True
      have "mset fin = mset calls"
        using True d assms(2) by (auto simp: queues_inv_def)
      moreover have "batch_loop c step_id (ir # completions) st = Some ?st1"
        using False True by (auto simp: batch_loop.simps [of c step_id "ir # completions"] Let_def)
      ultimately show ?thesis using d r1 True by blast
    next
      case inflight: False
      let ?k = "i mod length (ba_inflight ?st1)"
      let ?w = "count_wait (pending_call_count (ba_pending st)) ?st1"
      let ?call = "ba_inflight ?w ! ?k"
      have k: "?k < length (ba_inflight ?w)"
        using inflight by (simp add: count_wait_inv)
      have inv: "queues_inv c calls (?call # fin) (complete_call c step_id ?k result ?w) \<and>
          budget_inv c (complete_call c step_id ?k result ?w) \<and>
          reports_inv step_id (?call # fin) (complete_call c step_id ?k result ?w)"
        by (rule complete_call_inv [OF _ _ _ k assms(3) refl]) (use d r1 in \<open>simp_all add: count_wait_inv\<close>)
      have "batch_loop c step_id (ir # completions) st =
          batch_loop c step_id completions (complete_call c step_id ?k result ?w)"
        using False inflight by (auto simp: ir batch_loop.simps [of c step_id "(i, result) # completions"] Let_def)
      moreover have "length calls \<le> length completions + length (?call # fin)"
        using Cons.prems(4) by simp
      ultimately show ?thesis
        using Cons.IH [of "?call # fin" "complete_call c step_id ?k result ?w"] inv by metis
    qed
  qed
qed

lemma serial_loop_result:
  assumes "reports_cover reports ids"
  shows "case serial_loop step_id cont crs reports s of
      Inl e \<Rightarrow> \<not> cont \<and> (\<exists>(call, r) \<in> set crs. \<exists>err. e = batch_call_failed step_id (pc_call_id call) err)
    | Inr (reports', s') \<Rightarrow>
        reports_cover reports' (ids \<union> set (map (pc_call_id \<circ> fst) crs)) \<and>
        dispatch_order s' = dispatch_order s @ map (pc_call_id \<circ> fst) crs \<and>
        peak_in_flight s' = (if crs = [] then peak_in_flight s else 1)"
  using assms
proof (induction crs arbitrary: reports ids s)
  case Nil
  then show ?case by simp
next
  case (Cons cr crs)
  obtain call r where cr: "cr = (call, r)" by (cases cr)
  let ?s = "(count_dispatch call s)\<lparr>peak_in_flight := 1\<rparr>"
  let ?rs = "bt_insert (pc_call_id call) (call_report_of call r) reports"
  have IH: "case serial_loop step_id cont crs ?rs ?s of
      Inl e \<Rightarrow> \<not> cont \<and> (\<exists>(call, r) \<in> set crs. \<exists>err. e = batch_call_failed step_id (pc_call_id call) err)
    | Inr (reports', s') \<Rightarrow>
        reports_cover reports' (insert (pc_call_id call) ids \<union> set (map (pc_call_id \<circ> fst) crs)) \<and>
        dispatch_order s' = dispatch_order ?s @ map (pc_call_id \<circ> fst) crs \<and>
        peak_in_flight s' = (if crs = [] then peak_in_flight ?s else 1)"
    by (rule Cons.IH) (rule reports_cover_insert [OF Cons.prems])
  show ?case
  proof (cases "\<exists>err. r = DispatchFailed err \<and> \<not> cont")
    case True
    then show ?thesis by (auto simp: cr)
  next
    case False
    then have eq: "serial_loop step_id cont (cr # crs) reports s = serial_loop step_id cont crs ?rs ?s"
      by (cases r) (auto simp: cr Let_def)
    show ?thesis
      unfolding eq using IH
      by (cases "serial_loop step_id cont crs ?rs ?s") (auto simp: cr)
  qed
qed

lemma batch_start_inv:
  assumes "validate_concurrency_policy c = Inr ()"
  shows "queues_inv c calls [] (batch_start c calls) \<and> budget_inv c (batch_start c calls) \<and>
    reports_inv step_id [] (batch_start c calls)"
  using group_calls_wf [of calls] validate_concurrency_policyD [OF assms]
  by (simp add: queues_inv_def budget_inv_def reports_inv_def batch_start_def summary_start_def
      reports_cover_def)

lemma parallel_batch_result:
  assumes "validate_concurrency_policy c = Inr ()" and "cycle_fits c" and "max_in_flight c \<le> usize_max"
    and "length calls \<le> length completions"
  shows "\<exists>st. batch_loop c step_id completions (batch_start c calls) = Some st \<and>
    mset (dispatch_order (ba_summary st)) = mset (map pc_call_id calls) \<and> budget_inv c st \<and>
    reports_cover (ba_reports st) (pc_call_id ` set calls) \<and>
    (\<forall>e. ba_first_error st = Some e \<longrightarrow>
      (\<exists>call \<in> set calls. \<exists>err. e = batch_call_failed step_id (pc_call_id call) err))"
proof -
  obtain st fin where st: "batch_loop c step_id completions (batch_start c calls) = Some st"
    and fin: "mset fin = mset calls" and q: "queues_inv c calls fin st" and b: "budget_inv c st"
    and r: "reports_inv step_id fin st" and i: "ba_inflight st = []"
    using batch_loop_finishes [OF assms(2) _ assms(3), of calls "[]" "batch_start c calls" step_id completions]
      batch_start_inv [OF assms(1), of calls step_id] validate_concurrency_policyD [OF assms(1)] assms(4)
    by auto
  have "set fin = set calls"
    using fin by (rule mset_eq_setD)
  moreover have "mset (dispatch_order (ba_summary st)) = mset (map pc_call_id calls)"
    using q i fin by (simp add: queues_inv_def)
  ultimately show ?thesis
    using st b r by (auto simp: reports_inv_def)
qed

text \<open>
  C25. A batch of programmatic calls always ends, and every call is dispatched exactly once: under
  a validated concurrency policy, in whatever order the calls in flight complete and whatever
  they return, once there is a completion for each call the batch has a result. A successful one
  reports the calls in the order given, has dispatched each call once, and has never had more
  than \<open>max_in_flight\<close> calls in flight nor left a parallel budget outside \<open>min_in_flight\<close> ..
  \<open>max_in_flight\<close>; a failed one is the failure of one of the calls, and never happens to a step
  that continues on error.
\<close>
theorem batch_runs_every_call_once:
  assumes "validate_concurrency_policy c = Inr ()" and "cycle_fits c" and "max_in_flight c \<le> usize_max"
    and "length calls \<le> length completions"
  shows "\<exists>result. execute_batch_calls c step_id par cont calls completions = Some result \<and>
    (case result of
       Inr (reports, s) \<Rightarrow>
         map report_call_id reports = map pc_call_id calls \<and>
         mset (dispatch_order s) = mset (map pc_call_id calls) \<and>
         peak_in_flight s \<le> max_in_flight c \<and>
         (par \<and> 1 < length calls \<longrightarrow>
           min_in_flight c \<le> final_in_flight_budget s \<and> final_in_flight_budget s \<le> max_in_flight c)
     | Inl e \<Rightarrow> \<not> cont \<and> (\<exists>call \<in> set calls. \<exists>err. e = batch_call_failed step_id (pc_call_id call) err))"
proof (cases "par \<and> 1 < length calls")
  case True
  obtain st where st: "batch_loop c step_id completions (batch_start c calls) = Some st"
    and m: "mset (dispatch_order (ba_summary st)) = mset (map pc_call_id calls)" and b: "budget_inv c st"
    and r: "reports_cover (ba_reports st) (pc_call_id ` set calls)"
    and e: "\<forall>e. ba_first_error st = Some e \<longrightarrow>
      (\<exists>call \<in> set calls. \<exists>err. e = batch_call_failed step_id (pc_call_id call) err)"
    using parallel_batch_result [OF assms] by blast
  have "map report_call_id (reports_in_order (map pc_call_id calls) (ba_reports st)) = map pc_call_id calls"
    by (rule reports_in_order_ids [OF r]) simp
  with True st m b e show ?thesis
    by (cases "ba_first_error st"; cases cont) (simp_all add: execute_batch_calls_def budget_inv_def)
next
  case False
  define crs where "crs = zip calls (map snd completions)"
  have ids: "map (pc_call_id \<circ> fst) crs = map pc_call_id calls"
    using assms(4) by (simp add: crs_def map_fst_zip_take flip: map_map)
  have mem: "(call, r) \<in> set crs \<Longrightarrow> call \<in> set calls" for call r
    by (auto simp: crs_def dest: set_zip_leftD)
  have ex: "execute_batch_calls c step_id par cont calls completions =
      (case serial_loop step_id cont crs [] (summary_start c False) of
         Inl err \<Rightarrow> Some (Inl err)
       | Inr (reports, s) \<Rightarrow>
           Some (Inr (reports_in_order (map pc_call_id calls) reports, s\<lparr>final_in_flight_budget := 1\<rparr>)))"
    using False assms(4) by (auto simp: execute_batch_calls_def crs_def)
  have empty: "reports_cover [] {}"
    by (simp add: reports_cover_def)
  note loop = serial_loop_result [OF empty, where step_id = step_id and cont = cont
      and crs = crs and s = "summary_start c False"]
  show ?thesis
  proof (cases "serial_loop step_id cont crs [] (summary_start c False)")
    case (Inl e)
    with loop ex mem show ?thesis by fastforce
  next
    case (Inr rs)
    obtain reports s where rs: "rs = (reports, s)" by (cases rs)
    with Inr loop ids have r: "reports_cover reports (set (map pc_call_id calls))"
      and d: "dispatch_order s = map pc_call_id calls" and p: "peak_in_flight s \<le> 1"
      by (auto simp: summary_start_def split: if_splits)
    have "map report_call_id (reports_in_order (map pc_call_id calls) reports) = map pc_call_id calls"
      by (rule reports_in_order_ids [OF r]) simp
    with Inr rs ex d p False validate_concurrency_policyD [OF assms(1)] show ?thesis
      by auto
  qed
qed

theorem batch_runs_every_call_once_witness:
  "\<exists>reports s. execute_batch_calls concurrency_policy_default ''s1'' True True
      [\<lparr>pc_call_id = ''a'', pc_connector_name = ''crm'', pc_operation = ''get'', pc_priority_class = Low, pc_request = ()\<rparr>,
       \<lparr>pc_call_id = ''b'', pc_connector_name = ''crm'', pc_operation = ''put'', pc_priority_class = High, pc_request = ()\<rparr>]
      [(1, DispatchFailed ''policy denied''), (0, Dispatched ''crm'' () ())] = Some (Inr (reports, s)) \<and>
    map report_call_id reports = [''a'', ''b''] \<and> mset (dispatch_order s) = mset [''a'', ''b''] \<and>
    peak_in_flight s \<le> 4"
proof -
  let ?a = "\<lparr>pc_call_id = ''a'', pc_connector_name = ''crm'', pc_operation = ''get'', pc_priority_class = Low, pc_request = ()\<rparr>"
  let ?b = "\<lparr>pc_call_id = ''b'', pc_connector_name = ''crm'', pc_operation = ''put'', pc_priority_class = High, pc_request = ()\<rparr>"
  let ?rs = "[(1, DispatchFailed ''policy denied''), (0, Dispatched ''crm'' () ())]"
  have 1: "validate_concurrency_policy concurrency_policy_default = Inr ()"
    by (simp add: validate_concurrency_policy_def concurrency_policy_default_def)
  have 2: "cycle_fits concurrency_policy_default"
    by (simp add: cycle_fits_def fair_cycle_def weighted_cycle_def concurrency_policy_default_def usize_max_def)
  have 3: "max_in_flight concurrency_policy_default \<le> usize_max"
    by (simp add: concurrency_policy_default_def usize_max_def)
  have 4: "length [?a, ?b] \<le> length ?rs" by simp
  obtain result where r: "execute_batch_calls concurrency_policy_default ''s1'' True True [?a, ?b] ?rs = Some result"
    and res: "case result of
       Inr (reports, s) \<Rightarrow>
         map report_call_id reports = map pc_call_id [?a, ?b] \<and>
         mset (dispatch_order s) = mset (map pc_call_id [?a, ?b]) \<and>
         peak_in_flight s \<le> max_in_flight concurrency_policy_default \<and>
         (True \<and> 1 < length [?a, ?b] \<longrightarrow>
           min_in_flight concurrency_policy_default \<le> final_in_flight_budget s \<and>
           final_in_flight_budget s \<le> max_in_flight concurrency_policy_default)
     | Inl e \<Rightarrow> \<not> True \<and> (\<exists>call \<in> set [?a, ?b]. \<exists>err. e = batch_call_failed ''s1'' (pc_call_id call) err)"
    using batch_runs_every_call_once [OF 1 2 3 4, of "''s1''" True True] by blast
  show ?thesis
  proof (cases result)
    case (Inl e)
    with res show ?thesis by simp
  next
    case (Inr p)
    with r res show ?thesis
      by (cases p) (simp add: concurrency_policy_default_def)
  qed
qed

section \<open>Fairness\<close>

text \<open>The calls that successive pops take.\<close>

fun pop_calls ::
  "concurrency_policy \<Rightarrow> nat \<Rightarrow> usize \<Rightarrow> 'j pending_calls \<Rightarrow> 'j prepared_call list" where
  "pop_calls c 0 cursor grouped = []"
| "pop_calls c (Suc n) cursor grouped =
     (case pop_next_call (cp_fairness c) (weighted_cycle c) cursor grouped of
        None \<Rightarrow> []
      | Some (call, grouped', cursor') \<Rightarrow> call # pop_calls c n cursor' grouped')"

lemma pop_calls_mono: "set (pop_calls c m cursor grouped) \<subseteq> set (pop_calls c (m + j) cursor grouped)"
proof (induction m arbitrary: cursor grouped)
  case 0
  then show ?case by simp
next
  case (Suc m)
  show ?case
  proof (cases "pop_next_call (cp_fairness c) (weighted_cycle c) cursor grouped")
    case None
    then show ?thesis by simp
  next
    case (Some r)
    then show ?thesis using Suc.IH [of "snd (snd r)" "fst (snd r)"] by (cases r) auto
  qed
qed

lemma pop_calls_reach:
  assumes "cycle_fits c" and "pending_wf grouped" and "cursor < length (fair_cycle c)"
    and "queue_of grouped p = call # q"
    and "d < length (fair_cycle c)" and "fair_cycle c ! ((cursor + d) mod length (fair_cycle c)) = p"
  shows "call \<in> set (pop_calls c (Suc d) cursor grouped)"
  using assms(2-6)
proof (induction d arbitrary: grouped cursor rule: less_induct)
  case (less d grouped cursor)
  let ?n = "length (fair_cycle c)"
  from assms(1) less.prems(1,2) show ?case
  proof (cases rule: pop_next_call_cases)
    case Nothing
    have "call \<in> set (all_pending grouped)"
      using less.prems(3)
      by (force simp: queue_of_def all_pending_def bt_values_def split: option.splits dest: map_of_SomeD)
    with Nothing show ?thesis by simp
  next
    case (Popped k)
    let ?i = "(cursor + k) mod ?n"
    obtain x g cu where t: "take_call (fair_cycle c) grouped ?i = (x, g, cu)"
      by (cases "take_call (fair_cycle c) grouped ?i")
    note eff = take_call_effect [OF less.prems(1) Popped(3) t]
    have "k \<le> d"
      using Popped(4) less.prems(3,5) by (metis list.discI not_le)
    show ?thesis
    proof (cases "fair_cycle c ! ?i = p")
      case True
      with eff(4) less.prems(3) Popped(1) t show ?thesis by simp
    next
      case False
      with \<open>k \<le> d\<close> less.prems(5) have "k < d"
        using nat_less_le by blast
      let ?d = "d - Suc k"
      have cu: "cu < ?n" and pos: "(cu + ?d) mod ?n = (cursor + d) mod ?n"
      proof -
        show "cu < ?n" using eff(6) less.prems(2) by simp
        have "(cu + ?d) mod ?n = (cursor + k + 1 + ?d) mod ?n"
          unfolding eff(6) by (simp add: mod_simps)
        with \<open>k < d\<close> show "(cu + ?d) mod ?n = (cursor + d) mod ?n" by simp
      qed
      have "call \<in> set (pop_calls c (Suc ?d) cu g)"
        by (rule less.IH [OF _ eff(1) cu])
          (use \<open>k < d\<close> eff(5) [of p] False less.prems pos in auto)
      moreover have "set (pop_calls c (Suc ?d) cu g) \<subseteq> set (pop_calls c d cu g)"
        using pop_calls_mono [of c "Suc ?d" cu g "d - Suc ?d"] \<open>k < d\<close> by simp
      ultimately show ?thesis
        using Popped(1) t by auto
    qed
  qed
qed

text \<open>
  No priority class starves: when a class has pending calls, its oldest call is taken within
  one turn of the round-robin cycle (three pops under strict round robin, the sum of the weights
  under weighted round robin), whatever else is pending and wherever the cursor stands.
\<close>
theorem oldest_call_of_class_is_popped:
  assumes "cycle_fits c" and "cursor < length (fair_cycle c)"
    and "pending_wf grouped" and "queue_of grouped p = call # q"
  shows "call \<in> set (pop_calls c (length (fair_cycle c)) cursor grouped) \<and>
    length (fair_cycle c) =
      (case cp_fairness c of StrictRoundRobin \<Rightarrow> 3
       | WeightedRoundRobin \<Rightarrow> max (high_weight c) 1 + max (normal_weight c) 1 + max (low_weight c) 1)"
proof -
  let ?n = "length (fair_cycle c)"
  have "p \<in> set (fair_cycle c)" using three_classes [of p] by auto
  then obtain i where i: "i < ?n" "fair_cycle c ! i = p"
    unfolding in_set_conv_nth by blast
  then obtain d where d: "d < ?n" "(cursor + d) mod ?n = i"
    using mod_reaches [OF i(1) assms(2)] by blast
  then have "call \<in> set (pop_calls c (Suc d) cursor grouped)"
    using pop_calls_reach [OF assms(1,3,2,4) d(1)] i by simp
  moreover have "set (pop_calls c (Suc d) cursor grouped) \<subseteq> set (pop_calls c ?n cursor grouped)"
    using pop_calls_mono [of c "Suc d" cursor grouped "?n - Suc d"] d(1) by simp
  moreover have "?n = (case cp_fairness c of StrictRoundRobin \<Rightarrow> 3
       | WeightedRoundRobin \<Rightarrow> max (high_weight c) 1 + max (normal_weight c) 1 + max (low_weight c) 1)"
    by (simp add: fair_cycle_def strict_order_def weighted_cycle_def split: fairness_policy.split)
  ultimately show ?thesis by blast
qed

theorem oldest_call_of_class_is_popped_witness:
  "\<exists>low :: unit prepared_call. pc_priority_class low = Low \<and> low \<in> set (pop_calls concurrency_policy_default 7 0
     (group_calls (replicate 9 (low\<lparr>pc_priority_class := High\<rparr>) @ [low])))"
proof -
  define low :: "unit prepared_call" where
    "low = \<lparr>pc_call_id = ''l'', pc_connector_name = ''crm'', pc_operation = ''get'', pc_priority_class = Low, pc_request = ()\<rparr>"
  let ?g = "group_calls (replicate 9 (low\<lparr>pc_priority_class := High\<rparr>) @ [low])"
  have 1: "cycle_fits concurrency_policy_default"
    by (simp add: cycle_fits_def fair_cycle_def weighted_cycle_def concurrency_policy_default_def usize_max_def)
  have n: "length (fair_cycle concurrency_policy_default) = 7"
    by (simp add: fair_cycle_def weighted_cycle_def concurrency_policy_default_def)
  have 2: "0 < length (fair_cycle concurrency_policy_default)"
    by (simp add: n)
  have 3: "pending_wf ?g"
    using group_calls_wf by blast
  have 4: "queue_of ?g Low = low # []"
    by (simp add: group_calls_def low_def queue_of_def eval_nat_numeral)
  show ?thesis
    using conjunct1 [OF oldest_call_of_class_is_popped [OF 1 2 3 4]] unfolding n
    by (intro exI [of _ low] conjI) (simp add: low_def, assumption)
qed

end
