(* ===== verification/Fnv_Hash.thy ===== *)
theory Fnv_Hash
  imports Loong_Prelude
begin

text \<open>
  The 64-bit FNV-1a hash that several crates compute over bytes, and the saturating \<open>u64\<close>
  operations of the retry backoff.
\<close>

unbundle bit_operations_syntax

definition fnv_offset_basis :: u64 where
  "fnv_offset_basis = 0xcbf29ce484222325"

definition fnv_prime :: u64 where
  "fnv_prime = 0x100000001b3"

definition fnv_byte :: "char \<Rightarrow> u64 \<Rightarrow> u64" where
  "fnv_byte byte h = (h XOR of_nat (of_char byte)) * fnv_prime"

definition fnv1a :: "string \<Rightarrow> u64" where
  "fnv1a bytes = fold fnv_byte bytes fnv_offset_basis"

definition u64_saturating_mul :: "u64 \<Rightarrow> u64 \<Rightarrow> u64" where
  "u64_saturating_mul a b = (if unat a * unat b < 2 ^ 64 then a * b else - 1)"

definition u64_saturating_pow2 :: "u32 \<Rightarrow> u64" where
  "u64_saturating_pow2 n = (if unat n < 64 then 2 ^ unat n else - 1)"

lemma fnv1a_append: "fnv1a (xs @ ys) = fold fnv_byte ys (fnv1a xs)"
  by (simp add: fnv1a_def)

text \<open>A step of the hash is invertible: the prime is odd.\<close>

definition fnv_prime_inverse :: u64 where
  "fnv_prime_inverse = 0xce965057aff6957b"

lemma fnv_prime_invertible: "fnv_prime * fnv_prime_inverse = 1"
  by (simp add: fnv_prime_def fnv_prime_inverse_def)

lemma fnv_byte_inj: "fnv_byte c a = fnv_byte c b \<longleftrightarrow> a = b"
proof
  assume "fnv_byte c a = fnv_byte c b"
  then have "(a XOR of_nat (of_char c)) * fnv_prime * fnv_prime_inverse =
      (b XOR of_nat (of_char c)) * fnv_prime * fnv_prime_inverse"
    by (simp add: fnv_byte_def)
  then have "a XOR of_nat (of_char c) = b XOR of_nat (of_char c)"
    by (simp add: mult.assoc fnv_prime_invertible)
  then have "(a XOR of_nat (of_char c)) XOR of_nat (of_char c) =
      (b XOR of_nat (of_char c)) XOR of_nat (of_char c)"
    by simp
  then show "a = b"
    by (simp add: xor.assoc)
qed simp

lemma unat_u64_saturating_mul:
  "unat (u64_saturating_mul a b) = min (unat a * unat b) (2 ^ 64 - 1)"
proof (cases "unat a * unat b < 2 ^ 64")
  case True
  then have "unat (a * b) = unat a * unat b"
    by (simp add: unat_word_ariths)
  with True show ?thesis
    by (simp add: u64_saturating_mul_def)
next
  case False
  then show ?thesis
    by (simp add: u64_saturating_mul_def unsigned_minus_1_eq_mask mask_eq_exp_minus_1)
qed

lemma unat_u64_saturating_pow2:
  "unat (u64_saturating_pow2 n) = min (2 ^ unat n) (2 ^ 64 - 1)"
proof (cases "unat n < 64")
  case True
  then have "(2 :: nat) ^ unat n < 2 ^ 64"
    by (intro power_strict_increasing) simp_all
  then have small: "(2 :: nat) ^ unat n < 18446744073709551616"
    by simp
  have "(2 :: u64) ^ unat n = of_nat (2 ^ unat n)"
    by simp
  then have "unat ((2 :: u64) ^ unat n) = 2 ^ unat n"
    using small by (simp only: unat_of_nat) (simp add: take_bit_nat_eq_self)
  with True small show ?thesis
    by (simp add: u64_saturating_pow2_def)
next
  case False
  then have "(2 :: nat) ^ 64 \<le> 2 ^ unat n"
    by (intro power_increasing) simp_all
  with False show ?thesis
    by (simp add: u64_saturating_pow2_def unsigned_minus_1_eq_mask mask_eq_exp_minus_1)
qed

end
