(* ===== verification/Programmatic_Invocation.thy ===== *)
theory Programmatic_Invocation
  imports Kernel_Core Batch_Scheduler Fnv_Hash
begin

text \<open>
  One connector call of a programmatic tool call, with its resilience
  (crates/spec/src/programmatic.rs): the circuit slot, the rate limit before every attempt, the
  retries with their backoff and the outcome reported to the circuit. The kernel is the model of
  Kernel\_Core. The clocks are sequences of readings: \<open>TokioInstant::now()\<close> takes the next
  instant, a kernel call takes the next reading of the kernel's clock. Sleeping moves nothing but
  the clock. The jitter ratio is an \<open>f64\<close>; the three operations the code performs on it are
  arguments.
\<close>

section \<open>Retry policies and backoff\<close>

record 'f f64_ops =
  f64_in_unit_range :: "'f \<Rightarrow> bool"
  f64_le_zero :: "'f \<Rightarrow> bool"
  f64_scaled_round :: "u64 \<Rightarrow> 'f \<Rightarrow> u64"

record 'f retry_policy =
  max_attempts :: usize
  initial_backoff_ms :: u64
  max_backoff_ms :: u64
  jitter_ratio :: 'f
  adaptive_jitter :: bool

definition retry_policy_default :: "'f \<Rightarrow> 'f retry_policy" where
  "retry_policy_default fifth = \<lparr>max_attempts = 1, initial_backoff_ms = 100, max_backoff_ms = 2000,
     jitter_ratio = fifth, adaptive_jitter = True\<rparr>"

definition in_call :: "string option \<Rightarrow> string" where
  "in_call call_id = (case call_id of None \<Rightarrow> [] | Some i \<Rightarrow> '' (call_id='' @ i @ '')'')"

definition validate_retry_policy ::
  "'f f64_ops \<Rightarrow> 'f \<Rightarrow> 'f retry_policy option \<Rightarrow> string \<Rightarrow> string option \<Rightarrow> string + 'f retry_policy" where
  "validate_retry_policy F fifth policy step_id call_id =
     (let resolved = (case policy of Some p \<Rightarrow> p | None \<Rightarrow> retry_policy_default fifth) in
      if max_attempts resolved = 0 then
        Inl (programmatic_error InvalidSpec (''programmatic step '' @ step_id @
          '' retry.max_attempts must be greater than 0'' @ in_call call_id))
      else if max_backoff_ms resolved < initial_backoff_ms resolved then
        Inl (programmatic_error InvalidSpec (''programmatic step '' @ step_id @
          '' retry.max_backoff_ms must be >= retry.initial_backoff_ms'' @ in_call call_id))
      else if \<not> f64_in_unit_range F (jitter_ratio resolved) then
        Inl (programmatic_error InvalidSpec (''programmatic step '' @ step_id @
          '' retry.jitter_ratio must be within [0.0, 1.0]'' @ in_call call_id))
      else Inr resolved)"

definition deterministic_jitter_ms :: "string \<Rightarrow> u64 \<Rightarrow> u64" where
  "deterministic_jitter_ms seed modulus = (if modulus = 0 then 0 else fnv1a seed mod modulus)"

definition compute_backoff_ms ::
  "'f f64_ops \<Rightarrow> 'f retry_policy \<Rightarrow> string \<Rightarrow> string \<Rightarrow> string option \<Rightarrow> usize \<Rightarrow> u64" where
  "compute_backoff_ms F policy connector_name step_id call_id attempt =
     (if attempt = 0 then 0
      else
        let exponent = (of_nat (attempt - 1) :: u32);
            growth = u64_saturating_pow2 exponent;
            base = min (u64_saturating_mul (initial_backoff_ms policy) growth) (max_backoff_ms policy) in
        if \<not> adaptive_jitter policy \<or> base = 0 \<or> f64_le_zero F (jitter_ratio policy) then base
        else
          let jitter_cap = f64_scaled_round F base (jitter_ratio policy) in
          if jitter_cap = 0 then base
          else
            let seed = connector_name @ ''|'' @ step_id @ ''|'' @
                  (case call_id of Some i \<Rightarrow> i | None \<Rightarrow> ''no-call-id'') @ ''|attempt-'' @ nat_to_dec attempt;
                jitter = deterministic_jitter_ms seed (u64_saturating_add jitter_cap 1) in
            min (u64_saturating_add base jitter) (max_backoff_ms policy))"

section \<open>Rate limits\<close>

record connector_rate_limit =
  min_interval_ms :: u64

type_synonym rate_states = "(string, instant) btree"

definition validate_rate_limits :: "(string, connector_rate_limit) btree \<Rightarrow> string + unit" where
  "validate_rate_limits rate_limits =
     try_all (\<lambda>(connector_name, limit).
         if trim connector_name = [] then
           Inl (programmatic_error InvalidSpec ''connector_rate_limits contains an empty connector key'')
         else if min_interval_ms limit = 0 then
           Inl (programmatic_error InvalidSpec (''connector_rate_limits['' @ connector_name @
             ''] min_interval_ms must be greater than 0''))
         else Inr ()) rate_limits"

definition validate_circuit_breakers :: "(string, circuit_policy) btree \<Rightarrow> string + unit" where
  "validate_circuit_breakers policies =
     try_all (\<lambda>(connector_name, policy).
         if trim connector_name = [] then
           Inl (programmatic_error InvalidSpec ''connector_circuit_breakers contains an empty connector key'')
         else map_err (programmatic_error InvalidSpec)
           (validate_circuit_policy policy (''connector_circuit_breakers['' @ connector_name @ '']'')))
       policies"

text \<open>What the limiter does under its lock at instant \<open>now\<close>: how long to wait, and the slot it
  reserves for the next call.\<close>

definition rate_slot ::
  "connector_rate_limit \<Rightarrow> string \<Rightarrow> instant \<Rightarrow> rate_states \<Rightarrow> nat \<times> rate_states" where
  "rate_slot limit connector_name now guard =
     (let scheduled = (case bt_get guard connector_name of Some s \<Rightarrow> s | None \<Rightarrow> now);
          wait = (if scheduled > now then scheduled - now else 0);
          base = (if scheduled > now then scheduled else now);
          next_slot = base + duration_from_millis (min_interval_ms limit)
      in (wait, bt_insert connector_name next_slot guard))"

section \<open>The environment of a call\<close>

text \<open>The clock is read after the policy of the connector is found, not when it has none.\<close>

record ('p, 's, 'w, 'v) call_env =
  ce_kernel :: "('p, 's, 'w, 'v) loong_kernel"
  ce_rates :: rate_states
  ce_circuits :: circuit_states
  ce_instants :: "nat \<Rightarrow> instant"
  ce_epochs :: "nat \<Rightarrow> u64"

definition read_instant :: "('p, 's, 'w, 'v) call_env \<Rightarrow> instant \<times> ('p, 's, 'w, 'v) call_env" where
  "read_instant e = (ce_instants e 0, e\<lparr>ce_instants := (\<lambda>n. ce_instants e (Suc n))\<rparr>)"

definition read_epoch :: "('p, 's, 'w, 'v) call_env \<Rightarrow> u64 \<times> ('p, 's, 'w, 'v) call_env" where
  "read_epoch e = (ce_epochs e 0, e\<lparr>ce_epochs := (\<lambda>n. ce_epochs e (Suc n))\<rparr>)"

record call_policies =
  cp_rate_limits :: "(string, connector_rate_limit) btree"
  cp_circuit_breakers :: "(string, circuit_policy) btree"

definition apply_rate_limit ::
  "string \<Rightarrow> call_policies \<Rightarrow> ('p, 's, 'w, 'v) call_env \<Rightarrow> u64 \<times> ('p, 's, 'w, 'v) call_env" where
  "apply_rate_limit connector_name P e =
     (case bt_get (cp_rate_limits P) connector_name of
        None \<Rightarrow> (0, e)
      | Some limit \<Rightarrow>
          (case read_instant e of (now, e1) \<Rightarrow>
           case rate_slot limit connector_name now (ce_rates e1) of (wait, rates) \<Rightarrow>
             (of_nat (wait div ns_per_ms), e1\<lparr>ce_rates := rates\<rparr>)))"

definition acquire_circuit ::
  "string \<Rightarrow> call_policies \<Rightarrow> string \<Rightarrow> string option \<Rightarrow> ('p, 's, 'w, 'v) call_env
    \<Rightarrow> (string + string) \<times> ('p, 's, 'w, 'v) call_env" where
  "acquire_circuit connector_name P step_id call_id e =
     (case (if bt_contains_key (cp_circuit_breakers P) connector_name then read_instant e else (0, e)) of
        (now, e1) \<Rightarrow>
      case acquire_programmatic_circuit_slot connector_name (cp_circuit_breakers P) (ce_circuits e1)
             step_id call_id now of (r, circuits) \<Rightarrow> (r, e1\<lparr>ce_circuits := circuits\<rparr>))"

definition record_circuit ::
  "string \<Rightarrow> bool \<Rightarrow> call_policies \<Rightarrow> ('p, 's, 'w, 'v) call_env \<Rightarrow> string \<times> ('p, 's, 'w, 'v) call_env" where
  "record_circuit connector_name success P e =
     (case (if bt_contains_key (cp_circuit_breakers P) connector_name then read_instant e else (0, e)) of
        (now, e1) \<Rightarrow>
      case record_programmatic_circuit_outcome connector_name success (cp_circuit_breakers P)
             (ce_circuits e1) now of (phase, circuits) \<Rightarrow> (phase, e1\<lparr>ce_circuits := circuits\<rparr>))"

section \<open>The call\<close>

fun replace_first :: "string \<Rightarrow> string \<Rightarrow> string \<Rightarrow> string" where
  "replace_first p r [] = (if p = [] then r else [])"
| "replace_first p r (c # s) =
     (if prefix p (c # s) then r @ drop (length p) (c # s) else c # replace_first p r s)"

definition normalize_connector_error_message :: "string \<Rightarrow> string" where
  "normalize_connector_error_message err =
     (if contains_text (to_ascii_lowercase err) ''core connector adapter not found''
      then replace_first ''core connector adapter not found'' ''connector not found'' err
      else err)"

record invocation_metrics =
  im_attempts :: usize
  im_retries :: usize
  im_priority_class :: string
  im_rate_wait_ms_total :: u64
  im_backoff_ms_total :: u64
  im_circuit_phase_before :: string
  im_circuit_phase_after :: string

record ('f, 'v) call_request =
  cr_pack_id :: string
  cr_token :: capability_token
  cr_connector_name :: string
  cr_operation :: string
  cr_required_capabilities :: "capability set"
  cr_payload :: 'v
  cr_retry_policy :: "'f retry_policy"
  cr_step_id :: string
  cr_call_id :: "string option"
  cr_priority_class :: priority_class

text \<open>One attempt: the rate limit, then the kernel.\<close>

definition attempt_call ::
  "call_policies \<Rightarrow> ('f, 'v) call_request \<Rightarrow> ('p, 's, 'w, 'v) call_env
    \<Rightarrow> u64 \<times> (kernel_error + 'v connector_dispatch) \<times> ('p, 's, 'w, 'v) call_env" where
  "attempt_call P c e =
     (case apply_rate_limit (cr_connector_name c) P e of (waited, e1) \<Rightarrow>
      case read_epoch e1 of (epoch, e2) \<Rightarrow>
      case kernel_execute_connector_core (ce_kernel e2) epoch (cr_pack_id c) (cr_token c)
             (Some (cr_connector_name c))
             \<lparr>cc_connector_name = cr_connector_name c, cc_operation = cr_operation c,
              cc_required_capabilities = cr_required_capabilities c, cc_payload = cr_payload c\<rparr> of
        (dispatch, k) \<Rightarrow> (waited, dispatch, e2\<lparr>ce_kernel := k\<rparr>))"

definition invoke_failed :: "('f, 'v) call_request \<Rightarrow> usize \<Rightarrow> string \<Rightarrow> string \<Rightarrow> string \<Rightarrow> string" where
  "invoke_failed c attempt error_string phase_before phase_after =
     programmatic_error ConnectorInvokeFailed
       (''programmatic step '' @ cr_step_id c @ call_label (cr_call_id c) @ '' connector '' @
        cr_connector_name c @ '' invoke failed after attempts='' @ nat_to_dec attempt @ '': '' @ error_string @
        '' (connector_error_code='' @ classify_connector_error_code error_string @
        '', circuit_phase_before='' @ phase_before @ '', circuit_phase_after='' @ phase_after @ '')'')"

definition exhausted_retries :: "('f, 'v) call_request \<Rightarrow> string option \<Rightarrow> string" where
  "exhausted_retries c last_error =
     programmatic_error ConnectorInvokeFailed
       (''programmatic step '' @ cr_step_id c @ '' exhausted retries without terminal dispatch (last_error='' @
        (case last_error of Some e \<Rightarrow> e | None \<Rightarrow> ''unknown'') @ '')'')"

text \<open>\<open>for attempt in 1..=max_attempts\<close>.\<close>

function retry_loop ::
  "'f f64_ops \<Rightarrow> call_policies \<Rightarrow> ('f, 'v) call_request \<Rightarrow> string \<Rightarrow> usize \<Rightarrow> u64 \<Rightarrow> u64 \<Rightarrow> string option
    \<Rightarrow> ('p, 's, 'w, 'v) call_env
    \<Rightarrow> (string + 'v connector_dispatch \<times> invocation_metrics) \<times> ('p, 's, 'w, 'v) call_env" where
  "retry_loop F P c phase_before attempt rate_total backoff_total last_error e =
     (if attempt > max_attempts (cr_retry_policy c) then (Inl (exhausted_retries c last_error), e)
      else
        (case attempt_call P c e of
           (waited, Inr dispatch, e1) \<Rightarrow>
             (case record_circuit (cr_connector_name c) True P e1 of (phase_after, e2) \<Rightarrow>
               (Inr (dispatch,
                  \<lparr>im_attempts = attempt, im_retries = attempt - 1,
                   im_priority_class = priority_str (cr_priority_class c),
                   im_rate_wait_ms_total = u64_saturating_add rate_total waited,
                   im_backoff_ms_total = backoff_total,
                   im_circuit_phase_before = phase_before, im_circuit_phase_after = phase_after\<rparr>), e2))
         | (waited, Inl err, e1) \<Rightarrow>
             (let error_string = normalize_connector_error_message (kernel_error_to_string err) in
              if attempt \<ge> max_attempts (cr_retry_policy c)
              then (case record_circuit (cr_connector_name c) False P e1 of (phase_after, e2) \<Rightarrow>
                     (Inl (invoke_failed c attempt error_string phase_before phase_after), e2))
              else
                let backoff = compute_backoff_ms F (cr_retry_policy c) (cr_connector_name c)
                      (cr_step_id c) (cr_call_id c) attempt in
                retry_loop F P c phase_before (attempt + 1) (u64_saturating_add rate_total waited)
                  (if backoff > 0 then u64_saturating_add backoff_total backoff else backoff_total)
                  (Some error_string) e1)))"
  by pat_completeness auto
termination
  by (relation "measure (\<lambda>(F, P, c, ph, attempt, r, b, l, e). Suc (max_attempts (cr_retry_policy c)) - attempt)")
    auto

declare retry_loop.simps [simp del]

definition invoke_with_resilience ::
  "'f f64_ops \<Rightarrow> call_policies \<Rightarrow> ('f, 'v) call_request \<Rightarrow> ('p, 's, 'w, 'v) call_env
    \<Rightarrow> (string + 'v connector_dispatch \<times> invocation_metrics) \<times> ('p, 's, 'w, 'v) call_env" where
  "invoke_with_resilience F P c e =
     (case acquire_circuit (cr_connector_name c) P (cr_step_id c) (cr_call_id c) e of
        (Inl err, e1) \<Rightarrow> (Inl err, e1)
      | (Inr phase_before, e1) \<Rightarrow> retry_loop F P c phase_before 1 0 0 None e1)"

definition sample_floats :: "unit f64_ops" where
  "sample_floats = \<lparr>f64_in_unit_range = (\<lambda>_. True), f64_le_zero = (\<lambda>_. True), f64_scaled_round = (\<lambda>b _. b)\<rparr>"


section \<open>Backoff\<close>

lemma min_mult_pow_cap:
  fixes i n m :: nat
  assumes "m \<le> c"
  shows "min (min (i * min n c) c) m = min (i * n) m"
proof (cases "i = 0 \<or> n \<le> c")
  case True
  with assms show ?thesis by auto
next
  case False
  then have "1 \<le> i" "c \<le> n" by simp_all
  from mult_le_mono [OF this(1) order_refl, of c] mult_le_mono [OF this]
  have "c \<le> i * c" "c \<le> i * n" by (simp_all only: mult_1)
  moreover have "min n c = c" using False by simp
  ultimately show ?thesis using assms by (simp only: min_absorb1 min_absorb2 order_trans)
qed

lemma backoff_base:
  assumes "attempt - 1 < 2 ^ 32"
  shows "unat (min (u64_saturating_mul initial (u64_saturating_pow2 (of_nat (attempt - 1)))) most) =
    min (unat initial * 2 ^ (attempt - 1)) (unat (most :: u64))"
proof -
  have "unat (of_nat (attempt - 1) :: u32) = attempt - 1"
    using assms by (simp add: unat_of_nat take_bit_nat_eq_self)
  then have "unat (u64_saturating_mul initial (u64_saturating_pow2 (of_nat (attempt - 1)))) =
      min (unat initial * min (2 ^ (attempt - 1)) (2 ^ 64 - 1)) (2 ^ 64 - 1)"
    by (simp only: unat_u64_saturating_mul unat_u64_saturating_pow2)
  moreover have "unat (min (a :: u64) b) = min (unat a) (unat b)" for a b
    by (simp add: min_def word_le_nat_alt)
  ultimately show ?thesis
    using min_mult_pow_cap [OF unat_u64_le [of most], of "unat initial" "2 ^ (attempt - 1)"]
    by simp
qed

lemma deterministic_jitter_bound:
  "unat (deterministic_jitter_ms seed (u64_saturating_add cap 1)) \<le> unat cap"
proof -
  let ?m = "u64_saturating_add cap 1"
  have m: "0 < unat ?m" "unat ?m \<le> unat cap + 1"
    by (simp_all add: unat_u64_saturating_add)
  have "unat (fnv1a seed mod ?m) = unat (fnv1a seed) mod unat ?m"
    by (rule unat_mod_distrib)
  also have "\<dots> < unat ?m"
    using m(1) by (rule mod_less_divisor)
  finally show ?thesis
    using m(2) by (simp add: deterministic_jitter_ms_def)
qed

text \<open>
  The delay before a retry is exponential and clamped: for attempt n (up to 2^32) it lies between
  min(initial * 2^(n-1), max) and max, exceeds that base by at most the jitter cap, and equals it
  without jitter. The saturating operations never let the delay fall back to a small value.
\<close>

theorem backoff_within_bounds:
  assumes "0 < attempt" "attempt \<le> 2 ^ 32"
  shows "let base = min (unat (initial_backoff_ms policy) * 2 ^ (attempt - 1)) (unat (max_backoff_ms policy));
             backoff = unat (compute_backoff_ms F policy connector step call_id attempt)
         in base \<le> backoff \<and> backoff \<le> unat (max_backoff_ms policy) \<and>
            backoff \<le> base + unat (f64_scaled_round F (of_nat base) (jitter_ratio policy)) \<and>
            (\<not> adaptive_jitter policy \<longrightarrow> backoff = base)"
proof -
  define b where "b = min (u64_saturating_mul (initial_backoff_ms policy)
    (u64_saturating_pow2 (of_nat (attempt - 1)))) (max_backoff_ms policy)"
  have b: "unat b = min (unat (initial_backoff_ms policy) * 2 ^ (attempt - 1)) (unat (max_backoff_ms policy))"
    using backoff_base [of attempt] assms by (simp add: b_def)
  define cap where "cap = f64_scaled_round F b (jitter_ratio policy)"
  have u: "unat (min (x :: u64) y) = min (unat x) (unat y)" for x y
    by (simp add: min_def word_le_nat_alt)
  obtain j where j: "unat j \<le> unat cap" and
    "compute_backoff_ms F policy connector step call_id attempt =
      (if \<not> adaptive_jitter policy \<or> b = 0 \<or> f64_le_zero F (jitter_ratio policy) \<or> cap = 0 then b
       else min (u64_saturating_add b j) (max_backoff_ms policy))" (is "?backoff = _")
  proof
    let ?seed = "connector @ ''|'' @ step @ ''|'' @
      (case call_id of Some i \<Rightarrow> i | None \<Rightarrow> ''no-call-id'') @ ''|attempt-'' @ nat_to_dec attempt"
    show "unat (deterministic_jitter_ms ?seed (u64_saturating_add cap 1)) \<le> unat cap"
      by (rule deterministic_jitter_bound)
    show "?backoff = (if \<not> adaptive_jitter policy \<or> b = 0 \<or> f64_le_zero F (jitter_ratio policy) \<or> cap = 0 then b
       else min (u64_saturating_add b (deterministic_jitter_ms ?seed (u64_saturating_add cap 1))) (max_backoff_ms policy))"
      unfolding compute_backoff_ms_def Let_def cap_def b_def using assms(1) by (auto simp only: split: if_splits)
  qed
  then have "unat ?backoff = (if \<not> adaptive_jitter policy \<or> b = 0 \<or> f64_le_zero F (jitter_ratio policy) \<or> cap = 0
      then unat b else min (min (unat b + unat j) (2 ^ 64 - 1)) (unat (max_backoff_ms policy)))"
    by (simp add: u unat_u64_saturating_add)
  moreover have "unat b \<le> unat (max_backoff_ms policy)" by (simp add: b)
  ultimately have "unat b \<le> unat ?backoff \<and> unat ?backoff \<le> unat (max_backoff_ms policy) \<and>
      unat ?backoff \<le> unat b + unat cap \<and> (\<not> adaptive_jitter policy \<longrightarrow> unat ?backoff = unat b)"
    using j unat_u64_le [of b] by (auto simp: min_def)
  moreover have "of_nat (unat b) = b" by simp
  ultimately show ?thesis
    unfolding b [symmetric] Let_def by (simp add: cap_def)
qed

theorem backoff_within_bounds_witness:
  "let backoff = unat (compute_backoff_ms sample_floats (retry_policy_default ()) connector step call_id 3)
   in 400 \<le> backoff \<and> backoff \<le> 2000"
  using backoff_within_bounds [of 3 "retry_policy_default ()" sample_floats connector step call_id]
  by (simp add: retry_policy_default_def Let_def)

section \<open>Rate-limited starts\<close>

text \<open>Concurrent calls reserve their slots in the order of the lock: a run of reservations
  \<open>(connector, now)\<close> with the instants at which the calls start.\<close>

fun rate_run :: "(string, connector_rate_limit) btree \<Rightarrow> (string \<times> instant) list \<Rightarrow> rate_states
    \<Rightarrow> (string \<times> instant) list" where
  "rate_run limits [] guard = []"
| "rate_run limits ((c, now) # es) guard =
     (case bt_get limits c of
        None \<Rightarrow> (c, now) # rate_run limits es guard
      | Some limit \<Rightarrow>
          (case rate_slot limit c now guard of (wait, guard') \<Rightarrow>
             (c, now + wait) # rate_run limits es guard'))"

text \<open>The reference: each start is at the call's own instant, or one interval after the previous
  start when that is later.\<close>

fun paced :: "nat \<Rightarrow> instant \<Rightarrow> instant list \<Rightarrow> instant list" where
  "paced interval next_slot [] = []"
| "paced interval next_slot (t # ts) =
     max t next_slot # paced interval (max t next_slot + interval) ts"

lemma rate_run_paced:
  assumes "bt_get limits c = Some limit"
  shows "map snd (filter (\<lambda>(d, _). d = c) (rate_run limits es guard)) =
    paced (duration_from_millis (min_interval_ms limit))
      (case bt_get guard c of Some s \<Rightarrow> s | None \<Rightarrow> 0) (map snd (filter (\<lambda>(d, _). d = c) es))"
proof (induction es arbitrary: guard)
  case Nil
  then show ?case by simp
next
  case (Cons e es)
  obtain d now where e: "e = (d, now)" by (cases e)
  show ?case
    using assms
    by (cases "bt_get limits d")
      (auto simp: e Cons.IH rate_slot_def Let_def max_def split: option.splits)
qed

lemma paced_spaced: "sorted_wrt (\<lambda>s t. s + interval \<le> t) (paced interval n ts) \<and> (\<forall>s \<in> set (paced interval n ts). n \<le> s)"
proof (induction ts arbitrary: n)
  case Nil
  then show ?case by simp
next
  case (Cons t ts)
  from Cons.IH [of "max t n + interval"] show ?case by force
qed

text \<open>
  The rate limiter spaces calls: whatever the interleaving of concurrent calls, the starts of a
  rate-limited connector are at least its interval apart, no call starts before it asked to, and each
  starts as early as that allows, independently of the other connectors.
\<close>

theorem rate_limited_calls_are_spaced:
  assumes "bt_get limits c = Some limit"
  shows "sorted_wrt (\<lambda>s t. s + duration_from_millis (min_interval_ms limit) \<le> t)
      (map snd (filter (\<lambda>(d, _). d = c) (rate_run limits es guard))) \<and>
    map snd (filter (\<lambda>(d, _). d = c) (rate_run limits es guard)) =
      paced (duration_from_millis (min_interval_ms limit))
        (case bt_get guard c of Some s \<Rightarrow> s | None \<Rightarrow> 0) (map snd (filter (\<lambda>(d, _). d = c) es))"
  using rate_run_paced [OF assms] paced_spaced by simp

theorem rate_limited_calls_are_spaced_witness:
  "sorted_wrt (\<lambda>s t. s + duration_from_millis (min_interval_ms \<lparr>min_interval_ms = 5\<rparr>) \<le> t)
      (map snd (filter (\<lambda>(d, _). d = ''a'') (rate_run [(''a'', \<lparr>min_interval_ms = 5\<rparr>)] [(''a'', 1), (''b'', 2), (''a'', 3)] [])))
   \<and> rate_run [(''a'', \<lparr>min_interval_ms = 5\<rparr>)] [(''a'', 1), (''b'', 2), (''a'', 3)] [] =
       [(''a'', 1), (''b'', 2), (''a'', 5000001)]"
  using rate_limited_calls_are_spaced [of "[(''a'', \<lparr>min_interval_ms = 5\<rparr>)]" "''a''" "\<lparr>min_interval_ms = 5\<rparr>"
      "[(''a'', 1), (''b'', 2), (''a'', 3)]" "[]"]
  by (simp add: rate_slot_def duration_from_millis_def ns_per_ms_def)


section \<open>Retries settle\<close>

fun failed_attempts :: "call_policies \<Rightarrow> ('f, 'v) call_request \<Rightarrow> kernel_error list
    \<Rightarrow> ('p, 's, 'w, 'v) call_env \<Rightarrow> ('p, 's, 'w, 'v) call_env \<Rightarrow> bool" where
  "failed_attempts P c [] e e' \<longleftrightarrow> e' = e"
| "failed_attempts P c (err # errs) e e' \<longleftrightarrow>
     (\<exists>w e1. attempt_call P c e = (w, Inl err, e1) \<and> failed_attempts P c errs e1 e')"

text \<open>What the last attempt, the \<open>n\<close>th, makes of the call.\<close>

definition settled :: "call_policies \<Rightarrow> ('f, 'v) call_request \<Rightarrow> string \<Rightarrow> nat
    \<Rightarrow> kernel_error + 'v connector_dispatch \<Rightarrow> ('p, 's, 'w, 'v) call_env
    \<Rightarrow> string + 'v connector_dispatch \<times> invocation_metrics \<Rightarrow> ('p, 's, 'w, 'v) call_env \<Rightarrow> bool" where
  "settled P c ph n d e2 res e' \<longleftrightarrow>
     (case d of
        Inr dispatch \<Rightarrow>
          (\<exists>m. res = Inr (dispatch, m) \<and> im_attempts m = n \<and> im_retries m = n - 1 \<and>
             im_circuit_phase_before m = ph \<and>
             record_circuit (cr_connector_name c) True P e2 = (im_circuit_phase_after m, e'))
      | Inl err \<Rightarrow> n = max_attempts (cr_retry_policy c) \<and>
          (\<exists>after. record_circuit (cr_connector_name c) False P e2 = (after, e') \<and>
             res = Inl (invoke_failed c n
               (normalize_connector_error_message (kernel_error_to_string err)) ph after)))"

lemma retry_loop_stops:
  assumes "retry_loop F P c ph n r b l e = (res, e')" "attempt_call P c e = (w, d, e2)"
    and "n \<le> max_attempts (cr_retry_policy c)" "isl d \<longrightarrow> n = max_attempts (cr_retry_policy c)"
  shows "settled P c ph n d e2 res e'"
proof (cases d)
  case (Inl err)
  obtain after e3 where "record_circuit (cr_connector_name c) False P e2 = (after, e3)" by fastforce
  with assms(1) [unfolded retry_loop.simps [of F P c ph n]] Inl assms(2-4) show ?thesis
    by (auto simp: settled_def Let_def)
next
  case (Inr dispatch)
  obtain after e3 where "record_circuit (cr_connector_name c) True P e2 = (after, e3)" by fastforce
  with Inr assms show ?thesis
    by (auto simp: retry_loop.simps [of F P c ph n] settled_def)
qed

lemma retry_loop_settles:
  assumes "n \<le> max_attempts (cr_retry_policy c)"
    and "retry_loop F P c ph n r b l e = (res, e')"
  shows "\<exists>errs e1 w d e2. failed_attempts P c errs e e1 \<and> attempt_call P c e1 = (w, d, e2) \<and>
    n + length errs \<le> max_attempts (cr_retry_policy c) \<and> settled P c ph (n + length errs) d e2 res e'"
  using assms
proof (induction "max_attempts (cr_retry_policy c) - n" arbitrary: n r b l e)
  case 0
  then have a: "n = max_attempts (cr_retry_policy c)" by simp
  obtain w d e2 where d: "attempt_call P c e = (w, d, e2)" by (metis prod_cases3)
  from retry_loop_stops [OF 0(3) d] a have "settled P c ph (n + length []) d e2 res e'" by simp
  then show ?case
    using d 0(2) by (metis add_0_right failed_attempts.simps(1) list.size(3))
next
  case (Suc k)
  then have a: "n + 1 \<le> max_attempts (cr_retry_policy c)" "k = max_attempts (cr_retry_policy c) - (n + 1)" by simp_all
  obtain w d e2 where d: "attempt_call P c e = (w, d, e2)" by (metis prod_cases3)
  show ?case
  proof (cases d)
    case (Inr dispatch)
    with retry_loop_stops [OF Suc.prems(2) d] a have "settled P c ph (n + length []) d e2 res e'" by simp
    then show ?thesis
      using d a Suc.prems(1) by (metis add_0_right failed_attempts.simps(1) list.size(3))
  next
    case (Inl err)
    obtain r' b' l' where "retry_loop F P c ph (n + 1) r' b' l' e2 = (res, e')"
      using a d Suc.prems Inl by (simp add: retry_loop.simps [of F P c ph n] Let_def)
    from Suc.hyps(1) [OF a(2) a(1) this] obtain errs e1 w' d' e3 where
      "failed_attempts P c errs e2 e1" "attempt_call P c e1 = (w', d', e3)"
      "n + length (err # errs) \<le> max_attempts (cr_retry_policy c)"
      "settled P c ph (n + length (err # errs)) d' e3 res e'"
      by auto
    with d Inl show ?thesis by (metis failed_attempts.simps(2))
  qed
qed

text \<open>
  C24. A connector call with retries settles once. When the circuit refuses it, nothing else happens:
  the kernel and the rate limiter are untouched. Otherwise it makes fewer than max_attempts failing
  attempts and then a last one; the outcome of the last one alone is recorded in the circuit, once;
  a success reports its number of attempts and retries, and a failure is returned only when all
  attempts are used up.
\<close>

theorem retried_call_settles:
  assumes "0 < max_attempts (cr_retry_policy c)"
    and "acquire_circuit (cr_connector_name c) P (cr_step_id c) (cr_call_id c) e = (slot, e0)"
    and "invoke_with_resilience F P c e = (res, e')"
  shows "case slot of
      Inl refusal \<Rightarrow> res = Inl refusal \<and> e' = e0 \<and> ce_kernel e' = ce_kernel e \<and> ce_rates e' = ce_rates e
    | Inr ph \<Rightarrow> \<exists>errs e1 w d e2. failed_attempts P c errs e0 e1 \<and> attempt_call P c e1 = (w, d, e2) \<and>
        length errs < max_attempts (cr_retry_policy c) \<and> settled P c ph (Suc (length errs)) d e2 res e'"
proof (cases slot)
  case (Inl refusal)
  then show ?thesis
    using assms(2,3) by (auto simp: invoke_with_resilience_def acquire_circuit_def read_instant_def
      split: prod.splits if_splits)
next
  case (Inr ph)
  then have "retry_loop F P c ph 1 0 0 None e0 = (res, e')"
    using assms(2,3) by (simp add: invoke_with_resilience_def)
  from retry_loop_settles [OF _ this] assms(1) Inr show ?thesis
    by (simp add: Suc_le_eq)
qed

text \<open>A call to a kernel with no packs: both attempts fail.\<close>

definition sample_call :: "(unit, unit) call_request" where
  "sample_call = \<lparr>cr_pack_id = ''p'', cr_token = sample_token, cr_connector_name = ''c'', cr_operation = ''op'',
     cr_required_capabilities = {}, cr_payload = (),
     cr_retry_policy = (retry_policy_default ())\<lparr>max_attempts := 2\<rparr>,
     cr_step_id = ''s'', cr_call_id = None, cr_priority_class = Normal\<rparr>"

definition sample_env :: "(static_policy_engine, unit, unit, unit) call_env" where
  "sample_env = \<lparr>ce_kernel = kernel_new_without_audit static_engine static_policy_engine_default (),
     ce_rates = [], ce_circuits = [], ce_instants = (\<lambda>n. n), ce_epochs = (\<lambda>_. 6)\<rparr>"

definition no_policies :: call_policies where
  "no_policies = \<lparr>cp_rate_limits = [], cp_circuit_breakers = []\<rparr>"

lemma sample_call_simps [simp]:
  "cr_connector_name sample_call = ''c''" "max_attempts (cr_retry_policy sample_call) = 2"
  by (simp_all add: sample_call_def)

lemma sample_acquire: "acquire_circuit (cr_connector_name sample_call) no_policies step call_id sample_env = (Inr ''disabled'', sample_env)"
  by (simp add: acquire_circuit_def no_policies_def acquire_programmatic_circuit_slot_def bt_contains_key_def)

theorem retried_call_settles_witness:
  "\<exists>errs e1 w d e2. failed_attempts no_policies sample_call errs sample_env e1 \<and>
     attempt_call no_policies sample_call e1 = (w, d, e2) \<and> length errs < 2 \<and>
     settled no_policies sample_call ''disabled'' (Suc (length errs)) d e2
       (fst (invoke_with_resilience sample_floats no_policies sample_call sample_env))
       (snd (invoke_with_resilience sample_floats no_policies sample_call sample_env))"
  using retried_call_settles [of sample_call no_policies sample_env, OF _ sample_acquire prod.collapse [symmetric]]
  by simp

end
