(* ===== verification/Payload_Templates.thy ===== *)
theory Payload_Templates
  imports Connector_Circuit
begin

text \<open>
  JSON values as the code handles them, and the payload templates of programmatic steps
  (crates/spec/src/programmatic.rs): \<open>{{step}}\<close> and \<open>{{step#pointer}}\<close> placeholders
  are replaced by the outputs of earlier steps. A \<open>serde_json::Value\<close> is its enum, with an
  object as an ordered map; numbers are abstract, and what \<open>serde_json\<close> computes on values (equality,
  lookup by pointer, text) is an argument.
\<close>

section \<open>JSON values\<close>

datatype 'n json =
    JNull
  | JBool bool
  | JNumber 'n
  | JString string
  | JArray "'n json list"
  | JObject "(string \<times> 'n json) list"

record 'n json_lib =
  jl_number :: "nat \<Rightarrow> 'n"
  jl_eq :: "'n json \<Rightarrow> 'n json \<Rightarrow> bool"
  jl_pointer :: "'n json \<Rightarrow> string \<Rightarrow> 'n json option"
  jl_to_string :: "'n json \<Rightarrow> string"

text \<open>\<open>json!({..})\<close> and a derived \<open>Serialize\<close> insert the fields one by one.\<close>

definition json_object :: "(string \<times> 'n json) list \<Rightarrow> 'n json" where
  "json_object members = JObject (fold (\<lambda>(k, v). bt_insert k v) members [])"

type_synonym 'n step_outputs = "(string, 'n json) btree"

section \<open>Expressions\<close>

definition normalize_programmatic_pointer :: "string \<Rightarrow> string + string" where
  "normalize_programmatic_pointer pointer =
     (let p = trim pointer in
      if p = [] then Inl (programmatic_error InvalidSpec ''json pointer cannot be empty'')
      else if prefix ''/'' p then Inr p
      else Inr (''/'' @ p))"

text \<open>\<open>str::split_once\<close> with a string: what is before and after its first occurrence.\<close>

fun split_once :: "string \<Rightarrow> string \<Rightarrow> (string \<times> string) option" where
  "split_once d [] = (if d = [] then Some ([], []) else None)"
| "split_once d (c # s) =
     (if prefix d (c # s) then Some ([], drop (length d) (c # s))
      else case split_once d s of None \<Rightarrow> None | Some (a, b) \<Rightarrow> Some (c # a, b))"

definition resolve_template_expr ::
  "'n json_lib \<Rightarrow> string \<Rightarrow> 'n step_outputs \<Rightarrow> string + 'n json" where
  "resolve_template_expr L raw_expr outputs =
     (let expr = trim raw_expr in
      if expr = [] then Inl (programmatic_error TemplateError ''template expression cannot be empty'')
      else
        let (step_id, pointer) = (case split_once ''#'' expr of
              Some (step_id, pointer) \<Rightarrow> (trim step_id, Some (trim pointer))
            | None \<Rightarrow> (expr, None)) in
        if step_id = [] then
          Inl (programmatic_error TemplateError (''template expression '' @ expr @ '' has empty step_id''))
        else
          case bt_get outputs step_id of
            None \<Rightarrow> Inl (programmatic_error UnknownStep
              (''template expression references unknown step '' @ step_id))
          | Some v \<Rightarrow>
              (case pointer of
                 None \<Rightarrow> Inr v
               | Some p \<Rightarrow>
                   try_bind (normalize_programmatic_pointer p) (\<lambda>normalized.
                     case jl_pointer L v normalized of
                       None \<Rightarrow> Inl (programmatic_error PointerNotFound
                         (''template pointer '' @ normalized @ '' not found in step '' @ step_id))
                     | Some found \<Rightarrow> Inr found)))"

section \<open>Strings\<close>

definition missing_braces :: "string \<Rightarrow> string" where
  "missing_braces raw = programmatic_error TemplateError
     (''template placeholder is missing closing braces in: '' @ raw)"

definition placeholder_text :: "'n json_lib \<Rightarrow> 'n json \<Rightarrow> string" where
  "placeholder_text L v = (case v of JString s \<Rightarrow> s | _ \<Rightarrow> jl_to_string L v)"

lemma split_once_length: "split_once d s = Some (a, b) \<Longrightarrow> length b + length a + length d = length s"
  by (induction s arbitrary: a)
    (auto split: if_splits option.splits dest: prefix_length_le)

lemma split_once_shorter [dest]: "split_once d s = Some (a, b) \<Longrightarrow> length b \<le> length s"
  using split_once_length by fastforce

text \<open>The loop over the placeholders; \<open>s\<close> is \<open>raw[cursor..]\<close>.\<close>

function render_placeholders ::
  "'n json_lib \<Rightarrow> string \<Rightarrow> 'n step_outputs \<Rightarrow> string \<Rightarrow> string \<Rightarrow> string + string" where
  "render_placeholders L raw outputs s rendered =
     (case split_once ''{{'' s of
        None \<Rightarrow> Inr (rendered @ s)
      | Some (literal, rest) \<Rightarrow>
          (case split_once ''}}'' rest of
             None \<Rightarrow> Inl (missing_braces raw)
           | Some (expr, rest') \<Rightarrow>
               try_bind (resolve_template_expr L expr outputs) (\<lambda>v.
                 render_placeholders L raw outputs rest' (rendered @ literal @ placeholder_text L v))))"
  by pat_completeness auto
termination
  by (relation "measure (\<lambda>(L, raw, outputs, s, rendered). length s)")
    (auto dest!: split_once_length)

declare render_placeholders.simps [simp del]

definition resolve_template_string ::
  "'n json_lib \<Rightarrow> string \<Rightarrow> 'n step_outputs \<Rightarrow> string + 'n json" where
  "resolve_template_string L raw outputs =
     (case split_once ''{{'' raw of
        None \<Rightarrow> Inr (JString raw)
      | Some (literal, rest) \<Rightarrow>
          (case split_once ''}}'' rest of
             None \<Rightarrow> Inl (missing_braces raw)
           | Some (expr, rest') \<Rightarrow>
               if literal = [] \<and> rest' = [] then resolve_template_expr L expr outputs
               else try_bind (render_placeholders L raw outputs raw []) (\<lambda>s. Inr (JString s))))"

section \<open>Payloads\<close>

fun resolve_payload_templates ::
    "'n json_lib \<Rightarrow> 'n step_outputs \<Rightarrow> 'n json \<Rightarrow> string + 'n json"
  and resolve_items :: "'n json_lib \<Rightarrow> 'n step_outputs \<Rightarrow> 'n json list \<Rightarrow> string + 'n json list"
  and resolve_members :: "'n json_lib \<Rightarrow> 'n step_outputs \<Rightarrow> (string \<times> 'n json) list
        \<Rightarrow> (string \<times> 'n json) list \<Rightarrow> string + (string \<times> 'n json) list" where
  "resolve_payload_templates L outputs (JObject m) =
     try_bind (resolve_members L outputs m []) (\<lambda>resolved. Inr (JObject resolved))"
| "resolve_payload_templates L outputs (JArray xs) =
     try_bind (resolve_items L outputs xs) (\<lambda>resolved. Inr (JArray resolved))"
| "resolve_payload_templates L outputs (JString raw) = resolve_template_string L raw outputs"
| "resolve_payload_templates L outputs JNull = Inr JNull"
| "resolve_payload_templates L outputs (JBool b) = Inr (JBool b)"
| "resolve_payload_templates L outputs (JNumber n) = Inr (JNumber n)"
| "resolve_items L outputs [] = Inr []"
| "resolve_items L outputs (x # xs) =
     try_bind (resolve_payload_templates L outputs x) (\<lambda>v.
     try_bind (resolve_items L outputs xs) (\<lambda>vs. Inr (v # vs)))"
| "resolve_members L outputs [] resolved = Inr resolved"
| "resolve_members L outputs ((k, x) # m) resolved =
     try_bind (resolve_payload_templates L outputs x) (\<lambda>v.
     resolve_members L outputs m (bt_insert k v resolved))"

section \<open>Provenance\<close>

definition bt_remove :: "string \<Rightarrow> (string, 'v) btree \<Rightarrow> (string, 'v) btree" where
  "bt_remove k m = filter (\<lambda>e. fst e \<noteq> k) m"

definition attach_payload_provenance ::
  "'n json_lib \<Rightarrow> 'n json \<Rightarrow> string \<Rightarrow> string \<Rightarrow> usize \<Rightarrow> string option \<Rightarrow> 'n json" where
  "attach_payload_provenance L payload caller step_id step_index call_id =
     (let payload_map = (case payload of JObject m \<Rightarrow> m | other \<Rightarrow> bt_insert ''input'' other []);
          meta = (case bt_get payload_map ''_loong'' of Some (JObject m) \<Rightarrow> m | _ \<Rightarrow> []);
          meta = bt_insert ''caller'' (JString caller) meta;
          meta = bt_insert ''mode'' (JString ''programmatic_tool_call'') meta;
          meta = bt_insert ''step_id'' (JString step_id) meta;
          meta = bt_insert ''step_index'' (JNumber (jl_number L step_index)) meta;
          meta = (case call_id of Some i \<Rightarrow> bt_insert ''call_id'' (JString i) meta | None \<Rightarrow> meta)
      in JObject (bt_insert ''_loong'' (JObject meta) (bt_remove ''_loong'' payload_map)))"


section \<open>What a template means\<close>

datatype segment = Literal string | Placeholder string

fun segment_source :: "segment \<Rightarrow> string" where
  "segment_source (Literal l) = l"
| "segment_source (Placeholder e) = ''{{'' @ e @ ''}}''"

definition template_source :: "segment list \<Rightarrow> string" where
  "template_source segs = concat (map segment_source segs)"

text \<open>Literals are not empty and do not open a placeholder, not even together with what follows;
  expressions do not close one.\<close>

fun segment_ok :: "segment \<Rightarrow> bool" where
  "segment_ok (Literal l) \<longleftrightarrow> l \<noteq> [] \<and> \<not> sublist ''{{'' (l @ ''{'')"
| "segment_ok (Placeholder e) \<longleftrightarrow> \<not> sublist ''}}'' (e @ ''}'')"

fun render_segments :: "'n json_lib \<Rightarrow> 'n step_outputs \<Rightarrow> segment list \<Rightarrow> string + string" where
  "render_segments L outputs [] = Inr []"
| "render_segments L outputs (Literal l # segs) =
     try_bind (render_segments L outputs segs) (\<lambda>t. Inr (l @ t))"
| "render_segments L outputs (Placeholder e # segs) =
     try_bind (resolve_template_expr L e outputs) (\<lambda>v.
     try_bind (render_segments L outputs segs) (\<lambda>t. Inr (placeholder_text L v @ t)))"

lemma template_source_simps [simp]:
  "template_source [] = []"
  "template_source (s # segs) = segment_source s @ template_source segs"
  by (simp_all add: template_source_def)

lemma split_once_None: "split_once d s = None \<longleftrightarrow> \<not> sublist d s"
  by (induction s) (auto simp: sublist_Cons_right split: option.splits)

lemma split_once_skip:
  "\<not> sublist [a, a] (l @ [a]) \<Longrightarrow>
    split_once [a, a] (l @ s) = map_option (\<lambda>(x, y). (l @ x, y)) (split_once [a, a] s)"
proof (induction l)
  case Nil
  then show ?case by (cases "split_once [a, a] s") auto
next
  case (Cons c l)
  then have l: "\<not> sublist [a, a] (l @ [a])" and p: "\<not> prefix [a, a] (c # l @ [a])"
    by (auto simp: sublist_Cons_right)
  from p have "\<not> prefix [a, a] (c # l @ s)"
    by (cases l) auto
  with Cons.IH [OF l] show ?case
    by (auto split: option.splits)
qed

lemma split_once_at: "split_once d (d @ s) = Some ([], s)"
  by (cases d; cases s) simp_all

lemma split_once_placeholder:
  "\<not> sublist ''}}'' (e @ ''}'') \<Longrightarrow> split_once ''}}'' (e @ ''}}'' @ s) = Some (e, s)"
  using split_once_skip [of "CHR ''}''" e "''}}'' @ s"] split_once_at [of "''}}''" s] by simp

lemma render_literal:
  assumes "\<not> sublist ''{{'' (l @ ''{'')"
  shows "render_placeholders L raw outputs (l @ s) rendered = render_placeholders L raw outputs s (rendered @ l)"
  using split_once_skip [OF assms, of s]
  by (cases "split_once ''{{'' s")
    (simp_all add: render_placeholders.simps [of L raw outputs "l @ s"] render_placeholders.simps [of L raw outputs s]
      split: prod.split option.split)

lemma render_placeholder:
  assumes "\<not> sublist ''}}'' (e @ ''}'')"
  shows "render_placeholders L raw outputs (''{{'' @ e @ ''}}'' @ s) rendered =
    try_bind (resolve_template_expr L e outputs) (\<lambda>v.
      render_placeholders L raw outputs s (rendered @ placeholder_text L v))"
proof -
  have "split_once ''{{'' (''{{'' @ e @ ''}}'' @ s) = Some ([], e @ ''}}'' @ s)"
    by (rule split_once_at)
  with split_once_placeholder [OF assms, of s] show ?thesis
    by (simp only: render_placeholders.simps [of L raw outputs "''{{'' @ e @ ''}}'' @ s"] option.case prod.case
        append_Nil append_assoc)
qed

lemma render_template_source:
  "list_all segment_ok segs \<Longrightarrow> render_placeholders L raw outputs (template_source segs) rendered =
    try_bind (render_segments L outputs segs) (\<lambda>t. Inr (rendered @ t))"
proof (induction segs arbitrary: rendered)
  case Nil
  then show ?case by (simp add: render_placeholders.simps)
next
  case (Cons seg segs)
  show ?case
  proof (cases seg)
    case (Literal l)
    with Cons show ?thesis
      by (cases "render_segments L outputs segs") (simp_all add: render_literal)
  next
    case (Placeholder e)
    with Cons show ?thesis
      using render_placeholder [of e L raw outputs "template_source segs"]
      by (cases "resolve_template_expr L e outputs"; cases "render_segments L outputs segs") simp_all
  qed
qed

lemma template_source_Nil: "list_all segment_ok segs \<Longrightarrow> template_source segs = [] \<longleftrightarrow> segs = []"
  by (cases segs; cases "hd segs") auto

lemma resolve_rendered:
  assumes "\<And>r e. split_once ''{{'' raw = Some ([], r) \<Longrightarrow> split_once ''}}'' r \<noteq> Some (e, [])"
  shows "resolve_template_string L raw outputs =
    try_bind (render_placeholders L raw outputs raw []) (\<lambda>s. Inr (JString s))"
proof (cases "split_once ''{{'' raw")
  case None
  then show ?thesis
    by (simp add: resolve_template_string_def render_placeholders.simps [of L raw outputs raw])
next
  case (Some lr)
  obtain l r where lr: "split_once ''{{'' raw = Some (l, r)" using Some by (cases lr) simp
  show ?thesis
  proof (cases "split_once ''}}'' r")
    case None
    with lr show ?thesis
      by (simp add: resolve_template_string_def render_placeholders.simps [of L raw outputs raw])
  next
    case (Some er)
    with lr assms [of r "fst er"] show ?thesis
      by (cases er) (auto simp: resolve_template_string_def)
  qed
qed

text \<open>
  A template string means its segments: a string that is one placeholder becomes the referenced
  value itself, of whatever type; any other string becomes the concatenation of its literals and of
  the texts of the referenced values, evaluated left to right with the first error returned. Inserted
  text is not expanded again, so a tool's output cannot inject placeholders.
\<close>

theorem template_means_its_segments:
  assumes "list_all segment_ok segs"
  shows "resolve_template_string L (template_source segs) outputs =
    (case segs of
       [Placeholder e] \<Rightarrow> resolve_template_expr L e outputs
     | _ \<Rightarrow> try_bind (render_segments L outputs segs) (\<lambda>s. Inr (JString s)))"
proof (cases "\<exists>e. segs = [Placeholder e]")
  case True
  then obtain e where e: "segs = [Placeholder e]" by blast
  then have "split_once ''{{'' (template_source segs) = Some ([], e @ ''}}'')"
    using split_once_at [of "''{{''" "e @ ''}}''"] by simp
  with e assms split_once_placeholder [of e "[]"] show ?thesis
    by (simp add: resolve_template_string_def)
next
  case False
  have "split_once ''}}'' r \<noteq> Some (e, [])"
    if at: "split_once ''{{'' (template_source segs) = Some ([], r)" for r e
  proof (cases segs)
    case Nil
    with at show ?thesis by simp
  next
    case (Cons seg segs')
    show ?thesis
    proof (cases seg)
      case (Literal l)
      with at assms Cons split_once_skip [of "CHR ''{''" l "template_source segs'"] show ?thesis
        by (cases "split_once ''{{'' (template_source segs')") (auto simp: Cons)
    next
      case (Placeholder x)
      then have "r = x @ ''}}'' @ template_source segs'"
        using at Cons split_once_at [of "''{{''" "x @ ''}}'' @ template_source segs'"] by simp
      moreover have "template_source segs' \<noteq> []"
        using template_source_Nil [of segs'] False Cons Placeholder assms by auto
      ultimately show ?thesis
        using split_once_placeholder [of x "template_source segs'"] assms Cons Placeholder by simp
    qed
  qed
  then have "resolve_template_string L (template_source segs) outputs =
      try_bind (render_placeholders L (template_source segs) outputs (template_source segs) []) (\<lambda>s. Inr (JString s))"
    by (rule resolve_rendered)
  also have "\<dots> = try_bind (render_segments L outputs segs) (\<lambda>s. Inr (JString s))"
    using render_template_source [OF assms, of L "template_source segs" outputs "[]"]
    by (cases "render_segments L outputs segs") simp_all
  finally show ?thesis
    using False by (auto split: list.splits segment.splits)
qed

definition sample_json_lib :: "unit json_lib" where
  "sample_json_lib = \<lparr>jl_number = (\<lambda>_. ()), jl_eq = (=), jl_pointer = (\<lambda>_ _. None), jl_to_string = (\<lambda>_. ''x'')\<rparr>"

theorem template_means_its_segments_witness:
  "resolve_template_string sample_json_lib ''a {{ s }}!'' [(''s'', JString ''{{t}}'')] = Inr (JString ''a {{t}}!'') \<and>
   resolve_template_string sample_json_lib ''{{s}}'' [(''s'', JArray [])] = Inr (JArray [])"
  using template_means_its_segments [of "[Literal ''a '', Placeholder '' s '', Literal ''!'']" sample_json_lib
      "[(''s'', JString ''{{t}}'')]"]
    template_means_its_segments [of "[Placeholder ''s'']" sample_json_lib "[(''s'', JArray [])]"]
  by (simp add: sublist_code resolve_template_expr_def placeholder_text_def trim_def trim_start_def trim_end_def
      whitespace_encodings_def)

section \<open>Payloads without placeholders\<close>

fun has_placeholder :: "'n json \<Rightarrow> bool" where
  "has_placeholder (JString s) \<longleftrightarrow> sublist ''{{'' s"
| "has_placeholder (JArray xs) \<longleftrightarrow> list_ex has_placeholder xs"
| "has_placeholder (JObject m) \<longleftrightarrow> list_ex (\<lambda>(k, x). has_placeholder x) m"
| "has_placeholder _ \<longleftrightarrow> False"

fun json_wf :: "'n json \<Rightarrow> bool" where
  "json_wf (JArray xs) \<longleftrightarrow> list_all json_wf xs"
| "json_wf (JObject m) \<longleftrightarrow> bt_wf m \<and> list_all (\<lambda>(k, x). json_wf x) m"
| "json_wf _ \<longleftrightarrow> True"

lemma bt_insert_last: "(\<forall>e \<in> set m. fst e < k) \<Longrightarrow> bt_insert k v m = m @ [(k, v)]"
  by (induction m) auto

lemma resolve_plain:
  "json_wf x \<Longrightarrow> \<not> has_placeholder x \<Longrightarrow> resolve_payload_templates L outputs x = Inr x"
  "list_all json_wf xs \<Longrightarrow> \<not> list_ex has_placeholder xs \<Longrightarrow> resolve_items L outputs xs = Inr xs"
  "bt_wf (acc @ m) \<Longrightarrow> list_all (\<lambda>(k, x). json_wf x) m \<Longrightarrow> \<not> list_ex (\<lambda>(k, x). has_placeholder x) m \<Longrightarrow>
     resolve_members L outputs m acc = Inr (acc @ m)"
proof (induction L outputs x and L outputs xs and L outputs m acc
    rule: resolve_payload_templates_resolve_items_resolve_members.induct)
  case (3 L outputs raw)
  then show ?case by (simp add: resolve_template_string_def split_once_None [THEN iffD2])
next
  case (10 L outputs k x m resolved)
  have "bt_insert k x resolved = resolved @ [(k, x)]"
    using 10(3) by (intro bt_insert_last) (auto simp: bt_wf_def sorted_wrt_append)
  with 10 10(2) [of x] show ?case by simp
qed simp_all

text \<open>A payload without placeholders is passed on as it is.\<close>

lemma plain_payload_unchanged:
  "json_wf payload \<Longrightarrow> \<not> has_placeholder payload \<Longrightarrow> resolve_payload_templates L outputs payload = Inr payload"
  by (rule resolve_plain)

section \<open>Where a payload comes from\<close>

lemma bt_get_remove [simp]: "bt_get (bt_remove k m) j = (if j = k then None else bt_get m j)"
  by (induction m) (auto simp: bt_remove_def)

text \<open>
  C38. The provenance of a connector payload cannot be forged: whatever the payload holds under
  `_loong`, the caller, mode, step id, step index and, in a batch, the call id are those of the
  actual call, and every other entry of the payload is passed on as it was (a payload that is not an
  object becomes the entry `input`).
\<close>

theorem provenance_cannot_be_forged:
  "\<exists>m meta. attach_payload_provenance L payload caller step_id step_index call_id = JObject m \<and>
     bt_get m ''_loong'' = Some (JObject meta) \<and>
     bt_get meta ''caller'' = Some (JString caller) \<and>
     bt_get meta ''mode'' = Some (JString ''programmatic_tool_call'') \<and>
     bt_get meta ''step_id'' = Some (JString step_id) \<and>
     bt_get meta ''step_index'' = Some (JNumber (jl_number L step_index)) \<and>
     (case call_id of Some i \<Rightarrow> bt_get meta ''call_id'' = Some (JString i) | None \<Rightarrow> True) \<and>
     (bt_get m)(''_loong'' := None) =
       (case payload of
          JObject p \<Rightarrow> (bt_get p)(''_loong'' := None)
        | other \<Rightarrow> [''input'' \<mapsto> other])"
  by (cases payload; cases call_id) (auto simp: attach_payload_provenance_def Let_def fun_eq_iff)

end
