(* ===== verification/Programmatic_Steps.thy ===== *)
theory Programmatic_Steps
  imports Programmatic_Invocation Payload_Templates
begin

text \<open>
  A programmatic tool call (crates/spec/src/programmatic.rs, \<open>execute_programmatic_tool_call\<close>): a
  list of steps over the outputs of the steps before, within a call budget and a connector
  allow-list. Connector calls go through Programmatic\_Invocation; in a parallel batch the order in
  which the calls complete, and the kernel they leave, come from the environment.
\<close>

section \<open>Steps\<close>

record ('f, 'n) programmatic_batch_call =
  bc_call_id :: string
  bc_connector_name :: string
  bc_operation :: string
  bc_required_capabilities :: "capability set"
  bc_retry :: "'f retry_policy option"
  bc_priority_class :: priority_class
  bc_payload :: "'n json"

datatype ('f, 'n) programmatic_step =
    SetLiteral string "'n json"
  | JsonPointer string string string
  | ConnectorCall string string string "capability set" "'f retry_policy option" priority_class "'n json"
  | ConnectorBatch string bool bool "('f, 'n) programmatic_batch_call list"
  | Conditional string string "string option" "'n json option" "bool option" "'n json" "'n json option"

record ('f, 'n) prepared_request =
  pq_required_capabilities :: "capability set"
  pq_retry_policy :: "'f retry_policy"
  pq_payload :: "'n json"

type_synonym ('f, 'n) prepared = "('f, 'n) prepared_request prepared_call"

type_synonym ('p, 's, 'w, 'n) env = "('p, 's, 'w, 'n json) call_env"

type_synonym 'n batch_result = "('n json connector_outcome, invocation_metrics) dispatch_result"

text \<open>The arguments of the call, with the library functions the model is over and the scheduling of
  parallel batches.\<close>

record ('f, 'n, 'p, 's, 'w) tool_call =
  tc_json :: "'n json_lib"
  tc_floats :: "'f f64_ops"
  tc_fifth :: 'f
  tc_interleave :: "('f, 'n) prepared list \<Rightarrow> ('p, 's, 'w, 'n) env
      \<Rightarrow> (nat \<times> 'n batch_result) list \<times> ('p, 's, 'w, 'n) env"
  tc_pack_id :: string
  tc_token :: capability_token
  tc_caller :: string
  tc_max_calls :: usize
  tc_include_intermediate :: bool
  tc_allowed_connectors :: "string set"
  tc_policies :: call_policies
  tc_concurrency :: concurrency_policy
  tc_return_step :: "string option"

record ('n, 'p, 's, 'w) run_state =
  rs_outputs :: "'n step_outputs"
  rs_connector_calls :: usize
  rs_last_step_id :: "string option"
  rs_step_trace :: "'n json list"
  rs_env :: "('p, 's, 'w, 'n) env"

text \<open>A run may also stay pending: a parallel batch whose calls do not all complete.\<close>

datatype stop = StepError string | StepPending

definition stopped :: "string + 'a \<Rightarrow> stop + 'a" where
  "stopped r = map_err StepError r"

section \<open>Serialized reports\<close>

definition json_opt :: "('a \<Rightarrow> 'n json) \<Rightarrow> 'a option \<Rightarrow> 'n json" where
  "json_opt f x = (case x of None \<Rightarrow> JNull | Some y \<Rightarrow> f y)"

definition json_nat :: "'n json_lib \<Rightarrow> nat \<Rightarrow> 'n json" where
  "json_nat L n = JNumber (jl_number L n)"

definition outcome_json :: "'n json connector_outcome \<Rightarrow> 'n json" where
  "outcome_json o1 = json_object [(''status'', JString (co_status o1)), (''payload'', co_payload o1)]"

definition metrics_json :: "'n json_lib \<Rightarrow> invocation_metrics \<Rightarrow> 'n json" where
  "metrics_json L m = json_object
     [(''attempts'', json_nat L (im_attempts m)), (''retries'', json_nat L (im_retries m)),
      (''priority_class'', JString (im_priority_class m)),
      (''rate_wait_ms_total'', json_nat L (unat (im_rate_wait_ms_total m))),
      (''backoff_ms_total'', json_nat L (unat (im_backoff_ms_total m))),
      (''circuit_phase_before'', JString (im_circuit_phase_before m)),
      (''circuit_phase_after'', JString (im_circuit_phase_after m))]"

fun report_json :: "'n json_lib \<Rightarrow> ('n json connector_outcome, invocation_metrics) call_report \<Rightarrow> 'n json" where
  "report_json L (ReportOk call_id connector operation outcome metrics) = json_object
     [(''call_id'', JString call_id), (''status'', JString ''ok''), (''connector_name'', JString connector),
      (''operation'', JString operation), (''outcome'', outcome_json outcome),
      (''execution'', metrics_json L metrics)]"
| "report_json L (ReportError call_id connector operation err code) = json_object
     [(''call_id'', JString call_id), (''status'', JString ''error''), (''connector_name'', JString connector),
      (''operation'', JString operation), (''error'', JString err), (''error_code'', JString code)]"

definition summary_json :: "'n json_lib \<Rightarrow> batch_summary \<Rightarrow> 'n json" where
  "summary_json L s = json_object
     [(''mode'', JString (bs_mode s)), (''fairness'', JString (bs_fairness s)),
      (''adaptive_budget'', JBool (bs_adaptive_budget s)),
      (''configured_max_in_flight'', json_nat L (configured_max_in_flight s)),
      (''configured_min_in_flight'', json_nat L (configured_min_in_flight s)),
      (''peak_in_flight'', json_nat L (peak_in_flight s)),
      (''final_in_flight_budget'', json_nat L (final_in_flight_budget s)),
      (''budget_reductions'', json_nat L (budget_reductions s)),
      (''budget_increases'', json_nat L (budget_increases s)),
      (''adaptive_upshift_step'', json_nat L (bs_upshift_step s)),
      (''adaptive_downshift_step'', json_nat L (bs_downshift_step s)),
      (''adaptive_reduce_on'', JArray (map JString (bs_reduce_on s))),
      (''scheduler_wait_cycles'', json_nat L (scheduler_wait_cycles s)),
      (''dispatch_order'', JArray (map JString (dispatch_order s))),
      (''priority_dispatch_counts'', JObject (map (\<lambda>(k, n). (k, json_nat L n)) (priority_dispatch_counts s)))]"

section \<open>Guards\<close>

definition ensure_new_step_id :: "string \<Rightarrow> 'n step_outputs \<Rightarrow> string + unit" where
  "ensure_new_step_id step_id outputs =
     (if trim step_id = [] then Inl (programmatic_error InvalidSpec ''programmatic step_id cannot be empty'')
      else if bt_contains_key outputs step_id then
        Inl (programmatic_error InvalidSpec (''programmatic step_id '' @ step_id @ '' is duplicated''))
      else Inr ())"

definition connector_allowed :: "string set \<Rightarrow> string \<Rightarrow> bool" where
  "connector_allowed allowed connector \<longleftrightarrow> allowed = {} \<or> connector \<in> allowed"

section \<open>Batches\<close>

fun prepare_calls ::
  "('f, 'n, 'p, 's, 'w) tool_call \<Rightarrow> 'n step_outputs \<Rightarrow> string \<Rightarrow> usize \<Rightarrow> string set
    \<Rightarrow> ('f, 'n) programmatic_batch_call list \<Rightarrow> string + ('f, 'n) prepared list" where
  "prepare_calls C outputs step_id index seen [] = Inr []"
| "prepare_calls C outputs step_id index seen (call # calls) =
     (let call_id = trim (bc_call_id call) in
      if call_id = [] then
        Inl (programmatic_error InvalidSpec (''programmatic batch step '' @ step_id @
          '' has a call with empty call_id''))
      else if call_id \<in> seen then
        Inl (programmatic_error InvalidSpec (''programmatic batch step '' @ step_id @
          '' has duplicated call_id '' @ call_id))
      else if \<not> connector_allowed (tc_allowed_connectors C) (bc_connector_name call) then
        Inl (programmatic_error ConnectorNotAllowedCode (''programmatic batch step '' @ step_id @
          '' connector '' @ bc_connector_name call @ '' is not in allowed_connectors''))
      else
        try_bind (validate_retry_policy (tc_floats C) (tc_fifth C) (bc_retry call) step_id (Some call_id)) (\<lambda>retry.
        try_bind (resolve_payload_templates (tc_json C) outputs (bc_payload call)) (\<lambda>resolved.
        try_bind (prepare_calls C outputs step_id index (insert call_id seen) calls) (\<lambda>rest.
          Inr (\<lparr>pc_call_id = call_id, pc_connector_name = bc_connector_name call,
                pc_operation = bc_operation call, pc_priority_class = bc_priority_class call,
                pc_request = \<lparr>pq_required_capabilities = bc_required_capabilities call,
                  pq_retry_policy = retry,
                  pq_payload = attach_payload_provenance (tc_json C) resolved (tc_caller C) step_id index
                    (Some call_id)\<rparr>\<rparr> # rest)))))"

definition prepare_batch_calls ::
  "('f, 'n, 'p, 's, 'w) tool_call \<Rightarrow> 'n step_outputs \<Rightarrow> string \<Rightarrow> usize
    \<Rightarrow> ('f, 'n) programmatic_batch_call list \<Rightarrow> string + ('f, 'n) prepared list" where
  "prepare_batch_calls C outputs step_id index calls = prepare_calls C outputs step_id index {} calls"

definition invoke_prepared ::
  "('f, 'n, 'p, 's, 'w) tool_call \<Rightarrow> string \<Rightarrow> ('f, 'n) prepared \<Rightarrow> ('p, 's, 'w, 'n) env
    \<Rightarrow> 'n batch_result \<times> ('p, 's, 'w, 'n) env" where
  "invoke_prepared C step_id call e =
     (case invoke_with_resilience (tc_floats C) (tc_policies C)
        \<lparr>cr_pack_id = tc_pack_id C, cr_token = tc_token C, cr_connector_name = pc_connector_name call,
         cr_operation = pc_operation call,
         cr_required_capabilities = pq_required_capabilities (pc_request call),
         cr_payload = pq_payload (pc_request call), cr_retry_policy = pq_retry_policy (pc_request call),
         cr_step_id = step_id, cr_call_id = Some (pc_call_id call),
         cr_priority_class = pc_priority_class call\<rparr> e of
        (Inr (dispatch, metrics), e1) \<Rightarrow>
          (Dispatched (cd_connector_name dispatch) (cd_outcome dispatch) metrics, e1)
      | (Inl err, e1) \<Rightarrow> (DispatchFailed err, e1))"

text \<open>A serial batch calls one after the other and stops at a failure unless the step continues.\<close>

fun serial_results ::
  "('f, 'n, 'p, 's, 'w) tool_call \<Rightarrow> string \<Rightarrow> bool \<Rightarrow> ('f, 'n) prepared list \<Rightarrow> ('p, 's, 'w, 'n) env
    \<Rightarrow> 'n batch_result list \<times> ('p, 's, 'w, 'n) env" where
  "serial_results C step_id continue_on_error [] e = ([], e)"
| "serial_results C step_id continue_on_error (call # calls) e =
     (case invoke_prepared C step_id call e of
        (DispatchFailed err, e1) \<Rightarrow>
          if \<not> continue_on_error then ([DispatchFailed err], e1)
          else (case serial_results C step_id continue_on_error calls e1 of
                  (results, e2) \<Rightarrow> (DispatchFailed err # results, e2))
      | (result, e1) \<Rightarrow>
          (case serial_results C step_id continue_on_error calls e1 of (results, e2) \<Rightarrow> (result # results, e2)))"

definition run_batch ::
  "('f, 'n, 'p, 's, 'w) tool_call \<Rightarrow> string \<Rightarrow> bool \<Rightarrow> bool \<Rightarrow> ('f, 'n) prepared list \<Rightarrow> ('p, 's, 'w, 'n) env
    \<Rightarrow> (stop + ('n json connector_outcome, invocation_metrics) call_report list \<times> batch_summary)
       \<times> ('p, 's, 'w, 'n) env" where
  "run_batch C step_id parallel_step continue_on_error calls e =
     (if parallel_step \<and> length calls > 1
      then (case tc_interleave C calls e of (completions, e1) \<Rightarrow>
             (case execute_batch_calls (tc_concurrency C) step_id True continue_on_error calls completions of
                None \<Rightarrow> Inl StepPending
              | Some r \<Rightarrow> stopped r, e1))
      else (case serial_results C step_id continue_on_error calls e of (results, e1) \<Rightarrow>
             (case serial_loop step_id continue_on_error (zip calls results) []
                     (summary_start (tc_concurrency C) False) of
                Inl err \<Rightarrow> Inl (StepError err)
              | Inr (reports, s) \<Rightarrow>
                  Inr (reports_in_order (map pc_call_id calls) reports, s\<lparr>final_in_flight_budget := 1\<rparr>), e1)))"

section \<open>The steps\<close>

definition finish_step ::
  "('f, 'n, 'p, 's, 'w) tool_call \<Rightarrow> string \<Rightarrow> 'n json \<Rightarrow> (string \<times> 'n json) list
    \<Rightarrow> ('n, 'p, 's, 'w) run_state \<Rightarrow> ('n, 'p, 's, 'w) run_state" where
  "finish_step C step_id output described st =
     st\<lparr>rs_outputs := bt_insert step_id output (rs_outputs st), rs_last_step_id := Some step_id,
        rs_step_trace := (if tc_include_intermediate C
          then rs_step_trace st @ [json_object ((''step_id'', JString step_id) # described @ [(''output'', output)])]
          else rs_step_trace st)\<rparr>"

definition unknown_from_step :: "string \<Rightarrow> string \<Rightarrow> string" where
  "unknown_from_step step_id from_step = programmatic_error UnknownStep
     (''programmatic step '' @ step_id @ '' references unknown from_step '' @ from_step)"

definition step_set_literal ::
  "('f, 'n, 'p, 's, 'w) tool_call \<Rightarrow> string \<Rightarrow> 'n json \<Rightarrow> ('n, 'p, 's, 'w) run_state
    \<Rightarrow> (stop + unit) \<times> ('n, 'p, 's, 'w) run_state" where
  "step_set_literal C step_id v st =
     and_then (stopped (ensure_new_step_id step_id (rs_outputs st)), st) (\<lambda>_ st.
       (Inr (), finish_step C step_id v [(''kind'', JString ''set_literal'')] st))"

definition step_json_pointer ::
  "('f, 'n, 'p, 's, 'w) tool_call \<Rightarrow> string \<Rightarrow> string \<Rightarrow> string \<Rightarrow> ('n, 'p, 's, 'w) run_state
    \<Rightarrow> (stop + unit) \<times> ('n, 'p, 's, 'w) run_state" where
  "step_json_pointer C step_id from_step pointer st =
     and_then (stopped (ensure_new_step_id step_id (rs_outputs st)), st) (\<lambda>_ st.
     and_then (stopped (case bt_get (rs_outputs st) from_step of
                 None \<Rightarrow> Inl (unknown_from_step step_id from_step) | Some v \<Rightarrow> Inr v), st) (\<lambda>source st.
     and_then (stopped (case jl_pointer (tc_json C) source pointer of
                 None \<Rightarrow> Inl (programmatic_error PointerNotFound
                   (''programmatic step '' @ step_id @ '' pointer '' @ pointer @ '' not found in '' @ from_step))
               | Some v \<Rightarrow> Inr v), st) (\<lambda>extracted st.
       (Inr (), finish_step C step_id extracted
         [(''kind'', JString ''json_pointer''), (''from_step'', JString from_step), (''pointer'', JString pointer)] st))))"

definition step_connector_call ::
  "('f, 'n, 'p, 's, 'w) tool_call \<Rightarrow> usize \<Rightarrow> string \<Rightarrow> string \<Rightarrow> string \<Rightarrow> capability set
    \<Rightarrow> 'f retry_policy option \<Rightarrow> priority_class \<Rightarrow> 'n json \<Rightarrow> ('n, 'p, 's, 'w) run_state
    \<Rightarrow> (stop + unit) \<times> ('n, 'p, 's, 'w) run_state" where
  "step_connector_call C index step_id connector operation required retry priority payload st =
     and_then (stopped (ensure_new_step_id step_id (rs_outputs st)), st) (\<lambda>_ st.
     if \<not> connector_allowed (tc_allowed_connectors C) connector then
       (Inl (StepError (programmatic_error ConnectorNotAllowedCode (''programmatic step '' @ step_id @
          '' connector '' @ connector @ '' is not in allowed_connectors''))), st)
     else if rs_connector_calls st \<ge> tc_max_calls C then
       (Inl (StepError (programmatic_error CallBudgetExceeded
          (''programmatic connector call budget exceeded: max_calls='' @ nat_to_dec (tc_max_calls C)))), st)
     else
     and_then (stopped (validate_retry_policy (tc_floats C) (tc_fifth C) retry step_id None), st) (\<lambda>retry_policy st.
     and_then (stopped (resolve_payload_templates (tc_json C) (rs_outputs st) payload), st) (\<lambda>resolved st.
     and_then (case invoke_with_resilience (tc_floats C) (tc_policies C)
         \<lparr>cr_pack_id = tc_pack_id C, cr_token = tc_token C, cr_connector_name = connector,
          cr_operation = operation, cr_required_capabilities = required,
          cr_payload = attach_payload_provenance (tc_json C) resolved (tc_caller C) step_id index None,
          cr_retry_policy = retry_policy, cr_step_id = step_id, cr_call_id = None,
          cr_priority_class = priority\<rparr> (rs_env st) of (r, e) \<Rightarrow> (stopped r, st\<lparr>rs_env := e\<rparr>)) (\<lambda>(dispatch, metrics) st.
       let step_result = json_object
             [(''connector_name'', JString (cd_connector_name dispatch)),
              (''outcome'', outcome_json (cd_outcome dispatch)),
              (''priority_class'', JString (priority_str priority)),
              (''execution'', metrics_json (tc_json C) metrics)]
       in (Inr (), finish_step C step_id step_result
            [(''kind'', JString ''connector_call''), (''connector_name'', JString connector),
             (''operation'', JString operation)]
            (st\<lparr>rs_connector_calls := usize_saturating_add (rs_connector_calls st) 1\<rparr>))))))"

definition report_failed :: "('o, 'm) call_report \<Rightarrow> bool" where
  "report_failed r = (case r of ReportError _ _ _ _ _ \<Rightarrow> True | ReportOk _ _ _ _ _ \<Rightarrow> False)"

definition batch_result_json ::
  "'n json_lib \<Rightarrow> bool \<Rightarrow> bool \<Rightarrow> ('n json connector_outcome, invocation_metrics) call_report list \<Rightarrow> batch_summary
    \<Rightarrow> 'n json" where
  "batch_result_json L parallel_step continue_on_error reports summary =
     (let failed_calls = length (filter report_failed reports);
          by_call = fold (\<lambda>r. bt_insert (report_call_id r) (report_json L r)) reports [] in
      json_object
        [(''parallel'', JBool parallel_step), (''continue_on_error'', JBool continue_on_error),
         (''total_calls'', json_nat L (length reports)),
         (''success_calls'', json_nat L (length reports - failed_calls)),
         (''failed_calls'', json_nat L failed_calls),
         (''calls'', JArray (map (report_json L) reports)),
         (''by_call'', JObject by_call), (''scheduler'', summary_json L summary)])"

definition step_connector_batch ::
  "('f, 'n, 'p, 's, 'w) tool_call \<Rightarrow> usize \<Rightarrow> string \<Rightarrow> bool \<Rightarrow> bool \<Rightarrow> ('f, 'n) programmatic_batch_call list
    \<Rightarrow> ('n, 'p, 's, 'w) run_state \<Rightarrow> (stop + unit) \<times> ('n, 'p, 's, 'w) run_state" where
  "step_connector_batch C index step_id parallel_step continue_on_error calls st =
     and_then (stopped (ensure_new_step_id step_id (rs_outputs st)), st) (\<lambda>_ st.
     if calls = [] then
       (Inl (StepError (programmatic_error InvalidSpec
          (''programmatic batch step '' @ step_id @ '' requires at least one call''))), st)
     else if usize_saturating_add (rs_connector_calls st) (length calls) > tc_max_calls C then
       (Inl (StepError (programmatic_error CallBudgetExceeded
          (''programmatic connector call budget exceeded: max_calls='' @ nat_to_dec (tc_max_calls C) @
           '', attempted='' @ nat_to_dec (usize_saturating_add (rs_connector_calls st) (length calls))))), st)
     else
     and_then (stopped (prepare_batch_calls C (rs_outputs st) step_id index calls), st) (\<lambda>prepared st.
     and_then (case run_batch C step_id parallel_step continue_on_error prepared (rs_env st) of
         (r, e) \<Rightarrow> (r, st\<lparr>rs_connector_calls := usize_saturating_add (rs_connector_calls st) (length prepared),
                       rs_env := e\<rparr>)) (\<lambda>(reports, summary) st.
       (Inr (), finish_step C step_id
          (batch_result_json (tc_json C) parallel_step continue_on_error reports summary)
          [(''kind'', JString ''connector_batch''), (''parallel'', JBool parallel_step),
           (''continue_on_error'', JBool continue_on_error)] st))))"

definition condition_matches ::
  "'n json_lib \<Rightarrow> 'n json option \<Rightarrow> bool option \<Rightarrow> 'n json option \<Rightarrow> bool" where
  "condition_matches L evaluated expected_exists expected_equals \<longleftrightarrow>
     (case expected_exists of None \<Rightarrow> True | Some ex \<Rightarrow> (evaluated \<noteq> None) = ex) \<and>
     (case expected_equals of None \<Rightarrow> True
      | Some v \<Rightarrow> (case evaluated of None \<Rightarrow> False | Some w \<Rightarrow> jl_eq L w v))"

definition step_conditional ::
  "('f, 'n, 'p, 's, 'w) tool_call \<Rightarrow> string \<Rightarrow> string \<Rightarrow> string option \<Rightarrow> 'n json option \<Rightarrow> bool option
    \<Rightarrow> 'n json \<Rightarrow> 'n json option \<Rightarrow> ('n, 'p, 's, 'w) run_state
    \<Rightarrow> (stop + unit) \<times> ('n, 'p, 's, 'w) run_state" where
  "step_conditional C step_id from_step pointer expected_equals expected_exists when_true when_false st =
     and_then (stopped (ensure_new_step_id step_id (rs_outputs st)), st) (\<lambda>_ st.
     if expected_equals = None \<and> expected_exists = None then
       (Inl (StepError (programmatic_error InvalidSpec (''programmatic conditional step '' @ step_id @
          '' requires at least one predicate (equals or exists)''))), st)
     else
     and_then (stopped (case bt_get (rs_outputs st) from_step of
                 None \<Rightarrow> Inl (unknown_from_step step_id from_step) | Some v \<Rightarrow> Inr v), st) (\<lambda>source st.
     and_then (stopped (case pointer of
                 None \<Rightarrow> Inr (Some source)
               | Some p \<Rightarrow> try_bind (normalize_programmatic_pointer p) (\<lambda>normalized.
                   Inr (jl_pointer (tc_json C) source normalized))), st) (\<lambda>evaluated st.
       let matched = condition_matches (tc_json C) evaluated expected_exists expected_equals;
           selected = (if matched then when_true else case when_false of Some v \<Rightarrow> v | None \<Rightarrow> JNull) in
     and_then (stopped (resolve_payload_templates (tc_json C) (rs_outputs st) selected), st) (\<lambda>resolved st.
       (Inr (), finish_step C step_id resolved
          [(''kind'', JString ''conditional''), (''from_step'', JString from_step),
           (''pointer'', json_opt JString pointer), (''exists'', json_opt JBool expected_exists),
           (''equals'', json_opt (\<lambda>v. v) expected_equals), (''evaluated'', json_opt (\<lambda>v. v) evaluated),
           (''matched'', JBool matched)] st)))))"

fun run_step ::
  "('f, 'n, 'p, 's, 'w) tool_call \<Rightarrow> usize \<Rightarrow> ('f, 'n) programmatic_step \<Rightarrow> ('n, 'p, 's, 'w) run_state
    \<Rightarrow> (stop + unit) \<times> ('n, 'p, 's, 'w) run_state" where
  "run_step C index (SetLiteral i v) st = step_set_literal C i v st"
| "run_step C index (JsonPointer i from_step p) st = step_json_pointer C i from_step p st"
| "run_step C index (ConnectorCall i c oper req retry prio v) st =
     step_connector_call C index i c oper req retry prio v st"
| "run_step C index (ConnectorBatch i par cont calls) st = step_connector_batch C index i par cont calls st"
| "run_step C index (Conditional i from_step p eq ex t f) st = step_conditional C i from_step p eq ex t f st"

fun run_steps ::
  "('f, 'n, 'p, 's, 'w) tool_call \<Rightarrow> usize \<Rightarrow> ('f, 'n) programmatic_step list \<Rightarrow> ('n, 'p, 's, 'w) run_state
    \<Rightarrow> (stop + unit) \<times> ('n, 'p, 's, 'w) run_state" where
  "run_steps C index [] st = (Inr (), st)"
| "run_steps C index (step # steps) st =
     and_then (run_step C index step st) (\<lambda>_ st. run_steps C (Suc index) steps st)"

section \<open>The call\<close>

definition concurrency_json :: "'n json_lib \<Rightarrow> concurrency_policy \<Rightarrow> 'n json" where
  "concurrency_json L c = json_object
     [(''max_in_flight'', json_nat L (max_in_flight c)), (''min_in_flight'', json_nat L (min_in_flight c)),
      (''fairness'', JString (fairness_str (cp_fairness c))), (''adaptive_budget'', JBool (adaptive_budget c)),
      (''high_weight'', json_nat L (high_weight c)), (''normal_weight'', json_nat L (normal_weight c)),
      (''low_weight'', json_nat L (low_weight c)),
      (''adaptive_recovery_successes'', json_nat L (adaptive_recovery_successes c)),
      (''adaptive_upshift_step'', json_nat L (adaptive_upshift_step c)),
      (''adaptive_downshift_step'', json_nat L (adaptive_downshift_step c)),
      (''adaptive_reduce_on'', JArray (map (\<lambda>r. JString (reduce_on_str r)) (adaptive_reduce_triggers c)))]"

definition rate_limits_json :: "'n json_lib \<Rightarrow> (string, connector_rate_limit) btree \<Rightarrow> 'n json" where
  "rate_limits_json L limits =
     JObject (map (\<lambda>(connector, limit).
       (connector, json_object [(''min_interval_ms'', json_nat L (unat (min_interval_ms limit)))])) limits)"

definition circuit_breakers_json :: "'n json_lib \<Rightarrow> (string, circuit_policy) btree \<Rightarrow> 'n json" where
  "circuit_breakers_json L policies =
     JObject (map (\<lambda>(connector, policy).
       (connector, json_object
          [(''failure_threshold'', json_nat L (failure_threshold policy)),
           (''cooldown_ms'', json_nat L (unat (cooldown_ms policy))),
           (''half_open_max_calls'', json_nat L (half_open_max_calls policy)),
           (''success_threshold'', json_nat L (success_threshold policy))])) policies)"

definition response_json ::
  "('f, 'n, 'p, 's, 'w) tool_call \<Rightarrow> string \<Rightarrow> 'n json \<Rightarrow> ('n, 'p, 's, 'w) run_state \<Rightarrow> 'n json" where
  "response_json C final_step_id final_output st =
     json_object
       ([(''caller'', JString (tc_caller C)), (''max_calls'', json_nat (tc_json C) (tc_max_calls C)),
         (''connector_calls'', json_nat (tc_json C) (rs_connector_calls st)),
         (''return_step'', JString final_step_id), (''result'', final_output)] @
        (if cp_rate_limits (tc_policies C) \<noteq> []
         then [(''connector_rate_limits'', rate_limits_json (tc_json C) (cp_rate_limits (tc_policies C)))] else []) @
        (if cp_circuit_breakers (tc_policies C) \<noteq> []
         then [(''connector_circuit_breakers'', circuit_breakers_json (tc_json C) (cp_circuit_breakers (tc_policies C)))]
         else []) @
        [(''concurrency'', concurrency_json (tc_json C) (tc_concurrency C))] @
        (if tc_include_intermediate C
         then [(''steps'', JArray (rs_step_trace st)), (''step_outputs'', JObject (rs_outputs st))] else []))"

definition final_step :: "('f, 'n, 'p, 's, 'w) tool_call \<Rightarrow> ('n, 'p, 's, 'w) run_state \<Rightarrow> string + string \<times> 'n json" where
  "final_step C st =
     try_bind (case tc_return_step C of
         Some r \<Rightarrow> if trim r \<noteq> [] then Inr (trim r) else
           (case rs_last_step_id st of Some i \<Rightarrow> Inr i
            | None \<Rightarrow> Inl (programmatic_error InvalidSpec ''programmatic workflow produced no step output''))
       | None \<Rightarrow>
           (case rs_last_step_id st of Some i \<Rightarrow> Inr i
            | None \<Rightarrow> Inl (programmatic_error InvalidSpec ''programmatic workflow produced no step output''))) (\<lambda>i.
     case bt_get (rs_outputs st) i of
       None \<Rightarrow> Inl (programmatic_error UnknownStep (''programmatic return_step '' @ i @ '' does not exist''))
     | Some v \<Rightarrow> Inr (i, v))"

definition start_run :: "('p, 's, 'w, 'n) env \<Rightarrow> ('n, 'p, 's, 'w) run_state" where
  "start_run e = \<lparr>rs_outputs = [], rs_connector_calls = 0, rs_last_step_id = None, rs_step_trace = [],
     rs_env = e\<lparr>ce_rates := [], ce_circuits := []\<rparr>\<rparr>"

definition validate_tool_call :: "('f, 'n, 'p, 's, 'w) tool_call \<Rightarrow> ('f, 'n) programmatic_step list \<Rightarrow> string + unit" where
  "validate_tool_call C steps =
     (if tc_max_calls C = 0 then
        Inl (programmatic_error InvalidSpec ''programmatic_tool_call max_calls must be greater than 0'')
      else if steps = [] then
        Inl (programmatic_error InvalidSpec ''programmatic_tool_call requires at least one step'')
      else
        try_bind (validate_rate_limits (cp_rate_limits (tc_policies C))) (\<lambda>_.
        try_bind (validate_circuit_breakers (cp_circuit_breakers (tc_policies C))) (\<lambda>_.
        validate_concurrency_policy (tc_concurrency C))))"

definition execute_programmatic_tool_call ::
  "('f, 'n, 'p, 's, 'w) tool_call \<Rightarrow> ('f, 'n) programmatic_step list \<Rightarrow> ('p, 's, 'w, 'n) env
    \<Rightarrow> (stop + 'n json) \<times> ('p, 's, 'w, 'n) env" where
  "execute_programmatic_tool_call C steps e =
     (case and_then (stopped (validate_tool_call C steps), start_run e) (\<lambda>_ st.
           and_then (run_steps C 0 steps st) (\<lambda>_ st.
           and_then (stopped (final_step C st), st) (\<lambda>(i, v) st. (Inr (response_json C i v st), st)))) of
        (r, st) \<Rightarrow> (r, rs_env st))"


section \<open>Limits\<close>

fun step_id_of :: "('f, 'n) programmatic_step \<Rightarrow> string" where
  "step_id_of (SetLiteral i _) = i"
| "step_id_of (JsonPointer i _ _) = i"
| "step_id_of (ConnectorCall i _ _ _ _ _ _) = i"
| "step_id_of (ConnectorBatch i _ _ _) = i"
| "step_id_of (Conditional i _ _ _ _ _ _) = i"

fun step_connectors :: "('f, 'n) programmatic_step \<Rightarrow> string list" where
  "step_connectors (ConnectorCall _ c _ _ _ _ _) = [c]"
| "step_connectors (ConnectorBatch _ _ _ calls) = map bc_connector_name calls"
| "step_connectors _ = []"

definition step_in_limits :: "('f, 'n, 'p, 's, 'w) tool_call \<Rightarrow> usize \<Rightarrow> ('f, 'n) programmatic_step \<Rightarrow> bool" where
  "step_in_limits C calls step \<longleftrightarrow>
     (\<forall>c \<in> set (step_connectors step). connector_allowed (tc_allowed_connectors C) c) \<and>
     calls + length (step_connectors step) \<le> max calls (tc_max_calls C)"

lemma prepare_calls_allowed:
  assumes "prepare_calls C outputs step_id index seen calls = Inr prepared"
  shows "length prepared = length calls \<and> map pc_connector_name prepared = map bc_connector_name calls \<and>
    (\<forall>c \<in> set calls. connector_allowed (tc_allowed_connectors C) (bc_connector_name c)) \<and>
    distinct (map pc_call_id prepared) \<and> set (map pc_call_id prepared) \<inter> seen = {}"
  using assms
proof (induction calls arbitrary: seen prepared)
  case Nil
  then show ?case by simp
next
  case (Cons call calls)
  let ?id = "trim (bc_call_id call)"
  from Cons.prems obtain p rest where p: "prepared = p # rest" "pc_call_id p = ?id" "?id \<notin> seen"
      "pc_connector_name p = bc_connector_name call"
      "connector_allowed (tc_allowed_connectors C) (bc_connector_name call)"
      "prepare_calls C outputs step_id index (insert ?id seen) calls = Inr rest"
    by (auto simp: try_bind_Ok Let_def split: if_splits)
  from Cons.IH [OF p(6)] p(1-5) show ?case by auto
qed

lemma stopped_Ok [simp]: "stopped r = Inr x \<longleftrightarrow> r = Inr x"
  by (simp add: stopped_def)

lemma finish_step_simps [simp]:
  "rs_outputs (finish_step C i v d st) = bt_insert i v (rs_outputs st)"
  "rs_connector_calls (finish_step C i v d st) = rs_connector_calls st"
  "rs_last_step_id (finish_step C i v d st) = Some i"
  "rs_env (finish_step C i v d st) = rs_env st"
  by (simp_all add: finish_step_def)

text \<open>A step that completes adds its output, under a new id, and counts its calls.\<close>

lemma ensure_new_Ok [simp]:
  "ensure_new_step_id i outputs = Inr () \<longleftrightarrow> trim i \<noteq> [] \<and> bt_get outputs i = None"
  by (simp add: ensure_new_step_id_def bt_contains_key_def)

lemma run_step_completes:
  assumes "run_step C index step st = (Inr (), st')" and "tc_max_calls C < usize_max"
  shows "trim (step_id_of step) \<noteq> [] \<and> bt_get (rs_outputs st) (step_id_of step) = None \<and>
    (\<exists>v. rs_outputs st' = bt_insert (step_id_of step) v (rs_outputs st)) \<and>
    rs_last_step_id st' = Some (step_id_of step) \<and>
    step_in_limits C (rs_connector_calls st) step \<and>
    rs_connector_calls st' = rs_connector_calls st + length (step_connectors step)"
proof (cases step)
  case (SetLiteral i v)
  with assms show ?thesis
    by (auto simp: step_set_literal_def and_then_Ok step_in_limits_def)
next
  case (JsonPointer i f p)
  with assms show ?thesis
    by (auto simp: step_json_pointer_def and_then_Ok step_in_limits_def)
next
  case (ConnectorCall i c oper req retry prio v)
  with assms show ?thesis
    by (auto simp: step_connector_call_def and_then_Ok step_in_limits_def Let_def case_prod_beta split: if_splits)
next
  case (ConnectorBatch i par cont calls)
  have "rs_connector_calls st + length calls \<le> tc_max_calls C"
    if "\<not> usize_saturating_add (rs_connector_calls st) (length calls) > tc_max_calls C"
    using that assms(2) by (auto simp: usize_saturating_add_def min_def split: if_splits)
  with ConnectorBatch assms show ?thesis
    by (auto simp: step_connector_batch_def and_then_Ok step_in_limits_def prepare_batch_calls_def case_prod_beta
      split: if_splits dest!: prepare_calls_allowed)
next
  case (Conditional i f p eq ex t fl)
  with assms show ?thesis
    by (auto simp: step_conditional_def and_then_Ok step_in_limits_def Let_def split: if_splits)
qed


lemma and_then_Err:
  "and_then r f = (Inl e, t) \<longleftrightarrow> r = (Inl e, t) \<or> (\<exists>x s. r = (Inr x, s) \<and> f x s = (Inl e, t))"
  by (auto simp: and_then_def split: prod.splits sum.splits)

lemma run_step_stops:
  assumes "run_step C index step st = (Inl stop, st')" and "tc_max_calls C < usize_max"
  shows "rs_outputs st' = rs_outputs st \<and> (rs_env st' = rs_env st \<or> step_in_limits C (rs_connector_calls st) step)"
proof (cases step)
  case (SetLiteral i v)
  with assms show ?thesis
    by (auto simp: step_set_literal_def and_then_Err)
next
  case (JsonPointer i f p)
  with assms show ?thesis
    by (auto simp: step_json_pointer_def and_then_Err)
next
  case (ConnectorCall i c oper req retry prio v)
  with assms show ?thesis
    by (auto simp: step_connector_call_def and_then_Err step_in_limits_def Let_def case_prod_beta split: if_splits)
next
  case (ConnectorBatch i par cont calls)
  have "rs_connector_calls st + length calls \<le> tc_max_calls C"
    if "\<not> usize_saturating_add (rs_connector_calls st) (length calls) > tc_max_calls C"
    using that assms(2) by (auto simp: usize_saturating_add_def min_def split: if_splits)
  with ConnectorBatch assms show ?thesis
    by (auto simp: step_connector_batch_def and_then_Err step_in_limits_def prepare_batch_calls_def case_prod_beta
      split: if_splits dest!: prepare_calls_allowed)
next
  case (Conditional i f p eq ex t fl)
  with assms show ?thesis
    by (auto simp: step_conditional_def and_then_Err Let_def split: if_splits)
qed

text \<open>The states a run goes through.\<close>

definition steps_in_limits :: "('f, 'n, 'p, 's, 'w) tool_call \<Rightarrow> ('f, 'n) programmatic_step list \<Rightarrow> bool" where
  "steps_in_limits C steps \<longleftrightarrow>
     (\<forall>step \<in> set steps. \<forall>c \<in> set (step_connectors step). connector_allowed (tc_allowed_connectors C) c) \<and>
     length (concat (map step_connectors steps)) \<le> tc_max_calls C"

lemma run_steps_append:
  "run_steps C index (xs @ ys) st =
    and_then (run_steps C index xs st) (\<lambda>_ st. run_steps C (index + length xs) ys st)"
  by (induction xs arbitrary: index st) (simp_all add: and_then_def split: prod.split sum.split)

lemma run_steps_completes:
  assumes "run_steps C index steps st = (Inr (), st')" and "tc_max_calls C < usize_max"
    and "rs_connector_calls st \<le> tc_max_calls C"
  shows "rs_connector_calls st' = rs_connector_calls st + length (concat (map step_connectors steps)) \<and>
    rs_connector_calls st' \<le> tc_max_calls C \<and>
    (\<forall>step \<in> set steps. \<forall>c \<in> set (step_connectors step). connector_allowed (tc_allowed_connectors C) c) \<and>
    (\<forall>i \<in> set (map step_id_of steps). trim i \<noteq> [] \<and> bt_get (rs_outputs st) i = None) \<and>
    distinct (map step_id_of steps) \<and>
    dom (bt_get (rs_outputs st')) = dom (bt_get (rs_outputs st)) \<union> set (map step_id_of steps) \<and>
    bt_get (rs_outputs st) \<subseteq>\<^sub>m bt_get (rs_outputs st')"
  using assms(1,3)
proof (induction steps arbitrary: index st)
  case Nil
  then show ?case by simp
next
  case (Cons step steps)
  then obtain st1 where st1: "run_step C index step st = (Inr (), st1)" and rest: "run_steps C (Suc index) steps st1 = (Inr (), st')"
    by (auto simp: and_then_Ok)
  from run_step_completes [OF st1 assms(2)] obtain v where
    s: "trim (step_id_of step) \<noteq> []" "bt_get (rs_outputs st) (step_id_of step) = None"
      "rs_outputs st1 = bt_insert (step_id_of step) v (rs_outputs st)"
      "step_in_limits C (rs_connector_calls st) step"
      "rs_connector_calls st1 = rs_connector_calls st + length (step_connectors step)"
    by blast
  then have "rs_connector_calls st1 \<le> tc_max_calls C"
    using Cons.prems(2) by (auto simp: step_in_limits_def)
  note IH = Cons.IH [OF rest this]
  have "bt_get (rs_outputs st) \<subseteq>\<^sub>m bt_get (rs_outputs st1)"
    using s(2,3) by (auto simp: map_le_def)
  moreover have "step_id_of step \<notin> set (map step_id_of steps)"
    using IH s(3) by auto
  ultimately show ?case
    using IH s Cons.prems(2) by (auto simp: step_in_limits_def split: if_splits intro: map_le_trans)
qed

lemma run_steps_split:
  assumes "run_steps C index steps st = (r, st')"
  shows "\<exists>n stn. n \<le> length steps \<and> run_steps C index (take n steps) st = (Inr (), stn) \<and>
    (if n = length steps then r = Inr () \<and> st' = stn
     else \<exists>stop. r = Inl stop \<and> run_step C (index + n) (steps ! n) stn = (Inl stop, st'))"
  using assms
proof (induction steps arbitrary: index st)
  case Nil
  then show ?case by auto
next
  case (Cons step steps)
  show ?case
  proof (cases "run_step C index step st")
    case (Pair q st1)
    show ?thesis
    proof (cases q)
      case (Inl stop)
      with Cons.prems Pair show ?thesis by (intro exI [of _ 0]) auto
    next
      case (Inr u)
      with Cons.prems Pair have "run_steps C (Suc index) steps st1 = (r, st')" by simp
      from Cons.IH [OF this] obtain n stn where "n \<le> length steps"
        "run_steps C (Suc index) (take n steps) st1 = (Inr (), stn)"
        "if n = length steps then r = Inr () \<and> st' = stn
         else \<exists>stop. r = Inl stop \<and> run_step C (Suc index + n) (steps ! n) stn = (Inl stop, st')"
        by blast
      with Pair Inr show ?thesis
        by (intro exI [of _ "Suc n"] exI [of _ stn]) (auto split: if_splits)
    qed
  qed
qed

text \<open>
  C23. A programmatic tool call stays within its limits, also when it fails half-way: the steps that
  completed called only allowed connectors and together at most max_calls times, counted exactly, and
  the step that stopped the run has touched the kernel, the clocks and the limiters only if it was
  within the limits too. A connector call beyond the budget or off the allow-list never happens.
\<close>

theorem programmatic_run_stays_in_limits:
  assumes "run_steps C 0 steps (start_run e) = (r, st')" and "tc_max_calls C < usize_max"
  shows "\<exists>n stn. n \<le> length steps \<and> run_steps C 0 (take n steps) (start_run e) = (Inr (), stn) \<and>
    steps_in_limits C (take n steps) \<and>
    rs_connector_calls stn = length (concat (map step_connectors (take n steps))) \<and>
    (if n = length steps then r = Inr () \<and> st' = stn
     else (\<exists>stop. r = Inl stop) \<and> (rs_env st' = rs_env stn \<or> steps_in_limits C (take (Suc n) steps)))"
proof -
  from run_steps_split [OF assms(1), unfolded add_0] obtain n stn where
    n: "n \<le> length steps" "run_steps C 0 (take n steps) (start_run e) = (Inr (), stn)"
      "if n = length steps then r = Inr () \<and> st' = stn
       else \<exists>stop. r = Inl stop \<and> run_step C n (steps ! n) stn = (Inl stop, st')"
    by blast
  have "rs_connector_calls (start_run e) = 0"
    by (simp add: start_run_def)
  with run_steps_completes [OF n(2) assms(2)] have lim:
    "steps_in_limits C (take n steps)"
    "rs_connector_calls stn = length (concat (map step_connectors (take n steps)))"
    by (auto simp: steps_in_limits_def)
  have "rs_env st' = rs_env stn \<or> steps_in_limits C (take (Suc n) steps)"
    if "n < length steps" "run_step C n (steps ! n) stn = (Inl stop, st')" for stop
    using run_step_stops [OF that(2) assms(2)] lim that(1)
    by (auto simp: steps_in_limits_def step_in_limits_def take_Suc_conv_app_nth)
  with n lim show ?thesis
    by (intro exI [of _ n] exI [of _ stn]) (auto split: if_splits)
qed

text \<open>
  Step outputs are immutable: in a completed run the step ids are distinct and not blank, there
  is an output for exactly every step, and the output a step reads from an earlier one is the one in
  the final outputs, because no later step can replace it.
\<close>

theorem step_outputs_are_immutable:
  assumes "run_steps C 0 steps (start_run e) = (Inr (), st')" and "tc_max_calls C < usize_max"
  shows "distinct (map step_id_of steps) \<and> (\<forall>i \<in> set (map step_id_of steps). trim i \<noteq> []) \<and>
    dom (bt_get (rs_outputs st')) = set (map step_id_of steps) \<and>
    (\<forall>n \<le> length steps. \<exists>stn. run_steps C 0 (take n steps) (start_run e) = (Inr (), stn) \<and>
       dom (bt_get (rs_outputs stn)) = set (map step_id_of (take n steps)) \<and>
       bt_get (rs_outputs stn) \<subseteq>\<^sub>m bt_get (rs_outputs st'))"
proof -
  have start: "rs_connector_calls (start_run e) \<le> tc_max_calls C" "rs_outputs (start_run e) = []"
    by (simp_all add: start_run_def)
  have "\<exists>stn. run_steps C 0 (take n steps) (start_run e) = (Inr (), stn) \<and>
       dom (bt_get (rs_outputs stn)) = set (map step_id_of (take n steps)) \<and>
       bt_get (rs_outputs stn) \<subseteq>\<^sub>m bt_get (rs_outputs st')" if "n \<le> length steps" for n
  proof -
    have "run_steps C 0 (take n steps @ drop n steps) (start_run e) = (Inr (), st')"
      using assms(1) by simp
    then obtain stn where stn: "run_steps C 0 (take n steps) (start_run e) = (Inr (), stn)"
        "run_steps C (length (take n steps)) (drop n steps) stn = (Inr (), st')"
      unfolding run_steps_append and_then_Ok by auto
    from run_steps_completes [OF stn(1) assms(2) start(1)] have
      "dom (bt_get (rs_outputs stn)) = set (map step_id_of (take n steps))" "rs_connector_calls stn \<le> tc_max_calls C"
      by (auto simp: start(2))
    with run_steps_completes [OF stn(2) assms(2)] stn(1) show ?thesis by blast
  qed
  with run_steps_completes [OF assms(1,2) start(1)] show ?thesis
    by (simp add: start(2))
qed

definition literal_steps :: "(unit, unit) programmatic_step list" where
  "literal_steps = [SetLiteral ''a'' JNull, ConnectorCall ''b'' ''c'' ''op'' {} None Normal JNull]"

definition sample_tool_call :: "(unit, unit, static_policy_engine, unit, unit) tool_call" where
  "sample_tool_call = \<lparr>tc_json = sample_json_lib, tc_floats = sample_floats, tc_fifth = (),
     tc_interleave = (\<lambda>calls e. ([], e)), tc_pack_id = ''p'', tc_token = sample_token, tc_caller = ''me'',
     tc_max_calls = 3, tc_include_intermediate = False, tc_allowed_connectors = {''d''},
     tc_policies = no_policies, tc_concurrency = concurrency_policy_default, tc_return_step = None\<rparr>"

definition json_env :: "(static_policy_engine, unit, unit, unit) env" where
  "json_env = \<lparr>ce_kernel = kernel_new_without_audit static_engine static_policy_engine_default (),
     ce_rates = [], ce_circuits = [], ce_instants = (\<lambda>n. n), ce_epochs = (\<lambda>_. 6)\<rparr>"

lemma sample_max_calls: "tc_max_calls sample_tool_call < usize_max"
  by (simp add: sample_tool_call_def usize_max_def)

lemma trim_letters [simp]: "trim ''a'' = ''a''" "trim ''b'' = ''b''"
  by (simp_all add: trim_def trim_start_def trim_end_def whitespace_encodings_def)

lemma literal_run:
  "run_steps sample_tool_call 0 (take (Suc 0) literal_steps) (start_run json_env) =
     (Inr (), finish_step sample_tool_call ''a'' JNull [(''kind'', JString ''set_literal'')] (start_run json_env))"
  by (simp add: literal_steps_def step_set_literal_def start_run_def stopped_def ensure_new_step_id_def
      bt_contains_key_def)

theorem programmatic_run_stays_in_limits_witness:
  "\<exists>n stn. n \<le> 2 \<and> steps_in_limits sample_tool_call (take n literal_steps) \<and>
     run_steps sample_tool_call 0 (take n literal_steps) (start_run json_env) = (Inr (), stn) \<and> 
     (n = 2 \<or> (\<exists>stop. fst (run_steps sample_tool_call 0 literal_steps (start_run json_env)) = Inl stop))"
proof -
  have "length literal_steps = 2" by (simp add: literal_steps_def)
  moreover from programmatic_run_stays_in_limits [OF prod.collapse [symmetric] sample_max_calls, of literal_steps json_env]
  obtain n stn where "n \<le> length literal_steps" "steps_in_limits sample_tool_call (take n literal_steps)"
    "run_steps sample_tool_call 0 (take n literal_steps) (start_run json_env) = (Inr (), stn)"
    "n = length literal_steps \<or> (\<exists>stop. fst (run_steps sample_tool_call 0 literal_steps (start_run json_env)) = Inl stop)"
    by metis
  ultimately show ?thesis by auto
qed

theorem step_outputs_are_immutable_witness:
  "dom (bt_get (rs_outputs (finish_step sample_tool_call ''a'' JNull [(''kind'', JString ''set_literal'')] (start_run json_env))))
     = set (map step_id_of (take (Suc 0) literal_steps))"
  using step_outputs_are_immutable [OF literal_run sample_max_calls] by blast
end
