(* ===== verification/Plugin_Manifests.thy ===== *)
theory Plugin_Manifests
  imports Plugin_Bootstrap Integration_Catalog "HOL-Library.Product_Lexorder"
begin

text \<open>
  Plugin manifests (crates/kernel/src/plugin.rs): their data types, the normalization of a parsed
  manifest, the validation of its contract and the manifest block embedded in a source file.
  The \<open>semver\<close> and \<open>serde_json\<close> crates are arguments; JSON values inside a manifest are of an
  abstract type.
\<close>

section \<open>Data types\<close>

datatype plugin_setup_mode = MetadataOnly | GovernedEntry

primrec plugin_setup_mode_as_str :: "plugin_setup_mode \<Rightarrow> string" where
  "plugin_setup_mode_as_str MetadataOnly = ''metadata_only''"
| "plugin_setup_mode_as_str GovernedEntry = ''governed_entry''"

record plugin_setup =
  ps_mode :: plugin_setup_mode
  ps_surface :: "string option"
  ps_required_env_vars :: "string list"
  ps_recommended_env_vars :: "string list"
  ps_required_config_keys :: "string list"
  ps_default_env_var :: "string option"
  ps_docs_urls :: "string list"
  ps_remediation :: "string option"

datatype plugin_slot_mode = Exclusive | Shared | Advisory

primrec plugin_slot_mode_as_str :: "plugin_slot_mode \<Rightarrow> string" where
  "plugin_slot_mode_as_str Exclusive = ''exclusive''"
| "plugin_slot_mode_as_str Shared = ''shared''"
| "plugin_slot_mode_as_str Advisory = ''advisory''"

primrec slot_mode_rank :: "plugin_slot_mode \<Rightarrow> nat" where
  "slot_mode_rank Exclusive = 0" | "slot_mode_rank Shared = 1" | "slot_mode_rank Advisory = 2"

record plugin_slot_claim =
  sc_slot :: string
  sc_key :: string
  sc_mode :: plugin_slot_mode

record plugin_compatibility =
  pc_host_api :: "string option"
  pc_host_version_req :: "string option"

record 'j plugin_manifest =
  pm_api_version :: "string option"
  pm_version :: "string option"
  pm_plugin_id :: string
  pm_provider_id :: string
  pm_connector_name :: string
  pm_channel_id :: "string option"
  pm_endpoint :: "string option"
  pm_capabilities :: "capability set"
  pm_trust_tier :: plugin_trust_tier
  pm_metadata :: "(string, string) btree"
  pm_summary :: "string option"
  pm_tags :: "string list"
  pm_input_examples :: "'j list"
  pm_output_examples :: "'j list"
  pm_defer_loading :: bool
  pm_setup :: "plugin_setup option"
  pm_slot_claims :: "plugin_slot_claim list"
  pm_compatibility :: "plugin_compatibility option"

datatype plugin_source_kind = PackageManifest | EmbeddedSource

primrec plugin_source_kind_as_str :: "plugin_source_kind \<Rightarrow> string" where
  "plugin_source_kind_as_str PackageManifest = ''package_manifest''"
| "plugin_source_kind_as_str EmbeddedSource = ''embedded_source''"

datatype plugin_contract_dialect =
    LoongPackageManifest | LoongEmbeddedSource | OpenClawModernManifest | OpenClawLegacyPackage

primrec plugin_contract_dialect_as_str :: "plugin_contract_dialect \<Rightarrow> string" where
  "plugin_contract_dialect_as_str LoongPackageManifest = ''loong_package_manifest''"
| "plugin_contract_dialect_as_str LoongEmbeddedSource = ''loong_embedded_source''"
| "plugin_contract_dialect_as_str OpenClawModernManifest = ''openclaw_modern_manifest''"
| "plugin_contract_dialect_as_str OpenClawLegacyPackage = ''openclaw_legacy_package''"

primrec plugin_compatibility_mode_as_str :: "plugin_compatibility_mode \<Rightarrow> string" where
  "plugin_compatibility_mode_as_str Native = ''native''"
| "plugin_compatibility_mode_as_str OpenClawModern = ''openclaw_modern''"
| "plugin_compatibility_mode_as_str OpenClawLegacy = ''openclaw_legacy''"

primrec shim_for_mode :: "plugin_compatibility_mode \<Rightarrow> plugin_compatibility_shim option" where
  "shim_for_mode Native = None"
| "shim_for_mode OpenClawModern =
     Some \<lparr>shim_id = ''openclaw-modern-compat'', shim_family = ''openclaw-modern-compat''\<rparr>"
| "shim_for_mode OpenClawLegacy =
     Some \<lparr>shim_id = ''openclaw-legacy-compat'', shim_family = ''openclaw-legacy-compat''\<rparr>"

datatype plugin_diagnostic_severity = InfoSeverity | WarningSeverity | ErrorSeverity

datatype plugin_diagnostic_phase = UnknownPhase | ScanPhase | TranslationPhase | ActivationPhase

datatype plugin_diagnostic_code =
    EmbeddedSourceLegacyContract | LegacyMetadataVersion | ShadowedEmbeddedSource | ForeignDialectContract
  | LegacyOpenClawContract | InvalidManifestContract | CompatibilityShimRequired | IncompatibleHost
  | UnsupportedBridge | UnsupportedAdapterFamily | SlotClaimConflict

record plugin_diagnostic_finding =
  pdf_code :: plugin_diagnostic_code
  pdf_severity :: plugin_diagnostic_severity
  pdf_phase :: plugin_diagnostic_phase
  pdf_blocking :: bool
  pdf_plugin_id :: "string option"
  pdf_source_path :: "string option"
  pdf_source_kind :: "plugin_source_kind option"
  pdf_field_path :: "string option"
  pdf_message :: string
  pdf_remediation :: "string option"

record 'j plugin_descriptor =
  pd_path :: string
  pd_source_kind :: plugin_source_kind
  pd_dialect :: plugin_contract_dialect
  pd_dialect_version :: "string option"
  pd_compatibility_mode :: plugin_compatibility_mode
  pd_package_root :: string
  pd_package_manifest_path :: "string option"
  pd_language :: string
  pd_manifest :: "'j plugin_manifest"

record 'j plugin_scan_report =
  psr_scanned_files :: usize
  psr_matched_plugins :: usize
  psr_diagnostic_findings :: "plugin_diagnostic_finding list"
  psr_descriptors :: "'j plugin_descriptor list"

section \<open>Normalization\<close>

definition normalize_optional_manifest_string :: "string option \<Rightarrow> string option" where
  "normalize_optional_manifest_string raw =
     (case raw of None \<Rightarrow> None | Some v \<Rightarrow> if trim v = [] then None else Some (trim v))"

definition normalize_manifest_string_list :: "string list \<Rightarrow> string list" where
  "normalize_manifest_string_list vs =
     fold (\<lambda>v normalized.
        if trim v = [] then normalized
        else if trim v \<in> set normalized then normalized
        else normalized @ [trim v]) vs []"

definition setup_normalized :: "plugin_setup \<Rightarrow> plugin_setup" where
  "setup_normalized s =
     \<lparr>ps_mode = ps_mode s, ps_surface = normalize_optional_manifest_string (ps_surface s),
      ps_required_env_vars = normalize_manifest_string_list (ps_required_env_vars s),
      ps_recommended_env_vars = normalize_manifest_string_list (ps_recommended_env_vars s),
      ps_required_config_keys = normalize_manifest_string_list (ps_required_config_keys s),
      ps_default_env_var = normalize_optional_manifest_string (ps_default_env_var s),
      ps_docs_urls = normalize_manifest_string_list (ps_docs_urls s),
      ps_remediation = normalize_optional_manifest_string (ps_remediation s)\<rparr>"

definition setup_is_effectively_empty :: "plugin_setup \<Rightarrow> bool" where
  "setup_is_effectively_empty s \<longleftrightarrow>
     ps_surface s = None \<and> ps_required_env_vars s = [] \<and> ps_recommended_env_vars s = [] \<and>
     ps_required_config_keys s = [] \<and> ps_default_env_var s = None \<and> ps_docs_urls s = [] \<and>
     ps_remediation s = None \<and> ps_mode s = MetadataOnly"

definition slot_claim_normalized :: "plugin_slot_claim \<Rightarrow> plugin_slot_claim" where
  "slot_claim_normalized c = \<lparr>sc_slot = trim (sc_slot c), sc_key = trim (sc_key c), sc_mode = sc_mode c\<rparr>"

definition slot_claim_label :: "plugin_slot_claim \<Rightarrow> string" where
  "slot_claim_label c = sc_slot c @ ''#'' @ sc_key c @ ''@'' @ plugin_slot_mode_as_str (sc_mode c)"

text \<open>The derived order compares the fields in turn.\<close>

definition slot_claim_rank :: "plugin_slot_claim \<Rightarrow> string \<times> string \<times> nat" where
  "slot_claim_rank c = (sc_slot c, sc_key c, slot_mode_rank (sc_mode c))"

definition normalize_plugin_slot_claims :: "plugin_slot_claim list \<Rightarrow> plugin_slot_claim list" where
  "normalize_plugin_slot_claims claims =
     remdups_adj (sort_key slot_claim_rank (map slot_claim_normalized claims))"

definition compatibility_normalized :: "plugin_compatibility \<Rightarrow> plugin_compatibility" where
  "compatibility_normalized c =
     \<lparr>pc_host_api = normalize_optional_manifest_string (pc_host_api c),
      pc_host_version_req = normalize_optional_manifest_string (pc_host_version_req c)\<rparr>"

definition compatibility_is_effectively_empty :: "plugin_compatibility \<Rightarrow> bool" where
  "compatibility_is_effectively_empty c \<longleftrightarrow> pc_host_api c = None \<and> pc_host_version_req c = None"

definition option_filter :: "('a \<Rightarrow> bool) \<Rightarrow> 'a option \<Rightarrow> 'a option" where
  "option_filter P x = (case x of Some y \<Rightarrow> if P y then Some y else None | None \<Rightarrow> None)"

definition metadata_version :: "'j plugin_manifest \<Rightarrow> string option" where
  "metadata_version m = normalize_optional_manifest_string (bt_get (pm_metadata m) ''version'')"

definition normalize_plugin_manifest :: "'j plugin_manifest \<Rightarrow> 'j plugin_manifest" where
  "normalize_plugin_manifest m =
     (let version = (case normalize_optional_manifest_string (pm_version m) of
            Some v \<Rightarrow> Some v | None \<Rightarrow> metadata_version m)
      in m\<lparr>pm_api_version := normalize_optional_manifest_string (pm_api_version m),
           pm_version := version,
           pm_setup := option_filter (\<lambda>s. \<not> setup_is_effectively_empty s)
             (map_option setup_normalized (pm_setup m)),
           pm_slot_claims := normalize_plugin_slot_claims (pm_slot_claims m),
           pm_compatibility := option_filter (\<lambda>c. \<not> compatibility_is_effectively_empty c)
             (map_option compatibility_normalized (pm_compatibility m)),
           pm_metadata := (case version of None \<Rightarrow> pm_metadata m
             | Some v \<Rightarrow> if bt_contains_key (pm_metadata m) ''version'' then pm_metadata m
                         else bt_insert ''version'' v (pm_metadata m))\<rparr>)"

section \<open>The contract\<close>

text \<open>The \<open>semver\<close> crate and the version the host was built with.\<close>

record ('ver, 'req) semver =
  sv_parse_version :: "string \<Rightarrow> string + 'ver"
  sv_parse_req :: "string \<Rightarrow> string + 'req"
  sv_matches :: "'req \<Rightarrow> 'ver \<Rightarrow> bool"
  sv_show_version :: "'ver \<Rightarrow> string"
  host_raw_version :: string

definition current_plugin_manifest_api_version :: string where
  "current_plugin_manifest_api_version = ''v1alpha1''"

definition current_plugin_host_api :: string where
  "current_plugin_host_api = ''loong-plugin/v1''"

definition validate_plugin_manifest_contract ::
  "('ver, 'req) semver \<Rightarrow> 'j plugin_manifest \<Rightarrow> plugin_source_kind \<Rightarrow> string \<Rightarrow> integration_error + unit" where
  "validate_plugin_manifest_contract V m kind path =
     (if kind = PackageManifest \<and> pm_api_version m = None then
        Inl (PluginManifestParse path ''package manifest must declare api_version'')
      else try_bind (case pm_api_version m of
          None \<Rightarrow> Inr ()
        | Some api \<Rightarrow> if api \<noteq> current_plugin_manifest_api_version then
            Inl (PluginManifestParse path (''plugin api_version `'' @ api @
              ''` is not supported by current manifest api `'' @ current_plugin_manifest_api_version @ ''`''))
          else Inr ()) (\<lambda>_.
      if kind = PackageManifest \<and> pm_version m = None then
        Inl (PluginManifestParse path ''package manifest must declare top-level version'')
      else case pm_version m of
          None \<Rightarrow> Inr ()
        | Some version \<Rightarrow>
            (case sv_parse_version V version of
               Inl err \<Rightarrow> Inl (PluginManifestParse path (''plugin version `'' @ version @
                 ''` is invalid semver: '' @ err))
             | Inr _ \<Rightarrow>
                 (case metadata_version m of
                    Some mv \<Rightarrow> if mv \<noteq> version then
                        Inl (PluginManifestParse path (''plugin version conflict: top-level version `'' @ version @
                          ''` does not match metadata.version `'' @ mv @ ''`''))
                      else Inr ()
                  | None \<Rightarrow> Inr ()))))"

definition current_plugin_host_version :: "('ver, 'req) semver \<Rightarrow> string + 'ver" where
  "current_plugin_host_version V =
     map_err (\<lambda>err. ''current host version `'' @ host_raw_version V @
       ''` is invalid and cannot satisfy plugin compatibility checks: '' @ err)
       (sv_parse_version V (host_raw_version V))"

definition plugin_host_compatibility_issue ::
  "('ver, 'req) semver \<Rightarrow> plugin_compatibility option \<Rightarrow> string option" where
  "plugin_host_compatibility_issue V compatibility =
     (case compatibility of
        None \<Rightarrow> None
      | Some c \<Rightarrow>
          (case option_filter (\<lambda>api. api \<noteq> current_plugin_host_api) (pc_host_api c) of
             Some api \<Rightarrow> Some (''plugin compatibility.host_api `'' @ api @
               ''` is not supported by current host api `'' @ current_plugin_host_api @ ''`'')
           | None \<Rightarrow>
               (case pc_host_version_req c of
                  None \<Rightarrow> None
                | Some req \<Rightarrow>
                    (case sv_parse_req V req of
                       Inl err \<Rightarrow> Some (''plugin compatibility.host_version_req `'' @ req @ ''` is invalid: '' @ err)
                     | Inr parsed_req \<Rightarrow>
                         (case current_plugin_host_version V of
                            Inl err \<Rightarrow> Some err
                          | Inr current \<Rightarrow>
                              if \<not> sv_matches V parsed_req current then
                                Some (''plugin compatibility.host_version_req `'' @ req @
                                  ''` does not match current host version `'' @ sv_show_version V current @ ''`'')
                              else None)))))"

section \<open>Manifest blocks\<close>

definition clean_manifest_line :: "string \<Rightarrow> string" where
  "clean_manifest_line line =
     (let trimmed = trim_start line in
      case find (\<lambda>p. prefix p trimmed) [''//'', ''#'', ''--'', '';'', ''/*'', ''*'', ''*/''] of
        Some p \<Rightarrow> trim_start (drop (length p) trimmed)
      | None \<Rightarrow> trimmed)"

fun find_text :: "string \<Rightarrow> string \<Rightarrow> nat option" where
  "find_text p [] = (if p = [] then Some 0 else None)"
| "find_text p (c # s) = (if prefix p (c # s) then Some 0 else map_option Suc (find_text p s))"

definition parse_manifest_block ::
  "('ver, 'req) semver \<Rightarrow> (string \<Rightarrow> string + 'j plugin_manifest) \<Rightarrow> string \<Rightarrow> string
    \<Rightarrow> integration_error + 'j plugin_manifest option" where
  "parse_manifest_block V from_json content path =
     (case find_text ''LOONG_PLUGIN_START'' content of
        None \<Rightarrow> Inr None
      | Some start_idx \<Rightarrow>
          (case find_text ''LOONG_PLUGIN_END'' (drop start_idx content) of
             None \<Rightarrow> Inl (PluginManifestParse path ''missing LOONG_PLUGIN_END'')
           | Some len \<Rightarrow>
               let block = drop (length ''LOONG_PLUGIN_START'') (take len (drop start_idx content));
                   cleaned = join_text [newline] (map clean_manifest_line (read_lines block)) in
               (case from_json (trim cleaned) of
                  Inl err \<Rightarrow> Inl (PluginManifestParse path err)
                | Inr manifest \<Rightarrow>
                    let normalized = normalize_plugin_manifest manifest in
                    try_bind (validate_plugin_manifest_contract V normalized EmbeddedSource path)
                      (\<lambda>_. Inr (Some normalized)))))"


section \<open>Normal forms\<close>

definition clean_strings :: "string list \<Rightarrow> bool" where
  "clean_strings xs \<longleftrightarrow> distinct xs \<and> (\<forall>x \<in> set xs. trim x = x \<and> x \<noteq> [])"

lemma clean_strings_push:
  assumes "clean_strings acc"
  shows "clean_strings (if trim v = [] then acc else if trim v \<in> set acc then acc else acc @ [trim v])"
proof (cases "trim v = [] \<or> trim v \<in> set acc")
  case False
  then show ?thesis using assms unfolding clean_strings_def by (simp add: ball_Un)
qed (use assms in auto)

lemma normalize_string_list_fold:
  "clean_strings acc \<Longrightarrow> clean_strings (fold (\<lambda>v normalized.
        if trim v = [] then normalized
        else if trim v \<in> set normalized then normalized
        else normalized @ [trim v]) vs acc)"
proof (induction vs arbitrary: acc)
  case (Cons v vs)
  from Cons.IH [OF clean_strings_push [OF Cons.prems]] show ?case by simp
qed simp

lemma normalize_string_list_clean: "clean_strings (normalize_manifest_string_list vs)"
  unfolding normalize_manifest_string_list_def
  by (rule normalize_string_list_fold) (simp add: clean_strings_def)

lemma normalize_string_list_id:
  assumes "clean_strings vs"
  shows "normalize_manifest_string_list vs = vs"
proof -
  have "fold (\<lambda>v normalized.
        if trim v = [] then normalized
        else if trim v \<in> set normalized then normalized
        else normalized @ [trim v]) vs acc = acc @ vs" if "clean_strings (acc @ vs)" for acc
    using that
  proof (induction vs arbitrary: acc)
    case Nil
    then show ?case by simp
  next
    case (Cons v vs)
    then have v: "trim v = v" "v \<noteq> []" "v \<notin> set acc" by (auto simp: clean_strings_def)
    from Cons.IH [of "acc @ [v]"] Cons.prems v show ?case by simp
  qed
  from this [of "[]"] assms show ?thesis
    by (simp add: normalize_manifest_string_list_def)
qed

lemma normalize_optional_idem [simp]:
  "normalize_optional_manifest_string (normalize_optional_manifest_string x) = normalize_optional_manifest_string x"
  by (auto simp: normalize_optional_manifest_string_def split: option.splits)

lemma setup_normalized_idem: "setup_normalized (setup_normalized s) = setup_normalized s"
  by (simp add: setup_normalized_def normalize_string_list_id normalize_string_list_clean)

lemma compatibility_normalized_idem: "compatibility_normalized (compatibility_normalized c) = compatibility_normalized c"
  by (simp add: compatibility_normalized_def)

text \<open>A canonical list of claims: in order, without repetition, each of them trimmed.\<close>

definition canonical_claims :: "plugin_slot_claim list \<Rightarrow> bool" where
  "canonical_claims cs \<longleftrightarrow> sorted_wrt (<) (map slot_claim_rank cs) \<and>
     (\<forall>c \<in> set cs. trim (sc_slot c) = sc_slot c \<and> trim (sc_key c) = sc_key c)"

lemma slot_mode_rank_inj: "slot_mode_rank a = slot_mode_rank b \<longleftrightarrow> a = b"
  by (cases a; cases b) simp_all

lemma slot_claim_rank_inj: "inj slot_claim_rank"
  by (rule injI) (auto simp: slot_claim_rank_def slot_mode_rank_inj)

lemma slot_claim_normalized_idem: "slot_claim_normalized (slot_claim_normalized c) = slot_claim_normalized c"
  by (simp add: slot_claim_normalized_def)

lemma sorted_remdups_adj_strict: "sorted xs \<Longrightarrow> sorted_wrt (<) (remdups_adj (xs :: 'a :: linorder list))"
  by (induction xs rule: remdups_adj.induct) auto

lemma normalized_claims_canonical: "canonical_claims (normalize_plugin_slot_claims cs)"
proof -
  let ?s = "sort_key slot_claim_rank (map slot_claim_normalized cs)"
  have "map slot_claim_rank (remdups_adj ?s) = remdups_adj (map slot_claim_rank ?s)"
    using slot_claim_rank_inj by (simp add: remdups_adj_map_injective)
  moreover have "sorted_wrt (<) (remdups_adj (map slot_claim_rank ?s))"
    by (rule sorted_remdups_adj_strict) simp
  ultimately show ?thesis
    by (auto simp: canonical_claims_def normalize_plugin_slot_claims_def slot_claim_normalized_def)
qed

lemma canonical_claims_id:
  assumes "canonical_claims cs"
  shows "normalize_plugin_slot_claims cs = cs"
proof -
  have "map slot_claim_normalized cs = cs"
    using assms by (auto simp: canonical_claims_def slot_claim_normalized_def intro: map_idI)
  moreover have "sort_key slot_claim_rank cs = cs"
    using assms by (intro sort_key_id_if_sorted) (simp add: canonical_claims_def strict_sorted_iff)
  moreover have "distinct cs"
    using assms by (simp add: canonical_claims_def strict_sorted_iff distinct_map)
  ultimately show ?thesis
    by (simp add: normalize_plugin_slot_claims_def remdups_adj_distinct)
qed

text \<open>
  Normalizing a manifest is idempotent and canonical: the slot claims come out trimmed, in order
  and without repetition, a setup is kept only when it says something and then lists each trimmed
  requirement once, and a manifest with a version has it in its metadata too.
\<close>

theorem manifest_normalization_is_canonical:
  "normalize_plugin_manifest (normalize_plugin_manifest m) = normalize_plugin_manifest m \<and>
   canonical_claims (pm_slot_claims (normalize_plugin_manifest m)) \<and>
   (\<forall>s. pm_setup (normalize_plugin_manifest m) = Some s \<longrightarrow>
      \<not> setup_is_effectively_empty s \<and> clean_strings (ps_required_env_vars s) \<and> clean_strings (ps_required_config_keys s)) \<and>
   (pm_version (normalize_plugin_manifest m) \<noteq> None \<longrightarrow> 
      bt_contains_key (pm_metadata (normalize_plugin_manifest m)) ''version'')"
proof -
  let ?n = "normalize_plugin_manifest m"
  have v: "normalize_optional_manifest_string (pm_version ?n) = pm_version ?n"
    by (auto simp: normalize_plugin_manifest_def metadata_version_def Let_def
      normalize_optional_manifest_string_def split: option.splits)
  have s: "option_filter (\<lambda>s. \<not> setup_is_effectively_empty s) (map_option setup_normalized (pm_setup ?n)) = pm_setup ?n"
    by (auto simp: normalize_plugin_manifest_def Let_def option_filter_def setup_normalized_idem split: option.splits)
  have c: "option_filter (\<lambda>c. \<not> compatibility_is_effectively_empty c)
      (map_option compatibility_normalized (pm_compatibility ?n)) = pm_compatibility ?n"
    by (auto simp: normalize_plugin_manifest_def Let_def option_filter_def compatibility_normalized_idem split: option.splits)
  have k: "canonical_claims (pm_slot_claims ?n)" "normalize_plugin_slot_claims (pm_slot_claims ?n) = pm_slot_claims ?n"
    using normalized_claims_canonical canonical_claims_id by (simp_all add: normalize_plugin_manifest_def Let_def)
  have a: "normalize_optional_manifest_string (pm_api_version ?n) = pm_api_version ?n"
    by (simp add: normalize_plugin_manifest_def Let_def)
  have d: "pm_version ?n = None \<Longrightarrow> metadata_version ?n = None"
    and e: "pm_version ?n \<noteq> None \<Longrightarrow> bt_contains_key (pm_metadata ?n) ''version''"
    by (auto simp: normalize_plugin_manifest_def Let_def metadata_version_def bt_contains_key_def split: option.splits)
  have "normalize_plugin_manifest ?n = ?n"
    using v s c k a d e
    by (subst normalize_plugin_manifest_def) (auto simp: Let_def split: option.splits)
  moreover have "\<not> setup_is_effectively_empty s \<and> clean_strings (ps_required_env_vars s) \<and>
      clean_strings (ps_required_config_keys s)" if "pm_setup ?n = Some s" for s
    using that by (auto simp: normalize_plugin_manifest_def Let_def option_filter_def setup_normalized_def
      normalize_string_list_clean split: option.splits if_splits)
  ultimately show ?thesis
    using k(1) e by blast
qed

definition versioned_manifest :: "unit plugin_manifest" where
  "versioned_manifest =
     \<lparr>pm_api_version = None, pm_version = Some '' 1.0'', pm_plugin_id = ''a'', pm_provider_id = ''p'',
      pm_connector_name = ''c'', pm_channel_id = None, pm_endpoint = None, pm_capabilities = {},
      pm_trust_tier = Unverified, pm_metadata = [], pm_summary = None, pm_tags = [], pm_input_examples = [],
      pm_output_examples = [], pm_defer_loading = False, pm_setup = None, pm_slot_claims = [],
      pm_compatibility = None\<rparr>"

theorem manifest_normalization_is_canonical_witness:
  "bt_contains_key (pm_metadata (normalize_plugin_manifest versioned_manifest)) ''version''"
proof -
  have "pm_version (normalize_plugin_manifest versioned_manifest) = Some ''1.0''"
    by (simp add: normalize_plugin_manifest_def versioned_manifest_def Let_def metadata_version_def
      normalize_optional_manifest_string_def trim_def trim_start_def trim_end_def whitespace_encodings_def)
  then show ?thesis
    using manifest_normalization_is_canonical [of versioned_manifest] by simp
qed

end
