(* ===== verification/Plugin_Absorb.thy ===== *)
theory Plugin_Absorb
  imports Plugin_Manifests
begin

text \<open>
  How scanned plugins enter the integration catalog and a pack (crates/kernel/src/plugin.rs,
  \<open>PluginScanner::absorb\<close>): the slot claims of the catalog's providers, the checks of each
  descriptor against them, the metadata stamped on its provider, and the rollback. Claims are kept
  in a provider's metadata as text; \<open>serde_json\<close> on them is an argument.
\<close>

record claims_codec =
  claims_to_json :: "plugin_slot_claim list \<Rightarrow> string + string"
  claims_from_json :: "string \<Rightarrow> string + plugin_slot_claim list"

definition slot_claims_metadata_key :: string where
  "slot_claims_metadata_key = ''plugin_slot_claims_json''"

record registered_slot_claim =
  rsc_plugin_id :: string
  rsc_provider_id :: string
  rsc_mode :: plugin_slot_mode

type_synonym claimed_slot_registry = "(string \<times> string, registered_slot_claim list) btree"

definition push_entry :: "'k :: linorder \<Rightarrow> 'v \<Rightarrow> ('k, 'v list) btree \<Rightarrow> ('k, 'v list) btree" where
  "push_entry k v m = bt_insert k ((case bt_get m k of Some vs \<Rightarrow> vs | None \<Rightarrow> []) @ [v]) m"

definition provider_plugin_id :: "provider_config \<Rightarrow> string" where
  "provider_plugin_id p = (case bt_get (provider_metadata p) ''plugin_id'' of
     Some i \<Rightarrow> i | None \<Rightarrow> ''provider:'' @ provider_provider_id p)"

definition collect_provider_slots ::
  "claims_codec \<Rightarrow> provider_config \<Rightarrow> claimed_slot_registry \<Rightarrow> integration_error + claimed_slot_registry" where
  "collect_provider_slots J p registry =
     (case bt_get (provider_metadata p) slot_claims_metadata_key of
        None \<Rightarrow> Inr registry
      | Some raw_json \<Rightarrow>
          (case claims_from_json J raw_json of
             Inl err \<Rightarrow> Inl (PluginAbsorbFailed (provider_plugin_id p)
               (''existing provider `'' @ provider_provider_id p @ ''` has invalid '' @
                slot_claims_metadata_key @ '': '' @ err))
           | Inr claims \<Rightarrow>
               Inr (fold (\<lambda>claim. push_entry (sc_slot claim, sc_key claim)
                      \<lparr>rsc_plugin_id = provider_plugin_id p, rsc_provider_id = provider_provider_id p,
                       rsc_mode = sc_mode claim\<rparr>) claims registry)))"

fun collect_slots ::
  "claims_codec \<Rightarrow> provider_config list \<Rightarrow> claimed_slot_registry \<Rightarrow> integration_error + claimed_slot_registry" where
  "collect_slots J [] registry = Inr registry"
| "collect_slots J (p # ps) registry = try_bind (collect_provider_slots J p registry) (collect_slots J ps)"

definition collect_claimed_slots ::
  "claims_codec \<Rightarrow> integration_catalog \<Rightarrow> integration_error + claimed_slot_registry" where
  "collect_claimed_slots J catalog = collect_slots J (bt_values (catalog_providers catalog)) []"

fun validate_slot_claims ::
  "string \<Rightarrow> plugin_slot_claim list \<Rightarrow> (string \<times> string, plugin_slot_mode) btree \<Rightarrow> integration_error + unit" where
  "validate_slot_claims pid [] seen_modes = Inr ()"
| "validate_slot_claims pid (claim # claims) seen_modes =
     (if sc_slot claim = [] then Inl (PluginAbsorbFailed pid ''slot claim slot must not be empty'')
      else if sc_key claim = [] then Inl (PluginAbsorbFailed pid ''slot claim key must not be empty'')
      else
        case option_filter (\<lambda>existing. existing \<noteq> sc_mode claim) (bt_get seen_modes (sc_slot claim, sc_key claim)) of
          Some existing_mode \<Rightarrow> Inl (PluginAbsorbFailed pid
            (''slot claim `'' @ sc_slot claim @ ''`:`'' @ sc_key claim @ ''` declares conflicting modes `'' @
             plugin_slot_mode_as_str existing_mode @ ''` and `'' @ plugin_slot_mode_as_str (sc_mode claim) @ ''`''))
        | None \<Rightarrow> validate_slot_claims pid claims
                    (bt_insert (sc_slot claim, sc_key claim) (sc_mode claim) seen_modes))"

definition validate_plugin_slot_claims :: "'j plugin_manifest \<Rightarrow> integration_error + unit" where
  "validate_plugin_slot_claims m = validate_slot_claims (pm_plugin_id m) (pm_slot_claims m) []"

definition validate_plugin_host_compatibility ::
  "('ver, 'req) semver \<Rightarrow> 'j plugin_manifest \<Rightarrow> integration_error + unit" where
  "validate_plugin_host_compatibility V m =
     (case plugin_host_compatibility_issue V (pm_compatibility m) of
        None \<Rightarrow> Inr () | Some issue \<Rightarrow> Inl (PluginAbsorbFailed (pm_plugin_id m) issue))"

definition slot_modes_conflict :: "plugin_slot_mode \<Rightarrow> plugin_slot_mode \<Rightarrow> bool" where
  "slot_modes_conflict existing incoming \<longleftrightarrow> existing = Exclusive \<or> incoming = Exclusive"

fun register_claims ::
  "string \<Rightarrow> string \<Rightarrow> plugin_slot_claim list \<Rightarrow> claimed_slot_registry \<Rightarrow> integration_error + claimed_slot_registry" where
  "register_claims pid provider [] registry = Inr registry"
| "register_claims pid provider (claim # claims) registry =
     (let slot_key = (sc_slot claim, sc_key claim) in
      case (case bt_get registry slot_key of
              None \<Rightarrow> None
            | Some existing \<Rightarrow> find (\<lambda>e. rsc_plugin_id e \<noteq> pid \<and> slot_modes_conflict (rsc_mode e) (sc_mode claim)) existing) of
        Some e \<Rightarrow> Inl (PluginAbsorbFailed pid
          (''slot claim conflict on `'' @ sc_slot claim @ ''`:`'' @ sc_key claim @ ''` with plugin `'' @
           rsc_plugin_id e @ ''` (provider `'' @ rsc_provider_id e @ ''`): `'' @
           plugin_slot_mode_as_str (sc_mode claim) @ ''` cannot coexist with `'' @
           plugin_slot_mode_as_str (rsc_mode e) @ ''`''))
      | None \<Rightarrow> register_claims pid provider claims
          (push_entry slot_key \<lparr>rsc_plugin_id = pid, rsc_provider_id = provider, rsc_mode = sc_mode claim\<rparr> registry))"

definition register_plugin_slot_claims ::
  "'j plugin_manifest \<Rightarrow> claimed_slot_registry \<Rightarrow> integration_error + claimed_slot_registry" where
  "register_plugin_slot_claims m registry =
     register_claims (pm_plugin_id m) (pm_provider_id m) (pm_slot_claims m) registry"

section \<open>Metadata\<close>

type_synonym plugin_metadata = "(string, string) btree"

definition md_remove :: "string \<Rightarrow> plugin_metadata \<Rightarrow> plugin_metadata" where
  "md_remove k m = filter (\<lambda>e. fst e \<noteq> k) m"

definition md_set :: "string \<Rightarrow> string option \<Rightarrow> plugin_metadata \<Rightarrow> plugin_metadata" where
  "md_set k v m = (case v of Some x \<Rightarrow> bt_insert k x m | None \<Rightarrow> md_remove k m)"

definition stamp_plugin_slot_claims_metadata ::
  "claims_codec \<Rightarrow> plugin_slot_claim list \<Rightarrow> plugin_metadata \<Rightarrow> integration_error + plugin_metadata" where
  "stamp_plugin_slot_claims_metadata J claims m =
     (if claims = [] then Inr (md_remove slot_claims_metadata_key m)
      else case claims_to_json J claims of
        Inl err \<Rightarrow> Inl (PluginAbsorbFailed
          (case bt_get m ''plugin_id'' of Some i \<Rightarrow> i | None \<Rightarrow> ''unknown-plugin'')
          (''serialize plugin slot claims metadata failed: '' @ err))
      | Inr encoded \<Rightarrow> Inr (bt_insert slot_claims_metadata_key encoded m))"

definition stamp_plugin_manifest_contract_metadata :: "'j plugin_manifest \<Rightarrow> plugin_metadata \<Rightarrow> plugin_metadata" where
  "stamp_plugin_manifest_contract_metadata m md =
     md_set ''plugin_version'' (pm_version m) (md_set ''plugin_manifest_api_version'' (pm_api_version m) md)"

definition stamp_plugin_descriptor_contract_metadata :: "'j plugin_descriptor \<Rightarrow> plugin_metadata \<Rightarrow> plugin_metadata" where
  "stamp_plugin_descriptor_contract_metadata d md =
     (let md = bt_insert ''plugin_dialect'' (plugin_contract_dialect_as_str (pd_dialect d)) md;
          md = md_set ''plugin_dialect_version'' (pd_dialect_version d) md;
          md = bt_insert ''plugin_compatibility_mode''
                 (plugin_compatibility_mode_as_str (pd_compatibility_mode d)) md;
          shim = shim_for_mode (pd_compatibility_mode d)
      in md_set ''plugin_compatibility_shim_family'' (map_option shim_family shim)
           (md_set ''plugin_compatibility_shim_id'' (map_option shim_id shim) md))"

definition stamp_plugin_compatibility_metadata :: "plugin_compatibility option \<Rightarrow> plugin_metadata \<Rightarrow> plugin_metadata" where
  "stamp_plugin_compatibility_metadata compatibility md =
     md_set ''plugin_compatibility_host_version_req'' (case compatibility of Some c \<Rightarrow> pc_host_version_req c | None \<Rightarrow> None)
       (md_set ''plugin_compatibility_host_api'' (case compatibility of Some c \<Rightarrow> pc_host_api c | None \<Rightarrow> None) md)"

section \<open>Absorbing\<close>

record plugin_absorb_report =
  par_absorbed_plugins :: usize
  par_provider_upserts :: usize
  par_channel_upserts :: usize
  par_connectors_added :: "string set"
  par_capabilities_added :: "capability set"

definition absorb_report_default :: plugin_absorb_report where
  "absorb_report_default = \<lparr>par_absorbed_plugins = 0, par_provider_upserts = 0, par_channel_upserts = 0,
     par_connectors_added = {}, par_capabilities_added = {}\<rparr>"

record absorb_state =
  as_catalog :: integration_catalog
  as_pack :: pack_manifest
  as_registry :: claimed_slot_registry
  as_report :: plugin_absorb_report

definition absorbed_provider_metadata ::
  "claims_codec \<Rightarrow> 'j plugin_descriptor \<Rightarrow> integration_error + plugin_metadata" where
  "absorbed_provider_metadata J d =
     (let m = pd_manifest d in
      try_bind (stamp_plugin_slot_claims_metadata J (pm_slot_claims m)
        (stamp_plugin_descriptor_contract_metadata d
          (stamp_plugin_manifest_contract_metadata m (pm_metadata m)))) (\<lambda>md.
      Inr (stamp_plugin_compatibility_metadata (pm_compatibility m) md)))"

definition absorbed_channel :: "'j plugin_manifest \<Rightarrow> string \<Rightarrow> channel_config" where
  "absorbed_channel m channel_id =
     \<lparr>channel_channel_id = channel_id, channel_provider_id = pm_provider_id m,
      channel_endpoint = (case pm_endpoint m of Some e \<Rightarrow> e
        | None \<Rightarrow> ''https://'' @ pm_provider_id m @ ''.local/'' @ channel_id @ ''/invoke''),
      channel_enabled = True, channel_metadata = [(''source_plugin'', pm_plugin_id m)]\<rparr>"

text \<open>The changes of one descriptor, once it has passed the checks.\<close>

definition absorb_changes :: "'j plugin_manifest \<Rightarrow> plugin_metadata \<Rightarrow> absorb_state \<Rightarrow> absorb_state" where
  "absorb_changes m md st =
     (let st = st\<lparr>as_catalog := upsert_provider
            \<lparr>provider_provider_id = pm_provider_id m, provider_connector_name = pm_connector_name m,
             provider_version = (case pm_version m of Some v \<Rightarrow> v
               | None \<Rightarrow> (case bt_get (pm_metadata m) ''version'' of Some v \<Rightarrow> v | None \<Rightarrow> ''0.1.0'')),
             provider_metadata = md\<rparr> (as_catalog st),
            as_report := (as_report st)\<lparr>par_provider_upserts :=
              usize_saturating_add (par_provider_upserts (as_report st)) 1\<rparr>\<rparr>;
          st = (case pm_channel_id m of
              None \<Rightarrow> st
            | Some c \<Rightarrow> st\<lparr>as_catalog := upsert_channel (absorbed_channel m c) (as_catalog st),
                as_report := (as_report st)\<lparr>par_channel_upserts :=
                  usize_saturating_add (par_channel_upserts (as_report st)) 1\<rparr>\<rparr>);
          connectors = {pm_connector_name m} - pack_allowed_connectors (as_pack st);
          capabilities = insert InvokeConnector (pm_capabilities m) - pack_granted_capabilities (as_pack st)
      in st\<lparr>as_pack := (as_pack st)\<lparr>
               pack_allowed_connectors := insert (pm_connector_name m) (pack_allowed_connectors (as_pack st)),
               pack_granted_capabilities := pack_granted_capabilities (as_pack st) \<union>
                 insert InvokeConnector (pm_capabilities m)\<rparr>,
            as_report := (as_report st)\<lparr>
               par_connectors_added := par_connectors_added (as_report st) \<union> connectors,
               par_capabilities_added := par_capabilities_added (as_report st) \<union> capabilities,
               par_absorbed_plugins := usize_saturating_add (par_absorbed_plugins (as_report st)) 1\<rparr>\<rparr>)"

definition absorb_descriptor ::
  "('ver, 'req) semver \<Rightarrow> claims_codec \<Rightarrow> 'j plugin_descriptor \<Rightarrow> absorb_state
    \<Rightarrow> (integration_error + unit) \<times> absorb_state" where
  "absorb_descriptor V J d st =
     (let m = pd_manifest d in
      if pm_provider_id m = [] then
        (Inl (PluginAbsorbFailed (pm_plugin_id m) ''provider_id must not be empty''), st)
      else if pm_connector_name m = [] then
        (Inl (PluginAbsorbFailed (pm_plugin_id m) ''connector_name must not be empty''), st)
      else
      and_then (validate_plugin_slot_claims m, st) (\<lambda>_ st.
      and_then (validate_plugin_host_compatibility V m, st) (\<lambda>_ st.
      and_then (case register_plugin_slot_claims m (as_registry st) of
            Inl e \<Rightarrow> (Inl e, st) | Inr registry \<Rightarrow> (Inr (), st\<lparr>as_registry := registry\<rparr>)) (\<lambda>_ st.
      and_then (absorbed_provider_metadata J d, st) (\<lambda>md st.
        (Inr (), absorb_changes m md st))))))"

fun absorb_all ::
  "('ver, 'req) semver \<Rightarrow> claims_codec \<Rightarrow> 'j plugin_descriptor list \<Rightarrow> absorb_state
    \<Rightarrow> (integration_error + unit) \<times> absorb_state" where
  "absorb_all V J [] st = (Inr (), st)"
| "absorb_all V J (d # ds) st = and_then (absorb_descriptor V J d st) (\<lambda>_ st. absorb_all V J ds st)"

definition absorb_inner ::
  "('ver, 'req) semver \<Rightarrow> claims_codec \<Rightarrow> integration_catalog \<Rightarrow> pack_manifest \<Rightarrow> 'j plugin_scan_report
    \<Rightarrow> (integration_error + plugin_absorb_report) \<times> integration_catalog \<times> pack_manifest" where
  "absorb_inner V J catalog pack report =
     (case collect_claimed_slots J catalog of
        Inl e \<Rightarrow> (Inl e, catalog, pack)
      | Inr registry \<Rightarrow>
          (case absorb_all V J (psr_descriptors report)
                  \<lparr>as_catalog = catalog, as_pack = pack, as_registry = registry, as_report = absorb_report_default\<rparr> of
             (Inl e, st) \<Rightarrow> (Inl e, as_catalog st, as_pack st)
           | (Inr _, st) \<Rightarrow> (Inr (as_report st), as_catalog st, as_pack st)))"

definition absorb ::
  "('ver, 'req) semver \<Rightarrow> claims_codec \<Rightarrow> integration_catalog \<Rightarrow> pack_manifest \<Rightarrow> 'j plugin_scan_report
    \<Rightarrow> (integration_error + plugin_absorb_report) \<times> integration_catalog \<times> pack_manifest" where
  "absorb V J catalog pack report =
     (case absorb_inner V J catalog pack report of
        (Inl e, _, _) \<Rightarrow> (Inl e, catalog, pack)
      | (Inr r, catalog', pack') \<Rightarrow> (Inr r, catalog', pack'))"

definition to_auto_provision_requests :: "'j plugin_scan_report \<Rightarrow> auto_provision_request list" where
  "to_auto_provision_requests report =
     map (\<lambda>d. let m = pd_manifest d in
       \<lparr>apr_provider_id = pm_provider_id m,
        apr_channel_id = (case pm_channel_id m of Some c \<Rightarrow> c | None \<Rightarrow> pm_provider_id m @ ''-default''),
        apr_connector_name = Some (pm_connector_name m), apr_endpoint = pm_endpoint m,
        apr_required_capabilities = pm_capabilities m\<rparr>) (psr_descriptors report)"


section \<open>What the registry holds\<close>

definition registered :: "claimed_slot_registry \<Rightarrow> ((string \<times> string) \<times> registered_slot_claim) set" where
  "registered registry = {(k, e). \<exists>es. bt_get registry k = Some es \<and> e \<in> set es}"

definition claim_entries :: "string \<Rightarrow> string \<Rightarrow> plugin_slot_claim list \<Rightarrow> ((string \<times> string) \<times> registered_slot_claim) set" where
  "claim_entries pid provider claims =
     (\<lambda>c. ((sc_slot c, sc_key c), \<lparr>rsc_plugin_id = pid, rsc_provider_id = provider, rsc_mode = sc_mode c\<rparr>)) ` set claims"

text \<open>Two claims exclude each other when they are for the same slot and key, of different plugins, and
  one of them is exclusive.\<close>

definition claims_clash ::
  "(string \<times> string) \<times> registered_slot_claim \<Rightarrow> (string \<times> string) \<times> registered_slot_claim \<Rightarrow> bool" where
  "claims_clash a b \<longleftrightarrow> fst a = fst b \<and> rsc_plugin_id (snd a) \<noteq> rsc_plugin_id (snd b) \<and>
     slot_modes_conflict (rsc_mode (snd a)) (rsc_mode (snd b))"

lemma claim_entries_Cons [simp]:
  "claim_entries pid provider (c # cs) =
    insert ((sc_slot c, sc_key c), \<lparr>rsc_plugin_id = pid, rsc_provider_id = provider, rsc_mode = sc_mode c\<rparr>)
      (claim_entries pid provider cs)"
  by (simp add: claim_entries_def)

lemma claim_entries_Nil [simp]: "claim_entries pid provider [] = {}"
  by (simp add: claim_entries_def)

lemma claims_clash_sym: "claims_clash a b \<longleftrightarrow> claims_clash b a"
  by (auto simp: claims_clash_def slot_modes_conflict_def)

lemma registered_push [simp]: "registered (push_entry k v m) = insert (k, v) (registered m)"
  by (auto simp: registered_def push_entry_def split: option.splits if_splits)

lemma registered_Nil [simp]: "registered [] = {}"
  by (simp add: registered_def)

lemma registered_fold:
  "registered (fold (\<lambda>claim. push_entry (sc_slot claim, sc_key claim)
      \<lparr>rsc_plugin_id = pid, rsc_provider_id = provider, rsc_mode = sc_mode claim\<rparr>) claims registry) =
    registered registry \<union> claim_entries pid provider claims"
  by (induction claims arbitrary: registry) auto

lemma register_claims_Ok:
  assumes "register_claims pid provider claims registry = Inr registry'"
  shows "registered registry' = registered registry \<union> claim_entries pid provider claims \<and>
    (\<forall>a \<in> registered registry. \<forall>b \<in> claim_entries pid provider claims. \<not> claims_clash a b)"
  using assms
proof (induction claims arbitrary: registry)
  case Nil
  then show ?case by simp
next
  case (Cons claim claims)
  let ?k = "(sc_slot claim, sc_key claim)"
  let ?e = "\<lparr>rsc_plugin_id = pid, rsc_provider_id = provider, rsc_mode = sc_mode claim\<rparr>"
  from Cons.prems have rest: "register_claims pid provider claims (push_entry ?k ?e registry) = Inr registry'"
    and free: "bt_get registry ?k = Some es \<Longrightarrow> e \<in> set es \<Longrightarrow>
      rsc_plugin_id e = pid \<or> \<not> slot_modes_conflict (rsc_mode e) (sc_mode claim)" for es e
    by (auto simp: Let_def find_None_iff split: option.splits)
  have "\<not> claims_clash a (?k, ?e)" if "a \<in> registered registry" for a
    using that by (clarsimp simp: registered_def claims_clash_def) (use free in blast)
  with Cons.IH [OF rest] show ?case by auto
qed

definition provider_claims :: "claims_codec \<Rightarrow> provider_config \<Rightarrow> ((string \<times> string) \<times> registered_slot_claim) set" where
  "provider_claims J p =
     (case bt_get (provider_metadata p) slot_claims_metadata_key of
        None \<Rightarrow> {}
      | Some raw \<Rightarrow> (case claims_from_json J raw of Inl _ \<Rightarrow> {}
          | Inr claims \<Rightarrow> claim_entries (provider_plugin_id p) (provider_provider_id p) claims))"

definition catalog_claims :: "claims_codec \<Rightarrow> integration_catalog \<Rightarrow> ((string \<times> string) \<times> registered_slot_claim) set" where
  "catalog_claims J c = (\<Union>p \<in> set (bt_values (catalog_providers c)). provider_claims J p)"

lemma collect_slots_Ok:
  "collect_slots J ps registry = Inr registry' \<Longrightarrow>
    registered registry' = registered registry \<union> (\<Union>p \<in> set ps. provider_claims J p)"
proof (induction ps arbitrary: registry)
  case Nil
  then show ?case by simp
next
  case (Cons p ps)
  then obtain r1 where r1: "collect_provider_slots J p registry = Inr r1" "collect_slots J ps r1 = Inr registry'"
    by (auto simp: try_bind_Ok)
  have "registered r1 = registered registry \<union> provider_claims J p"
    using r1(1) by (auto simp: collect_provider_slots_def provider_claims_def registered_fold
      split: option.splits sum.splits)
  with Cons.IH [OF r1(2)] show ?case by auto
qed

definition descriptor_claims :: "'j plugin_descriptor \<Rightarrow> ((string \<times> string) \<times> registered_slot_claim) set" where
  "descriptor_claims d = claim_entries (pm_plugin_id (pd_manifest d)) (pm_provider_id (pd_manifest d))
     (pm_slot_claims (pd_manifest d))"

definition descriptor_capabilities :: "'j plugin_descriptor \<Rightarrow> capability set" where
  "descriptor_capabilities d = insert InvokeConnector (pm_capabilities (pd_manifest d))"

lemma absorb_changes_simps [simp]:
  "as_registry (absorb_changes m md st) = as_registry st"
  "as_pack (absorb_changes m md st) = (as_pack st)\<lparr>
     pack_allowed_connectors := insert (pm_connector_name m) (pack_allowed_connectors (as_pack st)),
     pack_granted_capabilities := pack_granted_capabilities (as_pack st) \<union> insert InvokeConnector (pm_capabilities m)\<rparr>"
  by (simp_all add: absorb_changes_def Let_def split: option.splits)

lemma absorb_descriptor_Ok:
  assumes "absorb_descriptor V J d st = (Inr (), st')"
  shows "registered (as_registry st') = registered (as_registry st) \<union> descriptor_claims d \<and>
    (\<forall>a \<in> registered (as_registry st). \<forall>b \<in> descriptor_claims d. \<not> claims_clash a b) \<and>
    as_pack st' = (as_pack st)\<lparr>
       pack_allowed_connectors := insert (pm_connector_name (pd_manifest d)) (pack_allowed_connectors (as_pack st)),
       pack_granted_capabilities := pack_granted_capabilities (as_pack st) \<union> descriptor_capabilities d\<rparr>"
  using assms
  by (auto simp: absorb_descriptor_def Let_def and_then_Ok register_plugin_slot_claims_def descriptor_claims_def
      descriptor_capabilities_def split: if_splits sum.splits dest: register_claims_Ok)

lemma absorb_all_Ok:
  assumes "absorb_all V J ds st = (Inr (), st')"
  shows "(\<forall>d \<in> set ds. \<forall>b \<in> descriptor_claims d. \<forall>a \<in> registered (as_registry st). \<not> claims_clash a b) \<and>
    (\<forall>i j. i < j \<longrightarrow> j < length ds \<longrightarrow>
       (\<forall>a \<in> descriptor_claims (ds ! i). \<forall>b \<in> descriptor_claims (ds ! j). \<not> claims_clash a b)) \<and>
    as_pack st' = (as_pack st)\<lparr>
       pack_allowed_connectors := pack_allowed_connectors (as_pack st) \<union> (\<lambda>d. pm_connector_name (pd_manifest d)) ` set ds,
       pack_granted_capabilities := pack_granted_capabilities (as_pack st) \<union> (\<Union>d \<in> set ds. descriptor_capabilities d)\<rparr>"
  using assms
proof (induction ds arbitrary: st)
  case Nil
  then show ?case by simp
next
  case (Cons d ds)
  then obtain st1 where st1: "absorb_descriptor V J d st = (Inr (), st1)" "absorb_all V J ds st1 = (Inr (), st')"
    by (auto simp: and_then_Ok)
  note D = absorb_descriptor_Ok [OF st1(1)] and IH = Cons.IH [OF st1(2)]
  have "\<forall>a \<in> descriptor_claims ((d # ds) ! i). \<forall>b \<in> descriptor_claims ((d # ds) ! j). \<not> claims_clash a b"
    if "i < j" "j < length (d # ds)" for i j
  proof (cases j)
    case (Suc k)
    then have k: "k < length ds" "(d # ds) ! j = ds ! k" using that(2) by simp_all
    show ?thesis
    proof (cases i)
      case 0
      with D IH k nth_mem [OF k(1)] show ?thesis by (metis UnI2 nth_Cons_0)
    next
      case (Suc l)
      with IH k that(1) \<open>j = Suc k\<close> show ?thesis by simp
    qed
  qed (use that in simp)
  moreover have "as_pack st' = (as_pack st)\<lparr>
       pack_allowed_connectors := pack_allowed_connectors (as_pack st) \<union> (\<lambda>d. pm_connector_name (pd_manifest d)) ` set (d # ds),
       pack_granted_capabilities := pack_granted_capabilities (as_pack st) \<union> (\<Union>d \<in> set (d # ds). descriptor_capabilities d)\<rparr>"
    using D IH by (simp add: Un_ac)
  moreover have "\<forall>e \<in> set (d # ds). \<forall>b \<in> descriptor_claims e. \<forall>a \<in> registered (as_registry st). \<not> claims_clash a b"
    using D IH by (metis UnI1 set_ConsD)
  ultimately show ?case by blast
qed

text \<open>
  C27. Exclusive slots stay exclusive: when a scan is absorbed, no claim of an absorbed plugin clashes
  with a claim of another plugin of the scan or with one the catalog held before (a clash is the same
  slot and key, different plugins, and at least one exclusive mode).
\<close>

theorem absorbed_claims_do_not_clash:
  assumes "absorb V J catalog pack report = (Inr r, catalog', pack')"
  shows "(\<forall>i j. i < j \<longrightarrow> j < length (psr_descriptors report) \<longrightarrow>
      (\<forall>a \<in> descriptor_claims (psr_descriptors report ! i). \<forall>b \<in> descriptor_claims (psr_descriptors report ! j).
         \<not> claims_clash a b)) \<and>
    (\<forall>a \<in> catalog_claims J catalog. \<forall>d \<in> set (psr_descriptors report). \<forall>b \<in> descriptor_claims d. \<not> claims_clash a b)"
proof -
  from assms obtain registry st where *: "collect_claimed_slots J catalog = Inr registry"
    "absorb_all V J (psr_descriptors report)
       \<lparr>as_catalog = catalog, as_pack = pack, as_registry = registry, as_report = absorb_report_default\<rparr> = (Inr (), st)"
    by (auto simp: absorb_def absorb_inner_def split: sum.splits prod.splits)
  from collect_slots_Ok [OF *(1) [unfolded collect_claimed_slots_def]]
  have "registered registry = catalog_claims J catalog"
    by (simp add: catalog_claims_def)
  with absorb_all_Ok [OF *(2)] show ?thesis by simp
qed

text \<open>
  Absorbing is all or nothing and grants exactly what was declared: an error leaves catalog and
  pack as they were; a success adds to the pack's allow-list the connectors of all absorbed plugins
  and to its grants their capabilities and InvokeConnector, and changes nothing else of the pack.
\<close>

theorem absorb_grants_exactly_what_was_declared:
  "case absorb V J catalog pack report of
     (Inl e, catalog', pack') \<Rightarrow> catalog' = catalog \<and> pack' = pack
   | (Inr r, catalog', pack') \<Rightarrow>
       pack' = pack\<lparr>
         pack_allowed_connectors := pack_allowed_connectors pack \<union>
           (\<lambda>d. pm_connector_name (pd_manifest d)) ` set (psr_descriptors report),
         pack_granted_capabilities := pack_granted_capabilities pack \<union>
           (\<Union>d \<in> set (psr_descriptors report). descriptor_capabilities d)\<rparr>"
  by (auto simp: absorb_def absorb_inner_def split: sum.splits prod.splits dest: absorb_all_Ok)


text \<open>A plugin is read back from the catalog under the identity in its metadata, not its own.\<close>

definition sample_semver :: "(unit, unit) semver" where
  "sample_semver = \<lparr>sv_parse_version = (\<lambda>_. Inr ()), sv_parse_req = (\<lambda>_. Inr ()), sv_matches = (\<lambda>_ _. True),
     sv_show_version = (\<lambda>_. ''0.1.0''), host_raw_version = ''0.1.0''\<rparr>"

definition search_claim :: plugin_slot_claim where
  "search_claim = \<lparr>sc_slot = ''provider:search'', sc_key = ''web'', sc_mode = Exclusive\<rparr>"

definition sample_claims_codec :: claims_codec where
  "sample_claims_codec = \<lparr>claims_to_json = (\<lambda>_. Inr ''c''), claims_from_json = (\<lambda>_. Inr [search_claim])\<rparr>"

definition search_plugin :: "unit plugin_descriptor" where
  "search_plugin = \<lparr>pd_path = ''/p'', pd_source_kind = EmbeddedSource, pd_dialect = LoongEmbeddedSource,
     pd_dialect_version = None, pd_compatibility_mode = Native, pd_package_root = ''/'',
     pd_package_manifest_path = None, pd_language = ''py'',
     pd_manifest = \<lparr>pm_api_version = None, pm_version = None, pm_plugin_id = ''search'',
       pm_provider_id = ''p'', pm_connector_name = ''c'', pm_channel_id = None, pm_endpoint = None,
       pm_capabilities = {}, pm_trust_tier = Unverified, pm_metadata = [], pm_summary = None, pm_tags = [],
       pm_input_examples = [], pm_output_examples = [], pm_defer_loading = False, pm_setup = None,
       pm_slot_claims = [search_claim], pm_compatibility = None\<rparr>\<rparr>"

definition search_report :: "unit plugin_scan_report" where
  "search_report = \<lparr>psr_scanned_files = 1, psr_matched_plugins = 1, psr_diagnostic_findings = [],
     psr_descriptors = [search_plugin]\<rparr>"

definition empty_pack :: pack_manifest where
  "empty_pack = \<lparr>pack_id = ''p'', pack_domain = ''d'', pack_version = ''1.0.0'',
     pack_default_route = \<lparr>route_harness_kind = EmbeddedPi, route_adapter = None\<rparr>,
     pack_allowed_connectors = {}, pack_granted_capabilities = {}, pack_metadata = []\<rparr>"

lemmas absorb_run_defs =
  absorb_def absorb_inner_def collect_claimed_slots_def catalog_new_def bt_values_def search_report_def
  search_plugin_def absorb_descriptor_def Let_def validate_plugin_slot_claims_def search_claim_def
  option_filter_def validate_plugin_host_compatibility_def plugin_host_compatibility_issue_def
  register_plugin_slot_claims_def push_entry_def absorbed_provider_metadata_def
  stamp_plugin_slot_claims_metadata_def sample_claims_codec_def stamp_plugin_descriptor_contract_metadata_def
  stamp_plugin_manifest_contract_metadata_def md_set_def md_remove_def stamp_plugin_compatibility_metadata_def
  slot_claims_metadata_key_def absorb_changes_def upsert_provider_def empty_pack_def absorb_report_default_def
  collect_provider_slots_def provider_plugin_id_def slot_modes_conflict_def sample_semver_def

text \<open>
  A plugin cannot be absorbed twice: absorbing does not write the plugin's id into the provider
  metadata it later reads it from, so the plugin's own exclusive claim comes back as that of
  `provider:<provider id>` and clashes with the plugin itself.
\<close>

theorem plugin_cannot_be_absorbed_twice:
  "case absorb sample_semver sample_claims_codec catalog_new empty_pack search_report of
     (first, catalog, pack) \<Rightarrow> \<not> isl first \<and>
       fst (absorb sample_semver sample_claims_codec catalog pack search_report) =
         Inl (PluginAbsorbFailed ''search'' (''slot claim conflict on `provider:search`:`web` with plugin `provider:p` (provider `p`): '' @
           ''`exclusive` cannot coexist with `exclusive`''))"
  by (simp add: absorb_run_defs)

theorem absorbed_claims_do_not_clash_witness:
  "\<not> (\<exists>d \<in> set (psr_descriptors search_report). \<exists>b \<in> descriptor_claims d.
     \<exists>a \<in> catalog_claims sample_claims_codec catalog_new. claims_clash a b)"
proof -
  have "absorb sample_semver sample_claims_codec catalog_new empty_pack search_report =
     (Inr (projr (fst (absorb sample_semver sample_claims_codec catalog_new empty_pack search_report))),
      fst (snd (absorb sample_semver sample_claims_codec catalog_new empty_pack search_report)),
      snd (snd (absorb sample_semver sample_claims_codec catalog_new empty_pack search_report)))"
    by (simp add: absorb_run_defs)
  from absorbed_claims_do_not_clash [OF this] show ?thesis by blast
qed
end
