(* ===== verification/Plugin_Runtime.thy ===== *)
theory Plugin_Runtime
  imports Plugin_Absorb
begin

text \<open>
  What the translator infers of a plugin's runtime (crates/kernel/src/plugin\_ir/runtime.rs) and its
  setup readiness (plugin\_ir/setup.rs): language, bridge kind, adapter family and entrypoint from
  metadata or defaults, the channel bridge contract, the requirements still missing. Environment
  variable names are compared as on a host that is not Windows. Parsing a JSON list of strings is an
  argument, and so is the extension of a path.
\<close>

section \<open>Runtime profiles\<close>

record plugin_runtime_profile =
  rp_source_language :: string
  rp_bridge_kind :: plugin_bridge_kind
  rp_adapter_family :: string
  rp_entrypoint_hint :: string

definition normalize_language :: "string \<Rightarrow> string" where
  "normalize_language language =
     (let l = to_ascii_lowercase (trim language) in
      if l = ''rs'' then ''rust'' else if l = ''py'' then ''python'' else if l = ''js'' then ''javascript''
      else if l = ''ts'' then ''typescript'' else if l = ''go'' then ''go'' else if l = ''wasm'' then ''wasm''
      else if l = '''' then ''unknown'' else l)"

definition parse_bridge_kind :: "string \<Rightarrow> plugin_bridge_kind option" where
  "parse_bridge_kind raw =
     (let l = to_ascii_lowercase (trim raw) in
      if l = ''http_json'' \<or> l = ''http'' then Some HttpJson
      else if l = ''process_stdio'' \<or> l = ''stdio'' then Some ProcessStdio
      else if l = ''native_ffi'' \<or> l = ''ffi'' then Some NativeFfi
      else if l = ''wasm_component'' \<or> l = ''wasm'' then Some WasmComponent
      else if l = ''mcp_server'' \<or> l = ''mcp'' then Some McpServer
      else if l = ''acp_bridge'' \<or> l = ''acp'' then Some AcpBridge
      else if l = ''acp_runtime'' \<or> l = ''acpx'' then Some AcpRuntime
      else if l = ''unknown'' then Some plugin_bridge_kind.Unknown
      else None)"

definition default_bridge_kind :: "string \<Rightarrow> string option \<Rightarrow> plugin_bridge_kind" where
  "default_bridge_kind language endpoint =
     (if language \<in> {''rust'', ''go'', ''c'', ''cpp'', ''cxx''} then NativeFfi
      else if language \<in> {''python'', ''javascript'', ''typescript'', ''java''} then ProcessStdio
      else if language \<in> {''wasm'', ''wat''} then WasmComponent
      else case endpoint of
        Some e \<Rightarrow> if prefix ''http://'' e \<or> prefix ''https://'' e then HttpJson else plugin_bridge_kind.Unknown
      | None \<Rightarrow> plugin_bridge_kind.Unknown)"

definition default_adapter_family :: "string \<Rightarrow> plugin_bridge_kind \<Rightarrow> string" where
  "default_adapter_family language bridge_kind =
     (case bridge_kind of
        HttpJson \<Rightarrow> ''http-adapter''
      | ProcessStdio \<Rightarrow> language @ ''-stdio-adapter''
      | NativeFfi \<Rightarrow> language @ ''-ffi-adapter''
      | WasmComponent \<Rightarrow> ''wasm-component-adapter''
      | McpServer \<Rightarrow> ''mcp-adapter''
      | AcpBridge \<Rightarrow> ''acp-bridge-adapter''
      | AcpRuntime \<Rightarrow> ''acp-runtime-adapter''
      | plugin_bridge_kind.Unknown \<Rightarrow> language @ ''-unknown-adapter'')"

definition default_entrypoint_hint :: "plugin_bridge_kind \<Rightarrow> string option \<Rightarrow> string option" where
  "default_entrypoint_hint bridge_kind endpoint =
     (case bridge_kind of
        HttpJson \<Rightarrow> Some (case endpoint of Some e \<Rightarrow> e | None \<Rightarrow> ''https://localhost/invoke'')
      | ProcessStdio \<Rightarrow> Some ''stdin/stdout::invoke''
      | NativeFfi \<Rightarrow> Some ''lib::invoke''
      | WasmComponent \<Rightarrow> Some ''component::run''
      | McpServer \<Rightarrow> Some ''mcp::stdio''
      | AcpBridge \<Rightarrow> Some ''acp::bridge''
      | AcpRuntime \<Rightarrow> Some ''acp::turn''
      | plugin_bridge_kind.Unknown \<Rightarrow> None)"

definition infer_runtime_profile_from_parts ::
  "string \<Rightarrow> (string, string) btree \<Rightarrow> string option \<Rightarrow> plugin_runtime_profile" where
  "infer_runtime_profile_from_parts language metadata endpoint =
     (let source_language = (case option_filter (\<lambda>v. v \<noteq> ''unknown'')
              (map_option normalize_language (bt_get metadata ''source_language'')) of
            Some l \<Rightarrow> l | None \<Rightarrow> normalize_language language);
          bridge_kind = (case Option.bind (bt_get metadata ''bridge_kind'') parse_bridge_kind of
            Some k \<Rightarrow> k
          | None \<Rightarrow> (case option_filter (\<lambda>v. to_ascii_lowercase v = ''mcp'') (bt_get metadata ''protocol'') of
              Some _ \<Rightarrow> McpServer
            | None \<Rightarrow> default_bridge_kind source_language endpoint));
          adapter_family = (case bt_get metadata ''adapter_family'' of
            Some f \<Rightarrow> f | None \<Rightarrow> default_adapter_family source_language bridge_kind);
          entrypoint_hint = (case bt_get metadata ''entrypoint'' of
            Some e \<Rightarrow> e
          | None \<Rightarrow> (case default_entrypoint_hint bridge_kind endpoint of Some e \<Rightarrow> e | None \<Rightarrow> ''invoke''))
      in \<lparr>rp_source_language = source_language, rp_bridge_kind = bridge_kind,
          rp_adapter_family = adapter_family, rp_entrypoint_hint = entrypoint_hint\<rparr>)"

definition infer_runtime_profile :: "string \<Rightarrow> 'j plugin_manifest \<Rightarrow> plugin_runtime_profile" where
  "infer_runtime_profile language m = infer_runtime_profile_from_parts language (pm_metadata m) (pm_endpoint m)"

definition legacy_plugin_ir_dialect :: "plugin_source_kind \<Rightarrow> plugin_contract_dialect" where
  "legacy_plugin_ir_dialect kind =
     (case kind of PackageManifest \<Rightarrow> LoongPackageManifest | EmbeddedSource \<Rightarrow> LoongEmbeddedSource)"

definition legacy_plugin_ir_runtime_profile ::
  "(string \<Rightarrow> string) \<Rightarrow> string \<Rightarrow> plugin_source_kind \<Rightarrow> (string, string) btree \<Rightarrow> string option
    \<Rightarrow> plugin_runtime_profile" where
  "legacy_plugin_ir_runtime_profile extension source_path kind metadata endpoint =
     infer_runtime_profile_from_parts
       (if kind = PackageManifest then ''unknown'' else normalize_language (extension source_path)) metadata endpoint"

record plugin_runtime_scaffold_defaults =
  rsd_source_language :: "string option"
  rsd_bridge_kind :: plugin_bridge_kind
  rsd_adapter_family :: string
  rsd_entrypoint_hint :: string

definition scaffold_defaults ::
  "plugin_bridge_kind \<Rightarrow> string option \<Rightarrow> string + plugin_runtime_scaffold_defaults" where
  "scaffold_defaults bridge_kind source_language =
     (if bridge_kind = plugin_bridge_kind.Unknown then
        Inl ''plugin scaffold does not support bridge_kind `unknown`''
      else
        let normalized = option_filter (\<lambda>v. v \<noteq> ''unknown'' \<and> v \<noteq> ''manifest'')
              (map_option normalize_language source_language) in
        if bridge_kind \<in> {ProcessStdio, NativeFfi} \<and> normalized = None then
          Inl (''plugin scaffold requires an explicit source language for bridge_kind `'' @
            plugin_bridge_kind_as_str bridge_kind @ ''`'')
        else Inr
          \<lparr>rsd_source_language = normalized, rsd_bridge_kind = bridge_kind,
           rsd_adapter_family = default_adapter_family
             (case normalized of Some l \<Rightarrow> l | None \<Rightarrow> ''unknown'') bridge_kind,
           rsd_entrypoint_hint = (case default_entrypoint_hint bridge_kind None of
             Some h \<Rightarrow> h | None \<Rightarrow> ''invoke'')\<rparr>)"

section \<open>Channel bridges\<close>

record channel_bridge_readiness =
  cbr_ready :: bool
  cbr_missing_fields :: "string list"

record channel_bridge_contract =
  cbc_channel_id :: "string option"
  cbc_setup_surface :: "string option"
  cbc_transport_family :: "string option"
  cbc_target_contract :: "string option"
  cbc_account_scope :: "string option"
  cbc_runtime_contract :: "string option"
  cbc_runtime_operations :: "string list"
  cbc_runtime_metadata_issues :: "string list"
  cbc_readiness :: channel_bridge_readiness

definition normalized_metadata_value :: "'j plugin_manifest \<Rightarrow> string \<Rightarrow> string option" where
  "normalized_metadata_value m key = normalize_optional_manifest_string (bt_get (pm_metadata m) key)"

definition normalized_metadata_string_list ::
  "(string \<Rightarrow> string + string list) \<Rightarrow> 'j plugin_manifest \<Rightarrow> string \<Rightarrow> string + string list" where
  "normalized_metadata_string_list parse_strings m key =
     (case bt_get (pm_metadata m) key of
        None \<Rightarrow> Inr []
      | Some raw \<Rightarrow>
          (case parse_strings raw of
             Inl err \<Rightarrow> Inl (''metadata.'' @ key @ '' must be valid json string array: '' @ err)
           | Inr vs \<Rightarrow> Inr (filter (\<lambda>v. v \<noteq> []) (map trim vs))))"

definition evaluate_channel_bridge_readiness ::
  "string option \<Rightarrow> string option \<Rightarrow> string option \<Rightarrow> string option \<Rightarrow> channel_bridge_readiness" where
  "evaluate_channel_bridge_readiness channel_id setup_surface transport_family target_contract =
     (let missing = (if channel_id = None then [''channel_id''] else []) @
            (if setup_surface \<noteq> Some ''channel'' then [''setup.surface''] else []) @
            (if transport_family = None then [''metadata.transport_family''] else []) @
            (if target_contract = None then [''metadata.target_contract''] else [])
      in \<lparr>cbr_ready = (missing = []), cbr_missing_fields = missing\<rparr>)"

definition derive_channel_bridge_contract ::
  "(string \<Rightarrow> string + string list) \<Rightarrow> 'j plugin_manifest \<Rightarrow> channel_bridge_contract option" where
  "derive_channel_bridge_contract parse_strings m =
     (let channel_id = normalize_optional_manifest_string (pm_channel_id m);
          setup_surface = normalize_optional_manifest_string (Option.bind (pm_setup m) ps_surface);
          transport_family = normalized_metadata_value m ''transport_family'';
          target_contract = normalized_metadata_value m ''target_contract'';
          account_scope = normalized_metadata_value m ''account_scope'';
          (operations, issues) =
            (case normalized_metadata_string_list parse_strings m ''channel_runtime_operations_json'' of
               Inr ops \<Rightarrow> (ops, []) | Inl issue \<Rightarrow> ([], [issue])) in
      if transport_family = None \<and> target_contract = None \<and> account_scope = None \<and>
         normalized_metadata_value m ''adapter_family'' \<noteq> Some ''channel-bridge''
      then None
      else Some
        \<lparr>cbc_channel_id = channel_id, cbc_setup_surface = setup_surface,
         cbc_transport_family = transport_family, cbc_target_contract = target_contract,
         cbc_account_scope = account_scope,
         cbc_runtime_contract = normalized_metadata_value m ''channel_runtime_contract'',
         cbc_runtime_operations = operations, cbc_runtime_metadata_issues = issues,
         cbc_readiness = evaluate_channel_bridge_readiness channel_id setup_surface transport_family target_contract\<rparr>)"

section \<open>Setup readiness\<close>

record setup_readiness_context =
  verified_env_vars :: "string set"
  verified_config_keys :: "string set"

record setup_readiness =
  sr_ready :: bool
  sr_missing_env_vars :: "string list"
  sr_missing_config_keys :: "string list"

definition evaluate_plugin_setup_requirements ::
  "string list \<Rightarrow> string list \<Rightarrow> setup_readiness_context \<Rightarrow> setup_readiness" where
  "evaluate_plugin_setup_requirements env_vars config_keys context =
     (let missing_env = filter (\<lambda>v. v \<notin> verified_env_vars context) env_vars;
          missing_config = filter (\<lambda>k. k \<notin> verified_config_keys context) config_keys
      in \<lparr>sr_ready = (missing_env = [] \<and> missing_config = []), sr_missing_env_vars = missing_env,
          sr_missing_config_keys = missing_config\<rparr>)"

definition evaluate_plugin_setup_readiness ::
  "plugin_setup option \<Rightarrow> setup_readiness_context \<Rightarrow> setup_readiness" where
  "evaluate_plugin_setup_readiness setup context =
     (case setup of
        None \<Rightarrow> \<lparr>sr_ready = True, sr_missing_env_vars = [], sr_missing_config_keys = []\<rparr>
      | Some s \<Rightarrow> evaluate_plugin_setup_requirements (ps_required_env_vars s) (ps_required_config_keys s) context)"

definition format_plugin_setup_incomplete_reason :: "setup_readiness \<Rightarrow> string" where
  "format_plugin_setup_incomplete_reason r =
     ''plugin setup is incomplete: '' @ join_text ''; ''
       ((if sr_missing_env_vars r \<noteq> [] then [''missing required env vars: '' @ join_text '', '' (sr_missing_env_vars r)] else []) @
        (if sr_missing_config_keys r \<noteq> []
         then [''missing required config keys: '' @ join_text '', '' (sr_missing_config_keys r)] else []))"

end
