(* ===== verification/Plugin_Activation.thy ===== *)
theory Plugin_Activation
  imports Plugin_Runtime
begin

text \<open>
  The plugin translator (crates/kernel/src/plugin\_ir.rs): the translation of scanned descriptors, the
  support matrix of the runtime, the slot claim conflicts and the activation plan with its status,
  reason and diagnostics per plugin. The candidate of a plan extends the record the bootstrap executor
  reads.
\<close>

section \<open>Data types\<close>

record plugin_ir =
  ir_manifest_api_version :: "string option"
  ir_plugin_version :: "string option"
  ir_dialect :: plugin_contract_dialect
  ir_dialect_version :: "string option"
  ir_compatibility_mode :: plugin_compatibility_mode
  ir_plugin_id :: string
  ir_provider_id :: string
  ir_connector_name :: string
  ir_channel_id :: "string option"
  ir_endpoint :: "string option"
  ir_capabilities :: "capability set"
  ir_trust_tier :: plugin_trust_tier
  ir_metadata :: "(string, string) btree"
  ir_source_path :: string
  ir_source_kind :: plugin_source_kind
  ir_package_root :: string
  ir_package_manifest_path :: "string option"
  ir_diagnostic_findings :: "plugin_diagnostic_finding list"
  ir_setup :: "plugin_setup option"
  ir_channel_bridge :: "channel_bridge_contract option"
  ir_slot_claims :: "plugin_slot_claim list"
  ir_compatibility :: "plugin_compatibility option"
  ir_runtime :: plugin_runtime_profile

record translation_report =
  tr_translated_plugins :: usize
  tr_bridge_distribution :: "(string, usize) btree"
  tr_entries :: "plugin_ir list"

record shim_support =
  ss_shim :: plugin_compatibility_shim
  ss_version :: "string option"
  ss_dialects :: "plugin_contract_dialect set"
  ss_bridges :: "plugin_bridge_kind set"
  ss_adapter_families :: "string set"
  ss_source_languages :: "string set"

record bridge_support_matrix =
  bm_bridges :: "plugin_bridge_kind set"
  bm_adapter_families :: "string set"
  bm_compatibility_modes :: "plugin_compatibility_mode set"
  bm_shims :: "plugin_compatibility_shim set"
  bm_shim_profiles :: "plugin_compatibility_shim \<rightharpoonup> shim_support"

record activation_candidate = plugin_activation_candidate +
  ac_source_kind :: plugin_source_kind
  ac_package_root :: string
  ac_package_manifest_path :: "string option"
  ac_shim_support :: "shim_support option"
  ac_shim_mismatch_reasons :: "string list"
  ac_slot_claims :: "plugin_slot_claim list"
  ac_diagnostic_findings :: "plugin_diagnostic_finding list"
  ac_reason :: string
  ac_missing_env_vars :: "string list"
  ac_missing_config_keys :: "string list"

record activation_plan =
  ap_total_plugins :: usize
  ap_ready_plugins :: usize
  ap_setup_incomplete_plugins :: usize
  ap_blocked_plugins :: usize
  ap_candidates :: "activation_candidate list"

section \<open>Translation\<close>

definition translate_descriptor ::
  "(string \<Rightarrow> string + string list) \<Rightarrow> 'j plugin_descriptor \<Rightarrow> plugin_ir" where
  "translate_descriptor parse_strings d =
     (let m = pd_manifest d in
      \<lparr>ir_manifest_api_version = pm_api_version m, ir_plugin_version = pm_version m,
       ir_dialect = pd_dialect d, ir_dialect_version = pd_dialect_version d,
       ir_compatibility_mode = pd_compatibility_mode d, ir_plugin_id = pm_plugin_id m,
       ir_provider_id = pm_provider_id m, ir_connector_name = pm_connector_name m,
       ir_channel_id = pm_channel_id m, ir_endpoint = pm_endpoint m, ir_capabilities = pm_capabilities m,
       ir_trust_tier = pm_trust_tier m, ir_metadata = pm_metadata m, ir_source_path = pd_path d,
       ir_source_kind = pd_source_kind d, ir_package_root = pd_package_root d,
       ir_package_manifest_path = pd_package_manifest_path d, ir_diagnostic_findings = [],
       ir_setup = pm_setup m, ir_channel_bridge = derive_channel_bridge_contract parse_strings m,
       ir_slot_claims = pm_slot_claims m, ir_compatibility = pm_compatibility m,
       ir_runtime = infer_runtime_profile (pd_language d) m\<rparr>)"

type_synonym plugin_key = "string \<times> string"

definition group_findings ::
  "plugin_diagnostic_finding list \<Rightarrow> (plugin_key, plugin_diagnostic_finding list) btree" where
  "group_findings findings =
     fold (\<lambda>f m. case (pdf_source_path f, pdf_plugin_id f) of
         (Some path, Some i) \<Rightarrow> push_entry (path, i) f m
       | _ \<Rightarrow> m) findings []"

definition key_remove :: "'k \<Rightarrow> ('k, 'v) btree \<Rightarrow> ('k, 'v) btree" where
  "key_remove k m = filter (\<lambda>e. fst e \<noteq> k) m"

fun translate_all ::
  "(string \<Rightarrow> string + string list) \<Rightarrow> 'j plugin_descriptor list
    \<Rightarrow> (plugin_key, plugin_diagnostic_finding list) btree \<Rightarrow> translation_report \<Rightarrow> translation_report" where
  "translate_all parse_strings [] diagnostics report = report"
| "translate_all parse_strings (d # ds) diagnostics report =
     (let key = (pd_path d, pm_plugin_id (pd_manifest d));
          ir = (translate_descriptor parse_strings d)\<lparr>ir_diagnostic_findings :=
            (case bt_get diagnostics key of Some fs \<Rightarrow> fs | None \<Rightarrow> [])\<rparr>;
          bridge = plugin_bridge_kind_as_str (rp_bridge_kind (ir_runtime ir))
      in translate_all parse_strings ds (key_remove key diagnostics)
           \<lparr>tr_translated_plugins = usize_saturating_add (tr_translated_plugins report) 1,
            tr_bridge_distribution = bt_insert bridge
              (case bt_get (tr_bridge_distribution report) bridge of Some n \<Rightarrow> n + 1 | None \<Rightarrow> 1)
              (tr_bridge_distribution report),
            tr_entries = tr_entries report @ [ir]\<rparr>)"

definition translate_scan_report ::
  "(string \<Rightarrow> string + string list) \<Rightarrow> 'j plugin_scan_report \<Rightarrow> translation_report" where
  "translate_scan_report parse_strings report =
     translate_all parse_strings (psr_descriptors report) (group_findings (psr_diagnostic_findings report))
       \<lparr>tr_translated_plugins = 0, tr_bridge_distribution = [], tr_entries = []\<rparr>"

section \<open>The support matrix\<close>

definition shim_support_normalized :: "shim_support \<Rightarrow> shim_support" where
  "shim_support_normalized s =
     \<lparr>ss_shim = \<lparr>shim_id = trim (shim_id (ss_shim s)), shim_family = trim (shim_family (ss_shim s))\<rparr>,
      ss_version = normalize_optional_manifest_string (ss_version s),
      ss_dialects = ss_dialects s, ss_bridges = ss_bridges s,
      ss_adapter_families = (\<lambda>v. to_ascii_lowercase (trim v)) ` ss_adapter_families s - {[]},
      ss_source_languages = normalize_language ` ss_source_languages s - {''unknown''}\<rparr>"

definition mismatch_reasons :: "shim_support \<Rightarrow> plugin_ir \<Rightarrow> string list" where
  "mismatch_reasons s ir =
     (if ss_dialects s \<noteq> {} \<and> ir_dialect ir \<notin> ss_dialects s
      then [''dialect `'' @ plugin_contract_dialect_as_str (ir_dialect ir) @ ''`''] else []) @
     (if ss_bridges s \<noteq> {} \<and> rp_bridge_kind (ir_runtime ir) \<notin> ss_bridges s
      then [''bridge kind `'' @ plugin_bridge_kind_as_str (rp_bridge_kind (ir_runtime ir)) @ ''`''] else []) @
     (if ss_adapter_families s \<noteq> {} \<and>
         to_ascii_lowercase (trim (rp_adapter_family (ir_runtime ir))) \<notin> ss_adapter_families s
      then [''adapter family `'' @ rp_adapter_family (ir_runtime ir) @ ''`''] else []) @
     (if ss_source_languages s \<noteq> {} \<and>
         normalize_language (rp_source_language (ir_runtime ir)) \<notin> ss_source_languages s
      then [''source language `'' @ rp_source_language (ir_runtime ir) @ ''`''] else [])"

definition bridge_matrix_default :: bridge_support_matrix where
  "bridge_matrix_default =
     \<lparr>bm_bridges = {HttpJson, ProcessStdio, NativeFfi, WasmComponent, McpServer, AcpBridge, AcpRuntime},
      bm_adapter_families = {}, bm_compatibility_modes = {Native}, bm_shims = {}, bm_shim_profiles = Map.empty\<rparr>"

definition is_adapter_family_supported :: "bridge_support_matrix \<Rightarrow> string \<Rightarrow> bool" where
  "is_adapter_family_supported M f \<longleftrightarrow> bm_adapter_families M = {} \<or> f \<in> bm_adapter_families M"

definition is_compatibility_shim_supported ::
  "bridge_support_matrix \<Rightarrow> plugin_compatibility_shim option \<Rightarrow> bool" where
  "is_compatibility_shim_supported M shim \<longleftrightarrow>
     (case shim of None \<Rightarrow> True | Some s \<Rightarrow> s \<in> bm_shims M \<or> bm_shim_profiles M s \<noteq> None)"

definition compatibility_shim_support_issue ::
  "plugin_compatibility_shim \<Rightarrow> shim_support \<Rightarrow> string list \<Rightarrow> string option" where
  "compatibility_shim_support_issue shim profile mismatches =
     (if mismatches = [] then None
      else Some (''compatibility shim `'' @ shim_id shim @ ''` ('' @ shim_family shim @
        '') is enabled but its support profile'' @
        (case ss_version profile of Some v \<Rightarrow> '' version `'' @ v @ ''`'' | None \<Rightarrow> '''') @
        '' does not support '' @ join_text '', '' mismatches))"

section \<open>Slot claim conflicts\<close>

record slot_claim_owner =
  sco_plugin_id :: string
  sco_provider_id :: string
  sco_mode :: plugin_slot_mode
  sco_source_path :: "string option"

definition existing_slot_claims_from_catalog ::
  "claims_codec \<Rightarrow> integration_catalog \<Rightarrow> (string \<times> string, slot_claim_owner list) btree" where
  "existing_slot_claims_from_catalog J catalog =
     fold (\<lambda>p registry.
         case bt_get (provider_metadata p) slot_claims_metadata_key of
           None \<Rightarrow> registry
         | Some raw \<Rightarrow>
             (case claims_from_json J raw of
                Inl _ \<Rightarrow> registry
              | Inr claims \<Rightarrow>
                  fold (\<lambda>claim. push_entry (sc_slot claim, sc_key claim)
                    \<lparr>sco_plugin_id = provider_plugin_id p, sco_provider_id = provider_provider_id p,
                     sco_mode = sc_mode claim,
                     sco_source_path = bt_get (provider_metadata p) ''plugin_source_path''\<rparr>) claims registry))
       (bt_values (catalog_providers catalog)) []"

text \<open>A \<open>BTreeSet\<close> of reasons for every plugin in conflict.\<close>

type_synonym slot_conflicts = "(plugin_key, (string, unit) btree) btree"

definition add_conflict :: "plugin_ir \<Rightarrow> string \<Rightarrow> slot_conflicts \<Rightarrow> slot_conflicts" where
  "add_conflict ir reason m =
     (let key = (ir_source_path ir, ir_plugin_id ir) in
      bt_insert key (bt_insert reason () (case bt_get m key of Some rs \<Rightarrow> rs | None \<Rightarrow> [])) m)"

definition claim_text :: "plugin_slot_claim \<Rightarrow> string" where
  "claim_text c = ''slot claim `'' @ sc_slot c @ ''`:`'' @ sc_key c @ ''` ('' @
     plugin_slot_mode_as_str (sc_mode c) @ '')''"

definition existing_conflict_reason :: "plugin_slot_claim \<Rightarrow> slot_claim_owner \<Rightarrow> string" where
  "existing_conflict_reason c owner =
     claim_text c @ '' conflicts with existing plugin `'' @ sco_plugin_id owner @ ''` (provider `'' @
     sco_provider_id owner @ ''`'' @
     (case sco_source_path owner of Some p \<Rightarrow> '', source `'' @ p @ ''`'' | None \<Rightarrow> '''') @ '')''"

definition peer_conflict_reason :: "plugin_slot_claim \<Rightarrow> plugin_ir \<Rightarrow> plugin_slot_claim \<Rightarrow> string" where
  "peer_conflict_reason c other other_claim =
     claim_text c @ '' conflicts with plugin `'' @ ir_plugin_id other @ ''` (provider `'' @
     ir_provider_id other @ ''`, source `'' @ ir_source_path other @ ''`) as `'' @
     plugin_slot_mode_as_str (sc_mode other_claim) @ ''`''"

definition claim_catalog_conflicts ::
  "(string \<times> string, slot_claim_owner list) btree \<Rightarrow> plugin_ir \<Rightarrow> plugin_slot_claim \<Rightarrow> slot_conflicts \<Rightarrow> slot_conflicts" where
  "claim_catalog_conflicts existing entry claim m =
     (case bt_get existing (sc_slot claim, sc_key claim) of
        None \<Rightarrow> m
      | Some owners \<Rightarrow>
          fold (\<lambda>owner m.
            if sco_plugin_id owner = ir_plugin_id entry \<or> \<not> slot_modes_conflict (sco_mode owner) (sc_mode claim) then m
            else add_conflict entry (existing_conflict_reason claim owner) m) owners m)"

definition catalog_conflicts ::
  "(string \<times> string, slot_claim_owner list) btree \<Rightarrow> plugin_ir list \<Rightarrow> slot_conflicts \<Rightarrow> slot_conflicts" where
  "catalog_conflicts existing entries m =
     fold (\<lambda>entry. fold (claim_catalog_conflicts existing entry) (ir_slot_claims entry)) entries m"

definition claim_pair_conflict ::
  "plugin_ir \<Rightarrow> plugin_ir \<Rightarrow> plugin_slot_claim \<Rightarrow> slot_conflicts \<Rightarrow> slot_conflicts" where
  "claim_pair_conflict entry other claim m =
     (case find (\<lambda>c. sc_slot c = sc_slot claim \<and> sc_key c = sc_key claim) (ir_slot_claims other) of
        None \<Rightarrow> m
      | Some other_claim \<Rightarrow>
          if \<not> slot_modes_conflict (sc_mode claim) (sc_mode other_claim) then m
          else add_conflict other (peer_conflict_reason other_claim entry claim)
                 (add_conflict entry (peer_conflict_reason claim other other_claim) m))"

fun pair_conflicts :: "plugin_ir list \<Rightarrow> slot_conflicts \<Rightarrow> slot_conflicts" where
  "pair_conflicts [] m = m"
| "pair_conflicts (entry # entries) m =
     pair_conflicts entries
       (fold (\<lambda>other. fold (claim_pair_conflict entry other) (ir_slot_claims entry)) entries m)"

definition collect_slot_claim_conflicts ::
  "claims_codec \<Rightarrow> plugin_ir list \<Rightarrow> integration_catalog option \<Rightarrow> (plugin_key, string) btree" where
  "collect_slot_claim_conflicts J entries catalog =
     map (\<lambda>(key, reasons). (key, join_text ''; '' (bt_keys reasons)))
       (pair_conflicts entries
         (case catalog of
            None \<Rightarrow> []
          | Some c \<Rightarrow> catalog_conflicts (existing_slot_claims_from_catalog J c) entries []))"

section \<open>The plan\<close>

definition plugin_manifest_contract_is_invalid :: "plugin_ir \<Rightarrow> bool" where
  "plugin_manifest_contract_is_invalid ir \<longleftrightarrow>
     (case ir_channel_bridge ir of None \<Rightarrow> False | Some b \<Rightarrow> \<not> cbr_ready (cbc_readiness b))"

definition format_invalid_manifest_contract_reason :: "plugin_ir \<Rightarrow> string" where
  "format_invalid_manifest_contract_reason ir =
     (case ir_channel_bridge ir of
        None \<Rightarrow> ''plugin manifest contract is invalid''
      | Some b \<Rightarrow> ''plugin channel bridge contract is incomplete: '' @
          join_text '', '' (cbr_missing_fields (cbc_readiness b)))"

definition bootstrap_hint :: "plugin_ir \<Rightarrow> string" where
  "bootstrap_hint ir =
     (let compatibility_prefix = (case shim_for_mode (ir_compatibility_mode ir) of
            Some shim \<Rightarrow> ''enable compatibility shim `'' @ shim_id shim @ ''` ('' @ shim_family shim @ '') and then ''
          | None \<Rightarrow> []);
          rt = ir_runtime ir in
      compatibility_prefix @
      (case rp_bridge_kind rt of
         HttpJson \<Rightarrow> ''register http connector adapter for '' @ ir_connector_name ir @ '' at '' @
           (case ir_endpoint ir of Some e \<Rightarrow> e | None \<Rightarrow> ''https://localhost/invoke'')
       | ProcessStdio \<Rightarrow> ''spawn '' @ rp_source_language rt @ '' worker and bind stdio bridge '' @ rp_entrypoint_hint rt
       | NativeFfi \<Rightarrow> ''load native library adapter '' @ rp_adapter_family rt @ '' with symbol '' @ rp_entrypoint_hint rt
       | WasmComponent \<Rightarrow> ''load wasm component and invoke '' @ rp_entrypoint_hint rt
       | McpServer \<Rightarrow> ''register MCP server bridge and handshake capability schema''
       | AcpBridge \<Rightarrow> ''register ACP bridge surface and bind the external gateway/runtime contract''
       | AcpRuntime \<Rightarrow> ''register ACP runtime backend and bind a session-aware control plane''
       | plugin_bridge_kind.Unknown \<Rightarrow> ''inspect plugin metadata and define explicit bridge_kind override''))"

definition activation_diagnostic :: "plugin_activation_status \<Rightarrow> (plugin_diagnostic_code \<times> string \<times> string) option" where
  "activation_diagnostic status =
     (case status of
        BlockedInvalidManifestContract \<Rightarrow> Some (InvalidManifestContract, ''channel_bridge'',
          ''declare the required channel bridge contract fields in the manifest before activation'')
      | BlockedCompatibilityMode \<Rightarrow> Some (CompatibilityShimRequired, ''compatibility_mode'',
          ''enable or widen the required compatibility shim support policy in the runtime bridge matrix, or migrate the plugin to the native Loong contract before activation'')
      | BlockedIncompatibleHost \<Rightarrow> Some (IncompatibleHost, ''compatibility'',
          ''align `compatibility.host_api` / `compatibility.host_version_req` with the current host, or upgrade Loong before activation'')
      | BlockedUnsupportedBridge \<Rightarrow> Some (UnsupportedBridge, ''metadata.bridge_kind'',
          ''switch the plugin to a supported bridge kind or widen the runtime bridge support policy before activation'')
      | BlockedUnsupportedAdapterFamily \<Rightarrow> Some (UnsupportedAdapterFamily, ''metadata.adapter_family'',
          ''switch the plugin adapter family to one supported by the current runtime matrix'')
      | BlockedSlotClaimConflict \<Rightarrow> Some (SlotClaimConflict, ''slot_claims'',
          ''choose a different slot/key pair or relax ownership to shared/advisory only when the surface is intentionally multi-owner'')
      | _ \<Rightarrow> None)"

definition activation_diagnostic_finding ::
  "plugin_ir \<Rightarrow> plugin_activation_status \<Rightarrow> string \<Rightarrow> plugin_diagnostic_finding option" where
  "activation_diagnostic_finding ir status reason =
     map_option (\<lambda>(code, field_path, remediation).
       \<lparr>pdf_code = code, pdf_severity = ErrorSeverity, pdf_phase = ActivationPhase, pdf_blocking = True,
        pdf_plugin_id = Some (ir_plugin_id ir), pdf_source_path = Some (ir_source_path ir),
        pdf_source_kind = Some (ir_source_kind ir), pdf_field_path = Some field_path, pdf_message = reason,
        pdf_remediation = Some remediation\<rparr>) (activation_diagnostic status)"

definition activation_status ::
  "('ver, 'req) semver \<Rightarrow> bridge_support_matrix \<Rightarrow> setup_readiness_context \<Rightarrow> (plugin_key, string) btree
    \<Rightarrow> plugin_ir \<Rightarrow> plugin_activation_status \<times> string" where
  "activation_status V M context conflicts ir =
     (let shim = shim_for_mode (ir_compatibility_mode ir);
          support = Option.bind shim (bm_shim_profiles M);
          mismatches = (case support of Some profile \<Rightarrow> mismatch_reasons profile ir | None \<Rightarrow> []);
          readiness = evaluate_plugin_setup_readiness (ir_setup ir) context;
          mode = plugin_compatibility_mode_as_str (ir_compatibility_mode ir) in
      if ir_compatibility_mode ir \<notin> bm_compatibility_modes M then
        (BlockedCompatibilityMode, ''compatibility mode '' @ mode @
          '' requires a host shim that is not enabled in the current runtime matrix'' @
          (case shim of Some s \<Rightarrow> '' via shim `'' @ shim_id s @ ''` ('' @ shim_family s @ '')'' | None \<Rightarrow> []))
      else if \<not> is_compatibility_shim_supported M shim then
        (BlockedCompatibilityMode,
          (case shim of
             Some s \<Rightarrow> ''compatibility mode '' @ mode @ '' requires compatibility shim `'' @ shim_id s @ ''` ('' @
               shim_family s @ '') that is not enabled in the current runtime matrix''
           | None \<Rightarrow> ''compatibility mode '' @ mode @
               '' did not resolve a canonical shim before runtime-matrix evaluation''))
      else case plugin_host_compatibility_issue V (ir_compatibility ir) of
        Some reason \<Rightarrow> (BlockedIncompatibleHost, reason)
      | None \<Rightarrow>
      (case (case (shim, support) of
               (Some s, Some profile) \<Rightarrow> compatibility_shim_support_issue s profile mismatches
             | _ \<Rightarrow> None) of
        Some reason \<Rightarrow> (BlockedCompatibilityMode, reason)
      | None \<Rightarrow>
      (case bt_get conflicts (ir_source_path ir, ir_plugin_id ir) of
        Some reason \<Rightarrow> (BlockedSlotClaimConflict, reason)
      | None \<Rightarrow>
        if plugin_manifest_contract_is_invalid ir then
          (BlockedInvalidManifestContract, format_invalid_manifest_contract_reason ir)
        else if rp_bridge_kind (ir_runtime ir) \<notin> bm_bridges M then
          (BlockedUnsupportedBridge, ''bridge kind '' @ plugin_bridge_kind_as_str (rp_bridge_kind (ir_runtime ir)) @
            '' is not supported by current runtime matrix'')
        else if \<not> is_adapter_family_supported M (rp_adapter_family (ir_runtime ir)) then
          (BlockedUnsupportedAdapterFamily, ''adapter family '' @ rp_adapter_family (ir_runtime ir) @
            '' is not supported by current runtime matrix'')
        else if \<not> sr_ready readiness then
          (SetupIncomplete, format_plugin_setup_incomplete_reason readiness)
        else (Ready, ''plugin runtime profile is supported by current runtime matrix''))))"

definition plan_candidate ::
  "('ver, 'req) semver \<Rightarrow> bridge_support_matrix \<Rightarrow> setup_readiness_context \<Rightarrow> (plugin_key, string) btree
    \<Rightarrow> plugin_ir \<Rightarrow> activation_candidate" where
  "plan_candidate V M context conflicts ir =
     (let shim = shim_for_mode (ir_compatibility_mode ir);
          support = Option.bind shim (bm_shim_profiles M);
          readiness = evaluate_plugin_setup_readiness (ir_setup ir) context;
          (status, reason) = activation_status V M context conflicts ir in
      \<lparr>pac_plugin_id = ir_plugin_id ir, pac_source_path = ir_source_path ir, pac_trust_tier = ir_trust_tier ir,
       pac_compatibility_mode = ir_compatibility_mode ir, pac_compatibility_shim = shim,
       pac_bridge_kind = rp_bridge_kind (ir_runtime ir), pac_adapter_family = rp_adapter_family (ir_runtime ir),
       pac_status = status, pac_bootstrap_hint = bootstrap_hint ir,
       ac_source_kind = ir_source_kind ir, ac_package_root = ir_package_root ir,
       ac_package_manifest_path = ir_package_manifest_path ir, ac_shim_support = support,
       ac_shim_mismatch_reasons = (case support of Some profile \<Rightarrow> mismatch_reasons profile ir | None \<Rightarrow> []),
       ac_slot_claims = ir_slot_claims ir,
       ac_diagnostic_findings = ir_diagnostic_findings ir @
         (case activation_diagnostic_finding ir status reason of Some f \<Rightarrow> [f] | None \<Rightarrow> []),
       ac_reason = reason, ac_missing_env_vars = sr_missing_env_vars readiness,
       ac_missing_config_keys = sr_missing_config_keys readiness\<rparr>)"

definition push_candidate :: "activation_candidate \<Rightarrow> activation_plan \<Rightarrow> activation_plan" where
  "push_candidate c plan =
     (let plan = plan\<lparr>ap_total_plugins := usize_saturating_add (ap_total_plugins plan) 1\<rparr>;
          plan = (case pac_status c of
              Ready \<Rightarrow> plan\<lparr>ap_ready_plugins := usize_saturating_add (ap_ready_plugins plan) 1\<rparr>
            | SetupIncomplete \<Rightarrow>
                plan\<lparr>ap_setup_incomplete_plugins := usize_saturating_add (ap_setup_incomplete_plugins plan) 1\<rparr>
            | _ \<Rightarrow> plan\<lparr>ap_blocked_plugins := usize_saturating_add (ap_blocked_plugins plan) 1\<rparr>)
      in plan\<lparr>ap_candidates := ap_candidates plan @ [c]\<rparr>)"

definition plan_activation ::
  "('ver, 'req) semver \<Rightarrow> claims_codec \<Rightarrow> plugin_ir list \<Rightarrow> bridge_support_matrix \<Rightarrow> setup_readiness_context
    \<Rightarrow> integration_catalog option \<Rightarrow> activation_plan" where
  "plan_activation V J entries M context catalog =
     (let conflicts = collect_slot_claim_conflicts J entries catalog in
      fold (\<lambda>ir. push_candidate (plan_candidate V M context conflicts ir)) entries
        \<lparr>ap_total_plugins = 0, ap_ready_plugins = 0, ap_setup_incomplete_plugins = 0, ap_blocked_plugins = 0,
         ap_candidates = []\<rparr>)"

definition has_blockers :: "activation_plan \<Rightarrow> bool" where
  "has_blockers plan \<longleftrightarrow> ap_blocked_plugins plan > 0"

definition candidate_for :: "activation_plan \<Rightarrow> string \<Rightarrow> string \<Rightarrow> activation_candidate option" where
  "candidate_for plan source_path plugin_id =
     find (\<lambda>c. pac_source_path c = source_path \<and> pac_plugin_id c = plugin_id) (ap_candidates plan)"

record inventory_entry =
  ie_manifest_api_version :: "string option"
  ie_plugin_version :: "string option"
  ie_dialect :: plugin_contract_dialect
  ie_dialect_version :: "string option"
  ie_compatibility_mode :: plugin_compatibility_mode
  ie_compatibility_shim :: "plugin_compatibility_shim option"
  ie_shim_support :: "shim_support option"
  ie_shim_mismatch_reasons :: "string list"
  ie_plugin_id :: string
  ie_provider_id :: string
  ie_connector_name :: string
  ie_source_path :: string
  ie_source_kind :: plugin_source_kind
  ie_package_root :: string
  ie_package_manifest_path :: "string option"
  ie_bridge_kind :: plugin_bridge_kind
  ie_adapter_family :: string
  ie_entrypoint_hint :: string
  ie_source_language :: string
  ie_slot_claims :: "plugin_slot_claim list"
  ie_diagnostic_findings :: "plugin_diagnostic_finding list"
  ie_compatibility :: "plugin_compatibility option"
  ie_activation_status :: "plugin_activation_status option"
  ie_activation_reason :: "string option"
  ie_bootstrap_hint :: "string option"

definition inventory_entry_of :: "activation_plan \<Rightarrow> plugin_ir \<Rightarrow> inventory_entry" where
  "inventory_entry_of plan e =
     (let candidate = candidate_for plan (ir_source_path e) (ir_plugin_id e) in
      \<lparr>ie_manifest_api_version = ir_manifest_api_version e, ie_plugin_version = ir_plugin_version e,
       ie_dialect = ir_dialect e, ie_dialect_version = ir_dialect_version e,
       ie_compatibility_mode = ir_compatibility_mode e,
       ie_compatibility_shim = (case Option.bind candidate pac_compatibility_shim of
           Some shim \<Rightarrow> Some shim | None \<Rightarrow> shim_for_mode (ir_compatibility_mode e)),
       ie_shim_support = Option.bind candidate ac_shim_support,
       ie_shim_mismatch_reasons = (case candidate of Some c \<Rightarrow> ac_shim_mismatch_reasons c | None \<Rightarrow> []),
       ie_plugin_id = ir_plugin_id e, ie_provider_id = ir_provider_id e,
       ie_connector_name = ir_connector_name e, ie_source_path = ir_source_path e,
       ie_source_kind = ir_source_kind e, ie_package_root = ir_package_root e,
       ie_package_manifest_path = ir_package_manifest_path e,
       ie_bridge_kind = rp_bridge_kind (ir_runtime e), ie_adapter_family = rp_adapter_family (ir_runtime e),
       ie_entrypoint_hint = rp_entrypoint_hint (ir_runtime e), ie_source_language = rp_source_language (ir_runtime e),
       ie_slot_claims = ir_slot_claims e,
       ie_diagnostic_findings = (case candidate of Some c \<Rightarrow> ac_diagnostic_findings c
         | None \<Rightarrow> ir_diagnostic_findings e),
       ie_compatibility = ir_compatibility e,
       ie_activation_status = map_option pac_status candidate,
       ie_activation_reason = map_option ac_reason candidate,
       ie_bootstrap_hint = map_option pac_bootstrap_hint candidate\<rparr>)"

definition inventory_entries :: "activation_plan \<Rightarrow> plugin_ir list \<Rightarrow> inventory_entry list" where
  "inventory_entries plan entries = map (inventory_entry_of plan) entries"

primrec plugin_activation_status_as_str :: "plugin_activation_status \<Rightarrow> string" where
  "plugin_activation_status_as_str Ready = ''ready''"
| "plugin_activation_status_as_str SetupIncomplete = ''setup_incomplete''"
| "plugin_activation_status_as_str BlockedInvalidManifestContract = ''blocked_invalid_manifest_contract''"
| "plugin_activation_status_as_str BlockedCompatibilityMode = ''blocked_compatibility_mode''"
| "plugin_activation_status_as_str BlockedIncompatibleHost = ''blocked_incompatible_host''"
| "plugin_activation_status_as_str BlockedUnsupportedBridge = ''blocked_unsupported_bridge''"
| "plugin_activation_status_as_str BlockedUnsupportedAdapterFamily = ''blocked_unsupported_adapter_family''"
| "plugin_activation_status_as_str BlockedSlotClaimConflict = ''blocked_slot_claim_conflict''"
| "plugin_activation_status_as_str plugin_activation_status.Unknown = ''unknown''"

definition blocker_summary :: "activation_plan \<Rightarrow> usize \<Rightarrow> string" where
  "blocker_summary plan limit =
     (if ap_blocked_plugins plan = 0 then ''no blocked plugins''
      else
        let capped_limit = max 1 (min limit 16);
            details = map (\<lambda>c. pac_plugin_id c @ '' ['' @ plugin_activation_status_as_str (pac_status c) @ '']: '' @ ac_reason c)
              (take capped_limit (filter (\<lambda>c. pac_status c \<noteq> Ready \<and> pac_status c \<noteq> SetupIncomplete)
                 (ap_candidates plan))) in
        join_text ''; '' (details @
          (if ap_blocked_plugins plan > capped_limit
           then [''+'' @ nat_to_dec (ap_blocked_plugins plan - capped_limit) @ '' more blocked plugin(s)''] else [])))"


section \<open>Conflicts\<close>

definition in_conflict :: "('k, 'v) btree \<Rightarrow> 'k \<Rightarrow> bool" where
  "in_conflict m k \<longleftrightarrow> bt_get m k \<noteq> None"

definition ir_key :: "plugin_ir \<Rightarrow> plugin_key" where
  "ir_key ir = (ir_source_path ir, ir_plugin_id ir)"

lemma in_conflict_add [simp]: "in_conflict (add_conflict ir r m) k \<longleftrightarrow> k = ir_key ir \<or> in_conflict m k"
  by (auto simp: in_conflict_def add_conflict_def ir_key_def Let_def)

lemma in_conflict_Nil [simp]: "\<not> in_conflict [] k"
  by (simp add: in_conflict_def)

lemma in_conflict_map [simp]: "in_conflict (map (\<lambda>(k, v). (k, f v)) m) k \<longleftrightarrow> in_conflict m k"
  by (induction m) (auto simp: in_conflict_def)

text \<open>A claim of one plugin that another one's claims exclude, as the planner looks it up.\<close>

definition claim_excluded :: "plugin_ir \<Rightarrow> plugin_slot_claim \<Rightarrow> bool" where
  "claim_excluded other claim \<longleftrightarrow>
     (case find (\<lambda>c. sc_slot c = sc_slot claim \<and> sc_key c = sc_key claim) (ir_slot_claims other) of
        None \<Rightarrow> False | Some c \<Rightarrow> slot_modes_conflict (sc_mode claim) (sc_mode c))"

lemma in_claim_pair_conflict [simp]:
  "in_conflict (claim_pair_conflict e1 e2 claim m) k \<longleftrightarrow>
    in_conflict m k \<or> claim_excluded e2 claim \<and> (k = ir_key e1 \<or> k = ir_key e2)"
  by (auto simp: claim_pair_conflict_def claim_excluded_def split: option.splits)

lemma in_claim_pair_fold:
  "in_conflict (fold (claim_pair_conflict e1 e2) claims m) k \<longleftrightarrow>
    in_conflict m k \<or> (\<exists>c \<in> set claims. claim_excluded e2 c) \<and> (k = ir_key e1 \<or> k = ir_key e2)"
  by (induction claims arbitrary: m) auto

lemma in_entry_fold:
  "in_conflict (fold (\<lambda>other. fold (claim_pair_conflict e1 other) (ir_slot_claims e1)) es m) k \<longleftrightarrow>
    in_conflict m k \<or> (\<exists>other \<in> set es. (\<exists>c \<in> set (ir_slot_claims e1). claim_excluded other c) \<and>
      (k = ir_key e1 \<or> k = ir_key other))"
  by (induction es arbitrary: m) (auto simp: in_claim_pair_fold)

lemma in_pair_conflicts:
  "in_conflict (pair_conflicts es m) k \<longleftrightarrow> in_conflict m k \<or>
    (\<exists>i j. i < j \<and> j < length es \<and> (\<exists>c \<in> set (ir_slot_claims (es ! i)). claim_excluded (es ! j) c) \<and>
      (k = ir_key (es ! i) \<or> k = ir_key (es ! j)))"
proof (induction es arbitrary: m)
  case Nil
  then show ?case by simp
next
  case (Cons e es)
  let ?P = "\<lambda>i j. (\<exists>c \<in> set (ir_slot_claims ((e # es) ! i)). claim_excluded ((e # es) ! j) c) \<and>
      (k = ir_key ((e # es) ! i) \<or> k = ir_key ((e # es) ! j))"
  have "(\<exists>i j. i < j \<and> j < length (e # es) \<and> ?P i j) \<longleftrightarrow>
      (\<exists>j < length es. ?P 0 (Suc j)) \<or> (\<exists>i j. i < j \<and> j < length es \<and> ?P (Suc i) (Suc j))" (is "?L \<longleftrightarrow> ?R")
  proof
    assume ?L
    then obtain i j where ij: "i < j" "j < length (e # es)" "?P i j" by blast
    then obtain j' where j': "j = Suc j'" by (cases j) simp_all
    show ?R
    proof (cases i)
      case 0
      with ij j' show ?thesis by auto
    next
      case (Suc i')
      with ij j' have "i' < j' \<and> j' < length es \<and> ?P (Suc i') (Suc j')" by simp
      then show ?thesis by (intro disjI2 exI)
    qed
  next
    assume ?R
    then show ?L
      by (metis Suc_less_eq length_Cons zero_less_Suc)
  qed
  note split = this
  have head: "(\<exists>other \<in> set es. (\<exists>c \<in> set (ir_slot_claims e). claim_excluded other c) \<and>
      (k = ir_key e \<or> k = ir_key other)) \<longleftrightarrow> (\<exists>j < length es. ?P 0 (Suc j))"
    by (auto simp: set_conv_nth)
  show ?case
    by (simp only: pair_conflicts.simps Cons.IH in_entry_fold head split nth_Cons_Suc disj_assoc)
qed

lemma find_strongest:
  assumes "sorted_wrt (<) (map slot_claim_rank cs)" "c \<in> set cs" "sc_slot c = s" "sc_key c = k"
  shows "\<exists>f. find (\<lambda>c. sc_slot c = s \<and> sc_key c = k) cs = Some f \<and>
    slot_mode_rank (sc_mode f) \<le> slot_mode_rank (sc_mode c)"
  using assms
proof (induction cs)
  case Nil
  then show ?case by simp
next
  case (Cons d cs)
  show ?case
  proof (cases "sc_slot d = s \<and> sc_key d = k")
    case True
    then show ?thesis using Cons.prems by (auto simp: slot_claim_rank_def)
  next
    case False
    with Cons show ?thesis by auto
  qed
qed

lemma canonical_claim_excluded:
  assumes "canonical_claims (ir_slot_claims other)" "d \<in> set (ir_slot_claims other)"
    and "sc_slot d = sc_slot c" "sc_key d = sc_key c" "slot_modes_conflict (sc_mode c) (sc_mode d)"
  shows "claim_excluded other c"
proof -
  obtain f where "find (\<lambda>x. sc_slot x = sc_slot c \<and> sc_key x = sc_key c) (ir_slot_claims other) = Some f"
    "slot_mode_rank (sc_mode f) \<le> slot_mode_rank (sc_mode d)"
    using find_strongest [OF _ assms(2-4)] assms(1) by (auto simp: canonical_claims_def)
  moreover from this(2) have "slot_modes_conflict (sc_mode c) (sc_mode f)"
    using assms(5) by (cases "sc_mode f"; cases "sc_mode d") (auto simp: slot_modes_conflict_def)
  ultimately show ?thesis by (simp add: claim_excluded_def)
qed

section \<open>What a plan promises\<close>

text \<open>A plugin is ready exactly when nothing blocks it.\<close>

lemma activation_status_Ready:
  "fst (activation_status V M context conflicts ir) = Ready \<longleftrightarrow>
     ir_compatibility_mode ir \<in> bm_compatibility_modes M \<and>
     is_compatibility_shim_supported M (shim_for_mode (ir_compatibility_mode ir)) \<and>
     plugin_host_compatibility_issue V (ir_compatibility ir) = None \<and>
     (\<forall>profile. Option.bind (shim_for_mode (ir_compatibility_mode ir)) (bm_shim_profiles M) = Some profile \<longrightarrow>
        mismatch_reasons profile ir = []) \<and>
     \<not> in_conflict conflicts (ir_key ir) \<and>
     \<not> plugin_manifest_contract_is_invalid ir \<and>
     rp_bridge_kind (ir_runtime ir) \<in> bm_bridges M \<and>
     is_adapter_family_supported M (rp_adapter_family (ir_runtime ir)) \<and>
     sr_ready (evaluate_plugin_setup_readiness (ir_setup ir) context)"
  by (cases "shim_for_mode (ir_compatibility_mode ir)")
    (auto simp: activation_status_def Let_def in_conflict_def ir_key_def compatibility_shim_support_issue_def
      split: option.splits if_splits)

definition plan_counts :: "activation_plan \<Rightarrow> bool" where
  "plan_counts plan \<longleftrightarrow>
     ap_total_plugins plan = length (ap_candidates plan) \<and>
     ap_ready_plugins plan = length (filter (\<lambda>c. pac_status c = Ready) (ap_candidates plan)) \<and>
     ap_setup_incomplete_plugins plan = length (filter (\<lambda>c. pac_status c = SetupIncomplete) (ap_candidates plan)) \<and>
     ap_blocked_plugins plan =
       length (filter (\<lambda>c. pac_status c \<noteq> Ready \<and> pac_status c \<noteq> SetupIncomplete) (ap_candidates plan))"

lemma push_candidate_counts:
  assumes "plan_counts plan" "length (ap_candidates plan) < usize_max"
  shows "plan_counts (push_candidate c plan) \<and> ap_candidates (push_candidate c plan) = ap_candidates plan @ [c]"
proof -
  have "usize_saturating_add n 1 = Suc n" if "n \<le> length (ap_candidates plan)" for n
    using that assms(2) by simp
  then have "usize_saturating_add (ap_total_plugins plan) 1 = Suc (ap_total_plugins plan)"
    "usize_saturating_add (ap_ready_plugins plan) 1 = Suc (ap_ready_plugins plan)"
    "usize_saturating_add (ap_setup_incomplete_plugins plan) 1 = Suc (ap_setup_incomplete_plugins plan)"
    "usize_saturating_add (ap_blocked_plugins plan) 1 = Suc (ap_blocked_plugins plan)"
    using assms(1) by (simp_all add: plan_counts_def)
  with assms(1) show ?thesis
    by (cases "pac_status c") (simp_all add: plan_counts_def push_candidate_def Let_def)
qed

lemma push_candidates_counts:
  assumes "plan_counts plan" "length (ap_candidates plan) + length irs \<le> usize_max"
  shows "plan_counts (fold (\<lambda>ir. push_candidate (f ir)) irs plan) \<and>
    ap_candidates (fold (\<lambda>ir. push_candidate (f ir)) irs plan) = ap_candidates plan @ map f irs"
  using assms
proof (induction irs arbitrary: plan)
  case Nil
  then show ?case by simp
next
  case (Cons ir irs)
  then have "length (ap_candidates plan) < usize_max" by simp
  from push_candidate_counts [OF Cons.prems(1) this, of "f ir"] Cons.IH [of "push_candidate (f ir) plan"] Cons.prems(2)
  show ?case by simp
qed

lemma plan_activation_candidates:
  assumes "length entries \<le> usize_max"
  shows "plan_counts (plan_activation V J entries M context catalog) \<and>
    ap_candidates (plan_activation V J entries M context catalog) =
      map (plan_candidate V M context (collect_slot_claim_conflicts J entries catalog)) entries"
  using push_candidates_counts [of "\<lparr>ap_total_plugins = 0, ap_ready_plugins = 0, ap_setup_incomplete_plugins = 0,
      ap_blocked_plugins = 0, ap_candidates = []\<rparr>" entries] assms
  by (simp add: plan_activation_def plan_counts_def Let_def)

lemma plan_candidate_status [simp]:
  "pac_status (plan_candidate V M context conflicts ir) = fst (activation_status V M context conflicts ir)"
  by (simp add: plan_candidate_def Let_def split: prod.split)

text \<open>
  Plugins that are ready together hold disjoint exclusive slots: when two entries of a plan are
  both ready, and the claims of the later one are canonical, a slot and key both claim is exclusive
  for neither. Looking up only the first matching claim of the other plugin is enough, because
  canonical claims put the strongest mode first.
\<close>

theorem ready_plugins_hold_disjoint_slots:
  assumes "length entries \<le> usize_max" and "i < j" "j < length entries"
    and "pac_status (ap_candidates (plan_activation V J entries M context catalog) ! i) = Ready"
    and "pac_status (ap_candidates (plan_activation V J entries M context catalog) ! j) = Ready"
    and "canonical_claims (ir_slot_claims (entries ! j))"
    and "c \<in> set (ir_slot_claims (entries ! i))" "d \<in> set (ir_slot_claims (entries ! j))"
    and "sc_slot c = sc_slot d" "sc_key c = sc_key d"
  shows "sc_mode c \<noteq> Exclusive \<and> sc_mode d \<noteq> Exclusive"
proof (rule ccontr)
  assume "\<not> ?thesis"
  then have "slot_modes_conflict (sc_mode c) (sc_mode d)" by (auto simp: slot_modes_conflict_def)
  then have "claim_excluded (entries ! j) c"
    using canonical_claim_excluded [of "entries ! j" d c] assms(6-10) by simp
  then have "in_conflict (collect_slot_claim_conflicts J entries catalog) (ir_key (entries ! i))"
    using assms(2,3,7) by (auto simp: collect_slot_claim_conflicts_def in_pair_conflicts)
  moreover have "pac_status (plan_candidate V M context (collect_slot_claim_conflicts J entries catalog) (entries ! i)) = Ready"
    using assms(2-4) plan_activation_candidates [OF assms(1), of V J M "context" catalog] by simp
  ultimately show False
    by (simp add: activation_status_Ready)
qed

text \<open>An inventory taken from its own plan knows the status of every plugin.\<close>

lemma inventory_status_known:
  assumes "length entries \<le> usize_max" "e \<in> set (inventory_entries (plan_activation V J entries M context catalog) entries)"
  shows "ie_activation_status e \<noteq> None"
proof -
  let ?plan = "plan_activation V J entries M context catalog"
  obtain ir where ir: "ir \<in> set entries" "e = inventory_entry_of ?plan ir"
    using assms(2) by (auto simp: inventory_entries_def)
  have "pac_source_path (plan_candidate V M context f ir) = ir_source_path ir \<and>
      pac_plugin_id (plan_candidate V M context f ir) = ir_plugin_id ir" for f
    by (simp add: plan_candidate_def Let_def split: prod.split)
  then have "\<exists>c \<in> set (ap_candidates ?plan). pac_source_path c = ir_source_path ir \<and> pac_plugin_id c = ir_plugin_id ir"
    using conjunct2 [OF plan_activation_candidates [OF assms(1), of V J M "context" catalog]] ir(1) by auto
  then have "candidate_for ?plan (ir_source_path ir) (ir_plugin_id ir) \<noteq> None"
    by (auto simp: candidate_for_def find_None_iff)
  with ir(2) show ?thesis by (auto simp: inventory_entry_of_def Let_def)
qed

lemma activation_status_known: "fst (activation_status V M context conflicts ir) \<noteq> plugin_activation_status.Unknown"
  by (auto simp: activation_status_def Let_def split: option.split)

lemma blocked_candidate_finding:
  assumes "c = plan_candidate V M context conflicts ir" "pac_status c \<noteq> Ready" "pac_status c \<noteq> SetupIncomplete"
  shows "\<exists>f \<in> set (ac_diagnostic_findings c). pdf_blocking f \<and> pdf_phase f = ActivationPhase \<and>
    pdf_plugin_id f = Some (ir_plugin_id ir) \<and> pdf_message f = ac_reason c"
proof -
  obtain status reason where s: "activation_status V M context conflicts ir = (status, reason)" by fastforce
  then have "status \<notin> {Ready, SetupIncomplete, plugin_activation_status.Unknown}"
    using assms activation_status_known [of V M "context" conflicts ir] by auto
  then obtain d where "activation_diagnostic status = Some d"
    by (cases status) (auto simp: activation_diagnostic_def)
  with s assms(1) show ?thesis
    by (cases d) (simp add: plan_candidate_def activation_diagnostic_finding_def Let_def)
qed

text \<open>
  An activation plan is complete and its counters are right: it has one candidate per translated
  plugin, in order; ready, setup-incomplete and blocked ones add up to the total; it reports blockers
  exactly when some candidate is blocked; and every blocked candidate carries a blocking diagnostic
  of the activation phase.
\<close>

theorem plan_is_complete_and_counted:
  assumes "length entries \<le> usize_max"
  shows "let plan = plan_activation V J entries M context catalog in
    map pac_plugin_id (ap_candidates plan) = map ir_plugin_id entries \<and>
    ap_total_plugins plan = length entries \<and>
    ap_ready_plugins plan + ap_setup_incomplete_plugins plan + ap_blocked_plugins plan = length entries \<and>
    (has_blockers plan \<longleftrightarrow> (\<exists>c \<in> set (ap_candidates plan). pac_status c \<noteq> Ready \<and> pac_status c \<noteq> SetupIncomplete)) \<and>
    (\<forall>c \<in> set (ap_candidates plan).
       (\<exists>f \<in> set (ac_diagnostic_findings c). pdf_blocking f \<and> pdf_phase f = ActivationPhase) \<or>
       pac_status c = Ready \<or> pac_status c = SetupIncomplete)"
proof -
  let ?conflicts = "collect_slot_claim_conflicts J entries catalog"
  let ?plan = "plan_activation V J entries M context catalog"
  note P = plan_activation_candidates [OF assms, of V J M "context" catalog]
  have sum: "length (filter (\<lambda>c. pac_status c = Ready) cs) + length (filter (\<lambda>c. pac_status c = SetupIncomplete) cs) +
      length (filter (\<lambda>c. pac_status c \<noteq> Ready \<and> pac_status c \<noteq> SetupIncomplete) cs) = length cs" for cs :: "activation_candidate list"
    by (induction cs) auto
  have ids: "pac_plugin_id \<circ> plan_candidate V M context ?conflicts = ir_plugin_id"
    by (rule ext) (simp add: plan_candidate_def Let_def split: prod.split)
  have "\<exists>f \<in> set (ac_diagnostic_findings c). pdf_blocking f \<and> pdf_phase f = ActivationPhase"
    if "c \<in> set (ap_candidates ?plan)" "pac_status c \<noteq> Ready" "pac_status c \<noteq> SetupIncomplete" for c
    using that P blocked_candidate_finding by fastforce
  then have findings: "\<forall>c \<in> set (ap_candidates ?plan).
      (\<exists>f \<in> set (ac_diagnostic_findings c). pdf_blocking f \<and> pdf_phase f = ActivationPhase) \<or>
      pac_status c = Ready \<or> pac_status c = SetupIncomplete"
    by blast
  have "length (ap_candidates ?plan) = length entries" "map pac_plugin_id (ap_candidates ?plan) = map ir_plugin_id entries"
    using P ids by simp_all
  moreover have "has_blockers ?plan \<longleftrightarrow>
      (\<exists>c \<in> set (ap_candidates ?plan). pac_status c \<noteq> Ready \<and> pac_status c \<noteq> SetupIncomplete)"
    using conjunct1 [OF P] by (simp add: plan_counts_def has_blockers_def filter_empty_conv)
  ultimately show ?thesis
    unfolding Let_def using conjunct1 [OF P, unfolded plan_counts_def] sum [of "ap_candidates ?plan"] findings
    by presburger
qed

text \<open>Two plugins: one claims a slot for itself, the other a shared part of another slot.\<close>

definition sample_ir :: "string \<Rightarrow> plugin_slot_claim list \<Rightarrow> plugin_ir" where
  "sample_ir i claims =
     \<lparr>ir_manifest_api_version = None, ir_plugin_version = None, ir_dialect = LoongPackageManifest,
      ir_dialect_version = None, ir_compatibility_mode = Native, ir_plugin_id = i, ir_provider_id = i,
      ir_connector_name = i, ir_channel_id = None, ir_endpoint = None, ir_capabilities = {},
      ir_trust_tier = Official, ir_metadata = [], ir_source_path = i, ir_source_kind = PackageManifest,
      ir_package_root = [], ir_package_manifest_path = None, ir_diagnostic_findings = [], ir_setup = None,
      ir_channel_bridge = None, ir_slot_claims = claims, ir_compatibility = None,
      ir_runtime = \<lparr>rp_source_language = ''rust'', rp_bridge_kind = HttpJson, rp_adapter_family = ''f'',
        rp_entrypoint_hint = ''e''\<rparr>\<rparr>"

definition shared_claim :: plugin_slot_claim where
  "shared_claim = \<lparr>sc_slot = ''s'', sc_key = ''k'', sc_mode = Shared\<rparr>"

definition sample_entries :: "plugin_ir list" where
  "sample_entries = [sample_ir ''a'' [shared_claim], sample_ir ''b'' [shared_claim]]"

definition nothing_verified :: setup_readiness_context where
  "nothing_verified = \<lparr>verified_env_vars = {}, verified_config_keys = {}\<rparr>"

definition sample_plan :: activation_plan where
  "sample_plan = plan_activation sample_semver sample_claims_codec sample_entries bridge_matrix_default nothing_verified None"

lemma sample_plan_ready:
  "pac_status (ap_candidates sample_plan ! 0) = Ready" "pac_status (ap_candidates sample_plan ! 1) = Ready"
proof -
  have "\<not> in_conflict (collect_slot_claim_conflicts sample_claims_codec sample_entries None) k" for k
    by (auto simp: collect_slot_claim_conflicts_def sample_entries_def sample_ir_def shared_claim_def
        claim_pair_conflict_def slot_modes_conflict_def)
  then have "fst (activation_status sample_semver bridge_matrix_default nothing_verified
      (collect_slot_claim_conflicts sample_claims_codec sample_entries None) (sample_ir i [shared_claim])) = Ready" for i
    by (simp add: activation_status_Ready sample_ir_def bridge_matrix_default_def is_compatibility_shim_supported_def
        plugin_host_compatibility_issue_def plugin_manifest_contract_is_invalid_def is_adapter_family_supported_def
        evaluate_plugin_setup_readiness_def)
  then show "pac_status (ap_candidates sample_plan ! 0) = Ready" "pac_status (ap_candidates sample_plan ! 1) = Ready"
    using plan_activation_candidates [of sample_entries sample_semver sample_claims_codec bridge_matrix_default nothing_verified None]
    by (simp_all add: sample_plan_def sample_entries_def usize_max_def)
qed

theorem ready_plugins_hold_disjoint_slots_witness: "sc_mode shared_claim \<noteq> Exclusive"
proof -
  have "canonical_claims [shared_claim]"
    by (simp add: canonical_claims_def shared_claim_def trim_def trim_start_def trim_end_def whitespace_encodings_def)
  then show ?thesis
    using ready_plugins_hold_disjoint_slots [of sample_entries 0 1 sample_semver sample_claims_codec
        bridge_matrix_default nothing_verified None shared_claim shared_claim] sample_plan_ready
    by (simp add: sample_plan_def sample_entries_def sample_ir_def usize_max_def)
qed

theorem plan_is_complete_and_counted_witness:
  "ap_total_plugins sample_plan = 2"
  using plan_is_complete_and_counted [of sample_entries sample_semver sample_claims_codec
      bridge_matrix_default nothing_verified None]
  by (simp add: sample_plan_def sample_entries_def usize_max_def Let_def)

end
