(* ===== verification/Codebase_Awareness.thy ===== *)
theory Codebase_Awareness
  imports Fnv_Hash Vertical_Packs "HOL-Library.Multiset"
begin

text \<open>
  The codebase snapshot of the awareness engine (crates/kernel/src/awareness.rs): the walk over the
  file tree, the language of each file, the language distribution and the fingerprint. The file
  system is a tree, with the failures the code handles at their places; what the snapshot reports of
  plugins and of the architecture guard is the subject of other theories. Only Unix paths are meant.
\<close>

section \<open>The file tree\<close>

text \<open>A node: a regular file with its size (or whose metadata cannot be read after it was seen), a
  directory with the entries in the order the file system lists them, a directory that cannot be
  listed, something else, or nothing readable.\<close>

datatype fs_node =
    FileNode u64
  | FileUnreadable string
  | DirNode "dir_entry list"
  | DirUnreadable string
  | OtherNode
and dir_entry = Entry string fs_node | EntryUnreadable string

record file_fact =
  ff_path :: string
  ff_size_bytes :: u64
  ff_language :: string

definition path_join :: "string \<Rightarrow> string \<Rightarrow> string" where
  "path_join dir name = (if dir \<noteq> [] \<and> last dir \<noteq> CHR ''/'' then dir @ ''/'' @ name else dir @ name)"

text \<open>\<open>Path::extension\<close> of a path with the given file name.\<close>

definition file_extension :: "string \<Rightarrow> string option" where
  "file_extension name =
     (let pieces = split_char (CHR ''.'') name in
      if length pieces \<le> 1 \<or> length pieces = 2 \<and> hd pieces = [] \<or> name = ''..'' then None
      else Some (last pieces))"

definition detect_file_language :: "string \<Rightarrow> string" where
  "detect_file_language name =
     (let extension = (case file_extension name of
            Some e \<Rightarrow> if utf8_valid e then to_ascii_lowercase e else ''unknown'' | None \<Rightarrow> ''unknown'') in
      if extension = ''rs'' then ''rust'' else if extension = ''py'' then ''python''
      else if extension = ''go'' then ''go'' else if extension = ''js'' then ''javascript''
      else if extension = ''ts'' then ''typescript'' else if extension = ''toml'' then ''toml''
      else if extension = ''md'' then ''markdown'' else if extension = ''json'' then ''json''
      else if extension = ''yaml'' \<or> extension = ''yml'' then ''yaml'' else extension)"

fun strip_current_dir :: "string \<Rightarrow> string" where
  "strip_current_dir (a # b # s) =
     (if a = CHR ''.'' \<and> b = CHR ''/'' then strip_current_dir s else a # b # s)"
| "strip_current_dir s = s"

definition display_path :: "string \<Rightarrow> string" where
  "display_path path = strip_current_dir (replace_char (CHR 0x5C) (CHR ''/'') path)"

definition should_skip_dir :: "string \<Rightarrow> bool" where
  "should_skip_dir name \<longleftrightarrow>
     name \<in> {''.git'', ''target'', ''node_modules'', ''.venv'', ''.idea'', ''.codex''}"

definition file_fact_of :: "string \<Rightarrow> string \<Rightarrow> u64 \<Rightarrow> file_fact" where
  "file_fact_of path name bytes =
     \<lparr>ff_path = display_path path, ff_size_bytes = bytes, ff_language = detect_file_language name\<rparr>"

text \<open>The loop over the entries of the directory \<open>dir\<close>.\<close>

fun collect_entries :: "string \<Rightarrow> dir_entry list \<Rightarrow> file_fact list \<Rightarrow> integration_error + file_fact list" where
  "collect_entries dir [] acc = Inr acc"
| "collect_entries dir (EntryUnreadable err # es) acc = Inl (AwarenessFileRead dir err)"
| "collect_entries dir (Entry name (DirNode children) # es) acc =
     (if should_skip_dir name then collect_entries dir es acc
      else try_bind (collect_entries (path_join dir name) children acc) (collect_entries dir es))"
| "collect_entries dir (Entry name (DirUnreadable err) # es) acc =
     (if should_skip_dir name then collect_entries dir es acc
      else Inl (AwarenessFileRead (path_join dir name) err))"
| "collect_entries dir (Entry name (FileNode bytes) # es) acc =
     collect_entries dir es (acc @ [file_fact_of (path_join dir name) name bytes])"
| "collect_entries dir (Entry name (FileUnreadable err) # es) acc =
     Inl (AwarenessFileRead (path_join dir name) err)"
| "collect_entries dir (Entry name OtherNode # es) acc = collect_entries dir es acc"

text \<open>A root: its path and file name, and what is there. What is neither a file nor a directory
  fails when it is listed.\<close>

record scan_root =
  root_path :: string
  root_name :: string
  root_node :: "fs_node option"
  root_not_a_directory :: string

definition collect_file_facts :: "scan_root \<Rightarrow> file_fact list \<Rightarrow> integration_error + file_fact list" where
  "collect_file_facts r acc =
     (case root_node r of
        None \<Rightarrow> Inl (AwarenessRootNotFound (root_path r))
      | Some (FileNode bytes) \<Rightarrow> Inr (acc @ [file_fact_of (root_path r) (root_name r) bytes])
      | Some (FileUnreadable err) \<Rightarrow> Inl (AwarenessFileRead (root_path r) err)
      | Some (DirNode es) \<Rightarrow> collect_entries (root_path r) es acc
      | Some (DirUnreadable err) \<Rightarrow> Inl (AwarenessFileRead (root_path r) err)
      | Some OtherNode \<Rightarrow> Inl (AwarenessFileRead (root_path r) (root_not_a_directory r)))"

fun collect_roots :: "scan_root list \<Rightarrow> file_fact list \<Rightarrow> integration_error + file_fact list" where
  "collect_roots [] acc = Inr acc"
| "collect_roots (r # rs) acc = try_bind (collect_file_facts r acc) (collect_roots rs)"

section \<open>The snapshot\<close>

definition fact_row :: "file_fact \<Rightarrow> string" where
  "fact_row f = ff_path f @ '':'' @ u64_to_dec (ff_size_bytes f) @ '':'' @ ff_language f @ [newline]"

definition fingerprint :: "file_fact list \<Rightarrow> string" where
  "fingerprint facts = hex16 (fold (\<lambda>f h. fold fnv_byte (fact_row f) h) facts fnv_offset_basis)"

definition count_language :: "file_fact \<Rightarrow> (string, usize) btree \<Rightarrow> (string, usize) btree" where
  "count_language f m = bt_insert (ff_language f)
     ((case bt_get m (ff_language f) of Some n \<Rightarrow> n | None \<Rightarrow> 0) + 1) m"

definition language_distribution :: "file_fact list \<Rightarrow> (string, usize) btree" where
  "language_distribution facts = fold count_language facts []"

record awareness_snapshot =
  aw_scanned_files :: usize
  aw_language_distribution :: "(string, usize) btree"
  aw_fingerprint :: string

definition awareness_snapshot :: "scan_root list \<Rightarrow> integration_error + awareness_snapshot" where
  "awareness_snapshot roots =
     try_bind (collect_roots roots []) (\<lambda>facts.
       let sorted_facts = sort_key ff_path facts in
       Inr \<lparr>aw_scanned_files = length sorted_facts,
            aw_language_distribution = language_distribution sorted_facts,
            aw_fingerprint = fingerprint sorted_facts\<rparr>)"

section \<open>What the snapshot says\<close>

lemma fingerprint_hash: "fingerprint facts = hex16 (fnv1a (concat (map fact_row facts)))"
proof -
  have "fold (\<lambda>f h. fold fnv_byte (fact_row f) h) facts h = fold fnv_byte (concat (map fact_row facts)) h" for h
    by (induction facts arbitrary: h) simp_all
  then show ?thesis by (simp add: fingerprint_def fnv1a_def)
qed


text \<open>The files below a directory, as a multiset: an order-free account of what a walk collects.\<close>

fun files_below :: "string \<Rightarrow> dir_entry list \<Rightarrow> file_fact multiset" where
  "files_below dir [] = {#}"
| "files_below dir (Entry name (DirNode children) # es) =
     (if should_skip_dir name then {#} else files_below (path_join dir name) children) + files_below dir es"
| "files_below dir (Entry name (FileNode bytes) # es) =
     {#file_fact_of (path_join dir name) name bytes#} + files_below dir es"
| "files_below dir (e # es) = files_below dir es"

definition root_files :: "scan_root \<Rightarrow> file_fact multiset" where
  "root_files r = (case root_node r of
     Some (FileNode bytes) \<Rightarrow> {#file_fact_of (root_path r) (root_name r) bytes#}
   | Some (DirNode es) \<Rightarrow> files_below (root_path r) es
   | _ \<Rightarrow> {#})"

lemma files_below_perm: "mset es = mset es' \<Longrightarrow> files_below dir es = files_below dir es'"
proof -
  have cons: "files_below dir (e # es) = files_below dir [e] + files_below dir es" for e es
    by (cases e; cases "case e of Entry _ n \<Rightarrow> n | _ \<Rightarrow> OtherNode") auto
  have sum: "files_below dir es = (\<Sum>e \<in># mset es. files_below dir [e])" for es
    by (induction es) (simp, subst cons, simp)
  show "mset es = mset es' \<Longrightarrow> files_below dir es = files_below dir es'"
    by (subst (1 2) sum) simp
qed

lemma collect_entries_files:
  "collect_entries dir es acc = Inr facts \<Longrightarrow> mset facts = mset acc + files_below dir es"
  by (induction dir es acc arbitrary: facts rule: collect_entries.induct)
    (auto simp: try_bind_Ok split: if_splits)

lemma collect_roots_files:
  "collect_roots rs acc = Inr facts \<Longrightarrow> mset facts = mset acc + (\<Sum>r \<leftarrow> rs. root_files r)"
proof (induction rs arbitrary: acc)
  case (Cons r rs)
  then obtain mid where "collect_file_facts r acc = Inr mid" "collect_roots rs mid = Inr facts"
    by (auto simp: try_bind_Ok)
  moreover from this(1) have "mset mid = mset acc + root_files r"
    by (auto simp: collect_file_facts_def root_files_def dest: collect_entries_files
        split: option.splits fs_node.splits)
  ultimately show ?case using Cons.IH by simp
qed simp

lemma count_language_get:
  "bt_get (count_language f m) l =
    (if ff_language f = l then Some ((case bt_get m l of Some n \<Rightarrow> n | None \<Rightarrow> 0) + 1) else bt_get m l)"
  by (simp add: count_language_def)

lemma language_distribution_fold:
  "bt_get (fold count_language facts m) l =
    (if l \<in> ff_language ` set facts
     then Some ((case bt_get m l of Some n \<Rightarrow> n | None \<Rightarrow> 0) + length (filter (\<lambda>f. ff_language f = l) facts))
     else bt_get m l)"
proof (induction facts arbitrary: m)
  case Nil
  then show ?case by simp
next
  case (Cons f facts)
  have [simp]: "l \<notin> ff_language ` set facts \<Longrightarrow> filter (\<lambda>f. ff_language f = l) facts = []"
    by (auto simp: filter_empty_conv)
  show ?case
    by (simp add: Cons.IH count_language_get)
qed

text \<open>
  The snapshot is deterministic: two walks that find the same files, in whatever order the file
  system lists the entries, give the same file count, language distribution and fingerprint,
  provided no two of the files are displayed with the same path.
\<close>

theorem snapshot_depends_only_on_the_files:
  assumes "awareness_snapshot roots = Inr s" and "awareness_snapshot roots' = Inr s'"
    and "(\<Sum>r \<leftarrow> roots. root_files r) = (\<Sum>r \<leftarrow> roots'. root_files r)"
    and "inj_on ff_path (set_mset (\<Sum>r \<leftarrow> roots. root_files r))"
  shows "s = s'"
proof -
  from assms obtain facts facts' where f: "collect_roots roots [] = Inr facts" "collect_roots roots' [] = Inr facts'"
    by (auto simp: awareness_snapshot_def try_bind_Ok)
  then have "mset facts = mset facts'" "set facts = set_mset (\<Sum>r \<leftarrow> roots. root_files r)"
    using collect_roots_files [OF f(1)] collect_roots_files [OF f(2)] assms(3)
    by (simp_all flip: set_mset_mset)
  then have "sort_key ff_path facts = sort_key ff_path facts'"
    using sort_key_inj_key_eq [of facts "sort_key ff_path facts'" ff_path] assms(4) by simp
  moreover have "length facts = length facts'"
    using \<open>mset facts = mset facts'\<close> by (metis size_mset)
  ultimately show ?thesis
    using assms(1,2) f by (simp add: awareness_snapshot_def Let_def)
qed

text \<open>
  The snapshot counts every file once: the file count is the number of files below the roots
  outside the skipped directories, and the language distribution holds exactly the languages found,
  each with its number of files.
\<close>

theorem snapshot_counts_every_file:
  assumes "awareness_snapshot roots = Inr s"
  shows "aw_scanned_files s = size (\<Sum>r \<leftarrow> roots. root_files r) \<and>
    (\<forall>l. bt_get (aw_language_distribution s) l =
      (if l \<in># image_mset ff_language (\<Sum>r \<leftarrow> roots. root_files r)
       then Some (count (image_mset ff_language (\<Sum>r \<leftarrow> roots. root_files r)) l) else None))"
proof -
  from assms obtain facts where f: "collect_roots roots [] = Inr facts"
    and s: "aw_scanned_files s = length facts"
      "aw_language_distribution s = language_distribution (sort_key ff_path facts)"
    by (auto simp: awareness_snapshot_def try_bind_Ok Let_def)
  have m: "(\<Sum>r \<leftarrow> roots. root_files r) = mset facts"
    using collect_roots_files [OF f] by simp
  have "length (filter (\<lambda>f. ff_language f = l) (sort_key ff_path facts)) = count (image_mset ff_language (mset facts)) l" for l
  proof -
    have "length (filter (\<lambda>f. ff_language f = l) (sort_key ff_path facts)) =
        size (filter_mset (\<lambda>f. ff_language f = l) (mset (sort_key ff_path facts)))"
      by (metis mset_filter size_mset)
    also have "\<dots> = count (image_mset ff_language (mset facts)) l"
      by (simp only: mset_sort) (induction facts, auto)
    finally show ?thesis .
  qed
  then show ?thesis
    by (simp add: m s language_distribution_def language_distribution_fold)
qed


definition sample_root :: "dir_entry list \<Rightarrow> scan_root" where
  "sample_root es = \<lparr>root_path = ''.'', root_name = ''.'', root_node = Some (DirNode es), root_not_a_directory = []\<rparr>"

definition two_files :: "dir_entry list" where
  "two_files = [Entry ''a.rs'' (FileNode 1), Entry ''b.py'' (FileNode 2)]"

theorem snapshot_depends_only_on_the_files_witness:
  "awareness_snapshot [sample_root two_files] = awareness_snapshot [sample_root (rev two_files)]"
proof -
  have "\<exists>s s'. awareness_snapshot [sample_root two_files] = Inr s \<and> awareness_snapshot [sample_root (rev two_files)] = Inr s'"
    by (simp add: awareness_snapshot_def collect_file_facts_def sample_root_def two_files_def Let_def)
  moreover have "root_files (sample_root two_files) = root_files (sample_root (rev two_files))"
    using files_below_perm [of two_files "rev two_files"] by (simp add: root_files_def sample_root_def)
  moreover have "inj_on ff_path (set_mset (root_files (sample_root two_files)))"
    by (simp add: root_files_def sample_root_def two_files_def file_fact_of_def path_join_def display_path_def
        replace_char_def)
  ultimately show ?thesis
    using snapshot_depends_only_on_the_files [of "[sample_root two_files]" _ "[sample_root (rev two_files)]"]
    by fastforce
qed

theorem snapshot_counts_every_file_witness:
  "\<exists>s. awareness_snapshot [sample_root two_files] = Inr s \<and> aw_scanned_files s = 2"
proof -
  obtain s where "awareness_snapshot [sample_root two_files] = Inr s"
    by (simp add: awareness_snapshot_def collect_file_facts_def sample_root_def two_files_def Let_def)
  with snapshot_counts_every_file [OF this] show ?thesis
    by (simp add: root_files_def sample_root_def two_files_def)
qed
end
