(* ===== verification/Secret_Refs.thy ===== *)
theory Secret_Refs
  imports Payload_Templates
begin

text \<open>
  Secret references: their string and table syntax (crates/contracts/src/secret_ref.rs), the errors
  of crates/contracts/src/secret_resolver.rs, and their resolution against the process environment,
  files and commands (crates/app/src/secrets.rs). A \<open>SecretValue\<close> is the string it holds.
\<close>

section \<open>References\<close>

datatype secret_ref = Env string | File string | Exec "string list" | Inline string

section \<open>Environment names\<close>

definition is_ascii_alphabetic :: "char \<Rightarrow> bool" where
  "is_ascii_alphabetic c \<longleftrightarrow> is_ascii_lowercase c \<or> is_ascii_uppercase c"

definition eq_ignore_ascii_case :: "string \<Rightarrow> string \<Rightarrow> bool" where
  "eq_ignore_ascii_case a b \<longleftrightarrow> to_ascii_lowercase a = to_ascii_lowercase b"

definition looks_like_compatible_env_name :: "string \<Rightarrow> bool" where
  "looks_like_compatible_env_name raw \<longleftrightarrow>
     (case raw of
        [] \<Rightarrow> False
      | first # chars \<Rightarrow>
          (is_ascii_alphabetic first \<or> first = CHR ''_'') \<and>
          list_all (\<lambda>c. is_ascii_alphanumeric c \<or> c = CHR ''_'') chars)"

definition normalize_env_name :: "string \<Rightarrow> string option" where
  "normalize_env_name raw =
     (let trimmed = trim raw in
      if trimmed = [] then None
      else if \<not> looks_like_compatible_env_name trimmed then None
      else Some trimmed)"

definition strip_prefix_char :: "char \<Rightarrow> string \<Rightarrow> string option" where
  "strip_prefix_char c s = (if s \<noteq> [] \<and> hd s = c then Some (tl s) else None)"

definition strip_suffix_char :: "char \<Rightarrow> string \<Rightarrow> string option" where
  "strip_suffix_char c s = (if s \<noteq> [] \<and> last s = c then Some (butlast s) else None)"

text \<open>\<open>str::get(..i)\<close> and \<open>str::get(i..)\<close> want a character boundary.\<close>

definition char_boundary :: "string \<Rightarrow> nat \<Rightarrow> bool" where
  "char_boundary s i \<longleftrightarrow> i = length s \<or> (i < length s \<and> \<not> byte_in 0x80 0xBF (s ! i))"

definition get_to :: "nat \<Rightarrow> string \<Rightarrow> string option" where
  "get_to i s = (if char_boundary s i then Some (take i s) else None)"

definition get_from :: "nat \<Rightarrow> string \<Rightarrow> string option" where
  "get_from i s = (if char_boundary s i then Some (drop i s) else None)"

definition parse_dollar_env_reference :: "string \<Rightarrow> string option" where
  "parse_dollar_env_reference raw =
     Option.bind (strip_prefix_char CHR ''$'' (trim raw)) (\<lambda>stripped.
       let stripped = trim stripped in
       if stripped = [] then None
       else
         let wrapped = strip_prefix_char CHR ''{'' stripped;
             candidate = (case map_option trim (Option.bind wrapped (strip_suffix_char CHR ''}'')) of
               Some v \<Rightarrow> v | None \<Rightarrow> stripped)
         in normalize_env_name candidate)"

definition parse_env_prefix_reference :: "string \<Rightarrow> string option" where
  "parse_env_prefix_reference raw =
     (let trimmed = trim raw in
      Option.bind (get_to 4 trimmed) (\<lambda>p.
        if \<not> eq_ignore_ascii_case p ''env:'' then None
        else Option.bind (get_from 4 trimmed) normalize_env_name))"

definition parse_percent_env_reference :: "string \<Rightarrow> string option" where
  "parse_percent_env_reference raw =
     Option.bind (strip_prefix_char CHR ''%'' (trim raw)) (\<lambda>body.
       Option.bind (strip_suffix_char CHR ''%'' body) normalize_env_name)"

definition parse_explicit_env_reference :: "string \<Rightarrow> string option" where
  "parse_explicit_env_reference raw =
     (case parse_dollar_env_reference raw of Some n \<Rightarrow> Some n
      | None \<Rightarrow> (case parse_env_prefix_reference raw of Some n \<Rightarrow> Some n
      | None \<Rightarrow> parse_percent_env_reference raw))"

section \<open>Queries\<close>

fun is_configured :: "secret_ref \<Rightarrow> bool" where
  "is_configured (Inline v) \<longleftrightarrow> trim v \<noteq> []"
| "is_configured _ \<longleftrightarrow> True"

fun env_name :: "secret_ref \<Rightarrow> string option" where
  "env_name (Env env) = Some env"
| "env_name _ = None"

fun explicit_env_name :: "secret_ref \<Rightarrow> string option" where
  "explicit_env_name (Env env) = Some env"
| "explicit_env_name (Inline v) = parse_explicit_env_reference v"
| "explicit_env_name _ = None"

fun inline_value :: "secret_ref \<Rightarrow> string option" where
  "inline_value (Inline v) = Some v"
| "inline_value _ = None"

fun inline_literal_value :: "secret_ref \<Rightarrow> string option" where
  "inline_literal_value (Inline v) =
     (if parse_explicit_env_reference v \<noteq> None then None
      else if trim v = [] then None
      else Some (trim v))"
| "inline_literal_value _ = None"

section \<open>Serialization\<close>

text \<open>The table with its derived \<open>Deserialize\<close>, and what serde makes of the other shapes of a
  value and of a custom message, are arguments.\<close>

record secret_ref_table =
  srt_env :: "string option"
  srt_file :: "string option"
  srt_exec :: "string list option"

record ('n, 'e) secret_serde =
  read_table :: "(string \<times> 'n json) list \<Rightarrow> 'e + secret_ref_table"
  custom_error :: "string \<Rightarrow> 'e"
  invalid_type :: "'n json \<Rightarrow> 'e"

definition normalize_non_empty_string :: "string option \<Rightarrow> string option" where
  "normalize_non_empty_string raw =
     Option.bind raw (\<lambda>v. if trim v = [] then None else Some (trim v))"

definition validate_exec_command :: "string list \<Rightarrow> string + unit" where
  "validate_exec_command exec =
     (case exec of
        [] \<Rightarrow> Inl ''secret exec command must not be empty''
      | program # _ \<Rightarrow>
          if trim program = [] then Inl ''secret exec command program must not be empty'' else Inr ())"

definition classify_string_secret_ref :: "string \<Rightarrow> secret_ref" where
  "classify_string_secret_ref v =
     (case parse_explicit_env_reference v of Some env \<Rightarrow> Env env | None \<Rightarrow> Inline v)"

definition visit_map :: "('n, 'e) secret_serde \<Rightarrow> (string \<times> 'n json) list \<Rightarrow> 'e + secret_ref" where
  "visit_map S members =
     try_bind (read_table S members) (\<lambda>table.
       let env = normalize_non_empty_string (srt_env table);
           path = normalize_non_empty_string (srt_file table) in
       case (env, path, srt_exec table) of
         (Some e, None, None) \<Rightarrow> Inr (Env e)
       | (None, Some p, None) \<Rightarrow> Inr (File p)
       | (None, None, Some exec) \<Rightarrow>
           try_bind (map_err (custom_error S) (validate_exec_command exec)) (\<lambda>_. Inr (Exec exec))
       | (None, None, None) \<Rightarrow> Inl (custom_error S
           ''secret reference table must contain one of `env`, `file`, or `exec`'')
       | _ \<Rightarrow> Inl (custom_error S
           ''secret reference table must contain exactly one of `env`, `file`, or `exec`''))"

definition deserialize_secret_ref :: "('n, 'e) secret_serde \<Rightarrow> 'n json \<Rightarrow> 'e + secret_ref" where
  "deserialize_secret_ref S v =
     (case v of
        JString s \<Rightarrow> Inr (classify_string_secret_ref s)
      | JObject members \<Rightarrow> visit_map S members
      | _ \<Rightarrow> Inl (invalid_type S v))"

fun serialize_secret_ref :: "secret_ref \<Rightarrow> 'n json" where
  "serialize_secret_ref (Inline v) = JString v"
| "serialize_secret_ref (Env env) = JObject [(''env'', JString env)]"
| "serialize_secret_ref (File path) = JObject [(''file'', JString path)]"
| "serialize_secret_ref (Exec exec) = JObject [(''exec'', JArray (map JString exec))]"

section \<open>Resolution\<close>

datatype secret_resolution_error =
    InvalidEnvName string
  | FileRead string string
  | EmptyExec
  | ExecSpawn string string
  | ExecWait string string
  | ExecTimeout string u64
  | ExecFailed string string string
  | ExecInvalidUtf8 string

datatype pipe_reader = ReaderPanicked | ReaderFailed string | ReaderBytes string

record exit_status =
  es_success :: bool
  es_code :: "string option"

text \<open>What a started command does: its pipes, the wait with the timeout (\<open>None\<close> when it ran out), and
  what the reader threads return.\<close>

record child_run =
  cr_stdout_pipe :: bool
  cr_stderr_pipe :: bool
  cr_wait :: "string + exit_status option"
  cr_stdout :: pipe_reader
  cr_stderr :: pipe_reader

record secret_os =
  os_var :: "string \<Rightarrow> string option"
  os_read_to_string :: "string \<Rightarrow> string + string"
  os_spawn :: "string \<Rightarrow> string list \<Rightarrow> string + child_run"
  os_lossy :: "string \<Rightarrow> string"

definition trim_trailing_newlines :: "string \<Rightarrow> string" where
  "trim_trailing_newlines raw = rev (dropWhile (\<lambda>c. c = CHR 0x0D \<or> c = newline) (rev raw))"

definition non_empty_secret :: "string \<Rightarrow> string option" where
  "non_empty_secret v = (if v = [] then None else Some v)"

definition resolve_env_secret :: "secret_os \<Rightarrow> string \<Rightarrow> secret_resolution_error + string option" where
  "resolve_env_secret os name =
     (if trim name = [] then Inl (InvalidEnvName name)
      else Inr (Option.bind (os_var os (trim name)) (\<lambda>v. non_empty_secret (trim v))))"

definition resolve_file_secret :: "secret_os \<Rightarrow> string \<Rightarrow> secret_resolution_error + string option" where
  "resolve_file_secret os path =
     (case os_read_to_string os path of
        Inl e \<Rightarrow> Inl (FileRead path e)
      | Inr contents \<Rightarrow> Inr (non_empty_secret (trim_trailing_newlines contents)))"

definition join_exec_output_reader :: "pipe_reader \<Rightarrow> string \<Rightarrow> string \<Rightarrow> secret_resolution_error + string" where
  "join_exec_output_reader reader program stream =
     (case reader of
        ReaderPanicked \<Rightarrow> Inl (ExecWait program (''reading '' @ stream @ '' output panicked''))
      | ReaderFailed e \<Rightarrow> Inl (ExecWait program (''reading '' @ stream @ '' output failed: '' @ e))
      | ReaderBytes bytes \<Rightarrow> Inr bytes)"

definition exec_result :: "secret_os \<Rightarrow> string \<Rightarrow> exit_status \<Rightarrow> string \<Rightarrow> string \<Rightarrow> secret_resolution_error + string option" where
  "exec_result os program status stdout stderr =
     (if \<not> es_success status then
        Inl (ExecFailed program (case es_code status of Some code \<Rightarrow> code | None \<Rightarrow> ''signal'')
          (trim (os_lossy os stderr)))
      else if \<not> utf8_valid stdout then Inl (ExecInvalidUtf8 program)
      else Inr (non_empty_secret (trim_trailing_newlines stdout)))"

definition resolve_exec_secret ::
  "secret_os \<Rightarrow> u64 \<Rightarrow> string list \<Rightarrow> secret_resolution_error + string option" where
  "resolve_exec_secret os timeout_ms exec =
     (case exec of
        [] \<Rightarrow> Inl EmptyExec
      | raw_program # args \<Rightarrow>
          let program = trim raw_program in
          if program = [] then Inl EmptyExec
          else
            (case os_spawn os program args of
              Inl e \<Rightarrow> Inl (ExecSpawn program e)
            | Inr child \<Rightarrow>
                if \<not> cr_stdout_pipe child then Inl (ExecWait program ''stdout pipe unavailable'')
                else if \<not> cr_stderr_pipe child then Inl (ExecWait program ''stderr pipe unavailable'')
                else
                  (case cr_wait child of
                    Inl e \<Rightarrow> Inl (ExecWait program e)
                  | Inr None \<Rightarrow> Inl (ExecTimeout program timeout_ms)
                  | Inr (Some status) \<Rightarrow>
                      try_bind (join_exec_output_reader (cr_stdout child) program ''stdout'') (\<lambda>stdout.
                      try_bind (join_exec_output_reader (cr_stderr child) program ''stderr'') (\<lambda>stderr.
                        exec_result os program status stdout stderr)))))"

definition normalize_inline_secret_value :: "string \<Rightarrow> string option" where
  "normalize_inline_secret_value raw = non_empty_secret (trim raw)"

definition default_secret_exec_timeout_ms :: u64 where
  "default_secret_exec_timeout_ms = 5000"

definition resolve_secret :: "secret_os \<Rightarrow> u64 \<Rightarrow> secret_ref \<Rightarrow> secret_resolution_error + string option" where
  "resolve_secret os timeout_ms r =
     (case explicit_env_name r of
        Some name \<Rightarrow> resolve_env_secret os name
      | None \<Rightarrow>
          (case r of
             Inline v \<Rightarrow> Inr (normalize_inline_secret_value v)
           | Env env \<Rightarrow> resolve_env_secret os env
           | File path \<Rightarrow> resolve_file_secret os path
           | Exec exec \<Rightarrow> resolve_exec_secret os timeout_ms exec))"

section \<open>Lookup\<close>

datatype secret_lookup = Absent | Missing | Value string

definition inline_secret_ref_is_blank :: "secret_ref \<Rightarrow> bool" where
  "inline_secret_ref_is_blank r \<longleftrightarrow> (case inline_value r of None \<Rightarrow> False | Some v \<Rightarrow> trim v = [])"

definition resolve_secret_lookup :: "secret_os \<Rightarrow> secret_ref option \<Rightarrow> secret_lookup" where
  "resolve_secret_lookup os secret_ref =
     (case secret_ref of
        None \<Rightarrow> Absent
      | Some r \<Rightarrow>
          if inline_secret_ref_is_blank r then Absent
          else
            case resolve_secret os default_secret_exec_timeout_ms r of
              Inr (Some v) \<Rightarrow> Value v
            | _ \<Rightarrow> Missing)"

definition read_non_empty_env_value :: "secret_os \<Rightarrow> string option \<Rightarrow> string option" where
  "read_non_empty_env_value os name =
     Option.bind name (\<lambda>n.
       if trim n = [] then None
       else Option.bind (os_var os (trim n)) (\<lambda>v. if trim v = [] then None else Some (trim v)))"

definition resolve_secret_with_legacy_env ::
  "secret_os \<Rightarrow> secret_ref option \<Rightarrow> string option \<Rightarrow> string option" where
  "resolve_secret_with_legacy_env os secret_ref name =
     (case resolve_secret_lookup os secret_ref of
        Value v \<Rightarrow> Some v
      | Missing \<Rightarrow> None
      | Absent \<Rightarrow> read_non_empty_env_value os name)"

definition has_configured_secret_ref :: "secret_ref option \<Rightarrow> bool" where
  "has_configured_secret_ref secret_ref = (case secret_ref of None \<Rightarrow> False | Some r \<Rightarrow> is_configured r)"

definition secret_ref_env_name :: "secret_ref option \<Rightarrow> string option" where
  "secret_ref_env_name secret_ref = Option.bind secret_ref explicit_env_name"

definition canonicalize_env_secret_reference ::
  "secret_ref option \<Rightarrow> string option \<Rightarrow> secret_ref option \<times> string option" where
  "canonicalize_env_secret_reference secret_ref name =
     (case secret_ref_env_name secret_ref of
        None \<Rightarrow> (secret_ref, name)
      | Some explicit \<Rightarrow>
          (case Option.bind name (\<lambda>n. if trim n = [] then None else Some (trim n)) of
             None \<Rightarrow> (None, Some explicit)
           | Some configured \<Rightarrow>
               if configured = explicit then (None, Some explicit) else (secret_ref, name)))"

section \<open>Environment references\<close>

lemma env_name_char_graphic:
  "is_ascii_alphanumeric c \<or> is_ascii_alphabetic c \<or> c = CHR ''_'' \<Longrightarrow> ascii_graphic c"
  by (auto simp: is_ascii_alphanumeric_def is_ascii_alphabetic_def is_ascii_lowercase_def is_ascii_uppercase_def
    is_ascii_digit_def ascii_graphic_def Let_def)

lemma env_name_graphic: "looks_like_compatible_env_name n \<Longrightarrow> n \<noteq> [] \<and> (\<forall>c \<in> set n. ascii_graphic c)"
  by (auto simp: looks_like_compatible_env_name_def list_all_iff split: list.splits
    intro: env_name_char_graphic)

lemma env_name_trim [simp]: "looks_like_compatible_env_name n \<Longrightarrow> trim n = n"
  using env_name_graphic [of n] by (auto intro!: trim_graphic_id)

lemma normalize_env_name_Some:
  "normalize_env_name raw = Some n \<longleftrightarrow> trim raw = n \<and> looks_like_compatible_env_name n"
  by (auto simp: normalize_env_name_def Let_def looks_like_compatible_env_name_def)

lemma env_name_head: "looks_like_compatible_env_name (c # n) \<Longrightarrow> c \<noteq> CHR ''$'' \<and> c \<noteq> CHR ''{'' \<and> c \<noteq> CHR ''%''"
  by (auto simp: looks_like_compatible_env_name_def is_ascii_alphabetic_def is_ascii_lowercase_def is_ascii_uppercase_def)

lemma strip_prefix_char_Some: "strip_prefix_char c s = Some t \<longleftrightarrow> s = c # t"
  by (cases s) (auto simp: strip_prefix_char_def)

lemma strip_suffix_char_Some: "strip_suffix_char c s = Some t \<longleftrightarrow> s = t @ [c]"
  by (cases s rule: rev_cases) (auto simp: strip_suffix_char_def)

text \<open>The three syntaxes. What stands for the name is trimmed before it is looked at.\<close>

definition dollar_reference :: "string \<Rightarrow> string \<Rightarrow> bool" where
  "dollar_reference t n \<longleftrightarrow>
     (\<exists>s. t = CHR ''$'' # s \<and> (trim s = n \<or> (\<exists>b. trim s = CHR ''{'' # b @ ''}'' \<and> trim b = n)))"

definition prefix_reference :: "string \<Rightarrow> string \<Rightarrow> bool" where
  "prefix_reference t n \<longleftrightarrow> (\<exists>p s. t = p @ s \<and> to_ascii_lowercase p = ''env:'' \<and> trim s = n)"

definition percent_reference :: "string \<Rightarrow> string \<Rightarrow> bool" where
  "percent_reference t n \<longleftrightarrow> (\<exists>b. t = CHR ''%'' # b @ ''%'' \<and> trim b = n)"

lemma parse_dollar_iff:
  "parse_dollar_env_reference raw = Some n \<longleftrightarrow>
    looks_like_compatible_env_name n \<and> dollar_reference (trim raw) n"
proof (cases "strip_prefix_char CHR ''$'' (trim raw)")
  case None
  then have "trim raw \<noteq> CHR ''$'' # s" for s
    using strip_prefix_char_Some [of "CHR ''$''" "trim raw" s] by simp
  with None show ?thesis by (simp add: parse_dollar_env_reference_def dollar_reference_def)
next
  case (Some s)
  then have t: "trim raw = CHR ''$'' # s" by (simp add: strip_prefix_char_Some)
  show ?thesis
  proof (cases "Option.bind (strip_prefix_char CHR ''{'' (trim s)) (strip_suffix_char CHR ''}'')")
    case None
    then have "trim s \<noteq> CHR ''{'' # b @ ''}''" for b
      by (auto simp: strip_prefix_char_def strip_suffix_char_def)
    with Some t None show ?thesis
      by (auto simp: parse_dollar_env_reference_def dollar_reference_def normalize_env_name_Some Let_def)
        (simp add: looks_like_compatible_env_name_def)
  next
    case (Some b)
    then have b: "trim s = CHR ''{'' # b @ ''}''"
      by (auto simp: bind_eq_Some_conv strip_prefix_char_Some strip_suffix_char_Some)
    then have "\<not> looks_like_compatible_env_name (trim s)"
      using env_name_head by metis
    with Some t b \<open>strip_prefix_char CHR ''$'' (trim raw) = Some s\<close> show ?thesis
      by (auto simp: parse_dollar_env_reference_def dollar_reference_def normalize_env_name_Some Let_def)
  qed
qed

lemma parse_percent_iff:
  "parse_percent_env_reference raw = Some n \<longleftrightarrow>
    looks_like_compatible_env_name n \<and> percent_reference (trim raw) n"
  by (auto simp: parse_percent_env_reference_def percent_reference_def bind_eq_Some_conv strip_prefix_char_Some
    strip_suffix_char_Some normalize_env_name_Some)

lemma trim_head_no_continuation:
  assumes "ascii_graphic (hd (trim s))" "trim s \<noteq> []" "s \<noteq> []"
  shows "\<not> byte_in 0x80 0xBF (hd s)"
proof (cases "trim_start s = s")
  case True
  then have "prefix (trim s) s" using trim_end_prefix [of s] by (simp add: trim_def)
  then have "hd (trim s) = hd s" using assms(2) by (metis hd_append2 prefixE)
  with assms(1) show ?thesis by (simp add: byte_in_def ascii_graphic_def Let_def)
next
  case False
  obtain c cs where s: "s = c # cs" using assms(3) by (cases s) auto
  obtain w where w: "find (\<lambda>w. w \<noteq> [] \<and> prefix w s) whitespace_encodings = Some w"
    using False by (cases "find (\<lambda>w. w \<noteq> [] \<and> prefix w s) whitespace_encodings") (auto simp: trim_start_def s)
  then have "w \<in> set whitespace_encodings" "w \<noteq> []" "prefix w s"
    by (auto simp: find_Some_iff)
  moreover from this have "hd s = hd w" by (auto simp: prefix_def)
  moreover have "\<forall>w \<in> set whitespace_encodings. \<not> byte_in 0x80 0xBF (hd w)"
    by (simp add: whitespace_encodings_def byte_in_def)
  ultimately show ?thesis by simp
qed

lemma parse_env_prefix_iff:
  "parse_env_prefix_reference raw = Some n \<longleftrightarrow>
    looks_like_compatible_env_name n \<and> prefix_reference (trim raw) n"
proof
  assume "parse_env_prefix_reference raw = Some n"
  then have "to_ascii_lowercase (take 4 (trim raw)) = ''env:''" "trim (drop 4 (trim raw)) = n"
    "looks_like_compatible_env_name n"
    by (auto simp: parse_env_prefix_reference_def Let_def bind_eq_Some_conv get_to_def get_from_def
      normalize_env_name_Some eq_ignore_ascii_case_def to_ascii_lowercase_def byte_ascii_lowercase_def split: if_splits)
  then show "looks_like_compatible_env_name n \<and> prefix_reference (trim raw) n"
    unfolding prefix_reference_def by (metis append_take_drop_id)
next
  assume a: "looks_like_compatible_env_name n \<and> prefix_reference (trim raw) n"
  then obtain p s where t: "trim raw = p @ s" "to_ascii_lowercase p = ''env:''" "trim s = n"
    by (auto simp: prefix_reference_def)
  from t(2) have "length (to_ascii_lowercase p) = 4" by simp
  then have p: "length p = 4" by (simp add: to_ascii_lowercase_def)
  have "n \<noteq> []" "ascii_graphic (hd n)" using a env_name_graphic [of n] by auto
  moreover from this have s: "s \<noteq> []" using t(3) by (auto simp: trim_def trim_start_def trim_end_def)
  ultimately have "\<not> byte_in 0x80 0xBF (hd s)" using trim_head_no_continuation [of s] t(3) by simp
  then have "char_boundary (trim raw) 4"
    using s p by (simp add: char_boundary_def t(1) nth_append hd_conv_nth)
  moreover have "to_ascii_lowercase ''env:'' = ''env:''" by code_simp
  ultimately show "parse_env_prefix_reference raw = Some n"
    using t p a by (simp add: parse_env_prefix_reference_def get_to_def get_from_def Let_def eq_ignore_ascii_case_def
      normalize_env_name_Some)
qed

lemma prefix_reference_head: "prefix_reference t n \<Longrightarrow> t \<noteq> [] \<and> hd t \<noteq> CHR ''$'' \<and> hd t \<noteq> CHR ''%''"
proof -
  assume "prefix_reference t n"
  then obtain p s where t: "t = p @ s" "to_ascii_lowercase p = ''env:''" by (auto simp: prefix_reference_def)
  then obtain c q where "p = c # q" "byte_ascii_lowercase c = CHR ''e''"
    by (cases p) (auto simp: to_ascii_lowercase_def)
  with t(1) show ?thesis by (auto simp: byte_ascii_lowercase_def)
qed

lemma parse_explicit_env_reference_iff:
  "parse_explicit_env_reference raw = Some n \<longleftrightarrow>
    looks_like_compatible_env_name n \<and>
    (dollar_reference (trim raw) n \<or> prefix_reference (trim raw) n \<or> percent_reference (trim raw) n)"
proof -
  have dp: "\<not> (dollar_reference (trim raw) m \<and> prefix_reference (trim raw) n)"
    and dq: "\<not> (dollar_reference (trim raw) m \<and> percent_reference (trim raw) n)"
    and pq: "\<not> (prefix_reference (trim raw) m \<and> percent_reference (trim raw) n)" for m
    using prefix_reference_head [of "trim raw"]
    by (auto simp: dollar_reference_def percent_reference_def)
  show ?thesis
  proof (cases "parse_dollar_env_reference raw")
    case (Some m)
    then have "dollar_reference (trim raw) m" by (simp add: parse_dollar_iff)
    with Some dp [of m] dq [of m] show ?thesis
      using parse_dollar_iff [of raw n] by (auto simp: parse_explicit_env_reference_def)
  next
    case None
    then have d: "\<not> (looks_like_compatible_env_name n \<and> dollar_reference (trim raw) n)"
      using parse_dollar_iff [of raw n] by simp
    show ?thesis
    proof (cases "parse_env_prefix_reference raw")
      case (Some m)
      then have "prefix_reference (trim raw) m" by (simp add: parse_env_prefix_iff)
      with None Some pq [of m] d show ?thesis
        using parse_env_prefix_iff [of raw n] by (auto simp: parse_explicit_env_reference_def)
    next
      case p: None
      with None d show ?thesis
        using parse_env_prefix_iff [of raw n] parse_percent_iff [of raw n]
        by (auto simp: parse_explicit_env_reference_def)
    qed
  qed
qed


text \<open>
  A string is an environment reference exactly when, trimmed, it reads \<open>$NAME\<close>, \<open>${NAME}\<close>,
  \<open>env:NAME\<close> in any case, or \<open>%NAME%\<close>, blanks around the name aside, with a name of letters, digits
  and underscores that does not start with a digit; any other string is an inline secret as it stands.
\<close>

theorem secret_strings_are_classified:
  "(classify_string_secret_ref raw = Env n \<longleftrightarrow>
     looks_like_compatible_env_name n \<and>
     (dollar_reference (trim raw) n \<or> prefix_reference (trim raw) n \<or> percent_reference (trim raw) n)) \<and>
   (classify_string_secret_ref raw = Inline v \<longleftrightarrow>
     v = raw \<and> (\<nexists>n. looks_like_compatible_env_name n \<and>
       (dollar_reference (trim raw) n \<or> prefix_reference (trim raw) n \<or> percent_reference (trim raw) n)))"
proof -
  have "(\<nexists>n. parse_explicit_env_reference raw = Some n) \<longleftrightarrow> parse_explicit_env_reference raw = None"
    by auto
  then show ?thesis
    by (auto simp flip: parse_explicit_env_reference_iff simp: classify_string_secret_ref_def split: option.splits)
qed

text \<open>Serde's part: a table with one of the fields holds just that field.\<close>

definition reads_table :: "('n, 'e) secret_serde \<Rightarrow> bool" where
  "reads_table S \<longleftrightarrow>
     (\<forall>e. read_table S [(''env'', JString e)] = Inr \<lparr>srt_env = Some e, srt_file = None, srt_exec = None\<rparr>) \<and>
     (\<forall>p. read_table S [(''file'', JString p)] = Inr \<lparr>srt_env = None, srt_file = Some p, srt_exec = None\<rparr>) \<and>
     (\<forall>c. read_table S [(''exec'', JArray (map JString c))] =
        Inr \<lparr>srt_env = None, srt_file = None, srt_exec = Some c\<rparr>)"

fun canonical_secret_ref :: "secret_ref \<Rightarrow> bool" where
  "canonical_secret_ref (Env env) \<longleftrightarrow> env \<noteq> [] \<and> trim env = env"
| "canonical_secret_ref (File path) \<longleftrightarrow> path \<noteq> [] \<and> trim path = path"
| "canonical_secret_ref (Exec exec) \<longleftrightarrow> exec \<noteq> [] \<and> trim (hd exec) \<noteq> []"
| "canonical_secret_ref (Inline v) \<longleftrightarrow> parse_explicit_env_reference v = None"

text \<open>
  C36. A secret reference survives writing and reading back exactly when it is canonical: a name or a
  path without blanks around it, a command with a program, a string that is no environment
  reference. An inline string always comes back with the environment name it stood for.
\<close>

theorem secret_reference_round_trip:
  assumes "reads_table S"
  shows "(deserialize_secret_ref S (serialize_secret_ref r) = Inr r \<longleftrightarrow> canonical_secret_ref r) \<and>
    (\<exists>r'. deserialize_secret_ref S (serialize_secret_ref (Inline v)) = Inr r' \<and>
      explicit_env_name r' = explicit_env_name (Inline v))"
proof
  show "deserialize_secret_ref S (serialize_secret_ref r) = Inr r \<longleftrightarrow> canonical_secret_ref r"
  proof (cases r)
    case (Inline v)
    then show ?thesis
      by (simp add: deserialize_secret_ref_def classify_string_secret_ref_def split: option.split)
  next
    case (Exec c)
    then have "deserialize_secret_ref S (serialize_secret_ref r) =
        try_bind (map_err (custom_error S) (validate_exec_command c)) (\<lambda>_. Inr (Exec c))"
      using assms by (simp add: deserialize_secret_ref_def visit_map_def reads_table_def
        normalize_non_empty_string_def Let_def)
    with Exec show ?thesis
      by (cases c) (simp_all add: validate_exec_command_def)
  qed (use assms in \<open>auto simp: deserialize_secret_ref_def visit_map_def reads_table_def
        normalize_non_empty_string_def Let_def\<close>)
  show "\<exists>r'. deserialize_secret_ref S (serialize_secret_ref (Inline v)) = Inr r' \<and>
      explicit_env_name r' = explicit_env_name (Inline v)"
    by (simp add: deserialize_secret_ref_def classify_string_secret_ref_def split: option.split)
qed

section \<open>Resolution\<close>

lemma trim_last_no_newline:
  assumes "trim s \<noteq> []"
  shows "last (trim s) \<noteq> CHR 0x0D \<and> last (trim s) \<noteq> newline"
proof -
  have "\<not> prefix [c] (rev (trim s))" if "[c] \<in> set (map rev whitespace_encodings)" for c
    using strip_words_stops [OF that, of "rev (trim_start s)"] by (simp add: trim_def trim_end_def)
  then have "\<not> prefix [CHR 0x0D] (rev (trim s))" "\<not> prefix [newline] (rev (trim s))"
    by (simp_all add: whitespace_encodings_def newline_def)
  with assms show ?thesis
    by (cases "trim s" rule: rev_cases) auto
qed

lemma trailing_newlines_trimmed:
  assumes "trim_trailing_newlines s \<noteq> []"
  shows "last (trim_trailing_newlines s) \<noteq> CHR 0x0D \<and> last (trim_trailing_newlines s) \<noteq> newline"
proof -
  have "dropWhile (\<lambda>c. c = CHR 0x0D \<or> c = newline) (rev s) \<noteq> []"
    using assms by (simp add: trim_trailing_newlines_def)
  then have "\<not> (hd (dropWhile (\<lambda>c. c = CHR 0x0D \<or> c = newline) (rev s)) = CHR 0x0D \<or>
      hd (dropWhile (\<lambda>c. c = CHR 0x0D \<or> c = newline) (rev s)) = newline)"
    by (rule hd_dropWhile)
  with assms show ?thesis by (simp add: trim_trailing_newlines_def last_rev)
qed

definition usable_secret :: "string \<Rightarrow> bool" where
  "usable_secret v \<longleftrightarrow> v \<noteq> [] \<and> last v \<noteq> CHR 0x0D \<and> last v \<noteq> newline"

lemma non_empty_secret_usable:
  "non_empty_secret (trim s) = Some v \<Longrightarrow> usable_secret v"
  "non_empty_secret (trim_trailing_newlines s) = Some v \<Longrightarrow> usable_secret v"
  using trim_last_no_newline [of s] trailing_newlines_trimmed [of s]
  by (auto simp: non_empty_secret_def usable_secret_def split: if_splits)

lemma resolve_env_usable: "resolve_env_secret os name = Inr (Some v) \<Longrightarrow> usable_secret v"
  by (auto simp: resolve_env_secret_def bind_eq_Some_conv intro: non_empty_secret_usable split: if_splits)

lemma resolve_exec_usable: "resolve_exec_secret os t exec = Inr (Some v) \<Longrightarrow> usable_secret v"
  by (auto simp: resolve_exec_secret_def exec_result_def Let_def try_bind_Ok intro: non_empty_secret_usable
    split: list.splits if_splits sum.splits option.splits)

lemma resolve_file_usable: "resolve_file_secret os path = Inr (Some v) \<Longrightarrow> usable_secret v"
  by (auto simp: resolve_file_secret_def intro: non_empty_secret_usable split: sum.splits)

lemma resolve_secret_usable: "resolve_secret os t r = Inr (Some v) \<Longrightarrow> usable_secret v"
  by (auto simp: resolve_secret_def normalize_inline_secret_value_def intro: resolve_env_usable
    resolve_file_usable resolve_exec_usable non_empty_secret_usable split: option.splits secret_ref.splits)

text \<open>
  What a lookup returns can be used: a value is never empty and never ends in a line break, only a
  configured reference has one, and the fallback to the old environment setting is taken only
  when no reference is configured, never because a configured one could not be resolved.
\<close>

theorem looked_up_secrets_are_usable:
  "(resolve_secret_lookup os secret_ref = Value v \<longrightarrow> usable_secret v \<and> has_configured_secret_ref secret_ref) \<and>
   (resolve_secret_lookup os secret_ref = Absent \<longleftrightarrow> \<not> has_configured_secret_ref secret_ref) \<and>
   (has_configured_secret_ref secret_ref \<longrightarrow>
      resolve_secret_with_legacy_env os secret_ref a = resolve_secret_with_legacy_env os secret_ref b)"
proof -
  have blank: "inline_secret_ref_is_blank r \<longleftrightarrow> \<not> is_configured r" for r
    by (cases r) (simp_all add: inline_secret_ref_is_blank_def)
  have "resolve_secret_lookup os secret_ref = Absent \<longleftrightarrow> \<not> has_configured_secret_ref secret_ref"
    by (auto simp: resolve_secret_lookup_def has_configured_secret_ref_def blank split: option.splits sum.splits)
  moreover have "resolve_secret_lookup os secret_ref = Value v \<Longrightarrow> usable_secret v"
    by (auto simp: resolve_secret_lookup_def intro: resolve_secret_usable split: option.splits sum.splits if_splits)
  ultimately show ?thesis
    by (auto simp: resolve_secret_with_legacy_env_def split: secret_lookup.split)
qed

lemma legacy_env_value:
  "read_non_empty_env_value os (Some e) =
    (case resolve_env_secret os e of Inr (Some v) \<Rightarrow> Some v | _ \<Rightarrow> None)"
  by (auto simp: read_non_empty_env_value_def resolve_env_secret_def non_empty_secret_def split: option.split)

lemma explicit_reference_not_blank:
  assumes "explicit_env_name r = Some e"
  shows "\<not> inline_secret_ref_is_blank r"
proof (cases r)
  case (Inline v)
  with assms have "parse_explicit_env_reference v = Some e" by simp
  then have "trim v \<noteq> []"
    using prefix_reference_head [of "trim v" e]
    by (auto simp: parse_explicit_env_reference_iff dollar_reference_def percent_reference_def)
  with Inline show ?thesis by (simp add: inline_secret_ref_is_blank_def)
qed (simp_all add: inline_secret_ref_is_blank_def)

text \<open>
  Rewriting an environment reference into the old environment setting changes no secret: in
  every environment the pair resolves to what it resolved to before, and rewriting again
  changes nothing.
\<close>

theorem canonicalization_preserves_secrets:
  "case canonicalize_env_secret_reference secret_ref name of
     (secret_ref', name') \<Rightarrow>
       resolve_secret_with_legacy_env os secret_ref' name' = resolve_secret_with_legacy_env os secret_ref name \<and>
       canonicalize_env_secret_reference secret_ref' name' = (secret_ref', name')"
proof (cases "secret_ref_env_name secret_ref")
  case None
  then show ?thesis by (simp add: canonicalize_env_secret_reference_def)
next
  case (Some explicit)
  then obtain r where r: "secret_ref = Some r" "explicit_env_name r = Some explicit"
    by (auto simp: secret_ref_env_name_def bind_eq_Some_conv)
  then have lookup: "resolve_secret_lookup os secret_ref =
      (case resolve_env_secret os explicit of Inr (Some v) \<Rightarrow> Value v | _ \<Rightarrow> Missing)"
    using explicit_reference_not_blank [OF r(2)]
    by (simp add: resolve_secret_lookup_def resolve_secret_def)
  have "resolve_secret_with_legacy_env os None (Some explicit) = resolve_secret_with_legacy_env os secret_ref name"
    unfolding resolve_secret_with_legacy_env_def lookup
    by (simp add: resolve_secret_lookup_def legacy_env_value split: sum.split option.split)
  then show ?thesis
    using Some by (simp add: canonicalize_env_secret_reference_def secret_ref_env_name_def split: option.split)
qed

section \<open>Witnesses\<close>

definition sample_secret_serde :: "(nat, string) secret_serde" where
  "sample_secret_serde =
     \<lparr>read_table = (\<lambda>members. case members of
         [(''env'', JString e)] \<Rightarrow> Inr \<lparr>srt_env = Some e, srt_file = None, srt_exec = None\<rparr>
       | [(''file'', JString p)] \<Rightarrow> Inr \<lparr>srt_env = None, srt_file = Some p, srt_exec = None\<rparr>
       | [(''exec'', JArray c)] \<Rightarrow> Inr \<lparr>srt_env = None, srt_file = None,
           srt_exec = Some (map (\<lambda>v. case v of JString s \<Rightarrow> s | _ \<Rightarrow> []) c)\<rparr>
       | _ \<Rightarrow> Inl ''unknown field''),
      custom_error = (\<lambda>m. m), invalid_type = (\<lambda>_. ''invalid type'')\<rparr>"

theorem secret_reference_round_trip_witness:
  "deserialize_secret_ref sample_secret_serde (serialize_secret_ref (Env ''KEY'')) = Inr (Env ''KEY'')"
proof -
  have "reads_table sample_secret_serde"
    by (simp add: reads_table_def sample_secret_serde_def comp_def)
  moreover have "canonical_secret_ref (Env ''KEY'')" by code_simp
  ultimately show ?thesis using secret_reference_round_trip [of sample_secret_serde "Env ''KEY''"] by simp
qed

definition sample_secret_os :: secret_os where
  "sample_secret_os = \<lparr>os_var = (\<lambda>_. Some ''v''), os_read_to_string = (\<lambda>_. Inl ''no file''),
     os_spawn = (\<lambda>_ _. Inl ''no program''), os_lossy = (\<lambda>s. s)\<rparr>"

theorem looked_up_secrets_are_usable_witness:
  "resolve_secret_with_legacy_env sample_secret_os (Some (File ''/f'')) None =
   resolve_secret_with_legacy_env sample_secret_os (Some (File ''/f'')) (Some ''OLD'')"
  using looked_up_secrets_are_usable [of sample_secret_os "Some (File ''/f'')" "[]" None "Some ''OLD''"]
  by (simp add: has_configured_secret_ref_def)

end
