(* ===== verification/Child_Environment.thy ===== *)
theory Child_Environment
  imports Secret_Refs
begin

text \<open>
  The environment handed to child processes (crates/contracts/src/child_process_env.rs): a block list,
  an allow list and the \<open>LC_\<close> prefix, all compared without regard to ASCII case. A variable is a
  pair of an \<open>OsString\<close> name and value; \<open>to_string_lossy\<close>, the identity on Unicode names, is an argument.
\<close>

definition high_risk_child_process_env_vars :: "string list" where
  "high_risk_child_process_env_vars =
     [''CC'', ''CXX'', ''CARGO_BUILD_RUSTC'', ''CMAKE_C_COMPILER'', ''CMAKE_CXX_COMPILER'', ''PIP_INDEX_URL'',
      ''PIP_EXTRA_INDEX_URL'', ''UV_INDEX_URL'', ''UV_EXTRA_INDEX_URL'', ''PYTHONPATH'']"

definition essential_child_process_env_vars :: "string list" where
  "essential_child_process_env_vars =
     [''APPDATA'', ''COLORTERM'', ''COMSPEC'', ''HOME'', ''LANG'', ''LOCALAPPDATA'', ''LOGNAME'', ''NO_COLOR'',
      ''PATH'', ''PATHEXT'', ''PWD'', ''SHELL'', ''SYSTEMROOT'', ''TEMP'', ''TERM'', ''TMP'', ''TMPDIR'', ''USER'',
      ''USERPROFILE'', ''WINDIR'', ''XDG_CACHE_HOME'', ''XDG_CONFIG_HOME'', ''XDG_DATA_HOME'', ''XDG_RUNTIME_DIR'']"

definition essential_child_process_env_prefixes :: "string list" where
  "essential_child_process_env_prefixes = [''LC_'']"

definition byte_ascii_uppercase :: "char \<Rightarrow> char" where
  "byte_ascii_uppercase c =
     (let n = (of_char c :: nat) in if 97 \<le> n \<and> n \<le> 122 then char_of (n - 32) else c)"

definition to_ascii_uppercase :: "string \<Rightarrow> string" where
  "to_ascii_uppercase s = map byte_ascii_uppercase s"

definition child_process_env_var_is_allowed :: "(string \<Rightarrow> string) \<Rightarrow> string \<Rightarrow> bool" where
  "child_process_env_var_is_allowed to_string_lossy name =
     (let rendered = to_string_lossy name in
      if list_ex (eq_ignore_ascii_case rendered) high_risk_child_process_env_vars then False
      else if list_ex (eq_ignore_ascii_case rendered) essential_child_process_env_vars then True
      else
        let normalized = to_ascii_uppercase rendered in
        list_ex (\<lambda>p. prefix p normalized) essential_child_process_env_prefixes)"

definition sanitized_child_process_env ::
  "(string \<Rightarrow> string) \<Rightarrow> (string \<times> string) list \<Rightarrow> (string \<times> string) list" where
  "sanitized_child_process_env to_string_lossy vars =
     filter (\<lambda>(name, v). child_process_env_var_is_allowed to_string_lossy name) vars"

lemma byte_ascii_cases:
  "byte_ascii_uppercase (byte_ascii_lowercase c) = byte_ascii_uppercase c"
  "byte_ascii_lowercase (byte_ascii_uppercase c) = byte_ascii_lowercase c"
proof -
  have "(of_char c :: nat) < 256" by simp
  then show "byte_ascii_uppercase (byte_ascii_lowercase c) = byte_ascii_uppercase c"
    "byte_ascii_lowercase (byte_ascii_uppercase c) = byte_ascii_lowercase c"
    by (auto simp: byte_ascii_uppercase_def byte_ascii_lowercase_def Let_def)
qed

lemma eq_ignore_ascii_case_upper: "eq_ignore_ascii_case a b \<longleftrightarrow> to_ascii_uppercase a = to_ascii_uppercase b"
proof
  assume "eq_ignore_ascii_case a b"
  then have "to_ascii_uppercase (to_ascii_lowercase a) = to_ascii_uppercase (to_ascii_lowercase b)"
    by (simp add: eq_ignore_ascii_case_def)
  then show "to_ascii_uppercase a = to_ascii_uppercase b"
    by (simp add: to_ascii_uppercase_def to_ascii_lowercase_def byte_ascii_cases comp_def)
next
  assume "to_ascii_uppercase a = to_ascii_uppercase b"
  then have "to_ascii_lowercase (to_ascii_uppercase a) = to_ascii_lowercase (to_ascii_uppercase b)" by simp
  then show "eq_ignore_ascii_case a b"
    by (simp add: eq_ignore_ascii_case_def to_ascii_uppercase_def to_ascii_lowercase_def byte_ascii_cases comp_def)
qed

lemma listed_names_uppercase:
  "list_all (\<lambda>n. to_ascii_uppercase n = n) (high_risk_child_process_env_vars @ essential_child_process_env_vars)"
  by code_simp

lemma high_risk_not_essential:
  "list_all (\<lambda>n. n \<notin> set essential_child_process_env_vars \<and> \<not> prefix ''LC_'' n) high_risk_child_process_env_vars"
  by code_simp

lemma listed_iff:
  assumes "list_all (\<lambda>n. to_ascii_uppercase n = n) ns"
  shows "list_ex (eq_ignore_ascii_case r) ns \<longleftrightarrow> to_ascii_uppercase r \<in> set ns"
  using assms by (auto simp: eq_ignore_ascii_case_upper list_ex_iff list_all_iff)

text \<open>
  The sanitized environment is an allow list: it keeps exactly the variables whose upper-cased
  name is an essential one or starts with \<open>LC_\<close>, with their values and in order, and no high-risk
  variable in any spelling; so the block list only restates what the allow list already excludes.
\<close>

theorem child_environment_is_allow_listed:
  "sanitized_child_process_env to_string_lossy vars =
     filter (\<lambda>(name, v). let n = to_ascii_uppercase (to_string_lossy name) in
       n \<in> set essential_child_process_env_vars \<or> prefix ''LC_'' n) vars \<and>
   (\<forall>(name, v) \<in> set (sanitized_child_process_env to_string_lossy vars).
      to_ascii_uppercase (to_string_lossy name) \<notin> set high_risk_child_process_env_vars)"
proof -
  have up: "list_all (\<lambda>n. to_ascii_uppercase n = n) high_risk_child_process_env_vars"
    "list_all (\<lambda>n. to_ascii_uppercase n = n) essential_child_process_env_vars"
    using listed_names_uppercase by simp_all
  have "child_process_env_var_is_allowed to_string_lossy name \<longleftrightarrow>
      to_ascii_uppercase (to_string_lossy name) \<in> set essential_child_process_env_vars \<or>
      prefix ''LC_'' (to_ascii_uppercase (to_string_lossy name))" for name
    using high_risk_not_essential
    by (auto simp: child_process_env_var_is_allowed_def Let_def listed_iff [OF up(1)] listed_iff [OF up(2)]
      essential_child_process_env_prefixes_def list_all_iff)
  moreover from this have "\<not> child_process_env_var_is_allowed to_string_lossy name"
    if "to_ascii_uppercase (to_string_lossy name) \<in> set high_risk_child_process_env_vars" for name
    using that high_risk_not_essential by (auto simp: list_all_iff)
  ultimately show ?thesis
    by (auto simp: sanitized_child_process_env_def Let_def intro!: filter_cong)
qed

definition sample_variables :: "(string \<times> string) list" where
  "sample_variables = [(''Path'', ''/bin''), (''cc'', ''evil''), (''lc_all'', ''C''), (''TOKEN'', ''s'')]"

theorem child_environment_is_allow_listed_witness:
  "sanitized_child_process_env id sample_variables = [(''Path'', ''/bin''), (''lc_all'', ''C'')]"
proof -
  have "filter (\<lambda>(name, v). let n = to_ascii_uppercase (id name) in
      n \<in> set essential_child_process_env_vars \<or> prefix ''LC_'' n) sample_variables = [(''Path'', ''/bin''), (''lc_all'', ''C'')]"
    by code_simp
  then show ?thesis using child_environment_is_allow_listed [of id sample_variables] by simp
qed

end
