(* ===== verification/Work_Types.thy ===== *)
theory Work_Types
  imports Payload_Templates Fnv_Hash "HOL-Library.Product_Lexorder"
begin

text \<open>
  The types of the work-unit queue (crates/contracts/src/work_types.rs) and the arithmetic of its
  leases and retries (crates/app/src/work/repository.rs): kinds, sources, priorities, statuses,
  retry policies, records and their leases. An \<open>i64\<close> is an integer, with saturation written out.
\<close>

section \<open>Enumerations\<close>

datatype work_kind = Feature | Issue | Review | Ops

primrec work_kind_as_str :: "work_kind \<Rightarrow> string" where
  "work_kind_as_str Feature = ''feature''"
| "work_kind_as_str Issue = ''issue''"
| "work_kind_as_str Review = ''review''"
| "work_kind_as_str Ops = ''ops''"

definition work_kind_parse :: "string \<Rightarrow> work_kind option" where
  "work_kind_parse raw =
     map_of [(''feature'', Feature), (''issue'', Issue), (''review'', Review), (''ops'', Ops)]
       (to_ascii_lowercase (trim raw))"

datatype work_source_kind = Manual | Discord | Github

primrec work_source_kind_as_str :: "work_source_kind \<Rightarrow> string" where
  "work_source_kind_as_str Manual = ''manual''"
| "work_source_kind_as_str Discord = ''discord''"
| "work_source_kind_as_str Github = ''github''"

definition work_source_kind_parse :: "string \<Rightarrow> work_source_kind option" where
  "work_source_kind_parse raw =
     map_of [(''manual'', Manual), (''discord'', Discord), (''github'', Github)] (to_ascii_lowercase (trim raw))"

datatype work_priority = Low | Normal | High | Critical

primrec work_priority_as_str :: "work_priority \<Rightarrow> string" where
  "work_priority_as_str Low = ''low''"
| "work_priority_as_str Normal = ''normal''"
| "work_priority_as_str High = ''high''"
| "work_priority_as_str Critical = ''critical''"

definition work_priority_parse :: "string \<Rightarrow> work_priority option" where
  "work_priority_parse raw =
     map_of [(''low'', Low), (''normal'', Normal), (''high'', High), (''critical'', Critical)]
       (to_ascii_lowercase (trim raw))"

primrec work_priority_rank :: "work_priority \<Rightarrow> int" where
  "work_priority_rank Low = 1"
| "work_priority_rank Normal = 2"
| "work_priority_rank High = 3"
| "work_priority_rank Critical = 4"

datatype work_status =
    Captured | Triaged | Ready | Leased | Running | WaitingExternal | WaitingReview | RetryPending
  | Completed | FailedTerminal | Cancelled | Archived

primrec work_status_as_str :: "work_status \<Rightarrow> string" where
  "work_status_as_str Captured = ''captured''"
| "work_status_as_str Triaged = ''triaged''"
| "work_status_as_str Ready = ''ready''"
| "work_status_as_str Leased = ''leased''"
| "work_status_as_str Running = ''running''"
| "work_status_as_str WaitingExternal = ''waiting_external''"
| "work_status_as_str WaitingReview = ''waiting_review''"
| "work_status_as_str RetryPending = ''retry_pending''"
| "work_status_as_str Completed = ''completed''"
| "work_status_as_str FailedTerminal = ''failed_terminal''"
| "work_status_as_str Cancelled = ''cancelled''"
| "work_status_as_str Archived = ''archived''"

definition work_status_parse :: "string \<Rightarrow> work_status option" where
  "work_status_parse raw =
     map_of [(''captured'', Captured), (''triaged'', Triaged), (''ready'', Ready), (''leased'', Leased),
       (''running'', Running), (''waiting_external'', WaitingExternal), (''waiting_review'', WaitingReview),
       (''retry_pending'', RetryPending), (''completed'', Completed), (''failed_terminal'', FailedTerminal),
       (''cancelled'', Cancelled), (''archived'', Archived)]
       (to_ascii_lowercase (trim raw))"

definition work_is_terminal :: "work_status \<Rightarrow> bool" where
  "work_is_terminal s \<longleftrightarrow> s \<in> {Completed, FailedTerminal, Cancelled, Archived}"

definition work_is_ready_for_lease :: "work_status \<Rightarrow> bool" where
  "work_is_ready_for_lease s \<longleftrightarrow> s \<in> {Ready, RetryPending}"

definition work_is_blocked :: "work_status \<Rightarrow> bool" where
  "work_is_blocked s \<longleftrightarrow> s \<in> {WaitingExternal, WaitingReview}"

lemma work_kind_round_trip [simp]: "work_kind_parse (work_kind_as_str k) = Some k"
  by (induction k) (code_simp+)

lemma work_source_kind_round_trip [simp]: "work_source_kind_parse (work_source_kind_as_str k) = Some k"
  by (induction k) (code_simp+)

lemma work_priority_round_trip [simp]: "work_priority_parse (work_priority_as_str p) = Some p"
  by (induction p) (code_simp+)

lemma work_status_round_trip [simp]: "work_status_parse (work_status_as_str s) = Some s"
  by (induction s) (code_simp+)

lemma status_str_eq [simp]: "work_status_as_str s = work_status_as_str t \<longleftrightarrow> s = t"
  by (metis work_status_round_trip option.inject)

lemma priority_str_eq [simp]: "work_priority_as_str p = work_priority_as_str q \<longleftrightarrow> p = q"
  by (metis work_priority_round_trip option.inject)

section \<open>Records\<close>

type_synonym i64 = int

record work_source_ref =
  wsr_source_kind :: work_source_kind
  wsr_project_id :: "string option"
  wsr_channel_id :: "string option"
  wsr_thread_id :: "string option"
  wsr_message_id :: "string option"
  wsr_external_ref :: "string option"
  wsr_source_url :: "string option"

definition work_source_ref_default :: work_source_ref where
  "work_source_ref_default =
     \<lparr>wsr_source_kind = Manual, wsr_project_id = None, wsr_channel_id = None, wsr_thread_id = None,
      wsr_message_id = None, wsr_external_ref = None, wsr_source_url = None\<rparr>"

record work_retry_policy =
  wrp_max_attempts :: u32
  wrp_initial_backoff_ms :: u64
  wrp_max_backoff_ms :: u64

definition work_retry_policy_default :: work_retry_policy where
  "work_retry_policy_default =
     \<lparr>wrp_max_attempts = 3, wrp_initial_backoff_ms = 1000, wrp_max_backoff_ms = 60000\<rparr>"

record 'n work_unit_record =
  wu_work_unit_id :: string
  wu_kind :: work_kind
  wu_title :: string
  wu_description :: string
  wu_source_ref :: work_source_ref
  wu_status :: work_status
  wu_priority :: work_priority
  wu_assigned_to :: "string option"
  wu_retry_policy :: work_retry_policy
  wu_attempt_count :: u32
  wu_next_run_at_ms :: i64
  wu_last_error :: "string option"
  wu_blocking_reason :: "string option"
  wu_parent_work_unit_id :: "string option"
  wu_blocks_work_unit_ids :: "string list"
  wu_blocked_by_work_unit_ids :: "string list"
  wu_result_payload_json :: "'n json option"
  wu_created_at_ms :: i64
  wu_updated_at_ms :: i64
  wu_archived_at_ms :: "i64 option"

record work_lease =
  wl_work_unit_id :: string
  wl_owner :: string
  wl_lease_version :: u64
  wl_acquired_at_ms :: i64
  wl_heartbeat_at_ms :: i64
  wl_expires_at_ms :: i64

record 'n work_snapshot =
  ws_work_unit :: "'n work_unit_record"
  ws_lease :: "work_lease option"

record 'n work_event =
  we_sequence_id :: i64
  we_work_unit_id :: string
  we_event_kind :: string
  we_actor :: "string option"
  we_payload_json :: "'n json"
  we_recorded_at_ms :: i64

record work_health =
  wh_total_count :: usize
  wh_ready_count :: usize
  wh_leased_count :: usize
  wh_running_count :: usize
  wh_blocked_count :: usize
  wh_retry_pending_count :: usize
  wh_terminal_count :: usize
  wh_archived_count :: usize
  wh_expired_lease_count :: usize

section \<open>Texts\<close>

definition normalize_required_text :: "string \<Rightarrow> string \<Rightarrow> string + string" where
  "normalize_required_text v field_name =
     (if trim v = [] then Inl (''work unit repository requires '' @ field_name) else Inr (trim v))"

definition normalize_optional_text :: "string option \<Rightarrow> string option" where
  "normalize_optional_text v = Option.bind v (\<lambda>raw. if trim raw = [] then None else Some (trim raw))"

definition normalize_source_ref :: "work_source_ref \<Rightarrow> work_source_ref" where
  "normalize_source_ref s =
     \<lparr>wsr_source_kind = wsr_source_kind s,
      wsr_project_id = normalize_optional_text (wsr_project_id s),
      wsr_channel_id = normalize_optional_text (wsr_channel_id s),
      wsr_thread_id = normalize_optional_text (wsr_thread_id s),
      wsr_message_id = normalize_optional_text (wsr_message_id s),
      wsr_external_ref = normalize_optional_text (wsr_external_ref s),
      wsr_source_url = normalize_optional_text (wsr_source_url s)\<rparr>"

definition normalize_limit :: "usize \<Rightarrow> string + usize" where
  "normalize_limit limit = (if limit = 0 then Inl ''work unit repository requires limit >= 1'' else Inr limit)"

section \<open>Validation\<close>

definition validate_initial_status :: "work_status \<Rightarrow> string + unit" where
  "validate_initial_status s =
     (if s \<notin> {Captured, Triaged, Ready, WaitingExternal, WaitingReview, RetryPending}
      then Inl (''work unit repository does not allow initial status `'' @ work_status_as_str s @ ''`'')
      else Inr ())"

definition validate_manual_update_status :: "work_status \<Rightarrow> work_status \<Rightarrow> string + unit" where
  "validate_manual_update_status current_status next_status =
     (if next_status \<notin> {Captured, Triaged, Ready, WaitingExternal, WaitingReview, RetryPending, Cancelled}
      then Inl (''manual work unit update does not allow target status `'' @ work_status_as_str next_status @ ''`'')
      else if current_status \<notin> {Captured, Triaged, Ready, WaitingExternal, WaitingReview, RetryPending, Cancelled}
      then Inl (''manual work unit update cannot change status from `'' @ work_status_as_str current_status @ ''`'')
      else Inr ())"

definition validate_work_retry_policy :: "work_retry_policy \<Rightarrow> string + unit" where
  "validate_work_retry_policy p =
     (if wrp_max_attempts p = 0 then Inl ''work unit retry policy requires max_attempts >= 1''
      else if wrp_initial_backoff_ms p = 0 then Inl ''work unit retry policy requires initial_backoff_ms >= 1''
      else if wrp_max_backoff_ms p < wrp_initial_backoff_ms p
      then Inl ''work unit retry policy requires max_backoff_ms >= initial_backoff_ms''
      else Inr ())"

definition validate_ttl_ms :: "u64 \<Rightarrow> string + unit" where
  "validate_ttl_ms ttl =
     (if ttl = 0 then Inl ''work unit lease ttl_ms must be greater than zero'' else Inr ())"

definition validate_dependency_endpoints :: "string \<Rightarrow> string \<Rightarrow> string + unit" where
  "validate_dependency_endpoints blocking blocked =
     (if blocking = blocked then Inl ''work unit dependency cannot target the same work unit'' else Inr ())"

section \<open>Delays\<close>

definition i64_max :: i64 where
  "i64_max = 2 ^ 63 - 1"

definition i64_min :: i64 where
  "i64_min = - (2 ^ 63)"

definition i64_saturating_add :: "i64 \<Rightarrow> i64 \<Rightarrow> i64" where
  "i64_saturating_add a b = max i64_min (min (a + b) i64_max)"

text \<open>The message of \<open>TryFromIntError\<close>.\<close>

definition out_of_range :: string where
  "out_of_range = ''out of range integral type conversion attempted''"

definition add_delay_ms :: "i64 \<Rightarrow> u64 \<Rightarrow> string + i64" where
  "add_delay_ms base_ms delay_ms =
     (if uint delay_ms > i64_max then Inl (''delay_ms overflowed i64: '' @ out_of_range)
      else Inr (i64_saturating_add base_ms (uint delay_ms)))"

text \<open>The loop of \<open>compute_retry_delay_ms\<close> over its \<open>remaining_steps\<close>.\<close>

fun retry_delay_loop :: "u64 \<Rightarrow> nat \<Rightarrow> u64 \<Rightarrow> u64" where
  "retry_delay_loop max_backoff 0 delay = delay"
| "retry_delay_loop max_backoff (Suc n) delay =
     retry_delay_loop max_backoff n (min (u64_saturating_mul delay 2) max_backoff)"

definition compute_retry_delay_ms :: "work_retry_policy \<Rightarrow> u32 \<Rightarrow> string + u64" where
  "compute_retry_delay_ms p attempt_count =
     try_bind (validate_work_retry_policy p) (\<lambda>_.
       Inr (retry_delay_loop (wrp_max_backoff_ms p) (unat attempt_count - 1) (wrp_initial_backoff_ms p)))"

definition u32_from_i64 :: "string \<Rightarrow> i64 \<Rightarrow> string + u32" where
  "u32_from_i64 label v =
     (if 0 \<le> v \<and> v < 2 ^ 32 then Inr (of_int v) else Inl (label @ '' overflowed u32: '' @ out_of_range))"

definition u64_from_i64 :: "string \<Rightarrow> i64 \<Rightarrow> string + u64" where
  "u64_from_i64 label v =
     (if 0 \<le> v then Inr (of_int v) else Inl (label @ '' overflowed u64: '' @ out_of_range))"

end
