(* ===== verification/Work_Store.thy ===== *)
theory Work_Store
  imports Work_Types
begin

text \<open>
  The tables of the work-unit repository and the SQL statements it runs on them
  (crates/app/src/work/repository.rs). The three tables are lists of rows; a \<open>SELECT\<close>, \<open>INSERT\<close>,
  \<open>UPDATE\<close> or \<open>DELETE\<close> is the list operation its text describes. SQLite itself is an argument: it may
  fail any statement, named by the message the code wraps the error in and by the row it is about.
  A failure rolls the transaction back. The JSON columns keep their texts; serde is an argument too.
\<close>

section \<open>Libraries and environment\<close>

record 'n work_codec =
  wc_number :: "int \<Rightarrow> 'n"
  wc_encode_source_ref :: "work_source_ref \<Rightarrow> string + string"
  wc_decode_source_ref :: "string \<Rightarrow> string + work_source_ref"
  wc_encode_retry_policy :: "work_retry_policy \<Rightarrow> string + string"
  wc_decode_retry_policy :: "string \<Rightarrow> string + work_retry_policy"
  wc_encode_value :: "'n json \<Rightarrow> string + string"
  wc_decode_value :: "string \<Rightarrow> string + 'n json"

record work_env =
  we_since_epoch_ms :: "nat option"
  we_random :: u64
  we_fault :: "string \<Rightarrow> string \<Rightarrow> string option"
  we_unique_violation :: string

definition current_unix_ms :: "work_env \<Rightarrow> i64" where
  "current_unix_ms E =
     (case we_since_epoch_ms E of
        None \<Rightarrow> 0
      | Some millis \<Rightarrow> if int millis \<le> i64_max then int millis else i64_max)"

definition now_or_clock :: "work_env \<Rightarrow> i64 option \<Rightarrow> i64" where
  "now_or_clock E now_ms = (case now_ms of Some t \<Rightarrow> t | None \<Rightarrow> current_unix_ms E)"

definition generate_work_unit_id :: "work_env \<Rightarrow> string" where
  "generate_work_unit_id E = ''wu-'' @ hex16 (we_random E)"

definition encode_json :: "('a \<Rightarrow> string + string) \<Rightarrow> 'a \<Rightarrow> string \<Rightarrow> string + string" where
  "encode_json encode v label = map_err (\<lambda>e. ''encode '' @ label @ '' failed: '' @ e) (encode v)"

definition decode_json :: "(string \<Rightarrow> string + 'a) \<Rightarrow> string \<Rightarrow> string \<Rightarrow> string + 'a" where
  "decode_json decode raw label = map_err (\<lambda>e. ''decode '' @ label @ '' failed: '' @ e) (decode raw)"

text \<open>A statement, and several in a row.\<close>

definition sql :: "work_env \<Rightarrow> string \<Rightarrow> string \<Rightarrow> string + unit" where
  "sql E label key = (case we_fault E label key of Some e \<Rightarrow> Inl (label @ '': '' @ e) | None \<Rightarrow> Inr ())"

definition sql_all :: "work_env \<Rightarrow> string list \<Rightarrow> string \<Rightarrow> string + unit" where
  "sql_all E labels key = try_all (\<lambda>label. sql E label key) labels"

section \<open>Tables\<close>

record work_columns =
  wk_work_unit_id :: string
  wk_kind :: string
  wk_title :: string
  wk_description :: string
  wk_source_ref_json :: string
  wk_status :: string
  wk_priority :: string
  wk_retry_policy_json :: string
  wk_attempt_count :: i64
  wk_next_run_at_ms :: i64
  wk_last_error :: "string option"
  wk_blocking_reason :: "string option"
  wk_parent_work_unit_id :: "string option"
  wk_assigned_to :: "string option"
  wk_result_payload_json :: "string option"
  wk_lease_owner :: "string option"
  wk_lease_version :: i64
  wk_lease_acquired_at_ms :: "i64 option"
  wk_lease_heartbeat_at_ms :: "i64 option"
  wk_lease_expires_at_ms :: "i64 option"
  wk_created_at_ms :: i64
  wk_updated_at_ms :: i64
  wk_archived_at_ms :: "i64 option"

record work_row = work_columns +
  wk_priority_rank :: i64

record raw_work_unit = work_columns +
  rw_blocks_work_unit_ids :: "string list"
  rw_blocked_by_work_unit_ids :: "string list"

record dependency_row =
  dr_blocking :: string
  dr_blocked :: string
  dr_created_at_ms :: i64
  dr_created_by :: "string option"

record event_row =
  er_id :: i64
  er_work_unit_id :: string
  er_event_kind :: string
  er_actor :: "string option"
  er_payload_json :: string
  er_recorded_at_ms :: i64

record work_db =
  db_units :: "work_row list"
  db_dependencies :: "dependency_row list"
  db_events :: "event_row list"
  db_next_event_id :: i64

definition empty_work_db :: work_db where
  "empty_work_db = \<lparr>db_units = [], db_dependencies = [], db_events = [], db_next_event_id = 1\<rparr>"

text \<open>\<open>UPDATE work_units SET .. WHERE ..\<close>\<close>

definition update_units :: "(work_row \<Rightarrow> bool) \<Rightarrow> (work_row \<Rightarrow> work_row) \<Rightarrow> work_db \<Rightarrow> work_db" where
  "update_units selects change db =
     db\<lparr>db_units := map (\<lambda>r. if selects r then change r else r) (db_units db)\<rparr>"

section \<open>Reading rows\<close>

definition load_blocked_work_unit_ids :: "work_env \<Rightarrow> work_db \<Rightarrow> string \<Rightarrow> string + string list" where
  "load_blocked_work_unit_ids E db i =
     try_bind (sql_all E [''prepare blocked work unit query failed'', ''query blocked work units failed'',
         ''decode blocked work unit row failed''] i) (\<lambda>_.
       Inr (sort (map dr_blocked (filter (\<lambda>d. dr_blocking d = i) (db_dependencies db)))))"

definition load_blocking_work_unit_ids :: "work_env \<Rightarrow> work_db \<Rightarrow> string \<Rightarrow> string + string list" where
  "load_blocking_work_unit_ids E db i =
     try_bind (sql_all E [''prepare blocking work unit query failed'', ''query blocking work units failed'',
         ''decode blocking work unit row failed''] i) (\<lambda>_.
       Inr (sort (map dr_blocking (filter (\<lambda>d. dr_blocked d = i) (db_dependencies db)))))"

definition hydrate_raw_work_unit :: "work_env \<Rightarrow> work_db \<Rightarrow> work_row \<Rightarrow> string + raw_work_unit" where
  "hydrate_raw_work_unit E db r =
     try_bind (load_blocked_work_unit_ids E db (wk_work_unit_id r)) (\<lambda>blocks.
     try_bind (load_blocking_work_unit_ids E db (wk_work_unit_id r)) (\<lambda>blocked_by.
       Inr (work_columns.extend (work_columns.truncate r)
         (raw_work_unit.fields blocks blocked_by))))"

definition load_raw_work_unit :: "work_env \<Rightarrow> work_db \<Rightarrow> string \<Rightarrow> string + raw_work_unit option" where
  "load_raw_work_unit E db i =
     try_bind (sql E ''load work unit row failed'' i) (\<lambda>_.
       case find (\<lambda>r. wk_work_unit_id r = i) (db_units db) of
         None \<Rightarrow> Inr None
       | Some r \<Rightarrow> try_bind (hydrate_raw_work_unit E db r) (\<lambda>raw. Inr (Some raw)))"

fun hydrate_all :: "work_env \<Rightarrow> work_db \<Rightarrow> string \<Rightarrow> work_row list \<Rightarrow> string + raw_work_unit list" where
  "hydrate_all E db label [] = Inr []"
| "hydrate_all E db label (r # rs) =
     try_bind (sql E label (wk_work_unit_id r)) (\<lambda>_.
     try_bind (hydrate_raw_work_unit E db r) (\<lambda>raw.
     try_bind (hydrate_all E db label rs) (\<lambda>raws. Inr (raw # raws))))"

definition list_key :: "work_row \<Rightarrow> i64 \<times> i64 \<times> i64 \<times> string" where
  "list_key r = (- wk_priority_rank r, wk_next_run_at_ms r, - wk_updated_at_ms r, wk_work_unit_id r)"

definition load_raw_work_units_with_query ::
  "work_env \<Rightarrow> work_db \<Rightarrow> work_status option \<Rightarrow> bool \<Rightarrow> usize \<Rightarrow> string + raw_work_unit list" where
  "load_raw_work_units_with_query E db status include_archived limit =
     (if int limit > i64_max then Inl (''list limit overflowed i64: '' @ out_of_range)
      else
        try_bind (sql_all E [''prepare work unit list query failed'', ''query work unit list failed''] []) (\<lambda>_.
          hydrate_all E db ''decode work unit list row failed''
            (take limit (sort_key list_key (filter (\<lambda>r.
              (case status of Some s \<Rightarrow> wk_status r = work_status_as_str s | None \<Rightarrow> True) \<and>
              (include_archived \<or> wk_archived_at_ms r = None)) (db_units db))))))"

text \<open>The sub-query both the next-ready and the health statements use: a dependency on a unit that
  has not reached a terminal status.\<close>

definition has_open_blocker :: "work_db \<Rightarrow> string \<Rightarrow> bool" where
  "has_open_blocker db i \<longleftrightarrow>
     list_ex (\<lambda>d. dr_blocked d = i \<and>
       list_ex (\<lambda>b. wk_work_unit_id b = dr_blocking d \<and>
         wk_status b \<notin> {''completed'', ''failed_terminal'', ''cancelled'', ''archived''}) (db_units db))
       (db_dependencies db)"

definition next_ready_key :: "work_row \<Rightarrow> i64 \<times> i64 \<times> i64 \<times> string" where
  "next_ready_key r = (- wk_priority_rank r, wk_next_run_at_ms r, wk_updated_at_ms r, wk_work_unit_id r)"

definition ready_at :: "i64 \<Rightarrow> work_row \<Rightarrow> bool" where
  "ready_at now r \<longleftrightarrow>
     wk_status r \<in> {''ready'', ''retry_pending''} \<and> wk_archived_at_ms r = None \<and> wk_next_run_at_ms r \<le> now \<and>
     (case wk_lease_expires_at_ms r of None \<Rightarrow> True | Some t \<Rightarrow> t \<le> now)"

definition select_next_ready_raw_work_unit :: "work_env \<Rightarrow> work_db \<Rightarrow> i64 \<Rightarrow> string + raw_work_unit option" where
  "select_next_ready_raw_work_unit E db now =
     try_bind (sql_all E [''prepare next ready work unit query failed'', ''query next ready work unit failed''] []) (\<lambda>_.
       case sort_key next_ready_key
           (filter (\<lambda>r. ready_at now r \<and> \<not> has_open_blocker db (wk_work_unit_id r)) (db_units db)) of
         [] \<Rightarrow> Inr None
       | r # _ \<Rightarrow> try_bind (hydrate_raw_work_unit E db r) (\<lambda>raw. Inr (Some raw)))"

definition lease_expired_at :: "i64 \<Rightarrow> work_row \<Rightarrow> bool" where
  "lease_expired_at now r \<longleftrightarrow>
     wk_status r \<in> {''leased'', ''running''} \<and>
     (case wk_lease_expires_at_ms r of None \<Rightarrow> False | Some t \<Rightarrow> t < now)"

definition expired_key :: "work_row \<Rightarrow> i64 \<times> string" where
  "expired_key r = (case wk_lease_expires_at_ms r of Some t \<Rightarrow> t | None \<Rightarrow> 0, wk_work_unit_id r)"

definition load_expired_raw_work_units :: "work_env \<Rightarrow> work_db \<Rightarrow> i64 \<Rightarrow> string + raw_work_unit list" where
  "load_expired_raw_work_units E db now =
     try_bind (sql_all E [''prepare expired work unit query failed'', ''query expired work units failed''] []) (\<lambda>_.
       hydrate_all E db ''decode expired work unit row failed''
         (sort_key expired_key (filter (lease_expired_at now) (db_units db))))"

section \<open>Small statements\<close>

definition insert_event ::
  "'n work_codec \<Rightarrow> work_env \<Rightarrow> string \<Rightarrow> string \<Rightarrow> string option \<Rightarrow> 'n json \<Rightarrow> i64 \<Rightarrow> work_db
    \<Rightarrow> string + 'n work_event \<times> work_db" where
  "insert_event J E i event_kind actor payload recorded_at_ms db =
     try_bind (encode_json (wc_encode_value J) payload ''work unit event payload'') (\<lambda>encoded_payload.
     try_bind (sql E ''insert work unit event failed'' i) (\<lambda>_.
       Inr (\<lparr>we_sequence_id = db_next_event_id db, we_work_unit_id = i, we_event_kind = event_kind,
             we_actor = actor, we_payload_json = payload, we_recorded_at_ms = recorded_at_ms\<rparr>,
            db\<lparr>db_events := db_events db @
                 [\<lparr>er_id = db_next_event_id db, er_work_unit_id = i, er_event_kind = event_kind,
                   er_actor = actor, er_payload_json = encoded_payload, er_recorded_at_ms = recorded_at_ms\<rparr>],
               db_next_event_id := db_next_event_id db + 1\<rparr>)))"

definition ensure_work_unit_exists :: "work_env \<Rightarrow> work_db \<Rightarrow> string \<Rightarrow> string + unit" where
  "ensure_work_unit_exists E db i =
     try_bind (sql E ''check work unit existence failed'' i) (\<lambda>_.
       if list_ex (\<lambda>r. wk_work_unit_id r = i) (db_units db) then Inr ()
       else Inl (''work unit `'' @ i @ ''` not found''))"

definition touch_work_unit :: "work_env \<Rightarrow> string \<Rightarrow> i64 \<Rightarrow> work_db \<Rightarrow> string + work_db" where
  "touch_work_unit E i now db =
     try_bind (sql E ''touch work unit failed'' i) (\<lambda>_.
       Inr (update_units (\<lambda>r. wk_work_unit_id r = i) (\<lambda>r. r\<lparr>wk_updated_at_ms := now\<rparr>) db))"

text \<open>
  The recursive query of the cycle check. SQLite takes one row after the other from a queue, adds
  the rows of the recursive part that it has not seen, and ends when the queue is empty.
\<close>

definition blocked_by :: "dependency_row list \<Rightarrow> string \<Rightarrow> string list" where
  "blocked_by ds i = map dr_blocked (filter (\<lambda>d. dr_blocking d = i) ds)"

definition unseen :: "string list \<Rightarrow> string list \<Rightarrow> string list" where
  "unseen seen rows = remdups (filter (\<lambda>i. i \<notin> set seen) rows)"

function dependency_chain :: "dependency_row list \<Rightarrow> string list \<Rightarrow> string list \<Rightarrow> string list" where
  "dependency_chain ds [] seen = seen"
| "dependency_chain ds (i # queue) seen =
     (let new = unseen seen (blocked_by ds i) in dependency_chain ds (queue @ new) (seen @ new))"
  by pat_completeness auto

definition chain_rest :: "dependency_row list \<Rightarrow> string list \<Rightarrow> nat" where
  "chain_rest ds seen = card (dr_blocked ` set ds - set seen)"

lemma chain_rest_new:
  "unseen seen (blocked_by ds i) \<noteq> [] \<Longrightarrow>
    chain_rest ds (seen @ unseen seen (blocked_by ds i)) < chain_rest ds seen"
proof -
  assume "unseen seen (blocked_by ds i) \<noteq> []"
  then obtain x where x: "x \<in> set (unseen seen (blocked_by ds i))" by (meson last_in_set)
  then have "x \<in> dr_blocked ` set ds - set seen" by (auto simp: unseen_def blocked_by_def)
  with x show ?thesis
    unfolding chain_rest_def by (intro psubset_card_mono) auto
qed

termination dependency_chain
proof (relation "measures [\<lambda>(ds, queue, seen). chain_rest ds seen, \<lambda>(ds, queue, seen). length queue]")
  fix ds i queue seen new
  assume "new = unseen seen (blocked_by ds i)"
  then show "((ds, queue @ new, seen @ new), (ds, i # queue, seen))
      \<in> measures [\<lambda>(ds, queue, seen). chain_rest ds seen, \<lambda>(ds, queue, seen). length queue]"
    using chain_rest_new [of seen ds i] by (cases "new = []") simp_all
qed simp

definition would_create_dependency_cycle :: "work_env \<Rightarrow> work_db \<Rightarrow> string \<Rightarrow> string \<Rightarrow> string + bool" where
  "would_create_dependency_cycle E db blocking blocked =
     try_bind (sql_all E [''prepare dependency cycle query failed'', ''query dependency cycle failed''] blocked) (\<lambda>_.
       let first = remdups (blocked_by (db_dependencies db) blocked)
       in Inr (blocking \<in> set (dependency_chain (db_dependencies db) first first)))"

section \<open>From rows to snapshots\<close>

definition build_lease_record :: "raw_work_unit \<Rightarrow> string + work_lease option" where
  "build_lease_record raw =
     (case wk_lease_owner raw of
        None \<Rightarrow> Inr None
      | Some owner \<Rightarrow>
          try_bind (u64_from_i64 ''lease_version'' (wk_lease_version raw)) (\<lambda>version.
          case wk_lease_acquired_at_ms raw of
            None \<Rightarrow> Inl ''lease_owner set without lease_acquired_at_ms''
          | Some acquired \<Rightarrow>
              (case wk_lease_heartbeat_at_ms raw of
                 None \<Rightarrow> Inl ''lease_owner set without lease_heartbeat_at_ms''
               | Some heartbeat \<Rightarrow>
                   (case wk_lease_expires_at_ms raw of
                      None \<Rightarrow> Inl ''lease_owner set without lease_expires_at_ms''
                    | Some expires \<Rightarrow>
                        Inr (Some \<lparr>wl_work_unit_id = wk_work_unit_id raw, wl_owner = owner,
                          wl_lease_version = version, wl_acquired_at_ms = acquired,
                          wl_heartbeat_at_ms = heartbeat, wl_expires_at_ms = expires\<rparr>)))))"

definition ok_or :: "'e \<Rightarrow> 'a option \<Rightarrow> 'e + 'a" where
  "ok_or e x = (case x of Some y \<Rightarrow> Inr y | None \<Rightarrow> Inl e)"

definition decode_result_payload :: "'n work_codec \<Rightarrow> string option \<Rightarrow> string + 'n json option" where
  "decode_result_payload J raw =
     (case raw of
        None \<Rightarrow> Inr None
      | Some text \<Rightarrow>
          try_bind (decode_json (wc_decode_value J) text ''result_payload'') (\<lambda>v. Inr (Some v)))"

definition try_work_unit_snapshot :: "'n work_codec \<Rightarrow> raw_work_unit \<Rightarrow> string + 'n work_snapshot" where
  "try_work_unit_snapshot J raw =
     try_bind (ok_or (''unknown work unit kind `'' @ wk_kind raw @ ''`'') (work_kind_parse (wk_kind raw))) (\<lambda>kind.
     try_bind (ok_or (''unknown work unit status `'' @ wk_status raw @ ''`'') (work_status_parse (wk_status raw))) (\<lambda>status.
     try_bind (ok_or (''unknown work unit priority `'' @ wk_priority raw @ ''`'')
       (work_priority_parse (wk_priority raw))) (\<lambda>priority.
     try_bind (decode_json (wc_decode_source_ref J) (wk_source_ref_json raw) ''source_ref'') (\<lambda>source_ref.
     try_bind (decode_json (wc_decode_retry_policy J) (wk_retry_policy_json raw) ''retry_policy'') (\<lambda>retry_policy.
     try_bind (u32_from_i64 ''attempt_count'' (wk_attempt_count raw)) (\<lambda>attempt_count.
     try_bind (decode_result_payload J (wk_result_payload_json raw)) (\<lambda>result_payload.
     try_bind (build_lease_record raw) (\<lambda>lease.
       Inr \<lparr>ws_work_unit =
              \<lparr>wu_work_unit_id = wk_work_unit_id raw, wu_kind = kind, wu_title = wk_title raw,
               wu_description = wk_description raw, wu_source_ref = source_ref, wu_status = status,
               wu_priority = priority, wu_assigned_to = wk_assigned_to raw, wu_retry_policy = retry_policy,
               wu_attempt_count = attempt_count, wu_next_run_at_ms = wk_next_run_at_ms raw,
               wu_last_error = wk_last_error raw, wu_blocking_reason = wk_blocking_reason raw,
               wu_parent_work_unit_id = wk_parent_work_unit_id raw,
               wu_blocks_work_unit_ids = rw_blocks_work_unit_ids raw,
               wu_blocked_by_work_unit_ids = rw_blocked_by_work_unit_ids raw,
               wu_result_payload_json = result_payload, wu_created_at_ms = wk_created_at_ms raw,
               wu_updated_at_ms = wk_updated_at_ms raw, wu_archived_at_ms = wk_archived_at_ms raw\<rparr>,
            ws_lease = lease\<rparr>))))))))"

definition open_connection :: "work_env \<Rightarrow> string \<Rightarrow> string + unit" where
  "open_connection E key = sql E ''open work unit repository sqlite db failed'' key"

definition load_work_unit_snapshot ::
  "'n work_codec \<Rightarrow> work_env \<Rightarrow> work_db \<Rightarrow> string \<Rightarrow> string + 'n work_snapshot option" where
  "load_work_unit_snapshot J E db raw_id =
     try_bind (normalize_required_text raw_id ''work_unit_id'') (\<lambda>i.
     try_bind (open_connection E i) (\<lambda>_.
     try_bind (load_raw_work_unit E db i) (\<lambda>raw.
       case raw of
         None \<Rightarrow> Inr None
       | Some r \<Rightarrow> try_bind (try_work_unit_snapshot J r) (\<lambda>s. Inr (Some s)))))"

end
