(* ===== verification/Work_Repository.thy ===== *)
theory Work_Repository
  imports Work_Store
begin

text \<open>
  The operations of \<open>WorkUnitRepository\<close> (crates/app/src/work/repository.rs). Each one validates its
  request, runs one transaction and reads the changed unit back. A transaction is a function from the
  database to an error or a result with the new database; an error or an early return leaves the
  database as it was.
\<close>

definition transact :: "string + ('a \<times> work_db) \<Rightarrow> work_db \<Rightarrow> (string + 'a) \<times> work_db" where
  "transact body db = (case body of Inl e \<Rightarrow> (Inl e, db) | Inr (x, db') \<Rightarrow> (Inr x, db'))"

text \<open>After the commit the unit is read again, over a connection of its own.\<close>

definition reload ::
  "'n work_codec \<Rightarrow> work_env \<Rightarrow> (string + string option) \<times> work_db
    \<Rightarrow> (string + 'n work_snapshot option) \<times> work_db" where
  "reload J E r = and_then r (\<lambda>changed db.
     case changed of None \<Rightarrow> (Inr None, db) | Some i \<Rightarrow> (load_work_unit_snapshot J E db i, db))"

text \<open>\<open>let x = ..?;\<close> before the transaction starts.\<close>

definition with_input :: "string + 'a \<Rightarrow> ('a \<Rightarrow> (string + 'b) \<times> work_db) \<Rightarrow> work_db \<Rightarrow> (string + 'b) \<times> work_db" where
  "with_input r f db = (case r of Inl e \<Rightarrow> (Inl e, db) | Inr x \<Rightarrow> f x)"

definition opt_json :: "('a \<Rightarrow> 'n json) \<Rightarrow> 'a option \<Rightarrow> 'n json" where
  "opt_json f x = (case x of None \<Rightarrow> JNull | Some y \<Rightarrow> f y)"

definition int_json :: "'n work_codec \<Rightarrow> int \<Rightarrow> 'n json" where
  "int_json J i = JNumber (wc_number J i)"

definition source_ref_json :: "work_source_ref \<Rightarrow> 'n json" where
  "source_ref_json s = json_object
     [(''source_kind'', JString (work_source_kind_as_str (wsr_source_kind s))),
      (''project_id'', opt_json JString (wsr_project_id s)), (''channel_id'', opt_json JString (wsr_channel_id s)),
      (''thread_id'', opt_json JString (wsr_thread_id s)), (''message_id'', opt_json JString (wsr_message_id s)),
      (''external_ref'', opt_json JString (wsr_external_ref s)), (''source_url'', opt_json JString (wsr_source_url s))]"

section \<open>Creating\<close>

record new_work_unit =
  nw_work_unit_id :: "string option"
  nw_kind :: work_kind
  nw_title :: string
  nw_description :: string
  nw_source_ref :: work_source_ref
  nw_status :: work_status
  nw_priority :: work_priority
  nw_retry_policy :: work_retry_policy
  nw_parent_work_unit_id :: "string option"
  nw_next_run_at_ms :: "i64 option"

definition insert_unit :: "work_env \<Rightarrow> work_row \<Rightarrow> work_db \<Rightarrow> string + work_db" where
  "insert_unit E r db =
     try_bind (sql E ''insert work unit row failed'' (wk_work_unit_id r)) (\<lambda>_.
       if list_ex (\<lambda>q. wk_work_unit_id q = wk_work_unit_id r) (db_units db)
       then Inl (''insert work unit row failed: '' @ we_unique_violation E)
       else Inr (db\<lparr>db_units := db_units db @ [r]\<rparr>))"

definition new_row ::
  "string \<Rightarrow> string \<Rightarrow> string \<Rightarrow> string \<Rightarrow> string \<Rightarrow> i64 \<Rightarrow> i64 \<Rightarrow> new_work_unit \<Rightarrow> work_row" where
  "new_row i title description source_ref_text retry_policy_text next_run_at_ms now_ms record =
     \<lparr>wk_work_unit_id = i, wk_kind = work_kind_as_str (nw_kind record), wk_title = title,
      wk_description = description, wk_source_ref_json = source_ref_text,
      wk_status = work_status_as_str (nw_status record), wk_priority = work_priority_as_str (nw_priority record),
      wk_retry_policy_json = retry_policy_text, wk_attempt_count = 0, wk_next_run_at_ms = next_run_at_ms,
      wk_last_error = None, wk_blocking_reason = None,
      wk_parent_work_unit_id = normalize_optional_text (nw_parent_work_unit_id record),
      wk_assigned_to = None, wk_result_payload_json = None, wk_lease_owner = None, wk_lease_version = 0,
      wk_lease_acquired_at_ms = None, wk_lease_heartbeat_at_ms = None, wk_lease_expires_at_ms = None,
      wk_created_at_ms = now_ms, wk_updated_at_ms = now_ms, wk_archived_at_ms = None,
      wk_priority_rank = work_priority_rank (nw_priority record)\<rparr>"

definition create_input ::
  "'n work_codec \<Rightarrow> work_env \<Rightarrow> new_work_unit \<Rightarrow> string + (work_source_ref \<times> work_row)" where
  "create_input J E record =
     try_bind (validate_initial_status (nw_status record)) (\<lambda>_.
     try_bind (validate_work_retry_policy (nw_retry_policy record)) (\<lambda>_.
     try_bind (case nw_work_unit_id record of
         None \<Rightarrow> Inr (generate_work_unit_id E)
       | Some v \<Rightarrow> normalize_required_text v ''work_unit_id'') (\<lambda>i.
     try_bind (normalize_required_text (nw_title record) ''title'') (\<lambda>title.
     try_bind (normalize_required_text (nw_description record) ''description'') (\<lambda>description.
     let source_ref = normalize_source_ref (nw_source_ref record) in
     try_bind (encode_json (wc_encode_source_ref J) source_ref ''source_ref'') (\<lambda>source_ref_text.
     try_bind (encode_json (wc_encode_retry_policy J) (nw_retry_policy record) ''retry_policy'') (\<lambda>retry_policy_text.
       Inr (source_ref, new_row i title description source_ref_text retry_policy_text
         (case nw_next_run_at_ms record of Some t \<Rightarrow> t | None \<Rightarrow> current_unix_ms E) (current_unix_ms E) record))))))))"

definition create_tx ::
  "'n work_codec \<Rightarrow> work_env \<Rightarrow> work_source_ref \<Rightarrow> work_row \<Rightarrow> string option \<Rightarrow> work_db
    \<Rightarrow> string + (unit \<times> work_db)" where
  "create_tx J E source_ref r actor db =
     try_bind (open_connection E []) (\<lambda>_.
     try_bind (sql E ''open work unit create transaction failed'' (wk_work_unit_id r)) (\<lambda>_.
     try_bind (insert_unit E r db) (\<lambda>db.
     try_bind (insert_event J E (wk_work_unit_id r) ''work_unit_created'' actor
       (json_object
         [(''kind'', JString (wk_kind r)), (''status'', JString (wk_status r)), (''priority'', JString (wk_priority r)),
          (''next_run_at_ms'', int_json J (wk_next_run_at_ms r)), (''source_ref'', source_ref_json source_ref)])
       (wk_created_at_ms r) db) (\<lambda>(_, db).
     try_bind (sql E ''commit work unit create transaction failed'' (wk_work_unit_id r)) (\<lambda>_. Inr ((), db))))))"

definition create_work_unit ::
  "'n work_codec \<Rightarrow> work_env \<Rightarrow> new_work_unit \<Rightarrow> string option \<Rightarrow> work_db
    \<Rightarrow> (string + 'n work_snapshot) \<times> work_db" where
  "create_work_unit J E record actor db =
     with_input (create_input J E record)
       (\<lambda>(source_ref, r).
         and_then (transact (create_tx J E source_ref r (normalize_optional_text actor) db) db) (\<lambda>_ db.
           (try_bind (load_work_unit_snapshot J E db (wk_work_unit_id r))
              (ok_or (''work unit `'' @ wk_work_unit_id r @ ''` disappeared after insert'')), db)))
       db"

section \<open>Leases\<close>

record acquire_request =
  aq_owner :: string
  aq_ttl_ms :: u64
  aq_actor :: "string option"
  aq_now_ms :: "i64 option"

definition acquire_tx ::
  "'n work_codec \<Rightarrow> work_env \<Rightarrow> string \<Rightarrow> u64 \<Rightarrow> string option \<Rightarrow> i64 \<Rightarrow> i64 \<Rightarrow> work_db
    \<Rightarrow> string + (string option \<times> work_db)" where
  "acquire_tx J E owner ttl_ms actor now expires db =
     try_bind (open_connection E []) (\<lambda>_.
     try_bind (sql E ''open work unit lease transaction failed'' []) (\<lambda>_.
     try_bind (select_next_ready_raw_work_unit E db now) (\<lambda>raw.
     case raw of
       None \<Rightarrow> Inr (None, db)
     | Some raw \<Rightarrow>
         let i = wk_work_unit_id raw; next_lease_version = wk_lease_version raw + 1 in
         try_bind (sql E ''update work unit lease state failed'' i) (\<lambda>_.
         try_bind (insert_event J E i ''work_unit_leased'' actor
           (json_object
             [(''owner'', JString owner), (''lease_version'', int_json J next_lease_version),
              (''previous_status'', JString (wk_status raw)), (''ttl_ms'', int_json J (uint ttl_ms)),
              (''expires_at_ms'', int_json J expires)]) now
           (update_units (\<lambda>r. wk_work_unit_id r = i \<and> ready_at now r)
             (\<lambda>r. r\<lparr>wk_status := work_status_as_str Leased, wk_attempt_count := wk_attempt_count r + 1,
               wk_lease_owner := Some owner, wk_lease_version := next_lease_version,
               wk_lease_acquired_at_ms := Some now, wk_lease_heartbeat_at_ms := Some now,
               wk_lease_expires_at_ms := Some expires, wk_updated_at_ms := now\<rparr>) db)) (\<lambda>(_, db).
         try_bind (sql E ''commit work unit lease transaction failed'' i) (\<lambda>_. Inr (Some i, db)))))))"

definition acquire_next_ready_lease ::
  "'n work_codec \<Rightarrow> work_env \<Rightarrow> acquire_request \<Rightarrow> work_db \<Rightarrow> (string + 'n work_snapshot option) \<times> work_db" where
  "acquire_next_ready_lease J E request db =
     with_input (
       try_bind (normalize_required_text (aq_owner request) ''owner'') (\<lambda>owner.
       try_bind (validate_ttl_ms (aq_ttl_ms request)) (\<lambda>_.
       try_bind (add_delay_ms (now_or_clock E (aq_now_ms request)) (aq_ttl_ms request)) (\<lambda>expires.
         Inr (owner, expires)))))
       (\<lambda>(owner, expires). reload J E (transact
         (acquire_tx J E owner (aq_ttl_ms request) (normalize_optional_text (aq_actor request))
           (now_or_clock E (aq_now_ms request)) expires db) db))
       db"

record start_request =
  sq_work_unit_id :: string
  sq_owner :: string
  sq_actor :: "string option"
  sq_now_ms :: "i64 option"

definition start_tx ::
  "'n work_codec \<Rightarrow> work_env \<Rightarrow> string \<Rightarrow> string \<Rightarrow> string option \<Rightarrow> i64 \<Rightarrow> work_db
    \<Rightarrow> string + (string option \<times> work_db)" where
  "start_tx J E i owner actor now db =
     try_bind (open_connection E []) (\<lambda>_.
     try_bind (sql E ''open work unit start transaction failed'' i) (\<lambda>_.
     try_bind (load_raw_work_unit E db i) (\<lambda>raw.
     case raw of
       None \<Rightarrow> Inr (None, db)
     | Some raw \<Rightarrow>
         if wk_status raw \<noteq> work_status_as_str Leased then Inr (None, db)
         else if wk_lease_owner raw \<noteq> Some owner then Inr (None, db)
         else
           try_bind (sql E ''mark work unit running failed'' i) (\<lambda>_.
           try_bind (insert_event J E i ''work_unit_started'' actor
             (json_object [(''owner'', JString owner), (''previous_status'', JString (wk_status raw))]) now
             (update_units (\<lambda>r. wk_work_unit_id r = i \<and> wk_status r = work_status_as_str Leased \<and>
                 wk_lease_owner r = Some owner)
               (\<lambda>r. r\<lparr>wk_status := work_status_as_str Running, wk_updated_at_ms := now\<rparr>) db)) (\<lambda>(_, db).
           try_bind (sql E ''commit work unit start transaction failed'' i) (\<lambda>_. Inr (Some i, db)))))))"

definition mark_leased_running ::
  "'n work_codec \<Rightarrow> work_env \<Rightarrow> start_request \<Rightarrow> work_db \<Rightarrow> (string + 'n work_snapshot option) \<times> work_db" where
  "mark_leased_running J E request db =
     with_input (
       try_bind (normalize_required_text (sq_work_unit_id request) ''work_unit_id'') (\<lambda>i.
       try_bind (normalize_required_text (sq_owner request) ''owner'') (\<lambda>owner. Inr (i, owner))))
       (\<lambda>(i, owner). reload J E (transact (start_tx J E i owner (normalize_optional_text (sq_actor request))
         (now_or_clock E (sq_now_ms request)) db) db))
       db"

record heartbeat_request =
  hq_work_unit_id :: string
  hq_owner :: string
  hq_ttl_ms :: u64
  hq_actor :: "string option"
  hq_now_ms :: "i64 option"

text \<open>What heartbeat and completion ask of the row, and their \<open>WHERE\<close> clause.\<close>

definition held_status :: "string \<Rightarrow> bool" where
  "held_status s \<longleftrightarrow> s = work_status_as_str Leased \<or> s = work_status_as_str Running"

definition held_by :: "string \<Rightarrow> string \<Rightarrow> work_row \<Rightarrow> bool" where
  "held_by i owner r \<longleftrightarrow>
     wk_work_unit_id r = i \<and> wk_lease_owner r = Some owner \<and> wk_status r \<in> {''leased'', ''running''}"

definition heartbeat_tx ::
  "'n work_codec \<Rightarrow> work_env \<Rightarrow> string \<Rightarrow> string \<Rightarrow> u64 \<Rightarrow> string option \<Rightarrow> i64 \<Rightarrow> i64 \<Rightarrow> work_db
    \<Rightarrow> string + (string option \<times> work_db)" where
  "heartbeat_tx J E i owner ttl_ms actor now expires db =
     try_bind (open_connection E []) (\<lambda>_.
     try_bind (sql E ''open work unit heartbeat transaction failed'' i) (\<lambda>_.
     try_bind (load_raw_work_unit E db i) (\<lambda>raw.
     case raw of
       None \<Rightarrow> Inr (None, db)
     | Some raw \<Rightarrow>
         if \<not> held_status (wk_status raw) then Inr (None, db)
         else if wk_lease_owner raw \<noteq> Some owner then Inr (None, db)
         else
           try_bind (sql E ''update work unit heartbeat failed'' i) (\<lambda>_.
           try_bind (insert_event J E i ''work_unit_heartbeat'' actor
             (json_object [(''owner'', JString owner), (''ttl_ms'', int_json J (uint ttl_ms)),
               (''expires_at_ms'', int_json J expires)]) now
             (update_units (held_by i owner)
               (\<lambda>r. r\<lparr>wk_lease_heartbeat_at_ms := Some now, wk_lease_expires_at_ms := Some expires,
                 wk_updated_at_ms := now\<rparr>) db)) (\<lambda>(_, db).
           try_bind (sql E ''commit work unit heartbeat transaction failed'' i) (\<lambda>_. Inr (Some i, db)))))))"

definition heartbeat_lease ::
  "'n work_codec \<Rightarrow> work_env \<Rightarrow> heartbeat_request \<Rightarrow> work_db \<Rightarrow> (string + 'n work_snapshot option) \<times> work_db" where
  "heartbeat_lease J E request db =
     with_input (
       try_bind (normalize_required_text (hq_work_unit_id request) ''work_unit_id'') (\<lambda>i.
       try_bind (normalize_required_text (hq_owner request) ''owner'') (\<lambda>owner.
       try_bind (validate_ttl_ms (hq_ttl_ms request)) (\<lambda>_.
       try_bind (add_delay_ms (now_or_clock E (hq_now_ms request)) (hq_ttl_ms request)) (\<lambda>expires.
         Inr (i, owner, expires))))))
       (\<lambda>(i, owner, expires). reload J E (transact
         (heartbeat_tx J E i owner (hq_ttl_ms request) (normalize_optional_text (hq_actor request))
           (now_or_clock E (hq_now_ms request)) expires db) db))
       db"

section \<open>Completion and recovery\<close>

datatype completion_disposition = DispCompleted | DispRetryPending | DispFailedTerminal | DispCancelled

record completion_resolution =
  cn_status :: work_status
  cn_next_run_at_ms :: i64
  cn_last_error :: "string option"
  cn_event_kind :: string

definition resolve_completion ::
  "completion_disposition \<Rightarrow> work_retry_policy \<Rightarrow> u32 \<Rightarrow> i64 \<Rightarrow> i64 option \<Rightarrow> string option
    \<Rightarrow> string + completion_resolution" where
  "resolve_completion disposition p attempt_count now next_run_at_ms err =
     (case disposition of
        DispCompleted \<Rightarrow> Inr \<lparr>cn_status = Completed, cn_next_run_at_ms = now, cn_last_error = None,
          cn_event_kind = ''work_unit_completed''\<rparr>
      | DispCancelled \<Rightarrow> Inr \<lparr>cn_status = Cancelled, cn_next_run_at_ms = now, cn_last_error = err,
          cn_event_kind = ''work_unit_cancelled''\<rparr>
      | DispFailedTerminal \<Rightarrow> Inr \<lparr>cn_status = FailedTerminal, cn_next_run_at_ms = now, cn_last_error = err,
          cn_event_kind = ''work_unit_failed_terminal''\<rparr>
      | DispRetryPending \<Rightarrow>
          if attempt_count \<ge> wrp_max_attempts p then
            Inr \<lparr>cn_status = FailedTerminal, cn_next_run_at_ms = now,
              cn_last_error = Some (case err of Some e \<Rightarrow> e
                | None \<Rightarrow> ''retry budget exhausted after '' @ nat_to_dec (unat (wrp_max_attempts p)) @ '' attempt(s)''),
              cn_event_kind = ''work_unit_failed_terminal''\<rparr>
          else
            try_bind (case next_run_at_ms of
                Some t \<Rightarrow> Inr t
              | None \<Rightarrow> try_bind (compute_retry_delay_ms p attempt_count) (add_delay_ms now)) (\<lambda>next_run.
              Inr \<lparr>cn_status = RetryPending, cn_next_run_at_ms = next_run, cn_last_error = err,
                cn_event_kind = ''work_unit_retry_scheduled''\<rparr>))"

record 'n complete_request =
  cq_work_unit_id :: string
  cq_owner :: string
  cq_disposition :: completion_disposition
  cq_actor :: "string option"
  cq_now_ms :: "i64 option"
  cq_next_run_at_ms :: "i64 option"
  cq_result_payload_json :: "'n json option"
  cq_error :: "string option"

definition encode_result_payload :: "'n work_codec \<Rightarrow> 'n json option \<Rightarrow> string + string option" where
  "encode_result_payload J payload =
     (case payload of
        None \<Rightarrow> Inr None
      | Some v \<Rightarrow> try_bind (encode_json (wc_encode_value J) v ''result_payload'') (\<lambda>t. Inr (Some t)))"

definition complete_tx ::
  "'n work_codec \<Rightarrow> work_env \<Rightarrow> string \<Rightarrow> string \<Rightarrow> i64 \<Rightarrow> 'n complete_request \<Rightarrow> work_db
    \<Rightarrow> string + (string option \<times> work_db)" where
  "complete_tx J E i owner now request db =
     try_bind (open_connection E []) (\<lambda>_.
     try_bind (sql E ''open work unit complete transaction failed'' i) (\<lambda>_.
     try_bind (load_raw_work_unit E db i) (\<lambda>raw.
     case raw of
       None \<Rightarrow> Inr (None, db)
     | Some raw \<Rightarrow>
         if \<not> held_status (wk_status raw) then Inr (None, db)
         else if wk_lease_owner raw \<noteq> Some owner then Inr (None, db)
         else
           try_bind (decode_json (wc_decode_retry_policy J) (wk_retry_policy_json raw) ''retry policy'') (\<lambda>retry_policy.
           try_bind (u32_from_i64 ''attempt_count'' (wk_attempt_count raw)) (\<lambda>attempt_count.
           try_bind (encode_result_payload J (cq_result_payload_json request)) (\<lambda>result_payload.
           try_bind (resolve_completion (cq_disposition request) retry_policy attempt_count now
             (cq_next_run_at_ms request) (normalize_optional_text (cq_error request))) (\<lambda>completion.
           try_bind (sql E ''update completed work unit failed'' i) (\<lambda>_.
           try_bind (insert_event J E i (cn_event_kind completion) (normalize_optional_text (cq_actor request))
             (json_object [(''owner'', JString owner), (''previous_status'', JString (wk_status raw)),
               (''next_status'', JString (work_status_as_str (cn_status completion))),
               (''next_run_at_ms'', int_json J (cn_next_run_at_ms completion)),
               (''last_error'', opt_json JString (cn_last_error completion)),
               (''attempt_count'', int_json J (uint attempt_count))]) now
             (update_units (held_by i owner)
               (\<lambda>r. r\<lparr>wk_status := work_status_as_str (cn_status completion),
                 wk_next_run_at_ms := cn_next_run_at_ms completion, wk_last_error := cn_last_error completion,
                 wk_blocking_reason := None, wk_result_payload_json := result_payload,
                 wk_lease_owner := None, wk_lease_acquired_at_ms := None, wk_lease_heartbeat_at_ms := None,
                 wk_lease_expires_at_ms := None, wk_updated_at_ms := now\<rparr>) db)) (\<lambda>(_, db).
           try_bind (sql E ''commit work unit complete transaction failed'' i) (\<lambda>_. Inr (Some i, db)))))))))))"

definition complete_work_unit ::
  "'n work_codec \<Rightarrow> work_env \<Rightarrow> 'n complete_request \<Rightarrow> work_db \<Rightarrow> (string + 'n work_snapshot option) \<times> work_db" where
  "complete_work_unit J E request db =
     with_input (
       try_bind (normalize_required_text (cq_work_unit_id request) ''work_unit_id'') (\<lambda>i.
       try_bind (normalize_required_text (cq_owner request) ''owner'') (\<lambda>owner. Inr (i, owner))))
       (\<lambda>(i, owner). reload J E (transact (complete_tx J E i owner (now_or_clock E (cq_now_ms request)) request db) db))
       db"

record recovery_resolution =
  rn_status :: work_status
  rn_next_run_at_ms :: i64
  rn_last_error :: "string option"

definition resolve_recovery :: "work_retry_policy \<Rightarrow> u32 \<Rightarrow> i64 \<Rightarrow> string \<Rightarrow> string + recovery_resolution" where
  "resolve_recovery p attempt_count now last_error =
     (if attempt_count \<ge> wrp_max_attempts p then
        Inr \<lparr>rn_status = FailedTerminal, rn_next_run_at_ms = now, rn_last_error = Some last_error\<rparr>
      else
        try_bind (compute_retry_delay_ms p attempt_count) (\<lambda>delay_ms.
        try_bind (add_delay_ms now delay_ms) (\<lambda>next_run.
          Inr \<lparr>rn_status = RetryPending, rn_next_run_at_ms = next_run, rn_last_error = Some last_error\<rparr>)))"

definition i64_to_dec :: "i64 \<Rightarrow> string" where
  "i64_to_dec v = (if v < 0 then ''-'' @ nat_to_dec (nat (- v)) else nat_to_dec (nat v))"

definition build_expired_lease_error :: "raw_work_unit \<Rightarrow> string + string" where
  "build_expired_lease_error raw =
     try_bind (ok_or ''expired lease recovery requires lease owner'' (wk_lease_owner raw)) (\<lambda>owner.
     try_bind (ok_or ''expired lease recovery requires lease_expires_at_ms'' (wk_lease_expires_at_ms raw)) (\<lambda>expires.
       Inr (''lease expired for owner `'' @ owner @ ''` at '' @ i64_to_dec expires)))"

definition recover_one ::
  "'n work_codec \<Rightarrow> work_env \<Rightarrow> string option \<Rightarrow> i64 \<Rightarrow> raw_work_unit \<Rightarrow> work_db \<Rightarrow> string + work_db" where
  "recover_one J E actor now raw db =
     try_bind (decode_json (wc_decode_retry_policy J) (wk_retry_policy_json raw) ''retry policy'') (\<lambda>retry_policy.
     try_bind (u32_from_i64 ''attempt_count'' (wk_attempt_count raw)) (\<lambda>attempt_count.
     try_bind (build_expired_lease_error raw) (\<lambda>expiration_error.
     try_bind (resolve_recovery retry_policy attempt_count now expiration_error) (\<lambda>recovery.
     try_bind (sql E ''recover expired work unit lease failed'' (wk_work_unit_id raw)) (\<lambda>_.
     try_bind (insert_event J E (wk_work_unit_id raw) ''work_unit_lease_expired_recovered'' actor
       (json_object [(''previous_owner'', opt_json JString (wk_lease_owner raw)),
         (''previous_status'', JString (wk_status raw)),
         (''next_status'', JString (work_status_as_str (rn_status recovery))),
         (''next_run_at_ms'', int_json J (rn_next_run_at_ms recovery)),
         (''last_error'', opt_json JString (rn_last_error recovery)),
         (''attempt_count'', int_json J (uint attempt_count))]) now
       (update_units (\<lambda>r. wk_work_unit_id r = wk_work_unit_id raw \<and> lease_expired_at now r)
         (\<lambda>r. r\<lparr>wk_status := work_status_as_str (rn_status recovery),
           wk_next_run_at_ms := rn_next_run_at_ms recovery, wk_last_error := rn_last_error recovery,
           wk_lease_owner := None, wk_lease_acquired_at_ms := None, wk_lease_heartbeat_at_ms := None,
           wk_lease_expires_at_ms := None, wk_updated_at_ms := now\<rparr>) db)) (\<lambda>(_, db). Inr db))))))"

fun recover_all ::
  "'n work_codec \<Rightarrow> work_env \<Rightarrow> string option \<Rightarrow> i64 \<Rightarrow> raw_work_unit list \<Rightarrow> work_db \<Rightarrow> string + work_db" where
  "recover_all J E actor now [] db = Inr db"
| "recover_all J E actor now (raw # raws) db =
     try_bind (recover_one J E actor now raw db) (recover_all J E actor now raws)"

fun load_recovered ::
  "'n work_codec \<Rightarrow> work_env \<Rightarrow> work_db \<Rightarrow> string list \<Rightarrow> string + 'n work_snapshot list" where
  "load_recovered J E db [] = Inr []"
| "load_recovered J E db (i # ids) =
     try_bind (load_work_unit_snapshot J E db i) (\<lambda>s.
     try_bind (ok_or (''recovered work unit `'' @ i @ ''` disappeared'') s) (\<lambda>s.
     try_bind (load_recovered J E db ids) (\<lambda>ss. Inr (s # ss))))"

definition recover_tx ::
  "'n work_codec \<Rightarrow> work_env \<Rightarrow> string option \<Rightarrow> i64 \<Rightarrow> work_db \<Rightarrow> string + (string list \<times> work_db)" where
  "recover_tx J E actor now db =
     try_bind (open_connection E []) (\<lambda>_.
     try_bind (sql E ''open expired lease recovery transaction failed'' []) (\<lambda>_.
     try_bind (load_expired_raw_work_units E db now) (\<lambda>raws.
     try_bind (recover_all J E actor now raws db) (\<lambda>db.
     try_bind (sql E ''commit expired lease recovery transaction failed'' []) (\<lambda>_.
       Inr (map wk_work_unit_id raws, db))))))"

definition recover_expired_leases ::
  "'n work_codec \<Rightarrow> work_env \<Rightarrow> string option \<Rightarrow> i64 option \<Rightarrow> work_db
    \<Rightarrow> (string + 'n work_snapshot list) \<times> work_db" where
  "recover_expired_leases J E actor now_ms db =
     and_then (transact (recover_tx J E (normalize_optional_text actor) (now_or_clock E now_ms) db) db)
       (\<lambda>ids db. (load_recovered J E db ids, db))"

end
