(* ===== verification/Work_Editing.thy ===== *)
theory Work_Editing
  imports Work_Repository
begin

text \<open>
  The other operations of \<open>WorkUnitRepository\<close> (crates/app/src/work/repository.rs): archiving, manual
  updates, assignment, dependencies, notes, and the listings and health counters.
\<close>

section \<open>Archiving\<close>

record archive_request =
  vq_work_unit_id :: string
  vq_actor :: "string option"
  vq_now_ms :: "i64 option"

definition archive_tx ::
  "'n work_codec \<Rightarrow> work_env \<Rightarrow> string \<Rightarrow> string option \<Rightarrow> i64 \<Rightarrow> work_db \<Rightarrow> string + (string option \<times> work_db)" where
  "archive_tx J E i actor now db =
     try_bind (open_connection E []) (\<lambda>_.
     try_bind (sql E ''open work unit archive transaction failed'' i) (\<lambda>_.
     try_bind (load_raw_work_unit E db i) (\<lambda>raw.
     case raw of
       None \<Rightarrow> Inr (None, db)
     | Some raw \<Rightarrow>
         try_bind (ok_or (''unknown work unit status `'' @ wk_status raw @ ''`'') (work_status_parse (wk_status raw)))
           (\<lambda>current_status.
         if \<not> work_is_terminal current_status then Inr (None, db)
         else if wk_archived_at_ms raw \<noteq> None then Inr (None, db)
         else
           try_bind (sql E ''archive work unit failed'' i) (\<lambda>_.
           try_bind (insert_event J E i ''work_unit_archived'' actor
             (json_object [(''previous_status'', JString (wk_status raw)), (''archived_at_ms'', int_json J now)]) now
             (update_units (\<lambda>r. wk_work_unit_id r = i \<and> wk_archived_at_ms r = None)
               (\<lambda>r. r\<lparr>wk_status := work_status_as_str Archived, wk_archived_at_ms := Some now,
                 wk_updated_at_ms := now\<rparr>) db)) (\<lambda>(_, db).
           try_bind (sql E ''commit work unit archive transaction failed'' i) (\<lambda>_. Inr (Some i, db))))))))"

definition archive_work_unit ::
  "'n work_codec \<Rightarrow> work_env \<Rightarrow> archive_request \<Rightarrow> work_db \<Rightarrow> (string + 'n work_snapshot option) \<times> work_db" where
  "archive_work_unit J E request db =
     with_input (normalize_required_text (vq_work_unit_id request) ''work_unit_id'')
       (\<lambda>i. reload J E (transact (archive_tx J E i (normalize_optional_text (vq_actor request))
         (now_or_clock E (vq_now_ms request)) db) db))
       db"

section \<open>Manual updates\<close>

record update_request =
  uq_work_unit_id :: string
  uq_title :: "string option"
  uq_description :: "string option"
  uq_status :: "work_status option"
  uq_priority :: "work_priority option"
  uq_next_run_at_ms :: "i64 option"
  uq_blocking_reason :: "string option"
  uq_clear_blocking_reason :: bool
  uq_actor :: "string option"
  uq_now_ms :: "i64 option"

text \<open>The fields after the update; the code computes them one by one, noting each changed one.\<close>

record updated_fields =
  uf_title :: string
  uf_description :: string
  uf_status :: string
  uf_priority :: string
  uf_next_run_at_ms :: i64
  uf_blocking_reason :: "string option"

definition fields_of :: "raw_work_unit \<Rightarrow> updated_fields" where
  "fields_of raw =
     \<lparr>uf_title = wk_title raw, uf_description = wk_description raw, uf_status = wk_status raw,
      uf_priority = wk_priority raw, uf_next_run_at_ms = wk_next_run_at_ms raw,
      uf_blocking_reason = wk_blocking_reason raw\<rparr>"

definition next_fields :: "work_status \<Rightarrow> raw_work_unit \<Rightarrow> update_request \<Rightarrow> string + updated_fields" where
  "next_fields current_status raw request =
     try_bind (case uq_title request of
         Some title \<Rightarrow> normalize_required_text title ''title'' | None \<Rightarrow> Inr (wk_title raw)) (\<lambda>title.
     try_bind (case uq_description request of
         Some description \<Rightarrow> normalize_required_text description ''description''
       | None \<Rightarrow> Inr (wk_description raw)) (\<lambda>description.
     try_bind (case uq_status request of
         Some status \<Rightarrow> try_bind (validate_manual_update_status current_status status)
           (\<lambda>_. Inr (work_status_as_str status))
       | None \<Rightarrow> Inr (wk_status raw)) (\<lambda>status.
     let priority = (case uq_priority request of
            Some p \<Rightarrow> work_priority_as_str p | None \<Rightarrow> wk_priority raw);
         next_run = (case uq_next_run_at_ms request of Some t \<Rightarrow> t | None \<Rightarrow> wk_next_run_at_ms raw);
         explicit_reason = (case uq_blocking_reason request of Some v \<Rightarrow> Some v | None \<Rightarrow> wk_blocking_reason raw);
         normalized_reason = normalize_optional_text explicit_reason
     in Inr \<lparr>uf_title = title, uf_description = description, uf_status = status, uf_priority = priority,
          uf_next_run_at_ms = next_run,
          uf_blocking_reason = (if uq_clear_blocking_reason request then None else normalized_reason)\<rparr>)))"

definition changed_fields :: "updated_fields \<Rightarrow> updated_fields \<Rightarrow> string list" where
  "changed_fields previous current =
     (if uf_title current \<noteq> uf_title previous then [''title''] else []) @
     (if uf_description current \<noteq> uf_description previous then [''description''] else []) @
     (if uf_status current \<noteq> uf_status previous then [''status''] else []) @
     (if uf_priority current \<noteq> uf_priority previous then [''priority''] else []) @
     (if uf_next_run_at_ms current \<noteq> uf_next_run_at_ms previous then [''next_run_at_ms''] else []) @
     (if uf_blocking_reason current \<noteq> uf_blocking_reason previous then [''blocking_reason''] else [])"

definition fields_json :: "'n work_codec \<Rightarrow> updated_fields \<Rightarrow> 'n json" where
  "fields_json J f = json_object
     [(''title'', JString (uf_title f)), (''description'', JString (uf_description f)),
      (''status'', JString (uf_status f)), (''priority'', JString (uf_priority f)),
      (''next_run_at_ms'', int_json J (uf_next_run_at_ms f)),
      (''blocking_reason'', opt_json JString (uf_blocking_reason f))]"

definition update_tx ::
  "'n work_codec \<Rightarrow> work_env \<Rightarrow> string \<Rightarrow> string option \<Rightarrow> i64 \<Rightarrow> update_request \<Rightarrow> work_db
    \<Rightarrow> string + (string option \<times> work_db)" where
  "update_tx J E i actor now request db =
     try_bind (open_connection E []) (\<lambda>_.
     try_bind (sql E ''open work unit update transaction failed'' i) (\<lambda>_.
     try_bind (load_raw_work_unit E db i) (\<lambda>raw.
     case raw of
       None \<Rightarrow> Inr (None, db)
     | Some raw \<Rightarrow>
         if wk_archived_at_ms raw \<noteq> None then Inr (None, db)
         else
           try_bind (ok_or (''unknown work unit status `'' @ wk_status raw @ ''`'') (work_status_parse (wk_status raw)))
             (\<lambda>current_status.
           try_bind (next_fields current_status raw request) (\<lambda>next.
           try_bind (ok_or (''unknown work unit priority `'' @ uf_priority next @ ''`'')
             (work_priority_parse (uf_priority next))) (\<lambda>priority.
           if changed_fields (fields_of raw) next = [] then
             try_bind (sql E ''commit unchanged work unit update transaction failed'' i) (\<lambda>_. Inr (Some i, db))
           else
             try_bind (sql E ''update work unit fields failed'' i) (\<lambda>_.
             try_bind (insert_event J E i ''work_unit_updated'' actor
               (json_object
                 [(''changed_fields'', JArray (map JString (changed_fields (fields_of raw) next))),
                  (''previous'', fields_json J (fields_of raw)), (''current'', fields_json J next)]) now
               (update_units (\<lambda>r. wk_work_unit_id r = i \<and> wk_archived_at_ms r = None)
                 (\<lambda>r. r\<lparr>wk_title := uf_title next, wk_description := uf_description next,
                   wk_status := uf_status next, wk_priority := uf_priority next,
                   wk_priority_rank := work_priority_rank priority,
                   wk_next_run_at_ms := uf_next_run_at_ms next, wk_blocking_reason := uf_blocking_reason next,
                   wk_updated_at_ms := now\<rparr>) db)) (\<lambda>(_, db).
             try_bind (sql E ''commit work unit update transaction failed'' i) (\<lambda>_. Inr (Some i, db))))))))))"

definition update_work_unit ::
  "'n work_codec \<Rightarrow> work_env \<Rightarrow> update_request \<Rightarrow> work_db \<Rightarrow> (string + 'n work_snapshot option) \<times> work_db" where
  "update_work_unit J E request db =
     with_input (normalize_required_text (uq_work_unit_id request) ''work_unit_id'')
       (\<lambda>i. reload J E (transact (update_tx J E i (normalize_optional_text (uq_actor request))
         (now_or_clock E (uq_now_ms request)) request db) db))
       db"

section \<open>Assignment\<close>

record assign_request =
  gq_work_unit_id :: string
  gq_assigned_to :: "string option"
  gq_actor :: "string option"
  gq_now_ms :: "i64 option"

definition assign_tx ::
  "'n work_codec \<Rightarrow> work_env \<Rightarrow> string \<Rightarrow> string option \<Rightarrow> string option \<Rightarrow> i64 \<Rightarrow> work_db
    \<Rightarrow> string + (string option \<times> work_db)" where
  "assign_tx J E i assigned_to actor now db =
     try_bind (open_connection E []) (\<lambda>_.
     try_bind (sql E ''open work unit assignment transaction failed'' i) (\<lambda>_.
     try_bind (load_raw_work_unit E db i) (\<lambda>raw.
     case raw of
       None \<Rightarrow> Inr (None, db)
     | Some raw \<Rightarrow>
         if wk_archived_at_ms raw \<noteq> None then Inr (None, db)
         else if wk_assigned_to raw = assigned_to then
           try_bind (sql E ''commit unchanged work unit assignment transaction failed'' i) (\<lambda>_. Inr (Some i, db))
         else
           try_bind (sql E ''assign work unit failed'' i) (\<lambda>_.
           try_bind (insert_event J E i ''work_unit_assigned'' actor
             (json_object [(''previous_assigned_to'', opt_json JString (wk_assigned_to raw)),
               (''assigned_to'', opt_json JString assigned_to)]) now
             (update_units (\<lambda>r. wk_work_unit_id r = i \<and> wk_archived_at_ms r = None)
               (\<lambda>r. r\<lparr>wk_assigned_to := assigned_to, wk_updated_at_ms := now\<rparr>) db)) (\<lambda>(_, db).
           try_bind (sql E ''commit work unit assignment transaction failed'' i) (\<lambda>_. Inr (Some i, db)))))))"

definition assign_work_unit ::
  "'n work_codec \<Rightarrow> work_env \<Rightarrow> assign_request \<Rightarrow> work_db \<Rightarrow> (string + 'n work_snapshot option) \<times> work_db" where
  "assign_work_unit J E request db =
     with_input (normalize_required_text (gq_work_unit_id request) ''work_unit_id'')
       (\<lambda>i. reload J E (transact (assign_tx J E i (normalize_optional_text (gq_assigned_to request))
         (normalize_optional_text (gq_actor request)) (now_or_clock E (gq_now_ms request)) db) db))
       db"

section \<open>Dependencies\<close>

record dependency_request =
  dq_blocking_work_unit_id :: string
  dq_blocked_work_unit_id :: string
  dq_actor :: "string option"
  dq_now_ms :: "i64 option"

definition dependency_endpoints :: "dependency_request \<Rightarrow> string + (string \<times> string)" where
  "dependency_endpoints request =
     try_bind (normalize_required_text (dq_blocking_work_unit_id request) ''blocking_work_unit_id'') (\<lambda>blocking.
     try_bind (normalize_required_text (dq_blocked_work_unit_id request) ''blocked_work_unit_id'') (\<lambda>blocked.
     try_bind (validate_dependency_endpoints blocking blocked) (\<lambda>_. Inr (blocking, blocked))))"

definition depends :: "work_db \<Rightarrow> string \<Rightarrow> string \<Rightarrow> bool" where
  "depends db blocking blocked \<longleftrightarrow>
     list_ex (\<lambda>d. dr_blocking d = blocking \<and> dr_blocked d = blocked) (db_dependencies db)"

definition dependency_event ::
  "'n work_codec \<Rightarrow> work_env \<Rightarrow> string \<Rightarrow> string \<Rightarrow> string \<Rightarrow> string option \<Rightarrow> i64 \<Rightarrow> work_db \<Rightarrow> string + work_db" where
  "dependency_event J E event_kind blocking blocked actor now db =
     try_bind (touch_work_unit E blocked now db) (\<lambda>db.
     try_bind (insert_event J E blocked event_kind actor
       (json_object [(''blocking_work_unit_id'', JString blocking), (''blocked_work_unit_id'', JString blocked)])
       now db) (\<lambda>(_, db). Inr db))"

definition add_dependency_tx ::
  "'n work_codec \<Rightarrow> work_env \<Rightarrow> string \<Rightarrow> string \<Rightarrow> string option \<Rightarrow> i64 \<Rightarrow> work_db
    \<Rightarrow> string + (string option \<times> work_db)" where
  "add_dependency_tx J E blocking blocked actor now db =
     try_bind (open_connection E []) (\<lambda>_.
     try_bind (sql E ''open work unit dependency transaction failed'' blocked) (\<lambda>_.
     try_bind (ensure_work_unit_exists E db blocking) (\<lambda>_.
     try_bind (ensure_work_unit_exists E db blocked) (\<lambda>_.
     try_bind (would_create_dependency_cycle E db blocking blocked) (\<lambda>creates_cycle.
     if creates_cycle then
       Inl (''work unit dependency would create a cycle: `'' @ blocking @ ''` -> `'' @ blocked @ ''`'')
     else
       try_bind (sql E ''insert work unit dependency failed'' blocked) (\<lambda>_.
       try_bind
         (if depends db blocking blocked then Inr db
          else dependency_event J E ''work_unit_dependency_added'' blocking blocked actor now
            (db\<lparr>db_dependencies := db_dependencies db @
               [\<lparr>dr_blocking = blocking, dr_blocked = blocked, dr_created_at_ms = now, dr_created_by = actor\<rparr>]\<rparr>))
         (\<lambda>db.
       try_bind (sql E ''commit work unit dependency transaction failed'' blocked) (\<lambda>_. Inr (Some blocked, db)))))))))"

definition add_dependency ::
  "'n work_codec \<Rightarrow> work_env \<Rightarrow> dependency_request \<Rightarrow> work_db \<Rightarrow> (string + 'n work_snapshot option) \<times> work_db" where
  "add_dependency J E request db =
     with_input (dependency_endpoints request)
       (\<lambda>(blocking, blocked). reload J E (transact (add_dependency_tx J E blocking blocked
         (normalize_optional_text (dq_actor request)) (now_or_clock E (dq_now_ms request)) db) db))
       db"

definition remove_dependency_tx ::
  "'n work_codec \<Rightarrow> work_env \<Rightarrow> string \<Rightarrow> string \<Rightarrow> string option \<Rightarrow> i64 \<Rightarrow> work_db
    \<Rightarrow> string + (string option \<times> work_db)" where
  "remove_dependency_tx J E blocking blocked actor now db =
     try_bind (open_connection E []) (\<lambda>_.
     try_bind (sql E ''open work unit dependency removal transaction failed'' blocked) (\<lambda>_.
     try_bind (load_raw_work_unit E db blocked) (\<lambda>raw.
     case raw of
       None \<Rightarrow> Inr (None, db)
     | Some _ \<Rightarrow>
         try_bind (sql E ''remove work unit dependency failed'' blocked) (\<lambda>_.
         try_bind
           (if \<not> depends db blocking blocked then Inr db
            else dependency_event J E ''work_unit_dependency_removed'' blocking blocked actor now
              (db\<lparr>db_dependencies :=
                 filter (\<lambda>d. \<not> (dr_blocking d = blocking \<and> dr_blocked d = blocked)) (db_dependencies db)\<rparr>))
           (\<lambda>db.
         try_bind (sql E ''commit work unit dependency removal transaction failed'' blocked)
           (\<lambda>_. Inr (Some blocked, db)))))))"

definition remove_dependency ::
  "'n work_codec \<Rightarrow> work_env \<Rightarrow> dependency_request \<Rightarrow> work_db \<Rightarrow> (string + 'n work_snapshot option) \<times> work_db" where
  "remove_dependency J E request db =
     with_input (dependency_endpoints request)
       (\<lambda>(blocking, blocked). reload J E (transact (remove_dependency_tx J E blocking blocked
         (normalize_optional_text (dq_actor request)) (now_or_clock E (dq_now_ms request)) db) db))
       db"

section \<open>Notes\<close>

record note_request =
  nq_work_unit_id :: string
  nq_actor :: "string option"
  nq_note :: string
  nq_now_ms :: "i64 option"

definition note_tx ::
  "'n work_codec \<Rightarrow> work_env \<Rightarrow> string \<Rightarrow> string \<Rightarrow> string option \<Rightarrow> i64 \<Rightarrow> work_db
    \<Rightarrow> string + ('n work_event option \<times> work_db)" where
  "note_tx J E i note actor now db =
     try_bind (open_connection E []) (\<lambda>_.
     try_bind (sql E ''open work unit note transaction failed'' i) (\<lambda>_.
     try_bind (load_raw_work_unit E db i) (\<lambda>raw.
     case raw of
       None \<Rightarrow> Inr (None, db)
     | Some raw \<Rightarrow>
         if wk_archived_at_ms raw \<noteq> None then Inr (None, db)
         else
           try_bind (touch_work_unit E i now db) (\<lambda>db.
           try_bind (insert_event J E i ''work_unit_note_added'' actor (json_object [(''note'', JString note)]) now db)
             (\<lambda>(event, db).
           try_bind (sql E ''commit work unit note transaction failed'' i) (\<lambda>_. Inr (Some event, db)))))))"

definition append_note ::
  "'n work_codec \<Rightarrow> work_env \<Rightarrow> note_request \<Rightarrow> work_db \<Rightarrow> (string + 'n work_event option) \<times> work_db" where
  "append_note J E request db =
     with_input (
       try_bind (normalize_required_text (nq_work_unit_id request) ''work_unit_id'') (\<lambda>i.
       try_bind (normalize_required_text (nq_note request) ''note'') (\<lambda>note. Inr (i, note))))
       (\<lambda>(i, note). transact (note_tx J E i note (normalize_optional_text (nq_actor request))
         (now_or_clock E (nq_now_ms request)) db) db)
       db"

section \<open>Listings and health\<close>

record work_list_query =
  lq_status :: "work_status option"
  lq_include_archived :: bool
  lq_limit :: usize

definition work_list_query_default :: work_list_query where
  "work_list_query_default = \<lparr>lq_status = None, lq_include_archived = False, lq_limit = 100\<rparr>"

fun snapshots_of :: "'n work_codec \<Rightarrow> raw_work_unit list \<Rightarrow> string + 'n work_snapshot list" where
  "snapshots_of J [] = Inr []"
| "snapshots_of J (raw # raws) =
     try_bind (try_work_unit_snapshot J raw) (\<lambda>s.
     try_bind (snapshots_of J raws) (\<lambda>ss. Inr (s # ss)))"

definition list_work_units ::
  "'n work_codec \<Rightarrow> work_env \<Rightarrow> work_db \<Rightarrow> work_list_query \<Rightarrow> string + 'n work_snapshot list" where
  "list_work_units J E db query =
     try_bind (normalize_limit (lq_limit query)) (\<lambda>limit.
     try_bind (open_connection E []) (\<lambda>_.
     try_bind (load_raw_work_units_with_query E db (lq_status query) (lq_include_archived query) limit)
       (snapshots_of J)))"

fun decode_events :: "'n work_codec \<Rightarrow> work_env \<Rightarrow> event_row list \<Rightarrow> string + 'n work_event list" where
  "decode_events J E [] = Inr []"
| "decode_events J E (e # es) =
     try_bind (sql E ''decode work unit event row failed'' (i64_to_dec (er_id e))) (\<lambda>_.
     try_bind (decode_json (wc_decode_value J) (er_payload_json e) ''work unit event payload'') (\<lambda>payload.
     try_bind (decode_events J E es) (\<lambda>events.
       Inr (\<lparr>we_sequence_id = er_id e, we_work_unit_id = er_work_unit_id e, we_event_kind = er_event_kind e,
             we_actor = er_actor e, we_payload_json = payload, we_recorded_at_ms = er_recorded_at_ms e\<rparr> # events))))"

definition list_work_unit_events ::
  "'n work_codec \<Rightarrow> work_env \<Rightarrow> work_db \<Rightarrow> string \<Rightarrow> usize \<Rightarrow> string + 'n work_event list" where
  "list_work_unit_events J E db raw_id raw_limit =
     try_bind (normalize_required_text raw_id ''work_unit_id'') (\<lambda>i.
     try_bind (normalize_limit raw_limit) (\<lambda>limit.
     if int limit > i64_max then Inl (''event limit overflowed i64: '' @ out_of_range)
     else
       try_bind (open_connection E []) (\<lambda>_.
       try_bind (sql_all E [''prepare work unit event query failed'', ''query work unit events failed''] i) (\<lambda>_.
         decode_events J E
           (take limit (sort_key (\<lambda>e. - er_id e) (filter (\<lambda>e. er_work_unit_id e = i) (db_events db))))))))"

text \<open>The counts are never negative, so \<open>usize_from_i64\<close> does not fail on them.\<close>

definition count_units :: "(work_row \<Rightarrow> bool) \<Rightarrow> work_db \<Rightarrow> usize" where
  "count_units selects db = length (filter selects (db_units db))"

definition load_runtime_health :: "work_env \<Rightarrow> work_db \<Rightarrow> i64 option \<Rightarrow> string + work_health" where
  "load_runtime_health E db now_ms =
     (let now = now_or_clock E now_ms in
      try_bind (open_connection E []) (\<lambda>_.
      try_bind (sql E ''load work runtime health failed'' []) (\<lambda>_.
        Inr \<lparr>wh_total_count = count_units (\<lambda>_. True) db,
          wh_ready_count = count_units (\<lambda>r. wk_status r = ''ready'') db,
          wh_leased_count = count_units (\<lambda>r. wk_status r = ''leased'') db,
          wh_running_count = count_units (\<lambda>r. wk_status r = ''running'') db,
          wh_blocked_count = count_units (\<lambda>r. wk_status r \<in> {''waiting_external'', ''waiting_review''} \<or>
            wk_status r \<in> {''ready'', ''retry_pending''} \<and> has_open_blocker db (wk_work_unit_id r)) db,
          wh_retry_pending_count = count_units (\<lambda>r. wk_status r = ''retry_pending'') db,
          wh_terminal_count = count_units (\<lambda>r. wk_status r \<in> {''completed'', ''failed_terminal'', ''cancelled''}) db,
          wh_archived_count = count_units (\<lambda>r. wk_status r = ''archived'') db,
          wh_expired_lease_count = count_units (lease_expired_at now) db\<rparr>)))"

section \<open>Operations as steps\<close>

datatype 'n work_op =
    CreateOp new_work_unit "string option"
  | AcquireOp acquire_request
  | StartOp start_request
  | HeartbeatOp heartbeat_request
  | CompleteOp "'n complete_request"
  | ArchiveOp archive_request
  | UpdateOp update_request
  | AssignOp assign_request
  | AddDependencyOp dependency_request
  | RemoveDependencyOp dependency_request
  | NoteOp note_request
  | RecoverOp "string option" "i64 option"

fun work_step :: "'n work_codec \<Rightarrow> work_env \<Rightarrow> 'n work_op \<Rightarrow> work_db \<Rightarrow> work_db" where
  "work_step J E (CreateOp record actor) db = snd (create_work_unit J E record actor db)"
| "work_step J E (AcquireOp request) db = snd (acquire_next_ready_lease J E request db)"
| "work_step J E (StartOp request) db = snd (mark_leased_running J E request db)"
| "work_step J E (HeartbeatOp request) db = snd (heartbeat_lease J E request db)"
| "work_step J E (CompleteOp request) db = snd (complete_work_unit J E request db)"
| "work_step J E (ArchiveOp request) db = snd (archive_work_unit J E request db)"
| "work_step J E (UpdateOp request) db = snd (update_work_unit J E request db)"
| "work_step J E (AssignOp request) db = snd (assign_work_unit J E request db)"
| "work_step J E (AddDependencyOp request) db = snd (add_dependency J E request db)"
| "work_step J E (RemoveDependencyOp request) db = snd (remove_dependency J E request db)"
| "work_step J E (NoteOp request) db = snd (append_note J E request db)"
| "work_step J E (RecoverOp actor now_ms) db = snd (recover_expired_leases J E actor now_ms db)"

text \<open>Everything a store can become: operations in any order, each in an environment of its own.\<close>

inductive work_reachable :: "'n work_codec \<Rightarrow> work_db \<Rightarrow> bool" for J where
  reachable_empty: "work_reachable J empty_work_db"
| reachable_step: "work_reachable J db \<Longrightarrow> work_reachable J (work_step J E op db)"

end
