(* ===== verification/Work_Lifecycle.thy ===== *)
theory Work_Lifecycle
  imports Work_Editing
begin

text \<open>
  The life of one work unit as a labelled step relation on its row, and the proof that every
  operation of the repository moves each row by at most one such step. A label says who did what
  and when; what the invariants and the lease properties need of an operation is in the rules.
\<close>

declare work_status_as_str.simps [simp del] work_priority_as_str.simps [simp del]

section \<open>The steps of a unit\<close>

datatype unit_label =
    LLease string i64 i64
  | LStart string
  | LRenew string i64 i64
  | LFinish string work_status
  | LRecover i64 work_status
  | LArchive
  | LEdit
  | LTouch

definition lease_cleared :: "work_row \<Rightarrow> work_row" where
  "lease_cleared r = r\<lparr>wk_lease_owner := None, wk_lease_acquired_at_ms := None,
     wk_lease_heartbeat_at_ms := None, wk_lease_expires_at_ms := None\<rparr>"

text \<open>The status a completion may leave, and the one a recovery leaves, given the retry policy.\<close>

definition may_finish :: "work_retry_policy \<Rightarrow> work_row \<Rightarrow> work_status \<Rightarrow> bool" where
  "may_finish p r s \<longleftrightarrow> s \<in> {Completed, FailedTerminal, Cancelled} \<or>
     s = RetryPending \<and> wk_attempt_count r < uint (wrp_max_attempts p)"

definition recovered_status :: "work_retry_policy \<Rightarrow> work_row \<Rightarrow> work_status" where
  "recovered_status p r = (if wk_attempt_count r \<ge> uint (wrp_max_attempts p) then FailedTerminal else RetryPending)"

definition manual_statuses :: "work_status set" where
  "manual_statuses = {Captured, Triaged, Ready, WaitingExternal, WaitingReview, RetryPending, Cancelled}"

inductive unit_step :: "'n work_codec \<Rightarrow> work_row \<Rightarrow> unit_label \<Rightarrow> work_row \<Rightarrow> bool" for J where
  step_lease: "ready_at now r \<Longrightarrow>
    unit_step J r (LLease owner now expires)
      (r\<lparr>wk_status := work_status_as_str Leased, wk_attempt_count := wk_attempt_count r + 1,
         wk_lease_owner := Some owner, wk_lease_version := wk_lease_version r + 1,
         wk_lease_acquired_at_ms := Some now, wk_lease_heartbeat_at_ms := Some now,
         wk_lease_expires_at_ms := Some expires, wk_updated_at_ms := now\<rparr>)"
| step_start: "wk_status r = work_status_as_str Leased \<Longrightarrow> wk_lease_owner r = Some owner \<Longrightarrow>
    unit_step J r (LStart owner) (r\<lparr>wk_status := work_status_as_str Running, wk_updated_at_ms := now\<rparr>)"
| step_renew: "held_by i owner r \<Longrightarrow>
    unit_step J r (LRenew owner now expires)
      (r\<lparr>wk_lease_heartbeat_at_ms := Some now, wk_lease_expires_at_ms := Some expires, wk_updated_at_ms := now\<rparr>)"
| step_finish: "held_by i owner r \<Longrightarrow> wc_decode_retry_policy J (wk_retry_policy_json r) = Inr p \<Longrightarrow>
    may_finish p r s \<Longrightarrow> decode_result_payload J payload = Inr v \<Longrightarrow>
    unit_step J r (LFinish owner s)
      (lease_cleared (r\<lparr>wk_status := work_status_as_str s, wk_next_run_at_ms := next_run, wk_last_error := err,
         wk_blocking_reason := None, wk_result_payload_json := payload, wk_updated_at_ms := now\<rparr>))"
| step_recover: "lease_expired_at now r \<Longrightarrow> wc_decode_retry_policy J (wk_retry_policy_json r) = Inr p \<Longrightarrow>
    s = recovered_status p r \<Longrightarrow>
    unit_step J r (LRecover now s)
      (lease_cleared (r\<lparr>wk_status := work_status_as_str s, wk_next_run_at_ms := next_run, wk_last_error := err,
         wk_updated_at_ms := now\<rparr>))"
| step_archive: "wk_status r = work_status_as_str s \<Longrightarrow> work_is_terminal s \<Longrightarrow> wk_archived_at_ms r = None \<Longrightarrow>
    unit_step J r LArchive
      (r\<lparr>wk_status := work_status_as_str Archived, wk_archived_at_ms := Some now, wk_updated_at_ms := now\<rparr>)"
| step_edit: "wk_archived_at_ms r = None \<Longrightarrow> wk_status r = work_status_as_str s \<Longrightarrow>
    s' = s \<or> s \<in> manual_statuses \<and> s' \<in> manual_statuses \<Longrightarrow>
    unit_step J r LEdit
      (r\<lparr>wk_title := title, wk_description := description, wk_status := work_status_as_str s',
         wk_priority := work_priority_as_str p, wk_priority_rank := work_priority_rank p,
         wk_next_run_at_ms := next_run, wk_blocking_reason := reason, wk_updated_at_ms := now\<rparr>)"
| step_assign: "unit_step J r LTouch (r\<lparr>wk_assigned_to := assigned, wk_updated_at_ms := now\<rparr>)"
| step_touch: "unit_step J r LTouch (r\<lparr>wk_updated_at_ms := now\<rparr>)"

text \<open>The labels an operation can cause.\<close>

fun op_label :: "work_env \<Rightarrow> 'n work_op \<Rightarrow> unit_label \<Rightarrow> bool" where
  "op_label E (AcquireOp q) l \<longleftrightarrow>
     (\<exists>expires. l = LLease (trim (aq_owner q)) (now_or_clock E (aq_now_ms q)) expires \<and> trim (aq_owner q) \<noteq> [])"
| "op_label E (StartOp q) l \<longleftrightarrow> l = LStart (trim (sq_owner q))"
| "op_label E (HeartbeatOp q) l \<longleftrightarrow> (\<exists>expires. l = LRenew (trim (hq_owner q)) (now_or_clock E (hq_now_ms q)) expires)"
| "op_label E (CompleteOp q) l \<longleftrightarrow> (\<exists>s. l = LFinish (trim (cq_owner q)) s)"
| "op_label E (RecoverOp actor now_ms) l \<longleftrightarrow> (\<exists>s. l = LRecover (now_or_clock E now_ms) s)"
| "op_label E (ArchiveOp q) l \<longleftrightarrow> l = LArchive"
| "op_label E (UpdateOp q) l \<longleftrightarrow> l = LEdit"
| "op_label E (CreateOp record actor) l \<longleftrightarrow> False"
| "op_label E op l \<longleftrightarrow> l = LTouch"

section \<open>Rows and what is read of them\<close>

definition same_columns :: "('a work_columns_scheme) \<Rightarrow> ('b work_columns_scheme) \<Rightarrow> bool" where
  "same_columns r q \<longleftrightarrow> work_columns.truncate r = work_columns.truncate q"

lemma same_columnsD:
  assumes "same_columns r q"
  shows "wk_work_unit_id r = wk_work_unit_id q" "wk_status r = wk_status q"
    "wk_priority r = wk_priority q" "wk_kind r = wk_kind q" "wk_source_ref_json r = wk_source_ref_json q"
    "wk_retry_policy_json r = wk_retry_policy_json q" "wk_attempt_count r = wk_attempt_count q"
    "wk_lease_owner r = wk_lease_owner q" "wk_lease_version r = wk_lease_version q"
    "wk_lease_acquired_at_ms r = wk_lease_acquired_at_ms q"
    "wk_lease_heartbeat_at_ms r = wk_lease_heartbeat_at_ms q"
    "wk_lease_expires_at_ms r = wk_lease_expires_at_ms q" "wk_archived_at_ms r = wk_archived_at_ms q"
    "wk_result_payload_json r = wk_result_payload_json q"
  using assms by (simp_all add: same_columns_def work_columns.truncate_def)

lemma hydrate_columns: "hydrate_raw_work_unit E db r = Inr raw \<Longrightarrow> same_columns raw r"
  by (auto simp: hydrate_raw_work_unit_def try_bind_Ok same_columns_def work_columns.truncate_def
    work_columns.extend_def)

definition raw_of :: "work_db \<Rightarrow> raw_work_unit \<Rightarrow> work_row \<Rightarrow> bool" where
  "raw_of db raw r \<longleftrightarrow> r \<in> set (db_units db) \<and> same_columns raw r"

lemma load_raw_of:
  assumes "load_raw_work_unit E db i = Inr (Some raw)"
  shows "\<exists>r. raw_of db raw r \<and> wk_work_unit_id r = i"
proof -
  from assms obtain r where r: "find (\<lambda>r. wk_work_unit_id r = i) (db_units db) = Some r"
    "hydrate_raw_work_unit E db r = Inr raw"
    by (auto simp: load_raw_work_unit_def try_bind_Ok split: option.splits)
  then have "r \<in> set (db_units db)" "wk_work_unit_id r = i"
    by (auto simp: find_Some_iff in_set_conv_nth)
  with hydrate_columns [OF r(2)] show ?thesis by (auto simp: raw_of_def)
qed

definition distinct_ids :: "work_db \<Rightarrow> bool" where
  "distinct_ids db \<longleftrightarrow> distinct (map wk_work_unit_id (db_units db))"

lemma same_row: "distinct_ids db \<Longrightarrow> r \<in> set (db_units db) \<Longrightarrow> q \<in> set (db_units db) \<Longrightarrow>
    wk_work_unit_id r = wk_work_unit_id q \<Longrightarrow> r = q"
  by (auto simp: distinct_ids_def distinct_map inj_on_def)

lemma insert_event_units:
  "insert_event J E i kind actor payload now db = Inr (ev, db') \<Longrightarrow>
    db_units db' = db_units db \<and> db_dependencies db' = db_dependencies db"
  by (auto simp: insert_event_def try_bind_Ok)

lemma update_units_units [simp]:
  "db_units (update_units sel chg db) = map (\<lambda>r. if sel r then chg r else r) (db_units db)"
  "db_dependencies (update_units sel chg db) = db_dependencies db"
  "db_events (update_units sel chg db) = db_events db"
  "db_next_event_id (update_units sel chg db) = db_next_event_id db"
  by (simp_all add: update_units_def)

section \<open>Every operation moves each unit by at most one step\<close>

definition rows_step :: "'n work_codec \<Rightarrow> (unit_label \<Rightarrow> bool) \<Rightarrow> work_row list \<Rightarrow> work_row list \<Rightarrow> bool" where
  "rows_step J L = list_all2 (\<lambda>r r'. r' = r \<or> (\<exists>l. L l \<and> unit_step J r l r'))"

lemma rows_step_refl [simp, intro]: "rows_step J L rs rs"
  by (simp add: rows_step_def list_all2_refl)

lemma rows_step_map:
  assumes "\<And>r. r \<in> set rs \<Longrightarrow> sel r \<Longrightarrow> \<exists>l. L l \<and> unit_step J r l (chg r)"
  shows "rows_step J L rs (map (\<lambda>r. if sel r then chg r else r) rs)"
  using assms by (auto simp: rows_step_def list_all2_map2 intro: list.rel_refl_strong)

lemma transact_cases:
  obtains "snd (transact body db) = db" | x db' where "body = Inr (x, db')" "snd (transact body db) = db'"
  by (cases body) (auto simp: transact_def split: prod.splits)

lemma reload_db [simp]: "snd (reload J E r) = snd r"
  by (auto simp: reload_def and_then_def split: prod.splits sum.splits option.splits)

lemma with_input_cases:
  obtains "snd (with_input v f db) = db" | x where "v = Inr x" "snd (with_input v f db) = snd (f x)"
  by (cases v) (auto simp: with_input_def)

lemma select_next_ready_raw_of:
  assumes "select_next_ready_raw_work_unit E db now = Inr (Some raw)"
  shows "\<exists>r. raw_of db raw r \<and> ready_at now r \<and> \<not> has_open_blocker db (wk_work_unit_id r) \<and>
    (\<forall>q \<in> set (db_units db). ready_at now q \<longrightarrow> has_open_blocker db (wk_work_unit_id q) \<or> next_ready_key r \<le> next_ready_key q)"
proof -
  let ?c = "filter (\<lambda>r. ready_at now r \<and> \<not> has_open_blocker db (wk_work_unit_id r)) (db_units db)"
  from assms obtain r rs where r: "sort_key next_ready_key ?c = r # rs" "hydrate_raw_work_unit E db r = Inr raw"
    by (auto simp: select_next_ready_raw_work_unit_def try_bind_Ok split: list.splits)
  have "set (r # rs) = set ?c" "sorted (map next_ready_key (r # rs))"
    by (metis r(1) set_sort) (metis r(1) sorted_sort_key)
  then have "r \<in> set ?c" "\<forall>q \<in> set ?c. next_ready_key r \<le> next_ready_key q" by auto
  with hydrate_columns [OF r(2)] show ?thesis by (auto simp: raw_of_def)
qed

lemma acquire_tx_step:
  assumes "distinct_ids db" "acquire_tx J E owner ttl actor now expires db = Inr (x, db')"
  shows "rows_step J (\<lambda>l. l = LLease owner now expires) (db_units db) (db_units db') \<and>
    db_dependencies db' = db_dependencies db"
proof (cases x)
  case None
  with assms(2) show ?thesis
    by (auto simp: acquire_tx_def try_bind_Ok Let_def split: option.splits)
next
  case (Some i)
  with assms(2) obtain raw ev db1 where s: "select_next_ready_raw_work_unit E db now = Inr (Some raw)"
    and d: "db_units db' = map (\<lambda>r. if wk_work_unit_id r = wk_work_unit_id raw \<and> ready_at now r
      then r\<lparr>wk_status := work_status_as_str Leased, wk_attempt_count := wk_attempt_count r + 1,
        wk_lease_owner := Some owner, wk_lease_version := wk_lease_version raw + 1,
        wk_lease_acquired_at_ms := Some now, wk_lease_heartbeat_at_ms := Some now,
        wk_lease_expires_at_ms := Some expires, wk_updated_at_ms := now\<rparr> else r) (db_units db)"
      "db_dependencies db' = db_dependencies db"
    by (auto simp: acquire_tx_def try_bind_Ok Let_def dest!: insert_event_units split: option.splits)
  from select_next_ready_raw_of [OF s] obtain r0 where r0: "raw_of db raw r0" by blast
  have "wk_lease_version raw = wk_lease_version r" if "r \<in> set (db_units db)" "wk_work_unit_id r = wk_work_unit_id raw" for r
    using same_row [OF assms(1) _ that(1), of r0] r0 that(2) same_columnsD [of raw r0] by (auto simp: raw_of_def)
  then show ?thesis unfolding d
    by (intro conjI refl rows_step_map) (use step_lease in auto)
qed

lemma start_tx_step:
  assumes "start_tx J E i owner actor now db = Inr (x, db')"
  shows "rows_step J (\<lambda>l. l = LStart owner) (db_units db) (db_units db') \<and>
    db_dependencies db' = db_dependencies db"
proof (cases x)
  case None
  with assms show ?thesis
    by (auto simp: start_tx_def try_bind_Ok split: option.splits if_splits)
next
  case (Some k)
  with assms have "db_units db' = map (\<lambda>r. if wk_work_unit_id r = i \<and> wk_status r = work_status_as_str Leased \<and>
      wk_lease_owner r = Some owner then r\<lparr>wk_status := work_status_as_str Running, wk_updated_at_ms := now\<rparr> else r)
      (db_units db)" "db_dependencies db' = db_dependencies db"
    by (auto simp: start_tx_def try_bind_Ok dest!: insert_event_units split: option.splits if_splits)
  then show ?thesis by (auto intro!: rows_step_map intro: step_start)
qed

lemma heartbeat_tx_step:
  assumes "heartbeat_tx J E i owner ttl actor now expires db = Inr (x, db')"
  shows "rows_step J (\<lambda>l. l = LRenew owner now expires) (db_units db) (db_units db') \<and>
    db_dependencies db' = db_dependencies db"
proof (cases x)
  case None
  with assms show ?thesis
    by (auto simp: heartbeat_tx_def try_bind_Ok split: option.splits if_splits)
next
  case (Some k)
  with assms have "db_units db' = map (\<lambda>r. if held_by i owner r then
      r\<lparr>wk_lease_heartbeat_at_ms := Some now, wk_lease_expires_at_ms := Some expires, wk_updated_at_ms := now\<rparr> else r)
      (db_units db)" "db_dependencies db' = db_dependencies db"
    by (auto simp: heartbeat_tx_def try_bind_Ok dest!: insert_event_units split: option.splits if_splits)
  then show ?thesis by (auto intro!: rows_step_map intro: step_renew)
qed

text \<open>The laws of the JSON columns: what was written reads back.\<close>

definition codec_ok :: "'n work_codec \<Rightarrow> bool" where
  "codec_ok J \<longleftrightarrow>
     (\<forall>s t. wc_encode_source_ref J s = Inr t \<longrightarrow> wc_decode_source_ref J t = Inr s) \<and>
     (\<forall>p t. wc_encode_retry_policy J p = Inr t \<longrightarrow> wc_decode_retry_policy J t = Inr p) \<and>
     (\<forall>v t. wc_encode_value J v = Inr t \<longrightarrow> wc_decode_value J t = Inr v)"

lemma encoded_payload_decodes:
  assumes "codec_ok J" "encode_result_payload J v = Inr t"
  shows "decode_result_payload J t = Inr v"
  using assms by (auto simp: encode_result_payload_def decode_result_payload_def codec_ok_def encode_json_def
    decode_json_def try_bind_Ok split: option.splits)

lemma decode_json_Ok [simp]: "decode_json f raw label = Inr v \<longleftrightarrow> f raw = Inr v"
  by (simp add: decode_json_def)

lemma u32_from_i64_Ok: "u32_from_i64 l v = Inr w \<longleftrightarrow> 0 \<le> v \<and> v < 2 ^ 32 \<and> uint w = v"
proof -
  have "uint (of_int v :: u32) = v" if "0 \<le> v" "v < 2 ^ 32"
    using that by (simp add: uint_word_of_int take_bit_int_eq_self)
  then show ?thesis by (auto simp: u32_from_i64_def)
qed

lemma resolve_completion_status:
  assumes "resolve_completion d p n now next_run err = Inr c" "uint n = wk_attempt_count r"
  shows "may_finish p r (cn_status c)"
  using assms by (cases d) (auto simp: resolve_completion_def may_finish_def try_bind_Ok word_le_def split: if_splits)

lemma resolve_recovery_status:
  assumes "resolve_recovery p n now err = Inr c" "uint n = wk_attempt_count r"
  shows "rn_status c = recovered_status p r"
  using assms by (auto simp: resolve_recovery_def recovered_status_def try_bind_Ok word_le_def split: if_splits)

lemma complete_tx_step:
  assumes "distinct_ids db" "codec_ok J" "complete_tx J E i owner now q db = Inr (x, db')"
  shows "rows_step J (\<lambda>l. \<exists>s. l = LFinish owner s) (db_units db) (db_units db') \<and>
    db_dependencies db' = db_dependencies db"
proof (cases x)
  case None
  with assms show ?thesis
    by (auto simp: complete_tx_def try_bind_Ok split: option.splits if_splits)
next
  case (Some k)
  with assms(3) obtain raw p n payload c where
    raw: "load_raw_work_unit E db i = Inr (Some raw)"
    and p: "wc_decode_retry_policy J (wk_retry_policy_json raw) = Inr p"
    and n: "u32_from_i64 ''attempt_count'' (wk_attempt_count raw) = Inr n"
    and payload: "encode_result_payload J (cq_result_payload_json q) = Inr payload"
    and c: "resolve_completion (cq_disposition q) p n now (cq_next_run_at_ms q) (normalize_optional_text (cq_error q)) = Inr c"
    and d: "db_units db' = map (\<lambda>r. if held_by i owner r then
        lease_cleared (r\<lparr>wk_status := work_status_as_str (cn_status c), wk_next_run_at_ms := cn_next_run_at_ms c,
          wk_last_error := cn_last_error c, wk_blocking_reason := None, wk_result_payload_json := payload,
          wk_updated_at_ms := now\<rparr>) else r) (db_units db)" "db_dependencies db' = db_dependencies db"
    by (auto simp: complete_tx_def try_bind_Ok lease_cleared_def dest!: insert_event_units split: option.splits if_splits)
  from load_raw_of [OF raw] obtain r0 where r0: "raw_of db raw r0" "wk_work_unit_id r0 = i" by blast
  have "\<exists>l. (\<exists>s. l = LFinish owner s) \<and> unit_step J r l
      (lease_cleared (r\<lparr>wk_status := work_status_as_str (cn_status c), wk_next_run_at_ms := cn_next_run_at_ms c,
        wk_last_error := cn_last_error c, wk_blocking_reason := None, wk_result_payload_json := payload,
        wk_updated_at_ms := now\<rparr>))"
    if "r \<in> set (db_units db)" "held_by i owner r" for r
  proof -
    have "r = r0" using same_row [OF assms(1) that(1), of r0] r0 that(2) by (auto simp: raw_of_def held_by_def)
    then have "wc_decode_retry_policy J (wk_retry_policy_json r) = Inr p" "uint n = wk_attempt_count r"
      using p n r0(1) same_columnsD(6,7) [of raw r0] by (auto simp: raw_of_def u32_from_i64_Ok)
    then show ?thesis
      using step_finish [OF that(2) _ resolve_completion_status [OF c] encoded_payload_decodes [OF assms(2) payload]]
      by blast
  qed
  then show ?thesis unfolding d by (auto intro!: rows_step_map)
qed

section \<open>Well-formed rows\<close>

text \<open>A row holds a lease exactly while it is leased or running, and an archive time exactly when it is
  archived; its counters agree and its texts decode.\<close>

definition lease_fields :: "work_row \<Rightarrow> bool \<Rightarrow> bool" where
  "lease_fields r held \<longleftrightarrow>
     (wk_lease_owner r \<noteq> None) = held \<and> (wk_lease_acquired_at_ms r \<noteq> None) = held \<and>
     (wk_lease_heartbeat_at_ms r \<noteq> None) = held \<and> (wk_lease_expires_at_ms r \<noteq> None) = held"

definition row_ok :: "'n work_codec \<Rightarrow> work_row \<Rightarrow> bool" where
  "row_ok J r \<longleftrightarrow>
     wk_work_unit_id r \<noteq> [] \<and> trim (wk_work_unit_id r) = wk_work_unit_id r \<and>
     (\<exists>k. wk_kind r = work_kind_as_str k) \<and>
     (\<exists>s. wk_status r = work_status_as_str s \<and> lease_fields r (s \<in> {Leased, Running}) \<and>
        (wk_archived_at_ms r \<noteq> None) = (s = Archived)) \<and>
     (\<exists>p. wk_priority r = work_priority_as_str p \<and> wk_priority_rank r = work_priority_rank p) \<and>
     wk_attempt_count r = wk_lease_version r \<and> 0 \<le> wk_lease_version r \<and>
     (\<exists>p. wc_decode_retry_policy J (wk_retry_policy_json r) = Inr p \<and> validate_work_retry_policy p = Inr ()) \<and>
     (\<exists>s. wc_decode_source_ref J (wk_source_ref_json r) = Inr s) \<and>
     (\<exists>v. decode_result_payload J (wk_result_payload_json r) = Inr v)"

lemma status_texts:
  "''ready'' = work_status_as_str Ready" "''leased'' = work_status_as_str Leased"
  "''running'' = work_status_as_str Running" "''waiting_external'' = work_status_as_str WaitingExternal"
  "''waiting_review'' = work_status_as_str WaitingReview" "''retry_pending'' = work_status_as_str RetryPending"
  "''completed'' = work_status_as_str Completed" "''failed_terminal'' = work_status_as_str FailedTerminal"
  "''cancelled'' = work_status_as_str Cancelled" "''archived'' = work_status_as_str Archived"
  by (simp_all add: work_status_as_str.simps)

lemma status_guards [simp]:
  assumes "wk_status r = work_status_as_str s"
  shows "ready_at now r \<longleftrightarrow> s \<in> {Ready, RetryPending} \<and> wk_archived_at_ms r = None \<and> wk_next_run_at_ms r \<le> now \<and>
      (case wk_lease_expires_at_ms r of None \<Rightarrow> True | Some t \<Rightarrow> t \<le> now)"
    and "lease_expired_at now r \<longleftrightarrow> s \<in> {Leased, Running} \<and>
      (case wk_lease_expires_at_ms r of None \<Rightarrow> False | Some t \<Rightarrow> t < now)"
    and "held_by i owner r \<longleftrightarrow> wk_work_unit_id r = i \<and> wk_lease_owner r = Some owner \<and> s \<in> {Leased, Running}"
  by (auto simp: ready_at_def lease_expired_at_def held_by_def assms status_texts)

lemma row_ok_step:
  assumes "unit_step J r l r'" "row_ok J r"
  shows "row_ok J r'"
  using assms(1)
proof cases
  case (step_lease now owner expires)
  then show ?thesis using assms(2) by (auto simp: row_ok_def lease_fields_def)
next
  case (step_start owner now)
  then show ?thesis using assms(2) by (auto simp: row_ok_def lease_fields_def)
next
  case (step_renew i owner now expires)
  then show ?thesis using assms(2) by (auto simp: row_ok_def lease_fields_def)
next
  case (step_finish i owner p s payload v next_run err now)
  then show ?thesis using assms(2)
    by (auto simp: row_ok_def lease_fields_def lease_cleared_def may_finish_def)
next
  case (step_recover now p s next_run err)
  then show ?thesis using assms(2)
    by (auto simp: row_ok_def lease_fields_def lease_cleared_def recovered_status_def)
next
  case (step_archive s now)
  then show ?thesis using assms(2) by (auto simp: row_ok_def lease_fields_def work_is_terminal_def)
next
  case (step_edit s s' title description p next_run reason now)
  then show ?thesis using assms(2) by (auto simp: row_ok_def lease_fields_def manual_statuses_def)
next
  case (step_assign assigned now)
  then show ?thesis using assms(2) by (simp add: row_ok_def lease_fields_def)
next
  case (step_touch now)
  then show ?thesis using assms(2) by (simp add: row_ok_def lease_fields_def)
qed

lemma step_keeps_id: "unit_step J r l r' \<Longrightarrow> wk_work_unit_id r' = wk_work_unit_id r"
  by (induction rule: unit_step.induct) (simp_all add: lease_cleared_def)

definition units_ok :: "'n work_codec \<Rightarrow> work_db \<Rightarrow> bool" where
  "units_ok J db \<longleftrightarrow> distinct_ids db \<and> (\<forall>r \<in> set (db_units db). row_ok J r)"

lemma row_ok_status: "row_ok J r \<Longrightarrow> \<exists>s. wk_status r = work_status_as_str s"
  by (auto simp: row_ok_def)

section \<open>Editing and recovery\<close>

lemma ok_or_Ok [simp]: "ok_or e v = Inr w \<longleftrightarrow> v = Some w"
  by (simp add: ok_or_def split: option.split)

lemma archive_tx_step:
  assumes "units_ok J db" "archive_tx J E i actor now db = Inr (x, db')"
  shows "rows_step J (\<lambda>l. l = LArchive) (db_units db) (db_units db') \<and> db_dependencies db' = db_dependencies db"
proof (cases x)
  case None
  with assms show ?thesis
    by (auto simp: archive_tx_def try_bind_Ok split: option.splits if_splits)
next
  case (Some k)
  with assms(2) obtain raw s where
    raw: "load_raw_work_unit E db i = Inr (Some raw)"
    and s: "work_status_parse (wk_status raw) = Some s" "work_is_terminal s"
    and d: "db_units db' = map (\<lambda>r. if wk_work_unit_id r = i \<and> wk_archived_at_ms r = None then
        r\<lparr>wk_status := work_status_as_str Archived, wk_archived_at_ms := Some now, wk_updated_at_ms := now\<rparr>
        else r) (db_units db)" "db_dependencies db' = db_dependencies db"
    by (auto simp: archive_tx_def try_bind_Ok dest!: insert_event_units split: option.splits if_splits)
  from load_raw_of [OF raw] obtain r0 where r0: "raw_of db raw r0" "wk_work_unit_id r0 = i" by blast
  have "unit_step J r LArchive
      (r\<lparr>wk_status := work_status_as_str Archived, wk_archived_at_ms := Some now, wk_updated_at_ms := now\<rparr>)"
    if "r \<in> set (db_units db)" "wk_work_unit_id r = i" "wk_archived_at_ms r = None" for r
  proof -
    have "r = r0" using same_row [OF _ that(1), of r0] r0 that(2) assms(1) by (auto simp: raw_of_def units_ok_def)
    then have "work_status_parse (wk_status r) = Some s" using s(1) same_columnsD(2) [of raw r0] r0(1) by (simp add: raw_of_def)
    moreover have "\<exists>t. wk_status r = work_status_as_str t"
      using row_ok_status [of J r] that(1) assms(1) by (auto simp: units_ok_def)
    ultimately show ?thesis using s(2) that(3) by (auto intro: step_archive)
  qed
  then show ?thesis unfolding d by (auto intro!: rows_step_map)
qed

lemma next_fields_status:
  assumes "next_fields s raw q = Inr next" "wk_status raw = work_status_as_str s"
  shows "\<exists>s'. uf_status next = work_status_as_str s' \<and> (s' = s \<or> s \<in> manual_statuses \<and> s' \<in> manual_statuses)"
  using assms by (cases "uq_status q")
    (auto simp: next_fields_def try_bind_Ok Let_def validate_manual_update_status_def manual_statuses_def
      split: if_splits)

lemma update_tx_step:
  assumes "units_ok J db" "update_tx J E i actor now q db = Inr (x, db')"
  shows "rows_step J (\<lambda>l. l = LEdit) (db_units db) (db_units db') \<and> db_dependencies db' = db_dependencies db"
proof -
  consider "db' = db" | raw s n p where
      "load_raw_work_unit E db i = Inr (Some raw)" "work_status_parse (wk_status raw) = Some s"
      "next_fields s raw q = Inr n" "work_priority_parse (uf_priority n) = Some p"
      "db_units db' = map (\<lambda>r. if wk_work_unit_id r = i \<and> wk_archived_at_ms r = None then
        r\<lparr>wk_title := uf_title n, wk_description := uf_description n,
          wk_status := uf_status n, wk_priority := uf_priority n, wk_priority_rank := work_priority_rank p,
          wk_next_run_at_ms := uf_next_run_at_ms n, wk_blocking_reason := uf_blocking_reason n,
          wk_updated_at_ms := now\<rparr> else r) (db_units db)" "db_dependencies db' = db_dependencies db"
    using assms(2)
    by (fastforce simp: update_tx_def try_bind_Ok dest!: insert_event_units split: option.splits if_splits)
  then show ?thesis
  proof cases
    case 1
    then show ?thesis by simp
  next
    case (2 raw s n p)
    from load_raw_of [OF 2(1)] obtain r0 where r0: "raw_of db raw r0" "wk_work_unit_id r0 = i" by blast
    then obtain t q' where t: "wk_status raw = work_status_as_str t" and q': "wk_priority raw = work_priority_as_str q'"
      using assms(1) same_columnsD [of raw r0] by (auto simp: raw_of_def units_ok_def row_ok_def)
    with 2(2) have s: "wk_status raw = work_status_as_str s" by simp
    have "\<exists>u. uf_priority n = work_priority_as_str u"
      using 2(3) q' by (auto simp: next_fields_def try_bind_Ok Let_def split: option.splits)
    then have p: "uf_priority n = work_priority_as_str p" using 2(4) by auto
    obtain s' where s': "uf_status n = work_status_as_str s'" "s' = s \<or> s \<in> manual_statuses \<and> s' \<in> manual_statuses"
      using next_fields_status [OF 2(3) s] by blast
    have "unit_step J r LEdit (r\<lparr>wk_title := uf_title n, wk_description := uf_description n,
          wk_status := uf_status n, wk_priority := uf_priority n, wk_priority_rank := work_priority_rank p,
          wk_next_run_at_ms := uf_next_run_at_ms n, wk_blocking_reason := uf_blocking_reason n,
          wk_updated_at_ms := now\<rparr>)"
      if "r \<in> set (db_units db)" "wk_work_unit_id r = i" "wk_archived_at_ms r = None" for r
    proof -
      have "r = r0" using same_row [OF _ that(1), of r0] r0 that(2) assms(1) by (auto simp: raw_of_def units_ok_def)
      then have "wk_status r = work_status_as_str s" using s same_columnsD(2) [of raw r0] r0(1) by (simp add: raw_of_def)
      then show ?thesis unfolding s'(1) p using s'(2) that(3) by (intro step_edit)
    qed
    then show ?thesis unfolding 2(5,6) by (auto intro!: rows_step_map)
  qed
qed

lemma assign_tx_step:
  assumes "assign_tx J E i assigned actor now db = Inr (x, db')"
  shows "rows_step J (\<lambda>l. l = LTouch) (db_units db) (db_units db') \<and> db_dependencies db' = db_dependencies db"
proof -
  consider "db' = db" | "db_units db' = map (\<lambda>r. if wk_work_unit_id r = i \<and> wk_archived_at_ms r = None then
        r\<lparr>wk_assigned_to := assigned, wk_updated_at_ms := now\<rparr> else r) (db_units db)"
      "db_dependencies db' = db_dependencies db"
    using assms
    by (fastforce simp: assign_tx_def try_bind_Ok dest!: insert_event_units split: option.splits if_splits)
  then show ?thesis by cases (auto intro!: rows_step_map intro: step_assign)
qed

lemma touch_step:
  assumes "touch_work_unit E i now db = Inr db'"
  shows "rows_step J (\<lambda>l. l = LTouch) (db_units db) (db_units db') \<and> db_dependencies db' = db_dependencies db"
proof -
  have "db' = update_units (\<lambda>r. wk_work_unit_id r = i) (\<lambda>r. r\<lparr>wk_updated_at_ms := now\<rparr>) db"
    using assms by (auto simp: touch_work_unit_def try_bind_Ok)
  moreover have "\<exists>l. l = LTouch \<and> unit_step J r l (r\<lparr>wk_updated_at_ms := now\<rparr>)" for r
    using step_touch by blast
  ultimately show ?thesis by (simp add: rows_step_map)
qed

lemma note_tx_step:
  assumes "note_tx J E i note actor now db = Inr (x, db')"
  shows "rows_step J (\<lambda>l. l = LTouch) (db_units db) (db_units db') \<and> db_dependencies db' = db_dependencies db"
proof -
  consider "db' = db" | db1 where "touch_work_unit E i now db = Inr db1" "db_units db' = db_units db1"
      "db_dependencies db' = db_dependencies db1"
    using assms
    by (fastforce simp: note_tx_def try_bind_Ok dest!: insert_event_units split: option.splits if_splits)
  then show ?thesis by cases (use touch_step [of E i now db, where J = J] in auto)
qed

lemma dependency_event_step:
  assumes "dependency_event J E kind blocking blocked actor now db = Inr db'"
  shows "rows_step J (\<lambda>l. l = LTouch) (db_units db) (db_units db') \<and> db_dependencies db' = db_dependencies db"
proof -
  obtain db1 where "touch_work_unit E blocked now db = Inr db1" "db_units db' = db_units db1"
      "db_dependencies db' = db_dependencies db1"
    using assms by (auto simp: dependency_event_def try_bind_Ok dest!: insert_event_units)
  then show ?thesis using touch_step [of E blocked now db, where J = J] by auto
qed

definition add_edge :: "string \<Rightarrow> string \<Rightarrow> i64 \<Rightarrow> string option \<Rightarrow> dependency_row list \<Rightarrow> dependency_row list" where
  "add_edge blocking blocked now actor ds =
     ds @ [\<lparr>dr_blocking = blocking, dr_blocked = blocked, dr_created_at_ms = now, dr_created_by = actor\<rparr>]"

lemma add_dependency_tx_step:
  assumes "add_dependency_tx J E blocking blocked actor now db = Inr (x, db')"
  shows "rows_step J (\<lambda>l. l = LTouch) (db_units db) (db_units db') \<and>
    (db_dependencies db' = db_dependencies db \<or>
     db_dependencies db' = add_edge blocking blocked now actor (db_dependencies db) \<and>
     \<not> depends db blocking blocked \<and> would_create_dependency_cycle E db blocking blocked = Inr False \<and>
     ensure_work_unit_exists E db blocking = Inr () \<and> ensure_work_unit_exists E db blocked = Inr ())"
proof -
  consider "db' = db" | "dependency_event J E ''work_unit_dependency_added'' blocking blocked actor now
      (db\<lparr>db_dependencies := add_edge blocking blocked now actor (db_dependencies db)\<rparr>) = Inr db'"
      "\<not> depends db blocking blocked" "would_create_dependency_cycle E db blocking blocked = Inr False"
      "ensure_work_unit_exists E db blocking = Inr ()" "ensure_work_unit_exists E db blocked = Inr ()"
    using assms
    by (auto simp: add_dependency_tx_def try_bind_Ok add_edge_def split: if_splits)
  then show ?thesis
    by cases (auto dest!: dependency_event_step)
qed

lemma remove_dependency_tx_step:
  assumes "remove_dependency_tx J E blocking blocked actor now db = Inr (x, db')"
  shows "rows_step J (\<lambda>l. l = LTouch) (db_units db) (db_units db') \<and>
    (db_dependencies db' = db_dependencies db \<or>
     db_dependencies db' = filter (\<lambda>d. \<not> (dr_blocking d = blocking \<and> dr_blocked d = blocked)) (db_dependencies db))"
proof -
  consider "db' = db" | "dependency_event J E ''work_unit_dependency_removed'' blocking blocked actor now
      (db\<lparr>db_dependencies := filter (\<lambda>d. \<not> (dr_blocking d = blocking \<and> dr_blocked d = blocked)) (db_dependencies db)\<rparr>)
      = Inr db'"
    using assms
    by (auto simp: remove_dependency_tx_def try_bind_Ok split: if_splits option.splits)
  then show ?thesis
    by cases (auto dest!: dependency_event_step)
qed

lemma hydrate_all_columns: "hydrate_all E db label rs = Inr raws \<Longrightarrow> list_all2 same_columns raws rs"
  by (induction rs arbitrary: raws) (auto simp: try_bind_Ok dest: hydrate_columns)

lemma load_expired_raw_of:
  assumes "load_expired_raw_work_units E db now = Inr raws"
  shows "\<exists>rs. list_all2 same_columns raws rs \<and> set rs = {r \<in> set (db_units db). lease_expired_at now r}"
proof -
  have "list_all2 same_columns raws (sort_key expired_key (filter (lease_expired_at now) (db_units db)))"
    using assms by (auto simp: load_expired_raw_work_units_def try_bind_Ok dest: hydrate_all_columns)
  then show ?thesis by (intro exI conjI) auto
qed

definition recovered_row :: "i64 \<Rightarrow> work_status \<Rightarrow> i64 \<Rightarrow> string option \<Rightarrow> work_row \<Rightarrow> work_row" where
  "recovered_row now s next_run err r =
     lease_cleared (r\<lparr>wk_status := work_status_as_str s, wk_next_run_at_ms := next_run, wk_last_error := err,
       wk_updated_at_ms := now\<rparr>)"

lemma recovered_not_expired: "unit_step J r (LRecover now s) r' \<Longrightarrow> \<not> lease_expired_at now' r'"
  by (cases rule: unit_step.cases) (auto simp: lease_cleared_def lease_expired_at_def)

lemma recover_one_units:
  assumes "recover_one J E actor now raw db = Inr db'"
  shows "\<exists>p n c err. wc_decode_retry_policy J (wk_retry_policy_json raw) = Inr p \<and>
    uint n = wk_attempt_count raw \<and> resolve_recovery p n now err = Inr c \<and>
    db_units db' = map (\<lambda>r. if wk_work_unit_id r = wk_work_unit_id raw \<and> lease_expired_at now r
      then recovered_row now (rn_status c) (rn_next_run_at_ms c) (rn_last_error c) r else r) (db_units db) \<and>
    db_dependencies db' = db_dependencies db"
proof -
  from assms obtain p n err c where "wc_decode_retry_policy J (wk_retry_policy_json raw) = Inr p"
    "u32_from_i64 ''attempt_count'' (wk_attempt_count raw) = Inr n" "resolve_recovery p n now err = Inr c"
    "db_units db' = map (\<lambda>r. if wk_work_unit_id r = wk_work_unit_id raw \<and> lease_expired_at now r
      then recovered_row now (rn_status c) (rn_next_run_at_ms c) (rn_last_error c) r else r) (db_units db)"
    "db_dependencies db' = db_dependencies db"
    by (auto simp: recover_one_def try_bind_Ok recovered_row_def lease_cleared_def dest!: insert_event_units)
  then show ?thesis by (auto simp: u32_from_i64_Ok)
qed

definition recovering :: "'n work_codec \<Rightarrow> i64 \<Rightarrow> work_row list \<Rightarrow> work_row list \<Rightarrow> bool" where
  "recovering J now = list_all2 (\<lambda>r r'. r' = r \<or> (\<exists>s. unit_step J r (LRecover now s) r'))"

lemma recover_all_step:
  assumes "recover_all J E actor now raws db = Inr db'" "list_all2 same_columns raws rs" "set rs \<subseteq> set rs0"
    and "distinct (map wk_work_unit_id rs0)" "recovering J now rs0 (db_units db)"
  shows "recovering J now rs0 (db_units db') \<and> db_dependencies db' = db_dependencies db \<and>
    (\<forall>r' \<in> set (db_units db'). lease_expired_at now r' \<longrightarrow>
       r' \<in> set (db_units db) \<and> wk_work_unit_id r' \<notin> wk_work_unit_id ` set raws)"
  using assms
proof (induction raws arbitrary: db rs)
  case Nil
  then show ?case by simp
next
  case (Cons raw raws)
  then obtain r0 rs' where rs: "rs = r0 # rs'" "same_columns raw r0" "list_all2 same_columns raws rs'"
    by (auto simp: list_all2_Cons1)
  from Cons.prems(1) obtain db1 where db1: "recover_one J E actor now raw db = Inr db1"
    "recover_all J E actor now raws db1 = Inr db'" by (auto simp: try_bind_Ok)
  from recover_one_units [OF db1(1)] obtain p n c err where
    p: "wc_decode_retry_policy J (wk_retry_policy_json raw) = Inr p" and n: "uint n = wk_attempt_count raw"
    and c: "resolve_recovery p n now err = Inr c"
    and u: "db_units db1 = map (\<lambda>r. if wk_work_unit_id r = wk_work_unit_id raw \<and> lease_expired_at now r
      then recovered_row now (rn_status c) (rn_next_run_at_ms c) (rn_last_error c) r else r) (db_units db)"
    and d: "db_dependencies db1 = db_dependencies db" by blast
  have r0: "r0 \<in> set rs0" using Cons.prems(3) rs(1) by simp
  have step: "unit_step J r (LRecover now (rn_status c))
      (recovered_row now (rn_status c) (rn_next_run_at_ms c) (rn_last_error c) r)"
    if "r \<in> set rs0" "wk_work_unit_id r = wk_work_unit_id raw" "lease_expired_at now r" for r
  proof -
    have "r = r0" using Cons.prems(4) that(1,2) r0 same_columnsD(1) [OF rs(2)]
      by (auto simp: distinct_map inj_on_def)
    then have "wc_decode_retry_policy J (wk_retry_policy_json r) = Inr p" "uint n = wk_attempt_count r"
      using p n same_columnsD(6,7) [OF rs(2)] by simp_all
    then show ?thesis unfolding recovered_row_def
      using resolve_recovery_status [OF c] by (intro step_recover [OF that(3)]) auto
  qed
  have "recovering J now rs0 (db_units db1)"
    unfolding recovering_def u list_all2_conv_all_nth length_map
  proof (intro conjI allI impI)
    show len: "length rs0 = length (db_units db)"
      using Cons.prems(5) by (simp add: recovering_def list_all2_lengthD)
    fix k assume k: "k < length rs0"
    let ?r = "db_units db ! k"
    from Cons.prems(5) k have old: "?r = rs0 ! k \<or> (\<exists>s. unit_step J (rs0 ! k) (LRecover now s) ?r)"
      by (simp add: recovering_def list_all2_conv_all_nth)
    show "map (\<lambda>r. if wk_work_unit_id r = wk_work_unit_id raw \<and> lease_expired_at now r
        then recovered_row now (rn_status c) (rn_next_run_at_ms c) (rn_last_error c) r else r) (db_units db) ! k = rs0 ! k \<or>
      (\<exists>s. unit_step J (rs0 ! k) (LRecover now s) (map (\<lambda>r. if wk_work_unit_id r = wk_work_unit_id raw \<and> lease_expired_at now r
        then recovered_row now (rn_status c) (rn_next_run_at_ms c) (rn_last_error c) r else r) (db_units db) ! k))"
      using old step [of "rs0 ! k"] k len recovered_not_expired [of J "rs0 ! k" now _ ?r now]
      by (cases "wk_work_unit_id ?r = wk_work_unit_id raw \<and> lease_expired_at now ?r") auto
  qed
  then have IH: "recovering J now rs0 (db_units db') \<and> db_dependencies db' = db_dependencies db1 \<and>
      (\<forall>r' \<in> set (db_units db'). lease_expired_at now r' \<longrightarrow>
         r' \<in> set (db_units db1) \<and> wk_work_unit_id r' \<notin> wk_work_unit_id ` set raws)"
    using Cons.IH [OF db1(2) rs(3)] Cons.prems(3,4) rs(1) by simp
  have "\<not> lease_expired_at now (recovered_row now (rn_status c) (rn_next_run_at_ms c) (rn_last_error c) r)" for r
    by (simp add: recovered_row_def lease_cleared_def lease_expired_at_def)
  then have "r' \<in> set (db_units db) \<and> wk_work_unit_id r' \<noteq> wk_work_unit_id raw"
    if "r' \<in> set (db_units db1)" "lease_expired_at now r'" for r'
    using that by (auto simp: u split: if_splits)
  with IH d show ?case by auto
qed

lemma generated_id: "generate_work_unit_id E \<noteq> [] \<and> trim (generate_work_unit_id E) = generate_work_unit_id E"
proof -
  have "ascii_graphic (hex_digit d)" if "d < 16" for d
    using that by (auto simp: hex_digit_def ascii_graphic_def)
  then have "ascii_graphic (last (generate_work_unit_id E))"
    by (simp add: generate_work_unit_id_def hex16_def last_map last_rev)
  then show ?thesis
    by (intro conjI trim_graphic_id) (simp_all add: generate_work_unit_id_def ascii_graphic_def)
qed

lemma new_row_ok:
  assumes "codec_ok J" "encode_json (wc_encode_source_ref J) source_ref l1 = Inr st"
    "encode_json (wc_encode_retry_policy J) (nw_retry_policy record) l2 = Inr pt"
    "validate_work_retry_policy (nw_retry_policy record) = Inr ()"
    "validate_initial_status (nw_status record) = Inr ()" "i \<noteq> []" "trim i = i"
  shows "row_ok J (new_row i title description st pt next_run now record)"
proof -
  have "wc_decode_source_ref J st = Inr source_ref" "wc_decode_retry_policy J pt = Inr (nw_retry_policy record)"
    using assms(1-3) by (auto simp: codec_ok_def encode_json_def)
  moreover have "nw_status record \<notin> {Leased, Running, Archived}"
    using assms(5) by (auto simp: validate_initial_status_def split: if_splits)
  ultimately show ?thesis
    using assms(4,6,7) by (auto simp: row_ok_def new_row_def lease_fields_def decode_result_payload_def)
qed

section \<open>The operations\<close>

lemma rows_step_mono: "rows_step J L rs rs' \<Longrightarrow> (\<And>l. L l \<Longrightarrow> M l) \<Longrightarrow> rows_step J M rs rs'"
  unfolding rows_step_def by (erule list_all2_mono) blast

lemma insert_unit_Ok:
  "insert_unit E r db = Inr db' \<longleftrightarrow> sql E ''insert work unit row failed'' (wk_work_unit_id r) = Inr () \<and>
    wk_work_unit_id r \<notin> wk_work_unit_id ` set (db_units db) \<and> db' = db\<lparr>db_units := db_units db @ [r]\<rparr>"
proof -
  have "list_ex (\<lambda>q. wk_work_unit_id q = wk_work_unit_id r) (db_units db) \<longleftrightarrow>
      wk_work_unit_id r \<in> wk_work_unit_id ` set (db_units db)"
    by (metis (mono_tags, lifting) image_iff list_ex_iff)
  then show ?thesis by (auto simp: insert_unit_def try_bind_Ok)
qed

lemma create_step:
  assumes "codec_ok J"
  shows "snd (create_work_unit J E record actor db) = db \<or>
    (\<exists>r. db_units (snd (create_work_unit J E record actor db)) = db_units db @ [r] \<and> row_ok J r \<and>
      wk_work_unit_id r \<notin> wk_work_unit_id ` set (db_units db) \<and>
      db_dependencies (snd (create_work_unit J E record actor db)) = db_dependencies db)"
proof (cases "create_input J E record")
  case (Inl e)
  then show ?thesis by (simp add: create_work_unit_def with_input_def)
next
  case (Inr v)
  obtain source_ref r where v: "v = (source_ref, r)" by fastforce
  then have ok: "row_ok J r"
    using Inr assms generated_id [of E]
    by (auto simp: create_input_def try_bind_Ok Let_def normalize_required_text_def intro!: new_row_ok
      split: option.splits if_splits)
  have s: "snd (create_work_unit J E record actor db) =
      snd (transact (create_tx J E source_ref r (normalize_optional_text actor) db) db)"
    by (auto simp: create_work_unit_def with_input_def Inr v and_then_def split: prod.splits sum.splits)
  show ?thesis
  proof (cases "create_tx J E source_ref r (normalize_optional_text actor) db")
    case (Inl e)
    then show ?thesis by (simp add: s transact_def)
  next
    case (Inr w)
    then have "\<exists>db'. w = ((), db') \<and> db_units db' = db_units db @ [r] \<and> db_dependencies db' = db_dependencies db \<and>
      wk_work_unit_id r \<notin> wk_work_unit_id ` set (db_units db)"
      by (auto simp: create_tx_def insert_unit_Ok try_bind_Ok dest!: insert_event_units)
    then show ?thesis using ok Inr by (auto simp: s transact_def)
  qed
qed

text \<open>The refinement: an operation moves the rows one by one, and may add one row.\<close>

lemma with_input_prop: "P db \<Longrightarrow> (\<And>x. v = Inr x \<Longrightarrow> P (snd (f x))) \<Longrightarrow> P (snd (with_input v f db))"
  by (cases v) (simp_all add: with_input_def)

lemma transact_prop: "P db \<Longrightarrow> (\<And>x db'. body = Inr (x, db') \<Longrightarrow> P db') \<Longrightarrow> P (snd (transact body db))"
  by (cases body) (auto simp: transact_def split: prod.splits)

definition moves :: "'n work_codec \<Rightarrow> (unit_label \<Rightarrow> bool) \<Rightarrow> work_db \<Rightarrow> work_db \<Rightarrow> bool" where
  "moves J L db db' \<longleftrightarrow> rows_step J L (db_units db) (db_units db') \<and> db_dependencies db' = db_dependencies db"

lemma moves_refl [simp, intro]: "moves J L db db"
  by (simp add: moves_def)

lemma movesI: "rows_step J M (db_units db) (db_units db') \<and> db_dependencies db' = db_dependencies db \<Longrightarrow>
    (\<And>l. M l \<Longrightarrow> L l) \<Longrightarrow> moves J L db db'"
  by (auto simp: moves_def elim: rows_step_mono)

lemma normalized_text: "normalize_required_text v f = Inr w \<longleftrightarrow> trim v \<noteq> [] \<and> w = trim v"
  by (auto simp: normalize_required_text_def)

lemma acquire_moves:
  assumes units: "units_ok J db"
  shows "moves J (op_label E (AcquireOp q)) db (snd (acquire_next_ready_lease J E q db))"
  unfolding acquire_next_ready_lease_def
proof (rule with_input_prop [where P = "moves J (op_label E (AcquireOp q)) db"], simp, clarsimp simp: try_bind_Ok normalized_text)
  fix expires
  show "moves J (op_label E (AcquireOp q)) db (snd (transact (acquire_tx J E (trim (aq_owner q)) (aq_ttl_ms q) (normalize_optional_text (aq_actor q))
      (now_or_clock E (aq_now_ms q)) expires db) db))"
    if "trim (aq_owner q) \<noteq> []"
  proof (rule transact_prop [where P = "moves J (op_label E (AcquireOp q)) db"], simp)
    fix v db' assume "(acquire_tx J E (trim (aq_owner q)) (aq_ttl_ms q) (normalize_optional_text (aq_actor q))
      (now_or_clock E (aq_now_ms q)) expires db) = Inr (v, db')"
    then show "moves J (op_label E (AcquireOp q)) db db'"
      using units that by (intro movesI [OF acquire_tx_step]) (auto simp: units_ok_def)
  qed
qed

lemma start_moves: "moves J (op_label E (StartOp q)) db (snd (mark_leased_running J E q db))"
  unfolding mark_leased_running_def
  by (intro with_input_prop [where P = "moves J (op_label E (StartOp q)) db"])
    (auto simp: try_bind_Ok normalized_text intro!: transact_prop [where P = "moves J (op_label E (StartOp q)) db"]
      intro: movesI [OF start_tx_step])

lemma heartbeat_moves:
  "moves J (op_label E (HeartbeatOp q)) db (snd (heartbeat_lease J E q db))"
  unfolding heartbeat_lease_def
proof (rule with_input_prop [where P = "moves J (op_label E (HeartbeatOp q)) db"], simp, clarsimp simp: try_bind_Ok normalized_text)
  fix expires
  show "moves J (op_label E (HeartbeatOp q)) db (snd (transact (heartbeat_tx J E (trim (hq_work_unit_id q)) (trim (hq_owner q)) (hq_ttl_ms q)
      (normalize_optional_text (hq_actor q)) (now_or_clock E (hq_now_ms q)) expires db) db))"
    if "trim (hq_owner q) \<noteq> []"
  proof (rule transact_prop [where P = "moves J (op_label E (HeartbeatOp q)) db"], simp)
    fix v db' assume "(heartbeat_tx J E (trim (hq_work_unit_id q)) (trim (hq_owner q)) (hq_ttl_ms q)
      (normalize_optional_text (hq_actor q)) (now_or_clock E (hq_now_ms q)) expires db) = Inr (v, db')"
    then show "moves J (op_label E (HeartbeatOp q)) db db'"
      by (intro movesI [OF heartbeat_tx_step]) auto
  qed
qed

lemma complete_moves:
  "units_ok J db \<Longrightarrow> codec_ok J \<Longrightarrow> moves J (op_label E (CompleteOp q)) db (snd (complete_work_unit J E q db))"
  unfolding complete_work_unit_def
  by (intro with_input_prop [where P = "moves J (op_label E (CompleteOp q)) db"])
    (auto simp: try_bind_Ok normalized_text units_ok_def intro!: transact_prop [where P = "moves J (op_label E (CompleteOp q)) db"]
      intro: movesI [OF complete_tx_step])

lemma archive_moves:
  "units_ok J db \<Longrightarrow> moves J (op_label E (ArchiveOp q)) db (snd (archive_work_unit J E q db))"
  unfolding archive_work_unit_def
  by (intro with_input_prop [where P = "moves J (op_label E (ArchiveOp q)) db"])
    (auto simp: normalized_text intro!: transact_prop [where P = "moves J (op_label E (ArchiveOp q)) db"]
      intro: movesI [OF archive_tx_step])

lemma update_moves:
  "units_ok J db \<Longrightarrow> moves J (op_label E (UpdateOp q)) db (snd (update_work_unit J E q db))"
  unfolding update_work_unit_def
  by (intro with_input_prop [where P = "moves J (op_label E (UpdateOp q)) db"])
    (auto simp: normalized_text intro!: transact_prop [where P = "moves J (op_label E (UpdateOp q)) db"]
      intro: movesI [OF update_tx_step])

lemma assign_moves: "moves J (op_label E (AssignOp q)) db (snd (assign_work_unit J E q db))"
  unfolding assign_work_unit_def
  by (intro with_input_prop [where P = "moves J (op_label E (AssignOp q)) db"])
    (auto simp: normalized_text intro!: transact_prop [where P = "moves J (op_label E (AssignOp q)) db"]
      intro: movesI [OF assign_tx_step])

lemma note_moves: "moves J (op_label E (NoteOp q)) db (snd (append_note J E q db))"
  unfolding append_note_def
  by (intro with_input_prop [where P = "moves J (op_label E (NoteOp q)) db"])
    (auto simp: try_bind_Ok normalized_text intro!: transact_prop [where P = "moves J (op_label E (NoteOp q)) db"]
      intro: movesI [OF note_tx_step])

lemma recovering_rows: "recovering J now rs rs' \<Longrightarrow> rows_step J (\<lambda>l. \<exists>s. l = LRecover now s) rs rs'"
  unfolding recovering_def rows_step_def by (erule list_all2_mono) blast

lemma recover_tx_step:
  assumes "units_ok J db" "recover_tx J E actor now db = Inr (ids, db')"
  shows "rows_step J (\<lambda>l. \<exists>s. l = LRecover now s) (db_units db) (db_units db') \<and>
    db_dependencies db' = db_dependencies db"
    and "\<forall>r \<in> set (db_units db'). \<not> lease_expired_at now r"
proof -
  from assms(2) obtain raws where raws: "load_expired_raw_work_units E db now = Inr raws"
    "recover_all J E actor now raws db = Inr db'"
    by (auto simp: recover_tx_def try_bind_Ok)
  from load_expired_raw_of [OF raws(1)] obtain rs where rs: "list_all2 same_columns raws rs"
    "set rs = {r \<in> set (db_units db). lease_expired_at now r}" by blast
  have "recovering J now (db_units db) (db_units db)"
    by (simp add: recovering_def list_all2_refl)
  then have R: "recovering J now (db_units db) (db_units db')" "db_dependencies db' = db_dependencies db"
    "\<forall>r' \<in> set (db_units db'). lease_expired_at now r' \<longrightarrow>
       r' \<in> set (db_units db) \<and> wk_work_unit_id r' \<notin> wk_work_unit_id ` set raws"
    using recover_all_step [OF raws(2) rs(1)] rs(2) assms(1) by (auto simp: units_ok_def distinct_ids_def)
  from R(1,2) recovering_rows show "rows_step J (\<lambda>l. \<exists>s. l = LRecover now s) (db_units db) (db_units db') \<and>
      db_dependencies db' = db_dependencies db" by blast
  show "\<forall>r \<in> set (db_units db'). \<not> lease_expired_at now r"
  proof (intro ballI notI)
    fix r assume r: "r \<in> set (db_units db')" "lease_expired_at now r"
    with R(3) have "r \<in> set rs" "wk_work_unit_id r \<notin> wk_work_unit_id ` set raws" using rs(2) by auto
    moreover from this(1) rs(1) obtain raw where "raw \<in> set raws" "same_columns raw r"
      by (metis in_set_conv_nth list_all2_conv_all_nth)
    ultimately show False using same_columnsD(1) [of raw r] by (metis imageI)
  qed
qed

lemma recover_moves:
  assumes "units_ok J db"
  shows "moves J (op_label E (RecoverOp actor now_ms)) db (snd (recover_expired_leases J E actor now_ms db))"
proof -
  have "snd (recover_expired_leases J E actor now_ms db) =
      snd (transact (recover_tx J E (normalize_optional_text actor) (now_or_clock E now_ms) db) db)"
    by (auto simp: recover_expired_leases_def and_then_def split: prod.splits sum.splits)
  also have "moves J (op_label E (RecoverOp actor now_ms)) db \<dots>"
    by (rule transact_prop [where P = "moves J (op_label E (RecoverOp actor now_ms)) db"])
      (auto intro: movesI [OF recover_tx_step(1) [OF assms]])
  finally show ?thesis .
qed

end
