(* ===== verification/Work_Invariants.thy ===== *)
theory Work_Invariants
  imports Work_Lifecycle
begin

text \<open>
  What holds of every store the repository can produce: rows stay well-formed and the dependency
  graph acyclic, the recursive query of the cycle check computing exactly the units reachable
  from a unit.
\<close>

section \<open>The dependency graph\<close>

definition dep_edges :: "dependency_row list \<Rightarrow> (string \<times> string) set" where
  "dep_edges ds = (\<lambda>d. (dr_blocking d, dr_blocked d)) ` set ds"

lemma blocked_by_edges: "set (blocked_by ds i) = {y. (i, y) \<in> dep_edges ds}"
  by (auto simp: blocked_by_def dep_edges_def)

lemma chain_sound:
  assumes "set queue \<subseteq> R" "set seen \<subseteq> R" "\<And>x y. x \<in> R \<Longrightarrow> (x, y) \<in> dep_edges ds \<Longrightarrow> y \<in> R"
  shows "set (dependency_chain ds queue seen) \<subseteq> R"
  using assms
proof (induction ds queue seen rule: dependency_chain.induct)
  case (1 ds seen)
  then show ?case by simp
next
  case (2 ds i queue seen)
  have "set (unseen seen (blocked_by ds i)) \<subseteq> R"
    using 2(2,4) by (auto simp: unseen_def blocked_by_edges)
  then have "set (dependency_chain ds (queue @ unseen seen (blocked_by ds i)) (seen @ unseen seen (blocked_by ds i))) \<subseteq> R"
    using 2 by (intro 2(1)) auto
  then show ?case by (simp add: Let_def)
qed

lemma chain_closed:
  assumes "set queue \<subseteq> set seen"
    and "\<And>x y. x \<in> set seen \<Longrightarrow> x \<notin> set queue \<Longrightarrow> (x, y) \<in> dep_edges ds \<Longrightarrow> y \<in> set seen"
  shows "set seen \<subseteq> set (dependency_chain ds queue seen) \<and>
    (\<forall>x \<in> set (dependency_chain ds queue seen). \<forall>y. (x, y) \<in> dep_edges ds \<longrightarrow>
       y \<in> set (dependency_chain ds queue seen))"
  using assms
proof (induction ds queue seen rule: dependency_chain.induct)
  case (1 ds seen)
  then show ?case by auto
next
  case (2 ds i queue seen)
  let ?new = "unseen seen (blocked_by ds i)"
  have step: "y \<in> set (seen @ ?new)"
    if "x \<in> set (seen @ ?new)" "x \<notin> set (queue @ ?new)" "(x, y) \<in> dep_edges ds" for x y
  proof (cases "x = i")
    case True
    with that(3) show ?thesis by (auto simp: unseen_def blocked_by_edges)
  next
    case False
    with that 2(3) [of x y] show ?thesis by auto
  qed
  have "set (queue @ ?new) \<subseteq> set (seen @ ?new)" using 2(2) by auto
  from 2(1) [OF refl this step]
  show ?case by (simp add: Let_def)
qed

lemma chain_exact:
  "set (dependency_chain ds (remdups (blocked_by ds i)) (remdups (blocked_by ds i))) = {y. (i, y) \<in> (dep_edges ds)\<^sup>+}"
  (is "?C = ?R")
proof
  show "?C \<subseteq> ?R"
    by (rule chain_sound) (auto simp: blocked_by_edges intro: trancl.intros trancl_into_trancl)
  have closed: "{y. (i, y) \<in> dep_edges ds} \<subseteq> ?C" "\<And>x y. x \<in> ?C \<Longrightarrow> (x, y) \<in> dep_edges ds \<Longrightarrow> y \<in> ?C"
    using chain_closed [of "remdups (blocked_by ds i)" "remdups (blocked_by ds i)" ds]
    by (auto simp: blocked_by_edges)
  have "y \<in> ?C" if "(i, y) \<in> (dep_edges ds)\<^sup>+" for y
    using that by induction (use closed in auto)
  then show "?R \<subseteq> ?C" by auto
qed

lemma no_cycle_found:
  "would_create_dependency_cycle E db blocking blocked = Inr False \<Longrightarrow>
    (blocked, blocking) \<notin> (dep_edges (db_dependencies db))\<^sup>+"
  by (simp add: would_create_dependency_cycle_def try_bind_Ok Let_def chain_exact)

section \<open>The invariant of the store\<close>

definition dependencies_ok :: "work_db \<Rightarrow> bool" where
  "dependencies_ok db \<longleftrightarrow>
     acyclic (dep_edges (db_dependencies db)) \<and>
     (\<forall>d \<in> set (db_dependencies db). dr_blocking d \<in> wk_work_unit_id ` set (db_units db) \<and>
        dr_blocked d \<in> wk_work_unit_id ` set (db_units db)) \<and>
     distinct (map (\<lambda>d. (dr_blocking d, dr_blocked d)) (db_dependencies db))"

definition store_ok :: "'n work_codec \<Rightarrow> work_db \<Rightarrow> bool" where
  "store_ok J db \<longleftrightarrow> units_ok J db \<and> dependencies_ok db"

lemma rows_step_ids: "rows_step J L rs rs' \<Longrightarrow> map wk_work_unit_id rs' = map wk_work_unit_id rs"
  unfolding rows_step_def
  by (induction rule: list_all2_induct) (auto dest: step_keeps_id)

lemma rows_step_ok: "rows_step J L rs rs' \<Longrightarrow> \<forall>r \<in> set rs. row_ok J r \<Longrightarrow> \<forall>r \<in> set rs'. row_ok J r"
  unfolding rows_step_def
  by (induction rule: list_all2_induct) (auto dest: row_ok_step)

lemma rows_step_units_ok:
  assumes "units_ok J db" "rows_step J L (db_units db) (db_units db')"
  shows "units_ok J db'" "wk_work_unit_id ` set (db_units db') = wk_work_unit_id ` set (db_units db)"
  using assms rows_step_ids [OF assms(2)] rows_step_ok [OF assms(2)]
  by (auto simp: units_ok_def distinct_ids_def simp flip: set_map)

lemma moves_store_ok: "store_ok J db \<Longrightarrow> moves J L db db' \<Longrightarrow> store_ok J db'"
  using rows_step_units_ok [of J db L db']
  by (auto simp: store_ok_def moves_def dependencies_ok_def)

text \<open>What adding and removing a dependency may do.\<close>

definition adds_edge :: "'n work_codec \<Rightarrow> work_db \<Rightarrow> work_db \<Rightarrow> bool" where
  "adds_edge J db db' \<longleftrightarrow>
     rows_step J (\<lambda>l. l = LTouch) (db_units db) (db_units db') \<and>
     (db_dependencies db' = db_dependencies db \<or>
      (\<exists>blocking blocked now actor.
        db_dependencies db' = add_edge blocking blocked now actor (db_dependencies db) \<and>
        blocking \<noteq> blocked \<and> \<not> depends db blocking blocked \<and>
        (blocked, blocking) \<notin> (dep_edges (db_dependencies db))\<^sup>+ \<and>
        blocking \<in> wk_work_unit_id ` set (db_units db) \<and> blocked \<in> wk_work_unit_id ` set (db_units db)))"

definition removes_edges :: "'n work_codec \<Rightarrow> work_db \<Rightarrow> work_db \<Rightarrow> bool" where
  "removes_edges J db db' \<longleftrightarrow>
     rows_step J (\<lambda>l. l = LTouch) (db_units db) (db_units db') \<and>
     (\<exists>keep. db_dependencies db' = filter keep (db_dependencies db))"

lemma removes_edges_refl: "removes_edges J db db"
  unfolding removes_edges_def by (intro conjI exI [of _ "\<lambda>_. True"]) simp_all

lemma add_dependency_cases: "adds_edge J db (snd (add_dependency J E q db))"
  unfolding add_dependency_def
proof (rule with_input_prop [where P = "adds_edge J db"], simp add: adds_edge_def, clarify)
  fix blocking blocked
  assume "dependency_endpoints q = Inr (blocking, blocked)"
  then have ne: "blocking \<noteq> blocked"
    by (auto simp: dependency_endpoints_def try_bind_Ok validate_dependency_endpoints_def split: if_splits)
  have ex: "i \<in> wk_work_unit_id ` set (db_units db)" if "ensure_work_unit_exists E db i = Inr ()" for i
    using that by (auto simp: ensure_work_unit_exists_def try_bind_Ok list_ex_iff split: if_splits)
  let ?tx = "add_dependency_tx J E blocking blocked (normalize_optional_text (dq_actor q))
    (now_or_clock E (dq_now_ms q)) db"
  show "adds_edge J db (snd (reload J E (transact ?tx db)))"
    unfolding reload_db
  proof (rule transact_prop [where P = "adds_edge J db"], simp add: adds_edge_def)
    fix x db' assume "?tx = Inr (x, db')"
    note c = add_dependency_tx_step [OF this]
    from conjunct2 [OF c] show "adds_edge J db db'"
    proof
      assume "db_dependencies db' = db_dependencies db"
      then show ?thesis using conjunct1 [OF c] by (simp add: adds_edge_def)
    next
      assume "db_dependencies db' = add_edge blocking blocked (now_or_clock E (dq_now_ms q))
          (normalize_optional_text (dq_actor q)) (db_dependencies db) \<and>
        \<not> depends db blocking blocked \<and> would_create_dependency_cycle E db blocking blocked = Inr False \<and>
        ensure_work_unit_exists E db blocking = Inr () \<and> ensure_work_unit_exists E db blocked = Inr ()"
      then show ?thesis using conjunct1 [OF c] ne ex [of blocking] ex [of blocked] no_cycle_found [of E db blocking blocked]
        unfolding adds_edge_def by metis
    qed
  qed
qed

lemma remove_dependency_cases: "removes_edges J db (snd (remove_dependency J E q db))"
  unfolding remove_dependency_def
proof (rule with_input_prop [where P = "removes_edges J db"], rule removes_edges_refl, clarify)
  fix blocking blocked
  let ?tx = "remove_dependency_tx J E blocking blocked (normalize_optional_text (dq_actor q))
    (now_or_clock E (dq_now_ms q)) db"
  show "removes_edges J db (snd (reload J E (transact ?tx db)))"
    unfolding reload_db
  proof (rule transact_prop [where P = "removes_edges J db"], rule removes_edges_refl)
    fix x db' assume "?tx = Inr (x, db')"
    from remove_dependency_tx_step [OF this] removes_edges_refl [of J db] show "removes_edges J db db'"
      unfolding removes_edges_def by auto
  qed
qed

lemma acyclic_subset_edges: "acyclic (dep_edges ds) \<Longrightarrow> acyclic (dep_edges (filter keep ds))"
  by (rule acyclic_subset) (auto simp: dep_edges_def)

lemma store_ok_step:
  assumes "codec_ok J" "store_ok J db"
  shows "store_ok J (work_step J E op db)"
proof -
  have u: "units_ok J db" using assms(2) by (simp add: store_ok_def)
  show ?thesis
  proof (cases op)
    case (CreateOp nw actor)
    consider "snd (create_work_unit J E nw actor db) = db" | r where
        "db_units (snd (create_work_unit J E nw actor db)) = db_units db @ [r]" "row_ok J r"
        "wk_work_unit_id r \<notin> wk_work_unit_id ` set (db_units db)"
        "db_dependencies (snd (create_work_unit J E nw actor db)) = db_dependencies db"
      using create_step [OF assms(1)] by blast
    then show ?thesis
      by cases (use assms(2) CreateOp in \<open>auto simp: store_ok_def units_ok_def distinct_ids_def dependencies_ok_def\<close>)
  next
    case (AddDependencyOp q)
    let ?db = "snd (add_dependency J E q db)"
    note c = add_dependency_cases [of J db E q, unfolded adds_edge_def]
    have units: "units_ok J ?db" "wk_work_unit_id ` set (db_units ?db) = wk_work_unit_id ` set (db_units db)"
      using rows_step_units_ok [OF u conjunct1 [OF c]] by simp_all
    from conjunct2 [OF c] have "dependencies_ok ?db"
    proof
      assume "db_dependencies ?db = db_dependencies db"
      then show ?thesis using assms(2) units(2) by (simp add: store_ok_def dependencies_ok_def)
    next
      assume "\<exists>blocking blocked now actor.
       db_dependencies ?db = add_edge blocking blocked now actor (db_dependencies db) \<and>
       blocking \<noteq> blocked \<and> \<not> depends db blocking blocked \<and>
       (blocked, blocking) \<notin> (dep_edges (db_dependencies db))\<^sup>+ \<and>
       blocking \<in> wk_work_unit_id ` set (db_units db) \<and> blocked \<in> wk_work_unit_id ` set (db_units db)"
      then obtain a b now actor where e: "db_dependencies ?db = add_edge a b now actor (db_dependencies db)"
        and n: "a \<noteq> b" "\<not> depends db a b" "(b, a) \<notin> (dep_edges (db_dependencies db))\<^sup>+"
        and x: "a \<in> wk_work_unit_id ` set (db_units db)" "b \<in> wk_work_unit_id ` set (db_units db)"
        by blast
      have "dep_edges (db_dependencies ?db) = insert (a, b) (dep_edges (db_dependencies db))"
        by (auto simp: e add_edge_def dep_edges_def)
      moreover have "(b, a) \<notin> (dep_edges (db_dependencies db))\<^sup>*" using n(1,3) by (auto simp: rtrancl_eq_or_trancl)
      moreover have "(a, b) \<notin> set (map (\<lambda>d. (dr_blocking d, dr_blocked d)) (db_dependencies db))"
        using n(2) by (auto simp: depends_def list_ex_iff)
      ultimately show ?thesis
        using assms(2) x units(2) by (auto simp: store_ok_def dependencies_ok_def e add_edge_def)
    qed
    with units(1) AddDependencyOp show ?thesis by (simp add: store_ok_def)
  next
    case (RemoveDependencyOp q)
    let ?db = "snd (remove_dependency J E q db)"
    note c = remove_dependency_cases [of J db E q, unfolded removes_edges_def]
    have units: "units_ok J ?db" "wk_work_unit_id ` set (db_units ?db) = wk_work_unit_id ` set (db_units db)"
      using rows_step_units_ok [OF u conjunct1 [OF c]] by simp_all
    from conjunct2 [OF c] obtain keep where "db_dependencies ?db = filter keep (db_dependencies db)" by blast
    then have "dependencies_ok ?db"
      using assms(2) units(2) acyclic_subset_edges [of "db_dependencies db" keep]
      by (auto simp: store_ok_def dependencies_ok_def distinct_map intro: inj_on_subset)
    with units(1) RemoveDependencyOp show ?thesis by (simp add: store_ok_def)
  qed (use assms u in \<open>auto intro: moves_store_ok acquire_moves start_moves heartbeat_moves complete_moves archive_moves
    update_moves assign_moves note_moves recover_moves\<close>)
qed

lemma store_ok_empty: "store_ok J empty_work_db"
  by (simp add: store_ok_def units_ok_def distinct_ids_def dependencies_ok_def empty_work_db_def dep_edges_def acyclic_def)

lemma reachable_store_ok: "work_reachable J db \<Longrightarrow> codec_ok J \<Longrightarrow> store_ok J db"
  by (induction rule: work_reachable.induct) (simp_all add: store_ok_empty store_ok_step)

end
