(* ===== verification/Work_Properties.thy ===== *)
theory Work_Properties
  imports Work_Invariants "HOL-Library.Countable"
begin

text \<open>
  What the work-unit queue promises: a consistent store in which every unit can be read, leases that
  end only by their owner or by expiry and that a version identifies, dependencies that never
  deadlock, a recovery that leaves no expired lease, retry delays and budgets, and an event for
  every change.
\<close>

section \<open>Reading\<close>

definition no_faults :: "work_env \<Rightarrow> bool" where
  "no_faults E \<longleftrightarrow> (\<forall>label key. we_fault E label key = None)"

lemma no_faults_sql [simp]:
  assumes "no_faults E"
  shows "sql E l k = Inr ()" "sql_all E ls k = Inr ()" "open_connection E k = Inr ()"
  using assms by (simp_all add: no_faults_def sql_def sql_all_def open_connection_def)

lemma no_faults_hydrate:
  assumes "no_faults E"
  shows "\<exists>raw. hydrate_raw_work_unit E db r = Inr raw \<and> same_columns raw r"
proof -
  have "\<exists>raw. hydrate_raw_work_unit E db r = Inr raw"
    using assms by (simp add: hydrate_raw_work_unit_def load_blocked_work_unit_ids_def load_blocking_work_unit_ids_def)
  then show ?thesis using hydrate_columns by blast
qed

lemma find_row:
  assumes "distinct_ids db" "r \<in> set (db_units db)"
  shows "find (\<lambda>q. wk_work_unit_id q = wk_work_unit_id r) (db_units db) = Some r"
proof -
  obtain q where "find (\<lambda>q. wk_work_unit_id q = wk_work_unit_id r) (db_units db) = Some q"
    using assms(2) by (cases "find (\<lambda>q. wk_work_unit_id q = wk_work_unit_id r) (db_units db)")
      (auto simp: find_None_iff)
  moreover from this have "q \<in> set (db_units db)" "wk_work_unit_id q = wk_work_unit_id r"
    by (auto simp: find_Some_iff)
  ultimately show ?thesis using same_row [OF assms(1)] assms(2) by metis
qed

lemma no_faults_load:
  assumes "no_faults E" "distinct_ids db" "r \<in> set (db_units db)"
  shows "\<exists>raw. load_raw_work_unit E db (wk_work_unit_id r) = Inr (Some raw) \<and> same_columns raw r"
  using no_faults_hydrate [OF assms(1), of db r] find_row [OF assms(2,3)] assms(1)
  by (auto simp: load_raw_work_unit_def)

lemma u64_of_version: "0 \<le> v \<Longrightarrow> u64_from_i64 l v = Inr (of_int v)"
  by (simp add: u64_from_i64_def)

lemma ok_or_Some [simp]: "ok_or e (Some x) = Inr x"
  by (simp add: ok_or_def)

text \<open>What a snapshot shows of a row.\<close>

definition shows_row :: "'n work_snapshot \<Rightarrow> work_row \<Rightarrow> bool" where
  "shows_row s r \<longleftrightarrow>
     wu_work_unit_id (ws_work_unit s) = wk_work_unit_id r \<and>
     work_status_as_str (wu_status (ws_work_unit s)) = wk_status r \<and>
     map_option wl_owner (ws_lease s) = wk_lease_owner r \<and>
     (\<forall>l. ws_lease s = Some l \<longrightarrow> Some (wl_expires_at_ms l) = wk_lease_expires_at_ms r)"

lemma row_snapshot:
  assumes "row_ok J r" "same_columns raw r" "wk_attempt_count r < 2 ^ 32"
  shows "\<exists>s. try_work_unit_snapshot J raw = Inr s \<and> shows_row s r"
proof -
  note c = same_columnsD [OF assms(2)]
  from assms(1) obtain k st p pol src v where
    r: "wk_kind r = work_kind_as_str k" "wk_status r = work_status_as_str st" "lease_fields r (st \<in> {Leased, Running})"
      "wk_priority r = work_priority_as_str p" "wc_decode_retry_policy J (wk_retry_policy_json r) = Inr pol"
      "wc_decode_source_ref J (wk_source_ref_json r) = Inr src"
      "decode_result_payload J (wk_result_payload_json r) = Inr v"
      "wk_attempt_count r = wk_lease_version r" "0 \<le> wk_lease_version r"
    by (auto simp: row_ok_def)
  have n: "u32_from_i64 ''attempt_count'' (wk_attempt_count r) = Inr (of_int (wk_attempt_count r))"
    using r(8,9) assms(3) by (simp add: u32_from_i64_def)
  have "\<exists>lease. build_lease_record raw = Inr lease \<and> map_option wl_owner lease = wk_lease_owner r \<and>
      (\<forall>l. lease = Some l \<longrightarrow> Some (wl_expires_at_ms l) = wk_lease_expires_at_ms r)"
  proof (cases "wk_lease_owner r")
    case None
    then show ?thesis by (simp add: build_lease_record_def c)
  next
    case (Some owner)
    with r(3) obtain a h e where "wk_lease_acquired_at_ms r = Some a" "wk_lease_heartbeat_at_ms r = Some h"
      "wk_lease_expires_at_ms r = Some e" by (auto simp: lease_fields_def)
    with Some r(9) show ?thesis by (simp add: build_lease_record_def c u64_of_version)
  qed
  then obtain lease where l: "build_lease_record raw = Inr lease" "map_option wl_owner lease = wk_lease_owner r"
    "\<forall>l. lease = Some l \<longrightarrow> Some (wl_expires_at_ms l) = wk_lease_expires_at_ms r" by blast
  have "\<exists>s. try_work_unit_snapshot J raw = Inr s \<and> wu_work_unit_id (ws_work_unit s) = wk_work_unit_id r \<and>
      wu_status (ws_work_unit s) = st \<and> ws_lease s = lease"
    using n by (simp add: try_work_unit_snapshot_def c r l(1) decode_json_def)
  then show ?thesis using l(2,3) r(2) by (auto simp: shows_row_def)
qed

lemma load_snapshot:
  assumes "no_faults E" "units_ok J db" "r \<in> set (db_units db)" "wk_attempt_count r < 2 ^ 32"
  shows "\<exists>s. load_work_unit_snapshot J E db (wk_work_unit_id r) = Inr (Some s) \<and> shows_row s r"
proof -
  obtain raw where raw: "load_raw_work_unit E db (wk_work_unit_id r) = Inr (Some raw)" "same_columns raw r"
    using no_faults_load [OF assms(1) _ assms(3)] assms(2) by (auto simp: units_ok_def)
  moreover obtain s where "try_work_unit_snapshot J raw = Inr s" "shows_row s r"
    using row_snapshot [OF _ raw(2) assms(4), of J] assms(2,3) by (auto simp: units_ok_def)
  moreover have "trim (wk_work_unit_id r) = wk_work_unit_id r" "wk_work_unit_id r \<noteq> []"
    using assms(2,3) by (auto simp: units_ok_def row_ok_def)
  ultimately show ?thesis
    using assms(1) by (auto simp: load_work_unit_snapshot_def normalize_required_text_def)
qed

section \<open>Leases\<close>

lemma lease_under_step:
  assumes "unit_step J r l r'" "row_ok J r" "wk_lease_owner r = Some owner"
  shows "wk_lease_owner r' = Some owner \<and> wk_lease_version r' = wk_lease_version r \<and>
      (wk_lease_expires_at_ms r' = wk_lease_expires_at_ms r \<or> (\<exists>now e. l = LRenew owner now e)) \<or>
    (\<exists>s. l = LFinish owner s) \<or> (\<exists>now s. l = LRecover now s \<and> lease_expired_at now r)"
  using assms(1)
proof cases
  case (step_lease now owner expires)
  then show ?thesis using assms(2,3) by (auto simp: row_ok_def lease_fields_def)
qed (use assms(3) in \<open>auto simp: held_by_def\<close>)

lemma version_under_step:
  assumes "unit_step J r l r'" "row_ok J r"
  shows "wk_lease_version r \<le> wk_lease_version r' \<and>
    (wk_lease_version r' = wk_lease_version r \<longrightarrow> wk_lease_owner r' = None \<or> wk_lease_owner r' = wk_lease_owner r)"
  using assms(1) by cases (simp_all add: lease_cleared_def)

lemma op_label_touch:
  "op_label E (AddDependencyOp q) = (\<lambda>l. l = LTouch)" "op_label E (RemoveDependencyOp q) = (\<lambda>l. l = LTouch)"
  by auto

lemma step_rows:
  assumes "codec_ok J" "units_ok J db"
  shows "\<exists>rs new. db_units (work_step J E op db) = rs @ new \<and> rows_step J (op_label E op) (db_units db) rs"
proof (cases op)
  case (CreateOp nw actor)
  have "\<exists>new. db_units (snd (create_work_unit J E nw actor db)) = db_units db @ new"
    using create_step [OF assms(1), of E nw actor db] by (metis append_Nil2)
  then show ?thesis using CreateOp by auto
next
  case (AddDependencyOp q)
  have "rows_step J (op_label E op) (db_units db) (db_units (snd (add_dependency J E q db)))"
    using add_dependency_cases [of J db E q] AddDependencyOp by (simp only: adds_edge_def op_label_touch)
  then show ?thesis using AddDependencyOp by (intro exI [of _ "db_units (snd (add_dependency J E q db))"] exI [of _ "[]"]) simp
next
  case (RemoveDependencyOp q)
  have "rows_step J (op_label E op) (db_units db) (db_units (snd (remove_dependency J E q db)))"
    using remove_dependency_cases [of J db E q] RemoveDependencyOp by (simp only: removes_edges_def op_label_touch)
  then show ?thesis using RemoveDependencyOp by (intro exI [of _ "db_units (snd (remove_dependency J E q db))"] exI [of _ "[]"]) simp
next
  case (AcquireOp q)
  then show ?thesis using acquire_moves [OF assms(2), of E q] by (metis moves_def work_step.simps(2) append_Nil2)
next
  case (StartOp q)
  then show ?thesis using start_moves [of J E q db] by (metis moves_def work_step.simps(3) append_Nil2)
next
  case (HeartbeatOp q)
  then show ?thesis using heartbeat_moves [of J E q db] by (metis moves_def work_step.simps(4) append_Nil2)
next
  case (CompleteOp q)
  then show ?thesis using complete_moves [OF assms(2,1), of E q] by (metis moves_def work_step.simps(5) append_Nil2)
next
  case (ArchiveOp q)
  then show ?thesis using archive_moves [OF assms(2), of E q] by (metis moves_def work_step.simps(6) append_Nil2)
next
  case (UpdateOp q)
  then show ?thesis using update_moves [OF assms(2), of E q] by (metis moves_def work_step.simps(7) append_Nil2)
next
  case (AssignOp q)
  then show ?thesis using assign_moves [of J E q db] by (metis moves_def work_step.simps(8) append_Nil2)
next
  case (NoteOp q)
  then show ?thesis using note_moves [of J E q db] by (metis moves_def work_step.simps(11) append_Nil2)
next
  case (RecoverOp actor now_ms)
  then show ?thesis using recover_moves [OF assms(2), of E actor now_ms]
    by (metis moves_def work_step.simps(12) append_Nil2)
qed

lemma row_under_op:
  assumes "codec_ok J" "units_ok J db" "r \<in> set (db_units db)"
  shows "\<exists>r' \<in> set (db_units (work_step J E op db)). wk_work_unit_id r' = wk_work_unit_id r \<and>
    (r' = r \<or> (\<exists>l. op_label E op l \<and> unit_step J r l r'))"
proof -
  from step_rows [OF assms(1,2), of E op] obtain rs new where
    d: "db_units (work_step J E op db) = rs @ new" and s: "rows_step J (op_label E op) (db_units db) rs" by blast
  from assms(3) obtain k where k: "k < length (db_units db)" "r = db_units db ! k" by (metis in_set_conv_nth)
  with s have "k < length rs" "rs ! k = r \<or> (\<exists>l. op_label E op l \<and> unit_step J r l (rs ! k))"
    by (auto simp: rows_step_def list_all2_conv_all_nth)
  then show ?thesis using d by (intro bexI [of _ "rs ! k"]) (auto dest: step_keeps_id)
qed

lemma op_label_cases:
  "op_label E op (LFinish owner s) \<Longrightarrow> \<exists>q. op = CompleteOp q \<and> trim (cq_owner q) = owner"
  "op_label E op (LRecover now s) \<Longrightarrow> \<exists>actor now_ms. op = RecoverOp actor now_ms \<and> now_or_clock E now_ms = now"
  "op_label E op (LRenew owner now e) \<Longrightarrow> \<exists>q. op = HeartbeatOp q \<and> trim (hq_owner q) = owner"
  by (cases op; auto)+

lemma lease_held_under_op:
  assumes "codec_ok J" "units_ok J db" "r \<in> set (db_units db)" "wk_lease_owner r = Some owner"
    "wk_lease_expires_at_ms r = Some t"
  shows "\<exists>r' \<in> set (db_units (work_step J E op db)). wk_work_unit_id r' = wk_work_unit_id r \<and>
    (wk_lease_owner r' = Some owner \<and> wk_lease_version r' = wk_lease_version r \<and>
       (wk_lease_expires_at_ms r' = Some t \<or> (\<exists>q. op = HeartbeatOp q \<and> trim (hq_owner q) = owner)) \<or>
     (\<exists>q. op = CompleteOp q \<and> trim (cq_owner q) = owner) \<or>
     (\<exists>actor now_ms. op = RecoverOp actor now_ms \<and> t < now_or_clock E now_ms))"
proof -
  obtain r' where r': "r' \<in> set (db_units (work_step J E op db))" "wk_work_unit_id r' = wk_work_unit_id r"
    "r' = r \<or> (\<exists>l. op_label E op l \<and> unit_step J r l r')" using row_under_op [OF assms(1-3)] by blast
  from r'(3) show ?thesis
  proof
    assume "r' = r"
    then show ?thesis using r'(1) assms(4,5) by auto
  next
    assume "\<exists>l. op_label E op l \<and> unit_step J r l r'"
    then obtain l where l: "op_label E op l" "unit_step J r l r'" by blast
    have "row_ok J r" using assms(2,3) by (auto simp: units_ok_def)
    from lease_under_step [OF l(2) this assms(4)] show ?thesis
      using l(1) r'(1,2) assms(5) op_label_cases [of E op]
      by (elim disjE conjE exE) (auto simp: lease_expired_at_def, (metis (no_types, lifting))+)
  qed
qed

text \<open>Operations one after the other, each in an environment of its own.\<close>

fun work_run :: "'n work_codec \<Rightarrow> (work_env \<times> 'n work_op) list \<Rightarrow> work_db \<Rightarrow> work_db" where
  "work_run J [] db = db"
| "work_run J ((E, op) # ops) db = work_run J ops (work_step J E op db)"

lemma units_ok_step: "codec_ok J \<Longrightarrow> store_ok J db \<Longrightarrow> units_ok J (work_step J E op db)"
  using store_ok_step by (auto simp: store_ok_def)

lemma store_ok_run: "codec_ok J \<Longrightarrow> store_ok J db \<Longrightarrow> store_ok J (work_run J ops db)"
  by (induction J ops db rule: work_run.induct) (simp_all add: store_ok_step)

lemma row_under_run:
  assumes "codec_ok J" "store_ok J db" "r \<in> set (db_units db)"
  shows "\<exists>r' \<in> set (db_units (work_run J ops db)). wk_work_unit_id r' = wk_work_unit_id r \<and>
    wk_lease_version r \<le> wk_lease_version r' \<and>
    (wk_lease_version r' = wk_lease_version r \<longrightarrow> wk_lease_owner r' = None \<or> wk_lease_owner r' = wk_lease_owner r)"
  using assms
proof (induction J ops db arbitrary: r rule: work_run.induct)
  case (1 J db)
  then show ?case by auto
next
  case (2 J E op ops db)
  have u: "units_ok J db" "row_ok J r" using 2(3,4) by (auto simp: store_ok_def units_ok_def)
  from row_under_op [OF 2(2) u(1) 2(4), of E op] obtain r1 where
    r1: "r1 \<in> set (db_units (work_step J E op db))" "wk_work_unit_id r1 = wk_work_unit_id r"
      "r1 = r \<or> (\<exists>l. op_label E op l \<and> unit_step J r l r1)" by blast
  have v: "wk_lease_version r \<le> wk_lease_version r1 \<and>
      (wk_lease_version r1 = wk_lease_version r \<longrightarrow> wk_lease_owner r1 = None \<or> wk_lease_owner r1 = wk_lease_owner r)"
    using r1(3) version_under_step [OF _ u(2)] by blast
  from 2(1) [OF 2(2) store_ok_step [OF 2(2,3)] r1(1)] obtain r' where
    r': "r' \<in> set (db_units (work_run J ops (work_step J E op db)))" "wk_work_unit_id r' = wk_work_unit_id r1"
      "wk_lease_version r1 \<le> wk_lease_version r'"
      "wk_lease_version r' = wk_lease_version r1 \<longrightarrow> wk_lease_owner r' = None \<or> wk_lease_owner r' = wk_lease_owner r1"
    by blast
  have "wk_lease_version r' = wk_lease_version r \<longrightarrow> wk_lease_owner r' = None \<or> wk_lease_owner r' = wk_lease_owner r"
    using v r'(3,4) by (metis order_antisym)
  then show ?case using r'(1-3) r1(2) v by (intro bexI [of _ r']) auto
qed

section \<open>Dependencies and progress\<close>

lemma some_unblocked:
  assumes "dependencies_ok db" "r0 \<in> set (db_units db)"
    and "wk_status r0 \<notin> {''completed'', ''failed_terminal'', ''cancelled'', ''archived''}"
  shows "\<exists>r \<in> set (db_units db). wk_status r \<notin> {''completed'', ''failed_terminal'', ''cancelled'', ''archived''} \<and>
    \<not> has_open_blocker db (wk_work_unit_id r)"
proof -
  let ?N = "{wk_work_unit_id r | r. r \<in> set (db_units db) \<and>
    wk_status r \<notin> {''completed'', ''failed_terminal'', ''cancelled'', ''archived''}}"
  have "wf (dep_edges (db_dependencies db))"
    using assms(1) by (intro finite_acyclic_wf) (auto simp: dep_edges_def dependencies_ok_def)
  moreover have "wk_work_unit_id r0 \<in> ?N" using assms(2,3) by blast
  ultimately obtain z where z: "z \<in> ?N" "\<And>y. (y, z) \<in> dep_edges (db_dependencies db) \<Longrightarrow> y \<notin> ?N"
    by (metis (no_types, lifting) wfE_min)
  have "\<not> has_open_blocker db z"
  proof
    assume "has_open_blocker db z"
    then obtain d b where d: "d \<in> set (db_dependencies db)" "dr_blocked d = z"
      and b: "b \<in> set (db_units db)" "wk_work_unit_id b = dr_blocking d"
        "wk_status b \<notin> {''completed'', ''failed_terminal'', ''cancelled'', ''archived''}"
      unfolding has_open_blocker_def list_ex_iff by blast
    from d have "(dr_blocking d, z) \<in> dep_edges (db_dependencies db)" by (auto simp: dep_edges_def)
    moreover have "dr_blocking d \<in> ?N" using b by force
    ultimately show False using z(2) by blast
  qed
  with z(1) show ?thesis by blast
qed

definition encodes_all :: "'n work_codec \<Rightarrow> bool" where
  "encodes_all J \<longleftrightarrow> (\<forall>v. \<exists>t. wc_encode_value J v = Inr t)"

lemma insert_event_Ok:
  assumes "no_faults E" "encodes_all J"
  shows "\<exists>ev db'. insert_event J E i kind actor payload now db = Inr (ev, db') \<and> db_units db' = db_units db"
proof -
  obtain t where "wc_encode_value J payload = Inr t" using assms(2) by (auto simp: encodes_all_def)
  then show ?thesis using assms(1) by (simp add: insert_event_def encode_json_def)
qed

lemma select_succeeds:
  assumes "no_faults E" "r \<in> set (db_units db)" "ready_at now r" "\<not> has_open_blocker db (wk_work_unit_id r)"
  shows "\<exists>raw. select_next_ready_raw_work_unit E db now = Inr (Some raw)"
proof -
  let ?c = "filter (\<lambda>r. ready_at now r \<and> \<not> has_open_blocker db (wk_work_unit_id r)) (db_units db)"
  have "r \<in> set (sort_key next_ready_key ?c)" using assms(2-4) by simp
  then obtain r0 rs where c: "sort_key next_ready_key ?c = r0 # rs" by (cases "sort_key next_ready_key ?c") simp_all
  obtain raw where "hydrate_raw_work_unit E db r0 = Inr raw" using no_faults_hydrate [OF assms(1)] by blast
  then show ?thesis using assms(1) by (simp add: select_next_ready_raw_work_unit_def c)
qed

lemma acquire_tx_succeeds:
  assumes "no_faults E" "encodes_all J" "distinct_ids db" "r \<in> set (db_units db)" "ready_at now r"
    "\<not> has_open_blocker db (wk_work_unit_id r)"
  shows "\<exists>r0 r1 db'. acquire_tx J E owner ttl actor now expires db = Inr (Some (wk_work_unit_id r0), db') \<and>
    r0 \<in> set (db_units db) \<and> r1 \<in> set (db_units db') \<and> wk_work_unit_id r1 = wk_work_unit_id r0 \<and>
    wk_lease_owner r1 = Some owner \<and> wk_attempt_count r1 = wk_attempt_count r0 + 1 \<and>
    wk_lease_expires_at_ms r1 = Some expires"
proof -
  obtain raw where raw: "select_next_ready_raw_work_unit E db now = Inr (Some raw)"
    using select_succeeds [OF assms(1,4-6)] by blast
  from select_next_ready_raw_of [OF raw] obtain r0 where r0: "raw_of db raw r0" "ready_at now r0" by blast
  then have r0': "r0 \<in> set (db_units db)" "wk_work_unit_id raw = wk_work_unit_id r0"
    by (auto simp: raw_of_def same_columnsD)
  let ?chg = "\<lambda>r. r\<lparr>wk_status := work_status_as_str Leased, wk_attempt_count := wk_attempt_count r + 1,
    wk_lease_owner := Some owner, wk_lease_version := wk_lease_version raw + 1,
    wk_lease_acquired_at_ms := Some now, wk_lease_heartbeat_at_ms := Some now,
    wk_lease_expires_at_ms := Some expires, wk_updated_at_ms := now\<rparr>"
  let ?db1 = "update_units (\<lambda>r. wk_work_unit_id r = wk_work_unit_id r0 \<and> ready_at now r) ?chg db"
  let ?payload = "json_object [(''owner'', JString owner), (''lease_version'', int_json J (wk_lease_version raw + 1)),
    (''previous_status'', JString (wk_status raw)), (''ttl_ms'', int_json J (uint ttl)),
    (''expires_at_ms'', int_json J expires)]"
  obtain ev db1 where "insert_event J E (wk_work_unit_id r0) ''work_unit_leased'' actor ?payload now ?db1 = Inr (ev, db1)"
    "db_units db1 = db_units ?db1"
    using insert_event_Ok [OF assms(1,2), of "wk_work_unit_id r0" "''work_unit_leased''" actor ?payload now ?db1] by blast
  then have "\<exists>db'. acquire_tx J E owner ttl actor now expires db = Inr (Some (wk_work_unit_id r0), db') \<and>
      db_units db' = db_units ?db1"
    using assms(1) raw by (simp add: acquire_tx_def Let_def r0'(2))
  then obtain db' where db': "acquire_tx J E owner ttl actor now expires db = Inr (Some (wk_work_unit_id r0), db')"
    "db_units db' = db_units ?db1" by blast
  have "?chg r0 \<in> set (db_units db')" using db'(2) r0'(1) r0(2) by (force simp: image_iff)
  with db'(1) r0'(1) show ?thesis by (intro exI [of _ r0] exI [of _ "?chg r0"] exI [of _ db']) simp
qed

lemma acquire_succeeds:
  assumes "codec_ok J" "store_ok J db" "no_faults E" "encodes_all J" "r \<in> set (db_units db)"
    and "ready_at (now_or_clock E (aq_now_ms q)) r" "\<not> has_open_blocker db (wk_work_unit_id r)"
    and "\<forall>r \<in> set (db_units db). wk_attempt_count r + 1 < 2 ^ 32"
    and "trim (aq_owner q) \<noteq> []" "0 < aq_ttl_ms q" "uint (aq_ttl_ms q) \<le> i64_max"
  shows "\<exists>s db'. acquire_next_ready_lease J E q db = (Inr (Some s), db') \<and>
    map_option wl_owner (ws_lease s) = Some (trim (aq_owner q))"
proof -
  let ?now = "now_or_clock E (aq_now_ms q)"
  let ?expires = "i64_saturating_add ?now (uint (aq_ttl_ms q))"
  let ?tx = "acquire_tx J E (trim (aq_owner q)) (aq_ttl_ms q) (normalize_optional_text (aq_actor q)) ?now ?expires db"
  have d: "distinct_ids db" using assms(2) by (simp add: store_ok_def units_ok_def)
  obtain r0 r1 db' where tx: "?tx = Inr (Some (wk_work_unit_id r0), db')"
    and r: "r0 \<in> set (db_units db)" "r1 \<in> set (db_units db')" "wk_work_unit_id r1 = wk_work_unit_id r0"
      "wk_lease_owner r1 = Some (trim (aq_owner q))" "wk_attempt_count r1 = wk_attempt_count r0 + 1"
    using acquire_tx_succeeds [OF assms(3,4) d assms(5-7)] by meson
  have a: "acquire_next_ready_lease J E q db = reload J E (Inr (Some (wk_work_unit_id r0)), db')"
    using assms(9-11) tx
    by (auto simp: acquire_next_ready_lease_def with_input_def normalize_required_text_def validate_ttl_ms_def
      add_delay_ms_def transact_def)
  then have "snd (acquire_next_ready_lease J E q db) = db'" by (simp add: reload_db)
  with units_ok_step [OF assms(1,2), of E "AcquireOp q"] have "units_ok J db'" by simp
  moreover have "wk_attempt_count r1 < 2 ^ 32" using r(1,5) assms(8) by auto
  ultimately obtain s where "load_work_unit_snapshot J E db' (wk_work_unit_id r1) = Inr (Some s)" "shows_row s r1"
    using load_snapshot [OF assms(3) _ r(2)] by blast
  then show ?thesis using r(3,4) by (auto simp: a reload_def and_then_def shows_row_def)
qed

section \<open>Retry delays\<close>

lemma min_mult_capped:
  assumes "0 < k"
  shows "min (min a m * k) m = min (a * k) (m :: nat)"
proof -
  have "a \<le> a * k" "m \<le> m * k" using assms by simp_all
  show ?thesis
  proof (cases "a \<le> m")
    case False
    then have "m < a * k" using \<open>a \<le> a * k\<close> by linarith
    then have "min (a * k) m = m" by (intro min_absorb2) simp
    moreover have "min a m = m" using False by (intro min_absorb2) simp
    moreover have "min (m * k) m = m" using \<open>m \<le> m * k\<close> by (rule min_absorb2)
    ultimately show ?thesis by metis
  qed (simp add: min_def)
qed

lemma retry_delay_loop_closed:
  assumes "delay \<le> max_backoff"
  shows "unat (retry_delay_loop max_backoff n delay) = min (unat delay * 2 ^ n) (unat max_backoff)"
  using assms
proof (induction max_backoff n delay rule: retry_delay_loop.induct)
  case (1 m d)
  then show ?case by (simp add: word_le_nat_alt)
next
  case (2 m n d)
  note m = unat_u64_bound [of m]
  have u: "unat (min (u64_saturating_mul d 2) m) = min (unat d * 2) (unat m)"
    using m by (auto simp: min_def word_le_nat_alt unat_u64_saturating_mul)
  with 2 show ?case by (simp add: u min_mult_capped mult.assoc)
qed

section \<open>A sample codec\<close>

text \<open>Any injective encoding of the values will do.\<close>

instance json :: (countable) countable
  by countable_datatype

definition sample_work_codec :: "nat work_codec" where
  "sample_work_codec =
     \<lparr>wc_number = nat,
      wc_encode_source_ref = \<lambda>s. if s = work_source_ref_default then Inr ''manual'' else Inl ''unsupported'',
      wc_decode_source_ref = \<lambda>_. Inr work_source_ref_default,
      wc_encode_retry_policy = \<lambda>p. if p = work_retry_policy_default then Inr ''default'' else Inl ''unsupported'',
      wc_decode_retry_policy = \<lambda>_. Inr work_retry_policy_default,
      wc_encode_value = \<lambda>v. Inr (replicate (to_nat v) CHR ''x''),
      wc_decode_value = \<lambda>t. Inr (from_nat (length t))\<rparr>"

lemma sample_work_codec_ok: "codec_ok sample_work_codec" "encodes_all sample_work_codec"
  by (auto simp: codec_ok_def encodes_all_def sample_work_codec_def split: if_splits)

definition sample_env :: work_env where
  "sample_env = \<lparr>we_since_epoch_ms = Some 1000, we_random = 7, we_fault = \<lambda>_ _. None,
     we_unique_violation = ''UNIQUE constraint failed: work_units.work_unit_id''\<rparr>"

lemma sample_env_no_faults: "no_faults sample_env"
  by (simp add: no_faults_def sample_env_def)

definition sample_unit :: "string \<Rightarrow> new_work_unit" where
  "sample_unit i = \<lparr>nw_work_unit_id = Some i, nw_kind = Feature, nw_title = ''title'', nw_description = ''text'',
     nw_source_ref = work_source_ref_default, nw_status = Ready, nw_priority = Normal,
     nw_retry_policy = work_retry_policy_default, nw_parent_work_unit_id = None, nw_next_run_at_ms = Some 1000\<rparr>"

definition sample_row :: "string \<Rightarrow> work_row" where
  "sample_row i = new_row i ''title'' ''text'' ''manual'' ''default'' 1000 1000 (sample_unit i)"

lemma sample_create:
  assumes "i \<noteq> []" "trim i = i" "i \<notin> wk_work_unit_id ` set (db_units db)"
  shows "db_units (work_step sample_work_codec sample_env (CreateOp (sample_unit i) None) db) = db_units db @ [sample_row i]"
proof -
  have t: "trim ''title'' = ''title''" "trim ''text'' = ''text''" by code_simp+
  have v: "validate_work_retry_policy work_retry_policy_default = Inr ()" by code_simp
  have n: "normalize_source_ref work_source_ref_default = work_source_ref_default" by code_simp
  have c: "current_unix_ms sample_env = 1000" by code_simp
  have i: "create_input sample_work_codec sample_env (sample_unit i) = Inr (work_source_ref_default, sample_row i)"
    using assms(1,2)
    by (simp add: create_input_def sample_unit_def validate_initial_status_def v n c t normalize_required_text_def
      encode_json_def sample_work_codec_def sample_row_def Let_def)
  have id: "wk_work_unit_id (sample_row i) = i" by (simp add: sample_row_def new_row_def)
  have u: "\<not> list_ex (\<lambda>q. wk_work_unit_id q = i) (db_units db)" using assms(3) by (auto simp: list_ex_iff)
  have "\<exists>w. create_tx sample_work_codec sample_env work_source_ref_default (sample_row i) None db = Inr ((), w) \<and>
      db_units w = db_units db @ [sample_row i]"
    using sample_env_no_faults u id
    by (simp add: create_tx_def insert_unit_def insert_event_def encode_json_def sample_work_codec_def)
  then show ?thesis
    by (auto simp: create_work_unit_def with_input_def i normalize_optional_text_def transact_def and_then_def id)
qed

definition sample_db :: work_db where
  "sample_db = work_step sample_work_codec sample_env (CreateOp (sample_unit ''b'') None)
     (work_step sample_work_codec sample_env (CreateOp (sample_unit ''a'') None) empty_work_db)"

lemma sample_db:
  "work_reachable sample_work_codec sample_db" "db_units sample_db = [sample_row ''a'', sample_row ''b'']"
proof -
  show "work_reachable sample_work_codec sample_db"
    unfolding sample_db_def by (intro reachable_step reachable_empty)
  have t: "trim ''a'' = ''a''" "trim ''b'' = ''b''" by code_simp+
  have a: "db_units (work_step sample_work_codec sample_env (CreateOp (sample_unit ''a'') None) empty_work_db) = [sample_row ''a'']"
    using sample_create [of "''a''" empty_work_db] t by (simp add: empty_work_db_def)
  have "wk_work_unit_id (sample_row ''a'') = ''a''" by (simp add: sample_row_def new_row_def)
  then show "db_units sample_db = [sample_row ''a'', sample_row ''b'']"
    unfolding sample_db_def using sample_create [of "''b''"] t a by simp
qed

lemma sample_row_ready:
  "wk_status (sample_row i) = ''ready''" "wk_next_run_at_ms (sample_row i) = 1000"
  "wk_attempt_count (sample_row i) = 0" "wk_lease_owner (sample_row i) = None"
  "wk_lease_version (sample_row i) = 0" "wk_work_unit_id (sample_row i) = i"
  by (simp_all add: sample_row_def new_row_def sample_unit_def work_status_as_str.simps)

definition sample_lease_request :: acquire_request where
  "sample_lease_request = \<lparr>aq_owner = ''w'', aq_ttl_ms = 5000, aq_actor = None, aq_now_ms = Some 2000\<rparr>"

lemma owner_w: "trim ''w'' = ''w''"
  by code_simp

text \<open>After worker \<open>w\<close> has taken a lease.\<close>

definition leased_db :: work_db where
  "leased_db = work_step sample_work_codec sample_env (AcquireOp sample_lease_request) sample_db"

lemma sample_lease_step:
  "codec_ok J \<Longrightarrow> store_ok J db \<Longrightarrow> no_faults E \<Longrightarrow> encodes_all J \<Longrightarrow> r \<in> set (db_units db) \<Longrightarrow> ready_at 2000 r \<Longrightarrow>
    \<not> has_open_blocker db (wk_work_unit_id r) \<Longrightarrow>
    \<exists>r \<in> set (db_units (work_step J E (AcquireOp sample_lease_request) db)).
      wk_lease_owner r = Some ''w'' \<and> wk_lease_expires_at_ms r = Some 7000"
proof -
  assume a: "codec_ok J" "store_ok J db" "no_faults E" "encodes_all J" "r \<in> set (db_units db)" "ready_at 2000 r"
    "\<not> has_open_blocker db (wk_work_unit_id r)"
  then have "distinct_ids db" by (simp add: store_ok_def units_ok_def)
  from acquire_tx_succeeds [OF a(3,4) this a(5-7), of "''w''" 5000 None 7000]
  show ?thesis
    by (auto simp: sample_lease_request_def acquire_next_ready_lease_def with_input_def normalize_required_text_def owner_w
      validate_ttl_ms_def add_delay_ms_def i64_max_def i64_min_def i64_saturating_add_def now_or_clock_def
      normalize_optional_text_def transact_def reload_db)
qed

lemma leased_db:
  "work_reachable sample_work_codec leased_db"
  "\<exists>r \<in> set (db_units leased_db). wk_lease_owner r = Some ''w'' \<and> wk_lease_expires_at_ms r = Some 7000"
proof -
  show "work_reachable sample_work_codec leased_db"
    unfolding leased_db_def by (intro reachable_step sample_db)
  have ready: "ready_at 2000 (sample_row ''a'')"
    by (simp add: ready_at_def sample_row_ready) (simp add: sample_row_def new_row_def)
  have "\<not> has_open_blocker sample_db ''a''"
  proof
    assume "has_open_blocker sample_db ''a''"
    then obtain b where "b \<in> set (db_dependencies sample_db)" by (auto simp: has_open_blocker_def list_ex_iff)
    moreover have "db_dependencies sample_db = []"
      using create_step [OF sample_work_codec_ok(1)] unfolding sample_db_def empty_work_db_def
      by (metis (no_types, lifting) work_step.simps(1) work_db.select_convs(2))
    ultimately show False by simp
  qed
  then show "\<exists>r \<in> set (db_units leased_db). wk_lease_owner r = Some ''w'' \<and> wk_lease_expires_at_ms r = Some 7000"
    unfolding leased_db_def
    using sample_lease_step [OF sample_work_codec_ok(1) reachable_store_ok [OF sample_db(1) sample_work_codec_ok(1)]
      sample_env_no_faults sample_work_codec_ok(2), of "sample_row ''a''"] ready
    by (simp add: sample_db(2) sample_row_ready(6))
qed

lemma leased_rows:
  "rows_step sample_work_codec (op_label sample_env (AcquireOp sample_lease_request)) (db_units sample_db) (db_units leased_db)"
proof -
  have "units_ok sample_work_codec sample_db"
    using reachable_store_ok [OF sample_db(1) sample_work_codec_ok(1)] by (simp add: store_ok_def)
  from acquire_moves [OF this, of sample_env sample_lease_request] show ?thesis
    unfolding moves_def leased_db_def work_step.simps by blast
qed

lemma leased_attempts: "r \<in> set (db_units leased_db) \<Longrightarrow> wk_attempt_count r \<le> 1"
proof -
  assume "r \<in> set (db_units leased_db)"
  with leased_rows obtain q l where "q \<in> set (db_units sample_db)" "r = q \<or> unit_step sample_work_codec q l r"
    by (fastforce simp: rows_step_def list_all2_conv_all_nth in_set_conv_nth)
  then show ?thesis by (auto simp: sample_db(2) sample_row_ready elim!: unit_step.cases simp: lease_cleared_def)
qed

section \<open>A recovery succeeds\<close>

lemma hydrate_all_succeeds: "no_faults E \<Longrightarrow> \<exists>raws. hydrate_all E db label rs = Inr raws"
proof (induction rs)
  case (Cons r rs)
  with no_faults_hydrate [OF Cons.prems, of db r] show ?case by auto
qed simp

text \<open>What a recovery needs of a unit: its next delay fits the clock.\<close>

definition recoverable :: "'n work_codec \<Rightarrow> raw_work_unit \<Rightarrow> bool" where
  "recoverable J raw \<longleftrightarrow>
     (\<exists>p. wc_decode_retry_policy J (wk_retry_policy_json raw) = Inr p \<and> validate_work_retry_policy p = Inr () \<and>
        uint (wrp_max_backoff_ms p) \<le> i64_max) \<and>
     0 \<le> wk_attempt_count raw \<and> wk_attempt_count raw < 2 ^ 32 \<and>
     wk_lease_owner raw \<noteq> None \<and> wk_lease_expires_at_ms raw \<noteq> None"

lemma resolve_recovery_succeeds:
  assumes "validate_work_retry_policy p = Inr ()" "uint (wrp_max_backoff_ms p) \<le> i64_max"
  shows "\<exists>c. resolve_recovery p n now err = Inr c"
proof -
  have "wrp_initial_backoff_ms p \<le> wrp_max_backoff_ms p"
    using assms(1) by (auto simp: validate_work_retry_policy_def split: if_splits)
  from retry_delay_loop_closed [OF this, of "unat n - 1"]
  have "retry_delay_loop (wrp_max_backoff_ms p) (unat n - 1) (wrp_initial_backoff_ms p) \<le> wrp_max_backoff_ms p"
    by (simp add: word_le_nat_alt)
  then show ?thesis
    using assms by (auto simp: resolve_recovery_def compute_retry_delay_ms_def add_delay_ms_def word_le_def)
qed

lemma recover_one_succeeds:
  assumes "no_faults E" "encodes_all J" "recoverable J raw"
  shows "\<exists>db'. recover_one J E actor now raw db = Inr db'"
proof -
  from assms(3) obtain p where p: "wc_decode_retry_policy J (wk_retry_policy_json raw) = Inr p"
    "validate_work_retry_policy p = Inr ()" "uint (wrp_max_backoff_ms p) \<le> i64_max" by (auto simp: recoverable_def)
  obtain n where n: "u32_from_i64 ''attempt_count'' (wk_attempt_count raw) = Inr n"
    using assms(3) by (auto simp: recoverable_def u32_from_i64_def)
  obtain err where err: "build_expired_lease_error raw = Inr err"
    using assms(3) by (auto simp: recoverable_def build_expired_lease_error_def)
  obtain c where c: "resolve_recovery p n now err = Inr c" using resolve_recovery_succeeds [OF p(2,3)] by blast
  obtain enc where encoded: "\<And>v. wc_encode_value J v = Inr (enc v)"
    using assms(2) unfolding encodes_all_def by metis
  show ?thesis
    using assms(1) by (simp add: recover_one_def p n err c insert_event_def encode_json_def encoded decode_json_def)
qed

lemma recover_all_succeeds:
  "no_faults E \<Longrightarrow> encodes_all J \<Longrightarrow> \<forall>raw \<in> set raws. recoverable J raw \<Longrightarrow>
    \<exists>db'. recover_all J E actor now raws db = Inr db'"
proof (induction raws arbitrary: db)
  case (Cons raw raws)
  then show ?case using recover_one_succeeds [of E J raw actor now db] by fastforce
qed simp

lemma load_recovered_succeeds:
  "\<forall>i \<in> set ids. \<exists>s. load_work_unit_snapshot J E db i = Inr (Some s) \<Longrightarrow> \<exists>ss. load_recovered J E db ids = Inr ss"
  by (induction ids) fastforce+

lemma recovery_succeeds:
  assumes "codec_ok J" "store_ok J db" "no_faults E" "encodes_all J"
    and "\<forall>r \<in> set (db_units db). wk_attempt_count r < 2 ^ 32"
    and "\<forall>t p. wc_decode_retry_policy J t = Inr p \<longrightarrow> uint (wrp_max_backoff_ms p) \<le> i64_max"
  shows "\<exists>ss db'. recover_expired_leases J E actor now_ms db = (Inr ss, db')"
proof -
  let ?now = "now_or_clock E now_ms"
  let ?actor = "normalize_optional_text actor"
  have u: "units_ok J db" using assms(2) by (simp add: store_ok_def)
  obtain raws where raws: "load_expired_raw_work_units E db ?now = Inr raws"
    using hydrate_all_succeeds [OF assms(3)] assms(3) by (fastforce simp: load_expired_raw_work_units_def)
  from load_expired_raw_of [OF raws] obtain rs where rs: "list_all2 same_columns raws rs"
    "set rs = {r \<in> set (db_units db). lease_expired_at ?now r}" by blast
  have origin: "\<exists>r \<in> set (db_units db). lease_expired_at ?now r \<and> same_columns raw r" if "raw \<in> set raws" for raw
    using that rs by (metis (mono_tags, lifting) in_set_conv_nth list_all2_conv_all_nth mem_Collect_eq)
  have "recoverable J raw" if "raw \<in> set raws" for raw
  proof -
    from origin [OF that] obtain r where r: "r \<in> set (db_units db)" "lease_expired_at ?now r" "same_columns raw r" by blast
    then have ok: "row_ok J r" using u by (simp add: units_ok_def)
    then obtain st where "wk_status r = work_status_as_str st" "lease_fields r (st \<in> {Leased, Running})"
      by (auto simp: row_ok_def)
    with r(2) have "wk_lease_owner r \<noteq> None" "wk_lease_expires_at_ms r \<noteq> None"
      by (auto simp: lease_fields_def)
    then show ?thesis using ok same_columnsD [OF r(3)] assms(5,6) r(1) by (auto simp: recoverable_def row_ok_def)
  qed
  then obtain db' where db': "recover_all J E ?actor ?now raws db = Inr db'"
    using recover_all_succeeds [OF assms(3,4)] by blast
  then have tx: "recover_tx J E ?actor ?now db = Inr (map wk_work_unit_id raws, db')"
    using assms(3) raws by (simp add: recover_tx_def)
  have rows: "rows_step J (\<lambda>l. \<exists>s. l = LRecover ?now s) (db_units db) (db_units db')"
    using recover_tx_step(1) [OF u tx] by blast
  have u': "units_ok J db'" by (rule rows_step_units_ok(1) [OF u rows])
  have "\<exists>s. load_work_unit_snapshot J E db' i = Inr (Some s)" if "i \<in> set (map wk_work_unit_id raws)" for i
  proof -
    from that obtain raw where "raw \<in> set raws" "i = wk_work_unit_id raw" by auto
    with origin same_columnsD(1) obtain r where r: "r \<in> set (db_units db)" "i = wk_work_unit_id r" by metis
    with rows obtain r' where r': "r' \<in> set (db_units db')"
      "r' = r \<or> (\<exists>s. unit_step J r (LRecover ?now s) r')"
      by (fastforce simp: rows_step_def list_all2_conv_all_nth in_set_conv_nth)
    have "wk_work_unit_id r' = wk_work_unit_id r \<and> wk_attempt_count r' = wk_attempt_count r"
      using r'(2) by (auto elim!: unit_step.cases simp: lease_cleared_def)
    with r r' load_snapshot [OF assms(3) u' r'(1)] assms(5) show ?thesis by auto
  qed
  then obtain ss where "load_recovered J E db' (map wk_work_unit_id raws) = Inr ss"
    using load_recovered_succeeds by blast
  then show ?thesis by (simp add: recover_expired_leases_def tx transact_def and_then_def)
qed

section \<open>Properties\<close>

text \<open>
  C2. Whatever operations run in whatever order, with whatever failures of the database, the store
  stays consistent: unit ids are unique, every row is well-formed (its texts decode, it has a lease
  exactly while it is leased or running, it has an archive time exactly when it is archived, each
  attempt has its own lease version), the dependencies link existing units and never form a cycle.
\<close>

theorem work_store_stays_consistent:
  assumes "work_reachable J db" "codec_ok J"
  shows "distinct (map wk_work_unit_id (db_units db)) \<and>
    (\<forall>r \<in> set (db_units db). row_ok J r) \<and>
    (\<forall>d \<in> set (db_dependencies db). dr_blocking d \<in> wk_work_unit_id ` set (db_units db) \<and>
      dr_blocked d \<in> wk_work_unit_id ` set (db_units db)) \<and>
    acyclic {(dr_blocking d, dr_blocked d) | d. d \<in> set (db_dependencies db)}"
proof -
  have "{(dr_blocking d, dr_blocked d) | d. d \<in> set (db_dependencies db)} = dep_edges (db_dependencies db)"
    by (auto simp: dep_edges_def)
  with reachable_store_ok [OF assms] show ?thesis
    by (auto simp: store_ok_def dependencies_ok_def units_ok_def distinct_ids_def)
qed

lemma work_store_stays_consistent_witness:
  "row_ok sample_work_codec (sample_row ''a'') \<and> row_ok sample_work_codec (sample_row ''b'') \<and>
     distinct (map wk_work_unit_id (db_units sample_db))"
  using work_store_stays_consistent [OF sample_db(1) sample_work_codec_ok(1)] sample_db(2) by simp

text \<open>
  C37. Every unit in the store can be read back, unless a statement fails or its attempts no longer fit
  32 bits: the snapshot names the unit, its status and the lease that its row holds.
\<close>

theorem every_stored_unit_is_readable:
  assumes "work_reachable J db" "codec_ok J" "no_faults E" "r \<in> set (db_units db)" "wk_attempt_count r < 2 ^ 32"
  shows "\<exists>s. load_work_unit_snapshot J E db (wk_work_unit_id r) = Inr (Some s) \<and>
    wu_work_unit_id (ws_work_unit s) = wk_work_unit_id r \<and>
    work_status_as_str (wu_status (ws_work_unit s)) = wk_status r \<and>
    map_option wl_owner (ws_lease s) = wk_lease_owner r \<and>
    (ws_lease s \<noteq> None) = (wu_status (ws_work_unit s) \<in> {Leased, Running})"
proof -
  have u: "units_ok J db" using reachable_store_ok [OF assms(1,2)] by (simp add: store_ok_def)
  then have "row_ok J r" using assms(4) by (simp add: units_ok_def)
  then obtain st where st: "wk_status r = work_status_as_str st" "(wk_lease_owner r \<noteq> None) = (st \<in> {Leased, Running})"
    by (auto simp: row_ok_def lease_fields_def)
  obtain s where s: "load_work_unit_snapshot J E db (wk_work_unit_id r) = Inr (Some s)" "shows_row s r"
    using load_snapshot [OF assms(3) u assms(4,5)] by blast
  then have "wu_status (ws_work_unit s) = st" using st(1) by (simp add: shows_row_def)
  moreover have "(ws_lease s \<noteq> None) = (wk_lease_owner r \<noteq> None)"
    using s(2) by (metis shows_row_def option.map_disc_iff)
  ultimately show ?thesis using s st(2) by (intro exI [of _ s]) (simp add: shows_row_def)
qed

lemma every_stored_unit_is_readable_witness:
  "\<exists>s. load_work_unit_snapshot sample_work_codec sample_env sample_db ''a'' = Inr (Some s) \<and> ws_lease s = None"
  using every_stored_unit_is_readable [OF sample_db(1) sample_work_codec_ok(1) sample_env_no_faults, of "sample_row ''a''"]
  by (auto simp: sample_db(2) sample_row_ready)

text \<open>
  C11. A lease is safe: while a unit is leased to an owner, no operation takes the lease away but a
  completion by that owner or a recovery after the lease has expired. Otherwise owner and lease
  version stay, and only the owner's heartbeat moves the expiry.
\<close>

theorem lease_is_safe:
  assumes "work_reachable J db" "codec_ok J" "r \<in> set (db_units db)" "wk_lease_owner r = Some owner"
    and "wk_lease_expires_at_ms r = Some t"
  shows "\<exists>r' \<in> set (db_units (work_step J E op db)). wk_work_unit_id r' = wk_work_unit_id r \<and>
    (wk_lease_owner r' = Some owner \<and> wk_lease_version r' = wk_lease_version r \<and>
       (wk_lease_expires_at_ms r' = Some t \<or> (\<exists>q. op = HeartbeatOp q \<and> trim (hq_owner q) = owner)) \<or>
     (\<exists>q. op = CompleteOp q \<and> trim (cq_owner q) = owner) \<or>
     (\<exists>actor now_ms. op = RecoverOp actor now_ms \<and> t < now_or_clock E now_ms))"
  using lease_held_under_op [OF assms(2) _ assms(3-5)] reachable_store_ok [OF assms(1,2)]
  by (simp add: store_ok_def)

lemma lease_is_safe_witness:
  "\<exists>r \<in> set (db_units (work_step sample_work_codec sample_env (RecoverOp None (Some 7000)) leased_db)).
     wk_lease_owner r = Some ''w''"
proof -
  from leased_db(2) obtain r where "r \<in> set (db_units leased_db)" "wk_lease_owner r = Some ''w''"
    "wk_lease_expires_at_ms r = Some 7000" by blast
  from lease_is_safe [OF leased_db(1) sample_work_codec_ok(1) this, of sample_env "RecoverOp None (Some 7000)"]
  show ?thesis by (auto simp: now_or_clock_def)
qed

text \<open>
  A lease version names one holder. Over any run of operations the version of a unit's lease never
  goes back, and two leases of a unit with the same version have the same owner.
\<close>

theorem lease_version_names_one_holder:
  assumes "work_reachable J db" "codec_ok J" "r \<in> set (db_units db)" "r' \<in> set (db_units (work_run J ops db))"
    and "wk_work_unit_id r' = wk_work_unit_id r"
  shows "wk_lease_version r \<le> wk_lease_version r' \<and>
    (wk_lease_version r' = wk_lease_version r \<longrightarrow> wk_lease_owner r' = None \<or> wk_lease_owner r' = wk_lease_owner r)"
proof -
  note ok = reachable_store_ok [OF assms(1,2)]
  from row_under_run [OF assms(2) ok assms(3), of ops] obtain q where q: "q \<in> set (db_units (work_run J ops db))"
    "wk_work_unit_id q = wk_work_unit_id r" "wk_lease_version r \<le> wk_lease_version q"
    "wk_lease_version q = wk_lease_version r \<longrightarrow> wk_lease_owner q = None \<or> wk_lease_owner q = wk_lease_owner r" by blast
  have "distinct_ids (work_run J ops db)"
    using store_ok_run [OF assms(2) ok, of ops] by (simp add: store_ok_def units_ok_def)
  then have "r' = q" using assms(4,5) q(1,2) by (auto intro: same_row)
  with q show ?thesis by simp
qed

lemma lease_version_names_one_holder_witness:
  "\<exists>r \<in> set (db_units leased_db). wk_lease_owner r = Some ''w'' \<and> wk_lease_version r \<noteq> 0"
proof -
  have run: "leased_db = work_run sample_work_codec [(sample_env, AcquireOp sample_lease_request)] sample_db"
    by (simp add: leased_db_def)
  from leased_db(2) obtain r where r: "r \<in> set (db_units leased_db)" "wk_lease_owner r = Some ''w''" by blast
  have "wk_work_unit_id r = ''a'' \<or> wk_work_unit_id r = ''b''"
    using r(1) arg_cong [OF rows_step_ids [OF leased_rows], of set] by (auto simp: sample_db(2) sample_row_ready)
  then obtain i where "wk_work_unit_id r = i" "sample_row i \<in> set (db_units sample_db)"
    by (auto simp: sample_db(2))
  with lease_version_names_one_holder [OF sample_db(1) sample_work_codec_ok(1) this(2), of r
      "[(sample_env, AcquireOp sample_lease_request)]"] r
  show ?thesis by (intro bexI [of _ r]) (auto simp: run sample_row_ready)
qed

text \<open>
  C7. Dependencies never deadlock the queue. If every unit that is not finished is ready and due, and
  there is one, then asking for a lease gives one, whatever the dependencies between the units.
\<close>

theorem dependencies_never_deadlock:
  assumes "work_reachable J db" "codec_ok J" "no_faults E" "encodes_all J"
    and "\<forall>r \<in> set (db_units db). wk_status r \<in> {''ready'', ''retry_pending''} \<and>
        wk_next_run_at_ms r \<le> now_or_clock E (aq_now_ms q) \<or>
      wk_status r \<in> {''completed'', ''failed_terminal'', ''cancelled'', ''archived''}"
    and "u \<in> set (db_units db)" "wk_status u \<in> {''ready'', ''retry_pending''}"
    and "\<forall>r \<in> set (db_units db). wk_attempt_count r + 1 < 2 ^ 32"
    and "trim (aq_owner q) \<noteq> []" "0 < aq_ttl_ms q" "uint (aq_ttl_ms q) \<le> i64_max"
  shows "\<exists>s. fst (acquire_next_ready_lease J E q db) = Inr (Some s) \<and>
    map_option wl_owner (ws_lease s) = Some (trim (aq_owner q))"
proof -
  note ok = reachable_store_ok [OF assms(1,2)]
  have "wk_status u \<notin> {''completed'', ''failed_terminal'', ''cancelled'', ''archived''}" using assms(7) by auto
  then obtain r where r: "r \<in> set (db_units db)" "\<not> has_open_blocker db (wk_work_unit_id r)"
      "wk_status r \<notin> {''completed'', ''failed_terminal'', ''cancelled'', ''archived''}"
    using some_unblocked [of db u] ok assms(6) by (auto simp: store_ok_def)
  then have s: "wk_status r \<in> {''ready'', ''retry_pending''}"
    "wk_next_run_at_ms r \<le> now_or_clock E (aq_now_ms q)" using assms(5) by auto
  have "row_ok J r" using ok r(1) by (simp add: store_ok_def units_ok_def)
  then obtain st where st: "wk_status r = work_status_as_str st" "lease_fields r (st \<in> {Leased, Running})"
    "(wk_archived_at_ms r \<noteq> None) = (st = Archived)" by (auto simp: row_ok_def)
  from s(1) st(1) have "st \<in> {Ready, RetryPending}" by (auto simp: status_texts)
  then have "ready_at (now_or_clock E (aq_now_ms q)) r"
    using st s(2) by (auto simp: lease_fields_def)
  from acquire_succeeds [OF assms(2) ok assms(3,4) r(1) this r(2) assms(8-11)] show ?thesis by auto
qed

lemma dependencies_never_deadlock_witness:
  "\<exists>s. fst (acquire_next_ready_lease sample_work_codec sample_env sample_lease_request sample_db) = Inr (Some s) \<and>
     map_option wl_owner (ws_lease s) = Some ''w''"
  using dependencies_never_deadlock [OF sample_db(1) sample_work_codec_ok(1) sample_env_no_faults sample_work_codec_ok(2),
      of sample_lease_request "sample_row ''a''"]
  by (simp add: sample_db(2) sample_row_ready sample_lease_request_def now_or_clock_def owner_w i64_max_def)

text \<open>
  C28. A recovery that succeeds leaves no expired lease: the health counters report none at that time,
  and every unit whose lease had expired is failed when its attempts are used up, and waits for a
  retry otherwise.
\<close>

theorem recovery_clears_expired_leases:
  assumes "work_reachable J db" "codec_ok J" "recover_expired_leases J E actor now_ms db = (Inr ss, db')"
  shows "count_units (lease_expired_at (now_or_clock E now_ms)) db' = 0 \<and>
    (\<forall>r \<in> set (db_units db). \<exists>r' \<in> set (db_units db'). wk_work_unit_id r' = wk_work_unit_id r \<and>
      (if lease_expired_at (now_or_clock E now_ms) r
       then \<exists>p. wc_decode_retry_policy J (wk_retry_policy_json r) = Inr p \<and> wk_lease_owner r' = None \<and>
         wk_status r' = work_status_as_str
           (if wk_attempt_count r \<ge> uint (wrp_max_attempts p) then FailedTerminal else RetryPending)
       else r' = r))"
proof -
  have u: "units_ok J db" using reachable_store_ok [OF assms(1,2)] by (simp add: store_ok_def)
  from assms(3) obtain ids where tx: "recover_tx J E (normalize_optional_text actor) (now_or_clock E now_ms) db = Inr (ids, db')"
    by (auto simp: recover_expired_leases_def and_then_def transact_def split: sum.splits prod.splits)
  have none: "\<forall>r \<in> set (db_units db'). \<not> lease_expired_at (now_or_clock E now_ms) r"
    by (rule recover_tx_step(2) [OF u tx])
  have rows: "rows_step J (\<lambda>l. \<exists>s. l = LRecover (now_or_clock E now_ms) s) (db_units db) (db_units db')"
    using recover_tx_step(1) [OF u tx] by blast
  have "\<exists>r' \<in> set (db_units db'). wk_work_unit_id r' = wk_work_unit_id r \<and>
      (if lease_expired_at (now_or_clock E now_ms) r
       then \<exists>p. wc_decode_retry_policy J (wk_retry_policy_json r) = Inr p \<and> wk_lease_owner r' = None \<and>
         wk_status r' = work_status_as_str (recovered_status p r)
       else r' = r)" if r: "r \<in> set (db_units db)" for r
  proof -
    from r rows obtain r' where r': "r' \<in> set (db_units db')"
      "r' = r \<or> (\<exists>s. unit_step J r (LRecover (now_or_clock E now_ms) s) r')"
      by (fastforce simp: rows_step_def list_all2_conv_all_nth in_set_conv_nth)
    show ?thesis
    proof (cases "r' = r")
      case True
      with none r' show ?thesis by auto
    next
      case False
      with r'(2) obtain s where s: "unit_step J r (LRecover (now_or_clock E now_ms) s) r'" by blast
      then show ?thesis using r'(1)
        by cases (auto simp: lease_cleared_def intro!: bexI [of _ r'])
    qed
  qed
  moreover have "count_units (lease_expired_at (now_or_clock E now_ms)) db' = 0"
    using none by (simp add: count_units_def)
  ultimately show ?thesis unfolding recovered_status_def by blast
qed

lemma recovery_clears_expired_leases_witness:
  "\<exists>r \<in> set (db_units (work_step sample_work_codec sample_env (RecoverOp None (Some 9000)) leased_db)).
     wk_status r = ''retry_pending'' \<and> wk_lease_owner r = None"
proof -
  from leased_db(2) obtain r where r: "r \<in> set (db_units leased_db)" "wk_lease_owner r = Some ''w''"
    "wk_lease_expires_at_ms r = Some 7000" by blast
  note ok = reachable_store_ok [OF leased_db(1) sample_work_codec_ok(1)]
  have p: "wc_decode_retry_policy sample_work_codec t = Inr work_retry_policy_default" for t
    by (simp add: sample_work_codec_def)
  have b: "\<forall>r \<in> set (db_units leased_db). wk_attempt_count r < 2 ^ 32" using leased_attempts by fastforce
  have m: "\<forall>t p. wc_decode_retry_policy sample_work_codec t = Inr p \<longrightarrow> uint (wrp_max_backoff_ms p) \<le> i64_max"
    unfolding p by (simp add: work_retry_policy_default_def i64_max_def)
  obtain ss db' where s: "recover_expired_leases sample_work_codec sample_env None (Some 9000) leased_db = (Inr ss, db')"
    using recovery_succeeds [OF sample_work_codec_ok(1) ok sample_env_no_faults sample_work_codec_ok(2) b m] by blast
  have "row_ok sample_work_codec r" using ok r(1) by (simp add: store_ok_def units_ok_def)
  then obtain st where "wk_status r = work_status_as_str st" "lease_fields r (st \<in> {Leased, Running})"
    by (auto simp: row_ok_def)
  with r have "lease_expired_at 9000 r" by (auto simp: lease_fields_def)
  with recovery_clears_expired_leases [OF leased_db(1) sample_work_codec_ok(1) s] r(1)
  obtain r' where "r' \<in> set (db_units db')" "wk_lease_owner r' = None" "wk_status r' = work_status_as_str
      (if wk_attempt_count r \<ge> uint (wrp_max_attempts work_retry_policy_default) then FailedTerminal else RetryPending)"
    by (fastforce simp: now_or_clock_def p)
  with leased_attempts [OF r(1)] show ?thesis
    by (intro bexI [of _ r']) (simp_all add: s work_retry_policy_default_def work_status_as_str.simps)
qed

text \<open>
  The retry delay of a unit doubles with every attempt from the initial delay and never exceeds
  the policy's maximum, and the computation does not overflow.
\<close>

theorem retry_delay_doubles_up_to_the_cap:
  assumes "validate_work_retry_policy p = Inr ()"
  shows "\<exists>d. compute_retry_delay_ms p attempt_count = Inr d \<and>
    unat d = min (unat (wrp_initial_backoff_ms p) * 2 ^ (unat attempt_count - 1)) (unat (wrp_max_backoff_ms p))"
proof -
  have "wrp_initial_backoff_ms p \<le> wrp_max_backoff_ms p"
    using assms by (auto simp: validate_work_retry_policy_def split: if_splits)
  from retry_delay_loop_closed [OF this] show ?thesis
    using assms by (simp add: compute_retry_delay_ms_def)
qed

lemma retry_delay_doubles_up_to_the_cap_witness:
  "\<exists>d. compute_retry_delay_ms work_retry_policy_default 4 = Inr d \<and> unat d = 8000"
proof -
  have "validate_work_retry_policy work_retry_policy_default = Inr ()" by code_simp
  from retry_delay_doubles_up_to_the_cap [OF this, of 4] show ?thesis
    by (simp add: work_retry_policy_default_def)
qed

end
