(* ===== verification/Bash_Syntax.thy ===== *)
theory Bash_Syntax
  imports Payload_Templates
begin

text \<open>
  How the bash tool reads a command (crates/app/src/tools/bash/ast.rs): the units of the command line,
  each a plain command with its words or an unsupported structure. The grammar is tree-sitter's, a
  library: the syntax tree it returns for a command is the argument. Texts are their UTF-8 bytes; the
  loops that the code runs over characters only look for ASCII ones, so they run over bytes here.
\<close>

section \<open>Syntax trees\<close>

datatype syntax_node = Syntax_Node
  (sn_kind: string) (sn_named: bool) (sn_field: "string option") (sn_start: nat) (sn_end: nat)
  (sn_is_error: bool) (sn_is_missing: bool) (sn_children: "syntax_node list")

record syntax_tree =
  st_root :: syntax_node
  st_has_error :: bool

definition named_children :: "syntax_node \<Rightarrow> syntax_node list" where
  "named_children n = filter sn_named (sn_children n)"

definition children_by_field_name :: "syntax_node \<Rightarrow> string \<Rightarrow> syntax_node list" where
  "children_by_field_name n field = filter (\<lambda>c. sn_field c = Some field) (sn_children n)"

definition child_by_field_name :: "syntax_node \<Rightarrow> string \<Rightarrow> syntax_node option" where
  "child_by_field_name n field = find (\<lambda>c. sn_field c = Some field) (sn_children n)"

fun contains_kind :: "syntax_node \<Rightarrow> string \<Rightarrow> bool" where
  "contains_kind (Syntax_Node kind named field a b err missing children) needle \<longleftrightarrow>
     kind = needle \<or> list_ex (\<lambda>child. contains_kind child needle) children"

definition contains_any_kind :: "syntax_node \<Rightarrow> string list \<Rightarrow> bool" where
  "contains_any_kind n needles \<longleftrightarrow> list_ex (contains_kind n) needles"

fun tree_contains_error_or_missing :: "syntax_node \<Rightarrow> bool" where
  "tree_contains_error_or_missing (Syntax_Node kind named field a b err missing children) \<longleftrightarrow>
     err \<or> missing \<or> list_ex tree_contains_error_or_missing children"

definition source_text_between :: "string \<Rightarrow> nat \<Rightarrow> nat \<Rightarrow> string" where
  "source_text_between source from to =
     (if from \<le> to \<and> to \<le> length source then take (to - from) (drop from source) else [])"

definition utf8_text :: "syntax_node \<Rightarrow> string \<Rightarrow> string" where
  "utf8_text n source = take (sn_end n - sn_start n) (drop (sn_start n) source)"

section \<open>Kinds\<close>

definition env_prefix_assignment_kinds :: "string list" where
  "env_prefix_assignment_kinds = [''variable_assignment'', ''variable_assignments'']"

definition dynamic_word_kinds :: "string list" where
  "dynamic_word_kinds =
     [''command_substitution'', ''process_substitution'', ''subshell'', ''expansion'', ''simple_expansion'',
      ''arithmetic_expansion'', ''brace_expression'', ''translated_string'', ''ansi_c_string'']"

definition redirection_kinds :: "string list" where
  "redirection_kinds = [''redirected_statement'', ''file_redirect'', ''herestring_redirect'', ''heredoc_redirect'']"

definition compound_command_kinds :: "string list" where
  "compound_command_kinds =
     [''list'', ''function_definition'', ''for_statement'', ''c_style_for_statement'', ''while_statement'',
      ''if_statement'', ''case_statement'', ''compound_statement'', ''test_command'', ''negated_command'']"

datatype unsupported_structure =
    BackgroundOperator | CommandSubstitution | CompoundCommand | EnvPrefixAssignment | Pipeline
  | ProcessSubstitution | Redirection | Subshell

datatype unit_classification =
    GovernablePlainCommand "string list"
  | Unsupported unsupported_structure

datatype unit_operator = Sequential | AndIf | OrIf

record command_unit =
  mu_classification :: unit_classification
  mu_preceding_operator :: "unit_operator option"

record command_analysis =
  ca_parse_unreliable :: bool
  ca_units :: "command_unit list"

section \<open>Words\<close>

datatype word_state = Unquoted | SingleQuoted | DoubleQuoted

abbreviation (input) backslash :: char where "backslash \<equiv> CHR 0x5C"
abbreviation (input) single_quote :: char where "single_quote \<equiv> CHR 0x27"
abbreviation (input) double_quote :: char where "double_quote \<equiv> CHR 0x22"
abbreviation (input) backquote :: char where "backquote \<equiv> CHR 0x60"
abbreviation (input) dollar :: char where "dollar \<equiv> CHR 0x24"
abbreviation (input) line_feed :: char where "line_feed \<equiv> CHR 0x0A"
abbreviation (input) carriage_return :: char where "carriage_return \<equiv> CHR 0x0D"

definition skip_line_feed :: "string \<Rightarrow> string" where
  "skip_line_feed cs = (case cs of c # rest \<Rightarrow> if c = line_feed then rest else cs | [] \<Rightarrow> [])"

lemma skip_line_feed_length [termination_simp]: "length (skip_line_feed cs) \<le> length cs"
  by (simp add: skip_line_feed_def split: list.split)

text \<open>The loop of \<open>resolve_static_shell_word\<close>: the state, what is resolved so far, what is left.\<close>

fun shell_word_loop :: "word_state \<Rightarrow> string \<Rightarrow> string \<Rightarrow> string option" where
  "shell_word_loop state resolved [] = (if state = Unquoted then Some resolved else None)"
| "shell_word_loop Unquoted resolved (c # cs) =
     (if c = backslash then
        (case cs of
           [] \<Rightarrow> None
         | e # rest \<Rightarrow>
             if e = line_feed then shell_word_loop Unquoted resolved rest
             else if e = carriage_return then shell_word_loop Unquoted resolved (skip_line_feed rest)
             else shell_word_loop Unquoted (resolved @ [e]) rest)
      else if c = single_quote then shell_word_loop SingleQuoted resolved cs
      else if c = double_quote then shell_word_loop DoubleQuoted resolved cs
      else if c = dollar \<or> c = backquote then None
      else shell_word_loop Unquoted (resolved @ [c]) cs)"
| "shell_word_loop SingleQuoted resolved (c # cs) =
     (if c = single_quote then shell_word_loop Unquoted resolved cs
      else shell_word_loop SingleQuoted (resolved @ [c]) cs)"
| "shell_word_loop DoubleQuoted resolved (c # cs) =
     (if c = backslash then
        (case cs of
           [] \<Rightarrow> None
         | e # rest \<Rightarrow>
             if e = line_feed then shell_word_loop DoubleQuoted resolved rest
             else if e = carriage_return then shell_word_loop DoubleQuoted resolved (skip_line_feed rest)
             else if e \<in> {double_quote, backslash, dollar, backquote}
             then shell_word_loop DoubleQuoted (resolved @ [e]) rest
             else shell_word_loop DoubleQuoted (resolved @ [backslash, e]) rest)
      else if c = double_quote then shell_word_loop Unquoted resolved cs
      else if c = dollar \<or> c = backquote then None
      else shell_word_loop DoubleQuoted (resolved @ [c]) cs)"

definition resolve_static_shell_word :: "string \<Rightarrow> string option" where
  "resolve_static_shell_word text = shell_word_loop Unquoted [] text"

definition extract_static_token :: "syntax_node \<Rightarrow> string \<Rightarrow> string option" where
  "extract_static_token n source =
     (if contains_any_kind n dynamic_word_kinds \<or> contains_any_kind n env_prefix_assignment_kinds then None
      else if sn_kind n \<in> {''command_name'', ''word'', ''concatenation'', ''raw_string'', ''string''}
      then resolve_static_shell_word (utf8_text n source)
      else if sn_kind n = ''number'' then Some (utf8_text n source)
      else None)"

section \<open>Statements\<close>

definition classify_descendant_unsupported_kind :: "syntax_node \<Rightarrow> unsupported_structure" where
  "classify_descendant_unsupported_kind n =
     (if contains_kind n ''command_substitution'' then CommandSubstitution
      else if contains_kind n ''process_substitution'' then ProcessSubstitution
      else if contains_kind n ''pipeline'' then Pipeline
      else if contains_any_kind n env_prefix_assignment_kinds then EnvPrefixAssignment
      else if contains_kind n ''subshell'' then Subshell
      else if contains_any_kind n dynamic_word_kinds then CompoundCommand
      else if contains_any_kind n redirection_kinds then Redirection
      else if contains_any_kind n compound_command_kinds then CompoundCommand
      else BackgroundOperator)"

text \<open>The first named child that rules a plain command out.\<close>

fun child_structure :: "syntax_node list \<Rightarrow> unsupported_structure option" where
  "child_structure [] = None"
| "child_structure (c # cs) =
     (if sn_kind c \<in> {''variable_assignment'', ''variable_assignments''} then Some EnvPrefixAssignment
      else if sn_kind c = ''subshell'' then Some Subshell
      else child_structure cs)"

fun argument_tokens :: "string \<Rightarrow> syntax_node list \<Rightarrow> string list \<Rightarrow> unit_classification" where
  "argument_tokens source [] argv = GovernablePlainCommand argv"
| "argument_tokens source (argument # arguments) argv =
     (case extract_static_token argument source of
        None \<Rightarrow> Unsupported (classify_descendant_unsupported_kind argument)
      | Some token \<Rightarrow> argument_tokens source arguments (argv @ [token]))"

definition classify_command :: "syntax_node \<Rightarrow> string \<Rightarrow> unit_classification" where
  "classify_command n source =
     (if child_by_field_name n ''redirect'' \<noteq> None then Unsupported Redirection
      else case child_structure (named_children n) of
        Some kind \<Rightarrow> Unsupported kind
      | None \<Rightarrow>
          if contains_kind n ''command_substitution'' then Unsupported CommandSubstitution
          else if contains_kind n ''process_substitution'' then Unsupported ProcessSubstitution
          else
            (case child_by_field_name n ''name'' of
               None \<Rightarrow> Unsupported CompoundCommand
             | Some name \<Rightarrow>
                 (case extract_static_token name source of
                    None \<Rightarrow> Unsupported (classify_descendant_unsupported_kind name)
                  | Some token \<Rightarrow> argument_tokens source (children_by_field_name n ''argument'') [token])))"

definition classify_statement :: "syntax_node \<Rightarrow> string \<Rightarrow> unit_classification" where
  "classify_statement n source =
     (let kind = sn_kind n in
      if kind = ''command'' then classify_command n source
      else if kind = ''pipeline'' then Unsupported Pipeline
      else if kind \<in> {''variable_assignment'', ''variable_assignments''} then Unsupported EnvPrefixAssignment
      else if kind = ''redirected_statement'' then Unsupported Redirection
      else if kind = ''subshell'' then Unsupported Subshell
      else if kind = ''command_substitution'' then Unsupported CommandSubstitution
      else if kind = ''process_substitution'' then Unsupported ProcessSubstitution
      else if kind \<in> {''function_definition'', ''for_statement'', ''c_style_for_statement'', ''while_statement'',
        ''if_statement'', ''case_statement'', ''compound_statement'', ''test_command'', ''negated_command''}
      then Unsupported CompoundCommand
      else Unsupported (classify_descendant_unsupported_kind n))"

section \<open>Units\<close>

text \<open>The loop of \<open>separator_supports_sequential_split\<close>: a separator seen, inside a comment.\<close>

fun separator_loop :: "bool \<Rightarrow> bool \<Rightarrow> string \<Rightarrow> bool" where
  "separator_loop saw in_comment [] = saw"
| "separator_loop saw True (c # cs) =
     (if c = line_feed \<or> c = carriage_return then separator_loop True False cs else separator_loop saw True cs)"
| "separator_loop saw False (c # cs) =
     (if c \<in> {CHR '';'', line_feed, carriage_return} then separator_loop True False cs
      else if c \<in> {CHR '' '', CHR 0x09} then separator_loop saw False cs
      else if c = CHR ''#'' then separator_loop saw True cs
      else False)"

definition separator_supports_sequential_split :: "string \<Rightarrow> bool" where
  "separator_supports_sequential_split separator = separator_loop False False separator"

definition list_operator :: "string \<Rightarrow> unit_operator option" where
  "list_operator separator =
     (if sublist ''&&'' separator then Some AndIf
      else if sublist ''||'' separator then Some OrIf
      else None)"

definition statement_children :: "syntax_node \<Rightarrow> syntax_node list" where
  "statement_children n = filter (\<lambda>c. sn_kind c \<noteq> ''comment'') (named_children n)"

lemma statement_children_size [termination_simp]:
  "c \<in> set (statement_children n) \<Longrightarrow> size c < size n"
proof -
  assume "c \<in> set (statement_children n)"
  then have "c \<in> set (sn_children n)" by (simp add: statement_children_def named_children_def)
  then show ?thesis by (cases n) (simp add: size_list_estimation' less_Suc_eq_le trans_le_add2)
qed

text \<open>The units of a statement, and whether they can be relied on.\<close>

function collect_statement_units ::
  "syntax_node \<Rightarrow> string \<Rightarrow> unit_operator option \<Rightarrow> bool \<times> command_unit list" where
  "collect_statement_units n source preceding =
     (if sn_kind n = ''list'' then
        (case statement_children n of
           [left, right] \<Rightarrow>
             (case list_operator (source_text_between source (sn_end left) (sn_start right)) of
                None \<Rightarrow> (False, [\<lparr>mu_classification = Unsupported CompoundCommand, mu_preceding_operator = preceding\<rparr>])
              | Some operator \<Rightarrow>
                  (case collect_statement_units left source preceding of (reliable, units) \<Rightarrow>
                     (case collect_statement_units right source (Some operator) of (reliable', units') \<Rightarrow>
                        (reliable \<and> reliable', units @ units'))))
         | _ \<Rightarrow> (False, [\<lparr>mu_classification = Unsupported CompoundCommand, mu_preceding_operator = preceding\<rparr>]))
      else (True, [\<lparr>mu_classification = classify_statement n source, mu_preceding_operator = preceding\<rparr>]))"
  by pat_completeness auto

termination
proof (relation "measure (\<lambda>(n, source, preceding). size n)")
qed (auto intro!: statement_children_size)

fun collect_children_units ::
  "string \<Rightarrow> nat option \<Rightarrow> syntax_node list \<Rightarrow> bool \<times> command_unit list" where
  "collect_children_units source previous_end [] = (True, [])"
| "collect_children_units source previous_end (child # children) =
     (let separated = (case previous_end of
            None \<Rightarrow> True
          | Some e \<Rightarrow> separator_supports_sequential_split (source_text_between source e (sn_start child)));
          preceding = (case previous_end of None \<Rightarrow> None | Some _ \<Rightarrow> Some Sequential);
          (reliable, units) = collect_statement_units child source preceding;
          (reliable', units') = collect_children_units source (Some (sn_end child)) children
      in (separated \<and> reliable \<and> reliable', units @ units'))"

definition collect_program_units :: "syntax_node \<Rightarrow> string \<Rightarrow> bool \<times> command_unit list" where
  "collect_program_units root source = collect_children_units source None (statement_children root)"

text \<open>The parser may be unavailable or give up.\<close>

definition analyze_bash_command :: "(string \<Rightarrow> syntax_tree option) \<Rightarrow> string \<Rightarrow> command_analysis" where
  "analyze_bash_command parse command =
     (case parse command of
        None \<Rightarrow> \<lparr>ca_parse_unreliable = True, ca_units = []\<rparr>
      | Some tree \<Rightarrow>
          (case collect_program_units (st_root tree) command of (separators_supported, units) \<Rightarrow>
             \<lparr>ca_parse_unreliable = st_has_error tree \<or> tree_contains_error_or_missing (st_root tree) \<or>
                \<not> separators_supported,
              ca_units = units\<rparr>))"

end
