(* ===== verification/Bash_Governance.thy ===== *)
theory Bash_Governance
  imports Bash_Syntax
begin

text \<open>
  The rules of the bash tool (crates/app/src/tools/bash/rules.rs) and the decision on a command line
  (crates/app/src/tools/bash/governance.rs): a deny rule that matches any unit denies, a command
  runs when allow rules match all its units, everything else is up to the default mode. Rule files
  are Starlark programs; the interpreter is an argument that yields the calls a program makes.
\<close>

section \<open>Rules\<close>

datatype rule_decision = RuleAllow | RuleDeny

datatype rule_origin = RuleFile | LegacyShellCompatibility

record prefix_rule =
  pr_source :: string
  pr_prefix :: "string list"
  pr_decision :: rule_decision
  pr_origin :: rule_origin

record prefix_rule_spec =
  ps_source :: string
  ps_pattern :: "string list"
  ps_decision :: rule_decision

text \<open>The first rule for each decision and prefix is kept.\<close>

fun normalize_rules_loop :: "(rule_decision \<times> string list) list \<Rightarrow> prefix_rule list \<Rightarrow> prefix_rule list" where
  "normalize_rules_loop seen [] = []"
| "normalize_rules_loop seen (r # rs) =
     (if (pr_decision r, pr_prefix r) \<in> set seen then normalize_rules_loop seen rs
      else r # normalize_rules_loop ((pr_decision r, pr_prefix r) # seen) rs)"

definition normalize_compiled_rules :: "prefix_rule list \<Rightarrow> prefix_rule list" where
  "normalize_compiled_rules rules = normalize_rules_loop [] rules"

definition compile_compatibility_rules :: "string \<Rightarrow> rule_decision \<Rightarrow> string list \<Rightarrow> prefix_rule list" where
  "compile_compatibility_rules source decision commands =
     normalize_compiled_rules (List.map_filter (\<lambda>command.
       let normalized = to_ascii_lowercase (trim command) in
       if normalized = [] then None
       else Some \<lparr>pr_source = source @ '':'' @ normalized, pr_prefix = [normalized], pr_decision = decision,
              pr_origin = LegacyShellCompatibility\<rparr>) commands)"

definition compile_rules :: "prefix_rule_spec list \<Rightarrow> prefix_rule list" where
  "compile_rules specs =
     normalize_compiled_rules (map (\<lambda>s. \<lparr>pr_source = ps_source s, pr_prefix = ps_pattern s,
       pr_decision = ps_decision s, pr_origin = RuleFile\<rparr>) specs)"

definition merge_rule_sources :: "prefix_rule list \<Rightarrow> prefix_rule list \<Rightarrow> prefix_rule list" where
  "merge_rule_sources left right = normalize_compiled_rules (left @ right)"

definition prefix_matches_rule :: "string list \<Rightarrow> string list \<Rightarrow> bool" where
  "prefix_matches_rule command pre \<longleftrightarrow>
     length command \<ge> length pre \<and> list_all (\<lambda>(c, p). c = p) (zip command pre)"

definition command_tokens_for_rule :: "prefix_rule \<Rightarrow> string list \<Rightarrow> string list" where
  "command_tokens_for_rule rule argv =
     (if pr_origin rule = LegacyShellCompatibility then map to_ascii_lowercase argv else argv)"

definition evaluate_prefix_rules :: "prefix_rule list \<Rightarrow> string list \<Rightarrow> rule_decision option" where
  "evaluate_prefix_rules rules command =
     (if list_ex (\<lambda>r. pr_decision r = RuleDeny \<and>
          prefix_matches_rule (command_tokens_for_rule r command) (pr_prefix r)) rules
      then Some RuleDeny
      else if list_ex (\<lambda>r. pr_decision r = RuleAllow \<and>
          prefix_matches_rule (command_tokens_for_rule r command) (pr_prefix r)) rules
      then Some RuleAllow
      else None)"

section \<open>Rule files\<close>

definition parse_prefix_rule_decision :: "string \<Rightarrow> string + rule_decision" where
  "parse_prefix_rule_decision raw =
     (if raw = ''allow'' then Inr RuleAllow
      else if raw = ''deny'' then Inr RuleDeny
      else Inl (''prefix_rule decision must be \"allow\" or \"deny\", got `'' @ raw @ ''`''))"

definition normalize_rule_pattern :: "string list \<Rightarrow> string + string list" where
  "normalize_rule_pattern pattern =
     (let normalized = map trim pattern in
      if normalized = [] then Inl ''prefix_rule pattern must be a non-empty string list''
      else if [] \<in> set normalized then Inl ''prefix_rule pattern entries must be non-empty strings''
      else Inr normalized)"

text \<open>
  A program calls \<open>prefix_rule\<close> some times and then ends, with an error or without; a call that
  fails ends it at once. How an error prints in the interpreter's report is its own.
\<close>

record starlark_run =
  sr_calls :: "(string list \<times> string) list"
  sr_error :: "string option"

record starlark =
  sl_evaluate :: "string \<Rightarrow> string \<Rightarrow> string + starlark_run"
  sl_report :: "string \<Rightarrow> string"

fun record_rules :: "string \<Rightarrow> (string list \<times> string) list \<Rightarrow> prefix_rule_spec list \<Rightarrow> string + prefix_rule_spec list" where
  "record_rules source_name [] specs = Inr specs"
| "record_rules source_name ((pattern, decision) # calls) specs =
     try_bind (normalize_rule_pattern pattern) (\<lambda>pattern.
     try_bind (parse_prefix_rule_decision decision) (\<lambda>decision.
       record_rules source_name calls (specs @
         [\<lparr>ps_source = source_name @ ''#'' @ nat_to_dec (length specs + 1), ps_pattern = pattern,
           ps_decision = decision\<rparr>])))"

definition load_rule_specs_from_file :: "starlark \<Rightarrow> string \<Rightarrow> string \<Rightarrow> string + prefix_rule_spec list" where
  "load_rule_specs_from_file S path content =
     (case sl_evaluate S path content of
        Inl e \<Rightarrow> Inl (''failed to parse bash rule file `'' @ path @ ''`: '' @ e)
      | Inr run \<Rightarrow>
          map_err (\<lambda>e. ''failed to evaluate bash rule file `'' @ path @ ''`: '' @ e)
            (try_bind (map_err (sl_report S) (record_rules path (sr_calls run) [])) (\<lambda>specs.
               case sr_error run of None \<Rightarrow> Inr specs | Some e \<Rightarrow> Inl e)))"

text \<open>What the file system says of the rules directory: its entries as read, with a file's type, path,
  name, extension and content.\<close>

record rule_entry =
  re_path :: string
  re_name :: string
  re_is_file :: "string + bool"
  re_extension :: "string option"
  re_content :: "string + string"

record rules_dir =
  rd_path :: string
  rd_exists :: "string + bool"
  rd_is_dir :: bool
  rd_entries :: "string + (string + rule_entry) list"

fun rule_files :: "rules_dir \<Rightarrow> (string + rule_entry) list \<Rightarrow> string + rule_entry list" where
  "rule_files D [] = Inr []"
| "rule_files D (entry # entries) =
     try_bind (map_err (\<lambda>e. ''failed to enumerate bash rules dir `'' @ rd_path D @ ''`: '' @ e) entry) (\<lambda>f.
     try_bind (map_err (\<lambda>e. ''failed to inspect bash rule entry `'' @ re_path f @ ''`: '' @ e) (re_is_file f)) (\<lambda>is_file.
     try_bind (rule_files D entries) (\<lambda>files.
       Inr (if is_file \<and> re_extension f = Some ''rules'' then f # files else files))))"

fun load_rule_files :: "starlark \<Rightarrow> rule_entry list \<Rightarrow> string + prefix_rule_spec list" where
  "load_rule_files S [] = Inr []"
| "load_rule_files S (f # files) =
     try_bind (map_err (\<lambda>e. ''failed to read bash rule file `'' @ re_path f @ ''`: '' @ e) (re_content f)) (\<lambda>content.
     try_bind (load_rule_specs_from_file S (re_path f) content) (\<lambda>specs.
     try_bind (load_rule_files S files) (\<lambda>rest. Inr (specs @ rest))))"

definition load_rules_from_dir :: "starlark \<Rightarrow> rules_dir \<Rightarrow> string + prefix_rule list" where
  "load_rules_from_dir S D =
     try_bind (map_err (\<lambda>e. ''failed to inspect bash rules dir `'' @ rd_path D @ ''`: '' @ e) (rd_exists D)) (\<lambda>exists.
     if \<not> exists then Inr []
     else if \<not> rd_is_dir D then Inl (''bash rules path `'' @ rd_path D @ ''` is not a directory'')
     else
       try_bind (map_err (\<lambda>e. ''failed to read bash rules dir `'' @ rd_path D @ ''`: '' @ e) (rd_entries D)) (\<lambda>entries.
       try_bind (rule_files D entries) (\<lambda>files.
       try_bind (load_rule_files S (sort_key re_name files)) (\<lambda>specs. Inr (compile_rules specs)))))"

section \<open>Decisions\<close>

datatype shell_default = ShellDeny | ShellAllow

definition shell_default_parse :: "string \<Rightarrow> shell_default" where
  "shell_default_parse s = (if to_ascii_lowercase s = ''allow'' then ShellAllow else ShellDeny)"

datatype unit_decision_source =
    ExplicitAllow string
  | ExplicitDeny string
  | DefaultUnmatchedPrefix
  | DefaultUnsupportedStructure unsupported_structure
  | DefaultParseUnreliable

datatype unit_decision = UnitAllow | UnitDeny | UnitDefault

record unit_outcome =
  uo_preceding_operator :: "unit_operator option"
  uo_classification :: unit_classification
  uo_decision :: unit_decision
  uo_decision_source :: unit_decision_source

datatype final_decision = FinalAllow | FinalDeny

datatype final_source =
    AllUnitsExplicitlyAllowed
  | ParseUnreliableDefault
  | DefaultFallbackNoUnits
  | UnitSource nat unit_decision_source

record governance_outcome =
  go_command :: string
  go_parse_unreliable :: bool
  go_unit_outcomes :: "unit_outcome list"
  go_default_mode :: shell_default
  go_final_decision :: final_decision
  go_final_source :: final_source

definition matching_rule_source :: "prefix_rule list \<Rightarrow> string list \<Rightarrow> rule_decision \<Rightarrow> string option" where
  "matching_rule_source rules argv decision =
     map_option pr_source (find (\<lambda>r. pr_decision r = decision \<and>
       prefix_matches_rule (command_tokens_for_rule r argv) (pr_prefix r)) rules)"

definition evaluate_unit :: "command_unit \<Rightarrow> prefix_rule list \<Rightarrow> unit_outcome" where
  "evaluate_unit u rules =
     (let (decision, source) =
        (case mu_classification u of
           GovernablePlainCommand argv \<Rightarrow>
             (case matching_rule_source rules argv RuleDeny of
                Some rule_source \<Rightarrow> (UnitDeny, ExplicitDeny rule_source)
              | None \<Rightarrow>
                  (case matching_rule_source rules argv RuleAllow of
                     Some rule_source \<Rightarrow> (UnitAllow, ExplicitAllow rule_source)
                   | None \<Rightarrow> (UnitDefault, DefaultUnmatchedPrefix)))
         | Unsupported kind \<Rightarrow> (UnitDefault, DefaultUnsupportedStructure kind))
      in \<lparr>uo_preceding_operator = mu_preceding_operator u, uo_classification = mu_classification u,
          uo_decision = decision, uo_decision_source = source\<rparr>)"

definition parse_unreliable_unit_outcome :: "command_unit \<Rightarrow> unit_outcome" where
  "parse_unreliable_unit_outcome u =
     \<lparr>uo_preceding_operator = mu_preceding_operator u, uo_classification = mu_classification u,
      uo_decision = UnitDefault, uo_decision_source = DefaultParseUnreliable\<rparr>"

definition final_default_decision :: "shell_default \<Rightarrow> final_decision" where
  "final_default_decision mode = (case mode of ShellAllow \<Rightarrow> FinalAllow | ShellDeny \<Rightarrow> FinalDeny)"

text \<open>The first unit with a decision, with its index.\<close>

definition first_with :: "unit_decision \<Rightarrow> unit_outcome list \<Rightarrow> (nat \<times> unit_decision_source) option" where
  "first_with decision outcomes =
     map_option (\<lambda>(index, u). (index, uo_decision_source u))
       (find (\<lambda>(_, u). uo_decision u = decision) (enumerate 0 outcomes))"

definition evaluate_bash_analysis ::
  "string \<Rightarrow> command_analysis \<Rightarrow> prefix_rule list \<Rightarrow> shell_default \<Rightarrow> governance_outcome" where
  "evaluate_bash_analysis command analysis rules mode =
     (let evaluated = map (\<lambda>u. evaluate_unit u rules) (ca_units analysis) in
      if ca_parse_unreliable analysis then
        (case first_with UnitDeny evaluated of
           Some (index, source) \<Rightarrow>
             \<lparr>go_command = command, go_parse_unreliable = True, go_unit_outcomes = evaluated,
              go_default_mode = mode, go_final_decision = FinalDeny, go_final_source = UnitSource index source\<rparr>
         | None \<Rightarrow>
             \<lparr>go_command = command, go_parse_unreliable = True,
              go_unit_outcomes = map parse_unreliable_unit_outcome (ca_units analysis),
              go_default_mode = mode, go_final_decision = final_default_decision mode,
              go_final_source = ParseUnreliableDefault\<rparr>)
      else
        (case first_with UnitDeny evaluated of
           Some (index, source) \<Rightarrow>
             \<lparr>go_command = command, go_parse_unreliable = False, go_unit_outcomes = evaluated,
              go_default_mode = mode, go_final_decision = FinalDeny, go_final_source = UnitSource index source\<rparr>
         | None \<Rightarrow>
             if evaluated \<noteq> [] \<and> list_all (\<lambda>u. uo_decision u = UnitAllow) evaluated then
               \<lparr>go_command = command, go_parse_unreliable = False, go_unit_outcomes = evaluated,
                go_default_mode = mode, go_final_decision = FinalAllow,
                go_final_source = AllUnitsExplicitlyAllowed\<rparr>
             else
               (case first_with UnitDefault evaluated of
                  Some (index, source) \<Rightarrow>
                    \<lparr>go_command = command, go_parse_unreliable = False, go_unit_outcomes = evaluated,
                     go_default_mode = mode, go_final_decision = final_default_decision mode,
                     go_final_source = UnitSource index source\<rparr>
                | None \<Rightarrow>
                    \<lparr>go_command = command, go_parse_unreliable = False, go_unit_outcomes = evaluated,
                     go_default_mode = mode, go_final_decision = final_default_decision mode,
                     go_final_source = DefaultFallbackNoUnits\<rparr>)))"

definition evaluate_bash_command ::
  "(string \<Rightarrow> syntax_tree option) \<Rightarrow> string \<Rightarrow> prefix_rule list \<Rightarrow> shell_default \<Rightarrow> governance_outcome" where
  "evaluate_bash_command parse command rules mode =
     evaluate_bash_analysis command (analyze_bash_command parse command) rules mode"

section \<open>Reasons\<close>

primrec unsupported_structure_label :: "unsupported_structure \<Rightarrow> string" where
  "unsupported_structure_label BackgroundOperator = ''background operator''"
| "unsupported_structure_label CommandSubstitution = ''command substitution''"
| "unsupported_structure_label CompoundCommand = ''compound command''"
| "unsupported_structure_label EnvPrefixAssignment = ''environment-prefix assignment''"
| "unsupported_structure_label Pipeline = ''pipeline''"
| "unsupported_structure_label ProcessSubstitution = ''process substitution''"
| "unsupported_structure_label Redirection = ''redirection''"
| "unsupported_structure_label Subshell = ''subshell''"

definition default_mode_label :: "shell_default \<Rightarrow> string" where
  "default_mode_label mode = (case mode of ShellAllow \<Rightarrow> ''allow'' | ShellDeny \<Rightarrow> ''deny'')"

definition unit_display :: "unit_outcome \<Rightarrow> string" where
  "unit_display u =
     (case uo_classification u of
        GovernablePlainCommand argv \<Rightarrow> join_char CHR '' '' argv
      | Unsupported kind \<Rightarrow> ''unsupported '' @ unsupported_structure_label kind)"

definition denial_reason :: "governance_outcome \<Rightarrow> string option" where
  "denial_reason g =
     (let default_denied = '' and default-'' @ default_mode_label (go_default_mode g) @ '' policy denied it'' in
      if go_final_decision g \<noteq> FinalDeny then None
      else Some (case go_final_source g of
          AllUnitsExplicitlyAllowed \<Rightarrow> ''bash governance denied command unexpectedly''
        | ParseUnreliableDefault \<Rightarrow> ''bash command could not be parsed reliably'' @ default_denied
        | DefaultFallbackNoUnits \<Rightarrow> ''bash command produced no governable units'' @ default_denied
        | UnitSource index source \<Rightarrow>
            (let display = (if index < length (go_unit_outcomes g)
                then unit_display (go_unit_outcomes g ! index) else ''unknown unit'') in
             case source of
               ExplicitDeny rule_source \<Rightarrow>
                 ''bash command unit `'' @ display @ ''` matched deny rule `'' @ rule_source @ ''`''
             | ExplicitAllow rule_source \<Rightarrow>
                 ''bash command unit `'' @ display @ ''` matched allow rule `'' @ rule_source @
                 ''` but overall evaluation still denied''
             | DefaultUnmatchedPrefix \<Rightarrow>
                 ''bash command unit `'' @ display @ ''` matched no allow rule'' @ default_denied
             | DefaultUnsupportedStructure kind \<Rightarrow>
                 ''bash command unit `'' @ display @ ''` uses unsupported '' @ unsupported_structure_label kind @
                 '' structure'' @ default_denied
             | DefaultParseUnreliable \<Rightarrow> ''bash command could not be parsed reliably'' @ default_denied)))"

end
