(* ===== verification/Bash_Properties.thy ===== *)
theory Bash_Properties
  imports Bash_Governance
begin

text \<open>
  What the bash tool's reading and governance of a command promise: its words are those that bash
  itself would take, and a command runs only when the rules say so.
\<close>

section \<open>Quoting\<close>

text \<open>
  Quote removal as the shell's manual states it. Outside quotes a backslash keeps the next character
  and removes a line end; single quotes keep everything; inside double quotes a backslash keeps only
  the characters that are special there, and is kept itself before others. An expansion has no
  static value.
\<close>

inductive quoted_word :: "word_state \<Rightarrow> string \<Rightarrow> string \<Rightarrow> bool" where
  word_end: "quoted_word Unquoted [] []"
| word_plain: "c \<notin> {backslash, single_quote, double_quote, dollar, backquote} \<Longrightarrow> quoted_word Unquoted t v \<Longrightarrow>
    quoted_word Unquoted (c # t) (c # v)"
| word_escape: "e \<noteq> line_feed \<Longrightarrow> quoted_word Unquoted t v \<Longrightarrow> quoted_word Unquoted (backslash # e # t) (e # v)"
| word_join: "quoted_word Unquoted t v \<Longrightarrow> quoted_word Unquoted (backslash # line_feed # t) v"
| word_single: "quoted_word SingleQuoted t v \<Longrightarrow> quoted_word Unquoted (single_quote # t) v"
| word_double: "quoted_word DoubleQuoted t v \<Longrightarrow> quoted_word Unquoted (double_quote # t) v"
| single_end: "quoted_word Unquoted t v \<Longrightarrow> quoted_word SingleQuoted (single_quote # t) v"
| single_char: "c \<noteq> single_quote \<Longrightarrow> quoted_word SingleQuoted t v \<Longrightarrow> quoted_word SingleQuoted (c # t) (c # v)"
| double_end: "quoted_word Unquoted t v \<Longrightarrow> quoted_word DoubleQuoted (double_quote # t) v"
| double_char: "c \<notin> {backslash, double_quote, dollar, backquote} \<Longrightarrow> quoted_word DoubleQuoted t v \<Longrightarrow>
    quoted_word DoubleQuoted (c # t) (c # v)"
| double_special: "e \<in> {double_quote, backslash, dollar, backquote} \<Longrightarrow> quoted_word DoubleQuoted t v \<Longrightarrow>
    quoted_word DoubleQuoted (backslash # e # t) (e # v)"
| double_join: "quoted_word DoubleQuoted t v \<Longrightarrow> quoted_word DoubleQuoted (backslash # line_feed # t) v"
| double_other: "e \<notin> {double_quote, backslash, dollar, backquote, line_feed} \<Longrightarrow> quoted_word DoubleQuoted t v \<Longrightarrow>
    quoted_word DoubleQuoted (backslash # e # t) (backslash # e # v)"

lemma quoted_word_resolves:
  "quoted_word state input v \<Longrightarrow> carriage_return \<notin> set input \<Longrightarrow>
    shell_word_loop state resolved input = Some (resolved @ v)"
  by (induction arbitrary: resolved rule: quoted_word.induct) auto

lemma resolved_word_quoted:
  assumes "shell_word_loop state resolved input = Some w" "carriage_return \<notin> set input"
  shows "\<exists>v. quoted_word state input v \<and> w = resolved @ v"
  using assms
proof (induction state resolved input rule: shell_word_loop.induct)
  case (1 state resolved)
  then show ?case by (auto intro: word_end split: if_splits)
next
  case (2 resolved c cs)
  show ?case
  proof (cases "c = backslash")
    case True
    with 2(7) obtain e rest where cs: "cs = e # rest" by (auto split: list.splits)
    show ?thesis
    proof (cases "e = line_feed")
      case e: True
      with 2(1) [OF True cs e] 2(7,8) True cs show ?thesis by (auto intro: word_join)
    next
      case e: False
      have "e \<noteq> carriage_return" using 2(8) cs by auto
      with 2(3) [OF True cs e] 2(7,8) True cs e show ?thesis by (auto intro: word_escape)
    qed
  next
    case False
    with 2 show ?thesis by (auto split: if_splits intro: word_single word_double word_plain)
  qed
next
  case (3 resolved c cs)
  then show ?case by (auto split: if_splits intro: single_end single_char)
next
  case (4 resolved c cs)
  show ?case
  proof (cases "c = backslash")
    case True
    with 4(7) obtain e rest where cs: "cs = e # rest" by (auto split: list.splits)
    show ?thesis
    proof (cases "e = line_feed")
      case e: True
      with 4(1) [OF True cs e] 4(7,8) True cs show ?thesis by (auto intro: double_join)
    next
      case e: False
      have cr: "e \<noteq> carriage_return" using 4(8) cs by auto
      show ?thesis
      proof (cases "e \<in> {double_quote, backslash, dollar, backquote}")
        case special: True
        with 4(3) [OF True cs e cr] 4(7,8) True cs e cr show ?thesis by (auto intro: double_special)
      next
        case special: False
        with 4(4) [OF True cs e cr] 4(7,8) True cs e cr show ?thesis by (auto intro: double_other)
      qed
    qed
  next
    case False
    with 4 show ?thesis by (auto split: if_splits intro: double_end double_char)
  qed
qed

text \<open>A backslash before a carriage return is another matter: the code removes both, a shell keeps the latter.\<close>

lemma carriage_return_is_dropped:
  "resolve_static_shell_word [CHR ''l'', backslash, carriage_return, CHR ''s''] = Some ''ls''"
  "quoted_word Unquoted [CHR ''l'', backslash, carriage_return, CHR ''s''] [CHR ''l'', carriage_return, CHR ''s'']"
  by (simp add: resolve_static_shell_word_def skip_line_feed_def)
    (intro word_plain word_escape word_end; simp)

section \<open>Rules\<close>

lemma prefix_matches_prefix: "prefix_matches_rule command pre \<longleftrightarrow> prefix pre command"
proof (induction pre arbitrary: command)
  case Nil
  then show ?case by (simp add: prefix_matches_rule_def)
next
  case (Cons p pre)
  then show ?case by (cases command) (auto simp: prefix_matches_rule_def)
qed

definition rule_applies :: "rule_decision \<Rightarrow> prefix_rule list \<Rightarrow> string list \<Rightarrow> bool" where
  "rule_applies decision rules argv \<longleftrightarrow>
     (\<exists>r \<in> set rules. pr_decision r = decision \<and> prefix (pr_prefix r)
       (if pr_origin r = LegacyShellCompatibility then map to_ascii_lowercase argv else argv))"

lemma matching_rule_applies: "matching_rule_source rules argv decision \<noteq> None \<longleftrightarrow> rule_applies decision rules argv"
  by (auto simp: matching_rule_source_def rule_applies_def prefix_matches_prefix command_tokens_for_rule_def
    find_None_iff)

lemma normalize_loop_keeps:
  "(\<exists>r \<in> set (normalize_rules_loop seen rules). pr_decision r = d \<and> pr_prefix r = p) \<longleftrightarrow>
   (d, p) \<notin> set seen \<and> (\<exists>r \<in> set rules. pr_decision r = d \<and> pr_prefix r = p)"
  by (induction seen rules rule: normalize_rules_loop.induct) auto

lemma normalize_loop_subset: "set (normalize_rules_loop seen rules) \<subseteq> set rules"
  by (induction seen rules rule: normalize_rules_loop.induct) auto

text \<open>Dropping repeated rules changes no decision, as long as the rules have one origin.\<close>

lemma normalized_rules_decide:
  assumes "\<forall>r \<in> set rules. pr_origin r = origin"
  shows "rule_applies decision (normalize_compiled_rules rules) argv \<longleftrightarrow> rule_applies decision rules argv"
proof -
  let ?argv = "if origin = LegacyShellCompatibility then map to_ascii_lowercase argv else argv"
  have applies: "rule_applies decision rs argv \<longleftrightarrow>
      (\<exists>p. prefix p ?argv \<and> (\<exists>r \<in> set rs. pr_decision r = decision \<and> pr_prefix r = p))"
    if "\<forall>r \<in> set rs. pr_origin r = origin" for rs
    using that by (auto simp: rule_applies_def)
  have "\<forall>r \<in> set (normalize_compiled_rules rules). pr_origin r = origin"
    using assms normalize_loop_subset [of "[]" rules] by (auto simp: normalize_compiled_rules_def)
  from applies [OF this] applies [OF assms] show ?thesis
    by (simp add: normalize_compiled_rules_def normalize_loop_keeps)
qed

lemma evaluate_rules_applies:
  "evaluate_prefix_rules rules argv =
     (if rule_applies RuleDeny rules argv then Some RuleDeny
      else if rule_applies RuleAllow rules argv then Some RuleAllow else None)"
  by (simp add: evaluate_prefix_rules_def rule_applies_def list_ex_iff prefix_matches_prefix command_tokens_for_rule_def)

section \<open>Decisions\<close>

definition unit_denied :: "prefix_rule list \<Rightarrow> command_unit \<Rightarrow> bool" where
  "unit_denied rules u \<longleftrightarrow> (\<exists>argv. mu_classification u = GovernablePlainCommand argv \<and> rule_applies RuleDeny rules argv)"

definition unit_allowed :: "prefix_rule list \<Rightarrow> command_unit \<Rightarrow> bool" where
  "unit_allowed rules u \<longleftrightarrow> (\<exists>argv. mu_classification u = GovernablePlainCommand argv \<and>
     rule_applies RuleAllow rules argv \<and> \<not> rule_applies RuleDeny rules argv)"

lemma evaluate_unit_decision:
  "uo_decision (evaluate_unit u rules) = UnitDeny \<longleftrightarrow> unit_denied rules u"
  "uo_decision (evaluate_unit u rules) = UnitAllow \<longleftrightarrow> unit_allowed rules u"
  using matching_rule_applies [of rules _ RuleDeny] matching_rule_applies [of rules _ RuleAllow]
  by (auto simp: evaluate_unit_def unit_denied_def unit_allowed_def Let_def split: unit_classification.splits option.splits)
    (metis option.discI)+

lemma first_with_None: "first_with d outcomes = None \<longleftrightarrow> (\<forall>u \<in> set outcomes. uo_decision u \<noteq> d)"
proof -
  have "set outcomes = snd ` set (enumerate 0 outcomes)" by (metis list.set_map map_snd_enumerate)
  moreover have "(\<forall>u \<in> snd ` S. uo_decision u \<noteq> d) \<longleftrightarrow> (\<forall>p \<in> S. uo_decision (snd p) \<noteq> d)"
    for S :: "(nat \<times> unit_outcome) set" by auto
  ultimately show ?thesis by (simp add: first_with_def find_None_iff case_prod_beta Ball_def)
qed

text \<open>
  C14. A bash command line runs exactly when this holds: no deny rule matches one of its commands, and
  either the default is to allow, or the line was parsed reliably into at least one unit and each unit
  is a plain command that an allow rule matches. A deny rule wins over every allow rule and
  over the default, also on a line that could not be parsed reliably; a refusal has a reason.
\<close>

theorem bash_governance_decides:
  "let analysis = analyze_bash_command parse command;
       outcome = evaluate_bash_command parse command rules mode
   in (go_final_decision outcome = FinalAllow \<longleftrightarrow>
         (\<nexists>u. u \<in> set (ca_units analysis) \<and> unit_denied rules u) \<and>
         (mode = ShellAllow \<or>
          \<not> ca_parse_unreliable analysis \<and> ca_units analysis \<noteq> [] \<and> list_all (unit_allowed rules) (ca_units analysis))) \<and>
      (denial_reason outcome = None \<longleftrightarrow> go_final_decision outcome = FinalAllow)"
proof -
  let ?a = "analyze_bash_command parse command"
  let ?us = "map (\<lambda>u. evaluate_unit u rules) (ca_units ?a)"
  have d: "first_with UnitDeny ?us = None \<longleftrightarrow> (\<nexists>u. u \<in> set (ca_units ?a) \<and> unit_denied rules u)"
    by (auto simp: first_with_None evaluate_unit_decision)
  have a: "list_all (\<lambda>u. uo_decision u = UnitAllow) ?us \<longleftrightarrow> list_all (unit_allowed rules) (ca_units ?a)"
    by (simp add: list.pred_map o_def evaluate_unit_decision)
  have decision: "go_final_decision (evaluate_bash_command parse command rules mode) = FinalAllow \<longleftrightarrow>
      first_with UnitDeny ?us = None \<and> (mode = ShellAllow \<or>
        \<not> ca_parse_unreliable ?a \<and> ?us \<noteq> [] \<and> list_all (\<lambda>u. uo_decision u = UnitAllow) ?us)"
    by (cases mode) (auto simp: evaluate_bash_command_def evaluate_bash_analysis_def Let_def final_default_decision_def
      split: option.splits prod.splits)
  have "denial_reason g = None \<longleftrightarrow> go_final_decision g = FinalAllow" for g
    by (cases "go_final_decision g") (simp_all add: denial_reason_def Let_def)
  then show ?thesis unfolding Let_def using decision a by (simp add: d)
qed

text \<open>
  The words of a command are the ones bash takes: a text without carriage returns resolves to
  a word exactly when the shell's quoting rules give it a static value, and to that value. Unfinished
  quotes, a dangling backslash and any expansion have none.
\<close>

theorem static_words_follow_quoting_rules:
  assumes "carriage_return \<notin> set input"
  shows "resolve_static_shell_word input = Some v \<longleftrightarrow> quoted_word Unquoted input v"
proof
  assume "resolve_static_shell_word input = Some v"
  with resolved_word_quoted [OF _ assms, of Unquoted "[]" v] show "quoted_word Unquoted input v"
    by (simp add: resolve_static_shell_word_def)
next
  assume "quoted_word Unquoted input v"
  from quoted_word_resolves [OF this assms, of "[]"] show "resolve_static_shell_word input = Some v"
    by (simp add: resolve_static_shell_word_def)
qed

lemma static_words_follow_quoting_rules_witness:
  "quoted_word Unquoted [CHR ''l'', single_quote, CHR ''s'', CHR '' '', single_quote, backslash, dollar]
     [CHR ''l'', CHR ''s'', CHR '' '', dollar]"
proof -
  have "resolve_static_shell_word [CHR ''l'', single_quote, CHR ''s'', CHR '' '', single_quote, backslash, dollar] =
      Some [CHR ''l'', CHR ''s'', CHR '' '', dollar]"
    by (simp add: resolve_static_shell_word_def)
  moreover have "carriage_return \<notin> set [CHR ''l'', single_quote, CHR ''s'', CHR '' '', single_quote, backslash, dollar]"
    by simp
  ultimately show ?thesis using static_words_follow_quoting_rules by blast
qed

end
