(* ===== verification/Tool_Config.thy ===== *)
theory Tool_Config
  imports Bash_Governance
begin

text \<open>
  The runtime configuration of the tools (crates/app/src/tools/runtime_config.rs) and the narrowing
  a session may put on it (runtime_config_narrowing.rs): limits of the browser and of web requests.
  A path is the list of its components; the policies of the sections the model does not read are
  one field of any type.
\<close>

section \<open>Policies\<close>

record browser_runtime_policy =
  brp_enabled :: bool
  brp_max_sessions :: usize
  brp_max_links :: usize
  brp_max_text_chars :: usize

record web_fetch_runtime_policy =
  wfp_enabled :: bool
  wfp_allow_private_hosts :: bool
  wfp_enforce_allowed_domains :: bool
  wfp_allowed_domains :: "string set"
  wfp_blocked_domains :: "string set"
  wfp_timeout_seconds :: u64
  wfp_max_bytes :: usize
  wfp_max_redirects :: usize

record bash_governance_runtime_policy =
  bgp_rules_dir :: string
  bgp_rules :: "prefix_rule list"
  bgp_load_error :: "string option"

record bash_exec_runtime_policy =
  bep_available :: bool
  bep_command :: "string option"
  bep_warning :: "string option"
  bep_login_shell :: bool
  bep_governance :: bash_governance_runtime_policy

definition bash_is_runtime_ready :: "bash_exec_runtime_policy \<Rightarrow> bool" where
  "bash_is_runtime_ready b \<longleftrightarrow> bep_available b \<and> bep_command b \<noteq> None"

definition bash_is_discoverable :: "bash_exec_runtime_policy \<Rightarrow> bool" where
  "bash_is_discoverable b \<longleftrightarrow> bash_is_runtime_ready b \<and> bgp_load_error (bep_governance b) = None"

definition translate_legacy_shell_rules :: "string \<Rightarrow> rule_decision \<Rightarrow> string list \<Rightarrow> prefix_rule list" where
  "translate_legacy_shell_rules source decision commands =
     List.map_filter (\<lambda>command.
       let normalized = to_ascii_lowercase (trim command) in
       if normalized = [] then None
       else Some \<lparr>pr_source = source @ '':'' @ normalized, pr_prefix = [normalized], pr_decision = decision,
              pr_origin = LegacyShellCompatibility\<rparr>) commands"

definition build_bash_governance_runtime_policy ::
  "starlark \<Rightarrow> rules_dir \<Rightarrow> string list \<Rightarrow> string list \<Rightarrow> bash_governance_runtime_policy" where
  "build_bash_governance_runtime_policy S D shell_allow shell_deny =
     (let rules = translate_legacy_shell_rules ''shell_allow'' RuleAllow shell_allow @
            translate_legacy_shell_rules ''shell_deny'' RuleDeny shell_deny
      in case load_rules_from_dir S D of
           Inr loaded \<Rightarrow> \<lparr>bgp_rules_dir = rd_path D, bgp_rules = rules @ loaded, bgp_load_error = None\<rparr>
         | Inl e \<Rightarrow> \<lparr>bgp_rules_dir = rd_path D, bgp_rules = rules, bgp_load_error = Some e\<rparr>)"

record tool_execution_config =
  tec_default_timeout_seconds :: "u64 option"
  tec_per_tool_timeout :: "(string, u64) btree"

type_synonym path = "string list"

record 'x tool_runtime_config =
  rc_file_root :: "path option"
  rc_workspace_root :: "path option"
  rc_shell_allow :: "string set"
  rc_shell_deny :: "string set"
  rc_shell_default_mode :: shell_default
  rc_browser :: browser_runtime_policy
  rc_bash_exec :: bash_exec_runtime_policy
  rc_web_fetch :: web_fetch_runtime_policy
  rc_tool_execution :: tool_execution_config
  rc_rest :: 'x

definition with_file_root_override :: "'x tool_runtime_config \<Rightarrow> path \<Rightarrow> 'x tool_runtime_config" where
  "with_file_root_override c root = c\<lparr>rc_file_root := Some root\<rparr>"

definition with_workspace_root_override :: "'x tool_runtime_config \<Rightarrow> path \<Rightarrow> 'x tool_runtime_config" where
  "with_workspace_root_override c root = c\<lparr>rc_workspace_root := Some root\<rparr>"

definition path_resolution_root :: "'x tool_runtime_config \<Rightarrow> path option" where
  "path_resolution_root c = (case rc_workspace_root c of Some w \<Rightarrow> Some w | None \<Rightarrow> rc_file_root c)"

definition effective_workspace_root :: "'x tool_runtime_config \<Rightarrow> path option" where
  "effective_workspace_root c = (case rc_workspace_root c of Some w \<Rightarrow> Some w | None \<Rightarrow> rc_file_root c)"

text \<open>\<open>Path::starts_with\<close> compares whole components.\<close>

definition filesystem_access_root :: "'x tool_runtime_config \<Rightarrow> path option" where
  "filesystem_access_root c =
     (case (rc_file_root c, rc_workspace_root c) of
        (Some f, Some w) \<Rightarrow> if prefix f w then Some f else Some w
      | (None, Some w) \<Rightarrow> Some w
      | (Some f, None) \<Rightarrow> Some f
      | (None, None) \<Rightarrow> None)"

section \<open>Narrowing\<close>

record browser_runtime_narrowing =
  bn_max_sessions :: "usize option"
  bn_max_links :: "usize option"
  bn_max_text_chars :: "usize option"

record web_fetch_runtime_narrowing =
  wn_allow_private_hosts :: "bool option"
  wn_enforce_allowed_domains :: bool
  wn_allowed_domains :: "string set"
  wn_blocked_domains :: "string set"
  wn_timeout_seconds :: "u64 option"
  wn_max_bytes :: "usize option"
  wn_max_redirects :: "usize option"

record tool_runtime_narrowing =
  rn_browser :: browser_runtime_narrowing
  rn_web_fetch :: web_fetch_runtime_narrowing

definition browser_narrowing_is_empty :: "browser_runtime_narrowing \<Rightarrow> bool" where
  "browser_narrowing_is_empty b \<longleftrightarrow> bn_max_sessions b = None \<and> bn_max_links b = None \<and> bn_max_text_chars b = None"

definition enforces_allowed_domains :: "web_fetch_runtime_narrowing \<Rightarrow> bool" where
  "enforces_allowed_domains w \<longleftrightarrow> wn_enforce_allowed_domains w \<or> wn_allowed_domains w \<noteq> {}"

definition web_fetch_narrowing_is_empty :: "web_fetch_runtime_narrowing \<Rightarrow> bool" where
  "web_fetch_narrowing_is_empty w \<longleftrightarrow>
     wn_allow_private_hosts w = None \<and> \<not> enforces_allowed_domains w \<and> wn_allowed_domains w = {} \<and>
     wn_blocked_domains w = {} \<and> wn_timeout_seconds w = None \<and> wn_max_bytes w = None \<and> wn_max_redirects w = None"

definition narrowing_is_empty :: "tool_runtime_narrowing \<Rightarrow> bool" where
  "narrowing_is_empty n \<longleftrightarrow>
     browser_narrowing_is_empty (rn_browser n) \<and> web_fetch_narrowing_is_empty (rn_web_fetch n)"

definition min_optional_limit :: "'a::linorder option \<Rightarrow> 'a option \<Rightarrow> 'a option" where
  "min_optional_limit left right =
     (case (left, right) of
        (Some l, Some r) \<Rightarrow> Some (min l r)
      | (Some l, None) \<Rightarrow> Some l
      | (None, Some r) \<Rightarrow> Some r
      | (None, None) \<Rightarrow> None)"

definition intersect_private_host_setting :: "bool option \<Rightarrow> bool option \<Rightarrow> bool option" where
  "intersect_private_host_setting left right =
     (if left = Some False \<or> right = Some False then Some False else None)"

definition narrowing_intersect ::
  "tool_runtime_narrowing \<Rightarrow> tool_runtime_narrowing \<Rightarrow> tool_runtime_narrowing" where
  "narrowing_intersect a b =
     (if narrowing_is_empty a then b
      else if narrowing_is_empty b then a
      else
        let ba = rn_browser a; bb = rn_browser b; wa = rn_web_fetch a; wb = rn_web_fetch b;
          left_enforces = enforces_allowed_domains wa;
          right_enforces = enforces_allowed_domains wb;
          allowed = (if left_enforces \<and> right_enforces then
                (if wn_allowed_domains wa \<noteq> {} \<and> wn_allowed_domains wb \<noteq> {}
                 then wn_allowed_domains wa \<inter> wn_allowed_domains wb else {})
              else if left_enforces then wn_allowed_domains wa
              else if right_enforces then wn_allowed_domains wb
              else {})
        in \<lparr>rn_browser =
              \<lparr>bn_max_sessions = min_optional_limit (bn_max_sessions ba) (bn_max_sessions bb),
               bn_max_links = min_optional_limit (bn_max_links ba) (bn_max_links bb),
               bn_max_text_chars = min_optional_limit (bn_max_text_chars ba) (bn_max_text_chars bb)\<rparr>,
            rn_web_fetch =
              \<lparr>wn_allow_private_hosts = intersect_private_host_setting (wn_allow_private_hosts wa) (wn_allow_private_hosts wb),
               wn_enforce_allowed_domains = (left_enforces \<or> right_enforces),
               wn_allowed_domains = allowed,
               wn_blocked_domains = wn_blocked_domains wa \<union> wn_blocked_domains wb,
               wn_timeout_seconds = min_optional_limit (wn_timeout_seconds wa) (wn_timeout_seconds wb),
               wn_max_bytes = min_optional_limit (wn_max_bytes wa) (wn_max_bytes wb),
               wn_max_redirects = min_optional_limit (wn_max_redirects wa) (wn_max_redirects wb)\<rparr>\<rparr>)"

definition merge_runtime_narrowing_sources ::
  "tool_runtime_narrowing option \<Rightarrow> tool_runtime_narrowing option \<Rightarrow> tool_runtime_narrowing option" where
  "merge_runtime_narrowing_sources primary secondary =
     (let non_empty = (\<lambda>n. case n of None \<Rightarrow> None | Some n \<Rightarrow> if narrowing_is_empty n then None else Some n) in
      case (non_empty primary, non_empty secondary) of
        (Some p, Some s) \<Rightarrow> Some (narrowing_intersect p s)
      | (Some p, None) \<Rightarrow> Some p
      | (None, Some s) \<Rightarrow> Some s
      | (None, None) \<Rightarrow> None)"

definition narrow_limit :: "('a::linorder \<Rightarrow> 'a) \<Rightarrow> 'a \<Rightarrow> 'a option \<Rightarrow> 'a" where
  "narrow_limit at_least limit narrowed_to = (case narrowed_to of None \<Rightarrow> limit | Some n \<Rightarrow> min limit (at_least n))"

definition narrow_browser :: "browser_runtime_policy \<Rightarrow> browser_runtime_narrowing \<Rightarrow> browser_runtime_policy" where
  "narrow_browser p n =
     p\<lparr>brp_max_sessions := narrow_limit (max 1) (brp_max_sessions p) (bn_max_sessions n),
       brp_max_links := narrow_limit (max 1) (brp_max_links p) (bn_max_links n),
       brp_max_text_chars := narrow_limit (max 1) (brp_max_text_chars p) (bn_max_text_chars n)\<rparr>"

definition narrow_domains :: "bool \<Rightarrow> string set \<Rightarrow> web_fetch_runtime_narrowing \<Rightarrow> bool \<times> string set" where
  "narrow_domains enforce allowed n =
     (let preserve_deny_all = enforce \<and> allowed = {} in
      if enforces_allowed_domains n then
        (True,
         if preserve_deny_all then allowed
         else if wn_allowed_domains n = {} then {}
         else if allowed = {} then wn_allowed_domains n
         else allowed \<inter> wn_allowed_domains n)
      else (enforce, allowed))"

definition narrow_web_fetch :: "web_fetch_runtime_policy \<Rightarrow> web_fetch_runtime_narrowing \<Rightarrow> web_fetch_runtime_policy" where
  "narrow_web_fetch p n =
     (let (enforce, allowed) = narrow_domains (wfp_enforce_allowed_domains p) (wfp_allowed_domains p) n in
      p\<lparr>wfp_allow_private_hosts := (if wn_allow_private_hosts n = Some False then False else wfp_allow_private_hosts p),
        wfp_enforce_allowed_domains := enforce,
        wfp_allowed_domains := allowed,
        wfp_blocked_domains := wfp_blocked_domains p \<union> wn_blocked_domains n,
        wfp_timeout_seconds := narrow_limit (max 1) (wfp_timeout_seconds p) (wn_timeout_seconds n),
        wfp_max_bytes := narrow_limit (max 1) (wfp_max_bytes p) (wn_max_bytes n),
        wfp_max_redirects := narrow_limit id (wfp_max_redirects p) (wn_max_redirects n)\<rparr>)"

definition narrowed :: "'x tool_runtime_config \<Rightarrow> tool_runtime_narrowing \<Rightarrow> 'x tool_runtime_config" where
  "narrowed c n =
     (if narrowing_is_empty n then c
      else c\<lparr>rc_browser := narrow_browser (rc_browser c) (rn_browser n),
             rc_web_fetch := narrow_web_fetch (rc_web_fetch c) (rn_web_fetch n)\<rparr>)"

section \<open>Narrowing twice is narrowing by the intersection\<close>

lemma empty_narrowing_keeps [simp]:
  "browser_narrowing_is_empty b \<Longrightarrow> narrow_browser p b = p"
  "web_fetch_narrowing_is_empty w \<Longrightarrow> narrow_web_fetch q w = q"
  by (simp_all add: browser_narrowing_is_empty_def narrow_browser_def web_fetch_narrowing_is_empty_def
    narrow_web_fetch_def narrow_domains_def narrow_limit_def)

lemma narrowed_unfold:
  "narrowed c n = c\<lparr>rc_browser := narrow_browser (rc_browser c) (rn_browser n),
     rc_web_fetch := narrow_web_fetch (rc_web_fetch c) (rn_web_fetch n)\<rparr>"
  by (simp add: narrowed_def narrowing_is_empty_def)

lemma narrow_limit_twice:
  assumes "mono at_least"
  shows "narrow_limit at_least (narrow_limit at_least limit m) n = narrow_limit at_least limit (min_optional_limit m n)"
proof (cases m; cases n)
  fix a b
  assume "m = Some a" "n = Some b"
  moreover have "at_least (min a b) = min (at_least a) (at_least b)"
    using monoD [OF assms, of a b] monoD [OF assms, of b a] by (cases "a \<le> b") (auto simp: min_def)
  ultimately show ?thesis by (simp add: narrow_limit_def min_optional_limit_def min.assoc)
qed (simp_all add: narrow_limit_def min_optional_limit_def)

lemma mono_at_least [simp]: "mono (max (k :: 'a::linorder))" "mono (id :: 'b::linorder \<Rightarrow> 'b)"
  by (auto intro!: monoI simp: max_def)

lemma intersection_domains:
  assumes "\<not> narrowing_is_empty a" "\<not> narrowing_is_empty b"
  defines "wa \<equiv> rn_web_fetch a" and "wb \<equiv> rn_web_fetch b" and "wc \<equiv> rn_web_fetch (narrowing_intersect a b)"
  shows "wn_enforce_allowed_domains wc \<longleftrightarrow> enforces_allowed_domains wa \<or> enforces_allowed_domains wb"
    and "wn_allowed_domains wc =
      (if enforces_allowed_domains wa \<and> enforces_allowed_domains wb then wn_allowed_domains wa \<inter> wn_allowed_domains wb
       else if enforces_allowed_domains wa then wn_allowed_domains wa
       else if enforces_allowed_domains wb then wn_allowed_domains wb else {})"
  using assms by (simp_all add: narrowing_intersect_def Let_def)

lemma narrow_domains_twice:
  assumes "\<not> narrowing_is_empty a" "\<not> narrowing_is_empty b"
  shows "(case narrow_domains e d (rn_web_fetch a) of (e', d') \<Rightarrow> narrow_domains e' d' (rn_web_fetch b)) =
    narrow_domains e d (rn_web_fetch (narrowing_intersect a b))"
proof -
  have enforces: "enforces_allowed_domains (rn_web_fetch (narrowing_intersect a b)) \<longleftrightarrow>
      enforces_allowed_domains (rn_web_fetch a) \<or> enforces_allowed_domains (rn_web_fetch b)"
    using intersection_domains [OF assms] by (auto simp: enforces_allowed_domains_def)
  show ?thesis
  proof (cases "enforces_allowed_domains (rn_web_fetch a)"; cases "enforces_allowed_domains (rn_web_fetch b)")
  qed (auto simp: narrow_domains_def Let_def enforces intersection_domains [OF assms])
qed

lemma intersection_fields:
  assumes "\<not> narrowing_is_empty a" "\<not> narrowing_is_empty b"
  defines "wa \<equiv> rn_web_fetch a" and "wb \<equiv> rn_web_fetch b" and "wc \<equiv> rn_web_fetch (narrowing_intersect a b)"
  shows "wn_allow_private_hosts wc =
      intersect_private_host_setting (wn_allow_private_hosts wa) (wn_allow_private_hosts wb)"
    "wn_blocked_domains wc = wn_blocked_domains wa \<union> wn_blocked_domains wb"
    "wn_timeout_seconds wc = min_optional_limit (wn_timeout_seconds wa) (wn_timeout_seconds wb)"
    "wn_max_bytes wc = min_optional_limit (wn_max_bytes wa) (wn_max_bytes wb)"
    "wn_max_redirects wc = min_optional_limit (wn_max_redirects wa) (wn_max_redirects wb)"
  using assms by (simp_all add: narrowing_intersect_def Let_def)

lemma intersection_narrows_web_fetch:
  assumes "\<not> narrowing_is_empty a" "\<not> narrowing_is_empty b"
  shows "narrow_web_fetch (narrow_web_fetch p (rn_web_fetch a)) (rn_web_fetch b) =
    narrow_web_fetch p (rn_web_fetch (narrowing_intersect a b))"
proof -
  obtain e d where first: "narrow_domains (wfp_enforce_allowed_domains p) (wfp_allowed_domains p) (rn_web_fetch a) = (e, d)"
    by fastforce
  obtain e' d' where second: "narrow_domains e d (rn_web_fetch b) = (e', d')" by fastforce
  from first second narrow_domains_twice [OF assms, of "wfp_enforce_allowed_domains p" "wfp_allowed_domains p"]
  have "narrow_domains (wfp_enforce_allowed_domains p) (wfp_allowed_domains p) (rn_web_fetch (narrowing_intersect a b)) =
      (e', d')" by simp
  with first second show ?thesis
    by (simp add: narrow_web_fetch_def narrow_limit_twice Un_assoc intersection_fields [OF assms]
      intersect_private_host_setting_def)
qed

lemma intersection_narrows_browser:
  "\<not> narrowing_is_empty a \<Longrightarrow> \<not> narrowing_is_empty b \<Longrightarrow>
   narrow_browser (narrow_browser p (rn_browser a)) (rn_browser b) =
     narrow_browser p (rn_browser (narrowing_intersect a b))"
  by (simp add: narrow_browser_def narrow_limit_twice narrowing_intersect_def Let_def)

text \<open>
  C16. Merging two narrowings is the same as applying one after the other: in every configuration
  the merged narrowing gives the limits, the host setting, and the domain lists that the two give
  in sequence, whichever are empty.
\<close>

theorem merged_narrowing_applies_both:
  "narrowed (narrowed c a) b = narrowed c (narrowing_intersect a b)"
proof (cases "narrowing_is_empty a \<or> narrowing_is_empty b")
  case True
  then show ?thesis by (auto simp: narrowing_intersect_def narrowed_def)
next
  case False
  then show ?thesis
    by (simp add: narrowed_unfold intersection_narrows_web_fetch intersection_narrows_browser)
qed

end
