(* ===== verification/Web_Targets.thy ===== *)
theory Web_Targets
  imports Tool_Config
begin

text \<open>
  Where outbound web requests may go (crates/app/src/tools/web_http.rs and the outbound policy of
  channels in channel/core/http.rs): the checks of a URL before it is requested, the classes of IP
  addresses that are private or special, domain rules, and the resolver of the HTTP client. A parsed
  URL is a record of what the code reads of it; parsing one, DNS, and how an address prints are
  arguments. The text of an IP address is parsed as the standard library does.
\<close>

section \<open>IP addresses\<close>

type_synonym octet = "8 word"
type_synonym group = "16 word"

datatype ipv4_addr = Ipv4 octet octet octet octet

datatype ipv6_addr = Ipv6 group group group group group group group group

datatype ip_addr = V4 ipv4_addr | V6 ipv6_addr

text \<open>The predicates of \<open>std::net\<close>.\<close>

fun ipv4_is_private :: "ipv4_addr \<Rightarrow> bool" where
  "ipv4_is_private (Ipv4 a b c d) \<longleftrightarrow> a = 10 \<or> a = 172 \<and> 16 \<le> b \<and> b \<le> 31 \<or> a = 192 \<and> b = 168"

fun ipv4_is_loopback :: "ipv4_addr \<Rightarrow> bool" where
  "ipv4_is_loopback (Ipv4 a b c d) \<longleftrightarrow> a = 127"

fun ipv4_is_link_local :: "ipv4_addr \<Rightarrow> bool" where
  "ipv4_is_link_local (Ipv4 a b c d) \<longleftrightarrow> a = 169 \<and> b = 254"

fun ipv4_is_broadcast :: "ipv4_addr \<Rightarrow> bool" where
  "ipv4_is_broadcast (Ipv4 a b c d) \<longleftrightarrow> a = 255 \<and> b = 255 \<and> c = 255 \<and> d = 255"

fun ipv4_is_documentation :: "ipv4_addr \<Rightarrow> bool" where
  "ipv4_is_documentation (Ipv4 a b c d) \<longleftrightarrow>
     a = 192 \<and> b = 0 \<and> c = 2 \<or> a = 198 \<and> b = 51 \<and> c = 100 \<or> a = 203 \<and> b = 0 \<and> c = 113"

fun ipv4_is_unspecified :: "ipv4_addr \<Rightarrow> bool" where
  "ipv4_is_unspecified (Ipv4 a b c d) \<longleftrightarrow> a = 0 \<and> b = 0 \<and> c = 0 \<and> d = 0"

fun ipv4_is_multicast :: "ipv4_addr \<Rightarrow> bool" where
  "ipv4_is_multicast (Ipv4 a b c d) \<longleftrightarrow> 224 \<le> a \<and> a \<le> 239"

fun is_private_or_special_ipv4 :: "ipv4_addr \<Rightarrow> bool" where
  "is_private_or_special_ipv4 (Ipv4 a b c d) \<longleftrightarrow>
     (let ip = Ipv4 a b c d in
      ipv4_is_private ip \<or> ipv4_is_loopback ip \<or> ipv4_is_link_local ip \<or> ipv4_is_broadcast ip \<or>
      ipv4_is_documentation ip \<or> ipv4_is_unspecified ip \<or> ipv4_is_multicast ip \<or>
      a = 0 \<or>
      a = 100 \<and> 64 \<le> b \<and> b \<le> 127 \<or>
      a = 192 \<and> b = 0 \<and> c = 0 \<or>
      a = 198 \<and> (b = 18 \<or> b = 19) \<or>
      a = 198 \<and> b = 51 \<and> c = 100 \<or>
      a = 203 \<and> b = 0 \<and> c = 113 \<or>
      240 \<le> a)"

definition low_octets :: "group \<Rightarrow> octet \<times> octet" where
  "low_octets g = (ucast (drop_bit 8 g), ucast g)"

definition embedded_ipv4 :: "group \<Rightarrow> group \<Rightarrow> ipv4_addr" where
  "embedded_ipv4 g h = (case (low_octets g, low_octets h) of ((a, b), (c, d)) \<Rightarrow> Ipv4 a b c d)"

fun to_ipv4_mapped :: "ipv6_addr \<Rightarrow> ipv4_addr option" where
  "to_ipv4_mapped (Ipv6 a b c d e f g h) =
     (if a = 0 \<and> b = 0 \<and> c = 0 \<and> d = 0 \<and> e = 0 \<and> f = 0xffff then Some (embedded_ipv4 g h) else None)"

fun to_ipv4 :: "ipv6_addr \<Rightarrow> ipv4_addr option" where
  "to_ipv4 (Ipv6 a b c d e f g h) =
     (if a = 0 \<and> b = 0 \<and> c = 0 \<and> d = 0 \<and> e = 0 \<and> (f = 0 \<or> f = 0xffff) then Some (embedded_ipv4 g h) else None)"

fun is_private_or_special_ipv6 :: "ipv6_addr \<Rightarrow> bool" where
  "is_private_or_special_ipv6 (Ipv6 a b c d e f g h) \<longleftrightarrow>
     (let ip = Ipv6 a b c d e f g h;
          loopback = (ip = Ipv6 0 0 0 0 0 0 0 1);
          unspecified = (ip = Ipv6 0 0 0 0 0 0 0 0);
          multicast = (and a 0xff00 = 0xff00)
      in if loopback \<or> unspecified \<or> multicast then True
         else case (case to_ipv4_mapped ip of Some v4 \<Rightarrow> Some v4 | None \<Rightarrow> to_ipv4 ip) of
           Some v4 \<Rightarrow> is_private_or_special_ipv4 v4
         | None \<Rightarrow> and a 0xfe00 = 0xfc00 \<or> and a 0xffc0 = 0xfe80 \<or> and a 0xffc0 = 0xfec0 \<or>
             a = 0x2001 \<and> b = 0x0db8)"

definition is_private_or_special_ip :: "ip_addr \<Rightarrow> bool" where
  "is_private_or_special_ip ip =
     (case ip of V4 v4 \<Rightarrow> is_private_or_special_ipv4 v4 | V6 v6 \<Rightarrow> is_private_or_special_ipv6 v6)"

section \<open>The text of an address\<close>

text \<open>
  The parser of \<open>std::net\<close>: a reader takes what it reads off the front, or fails and takes
  nothing. A number has at most the given count of digits and is in range.
\<close>

definition digit_value :: "nat \<Rightarrow> char \<Rightarrow> nat option" where
  "digit_value radix ch =
     (let n = of_char ch;
          v = (if 48 \<le> n \<and> n \<le> 57 then n - 48 else if 97 \<le> n \<and> n \<le> 122 then n - 87
               else if 65 \<le> n \<and> n \<le> 90 then n - 55 else radix)
      in if v < radix then Some v else None)"

fun take_digits :: "nat \<Rightarrow> string \<Rightarrow> nat list \<times> string" where
  "take_digits radix [] = ([], [])"
| "take_digits radix (ch # s) =
     (case digit_value radix ch of
        None \<Rightarrow> ([], ch # s)
      | Some v \<Rightarrow> (case take_digits radix s of (vs, rest) \<Rightarrow> (v # vs, rest)))"

definition read_number :: "nat \<Rightarrow> nat \<Rightarrow> bool \<Rightarrow> nat \<Rightarrow> string \<Rightarrow> (nat \<times> string) option" where
  "read_number radix max_digits allow_zero_prefix limit s =
     (case take_digits radix s of (digits, rest) \<Rightarrow>
        let n = foldl (\<lambda>acc v. acc * radix + v) 0 digits in
        if limit < n \<or> max_digits < length digits then None
        else if digits = [] then None
        else if \<not> allow_zero_prefix \<and> hd digits = 0 \<and> 1 < length digits then None
        else Some (n, rest))"

definition read_given_char :: "char \<Rightarrow> string \<Rightarrow> string option" where
  "read_given_char ch s = (case s of c # rest \<Rightarrow> if c = ch then Some rest else None | [] \<Rightarrow> None)"

definition read_separator :: "char \<Rightarrow> nat \<Rightarrow> (string \<Rightarrow> ('a \<times> string) option) \<Rightarrow> string \<Rightarrow> ('a \<times> string) option" where
  "read_separator sep index inner s =
     (if 0 < index then Option.bind (read_given_char sep s) inner else inner s)"

fun read_octets :: "nat \<Rightarrow> nat \<Rightarrow> string \<Rightarrow> (octet list \<times> string) option" where
  "read_octets 0 i s = Some ([], s)"
| "read_octets (Suc n) i s =
     Option.bind (read_separator CHR ''.'' i (read_number 10 3 False 255) s) (\<lambda>(v, rest).
     Option.bind (read_octets n (Suc i) rest) (\<lambda>(os, rest). Some (of_nat v # os, rest)))"

definition read_ipv4_addr :: "string \<Rightarrow> (ipv4_addr \<times> string) option" where
  "read_ipv4_addr s =
     (case read_octets 4 0 s of Some ([a, b, c, d], rest) \<Rightarrow> Some (Ipv4 a b c d, rest) | _ \<Rightarrow> None)"

definition octets_group :: "octet \<Rightarrow> octet \<Rightarrow> group" where
  "octets_group a b = word_of_nat (unat a * 256 + unat b)"

text \<open>The groups up to a limit, whether the last two are an embedded IPv4 address, and what is left.\<close>

fun read_groups :: "nat \<Rightarrow> nat \<Rightarrow> string \<Rightarrow> group list \<times> bool \<times> string" where
  "read_groups 0 i s = ([], False, s)"
| "read_groups (Suc left) i s =
     (case (if 0 < left then read_separator CHR '':'' i read_ipv4_addr s else None) of
        Some (Ipv4 a b c d, rest) \<Rightarrow> ([octets_group a b, octets_group c d], True, rest)
      | None \<Rightarrow>
          (case read_separator CHR '':'' i (read_number 16 4 True 65535) s of
             None \<Rightarrow> ([], False, s)
           | Some (v, rest) \<Rightarrow>
               (case read_groups left (Suc i) rest of (gs, v4, rest) \<Rightarrow> (of_nat v # gs, v4, rest))))"

definition ipv6_of_groups :: "group list \<Rightarrow> ipv6_addr option" where
  "ipv6_of_groups gs = (case gs of [a, b, c, d, e, f, g, h] \<Rightarrow> Some (Ipv6 a b c d e f g h) | _ \<Rightarrow> None)"

definition read_ipv6_addr :: "string \<Rightarrow> (ipv6_addr \<times> string) option" where
  "read_ipv6_addr s =
     (case read_groups 8 0 s of (head, head_ipv4, rest) \<Rightarrow>
        if length head = 8 then map_option (\<lambda>ip. (ip, rest)) (ipv6_of_groups head)
        else if head_ipv4 then None
        else
          Option.bind (read_given_char CHR '':'' rest) (\<lambda>rest.
          Option.bind (read_given_char CHR '':'' rest) (\<lambda>rest.
            case read_groups (8 - (length head + 1)) 0 rest of (tail, _, rest) \<Rightarrow>
              map_option (\<lambda>ip. (ip, rest))
                (ipv6_of_groups (head @ replicate (8 - length head - length tail) 0 @ tail)))))"

definition parse_ip_addr :: "string \<Rightarrow> ip_addr option" where
  "parse_ip_addr s =
     (case (case read_ipv4_addr s of Some (ip, rest) \<Rightarrow> Some (V4 ip, rest)
            | None \<Rightarrow> map_option (\<lambda>(ip, rest). (V6 ip, rest)) (read_ipv6_addr s)) of
        Some (ip, []) \<Rightarrow> Some ip
      | _ \<Rightarrow> None)"

section \<open>Domain rules\<close>

definition trim_end_matches :: "char \<Rightarrow> string \<Rightarrow> string" where
  "trim_end_matches ch s = rev (dropWhile (\<lambda>c. c = ch) (rev s))"

definition normalize_domain_text :: "string \<Rightarrow> string" where
  "normalize_domain_text value = to_ascii_lowercase (trim_end_matches CHR ''.'' (trim value))"

definition domain_rule_matches :: "string \<Rightarrow> string \<Rightarrow> bool" where
  "domain_rule_matches host rule \<longleftrightarrow>
     (let host = normalize_domain_text host; rule = normalize_domain_text rule in
      if prefix ''*.'' rule then (let base = drop 2 rule in host = base \<or> suffix (CHR ''.'' # base) host)
      else host = rule)"

text \<open>A rule set in its order; the code's is sorted.\<close>

definition first_matching_domain_rule :: "string \<Rightarrow> string list \<Rightarrow> string option" where
  "first_matching_domain_rule host rules = find (domain_rule_matches host) rules"

section \<open>Targets\<close>

record url =
  url_text :: string
  url_scheme :: string
  url_username :: string
  url_password :: "string option"
  url_host :: "string option"
  url_port_or_known_default :: "16 word option"
  url_query :: "string option"
  url_fragment :: "string option"

record target_options =
  to_allow_private_hosts :: bool
  to_reject_userinfo :: bool
  to_resolve_dns :: bool
  to_enforce_allowed_domains :: bool
  to_allowed_domains :: "string set option"
  to_blocked_domains :: "string set option"

record name_service =
  ns_resolve :: "string \<Rightarrow> 16 word \<Rightarrow> string + ip_addr list"
  ns_ip_text :: "ip_addr \<Rightarrow> string"

definition rule_list :: "string set \<Rightarrow> string list" where
  "rule_list rules = sorted_list_of_set rules"

fun check_addresses :: "name_service \<Rightarrow> string \<Rightarrow> string \<Rightarrow> ip_addr list \<Rightarrow> string + unit" where
  "check_addresses S surface host [] = Inr ()"
| "check_addresses S surface host (ip # ips) =
     (if is_private_or_special_ip ip then
        Inl (surface @ '' blocked private or special-use address `'' @ ns_ip_text S ip @ ''` for host `'' @ host @ ''`'')
      else check_addresses S surface host ips)"

definition check_public_host :: "name_service \<Rightarrow> target_options \<Rightarrow> string \<Rightarrow> url \<Rightarrow> string \<Rightarrow> string + string" where
  "check_public_host S options surface url host =
     (if host = ''localhost'' then Inl (surface @ '' blocked private or special-use host `localhost`'')
      else case parse_ip_addr host of
        Some ip \<Rightarrow>
          if is_private_or_special_ip ip then
            Inl (surface @ '' blocked private or special-use address `'' @ ns_ip_text S ip @ ''`'')
          else Inr host
      | None \<Rightarrow>
          if \<not> to_resolve_dns options then Inr host
          else case url_port_or_known_default url of
            None \<Rightarrow> Inl (surface @ '' url has no known port'')
          | Some port \<Rightarrow>
              (case ns_resolve S host port of
                 Inl e \<Rightarrow> Inl (surface @ '' failed to resolve host `'' @ host @ ''`: '' @ e)
               | Inr addrs \<Rightarrow>
                   try_bind (check_addresses S surface host addrs) (\<lambda>_.
                     if addrs = [] then Inl (surface @ '' resolved no addresses for host `'' @ host @ ''`'')
                     else Inr host)))"

definition validate_http_target :: "name_service \<Rightarrow> url \<Rightarrow> target_options \<Rightarrow> string \<Rightarrow> string + string" where
  "validate_http_target S url options surface =
     (if url_scheme url \<noteq> ''http'' \<and> url_scheme url \<noteq> ''https'' then
        Inl (surface @ '' requires http or https url, got scheme `'' @ url_scheme url @ ''`'')
      else if to_reject_userinfo options \<and> (url_username url \<noteq> [] \<or> url_password url \<noteq> None) then
        Inl (surface @ '' must not embed credentials in the url userinfo section'')
      else case url_host url of
        None \<Rightarrow> Inl (surface @ '' url has no host'')
      | Some raw_host \<Rightarrow>
          (let host = normalize_domain_text raw_host;
               matching = (\<lambda>rules. Option.bind rules (\<lambda>rules. first_matching_domain_rule host (rule_list rules)))
           in case matching (to_blocked_domains options) of
             Some rule \<Rightarrow> Inl (surface @ '' blocked host `'' @ host @ ''` because it matches blocked domain rule `'' @ rule @ ''`'')
           | None \<Rightarrow>
               if to_enforce_allowed_domains options \<and> matching (to_allowed_domains options) = None then
                 Inl (surface @ '' denied host `'' @ host @ ''` because it is not in allowed_domains'')
               else if to_allow_private_hosts options then Inr host
               else check_public_host S options surface url host))"

text \<open>\<open>SsrfSafeResolver\<close>, which the HTTP client asks for the addresses of a host name.\<close>

definition ssrf_safe_resolve :: "name_service \<Rightarrow> bool \<Rightarrow> string \<Rightarrow> string + ip_addr list" where
  "ssrf_safe_resolve S allow_private host =
     try_bind (ns_resolve S host 0) (\<lambda>addrs.
       if addrs = [] then Inl (''web HTTP resolved no addresses for host `'' @ host @ ''`'')
       else if allow_private then Inr addrs
       else try_bind (check_addresses S ''web HTTP'' host addrs) (\<lambda>_. Inr addrs))"

section \<open>Channels\<close>

definition validate_outbound_http_target ::
  "name_service \<Rightarrow> (string \<Rightarrow> string + url) \<Rightarrow> string \<Rightarrow> string \<Rightarrow> bool \<Rightarrow> string + url" where
  "validate_outbound_http_target S parse_url field_name raw_url allow_private =
     (let trimmed = trim raw_url in
      if trimmed = [] then Inl (field_name @ '' is empty'')
      else try_bind (map_err (\<lambda>e. field_name @ '' is invalid: '' @ e) (parse_url trimmed)) (\<lambda>parsed.
        try_bind (validate_http_target S parsed
          \<lparr>to_allow_private_hosts = allow_private, to_reject_userinfo = True, to_resolve_dns = False,
           to_enforce_allowed_domains = False, to_allowed_domains = None, to_blocked_domains = None\<rparr> field_name) (\<lambda>_.
        Inr parsed)))"

definition validate_outbound_http_base_url ::
  "name_service \<Rightarrow> (string \<Rightarrow> string + url) \<Rightarrow> string \<Rightarrow> string \<Rightarrow> bool \<Rightarrow> string + url" where
  "validate_outbound_http_base_url S parse_url field_name raw_url allow_private =
     try_bind (validate_outbound_http_target S parse_url field_name raw_url allow_private) (\<lambda>parsed.
       if url_query parsed \<noteq> None then Inl (field_name @ '' must not include a query string'')
       else if url_fragment parsed \<noteq> None then Inl (field_name @ '' must not include a fragment'')
       else Inr parsed)"

end
