(* ===== verification/Tool_Requests.thy ===== *)
theory Tool_Requests
  imports Bash_Governance Kernel_Core
begin

text \<open>
  The requests of the application's tools (crates/app/src/tools): the names of tools
  (tool_identity.rs), the reserved context that only trusted code may put into a payload
  (tool_internal_context.rs), the fields that bind a lease (tool_lease_binding.rs), and the form a
  request takes on its way to the kernel (tool_request_prep.rs, shell_request_prep.rs). The catalog,
  a static table of descriptors, and the names of the feishu integration are arguments.
\<close>

section \<open>Access to payloads\<close>

definition json_as_object :: "'n json \<Rightarrow> (string, 'n json) btree option" where
  "json_as_object v = (case v of JObject members \<Rightarrow> Some members | _ \<Rightarrow> None)"

definition json_as_str :: "'n json \<Rightarrow> string option" where
  "json_as_str v = (case v of JString s \<Rightarrow> Some s | _ \<Rightarrow> None)"

definition json_as_array :: "'n json \<Rightarrow> 'n json list option" where
  "json_as_array v = (case v of JArray items \<Rightarrow> Some items | _ \<Rightarrow> None)"

definition json_get :: "'n json \<Rightarrow> string \<Rightarrow> 'n json option" where
  "json_get v k = (case v of JObject members \<Rightarrow> bt_get members k | _ \<Rightarrow> None)"

definition get_str :: "(string, 'n json) btree \<Rightarrow> string \<Rightarrow> string option" where
  "get_str members k = Option.bind (bt_get members k) json_as_str"

text \<open>\<open>.map(str::trim).filter(|value| !value.is_empty())\<close>\<close>

definition trimmed_non_empty :: "string option \<Rightarrow> string option" where
  "trimmed_non_empty s = (case s of None \<Rightarrow> None | Some t \<Rightarrow> if trim t = [] then None else Some (trim t))"

lemma json_access_simps [simp]:
  "json_as_object (JObject m) = Some m" "json_as_str (JString s) = Some s" "json_as_array (JArray vs) = Some vs"
  "json_get (JObject m) k = bt_get m k"
  by (simp_all add: json_as_object_def json_as_str_def json_as_array_def json_get_def)

lemma json_as_object_iff [simp]: "json_as_object v = Some m \<longleftrightarrow> v = JObject m"
  by (cases v) (auto simp: json_as_object_def)

lemma json_as_str_iff [simp]: "json_as_str v = Some s \<longleftrightarrow> v = JString s"
  by (cases v) (auto simp: json_as_str_def)

section \<open>Names\<close>

datatype tool_execution_kind = ToolCore | ToolApp

datatype tool_exposure = ExposedDirect | ExposedGateway | ExposedDiscoverable

record tool_descriptor =
  td_name :: string
  td_execution_kind :: tool_execution_kind
  td_exposure :: tool_exposure

record tool_names =
  tn_resolve :: "string \<Rightarrow> tool_descriptor option"
  tn_feishu :: "string \<Rightarrow> string option"

definition is_provider_exposed :: "tool_descriptor \<Rightarrow> bool" where
  "is_provider_exposed d \<longleftrightarrow> td_exposure d = ExposedDirect \<or> td_exposure d = ExposedGateway"

definition canonical_tool_name :: "tool_names \<Rightarrow> string \<Rightarrow> string" where
  "canonical_tool_name N raw =
     (if raw = ''browse.open'' then ''browser.open''
      else if raw = ''browse.extract'' then ''browser.extract''
      else if raw = ''browse.click'' then ''browser.click''
      else case tn_resolve N raw of
        Some d \<Rightarrow> td_name d
      | None \<Rightarrow> (case tn_feishu N raw of Some canonical \<Rightarrow> canonical | None \<Rightarrow> raw))"

definition is_provider_exposed_tool_name :: "tool_names \<Rightarrow> string \<Rightarrow> bool" where
  "is_provider_exposed_tool_name N raw \<longleftrightarrow>
     (case tn_resolve N (canonical_tool_name N raw) of None \<Rightarrow> False | Some d \<Rightarrow> is_provider_exposed d)"

record resolved_tool =
  rt_canonical_name :: string
  rt_execution_kind :: tool_execution_kind

definition resolve_tool_execution :: "tool_names \<Rightarrow> string \<Rightarrow> resolved_tool option" where
  "resolve_tool_execution N raw =
     (case tn_resolve N raw of
        Some d \<Rightarrow> Some \<lparr>rt_canonical_name = td_name d, rt_execution_kind = td_execution_kind d\<rparr>
      | None \<Rightarrow>
          (case tn_feishu N raw of
             Some canonical \<Rightarrow> Some \<lparr>rt_canonical_name = canonical, rt_execution_kind = ToolCore\<rparr>
           | None \<Rightarrow> None))"

section \<open>The reserved context\<close>

definition loong_internal_tool_context_key :: string where
  "loong_internal_tool_context_key = ''_loong''"

definition reserved_internal_tool_context_key_in_map :: "(string, 'n json) btree \<Rightarrow> string option" where
  "reserved_internal_tool_context_key_in_map body =
     (if bt_contains_key body loong_internal_tool_context_key then Some loong_internal_tool_context_key else None)"

definition reserved_internal_tool_context_key_in_payload :: "'n json \<Rightarrow> string option" where
  "reserved_internal_tool_context_key_in_payload payload =
     Option.bind (json_as_object payload) reserved_internal_tool_context_key_in_map"

definition payload_uses_reserved_internal_tool_context :: "'n json \<Rightarrow> bool" where
  "payload_uses_reserved_internal_tool_context payload \<longleftrightarrow>
     reserved_internal_tool_context_key_in_payload payload \<noteq> None"

definition trusted_internal_tool_context_from_payload :: "'n json \<Rightarrow> (string, 'n json) btree option" where
  "trusted_internal_tool_context_from_payload payload =
     Option.bind (json_as_object payload) (\<lambda>body.
     Option.bind (reserved_internal_tool_context_key_in_map body) (\<lambda>key.
     Option.bind (bt_get body key) json_as_object))"

text \<open>Both keys the loop tries are the same one.\<close>

fun take_context_loop :: "string list \<Rightarrow> (string, 'n json) btree \<Rightarrow> (string, 'n json) btree \<times> (string, 'n json) btree" where
  "take_context_loop [] body = ([], body)"
| "take_context_loop (key # keys) body =
     (case bt_get body key of
        None \<Rightarrow> take_context_loop keys body
      | Some (JObject context) \<Rightarrow> (context, bt_remove key body)
      | Some _ \<Rightarrow> take_context_loop keys (bt_remove key body))"

definition take_trusted_internal_tool_context ::
  "(string, 'n json) btree \<Rightarrow> (string, 'n json) btree \<times> (string, 'n json) btree" where
  "take_trusted_internal_tool_context body =
     take_context_loop [loong_internal_tool_context_key, loong_internal_tool_context_key] body"

text \<open>Whether the running task is a trusted one is an argument.\<close>

definition ensure_untrusted_payload :: "bool \<Rightarrow> string \<Rightarrow> 'n json \<Rightarrow> string \<Rightarrow> string + unit" where
  "ensure_untrusted_payload trusted tool_name payload payload_path =
     (if trusted then Inr ()
      else case reserved_internal_tool_context_key_in_payload payload of
        None \<Rightarrow> Inr ()
      | Some offending \<Rightarrow> Inl (''tool `'' @ tool_name @ ''` '' @ payload_path @ ''.'' @ offending @
          '' is reserved for trusted internal tool context; retry without that field''))"

section \<open>Lease bindings\<close>

record tool_lease_binding =
  lb_token_id :: "string option"
  lb_session_id :: "string option"
  lb_turn_id :: "string option"

definition inject_field :: "string \<Rightarrow> string option \<Rightarrow> (string, 'n json) btree \<Rightarrow> (string, 'n json) btree" where
  "inject_field k v members = (case v of None \<Rightarrow> members | Some s \<Rightarrow> bt_insert k (JString s) members)"

definition inject_tool_lease_binding ::
  "(string, 'n json) btree \<Rightarrow> string option \<Rightarrow> string option \<Rightarrow> string option \<Rightarrow> (string, 'n json) btree" where
  "inject_tool_lease_binding payload token session turn =
     inject_field ''_lease_turn_id'' turn
       (inject_field ''_lease_session_id'' session (inject_field ''_lease_token_id'' token payload))"

definition extract_tool_lease_binding :: "(string, 'n json) btree \<Rightarrow> tool_lease_binding" where
  "extract_tool_lease_binding payload =
     \<lparr>lb_token_id = get_str payload ''_lease_token_id'', lb_session_id = get_str payload ''_lease_session_id'',
      lb_turn_id = get_str payload ''_lease_turn_id''\<rparr>"

section \<open>Shell requests\<close>

definition contains_whitespace :: "string \<Rightarrow> bool" where
  "contains_whitespace s \<longleftrightarrow> list_ex (\<lambda>w. sublist w s) whitespace_encodings"

text \<open>\<open>str::split_whitespace\<close>: \<open>word\<close> is what was read since the last white space.\<close>

definition close_word :: "string \<Rightarrow> string list \<Rightarrow> string list" where
  "close_word word rest = (if word = [] then rest else word # rest)"

function split_whitespace_loop :: "string \<Rightarrow> string \<Rightarrow> string list" where
  "split_whitespace_loop word [] = close_word word []"
| "split_whitespace_loop word (c # s) =
     (case find (\<lambda>w. prefix w (c # s)) whitespace_encodings of
        Some w \<Rightarrow> close_word word (split_whitespace_loop [] (drop (length w - 1) s))
      | None \<Rightarrow> split_whitespace_loop (word @ [c]) s)"
  by pat_completeness auto
termination by (relation "measure (\<lambda>(word, s). length s)") auto

definition split_whitespace :: "string \<Rightarrow> string list" where
  "split_whitespace s = split_whitespace_loop [] s"

definition risky_shell_characters :: "char list" where
  "risky_shell_characters =
     [single_quote, double_quote, backslash, backquote, CHR ''|'', CHR ''&'', CHR '';'', CHR ''<'', CHR ''>'',
      CHR ''('', CHR '')'', dollar]"

definition split_shell_command_if_safe :: "string \<Rightarrow> (string \<times> string list) option" where
  "split_shell_command_if_safe command =
     (let trimmed = trim command in
      if trimmed = [] then None
      else if line_feed \<in> set trimmed \<or> carriage_return \<in> set trimmed then None
      else if \<not> contains_whitespace trimmed then None
      else if list_ex (\<lambda>ch. ch \<in> set risky_shell_characters) trimmed then None
      else case split_whitespace trimmed of
        [] \<Rightarrow> None
      | command # args \<Rightarrow> if args = [] then None else Some (command, args))"

definition args_missing :: "(string, 'n json) btree \<Rightarrow> bool" where
  "args_missing members =
     (case bt_get members ''args'' of None \<Rightarrow> True | Some (JArray values) \<Rightarrow> values = [] | Some _ \<Rightarrow> False)"

definition normalize_shell_payload_object :: "'n json \<Rightarrow> 'n json" where
  "normalize_shell_payload_object payload =
     (case payload of
        JObject members \<Rightarrow>
          if \<not> args_missing members then JObject members
          else case get_str members ''command'' of
            None \<Rightarrow> JObject members
          | Some command \<Rightarrow>
              (case split_shell_command_if_safe command of
                 None \<Rightarrow> JObject members
               | Some (command, args) \<Rightarrow>
                   (let members = bt_insert ''command'' (JString command) members in
                    if args = [] then JObject (bt_remove ''args'' members)
                    else JObject (bt_insert ''args'' (JArray (map JString args)) members)))
      | _ \<Rightarrow> payload)"

definition normalize_shell_payload_for_request :: "tool_names \<Rightarrow> string \<Rightarrow> 'n json \<Rightarrow> 'n json" where
  "normalize_shell_payload_for_request N tool_name payload =
     (if canonical_tool_name N tool_name = ''shell.exec'' then normalize_shell_payload_object payload else payload)"

definition normalize_shell_request_for_execution ::
  "tool_names \<Rightarrow> 'n json tool_core_request \<Rightarrow> 'n json tool_core_request" where
  "normalize_shell_request_for_execution N request =
     request\<lparr>tpcq_payload := normalize_shell_payload_for_request N (tpcq_tool_name request) (tpcq_payload request)\<rparr>"

definition summarize_shell_request_for_display :: "'n json_lib \<Rightarrow> 'n json \<Rightarrow> 'n json" where
  "summarize_shell_request_for_display L request =
     (case request of
        JObject members \<Rightarrow>
          (let command = get_str members ''command'';
               timeout_ms = bt_get members ''timeout_ms'';
               args_redacted = (case Option.bind (bt_get members ''args'') json_as_array of
                   None \<Rightarrow> None | Some values \<Rightarrow> if 0 < length values then Some (length values) else None)
           in json_object
             ((case command of None \<Rightarrow> [] | Some c \<Rightarrow> [(''command'', JString c)]) @
              (case timeout_ms of None \<Rightarrow> [] | Some t \<Rightarrow> [(''timeout_ms'', t)]) @
              (case args_redacted of None \<Rightarrow> [] | Some n \<Rightarrow> [(''args_redacted'', JNumber (jl_number L n))])))
      | _ \<Rightarrow> request)"

definition summarize_tool_request_for_display :: "'n json_lib \<Rightarrow> tool_names \<Rightarrow> string \<Rightarrow> 'n json \<Rightarrow> 'n json" where
  "summarize_tool_request_for_display L N tool_name payload =
     (let canonical = canonical_tool_name N tool_name;
          payload = normalize_shell_payload_for_request N canonical payload
      in if canonical = ''shell.exec'' \<or> canonical = ''bash.exec''
         then summarize_shell_request_for_display L payload else payload)"

text \<open>What a request carries when it reaches the kernel. Capabilities serialize as their names in the code.\<close>

definition prepare_kernel_tool_request ::
  "tool_names \<Rightarrow> 'n json tool_core_request \<Rightarrow> capability set \<Rightarrow> string option \<Rightarrow> string option \<Rightarrow>
   string option \<Rightarrow> 'n json tool_core_request" where
  "prepare_kernel_tool_request N request granted token session turn =
     (let request = normalize_shell_request_for_execution N request;
          canonical = canonical_tool_name N (tpcq_tool_name request)
      in if canonical \<noteq> ''tool.search'' \<and> canonical \<noteq> ''tool.invoke'' then request
         else case tpcq_payload request of
           JObject payload \<Rightarrow>
             (let payload = (if canonical = ''tool.search''
                    then bt_insert ''_granted_capabilities''
                      (JArray (map (\<lambda>c. JString (capability_debug c)) (caps_in_order granted))) payload
                    else payload)
              in request\<lparr>tpcq_payload := JObject (inject_tool_lease_binding payload token session turn)\<rparr>)
         | _ \<Rightarrow> request)"

end
