(* ===== verification/Web_Requests.thy ===== *)
theory Web_Requests
  imports Web_Targets Tool_Requests Child_Environment
begin

text \<open>
  The tools that send web requests: http.request (crates/app/src/tools/http_request.rs) and web.fetch
  (web_fetch.rs) with its redirects, and the byte budget of a download (download_guard.rs). The HTTP
  client is an argument that sends a message and gives a response with its body in chunks; it resolves
  names with \<open>ssrf_safe_resolve\<close> under the message's setting. Reading HTML, lossy decoding and
  base64 are arguments too.
\<close>

section \<open>Messages\<close>

record http_message =
  hm_method :: string
  hm_url :: url
  hm_headers :: "(string \<times> string) list"
  hm_content_type :: "string option"
  hm_body :: "string option"
  hm_allow_private_hosts :: bool
  hm_timeout_seconds :: u64
  hm_user_agent :: string

text \<open>A header's value is an error when it is not text.\<close>

record http_response =
  resp_url :: string
  resp_status :: nat
  resp_reason :: "string option"
  resp_headers :: "(string \<times> (string + string)) list"
  resp_content_length :: "u64 option"
  resp_chunks :: "(string + string) list"

record 'w network =
  net_names :: name_service
  net_parse_url :: "string \<Rightarrow> string + url"
  net_join :: "url \<Rightarrow> string \<Rightarrow> string + url"
  net_parse_method :: "string \<Rightarrow> string + string"
  net_build_client :: "bool \<Rightarrow> u64 \<Rightarrow> string \<Rightarrow> string + unit"
  net_send :: "http_message \<Rightarrow> 'w \<Rightarrow> (string + http_response) \<times> 'w"
  net_lossy :: "string \<Rightarrow> string"
  net_base64 :: "string \<Rightarrow> string"

record 'n tool_json =
  tj_lib :: "'n json_lib"
  tj_as_u64 :: "'n \<Rightarrow> u64 option"

definition json_as_u64 :: "'n tool_json \<Rightarrow> 'n json \<Rightarrow> u64 option" where
  "json_as_u64 J v = (case v of JNumber n \<Rightarrow> tj_as_u64 J n | _ \<Rightarrow> None)"

definition header_value :: "http_response \<Rightarrow> string \<Rightarrow> (string + string) option" where
  "header_value r name = map_of (resp_headers r) name"

definition header_text :: "http_response \<Rightarrow> string \<Rightarrow> string option" where
  "header_text r name = (case header_value r name of Some (Inr v) \<Rightarrow> Some v | _ \<Rightarrow> None)"

definition opt_text :: "string option \<Rightarrow> 'n json" where
  "opt_text s = (case s of None \<Rightarrow> JNull | Some t \<Rightarrow> JString t)"

definition number_json :: "'n tool_json \<Rightarrow> nat \<Rightarrow> 'n json" where
  "number_json J n = JNumber (jl_number (tj_lib J) n)"

section \<open>Byte budgets\<close>

record byte_budget =
  bb_max_bytes :: usize
  bb_consumed :: usize

definition byte_budget_new :: "usize \<Rightarrow> byte_budget" where
  "byte_budget_new max_bytes = \<lparr>bb_max_bytes = max_bytes, bb_consumed = 0\<rparr>"

definition byte_budget_retry_hint :: "string \<Rightarrow> string" where
  "byte_budget_retry_hint surface =
     (if sublist ''browser'' surface then ''; retry with a smaller `max_bytes` or a more focused browser extract''
      else if sublist ''web'' surface then ''; retry with a smaller `max_bytes` or a narrower web request''
      else ''; retry with a smaller `max_bytes` or a narrower read'')"

definition reject_if_content_length_exceeds :: "byte_budget \<Rightarrow> u64 option \<Rightarrow> string \<Rightarrow> string + unit" where
  "reject_if_content_length_exceeds b content_length surface =
     (case content_length of
        None \<Rightarrow> Inr ()
      | Some n \<Rightarrow>
          if unat n \<le> bb_max_bytes b then Inr ()
          else Inl (surface @ '' Content-Length ('' @ u64_to_dec n @ '') exceeds max_bytes limit ('' @
            nat_to_dec (bb_max_bytes b) @ '' bytes)'' @ byte_budget_retry_hint surface))"

definition try_consume :: "byte_budget \<Rightarrow> usize \<Rightarrow> string \<Rightarrow> string + byte_budget" where
  "try_consume b bytes surface =
     (let next_consumed = usize_saturating_add (bb_consumed b) bytes in
      if next_consumed > bb_max_bytes b then
        Inl (surface @ '' exceeded max_bytes limit ('' @ nat_to_dec (bb_max_bytes b) @ '' bytes)'' @
          byte_budget_retry_hint surface)
      else Inr (b\<lparr>bb_consumed := next_consumed\<rparr>))"

section \<open>Kinds of bodies\<close>

definition looks_like_html :: "string option \<Rightarrow> string \<Rightarrow> bool" where
  "looks_like_html content_type body \<longleftrightarrow>
     (case content_type of
        None \<Rightarrow> False
      | Some t \<Rightarrow> (let lowered = to_ascii_lowercase t in
          sublist ''text/html'' lowered \<or> sublist ''application/xhtml+xml'' lowered)) \<or>
     (let lowered = to_ascii_lowercase body in
      sublist ''<html'' lowered \<or> sublist ''<body'' lowered \<or> sublist ''<!doctype html'' lowered)"

definition is_control_byte :: "char \<Rightarrow> bool" where
  "is_control_byte c \<longleftrightarrow>
     (let n = (of_char c :: nat) in n < 0x20 \<and> n \<notin> {10, 13, 9, 12} \<or> n = 0x7f)"

definition declared_binary :: "string \<Rightarrow> bool option" where
  "declared_binary content_type =
     (let lowered = to_ascii_lowercase content_type in
      if prefix ''text/'' lowered \<or> list_ex (\<lambda>k. sublist k lowered)
           [''json'', ''xml'', ''javascript'', ''x-www-form-urlencoded'', ''yaml'', ''csv''] then Some False
      else if list_ex (\<lambda>k. sublist k lowered) [''octet-stream'', ''pdf'', ''zip''] \<or>
           list_ex (\<lambda>k. prefix k lowered) [''image/'', ''audio/'', ''video/''] then Some True
      else None)"

definition response_is_probably_binary :: "string option \<Rightarrow> string \<Rightarrow> bool" where
  "response_is_probably_binary content_type body =
     (if body = [] then False
      else case Option.bind content_type declared_binary of
        Some binary \<Rightarrow> binary
      | None \<Rightarrow>
          (let sample = take 512 body in
           if CHR 0x00 \<in> set sample then True
           else length (filter is_control_byte sample) * 8 > length sample))"

section \<open>http.request\<close>

definition optional_string_field :: "'n json option \<Rightarrow> string option" where
  "optional_string_field v = trimmed_non_empty (Option.bind v json_as_str)"

definition required_string_field :: "(string, 'n json) btree \<Rightarrow> string \<Rightarrow> string \<Rightarrow> string + string" where
  "required_string_field payload field tool_name =
     (case optional_string_field (bt_get payload field) of
        Some s \<Rightarrow> Inr s
      | None \<Rightarrow> Inl (tool_name @ '' requires payload.'' @ field))"

definition http_methods :: "string list" where
  "http_methods = [''GET'', ''HEAD'', ''OPTIONS'', ''POST'', ''PUT'', ''PATCH'', ''DELETE'']"

definition parse_method :: "'w network \<Rightarrow> (string, 'n json) btree \<Rightarrow> string + string" where
  "parse_method net payload =
     (let raw_method = (case optional_string_field (bt_get payload ''method'') of Some m \<Rightarrow> m | None \<Rightarrow> ''GET'') in
      try_bind (map_err (\<lambda>e. ''http.request payload.method is invalid: '' @ e)
        (net_parse_method net (map byte_ascii_uppercase raw_method))) (\<lambda>m.
        if m \<in> set http_methods then Inr m
        else Inl ''http.request payload.method must be one of GET, HEAD, OPTIONS, POST, PUT, PATCH, or DELETE''))"

fun header_list :: "(string, 'n json) btree \<Rightarrow> string + (string \<times> string) list" where
  "header_list [] = Inr []"
| "header_list ((raw_name, raw_value) # rest) =
     (case optional_string_field (Some raw_value) of
        None \<Rightarrow> Inl (''http.request payload.headers.'' @ raw_name @ '' must be a non-empty string'')
      | Some v \<Rightarrow>
          (let name = trim raw_name in
           if to_ascii_lowercase name = ''host'' then Inl ''http.request payload.headers must not override Host''
           else if to_ascii_lowercase name = ''content-length'' then
             Inl ''http.request payload.headers must not override Content-Length''
           else try_bind (header_list rest) (\<lambda>headers. Inr ((name, v) # headers))))"

definition parse_headers :: "(string, 'n json) btree \<Rightarrow> string + (string \<times> string) list" where
  "parse_headers payload =
     (case bt_get payload ''headers'' of
        None \<Rightarrow> Inr []
      | Some (JObject headers) \<Rightarrow>
          if length headers > 64 then Inl (''http.request payload.headers exceeds maximum count ('' @ nat_to_dec 64 @ '')'')
          else header_list headers
      | Some _ \<Rightarrow> Inl ''http.request payload.headers must be an object'')"

definition http_max_bytes :: "'n tool_json \<Rightarrow> (string, 'n json) btree \<Rightarrow> usize \<Rightarrow> string + usize" where
  "http_max_bytes J payload configured_max =
     (case bt_get payload ''max_bytes'' of
        None \<Rightarrow> Inr configured_max
      | Some v \<Rightarrow>
          (case json_as_u64 J v of
             None \<Rightarrow> Inl ''http.request payload.max_bytes must be an integer''
           | Some n \<Rightarrow>
               if n = 0 then Inl ''http.request payload.max_bytes must be >= 1''
               else if unat n > configured_max then
                 Inl (''http.request payload.max_bytes exceeds configured limit ('' @ nat_to_dec configured_max @ '' bytes)'')
               else Inr (unat n)))"

record http_request_input =
  hi_method :: string
  hi_raw_url :: string
  hi_url :: url
  hi_headers :: "(string \<times> string) list"
  hi_body :: "string option"
  hi_content_type :: "string option"
  hi_max_bytes :: usize

definition parse_http_request_input ::
  "'n tool_json \<Rightarrow> 'w network \<Rightarrow> (string, 'n json) btree \<Rightarrow> web_fetch_runtime_policy \<Rightarrow> string + http_request_input" where
  "parse_http_request_input J net payload policy =
     try_bind (parse_method net payload) (\<lambda>m.
     try_bind (required_string_field payload ''url'' ''http.request'') (\<lambda>raw_url.
     try_bind (map_err (\<lambda>e. ''invalid http.request url `'' @ raw_url @ ''`: '' @ e) (net_parse_url net raw_url)) (\<lambda>u.
     try_bind (http_max_bytes J payload (wfp_max_bytes policy)) (\<lambda>max_bytes.
     try_bind (parse_headers payload) (\<lambda>headers.
       Inr \<lparr>hi_method = m, hi_raw_url = raw_url, hi_url = u, hi_headers = headers,
         hi_body = optional_string_field (bt_get payload ''body''),
         hi_content_type = optional_string_field (bt_get payload ''content_type''), hi_max_bytes = max_bytes\<rparr>)))))"

definition http_target_options :: "web_fetch_runtime_policy \<Rightarrow> target_options" where
  "http_target_options policy =
     \<lparr>to_allow_private_hosts = wfp_allow_private_hosts policy, to_reject_userinfo = True, to_resolve_dns = True,
      to_enforce_allowed_domains = wfp_enforce_allowed_domains policy,
      to_allowed_domains = Some (wfp_allowed_domains policy), to_blocked_domains = Some (wfp_blocked_domains policy)\<rparr>"

fun read_http_body :: "byte_budget \<Rightarrow> string \<Rightarrow> (string + string) list \<Rightarrow> string + string \<times> byte_budget" where
  "read_http_body budget body [] = Inr (body, budget)"
| "read_http_body budget body (Inl e # chunks) = Inl (''failed to read http.request response body: '' @ e)"
| "read_http_body budget body (Inr chunk # chunks) =
     try_bind (try_consume budget (length chunk) ''http.request response'') (\<lambda>budget.
       read_http_body budget (body @ chunk) chunks)"

definition response_headers_json :: "(string \<times> (string + string)) list \<Rightarrow> 'n json" where
  "response_headers_json headers =
     JObject (fold (\<lambda>(name, v) members.
       let text = JString (case v of Inr t \<Rightarrow> t | Inl _ \<Rightarrow> ''<binary>'') in
       case bt_get members name of
         Some (JArray vs) \<Rightarrow> bt_insert name (JArray (vs @ [text])) members
       | Some other \<Rightarrow> members
       | None \<Rightarrow> bt_insert name (JArray [text]) members) headers [])"

definition response_body_payload :: "'w network \<Rightarrow> string option \<Rightarrow> string \<Rightarrow> string \<times> 'n json" where
  "response_body_payload net content_type body =
     (if \<not> response_is_probably_binary content_type body then (''text'', JString (net_lossy net body))
      else (''base64'', JString (net_base64 net body)))"

definition http_request_outcome ::
  "'n tool_json \<Rightarrow> 'w network \<Rightarrow> string \<Rightarrow> http_request_input \<Rightarrow> string \<Rightarrow> http_response \<Rightarrow> string \<Rightarrow> usize \<Rightarrow>
   'n json tool_core_outcome" where
  "http_request_outcome J net tool_name input host response body consumed =
     (let content_type = header_text response ''content-type'';
          (kind, body_json) = response_body_payload net content_type body
      in \<lparr>tpco_status = ''ok'', tpco_payload = json_object
           [(''adapter'', JString ''core-tools''), (''tool_name'', JString tool_name), (''method'', JString (hi_method input)),
            (''requested_url'', JString (hi_raw_url input)), (''final_url'', JString (resp_url response)),
            (''host'', JString host), (''status_code'', number_json J (resp_status response)),
            (''status_text'', opt_text (resp_reason response)), (''headers'', response_headers_json (resp_headers response)),
            (''content_type'', opt_text content_type), (''body_kind'', JString kind), (''body'', body_json),
            (''bytes_downloaded'', number_json J consumed)]\<rparr>)"

definition build_ssrf_safe_client :: "'w network \<Rightarrow> bool \<Rightarrow> u64 \<Rightarrow> string \<Rightarrow> string + unit" where
  "build_ssrf_safe_client net allow_private timeout user_agent =
     map_err (\<lambda>e. ''failed to build SSRF-safe HTTP client: '' @ e) (net_build_client net allow_private timeout user_agent)"

definition send_http_request ::
  "'n tool_json \<Rightarrow> 'w network \<Rightarrow> web_fetch_runtime_policy \<Rightarrow> string \<Rightarrow> http_request_input \<Rightarrow> string \<Rightarrow> 'w \<Rightarrow>
   (string + 'n json tool_core_outcome) \<times> 'w" where
  "send_http_request J net policy tool_name input host w =
     and_then (build_ssrf_safe_client net (wfp_allow_private_hosts policy) (wfp_timeout_seconds policy)
       ''Loong-HttpRequest/0.1'', w) (\<lambda>_ w.
     and_then (let (r, w) = net_send net
         \<lparr>hm_method = hi_method input, hm_url = hi_url input, hm_headers = hi_headers input,
          hm_content_type = hi_content_type input, hm_body = hi_body input,
          hm_allow_private_hosts = wfp_allow_private_hosts policy,
          hm_timeout_seconds = wfp_timeout_seconds policy, hm_user_agent = ''Loong-HttpRequest/0.1''\<rparr> w
       in (map_err (\<lambda>e. ''http.request failed: '' @ e) r, w)) (\<lambda>response w.
       let budget = byte_budget_new (hi_max_bytes input) in
       (try_bind (reject_if_content_length_exceeds budget (resp_content_length response) ''http.request response'') (\<lambda>_.
        try_bind (read_http_body budget [] (resp_chunks response)) (\<lambda>(body, budget).
          Inr (http_request_outcome J net tool_name input host response body (bb_consumed budget)))), w)))"

definition execute_http_request_tool ::
  "'n tool_json \<Rightarrow> 'w network \<Rightarrow> 'x tool_runtime_config \<Rightarrow> 'n json tool_core_request \<Rightarrow> 'w \<Rightarrow>
   (string + 'n json tool_core_outcome) \<times> 'w" where
  "execute_http_request_tool J net config request w =
     (let policy = rc_web_fetch config in
      case tpcq_payload request of
        JObject payload \<Rightarrow>
          if \<not> wfp_enabled policy then (Inl ''http.request is disabled by config.tools.web.enabled=false'', w)
          else
            and_then (parse_http_request_input J net payload policy, w) (\<lambda>input w.
            and_then (validate_http_target (net_names net) (hi_url input) (http_target_options policy) ''http.request'', w) (\<lambda>host w.
            send_http_request J net policy (tpcq_tool_name request) input host w))
      | _ \<Rightarrow> (Inl ''http.request payload must be an object'', w))"

section \<open>web.fetch\<close>

datatype render_mode = ReadableText | RawText

definition render_mode_as_str :: "render_mode \<Rightarrow> string" where
  "render_mode_as_str m = (case m of ReadableText \<Rightarrow> ''readable_text'' | RawText \<Rightarrow> ''raw_text'')"

definition parse_render_mode :: "(string, 'n json) btree \<Rightarrow> string + render_mode" where
  "parse_render_mode payload =
     (case bt_get payload ''mode'' of
        None \<Rightarrow> Inr ReadableText
      | Some v \<Rightarrow>
          (case trimmed_non_empty (json_as_str v) of
             None \<Rightarrow> Inl ''web.fetch payload.mode must be a string''
           | Some raw \<Rightarrow>
               if raw = ''readable_text'' \<or> raw = ''text'' then Inr ReadableText
               else if raw = ''raw_text'' \<or> raw = ''raw'' then Inr RawText
               else Inl ''web.fetch payload.mode must be one of `readable_text`, `raw_text`, `text`, or `raw`''))"

definition fetch_max_bytes :: "'n tool_json \<Rightarrow> (string, 'n json) btree \<Rightarrow> usize \<Rightarrow> string + usize" where
  "fetch_max_bytes J payload configured_max =
     (case bt_get payload ''max_bytes'' of
        None \<Rightarrow> Inr configured_max
      | Some v \<Rightarrow>
          (case json_as_u64 J v of
             None \<Rightarrow> Inl ''web.fetch payload.max_bytes must be an integer''
           | Some n \<Rightarrow>
               if n = 0 then Inl ''web.fetch payload.max_bytes must be >= 1''
               else if unat n > configured_max then
                 Inl (''web.fetch payload.max_bytes exceeds configured limit ('' @ nat_to_dec configured_max @ '' bytes)'')
               else Inr (unat n)))"

definition web_target_options :: "web_fetch_runtime_policy \<Rightarrow> target_options" where
  "web_target_options policy =
     \<lparr>to_allow_private_hosts = wfp_allow_private_hosts policy, to_reject_userinfo = False, to_resolve_dns = True,
      to_enforce_allowed_domains = wfp_enforce_allowed_domains policy,
      to_allowed_domains = (if wfp_enforce_allowed_domains policy then Some (wfp_allowed_domains policy) else None),
      to_blocked_domains = Some (wfp_blocked_domains policy)\<rparr>"

definition validate_web_target :: "name_service \<Rightarrow> url \<Rightarrow> web_fetch_runtime_policy \<Rightarrow> string \<Rightarrow> string + string" where
  "validate_web_target S u policy surface = validate_http_target S u (web_target_options policy) surface"

text \<open>The loop over the chunks: what was taken, and whether the body was cut short.\<close>

fun read_fetch_body :: "bool \<Rightarrow> byte_budget \<Rightarrow> string \<Rightarrow> (string + string) list \<Rightarrow> string + string \<times> bool \<times> byte_budget" where
  "read_fetch_body truncated budget body [] = Inr (body, truncated, budget)"
| "read_fetch_body truncated budget body (Inl e # chunks) = Inl (''failed to read web.fetch response body: '' @ e)"
| "read_fetch_body truncated budget body (Inr chunk # chunks) =
     (let remaining = bb_max_bytes budget - bb_consumed budget in
      if remaining = 0 then Inr (body, True, budget)
      else
        let chunk_len = min (length chunk) remaining;
            truncated = (truncated \<or> chunk_len < length chunk) in
        try_bind (try_consume budget chunk_len ''web.fetch response'') (\<lambda>budget.
          if truncated then Inr (body @ take chunk_len chunk, truncated, budget)
          else read_fetch_body truncated budget (body @ take chunk_len chunk) chunks))"

text \<open>What the page says, as the HTML functions of the module give it.\<close>

record html_reader =
  html_title :: "string \<Rightarrow> string option"
  html_summary :: "string \<Rightarrow> string option"
  html_readable :: "string option \<Rightarrow> string \<Rightarrow> string"
  html_insufficient :: "string option \<Rightarrow> string \<Rightarrow> bool"

record fetch_request =
  fr_tool_name :: string
  fr_raw_url :: string
  fr_mode :: render_mode
  fr_max_bytes :: usize

definition fetch_continuation ::
  "'n tool_json \<Rightarrow> html_reader \<Rightarrow> fetch_request \<Rightarrow> url \<Rightarrow> bool \<Rightarrow> bool \<Rightarrow> string option \<Rightarrow> string \<Rightarrow> 'n json" where
  "fetch_continuation J H r u truncated is_html summary body =
     (if truncated then json_object
        [(''state'', JString ''truncated_page''), (''is_terminal'', JBool False), (''recommended_tool'', JString ''web''),
         (''recommended_payload'', json_object [(''url'', JString (url_text u)), (''mode'', JString ''raw_text''),
            (''max_bytes'', number_json J (fr_max_bytes r))]),
         (''note'', JString ''The fetched page was truncated before enough evidence could be gathered. Continue with a narrower or higher-budget web fetch before finalizing.'')]
      else if is_html \<and> html_insufficient H summary body then json_object
        [(''state'', JString ''insufficient_page_evidence''), (''is_terminal'', JBool False),
         (''recommended_tool'', JString ''web''),
         (''recommended_payload'', json_object [(''url'', JString (url_text u)), (''mode'', JString (render_mode_as_str (fr_mode r)))]),
         (''note'', JString ''The fetched page still looks like shell or navigation content. Continue with a narrower or more focused fetch before finalizing.'')]
      else JNull)"

definition fetch_outcome ::
  "'n tool_json \<Rightarrow> 'w network \<Rightarrow> html_reader \<Rightarrow> fetch_request \<Rightarrow> url \<Rightarrow> string \<Rightarrow> usize \<Rightarrow> http_response \<Rightarrow>
   string + 'n json tool_core_outcome" where
  "fetch_outcome J net H r u host redirect_count response =
     (let content_type = header_text response ''content-type'';
          too_long = (case resp_content_length response of None \<Rightarrow> False | Some n \<Rightarrow> unat n > fr_max_bytes r)
      in try_bind (read_fetch_body too_long (byte_budget_new (fr_max_bytes r)) [] (resp_chunks response))
        (\<lambda>(body, truncated, budget).
          let raw_text = net_lossy net body;
              is_html = looks_like_html content_type raw_text in
          if fr_mode r = ReadableText \<and> \<not> is_html \<and> response_is_probably_binary content_type body then
            Inl ''web.fetch readable_text mode only supports text-like responses; binary bodies are not returned''
          else
            let title = (if is_html then html_title H raw_text else None);
                summary = (if is_html then html_summary H raw_text else None);
                shown = (if fr_mode r = ReadableText \<and> is_html then html_readable H summary raw_text else trim raw_text)
            in Inr \<lparr>tpco_status = ''ok'', tpco_payload = json_object
              [(''adapter'', JString ''core-tools''), (''tool_name'', JString (fr_tool_name r)),
               (''requested_url'', JString (fr_raw_url r)), (''final_url'', JString (url_text u)), (''host'', JString host),
               (''status_code'', number_json J (resp_status response)), (''content_type'', opt_text content_type),
               (''mode'', JString (render_mode_as_str (fr_mode r))), (''content'', JString shown),
               (''title'', opt_text title), (''summary'', opt_text summary),
               (''bytes_downloaded'', number_json J (bb_consumed budget)), (''truncated'', JBool truncated),
               (''redirect_count'', number_json J redirect_count),
               (''continuation'', fetch_continuation J H r u truncated is_html summary shown)]\<rparr>))"

definition fetch_message :: "web_fetch_runtime_policy \<Rightarrow> url \<Rightarrow> http_message" where
  "fetch_message policy u =
     \<lparr>hm_method = ''GET'', hm_url = u, hm_headers = [], hm_content_type = None, hm_body = None,
      hm_allow_private_hosts = wfp_allow_private_hosts policy, hm_timeout_seconds = wfp_timeout_seconds policy,
      hm_user_agent = ''Loong-WebFetch/0.1''\<rparr>"

text \<open>Where a redirect leads, once checked.\<close>

definition redirect_target :: "'w network \<Rightarrow> web_fetch_runtime_policy \<Rightarrow> url \<Rightarrow> http_response \<Rightarrow> string + url \<times> string" where
  "redirect_target net policy u response =
     try_bind (case header_value response ''location'' of
         None \<Rightarrow> Inl (''web.fetch received redirect status '' @ nat_to_dec (resp_status response) @
           (case resp_reason response of Some reason \<Rightarrow> '' '' @ reason | None \<Rightarrow> '' <unknown status code>'') @
           '' without Location header'')
       | Some v \<Rightarrow> map_err (\<lambda>e. ''web.fetch redirect Location header was invalid: '' @ e) v) (\<lambda>location.
     try_bind (map_err (\<lambda>e. ''web.fetch failed to resolve redirect target: '' @ e) (net_join net u location)) (\<lambda>next_url.
     try_bind (validate_web_target (net_names net) next_url policy ''web.fetch'') (\<lambda>host.
       Inr (next_url, host))))"

function fetch_loop ::
  "'n tool_json \<Rightarrow> 'w network \<Rightarrow> html_reader \<Rightarrow> web_fetch_runtime_policy \<Rightarrow> fetch_request \<Rightarrow> url \<Rightarrow> string \<Rightarrow> usize \<Rightarrow> 'w \<Rightarrow>
   (string + 'n json tool_core_outcome) \<times> 'w" where
  "fetch_loop J net H policy r u host redirect_count w =
     (case net_send net (fetch_message policy u) w of
        (Inl e, w) \<Rightarrow> (Inl (''web.fetch request failed: '' @ e), w)
      | (Inr response, w) \<Rightarrow>
          if 300 \<le> resp_status response \<and> resp_status response < 400 then
            if redirect_count \<ge> wfp_max_redirects policy then
              (Inl (''web.fetch exceeded redirect limit ('' @ nat_to_dec (wfp_max_redirects policy) @ '')''), w)
            else case redirect_target net policy u response of
              Inl e \<Rightarrow> (Inl e, w)
            | Inr (next_url, host) \<Rightarrow> fetch_loop J net H policy r next_url host (redirect_count + 1) w
          else if \<not> (200 \<le> resp_status response \<and> resp_status response < 300) then
            (Inl (''web.fetch returned non-success status '' @ nat_to_dec (resp_status response) @
               (case resp_reason response of Some reason \<Rightarrow> '' '' @ reason | None \<Rightarrow> '' <unknown status code>'') @
               '' for `'' @ url_text u @ ''`''), w)
          else (fetch_outcome J net H r u host redirect_count response, w))"
  by pat_completeness auto
termination
  by (relation "measure (\<lambda>(J, net, H, policy, r, u, host, redirect_count, w). wfp_max_redirects policy - redirect_count)")
    auto

declare fetch_loop.simps [simp del]

definition execute_web_fetch_tool ::
  "'n tool_json \<Rightarrow> 'w network \<Rightarrow> html_reader \<Rightarrow> 'x tool_runtime_config \<Rightarrow> 'n json tool_core_request \<Rightarrow> 'w \<Rightarrow>
   (string + 'n json tool_core_outcome) \<times> 'w" where
  "execute_web_fetch_tool J net H config request w =
     (let policy = rc_web_fetch config in
      if \<not> wfp_enabled policy then (Inl ''web.fetch is disabled by config.tools.web.enabled=false'', w)
      else case tpcq_payload request of
        JObject payload \<Rightarrow>
          (case optional_string_field (bt_get payload ''url'') of
             None \<Rightarrow> (Inl ''web.fetch requires payload.url'', w)
           | Some raw_url \<Rightarrow>
               and_then (parse_render_mode payload, w) (\<lambda>mode w.
               and_then (fetch_max_bytes J payload (wfp_max_bytes policy), w) (\<lambda>max_bytes w.
               and_then (map_err (\<lambda>e. ''failed to build HTTP client for web.fetch: '' @ e)
                 (net_build_client net (wfp_allow_private_hosts policy) (wfp_timeout_seconds policy) ''Loong-WebFetch/0.1''), w) (\<lambda>_ w.
               and_then (map_err (\<lambda>e. ''invalid web.fetch url `'' @ raw_url @ ''`: '' @ e) (net_parse_url net raw_url), w) (\<lambda>u w.
               and_then (validate_web_target (net_names net) u policy ''web.fetch'', w) (\<lambda>host w.
                 fetch_loop J net H policy
                   \<lparr>fr_tool_name = tpcq_tool_name request, fr_raw_url = raw_url, fr_mode = mode, fr_max_bytes = max_bytes\<rparr>
                   u host 0 w))))))
      | _ \<Rightarrow> (Inl ''web.fetch payload must be an object'', w))"

end
