(* ===== verification/Web_Properties.thy ===== *)
theory Web_Properties
  imports Web_Requests
begin

text \<open>
  Properties of web requests: the addresses that count as private or special, the meaning of domain
  rules, what a checked target is, that only checked targets are requested and how often, and how
  much of a body is kept.
\<close>

section \<open>Addresses\<close>

fun ipv4_number :: "ipv4_addr \<Rightarrow> nat" where
  "ipv4_number (Ipv4 a b c d) = unat a * 2 ^ 24 + unat b * 2 ^ 16 + unat c * 2 ^ 8 + unat d"

text \<open>Blocks of addresses, by the number of their first one and the length of their prefix.\<close>

definition special_ipv4_blocks :: "(ipv4_addr \<times> nat) list" where
  "special_ipv4_blocks =
     [(Ipv4 0 0 0 0, 8), (Ipv4 10 0 0 0, 8), (Ipv4 100 64 0 0, 10), (Ipv4 127 0 0 0, 8), (Ipv4 169 254 0 0, 16),
      (Ipv4 172 16 0 0, 12), (Ipv4 192 0 0 0, 24), (Ipv4 192 0 2 0, 24), (Ipv4 192 168 0 0, 16),
      (Ipv4 198 18 0 0, 15), (Ipv4 198 51 100 0, 24), (Ipv4 203 0 113 0, 24), (Ipv4 224 0 0 0, 4), (Ipv4 240 0 0 0, 4)]"

definition in_block :: "ipv4_addr \<Rightarrow> ipv4_addr \<times> nat \<Rightarrow> bool" where
  "in_block ip block \<longleftrightarrow> (case block of (first, len) \<Rightarrow>
     ipv4_number ip div 2 ^ (32 - len) = ipv4_number first div 2 ^ (32 - len))"

lemma octet_eq: "(a :: octet) = numeral n \<longleftrightarrow> unat a = unat (numeral n :: octet)"
  "(a :: octet) = 0 \<longleftrightarrow> unat a = 0"
  by (simp_all add: word_unat_eq_iff)

lemma octet_le: "(numeral n :: octet) \<le> a \<longleftrightarrow> unat (numeral n :: octet) \<le> unat a"
  "(a :: octet) \<le> numeral n \<longleftrightarrow> unat a \<le> unat (numeral n :: octet)"
  by (simp_all add: word_le_nat_alt)

lemma ipv4_number_div:
  fixes a b c d :: nat
  assumes "a < 256" "b < 256" "c < 256" "d < 256"
  defines "n \<equiv> a * 2 ^ 24 + b * 2 ^ 16 + c * 2 ^ 8 + d"
  shows "n div 2 ^ 24 = a" "n div 2 ^ 16 = a * 256 + b" "n div 2 ^ 8 = a * 65536 + b * 256 + c"
    "n div 2 ^ 22 = a * 4 + b div 64" "n div 2 ^ 20 = a * 16 + b div 16" "n div 2 ^ 17 = a * 128 + b div 2"
    "n div 2 ^ 28 = a div 16"
  using assms by (simp_all add: n_def)

lemma ipv4_parts:
  fixes a b c :: nat
  assumes "a < 256" "b < 256" "c < 256"
  shows "a * 4 + b div 64 = 401 \<longleftrightarrow> a = 100 \<and> 64 \<le> b \<and> b \<le> 127"
    "a * 256 + b = 43518 \<longleftrightarrow> a = 169 \<and> b = 254" "a * 256 + b = 49320 \<longleftrightarrow> a = 192 \<and> b = 168"
    "a * 16 + b div 16 = 2753 \<longleftrightarrow> a = 172 \<and> 16 \<le> b \<and> b \<le> 31"
    "a * 128 + b div 2 = 25353 \<longleftrightarrow> a = 198 \<and> (b = 18 \<or> b = 19)"
    "a * 65536 + b * 256 + c = 12582912 \<longleftrightarrow> a = 192 \<and> b = 0 \<and> c = 0"
    "a * 65536 + b * 256 + c = 12582914 \<longleftrightarrow> a = 192 \<and> b = 0 \<and> c = 2"
    "a * 65536 + b * 256 + c = 12989284 \<longleftrightarrow> a = 198 \<and> b = 51 \<and> c = 100"
    "a * 65536 + b * 256 + c = 13303921 \<longleftrightarrow> a = 203 \<and> b = 0 \<and> c = 113"
    "a div 16 = 14 \<longleftrightarrow> 224 \<le> a \<and> a \<le> 239" "a div 16 = 15 \<longleftrightarrow> 240 \<le> a"
proof -
  have mixed: "x * k + y = n \<longleftrightarrow> x = n div k \<and> y = n mod k" if "y < k" for x y k n :: nat
    using that by auto
  have div: "x div k = q \<longleftrightarrow> q * k \<le> x \<and> x < q * k + k" if "0 < k" for x k q :: nat
    using that by (metis add.commute div_le_dividend div_less_iff_less_mult less_eq_div_iff_mult_less_eq
      le_antisym less_Suc_eq_le mult_Suc order_refl)
  show "a * 4 + b div 64 = 401 \<longleftrightarrow> a = 100 \<and> 64 \<le> b \<and> b \<le> 127"
    using mixed [of "b div 64" 4 a 401] assms by (auto simp: div)
  show "a * 256 + b = 43518 \<longleftrightarrow> a = 169 \<and> b = 254" "a * 256 + b = 49320 \<longleftrightarrow> a = 192 \<and> b = 168"
    using mixed [of b 256 a] assms by simp_all
  show "a * 16 + b div 16 = 2753 \<longleftrightarrow> a = 172 \<and> 16 \<le> b \<and> b \<le> 31"
    using mixed [of "b div 16" 16 a 2753] assms by (auto simp: div)
  show "a * 128 + b div 2 = 25353 \<longleftrightarrow> a = 198 \<and> (b = 18 \<or> b = 19)"
    using mixed [of "b div 2" 128 a 25353] assms by (auto simp: div)
  have "b * 256 + c < 65536" using assms by simp
  then have three: "a * 65536 + b * 256 + c = n \<longleftrightarrow>
      a = n div 65536 \<and> b = n mod 65536 div 256 \<and> c = n mod 65536 mod 256" for n
    using mixed [of "b * 256 + c" 65536 a n] mixed [of c 256 b "n mod 65536"] assms by (simp add: add.assoc)
  show "a * 65536 + b * 256 + c = 12582912 \<longleftrightarrow> a = 192 \<and> b = 0 \<and> c = 0"
    "a * 65536 + b * 256 + c = 12582914 \<longleftrightarrow> a = 192 \<and> b = 0 \<and> c = 2"
    "a * 65536 + b * 256 + c = 12989284 \<longleftrightarrow> a = 198 \<and> b = 51 \<and> c = 100"
    "a * 65536 + b * 256 + c = 13303921 \<longleftrightarrow> a = 203 \<and> b = 0 \<and> c = 113"
    by (simp_all only: three) simp_all
  show "a div 16 = 14 \<longleftrightarrow> 224 \<le> a \<and> a \<le> 239" "a div 16 = 15 \<longleftrightarrow> 240 \<le> a"
    using assms by (auto simp: div)
qed

text \<open>
  The IPv4 addresses that web requests avoid are exactly the listed blocks: this network, private
  use, shared address space, loopback, link local, the IETF and documentation blocks, benchmarking,
  multicast, and everything reserved from 240.0.0.0 up, the broadcast address included.
\<close>

theorem private_ipv4_is_the_listed_blocks:
  "is_private_or_special_ipv4 ip \<longleftrightarrow> list_ex (in_block ip) special_ipv4_blocks"
proof (cases ip)
  case (Ipv4 a b c d)
  have bounds: "unat a < 256" "unat b < 256" "unat c < 256" "unat d < 256"
    using unsigned_less [of a] unsigned_less [of b] unsigned_less [of c] unsigned_less [of d] by simp_all
  note parts = ipv4_number_div [OF bounds]
  have blocks: "list_ex (in_block ip) special_ipv4_blocks \<longleftrightarrow>
      unat a = 0 \<or> unat a = 10 \<or> unat a = 100 \<and> 64 \<le> unat b \<and> unat b \<le> 127 \<or> unat a = 127 \<or>
      unat a = 169 \<and> unat b = 254 \<or> unat a = 172 \<and> 16 \<le> unat b \<and> unat b \<le> 31 \<or>
      unat a = 192 \<and> unat b = 0 \<and> unat c = 0 \<or> unat a = 192 \<and> unat b = 0 \<and> unat c = 2 \<or>
      unat a = 192 \<and> unat b = 168 \<or> unat a = 198 \<and> (unat b = 18 \<or> unat b = 19) \<or>
      unat a = 198 \<and> unat b = 51 \<and> unat c = 100 \<or> unat a = 203 \<and> unat b = 0 \<and> unat c = 113 \<or>
      224 \<le> unat a \<and> unat a \<le> 239 \<or> 240 \<le> unat a"
    unfolding Ipv4 special_ipv4_blocks_def in_block_def
    by (simp add: parts [simplified] ipv4_parts [OF bounds(1-3)])
  show ?thesis
  proof (cases "240 \<le> unat a")
    case True
    then show ?thesis unfolding blocks by (simp add: Ipv4 octet_le)
  next
    case False
    then have "unat a \<noteq> 255" by simp
    with False show ?thesis unfolding blocks by (simp add: Ipv4 octet_eq octet_le) argo
  qed
qed

section \<open>Domain rules\<close>

abbreviation (input) dot :: char where "dot \<equiv> CHR ''.''"

lemma join_append:
  "ps \<noteq> [] \<Longrightarrow> qs \<noteq> [] \<Longrightarrow> join_char d (ps @ qs) = join_char d ps @ d # join_char d qs"
  by (induction d ps rule: join_char.induct) (cases qs; simp)+

text \<open>A text ends with a dotted suffix when its labels end with the labels of the suffix.\<close>

lemma suffix_labels: "host = base \<or> suffix (d # base) host \<longleftrightarrow> suffix (split_char d base) (split_char d host)"
proof
  assume "host = base \<or> suffix (d # base) host"
  then consider "host = base" | pre where "host = pre @ d # base" by (auto simp: suffix_def)
  then show "suffix (split_char d base) (split_char d host)"
  proof cases
    case 2
    have "split_char d (pre @ d # base) = split_char d pre @ split_char d base" for pre
      by (induction pre) (auto split: list.splits)
    with 2 show ?thesis by (simp add: suffix_def)
  qed simp
next
  assume "suffix (split_char d base) (split_char d host)"
  then obtain ps where ps: "split_char d host = ps @ split_char d base" by (auto simp: suffix_def)
  show "host = base \<or> suffix (d # base) host"
  proof (cases "ps = []")
    case True
    with ps have "join_char d (split_char d host) = join_char d (split_char d base)" by simp
    then show ?thesis by (simp add: join_split_char)
  next
    case False
    have "host = join_char d (split_char d host)" by (simp add: join_split_char)
    also have "\<dots> = join_char d ps @ d # base" using False by (simp add: ps join_append join_split_char)
    finally show ?thesis by (auto simp: suffix_def)
  qed
qed

text \<open>
  A domain rule matches whole labels: a wildcard rule matches a host exactly when the labels of
  its base domain end the labels of the host, so the base domain itself is included and a longer
  last label is not; any other rule matches the host it names. Case, surrounding white space and
  final dots make no difference.
\<close>

theorem domain_rules_match_whole_labels:
  "domain_rule_matches host rule \<longleftrightarrow>
    (if prefix ''*.'' (normalize_domain_text rule)
     then suffix (split_char dot (drop 2 (normalize_domain_text rule))) (split_char dot (normalize_domain_text host))
     else normalize_domain_text host = normalize_domain_text rule)"
  using suffix_labels [of "normalize_domain_text host" "drop 2 (normalize_domain_text rule)" dot]
  by (simp add: domain_rule_matches_def Let_def)

section \<open>Bodies\<close>

lemma try_consume_fits:
  "bb_consumed b + n \<le> bb_max_bytes b \<Longrightarrow> bb_max_bytes b \<le> usize_max \<Longrightarrow>
   try_consume b n surface = Inr (b\<lparr>bb_consumed := bb_consumed b + n\<rparr>)"
  by (simp add: try_consume_def)

lemma read_fetch_body_takes:
  assumes "bb_consumed b = length body" "length body \<le> bb_max_bytes b" "bb_max_bytes b \<le> usize_max"
    "[] \<notin> set chunks"
  shows "read_fetch_body False b body (map Inr chunks) =
    Inr (take (bb_max_bytes b) (body @ concat chunks), bb_max_bytes b < length (body @ concat chunks),
      b\<lparr>bb_consumed := min (bb_max_bytes b) (length (body @ concat chunks))\<rparr>)"
  using assms
proof (induction chunks arbitrary: b body)
  case Nil
  then show ?case by simp
next
  case (Cons c cs)
  let ?left = "bb_max_bytes b - length body"
  from Cons.prems have c: "0 < length c" by (cases c) simp_all
  show ?case
  proof (cases "length c \<le> ?left")
    case True
    with c Cons.prems have "bb_consumed b + length c \<le> bb_max_bytes b" by linarith
    moreover from this c Cons.prems have "bb_max_bytes b - bb_consumed b \<noteq> 0" by linarith
    ultimately show ?thesis
      using True Cons.prems Cons.IH [of "b\<lparr>bb_consumed := length body + length c\<rparr>" "body @ c"]
      by (simp add: Let_def try_consume_fits min_absorb1)
  next
    case False
    show ?thesis
    proof (cases "?left = 0")
      case True
      with Cons.prems c show ?thesis by (cases b) (auto simp: Let_def)
    next
      case left: False
      have fits: "try_consume b ?left s = Inr (b\<lparr>bb_consumed := bb_max_bytes b\<rparr>)" for s
        using try_consume_fits [of b ?left s] Cons.prems by simp
      from False left Cons.prems c fits show ?thesis by (auto simp: Let_def min_absorb2 min_def)
    qed
  qed
qed

text \<open>
  The body web.fetch keeps is the first bytes of what the server sends, up to the limit, in
  however many chunks they come; it is marked as truncated exactly when there was more, and
  the count of bytes is the length of what is kept.
\<close>

theorem fetched_body_is_first_bytes:
  assumes "[] \<notin> set chunks" and "max_bytes \<le> usize_max"
  shows "read_fetch_body False (byte_budget_new max_bytes) [] (map Inr chunks) =
    Inr (take max_bytes (concat chunks), max_bytes < length (concat chunks),
      \<lparr>bb_max_bytes = max_bytes, bb_consumed = length (take max_bytes (concat chunks))\<rparr>)"
  using read_fetch_body_takes [of "byte_budget_new max_bytes" "[]" chunks] assms
  by (simp add: byte_budget_new_def min.commute)

lemma fetched_body_is_first_bytes_witness:
  "read_fetch_body False (byte_budget_new 4) [] (map Inr [''ab'', ''cde'']) =
    Inr (''abcd'', True, \<lparr>bb_max_bytes = 4, bb_consumed = 4\<rparr>)"
  using fetched_body_is_first_bytes [of "[''ab'', ''cde'']" 4] by (simp add: usize_max_def)

text \<open>A declared length above the limit is another matter: the first chunk is all that is kept.\<close>

lemma declared_length_keeps_first_chunk:
  "0 < max_bytes \<Longrightarrow> max_bytes \<le> usize_max \<Longrightarrow> length c \<le> max_bytes \<Longrightarrow>
   read_fetch_body True (byte_budget_new max_bytes) [] (Inr c # chunks) =
     Inr (c, True, \<lparr>bb_max_bytes = max_bytes, bb_consumed = length c\<rparr>)"
  by (simp add: byte_budget_new_def Let_def try_consume_def)

section \<open>Targets\<close>

text \<open>A host that private-address filtering lets through.\<close>

definition public_host :: "name_service \<Rightarrow> url \<Rightarrow> string \<Rightarrow> bool" where
  "public_host S u host \<longleftrightarrow> host \<noteq> ''localhost'' \<and>
     (case parse_ip_addr host of
        Some ip \<Rightarrow> \<not> is_private_or_special_ip ip
      | None \<Rightarrow> (case url_port_or_known_default u of
          None \<Rightarrow> False
        | Some port \<Rightarrow> (case ns_resolve S host port of
            Inl _ \<Rightarrow> False
          | Inr addrs \<Rightarrow> addrs \<noteq> [] \<and> list_all (\<lambda>ip. \<not> is_private_or_special_ip ip) addrs)))"

definition admitted_host :: "target_options \<Rightarrow> string \<Rightarrow> bool" where
  "admitted_host options host \<longleftrightarrow>
     (case to_blocked_domains options of None \<Rightarrow> True
      | Some rules \<Rightarrow> \<not> list_ex (domain_rule_matches host) (rule_list rules)) \<and>
     (\<not> to_enforce_allowed_domains options \<or>
      (case to_allowed_domains options of None \<Rightarrow> False
       | Some rules \<Rightarrow> list_ex (domain_rule_matches host) (rule_list rules)))"

definition admitted_target :: "name_service \<Rightarrow> target_options \<Rightarrow> url \<Rightarrow> string \<Rightarrow> bool" where
  "admitted_target S options u host \<longleftrightarrow>
     (url_scheme u = ''http'' \<or> url_scheme u = ''https'') \<and>
     (\<not> to_reject_userinfo options \<or> url_username u = [] \<and> url_password u = None) \<and>
     map_option normalize_domain_text (url_host u) = Some host \<and> admitted_host options host \<and>
     (to_allow_private_hosts options \<or> \<not> to_resolve_dns options \<or> public_host S u host)"

lemma check_addresses_ok: "check_addresses S surface host addrs = Inr () \<longleftrightarrow> list_all (\<lambda>ip. \<not> is_private_or_special_ip ip) addrs"
  by (induction addrs) auto

lemma first_matching_None: "first_matching_domain_rule host rules = None \<longleftrightarrow> \<not> list_ex (domain_rule_matches host) rules"
  by (simp add: first_matching_domain_rule_def find_None_iff list_ex_iff Ball_def)

lemma check_public_host_ok:
  "check_public_host S options surface u host = Inr h \<Longrightarrow>
   h = host \<and> (\<not> to_resolve_dns options \<or> public_host S u host)"
  by (auto simp: check_public_host_def public_host_def check_addresses_ok try_bind_def
    split: if_splits option.splits sum.splits)

lemma validated_target:
  assumes "validate_http_target S u options surface = Inr host"
  shows "admitted_target S options u host"
proof -
  from assms obtain raw where raw: "url_host u = Some raw"
    by (auto simp: validate_http_target_def split: if_splits option.splits)
  let ?h = "normalize_domain_text raw"
  from assms raw have h: "host = ?h"
    by (auto simp: validate_http_target_def Let_def split: if_splits option.splits dest!: check_public_host_ok)
  from assms raw have "admitted_host options ?h"
    by (auto simp: validate_http_target_def Let_def admitted_host_def first_matching_None bind_eq_None_conv
      split: if_splits option.splits)
  moreover from assms raw have "to_allow_private_hosts options \<or> \<not> to_resolve_dns options \<or> public_host S u ?h"
    by (auto simp: validate_http_target_def Let_def split: if_splits option.splits dest!: check_public_host_ok)
  ultimately show ?thesis
    using assms raw h by (auto simp: admitted_target_def validate_http_target_def split: if_splits)
qed

text \<open>The addresses the resolver hands to the client: the name's own, at least one, and public ones
  when private hosts are off.\<close>

lemma ssrf_safe_resolve_Inr:
  "ssrf_safe_resolve S allow_private host = Inr addrs \<longleftrightarrow> ns_resolve S host 0 = Inr addrs \<and> addrs \<noteq> [] \<and>
    (allow_private \<or> list_all (\<lambda>ip. \<not> is_private_or_special_ip ip) addrs)"
  by (auto simp: ssrf_safe_resolve_def try_bind_def simp flip: check_addresses_ok [of S "''web HTTP''" host]
      split: sum.splits if_splits)

text \<open>Whatever names resolve to when the message is sent, its resolver offers only public addresses.\<close>

definition safely_resolved :: "web_fetch_runtime_policy \<Rightarrow> http_message \<Rightarrow> bool" where
  "safely_resolved policy m \<longleftrightarrow>
     (\<forall>S name addrs. ssrf_safe_resolve S (hm_allow_private_hosts m) name = Inr addrs \<longrightarrow>
        ns_resolve S name 0 = Inr addrs \<and> addrs \<noteq> [] \<and>
        (wfp_allow_private_hosts policy \<or> (\<forall>ip \<in> set addrs. \<not> is_private_or_special_ip ip)))"

lemma admitted_flag_safely_resolved:
  "hm_allow_private_hosts m = wfp_allow_private_hosts policy \<Longrightarrow> safely_resolved policy m"
  by (simp add: safely_resolved_def ssrf_safe_resolve_Inr list_all_iff)

text \<open>A network whose state is the list of the messages sent.\<close>

definition logs_messages :: "http_message list network \<Rightarrow> bool" where
  "logs_messages net \<longleftrightarrow> (\<forall>m w. snd (net_send net m w) = w @ [m])"

definition admitted_message :: "'w network \<Rightarrow> web_fetch_runtime_policy \<Rightarrow> http_message \<Rightarrow> bool" where
  "admitted_message net policy m \<longleftrightarrow> hm_method m = ''GET'' \<and>
     hm_allow_private_hosts m = wfp_allow_private_hosts policy \<and>
     (\<exists>host. admitted_target (net_names net) (web_target_options policy) (hm_url m) host)"

lemma logged_send:
  "logs_messages net \<Longrightarrow> net_send net m w = (r, w') \<Longrightarrow> w' = w @ [m]"
  unfolding logs_messages_def by (metis snd_conv)

lemma fetch_message_admitted:
  "admitted_target (net_names net) (web_target_options policy) u host \<Longrightarrow> admitted_message net policy (fetch_message policy u)"
  by (auto simp: admitted_message_def fetch_message_def)

lemma redirect_target_admitted:
  "redirect_target net policy u response = Inr (u', host) \<Longrightarrow>
   admitted_target (net_names net) (web_target_options policy) u' host"
  by (auto simp: redirect_target_def validate_web_target_def try_bind_def split: sum.splits dest!: validated_target)

lemma fetch_loop_sends:
  assumes "logs_messages net" "admitted_target (net_names net) (web_target_options policy) u host"
    and "redirect_count \<le> wfp_max_redirects policy"
  shows "\<exists>ms. snd (fetch_loop J net H policy r u host redirect_count w) = w @ ms \<and>
    length ms \<le> Suc (wfp_max_redirects policy) - redirect_count \<and> list_all (admitted_message net policy) ms"
  using assms
proof (induction J net H policy r u host redirect_count w rule: fetch_loop.induct)
  case (1 J net H policy r u host n w)
  obtain res w' where send: "net_send net (fetch_message policy u) w = (res, w')" by fastforce
  with 1 have w': "w' = w @ [fetch_message policy u]" by (blast intro: logged_send)
  have one: "list_all (admitted_message net policy) [fetch_message policy u]"
    using fetch_message_admitted [OF 1(3)] by simp
  let ?redirects = "\<lambda>response u' host'. res = Inr response \<and> 300 \<le> resp_status response \<and> resp_status response < 400 \<and>
    n < wfp_max_redirects policy \<and> redirect_target net policy u response = Inr (u', host')"
  show ?case
  proof (cases "\<exists>response u' host'. ?redirects response u' host'")
    case True
    then obtain response u' host' where red: "?redirects response u' host'" by blast
    with 1(4) have "\<exists>ms. snd (fetch_loop J net H policy r u' host' (n + 1) w') = w' @ ms \<and>
        length ms \<le> Suc (wfp_max_redirects policy) - (n + 1) \<and> list_all (admitted_message net policy) ms"
      by (intro 1(1) [OF send [symmetric]] 1(2) redirect_target_admitted) auto
    then obtain ms where ms: "snd (fetch_loop J net H policy r u' host' (n + 1) w') = w' @ ms"
      "length ms \<le> Suc (wfp_max_redirects policy) - (n + 1)" "list_all (admitted_message net policy) ms" by blast
    have "fetch_loop J net H policy r u host n w = fetch_loop J net H policy r u' host' (n + 1) w'"
      using red send by (subst fetch_loop.simps) simp
    with ms one red w' show ?thesis by (intro exI [of _ "fetch_message policy u # ms"]) auto
  next
    case False
    then have "snd (fetch_loop J net H policy r u host n w) = w'"
      using send by (subst fetch_loop.simps) (auto split: sum.splits)
    with one w' 1(4) show ?thesis by (intro exI [of _ "[fetch_message policy u]"]) auto
  qed
qed

text \<open>
  C9. Whatever a web.fetch request asks for and wherever servers redirect it, each message sent is a
  GET for an http or https URL whose host the blocked and allowed domains admit; with private hosts
  off its host is neither localhost nor a private address, and every address its name resolved to
  when it was checked is public. The resolver that its client is built with
  (\<open>SsrfSafeResolver\<close>) looks the name up again when the message is sent: whatever the name
  service answers by then, it hands out some address or fails, and with private hosts off only
  public addresses. No more messages than the redirect limit and one are sent. (A proxy that the
  environment sets would resolve names in the resolver's place.)
\<close>

theorem web_fetch_sends_admitted_messages:
  assumes "logs_messages net"
  shows "\<exists>ms. snd (execute_web_fetch_tool J net H config request w) = w @ ms \<and>
    length ms \<le> Suc (wfp_max_redirects (rc_web_fetch config)) \<and>
    (\<forall>m \<in> set ms. admitted_message net (rc_web_fetch config) m \<and> safely_resolved (rc_web_fetch config) m)"
proof -
  let ?policy = "rc_web_fetch config"
  let ?safe = "\<lambda>ms. list_all (admitted_message net ?policy) ms"
  have loop: "\<exists>ms. snd (fetch_loop J net H ?policy r u host 0 w) = w @ ms \<and>
      length ms \<le> Suc (wfp_max_redirects ?policy) \<and> ?safe ms"
    if "validate_web_target (net_names net) u ?policy surface = Inr host" for u host r surface
    using fetch_loop_sends [OF assms validated_target, of u ?policy surface host 0] that
    by (simp add: validate_web_target_def)
  have nothing: "\<exists>ms. w = w @ ms \<and> length ms \<le> Suc (wfp_max_redirects ?policy) \<and> ?safe ms"
    by (intro exI [of _ "[]"]) simp
  from loop nothing have "\<exists>ms. snd (execute_web_fetch_tool J net H config request w) = w @ ms \<and>
      length ms \<le> Suc (wfp_max_redirects ?policy) \<and> ?safe ms"
    by (auto simp: execute_web_fetch_tool_def Let_def and_then_def split: json.splits option.splits sum.splits prod.splits)
  then show ?thesis
    using admitted_flag_safely_resolved by (fastforce simp: list_all_iff admitted_message_def)
qed

definition example_url :: url where
  "example_url = \<lparr>url_text = ''http://1.2.3.4/'', url_scheme = ''http'', url_username = [], url_password = None,
     url_host = Some ''1.2.3.4'', url_port_or_known_default = Some 80, url_query = None, url_fragment = None\<rparr>"

definition example_response :: http_response where
  "example_response = \<lparr>resp_url = ''http://1.2.3.4/'', resp_status = 200, resp_reason = Some ''OK'', resp_headers = [],
     resp_content_length = None, resp_chunks = [Inr ''hi'']\<rparr>"

definition example_network :: "http_message list network" where
  "example_network = \<lparr>net_names = \<lparr>ns_resolve = (\<lambda>_ _. Inl ''none''), ns_ip_text = (\<lambda>_. ''ip'')\<rparr>,
     net_parse_url = (\<lambda>_. Inr example_url), net_join = (\<lambda>u _. Inr u), net_parse_method = Inr,
     net_build_client = (\<lambda>_ _ _. Inr ()), net_send = (\<lambda>m w. (Inr example_response, w @ [m])), net_lossy = id,
     net_base64 = id\<rparr>"

definition example_web_policy :: web_fetch_runtime_policy where
  "example_web_policy = \<lparr>wfp_enabled = True, wfp_allow_private_hosts = False, wfp_enforce_allowed_domains = False,
     wfp_allowed_domains = {}, wfp_blocked_domains = {}, wfp_timeout_seconds = 15, wfp_max_bytes = 100, wfp_max_redirects = 3\<rparr>"

definition example_config :: "unit tool_runtime_config" where
  "example_config = \<lparr>rc_file_root = None, rc_workspace_root = None, rc_shell_allow = {}, rc_shell_deny = {},
     rc_shell_default_mode = ShellDeny,
     rc_browser = \<lparr>brp_enabled = False, brp_max_sessions = 1, brp_max_links = 1, brp_max_text_chars = 1\<rparr>,
     rc_bash_exec = \<lparr>bep_available = False, bep_command = None, bep_warning = None, bep_login_shell = False,
       bep_governance = \<lparr>bgp_rules_dir = [], bgp_rules = [], bgp_load_error = None\<rparr>\<rparr>,
     rc_web_fetch = example_web_policy,
     rc_tool_execution = \<lparr>tec_default_timeout_seconds = None, tec_per_tool_timeout = []\<rparr>, rc_rest = ()\<rparr>"

definition example_tool_json :: "unit tool_json" where
  "example_tool_json = \<lparr>tj_lib = sample_json_lib, tj_as_u64 = (\<lambda>_. None)\<rparr>"

definition example_reader :: html_reader where
  "example_reader = \<lparr>html_title = (\<lambda>_. None), html_summary = (\<lambda>_. None), html_readable = (\<lambda>_ t. t),
     html_insufficient = (\<lambda>_ _. False)\<rparr>"

lemma example_network_logs: "logs_messages example_network"
  by (simp add: logs_messages_def example_network_def)

lemma web_fetch_sends_admitted_messages_witness:
  "\<exists>ms. snd (execute_web_fetch_tool example_tool_json example_network example_reader example_config
      \<lparr>tpcq_tool_name = ''web.fetch'', tpcq_payload = JObject [(''url'', JString ''http://1.2.3.4/'')]\<rparr> []) = ms \<and>
    length ms \<le> 4 \<and> (\<forall>m \<in> set ms. admitted_message example_network example_web_policy m \<and>
      safely_resolved example_web_policy m)"
  using web_fetch_sends_admitted_messages [OF example_network_logs, of example_tool_json example_reader example_config
    "\<lparr>tpcq_tool_name = ''web.fetch'', tpcq_payload = JObject [(''url'', JString ''http://1.2.3.4/'')]\<rparr>" "[]"]
  by (simp add: example_config_def example_web_policy_def)

section \<open>Channels and address literals\<close>

lemma bracket_is_no_address: "parse_ip_addr (CHR ''['' # s) = None"
proof -
  have number: "read_number radix m z limit (CHR ''['' # s) = None" for radix m z limit
    by (simp add: read_number_def digit_value_def Let_def)
  have "read_octets (Suc n) 0 (CHR ''['' # s) = None" for n by (simp add: read_separator_def number)
  from this [of 3] have v4: "read_ipv4_addr (CHR ''['' # s) = None" by (simp add: read_ipv4_addr_def)
  have "read_groups (Suc n) 0 (CHR ''['' # s) = ([], False, CHR ''['' # s)" for n
    by (simp add: read_separator_def number v4)
  from this [of 7] have "read_ipv6_addr (CHR ''['' # s) = None" by (simp add: read_ipv6_addr_def read_given_char_def)
  with v4 show ?thesis by (simp add: parse_ip_addr_def)
qed

text \<open>
  C35. The outbound policy of channels lets every IPv6 literal through: a URL's host is
  then the address in brackets, which does not parse as an address, and names are not resolved. So
  the loopback and every private IPv6 address pass although private hosts are off, while the
  same addresses without brackets are private.
\<close>

theorem ipv6_literals_pass_channel_policy:
  assumes "parse_url (trim raw_url) = Inr u" and "trim raw_url \<noteq> []"
    and "url_scheme u = ''http'' \<or> url_scheme u = ''https''" and "url_username u = []" and "url_password u = None"
    and "url_host u = Some (''['' @ address @ '']'')"
  shows "validate_outbound_http_target S parse_url field_name raw_url False = Inr u \<and>
    is_private_or_special_ip (V6 (Ipv6 0 0 0 0 0 0 0 1))"
proof -
  let ?host = "''['' @ address @ '']''"
  have "trim ?host = ?host" by (rule trim_graphic_id) (simp_all add: ascii_graphic_def)
  moreover have "trim_end_matches CHR ''.'' ?host = ?host" by (simp add: trim_end_matches_def)
  ultimately have "normalize_domain_text ?host = CHR ''['' # to_ascii_lowercase (address @ '']'')"
    by (simp add: normalize_domain_text_def to_ascii_lowercase_def byte_ascii_lowercase_def)
  then show ?thesis
    using assms by (simp add: validate_outbound_http_target_def validate_http_target_def Let_def check_public_host_def
      bracket_is_no_address is_private_or_special_ip_def)
qed

lemma ipv6_literals_pass_channel_policy_witness:
  "let u = example_url\<lparr>url_host := Some ''[::1]''\<rparr>
   in validate_outbound_http_target (net_names example_network) (\<lambda>_. Inr u) ''webhook'' ''http://[::1]/'' False = Inr u"
  using ipv6_literals_pass_channel_policy [of "\<lambda>_. Inr (example_url\<lparr>url_host := Some ''[::1]''\<rparr>)" "''http://[::1]/''"
      "example_url\<lparr>url_host := Some ''[::1]''\<rparr>" "''::1''" "net_names example_network" "''webhook''"]
    trim_graphic_id [of "''http://[::1]/''"]
  by (simp add: example_url_def ascii_graphic_def)

end
