(* ===== verification/Tool_Paths.thy ===== *)
theory Tool_Paths
  imports Tool_Requests Tool_Config
begin

text \<open>
  Where the file tools may read and write: lexical normalization (crates/app/src/tools/tool_path.rs),
  the policy extension that checks the paths of a request (file_policy_ext.rs), and the resolution
  that the file tools do themselves (file.rs). Paths are those of Unix, as the components
  \<open>std::path\<close> yields: a root, a leading dot, parents and names. What the file system says of a path
  is an argument.
\<close>

section \<open>Paths\<close>

abbreviation (input) root_dir :: string where "root_dir \<equiv> ''/''"
abbreviation (input) cur_dir :: string where "cur_dir \<equiv> ''.''"
abbreviation (input) parent_dir :: string where "parent_dir \<equiv> ''..''"

definition is_normal :: "string \<Rightarrow> bool" where
  "is_normal c \<longleftrightarrow> c \<noteq> [] \<and> c \<noteq> root_dir \<and> c \<noteq> cur_dir \<and> c \<noteq> parent_dir"

text \<open>\<open>Path::components\<close>: repeated separators and dots vanish, except a dot at the start.\<close>

definition path_of_text :: "string \<Rightarrow> path" where
  "path_of_text s =
     (let parts = filter (\<lambda>c. c \<noteq> []) (split_char CHR ''/'' s) in
      if prefix ''/'' s then root_dir # filter (\<lambda>c. c \<noteq> cur_dir) parts
      else case parts of
        [] \<Rightarrow> []
      | c # cs \<Rightarrow> c # filter (\<lambda>c. c \<noteq> cur_dir) cs)"

definition path_text :: "path \<Rightarrow> string" where
  "path_text p =
     (case p of
        [] \<Rightarrow> []
      | c # cs \<Rightarrow> if c = root_dir then ''/'' @ join_char CHR ''/'' cs else join_char CHR ''/'' p)"

definition is_absolute :: "path \<Rightarrow> bool" where
  "is_absolute p \<longleftrightarrow> p \<noteq> [] \<and> hd p = root_dir"

definition path_join :: "path \<Rightarrow> path \<Rightarrow> path" where
  "path_join p q =
     (if is_absolute q then q
      else if p = [] then q
      else p @ (case q of c # cs \<Rightarrow> if c = cur_dir then cs else q | [] \<Rightarrow> []))"

definition path_file_name :: "path \<Rightarrow> string option" where
  "path_file_name p = (if p \<noteq> [] \<and> is_normal (last p) then Some (last p) else None)"

definition path_parent :: "path \<Rightarrow> path option" where
  "path_parent p = (if p = [] \<or> last p = root_dir then None else Some (butlast p))"

definition path_starts_with :: "path \<Rightarrow> path \<Rightarrow> bool" where
  "path_starts_with p base = prefix base p"

section \<open>Lexical normalization\<close>

text \<open>The loop of \<open>normalize_without_fs\<close>: whether a root was seen, the parts so far, the rest.\<close>

fun normalize_loop :: "bool \<Rightarrow> path \<Rightarrow> path \<Rightarrow> bool \<times> path" where
  "normalize_loop has_root parts [] = (has_root, parts)"
| "normalize_loop has_root parts (c # cs) =
     (if c = root_dir then normalize_loop True parts cs
      else if c = cur_dir then normalize_loop has_root parts cs
      else if c = parent_dir then
        normalize_loop has_root
          (if parts \<noteq> [] then
             (if last parts \<noteq> parent_dir then butlast parts
              else if \<not> has_root then parts @ [parent_dir] else parts)
           else if \<not> has_root then [parent_dir] else parts) cs
      else normalize_loop has_root (parts @ [c]) cs)"

definition normalize_without_fs :: "path \<Rightarrow> path" where
  "normalize_without_fs p =
     (case normalize_loop False [] p of (has_root, parts) \<Rightarrow>
        let normalized = (if has_root then [root_dir] else []) @ parts in
        if normalized = [] then [cur_dir] else normalized)"

section \<open>The file system\<close>

record file_system =
  fs_current_dir :: "path option"
  fs_exists :: "path \<Rightarrow> bool"
  fs_is_dir :: "path \<Rightarrow> bool"
  fs_canonicalize :: "path \<Rightarrow> string + path"
  fs_is_symlink :: "path \<Rightarrow> bool"
  fs_read_link :: "path \<Rightarrow> path option"

definition current_dir_or_dot :: "file_system \<Rightarrow> path" where
  "current_dir_or_dot F = (case fs_current_dir F of Some p \<Rightarrow> p | None \<Rightarrow> [cur_dir])"

definition canonicalize_existing_path_for_policy :: "file_system \<Rightarrow> path \<Rightarrow> path option" where
  "canonicalize_existing_path_for_policy F p =
     (if \<not> fs_exists F p then None else case fs_canonicalize F p of Inr q \<Rightarrow> Some q | Inl _ \<Rightarrow> None)"

definition normalize_path_for_policy :: "file_system \<Rightarrow> path \<Rightarrow> path" where
  "normalize_path_for_policy F p =
     (case canonicalize_existing_path_for_policy F p of Some q \<Rightarrow> q | None \<Rightarrow> normalize_without_fs p)"

lemma path_parent_shorter [termination_simp]: "path_parent p = Some q \<Longrightarrow> length q < length p"
  by (auto simp: path_parent_def split: if_splits)

function existing_ancestor :: "file_system \<Rightarrow> path \<Rightarrow> string list \<Rightarrow> (path \<times> string list) option" where
  "existing_ancestor F cursor missing =
     (if fs_exists F cursor then Some (cursor, missing)
      else case path_file_name cursor of
        None \<Rightarrow> None
      | Some name \<Rightarrow>
          (case path_parent cursor of
             None \<Rightarrow> None
           | Some parent \<Rightarrow> existing_ancestor F parent (name # missing)))"
  by pat_completeness auto
termination by (relation "measure (\<lambda>(F, cursor, missing). length cursor)") (auto intro: path_parent_shorter)

declare existing_ancestor.simps [simp del]

definition reconstruct_from_existing_ancestor :: "file_system \<Rightarrow> path \<Rightarrow> path option" where
  "reconstruct_from_existing_ancestor F p =
     Option.bind (existing_ancestor F p []) (\<lambda>(cursor, missing).
     Option.bind (canonicalize_existing_path_for_policy F cursor) (\<lambda>base. Some (base @ missing)))"

section \<open>The file policy\<close>

record file_policy_extension =
  fp_primary_root :: "path option"
  fp_normalized_allowed_roots :: "path list"
  fp_resolution_root :: "path option"
  fp_canon_resolution_root :: "path option"

definition file_policy_from_roots :: "file_system \<Rightarrow> path list \<Rightarrow> path option \<Rightarrow> path option \<Rightarrow> file_policy_extension" where
  "file_policy_from_roots F allowed_roots primary_root resolution_root =
     \<lparr>fp_primary_root = primary_root,
      fp_normalized_allowed_roots = map (normalize_path_for_policy F) allowed_roots,
      fp_resolution_root = resolution_root,
      fp_canon_resolution_root = Option.bind resolution_root (canonicalize_existing_path_for_policy F)\<rparr>"

definition file_policy_new :: "file_system \<Rightarrow> path option \<Rightarrow> file_policy_extension" where
  "file_policy_new F access_root =
     file_policy_from_roots F (case access_root of None \<Rightarrow> [] | Some r \<Rightarrow> [r]) access_root access_root"

definition file_policy_with_resolution_root :: "file_system \<Rightarrow> path option \<Rightarrow> path option \<Rightarrow> file_policy_extension" where
  "file_policy_with_resolution_root F access_root resolution_root =
     file_policy_from_roots F (case access_root of None \<Rightarrow> [] | Some r \<Rightarrow> [r]) access_root
       (case resolution_root of Some r \<Rightarrow> Some r | None \<Rightarrow> access_root)"

definition configured_roots :: "'x tool_runtime_config \<Rightarrow> path list" where
  "configured_roots c =
     (let roots = (case rc_file_root c of None \<Rightarrow> [] | Some r \<Rightarrow> [r]) in
      case rc_workspace_root c of
        None \<Rightarrow> roots
      | Some w \<Rightarrow> if list_all (\<lambda>root. root \<noteq> w) roots then roots @ [w] else roots)"

definition file_policy_from_runtime_config :: "file_system \<Rightarrow> 'x tool_runtime_config \<Rightarrow> file_policy_extension" where
  "file_policy_from_runtime_config F c =
     (let allowed_roots = configured_roots c;
          primary_root = (case allowed_roots of [] \<Rightarrow> None | r # _ \<Rightarrow> Some r);
          resolution_root = (case path_resolution_root c of Some r \<Rightarrow> Some r | None \<Rightarrow> primary_root)
      in file_policy_from_roots F allowed_roots primary_root resolution_root)"

definition path_is_within_allowed_roots :: "file_policy_extension \<Rightarrow> path \<Rightarrow> bool" where
  "path_is_within_allowed_roots P p \<longleftrightarrow>
     list_ex (\<lambda>allowed_root. path_starts_with p allowed_root) (fp_normalized_allowed_roots P)"

definition path_escapes_root :: "file_system \<Rightarrow> file_policy_extension \<Rightarrow> string \<Rightarrow> bool" where
  "path_escapes_root F P raw_path =
     (if fp_normalized_allowed_roots P = [] then False
      else
        let resolution_root = (case fp_resolution_root P of Some r \<Rightarrow> Some r | None \<Rightarrow> fp_primary_root P) in
        case (case fp_canon_resolution_root P of Some r \<Rightarrow> Some r | None \<Rightarrow> resolution_root) of
          None \<Rightarrow> False
        | Some effective_root \<Rightarrow>
            let candidate = path_of_text raw_path;
                combined = (if is_absolute candidate then candidate else path_join effective_root candidate) in
            case fs_canonicalize F combined of
              Inr canon \<Rightarrow> \<not> path_is_within_allowed_roots P canon
            | Inl _ \<Rightarrow>
                if fs_is_symlink F combined then
                  (case fs_read_link F combined of
                     Some target \<Rightarrow>
                       if is_absolute target then \<not> path_is_within_allowed_roots P (normalize_path_for_policy F target)
                       else
                         let raw_parent = (case path_parent combined of Some p \<Rightarrow> p | None \<Rightarrow> effective_root) in
                         (case canonicalize_existing_path_for_policy F raw_parent of
                            None \<Rightarrow> True
                          | Some symlink_parent \<Rightarrow>
                              \<not> path_is_within_allowed_roots P
                                (normalize_path_for_policy F (path_join symlink_parent target)))
                   | None \<Rightarrow> True)
                else
                  (case reconstruct_from_existing_ancestor F combined of
                     Some reconstructed \<Rightarrow>
                       \<not> path_is_within_allowed_roots P (normalize_path_for_policy F reconstructed)
                   | None \<Rightarrow> \<not> path_is_within_allowed_roots P (normalize_without_fs combined)))"

definition raw_paths_for_request :: "tool_names \<Rightarrow> string \<Rightarrow> (string, 'n json) btree \<Rightarrow> string list" where
  "raw_paths_for_request N tool_name payload =
     (let field = (\<lambda>k. case trimmed_non_empty (get_str payload k) of None \<Rightarrow> [] | Some s \<Rightarrow> [s]) in
      if canonical_tool_name N tool_name = ''config.import'' then field ''input_path'' @ field ''output_path''
      else field ''root'' @ field ''path'')"

definition authorize_file_payload ::
  "file_system \<Rightarrow> tool_names \<Rightarrow> file_policy_extension \<Rightarrow> string \<Rightarrow> (string, 'n json) btree \<Rightarrow> policy_error + unit" where
  "authorize_file_payload F N P tool_name payload =
     (case fp_primary_root P of
        None \<Rightarrow> Inr ()
      | Some root \<Rightarrow>
          (case find (path_escapes_root F P) (raw_paths_for_request N tool_name payload) of
             None \<Rightarrow> Inr ()
           | Some raw_path \<Rightarrow> Inl (ExtensionDenied ''file-policy''
               (''path `'' @ raw_path @ ''` escapes file root `'' @ path_text root @ ''`''))))"

definition authorize_direct_file_payload ::
  "file_system \<Rightarrow> tool_names \<Rightarrow> string \<Rightarrow> (string, 'n json) btree \<Rightarrow> 'x tool_runtime_config \<Rightarrow> string + unit" where
  "authorize_direct_file_payload F N tool_name payload c =
     map_err (\<lambda>e. ''policy_denied: '' @ policy_error_to_string e)
       (authorize_file_payload F N (file_policy_from_runtime_config F c) tool_name payload)"

section \<open>Capabilities of a file request\<close>

text \<open>The surfaces of tools (tool_surface.rs), a static table.\<close>

record tool_surfaces =
  ts_is_surface_id :: "string \<Rightarrow> bool"
  ts_direct_tool_name :: "string \<Rightarrow> string option"

definition direct_tool_name_for_hidden_tool :: "tool_names \<Rightarrow> tool_surfaces \<Rightarrow> string \<Rightarrow> string option" where
  "direct_tool_name_for_hidden_tool N T raw =
     (let canonical = canonical_tool_name N raw in
      if canonical = ''shell.exec'' then Some ''bash'' else ts_direct_tool_name T canonical)"

definition user_visible_tool_name :: "tool_names \<Rightarrow> tool_surfaces \<Rightarrow> string \<Rightarrow> string" where
  "user_visible_tool_name N T raw =
     (let canonical = canonical_tool_name N raw in
      if canonical = ''tool.search'' then ''discovery''
      else if canonical = ''tool.invoke'' then ''hidden tool''
      else if ts_is_surface_id T canonical then canonical
      else case direct_tool_name_for_hidden_tool N T canonical of Some direct \<Rightarrow> direct | None \<Rightarrow> canonical)"

definition config_import_mode :: "(string, 'n json) btree \<Rightarrow> string" where
  "config_import_mode payload =
     (case trimmed_non_empty (get_str payload ''mode'') of Some mode \<Rightarrow> mode | None \<Rightarrow> ''plan'')"

definition config_import_mode_requires_write :: "(string, 'n json) btree \<Rightarrow> bool" where
  "config_import_mode_requires_write payload \<longleftrightarrow>
     config_import_mode payload \<in> {''apply'', ''apply_selected'', ''rollback_last_apply''}"

definition file_required_capabilities ::
  "tool_names \<Rightarrow> tool_surfaces \<Rightarrow> string \<Rightarrow> (string, 'n json) btree \<Rightarrow> capability set" where
  "file_required_capabilities N T tool_name payload =
     (let visible = user_visible_tool_name N T tool_name in
      if visible = ''read'' then {FilesystemRead}
      else if visible = ''write'' \<or> visible = ''edit'' then {FilesystemWrite}
      else if tool_name \<in> {''memory.retrieve'', ''memory_search'', ''memory_get''} then {FilesystemRead}
      else if tool_name = ''config.import'' then
        {FilesystemRead} \<union> (if config_import_mode_requires_write payload then {FilesystemWrite} else {})
      else {})"

definition file_policy_authorize_extension ::
  "file_system \<Rightarrow> tool_names \<Rightarrow> tool_surfaces \<Rightarrow> file_policy_extension \<Rightarrow> 'n json policy_extension_context \<Rightarrow>
   policy_error + unit" where
  "file_policy_authorize_extension F N T P context =
     (case pec_request_parameters context of
        None \<Rightarrow> Inr ()
      | Some params \<Rightarrow>
          (let tool_name = canonical_tool_name N (tpp_tool_name params) in
           case json_as_object (tpp_payload params) of
             None \<Rightarrow> Inr ()
           | Some payload \<Rightarrow>
               (let required = file_required_capabilities N T tool_name payload in
                if required = {} then Inr ()
                else case find (\<lambda>c. c \<notin> token_allowed_capabilities (pec_token context)) (caps_in_order required) of
                  Some missing \<Rightarrow> Inl (ExtensionDenied ''file-policy''
                    (''tool `'' @ user_visible_tool_name N T tool_name @ ''` requires capability `'' @
                     capability_debug missing @ ''` not granted to token''))
                | None \<Rightarrow> authorize_file_payload F N P tool_name payload)))"

definition file_policy_kernel_extension ::
  "file_system \<Rightarrow> tool_names \<Rightarrow> tool_surfaces \<Rightarrow> file_policy_extension \<Rightarrow> 'n json policy_extension" where
  "file_policy_kernel_extension F N T P =
     \<lparr>policy_extension_name = ''file-policy'', authorize_extension = file_policy_authorize_extension F N T P\<rparr>"

section \<open>Resolution by the file tools\<close>

definition canonicalize_or_fallback :: "file_system \<Rightarrow> path \<Rightarrow> string + path" where
  "canonicalize_or_fallback F p =
     (if fs_exists F p then map_err (\<lambda>e. ''failed to canonicalize '' @ path_text p @ '': '' @ e) (fs_canonicalize F p)
      else Inr (normalize_without_fs p))"

definition collect_allowed_roots :: "file_system \<Rightarrow> 'x tool_runtime_config \<Rightarrow> string + path list" where
  "collect_allowed_roots F c =
     (let raw_roots = configured_roots c;
          raw_roots = (if raw_roots = [] then [current_dir_or_dot F] else raw_roots)
      in try_map (canonicalize_or_fallback F) raw_roots)"

definition ensure_path_within_allowed_roots :: "path list \<Rightarrow> path \<Rightarrow> path \<Rightarrow> string + unit" where
  "ensure_path_within_allowed_roots allowed_roots primary_root p =
     (if list_ex (\<lambda>allowed_root. path_starts_with p allowed_root) allowed_roots then Inr ()
      else Inl (''policy_denied: file path '' @ path_text p @ '' escapes configured file root '' @ path_text primary_root))"

definition split_existing_ancestor :: "file_system \<Rightarrow> path \<Rightarrow> string + path \<times> string list" where
  "split_existing_ancestor F p =
     (case existing_ancestor F p [] of
        Some r \<Rightarrow> Inr r
      | None \<Rightarrow> Inl (''cannot resolve existing ancestor for '' @ path_text p))"

definition resolve_path_within_allowed_roots :: "file_system \<Rightarrow> path list \<Rightarrow> path \<Rightarrow> path \<Rightarrow> string + path" where
  "resolve_path_within_allowed_roots F allowed_roots primary_root normalized =
     (if fs_exists F normalized then
        try_bind (map_err (\<lambda>e. ''failed to canonicalize target file path '' @ path_text normalized @ '': '' @ e)
          (fs_canonicalize F normalized)) (\<lambda>canonical.
        try_bind (ensure_path_within_allowed_roots allowed_roots primary_root canonical) (\<lambda>_.
          Inr canonical))
      else
        try_bind (split_existing_ancestor F normalized) (\<lambda>(ancestor, missing).
        try_bind (map_err (\<lambda>e. ''failed to canonicalize ancestor '' @ path_text ancestor @ '': '' @ e)
          (fs_canonicalize F ancestor)) (\<lambda>canonical_ancestor.
        try_bind (ensure_path_within_allowed_roots allowed_roots primary_root canonical_ancestor) (\<lambda>_.
        try_bind (ensure_path_within_allowed_roots allowed_roots primary_root (canonical_ancestor @ missing)) (\<lambda>_.
          Inr (canonical_ancestor @ missing))))))"

definition resolve_safe_file_path :: "file_system \<Rightarrow> 'x tool_runtime_config \<Rightarrow> string \<Rightarrow> string + path" where
  "resolve_safe_file_path F c raw =
     try_bind (collect_allowed_roots F c) (\<lambda>allowed_roots.
       let primary_root = (case allowed_roots of r # _ \<Rightarrow> r | [] \<Rightarrow> current_dir_or_dot F);
           resolution_root = (case path_resolution_root c of Some r \<Rightarrow> r | None \<Rightarrow> primary_root);
           candidate = path_of_text raw;
           combined = (if is_absolute candidate then candidate else path_join resolution_root candidate)
       in resolve_path_within_allowed_roots F allowed_roots primary_root (normalize_without_fs combined))"

definition resolve_safe_directory_path :: "file_system \<Rightarrow> 'x tool_runtime_config \<Rightarrow> string \<Rightarrow> string + path" where
  "resolve_safe_directory_path F c raw =
     try_bind (resolve_safe_file_path F c raw) (\<lambda>resolved.
       if \<not> fs_exists F resolved then Inl (''policy_denied: shell cwd '' @ path_text resolved @ '' does not exist'')
       else if \<not> fs_is_dir F resolved then Inl (''policy_denied: shell cwd '' @ path_text resolved @ '' is not a directory'')
       else Inr resolved)"

end
