(* ===== verification/Shell_Policy.thy ===== *)
theory Shell_Policy
  imports Tool_Paths
begin

text \<open>
  The policy on shell commands (crates/app/src/tools/shell_policy_ext.rs): the check of a
  command's name, the decision on it, the approval that trusted code can put into the reserved
  context, and the policy extension the kernel asks.
\<close>

section \<open>Names of commands\<close>

definition repairable_tool_input_prefix :: string where
  "repairable_tool_input_prefix = ''repairable_tool_input: ''"

definition repairable_tool_input_reason :: "string \<Rightarrow> string" where
  "repairable_tool_input_reason reason = repairable_tool_input_prefix @ reason"

definition is_repairable_tool_input_reason :: "string \<Rightarrow> bool" where
  "is_repairable_tool_input_reason reason \<longleftrightarrow> prefix repairable_tool_input_prefix reason"

definition strip_repairable_tool_input_prefix :: "string \<Rightarrow> string" where
  "strip_repairable_tool_input_prefix reason =
     (if prefix repairable_tool_input_prefix reason then drop (length repairable_tool_input_prefix) reason else reason)"

definition missing_command_reason :: string where
  "missing_command_reason = repairable_tool_input_reason
     ''shell.exec requires payload.command. Provide a bare executable in payload.command and move arguments into payload.args.''"

definition validate_shell_command_name :: "string \<Rightarrow> string + string" where
  "validate_shell_command_name command =
     (let trimmed = trim command in
      if trimmed = [] then Inl missing_command_reason
      else if line_feed \<in> set trimmed \<or> carriage_return \<in> set trimmed then Inl missing_command_reason
      else if contains_whitespace trimmed then
        Inl (repairable_tool_input_reason
          ''shell.exec payload.command must be a bare executable name; move arguments into payload.args.'')
      else if CHR ''/'' \<in> set trimmed \<or> backslash \<in> set trimmed then
        Inl (repairable_tool_input_reason (''shell.exec payload.command `'' @ trimmed @
          ''` must be a bare lowercase executable name without path separators.''))
      else if trimmed \<noteq> to_ascii_lowercase trimmed then
        Inl (''policy_denied: shell command `'' @ trimmed @
          ''` must use a lowercase bare command name to match shell policy'')
      else Inr (to_ascii_lowercase trimmed))"

section \<open>Approvals\<close>

definition shell_exec_approval_key_for_normalized_command :: "string \<Rightarrow> string" where
  "shell_exec_approval_key_for_normalized_command command = ''tool:shell.exec:'' @ command"

definition shell_exec_internal_approval_context :: "string \<Rightarrow> 'n json" where
  "shell_exec_internal_approval_context approval_key =
     json_object [(''shell_approval'', json_object [(''approval_key'', JString approval_key)])]"

definition shell_exec_matches_trusted_internal_approval :: "(string, 'n json) btree \<Rightarrow> string \<Rightarrow> bool" where
  "shell_exec_matches_trusted_internal_approval payload approval_key \<longleftrightarrow>
     Option.bind (trusted_internal_tool_context_from_payload (JObject payload)) (\<lambda>context.
     Option.bind (bt_get context ''shell_approval'') (\<lambda>approval.
     Option.bind (json_as_object approval) (\<lambda>approval.
     Option.bind (bt_get approval ''approval_key'') json_as_str))) = Some approval_key"

section \<open>The extension\<close>

record tool_policy_extension =
  tp_hard_deny :: "string set"
  tp_allow :: "string set"
  tp_default_mode :: shell_default

definition tool_policy_from_config :: "'x tool_runtime_config \<Rightarrow> tool_policy_extension" where
  "tool_policy_from_config rt =
     \<lparr>tp_hard_deny = rc_shell_deny rt, tp_allow = rc_shell_allow rt, tp_default_mode = rc_shell_default_mode rt\<rparr>"

definition authorize_shell_payload ::
  "tool_policy_extension \<Rightarrow> string \<Rightarrow> (string, 'n json) btree \<Rightarrow> policy_error + unit" where
  "authorize_shell_payload E tool_name payload =
     (case get_str payload ''command'' of
        None \<Rightarrow> Inr ()
      | Some command \<Rightarrow>
          if trim command = [] then Inr ()
          else case validate_shell_command_name (trim command) of
            Inl reason \<Rightarrow> Inl (ToolCallDenied tool_name reason)
          | Inr basename \<Rightarrow>
              if basename \<in> tp_hard_deny E then
                Inl (ToolCallDenied tool_name (''command `'' @ basename @ ''` is blocked by shell policy''))
              else if basename \<in> tp_allow E then Inr ()
              else if shell_exec_matches_trusted_internal_approval payload
                  (shell_exec_approval_key_for_normalized_command basename) then Inr ()
              else (case tp_default_mode E of
                  ShellAllow \<Rightarrow> Inr ()
                | ShellDeny \<Rightarrow> Inl (ToolCallDenied tool_name
                    (''command `'' @ basename @ ''` is not in the allow list (default-deny policy)''))))"

definition authorize_direct_shell_payload :: "(string, 'n json) btree \<Rightarrow> 'x tool_runtime_config \<Rightarrow> string + unit" where
  "authorize_direct_shell_payload payload rt =
     map_err (\<lambda>e. ''policy_denied: '' @ policy_error_to_string e)
       (authorize_shell_payload (tool_policy_from_config rt) ''shell.exec'' payload)"

text \<open>The kernel passes an object with the tool's name and its payload.\<close>

definition effective_shell_request :: "tool_names \<Rightarrow> 'n json tool_policy_params \<Rightarrow> string \<times> 'n json option" where
  "effective_shell_request N params = (canonical_tool_name N (tpp_tool_name params), Some (tpp_payload params))"

definition tool_policy_authorize_extension ::
  "tool_names \<Rightarrow> tool_policy_extension \<Rightarrow> 'n json policy_extension_context \<Rightarrow> policy_error + unit" where
  "tool_policy_authorize_extension N E context =
     (case pec_request_parameters context of
        None \<Rightarrow> Inr ()
      | Some params \<Rightarrow>
          (case effective_shell_request N params of (tool_name, payload) \<Rightarrow>
             if tool_name \<noteq> ''shell.exec'' then Inr ()
             else case Option.bind payload json_as_object of
               None \<Rightarrow> Inr ()
             | Some payload \<Rightarrow> authorize_shell_payload E tool_name payload))"

definition tool_policy_kernel_extension :: "tool_names \<Rightarrow> tool_policy_extension \<Rightarrow> 'n json policy_extension" where
  "tool_policy_kernel_extension N E =
     \<lparr>policy_extension_name = ''tool-policy'', authorize_extension = tool_policy_authorize_extension N E\<rparr>"

end
