(* ===== verification/Process_Tools.thy ===== *)
theory Process_Tools
  imports Shell_Policy Web_Requests
begin

text \<open>
  The tools that run processes: shell.exec (crates/app/src/tools/shell.rs) and bash.exec (bash.rs),
  how a command's program is found (crates/app/src/process_launch.rs), and how a process is started
  (process_exec.rs). The operating system is an argument: which files and programs exist, what a
  file starts with, starting a process and waiting for it. The working directory, the check of a
  request and the decision come before that.
\<close>

section \<open>The program of a command\<close>

text \<open>What the system says: files, the search in \<open>PATH\<close> and in the standard path, headers of files.\<close>

record launcher =
  la_is_file :: "string \<Rightarrow> bool"
  la_which :: "string \<Rightarrow> string option"
  la_which_standard :: "path \<Rightarrow> string \<Rightarrow> string option"
  la_current_dir :: path
  la_header :: "string \<Rightarrow> string option"

record command_invocation =
  ci_program :: string
  ci_args :: "string list"

definition resolve_existing_command_path :: "launcher \<Rightarrow> string \<Rightarrow> string option" where
  "resolve_existing_command_path L command =
     (if la_is_file L command then Some command
      else case la_which L command of
        Some discovered \<Rightarrow> Some discovered
      | None \<Rightarrow> la_which_standard L (la_current_dir L) command)"

text \<open>The header is what one read of up to 256 bytes gives.\<close>

definition read_shebang :: "launcher \<Rightarrow> string \<Rightarrow> string option" where
  "read_shebang L file =
     Option.bind (la_header L file) (\<lambda>header.
       if take 2 header \<noteq> ''#!'' then None
       else
         let line = drop 2 (takeWhile (\<lambda>c. c \<noteq> newline) header) in
         if \<not> utf8_valid line then None
         else
           let trimmed = rev (dropWhile (\<lambda>c. c = carriage_return) (rev (trim line))) in
           if trimmed = [] then None else Some trimmed)"

text \<open>The text before the first white space, and the rest from it on.\<close>

fun split_at_whitespace :: "string \<Rightarrow> string \<times> string option" where
  "split_at_whitespace [] = ([], None)"
| "split_at_whitespace (c # s) =
     (if list_ex (\<lambda>w. prefix w (c # s)) whitespace_encodings then ([], Some (c # s))
      else case split_at_whitespace s of (front, rest) \<Rightarrow> (c # front, rest))"

definition resolve_shebang_invocation :: "launcher \<Rightarrow> string \<Rightarrow> string list \<Rightarrow> command_invocation option" where
  "resolve_shebang_invocation L script_path args =
     Option.bind (read_shebang L script_path) (\<lambda>shebang.
       case split_at_whitespace (trim shebang) of (interpreter, rest) \<Rightarrow>
         let remainder = (case rest of None \<Rightarrow> [] | Some r \<Rightarrow> trim_start r) in
         Some \<lparr>ci_program = interpreter,
           ci_args = (if remainder = [] then [] else [remainder]) @ script_path # args\<rparr>)"

definition resolve_command_invocation :: "launcher \<Rightarrow> string \<Rightarrow> string list \<Rightarrow> command_invocation" where
  "resolve_command_invocation L command args =
     (case resolve_existing_command_path L command of
        Some resolved \<Rightarrow>
          (case resolve_shebang_invocation L resolved args of
             Some invocation \<Rightarrow> invocation
           | None \<Rightarrow> \<lparr>ci_program = resolved, ci_args = args\<rparr>)
      | None \<Rightarrow> \<lparr>ci_program = command, ci_args = args\<rparr>)"

section \<open>Processes\<close>

record spawn_request =
  sp_program :: string
  sp_args :: "string list"
  sp_cwd :: path
  sp_env :: "(string \<times> string) list"

datatype spawn_error = ExecutableFileBusy string | OtherSpawnError string

record process_outcome =
  po_success :: bool
  po_code :: "nat option"
  po_stdout :: string
  po_stderr :: string

record 'w process_os =
  os_files :: file_system
  os_launcher :: launcher
  os_lossy :: "string \<Rightarrow> string"
  os_environment :: "(string \<times> string) list"
  os_spawn :: "spawn_request \<Rightarrow> 'w \<Rightarrow> (spawn_error + nat) \<times> 'w"
  os_wait :: "nat \<Rightarrow> u64 \<Rightarrow> 'w \<Rightarrow> (string + process_outcome) \<times> 'w"
  os_pause :: "'w \<Rightarrow> 'w"

definition spawn_error_text :: "spawn_error \<Rightarrow> string" where
  "spawn_error_text e = (case e of ExecutableFileBusy t \<Rightarrow> t | OtherSpawnError t \<Rightarrow> t)"

text \<open>At most the given number of attempts, with a pause after each that found the file busy.\<close>

fun retry_executable_file_busy :: "('w \<Rightarrow> (spawn_error + 'a) \<times> 'w) \<Rightarrow> ('w \<Rightarrow> 'w) \<Rightarrow> nat \<Rightarrow> 'w \<Rightarrow> (spawn_error + 'a) \<times> 'w" where
  "retry_executable_file_busy operation pause 0 w = (Inl (OtherSpawnError ''max_attempts must be > 0''), w)"
| "retry_executable_file_busy operation pause (Suc 0) w = operation w"
| "retry_executable_file_busy operation pause (Suc (Suc n)) w =
     (case operation w of
        (Inl (ExecutableFileBusy e), w) \<Rightarrow> retry_executable_file_busy operation pause (Suc n) (pause w)
      | (r, w) \<Rightarrow> (r, w))"

definition resolve_process_program :: "launcher \<Rightarrow> path \<Rightarrow> string \<Rightarrow> string" where
  "resolve_process_program L cwd program =
     (if 1 < length (path_of_text program) then program
      else case la_which L program of
        Some resolved \<Rightarrow> resolved
      | None \<Rightarrow> (case la_which_standard L cwd program of Some resolved \<Rightarrow> resolved | None \<Rightarrow> program))"

definition run_process_with_timeout ::
  "'w process_os \<Rightarrow> command_invocation \<Rightarrow> path \<Rightarrow> u64 \<Rightarrow> string \<Rightarrow> 'w \<Rightarrow> (string + process_outcome) \<times> 'w" where
  "run_process_with_timeout OS invocation cwd timeout_ms error_prefix w =
     (let request = \<lparr>sp_program = resolve_process_program (os_launcher OS) cwd (ci_program invocation),
            sp_args = ci_args invocation, sp_cwd = cwd, sp_env = sanitized_child_process_env (os_lossy OS) (os_environment OS)\<rparr>
      in and_then (let (r, w) = retry_executable_file_busy (os_spawn OS request) (os_pause OS) 5 w
           in (map_err (\<lambda>e. error_prefix @ '' spawn failed: '' @ spawn_error_text e) r, w)) (\<lambda>child w.
         let (r, w) = os_wait OS child (max timeout_ms 1) w
         in (map_err (\<lambda>e. error_prefix @ '' '' @ e) r, w)))"

section \<open>Working directories and time limits\<close>

definition parse_optional_process_cwd :: "(string, 'n json) btree \<Rightarrow> string \<Rightarrow> string + string option" where
  "parse_optional_process_cwd payload tool_name =
     (case bt_get payload ''cwd'' of
        None \<Rightarrow> Inr None
      | Some v \<Rightarrow>
          (case json_as_str v of
             None \<Rightarrow> Inl (tool_name @ '' payload.cwd must be a string'')
           | Some raw \<Rightarrow> Inr (if trim raw = [] then None else Some (trim raw))))"

definition default_process_cwd :: "file_system \<Rightarrow> 'x tool_runtime_config \<Rightarrow> path" where
  "default_process_cwd F c = (case path_resolution_root c of Some root \<Rightarrow> root | None \<Rightarrow> current_dir_or_dot F)"

text \<open>\<open>fs_canonicalize\<close> fails with the error that inspecting a missing directory gives.\<close>

definition canonicalize_existing_directory :: "file_system \<Rightarrow> path \<Rightarrow> string \<Rightarrow> string + path" where
  "canonicalize_existing_directory F p tool_name =
     (case fs_canonicalize F p of
        Inl e \<Rightarrow> Inl (''failed to inspect '' @ tool_name @ '' cwd `'' @ path_text p @ ''`: '' @ e)
      | Inr canonical \<Rightarrow>
          if \<not> fs_is_dir F p then Inl (tool_name @ '' cwd `'' @ path_text p @ ''` is not a directory'')
          else Inr canonical)"

definition resolve_process_cwd_override ::
  "file_system \<Rightarrow> 'x tool_runtime_config \<Rightarrow> string \<Rightarrow> string \<Rightarrow> string + path" where
  "resolve_process_cwd_override F c raw_cwd tool_name =
     (if filesystem_access_root c \<noteq> None then resolve_safe_directory_path F c raw_cwd
      else
        let requested = path_of_text raw_cwd;
            base = (if is_absolute requested then requested else path_join (current_dir_or_dot F) requested)
        in canonicalize_existing_directory F base tool_name)"

definition resolve_process_cwd ::
  "file_system \<Rightarrow> 'x tool_runtime_config \<Rightarrow> (string, 'n json) btree \<Rightarrow> string \<Rightarrow> string + path" where
  "resolve_process_cwd F c payload tool_name =
     try_bind (parse_optional_process_cwd payload tool_name) (\<lambda>raw_cwd.
     try_bind (case raw_cwd of
         Some raw \<Rightarrow> resolve_process_cwd_override F c raw tool_name
       | None \<Rightarrow> Inr (default_process_cwd F c)) (\<lambda>resolved.
       if \<not> fs_is_dir F resolved then Inl (tool_name @ '' cwd `'' @ path_text resolved @ ''` is not a directory'')
       else Inr resolved))"

definition clamp_timeout :: "u64 \<Rightarrow> u64" where
  "clamp_timeout ms = min (max ms 1000) 600000"

definition parse_timeout_ms :: "'n tool_json \<Rightarrow> (string, 'n json) btree \<Rightarrow> string \<Rightarrow> string + u64" where
  "parse_timeout_ms J payload tool_name =
     (case bt_get payload ''timeout_ms'' of
        None \<Rightarrow> Inr (clamp_timeout 120000)
      | Some v \<Rightarrow>
          (case json_as_u64 J v of
             None \<Rightarrow> Inl (tool_name @ '' payload.timeout_ms must be an integer'')
           | Some ms \<Rightarrow> Inr (clamp_timeout ms)))"

text \<open>The details of an outcome, which process_exec.rs derives from the captured output, are an argument.\<close>

definition build_process_tool_outcome ::
  "'n tool_json \<Rightarrow> (process_outcome \<Rightarrow> 'n json) \<Rightarrow> string \<Rightarrow> string \<Rightarrow> string list option \<Rightarrow> path \<Rightarrow> process_outcome \<Rightarrow>
   'n json tool_core_outcome" where
  "build_process_tool_outcome J details tool_name command args cwd outcome =
     \<lparr>tpco_status = (if po_success outcome then ''ok'' else ''failed''),
      tpco_payload = json_object
        ([(''adapter'', JString ''core-tools''), (''tool_name'', JString tool_name), (''command'', JString command)] @
         (case args of None \<Rightarrow> [] | Some args \<Rightarrow> [(''args'', JArray (map JString args))]) @
         [(''cwd'', JString (path_text cwd)),
          (''exit_code'', (case po_code outcome of None \<Rightarrow> JNull | Some code \<Rightarrow> number_json J code)),
          (''stdout'', JString (trim (po_stdout outcome))), (''stderr'', JString (trim (po_stderr outcome))),
          (''details'', details outcome)])\<rparr>"

section \<open>shell.exec\<close>

definition shell_args :: "(string, 'n json) btree \<Rightarrow> string list" where
  "shell_args payload =
     (case Option.bind (bt_get payload ''args'') json_as_array of
        None \<Rightarrow> []
      | Some values \<Rightarrow> List.map_filter json_as_str values)"

text \<open>The checks before the process: the command as given, its arguments, directory, time limit and program.\<close>

definition prepare_shell_exec ::
  "'n tool_json \<Rightarrow> file_system \<Rightarrow> 'x tool_runtime_config \<Rightarrow> 'n json \<Rightarrow>
   string + string \<times> string list \<times> path \<times> u64 \<times> string" where
  "prepare_shell_exec J F c payload =
     (case json_as_object payload of
        None \<Rightarrow> Inl ''shell.exec payload must be an object''
      | Some payload \<Rightarrow>
          (case trimmed_non_empty (get_str payload ''command'') of
             None \<Rightarrow> Inl ''shell.exec requires payload.command''
           | Some command \<Rightarrow>
               try_bind (resolve_process_cwd F c payload ''shell.exec'') (\<lambda>cwd.
               try_bind (parse_timeout_ms J payload ''shell.exec'') (\<lambda>timeout_ms.
               try_bind (validate_shell_command_name command) (\<lambda>basename.
                 if basename \<in> rc_shell_deny c then
                   Inl (''policy_denied: shell command `'' @ basename @ ''` is blocked by shell policy'')
                 else if basename \<notin> rc_shell_allow c \<and> rc_shell_default_mode c \<noteq> ShellAllow \<and>
                     \<not> shell_exec_matches_trusted_internal_approval payload
                       (shell_exec_approval_key_for_normalized_command basename) then
                   Inl (''policy_denied: shell command `'' @ basename @ ''` is not in the allow list (default-deny policy)'')
                 else Inr (command, shell_args payload, cwd, timeout_ms, basename))))))"

definition execute_shell_tool ::
  "'n tool_json \<Rightarrow> (process_outcome \<Rightarrow> 'n json) \<Rightarrow> 'w process_os \<Rightarrow> 'x tool_runtime_config \<Rightarrow>
   'n json tool_core_request \<Rightarrow> 'w \<Rightarrow> (string + 'n json tool_core_outcome) \<times> 'w" where
  "execute_shell_tool J details OS c request w =
     and_then (prepare_shell_exec J (os_files OS) c (tpcq_payload request), w)
       (\<lambda>(command, args, cwd, timeout_ms, basename) w.
     and_then (run_process_with_timeout OS (resolve_command_invocation (os_launcher OS) basename args) cwd
       timeout_ms ''shell command'' w) (\<lambda>outcome w.
     (Inr (build_process_tool_outcome J details (tpcq_tool_name request) command (Some args) cwd outcome), w)))"

section \<open>bash.exec\<close>

definition bash_exec_allowed_fields :: "string list" where
  "bash_exec_allowed_fields =
     [''command'', ''cwd'', ''timeout_ms'', loong_internal_tool_context_key, loong_internal_tool_context_key]"

definition bash_exec_args :: "string \<Rightarrow> bool \<Rightarrow> string list" where
  "bash_exec_args command login_shell = (if login_shell then [''-lc'', command] else [''-c'', command])"

definition reject_unknown_bash_exec_fields :: "(string, 'n json) btree \<Rightarrow> string + unit" where
  "reject_unknown_bash_exec_fields payload =
     (let unknown = sort (filter (\<lambda>field. field \<notin> set bash_exec_allowed_fields) (map fst payload)) in
      if unknown = [] then Inr ()
      else Inl (''bash.exec payload contains unknown field(s): '' @ join_text '', '' unknown))"

record bash_exec_input =
  bi_command :: string
  bi_cwd :: path
  bi_timeout_ms :: u64

definition parse_bash_exec_input ::
  "'n tool_json \<Rightarrow> file_system \<Rightarrow> 'n json \<Rightarrow> 'x tool_runtime_config \<Rightarrow> string + bash_exec_input" where
  "parse_bash_exec_input J F payload c =
     (case json_as_object payload of
        None \<Rightarrow> Inl ''bash.exec payload must be an object''
      | Some payload \<Rightarrow>
          try_bind (reject_unknown_bash_exec_fields payload) (\<lambda>_.
          try_bind (case trimmed_non_empty (get_str payload ''command'') of
              Some command \<Rightarrow> Inr command
            | None \<Rightarrow> Inl ''bash.exec requires payload.command'') (\<lambda>command.
          try_bind (resolve_process_cwd F c payload ''bash.exec'') (\<lambda>cwd.
          try_bind (parse_timeout_ms J payload ''bash.exec'') (\<lambda>timeout_ms.
            Inr \<lparr>bi_command = command, bi_cwd = cwd, bi_timeout_ms = timeout_ms\<rparr>)))))"

text \<open>The program bash is started with and whether as a login shell.\<close>

definition preflight_bash_runtime ::
  "(string \<Rightarrow> syntax_tree option) \<Rightarrow> 'x tool_runtime_config \<Rightarrow> string \<Rightarrow> string + string \<times> bool" where
  "preflight_bash_runtime parse c command =
     (let runtime = rc_bash_exec c in
      if \<not> bash_is_runtime_ready runtime then Inl ''bash unavailable''
      else case bgp_load_error (bep_governance runtime) of
        Some e \<Rightarrow> Inl (''policy_denied: bash governance rules failed to load: '' @ e)
      | None \<Rightarrow>
          (let governance = evaluate_bash_command parse command (bgp_rules (bep_governance runtime)) (rc_shell_default_mode c) in
           if go_final_decision governance = FinalDeny then
             Inl (''policy_denied: '' @ (case denial_reason governance of
               Some detail \<Rightarrow> detail | None \<Rightarrow> ''bash governance denied command''))
           else case bep_command runtime of
             None \<Rightarrow> Inl ''bash unavailable''
           | Some runtime_command \<Rightarrow> Inr (runtime_command, bep_login_shell runtime)))"

definition execute_bash_tool ::
  "'n tool_json \<Rightarrow> (process_outcome \<Rightarrow> 'n json) \<Rightarrow> (string \<Rightarrow> syntax_tree option) \<Rightarrow> 'w process_os \<Rightarrow>
   'x tool_runtime_config \<Rightarrow> 'n json tool_core_request \<Rightarrow> 'w \<Rightarrow> (string + 'n json tool_core_outcome) \<times> 'w" where
  "execute_bash_tool J details parse OS c request w =
     and_then (parse_bash_exec_input J (os_files OS) (tpcq_payload request) c, w) (\<lambda>input w.
     and_then (preflight_bash_runtime parse c (bi_command input), w) (\<lambda>(runtime_command, login_shell) w.
     and_then (run_process_with_timeout OS
       (resolve_command_invocation (os_launcher OS) runtime_command (bash_exec_args (bi_command input) login_shell))
       (bi_cwd input) (bi_timeout_ms input) ''bash command'' w) (\<lambda>outcome w.
     (Inr (build_process_tool_outcome J details (tpcq_tool_name request) (bi_command input) None (bi_cwd input) outcome), w))))"

end
