(* ===== verification/Tool_Routing.thy ===== *)
theory Tool_Routing
  imports Process_Tools
begin

text \<open>
  How a call of one of the direct tools becomes a call of an executor (crates/app/src/tools/routing.rs):
  the executor is found from the fields of the payload and, for the web and browser tools, from
  what is available in this runtime. A view is the set of the names it contains.
\<close>

section \<open>Fields of payloads\<close>

definition payload_has_non_empty_string_field :: "'n json \<Rightarrow> string \<Rightarrow> bool" where
  "payload_has_non_empty_string_field payload field_name \<longleftrightarrow>
     (case Option.bind (json_get payload field_name) json_as_str of None \<Rightarrow> False | Some value \<Rightarrow> trim value \<noteq> [])"

definition payload_has_non_null_field :: "'n json \<Rightarrow> string \<Rightarrow> bool" where
  "payload_has_non_null_field payload field_name \<longleftrightarrow>
     (case json_get payload field_name of
        None \<Rightarrow> False
      | Some value \<Rightarrow>
          value \<noteq> JNull \<and> (case json_as_str value of None \<Rightarrow> True | Some t \<Rightarrow> trim t \<noteq> []))"

definition non_empty_field_text :: "'n json \<Rightarrow> string \<Rightarrow> string option" where
  "non_empty_field_text payload field_name =
     trimmed_non_empty (Option.bind (json_get payload field_name) json_as_str)"

section \<open>Reading\<close>

datatype direct_read_route = ReadPath | ReadQuery | ReadPattern

primrec read_route_executor_name :: "direct_read_route \<Rightarrow> string" where
  "read_route_executor_name ReadPath = ''file.read''"
| "read_route_executor_name ReadQuery = ''content.search''"
| "read_route_executor_name ReadPattern = ''glob.search''"

definition classify_direct_read_route :: "'n json \<Rightarrow> string + direct_read_route" where
  "classify_direct_read_route payload =
     (let has_path = payload_has_non_empty_string_field payload ''path'';
          has_query = payload_has_non_empty_string_field payload ''query'';
          has_pattern = payload_has_non_empty_string_field payload ''pattern'' \<or>
            payload_has_non_empty_string_field payload ''glob''
      in if \<not> has_path \<and> \<not> has_query \<and> \<not> has_pattern then
           Inl ''direct_read_requires_one_of: expected exactly one of `path`, `query`, or `pattern`''
         else if has_path then Inr ReadPath
         else if has_query then Inr ReadQuery
         else Inr ReadPattern)"

definition route_direct_read_tool_name :: "'n json \<Rightarrow> string + string" where
  "route_direct_read_tool_name payload = try_bind (classify_direct_read_route payload) (\<lambda>_. Inr ''read'')"

definition normalize_direct_read_glob_alias_pattern :: "string \<Rightarrow> string" where
  "normalize_direct_read_glob_alias_pattern raw =
     (let trimmed = trim raw in
      if CHR ''|'' \<in> set trimmed \<and> CHR ''{'' \<notin> set trimmed \<and> CHR ''}'' \<notin> set trimmed then
        (let parts = filter (\<lambda>part. part \<noteq> []) (map trim (split_char CHR ''|'' trimmed)) in
         if 1 < length parts then ''{'' @ join_text '','' parts @ ''}'' else trimmed)
      else trimmed)"

definition normalize_direct_read_payload_for_route :: "direct_read_route \<Rightarrow> 'n json \<Rightarrow> 'n json" where
  "normalize_direct_read_payload_for_route route payload =
     (case payload of
        JObject members \<Rightarrow>
          (case route of
             ReadPath \<Rightarrow> JObject (fold bt_remove
               [''query'', ''pattern'', ''glob'', ''root'', ''max_results'', ''max_bytes_per_file'',
                ''case_sensitive'', ''include_directories''] members)
           | ReadQuery \<Rightarrow> JObject (fold bt_remove
               [''path'', ''pattern'', ''include_directories'', ''offset'', ''limit''] members)
           | ReadPattern \<Rightarrow>
               if trimmed_non_empty (get_str members ''pattern'') = None then
                 (case get_str members ''glob'' of
                    Some glob \<Rightarrow>
                      if trim glob = [] then JObject members
                      else JObject (bt_insert ''pattern'' (JString (normalize_direct_read_glob_alias_pattern glob)) members)
                  | None \<Rightarrow> JObject members)
               else JObject members)
      | _ \<Rightarrow> payload)"

section \<open>Writing, editing, commands and memory\<close>

definition route_direct_write_tool_name :: "'n json \<Rightarrow> string + string" where
  "route_direct_write_tool_name payload =
     (if \<not> payload_has_non_null_field payload ''path'' then
        Inl ''direct_write_requires_path: expected `path` for direct write''
      else if \<not> payload_has_non_null_field payload ''content'' then
        Inl ''direct_write_requires_content: expected `content`''
      else Inr ''write'')"

definition route_direct_edit_tool_name :: "'n json \<Rightarrow> string + string" where
  "route_direct_edit_tool_name payload =
     (if \<not> payload_has_non_null_field payload ''edits'' then
        Inl ''direct_edit_requires_edits: expected `edits`''
      else if \<not> payload_has_non_null_field payload ''path'' then
        Inl ''direct_edit_requires_path: expected `path` for direct edit''
      else Inr ''edit'')"

definition route_direct_bash_tool_name :: "'n json \<Rightarrow> string + string" where
  "route_direct_bash_tool_name payload =
     (if non_empty_field_text payload ''command'' = None then
        Inl ''direct_bash_requires_command: expected `command`''
      else Inr ''bash.exec'')"

definition count_true :: "bool list \<Rightarrow> nat" where
  "count_true values = length (filter (\<lambda>b. b) values)"

definition route_direct_memory_tool_name :: "'n json \<Rightarrow> string + string" where
  "route_direct_memory_tool_name payload =
     (let has_query = payload_has_non_null_field payload ''query'';
          has_path = payload_has_non_null_field payload ''path'';
          mode_count = count_true [has_query, has_path]
      in if mode_count = 0 then
           Inl ''direct_memory_requires_one_of: expected exactly one of `query` or `path`''
         else if 1 < mode_count then
           Inl ''direct_memory_ambiguous: provide either `query` or `path`, not both''
         else if has_query then Inr ''memory_search''
         else Inr ''memory_get'')"

section \<open>The web\<close>

definition route_direct_web_tool_name :: "'n json \<Rightarrow> string + string" where
  "route_direct_web_tool_name payload =
     (let has_url = payload_has_non_null_field payload ''url'';
          has_query = payload_has_non_null_field payload ''query'';
          request_mode = payload_has_non_null_field payload ''method'' \<or> payload_has_non_null_field payload ''headers'' \<or>
            payload_has_non_null_field payload ''body'' \<or> payload_has_non_null_field payload ''content_type''
      in if has_query then
           (if has_url \<or> request_mode then
              Inl ''direct_web_ambiguous: use `query` for search, or `url` plus optional request fields for fetch/request mode''
            else Inr ''web.search'')
         else if \<not> has_url then
           Inl ''direct_web_requires_query_or_url: expected `query`, or `url` for fetch/request mode''
         else if request_mode then Inr ''http.request''
         else Inr ''web.fetch'')"

record direct_web_runtime_modes =
  wm_query_search_available :: bool
  wm_fetch_available :: bool
  wm_request_available :: bool

definition direct_web_runtime_modes_for_view :: "string set \<Rightarrow> direct_web_runtime_modes" where
  "direct_web_runtime_modes_for_view view =
     \<lparr>wm_query_search_available = ''web.search'' \<in> view, wm_fetch_available = ''web.fetch'' \<in> view,
      wm_request_available = ''http.request'' \<in> view\<rparr>"

definition ordinary_network_access_available :: "direct_web_runtime_modes \<Rightarrow> bool" where
  "ordinary_network_access_available m \<longleftrightarrow> wm_fetch_available m \<or> wm_request_available m"

definition route_direct_web_tool_name_for_view :: "'n json \<Rightarrow> string set \<Rightarrow> string + string" where
  "route_direct_web_tool_name_for_view payload view =
     try_bind (route_direct_web_tool_name payload) (\<lambda>routed.
       let modes = direct_web_runtime_modes_for_view view;
           fetch_only_mode_requested = payload_has_non_null_field payload ''mode''
       in if routed = ''web.search'' \<and> \<not> wm_query_search_available modes then
            (if ordinary_network_access_available modes then
               Inl ''direct_web_search_unavailable: `web { query }` is unavailable in this runtime, but ordinary network access still works through `web { url }` or low-level request fields''
             else Inl ''direct_web_search_unavailable: `web { query }` is unavailable in this runtime'')
          else if routed = ''web.fetch'' \<and> \<not> wm_fetch_available modes then
            (if wm_request_available modes \<and> \<not> fetch_only_mode_requested then Inr ''http.request''
             else if wm_request_available modes then
               Inl ''direct_web_fetch_unavailable: plain fetch mode is unavailable in this runtime; low-level request mode is still available through `web { url, method }` or other request fields''
             else Inl ''direct_web_fetch_unavailable: plain fetch mode is unavailable in this runtime'')
          else if routed = ''http.request'' \<and> \<not> wm_request_available modes then
            (if wm_fetch_available modes then
               Inl ''direct_web_request_unavailable: low-level request mode is unavailable in this runtime, but ordinary `web { url }` fetch mode is still available''
             else Inl ''direct_web_request_unavailable: low-level request mode is unavailable in this runtime'')
          else Inr routed)"

section \<open>The browser\<close>

definition route_for_click :: "'n json \<Rightarrow> string + string" where
  "route_for_click payload =
     (if \<not> payload_has_non_null_field payload ''session_id'' then
        Inl ''direct_browser_page_click_requires_session_id: expected `session_id` for page click actions''
      else if payload_has_non_null_field payload ''link_id'' \<and> payload_has_non_null_field payload ''selector'' then
        Inl ''direct_browser_page_click_ambiguous: provide either `link_id` or `selector`, not both''
      else if payload_has_non_null_field payload ''link_id'' then Inr ''browser.click''
      else Inl ''direct_browser_page_click_requires_link_id: expected `link_id` for page-link click actions'')"

definition route_browser_page_tool_name :: "'n json \<Rightarrow> string + string" where
  "route_browser_page_tool_name payload =
     (let has_url = payload_has_non_null_field payload ''url'';
          has_session_id = payload_has_non_null_field payload ''session_id'';
          has_link_id = payload_has_non_null_field payload ''link_id'';
          has_selector = payload_has_non_null_field payload ''selector'';
          mode_value = map_option trim (Option.bind (json_get payload ''mode'') json_as_str)
      in case non_empty_field_text payload ''action'' of
        Some action \<Rightarrow>
          if action = ''open'' then
            (if has_url \<and> \<not> has_session_id then Inr ''browser.open''
             else Inl ''direct_browser_page_open_requires_url: expected `url` without `session_id`'')
          else if action = ''extract'' then
            (if has_session_id then Inr ''browser.extract''
             else Inl ''direct_browser_page_extract_requires_session_id: expected `session_id`'')
          else if action = ''click'' then route_for_click payload
          else Inl (''direct_browser_page_unknown_action: unknown page action `'' @ action @ ''`'')
      | None \<Rightarrow>
          if has_url then Inr ''browser.open''
          else if has_link_id then route_for_click payload
          else if has_selector then
            (if has_session_id then Inr ''browser.extract''
             else Inl ''direct_browser_page_extract_requires_session_id: expected `session_id` for selector-based page extraction'')
          else if mode_value \<in> Some ` set [''page_text'', ''title'', ''links'', ''selector_text''] then
            (if has_session_id then Inr ''browser.extract''
             else Inl ''direct_browser_page_extract_requires_session_id: expected `session_id` for page extraction'')
          else if has_session_id then Inr ''browser.extract''
          else Inl ''direct_browser_page_requires_actionable_fields: expected `url`, or `session_id` plus the fields for extract or click'')"

definition route_direct_browser_tool_name :: "'n json \<Rightarrow> string + string" where
  "route_direct_browser_tool_name payload =
     (let action = non_empty_field_text payload ''action'';
          has_url = payload_has_non_null_field payload ''url'';
          has_session_id = payload_has_non_null_field payload ''session_id''
      in if action = Some ''snapshot'' then Inr ''browser.companion.snapshot''
         else if action = Some ''wait'' \<or> payload_has_non_null_field payload ''condition'' \<or>
             payload_has_non_null_field payload ''timeout_ms'' then Inr ''browser.companion.wait''
         else if action = Some ''type'' \<or> payload_has_non_null_field payload ''text'' then Inr ''browser.companion.type''
         else if action \<in> {Some ''start'', Some ''navigate'', Some ''stop''} then
           Inl ''direct_browser_unknown_action: unsupported browser action for the direct browser surface''
         else if has_session_id \<and> payload_has_non_null_field payload ''selector'' then Inr ''browser.companion.click''
         else if has_session_id \<and> has_url then
           Inl ''direct_browser_ambiguous: provide either a page session action or a navigation target, not both''
         else route_browser_page_tool_name payload)"

definition browser_page_inspection_available_in_view :: "string set \<Rightarrow> bool" where
  "browser_page_inspection_available_in_view view \<longleftrightarrow>
     ''browser.open'' \<in> view \<or> ''browser.extract'' \<in> view \<or> ''browser.click'' \<in> view"

definition route_direct_browser_tool_name_for_view :: "'n json \<Rightarrow> string set \<Rightarrow> string + string" where
  "route_direct_browser_tool_name_for_view payload view =
     try_bind (route_direct_browser_tool_name payload) (\<lambda>routed.
       if routed \<in> {''browser.companion.snapshot'', ''browser.companion.click'', ''browser.companion.type'',
           ''browser.companion.wait''} then
         (if routed \<in> view then Inr routed else Inl ''managed browser automation is unavailable in this runtime'')
       else if browser_page_inspection_available_in_view view then Inr routed
       else Inl ''browser page inspection is unavailable in this runtime'')"

section \<open>Direct tools\<close>

definition route_direct_tool_name :: "string \<Rightarrow> 'n json \<Rightarrow> string + string" where
  "route_direct_tool_name tool_name payload =
     (if tool_name = ''read'' then route_direct_read_tool_name payload
      else if tool_name = ''write'' then route_direct_write_tool_name payload
      else if tool_name = ''edit'' then route_direct_edit_tool_name payload
      else if tool_name = ''bash'' then route_direct_bash_tool_name payload
      else if tool_name = ''web'' then route_direct_web_tool_name payload
      else if tool_name = ''browse'' \<or> tool_name = ''browser'' then route_direct_browser_tool_name payload
      else if tool_name = ''memory'' then route_direct_memory_tool_name payload
      else Inr ''-'')"

definition route_direct_tool_name_for_view :: "string \<Rightarrow> 'n json \<Rightarrow> string set \<Rightarrow> string + string" where
  "route_direct_tool_name_for_view tool_name payload view =
     (if tool_name = ''web'' then route_direct_web_tool_name_for_view payload view
      else if tool_name = ''browse'' \<or> tool_name = ''browser'' then route_direct_browser_tool_name_for_view payload view
      else route_direct_tool_name tool_name payload)"

definition route_direct_tool_request ::
  "'n json tool_core_request \<Rightarrow> string set \<Rightarrow> string + 'n json tool_core_request" where
  "route_direct_tool_request request view =
     try_bind (route_direct_tool_name_for_view (tpcq_tool_name request) (tpcq_payload request) view) (\<lambda>routed.
       if routed \<notin> view then
         Inl (''tool_surface_unavailable: `'' @ tpcq_tool_name request @ ''` cannot route to `'' @ routed @
           ''` in this runtime'')
       else Inr \<lparr>tpcq_tool_name = routed, tpcq_payload = tpcq_payload request\<rparr>)"

section \<open>Hidden agent operations\<close>

definition hidden_operation :: "'n json \<Rightarrow> string option" where
  "hidden_operation payload = non_empty_field_text payload ''operation''"

definition agent_operations :: "(string \<times> string) list" where
  "agent_operations =
     [(''approval-list'', ''approval_requests_list''), (''approval-status'', ''approval_request_status''),
      (''approval-resolve'', ''approval_request_resolve''), (''sessions-list'', ''sessions_list''),
      (''session-history'', ''sessions_history''), (''session-heads'', ''session_heads''),
      (''session-path'', ''session_path''), (''session-children'', ''session_children''),
      (''session-artifacts'', ''session_artifacts''), (''session-events'', ''session_events''),
      (''session-search'', ''session_search''), (''session-status'', ''session_status''),
      (''session-wait'', ''session_wait''), (''task-history'', ''task_history''),
      (''task-events'', ''task_events''), (''tasks-list'', ''tasks_list''), (''tasks-search'', ''tasks_search''),
      (''task-status'', ''task_status''), (''task-wait'', ''task_wait''), (''task-cancel'', ''task_cancel''),
      (''task-recover'', ''task_recover''), (''session-policy-status'', ''session_tool_policy_status''),
      (''session-policy-set'', ''session_tool_policy_set''), (''session-policy-clear'', ''session_tool_policy_clear''),
      (''session-create-branch-summary'', ''session_create_branch_summary''),
      (''session-create-checkpoint'', ''session_create_checkpoint''), (''session-fork-head'', ''session_fork_head''),
      (''session-pin-head'', ''session_pin_head''), (''session-set-active-head'', ''session_set_active_head''),
      (''session-unpin-head'', ''session_unpin_head''), (''session-archive'', ''session_archive''),
      (''session-cancel'', ''session_cancel''), (''session-continue'', ''session_continue''),
      (''session-recover'', ''session_recover''), (''sessions-send'', ''sessions_send''),
      (''delegate'', ''delegate''), (''delegate-background'', ''delegate_async''),
      (''provider-switch'', ''provider.switch''), (''config-import'', ''config.import'')]"

definition has_any_field :: "'n json \<Rightarrow> string list \<Rightarrow> bool" where
  "has_any_field payload names \<longleftrightarrow> list_ex (payload_has_non_null_field payload) names"

text \<open>Without an operation the first group of fields that is there decides.\<close>

definition route_agent_by_fields :: "'n json \<Rightarrow> string + string" where
  "route_agent_by_fields payload =
     (let has = payload_has_non_null_field payload;
          background = (case json_get payload ''background'' of Some (JBool b) \<Rightarrow> b | _ \<Rightarrow> False)
      in if has ''approval_request_id'' then
           Inr (if has ''decision'' then ''approval_request_resolve'' else ''approval_request_status'')
         else if has ''selector'' then Inr ''provider.switch''
         else if has ''task'' then Inr (if background then ''delegate_async'' else ''delegate'')
         else if has_any_field payload [''input_path'', ''output_path'', ''source'', ''source_id'', ''selection_id'',
             ''primary_source_id'', ''primary_selection_id'', ''safe_profile_merge'', ''apply_skills_plan'', ''force'',
             ''mode''] then Inr ''config.import''
         else if has ''status'' then Inr ''approval_requests_list''
         else if has ''text'' then Inr ''sessions_send''
         else if has ''task_id'' \<or> has ''task_ids'' then
           (if has ''dry_run'' then
              Inl ''hidden_agent_requires_operation: provide `operation` for task cancel/recover work''
            else Inr (if has ''timeout_ms'' then ''task_wait'' else if has ''after_id'' then ''task_events''
              else if has ''limit'' then ''task_history'' else ''task_status''))
         else if has ''query'' \<and> (has ''task_state'' \<or> has ''stable_only'') then Inr ''tasks_search''
         else if has ''task_state'' \<or> has ''stable_only'' then Inr ''tasks_list''
         else if has ''input'' then Inr ''session_continue''
         else if has ''query'' then Inr ''session_search''
         else if has ''tool_ids'' \<or> has ''runtime_narrowing'' then Inr ''session_tool_policy_set''
         else if has ''session_ids'' \<or> has ''dry_run'' then
           Inl ''hidden_agent_requires_operation: provide `operation` for archive, cancel, recover, or other multi-session control work''
         else if has ''session_id'' then
           Inr (if has ''timeout_ms'' then ''session_wait'' else if has ''after_id'' then ''session_events''
             else if has ''limit'' then ''sessions_history'' else ''session_status'')
         else if has_any_field payload [''limit'', ''offset'', ''state'', ''kind'', ''parent_session_id'',
             ''overdue_only'', ''include_archived'', ''include_delegate_lifecycle''] then Inr ''sessions_list''
         else Inl ''hidden_agent_requires_actionable_fields: expected approval, session, delegate, provider, or config fields; add `operation` when the request is ambiguous'')"

definition route_hidden_agent_tool_name :: "'n json \<Rightarrow> string + string" where
  "route_hidden_agent_tool_name payload =
     (case hidden_operation payload of
        Some operation \<Rightarrow>
          (case map_of agent_operations operation of
             Some name \<Rightarrow> Inr name
           | None \<Rightarrow> Inl (''hidden_agent_unknown_operation: unknown agent operation `'' @ operation @ ''`''))
      | None \<Rightarrow> route_agent_by_fields payload)"

section \<open>Names for the logs\<close>

definition display_inner_tool_name_for_logs :: "string \<Rightarrow> string" where
  "display_inner_tool_name_for_logs tool_name =
     (if tool_name \<in> {''browser.open'', ''browser.extract'', ''browser.click'', ''browser.companion.snapshot'',
         ''browser.companion.click'', ''browser.companion.type'', ''browser.companion.wait''}
      then ''browse'' else tool_name)"

definition resolved_inner_tool_name_for_logs :: "tool_names \<Rightarrow> string \<Rightarrow> 'n json \<Rightarrow> string" where
  "resolved_inner_tool_name_for_logs N canonical payload =
     (if canonical = ''tool.invoke'' then
        (case Option.bind (json_get payload ''tool_id'') json_as_str of
           None \<Rightarrow> ''-'' | Some tool_id \<Rightarrow> display_inner_tool_name_for_logs (canonical_tool_name N tool_id))
      else if canonical \<notin> {''read'', ''write'', ''edit'', ''bash'', ''web'', ''browse'', ''memory'', ''browser''} then ''-''
      else case (if canonical = ''read''
          then map_sum id read_route_executor_name (classify_direct_read_route payload)
          else route_direct_tool_name canonical payload) of
        Inr name \<Rightarrow> display_inner_tool_name_for_logs name | Inl _ \<Rightarrow> ''-'')"

end
