(* ===== verification/Tool_Lease.thy ===== *)
theory Tool_Lease
  imports Tool_Requests
begin

text \<open>
  The leases under which hidden tools are invoked (crates/app/src/tools/tool_lease_authority.rs):
  claims on a tool, the catalog and the binding of a session, signed with a secret that lives in a
  file, cached in memory and created once. SHA-256, base64, hexadecimal, JSON, the clock and the
  random bytes are arguments; the file system is a world with its operations.
\<close>

section \<open>Claims and their texts\<close>

record tool_lease_claims =
  lc_tool_id :: string
  lc_catalog_digest :: string
  lc_expires_at_unix :: u64
  lc_token_id :: "string option"
  lc_session_id :: "string option"
  lc_turn_id :: "string option"

record lease_codec =
  lx_claims_to_json :: "tool_lease_claims \<Rightarrow> string"
  lx_claims_of_json :: "string \<Rightarrow> string + tool_lease_claims"
  lx_base64_encode :: "string \<Rightarrow> string"
  lx_base64_decode :: "string \<Rightarrow> string + string"
  lx_hex_encode :: "string \<Rightarrow> string"
  lx_hex_decode :: "string \<Rightarrow> string + string"
  lx_sha256 :: "string \<Rightarrow> string"

definition tool_lease_ttl_seconds :: u64 where
  "tool_lease_ttl_seconds = 300"

definition tool_lease_secret_bytes :: nat where
  "tool_lease_secret_bytes = 32"

definition sign_tool_lease_with_secret :: "lease_codec \<Rightarrow> string \<Rightarrow> string \<Rightarrow> string" where
  "sign_tool_lease_with_secret X encoded_claims secret =
     lx_hex_encode X (lx_sha256 X (secret @ '':'' @ encoded_claims))"

text \<open>The comparison looks at every byte once the lengths agree.\<close>

definition timing_safe_eq :: "string \<Rightarrow> string \<Rightarrow> bool" where
  "timing_safe_eq expected actual \<longleftrightarrow>
     length expected = length actual \<and> list_all (\<lambda>(a, b). a = b) (zip expected actual)"

section \<open>Leases\<close>

definition lease_claims ::
  "string \<Rightarrow> string \<Rightarrow> u64 \<Rightarrow> (string, 'n json) btree \<Rightarrow> tool_lease_claims" where
  "lease_claims catalog_digest tool_id now payload =
     (let binding = extract_tool_lease_binding payload in
      \<lparr>lc_tool_id = tool_id, lc_catalog_digest = catalog_digest,
       lc_expires_at_unix = u64_saturating_add now tool_lease_ttl_seconds,
       lc_token_id = lb_token_id binding, lc_session_id = lb_session_id binding, lc_turn_id = lb_turn_id binding\<rparr>)"

text \<open>Issuing and checking with the secret at hand.\<close>

definition issue_with_secret ::
  "lease_codec \<Rightarrow> string \<Rightarrow> string \<Rightarrow> string \<Rightarrow> u64 \<Rightarrow> (string, 'n json) btree \<Rightarrow> string" where
  "issue_with_secret X secret catalog_digest tool_id now payload =
     (let encoded_claims = lx_base64_encode X (lx_claims_to_json X (lease_claims catalog_digest tool_id now payload))
      in encoded_claims @ ''.'' @ sign_tool_lease_with_secret X encoded_claims secret)"

fun split_at_char :: "char \<Rightarrow> string \<Rightarrow> (string \<times> string) option" where
  "split_at_char d [] = None"
| "split_at_char d (c # s) =
     (if c = d then Some ([], s)
      else case split_at_char d s of None \<Rightarrow> None | Some (a, b) \<Rightarrow> Some (c # a, b))"

definition check_claims ::
  "string \<Rightarrow> string \<Rightarrow> u64 \<Rightarrow> (string, 'n json) btree \<Rightarrow> tool_lease_claims \<Rightarrow> string + unit" where
  "check_claims catalog_digest expected_tool_id now payload claims =
     (let binding = extract_tool_lease_binding payload in
      if lc_tool_id claims \<noteq> expected_tool_id then Inl ''invalid_tool_lease: tool mismatch''
      else if lc_catalog_digest claims \<noteq> catalog_digest then Inl ''invalid_tool_lease: catalog mismatch''
      else if lc_expires_at_unix claims \<le> now then Inl ''invalid_tool_lease: expired lease''
      else if lc_token_id claims \<noteq> None \<and> lc_token_id claims \<noteq> lb_token_id binding then
        Inl ''invalid_tool_lease: token mismatch''
      else if lc_session_id claims \<noteq> None \<and> lc_session_id claims \<noteq> lb_session_id binding then
        Inl ''invalid_tool_lease: session mismatch''
      else if lc_turn_id claims \<noteq> None \<and> lc_turn_id claims \<noteq> lb_turn_id binding then
        Inl ''invalid_tool_lease: turn mismatch''
      else Inr ())"

definition check_signed_claims ::
  "lease_codec \<Rightarrow> string \<Rightarrow> string \<Rightarrow> u64 \<Rightarrow> (string, 'n json) btree \<Rightarrow> string \<Rightarrow> string + unit" where
  "check_signed_claims X catalog_digest expected_tool_id now payload encoded_claims =
     try_bind (map_err (\<lambda>e. ''invalid_tool_lease: claims decode failed: '' @ e) (lx_base64_decode X encoded_claims)) (\<lambda>bytes.
     try_bind (map_err (\<lambda>e. ''invalid_tool_lease: claims parse failed: '' @ e) (lx_claims_of_json X bytes)) (\<lambda>claims.
       check_claims catalog_digest expected_tool_id now payload claims))"

definition validate_with_secret ::
  "lease_codec \<Rightarrow> string \<Rightarrow> string \<Rightarrow> string \<Rightarrow> string \<Rightarrow> u64 \<Rightarrow> (string, 'n json) btree \<Rightarrow> string + unit" where
  "validate_with_secret X secret catalog_digest expected_tool_id lease now payload =
     (case split_at_char CHR ''.'' lease of
        None \<Rightarrow> Inl ''invalid_tool_lease: malformed lease''
      | Some (encoded_claims, signature) \<Rightarrow>
          if \<not> timing_safe_eq (sign_tool_lease_with_secret X encoded_claims secret) signature then
            Inl ''invalid_tool_lease: signature mismatch''
          else check_signed_claims X catalog_digest expected_tool_id now payload encoded_claims)"

section \<open>The secret\<close>

datatype read_secret_error =
    ReadSecretIo string
  | ReadSecretEmpty
  | ReadSecretInvalidHex string
  | ReadSecretWrongLength nat

definition read_secret_error_render :: "read_secret_error \<Rightarrow> string \<Rightarrow> string" where
  "read_secret_error_render e file =
     (case e of
        ReadSecretIo t \<Rightarrow> ''tool_lease_authority_unavailable: failed to read secret file '' @ file @ '': '' @ t
      | ReadSecretEmpty \<Rightarrow> ''tool_lease_authority_unavailable: secret file '' @ file @ '' is empty''
      | ReadSecretInvalidHex t \<Rightarrow>
          ''tool_lease_authority_unavailable: secret file '' @ file @ '' is not valid hex: '' @ t
      | ReadSecretWrongLength n \<Rightarrow> ''tool_lease_authority_unavailable: secret file '' @ file @ '' has '' @
          nat_to_dec n @ '' bytes; expected '' @ nat_to_dec tool_lease_secret_bytes)"

text \<open>What reading the file gave: nothing, an error, or its text.\<close>

definition decode_secret_file :: "lease_codec \<Rightarrow> string \<Rightarrow> read_secret_error + string" where
  "decode_secret_file X raw_secret =
     (let trimmed = trim raw_secret in
      if trimmed = [] then Inl ReadSecretEmpty
      else try_bind (map_err ReadSecretInvalidHex (lx_hex_decode X trimmed)) (\<lambda>decoded.
        if length decoded \<noteq> tool_lease_secret_bytes then Inl (ReadSecretWrongLength (length decoded))
        else Inr trimmed))"

datatype create_secret_error = SecretAlreadyExists | CreateSecretIo string

text \<open>
  The operations on the secret's file and the memory cache. Publishing stages the text in a file
  of its own and links it under the name unless that exists.
\<close>

record 'w secret_store =
  ss_read :: "'w \<Rightarrow> (string + string option) \<times> 'w"
  ss_ensure_dir :: "'w \<Rightarrow> (string + unit) \<times> 'w"
  ss_random :: "'w \<Rightarrow> string \<times> 'w"
  ss_publish :: "string \<Rightarrow> 'w \<Rightarrow> (create_secret_error + unit) \<times> 'w"
  ss_pause :: "'w \<Rightarrow> 'w"
  ss_cached :: "'w \<Rightarrow> string option"
  ss_cache :: "string \<Rightarrow> 'w \<Rightarrow> 'w"

definition read_secret_detail :: "lease_codec \<Rightarrow> 'w secret_store \<Rightarrow> 'w \<Rightarrow> (read_secret_error + string option) \<times> 'w" where
  "read_secret_detail X S w =
     (case ss_read S w of
        (Inl e, w) \<Rightarrow> (Inl (ReadSecretIo e), w)
      | (Inr None, w) \<Rightarrow> (Inr None, w)
      | (Inr (Some raw), w) \<Rightarrow> (try_bind (decode_secret_file X raw) (\<lambda>s. Inr (Some s)), w))"

definition read_secret_file :: "lease_codec \<Rightarrow> 'w secret_store \<Rightarrow> string \<Rightarrow> 'w \<Rightarrow> (string + string option) \<times> 'w" where
  "read_secret_file X S file w =
     (case read_secret_detail X S w of (r, w) \<Rightarrow> (map_err (\<lambda>e. read_secret_error_render e file) r, w))"

definition publication_error_is_retryable :: "string \<Rightarrow> bool" where
  "publication_error_is_retryable e \<longleftrightarrow>
     sublist '' is empty'' e \<or> sublist '' is not valid hex'' e \<or>
     sublist '' has '' e \<and> sublist '' bytes; expected '' e"

text \<open>The attempts to read what a competitor published, with a pause between two.\<close>

fun read_after_competitor :: "lease_codec \<Rightarrow> 'w secret_store \<Rightarrow> string \<Rightarrow> nat \<Rightarrow> 'w \<Rightarrow> (string + string) \<times> 'w" where
  "read_after_competitor X S file 0 w =
     (Inl (''tool_lease_authority_unavailable: secret file appeared without readable contents at '' @ file), w)"
| "read_after_competitor X S file (Suc attempts) w =
     (case read_secret_file X S file w of
        (Inr (Some secret), w) \<Rightarrow> (Inr secret, w)
      | (Inl e, w) \<Rightarrow>
          if publication_error_is_retryable e
          then read_after_competitor X S file attempts (if attempts = 0 then w else ss_pause S w)
          else (Inl e, w)
      | (Inr None, w) \<Rightarrow> read_after_competitor X S file attempts (if attempts = 0 then w else ss_pause S w))"

definition load_or_create_secret :: "lease_codec \<Rightarrow> 'w secret_store \<Rightarrow> string \<Rightarrow> 'w \<Rightarrow> (string + string) \<times> 'w" where
  "load_or_create_secret X S file w =
     and_then (read_secret_file X S file w) (\<lambda>existing w.
       case existing of
         Some secret \<Rightarrow> (Inr secret, w)
       | None \<Rightarrow>
           and_then (ss_ensure_dir S w) (\<lambda>_ w.
           let (bytes, w) = ss_random S w; generated = lx_hex_encode X bytes in
           case ss_publish S generated w of
             (Inr _, w) \<Rightarrow> (Inr generated, w)
           | (Inl SecretAlreadyExists, w) \<Rightarrow> read_after_competitor X S file 12 w
           | (Inl (CreateSecretIo e), w) \<Rightarrow>
               (Inl (''tool_lease_authority_unavailable: failed to persist secret at '' @ file @ '': '' @ e), w)))"

text \<open>The cache is looked at again under the load lock.\<close>

definition tool_lease_secret :: "lease_codec \<Rightarrow> 'w secret_store \<Rightarrow> string \<Rightarrow> 'w \<Rightarrow> (string + string) \<times> 'w" where
  "tool_lease_secret X S file w =
     (case ss_cached S w of
        Some secret \<Rightarrow> (Inr secret, w)
      | None \<Rightarrow>
          (case ss_cached S w of
             Some secret \<Rightarrow> (Inr secret, w)
           | None \<Rightarrow> and_then (load_or_create_secret X S file w) (\<lambda>secret w. (Inr secret, ss_cache S secret w))))"

section \<open>Operations\<close>

record lease_authority =
  la_codec :: lease_codec
  la_secret_file :: string
  la_catalog_digest :: string

definition issue_tool_lease ::
  "lease_authority \<Rightarrow> 'w secret_store \<Rightarrow> string \<Rightarrow> u64 \<Rightarrow> (string, 'n json) btree \<Rightarrow> 'w \<Rightarrow> (string + string) \<times> 'w" where
  "issue_tool_lease A S tool_id now payload w =
     and_then (tool_lease_secret (la_codec A) S (la_secret_file A) w) (\<lambda>secret w.
       (Inr (issue_with_secret (la_codec A) secret (la_catalog_digest A) tool_id now payload), w))"

definition validate_tool_lease ::
  "lease_authority \<Rightarrow> 'w secret_store \<Rightarrow> string \<Rightarrow> string \<Rightarrow> u64 \<Rightarrow> (string, 'n json) btree \<Rightarrow> 'w \<Rightarrow>
   (string + unit) \<times> 'w" where
  "validate_tool_lease A S expected_tool_id lease now payload w =
     (case split_at_char CHR ''.'' lease of
        None \<Rightarrow> (Inl ''invalid_tool_lease: malformed lease'', w)
      | Some _ \<Rightarrow>
          and_then (tool_lease_secret (la_codec A) S (la_secret_file A) w) (\<lambda>secret w.
            (validate_with_secret (la_codec A) secret (la_catalog_digest A) expected_tool_id lease now payload, w)))"

section \<open>What a lease is good for\<close>

text \<open>
  The laws of the encodings, on one claim: JSON and base64 give back what they were given, and no
  base64 text has a dot. The memory cache returns what was put there.
\<close>

definition lease_codec_carries :: "lease_codec \<Rightarrow> tool_lease_claims \<Rightarrow> bool" where
  "lease_codec_carries X claims \<longleftrightarrow>
     (let json = lx_claims_to_json X claims; encoded = lx_base64_encode X json in
      lx_claims_of_json X json = Inr claims \<and> lx_base64_decode X encoded = Inr json \<and> CHR ''.'' \<notin> set encoded)"

definition secret_cache_keeps :: "'w secret_store \<Rightarrow> bool" where
  "secret_cache_keeps S \<longleftrightarrow> (\<forall>secret w. ss_cached S (ss_cache S secret w) = Some secret)"

lemma timing_safe_eq_eq: "timing_safe_eq a b \<longleftrightarrow> a = b"
proof
  assume "timing_safe_eq a b"
  then show "a = b"
    by (auto simp: timing_safe_eq_def list_all_length intro: nth_equalityI)
next
  assume "a = b"
  then show "timing_safe_eq a b"
    by (auto simp: timing_safe_eq_def list_all_length)
qed

lemma split_at_char_append: "d \<notin> set a \<Longrightarrow> split_at_char d (a @ d # b) = Some (a, b)"
  by (induction a) auto

lemma split_at_char_SomeD: "split_at_char d s = Some (a, b) \<Longrightarrow> s = a @ d # b \<and> d \<notin> set a"
  by (induction s arbitrary: a) (auto split: option.splits if_splits)

lemma split_at_char_Some_iff: "split_at_char d s = Some (a, b) \<longleftrightarrow> s = a @ d # b \<and> d \<notin> set a"
  using split_at_char_append split_at_char_SomeD by metis

lemma check_claims_Inr_iff:
  "check_claims digest tool now payload claims = Inr () \<longleftrightarrow>
     lc_tool_id claims = tool \<and> lc_catalog_digest claims = digest \<and> now < lc_expires_at_unix claims \<and>
     lc_token_id claims \<in> {None, lb_token_id (extract_tool_lease_binding payload)} \<and>
     lc_session_id claims \<in> {None, lb_session_id (extract_tool_lease_binding payload)} \<and>
     lc_turn_id claims \<in> {None, lb_turn_id (extract_tool_lease_binding payload)}"
  unfolding check_claims_def Let_def by (auto simp: not_le)

lemma check_signed_claims_Inr_iff:
  "check_signed_claims X digest tool now payload encoded = Inr () \<longleftrightarrow>
     (\<exists>json claims. lx_base64_decode X encoded = Inr json \<and> lx_claims_of_json X json = Inr claims \<and>
        check_claims digest tool now payload claims = Inr ())"
  unfolding check_signed_claims_def try_bind_def map_err_def by (auto split: sum.splits)

lemma validate_with_secret_Inr_iff:
  "validate_with_secret X secret digest tool lease now payload = Inr () \<longleftrightarrow>
     (\<exists>encoded. lease = encoded @ ''.'' @ sign_tool_lease_with_secret X encoded secret \<and>
        CHR ''.'' \<notin> set encoded \<and> check_signed_claims X digest tool now payload encoded = Inr ())"
proof
  assume "validate_with_secret X secret digest tool lease now payload = Inr ()"
  then show "\<exists>encoded. lease = encoded @ ''.'' @ sign_tool_lease_with_secret X encoded secret \<and>
        CHR ''.'' \<notin> set encoded \<and> check_signed_claims X digest tool now payload encoded = Inr ()"
    unfolding validate_with_secret_def timing_safe_eq_eq
    by (auto split: option.splits prod.splits if_splits dest!: split_at_char_SomeD)
next
  assume "\<exists>encoded. lease = encoded @ ''.'' @ sign_tool_lease_with_secret X encoded secret \<and>
        CHR ''.'' \<notin> set encoded \<and> check_signed_claims X digest tool now payload encoded = Inr ()"
  then show "validate_with_secret X secret digest tool lease now payload = Inr ()"
    unfolding validate_with_secret_def timing_safe_eq_eq by (auto simp: split_at_char_append)
qed

lemma issued_lease_is_valid_with_secret:
  assumes "lease_codec_carries X (lease_claims digest tool now payload)"
    and "now' < u64_saturating_add now tool_lease_ttl_seconds"
  shows "validate_with_secret X secret digest tool (issue_with_secret X secret digest tool now payload) now' payload
           = Inr ()"
  unfolding validate_with_secret_Inr_iff issue_with_secret_def Let_def
proof (intro exI conjI)
  let ?claims = "lease_claims digest tool now payload"
  let ?encoded = "lx_base64_encode X (lx_claims_to_json X ?claims)"
  show "?encoded @ ''.'' @ sign_tool_lease_with_secret X ?encoded secret =
        ?encoded @ ''.'' @ sign_tool_lease_with_secret X ?encoded secret" ..
  show "CHR ''.'' \<notin> set ?encoded"
    using assms(1) by (simp add: lease_codec_carries_def Let_def)
  have "check_claims digest tool now' payload ?claims = Inr ()"
    unfolding check_claims_Inr_iff using assms(2) by (simp add: lease_claims_def Let_def)
  then show "check_signed_claims X digest tool now' payload ?encoded = Inr ()"
    unfolding check_signed_claims_Inr_iff using assms(1) by (auto simp: lease_codec_carries_def Let_def)
qed

lemma tool_lease_secret_is_cached:
  assumes "secret_cache_keeps S" and "tool_lease_secret X S file w = (Inr secret, w')"
  shows "ss_cached S w' = Some secret"
  using assms unfolding tool_lease_secret_def secret_cache_keeps_def and_then_def
  by (auto split: option.splits sum.splits prod.splits)

text \<open>What a caller's secret is: the cached one, or the one loaded or created now.\<close>

lemma validate_tool_lease_Inr_iff:
  "validate_tool_lease A S tool lease now payload w = (Inr (), w') \<longleftrightarrow>
     (\<exists>secret. tool_lease_secret (la_codec A) S (la_secret_file A) w = (Inr secret, w') \<and>
        validate_with_secret (la_codec A) secret (la_catalog_digest A) tool lease now payload = Inr ())"
proof (cases "split_at_char CHR ''.'' lease")
  case None
  then show ?thesis
    by (auto simp: validate_tool_lease_def validate_with_secret_def)
next
  case (Some parts)
  then show ?thesis
    by (auto simp: validate_tool_lease_def and_then_Ok)
qed

section \<open>Properties\<close>

text \<open>
  C8. A lease is accepted exactly when it is the text of claims, a dot, and the signature of that
  text under the installation's secret, and the claims are on this tool and this catalog, have not
  expired and name no token, session or turn other than those of the request.
\<close>

theorem accepted_leases_are_signed_and_current:
  "validate_tool_lease A S tool lease now payload w = (Inr (), w') \<longleftrightarrow>
     (\<exists>secret encoded json claims.
        tool_lease_secret (la_codec A) S (la_secret_file A) w = (Inr secret, w') \<and>
        lease = encoded @ ''.'' @ sign_tool_lease_with_secret (la_codec A) encoded secret \<and>
        CHR ''.'' \<notin> set encoded \<and>
        lx_base64_decode (la_codec A) encoded = Inr json \<and>
        lx_claims_of_json (la_codec A) json = Inr claims \<and>
        lc_tool_id claims = tool \<and> lc_catalog_digest claims = la_catalog_digest A \<and>
        now < lc_expires_at_unix claims \<and>
        lc_token_id claims \<in> {None, lb_token_id (extract_tool_lease_binding payload)} \<and>
        lc_session_id claims \<in> {None, lb_session_id (extract_tool_lease_binding payload)} \<and>
        lc_turn_id claims \<in> {None, lb_turn_id (extract_tool_lease_binding payload)})"
  unfolding validate_tool_lease_Inr_iff validate_with_secret_Inr_iff check_signed_claims_Inr_iff
    check_claims_Inr_iff by blast

text \<open>
  C20. A lease that was issued for a request is accepted for that request until it expires, five
  minutes later, whatever the secret was loaded from and whatever other files the world holds.
\<close>

theorem issued_leases_are_accepted:
  assumes "secret_cache_keeps S"
    and "issue_tool_lease A S tool now payload w = (Inr lease, w')"
    and "lease_codec_carries (la_codec A) (lease_claims (la_catalog_digest A) tool now payload)"
    and "now' < u64_saturating_add now tool_lease_ttl_seconds"
  shows "validate_tool_lease A S tool lease now' payload w' = (Inr (), w')"
proof -
  obtain secret where secret: "tool_lease_secret (la_codec A) S (la_secret_file A) w = (Inr secret, w')"
    and lease: "lease = issue_with_secret (la_codec A) secret (la_catalog_digest A) tool now payload"
    using assms(2) by (auto simp: issue_tool_lease_def and_then_Ok)
  have "tool_lease_secret (la_codec A) S (la_secret_file A) w' = (Inr secret, w')"
    using tool_lease_secret_is_cached [OF assms(1) secret] by (simp add: tool_lease_secret_def)
  then show ?thesis
    unfolding validate_tool_lease_Inr_iff lease
    using issued_lease_is_valid_with_secret [OF assms(3,4)] by blast
qed

section \<open>An installation\<close>

text \<open>A cache only, which holds the secret already, and encodings of claims without a binding.\<close>

definition sample_codec :: lease_codec where
  "sample_codec =
     \<lparr>lx_claims_to_json = (\<lambda>c. lc_tool_id c @ ''.json''),
      lx_claims_of_json = (\<lambda>s. Inr \<lparr>lc_tool_id = take (length s - 5) s, lc_catalog_digest = ''d'',
        lc_expires_at_unix = 400, lc_token_id = None, lc_session_id = None, lc_turn_id = None\<rparr>),
      lx_base64_encode = map (\<lambda>c. if c = CHR ''.'' then CHR ''-'' else c),
      lx_base64_decode = (\<lambda>s. Inr (map (\<lambda>c. if c = CHR ''-'' then CHR ''.'' else c) s)),
      lx_hex_encode = (\<lambda>s. s), lx_hex_decode = Inr, lx_sha256 = rev\<rparr>"

definition sample_authority :: lease_authority where
  "sample_authority = \<lparr>la_codec = sample_codec, la_secret_file = ''secret'', la_catalog_digest = ''d''\<rparr>"

definition sample_secrets :: "string option secret_store" where
  "sample_secrets =
     \<lparr>ss_read = (\<lambda>w. (Inr None, w)), ss_ensure_dir = (\<lambda>w. (Inr (), w)), ss_random = (\<lambda>w. (''key'', w)),
      ss_publish = (\<lambda>s w. (Inr (), w)), ss_pause = (\<lambda>w. w), ss_cached = (\<lambda>w. w), ss_cache = (\<lambda>s w. Some s)\<rparr>"

lemma issued_leases_are_accepted_witness:
  "validate_tool_lease sample_authority sample_secrets ''web'' ''web-json.nosj-bew:yek'' 399
     ([] :: (string, unit json) btree) (Some ''key'') = (Inr (), Some ''key'')"
proof (rule issued_leases_are_accepted)
  show "secret_cache_keeps sample_secrets"
    by (simp add: secret_cache_keeps_def sample_secrets_def)
  have claims: "lease_claims ''d'' ''web'' 100 ([] :: (string, unit json) btree) =
      \<lparr>lc_tool_id = ''web'', lc_catalog_digest = ''d'', lc_expires_at_unix = 400,
       lc_token_id = None, lc_session_id = None, lc_turn_id = None\<rparr>"
    by (simp add: lease_claims_def extract_tool_lease_binding_def get_str_def
        u64_saturating_add_def tool_lease_ttl_seconds_def Let_def)
  show "issue_tool_lease sample_authority sample_secrets ''web'' 100 ([] :: (string, unit json) btree) None =
      (Inr ''web-json.nosj-bew:yek'', Some ''key'')"
    by (simp add: issue_tool_lease_def tool_lease_secret_def load_or_create_secret_def read_secret_file_def
        read_secret_detail_def issue_with_secret_def sign_tool_lease_with_secret_def claims
        sample_authority_def sample_secrets_def sample_codec_def map_err_def)
  show "lease_codec_carries (la_codec sample_authority)
      (lease_claims (la_catalog_digest sample_authority) ''web'' 100 ([] :: (string, unit json) btree))"
    by (simp add: lease_codec_carries_def sample_authority_def sample_codec_def claims)
  show "(399 :: u64) < u64_saturating_add 100 tool_lease_ttl_seconds"
    by (simp add: u64_saturating_add_def tool_lease_ttl_seconds_def Let_def)
qed

end
