(* ===== verification/Tool_Dispatch.thy ===== *)
theory Tool_Dispatch
  imports Tool_Routing Tool_Lease
begin

text \<open>
  From a tool request to the executor (crates/app/src/tools/tool_dispatch.rs), the direct tools of
  routing.rs, the policies asked before an executor (direct_policy_preflight.rs), and the calls of
  hidden tools under a lease (tool_lease.rs). The executors of shell.exec, bash.exec, web.fetch and
  http.request are the modelled ones; those of the other tools are one argument, chosen by name.
  Spans and logs have no effect on the result and are left out.
\<close>

section \<open>What dispatch needs\<close>

text \<open>How the worker thread of a tool with a time limit ended, as the caller sees it.\<close>

datatype worker_report =
    WorkerSpawnFailed string
  | WorkerReported
  | WorkerReportedThenPanicked
  | WorkerTimedOut
  | WorkerPanicked
  | WorkerVanished

record ('n, 'x, 'w) tool_system =
  ds_names :: tool_names
  ds_surfaces :: tool_surfaces
  ds_lowercase :: "string \<Rightarrow> string"
  ds_json :: "'n tool_json"
  ds_narrowing_of_json :: "'n json \<Rightarrow> string + tool_runtime_narrowing"
  ds_not_a_string :: "'n json \<Rightarrow> string"
  ds_view :: "'x tool_runtime_config \<Rightarrow> string set"
  ds_os :: "'w process_os"
  ds_details :: "process_outcome \<Rightarrow> 'n json"
  ds_parse_bash :: "string \<Rightarrow> syntax_tree option"
  ds_network :: "'w network"
  ds_reader :: html_reader
  ds_authority :: lease_authority
  ds_secrets :: "'w secret_store"
  ds_now :: "'w \<Rightarrow> u64"
  ds_worker :: "string \<Rightarrow> u64 \<Rightarrow> 'w \<Rightarrow> worker_report"
  ds_execute :: "string \<Rightarrow> 'x tool_runtime_config \<Rightarrow> 'n json tool_core_request \<Rightarrow> 'w \<Rightarrow>
    (string + 'n json tool_core_outcome) \<times> 'w"

section \<open>The trusted context\<close>

definition trusted_runtime_narrowing_from_payload ::
  "('n, 'x, 'w) tool_system \<Rightarrow> bool \<Rightarrow> 'n json \<Rightarrow> string + tool_runtime_narrowing option" where
  "trusted_runtime_narrowing_from_payload D trusted payload =
     (if \<not> trusted then Inr None
      else case Option.bind (trusted_internal_tool_context_from_payload payload) (\<lambda>body. bt_get body ''runtime_narrowing'') of
        None \<Rightarrow> Inr None
      | Some value \<Rightarrow>
          try_bind (map_err (\<lambda>e. ''invalid_internal_runtime_narrowing: '' @ e) (ds_narrowing_of_json D value))
            (\<lambda>n. Inr (Some n)))"

definition trusted_workspace_root_from_payload ::
  "('n, 'x, 'w) tool_system \<Rightarrow> bool \<Rightarrow> 'n json \<Rightarrow> string + path option" where
  "trusted_workspace_root_from_payload D trusted payload =
     (if \<not> trusted then Inr None
      else case Option.bind (trusted_internal_tool_context_from_payload payload) (\<lambda>body. bt_get body ''workspace_root'') of
        None \<Rightarrow> Inr None
      | Some value \<Rightarrow>
          (case json_as_str value of
             None \<Rightarrow> Inl (''invalid_internal_workspace_root: '' @ ds_not_a_string D value)
           | Some raw \<Rightarrow>
               (let F = os_files (ds_os D); trimmed = trim raw in
                if trimmed = [] then Inl ''invalid_internal_workspace_root: expected a non-empty path''
                else if \<not> is_absolute (path_of_text trimmed) then
                  Inl ''invalid_internal_workspace_root: path must be absolute''
                else try_bind (map_err (\<lambda>e. ''invalid_internal_workspace_root: canonicalize failed: '' @ e)
                    (fs_canonicalize F (path_of_text trimmed))) (\<lambda>canonical.
                  if \<not> fs_is_dir F canonical then Inl ''invalid_internal_workspace_root: path must be a directory''
                  else Inr (Some canonical)))))"

definition narrow_config :: "'x tool_runtime_config \<Rightarrow> tool_runtime_narrowing option \<Rightarrow> 'x tool_runtime_config" where
  "narrow_config c n = (case n of None \<Rightarrow> c | Some n \<Rightarrow> narrowed c n)"

definition effective_tool_config ::
  "('n, 'x, 'w) tool_system \<Rightarrow> bool \<Rightarrow> 'x tool_runtime_config \<Rightarrow> 'n json \<Rightarrow> string + 'x tool_runtime_config" where
  "effective_tool_config D trusted config payload =
     try_bind (trusted_workspace_root_from_payload D trusted payload) (\<lambda>workspace_root.
     try_bind (trusted_runtime_narrowing_from_payload D trusted payload) (\<lambda>runtime_narrowing.
       let c = (case rc_workspace_root config of Some root \<Rightarrow> with_workspace_root_override config root | None \<Rightarrow> config);
           c = (case workspace_root of
                  Some root \<Rightarrow> with_file_root_override (with_workspace_root_override c root) root
                | None \<Rightarrow> c)
       in Inr (narrow_config c runtime_narrowing)))"

section \<open>Before an executor\<close>

definition direct_policy_preflight ::
  "('n, 'x, 'w) tool_system \<Rightarrow> 'n json tool_core_request \<Rightarrow> 'x tool_runtime_config \<Rightarrow> string + unit" where
  "direct_policy_preflight D request config =
     (case tpcq_payload request of
        JObject payload \<Rightarrow>
          (let tool_name = canonical_tool_name (ds_names D) (tpcq_tool_name request) in
           if tool_name = ''shell.exec'' then authorize_direct_shell_payload payload config
           else if user_visible_tool_name (ds_names D) (ds_surfaces D) tool_name \<in> {''read'', ''write'', ''edit''} \<or>
               tool_name = ''config.import'' then
             authorize_direct_file_payload (os_files (ds_os D)) (ds_names D) tool_name payload config
           else Inr ())
      | _ \<Rightarrow> Inr ())"

definition push_timeout_lookup_key :: "string list \<Rightarrow> string \<Rightarrow> string list" where
  "push_timeout_lookup_key keys candidate = (if candidate \<in> set keys then keys else keys @ [candidate])"

definition tool_timeout_lookup_keys :: "('n, 'x, 'w) tool_system \<Rightarrow> string \<Rightarrow> string list" where
  "tool_timeout_lookup_keys D tool_name =
     (let canonical = canonical_tool_name (ds_names D) tool_name;
          visible = user_visible_tool_name (ds_names D) (ds_surfaces D) canonical;
          keys = fold (\<lambda>candidate keys. push_timeout_lookup_key keys candidate)
            [ds_lowercase D tool_name, ds_lowercase D canonical, ds_lowercase D visible] []
      in if visible = ''read'' then push_timeout_lookup_key keys ''file.read''
         else if visible = ''write'' then push_timeout_lookup_key keys ''file.write''
         else if visible = ''edit'' then push_timeout_lookup_key keys ''file.edit''
         else keys)"

fun first_timeout :: "(string, u64) btree \<Rightarrow> string list \<Rightarrow> u64 option" where
  "first_timeout timeouts [] = None"
| "first_timeout timeouts (key # keys) =
     (case bt_get timeouts key of Some t \<Rightarrow> Some t | None \<Rightarrow> first_timeout timeouts keys)"

definition timeout_for_tool :: "('n, 'x, 'w) tool_system \<Rightarrow> tool_execution_config \<Rightarrow> string \<Rightarrow> u64 option" where
  "timeout_for_tool D c tool_name =
     (case first_timeout (tec_per_tool_timeout c) (tool_timeout_lookup_keys D tool_name) of
        Some t \<Rightarrow> Some t
      | None \<Rightarrow> tec_default_timeout_seconds c)"

definition tool_uses_dedicated_timeout :: "string \<Rightarrow> bool" where
  "tool_uses_dedicated_timeout tool_name \<longleftrightarrow>
     tool_name \<in> {''shell.exec'', ''bash.exec'', ''http.request'', ''web.fetch'', ''web.search'', ''delegate'',
       ''delegate_async'', ''browser.open'', ''browser.extract'', ''browser.click''}"

section \<open>Executors\<close>

definition dispatch_tool_request ::
  "('n, 'x, 'w) tool_system \<Rightarrow> 'n json tool_core_request \<Rightarrow> 'x tool_runtime_config \<Rightarrow> 'w \<Rightarrow>
   (string + 'n json tool_core_outcome) \<times> 'w" where
  "dispatch_tool_request D request config w =
     (let name = tpcq_tool_name request in
      if name = ''config.import'' then ds_execute D ''config.import'' config request w
      else if name \<in> {''browser.open'', ''browser.extract'', ''browser.click''} then ds_execute D ''browser'' config request w
      else if tn_feishu (ds_names D) name \<noteq> None then ds_execute D ''feishu'' config request w
      else if name = ''http.request'' then execute_http_request_tool (ds_json D) (ds_network D) config request w
      else if name = ''shell.exec'' then execute_shell_tool (ds_json D) (ds_details D) (ds_os D) config request w
      else if name = ''bash.exec'' then
        execute_bash_tool (ds_json D) (ds_details D) (ds_parse_bash D) (ds_os D) config request w
      else if name = ''read'' then ds_execute D ''file.read'' config request w
      else if name = ''write'' then ds_execute D ''file.write'' config request w
      else if name = ''edit'' then ds_execute D ''file.edit'' config request w
      else if name \<in> {''glob.search'', ''content.search'', ''memory.retrieve'', ''memory_search'', ''memory_get'',
          ''provider.switch''} then ds_execute D name config request w
      else if name = ''web.fetch'' then
        execute_web_fetch_tool (ds_json D) (ds_network D) (ds_reader D) config request w
      else if name = ''web.search'' then ds_execute D ''web.search'' config request w
      else (Inl (''tool_not_found: unknown tool `'' @ name @ ''`''), w))"

text \<open>The worker runs to its end even when its caller gave up, so what it did stays done.\<close>

definition run_blocking_with_timeout ::
  "worker_report \<Rightarrow> ('w \<Rightarrow> (string + 'r) \<times> 'w) \<Rightarrow> u64 \<Rightarrow> string \<Rightarrow> 'w \<Rightarrow> (string + 'r) \<times> 'w" where
  "run_blocking_with_timeout report f timeout_seconds tool_name w =
     (case report of
        WorkerSpawnFailed e \<Rightarrow>
          (Inl (''failed to spawn tool timeout worker for '' @ tool_name @ '': '' @ e), w)
      | WorkerReported \<Rightarrow> f w
      | WorkerTimedOut \<Rightarrow>
          (Inl (''tool_execution_timeout: '' @ tool_name @ '' exceeded '' @ nat_to_dec (unat timeout_seconds) @ ''s''), snd (f w))
      | WorkerVanished \<Rightarrow>
          (Inl (''tool_execution_join_error: '' @ tool_name @ '' worker thread exited without returning a result''), snd (f w))
      | _ \<Rightarrow> (Inl (''tool_execution_join_error: '' @ tool_name @ '' worker thread panicked''), snd (f w)))"

definition execute_discoverable_tool ::
  "('n, 'x, 'w) tool_system \<Rightarrow> 'n json tool_core_request \<Rightarrow> 'x tool_runtime_config \<Rightarrow> 'w \<Rightarrow>
   (string + 'n json tool_core_outcome) \<times> 'w" where
  "execute_discoverable_tool D request config w =
     (let request = normalize_shell_request_for_execution (ds_names D) request;
          tool_name = tpcq_tool_name request
      in case direct_policy_preflight D request config of
        Inl e \<Rightarrow> (Inl e, w)
      | Inr _ \<Rightarrow>
          (case timeout_for_tool D (rc_tool_execution config) tool_name of
             Some seconds \<Rightarrow>
               if 0 < seconds \<and> \<not> tool_uses_dedicated_timeout tool_name then
                 run_blocking_with_timeout (ds_worker D tool_name seconds w) (dispatch_tool_request D request config)
                   seconds tool_name w
               else dispatch_tool_request D request config w
           | None \<Rightarrow> dispatch_tool_request D request config w))"

section \<open>Direct tools\<close>

definition execute_direct_read_tool ::
  "('n, 'x, 'w) tool_system \<Rightarrow> 'n json tool_core_request \<Rightarrow> 'x tool_runtime_config \<Rightarrow> 'w \<Rightarrow>
   (string + 'n json tool_core_outcome) \<times> 'w" where
  "execute_direct_read_tool D request config w =
     (if ''read'' \<notin> ds_view D config then
        (Inl ''tool_surface_unavailable: `read` cannot route to `read` in this runtime'', w)
      else case classify_direct_read_route (tpcq_payload request) of
        Inl e \<Rightarrow> (Inl e, w)
      | Inr route \<Rightarrow>
          ds_execute D (read_route_executor_name route) config
            \<lparr>tpcq_tool_name = ''read'', tpcq_payload = normalize_direct_read_payload_for_route route (tpcq_payload request)\<rparr> w)"

definition execute_direct_tool ::
  "('n, 'x, 'w) tool_system \<Rightarrow> 'n json tool_core_request \<Rightarrow> 'x tool_runtime_config \<Rightarrow> 'w \<Rightarrow>
   (string + 'n json tool_core_outcome) \<times> 'w" where
  "execute_direct_tool D request config w =
     (if tpcq_tool_name request = ''read'' then execute_direct_read_tool D request config w
      else case route_direct_tool_request request (ds_view D config) of
        Inl e \<Rightarrow> (Inl e, w)
      | Inr routed \<Rightarrow> execute_discoverable_tool D routed config w)"

section \<open>Hidden tools\<close>

definition merge_trusted_internal_tool_context ::
  "(string, 'n json) btree \<Rightarrow> 'n json \<Rightarrow> string + (string, 'n json) btree" where
  "merge_trusted_internal_tool_context arguments internal_context =
     (case internal_context of
        JObject trusted_context \<Rightarrow>
          (case reserved_internal_tool_context_key_in_map arguments of
             Some offending \<Rightarrow> Inl (''tool.invoke payload.arguments.'' @ offending @
               '' is reserved for trusted internal tool context'')
           | None \<Rightarrow> Inr (bt_insert loong_internal_tool_context_key (JObject trusted_context) arguments))
      | _ \<Rightarrow> Inl (''tool.invoke payload.'' @ loong_internal_tool_context_key @ '' must be an object''))"

definition peek_tool_invoke_request ::
  "tool_names \<Rightarrow> 'n json tool_core_request \<Rightarrow> (string \<times> 'n json) option" where
  "peek_tool_invoke_request N request =
     (if canonical_tool_name N (tpcq_tool_name request) \<noteq> ''tool.invoke'' then None
      else
        Option.bind (json_as_object (tpcq_payload request)) (\<lambda>payload.
        Option.bind (map_option (canonical_tool_name N) (get_str payload ''tool_id'')) (\<lambda>raw_tool_name.
          let arguments = (case bt_get payload ''arguments'' of Some v \<Rightarrow> v | None \<Rightarrow> JNull);
              tool_name = (if raw_tool_name = ''agent''
                then (case route_hidden_agent_tool_name arguments of Inr routed \<Rightarrow> routed | Inl _ \<Rightarrow> raw_tool_name)
                else raw_tool_name)
          in Some (tool_name, arguments))))"

definition invoke_arguments :: "(string, 'n json) btree \<Rightarrow> string + (string, 'n json) btree" where
  "invoke_arguments payload =
     (case (case bt_get payload ''arguments'' of Some v \<Rightarrow> v | None \<Rightarrow> JObject []) of
        JObject arguments \<Rightarrow>
          (case bt_get payload loong_internal_tool_context_key of
             None \<Rightarrow> Inr arguments
           | Some internal_context \<Rightarrow> merge_trusted_internal_tool_context arguments internal_context)
      | _ \<Rightarrow> Inl ''tool.invoke payload.arguments must be an object'')"

definition resolve_tool_invoke_request ::
  "('n, 'x, 'w) tool_system \<Rightarrow> 'n json tool_core_request \<Rightarrow> 'w \<Rightarrow>
   (string + resolved_tool \<times> 'n json tool_core_request) \<times> 'w" where
  "resolve_tool_invoke_request D request w =
     (case peek_tool_invoke_request (ds_names D) request of
        None \<Rightarrow> (Inl (''tool_invoke_required: expected `tool.invoke`, got `'' @ tpcq_tool_name request @ ''`''), w)
      | Some (tool_id, _) \<Rightarrow>
          (case json_as_object (tpcq_payload request) of
             None \<Rightarrow> (Inl ''tool.invoke payload must be an object'', w)
           | Some payload \<Rightarrow>
               (case get_str payload ''lease'' of
                  None \<Rightarrow> (Inl ''tool.invoke requires payload.lease'', w)
                | Some lease \<Rightarrow>
                    and_then (invoke_arguments payload, w) (\<lambda>arguments w.
                    and_then (validate_tool_lease (ds_authority D) (ds_secrets D) tool_id lease (ds_now D w) payload w) (\<lambda>_ w.
                      case resolve_tool_execution (ds_names D) tool_id of
                        None \<Rightarrow> (Inl (''tool_not_found: unknown tool `'' @ tool_id @ ''`''), w)
                      | Some resolved \<Rightarrow>
                          if is_provider_exposed_tool_name (ds_names D) (rt_canonical_name resolved) then
                            (Inl (''tool_not_provider_exposed: '' @ rt_canonical_name resolved @
                              '' must be called directly as a core tool''), w)
                          else (Inr (resolved, \<lparr>tpcq_tool_name = rt_canonical_name resolved,
                              tpcq_payload = JObject arguments\<rparr>), w))))))"

definition execute_tool_invoke_tool ::
  "('n, 'x, 'w) tool_system \<Rightarrow> bool \<Rightarrow> 'n json tool_core_request \<Rightarrow> 'x tool_runtime_config \<Rightarrow> 'w \<Rightarrow>
   (string + 'n json tool_core_outcome) \<times> 'w" where
  "execute_tool_invoke_tool D trusted request config w =
     (let inner = (case json_get (tpcq_payload request) ''arguments'' of Some v \<Rightarrow> v | None \<Rightarrow> JNull) in
      and_then (ensure_untrusted_payload trusted (tpcq_tool_name request) inner ''payload.arguments'', w) (\<lambda>_ w.
      and_then (resolve_tool_invoke_request D request w) (\<lambda>(entry, effective_request) w.
        case rt_execution_kind entry of
          ToolCore \<Rightarrow> execute_discoverable_tool D effective_request config w
        | ToolApp \<Rightarrow> (Inl (''tool_requires_app_dispatcher: '' @ rt_canonical_name entry), w))))"

section \<open>A request\<close>

definition execute_tool_core ::
  "('n, 'x, 'w) tool_system \<Rightarrow> bool \<Rightarrow> 'x tool_runtime_config \<Rightarrow> 'n json tool_core_request \<Rightarrow> 'w \<Rightarrow>
   (string + 'n json tool_core_outcome) \<times> 'w" where
  "execute_tool_core D trusted config request w =
     (let canonical = canonical_tool_name (ds_names D) (tpcq_tool_name request);
          payload = tpcq_payload request
      in and_then (effective_tool_config D trusted config payload, w) (\<lambda>config w.
         and_then (ensure_untrusted_payload trusted (tpcq_tool_name request) payload ''payload'', w) (\<lambda>_ w.
         let request = normalize_shell_request_for_execution (ds_names D)
               \<lparr>tpcq_tool_name = canonical, tpcq_payload = payload\<rparr>
         in and_then (trusted_runtime_narrowing_from_payload D trusted (tpcq_payload request), w) (\<lambda>narrowing w.
         let config = narrow_config config narrowing in
         if canonical = ''tool.search'' then ds_execute D ''tool.search'' config request w
         else if canonical = ''tool.invoke'' then execute_tool_invoke_tool D trusted request config w
         else if canonical \<in> {''read'', ''write'', ''edit'', ''bash'', ''web'', ''browse'', ''memory''} then
           execute_direct_tool D request config w
         else execute_discoverable_tool D request config w))))"

definition is_expected_tool_request_error :: "string \<Rightarrow> bool" where
  "is_expected_tool_request_error error \<longleftrightarrow>
     prefix ''tool_not_found:'' error \<or> prefix ''app_tool_not_found:'' error \<or> prefix ''invalid_tool_lease:'' error \<or>
     prefix ''invalid_internal_runtime_narrowing:'' error \<or> prefix ''tool_surface_unavailable:'' error \<or>
     prefix ''direct_'' error \<or> sublist ''max_bytes limit'' error \<or>
     sublist ''browser tools are disabled by config.tools.browser.enabled=false'' error \<or>
     sublist ''web.fetch is disabled by config.tools.web.enabled=false'' error \<or>
     sublist ''reserved for trusted internal tool context'' error"

text \<open>A provider's call of a hidden tool becomes an invocation with a lease.\<close>

definition bridge_provider_tool_call_with_scope ::
  "('n, 'x, 'w) tool_system \<Rightarrow> string \<Rightarrow> 'n json \<Rightarrow> string option \<Rightarrow> string option \<Rightarrow> 'w \<Rightarrow> (string \<times> 'n json) \<times> 'w" where
  "bridge_provider_tool_call_with_scope D tool_name args_json session turn w =
     (let canonical = canonical_tool_name (ds_names D) tool_name in
      case (if canonical = ''shell.exec'' then None
            else direct_tool_name_for_hidden_tool (ds_names D) (ds_surfaces D) canonical) of
        Some direct \<Rightarrow> ((direct, args_json), w)
      | None \<Rightarrow>
          (case tn_resolve (ds_names D) canonical of
             None \<Rightarrow> ((canonical, args_json), w)
           | Some entry \<Rightarrow>
               if td_exposure entry \<noteq> ExposedDiscoverable then ((canonical, args_json), w)
               else
                 let lease_payload = inject_tool_lease_binding [] None session turn in
                 (case issue_tool_lease (ds_authority D) (ds_secrets D) (td_name entry) (ds_now D w) lease_payload w of
                    (issued, w) \<Rightarrow>
                      let lease = (case issued of Inr l \<Rightarrow> l | Inl e \<Rightarrow> ''tool-lease-error:'' @ e);
                          outer = bt_insert ''arguments'' args_json
                            (bt_insert ''lease'' (JString lease) (bt_insert ''tool_id'' (JString (td_name entry)) []))
                      in ((''tool.invoke'', JObject (fold (\<lambda>(k, v) m. bt_insert k v m) lease_payload outer)), w))))"

end
