(* ===== verification/Process_Properties.thy ===== *)
theory Process_Properties
  imports Process_Tools Kernel_Properties Web_Properties
begin

text \<open>
  What holds of the tools that run processes: the shell tool and the kernel's policy extension
  decide alike, a process starts only for a command that the rules admit, the kernel never runs a
  command that is denied by name, and a resolved file path stays under a configured root.
\<close>

section \<open>A machine\<close>

text \<open>Every path exists, is a directory and its own real path; a process counts itself in the world.\<close>

definition sample_files :: file_system where
  "sample_files = \<lparr>fs_current_dir = Some [''/'', ''w''], fs_exists = (\<lambda>_. True), fs_is_dir = (\<lambda>_. True),
     fs_canonicalize = Inr, fs_is_symlink = (\<lambda>_. False), fs_read_link = (\<lambda>_. None)\<rparr>"

definition sample_launcher :: launcher where
  "sample_launcher = \<lparr>la_is_file = (\<lambda>_. False), la_which = (\<lambda>_. Some ''/bin/ls''),
     la_which_standard = (\<lambda>_ _. None), la_current_dir = [''/'', ''w''], la_header = (\<lambda>_. None)\<rparr>"

definition sample_os :: "nat process_os" where
  "sample_os = \<lparr>os_files = sample_files, os_launcher = sample_launcher, os_lossy = id, os_environment = [],
     os_spawn = (\<lambda>_ w. (Inr 1, w + 1)),
     os_wait = (\<lambda>_ _ w. (Inr \<lparr>po_success = True, po_code = Some 0, po_stdout = [], po_stderr = []\<rparr>, w)),
     os_pause = id\<rparr>"

definition sample_shell_config :: "unit tool_runtime_config" where
  "sample_shell_config = example_config\<lparr>rc_shell_allow := {''ls''},
     rc_bash_exec := \<lparr>bep_available = True, bep_command = Some ''/bin/bash'', bep_warning = None, bep_login_shell = False,
       bep_governance = \<lparr>bgp_rules_dir = [], bgp_rules = [], bgp_load_error = None\<rparr>\<rparr>\<rparr>"

definition sample_command :: "string \<Rightarrow> (string, unit json) btree" where
  "sample_command command = [(''command'', JString command)]"

lemma sample_shell_decision:
  "validate_shell_command_name ''ls'' = Inr ''ls''"
  "trimmed_non_empty (get_str (sample_command ''ls'') ''command'') = Some ''ls''"
  "resolve_process_cwd sample_files sample_shell_config (sample_command ''ls'') ''shell.exec'' = Inr [''/'', ''w'']"
  "parse_timeout_ms example_tool_json (sample_command ''ls'') ''shell.exec'' = Inr 120000"
proof -
  have trim: "trim ''ls'' = ''ls''" by (rule trim_graphic_id) (simp_all add: ascii_graphic_def)
  have white: "\<not> contains_whitespace ''ls''" by code_simp
  show "validate_shell_command_name ''ls'' = Inr ''ls''"
    by (simp add: validate_shell_command_name_def trim white to_ascii_lowercase_def byte_ascii_lowercase_def)
  show "trimmed_non_empty (get_str (sample_command ''ls'') ''command'') = Some ''ls''"
    by (simp add: trimmed_non_empty_def get_str_def sample_command_def trim)
  show "resolve_process_cwd sample_files sample_shell_config (sample_command ''ls'') ''shell.exec'' = Inr [''/'', ''w'']"
    by (simp add: resolve_process_cwd_def parse_optional_process_cwd_def sample_command_def default_process_cwd_def
        path_resolution_root_def sample_shell_config_def example_config_def current_dir_or_dot_def sample_files_def)
  show "parse_timeout_ms example_tool_json (sample_command ''ls'') ''shell.exec'' = Inr 120000"
    by (simp add: parse_timeout_ms_def sample_command_def clamp_timeout_def)
qed

lemma sample_run: "\<exists>outcome. run_process_with_timeout sample_os invocation cwd ms kind w = (Inr outcome, w + 1)"
  by (simp add: run_process_with_timeout_def sample_os_def numeral_eq_Suc)

section \<open>The decision on a shell command\<close>

text \<open>The basename of a command and the rules it has to pass.\<close>

definition shell_command_admitted ::
  "'x tool_runtime_config \<Rightarrow> (string, 'n json) btree \<Rightarrow> string \<Rightarrow> string \<Rightarrow> bool" where
  "shell_command_admitted c payload command basename \<longleftrightarrow>
     validate_shell_command_name command = Inr basename \<and> basename \<notin> rc_shell_deny c \<and>
     (basename \<in> rc_shell_allow c \<or> rc_shell_default_mode c = ShellAllow \<or>
      shell_exec_matches_trusted_internal_approval payload (shell_exec_approval_key_for_normalized_command basename))"

lemma trimmed_non_empty_Some_iff:
  "trimmed_non_empty r = Some s \<longleftrightarrow> (\<exists>raw. r = Some raw \<and> s = trim raw \<and> trim raw \<noteq> [])"
  by (cases r) (auto simp: trimmed_non_empty_def)

lemma prepare_shell_exec_iff:
  "prepare_shell_exec J F c v = Inr (command, args, cwd, ms, basename) \<longleftrightarrow>
     (\<exists>payload. v = JObject payload \<and> trimmed_non_empty (get_str payload ''command'') = Some command \<and>
        args = shell_args payload \<and> resolve_process_cwd F c payload ''shell.exec'' = Inr cwd \<and>
        parse_timeout_ms J payload ''shell.exec'' = Inr ms \<and> shell_command_admitted c payload command basename)"
proof (cases v)
  case (JObject payload)
  show ?thesis
    unfolding prepare_shell_exec_def JObject shell_command_admitted_def
    by (cases "rc_shell_default_mode c") (auto simp: try_bind_Ok split: option.splits if_splits)
qed (auto simp: prepare_shell_exec_def json_as_object_def)

lemma authorize_direct_shell_payload_iff:
  assumes "trimmed_non_empty (get_str payload ''command'') = Some command"
  shows "authorize_direct_shell_payload payload c = Inr () \<longleftrightarrow> (\<exists>basename. shell_command_admitted c payload command basename)"
proof -
  obtain raw where raw: "get_str payload ''command'' = Some raw" "trim raw \<noteq> []" "command = trim raw"
    using assms by (auto simp: trimmed_non_empty_Some_iff)
  show ?thesis
    unfolding authorize_direct_shell_payload_def map_err_Inr authorize_shell_payload_def tool_policy_from_config_def
      shell_command_admitted_def raw(3)
    using raw(1,2)
    by (cases "rc_shell_default_mode c"; cases "validate_shell_command_name (trim raw)") auto
qed

text \<open>
  C19. The shell tool and the policy extension decide alike. When a request names a command and its
  directory and time limit are in order, the tool goes on to start a process exactly when the
  extension's check of the same payload under the same configuration passes: the two copies of
  the decision, in shell.rs and shell_policy_ext.rs, never differ.
\<close>

theorem shell_tool_decides_as_policy:
  assumes "trimmed_non_empty (get_str payload ''command'') = Some command"
    and "resolve_process_cwd F c payload ''shell.exec'' = Inr cwd"
    and "parse_timeout_ms J payload ''shell.exec'' = Inr ms"
  shows "(\<exists>prepared. prepare_shell_exec J F c (JObject payload) = Inr prepared) \<longleftrightarrow>
    authorize_direct_shell_payload payload c = Inr ()"
proof -
  have "(\<exists>prepared. prepare_shell_exec J F c (JObject payload) = Inr prepared) \<longleftrightarrow>
      (\<exists>basename. shell_command_admitted c payload command basename)"
    using assms by (auto simp: prepare_shell_exec_iff)
  then show ?thesis
    using authorize_direct_shell_payload_iff [OF assms(1), of c] by simp
qed

lemma shell_tool_decides_as_policy_witness:
  "(\<exists>prepared. prepare_shell_exec example_tool_json sample_files sample_shell_config (JObject (sample_command ''ls'')) =
      Inr prepared) \<longleftrightarrow> authorize_direct_shell_payload (sample_command ''ls'') sample_shell_config = Inr ()"
  by (rule shell_tool_decides_as_policy [OF sample_shell_decision(2-4)])

section \<open>What starts a process\<close>

text \<open>
  A process starts only for an admitted command: if running the shell tool changed anything,
  the request's payload is an object with a command whose name passes the check, is not denied,
  and is allowed, or approved in the context that trusted code adds, or everything is allowed by
  default, and the working directory is a directory.
\<close>

theorem shell_processes_run_admitted_commands:
  assumes "snd (execute_shell_tool J details OS c request w) \<noteq> w"
  shows "\<exists>payload command basename cwd. tpcq_payload request = JObject payload \<and>
    trimmed_non_empty (get_str payload ''command'') = Some command \<and>
    shell_command_admitted c payload command basename \<and>
    resolve_process_cwd (os_files OS) c payload ''shell.exec'' = Inr cwd \<and> fs_is_dir (os_files OS) cwd"
proof -
  obtain prepared where "prepare_shell_exec J (os_files OS) c (tpcq_payload request) = Inr prepared"
    using assms by (cases "prepare_shell_exec J (os_files OS) c (tpcq_payload request)") (auto simp: execute_shell_tool_def)
  then obtain command args cwd ms basename where
    "prepare_shell_exec J (os_files OS) c (tpcq_payload request) = Inr (command, args, cwd, ms, basename)"
    by (cases prepared) auto
  then obtain payload where p: "tpcq_payload request = JObject payload"
    "trimmed_non_empty (get_str payload ''command'') = Some command"
    "resolve_process_cwd (os_files OS) c payload ''shell.exec'' = Inr cwd"
    "shell_command_admitted c payload command basename"
    unfolding prepare_shell_exec_iff by blast
  moreover have "fs_is_dir (os_files OS) cwd"
    using p(3) by (auto simp: resolve_process_cwd_def try_bind_Ok split: if_splits)
  ultimately show ?thesis by blast
qed

definition sample_shell_request :: "unit json tool_core_request" where
  "sample_shell_request = \<lparr>tpcq_tool_name = ''shell.exec'', tpcq_payload = JObject (sample_command ''ls'')\<rparr>"

lemma sample_shell_prepared:
  "prepare_shell_exec example_tool_json sample_files sample_shell_config (JObject (sample_command ''ls'')) =
     Inr (''ls'', [], [''/'', ''w''], 120000, ''ls'')"
  unfolding prepare_shell_exec_iff shell_command_admitted_def
  using sample_shell_decision
  by (auto simp: sample_shell_config_def example_config_def shell_args_def sample_command_def)

lemma sample_shell_run:
  "snd (execute_shell_tool example_tool_json (\<lambda>_. JNull) sample_os sample_shell_config sample_shell_request w) = w + 1"
proof -
  have files: "os_files sample_os = sample_files" by (simp add: sample_os_def)
  obtain outcome where "run_process_with_timeout sample_os
      (resolve_command_invocation (os_launcher sample_os) ''ls'' []) [''/'', ''w''] 120000 ''shell command'' w =
      (Inr outcome, w + 1)"
    using sample_run by blast
  then show ?thesis
    by (simp add: execute_shell_tool_def sample_shell_request_def files sample_shell_prepared)
qed

lemma shell_processes_run_admitted_commands_witness:
  "\<exists>payload command basename cwd. tpcq_payload sample_shell_request = JObject payload \<and>
    trimmed_non_empty (get_str payload ''command'') = Some command \<and>
    shell_command_admitted sample_shell_config payload command basename \<and>
    resolve_process_cwd (os_files sample_os) sample_shell_config payload ''shell.exec'' = Inr cwd \<and>
    fs_is_dir (os_files sample_os) cwd"
  by (rule shell_processes_run_admitted_commands [of example_tool_json "\<lambda>_. JNull" sample_os sample_shell_config
      sample_shell_request 0]) (simp add: sample_shell_run)

section \<open>bash.exec\<close>

text \<open>
  C15. The bash tool starts a process only for a command that the governance admits: if running
  it changed anything, bash was found, the rules loaded, and the decision on the whole
  command is not a denial.
\<close>

theorem bash_processes_run_governed_commands:
  assumes "snd (execute_bash_tool J details parse OS c request w) \<noteq> w"
  shows "\<exists>payload command. tpcq_payload request = JObject payload \<and>
    trimmed_non_empty (get_str payload ''command'') = Some command \<and>
    reject_unknown_bash_exec_fields payload = Inr () \<and>
    bash_is_runtime_ready (rc_bash_exec c) \<and> bgp_load_error (bep_governance (rc_bash_exec c)) = None \<and>
    go_final_decision (evaluate_bash_command parse command (bgp_rules (bep_governance (rc_bash_exec c)))
      (rc_shell_default_mode c)) \<noteq> FinalDeny"
proof -
  obtain input where input: "parse_bash_exec_input J (os_files OS) (tpcq_payload request) c = Inr input"
    using assms by (cases "parse_bash_exec_input J (os_files OS) (tpcq_payload request) c") (auto simp: execute_bash_tool_def)
  then obtain payload where payload: "tpcq_payload request = JObject payload"
    "trimmed_non_empty (get_str payload ''command'') = Some (bi_command input)"
    "reject_unknown_bash_exec_fields payload = Inr ()"
    by (cases "tpcq_payload request")
      (auto simp: parse_bash_exec_input_def try_bind_Ok split: option.splits)
  obtain start where start: "preflight_bash_runtime parse c (bi_command input) = Inr start"
    using assms input by (cases "preflight_bash_runtime parse c (bi_command input)") (auto simp: execute_bash_tool_def)
  then have "bash_is_runtime_ready (rc_bash_exec c)" "bgp_load_error (bep_governance (rc_bash_exec c)) = None"
    "go_final_decision (evaluate_bash_command parse (bi_command input) (bgp_rules (bep_governance (rc_bash_exec c)))
      (rc_shell_default_mode c)) \<noteq> FinalDeny"
    by (auto simp: preflight_bash_runtime_def Let_def split: if_splits option.splits)
  with payload show ?thesis by blast
qed

definition sample_bash_config :: "unit tool_runtime_config" where
  "sample_bash_config = sample_shell_config\<lparr>rc_shell_default_mode := ShellAllow\<rparr>"

definition sample_bash_request :: "unit json tool_core_request" where
  "sample_bash_request = \<lparr>tpcq_tool_name = ''bash.exec'', tpcq_payload = JObject (sample_command ''ls'')\<rparr>"

lemma sample_bash_run:
  "snd (execute_bash_tool example_tool_json (\<lambda>_. JNull) (\<lambda>_. None) sample_os sample_bash_config sample_bash_request w) = w + 1"
proof -
  have cwd: "resolve_process_cwd sample_files sample_bash_config (sample_command ''ls'') ''bash.exec'' = Inr [''/'', ''w'']"
    by (simp add: resolve_process_cwd_def parse_optional_process_cwd_def sample_command_def default_process_cwd_def
        path_resolution_root_def sample_bash_config_def sample_shell_config_def example_config_def
        current_dir_or_dot_def sample_files_def)
  have "parse_timeout_ms example_tool_json (sample_command ''ls'') ''bash.exec'' = Inr 120000"
    by (simp add: parse_timeout_ms_def sample_command_def clamp_timeout_def)
  moreover have "reject_unknown_bash_exec_fields (sample_command ''ls'') = Inr ()"
    by (simp add: reject_unknown_bash_exec_fields_def sample_command_def bash_exec_allowed_fields_def)
  ultimately have input: "parse_bash_exec_input example_tool_json (os_files sample_os) (tpcq_payload sample_bash_request)
      sample_bash_config = Inr \<lparr>bi_command = ''ls'', bi_cwd = [''/'', ''w''], bi_timeout_ms = 120000\<rparr>"
    using cwd sample_shell_decision(2) by (simp add: parse_bash_exec_input_def sample_bash_request_def sample_os_def)
  have "preflight_bash_runtime (\<lambda>_. None) sample_bash_config ''ls'' = Inr (''/bin/bash'', False)"
    by (simp add: preflight_bash_runtime_def sample_bash_config_def sample_shell_config_def bash_is_runtime_ready_def
        evaluate_bash_command_def evaluate_bash_analysis_def analyze_bash_command_def first_with_def final_default_decision_def)
  moreover obtain outcome where "run_process_with_timeout sample_os (resolve_command_invocation (os_launcher sample_os)
      ''/bin/bash'' (bash_exec_args ''ls'' False)) [''/'', ''w''] 120000 ''bash command'' w = (Inr outcome, w + 1)"
    using sample_run by blast
  ultimately show ?thesis
    by (simp add: execute_bash_tool_def input)
qed

lemma bash_processes_run_governed_commands_witness:
  "\<exists>payload command. tpcq_payload sample_bash_request = JObject payload \<and>
    trimmed_non_empty (get_str payload ''command'') = Some command \<and>
    reject_unknown_bash_exec_fields payload = Inr () \<and>
    bash_is_runtime_ready (rc_bash_exec sample_bash_config) \<and>
    bgp_load_error (bep_governance (rc_bash_exec sample_bash_config)) = None \<and>
    go_final_decision (evaluate_bash_command (\<lambda>_. None) command
      (bgp_rules (bep_governance (rc_bash_exec sample_bash_config))) (rc_shell_default_mode sample_bash_config)) \<noteq> FinalDeny"
  by (rule bash_processes_run_governed_commands [of example_tool_json "\<lambda>_. JNull" "\<lambda>_. None" sample_os
      sample_bash_config sample_bash_request 0]) (simp add: sample_bash_run)

section \<open>The kernel\<close>

text \<open>
  C4. Through the kernel a command that is denied by name never reaches a tool: when the shell
  policy is among the kernel's extensions, every core tool call whose tool resolves to shell.exec
  and whose command's name is on the deny list ends in an error, with nothing changed but the audit
  trail, whatever the token, the allow list and the approvals in the payload say.
\<close>

theorem kernel_refuses_denied_shell_commands:
  assumes "tool_policy_kernel_extension N E \<in> set (k_policy_extensions k)"
    and "canonical_tool_name N (tpcq_tool_name request) = ''shell.exec''"
    and "tpcq_payload request = JObject payload"
    and "trimmed_non_empty (get_str payload ''command'') = Some command"
    and "validate_shell_command_name command = Inr basename" and "basename \<in> tp_hard_deny E"
  shows "\<exists>e k'. kernel_step k now (ExecuteToolCore pid token required core request) = (Inl e, k') \<and> audit_only k k'"
proof (rule denied_call_outcome)
  let ?params = "\<lparr>tpp_tool_name = tpcq_tool_name request, tpp_payload = tpcq_payload request\<rparr>"
  have "authorize_extension (tool_policy_kernel_extension N E)
      \<lparr>pec_pack = pack, pec_token = token, pec_now_epoch_s = now,
       pec_required_capabilities = required, pec_request_parameters = Some ?params\<rparr> \<noteq> Inr ()" for pack
    using assms(2-6)
    by (auto simp: tool_policy_kernel_extension_def tool_policy_authorize_extension_def effective_shell_request_def
        authorize_shell_payload_def trimmed_non_empty_Some_iff)
  then have "\<not> operation_authorized k now pack token required (Some ?params)" for pack
    using assms(1) by (auto simp: operation_authorized_def)
  then show "denied_call k now (ExecuteToolCore pid token required core request)"
    by (simp add: denied_call_def split: option.split)
qed

definition sample_names :: tool_names where
  "sample_names = \<lparr>tn_resolve = (\<lambda>_. None), tn_feishu = (\<lambda>_. None)\<rparr>"

definition sample_tool_policy :: tool_policy_extension where
  "sample_tool_policy = \<lparr>tp_hard_deny = {''ls''}, tp_allow = {''ls''}, tp_default_mode = ShellAllow\<rparr>"

definition sample_tool_kernel :: "(static_policy_engine, in_memory_sink, nat, unit json) loong_kernel" where
  "sample_tool_kernel = (kernel_with_runtime static_engine static_policy_engine_default in_memory_record
     \<lparr>mutex_poisoned = False, mutex_value = []\<rparr> 0)
     \<lparr>k_packs := [(''p'', sample_pack)],
      k_policy_extensions := [tool_policy_kernel_extension sample_names sample_tool_policy]\<rparr>"

lemma kernel_refuses_denied_shell_commands_witness:
  "\<exists>e k'. kernel_step sample_tool_kernel 6
      (ExecuteToolCore ''p'' sample_token {InvokeTool} None sample_shell_request) = (Inl e, k') \<and>
    audit_only sample_tool_kernel k'"
proof (rule kernel_refuses_denied_shell_commands)
  show "tool_policy_kernel_extension sample_names sample_tool_policy \<in> set (k_policy_extensions sample_tool_kernel)"
    by (simp add: sample_tool_kernel_def)
  show "canonical_tool_name sample_names (tpcq_tool_name sample_shell_request) = ''shell.exec''"
    by (simp add: canonical_tool_name_def sample_names_def sample_shell_request_def)
  show "tpcq_payload sample_shell_request = JObject (sample_command ''ls'')"
    by (simp add: sample_shell_request_def)
  show "trimmed_non_empty (get_str (sample_command ''ls'') ''command'') = Some ''ls''"
    and "validate_shell_command_name ''ls'' = Inr ''ls''"
    by (fact sample_shell_decision)+
  show "''ls'' \<in> tp_hard_deny sample_tool_policy" by (simp add: sample_tool_policy_def)
qed

section \<open>Files\<close>

text \<open>The path a request names, before the file system is looked at.\<close>

definition requested_file_path :: "file_system \<Rightarrow> 'x tool_runtime_config \<Rightarrow> path list \<Rightarrow> string \<Rightarrow> path" where
  "requested_file_path F c allowed_roots raw =
     (let primary_root = (case allowed_roots of r # _ \<Rightarrow> r | [] \<Rightarrow> current_dir_or_dot F);
          resolution_root = (case path_resolution_root c of Some r \<Rightarrow> r | None \<Rightarrow> primary_root);
          candidate = path_of_text raw
      in normalize_without_fs (if is_absolute candidate then candidate else path_join resolution_root candidate))"

lemma resolve_safe_file_path_Inr:
  assumes "resolve_safe_file_path F c raw = Inr p"
  obtains roots primary where "collect_allowed_roots F c = Inr roots"
    "resolve_path_within_allowed_roots F roots primary (requested_file_path F c roots raw) = Inr p"
  using assms by (auto simp: resolve_safe_file_path_def requested_file_path_def try_bind_Ok Let_def)

text \<open>The walk up stops at the deepest ancestor that exists.\<close>

lemma existing_ancestor_Some:
  "existing_ancestor F cursor missing = Some (ancestor, names) \<Longrightarrow>
    \<exists>passed. names = passed @ missing \<and> cursor = ancestor @ passed \<and> list_all is_normal passed \<and>
      fs_exists F ancestor \<and> (\<forall>q. strict_prefix ancestor q \<and> prefix q cursor \<longrightarrow> \<not> fs_exists F q)"
proof (induction F cursor missing rule: existing_ancestor.induct)
  case (1 F cursor missing)
  show ?case
  proof (cases "fs_exists F cursor")
    case True
    with 1(2) show ?thesis by (auto simp: existing_ancestor.simps [of F cursor])
  next
    case False
    with 1(2) obtain name parent where step: "path_file_name cursor = Some name" "path_parent cursor = Some parent"
      "existing_ancestor F parent (name # missing) = Some (ancestor, names)"
      by (auto simp: existing_ancestor.simps [of F cursor] split: option.splits)
    then have "is_normal name" and cursor: "cursor = parent @ [name]"
      by (auto simp: path_file_name_def path_parent_def split: if_splits)
    from 1(1) [OF False step(1,2,3)] obtain passed where passed: "names = passed @ name # missing" "parent = ancestor @ passed"
      "list_all is_normal passed" "fs_exists F ancestor"
      "\<forall>q. strict_prefix ancestor q \<and> prefix q parent \<longrightarrow> \<not> fs_exists F q"
      by blast
    from False cursor passed(5) have "\<forall>q. strict_prefix ancestor q \<and> prefix q cursor \<longrightarrow> \<not> fs_exists F q"
      by (metis prefix_snoc)
    with passed cursor \<open>is_normal name\<close> show ?thesis by (intro exI [of _ "passed @ [name]"]) simp
  qed
qed

lemma ensure_path_within_allowed_roots_Inr:
  "ensure_path_within_allowed_roots roots primary q = Inr () \<longleftrightarrow> (\<exists>root. root \<in> set roots \<and> path_starts_with q root)"
  by (auto simp: ensure_path_within_allowed_roots_def list_ex_iff)

text \<open>
  C13. A path that the file tools resolve stays in the sandbox. It is the requested path with its
  deepest existing ancestor replaced by that ancestor's real path: the names that follow are plain
  names, and no longer part of the requested path exists. Both that real path and the result lie
  under configured roots; so a path that exists is resolved to its real path as a whole. (A link
  whose target is missing counts as not existing and may be among the names; the tools that write
  refuse it on their own.)
\<close>

theorem resolved_file_paths_stay_under_roots:
  assumes "resolve_safe_file_path F c raw = Inr p"
  shows "\<exists>roots ancestor real names. collect_allowed_roots F c = Inr roots \<and>
    requested_file_path F c roots raw = ancestor @ names \<and> list_all is_normal names \<and>
    fs_exists F ancestor \<and> fs_canonicalize F ancestor = Inr real \<and> p = real @ names \<and>
    (\<forall>q. strict_prefix ancestor q \<and> prefix q (requested_file_path F c roots raw) \<longrightarrow> \<not> fs_exists F q) \<and>
    (\<exists>root \<in> set roots. path_starts_with real root) \<and> (\<exists>root \<in> set roots. path_starts_with p root)"
proof -
  from assms obtain roots primary where roots: "collect_allowed_roots F c = Inr roots"
    and resolve: "resolve_path_within_allowed_roots F roots primary (requested_file_path F c roots raw) = Inr p"
    by (rule resolve_safe_file_path_Inr)
  let ?requested = "requested_file_path F c roots raw"
  show ?thesis
  proof (cases "fs_exists F ?requested")
    case True
    then have "fs_canonicalize F ?requested = Inr p" "\<exists>root \<in> set roots. path_starts_with p root"
      using resolve by (auto simp: resolve_path_within_allowed_roots_def try_bind_Ok ensure_path_within_allowed_roots_Inr)
    with True roots show ?thesis
      by (intro exI [of _ roots] exI [of _ ?requested] exI [of _ p] exI [of _ "[]"]) (simp add: prefix_order.less_le_not_le)
  next
    case False
    then obtain ancestor names real where "existing_ancestor F ?requested [] = Some (ancestor, names)"
      and real: "fs_canonicalize F ancestor = Inr real" "p = real @ names"
        "\<exists>root \<in> set roots. path_starts_with real root" "\<exists>root \<in> set roots. path_starts_with p root"
      using resolve
      by (auto simp: resolve_path_within_allowed_roots_def split_existing_ancestor_def try_bind_Ok
          ensure_path_within_allowed_roots_Inr split: option.splits)
    with existing_ancestor_Some [of F ?requested "[]" ancestor names] roots show ?thesis
      by (intro exI [of _ roots] exI [of _ ancestor] exI [of _ real] exI [of _ names]) simp
  qed
qed

text \<open>A tree in which the process's directory exists and what is below it does not.\<close>

definition sample_tree :: file_system where
  "sample_tree = sample_files\<lparr>fs_exists := (\<lambda>p. p = [''/'', ''w''])\<rparr>"

lemma resolved_file_paths_stay_under_roots_witness:
  "\<exists>roots ancestor real names. collect_allowed_roots sample_tree sample_shell_config = Inr roots \<and>
    requested_file_path sample_tree sample_shell_config roots ''a'' = ancestor @ names \<and> list_all is_normal names \<and>
    fs_exists sample_tree ancestor \<and> fs_canonicalize sample_tree ancestor = Inr real \<and>
    [''/'', ''w'', ''a''] = real @ names \<and>
    (\<forall>q. strict_prefix ancestor q \<and> prefix q (requested_file_path sample_tree sample_shell_config roots ''a'') \<longrightarrow>
      \<not> fs_exists sample_tree q) \<and>
    (\<exists>root \<in> set roots. path_starts_with real root) \<and> (\<exists>root \<in> set roots. path_starts_with [''/'', ''w'', ''a''] root)"
proof (rule resolved_file_paths_stay_under_roots)
  show "resolve_safe_file_path sample_tree sample_shell_config ''a'' = Inr [''/'', ''w'', ''a'']"
    by (simp add: resolve_safe_file_path_def collect_allowed_roots_def configured_roots_def sample_shell_config_def
        example_config_def current_dir_or_dot_def sample_tree_def sample_files_def canonicalize_or_fallback_def path_resolution_root_def
        path_of_text_def is_absolute_def path_join_def normalize_without_fs_def
        resolve_path_within_allowed_roots_def ensure_path_within_allowed_roots_def path_starts_with_def
        split_existing_ancestor_def existing_ancestor.simps [of _ "[''/'', ''w'', ''a'']"]
        existing_ancestor.simps [of _ "[''/'', ''w'']"] path_file_name_def path_parent_def is_normal_def)
qed

text \<open>A script of that name in the process's directory runs in place of an allowed command.\<close>

lemma local_script_shadows_command:
  assumes "la_is_file L command" and "read_shebang L command = Some ''/bin/sh''"
  shows "resolve_command_invocation L command args = \<lparr>ci_program = ''/bin/sh'', ci_args = command # args\<rparr>"
  using assms by (simp add: resolve_command_invocation_def resolve_existing_command_path_def
      resolve_shebang_invocation_def trim_graphic_id ascii_graphic_def, code_simp)

end
