(* ===== verification/Dispatch_Properties.thy ===== *)
theory Dispatch_Properties
  imports Tool_Dispatch Process_Properties
begin

text \<open>
  What holds of a tool request as a whole: an untrusted request runs a shell command only under the
  configured rules, hidden tools run only under a lease, and the calls of a provider get a lease
  that their invocation accepts.
\<close>

section \<open>Untrusted requests\<close>

lemma effective_tool_config_untrusted: "effective_tool_config D False config payload = Inr config"
  by (cases config)
    (simp add: effective_tool_config_def trusted_workspace_root_from_payload_def
      trusted_runtime_narrowing_from_payload_def narrow_config_def with_workspace_root_override_def split: option.split)

lemma normalized_shell_object_keeps_context:
  "bt_get members loong_internal_tool_context_key = None \<Longrightarrow>
    normalize_shell_payload_object (JObject members) = JObject members' \<Longrightarrow>
    bt_get members' loong_internal_tool_context_key = None"
  by (auto simp: normalize_shell_payload_object_def loong_internal_tool_context_key_def Let_def
      split: if_splits option.splits prod.splits)

lemma normalized_shell_payload_keeps_context:
  assumes "\<not> payload_uses_reserved_internal_tool_context payload"
  shows "\<not> payload_uses_reserved_internal_tool_context (normalize_shell_payload_for_request N name payload)"
proof (cases payload)
  case (JObject members)
  with assms have none: "bt_get members loong_internal_tool_context_key = None"
    by (auto simp: payload_uses_reserved_internal_tool_context_def reserved_internal_tool_context_key_in_payload_def
        reserved_internal_tool_context_key_in_map_def bt_contains_key_def split: if_splits)
  have "\<exists>members'. normalize_shell_payload_object (JObject members) = JObject members'"
    by (auto simp: normalize_shell_payload_object_def Let_def split: if_splits option.splits prod.splits)
  then obtain members' where members': "normalize_shell_payload_object (JObject members) = JObject members'" ..
  from normalized_shell_object_keeps_context [OF none members'] members' JObject none show ?thesis
    by (auto simp: normalize_shell_payload_for_request_def payload_uses_reserved_internal_tool_context_def
        reserved_internal_tool_context_key_in_payload_def reserved_internal_tool_context_key_in_map_def bt_contains_key_def)
qed (use assms in \<open>auto simp: normalize_shell_payload_for_request_def normalize_shell_payload_object_def\<close>)

lemma no_context_no_approval:
  "\<not> payload_uses_reserved_internal_tool_context (JObject payload) \<Longrightarrow>
    \<not> shell_exec_matches_trusted_internal_approval payload approval_key"
  by (auto simp: payload_uses_reserved_internal_tool_context_def shell_exec_matches_trusted_internal_approval_def
      trusted_internal_tool_context_from_payload_def reserved_internal_tool_context_key_in_payload_def)

text \<open>If shell.exec changed anything, then by running the program that the payload names.\<close>

lemma shell_world_change:
  assumes "snd (execute_shell_tool J details OS c request w) \<noteq> w"
  obtains members command program cwd ms where "tpcq_payload request = JObject members"
    "trimmed_non_empty (get_str members ''command'') = Some command" "shell_command_admitted c members command program"
    "resolve_process_cwd (os_files OS) c members ''shell.exec'' = Inr cwd"
    "snd (execute_shell_tool J details OS c request w) = snd (run_process_with_timeout OS
      (resolve_command_invocation (os_launcher OS) program (shell_args members)) cwd ms ''shell command'' w)"
proof -
  obtain command args cwd ms program
    where prepared: "prepare_shell_exec J (os_files OS) c (tpcq_payload request) = Inr (command, args, cwd, ms, program)"
    using assms by (cases "prepare_shell_exec J (os_files OS) c (tpcq_payload request)") (auto simp: execute_shell_tool_def)
  then have "snd (execute_shell_tool J details OS c request w) = snd (run_process_with_timeout OS
      (resolve_command_invocation (os_launcher OS) program args) cwd ms ''shell command'' w)"
    by (auto simp: execute_shell_tool_def and_then_def split: prod.split sum.split)
  with prepared show thesis
    using that unfolding prepare_shell_exec_iff by blast
qed

lemma discoverable_shell_run:
  assumes "tn_feishu (ds_names D) ''shell.exec'' = None" and "tpcq_tool_name request = ''shell.exec''"
    and "snd (execute_discoverable_tool D request config w) \<noteq> w"
  shows "snd (execute_discoverable_tool D request config w) = snd (execute_shell_tool (ds_json D) (ds_details D) (ds_os D)
    config (normalize_shell_request_for_execution (ds_names D) request) w)"
proof -
  have name: "tpcq_tool_name (normalize_shell_request_for_execution (ds_names D) request) = ''shell.exec''"
    using assms(2) by (simp add: normalize_shell_request_for_execution_def)
  have dispatch: "dispatch_tool_request D (normalize_shell_request_for_execution (ds_names D) request) config w =
      execute_shell_tool (ds_json D) (ds_details D) (ds_os D) config
        (normalize_shell_request_for_execution (ds_names D) request) w"
    using assms(1) by (simp add: dispatch_tool_request_def name)
  have "tool_uses_dedicated_timeout ''shell.exec''" by (simp add: tool_uses_dedicated_timeout_def)
  then show ?thesis
    using assms(3) by (auto simp: execute_discoverable_tool_def Let_def name dispatch split: sum.splits option.splits)
qed

lemma untrusted_core_run:
  assumes "canonical_tool_name (ds_names D) (tpcq_tool_name request) = name"
    and "snd (execute_tool_core D False config request w) \<noteq> w" and "name = ''shell.exec''"
  shows "\<not> payload_uses_reserved_internal_tool_context (tpcq_payload request) \<and>
    snd (execute_tool_core D False config request w) = snd (execute_discoverable_tool D
      (normalize_shell_request_for_execution (ds_names D) \<lparr>tpcq_tool_name = name, tpcq_payload = tpcq_payload request\<rparr>) config w)"
  using assms
  by (auto simp: execute_tool_core_def Let_def effective_tool_config_untrusted ensure_untrusted_payload_def
      payload_uses_reserved_internal_tool_context_def trusted_runtime_narrowing_from_payload_def narrow_config_def
      split: option.splits)

text \<open>The payload as it reaches the tool: the entry normalizes it, and the dispatch does so again.\<close>

definition dispatched_shell_payload :: "tool_names \<Rightarrow> 'n json tool_core_request \<Rightarrow> 'n json" where
  "dispatched_shell_payload N request =
     normalize_shell_payload_for_request N ''shell.exec''
       (normalize_shell_payload_for_request N ''shell.exec'' (tpcq_payload request))"

text \<open>
  C3. An untrusted request cannot approve itself. If a shell.exec request from untrusted code
  changed anything, then its payload did not carry the reserved context, and all that it did is the
  run of the program that its own (normalized) payload names as the command, as the launcher finds
  it and with the arguments given there; and this program is not denied, and the allow list holds it
  or the default is to allow. An approval in the payload never counts.
\<close>

theorem untrusted_shell_calls_need_the_rules:
  assumes "canonical_tool_name (ds_names D) (tpcq_tool_name request) = ''shell.exec''"
    and "tn_feishu (ds_names D) ''shell.exec'' = None"
    and "snd (execute_tool_core D False config request w) \<noteq> w"
  shows "\<not> payload_uses_reserved_internal_tool_context (tpcq_payload request) \<and>
    (\<exists>members command program cwd ms.
      dispatched_shell_payload (ds_names D) request = JObject members \<and>
      trimmed_non_empty (get_str members ''command'') = Some command \<and>
      validate_shell_command_name command = Inr program \<and>
      program \<notin> rc_shell_deny config \<and> (program \<in> rc_shell_allow config \<or> rc_shell_default_mode config = ShellAllow) \<and>
      resolve_process_cwd (os_files (ds_os D)) config members ''shell.exec'' = Inr cwd \<and>
      snd (execute_tool_core D False config request w) = snd (run_process_with_timeout (ds_os D)
        (resolve_command_invocation (os_launcher (ds_os D)) program (shell_args members)) cwd ms ''shell command'' w))"
proof
  let ?N = "ds_names D"
  let ?once = "normalize_shell_request_for_execution ?N \<lparr>tpcq_tool_name = ''shell.exec'', tpcq_payload = tpcq_payload request\<rparr>"
  let ?twice = "normalize_shell_request_for_execution ?N ?once"
  note core = untrusted_core_run [OF assms(1,3) refl]
  then show plain: "\<not> payload_uses_reserved_internal_tool_context (tpcq_payload request)" ..
  have "tpcq_tool_name ?once = ''shell.exec''" by (simp add: normalize_shell_request_for_execution_def)
  then have ran: "snd (execute_tool_core D False config request w) =
      snd (execute_shell_tool (ds_json D) (ds_details D) (ds_os D) config ?twice w)"
    using discoverable_shell_run [OF assms(2), of ?once config w] core assms(3) by simp
  have payload: "tpcq_payload ?twice = dispatched_shell_payload ?N request"
    by (simp add: normalize_shell_request_for_execution_def dispatched_shell_payload_def)
  have plain': "\<not> payload_uses_reserved_internal_tool_context (dispatched_shell_payload ?N request)"
    using plain by (simp add: dispatched_shell_payload_def normalized_shell_payload_keeps_context)
  from assms(3) have "snd (execute_shell_tool (ds_json D) (ds_details D) (ds_os D) config ?twice w) \<noteq> w"
    unfolding ran .
  then show "\<exists>members command program cwd ms.
      dispatched_shell_payload (ds_names D) request = JObject members \<and>
      trimmed_non_empty (get_str members ''command'') = Some command \<and>
      validate_shell_command_name command = Inr program \<and>
      program \<notin> rc_shell_deny config \<and> (program \<in> rc_shell_allow config \<or> rc_shell_default_mode config = ShellAllow) \<and>
      resolve_process_cwd (os_files (ds_os D)) config members ''shell.exec'' = Inr cwd \<and>
      snd (execute_tool_core D False config request w) = snd (run_process_with_timeout (ds_os D)
        (resolve_command_invocation (os_launcher (ds_os D)) program (shell_args members)) cwd ms ''shell command'' w)"
  proof (rule shell_world_change)
    fix members command program cwd ms
    assume "tpcq_payload ?twice = JObject members"
      and run: "trimmed_non_empty (get_str members ''command'') = Some command"
        "shell_command_admitted config members command program"
        "resolve_process_cwd (os_files (ds_os D)) config members ''shell.exec'' = Inr cwd"
        "snd (execute_shell_tool (ds_json D) (ds_details D) (ds_os D) config ?twice w) =
          snd (run_process_with_timeout (ds_os D)
            (resolve_command_invocation (os_launcher (ds_os D)) program (shell_args members)) cwd ms ''shell command'' w)"
    then have members: "dispatched_shell_payload ?N request = JObject members" by (simp add: payload)
    with plain' no_context_no_approval have
      "\<not> shell_exec_matches_trusted_internal_approval members (shell_exec_approval_key_for_normalized_command program)"
      by simp
    with run members show ?thesis
      unfolding ran shell_command_admitted_def
      by (intro exI [of _ members] exI [of _ command] exI [of _ program] exI [of _ cwd] exI [of _ ms]) blast
  qed
qed

section \<open>Leases\<close>

text \<open>
  The tool that the payload names: what its \<open>tool_id\<close> stands for, except that \<open>agent\<close> means the
  hidden tool that its arguments are for, when they say which.
\<close>

definition names_tool :: "tool_names \<Rightarrow> (string, 'n json) btree \<Rightarrow> string \<Rightarrow> bool" where
  "names_tool N payload tool \<longleftrightarrow>
     (\<exists>name. get_str payload ''tool_id'' = Some name \<and>
        (if canonical_tool_name N name = ''agent'' then
           (case route_hidden_agent_tool_name (case bt_get payload ''arguments'' of Some v \<Rightarrow> v | None \<Rightarrow> JNull) of
              Inr routed \<Rightarrow> tool = routed
            | Inl _ \<Rightarrow> tool = ''agent'')
         else tool = canonical_tool_name N name))"

text \<open>A request that invokes a tool with a lease, which the authority accepts for that tool.\<close>

definition accepted_invocation ::
  "('n, 'x, 'w) tool_system \<Rightarrow> 'n json tool_core_request \<Rightarrow> 'w \<Rightarrow> string \<Rightarrow> (string, 'n json) btree \<Rightarrow> 'w \<Rightarrow> bool" where
  "accepted_invocation D request w tool payload leased \<longleftrightarrow>
     tpcq_payload request = JObject payload \<and> names_tool (ds_names D) payload tool \<and>
     (\<exists>lease. get_str payload ''lease'' = Some lease \<and>
        validate_tool_lease (ds_authority D) (ds_secrets D) tool lease (ds_now D w) payload w = (Inr (), leased))"

text \<open>A refusal leaves the world alone, but for the secret that checking a lease may create.\<close>

definition refused_invocation :: "('n, 'x, 'w) tool_system \<Rightarrow> 'w \<Rightarrow> 'w \<Rightarrow> bool" where
  "refused_invocation D w w' \<longleftrightarrow> w' = w \<or>
     (\<exists>tool lease (payload :: (string, 'n json) btree). w' =
       snd (validate_tool_lease (ds_authority D) (ds_secrets D) tool lease (ds_now D w) payload w))"

lemma peek_tool_invoke_request_Some:
  assumes "peek_tool_invoke_request N request = Some (tool, inner)"
  obtains payload where "tpcq_payload request = JObject payload" "names_tool N payload tool"
  using assms
  by (auto simp: peek_tool_invoke_request_def bind_eq_Some_conv Let_def names_tool_def
      split: if_split_asm sum.split_asm)

lemma resolve_tool_invoke_request_result:
  assumes "resolve_tool_invoke_request D request w = (result, w')"
  obtains e where "result = Inl e" "refused_invocation D w w'"
  | payload tool resolved arguments where "accepted_invocation D request w tool payload w'"
      "result = Inr (resolved, \<lparr>tpcq_tool_name = rt_canonical_name resolved, tpcq_payload = JObject arguments\<rparr>)"
      "resolve_tool_execution (ds_names D) tool = Some resolved" "invoke_arguments payload = Inr arguments"
      "\<not> is_provider_exposed_tool_name (ds_names D) (rt_canonical_name resolved)"
proof (cases "(\<exists>e. result = Inl e) \<and> refused_invocation D w w'")
  case True
  then show thesis using that(1) by blast
next
  case False
  obtain tool inner where peek: "peek_tool_invoke_request (ds_names D) request = Some (tool, inner)"
    using False assms by (auto simp: resolve_tool_invoke_request_def refused_invocation_def split: option.split_asm)
  then obtain payload where payload: "tpcq_payload request = JObject payload" and tool: "names_tool (ds_names D) payload tool"
    by (rule peek_tool_invoke_request_Some)
  obtain lease where lease: "get_str payload ''lease'' = Some lease"
    using False assms
    by (auto simp: resolve_tool_invoke_request_def peek payload refused_invocation_def split: option.split_asm)
  obtain arguments where arguments: "invoke_arguments payload = Inr arguments"
    using False assms
    by (cases "invoke_arguments payload")
      (auto simp: resolve_tool_invoke_request_def peek payload lease and_then_def refused_invocation_def)
  obtain checked leased where validated:
    "validate_tool_lease (ds_authority D) (ds_secrets D) tool lease (ds_now D w) payload w = (checked, leased)"
    by fastforce
  then have refused: "refused_invocation D w leased" unfolding refused_invocation_def by (metis snd_conv)
  have checked: "checked = Inr ()" and "w' = leased"
    using False assms refused
    by (auto simp: resolve_tool_invoke_request_def peek payload lease and_then_def arguments validated
        split: sum.split_asm option.split_asm if_split_asm)
  then have accepted: "accepted_invocation D request w tool payload w'"
    using payload lease tool validated by (auto simp: accepted_invocation_def)
  show thesis
    using False assms refused
    by (auto simp: resolve_tool_invoke_request_def peek payload lease and_then_def arguments validated checked \<open>w' = leased\<close>
        intro!: that(2) [OF accepted _ _ arguments] split: option.split_asm if_split_asm)
qed

text \<open>
  C12. A hidden tool runs only under its own lease. A tool.invoke request is either refused, with
  nothing changed but at most the lease secret created, or it named a tool and carried a lease that
  was accepted for exactly this tool at that moment and for the binding of this request, and then
  what it did, whether the tool succeeded or failed, is the run of the tool that this name resolves
  to, on the arguments of the request: a core tool that is not one of those that providers see.
\<close>

theorem hidden_tools_run_under_a_lease:
  assumes "execute_tool_invoke_tool D trusted request config w = (result, w')"
  shows "(\<exists>e. result = Inl e) \<and> refused_invocation D w w' \<or>
    (\<exists>payload tool resolved arguments leased. accepted_invocation D request w tool payload leased \<and>
      resolve_tool_execution (ds_names D) tool = Some resolved \<and> rt_execution_kind resolved = ToolCore \<and>
      \<not> is_provider_exposed_tool_name (ds_names D) (rt_canonical_name resolved) \<and>
      invoke_arguments payload = Inr arguments \<and>
      execute_discoverable_tool D \<lparr>tpcq_tool_name = rt_canonical_name resolved, tpcq_payload = JObject arguments\<rparr>
        config leased = (result, w'))"
proof -
  let ?inner = "case json_get (tpcq_payload request) ''arguments'' of Some v \<Rightarrow> v | None \<Rightarrow> JNull"
  show ?thesis
  proof (cases "ensure_untrusted_payload trusted (tpcq_tool_name request) ?inner ''payload.arguments''")
    case (Inl e)
    with assms show ?thesis by (auto simp: execute_tool_invoke_tool_def and_then_def refused_invocation_def)
  next
    case (Inr u)
    obtain resolving leased where resolve: "resolve_tool_invoke_request D request w = (resolving, leased)" by fastforce
    then show ?thesis
    proof (cases rule: resolve_tool_invoke_request_result)
      case (1 e)
      with assms Inr resolve show ?thesis by (auto simp: execute_tool_invoke_tool_def and_then_def)
    next
      case (2 payload tool resolved arguments)
      then have "refused_invocation D w leased"
        unfolding accepted_invocation_def refused_invocation_def by (metis snd_conv)
      moreover have "(case rt_execution_kind resolved of
          ToolCore \<Rightarrow> execute_discoverable_tool D
            \<lparr>tpcq_tool_name = rt_canonical_name resolved, tpcq_payload = JObject arguments\<rparr> config leased
        | ToolApp \<Rightarrow> (Inl (''tool_requires_app_dispatcher: '' @ rt_canonical_name resolved), leased)) = (result, w')"
        using 2(2) assms Inr resolve by (simp add: execute_tool_invoke_tool_def and_then_def)
      ultimately show ?thesis
        using 2 by (cases "rt_execution_kind resolved") (simp, blast, simp, blast)
    qed
  qed
qed

section \<open>A system\<close>

definition sample_network :: "nat network" where
  "sample_network = \<lparr>net_names = net_names example_network, net_parse_url = net_parse_url example_network,
     net_join = net_join example_network, net_parse_method = Inr, net_build_client = (\<lambda>_ _ _. Inr ()),
     net_send = (\<lambda>_ w. (Inl ''offline'', w)), net_lossy = id, net_base64 = id\<rparr>"

definition sample_catalog :: tool_names where
  "sample_catalog = \<lparr>tn_resolve = (\<lambda>name. if name = ''memory_get''
       then Some \<lparr>td_name = name, td_execution_kind = ToolCore, td_exposure = ExposedDiscoverable\<rparr> else None),
     tn_feishu = (\<lambda>_. None)\<rparr>"

definition sample_system :: "(unit, unit, nat) tool_system" where
  "sample_system = \<lparr>ds_names = sample_catalog,
     ds_surfaces = \<lparr>ts_is_surface_id = (\<lambda>_. False), ts_direct_tool_name = (\<lambda>_. None)\<rparr>,
     ds_lowercase = id, ds_json = example_tool_json, ds_narrowing_of_json = (\<lambda>_. Inl ''none''),
     ds_not_a_string = (\<lambda>_. ''no string''), ds_view = (\<lambda>_. {}), ds_os = sample_os, ds_details = (\<lambda>_. JNull),
     ds_parse_bash = (\<lambda>_. None), ds_network = sample_network, ds_reader = example_reader,
     ds_authority = sample_authority,
     ds_secrets = \<lparr>ss_read = (\<lambda>w. (Inr None, w)), ss_ensure_dir = (\<lambda>w. (Inr (), w)), ss_random = (\<lambda>w. (''key'', w)),
       ss_publish = (\<lambda>s w. (Inr (), w)), ss_pause = (\<lambda>w. w), ss_cached = (\<lambda>w. Some ''key''), ss_cache = (\<lambda>s w. w)\<rparr>,
     ds_now = (\<lambda>_. 399), ds_worker = (\<lambda>_ _ _. WorkerReported),
     ds_execute = (\<lambda>_ _ _ w. (Inr \<lparr>tpco_status = ''ok'', tpco_payload = JNull\<rparr>, w + 1))\<rparr>"

lemma sample_system_simps [simp]:
  "ds_names sample_system = sample_catalog" "ds_json sample_system = example_tool_json" "ds_os sample_system = sample_os"
  "ds_details sample_system = (\<lambda>_. JNull)" "ds_authority sample_system = sample_authority"
  "ds_now sample_system w = 399" "ss_cached (ds_secrets sample_system) w = Some ''key''"
  "ds_execute sample_system name c r w = (Inr \<lparr>tpco_status = ''ok'', tpco_payload = JNull\<rparr>, w + 1)"
  "ds_surfaces sample_system = \<lparr>ts_is_surface_id = (\<lambda>_. False), ts_direct_tool_name = (\<lambda>_. None)\<rparr>"
  by (simp_all add: sample_system_def)

lemma sample_dispatch:
  "dispatch_tool_request sample_system sample_shell_request sample_shell_config w =
     execute_shell_tool example_tool_json (\<lambda>_. JNull) sample_os sample_shell_config sample_shell_request w"
  by (simp add: dispatch_tool_request_def sample_shell_request_def sample_catalog_def)

lemma sample_shell_execution:
  "snd (execute_tool_core sample_system False sample_shell_config sample_shell_request 0) \<noteq> 0"
proof -
  have unchanged: "normalize_shell_payload_object (JObject (sample_command ''ls'')) = JObject (sample_command ''ls'')"
    using sample_shell_decision(1)
    by (simp add: normalize_shell_payload_object_def sample_command_def get_str_def split_shell_command_if_safe_def
        Let_def args_missing_def validate_shell_command_name_def split: if_splits)
  have names: "canonical_tool_name sample_catalog ''shell.exec'' = ''shell.exec''"
    by (simp add: canonical_tool_name_def sample_catalog_def)
  have request: "normalize_shell_request_for_execution sample_catalog
      \<lparr>tpcq_tool_name = ''shell.exec'', tpcq_payload = JObject (sample_command ''ls'')\<rparr> = sample_shell_request"
    by (simp add: normalize_shell_request_for_execution_def normalize_shell_payload_for_request_def names unchanged
        sample_shell_request_def)
  have "authorize_direct_shell_payload (sample_command ''ls'') sample_shell_config = Inr ()"
    unfolding authorize_direct_shell_payload_iff [OF sample_shell_decision(2)] shell_command_admitted_def
    using sample_shell_decision(1) by (auto simp: sample_shell_config_def example_config_def)
  then have "execute_discoverable_tool sample_system sample_shell_request sample_shell_config 0 =
      execute_shell_tool example_tool_json (\<lambda>_. JNull) sample_os sample_shell_config sample_shell_request 0"
    using request sample_dispatch [of 0]
    by (simp add: execute_discoverable_tool_def sample_shell_request_def Let_def
        direct_policy_preflight_def names tool_uses_dedicated_timeout_def split: option.split)
  moreover have "execute_tool_core sample_system False sample_shell_config sample_shell_request 0 =
      execute_discoverable_tool sample_system sample_shell_request sample_shell_config 0"
    using request
    by (simp add: execute_tool_core_def effective_tool_config_untrusted ensure_untrusted_payload_def
        trusted_runtime_narrowing_from_payload_def narrow_config_def sample_shell_request_def names
        reserved_internal_tool_context_key_in_payload_def reserved_internal_tool_context_key_in_map_def
        bt_contains_key_def sample_command_def loong_internal_tool_context_key_def)
  ultimately show ?thesis by (simp add: sample_shell_run)
qed

lemma untrusted_shell_calls_need_the_rules_witness:
  "\<not> payload_uses_reserved_internal_tool_context (tpcq_payload sample_shell_request) \<and>
    (\<exists>members command program cwd ms.
      dispatched_shell_payload (ds_names sample_system) sample_shell_request = JObject members \<and>
      trimmed_non_empty (get_str members ''command'') = Some command \<and>
      validate_shell_command_name command = Inr program \<and> program \<notin> rc_shell_deny sample_shell_config \<and>
      (program \<in> rc_shell_allow sample_shell_config \<or> rc_shell_default_mode sample_shell_config = ShellAllow) \<and>
      resolve_process_cwd (os_files (ds_os sample_system)) sample_shell_config members ''shell.exec'' = Inr cwd \<and>
      snd (execute_tool_core sample_system False sample_shell_config sample_shell_request 0) =
        snd (run_process_with_timeout (ds_os sample_system) (resolve_command_invocation (os_launcher (ds_os sample_system))
          program (shell_args members)) cwd ms ''shell command'' 0))"
proof (rule untrusted_shell_calls_need_the_rules)
  show "canonical_tool_name (ds_names sample_system) (tpcq_tool_name sample_shell_request) = ''shell.exec''"
    by (simp add: canonical_tool_name_def sample_catalog_def sample_shell_request_def)
  show "tn_feishu (ds_names sample_system) ''shell.exec'' = None"
    by (simp add: sample_catalog_def)
qed (rule sample_shell_execution)

definition sample_invocation :: "unit json tool_core_request" where
  "sample_invocation = \<lparr>tpcq_tool_name = ''tool.invoke'', tpcq_payload = JObject
     [(''arguments'', JObject []), (''lease'', JString ''memory_get-json.nosj-teg_yromem:yek''),
      (''tool_id'', JString ''memory_get'')]\<rparr>"

lemma sample_lease:
  "validate_tool_lease sample_authority (ds_secrets sample_system) ''memory_get''
     ''memory_get-json.nosj-teg_yromem:yek'' 399
     [(''arguments'', JObject []), (''lease'', JString ''memory_get-json.nosj-teg_yromem:yek''),
      (''tool_id'', JString ''memory_get'' :: unit json)] w = (Inr (), w)"
  unfolding validate_tool_lease_Inr_iff
proof (intro exI conjI)
  show "tool_lease_secret (la_codec sample_authority) (ds_secrets sample_system) (la_secret_file sample_authority) w =
      (Inr ''key'', w)"
    by (simp add: tool_lease_secret_def)
  show "validate_with_secret (la_codec sample_authority) ''key'' (la_catalog_digest sample_authority) ''memory_get''
      ''memory_get-json.nosj-teg_yromem:yek'' 399
      [(''arguments'', JObject []), (''lease'', JString ''memory_get-json.nosj-teg_yromem:yek''),
       (''tool_id'', JString ''memory_get'' :: unit json)] = Inr ()"
    by (simp add: validate_with_secret_def timing_safe_eq_eq sign_tool_lease_with_secret_def check_signed_claims_def
        check_claims_def sample_authority_def sample_codec_def)
qed

lemma sample_invocation_runs:
  "execute_tool_invoke_tool sample_system False sample_invocation sample_shell_config w =
     (Inr \<lparr>tpco_status = ''ok'', tpco_payload = JNull\<rparr>, w + 1)"
proof -
  have peek: "peek_tool_invoke_request sample_catalog sample_invocation = Some (''memory_get'', JObject [])"
    by (simp add: peek_tool_invoke_request_def sample_invocation_def canonical_tool_name_def sample_catalog_def get_str_def)
  have arguments: "invoke_arguments
      [(''arguments'', JObject []), (''lease'', JString ''memory_get-json.nosj-teg_yromem:yek''),
       (''tool_id'', JString ''memory_get'' :: unit json)] = Inr []"
    by (simp add: invoke_arguments_def loong_internal_tool_context_key_def)
  have resolve: "resolve_tool_invoke_request sample_system sample_invocation w =
      (Inr (\<lparr>rt_canonical_name = ''memory_get'', rt_execution_kind = ToolCore\<rparr>,
        \<lparr>tpcq_tool_name = ''memory_get'', tpcq_payload = JObject []\<rparr>), w)"
    using sample_lease [of w] arguments
    by (simp add: resolve_tool_invoke_request_def peek)
      (simp add: sample_invocation_def get_str_def resolve_tool_execution_def sample_catalog_def
        is_provider_exposed_tool_name_def canonical_tool_name_def is_provider_exposed_def)
  have "normalize_shell_request_for_execution sample_catalog \<lparr>tpcq_tool_name = ''memory_get'', tpcq_payload = JObject [] :: unit json\<rparr> =
      \<lparr>tpcq_tool_name = ''memory_get'', tpcq_payload = JObject []\<rparr>"
    by (simp add: normalize_shell_request_for_execution_def normalize_shell_payload_for_request_def
        canonical_tool_name_def sample_catalog_def)
  then have "execute_discoverable_tool sample_system \<lparr>tpcq_tool_name = ''memory_get'', tpcq_payload = JObject []\<rparr>
      sample_shell_config w = (Inr \<lparr>tpco_status = ''ok'', tpco_payload = JNull\<rparr>, w + 1)"
    by (simp add: execute_discoverable_tool_def Let_def direct_policy_preflight_def canonical_tool_name_def
        sample_catalog_def user_visible_tool_name_def direct_tool_name_for_hidden_tool_def dispatch_tool_request_def
        timeout_for_tool_def tool_timeout_lookup_keys_def push_timeout_lookup_key_def sample_shell_config_def
        example_config_def split: option.split)
  then show ?thesis
    using resolve
    by (simp add: execute_tool_invoke_tool_def ensure_untrusted_payload_def sample_invocation_def
        reserved_internal_tool_context_key_in_payload_def reserved_internal_tool_context_key_in_map_def
        bt_contains_key_def)
qed

lemma hidden_tools_run_under_a_lease_witness:
  "\<exists>payload tool resolved arguments leased. accepted_invocation sample_system sample_invocation 0 tool payload leased \<and>
    resolve_tool_execution (ds_names sample_system) tool = Some resolved \<and> rt_execution_kind resolved = ToolCore \<and>
    \<not> is_provider_exposed_tool_name (ds_names sample_system) (rt_canonical_name resolved) \<and>
    invoke_arguments payload = Inr arguments \<and>
    execute_discoverable_tool sample_system
      \<lparr>tpcq_tool_name = rt_canonical_name resolved, tpcq_payload = JObject arguments\<rparr> sample_shell_config leased =
      (Inr \<lparr>tpco_status = ''ok'', tpco_payload = JNull\<rparr>, 0 + 1)"
  using hidden_tools_run_under_a_lease [OF sample_invocation_runs [of 0]] by (elim disjE conjE exE) (simp, blast)

end
