(* ===== verification/Plan_Order.thy ===== *)
theory Plan_Order
  imports Plan_Graph
begin

text \<open>
  Counting off incoming edges, proved right: on degrees that fit the edges the loop ends, its
  result lists nodes after all their predecessors, and it lists all of them exactly when there is no
  cycle.
\<close>

section \<open>Releasing targets\<close>

lemma release_targets_spec:
  assumes "\<And>j. count_list js j \<le> (if j < length degrees then degrees ! j else 0)"
  shows "\<exists>degrees' new. release_targets js degrees queue = Inr (degrees', queue @ new) \<and>
    length degrees' = length degrees \<and> (\<forall>j < length degrees. degrees' ! j = degrees ! j - count_list js j) \<and>
    distinct new \<and> (\<forall>j. j \<in> set new \<longleftrightarrow> j \<in> set js \<and> degrees ! j = count_list js j)"
  using assms
proof (induction js arbitrary: degrees queue)
  case Nil
  then show ?case by simp
next
  case (Cons k js)
  have k: "k < length degrees" "Suc (count_list js k) \<le> degrees ! k"
    using Cons.prems [of k] by (auto split: if_splits)
  let ?degrees = "degrees[k := degrees ! k - 1]"
  let ?queue = "if degrees ! k - 1 = 0 then queue @ [k] else queue"
  have le: "count_list js j \<le> (if j < length ?degrees then ?degrees ! j else 0)" for j
    using Cons.prems [of j] k by (cases "j = k") (auto split: if_splits)
  obtain degrees' new where IH: "release_targets js ?degrees ?queue = Inr (degrees', ?queue @ new)"
    "length degrees' = length ?degrees" "\<forall>j < length ?degrees. degrees' ! j = ?degrees ! j - count_list js j"
    "distinct new" "\<forall>j. j \<in> set new \<longleftrightarrow> j \<in> set js \<and> ?degrees ! j = count_list js j"
    using Cons.IH [OF le] by blast
  define new' where "new' = (if degrees ! k - 1 = 0 then k # new else new)"
  have "k \<notin> set js" if "degrees ! k - 1 = 0"
  proof -
    have "count_list js k = 0" using that k by simp
    then show ?thesis by (simp add: count_list_0_iff)
  qed
  then have fresh: "k \<notin> set new" if "degrees ! k - 1 = 0"
    using that IH(5) by blast
  show ?case
  proof (intro exI conjI allI impI)
    show "release_targets (k # js) degrees queue = Inr (degrees', queue @ new')"
      using k(1) IH(1) by (simp add: new'_def)
    show "length degrees' = length degrees" using IH(2) by simp
    show "degrees' ! j = degrees ! j - count_list (k # js) j" if "j < length degrees" for j
      using that k IH(3) by (cases "j = k") auto
    show "distinct new'" using IH(4) fresh by (simp add: new'_def)
    show "j \<in> set new' \<longleftrightarrow> j \<in> set (k # js) \<and> degrees ! j = count_list (k # js) j" for j
    proof (cases "j = k")
      case True
      have "j \<in> set new' \<longleftrightarrow> degrees ! k = 1 \<or> k \<in> set js \<and> degrees ! k - 1 = count_list js k"
        using k IH(5) True by (auto simp: new'_def)
      also have "\<dots> \<longleftrightarrow> degrees ! k = Suc (count_list js k)"
        using k by (cases "k \<in> set js") (auto simp: count_list_0_iff)
      finally show ?thesis using True by simp
    next
      case False
      then show ?thesis using IH(5) by (auto simp: new'_def)
    qed
  qed
qed

section \<open>The invariant of the loop\<close>

text \<open>The nodes that were not visited yet are those whose edges still count.\<close>

definition open_degree :: "usize list list \<Rightarrow> nat set \<Rightarrow> nat \<Rightarrow> nat" where
  "open_degree adjacency unvisited j = (\<Sum>i \<in> unvisited. count_list (adjacency ! i) j)"

definition graph_within :: "nat \<Rightarrow> usize list list \<Rightarrow> bool" where
  "graph_within n adjacency \<longleftrightarrow> length adjacency = n \<and> (\<forall>i < n. set (adjacency ! i) \<subseteq> {..<n})"

definition graph_edges :: "usize list list \<Rightarrow> (nat \<times> nat) set" where
  "graph_edges adjacency = {(i, j). i < length adjacency \<and> j \<in> set (adjacency ! i)}"

text \<open>Every node comes after all its predecessors.\<close>

definition after_predecessors :: "usize list list \<Rightarrow> nat list \<Rightarrow> bool" where
  "after_predecessors adjacency order \<longleftrightarrow>
     (\<forall>before j rest i. order = before @ j # rest \<longrightarrow> (i, j) \<in> graph_edges adjacency \<longrightarrow> i \<in> set before)"

definition count_off_inv :: "nat \<Rightarrow> usize list list \<Rightarrow> usize list \<Rightarrow> usize list \<Rightarrow> usize list \<Rightarrow> bool" where
  "count_off_inv n adjacency queue degrees visited \<longleftrightarrow>
     graph_within n adjacency \<and> length degrees = n \<and> distinct (visited @ queue) \<and> set (visited @ queue) \<subseteq> {..<n} \<and>
     (\<forall>j < n. degrees ! j = open_degree adjacency ({..<n} - set visited) j) \<and>
     (\<forall>j < n. degrees ! j = 0 \<longleftrightarrow> j \<in> set (visited @ queue)) \<and> after_predecessors adjacency visited"

lemma open_degree_remove:
  "i \<in> unvisited \<Longrightarrow> finite unvisited \<Longrightarrow>
    open_degree adjacency unvisited j = count_list (adjacency ! i) j + open_degree adjacency (unvisited - {i}) j"
  unfolding open_degree_def by (rule sum.remove) auto

lemma open_degree_0_iff:
  "finite unvisited \<Longrightarrow> open_degree adjacency unvisited j = 0 \<longleftrightarrow> (\<forall>i \<in> unvisited. j \<notin> set (adjacency ! i))"
  by (simp add: open_degree_def count_list_0_iff)

lemma after_predecessors_snoc:
  "after_predecessors adjacency order \<Longrightarrow> (\<And>i. (i, j) \<in> graph_edges adjacency \<Longrightarrow> i \<in> set order) \<Longrightarrow>
    after_predecessors adjacency (order @ [j])"
  unfolding after_predecessors_def by (auto simp: append_eq_append_conv2 append_eq_Cons_conv Cons_eq_append_conv)

lemma count_off_step:
  assumes inv: "count_off_inv n adjacency (i # rest) degrees visited"
  obtains degrees' queue' where "release_targets (adjacency ! i) degrees rest = Inr (degrees', queue')"
    "count_off_inv n adjacency queue' degrees' (visited @ [i])"
proof -
  let ?open = "{..<n} - set visited"
  let ?open' = "{..<n} - set (visited @ [i])"
  have i: "i < n" "i \<in> ?open" and len: "length degrees = n"
    and within: "graph_within n adjacency"
    and degrees: "\<And>j. j < n \<Longrightarrow> degrees ! j = open_degree adjacency ?open j"
    and zero: "\<And>j. j < n \<Longrightarrow> degrees ! j = 0 \<longleftrightarrow> j \<in> set (visited @ i # rest)"
    and distinct: "distinct (visited @ i # rest)" and sub: "set (visited @ i # rest) \<subseteq> {..<n}"
    using inv by (auto simp: count_off_inv_def)
  have split: "open_degree adjacency ?open j = count_list (adjacency ! i) j + open_degree adjacency ?open' j" for j
  proof -
    have "?open - {i} = ?open'" by auto
    then show ?thesis using open_degree_remove [of i ?open adjacency j] i by simp
  qed
  have le: "count_list (adjacency ! i) j \<le> (if j < length degrees then degrees ! j else 0)" for j
    using within i degrees [of j] split [of j] len by (auto simp: graph_within_def count_list_0_iff)
  obtain degrees' new where release: "release_targets (adjacency ! i) degrees rest = Inr (degrees', rest @ new)"
    "length degrees' = length degrees" "\<forall>j < length degrees. degrees' ! j = degrees ! j - count_list (adjacency ! i) j"
    "distinct new" "\<forall>j. j \<in> set new \<longleftrightarrow> j \<in> set (adjacency ! i) \<and> degrees ! j = count_list (adjacency ! i) j"
    using release_targets_spec [OF le] by blast
  have new: "j < n \<and> degrees ! j \<noteq> 0" if "j \<in> set new" for j
    using that release(5) within i by (auto simp: graph_within_def count_list_0_iff)
  have degrees': "degrees' ! j = open_degree adjacency ?open' j" if "j < n" for j
    using that release(3) degrees [OF that] split [of j] len by simp
  have zero': "degrees' ! j = 0 \<longleftrightarrow> j \<in> set ((visited @ [i]) @ rest @ new)" if j: "j < n" for j
  proof (cases "j \<in> set (adjacency ! i)")
    case True
    have "degrees' ! j = 0 \<longleftrightarrow> degrees ! j \<le> count_list (adjacency ! i) j"
      using release(3) j len by auto
    then show ?thesis
      using True release(5) zero [OF j] degrees [OF j] split [of j] by auto
  next
    case False
    then show ?thesis
      using zero [OF j] release(3,5) j len by (auto simp: count_list_0_iff)
  qed
  have disjoint: "set new \<inter> set (visited @ i # rest) = {}"
    using new zero by blast
  have "count_off_inv n adjacency (rest @ new) degrees' (visited @ [i])"
    unfolding count_off_inv_def
  proof (intro conjI allI impI)
    show "graph_within n adjacency" by (rule within)
    show "length degrees' = n" using release(2) len by simp
    show "distinct ((visited @ [i]) @ rest @ new)" using distinct disjoint release(4) by auto
    show "set ((visited @ [i]) @ rest @ new) \<subseteq> {..<n}" using sub new by auto
    show "after_predecessors adjacency (visited @ [i])"
    proof (rule after_predecessors_snoc)
      show "after_predecessors adjacency visited" using inv by (simp add: count_off_inv_def)
      fix k assume "(k, i) \<in> graph_edges adjacency"
      then have k: "k < n" "i \<in> set (adjacency ! k)" using within by (auto simp: graph_edges_def graph_within_def)
      have "open_degree adjacency ?open i = 0" using zero [OF i(1)] degrees [OF i(1)] by simp
      then show "k \<in> set visited" using k by (auto simp: open_degree_0_iff)
    qed
  qed (use degrees' zero' in blast)+
  with release(1) show thesis by (rule that)
qed

lemma count_off_result:
  "count_off_inv n adjacency queue degrees visited \<Longrightarrow>
    \<exists>order degrees'. count_off adjacency queue degrees visited = Some (Inr order) \<and>
      count_off_inv n adjacency [] degrees' order"
proof (induction "n - length visited" arbitrary: queue degrees visited rule: less_induct)
  case less
  show ?case
  proof (cases queue)
    case Nil
    then show ?thesis using less.prems by (auto simp: count_off.simps)
  next
    case (Cons i rest)
    obtain degrees' queue' where step: "release_targets (adjacency ! i) degrees rest = Inr (degrees', queue')"
      "count_off_inv n adjacency queue' degrees' (visited @ [i])"
      using less.prems unfolding Cons by (rule count_off_step)
    have "length (visited @ [i]) \<le> n"
      using step(2) card_mono [of "{..<n}" "set (visited @ [i])"] distinct_card [of "visited @ [i]"]
      by (auto simp: count_off_inv_def)
    then have "n - length (visited @ [i]) < n - length visited" by simp
    from less.hyps [OF this step(2)] obtain order degrees'' where
      "count_off adjacency queue' degrees' (visited @ [i]) = Some (Inr order)"
      "count_off_inv n adjacency [] degrees'' order" by blast
    moreover have "i < length adjacency"
      using less.prems Cons by (auto simp: count_off_inv_def graph_within_def)
    ultimately show ?thesis
      using step(1) Cons by (auto simp: count_off.simps [of adjacency "i # rest"])
  qed
qed

section \<open>Acyclic graphs\<close>

lemma takeWhile_position: "x \<notin> set xs \<Longrightarrow> length (takeWhile (\<lambda>y. y \<noteq> x) (xs @ x # ys)) = length xs"
  by (induction xs) auto

lemma topological_graph_is_acyclic:
  assumes "after_predecessors adjacency order" and "distinct order" and "set order = {..<length adjacency}"
    and "graph_within (length adjacency) adjacency"
  shows "acyclic (graph_edges adjacency)"
proof -
  define pos where "pos i = length (takeWhile (\<lambda>x. x \<noteq> i) order)" for i
  have "pos i < pos j" if edge: "(i, j) \<in> graph_edges adjacency" for i j
  proof -
    have "j \<in> set order" using edge assms(3,4) by (auto simp: graph_edges_def graph_within_def)
    then obtain before rest where order: "order = before @ j # rest" by (meson split_list)
    then have "i \<in> set before" using assms(1) edge by (auto simp: after_predecessors_def)
    then obtain before' rest' where before: "before = before' @ i # rest'" by (meson split_list)
    have "pos j = length before" "pos i = length before'"
      using assms(2) takeWhile_position [of j before rest] takeWhile_position [of i before' "rest' @ j # rest"]
      by (auto simp: pos_def order before)
    then show ?thesis by (simp add: before)
  qed
  then have "graph_edges adjacency \<subseteq> inv_image less_than pos" by (auto simp: inv_image_def)
  then have "wf (graph_edges adjacency)" by (rule wf_subset [OF wf_inv_image [OF wf_less_than]])
  then show ?thesis by (rule wf_acyclic)
qed

lemma finished_order:
  assumes inv: "count_off_inv n adjacency [] degrees order"
  shows "distinct order" and "set order \<subseteq> {..<n}" and "after_predecessors adjacency order"
    and "length order = n \<longleftrightarrow> acyclic (graph_edges adjacency)"
proof -
  show distinct: "distinct order" and sub: "set order \<subseteq> {..<n}" and topo: "after_predecessors adjacency order"
    using inv by (simp_all add: count_off_inv_def)
  have within: "graph_within n adjacency" and len: "length adjacency = n"
    using inv by (simp_all add: count_off_inv_def graph_within_def)
  have full: "length order = n \<longleftrightarrow> set order = {..<n}"
    using distinct sub distinct_card [OF distinct] card_subset_eq [of "{..<n}" "set order"] by auto
  show "length order = n \<longleftrightarrow> acyclic (graph_edges adjacency)"
  proof
    assume "length order = n"
    then show "acyclic (graph_edges adjacency)"
      using topological_graph_is_acyclic [OF topo distinct] full len within by simp
  next
    assume acyclic: "acyclic (graph_edges adjacency)"
    have "graph_edges adjacency \<subseteq> {..<n} \<times> {..<n}"
      using within by (auto simp: graph_edges_def graph_within_def)
    then have "finite (graph_edges adjacency)" by (rule finite_subset) simp
    then have wf: "wf (graph_edges adjacency)" using acyclic by (rule finite_acyclic_wf)
    have "{..<n} - set order = {}"
    proof (rule ccontr)
      assume "{..<n} - set order \<noteq> {}"
      then obtain z where z: "z \<in> {..<n} - set order"
        and min: "\<And>y. (y, z) \<in> graph_edges adjacency \<Longrightarrow> y \<notin> {..<n} - set order"
        using wfE_min' [OF wf] by metis
      have "degrees ! z \<noteq> 0" "degrees ! z = open_degree adjacency ({..<n} - set order) z"
        using z inv by (auto simp: count_off_inv_def)
      then obtain y where "y \<in> {..<n} - set order" "z \<in> set (adjacency ! y)"
        using open_degree_0_iff [of "{..<n} - set order" adjacency z] by auto
      then show False using min [of y] len by (auto simp: graph_edges_def)
    qed
    then show "length order = n" using full sub by auto
  qed
qed

text \<open>The degrees the code counts fit, so the loop can start.\<close>

lemma count_off_start:
  assumes "graph_within n adjacency" and "length degrees = n"
    and "\<And>j. j < n \<Longrightarrow> degrees ! j = open_degree adjacency {..<n} j"
  shows "count_off_inv n adjacency (entry_indexes degrees) degrees []"
  using assms by (auto simp: count_off_inv_def entry_indexes_def after_predecessors_def)

end
