(* ===== verification/Plan_Executor.thy ===== *)
theory Plan_Executor
  imports Plan_Order
begin

text \<open>
  The run of a plan (crates/app/src/conversation/plan_executor.rs): the nodes in topological order,
  each with its attempts, under the budgets for attempts and wall time. The executor of a node and
  the clock are arguments; an attempt that takes longer than the node's time limit is one of the
  outcomes the executor may have.
\<close>

section \<open>Errors, events and reports\<close>

datatype plan_node_error_kind = NodeApprovalRequired | NodeRetryable | NodePolicyDenied | NodeNonRetryable

record plan_node_error =
  ne_kind :: plan_node_error_kind
  ne_message :: string

definition normalize_node_error :: "plan_node_error \<Rightarrow> plan_node_error" where
  "normalize_node_error e =
     \<lparr>ne_kind = ne_kind e,
      ne_message = (if trim (ne_message e) = [] then ''node execution failed with empty reason'' else trim (ne_message e))\<rparr>"

datatype plan_run_failure =
    PlanValidationFailed string
  | PlanTopologyResolutionFailed
  | PlanBudgetExceeded usize usize
  | PlanWallTimeExceeded nat u64
  | PlanNodeFailed string "8 word" plan_node_error_kind string

datatype plan_run_status = PlanSucceeded | PlanFailed plan_run_failure

record plan_attempt_event =
  ae_node_id :: string
  ae_attempt :: "8 word"
  ae_success :: bool
  ae_error_kind :: "plan_node_error_kind option"
  ae_error :: "string option"

record plan_run_report =
  pr_status :: plan_run_status
  pr_ordered_nodes :: "string list"
  pr_attempts_used :: usize
  pr_attempt_events :: "plan_attempt_event list"
  pr_elapsed_ms :: nat

section \<open>Attempts\<close>

datatype attempt_outcome = AttemptTimedOut | AttemptDone | AttemptFailed plan_node_error

record 'w plan_node_executor =
  nx_execute :: "plan_node \<Rightarrow> 8 word \<Rightarrow> u64 \<Rightarrow> 'w \<Rightarrow> attempt_outcome \<times> 'w"
  nx_clock_ms :: "'w \<Rightarrow> nat"

record 'w plan_run =
  run_attempts_used :: usize
  run_events :: "plan_attempt_event list"
  run_world :: 'w

definition success_event :: "plan_node \<Rightarrow> 8 word \<Rightarrow> plan_attempt_event" where
  "success_event node attempt =
     \<lparr>ae_node_id = pn_id node, ae_attempt = attempt, ae_success = True, ae_error_kind = None, ae_error = None\<rparr>"

definition failure_event :: "plan_node \<Rightarrow> 8 word \<Rightarrow> plan_node_error \<Rightarrow> plan_attempt_event" where
  "failure_event node attempt e =
     \<lparr>ae_node_id = pn_id node, ae_attempt = attempt, ae_success = False, ae_error_kind = Some (ne_kind e),
      ae_error = Some (ne_message e)\<rparr>"

definition node_timeout_error :: "plan_node \<Rightarrow> plan_node_error" where
  "node_timeout_error node = normalize_node_error
     \<lparr>ne_kind = NodeRetryable, ne_message = ''node_timeout node='' @ pn_id node @ '' timeout_ms='' @
        nat_to_dec (unat (pn_timeout_ms node))\<rparr>"

text \<open>How a node ended: done, or with the failure of the whole run and the time it took.\<close>

datatype node_end = NodeDone | RunStopped plan_run_failure nat

fun attempt_node ::
  "'w plan_node_executor \<Rightarrow> plan_budget \<Rightarrow> nat \<Rightarrow> plan_node \<Rightarrow> 8 word list \<Rightarrow> 'w plan_run \<Rightarrow> node_end \<times> 'w plan_run" where
  "attempt_node X budget started node [] run = (NodeDone, run)"
| "attempt_node X budget started node (attempt # attempts) run =
     (let elapsed = nx_clock_ms X (run_world run) - started in
      if unat (pb_max_wall_time_ms budget) < elapsed then
        (RunStopped (PlanWallTimeExceeded elapsed (pb_max_wall_time_ms budget)) elapsed, run)
      else if pb_max_total_attempts budget \<le> run_attempts_used run then
        (RunStopped (PlanBudgetExceeded (run_attempts_used run) (pb_max_total_attempts budget)) elapsed, run)
      else
        (case nx_execute X node attempt (max (pn_timeout_ms node) 1) (run_world run) of (outcome, w) \<Rightarrow>
          let run = \<lparr>run_attempts_used = usize_saturating_add (run_attempts_used run) 1, run_events = run_events run,
                run_world = w\<rparr>;
              failed = (\<lambda>e. run\<lparr>run_events := run_events run @ [failure_event node attempt e]\<rparr>);
              stop = (\<lambda>e. (RunStopped (PlanNodeFailed (pn_id node) attempt (ne_kind e) (ne_message e))
                (nx_clock_ms X w - started), failed e))
          in case outcome of
            AttemptTimedOut \<Rightarrow>
              (let e = node_timeout_error node in
               if attempt = pn_max_attempts node then stop e
               else attempt_node X budget started node attempts (failed e))
          | AttemptDone \<Rightarrow> (NodeDone, run\<lparr>run_events := run_events run @ [success_event node attempt]\<rparr>)
          | AttemptFailed e \<Rightarrow>
              (let e = normalize_node_error e in
               if ne_kind e = NodePolicyDenied \<or> ne_kind e = NodeApprovalRequired \<or> attempt = pn_max_attempts node
               then stop e
               else attempt_node X budget started node attempts (failed e))))"

definition attempts_of :: "plan_node \<Rightarrow> 8 word list" where
  "attempts_of node = map of_nat [1..<Suc (unat (pn_max_attempts node))]"

fun run_plan_nodes ::
  "'w plan_node_executor \<Rightarrow> plan_budget \<Rightarrow> nat \<Rightarrow> plan_node list \<Rightarrow> usize list \<Rightarrow> 'w plan_run \<Rightarrow> node_end \<times> 'w plan_run" where
  "run_plan_nodes X budget started nodes [] run = (NodeDone, run)"
| "run_plan_nodes X budget started nodes (i # indexes) run =
     (if length nodes \<le> i then
        (RunStopped PlanTopologyResolutionFailed (nx_clock_ms X (run_world run) - started), run)
      else case attempt_node X budget started (nodes ! i) (attempts_of (nodes ! i)) run of
        (NodeDone, run) \<Rightarrow> run_plan_nodes X budget started nodes indexes run
      | (stopped, run) \<Rightarrow> (stopped, run))"

section \<open>The run\<close>

definition empty_report :: "plan_run_failure \<Rightarrow> plan_run_report" where
  "empty_report failure =
     \<lparr>pr_status = PlanFailed failure, pr_ordered_nodes = [], pr_attempts_used = 0, pr_attempt_events = [],
      pr_elapsed_ms = 0\<rparr>"

text \<open>None when one of the two counting loops does not end.\<close>

definition plan_execute ::
  "'w plan_node_executor \<Rightarrow> plan_graph \<Rightarrow> 'w \<Rightarrow> (plan_run_report \<times> 'w) option" where
  "plan_execute X p w =
     (case plan_validate p of
        None \<Rightarrow> None
      | Some (Inl e) \<Rightarrow> Some (empty_report (PlanValidationFailed e), w)
      | Some (Inr _) \<Rightarrow>
          (case topological_order p of
             None \<Rightarrow> None
           | Some None \<Rightarrow> Some (empty_report PlanTopologyResolutionFailed, w)
           | Some (Some order) \<Rightarrow>
               if list_ex (\<lambda>i. length (pg_nodes p) \<le> i) order then
                 Some (empty_report PlanTopologyResolutionFailed, w)
               else
                 let ordered_nodes = map (\<lambda>i. pn_id (pg_nodes p ! i)) order; started = nx_clock_ms X w in
                 (case run_plan_nodes X (pg_budget p) started (pg_nodes p) order
                     \<lparr>run_attempts_used = 0, run_events = [], run_world = w\<rparr> of
                   (ended, run) \<Rightarrow>
                     Some (\<lparr>pr_status = (case ended of NodeDone \<Rightarrow> PlanSucceeded | RunStopped failure _ \<Rightarrow> PlanFailed failure),
                       pr_ordered_nodes = ordered_nodes, pr_attempts_used = run_attempts_used run,
                       pr_attempt_events = run_events run,
                       pr_elapsed_ms = (case ended of
                           NodeDone \<Rightarrow> nx_clock_ms X (run_world run) - started | RunStopped _ elapsed \<Rightarrow> elapsed)\<rparr>,
                      run_world run))))"

end
