(* ===== verification/Plan_Validation.thy ===== *)
theory Plan_Validation
  imports Plan_Executor
begin

text \<open>
  What validation accepts: the nodes and edges as lists, their index, and the degrees that
  counting gives, related to the graph on the ids of the nodes.
\<close>

section \<open>Nodes\<close>

definition nodes_ok :: "plan_node list \<Rightarrow> bool" where
  "nodes_ok nodes \<longleftrightarrow>
     list_all (\<lambda>node. trim (pn_id node) \<noteq> [] \<and> pn_timeout_ms node \<noteq> 0 \<and> pn_max_attempts node \<noteq> 0) nodes"

definition indexed_nodes :: "plan_node list \<Rightarrow> node_index \<Rightarrow> node_index" where
  "indexed_nodes nodes index = fold (\<lambda>node index. bt_insert (pn_id node) (length index) index) nodes index"

definition add_attempts :: "plan_node list \<Rightarrow> usize \<Rightarrow> usize" where
  "add_attempts nodes a = fold (\<lambda>node a. usize_saturating_add a (unat (pn_max_attempts node))) nodes a"

definition all_attempts :: "plan_node list \<Rightarrow> nat" where
  "all_attempts nodes = sum_list (map (\<lambda>node. unat (pn_max_attempts node)) nodes)"

lemma check_plan_nodes_iff:
  "check_plan_nodes nodes index a = Inr (index', a') \<longleftrightarrow>
     nodes_ok nodes \<and> distinct (map pn_id nodes) \<and> (\<forall>node \<in> set nodes. bt_get index (pn_id node) = None) \<and>
     index' = indexed_nodes nodes index \<and> a' = add_attempts nodes a"
proof (induction nodes index a rule: check_plan_nodes.induct)
  case (1 index a)
  then show ?case by (auto simp: nodes_ok_def indexed_nodes_def add_attempts_def)
next
  case (2 node nodes index a)
  show ?case
  proof (cases "trim (pn_id node) = [] \<or> pn_timeout_ms node = 0 \<or> pn_max_attempts node = 0 \<or> bt_get index (pn_id node) \<noteq> None")
    case True
    then show ?thesis by (auto simp: nodes_ok_def)
  next
    case False
    then have "check_plan_nodes (node # nodes) index a = Inr (index', a') \<longleftrightarrow>
        nodes_ok nodes \<and> distinct (map pn_id nodes) \<and>
        (\<forall>other \<in> set nodes. bt_get (bt_insert (pn_id node) (length index) index) (pn_id other) = None) \<and>
        index' = indexed_nodes (node # nodes) index \<and> a' = add_attempts (node # nodes) a"
      using 2 by (simp add: indexed_nodes_def add_attempts_def)
    also have "\<dots> \<longleftrightarrow> nodes_ok (node # nodes) \<and> distinct (map pn_id (node # nodes)) \<and>
        (\<forall>other \<in> set (node # nodes). bt_get index (pn_id other) = None) \<and>
        index' = indexed_nodes (node # nodes) index \<and> a' = add_attempts (node # nodes) a"
      using False by (auto simp: nodes_ok_def image_iff split: if_splits)
    finally show ?thesis .
  qed
qed

lemma add_attempts_eq: "a \<le> usize_max \<Longrightarrow> add_attempts nodes a = min (a + all_attempts nodes) usize_max"
proof (induction nodes arbitrary: a)
  case (Cons node nodes)
  have "usize_saturating_add a (unat (pn_max_attempts node)) \<le> usize_max" by (simp add: usize_saturating_add_def)
  from Cons.IH [OF this] show ?case
    by (auto simp: add_attempts_def all_attempts_def usize_saturating_add_def)
qed (simp add: add_attempts_def all_attempts_def)

lemma bt_insert_length: "bt_get m k = None \<Longrightarrow> length (bt_insert k v m) = Suc (length m)"
  by (induction m) (auto split: if_splits)

lemma indexed_nodes_lookup:
  "distinct (map pn_id nodes) \<Longrightarrow> \<forall>node \<in> set nodes. bt_get index (pn_id node) = None \<Longrightarrow>
    bt_get (indexed_nodes nodes index) x = Some i \<longleftrightarrow>
      bt_get index x = Some i \<or> length index \<le> i \<and> i < length index + length nodes \<and> pn_id (nodes ! (i - length index)) = x"
proof (induction nodes arbitrary: index)
  case Nil
  then show ?case by (auto simp: indexed_nodes_def)
next
  case (Cons node nodes)
  let ?index = "bt_insert (pn_id node) (length index) index"
  have fresh: "bt_get index (pn_id node) = None" using Cons.prems by simp
  then have len: "length ?index = Suc (length index)" by (rule bt_insert_length)
  have none: "\<forall>node \<in> set nodes. bt_get ?index (pn_id node) = None"
    using Cons.prems by (auto simp: image_iff)
  have "bt_get (indexed_nodes (node # nodes) index) x = Some i \<longleftrightarrow>
      bt_get ?index x = Some i \<or> Suc (length index) \<le> i \<and> i < Suc (length index) + length nodes \<and>
        pn_id (nodes ! (i - Suc (length index))) = x"
    using Cons.IH [OF _ none] Cons.prems len by (simp add: indexed_nodes_def)
  also have "\<dots> \<longleftrightarrow> bt_get index x = Some i \<or> length index \<le> i \<and> i < length index + length (node # nodes) \<and>
      pn_id ((node # nodes) ! (i - length index)) = x"
  proof (cases "i - length index")
    case 0
    then show ?thesis using fresh by auto
  next
    case (Suc m)
    then have "i - Suc (length index) = m" "i \<noteq> length index" by auto
    then show ?thesis using fresh Suc by auto
  qed
  finally show ?case .
qed

lemma executor_index_eq:
  assumes "distinct (map pn_id nodes)"
  shows "executor_index nodes = indexed_nodes nodes []"
proof -
  have "fold (\<lambda>(i, node) index. bt_insert (pn_id node) i index) (enumerate (length index) nodes) index =
      indexed_nodes nodes index"
    if "distinct (map pn_id nodes)" "\<forall>node \<in> set nodes. bt_get index (pn_id node) = None" for index :: node_index
    using that
  proof (induction nodes arbitrary: index)
    case (Cons node nodes)
    let ?index = "bt_insert (pn_id node) (length index) index"
    have "bt_get index (pn_id node) = None" using Cons.prems by simp
    then have len: "length ?index = Suc (length index)" by (rule bt_insert_length)
    have none: "\<forall>node \<in> set nodes. bt_get ?index (pn_id node) = None"
      using Cons.prems by (auto simp: image_iff)
    show ?case using Cons.IH [OF _ none] Cons.prems len by (simp add: indexed_nodes_def)
  qed (simp add: indexed_nodes_def)
  from this [of "[]"] assms show ?thesis by (simp add: executor_index_def)
qed

section \<open>Edges\<close>

definition degrees_ok :: "nat \<Rightarrow> plan_degrees \<Rightarrow> bool" where
  "degrees_ok n G \<longleftrightarrow>
     graph_within n (gd_adjacency G) \<and> length (gd_indegree G) = n \<and> length (gd_outdegree G) = n \<and>
     (\<forall>j < n. gd_indegree G ! j = open_degree (gd_adjacency G) {..<n} j) \<and>
     (\<forall>i < n. gd_outdegree G ! i = length (gd_adjacency G ! i))"

definition degrees_below :: "nat \<Rightarrow> plan_degrees \<Rightarrow> bool" where
  "degrees_below m G \<longleftrightarrow> (\<forall>d \<in> set (gd_indegree G). d + m \<le> usize_max) \<and> (\<forall>d \<in> set (gd_outdegree G). d + m \<le> usize_max)"

lemma no_degrees_ok: "degrees_ok n (no_degrees n)"
  and no_degrees_below: "m \<le> usize_max \<Longrightarrow> degrees_below m (no_degrees n)"
  by (auto simp: degrees_ok_def degrees_below_def no_degrees_def graph_within_def open_degree_def)

lemma no_degrees_edges: "graph_edges (gd_adjacency (no_degrees n)) = {}"
  by (auto simp: graph_edges_def no_degrees_def)

lemma open_degree_link:
  assumes "i < n" and "length adjacency = n"
  shows "open_degree (adjacency[i := adjacency ! i @ [j]]) {..<n} k = open_degree adjacency {..<n} k + (if k = j then 1 else 0)"
proof -
  have "open_degree (adjacency[i := adjacency ! i @ [j]]) ({..<n} - {i}) k = open_degree adjacency ({..<n} - {i}) k"
    unfolding open_degree_def by (rule sum.cong) auto
  then show ?thesis
    using assms by (auto simp: open_degree_remove [of i "{..<n}"])
qed

lemma link_nodes_ok:
  assumes ok: "degrees_ok n G" and below: "degrees_below (Suc m) G" and "i < n" "j < n"
  obtains G' where "link_nodes G i j = Inr G'" "degrees_ok n G'" "degrees_below m G'"
    "graph_edges (gd_adjacency G') = insert (i, j) (graph_edges (gd_adjacency G))"
proof -
  let ?adjacency = "(gd_adjacency G)[i := gd_adjacency G ! i @ [j]]"
  have len: "length (gd_indegree G) = n" "length (gd_outdegree G) = n" "length (gd_adjacency G) = n"
    using ok by (auto simp: degrees_ok_def graph_within_def)
  have room: "gd_indegree G ! j + Suc m \<le> usize_max" "gd_outdegree G ! i + Suc m \<le> usize_max"
    using below assms(3,4) len by (auto simp: degrees_below_def)
  define G' where "G' = \<lparr>gd_indegree = (gd_indegree G)[j := gd_indegree G ! j + 1],
    gd_outdegree = (gd_outdegree G)[i := gd_outdegree G ! i + 1], gd_adjacency = ?adjacency\<rparr>"
  have "link_nodes G i j = Inr G'"
    using len assms(3,4) room by (simp add: link_nodes_def G'_def)
  moreover have "degrees_ok n G'"
    using ok assms(3,4) len
    by (auto simp: degrees_ok_def G'_def open_degree_link nth_list_update graph_within_def)
  moreover have "degrees_below m G'"
    using below room unfolding degrees_below_def G'_def
    by (auto dest!: set_update_subset_insert [THEN subsetD])
  moreover have "graph_edges (gd_adjacency G') = insert (i, j) (graph_edges (gd_adjacency G))"
    using len assms(3) by (auto simp: graph_edges_def G'_def nth_list_update split: if_splits)
  ultimately show thesis by (rule that)
qed

definition index_edges :: "node_index \<Rightarrow> plan_edge list \<Rightarrow> (nat \<times> nat) set" where
  "index_edges index edges = {(i, j). \<exists>e \<in> set edges. bt_get index (pe_from e) = Some i \<and> bt_get index (pe_to e) = Some j}"

definition edges_known :: "node_index \<Rightarrow> plan_edge list \<Rightarrow> bool" where
  "edges_known index edges \<longleftrightarrow> list_all (\<lambda>e. bt_get index (pe_from e) \<noteq> None \<and> bt_get index (pe_to e) \<noteq> None) edges"

lemma link_edges_cases:
  assumes bounded: "\<And>x i. bt_get index x = Some i \<Longrightarrow> i < n"
  shows "degrees_ok n G \<Longrightarrow> degrees_below (length edges) G \<Longrightarrow>
    (if edges_known index edges \<and> (\<forall>i. (i, i) \<notin> index_edges index edges)
     then \<exists>G'. link_edges index edges G = Inr G' \<and> degrees_ok n G' \<and>
       graph_edges (gd_adjacency G') = graph_edges (gd_adjacency G) \<union> index_edges index edges \<and>
       link_executor_edges index edges (gd_indegree G, gd_adjacency G) = Some (gd_indegree G', gd_adjacency G')
     else \<exists>e. link_edges index edges G = Inl e)"
proof (induction edges arbitrary: G)
  case Nil
  then show ?case by (simp add: edges_known_def index_edges_def)
next
  case (Cons edge edges)
  show ?case
  proof (cases "bt_get index (pe_from edge) = None \<or> bt_get index (pe_to edge) = None \<or>
      bt_get index (pe_from edge) = bt_get index (pe_to edge)")
    case True
    then show ?thesis by (auto simp: edges_known_def index_edges_def split: option.splits)
  next
    case False
    then obtain i j where ij: "bt_get index (pe_from edge) = Some i" "bt_get index (pe_to edge) = Some j" "i \<noteq> j" by auto
    then have lt: "i < n" "j < n" using bounded by blast+
    have below: "degrees_below (Suc (length edges)) G" using Cons.prems(2) by simp
    obtain G1 where G1: "link_nodes G i j = Inr G1" "degrees_ok n G1" "degrees_below (length edges) G1"
      "graph_edges (gd_adjacency G1) = insert (i, j) (graph_edges (gd_adjacency G))"
      using link_nodes_ok [OF Cons.prems(1) below lt] by blast
    have idx_edges: "index_edges index (edge # edges) = insert (i, j) (index_edges index edges)"
      using ij by (auto simp: index_edges_def)
    have known: "edges_known index (edge # edges) \<longleftrightarrow> edges_known index edges" using ij by (simp add: edges_known_def)
    have G1_eq: "gd_indegree G1 = (gd_indegree G)[j := usize_saturating_add (gd_indegree G ! j) 1]"
      "gd_adjacency G1 = (gd_adjacency G)[i := gd_adjacency G ! i @ [j]]"
      "\<not> (length (gd_indegree G) \<le> j \<or> length (gd_adjacency G) \<le> i)"
      using G1(1) by (auto simp: link_nodes_def split: if_splits)
    show ?thesis
      using Cons.IH [OF G1(2,3)] ij G1(1,4) G1_eq idx_edges known by auto
  qed
qed

section \<open>Counting and cycles\<close>

lemma acyclic_sources_and_sinks:
  assumes "degrees_ok n G" and "0 < n" and "acyclic (graph_edges (gd_adjacency G))"
  shows "0 \<in> set (gd_indegree G)" and "0 \<in> set (gd_outdegree G)"
proof -
  let ?E = "graph_edges (gd_adjacency G)"
  have within: "graph_within n (gd_adjacency G)" using assms(1) by (simp add: degrees_ok_def)
  then have "?E \<subseteq> {..<n} \<times> {..<n}" by (auto simp: graph_edges_def graph_within_def)
  then have fin: "finite ?E" by (rule finite_subset) simp
  obtain z where z: "z \<in> {..<n}" "\<And>y. (y, z) \<in> ?E \<Longrightarrow> y \<notin> {..<n}"
    using wfE_min' [OF finite_acyclic_wf [OF fin assms(3)], of "{..<n}"] assms(2) by auto
  have "open_degree (gd_adjacency G) {..<n} z = 0"
    using z within by (auto simp: open_degree_0_iff graph_edges_def graph_within_def)
  then show "0 \<in> set (gd_indegree G)"
    using assms(1) z(1) by (metis degrees_ok_def lessThan_iff nth_mem)
  obtain x where x: "x \<in> {..<n}" "\<And>y. (y, x) \<in> ?E\<inverse> \<Longrightarrow> y \<notin> {..<n}"
    using wfE_min' [OF finite_acyclic_wf [of "?E\<inverse>"], of "{..<n}"] fin assms(2,3) by auto
  have "gd_adjacency G ! x = []"
  proof (rule ccontr)
    assume "gd_adjacency G ! x \<noteq> []"
    then obtain y where y: "y \<in> set (gd_adjacency G ! x)" by (cases "gd_adjacency G ! x") auto
    then have "y < n" "(x, y) \<in> ?E" using within x(1) by (auto simp: graph_within_def graph_edges_def)
    then show False using x(2) [of y] by auto
  qed
  then show "0 \<in> set (gd_outdegree G)"
    using assms(1) x(1) by (metis degrees_ok_def lessThan_iff list.size(3) nth_mem)
qed

lemma count_off_degrees:
  assumes "degrees_ok n G"
  obtains order degrees where
    "count_off (gd_adjacency G) (entry_indexes (gd_indegree G)) (gd_indegree G) [] = Some (Inr order)"
    "count_off_inv n (gd_adjacency G) [] degrees order"
proof -
  have "count_off_inv n (gd_adjacency G) (entry_indexes (gd_indegree G)) (gd_indegree G) []"
    using assms by (intro count_off_start) (simp_all add: degrees_ok_def)
  from count_off_result [OF this] that show thesis by blast
qed

lemma check_plan_edges_iff:
  assumes "degrees_ok n G" and "0 < n"
  shows "check_plan_edges G n \<noteq> None" and "check_plan_edges G n = Some (Inr ()) \<longleftrightarrow> acyclic (graph_edges (gd_adjacency G))"
proof -
  obtain order degrees where order:
    "count_off (gd_adjacency G) (entry_indexes (gd_indegree G)) (gd_indegree G) [] = Some (Inr order)"
    "count_off_inv n (gd_adjacency G) [] degrees order"
    using count_off_degrees [OF assms(1)] .
  show "check_plan_edges G n \<noteq> None" by (simp add: check_plan_edges_def order(1))
  show "check_plan_edges G n = Some (Inr ()) \<longleftrightarrow> acyclic (graph_edges (gd_adjacency G))"
    using acyclic_sources_and_sinks [OF assms] finished_order(4) [OF order(2)]
    by (auto simp: check_plan_edges_def order(1) filter_empty_conv)
qed

section \<open>Graphs on ids\<close>

lemma acyclic_on_indexes:
  assumes "inj_on f {..<n :: nat}" and "R \<subseteq> f ` {..<n} \<times> f ` {..<n}"
    and E: "E = {(i, j). i < n \<and> j < n \<and> (f i, f j) \<in> R}"
  shows "acyclic E \<longleftrightarrow> acyclic R"
proof -
  have "E \<subseteq> {..<n} \<times> {..<n}" using E by auto
  then have fin: "finite E" by (rule finite_subset) simp
  have image: "R = map_prod f f ` E"
  proof (intro set_eqI iffI)
    fix e assume "e \<in> R"
    moreover from this obtain i j where "e = (f i, f j)" "i < n" "j < n" using assms(2) by auto
    ultimately show "e \<in> map_prod f f ` E" using E by (auto intro!: image_eqI [of _ _ "(i, j)"])
  qed (auto simp: E)
  then have fin': "finite R" using fin by simp
  have "wf E \<longleftrightarrow> wf R"
  proof
    assume wf: "wf E"
    show "wf R"
      unfolding image by (rule wf_map_prod_image_Dom_Ran [OF wf]) (use assms(1) E in \<open>auto simp: inj_on_def\<close>)
  next
    assume "wf R"
    then have "wf (inv_image R f)" by (rule wf_inv_image)
    then show "wf E" by (rule wf_subset) (auto simp: E inv_image_def)
  qed
  then show ?thesis
    using finite_acyclic_wf [OF fin] finite_acyclic_wf [OF fin'] wf_acyclic [of E] wf_acyclic [of R] by argo
qed

definition plan_edges :: "plan_graph \<Rightarrow> (string \<times> string) set" where
  "plan_edges p = (\<lambda>e. (pe_from e, pe_to e)) ` set (pg_edges p)"

text \<open>A list of nodes or edges fits the memory of a machine, and so do the numbers counted from it.\<close>

definition plan_fits_memory :: "plan_graph \<Rightarrow> bool" where
  "plan_fits_memory p \<longleftrightarrow> 255 * length (pg_nodes p) \<le> usize_max \<and> length (pg_edges p) \<le> usize_max"

definition plan_well_formed :: "plan_graph \<Rightarrow> bool" where
  "plan_well_formed p \<longleftrightarrow>
     pg_nodes p \<noteq> [] \<and> length (pg_nodes p) \<le> pb_max_nodes (pg_budget p) \<and> nodes_ok (pg_nodes p) \<and>
     distinct (map pn_id (pg_nodes p)) \<and> all_attempts (pg_nodes p) \<le> pb_max_total_attempts (pg_budget p) \<and>
     plan_edges p \<subseteq> set (map pn_id (pg_nodes p)) \<times> set (map pn_id (pg_nodes p))"

lemma all_attempts_le: "all_attempts nodes \<le> 255 * length nodes"
proof (induction nodes)
  case (Cons node nodes)
  have "unat (pn_max_attempts node) \<le> 255" using unsigned_less [of "pn_max_attempts node", where ?'a = nat] by simp
  then show ?case using Cons by (simp add: all_attempts_def)
qed (simp add: all_attempts_def)

lemma plan_index:
  assumes "distinct (map pn_id nodes)"
  shows "bt_get (indexed_nodes nodes []) x = Some i \<longleftrightarrow> i < length nodes \<and> pn_id (nodes ! i) = x"
  using indexed_nodes_lookup [OF assms, of "[]" x i] by simp

lemma plan_index_None:
  assumes "distinct (map pn_id nodes)"
  shows "bt_get (indexed_nodes nodes []) x = None \<longleftrightarrow> x \<notin> set (map pn_id nodes)"
proof -
  have "bt_get (indexed_nodes nodes []) x \<noteq> None \<longleftrightarrow> x \<in> set (map pn_id nodes)"
  proof -
    have "x \<in> set (map pn_id nodes) \<longleftrightarrow> (\<exists>i < length nodes. pn_id (nodes ! i) = x)"
      by (metis in_set_conv_nth length_map nth_map)
    then show ?thesis using plan_index [OF assms, of x] by auto
  qed
  then show ?thesis by blast
qed

text \<open>What linking and counting give on a plan with distinct ids.\<close>

lemma plan_linked:
  assumes "distinct (map pn_id (pg_nodes p))" and "plan_fits_memory p"
  defines "index \<equiv> indexed_nodes (pg_nodes p) []" and "n \<equiv> length (pg_nodes p)"
  shows "(if plan_edges p \<subseteq> set (map pn_id (pg_nodes p)) \<times> set (map pn_id (pg_nodes p)) \<and> irrefl (plan_edges p)
    then \<exists>G. link_edges index (pg_edges p) (no_degrees n) = Inr G \<and> degrees_ok n G \<and>
      graph_edges (gd_adjacency G) = {(i, j). i < n \<and> j < n \<and> (pn_id (pg_nodes p ! i), pn_id (pg_nodes p ! j)) \<in> plan_edges p} \<and>
      link_executor_edges index (pg_edges p) (replicate n 0, replicate n []) = Some (gd_indegree G, gd_adjacency G)
    else \<exists>e. link_edges index (pg_edges p) (no_degrees n) = Inl e)"
proof -
  note lookup = plan_index [OF assms(1), folded index_def n_def]
  note lookup_None = plan_index_None [OF assms(1), folded index_def]
  have known: "edges_known index (pg_edges p) \<longleftrightarrow>
      plan_edges p \<subseteq> set (map pn_id (pg_nodes p)) \<times> set (map pn_id (pg_nodes p))"
    unfolding edges_known_def list_all_iff plan_edges_def lookup_None by auto
  have idx_edges: "index_edges index (pg_edges p) =
      {(i, j). i < n \<and> j < n \<and> (pn_id (pg_nodes p ! i), pn_id (pg_nodes p ! j)) \<in> plan_edges p}"
    by (auto simp: index_edges_def lookup plan_edges_def)
  have loops: "(\<forall>i. (i, i) \<notin> index_edges index (pg_edges p)) \<longleftrightarrow> irrefl (plan_edges p)"
    if sub: "plan_edges p \<subseteq> set (map pn_id (pg_nodes p)) \<times> set (map pn_id (pg_nodes p))"
  proof
    assume *: "\<forall>i. (i, i) \<notin> index_edges index (pg_edges p)"
    show "irrefl (plan_edges p)"
    proof (rule irreflI)
      fix x show "(x, x) \<notin> plan_edges p"
      proof
        assume x: "(x, x) \<in> plan_edges p"
        then have "x \<in> set (map pn_id (pg_nodes p))" using sub by auto
        then obtain i where "i < n" "pn_id (pg_nodes p ! i) = x" by (auto simp: in_set_conv_nth n_def)
        then show False using * x by (auto simp: idx_edges)
      qed
    qed
  qed (auto simp: idx_edges irrefl_def)
  have "\<And>x i. bt_get index x = Some i \<Longrightarrow> i < n" by (simp add: lookup)
  moreover have "length (pg_edges p) \<le> usize_max" using assms(2) by (simp add: plan_fits_memory_def)
  ultimately have cases: "if edges_known index (pg_edges p) \<and> (\<forall>i. (i, i) \<notin> index_edges index (pg_edges p))
    then \<exists>G'. link_edges index (pg_edges p) (no_degrees n) = Inr G' \<and> degrees_ok n G' \<and>
      graph_edges (gd_adjacency G') = graph_edges (gd_adjacency (no_degrees n)) \<union> index_edges index (pg_edges p) \<and>
      link_executor_edges index (pg_edges p) (gd_indegree (no_degrees n), gd_adjacency (no_degrees n)) =
        Some (gd_indegree G', gd_adjacency G')
    else \<exists>e. link_edges index (pg_edges p) (no_degrees n) = Inl e"
    by (intro link_edges_cases no_degrees_ok no_degrees_below)
  then show ?thesis
    using known loops idx_edges unfolding no_degrees_edges by (auto simp: no_degrees_def split: if_splits)
qed

lemma acyclic_irrefl': "acyclic R \<Longrightarrow> irrefl R"
  by (auto simp: acyclic_def irrefl_def)

lemma plan_validate_result:
  assumes "plan_fits_memory p"
  shows "plan_validate p \<noteq> None" and "plan_validate p = Some (Inr ()) \<longleftrightarrow> plan_well_formed p \<and> acyclic (plan_edges p)"
proof -
  let ?nodes = "pg_nodes p" let ?n = "length (pg_nodes p)"
  let ?index = "indexed_nodes ?nodes []"
  let ?ids = "set (map pn_id ?nodes)"
  have fits: "add_attempts ?nodes 0 = all_attempts ?nodes"
    using add_attempts_eq [of 0 ?nodes] all_attempts_le [of ?nodes] assms by (simp add: plan_fits_memory_def)
  have "plan_validate p \<noteq> None \<and> (plan_validate p = Some (Inr ()) \<longleftrightarrow> plan_well_formed p \<and> acyclic (plan_edges p))"
  proof (cases "?n = 0 \<or> pb_max_nodes (pg_budget p) < ?n")
    case True
    then show ?thesis by (auto simp: plan_validate_def plan_well_formed_def Let_def)
  next
    case False
    then have n: "0 < ?n" "?n \<le> pb_max_nodes (pg_budget p)" by auto
    show ?thesis
    proof (cases "check_plan_nodes ?nodes [] 0")
      case (Inl e)
      then have "\<not> (nodes_ok ?nodes \<and> distinct (map pn_id ?nodes))"
        using check_plan_nodes_iff [of ?nodes "[]" 0 ?index "add_attempts ?nodes 0"] by auto
      then show ?thesis using n Inl by (auto simp: plan_validate_def plan_well_formed_def Let_def)
    next
      case (Inr result)
      then have ok: "nodes_ok ?nodes" "distinct (map pn_id ?nodes)"
        and result: "result = (?index, all_attempts ?nodes)"
        using check_plan_nodes_iff [of ?nodes "[]" 0 "fst result" "snd result"] fits by (auto simp: prod_eq_iff)
      note linked = plan_linked [OF ok(2) assms]
      show ?thesis
      proof (cases "pb_max_total_attempts (pg_budget p) < all_attempts ?nodes")
        case True
        then show ?thesis using n Inr result by (auto simp: plan_validate_def plan_well_formed_def Let_def)
      next
        case small: False
        show ?thesis
        proof (cases "plan_edges p \<subseteq> ?ids \<times> ?ids \<and> irrefl (plan_edges p)")
          case False
          then obtain e where "link_edges ?index (pg_edges p) (no_degrees ?n) = Inl e"
            using linked unfolding if_not_P [OF False] by blast
          then show ?thesis
            using n Inr result small False acyclic_irrefl' by (auto simp: plan_validate_def plan_well_formed_def Let_def)
        next
          case True
          then obtain G where G: "link_edges ?index (pg_edges p) (no_degrees ?n) = Inr G" "degrees_ok ?n G"
            "graph_edges (gd_adjacency G) =
              {(i, j). i < ?n \<and> j < ?n \<and> (pn_id (?nodes ! i), pn_id (?nodes ! j)) \<in> plan_edges p}"
            using linked unfolding if_P [OF True] by blast
          have "acyclic (graph_edges (gd_adjacency G)) \<longleftrightarrow> acyclic (plan_edges p)"
          proof (rule acyclic_on_indexes [OF _ _ G(3)])
            show "inj_on (\<lambda>i. pn_id (?nodes ! i)) {..<?n}"
              using ok(2) by (auto simp: inj_on_def distinct_conv_nth)
            have "?ids = (\<lambda>i. pn_id (?nodes ! i)) ` {..<?n}" by (force simp: in_set_conv_nth)
            then show "plan_edges p \<subseteq> (\<lambda>i. pn_id (?nodes ! i)) ` {..<?n} \<times> (\<lambda>i. pn_id (?nodes ! i)) ` {..<?n}"
              using True by simp
          qed
          then show ?thesis
            using n Inr result small True ok G(1) check_plan_edges_iff [OF G(2) n(1)]
            by (auto simp: plan_validate_def plan_well_formed_def Let_def)
        qed
      qed
    qed
  qed
  then show "plan_validate p \<noteq> None"
    and "plan_validate p = Some (Inr ()) \<longleftrightarrow> plan_well_formed p \<and> acyclic (plan_edges p)" by blast+
qed

end
