(* ===== verification/Plan_Properties.thy ===== *)
theory Plan_Properties
  imports Plan_Validation
begin

text \<open>
  What holds of plans and their runs: validation accepts exactly the well-formed plans without a
  cycle, a run ends, attempts a node only after its predecessors succeeded, and keeps to the budget.
\<close>

section \<open>The order of a valid plan\<close>

definition ids_at :: "plan_node list \<Rightarrow> usize list \<Rightarrow> string list" where
  "ids_at nodes indexes = map (\<lambda>i. pn_id (nodes ! i)) indexes"

lemma set_ids_at: "set (ids_at nodes indexes) = (\<lambda>i. pn_id (nodes ! i)) ` set indexes"
  by (simp add: ids_at_def)

lemma distinct_ids_inj: "distinct (map pn_id nodes) \<Longrightarrow> inj_on (\<lambda>i. pn_id (nodes ! i)) {..<length nodes}"
  by (auto simp: inj_on_def distinct_conv_nth)

lemma valid_plan_order:
  assumes "plan_fits_memory p" and "plan_validate p = Some (Inr ())"
  obtains order where "topological_order p = Some (Some order)" "distinct order" "set order = {..<length (pg_nodes p)}"
    "\<And>before x rest a. ids_at (pg_nodes p) order = before @ x # rest \<Longrightarrow> (a, x) \<in> plan_edges p \<Longrightarrow> a \<in> set before"
proof -
  let ?nodes = "pg_nodes p" let ?n = "length ?nodes"
  let ?ids = "set (map pn_id ?nodes)"
  have wf: "plan_well_formed p" and acyclic: "acyclic (plan_edges p)"
    using plan_validate_result(2) [OF assms(1)] assms(2) by simp_all
  then have distinct_ids: "distinct (map pn_id ?nodes)" and sub: "plan_edges p \<subseteq> ?ids \<times> ?ids"
    by (simp_all add: plan_well_formed_def)
  then have "plan_edges p \<subseteq> ?ids \<times> ?ids \<and> irrefl (plan_edges p)" using acyclic_irrefl' [OF acyclic] by simp
  then obtain G where G: "degrees_ok ?n G"
    "graph_edges (gd_adjacency G) = {(i, j). i < ?n \<and> j < ?n \<and> (pn_id (?nodes ! i), pn_id (?nodes ! j)) \<in> plan_edges p}"
    "link_executor_edges (indexed_nodes ?nodes []) (pg_edges p) (replicate ?n 0, replicate ?n []) =
      Some (gd_indegree G, gd_adjacency G)"
    using plan_linked [OF distinct_ids assms(1)] by auto
  obtain order degrees where order:
    "count_off (gd_adjacency G) (entry_indexes (gd_indegree G)) (gd_indegree G) [] = Some (Inr order)"
    "count_off_inv ?n (gd_adjacency G) [] degrees order"
    using count_off_degrees [OF G(1)] .
  have image: "?ids = (\<lambda>i. pn_id (?nodes ! i)) ` {..<?n}" by (force simp: in_set_conv_nth)
  have "acyclic (graph_edges (gd_adjacency G))"
    using acyclic_on_indexes [OF distinct_ids_inj [OF distinct_ids] _ G(2)] sub acyclic unfolding image by simp
  then have len: "length order = ?n" using finished_order(4) [OF order(2)] by simp
  have distinct: "distinct order" and within: "set order \<subseteq> {..<?n}" and topo: "after_predecessors (gd_adjacency G) order"
    using finished_order(1-3) [OF order(2)] .
  have full: "set order = {..<?n}"
    using distinct_card [OF distinct] len within by (intro card_subset_eq) auto
  have "topological_order p = Some (Some order)"
    by (simp add: topological_order_def executor_index_eq [OF distinct_ids] G(3) order(1) len)
  moreover have "a \<in> set before" if ids: "ids_at ?nodes order = before @ x # rest" and edge: "(a, x) \<in> plan_edges p" for before x rest a
  proof -
    obtain ibefore j irest where split: "order = ibefore @ j # irest" "before = ids_at ?nodes ibefore" "x = pn_id (?nodes ! j)"
      using ids by (auto simp: ids_at_def map_eq_append_conv map_eq_Cons_conv)
    have "a \<in> ?ids" using edge sub by auto
    then obtain i where i: "i < ?n" "a = pn_id (?nodes ! i)" unfolding image by auto
    have "j < ?n" using split(1) within by auto
    then have "(i, j) \<in> graph_edges (gd_adjacency G)" using i edge split(3) by (simp add: G(2))
    then have "i \<in> set ibefore" using topo split(1) by (auto simp: after_predecessors_def)
    then show ?thesis using i by (auto simp: split(2) ids_at_def)
  qed
  ultimately show thesis using distinct full by (intro that) auto
qed

section \<open>The events of a run\<close>

definition succeeded_nodes :: "plan_attempt_event list \<Rightarrow> string list" where
  "succeeded_nodes events = map ae_node_id (filter ae_success events)"

text \<open>Every attempt is on the node after those that succeeded before it.\<close>

definition in_order :: "string list \<Rightarrow> plan_attempt_event list \<Rightarrow> bool" where
  "in_order ids events \<longleftrightarrow>
     (\<forall>xs e ys. events = xs @ e # ys \<longrightarrow> (\<exists>rest. ids = succeeded_nodes xs @ ae_node_id e # rest))"

lemma in_order_Nil: "in_order ids []"
  by (simp add: in_order_def)

lemma in_order_success: "ae_success s \<Longrightarrow> ae_node_id s = x \<Longrightarrow> in_order ids events \<Longrightarrow> in_order (x # ids) (s # events)"
  by (auto simp: in_order_def Cons_eq_append_conv succeeded_nodes_def)

lemma in_order_failure:
  "\<not> ae_success f \<Longrightarrow> ae_node_id f = x \<Longrightarrow> in_order (x # ids) events \<Longrightarrow> in_order (x # ids) (f # events)"
  by (auto simp: in_order_def Cons_eq_append_conv succeeded_nodes_def)

definition failures_on :: "plan_node \<Rightarrow> plan_attempt_event list \<Rightarrow> bool" where
  "failures_on node events \<longleftrightarrow> list_all (\<lambda>e. ae_node_id e = pn_id node \<and> \<not> ae_success e) events"

lemma in_order_failures:
  "failures_on node fails \<Longrightarrow> in_order (pn_id node # ids) events \<Longrightarrow> in_order (pn_id node # ids) (fails @ events)"
  by (induction fails) (auto simp: failures_on_def intro: in_order_failure)

lemma failures_on_succeeded: "failures_on node fails \<Longrightarrow> succeeded_nodes (fails @ events) = succeeded_nodes events"
  by (induction fails) (auto simp: failures_on_def succeeded_nodes_def)

text \<open>What the attempts on a node add to a run.\<close>

definition node_outcome :: "plan_budget \<Rightarrow> plan_node \<Rightarrow> nat \<Rightarrow> 'w plan_run \<Rightarrow> node_end \<times> 'w plan_run \<Rightarrow> bool" where
  "node_outcome budget node k run result \<longleftrightarrow>
     (\<exists>fails new. failures_on node fails \<and> run_events (snd result) = run_events run @ new \<and>
        run_attempts_used (snd result) = run_attempts_used run + length new \<and> length new \<le> k \<and>
        (case fst result of
           NodeDone \<Rightarrow> \<exists>s. ae_node_id s = pn_id node \<and> ae_success s \<and> new = fails @ [s]
         | RunStopped failure _ \<Rightarrow> new = fails \<and> failure \<noteq> PlanTopologyResolutionFailed \<and>
             (\<forall>used limit. failure \<noteq> PlanBudgetExceeded used limit)))"

lemma node_outcome_retry:
  assumes "node_outcome budget node k run' result" and "failures_on node [f]"
    and "run_events run' = run_events run @ [f]" and "run_attempts_used run' = run_attempts_used run + 1"
  shows "node_outcome budget node (Suc k) run result"
proof -
  obtain fails new where *: "failures_on node fails" "run_events (snd result) = run_events run' @ new"
    "run_attempts_used (snd result) = run_attempts_used run' + length new" "length new \<le> k"
    "case fst result of
       NodeDone \<Rightarrow> \<exists>s. ae_node_id s = pn_id node \<and> ae_success s \<and> new = fails @ [s]
     | RunStopped failure _ \<Rightarrow> new = fails \<and> failure \<noteq> PlanTopologyResolutionFailed \<and>
         (\<forall>used limit. failure \<noteq> PlanBudgetExceeded used limit)"
    using assms(1) by (auto simp: node_outcome_def)
  show ?thesis
    unfolding node_outcome_def
    by (intro exI [of _ "f # fails"] exI [of _ "f # new"])
      (use * assms(2-4) in \<open>auto simp: failures_on_def split: node_end.splits\<close>)
qed

lemma node_outcome_stop:
  "failures_on node [f] \<Longrightarrow> run_events run' = run_events run @ [f] \<Longrightarrow>
    run_attempts_used run' = run_attempts_used run + 1 \<Longrightarrow> failure = PlanNodeFailed x a kind m \<Longrightarrow>
    node_outcome budget node (Suc k) run (RunStopped failure elapsed, run')"
  unfolding node_outcome_def by (intro exI [of _ "[f]"]) simp

lemma attempt_node_outcome:
  "attempts \<noteq> [] \<Longrightarrow> last attempts = pn_max_attempts node \<Longrightarrow>
    run_attempts_used run + length attempts \<le> pb_max_total_attempts budget \<Longrightarrow>
    run_attempts_used run + length attempts \<le> usize_max \<Longrightarrow>
    node_outcome budget node (length attempts) run (attempt_node X budget started node attempts run)"
proof (induction attempts arbitrary: run)
  case Nil
  then show ?case by simp
next
  case (Cons attempt attempts)
  let ?elapsed = "nx_clock_ms X (run_world run) - started"
  obtain outcome w where exec: "nx_execute X node attempt (max (pn_timeout_ms node) 1) (run_world run) = (outcome, w)"
    by fastforce
  define run1 where "run1 = \<lparr>run_attempts_used = usize_saturating_add (run_attempts_used run) 1,
    run_events = run_events run, run_world = w\<rparr>"
  have used: "run_attempts_used run1 = run_attempts_used run + 1" "run_events run1 = run_events run"
    using Cons.prems(4) by (simp_all add: run1_def)
  have budget: "\<not> pb_max_total_attempts budget \<le> run_attempts_used run" using Cons.prems(3) by simp
  have rest: "attempts \<noteq> []" "last attempts = pn_max_attempts node" if "attempt \<noteq> pn_max_attempts node"
    using Cons.prems(2) that by (auto split: if_splits)
  have fits: "run_attempts_used (run1\<lparr>run_events := evs\<rparr>) + length attempts \<le> pb_max_total_attempts budget"
    "run_attempts_used (run1\<lparr>run_events := evs\<rparr>) + length attempts \<le> usize_max" for evs
    using Cons.prems(3,4) used by simp_all
  show ?case
  proof (cases "unat (pb_max_wall_time_ms budget) < ?elapsed")
    case True
    then show ?thesis
      unfolding node_outcome_def by (intro exI [of _ "[]"]) (simp add: Let_def failures_on_def)
  next
    case False
    note unfolded = attempt_node.simps(2) [of X budget started node attempt attempts run, unfolded exec Let_def prod.case,
      folded run1_def]
    have stop: "node_outcome budget node (Suc (length attempts)) run
        (RunStopped (PlanNodeFailed (pn_id node) attempt (ne_kind e) (ne_message e)) el,
         run1\<lparr>run_events := run_events run1 @ [failure_event node attempt e]\<rparr>)" for e el
      by (rule node_outcome_stop [of _ "failure_event node attempt e"])
        (simp_all add: failures_on_def failure_event_def used)
    have retry: "node_outcome budget node (Suc (length attempts)) run
        (attempt_node X budget started node attempts (run1\<lparr>run_events := run_events run1 @ [failure_event node attempt e]\<rparr>))"
      if "node_outcome budget node (length attempts) (run1\<lparr>run_events := run_events run1 @ [failure_event node attempt e]\<rparr>)
        (attempt_node X budget started node attempts (run1\<lparr>run_events := run_events run1 @ [failure_event node attempt e]\<rparr>))" for e
      by (rule node_outcome_retry [OF that, of "failure_event node attempt e"])
        (simp_all add: failures_on_def failure_event_def used)
    show ?thesis
    proof (cases outcome)
      case AttemptTimedOut
      show ?thesis
      proof (cases "attempt = pn_max_attempts node")
        case True
        then show ?thesis
          using False budget stop [of "node_timeout_error node"] unfolding unfolded AttemptTimedOut by simp
      next
        case again: False
        have "node_outcome budget node (length attempts)
            (run1\<lparr>run_events := run_events run1 @ [failure_event node attempt (node_timeout_error node)]\<rparr>)
            (attempt_node X budget started node attempts
              (run1\<lparr>run_events := run_events run1 @ [failure_event node attempt (node_timeout_error node)]\<rparr>))"
          by (rule Cons.IH [OF rest [OF again] fits])
        from retry [OF this] show ?thesis
          using False budget again unfolding unfolded AttemptTimedOut by simp
      qed
    next
      case AttemptDone
      have "node_outcome budget node (Suc (length attempts)) run
          (NodeDone, run1\<lparr>run_events := run_events run1 @ [success_event node attempt]\<rparr>)"
        unfolding node_outcome_def
        by (intro exI [of _ "[]"] exI [of _ "[success_event node attempt]"])
          (simp add: failures_on_def success_event_def used)
      then show ?thesis
        using False budget unfolding unfolded AttemptDone by simp
    next
      case (AttemptFailed e)
      let ?e = "normalize_node_error e"
      show ?thesis
      proof (cases "ne_kind ?e = NodePolicyDenied \<or> ne_kind ?e = NodeApprovalRequired \<or> attempt = pn_max_attempts node")
        case True
        then show ?thesis
          using False budget stop [of ?e] unfolding unfolded AttemptFailed by simp
      next
        case again: False
        then have "attempt \<noteq> pn_max_attempts node" by simp
        note rest' = rest [OF this]
        have "node_outcome budget node (length attempts)
            (run1\<lparr>run_events := run_events run1 @ [failure_event node attempt ?e]\<rparr>)
            (attempt_node X budget started node attempts
              (run1\<lparr>run_events := run_events run1 @ [failure_event node attempt ?e]\<rparr>))"
          by (rule Cons.IH [OF rest' fits])
        from retry [OF this] show ?thesis
          using False budget again unfolding unfolded AttemptFailed by simp
      qed
    qed
  qed
qed

lemma attempts_of_facts:
  assumes "pn_max_attempts node \<noteq> 0"
  shows "attempts_of node \<noteq> []" and "last (attempts_of node) = pn_max_attempts node"
    and "length (attempts_of node) = unat (pn_max_attempts node)"
proof -
  have pos: "0 < unat (pn_max_attempts node)" using assms by (simp add: unat_gt_0)
  then show "attempts_of node \<noteq> []" by (simp add: attempts_of_def)
  show "last (attempts_of node) = pn_max_attempts node" using pos by (simp add: attempts_of_def)
  show "length (attempts_of node) = unat (pn_max_attempts node)" by (simp add: attempts_of_def)
qed

lemma in_order_ids: "in_order ids events \<Longrightarrow> e \<in> set events \<Longrightarrow> ae_node_id e \<in> set ids"
  by (auto simp: in_order_def in_set_conv_decomp) blast

definition events_on :: "string \<Rightarrow> plan_attempt_event list \<Rightarrow> nat" where
  "events_on x events = length (filter (\<lambda>e. ae_node_id e = x) events)"

definition attempts_at :: "plan_node list \<Rightarrow> usize list \<Rightarrow> nat" where
  "attempts_at nodes indexes = sum_list (map (\<lambda>i. unat (pn_max_attempts (nodes ! i))) indexes)"

definition run_outcome :: "plan_node list \<Rightarrow> usize list \<Rightarrow> 'w plan_run \<Rightarrow> node_end \<times> 'w plan_run \<Rightarrow> bool" where
  "run_outcome nodes indexes run result \<longleftrightarrow>
     (\<exists>new. run_events (snd result) = run_events run @ new \<and>
        run_attempts_used (snd result) = run_attempts_used run + length new \<and>
        length new \<le> attempts_at nodes indexes \<and> in_order (ids_at nodes indexes) new \<and>
        (\<forall>i \<in> set indexes. events_on (pn_id (nodes ! i)) new \<le> unat (pn_max_attempts (nodes ! i))) \<and>
        (case fst result of
           NodeDone \<Rightarrow> succeeded_nodes new = ids_at nodes indexes
         | RunStopped failure _ \<Rightarrow> failure \<noteq> PlanTopologyResolutionFailed \<and>
             (\<forall>used limit. failure \<noteq> PlanBudgetExceeded used limit)))"

lemma run_plan_nodes_outcome:
  assumes "nodes_ok nodes"
  shows "set indexes \<subseteq> {..<length nodes} \<Longrightarrow> distinct (ids_at nodes indexes) \<Longrightarrow>
    run_attempts_used run + attempts_at nodes indexes \<le> pb_max_total_attempts budget \<Longrightarrow>
    run_attempts_used run + attempts_at nodes indexes \<le> usize_max \<Longrightarrow>
    run_outcome nodes indexes run (run_plan_nodes X budget started nodes indexes run)"
proof (induction indexes arbitrary: run)
  case Nil
  then show ?case
    by (auto simp: run_outcome_def in_order_Nil succeeded_nodes_def ids_at_def intro: exI [of _ "[]"])
next
  case (Cons i indexes)
  let ?node = "nodes ! i"
  have i: "i < length nodes" using Cons.prems(1) by simp
  then have "pn_max_attempts ?node \<noteq> 0" using assms by (auto simp: nodes_ok_def list_all_iff)
  note facts = attempts_of_facts [OF this]
  have ids: "ids_at nodes (i # indexes) = pn_id ?node # ids_at nodes indexes" by (simp add: ids_at_def)
  have total: "attempts_at nodes (i # indexes) = unat (pn_max_attempts ?node) + attempts_at nodes indexes"
    by (simp add: attempts_at_def)
  obtain ended run' where attempt: "attempt_node X budget started ?node (attempts_of ?node) run = (ended, run')" by fastforce
  have "node_outcome budget ?node (length (attempts_of ?node)) run (ended, run')"
    using attempt_node_outcome [OF facts(1,2), of run budget X started] Cons.prems(3,4) total facts(3) attempt by simp
  then obtain fails new where out: "failures_on ?node fails" "run_events run' = run_events run @ new"
    "run_attempts_used run' = run_attempts_used run + length new" "length new \<le> unat (pn_max_attempts ?node)"
    "case ended of
       NodeDone \<Rightarrow> \<exists>s. ae_node_id s = pn_id ?node \<and> ae_success s \<and> new = fails @ [s]
     | RunStopped failure _ \<Rightarrow> new = fails \<and> failure \<noteq> PlanTopologyResolutionFailed \<and>
         (\<forall>used limit. failure \<noteq> PlanBudgetExceeded used limit)"
    unfolding node_outcome_def facts(3) by auto
  have others: "x \<noteq> pn_id ?node" if "x \<in> set (ids_at nodes indexes)" for x
    using Cons.prems(2) that ids by auto
  have on_node: "events_on (pn_id ?node) evs \<le> length evs" for evs by (simp add: events_on_def)
  show ?case
  proof (cases ended)
    case (RunStopped failure elapsed)
    then have new: "new = fails" using out(5) by simp
    have other_events: "events_on (pn_id (nodes ! j)) fails = 0" if "j \<in> set indexes" for j
      using others [of "pn_id (nodes ! j)"] that out(1)
      by (auto simp: events_on_def failures_on_def list_all_iff ids_at_def filter_empty_conv)
    have "in_order (ids_at nodes (i # indexes)) fails"
      using in_order_failures [OF out(1) in_order_Nil, of "ids_at nodes indexes"] ids by simp
    moreover have "\<forall>j \<in> set (i # indexes). events_on (pn_id (nodes ! j)) fails \<le> unat (pn_max_attempts (nodes ! j))"
      using other_events on_node [of fails] out(4) new by auto
    ultimately show ?thesis
      using i attempt RunStopped out(2-5) new total
      by (auto simp: run_outcome_def intro!: exI [of _ fails])
  next
    case NodeDone
    then obtain s where s: "ae_node_id s = pn_id ?node" "ae_success s" "new = fails @ [s]" using out(5) by auto
    have "run_outcome nodes indexes run' (run_plan_nodes X budget started nodes indexes run')"
      by (rule Cons.IH) (use Cons.prems total out(3,4) ids in auto)
    then obtain more where more: "run_events (snd (run_plan_nodes X budget started nodes indexes run')) = run_events run' @ more"
      "run_attempts_used (snd (run_plan_nodes X budget started nodes indexes run')) = run_attempts_used run' + length more"
      "length more \<le> attempts_at nodes indexes" "in_order (ids_at nodes indexes) more"
      "\<forall>j \<in> set indexes. events_on (pn_id (nodes ! j)) more \<le> unat (pn_max_attempts (nodes ! j))"
      "case fst (run_plan_nodes X budget started nodes indexes run') of
         NodeDone \<Rightarrow> succeeded_nodes more = ids_at nodes indexes
       | RunStopped failure _ \<Rightarrow> failure \<noteq> PlanTopologyResolutionFailed \<and>
           (\<forall>used limit. failure \<noteq> PlanBudgetExceeded used limit)"
      by (auto simp: run_outcome_def)
    have run: "run_plan_nodes X budget started nodes (i # indexes) run = run_plan_nodes X budget started nodes indexes run'"
      using i attempt NodeDone by simp
    have "in_order (pn_id ?node # ids_at nodes indexes) (fails @ s # more)"
      by (intro in_order_failures [OF out(1)] in_order_success s more(4))
    then have order: "in_order (ids_at nodes (i # indexes)) (new @ more)" using ids s(3) by simp
    have new_on: "events_on x new = 0" if "x \<noteq> pn_id ?node" for x
      using that out(1) s(1) by (auto simp: s(3) events_on_def failures_on_def list_all_iff filter_empty_conv)
    have more_on: "events_on (pn_id ?node) more = 0"
      using in_order_ids [OF more(4)] others by (auto simp: events_on_def filter_empty_conv)
    have split: "events_on x (new @ more) = events_on x new + events_on x more" for x by (simp add: events_on_def)
    have counts: "\<forall>j \<in> set (i # indexes). events_on (pn_id (nodes ! j)) (new @ more) \<le> unat (pn_max_attempts (nodes ! j))"
    proof
      fix j assume "j \<in> set (i # indexes)"
      then consider "j = i" | "j \<in> set indexes" by auto
      then show "events_on (pn_id (nodes ! j)) (new @ more) \<le> unat (pn_max_attempts (nodes ! j))"
      proof cases
        case 1
        then show ?thesis using more_on on_node [of new] out(4) by (simp add: split)
      next
        case 2
        then have "pn_id (nodes ! j) \<noteq> pn_id ?node" using others [of "pn_id (nodes ! j)"] by (auto simp: ids_at_def)
        then show ?thesis using 2 more(5) new_on by (simp add: split)
      qed
    qed
    have "succeeded_nodes (new @ more) = pn_id ?node # succeeded_nodes more"
      using failures_on_succeeded [OF out(1), of "s # more"] s by (simp add: succeeded_nodes_def)
    then show ?thesis
      unfolding run_outcome_def run
      using order counts more out(2,3,4) ids total
      by (intro exI [of _ "new @ more"]) (auto split: node_end.splits)
  qed
qed

section \<open>Whole runs\<close>

lemma attempts_at_all: "distinct order \<Longrightarrow> set order = {..<length nodes} \<Longrightarrow> attempts_at nodes order = all_attempts nodes"
proof -
  assume order: "distinct order" "set order = {..<length nodes}"
  have "attempts_at nodes order = (\<Sum>i < length nodes. unat (pn_max_attempts (nodes ! i)))"
    using order by (simp add: attempts_at_def sum_list_distinct_conv_sum_set)
  also have "\<dots> = sum_list (map (\<lambda>i. unat (pn_max_attempts (nodes ! i))) [0..<length nodes])"
    by (simp add: sum_list_distinct_conv_sum_set atLeast0LessThan)
  also have "\<dots> = sum_list (map (\<lambda>node. unat (pn_max_attempts node)) (map ((!) nodes) [0..<length nodes]))"
    by (simp add: comp_def)
  also have "\<dots> = all_attempts nodes"
    unfolding map_nth all_attempts_def ..
  finally show ?thesis .
qed

text \<open>What is known of a run of a plan that validated.\<close>

definition run_report ::
  "'w plan_node_executor \<Rightarrow> plan_graph \<Rightarrow> 'w \<Rightarrow> usize list \<Rightarrow> node_end \<Rightarrow> 'w plan_run \<Rightarrow> plan_run_report" where
  "run_report X p w order ended run =
     \<lparr>pr_status = (case ended of NodeDone \<Rightarrow> PlanSucceeded | RunStopped failure _ \<Rightarrow> PlanFailed failure),
       pr_ordered_nodes = ids_at (pg_nodes p) order, pr_attempts_used = run_attempts_used run,
       pr_attempt_events = run_events run,
       pr_elapsed_ms = (case ended of NodeDone \<Rightarrow> nx_clock_ms X (run_world run) - nx_clock_ms X w
         | RunStopped _ elapsed \<Rightarrow> elapsed)\<rparr>"

lemma plan_execute_valid:
  assumes fits: "plan_fits_memory p" and valid: "plan_validate p = Some (Inr ())"
  obtains order ended run where "topological_order p = Some (Some order)"
    "run_outcome (pg_nodes p) order \<lparr>run_attempts_used = 0, run_events = [], run_world = w\<rparr> (ended, run)"
    "distinct order" "set order = {..<length (pg_nodes p)}"
    "\<And>before x rest a. ids_at (pg_nodes p) order = before @ x # rest \<Longrightarrow> (a, x) \<in> plan_edges p \<Longrightarrow> a \<in> set before"
    "plan_execute X p w = Some (run_report X p w order ended run, run_world run)"
proof -
  obtain order where order: "topological_order p = Some (Some order)" "distinct order" "set order = {..<length (pg_nodes p)}"
    "\<And>before x rest a. ids_at (pg_nodes p) order = before @ x # rest \<Longrightarrow> (a, x) \<in> plan_edges p \<Longrightarrow> a \<in> set before"
    using valid_plan_order [OF fits valid] by blast
  have wf: "plan_well_formed p" using plan_validate_result(2) [OF fits] valid by simp
  then have ok: "nodes_ok (pg_nodes p)" and ids: "distinct (map pn_id (pg_nodes p))"
    and budget: "all_attempts (pg_nodes p) \<le> pb_max_total_attempts (pg_budget p)"
    by (simp_all add: plan_well_formed_def)
  have "distinct (ids_at (pg_nodes p) order)"
    using order(2,3) distinct_ids_inj [OF ids] by (simp add: ids_at_def distinct_map)
  moreover have "attempts_at (pg_nodes p) order = all_attempts (pg_nodes p)" using order(2,3) by (rule attempts_at_all)
  moreover have "all_attempts (pg_nodes p) \<le> usize_max"
    using all_attempts_le [of "pg_nodes p"] fits by (simp add: plan_fits_memory_def)
  ultimately have outcome: "run_outcome (pg_nodes p) order \<lparr>run_attempts_used = 0, run_events = [], run_world = w\<rparr>
      (run_plan_nodes X (pg_budget p) (nx_clock_ms X w) (pg_nodes p) order
        \<lparr>run_attempts_used = 0, run_events = [], run_world = w\<rparr>)"
    using order(3) budget by (intro run_plan_nodes_outcome [OF ok]) simp_all
  have "\<not> list_ex (\<lambda>i. length (pg_nodes p) \<le> i) order" using order(3) by (auto simp: list_ex_iff)
  then show thesis
    using outcome order
    by (cases "run_plan_nodes X (pg_budget p) (nx_clock_ms X w) (pg_nodes p) order
        \<lparr>run_attempts_used = 0, run_events = [], run_world = w\<rparr>")
      (intro that, auto simp: plan_execute_def valid ids_at_def Let_def run_report_def)
qed

lemma plan_execute_cases:
  assumes "plan_fits_memory p"
  obtains (Invalid) e where "plan_validate p = Some (Inl e)" "plan_execute X p w = Some (empty_report (PlanValidationFailed e), w)"
    | (Valid) "plan_validate p = Some (Inr ())"
proof (cases "plan_validate p")
  case None
  then show thesis using plan_validate_result(1) [OF assms] by simp
next
  case (Some r)
  then show thesis by (cases r) (auto simp: plan_execute_def intro: Invalid Valid)
qed

section \<open>Properties\<close>

text \<open>
  C29. Validation is exact and always ends: a plan is accepted exactly when it has nodes within the
  node budget, each with an id of its own, a time limit and at least one attempt, the attempts fit
  the attempt budget, every edge joins two nodes of the plan, and no chain of edges leads back to
  its start. (A plan whose lists fit the memory; the entry and terminal nodes the code asks for
  always exist then.)
\<close>

theorem plan_validation_is_exact:
  assumes "plan_fits_memory p"
  shows "plan_validate p \<noteq> None \<and>
    (plan_validate p = Some (Inr ()) \<longleftrightarrow> plan_well_formed p \<and> acyclic (plan_edges p))"
  using plan_validate_result [OF assms] by simp

text \<open>
  C30. A node waits for its predecessors: whatever the executor of the nodes does, an attempt on a
  node is made only after every node with an edge to it has succeeded.
\<close>

theorem plan_nodes_wait_for_predecessors:
  assumes "plan_fits_memory p" and "plan_execute X p w = Some (report, w')"
    and "pr_attempt_events report = xs @ e # ys" and "(a, ae_node_id e) \<in> plan_edges p"
  shows "a \<in> set (succeeded_nodes xs)"
proof (cases rule: plan_execute_cases [OF assms(1), of X w])
  case (1 err)
  then have "pr_attempt_events report = []" using assms(2) by (auto simp: empty_report_def)
  then show ?thesis using assms(3) by simp
next
  case 2
  obtain order ended run where
    outcome: "run_outcome (pg_nodes p) order \<lparr>run_attempts_used = 0, run_events = [], run_world = w\<rparr> (ended, run)"
    and before: "\<And>before x rest a. ids_at (pg_nodes p) order = before @ x # rest \<Longrightarrow> (a, x) \<in> plan_edges p \<Longrightarrow> a \<in> set before"
    and run: "plan_execute X p w = Some (run_report X p w order ended run, run_world run)"
    by (rule plan_execute_valid [OF assms(1) 2, of w X]) (rule that)
  have "pr_attempt_events report = run_events run" using run assms(2) by (simp add: run_report_def)
  with outcome have "in_order (ids_at (pg_nodes p) order) (run_events run)" "run_events run = xs @ e # ys"
    using assms(3) by (auto simp: run_outcome_def)
  then have "in_order (ids_at (pg_nodes p) order) (xs @ e # ys)"
    using assms(3) by (auto simp: run_outcome_def)
  then obtain rest where "ids_at (pg_nodes p) order = succeeded_nodes xs @ ae_node_id e # rest"
    by (auto simp: in_order_def)
  then show ?thesis using before assms(4) by blast
qed

text \<open>
  C31. A run of a valid plan ends and keeps to its budgets: every attempt is in the report, there are
  no more attempts than the plan's budget and no more on a node than its own limit; the outcomes
  for a spent attempt budget and an unresolved order never occur; and a run that succeeded has
  succeeded on every node, in the reported order.
\<close>

theorem plan_runs_stay_in_budget:
  assumes "plan_fits_memory p" and "plan_validate p = Some (Inr ())"
  shows "\<exists>report w'. plan_execute X p w = Some (report, w') \<and>
    pr_attempts_used report = length (pr_attempt_events report) \<and>
    pr_attempts_used report \<le> pb_max_total_attempts (pg_budget p) \<and>
    list_all (\<lambda>node. events_on (pn_id node) (pr_attempt_events report) \<le> unat (pn_max_attempts node)) (pg_nodes p) \<and>
    pr_status report \<noteq> PlanFailed PlanTopologyResolutionFailed \<and>
    (\<nexists>used limit. pr_status report = PlanFailed (PlanBudgetExceeded used limit)) \<and>
    set (pr_ordered_nodes report) = set (map pn_id (pg_nodes p)) \<and>
    (pr_status report = PlanSucceeded \<longrightarrow> succeeded_nodes (pr_attempt_events report) = pr_ordered_nodes report)"
proof -
  obtain order ended run where
    outcome: "run_outcome (pg_nodes p) order \<lparr>run_attempts_used = 0, run_events = [], run_world = w\<rparr> (ended, run)"
    and order: "distinct order" "set order = {..<length (pg_nodes p)}"
    and run: "plan_execute X p w = Some (run_report X p w order ended run, run_world run)"
    by (rule plan_execute_valid [OF assms, of w X]) (rule that)
  have facts: "run_attempts_used run = length (run_events run)"
    "length (run_events run) \<le> attempts_at (pg_nodes p) order"
    "\<forall>i \<in> set order. events_on (pn_id (pg_nodes p ! i)) (run_events run) \<le> unat (pn_max_attempts (pg_nodes p ! i))"
    "case ended of
       NodeDone \<Rightarrow> succeeded_nodes (run_events run) = ids_at (pg_nodes p) order
     | RunStopped failure _ \<Rightarrow> failure \<noteq> PlanTopologyResolutionFailed \<and>
         (\<forall>used limit. failure \<noteq> PlanBudgetExceeded used limit)"
    using outcome by (auto simp: run_outcome_def)
  have "plan_well_formed p" using plan_validate_result(2) [OF assms(1)] assms(2) by simp
  then have "attempts_at (pg_nodes p) order \<le> pb_max_total_attempts (pg_budget p)"
    using attempts_at_all [OF order] by (simp add: plan_well_formed_def)
  moreover have "list_all (\<lambda>node. events_on (pn_id node) (run_events run) \<le> unat (pn_max_attempts node)) (pg_nodes p)"
    using facts(3) order(2) by (auto simp: list_all_length)
  moreover have "set (ids_at (pg_nodes p) order) = set (map pn_id (pg_nodes p))"
    unfolding set_ids_at order(2) by (force simp: in_set_conv_nth)
  ultimately show ?thesis
    unfolding run using facts by (auto simp: run_report_def split: node_end.splits)
qed

section \<open>A plan of two nodes\<close>

definition sample_node :: "string \<Rightarrow> plan_node" where
  "sample_node x = \<lparr>pn_id = x, pn_kind = ToolNode, pn_label = x, pn_tool_name = None, pn_timeout_ms = 10,
     pn_max_attempts = 1, pn_risk_tier = LowRisk\<rparr>"

definition sample_plan :: plan_graph where
  "sample_plan = \<lparr>pg_version = ''v1'', pg_nodes = [sample_node ''b'', sample_node ''a''],
     pg_edges = [\<lparr>pe_from = ''a'', pe_to = ''b''\<rparr>], pg_budget = plan_budget_default\<rparr>"

definition sample_executor :: "nat plan_node_executor" where
  "sample_executor = \<lparr>nx_execute = (\<lambda>_ _ _ w. (AttemptDone, w + 1)), nx_clock_ms = id\<rparr>"

lemma sample_plan_fits: "plan_fits_memory sample_plan"
  by (simp add: plan_fits_memory_def sample_plan_def usize_max_def)

lemma sample_plan_well_formed: "plan_well_formed sample_plan"
proof -
  have "trim ''a'' = ''a''" "trim ''b'' = ''b''" by (rule trim_graphic_id; simp add: ascii_graphic_def)+
  then show ?thesis
    by (simp add: plan_well_formed_def sample_plan_def nodes_ok_def sample_node_def all_attempts_def
        plan_budget_default_def plan_edges_def)
qed

lemma sample_plan_acyclic: "acyclic (plan_edges sample_plan)"
  by (simp add: plan_edges_def sample_plan_def acyclic_insert) (simp add: acyclic_def)

lemma sample_plan_valid: "plan_validate sample_plan = Some (Inr ())"
  using plan_validate_result(2) [OF sample_plan_fits] sample_plan_well_formed sample_plan_acyclic by simp

lemma plan_validation_is_exact_witness:
  "plan_validate sample_plan \<noteq> None \<and>
    (plan_validate sample_plan = Some (Inr ()) \<longleftrightarrow> plan_well_formed sample_plan \<and> acyclic (plan_edges sample_plan))"
  by (rule plan_validation_is_exact [OF sample_plan_fits])

lemma sample_plan_order: "topological_order sample_plan = Some (Some [1, 0])"
proof -
  have sat: "usize_saturating_add 0 (Suc 0) = 1" by (simp add: usize_saturating_add_def usize_max_def)
  have steps: "count_off [[], [0]] [1] [1, 0] [] = Some (Inr [1, 0])"
    by (subst count_off.simps, simp add: count_off.simps [of _ "[0]"] count_off.simps [of _ "[]"])
  have upt: "[0..<Suc (Suc 0)] = [0, 1]" by (simp add: upt_rec)
  show ?thesis
    using steps
    by (simp add: topological_order_def sample_plan_def sample_node_def executor_index_def entry_indexes_def sat upt)
qed

lemma sample_plan_run:
  "\<exists>report w. plan_execute sample_executor sample_plan 0 = Some (report, w) \<and>
    pr_attempt_events report = [success_event (sample_node ''a'') 1] @ success_event (sample_node ''b'') 1 # []"
  by (simp add: plan_execute_def sample_plan_valid sample_plan_order)
    (simp add: sample_plan_def sample_executor_def attempts_of_def sample_node_def plan_budget_default_def
      success_event_def usize_saturating_add_def usize_max_def)

lemma plan_nodes_wait_for_predecessors_witness:
  "''a'' \<in> set (succeeded_nodes [success_event (sample_node ''a'') 1])"
proof -
  obtain report w where "plan_execute sample_executor sample_plan 0 = Some (report, w)"
    "pr_attempt_events report = [success_event (sample_node ''a'') 1] @ success_event (sample_node ''b'') 1 # []"
    using sample_plan_run by blast
  then show ?thesis
    by (rule plan_nodes_wait_for_predecessors [OF sample_plan_fits])
      (simp add: plan_edges_def sample_plan_def success_event_def sample_node_def)
qed

lemma plan_runs_stay_in_budget_witness:
  "\<exists>report w'. plan_execute sample_executor sample_plan 0 = Some (report, w') \<and> pr_attempts_used report \<le> 32"
  using plan_runs_stay_in_budget [OF sample_plan_fits sample_plan_valid, of sample_executor 0]
  by (auto simp: sample_plan_def plan_budget_default_def)

end
