(* ===== verification/Plan_Verifier.thy ===== *)
theory Plan_Verifier
  imports Payload_Templates Batch_Scheduler
begin

text \<open>
  The verification of a safe-lane output (crates/app/src/conversation/plan_verifier.rs) and the
  semantic anchors it looks for (collect_semantic_anchors in turn_coordinator/safe_lane_routing.rs).
  A \<open>BTreeSet\<close> of strings is the sorted list of its members. Every push onto the failure codes
  comes with a push onto the failure reasons, so a failure is a pair here.
\<close>

section \<open>Policies, contexts and reports\<close>

record verification_policy =
  vp_require_non_empty :: bool
  vp_min_output_chars :: usize
  vp_require_status_prefix :: bool
  vp_deny_markers :: "string list"

definition default_deny_markers :: "string list" where
  "default_deny_markers = [''tool_failure'', ''provider_error'', ''no_kernel_context'', ''tool_not_found'']"

definition verification_policy_default :: verification_policy where
  "verification_policy_default = \<lparr>vp_require_non_empty = True, vp_min_output_chars = 8,
     vp_require_status_prefix = True, vp_deny_markers = sort (remdups default_deny_markers)\<rparr>"

record verification_context =
  vc_expected_result_lines :: usize
  vc_semantic_anchors :: "string list"
  vc_min_anchor_matches :: usize

definition verification_context_default :: verification_context where
  "verification_context_default =
     \<lparr>vc_expected_result_lines = 1, vc_semantic_anchors = [], vc_min_anchor_matches = 0\<rparr>"

datatype verification_failure_code =
    EmptyOutput | OutputTooShort | DenyMarkerDetected | InsufficientResultLines | MissingStatusPrefix
  | FailureStatusDetected | MissingSemanticAnchors

record verification_report =
  vr_passed :: bool
  vr_failure_reasons :: "string list"
  vr_failure_codes :: "verification_failure_code list"
  vr_observed_statuses :: "string list"
  vr_matched_anchors :: "string list"

type_synonym verification_failure = "verification_failure_code \<times> string"

section \<open>Checks\<close>

text \<open>\<open>chars().count()\<close>: a UTF-8 sequence has one byte per character that is not a continuation byte.\<close>

definition char_count :: "string \<Rightarrow> nat" where
  "char_count s = length (filter (\<lambda>c. \<not> byte_in 0x80 0xBF c) s)"

definition parse_status_prefix :: "string \<Rightarrow> string option" where
  "parse_status_prefix line =
     (case line of
        [] \<Rightarrow> None
      | c # remainder \<Rightarrow>
          if c \<noteq> CHR ''['' \<or> CHR '']'' \<notin> set remainder then None
          else
            let status = takeWhile (\<lambda>d. d \<noteq> CHR '']'') remainder in
            if trim status = [] then None else Some (trim status))"

definition looks_like_failure_status :: "string \<Rightarrow> bool" where
  "looks_like_failure_status status \<longleftrightarrow>
     status \<in> {''error'', ''denied'', ''fail'', ''failed'', ''forbidden'', ''timeout''}"

definition length_failures :: "verification_policy \<Rightarrow> string \<Rightarrow> verification_failure list" where
  "length_failures policy trimmed =
     (if char_count trimmed < vp_min_output_chars policy then
        [(OutputTooShort, ''output_too_short chars='' @ nat_to_dec (char_count trimmed) @ '' min='' @
           nat_to_dec (vp_min_output_chars policy))]
      else [])"

definition marker_failures :: "verification_policy \<Rightarrow> string \<Rightarrow> verification_failure list" where
  "marker_failures policy normalized =
     map (\<lambda>marker. (DenyMarkerDetected, ''deny_marker_detected marker='' @ marker))
       (filter (\<lambda>marker. marker \<noteq> [] \<and> contains_text normalized marker) (vp_deny_markers policy))"

definition output_lines :: "string \<Rightarrow> string list" where
  "output_lines trimmed = filter (\<lambda>line. line \<noteq> []) (map trim (read_lines trimmed))"

definition line_failures :: "verification_context \<Rightarrow> string list \<Rightarrow> verification_failure list" where
  "line_failures ctx lines =
     (let expected = max (vc_expected_result_lines ctx) 1 in
      if length lines < expected then
        [(InsufficientResultLines, ''insufficient_result_lines actual='' @ nat_to_dec (length lines) @ '' expected>='' @
           nat_to_dec expected)]
      else [])"

text \<open>The statuses of the lines in order, up to the first line without one where every line needs one.\<close>

fun check_statuses :: "verification_policy \<Rightarrow> nat \<Rightarrow> string list \<Rightarrow> string list \<times> verification_failure list" where
  "check_statuses policy index [] = ([], [])"
| "check_statuses policy index (line # lines) =
     (case parse_status_prefix line of
        Some status \<Rightarrow>
          let s = to_ascii_lowercase status; (observed, failures) = check_statuses policy (Suc index) lines in
          (s # observed,
           (if looks_like_failure_status s then
              [(FailureStatusDetected, ''failure_status_detected line_index='' @ nat_to_dec (index + 1) @ '' status='' @ s)]
            else []) @ failures)
      | None \<Rightarrow>
          if vp_require_status_prefix policy then
            ([], [(MissingStatusPrefix, ''missing_status_prefix line_index='' @ nat_to_dec (index + 1) @ '' content='' @ line)])
          else check_statuses policy (Suc index) lines)"

definition normalized_anchors :: "string list \<Rightarrow> string list" where
  "normalized_anchors anchors =
     sort (remdups (filter (\<lambda>a. 3 \<le> length a) (map (\<lambda>a. to_ascii_lowercase (trim a)) anchors)))"

definition matched_anchors :: "string \<Rightarrow> string list \<Rightarrow> string list" where
  "matched_anchors normalized anchors = filter (contains_text normalized) anchors"

definition anchor_failures :: "verification_context \<Rightarrow> string \<Rightarrow> string list \<Rightarrow> verification_failure list" where
  "anchor_failures ctx normalized anchors =
     (if anchors \<noteq> [] \<and> 0 < vc_min_anchor_matches ctx then
        let required = max (min (vc_min_anchor_matches ctx) (length anchors)) 1;
            matched = matched_anchors normalized anchors in
        if length matched < required then
          [(MissingSemanticAnchors, ''semantic_anchor_miss matched='' @ nat_to_dec (length matched) @ '' required>='' @
             nat_to_dec required)]
        else []
      else [])"

definition verification_outcome :: "verification_failure list \<Rightarrow> string list \<Rightarrow> string list \<Rightarrow> verification_report" where
  "verification_outcome failures statuses matched =
     \<lparr>vr_passed = (failures = []), vr_failure_reasons = map snd failures, vr_failure_codes = map fst failures,
      vr_observed_statuses = statuses, vr_matched_anchors = matched\<rparr>"

definition verify_output :: "string \<Rightarrow> verification_context \<Rightarrow> verification_policy \<Rightarrow> verification_report" where
  "verify_output output ctx policy =
     (let trimmed = trim output in
      if trimmed = [] then
        verification_outcome (if vp_require_non_empty policy then [(EmptyOutput, ''empty_output'')] else []) [] []
      else
        let normalized = to_ascii_lowercase trimmed; lines = output_lines trimmed;
            (statuses, status_failures) = check_statuses policy 0 lines;
            anchors = normalized_anchors (vc_semantic_anchors ctx) in
        verification_outcome
          (length_failures policy trimmed @ marker_failures policy normalized @ line_failures ctx lines @
           status_failures @ anchor_failures ctx normalized anchors)
          statuses (matched_anchors normalized anchors))"

section \<open>Anchors\<close>

definition is_anchor_key_allowed :: "string \<Rightarrow> bool" where
  "is_anchor_key_allowed key \<longleftrightarrow> to_ascii_lowercase (trim key) \<in>
     {''path'', ''file'', ''filename'', ''url'', ''endpoint'', ''target'', ''query'', ''operation'', ''command'',
      ''cwd'', ''dir'', ''directory''}"

definition is_sensitive_key :: "string \<Rightarrow> bool" where
  "is_sensitive_key key \<longleftrightarrow> list_ex (contains_text (to_ascii_lowercase (trim key)))
     [''token'', ''secret'', ''password'', ''credential'', ''api_key'', ''apikey'', ''auth'', ''authorization'',
      ''cookie'', ''session'', ''bearer'']"

text \<open>\<open>rsplit('/').next()\<close>: what follows the last slash, all of a string without one.\<close>

definition last_segment :: "string \<Rightarrow> string" where
  "last_segment s = rev (takeWhile (\<lambda>c. c \<noteq> CHR ''/'') (rev s))"

definition push_anchor_candidate :: "string \<Rightarrow> string list \<Rightarrow> string list" where
  "push_anchor_candidate value anchors =
     (let normalized = to_ascii_lowercase (trim value) in
      if length normalized < 3 \<or> 96 < length normalized then anchors
      else if CHR '' '' \<in> set normalized then anchors
      else
        let anchors = insort_insert normalized anchors; segment = last_segment normalized in
        if 3 \<le> length segment then insort_insert segment anchors else anchors)"

fun collect_value_anchors :: "string option \<Rightarrow> 'n json \<Rightarrow> string list \<Rightarrow> string list"
  and collect_member_anchors :: "(string \<times> 'n json) list \<Rightarrow> string list \<Rightarrow> string list"
  and collect_item_anchors :: "string option \<Rightarrow> 'n json list \<Rightarrow> string list \<Rightarrow> string list" where
  "collect_value_anchors parent_key (JString value) anchors =
     (if (case parent_key of Some key \<Rightarrow> is_anchor_key_allowed key | None \<Rightarrow> False)
      then push_anchor_candidate value anchors else anchors)"
| "collect_value_anchors parent_key (JArray items) anchors = collect_item_anchors parent_key items anchors"
| "collect_value_anchors parent_key (JObject members) anchors = collect_member_anchors members anchors"
| "collect_value_anchors parent_key JNull anchors = anchors"
| "collect_value_anchors parent_key (JBool b) anchors = anchors"
| "collect_value_anchors parent_key (JNumber n) anchors = anchors"
| "collect_member_anchors [] anchors = anchors"
| "collect_member_anchors ((key, item) # members) anchors =
     collect_member_anchors members
       (if is_sensitive_key key then anchors else collect_value_anchors (Some key) item anchors)"
| "collect_item_anchors parent_key [] anchors = anchors"
| "collect_item_anchors parent_key (item # items) anchors =
     collect_item_anchors parent_key items (collect_value_anchors parent_key item anchors)"

section \<open>What passes\<close>

text \<open>A line that verification accepts.\<close>

definition line_passes :: "verification_policy \<Rightarrow> string \<Rightarrow> bool" where
  "line_passes policy line \<longleftrightarrow>
     (case parse_status_prefix line of
        Some status \<Rightarrow> \<not> looks_like_failure_status (to_ascii_lowercase status)
      | None \<Rightarrow> \<not> vp_require_status_prefix policy)"

lemma check_statuses_pass: "snd (check_statuses policy index lines) = [] \<longleftrightarrow> list_all (line_passes policy) lines"
proof (induction lines arbitrary: index)
  case Nil
  then show ?case by simp
next
  case (Cons line lines)
  show ?case
    by (cases "parse_status_prefix line")
      (simp_all add: Cons.IH line_passes_def [of policy line] Let_def case_prod_unfold)
qed

text \<open>What an output has to be to pass.\<close>

definition output_acceptable :: "string \<Rightarrow> verification_context \<Rightarrow> verification_policy \<Rightarrow> bool" where
  "output_acceptable output ctx policy \<longleftrightarrow>
     (let body = trim output; text_lower = to_ascii_lowercase body; lines = output_lines body;
          anchors = normalized_anchors (vc_semantic_anchors ctx) in
      if body = [] then \<not> vp_require_non_empty policy
      else vp_min_output_chars policy \<le> char_count body \<and>
        list_all (\<lambda>m. m = [] \<or> \<not> sublist m text_lower) (vp_deny_markers policy) \<and>
        max (vc_expected_result_lines ctx) 1 \<le> length lines \<and> list_all (line_passes policy) lines \<and>
        min (vc_min_anchor_matches ctx) (length anchors) \<le> length (filter (\<lambda>a. sublist a text_lower) anchors))"

lemma anchor_failures_none:
  "anchor_failures ctx normalized anchors = [] \<longleftrightarrow>
    min (vc_min_anchor_matches ctx) (length anchors) \<le> length (filter (\<lambda>a. sublist a normalized) anchors)"
proof (cases "anchors = [] \<or> vc_min_anchor_matches ctx = 0")
  case True
  then show ?thesis by (auto simp: anchor_failures_def)
next
  case False
  then have "max (min (vc_min_anchor_matches ctx) (length anchors)) 1 = min (vc_min_anchor_matches ctx) (length anchors)"
    by (cases anchors) auto
  then show ?thesis
    using False unfolding anchor_failures_def matched_anchors_def contains_text_def Let_def by (auto simp: not_less)
qed

lemma verify_output_passes: "vr_passed (verify_output output ctx policy) \<longleftrightarrow> output_acceptable output ctx policy"
proof (cases "trim output = []")
  case True
  then show ?thesis by (simp add: verify_output_def output_acceptable_def verification_outcome_def)
next
  case False
  let ?lower = "to_ascii_lowercase (trim output)"
  let ?anchors = "normalized_anchors (vc_semantic_anchors ctx)"
  have markers: "marker_failures policy ?lower = [] \<longleftrightarrow>
      list_all (\<lambda>m. m = [] \<or> \<not> sublist m ?lower) (vp_deny_markers policy)"
    by (auto simp: marker_failures_def filter_empty_conv contains_text_def list_all_iff)
  have anchors: "anchor_failures ctx ?lower ?anchors = [] \<longleftrightarrow>
      min (vc_min_anchor_matches ctx) (length ?anchors) \<le> length (filter (\<lambda>a. sublist a ?lower) ?anchors)"
    by (rule anchor_failures_none)
  have others: "length_failures policy (trim output) = [] \<longleftrightarrow> vp_min_output_chars policy \<le> char_count (trim output)"
    "line_failures ctx lines = [] \<longleftrightarrow> max (vc_expected_result_lines ctx) 1 \<le> length lines" for lines
    by (auto simp: length_failures_def line_failures_def Let_def)
  have "vr_passed (verify_output output ctx policy) \<longleftrightarrow>
      length_failures policy (trim output) = [] \<and> marker_failures policy ?lower = [] \<and>
      line_failures ctx (output_lines (trim output)) = [] \<and>
      snd (check_statuses policy 0 (output_lines (trim output))) = [] \<and> anchor_failures ctx ?lower ?anchors = []"
    using False by (simp add: verify_output_def Let_def verification_outcome_def case_prod_unfold)
  then show ?thesis
    unfolding output_acceptable_def Let_def markers anchors others check_statuses_pass using False by simp
qed

text \<open>The anchors are a set: sorted and without duplicates.\<close>

lemma push_anchor_candidate_set:
  "sorted anchors \<Longrightarrow> distinct anchors \<Longrightarrow>
    sorted (push_anchor_candidate value anchors) \<and> distinct (push_anchor_candidate value anchors)"
  by (simp add: push_anchor_candidate_def Let_def sorted_insort_insert_key distinct_insort_insert
      sorted_insort_insert)

end
