(* ===== verification/Safe_Lane_Routing.thy ===== *)
theory Safe_Lane_Routing
  imports Plan_Executor Plan_Verifier
begin

text \<open>
  Budgets, failures and routes of the safe lane: crates/app/src/conversation/turn_budget.rs,
  safe_lane_failure.rs, the failures of turn_engine_outcome.rs, and safe_lane_routing.rs of
  turn_coordinator. A route says whether a failed round is planned again or ends the turn.
\<close>

section \<open>Turn failures and results\<close>

datatype turn_failure_kind = TurnPolicyDenied | TurnRetryable | TurnNonRetryable | TurnProvider

record turn_failure =
  tf_kind :: turn_failure_kind
  tf_code :: string
  tf_reason :: string
  tf_retryable :: bool
  tf_discovery_recovery :: bool

definition turn_failure_of :: "turn_failure_kind \<Rightarrow> string \<Rightarrow> string \<Rightarrow> turn_failure" where
  "turn_failure_of kind code reason = \<lparr>tf_kind = kind, tf_code = code, tf_reason = reason,
     tf_retryable = (kind = TurnRetryable), tf_discovery_recovery = False\<rparr>"

text \<open>\<open>'a\<close> is the requirement of an approval, whose rendering is an argument of the executor.\<close>

datatype 'a turn_result =
    FinalText string | StreamingText string | StreamingDone string | NeedsApproval 'a
  | ToolDenied turn_failure | ToolFailed turn_failure | ProviderFailed turn_failure

fun turn_result_failure :: "'a turn_result \<Rightarrow> turn_failure option" where
  "turn_result_failure (ToolDenied f) = Some f"
| "turn_result_failure (ToolFailed f) = Some f"
| "turn_result_failure (ProviderFailed f) = Some f"
| "turn_result_failure _ = None"

section \<open>Reasons, decisions and sources of a route\<close>

datatype route_reason =
    RetryableFailure | RoundBudgetExhausted | RoutePolicyDenied | NonRetryableFailure | RetryableFlagFalse
  | ProviderFailureReason | BackpressureAttemptsExhausted | BackpressureReplansExhausted | SessionGovernorNoReplan

fun route_reason_as_str :: "route_reason \<Rightarrow> string" where
  "route_reason_as_str RetryableFailure = ''retryable_failure''"
| "route_reason_as_str RoundBudgetExhausted = ''round_budget_exhausted''"
| "route_reason_as_str RoutePolicyDenied = ''policy_denied''"
| "route_reason_as_str NonRetryableFailure = ''non_retryable_failure''"
| "route_reason_as_str RetryableFlagFalse = ''retryable_flag_false''"
| "route_reason_as_str ProviderFailureReason = ''provider_failure''"
| "route_reason_as_str BackpressureAttemptsExhausted = ''backpressure_attempts_exhausted''"
| "route_reason_as_str BackpressureReplansExhausted = ''backpressure_replans_exhausted''"
| "route_reason_as_str SessionGovernorNoReplan = ''session_governor_no_replan''"

definition route_reason_parse :: "string \<Rightarrow> route_reason option" where
  "route_reason_parse value = map_of
     [(''retryable_failure'', RetryableFailure), (''round_budget_exhausted'', RoundBudgetExhausted),
      (''policy_denied'', RoutePolicyDenied), (''non_retryable_failure'', NonRetryableFailure),
      (''retryable_flag_false'', RetryableFlagFalse), (''provider_failure'', ProviderFailureReason),
      (''backpressure_attempts_exhausted'', BackpressureAttemptsExhausted),
      (''backpressure_replans_exhausted'', BackpressureReplansExhausted),
      (''session_governor_no_replan'', SessionGovernorNoReplan)] (trim value)"

fun reason_is_backpressure :: "route_reason \<Rightarrow> bool" where
  "reason_is_backpressure BackpressureAttemptsExhausted = True"
| "reason_is_backpressure BackpressureReplansExhausted = True"
| "reason_is_backpressure _ = False"

datatype route_decision = Replan | Terminal

fun route_decision_as_str :: "route_decision \<Rightarrow> string" where
  "route_decision_as_str Replan = ''replan''"
| "route_decision_as_str Terminal = ''terminal''"

definition route_decision_parse :: "string \<Rightarrow> route_decision option" where
  "route_decision_parse value = map_of [(''replan'', Replan), (''terminal'', Terminal)] (trim value)"

datatype route_source = BaseRouting | BackpressureGuard | SessionGovernor

fun route_source_as_str :: "route_source \<Rightarrow> string" where
  "route_source_as_str BaseRouting = ''base_routing''"
| "route_source_as_str BackpressureGuard = ''backpressure_guard''"
| "route_source_as_str SessionGovernor = ''session_governor''"

definition route_source_parse :: "string \<Rightarrow> route_source option" where
  "route_source_parse value = map_of [(''base_routing'', BaseRouting), (''backpressure_guard'', BackpressureGuard),
     (''session_governor'', SessionGovernor)] (trim value)"

record failure_route =
  fr_decision :: route_decision
  fr_reason :: route_reason
  fr_source :: route_source

definition route_is_terminal :: "failure_route \<Rightarrow> bool" where
  "route_is_terminal r \<longleftrightarrow> fr_decision r = Terminal"

definition is_backpressure_override_terminal :: "failure_route \<Rightarrow> bool" where
  "is_backpressure_override_terminal r \<longleftrightarrow>
     route_is_terminal r \<and> fr_source r = BackpressureGuard \<and> reason_is_backpressure (fr_reason r)"

definition is_session_governor_override_terminal :: "failure_route \<Rightarrow> bool" where
  "is_session_governor_override_terminal r \<longleftrightarrow>
     route_is_terminal r \<and> fr_source r = SessionGovernor \<and> fr_reason r = SessionGovernorNoReplan"

section \<open>Budgets\<close>

definition saturating_inc :: "'a :: len word \<Rightarrow> 'a word" where
  "saturating_inc x = (if x = - 1 then x else x + 1)"

datatype continuation_decision = KeepGoing | StopFor route_reason

record replan_budget =
  rb_current_round :: "8 word"
  rb_max_replans :: "8 word"

definition replan_budget_new :: "8 word \<Rightarrow> replan_budget" where
  "replan_budget_new max_replans = \<lparr>rb_current_round = 0, rb_max_replans = max_replans\<rparr>"

definition replan_continuation :: "replan_budget \<Rightarrow> continuation_decision" where
  "replan_continuation b = (if rb_current_round b < rb_max_replans b then KeepGoing else StopFor RoundBudgetExhausted)"

definition after_replan :: "replan_budget \<Rightarrow> replan_budget" where
  "after_replan b = b\<lparr>rb_current_round := saturating_inc (rb_current_round b)\<rparr>"

record attempt_budget =
  ab_current_limit :: "8 word"
  ab_max_limit :: "8 word"

definition attempt_budget_new :: "8 word \<Rightarrow> 8 word \<Rightarrow> attempt_budget" where
  "attempt_budget_new initial_limit max_limit =
     (let current_limit = max initial_limit 1; max_limit = max (max max_limit current_limit) 1 in
      \<lparr>ab_current_limit = min current_limit max_limit, ab_max_limit = max_limit\<rparr>)"

definition after_retry :: "attempt_budget \<Rightarrow> attempt_budget" where
  "after_retry b = b\<lparr>ab_current_limit := max (min (saturating_inc (ab_current_limit b)) (ab_max_limit b)) 1\<rparr>"

record backpressure_budget =
  bb_max_total_attempts :: u64
  bb_max_replans :: u32

definition backpressure_budget_new :: "u64 \<Rightarrow> u32 \<Rightarrow> backpressure_budget" where
  "backpressure_budget_new max_total_attempts max_replans =
     \<lparr>bb_max_total_attempts = max max_total_attempts 1, bb_max_replans = max max_replans 1\<rparr>"

definition backpressure_continuation :: "backpressure_budget \<Rightarrow> u64 \<Rightarrow> u32 \<Rightarrow> continuation_decision" where
  "backpressure_continuation b total_attempts_used replans_triggered =
     (if bb_max_total_attempts b \<le> total_attempts_used then StopFor BackpressureAttemptsExhausted
      else if bb_max_replans b \<le> replans_triggered then StopFor BackpressureReplansExhausted
      else KeepGoing)"

section \<open>Failure codes\<close>

datatype safe_lane_failure_code =
    CodePlanValidationFailed | CodePlanTopologyResolutionFailed | CodePlanBudgetExceeded | CodePlanWallTimeExceeded
  | CodePlanNodePolicyDenied | CodePlanNodeRetryableError | CodePlanNodeNonRetryableError | CodeVerifyFailed
  | CodeVerifyFailedBackpressureGuard | CodeVerifyFailedSessionGovernor | CodeVerifyFailedBudgetExhausted
  | CodePlanBackpressureGuard | CodePlanSessionGovernorNoReplan

fun failure_code_as_str :: "safe_lane_failure_code \<Rightarrow> string" where
  "failure_code_as_str CodePlanValidationFailed = ''safe_lane_plan_validation_failed''"
| "failure_code_as_str CodePlanTopologyResolutionFailed = ''safe_lane_plan_topology_resolution_failed''"
| "failure_code_as_str CodePlanBudgetExceeded = ''safe_lane_plan_budget_exceeded''"
| "failure_code_as_str CodePlanWallTimeExceeded = ''safe_lane_plan_wall_time_exceeded''"
| "failure_code_as_str CodePlanNodePolicyDenied = ''safe_lane_plan_node_policy_denied''"
| "failure_code_as_str CodePlanNodeRetryableError = ''safe_lane_plan_node_retryable_error''"
| "failure_code_as_str CodePlanNodeNonRetryableError = ''safe_lane_plan_node_non_retryable_error''"
| "failure_code_as_str CodeVerifyFailed = ''safe_lane_plan_verify_failed''"
| "failure_code_as_str CodeVerifyFailedBackpressureGuard = ''safe_lane_plan_verify_failed_backpressure_guard''"
| "failure_code_as_str CodeVerifyFailedSessionGovernor = ''safe_lane_plan_verify_failed_session_governor''"
| "failure_code_as_str CodeVerifyFailedBudgetExhausted = ''safe_lane_plan_verify_failed_budget_exhausted''"
| "failure_code_as_str CodePlanBackpressureGuard = ''safe_lane_plan_backpressure_guard''"
| "failure_code_as_str CodePlanSessionGovernorNoReplan = ''safe_lane_plan_session_governor_no_replan''"

definition failure_code_parse :: "string \<Rightarrow> safe_lane_failure_code option" where
  "failure_code_parse value = map_of
     [(''safe_lane_plan_validation_failed'', CodePlanValidationFailed),
      (''safe_lane_plan_topology_resolution_failed'', CodePlanTopologyResolutionFailed),
      (''safe_lane_plan_budget_exceeded'', CodePlanBudgetExceeded),
      (''safe_lane_plan_wall_time_exceeded'', CodePlanWallTimeExceeded),
      (''safe_lane_plan_node_policy_denied'', CodePlanNodePolicyDenied),
      (''safe_lane_plan_node_retryable_error'', CodePlanNodeRetryableError),
      (''safe_lane_plan_node_non_retryable_error'', CodePlanNodeNonRetryableError),
      (''safe_lane_plan_verify_failed'', CodeVerifyFailed),
      (''safe_lane_plan_verify_failed_backpressure_guard'', CodeVerifyFailedBackpressureGuard),
      (''safe_lane_plan_verify_failed_session_governor'', CodeVerifyFailedSessionGovernor),
      (''safe_lane_plan_verify_failed_budget_exhausted'', CodeVerifyFailedBudgetExhausted),
      (''safe_lane_plan_backpressure_guard'', CodePlanBackpressureGuard),
      (''safe_lane_plan_session_governor_no_replan'', CodePlanSessionGovernorNoReplan)] (trim value)"

definition code_is_backpressure :: "safe_lane_failure_code \<Rightarrow> bool" where
  "code_is_backpressure c \<longleftrightarrow> c \<in> {CodeVerifyFailedBackpressureGuard, CodePlanBackpressureGuard}"

definition code_is_terminal_instability :: "safe_lane_failure_code \<Rightarrow> bool" where
  "code_is_terminal_instability c \<longleftrightarrow> c \<in>
     {CodeVerifyFailed, CodeVerifyFailedBackpressureGuard, CodeVerifyFailedSessionGovernor,
      CodeVerifyFailedBudgetExhausted, CodePlanBackpressureGuard, CodePlanSessionGovernorNoReplan}"

definition is_backpressure_failure_code :: "string \<Rightarrow> bool" where
  "is_backpressure_failure_code value =
     (case failure_code_parse value of Some c \<Rightarrow> code_is_backpressure c | None \<Rightarrow> False)"

definition is_terminal_instability_failure_code :: "string option \<Rightarrow> bool" where
  "is_terminal_instability_failure_code value =
     (case Option.bind value failure_code_parse of Some c \<Rightarrow> code_is_terminal_instability c | None \<Rightarrow> False)"

definition is_backpressure_route_reason :: "string \<Rightarrow> bool" where
  "is_backpressure_route_reason value =
     (case route_reason_parse value of Some r \<Rightarrow> reason_is_backpressure r | None \<Rightarrow> False)"

definition code_into_turn_failure :: "safe_lane_failure_code \<Rightarrow> turn_failure_kind \<Rightarrow> string \<Rightarrow> turn_failure" where
  "code_into_turn_failure code kind reason = turn_failure_of kind (failure_code_as_str code) reason"

fun classify_plan_failure :: "plan_run_failure \<Rightarrow> safe_lane_failure_code \<times> turn_failure_kind" where
  "classify_plan_failure (PlanValidationFailed e) = (CodePlanValidationFailed, TurnNonRetryable)"
| "classify_plan_failure PlanTopologyResolutionFailed = (CodePlanTopologyResolutionFailed, TurnNonRetryable)"
| "classify_plan_failure (PlanBudgetExceeded used limit) = (CodePlanBudgetExceeded, TurnNonRetryable)"
| "classify_plan_failure (PlanWallTimeExceeded elapsed limit) = (CodePlanWallTimeExceeded, TurnNonRetryable)"
| "classify_plan_failure (PlanNodeFailed x attempt kind e) =
     (case kind of
        NodeApprovalRequired \<Rightarrow> (CodePlanNodePolicyDenied, TurnPolicyDenied)
      | NodePolicyDenied \<Rightarrow> (CodePlanNodePolicyDenied, TurnPolicyDenied)
      | NodeRetryable \<Rightarrow> (CodePlanNodeRetryableError, TurnRetryable)
      | NodeNonRetryable \<Rightarrow> (CodePlanNodeNonRetryableError, TurnNonRetryable))"

section \<open>Routes\<close>

definition replan_route :: "route_reason \<Rightarrow> failure_route" where
  "replan_route reason = \<lparr>fr_decision = Replan, fr_reason = reason, fr_source = BaseRouting\<rparr>"

definition terminal_with_source :: "route_reason \<Rightarrow> route_source \<Rightarrow> failure_route" where
  "terminal_with_source reason source = \<lparr>fr_decision = Terminal, fr_reason = reason, fr_source = source\<rparr>"

definition terminal_route :: "route_reason \<Rightarrow> failure_route" where
  "terminal_route reason = terminal_with_source reason BaseRouting"

definition route_for_code :: "safe_lane_failure_code \<Rightarrow> bool \<Rightarrow> failure_route" where
  "route_for_code code retryable =
     (case code of
        CodePlanNodePolicyDenied \<Rightarrow> terminal_route RoutePolicyDenied
      | CodeVerifyFailed \<Rightarrow>
          if retryable then replan_route RetryableFailure else terminal_route NonRetryableFailure
      | CodePlanNodeRetryableError \<Rightarrow>
          if retryable then replan_route RetryableFailure else terminal_route RetryableFlagFalse
      | CodeVerifyFailedBudgetExhausted \<Rightarrow> terminal_route RoundBudgetExhausted
      | _ \<Rightarrow> terminal_route NonRetryableFailure)"

definition route_for_kind :: "turn_failure_kind \<Rightarrow> bool \<Rightarrow> failure_route" where
  "route_for_kind kind retryable =
     (case kind of
        TurnRetryable \<Rightarrow> if retryable then replan_route RetryableFailure else terminal_route RetryableFlagFalse
      | TurnPolicyDenied \<Rightarrow> terminal_route RoutePolicyDenied
      | TurnNonRetryable \<Rightarrow> terminal_route NonRetryableFailure
      | TurnProvider \<Rightarrow> terminal_route ProviderFailureReason)"

definition route_from_failure :: "turn_failure \<Rightarrow> replan_budget \<Rightarrow> failure_route" where
  "route_from_failure f budget =
     (case replan_continuation budget of
        StopFor reason \<Rightarrow> terminal_route reason
      | KeepGoing \<Rightarrow>
          if tf_code f = ''tool_not_found'' \<and> tf_discovery_recovery f then replan_route RetryableFailure
          else if tf_code f \<in> {''kernel_policy_denied'', ''tool_not_found'', ''max_tool_steps_exceeded'', ''no_kernel_context''}
          then terminal_route RoutePolicyDenied
          else if tf_code f = ''tool_execution_failed'' then
            (if tf_retryable f then replan_route RetryableFailure else terminal_route RetryableFlagFalse)
          else if tf_code f = ''kernel_execution_failed'' then terminal_route NonRetryableFailure
          else
            (case failure_code_parse (tf_code f) of
               Some code \<Rightarrow> route_for_code code (tf_retryable f)
             | None \<Rightarrow> route_for_kind (tf_kind f) (tf_retryable f)))"

definition is_base_round_budget_terminal :: "failure_route \<Rightarrow> bool" where
  "is_base_round_budget_terminal r \<longleftrightarrow>
     fr_decision r = Terminal \<and> fr_source r = BaseRouting \<and> fr_reason r = RoundBudgetExhausted"

definition should_replan :: "failure_route \<Rightarrow> bool" where
  "should_replan r \<longleftrightarrow> fr_decision r = Replan"

definition verify_terminal_summary_label :: "failure_route \<Rightarrow> string" where
  "verify_terminal_summary_label r =
     (case fr_source r of
        BackpressureGuard \<Rightarrow> ''verify_failed_backpressure_guard''
      | SessionGovernor \<Rightarrow> ''verify_failed_session_governor''
      | BaseRouting \<Rightarrow>
          if fr_reason r = RoundBudgetExhausted then ''verify_failed_budget_exhausted''
          else ''verify_failed_non_retryable'')"

definition terminal_verify_failure_code :: "failure_route \<Rightarrow> bool \<Rightarrow> safe_lane_failure_code" where
  "terminal_verify_failure_code r retryable_signal =
     (case fr_source r of
        BackpressureGuard \<Rightarrow> CodeVerifyFailedBackpressureGuard
      | SessionGovernor \<Rightarrow> CodeVerifyFailedSessionGovernor
      | BaseRouting \<Rightarrow>
          if fr_reason r = RoundBudgetExhausted \<and> retryable_signal then CodeVerifyFailedBudgetExhausted
          else CodeVerifyFailed)"

definition terminal_plan_failure_code :: "failure_route \<Rightarrow> safe_lane_failure_code option" where
  "terminal_plan_failure_code r =
     (case fr_source r of
        BackpressureGuard \<Rightarrow> Some CodePlanBackpressureGuard
      | SessionGovernor \<Rightarrow> Some CodePlanSessionGovernorNoReplan
      | BaseRouting \<Rightarrow> None)"

definition with_backpressure_guard :: "failure_route \<Rightarrow> backpressure_budget option \<Rightarrow> u64 \<Rightarrow> u32 \<Rightarrow> failure_route" where
  "with_backpressure_guard r budget total_attempts_used replans_triggered =
     (if \<not> should_replan r then r
      else case budget of
        None \<Rightarrow> r
      | Some b \<Rightarrow>
          (case backpressure_continuation b total_attempts_used replans_triggered of
             KeepGoing \<Rightarrow> r
           | StopFor reason \<Rightarrow> terminal_with_source reason BackpressureGuard))"

definition with_session_governor_override :: "failure_route \<Rightarrow> bool \<Rightarrow> failure_route" where
  "with_session_governor_override r force_no_replan =
     (if force_no_replan \<and> is_base_round_budget_terminal r
      then terminal_with_source SessionGovernorNoReplan SessionGovernor else r)"

section \<open>What follows a failed round\<close>

datatype 'a round_decision = FinalizeTurn "'a turn_result" | ReplanTurn string usize "string list"

definition debug_error_kind :: "plan_node_error_kind \<Rightarrow> string" where
  "debug_error_kind kind =
     (case kind of
        NodeApprovalRequired \<Rightarrow> ''ApprovalRequired'' | NodeRetryable \<Rightarrow> ''Retryable''
      | NodePolicyDenied \<Rightarrow> ''PolicyDenied'' | NodeNonRetryable \<Rightarrow> ''NonRetryable'')"

fun summarize_plan_failure :: "plan_run_failure \<Rightarrow> string" where
  "summarize_plan_failure (PlanValidationFailed e) = ''validation_failed:'' @ e"
| "summarize_plan_failure PlanTopologyResolutionFailed = ''topology_resolution_failed''"
| "summarize_plan_failure (PlanBudgetExceeded used limit) =
     ''budget_exceeded attempts_used='' @ nat_to_dec used @ '' limit='' @ nat_to_dec limit"
| "summarize_plan_failure (PlanWallTimeExceeded elapsed limit) =
     ''wall_time_exceeded elapsed_ms='' @ nat_to_dec elapsed @ '' limit_ms='' @ nat_to_dec (unat limit)"
| "summarize_plan_failure (PlanNodeFailed x attempt kind e) =
     ''node_failed node='' @ x @ '' error_kind='' @ debug_error_kind kind @ '' reason='' @ e"

definition format_turn_failure_kind :: "turn_failure_kind \<Rightarrow> string" where
  "format_turn_failure_kind kind =
     (case kind of
        TurnPolicyDenied \<Rightarrow> ''policy_denied'' | TurnRetryable \<Rightarrow> ''retryable''
      | TurnNonRetryable \<Rightarrow> ''non_retryable'' | TurnProvider \<Rightarrow> ''provider'')"

definition turn_failure_from_plan_failure :: "plan_run_failure \<Rightarrow> turn_failure" where
  "turn_failure_from_plan_failure failure =
     (case classify_plan_failure failure of (code, kind) \<Rightarrow>
        code_into_turn_failure code kind
          (case failure of
             PlanValidationFailed e \<Rightarrow> failure_code_as_str code @ '': '' @ e
           | PlanTopologyResolutionFailed \<Rightarrow> failure_code_as_str code
           | PlanBudgetExceeded used limit \<Rightarrow>
               failure_code_as_str code @ '' attempts_used='' @ nat_to_dec used @ '' limit='' @ nat_to_dec limit
           | PlanWallTimeExceeded elapsed limit \<Rightarrow>
               failure_code_as_str code @ '' elapsed_ms='' @ nat_to_dec elapsed @ '' limit_ms='' @ nat_to_dec (unat limit)
           | PlanNodeFailed x attempt k e \<Rightarrow> e))"

definition turn_failure_from_verify_failure :: "string \<Rightarrow> bool \<Rightarrow> turn_failure" where
  "turn_failure_from_verify_failure verify_error retryable =
     code_into_turn_failure CodeVerifyFailed (if retryable then TurnRetryable else TurnNonRetryable)
       (failure_code_as_str CodeVerifyFailed @ '': '' @ verify_error)"

definition terminal_turn_failure_from_verify_failure :: "string \<Rightarrow> bool \<Rightarrow> failure_route \<Rightarrow> turn_failure" where
  "terminal_turn_failure_from_verify_failure verify_error retryable_signal r =
     code_into_turn_failure (terminal_verify_failure_code r retryable_signal) TurnNonRetryable
       (failure_code_as_str CodeVerifyFailed @ '': '' @ verify_error)"

definition turn_result_from_plan_failure :: "plan_run_failure \<Rightarrow> 'a turn_result" where
  "turn_result_from_plan_failure failure =
     (let f = turn_failure_from_plan_failure failure in
      case tf_kind f of
        TurnPolicyDenied \<Rightarrow> ToolDenied f
      | TurnProvider \<Rightarrow> ProviderFailed f
      | _ \<Rightarrow> ToolFailed f)"

definition terminal_turn_result_from_plan_failure :: "plan_run_failure \<Rightarrow> failure_route \<Rightarrow> 'a turn_result" where
  "terminal_turn_result_from_plan_failure failure r =
     (case terminal_plan_failure_code r of
        Some code \<Rightarrow> ToolFailed (code_into_turn_failure code TurnNonRetryable
          (failure_code_as_str code @ '': '' @ summarize_plan_failure failure))
      | None \<Rightarrow> turn_result_from_plan_failure failure)"

definition decide_verify_failure_action :: "string \<Rightarrow> bool \<Rightarrow> failure_route \<Rightarrow> 'a round_decision" where
  "decide_verify_failure_action verify_error retryable_signal r =
     (if \<not> should_replan r
      then FinalizeTurn (ToolFailed (terminal_turn_failure_from_verify_failure verify_error retryable_signal r))
      else ReplanTurn ''verify_failed'' 0 [])"

definition decide_plan_failure_action :: "plan_run_failure \<Rightarrow> failure_route \<Rightarrow> usize \<Rightarrow> string list \<Rightarrow> 'a round_decision" where
  "decide_plan_failure_action failure r next_start next_seed =
     (if should_replan r then ReplanTurn (summarize_plan_failure failure) next_start next_seed
      else FinalizeTurn (terminal_turn_result_from_plan_failure failure r))"

definition should_replan_for_verification_failure :: "verification_report \<Rightarrow> bool" where
  "should_replan_for_verification_failure report \<longleftrightarrow>
     \<not> list_ex (\<lambda>code. code \<in> {DenyMarkerDetected, MissingStatusPrefix, MissingSemanticAnchors}) (vr_failure_codes report)"

definition format_verification_failure_code :: "verification_failure_code \<Rightarrow> string" where
  "format_verification_failure_code code =
     (case code of
        EmptyOutput \<Rightarrow> ''empty_output'' | OutputTooShort \<Rightarrow> ''output_too_short''
      | DenyMarkerDetected \<Rightarrow> ''deny_marker_detected'' | InsufficientResultLines \<Rightarrow> ''insufficient_result_lines''
      | MissingStatusPrefix \<Rightarrow> ''missing_status_prefix'' | FailureStatusDetected \<Rightarrow> ''failure_status_detected''
      | MissingSemanticAnchors \<Rightarrow> ''missing_semantic_anchors'')"

section \<open>The names\<close>

lemma route_names_trim:
  "trim (route_reason_as_str r) = route_reason_as_str r" "trim (route_decision_as_str d) = route_decision_as_str d"
  "trim (route_source_as_str s) = route_source_as_str s" "trim (failure_code_as_str c) = failure_code_as_str c"
     apply (rule trim_graphic_id; cases r; simp add: ascii_graphic_def)
    apply (rule trim_graphic_id; cases d; simp add: ascii_graphic_def)
   apply (rule trim_graphic_id; cases s; simp add: ascii_graphic_def)
  apply (rule trim_graphic_id; cases c; simp add: ascii_graphic_def)
  done

lemma route_reason_round_trip: "route_reason_parse (route_reason_as_str r) = Some r"
  unfolding route_reason_parse_def route_names_trim by (cases r; simp)

lemma route_decision_round_trip: "route_decision_parse (route_decision_as_str d) = Some d"
  unfolding route_decision_parse_def route_names_trim by (cases d; simp)

lemma route_source_round_trip: "route_source_parse (route_source_as_str s) = Some s"
  unfolding route_source_parse_def route_names_trim by (cases s; simp)

lemma failure_code_round_trip: "failure_code_parse (failure_code_as_str c) = Some c"
  unfolding failure_code_parse_def route_names_trim by (cases c; simp)

lemmas route_names_round_trip =
  route_reason_round_trip route_decision_round_trip route_source_round_trip failure_code_round_trip

end
