(* ===== verification/Safe_Lane_Rounds.thy ===== *)
theory Safe_Lane_Rounds
  imports Safe_Lane_Routing
begin

text \<open>
  The rounds of the safe lane (safe_lane_execution.rs, safe_lane_state.rs and safe_lane_governor.rs of
  crates/app/src/conversation/turn_coordinator): each round plans the tool calls of a turn from the
  first one without an output, runs the plan, verifies the outputs, and either ends the turn or plans
  again. What a tool call does, the clock, the history of the session, the event log and \<open>f64\<close> arithmetic
  are arguments; of an event its name and the values its payload is made from are kept.
\<close>

section \<open>The session governor\<close>

text \<open>\<open>f64\<close>: a literal, given by its hundredths, and the operations the governor uses.\<close>

record 'f f64_lib =
  f64_hundredths :: "nat \<Rightarrow> 'f"
  f64_add :: "'f \<Rightarrow> 'f \<Rightarrow> 'f"
  f64_sub :: "'f \<Rightarrow> 'f \<Rightarrow> 'f"
  f64_mul :: "'f \<Rightarrow> 'f \<Rightarrow> 'f"
  f64_le :: "'f \<Rightarrow> 'f \<Rightarrow> bool"

definition f64_of_bool :: "'f f64_lib \<Rightarrow> bool \<Rightarrow> 'f" where
  "f64_of_bool F b = f64_hundredths F (if b then 100 else 0)"

definition compute_ewma_bool :: "'f f64_lib \<Rightarrow> bool list \<Rightarrow> 'f \<Rightarrow> 'f option" where
  "compute_ewma_bool F samples alpha =
     (case samples of
        [] \<Rightarrow> None
      | first # rest \<Rightarrow> Some (fold (\<lambda>sample ewma.
          f64_add F (f64_mul F alpha (f64_of_bool F sample)) (f64_mul F (f64_sub F (f64_hundredths F 100) alpha) ewma))
          rest (f64_of_bool F first)))"

fun success_streak :: "u32 \<Rightarrow> bool list \<Rightarrow> u32" where
  "success_streak streak [] = streak"
| "success_streak streak (failed # rest) = (if failed then streak else success_streak (saturating_inc streak) rest)"

definition trailing_success_streak :: "bool list \<Rightarrow> u32" where
  "trailing_success_streak failed_samples = success_streak 0 (rev failed_samples)"

datatype governor_history_status = HistoryDisabled | HistoryLoaded | HistoryUnavailable

record governor_history =
  gh_load_status :: governor_history_status
  gh_load_error :: "string option"
  gh_failed_final_status_events :: u32
  gh_backpressure_failure_events :: u32
  gh_failed_samples :: "bool list"
  gh_backpressure_samples :: "bool list"

record 'f governor_decision =
  gd_engaged :: bool
  gd_history :: governor_history
  gd_failed_threshold_triggered :: bool
  gd_backpressure_threshold_triggered :: bool
  gd_trend_failure_ewma :: "'f option"
  gd_trend_backpressure_ewma :: "'f option"
  gd_trend_threshold_triggered :: bool
  gd_recovery_success_streak :: u32
  gd_recovery_threshold_triggered :: bool
  gd_force_no_replan :: bool
  gd_forced_node_max_attempts :: "8 word option"

definition decide_session_governor :: "'f f64_lib \<Rightarrow> governor_history \<Rightarrow> 'f governor_decision" where
  "decide_session_governor F history =
     (let failed = 3 \<le> gh_failed_final_status_events history;
          backpressure = 1 \<le> gh_backpressure_failure_events history;
          alpha = f64_hundredths F 35;
          ready = 4 \<le> length (gh_failed_samples history);
          failure_ewma = (if ready then compute_ewma_bool F (gh_failed_samples history) alpha else None);
          backpressure_ewma = (if ready then compute_ewma_bool F (gh_backpressure_samples history) alpha else None);
          at_least = (\<lambda>v limit. case v of Some x \<Rightarrow> f64_le F (f64_hundredths F limit) x | None \<Rightarrow> False);
          at_most = (\<lambda>v limit. case v of Some x \<Rightarrow> f64_le F x (f64_hundredths F limit) | None \<Rightarrow> False);
          trend = at_least failure_ewma 60 \<or> at_least backpressure_ewma 20;
          streak = (if ready then trailing_success_streak (gh_failed_samples history) else 0);
          recovery = ready \<and> 3 \<le> streak \<and> at_most failure_ewma 25 \<and> at_most backpressure_ewma 10;
          engaged = (failed \<or> backpressure \<or> trend) \<and> \<not> recovery
      in \<lparr>gd_engaged = engaged, gd_history = history, gd_failed_threshold_triggered = failed,
          gd_backpressure_threshold_triggered = backpressure, gd_trend_failure_ewma = failure_ewma,
          gd_trend_backpressure_ewma = backpressure_ewma, gd_trend_threshold_triggered = trend,
          gd_recovery_success_streak = streak, gd_recovery_threshold_triggered = recovery,
          gd_force_no_replan = engaged, gd_forced_node_max_attempts = (if engaged then Some 1 else None)\<rparr>)"

section \<open>Output statistics\<close>

record tool_output_stats =
  os_output_lines :: usize
  os_result_lines :: usize
  os_truncated_result_lines :: usize

definition line_has_truncation_signal :: "(string \<Rightarrow> bool) \<Rightarrow> string \<Rightarrow> bool" where
  "line_has_truncation_signal structured line \<longleftrightarrow>
     (let normalized = to_ascii_lowercase line in
      contains_text normalized ''...(truncated '' \<or> contains_text normalized ''... (truncated '' \<or>
      contains_text normalized ''[tool_result_truncated]'' \<or> list_ex structured (read_lines line))"

definition count_output_line :: "(string \<Rightarrow> bool) \<Rightarrow> string \<Rightarrow> tool_output_stats \<Rightarrow> tool_output_stats" where
  "count_output_line structured line stats =
     (let stats = stats\<lparr>os_output_lines := usize_saturating_add (os_output_lines stats) 1\<rparr> in
      if \<not> prefix ''['' line then stats
      else
        let stats = stats\<lparr>os_result_lines := usize_saturating_add (os_result_lines stats) 1\<rparr> in
        if line_has_truncation_signal structured line
        then stats\<lparr>os_truncated_result_lines := usize_saturating_add (os_truncated_result_lines stats) 1\<rparr>
        else stats)"

definition summarize_tool_output_stats :: "(string \<Rightarrow> bool) \<Rightarrow> string list \<Rightarrow> tool_output_stats" where
  "summarize_tool_output_stats structured outputs =
     fold (count_output_line structured) (concat (map output_lines outputs))
       \<lparr>os_output_lines = 0, os_result_lines = 0, os_truncated_result_lines = 0\<rparr>"

section \<open>The state of the rounds\<close>

record safe_lane_metrics =
  sm_rounds_started :: u32
  sm_rounds_succeeded :: u32
  sm_rounds_failed :: u32
  sm_verify_failures :: u32
  sm_replans_triggered :: u32
  sm_total_attempts_used :: u64
  sm_result_lines_total :: u64
  sm_truncated_result_lines_total :: u64

definition safe_lane_metrics_default :: safe_lane_metrics where
  "safe_lane_metrics_default = \<lparr>sm_rounds_started = 0, sm_rounds_succeeded = 0, sm_rounds_failed = 0,
     sm_verify_failures = 0, sm_replans_triggered = 0, sm_total_attempts_used = 0, sm_result_lines_total = 0,
     sm_truncated_result_lines_total = 0\<rparr>"

record 'f loop_state =
  ls_governor :: "'f governor_decision"
  ls_replan_budget :: replan_budget
  ls_attempt_budget :: attempt_budget
  ls_start :: usize
  ls_seed :: "string list"
  ls_metrics :: safe_lane_metrics
  ls_min_anchor_matches :: usize

definition loop_state_new :: "'f governor_decision \<Rightarrow> 'f loop_state" where
  "loop_state_new governor =
     (let limit = (\<lambda>n. case gd_forced_node_max_attempts governor of Some forced \<Rightarrow> min n (max forced 1) | None \<Rightarrow> n);
          tool_node_max_attempts = limit 1;
          max_node_attempts = limit (max 4 tool_node_max_attempts)
      in \<lparr>ls_governor = governor,
          ls_replan_budget = replan_budget_new (if gd_force_no_replan governor then 0 else 16),
          ls_attempt_budget = attempt_budget_new tool_node_max_attempts max_node_attempts,
          ls_start = 0, ls_seed = [], ls_metrics = safe_lane_metrics_default, ls_min_anchor_matches = 0\<rparr>)"

definition verify_min_anchor_matches :: "u32 \<Rightarrow> usize" where
  "verify_min_anchor_matches verify_failures = (if verify_failures < 2 then 0 else 1)"

definition refresh_verify_policy :: "'f loop_state \<Rightarrow> usize option \<times> 'f loop_state" where
  "refresh_verify_policy st =
     (let next_min = verify_min_anchor_matches (sm_verify_failures (ls_metrics st)) in
      if next_min = ls_min_anchor_matches st then (None, st)
      else (if 0 < next_min then Some next_min else None, st\<lparr>ls_min_anchor_matches := next_min\<rparr>))"

abbreviation (input) with_metrics :: "(safe_lane_metrics \<Rightarrow> safe_lane_metrics) \<Rightarrow> 'f loop_state \<Rightarrow> 'f loop_state" where
  "with_metrics g st \<equiv> st\<lparr>ls_metrics := g (ls_metrics st)\<rparr>"

definition note_round_started :: "'f loop_state \<Rightarrow> 'f loop_state" where
  "note_round_started = with_metrics (\<lambda>m. m\<lparr>sm_rounds_started := saturating_inc (sm_rounds_started m)\<rparr>)"

definition record_round_execution :: "plan_run_report \<Rightarrow> tool_output_stats \<Rightarrow> 'f loop_state \<Rightarrow> 'f loop_state" where
  "record_round_execution report stats = with_metrics (\<lambda>m. m\<lparr>
     sm_total_attempts_used := u64_saturating_add (sm_total_attempts_used m) (of_nat (pr_attempts_used report)),
     sm_result_lines_total := u64_saturating_add (sm_result_lines_total m) (of_nat (os_result_lines stats)),
     sm_truncated_result_lines_total :=
       u64_saturating_add (sm_truncated_result_lines_total m) (of_nat (os_truncated_result_lines stats))\<rparr>)"

definition note_round_succeeded :: "'f loop_state \<Rightarrow> 'f loop_state" where
  "note_round_succeeded = with_metrics (\<lambda>m. m\<lparr>sm_rounds_succeeded := saturating_inc (sm_rounds_succeeded m)\<rparr>)"

definition note_round_failed :: "'f loop_state \<Rightarrow> 'f loop_state" where
  "note_round_failed = with_metrics (\<lambda>m. m\<lparr>sm_rounds_failed := saturating_inc (sm_rounds_failed m)\<rparr>)"

definition note_verify_failure :: "'f loop_state \<Rightarrow> 'f loop_state" where
  "note_verify_failure = with_metrics (\<lambda>m. m\<lparr>sm_verify_failures := saturating_inc (sm_verify_failures m)\<rparr>)"

definition note_replan :: "usize \<Rightarrow> string list \<Rightarrow> 'f loop_state \<Rightarrow> 'f loop_state" where
  "note_replan next_start next_seed st =
     with_metrics (\<lambda>m. m\<lparr>sm_replans_triggered := saturating_inc (sm_replans_triggered m)\<rparr>)
       (st\<lparr>ls_start := next_start, ls_seed := next_seed\<rparr>)"

definition advance_round :: "'f loop_state \<Rightarrow> 'f loop_state" where
  "advance_round st = st\<lparr>ls_replan_budget := after_replan (ls_replan_budget st),
     ls_attempt_budget := after_retry (ls_attempt_budget st)\<rparr>"

section \<open>The plan of a round\<close>

record 'n tool_intent =
  ti_tool_name :: string
  ti_args :: "'n json"
  ti_source :: string
  ti_session_id :: string
  ti_turn_id :: string
  ti_tool_call_id :: string

record lane_decision =
  ld_risk_score :: u32
  ld_complexity_score :: u32
  ld_reasons :: "string list"

definition select_risk_tier :: "lane_decision \<Rightarrow> risk_tier" where
  "select_risk_tier d =
     (if 8 \<le> ld_risk_score d \<or> 12 \<le> ld_complexity_score d then HighRisk
      else if 0 < ld_risk_score d \<or> 0 < ld_complexity_score d then MediumRisk
      else LowRisk)"

definition tool_node_id :: "nat \<Rightarrow> string" where
  "tool_node_id index = ''tool-'' @ nat_to_dec (index + 1)"

definition tool_plan_node :: "risk_tier \<Rightarrow> 8 word \<Rightarrow> ('n tool_intent \<Rightarrow> string) \<Rightarrow> nat \<times> 'n tool_intent \<Rightarrow> plan_node" where
  "tool_plan_node tier max_attempts visible_name i =
     \<lparr>pn_id = tool_node_id (fst i), pn_kind = ToolNode, pn_label = ''invoke `'' @ visible_name (snd i) @ ''`'',
      pn_tool_name = Some (visible_name (snd i)), pn_timeout_ms = 3000, pn_max_attempts = max_attempts,
      pn_risk_tier = tier\<rparr>"

definition verify_plan_node :: plan_node where
  "verify_plan_node = \<lparr>pn_id = ''verify-1'', pn_kind = VerifyNode, pn_label = ''verify non-empty tool outputs'',
     pn_tool_name = None, pn_timeout_ms = 500, pn_max_attempts = 1, pn_risk_tier = MediumRisk\<rparr>"

definition respond_plan_node :: plan_node where
  "respond_plan_node = \<lparr>pn_id = ''respond-1'', pn_kind = RespondNode, pn_label = ''compose final response'',
     pn_tool_name = None, pn_timeout_ms = 500, pn_max_attempts = 1, pn_risk_tier = LowRisk\<rparr>"

definition build_safe_lane_plan ::
  "('n tool_intent \<Rightarrow> string) \<Rightarrow> lane_decision \<Rightarrow> 'n tool_intent list \<Rightarrow> 8 word \<Rightarrow> usize \<Rightarrow> plan_graph" where
  "build_safe_lane_plan visible_name decision intents max_attempts start =
     (let tools = drop (min start (length intents)) (enumerate 0 intents);
          nodes = map (tool_plan_node (select_risk_tier decision) max_attempts visible_name) tools @
            [verify_plan_node, respond_plan_node]
      in \<lparr>pg_version = ''hybrid_lane_plan.v1'', pg_nodes = nodes,
          pg_edges = map (\<lambda>(a, b). \<lparr>pe_from = pn_id a, pe_to = pn_id b\<rparr>) (zip nodes (tl nodes)),
          pg_budget = \<lparr>pb_max_nodes = 16,
            pb_max_total_attempts = max (sum_list (map (\<lambda>node. unat (pn_max_attempts node)) nodes)) 1,
            pb_max_wall_time_ms = 30000\<rparr>\<rparr>)"

section \<open>Running a node\<close>

definition non_retryable_error :: "string \<Rightarrow> plan_node_error" where
  "non_retryable_error message = \<lparr>ne_kind = NodeNonRetryable, ne_message = message\<rparr>"

definition policy_denied_error :: "string \<Rightarrow> plan_node_error" where
  "policy_denied_error message = \<lparr>ne_kind = NodePolicyDenied, ne_message = message\<rparr>"

text \<open>\<open>str::parse::<usize>\<close>: decimal digits after an optional plus sign.\<close>

fun parse_digits :: "nat \<Rightarrow> string \<Rightarrow> string + nat" where
  "parse_digits n [] = Inr n"
| "parse_digits n (c # cs) =
     (if \<not> is_ascii_digit c then Inl ''invalid digit found in string''
      else
        let m = n * 10 + (of_char c - 48) in
        if usize_max < m then Inl ''number too large to fit in target type'' else parse_digits m cs)"

definition parse_usize :: "string \<Rightarrow> string + nat" where
  "parse_usize s =
     (case s of
        [] \<Rightarrow> Inl ''cannot parse integer from empty string''
      | c # cs \<Rightarrow>
          if c = CHR ''+'' \<and> cs \<noteq> [] then parse_digits 0 cs else parse_digits 0 s)"

definition parse_tool_node_index :: "string \<Rightarrow> plan_node_error + nat" where
  "parse_tool_node_index node_id =
     (if \<not> prefix ''tool-'' node_id then Inl (non_retryable_error (''invalid tool node id `'' @ node_id @ ''`''))
      else
        case parse_usize (drop 5 node_id) of
          Inl e \<Rightarrow> Inl (non_retryable_error (''invalid tool node id `'' @ node_id @ ''`: '' @ e))
        | Inr parsed \<Rightarrow>
            if parsed = 0 then Inl (non_retryable_error (''invalid tool node ordinal in `'' @ node_id @ ''`''))
            else Inr (parsed - 1))"

text \<open>The result of running one tool call as a turn of its own.\<close>

definition tool_turn_outcome :: "('a \<Rightarrow> string) \<Rightarrow> 'a turn_result \<Rightarrow> plan_node_error + string" where
  "tool_turn_outcome approval_reply result =
     (case result of
        FinalText output \<Rightarrow> Inr output
      | StreamingText output \<Rightarrow> Inr output
      | StreamingDone output \<Rightarrow> Inr output
      | NeedsApproval requirement \<Rightarrow> Inl (policy_denied_error (approval_reply requirement))
      | ToolDenied f \<Rightarrow> Inl (policy_denied_error (tf_reason f))
      | ToolFailed f \<Rightarrow> Inl \<lparr>ne_kind = (if tf_kind f = TurnRetryable then NodeRetryable else NodeNonRetryable),
          ne_message = tf_reason f\<rparr>
      | ProviderFailed f \<Rightarrow> Inl (non_retryable_error (tf_reason f)))"

datatype 'f safe_lane_event =
    LaneSelected lane_decision nat "'f governor_decision"
  | VerifyPolicyAdjusted usize
  | PlanRoundStarted
  | PlanRoundSucceeded plan_run_report tool_output_stats
  | PlanRoundFailed plan_run_report tool_output_stats plan_run_failure failure_route
  | VerifyFailedEvent tool_output_stats string "string list" bool failure_route
  | FinalStatusSucceeded tool_output_stats
  | FinalStatusFailed tool_output_stats string "turn_failure option" failure_route
  | ReplanTriggered tool_output_stats string failure_route

text \<open>
  A tool call has a time limit; \<open>None\<close> is that it passed. An event is written with the state of the
  loop at that moment.
\<close>

record ('n, 'a, 'f, 'w) safe_lane_env =
  sl_execute_turn :: "'n tool_intent \<Rightarrow> u64 \<Rightarrow> 'w \<Rightarrow> 'a turn_result option \<times> 'w"
  sl_clock_ms :: "'w \<Rightarrow> nat"
  sl_emit :: "'f safe_lane_event \<Rightarrow> 'f loop_state \<Rightarrow> 'w \<Rightarrow> 'w"
  sl_load_history :: "'w \<Rightarrow> governor_history \<times> 'w"
  sl_approval_reply :: "'a \<Rightarrow> string"
  sl_visible_name :: "'n tool_intent \<Rightarrow> string"
  sl_structured_truncation :: "string \<Rightarrow> bool"
  sl_f64 :: "'f f64_lib"

definition execute_plan_node ::
  "('n, 'a, 'f, 'w) safe_lane_env \<Rightarrow> 'n tool_intent list \<Rightarrow> plan_node \<Rightarrow> 8 word \<Rightarrow> u64 \<Rightarrow> 'w \<times> string list \<Rightarrow>
    attempt_outcome \<times> 'w \<times> string list" where
  "execute_plan_node E intents node attempt limit_ms s =
     (case s of (w, outputs) \<Rightarrow>
       (case pn_kind node of
          ToolNode \<Rightarrow>
            (case parse_tool_node_index (pn_id node) of
               Inl e \<Rightarrow> (AttemptFailed e, s)
             | Inr index \<Rightarrow>
                 if length intents \<le> index then
                   (AttemptFailed (non_retryable_error (''missing tool intent for node `'' @ pn_id node @ ''`'')), s)
                 else
                   (case sl_execute_turn E (intents ! index) limit_ms w of
                      (None, w) \<Rightarrow> (AttemptTimedOut, w, outputs)
                    | (Some result, w) \<Rightarrow>
                        (case tool_turn_outcome (sl_approval_reply E) result of
                           Inl e \<Rightarrow> (AttemptFailed e, w, outputs)
                         | Inr output \<Rightarrow> (AttemptDone, w, outputs @ [output]))))
        | VerifyNode \<Rightarrow>
            if outputs = [] \<or> list_ex (\<lambda>line. trim line = []) outputs
            then (AttemptFailed (non_retryable_error ''verify_failed:empty_tool_output''), s)
            else (AttemptDone, s)
        | TransformNode \<Rightarrow> (AttemptDone, s)
        | RespondNode \<Rightarrow> (AttemptDone, s)))"

definition safe_lane_node_executor ::
  "('n, 'a, 'f, 'w) safe_lane_env \<Rightarrow> 'n tool_intent list \<Rightarrow> ('w \<times> string list) plan_node_executor" where
  "safe_lane_node_executor E intents =
     \<lparr>nx_execute = execute_plan_node E intents, nx_clock_ms = (\<lambda>s. sl_clock_ms E (fst s))\<rparr>"

section \<open>A round\<close>

definition evaluate_safe_lane_round ::
  "('n, 'a, 'f, 'w) safe_lane_env \<Rightarrow> lane_decision \<Rightarrow> 'n tool_intent list \<Rightarrow> 'f loop_state \<Rightarrow> 'w \<Rightarrow>
    (plan_run_report \<times> string list \<times> tool_output_stats \<times> 'w) option" where
  "evaluate_safe_lane_round E decision intents st w =
     map_option (\<lambda>(report, w, outputs).
         (report, outputs, summarize_tool_output_stats (sl_structured_truncation E) outputs, w))
       (plan_execute (safe_lane_node_executor E intents)
         (build_safe_lane_plan (sl_visible_name E) decision intents (ab_current_limit (ls_attempt_budget st)) (ls_start st))
         (w, ls_seed st))"

definition decide_failure_route :: "turn_failure \<Rightarrow> 'f loop_state \<Rightarrow> failure_route" where
  "decide_failure_route f st =
     with_session_governor_override
       (with_backpressure_guard (route_from_failure f (ls_replan_budget st)) (Some (backpressure_budget_new 32 8))
         (sm_total_attempts_used (ls_metrics st)) (sm_replans_triggered (ls_metrics st)))
       (gd_force_no_replan (ls_governor st))"

definition safe_lane_verification_policy :: verification_policy where
  "safe_lane_verification_policy = \<lparr>vp_require_non_empty = True, vp_min_output_chars = 8,
     vp_require_status_prefix = True,
     vp_deny_markers = sort (remdups (filter (\<lambda>m. m \<noteq> []) (map (\<lambda>m. to_ascii_lowercase (trim m)) default_deny_markers)))\<rparr>"

definition final_output_context :: "'n tool_intent list \<Rightarrow> usize \<Rightarrow> verification_context" where
  "final_output_context intents min_anchor_matches =
     \<lparr>vc_expected_result_lines = max (length intents) 1,
      vc_semantic_anchors = fold (\<lambda>intent. collect_value_anchors None (ti_args intent)) intents [],
      vc_min_anchor_matches = min_anchor_matches\<rparr>"

definition verify_final_output :: "string \<Rightarrow> 'n tool_intent list \<Rightarrow> usize \<Rightarrow> verification_report" where
  "verify_final_output output intents min_anchor_matches =
     verify_output output (final_output_context intents min_anchor_matches) safe_lane_verification_policy"

definition derive_replan_cursor :: "plan_run_failure \<Rightarrow> string list \<Rightarrow> nat \<Rightarrow> usize \<times> string list" where
  "derive_replan_cursor failure outputs tool_count =
     (case failure of
        PlanNodeFailed node_id attempt kind e \<Rightarrow>
          (case parse_tool_node_index node_id of
             Inr index \<Rightarrow> if index < tool_count then (index, outputs) else (0, [])
           | Inl _ \<Rightarrow> (0, []))
      | _ \<Rightarrow> (0, []))"

text \<open>A completed round without anything to report is not written to the log.\<close>

definition should_emit_event :: "'f safe_lane_event \<Rightarrow> 'f loop_state \<Rightarrow> bool" where
  "should_emit_event event st =
     (case event of
        PlanRoundSucceeded report stats \<Rightarrow>
          0 < os_truncated_result_lines stats \<or> 0 < sm_verify_failures (ls_metrics st)
      | _ \<Rightarrow> True)"

definition emit_event :: "('n, 'a, 'f, 'w) safe_lane_env \<Rightarrow> 'f safe_lane_event \<Rightarrow> 'f loop_state \<Rightarrow> 'w \<Rightarrow> 'w" where
  "emit_event E event st w = (if should_emit_event event st then sl_emit E event st w else w)"

record 'a safe_lane_outcome =
  so_result :: "'a turn_result"
  so_terminal_route :: "failure_route option"

datatype ('a, 'f) round_step = TurnEnds "'a safe_lane_outcome" "'f loop_state" | NextRound "'f loop_state"

definition start_round :: "('n, 'a, 'f, 'w) safe_lane_env \<Rightarrow> 'f loop_state \<Rightarrow> 'w \<Rightarrow> 'f loop_state \<times> 'w" where
  "start_round E st w =
     (let (adjusted, st) = refresh_verify_policy st;
          w = (case adjusted of Some n \<Rightarrow> emit_event E (VerifyPolicyAdjusted n) st w | None \<Rightarrow> w);
          st = note_round_started st
      in (st, emit_event E PlanRoundStarted st w))"

definition round_succeeded ::
  "('n, 'a, 'f, 'w) safe_lane_env \<Rightarrow> 'n tool_intent list \<Rightarrow> plan_run_report \<Rightarrow> string list \<Rightarrow> tool_output_stats \<Rightarrow>
    'f loop_state \<Rightarrow> 'w \<Rightarrow> ('a, 'f) round_step \<times> 'w" where
  "round_succeeded E intents report outputs stats st w =
     (let st = note_round_succeeded st;
          w = emit_event E (PlanRoundSucceeded report stats) st w;
          output = join_text [newline] outputs;
          vr = verify_final_output output intents (ls_min_anchor_matches st)
      in if vr_passed vr then
           (TurnEnds \<lparr>so_result = FinalText output, so_terminal_route = None\<rparr> st,
            emit_event E (FinalStatusSucceeded stats) st w)
         else
           let verify_error = join_text '','' (vr_failure_reasons vr);
               codes = map format_verification_failure_code (vr_failure_codes vr);
               retryable = should_replan_for_verification_failure vr;
               failure = turn_failure_from_verify_failure verify_error retryable;
               st = note_verify_failure st;
               route = decide_failure_route failure st;
               w = emit_event E (VerifyFailedEvent stats verify_error codes retryable route) st w
           in case decide_verify_failure_action verify_error retryable route of
                FinalizeTurn result \<Rightarrow>
                  (TurnEnds \<lparr>so_result = result, so_terminal_route = Some route\<rparr> st,
                   emit_event E (FinalStatusFailed stats (verify_terminal_summary_label route)
                     (turn_result_failure result) route) st w)
              | ReplanTurn reason next_start next_seed \<Rightarrow>
                  let st = note_replan next_start next_seed st in
                  (NextRound st, emit_event E (ReplanTriggered stats reason route) st w))"

definition round_failed ::
  "('n, 'a, 'f, 'w) safe_lane_env \<Rightarrow> 'n tool_intent list \<Rightarrow> plan_run_report \<Rightarrow> plan_run_failure \<Rightarrow> string list \<Rightarrow>
    tool_output_stats \<Rightarrow> 'f loop_state \<Rightarrow> 'w \<Rightarrow> ('a, 'f) round_step \<times> 'w" where
  "round_failed E intents report failure outputs stats st w =
     (let st = note_round_failed st;
          route = decide_failure_route (turn_failure_from_plan_failure failure) st;
          summary = summarize_plan_failure failure;
          w = emit_event E (PlanRoundFailed report stats failure route) st w;
          (next_start, next_seed) =
            (if should_replan route then derive_replan_cursor failure outputs (length intents) else (0, []))
      in case decide_plan_failure_action failure route next_start next_seed of
           FinalizeTurn result \<Rightarrow>
             (TurnEnds \<lparr>so_result = result, so_terminal_route = Some route\<rparr> st,
              emit_event E (FinalStatusFailed stats summary (turn_result_failure result) route) st w)
         | ReplanTurn reason next_start next_seed \<Rightarrow>
             let st = note_replan next_start next_seed st in
             (NextRound st, emit_event E (ReplanTriggered stats reason route) st w))"

text \<open>None when a counting loop of the plan does not end.\<close>

definition safe_lane_round ::
  "('n, 'a, 'f, 'w) safe_lane_env \<Rightarrow> lane_decision \<Rightarrow> 'n tool_intent list \<Rightarrow> 'f loop_state \<Rightarrow> 'w \<Rightarrow>
    (('a, 'f) round_step \<times> 'w) option" where
  "safe_lane_round E decision intents st w =
     (case start_round E st w of (st, w) \<Rightarrow>
       map_option (\<lambda>(report, outputs, stats, w).
           let st = record_round_execution report stats st in
           case pr_status report of
             PlanSucceeded \<Rightarrow> round_succeeded E intents report outputs stats st w
           | PlanFailed failure \<Rightarrow> round_failed E intents report failure outputs stats st w)
         (evaluate_safe_lane_round E decision intents st w))"

section \<open>The turn\<close>

partial_function (option) safe_lane_loop ::
  "('n, 'a, 'f, 'w) safe_lane_env \<Rightarrow> lane_decision \<Rightarrow> 'n tool_intent list \<Rightarrow> 'f loop_state \<Rightarrow> 'w \<Rightarrow>
    ('a safe_lane_outcome \<times> 'f loop_state \<times> 'w) option" where
  [code]: "safe_lane_loop E decision intents st w =
     (case safe_lane_round E decision intents st w of
        None \<Rightarrow> None
      | Some (TurnEnds result st, w) \<Rightarrow> Some (result, st, w)
      | Some (NextRound st, w) \<Rightarrow> safe_lane_loop E decision intents (advance_round st) w)"

text \<open>The state of the loop when it ends is returned with the outcome; the code drops it.\<close>

definition execute_turn_with_safe_lane_plan ::
  "('n, 'a, 'f, 'w) safe_lane_env \<Rightarrow> lane_decision \<Rightarrow> 'n tool_intent list \<Rightarrow> 'w \<Rightarrow>
    ('a safe_lane_outcome \<times> 'f loop_state \<times> 'w) option" where
  "execute_turn_with_safe_lane_plan E decision intents w =
     (let (history, w) = sl_load_history E w;
          governor = decide_session_governor (sl_f64 E) history;
          st = loop_state_new governor
      in safe_lane_loop E decision intents st (emit_event E (LaneSelected decision (length intents) governor) st w))"

end
