(* ===== verification/Safe_Lane_Plans.thy ===== *)
theory Safe_Lane_Plans
  imports Safe_Lane_Rounds Plan_Properties
begin

text \<open>
  The plan of a safe-lane round: it is a chain of the remaining tool calls, a check and a response, it
  validates when it has at most sixteen nodes, its order is the order of its nodes, and running it
  collects one output per tool call.
\<close>

section \<open>Ids of tool nodes\<close>

lemma parse_digits_snoc:
  "parse_digits n (s @ [c]) = (case parse_digits n s of Inl e \<Rightarrow> Inl e | Inr m \<Rightarrow> parse_digits m [c])"
  by (induction n s rule: parse_digits.induct) (auto simp: Let_def)

lemma digit_char:
  assumes "d < (10 :: nat)"
  shows "is_ascii_digit (char_of (48 + d))" and "of_char (char_of (48 + d) :: char) = 48 + d"
    and "ascii_graphic (char_of (48 + d))"
proof -
  have "d \<in> {0, 1, 2, 3, 4, 5, 6, 7, 8, 9}" using assms by auto
  then show "is_ascii_digit (char_of (48 + d))" "of_char (char_of (48 + d) :: char) = 48 + d"
    "ascii_graphic (char_of (48 + d))"
    using assms by (auto simp: is_ascii_digit_def byte_in_def ascii_graphic_def)
qed

lemma parse_digits_dec: "k \<le> usize_max \<Longrightarrow> parse_digits 0 (nat_to_dec k) = Inr k"
proof (induction k rule: nat_to_dec.induct)
  case (1 k)
  show ?case
  proof (cases "k < 10")
    case True
    then show ?thesis using 1(2) digit_char [of k] by (simp add: nat_to_dec.simps [of k])
  next
    case False
    have "k div 10 \<le> usize_max" using 1(2) by (meson div_le_dividend le_trans)
    then have "parse_digits 0 (nat_to_dec (k div 10)) = Inr (k div 10)" using 1(1) False by simp
    moreover have "k div 10 * 10 + k mod 10 = k" by simp
    ultimately show ?thesis
      using False 1(2) digit_char [of "k mod 10"] by (simp add: nat_to_dec.simps [of k] parse_digits_snoc)
  qed
qed

lemma nat_to_dec_graphic: "nat_to_dec k \<noteq> [] \<and> list_all (\<lambda>c. ascii_graphic c \<and> is_ascii_digit c) (nat_to_dec k)"
proof (induction k rule: nat_to_dec.induct)
  case (1 k)
  then show ?case
    using digit_char [of k] digit_char [of "k mod 10"] by (simp add: nat_to_dec.simps [of k])
qed

lemma parse_usize_dec: "k \<le> usize_max \<Longrightarrow> parse_usize (nat_to_dec k) = Inr k"
proof -
  assume k: "k \<le> usize_max"
  obtain c cs where c: "nat_to_dec k = c # cs" "is_ascii_digit c"
    using nat_to_dec_graphic [of k] by (cases "nat_to_dec k") auto
  moreover have "c \<noteq> CHR ''+''" using c(2) by (auto simp: is_ascii_digit_def byte_in_def)
  ultimately show ?thesis using parse_digits_dec [OF k] by (simp add: parse_usize_def)
qed

lemma parse_tool_node_id: "i < usize_max \<Longrightarrow> parse_tool_node_index (tool_node_id i) = Inr i"
  by (simp add: parse_tool_node_index_def tool_node_id_def parse_usize_dec Suc_leI)

lemma other_node_ids: "\<exists>e. parse_tool_node_index ''verify-1'' = Inl e" "\<exists>e. parse_tool_node_index ''respond-1'' = Inl e"
  by (simp_all add: parse_tool_node_index_def)

lemma dec_value_nat_to_dec: "foldl (\<lambda>n c. n * 10 + (of_char c - 48)) 0 (nat_to_dec k) = k"
proof (induction k rule: nat_to_dec.induct)
  case (1 k)
  show ?case
  proof (cases "k < 10")
    case True
    then show ?thesis using digit_char(2) [of k] by (simp add: nat_to_dec.simps [of k] del: of_char_of)
  next
    case False
    define q d where "q = k div 10" and "d = k mod 10"
    have d: "d < 10" "q * 10 + d = k" by (simp_all add: q_def d_def)
    have "nat_to_dec k = nat_to_dec q @ [char_of (48 + d)]"
      using False by (simp add: nat_to_dec.simps [of k] q_def d_def)
    moreover have "foldl (\<lambda>n c. n * 10 + (of_char c - 48)) 0 (nat_to_dec q) = q" using 1 [OF False] by (simp add: q_def)
    ultimately show ?thesis using digit_char(2) [OF d(1)] d(2) by (simp del: of_char_of)
  qed
qed

lemma nat_to_dec_inj: "nat_to_dec i = nat_to_dec j \<Longrightarrow> i = j"
  by (metis dec_value_nat_to_dec)

lemma tool_node_id_inj: "tool_node_id i = tool_node_id j \<longleftrightarrow> i = j"
proof
  assume "tool_node_id i = tool_node_id j"
  then have "nat_to_dec (i + 1) = nat_to_dec (j + 1)" by (simp add: tool_node_id_def)
  then show "i = j" using nat_to_dec_inj [of "i + 1" "j + 1"] by simp
qed simp

lemma tool_node_id_other: "tool_node_id i \<noteq> ''verify-1''" "tool_node_id i \<noteq> ''respond-1''"
  by (simp_all add: tool_node_id_def)

lemma trim_tool_node_id: "trim (tool_node_id i) = tool_node_id i"
  using nat_to_dec_graphic [of "i + 1"]
  by (intro trim_graphic_id) (auto simp: tool_node_id_def ascii_graphic_def list_all_iff)

section \<open>Chains\<close>

lemma chain_acyclic:
  assumes "distinct xs" and "R = {(xs ! i, xs ! Suc i) | i. Suc i < length xs}"
  shows "acyclic R"
proof -
  define position where "position x = (THE i. i < length xs \<and> xs ! i = x)" for x
  have "position (xs ! i) = i" if "i < length xs" for i
    unfolding position_def using that assms(1) by (auto simp: nth_eq_iff_index_eq)
  then have "R \<subseteq> measure position" unfolding assms(2) by auto
  then show ?thesis by (meson acyclic_subset wf_acyclic wf_measure)
qed

lemma chain_order:
  assumes "distinct order" and "set order = {..<n}"
    and "\<And>before j rest. order = before @ j # rest \<Longrightarrow> 0 < j \<Longrightarrow> j - 1 \<in> set before"
  shows "order = [0..<n]"
proof -
  have len: "length order = n" using distinct_card [OF assms(1)] assms(2) by simp
  have "take k order = [0..<k]" if "k \<le> n" for k
    using that
  proof (induction k)
    case (Suc k)
    then have k: "k < length order" "take k order = [0..<k]" using len by auto
    have split: "order = take k order @ order ! k # drop (Suc k) order" using k(1) by (rule id_take_nth_drop)
    have "order ! k \<notin> set (take k order)" using assms(1) split by (metis distinct_append disjoint_insert(1) list.set(2) inf_commute)
    then have "k \<le> order ! k" using k(2) by simp
    moreover have "order ! k \<le> k" using assms(3) [OF split] k(2) by fastforce
    ultimately show ?case using k by (simp add: take_Suc_conv_app_nth)
  qed simp
  from this [of n] show ?thesis using len by simp
qed

section \<open>The plan\<close>

definition remaining_nodes :: "'n tool_intent list \<Rightarrow> usize \<Rightarrow> nat" where
  "remaining_nodes intents start = length intents - start + 2"

lemma plan_node_ids:
  "map pn_id (pg_nodes (build_safe_lane_plan visible decision intents m start)) =
    map tool_node_id [start..<length intents] @ [''verify-1'', ''respond-1'']"
proof -
  have "map fst (drop k (enumerate 0 intents)) = [k..<length intents]" for k
    unfolding drop_map [symmetric] by simp
  then have "map tool_node_id (map fst (drop k (enumerate 0 intents))) = map tool_node_id [k..<length intents]" for k
    by simp
  then have "map (pn_id \<circ> tool_plan_node tier m visible) (drop k (enumerate 0 intents)) =
      map tool_node_id [k..<length intents]" for tier k
    by (simp add: comp_def tool_plan_node_def)
  moreover have "[min start (length intents)..<length intents] = [start..<length intents]" by (auto simp: min_def)
  ultimately show ?thesis
    by (simp add: build_safe_lane_plan_def Let_def verify_plan_node_def respond_plan_node_def del: drop_map)
qed

lemma plan_length:
  "length (pg_nodes (build_safe_lane_plan visible decision intents m start)) = remaining_nodes intents start"
  using arg_cong [OF plan_node_ids, of length] by (simp add: remaining_nodes_def)

lemma plan_node_nth:
  fixes visible :: "'n tool_intent \<Rightarrow> string"
    and decision :: lane_decision and m :: "8 word" and intents :: "'n tool_intent list" and start :: usize
  assumes "start \<le> length intents"
  defines "nodes \<equiv> pg_nodes (build_safe_lane_plan visible decision intents m start)"
  shows "start + j < length intents \<Longrightarrow> nodes ! j =
      tool_plan_node (select_risk_tier decision) m visible (start + j, intents ! (start + j))"
    and "nodes ! (length intents - start) = verify_plan_node"
    and "nodes ! Suc (length intents - start) = respond_plan_node"
  using assms(1) by (auto simp: nodes_def build_safe_lane_plan_def Let_def nth_append nth_enumerate_eq min_def)

lemma plan_ids_distinct: "distinct (map pn_id (pg_nodes (build_safe_lane_plan visible decision intents m start)))"
  unfolding plan_node_ids using tool_node_id_other
  by (auto simp: distinct_map inj_on_def tool_node_id_inj) metis+

lemma plan_edges_chain:
  fixes visible :: "'n tool_intent \<Rightarrow> string"
    and decision :: lane_decision and m :: "8 word" and intents :: "'n tool_intent list" and start :: usize
  defines "p \<equiv> build_safe_lane_plan visible decision intents m start"
  defines "ids \<equiv> map pn_id (pg_nodes p)"
  shows "plan_edges p = {(ids ! i, ids ! Suc i) | i. Suc i < length ids}"
proof -
  have "pg_edges p = map (\<lambda>(a, b). \<lparr>pe_from = pn_id a, pe_to = pn_id b\<rparr>) (zip (pg_nodes p) (tl (pg_nodes p)))"
    by (simp add: p_def build_safe_lane_plan_def Let_def)
  then have "plan_edges p = (\<lambda>(a, b). (pn_id a, pn_id b)) ` set (zip (pg_nodes p) (tl (pg_nodes p)))"
    by (force simp: plan_edges_def)
  also have "\<dots> = {(ids ! i, ids ! Suc i) | i. Suc i < length ids}"
  proof (intro set_eqI iffI)
    fix e assume "e \<in> (\<lambda>(a, b). (pn_id a, pn_id b)) ` set (zip (pg_nodes p) (tl (pg_nodes p)))"
    then obtain i where i: "e = (pn_id (pg_nodes p ! i), pn_id (tl (pg_nodes p) ! i))" "i < length (tl (pg_nodes p))"
      by (auto simp: set_zip)
    then have "e = (ids ! i, ids ! Suc i)" "Suc i < length ids" by (simp_all add: ids_def nth_tl)
    then show "e \<in> {(ids ! i, ids ! Suc i) | i. Suc i < length ids}" by blast
  next
    fix e assume "e \<in> {(ids ! i, ids ! Suc i) | i. Suc i < length ids}"
    then obtain i where i: "e = (ids ! i, ids ! Suc i)" "Suc i < length ids" by blast
    then have "(pg_nodes p ! i, pg_nodes p ! Suc i) \<in> set (zip (pg_nodes p) (tl (pg_nodes p)))"
      by (force simp: set_zip ids_def nth_tl)
    then show "e \<in> (\<lambda>(a, b). (pn_id a, pn_id b)) ` set (zip (pg_nodes p) (tl (pg_nodes p)))"
      using i by (force simp: ids_def)
  qed
  finally show ?thesis .
qed

lemma plan_nodes_ok:
  assumes "m \<noteq> 0"
  shows "nodes_ok (pg_nodes (build_safe_lane_plan visible decision intents m start))"
proof -
  have "trim (tool_node_id i) \<noteq> []" for i using trim_tool_node_id by (simp add: tool_node_id_def)
  moreover have "trim ''verify-1'' \<noteq> []" "trim ''respond-1'' \<noteq> []"
    by (subst trim_graphic_id; simp add: ascii_graphic_def)+
  ultimately show ?thesis
    using assms
    by (auto simp: nodes_ok_def build_safe_lane_plan_def Let_def tool_plan_node_def verify_plan_node_def
        respond_plan_node_def list_all_iff)
qed

lemma plan_budget_holds:
  fixes visible :: "'n tool_intent \<Rightarrow> string"
    and decision :: lane_decision and m :: "8 word" and intents :: "'n tool_intent list" and start :: usize
  defines "p \<equiv> build_safe_lane_plan visible decision intents m start"
  shows "all_attempts (pg_nodes p) \<le> pb_max_total_attempts (pg_budget p)" and "pb_max_nodes (pg_budget p) = 16"
    and "pb_max_total_attempts (pg_budget p) = max (all_attempts (pg_nodes p)) 1"
  by (simp_all add: p_def build_safe_lane_plan_def Let_def all_attempts_def)

lemma small_plan_valid:
  fixes visible :: "'n tool_intent \<Rightarrow> string"
    and decision :: lane_decision and m :: "8 word" and intents :: "'n tool_intent list" and start :: usize
  assumes "m \<noteq> 0" and "remaining_nodes intents start \<le> 16"
  defines "p \<equiv> build_safe_lane_plan visible decision intents m start"
  shows "plan_fits_memory p" and "plan_validate p = Some (Inr ())"
proof -
  have len: "length (pg_nodes p) \<le> 16" "pg_nodes p \<noteq> []"
    using assms(2) plan_length [of visible decision intents m start] by (auto simp: p_def remaining_nodes_def)
  have "length (pg_edges p) \<le> length (pg_nodes p)" by (simp add: p_def build_safe_lane_plan_def Let_def)
  then show fits: "plan_fits_memory p" using len(1) by (simp add: plan_fits_memory_def usize_max_def)
  let ?ids = "map pn_id (pg_nodes p)"
  have edges: "plan_edges p = {(?ids ! i, ?ids ! Suc i) | i. Suc i < length ?ids}"
    unfolding p_def by (rule plan_edges_chain)
  have distinct: "distinct ?ids" unfolding p_def by (rule plan_ids_distinct)
  have within: "plan_edges p \<subseteq> set ?ids \<times> set ?ids"
  proof
    fix e assume "e \<in> plan_edges p"
    then obtain i where "e = (?ids ! i, ?ids ! Suc i)" "Suc i < length ?ids" unfolding edges by blast
    then show "e \<in> set ?ids \<times> set ?ids" using nth_mem [of i ?ids] nth_mem [of "Suc i" ?ids] by simp
  qed
  have "nodes_ok (pg_nodes p)" unfolding p_def by (rule plan_nodes_ok [OF assms(1)])
  then have "plan_well_formed p"
    unfolding plan_well_formed_def using len distinct within plan_budget_holds [of visible decision intents m start, folded p_def]
    by (intro conjI) simp_all
  moreover have "acyclic (plan_edges p)" by (rule chain_acyclic [OF distinct edges])
  ultimately show "plan_validate p = Some (Inr ())" using plan_validate_result(2) [OF fits] by simp
qed

lemma big_plan_refused:
  fixes visible :: "'n tool_intent \<Rightarrow> string"
  assumes "16 < remaining_nodes intents start"
  shows "\<exists>e. plan_validate (build_safe_lane_plan visible decision intents m start) = Some (Inl e)"
  using assms plan_length [of visible decision intents m start] plan_budget_holds(2) [of visible decision intents m start]
  by (auto simp: plan_validate_def Let_def)

lemma small_plan_order:
  fixes visible :: "'n tool_intent \<Rightarrow> string"
    and decision :: lane_decision and m :: "8 word" and intents :: "'n tool_intent list" and start :: usize
  assumes "m \<noteq> 0" and "remaining_nodes intents start \<le> 16"
  defines "p \<equiv> build_safe_lane_plan visible decision intents m start"
  shows "topological_order p = Some (Some [0..<length (pg_nodes p)])"
proof -
  note valid = small_plan_valid [OF assms(1,2), of visible decision, folded p_def]
  let ?ids = "map pn_id (pg_nodes p)"
  obtain order where order: "topological_order p = Some (Some order)" "distinct order" "set order = {..<length (pg_nodes p)}"
    "\<And>before x rest a. ids_at (pg_nodes p) order = before @ x # rest \<Longrightarrow> (a, x) \<in> plan_edges p \<Longrightarrow> a \<in> set before"
    by (rule valid_plan_order [OF valid]) (rule that)
  have "order = [0..<length (pg_nodes p)]"
  proof (rule chain_order [OF order(2,3)])
    fix before j rest assume split: "order = before @ j # rest" and j: "0 < j"
    have jn: "j < length (pg_nodes p)" using split order(3) by auto
    have "(?ids ! (j - 1), ?ids ! j) \<in> plan_edges p"
      unfolding p_def plan_edges_chain using j jn p_def by (auto intro!: exI [of _ "j - 1"])
    moreover have "ids_at (pg_nodes p) order = ids_at (pg_nodes p) before @ ?ids ! j # ids_at (pg_nodes p) rest"
      using split jn by (simp add: ids_at_def)
    ultimately have "?ids ! (j - 1) \<in> set (ids_at (pg_nodes p) before)" using order(4) by blast
    then obtain i where i: "i \<in> set before" "pn_id (pg_nodes p ! i) = ?ids ! (j - 1)" by (auto simp: ids_at_def)
    have "i < length (pg_nodes p)" using i(1) split order(3) by auto
    then have "i = j - 1"
      using i(2) jn plan_ids_distinct [of visible decision intents m start, folded p_def]
        nth_eq_iff_index_eq [of ?ids i "j - 1"] by simp
    then show "j - 1 \<in> set before" using i(1) by simp
  qed
  then show ?thesis using order(1) by simp
qed

end
