(* ===== verification/Safe_Lane_Runs.thy ===== *)
theory Safe_Lane_Runs
  imports Safe_Lane_Plans
begin

text \<open>
  What a round collects: the outputs a round has collected are, in order, the outputs of runs of the
  tool calls in this turn, and a failed node is the call after the last of them.
\<close>

section \<open>Attempts\<close>

text \<open>An attempt that does not finish its node keeps \<open>I\<close>, and one that does finish it gives \<open>J\<close>.\<close>

lemma attempt_node_world:
  assumes keep: "\<And>attempt limit w outcome w'. nx_execute X node attempt limit w = (outcome, w') \<Longrightarrow>
      outcome \<noteq> AttemptDone \<Longrightarrow> I w \<Longrightarrow> I w'"
    and finish: "\<And>attempt limit w w'. nx_execute X node attempt limit w = (AttemptDone, w') \<Longrightarrow> I w \<Longrightarrow> J w'"
  shows "attempts \<noteq> [] \<Longrightarrow> last attempts = pn_max_attempts node \<Longrightarrow> I (run_world run) \<Longrightarrow>
    attempt_node X budget started node attempts run = (ended, run') \<Longrightarrow>
    (case ended of
       NodeDone \<Rightarrow> J (run_world run')
     | RunStopped failure _ \<Rightarrow> I (run_world run') \<and>
         (\<forall>x a kind m. failure = PlanNodeFailed x a kind m \<longrightarrow> x = pn_id node))"
proof (induction attempts arbitrary: run)
  case Nil
  then show ?case by simp
next
  case (Cons attempt attempts)
  let ?elapsed = "nx_clock_ms X (run_world run) - started"
  obtain outcome w where exec: "nx_execute X node attempt (max (pn_timeout_ms node) 1) (run_world run) = (outcome, w)"
    by fastforce
  define failed where "failed e = \<lparr>run_attempts_used = usize_saturating_add (run_attempts_used run) 1,
    run_events = run_events run @ [failure_event node attempt e], run_world = w\<rparr>" for e
  have rest: "attempts \<noteq> []" "last attempts = pn_max_attempts node" if "attempt \<noteq> pn_max_attempts node"
    using Cons.prems(2) that by (auto split: if_splits)
  have world: "I (run_world (failed e)) \<longleftrightarrow> I w" for e by (simp add: failed_def)
  note unfolded = Cons.prems(4) [unfolded attempt_node.simps(2) Let_def exec prod.case]
  consider (stopped) "unat (pb_max_wall_time_ms budget) < ?elapsed \<or> pb_max_total_attempts budget \<le> run_attempts_used run"
    | (ran) "\<not> unat (pb_max_wall_time_ms budget) < ?elapsed" "\<not> pb_max_total_attempts budget \<le> run_attempts_used run"
    by auto
  then show ?case
  proof cases
    case stopped
    then show ?thesis using unfolded Cons.prems(3) by (auto split: if_splits)
  next
    case ran
    show ?thesis
    proof (cases outcome)
      case AttemptTimedOut
      have kept: "I w" using keep [OF exec] AttemptTimedOut Cons.prems(3) by simp
      show ?thesis
      proof (cases "attempt = pn_max_attempts node")
        case True
        then show ?thesis using unfolded ran AttemptTimedOut kept by auto
      next
        case again: False
        then have "attempt_node X budget started node attempts (failed (node_timeout_error node)) = (ended, run')"
          using unfolded ran AttemptTimedOut by (simp add: failed_def)
        from Cons.IH [OF rest [OF again] _ this] show ?thesis using kept by (simp add: world)
      qed
    next
      case AttemptDone
      then show ?thesis using unfolded ran finish [of attempt _ "run_world run" w] exec Cons.prems(3) by auto
    next
      case (AttemptFailed e)
      let ?e = "normalize_node_error e"
      have kept: "I w" using keep [OF exec] AttemptFailed Cons.prems(3) by simp
      show ?thesis
      proof (cases "ne_kind ?e = NodePolicyDenied \<or> ne_kind ?e = NodeApprovalRequired \<or> attempt = pn_max_attempts node")
        case True
        then show ?thesis using unfolded ran AttemptFailed kept by auto
      next
        case again: False
        then have "attempt_node X budget started node attempts (failed ?e) = (ended, run')"
          using unfolded ran AttemptFailed by (simp add: failed_def)
        from Cons.IH [OF rest _ this] again kept show ?thesis by (simp add: world)
      qed
    qed
  qed
qed

section \<open>The log of a turn\<close>

text \<open>
  What an environment can record of a turn: each tool call it ran with the result, and each event it
  was told, in order. \<open>keeps_log\<close> says that reading \<open>h\<close> off the world is such a log.
\<close>

type_synonym ('n, 'a, 'f) turn_log = "('n tool_intent \<times> 'a turn_result option + 'f safe_lane_event) list"

definition keeps_log :: "('n, 'a, 'f, 'w) safe_lane_env \<Rightarrow> ('w \<Rightarrow> ('n, 'a, 'f) turn_log) \<Rightarrow> bool" where
  "keeps_log E h \<longleftrightarrow>
     (\<forall>intent limit w. h (snd (sl_execute_turn E intent limit w)) =
        h w @ [Inl (intent, fst (sl_execute_turn E intent limit w))]) \<and>
     (\<forall>event st w. h (sl_emit E event st w) = h w @ [Inr event]) \<and>
     (\<forall>w. h (snd (sl_load_history E w)) = h w)"

definition calls_in :: "('n, 'a, 'f) turn_log \<Rightarrow> ('n tool_intent \<times> 'a turn_result option) list" where
  "calls_in log = List.map_filter (case_sum Some (\<lambda>_. None)) log"

fun is_verify_failure :: "'f safe_lane_event \<Rightarrow> bool" where
  "is_verify_failure (VerifyFailedEvent _ _ _ _ _) \<longleftrightarrow> True"
| "is_verify_failure _ \<longleftrightarrow> False"

definition verify_failures_in :: "('n, 'a, 'f) turn_log \<Rightarrow> nat" where
  "verify_failures_in log = length (filter (case_sum (\<lambda>_. False) is_verify_failure) log)"

text \<open>The output of a call, when its result has one.\<close>

definition call_output :: "('n, 'a, 'f, 'w) safe_lane_env \<Rightarrow> 'a turn_result option \<Rightarrow> string option" where
  "call_output E r = Option.bind r (\<lambda>result.
     case tool_turn_outcome (sl_approval_reply E) result of Inl _ \<Rightarrow> None | Inr output \<Rightarrow> Some output)"

lemma log_simps [simp]:
  "calls_in [] = []" "calls_in (log @ log') = calls_in log @ calls_in log'"
  "calls_in [Inl call] = [call]" "calls_in [Inr event] = []"
  "verify_failures_in [] = 0" "verify_failures_in (log @ log') = verify_failures_in log + verify_failures_in log'"
  "verify_failures_in [Inl call] = 0" "verify_failures_in [Inr event] = (if is_verify_failure event then 1 else 0)"
  by (simp_all add: calls_in_def verify_failures_in_def List.map_filter_def)

section \<open>Outputs of tool calls\<close>

text \<open>
  After \<open>log\<close>, the log of the turn so far, the outputs are those of the first \<open>k\<close> tool calls, each run
  in this turn, and \<open>c\<close> outputs of rounds have failed the final verification.
\<close>

definition gathered ::
  "('n, 'a, 'f, 'w) safe_lane_env \<Rightarrow> ('n, 'a, 'f) turn_log \<Rightarrow> nat \<Rightarrow> 'n tool_intent list \<Rightarrow> string list \<Rightarrow> bool" where
  "gathered E log c first_intents outputs \<longleftrightarrow> verify_failures_in log = c \<and>
     (\<exists>results. subseq results (calls_in log) \<and> map fst results = first_intents \<and>
        map (call_output E \<circ> snd) results = map Some outputs)"

definition collected ::
  "('n, 'a, 'f, 'w) safe_lane_env \<Rightarrow> ('w \<Rightarrow> ('n, 'a, 'f) turn_log) \<Rightarrow> ('n, 'a, 'f) turn_log \<Rightarrow> nat \<Rightarrow>
    'n tool_intent list \<Rightarrow> nat \<Rightarrow> 'w \<times> string list \<Rightarrow> bool" where
  "collected E h before c intents k s \<longleftrightarrow> k \<le> length intents \<and>
     (keeps_log E h \<longrightarrow> (\<exists>log. h (fst s) = before @ log \<and> gathered E log c (take k intents) (snd s)))"

lemma gathered_nothing: "verify_failures_in log = c \<Longrightarrow> gathered E log c [] []"
  unfolding gathered_def by (intro conjI exI [of _ "[]"]) simp_all

lemma gathered_call:
  assumes "gathered E log c intents outputs"
  shows "gathered E (log @ [Inl call]) c intents outputs"
    and "call_output E (snd call) = Some output \<Longrightarrow>
      gathered E (log @ [Inl call]) c (intents @ [fst call]) (outputs @ [output])"
proof -
  obtain results where results: "verify_failures_in log = c" "subseq results (calls_in log)" "map fst results = intents"
    "map (call_output E \<circ> snd) results = map Some outputs" using assms unfolding gathered_def by blast
  show "gathered E (log @ [Inl call]) c intents outputs"
    unfolding gathered_def using results subseq_rev_drop_many by (intro conjI exI [of _ results]) simp_all
  assume "call_output E (snd call) = Some output"
  then show "gathered E (log @ [Inl call]) c (intents @ [fst call]) (outputs @ [output])"
    unfolding gathered_def using results by (intro conjI exI [of _ "results @ [call]"]) simp_all
qed

lemma gathered_event:
  "gathered E log c intents outputs \<Longrightarrow>
    gathered E (log @ [Inr event]) (if is_verify_failure event then Suc c else c) intents outputs"
  by (auto simp: gathered_def)

lemma collected_le: "collected E h before c intents k s \<Longrightarrow> k \<le> length intents"
  by (simp add: collected_def)

lemma collected_restart: "collected E h before c intents k s \<Longrightarrow> collected E h before c intents 0 (fst s, [])"
  by (fastforce simp: collected_def gathered_def intro: gathered_nothing [unfolded gathered_def])

lemma collected_event:
  assumes "collected E h before c intents k (w, outputs)"
  shows "collected E h before (if is_verify_failure event then Suc c else c) intents k (emit_event E event st w, outputs)"
proof -
  have "should_emit_event event st" if "is_verify_failure event"
    using that by (cases event) (simp_all add: should_emit_event_def)
  then show ?thesis
    using assms gathered_event [of E _ c "take k intents" outputs event]
    by (fastforce simp: collected_def emit_event_def keeps_log_def)
qed

lemma collected_call:
  assumes "collected E h before c intents k (w, outputs)" and "k < length intents"
    and "sl_execute_turn E (intents ! k) limit w = (r, w')"
  shows "collected E h before c intents k (w', outputs)"
    and "call_output E r = Some output \<Longrightarrow> collected E h before c intents (Suc k) (w', outputs @ [output])"
proof -
  have h: "h w' = h w @ [Inl (intents ! k, r)]" if "keeps_log E h"
    using that assms(3) unfolding keeps_log_def by (metis fst_conv snd_conv)
  show "collected E h before c intents k (w', outputs)"
    using assms(1) h gathered_call(1) by (fastforce simp: collected_def)
  assume "call_output E r = Some output"
  then show "collected E h before c intents (Suc k) (w', outputs @ [output])"
    using assms(1,2) h gathered_call(2) [of E _ c "take k intents" outputs "(intents ! k, r)" "output"]
    by (fastforce simp: collected_def take_Suc_conv_app_nth)
qed

lemma tool_node_execution:
  assumes "pn_kind node = ToolNode" and "pn_id node = tool_node_id i" and "i < length intents" and "i < usize_max"
    and "collected E h before c intents i s"
  shows "execute_plan_node E intents node attempt limit s = (outcome, s') \<Longrightarrow> outcome \<noteq> AttemptDone \<Longrightarrow>
      collected E h before c intents i s'"
    and "execute_plan_node E intents node attempt limit s = (AttemptDone, s') \<Longrightarrow>
      collected E h before c intents (Suc i) s'"
proof -
  obtain w outputs where s: "s = (w, outputs)" by fastforce
  obtain r w1 where run: "sl_execute_turn E (intents ! i) limit w = (r, w1)" by fastforce
  note call = collected_call [OF assms(5) [unfolded s] assms(3) run]
  have unfolded: "execute_plan_node E intents node attempt limit s =
      (case r of
         None \<Rightarrow> (AttemptTimedOut, w1, outputs)
       | Some result \<Rightarrow>
           (case tool_turn_outcome (sl_approval_reply E) result of
              Inl e \<Rightarrow> (AttemptFailed e, w1, outputs)
            | Inr output \<Rightarrow> (AttemptDone, w1, outputs @ [output])))"
    using assms run parse_tool_node_id [OF assms(4)] by (auto simp: execute_plan_node_def s split: option.splits)
  show "execute_plan_node E intents node attempt limit s = (outcome, s') \<Longrightarrow> outcome \<noteq> AttemptDone \<Longrightarrow>
      collected E h before c intents i s'"
    unfolding unfolded using call(1) by (auto split: option.splits sum.splits)
  show "execute_plan_node E intents node attempt limit s = (AttemptDone, s') \<Longrightarrow>
      collected E h before c intents (Suc i) s'"
    unfolding unfolded using call(2) by (auto simp: call_output_def split: option.splits sum.splits)
qed

lemma other_node_execution:
  "pn_kind node \<noteq> ToolNode \<Longrightarrow> execute_plan_node E intents node attempt limit s = (outcome, s') \<Longrightarrow> s' = s"
  by (cases s; cases "pn_kind node") (auto simp: execute_plan_node_def split: if_splits)

section \<open>A run of the plan\<close>

text \<open>A node that failed when the outputs of \<open>k\<close> calls were there is the next call, or one of the two last nodes.\<close>

fun failed_after :: "'n tool_intent list \<Rightarrow> nat \<Rightarrow> plan_run_failure \<Rightarrow> bool" where
  "failed_after intents k (PlanNodeFailed x a kind m) \<longleftrightarrow>
     (if k < length intents then x = tool_node_id k else x \<in> {''verify-1'', ''respond-1''})"
| "failed_after intents k _ \<longleftrightarrow> True"

text \<open>How a run that starts with the outputs of the first \<open>k\<close> calls ends.\<close>

definition run_collects ::
  "(nat \<Rightarrow> 'w \<times> string list \<Rightarrow> bool) \<Rightarrow> 'n tool_intent list \<Rightarrow> nat \<Rightarrow> node_end \<Rightarrow> 'w \<times> string list \<Rightarrow> bool" where
  "run_collects C intents k ended s \<longleftrightarrow>
     (case ended of
        NodeDone \<Rightarrow> C (length intents) s
      | RunStopped failure _ \<Rightarrow> (\<exists>k' \<ge> k. C k' s \<and> failed_after intents k' failure))"

lemma run_collects_later: "run_collects C intents k' ended s \<Longrightarrow> k \<le> k' \<Longrightarrow> run_collects C intents k ended s"
  unfolding run_collects_def by (cases ended) (auto intro: le_trans)

lemma failed_after_cases:
  "(\<And>x a kind m. failure = PlanNodeFailed x a kind m \<Longrightarrow> failed_after intents k failure) \<Longrightarrow> failed_after intents k failure"
  by (cases failure) auto

lemma run_plan_nodes_collects:
  fixes E :: "('n, 'a, 'f, 'w) safe_lane_env" and intents :: "'n tool_intent list"
    and visible :: "'n tool_intent \<Rightarrow> string" and decision :: lane_decision
    and h :: "'w \<Rightarrow> ('n, 'a, 'f) turn_log" and before :: "('n, 'a, 'f) turn_log" and c :: nat
  assumes start: "start \<le> length intents" and small: "length intents \<le> usize_max" and m: "m \<noteq> 0"
  defines "nodes \<equiv> pg_nodes (build_safe_lane_plan visible decision intents m start)"
  defines "X \<equiv> safe_lane_node_executor E intents" and "C \<equiv> collected E h before c intents"
  shows "i \<le> length nodes \<Longrightarrow> C (min (start + i) (length intents)) (run_world run) \<Longrightarrow>
    run_plan_nodes X budget started nodes [i..<length nodes] run = (ended, run') \<Longrightarrow>
    run_collects C intents (min (start + i) (length intents)) ended (run_world run')"
proof (induction "length nodes - i" arbitrary: i run)
  case 0
  then have i: "i = length nodes" by simp
  then have "length intents \<le> start + i" using start plan_length [of visible decision intents m start]
    by (simp add: nodes_def remaining_nodes_def)
  then show ?case using 0 i by (auto simp: run_collects_def)
next
  case (Suc d)
  then have i: "i < length nodes" by simp
  let ?k = "min (start + i) (length intents)"
  have "pn_max_attempts (nodes ! i) \<noteq> 0"
    using plan_nodes_ok [OF m, of visible decision intents start] i by (auto simp: nodes_def nodes_ok_def list_all_length)
  note attempts = attempts_of_facts(1,2) [OF this]
  obtain ended1 run1 where attempt: "attempt_node X budget started (nodes ! i) (attempts_of (nodes ! i)) run = (ended1, run1)"
    by fastforce
  have unfolded: "run_plan_nodes X budget started nodes [i..<length nodes] run =
      (case ended1 of NodeDone \<Rightarrow> run_plan_nodes X budget started nodes [Suc i..<length nodes] run1
       | RunStopped _ _ \<Rightarrow> (ended1, run1))"
    using i attempt by (simp add: upt_conv_Cons split: node_end.split)
  have step: "case ended1 of
      NodeDone \<Rightarrow> C (min (start + Suc i) (length intents)) (run_world run1)
    | RunStopped failure _ \<Rightarrow> C ?k (run_world run1) \<and> failed_after intents ?k failure"
  proof (cases "start + i < length intents")
    case True
    then have node: "pn_kind (nodes ! i) = ToolNode" "pn_id (nodes ! i) = tool_node_id (start + i)"
      using plan_node_nth(1) [OF start True] by (simp_all add: nodes_def tool_plan_node_def)
    have k: "?k = start + i" "min (start + Suc i) (length intents) = Suc (start + i)" using True by simp_all
    have "start + i < usize_max" using small True by simp
    note execution = tool_node_execution [OF node True this, where E = E and h = h and before = before and c = c]
    have "case ended1 of
        NodeDone \<Rightarrow> C (Suc (start + i)) (run_world run1)
      | RunStopped failure _ \<Rightarrow> C (start + i) (run_world run1) \<and>
          (\<forall>x a kind m. failure = PlanNodeFailed x a kind m \<longrightarrow> x = pn_id (nodes ! i))"
      by (rule attempt_node_world [where I = "C (start + i)" and X = X, OF _ _ attempts _ attempt])
        (use execution Suc.prems(2) k in \<open>auto simp: X_def C_def safe_lane_node_executor_def\<close>)
    then show ?thesis
      using True node(2) by (cases ended1) (auto simp: k intro: failed_after_cases)
  next
    case False
    then have "i = length intents - start \<or> i = Suc (length intents - start)"
      using i start plan_length [of visible decision intents m start] by (auto simp: nodes_def remaining_nodes_def)
    then have node: "pn_kind (nodes ! i) \<noteq> ToolNode" "pn_id (nodes ! i) \<in> {''verify-1'', ''respond-1''}"
      using plan_node_nth(2,3) [OF start, of visible decision m]
      by (auto simp: nodes_def verify_plan_node_def respond_plan_node_def)
    have "case ended1 of
        NodeDone \<Rightarrow> C ?k (run_world run1)
      | RunStopped failure _ \<Rightarrow> C ?k (run_world run1) \<and>
          (\<forall>x a kind m. failure = PlanNodeFailed x a kind m \<longrightarrow> x = pn_id (nodes ! i))"
      by (rule attempt_node_world [where I = "C ?k" and X = X, OF _ _ attempts _ attempt])
        (use other_node_execution [OF node(1)] Suc.prems(2) in \<open>fastforce simp: X_def safe_lane_node_executor_def\<close>)+
    then show ?thesis
      using False node(2) by (cases ended1) (auto intro: failed_after_cases)
  qed
  show ?case
  proof (cases ended1)
    case NodeDone
    have "run_collects C intents (min (start + Suc i) (length intents)) ended (run_world run')"
      by (rule Suc.hyps(1)) (use Suc.hyps(2) i step NodeDone unfolded Suc.prems(3) in auto)
    then show ?thesis by (rule run_collects_later) simp
  next
    case (RunStopped failure elapsed)
    then show ?thesis using step unfolded Suc.prems(3) by (auto simp: run_collects_def)
  qed
qed

end
