(* ===== verification/Safe_Lane_Properties.thy ===== *)
theory Safe_Lane_Properties
  imports Safe_Lane_Runs
begin

text \<open>
  What holds of a safe-lane turn: it ends after at most nine rounds, its text is made of one output per
  tool call and has passed verification, a round goes on from the call that failed, and a denied call
  ends the turn.
\<close>

section \<open>A round's plan\<close>

lemma plan_attempts:
  assumes "start \<le> length intents"
  shows "all_attempts (pg_nodes (build_safe_lane_plan visible decision intents m start)) =
    (length intents - start) * unat m + 2"
proof -
  have "map (\<lambda>node. unat (pn_max_attempts node)) (map (tool_plan_node tier m visible) xs) = replicate (length xs) (unat m)"
    for tier and xs :: "(nat \<times> 'a tool_intent) list"
    by (induction xs) (simp_all add: tool_plan_node_def)
  then show ?thesis
    using assms
    by (simp add: all_attempts_def build_safe_lane_plan_def Let_def verify_plan_node_def respond_plan_node_def
        sum_list_replicate min_def del: map_map)
qed

lemma evaluate_round:
  fixes E :: "('n, 'a, 'f, 'w) safe_lane_env"
  assumes start: "collected E h before c intents (ls_start st) (w, ls_seed st)" and m: "ab_current_limit (ls_attempt_budget st) \<noteq> 0"
    and small: "length intents \<le> usize_max"
  obtains report outputs stats w' where "evaluate_safe_lane_round E decision intents st w = Some (report, outputs, stats, w')"
    "pr_attempts_used report \<le> 14 * unat (ab_current_limit (ls_attempt_budget st)) + 2"
    "case pr_status report of
       PlanSucceeded \<Rightarrow> collected E h before c intents (length intents) (w', outputs)
     | PlanFailed failure \<Rightarrow>
         \<exists>k \<ge> ls_start st. collected E h before c intents k (w', outputs) \<and> failed_after intents k failure"
    "16 < remaining_nodes intents (ls_start st) \<Longrightarrow> \<exists>e. pr_status report = PlanFailed (PlanValidationFailed e)"
proof -
  let ?m = "ab_current_limit (ls_attempt_budget st)"
  define p where "p = build_safe_lane_plan (sl_visible_name E) decision intents ?m (ls_start st)"
  define X where "X = safe_lane_node_executor E intents"
  have le: "ls_start st \<le> length intents" using start by (rule collected_le)
  have eval: "evaluate_safe_lane_round E decision intents st w = map_option (\<lambda>(report, w, outputs).
      (report, outputs, summarize_tool_output_stats (sl_structured_truncation E) outputs, w)) (plan_execute X p (w, ls_seed st))"
    by (simp add: evaluate_safe_lane_round_def p_def X_def)
  show thesis
  proof (cases "16 < remaining_nodes intents (ls_start st)")
    case True
    then obtain e where "plan_validate p = Some (Inl e)" using big_plan_refused unfolding p_def by blast
    then have exec: "plan_execute X p (w, ls_seed st) = Some (empty_report (PlanValidationFailed e), w, ls_seed st)"
      by (simp add: plan_execute_def)
    show thesis
      by (rule that [of "empty_report (PlanValidationFailed e)" "ls_seed st"
            "summarize_tool_output_stats (sl_structured_truncation E) (ls_seed st)" w])
        (use start in \<open>auto simp: eval exec empty_report_def\<close>)
  next
    case False
    then have few: "remaining_nodes intents (ls_start st) \<le> 16" by simp
    note valid = small_plan_valid [OF m few, of "sl_visible_name E" decision, folded p_def]
    obtain order ended run where run: "run_outcome (pg_nodes p) order
        \<lparr>run_attempts_used = 0, run_events = [], run_world = (w, ls_seed st)\<rparr> (ended, run)"
      "distinct order" "set order = {..<length (pg_nodes p)}"
      "plan_execute X p (w, ls_seed st) = Some (run_report X p (w, ls_seed st) order ended run, run_world run)"
      by (rule plan_execute_valid [OF valid, of "(w, ls_seed st)" X]) (rule that)
    let ?run0 = "\<lparr>run_attempts_used = 0, run_events = [], run_world = (w, ls_seed st)\<rparr>"
    obtain ended' run' where run': "run_plan_nodes X (pg_budget p) (nx_clock_ms X (w, ls_seed st)) (pg_nodes p)
        [0..<length (pg_nodes p)] ?run0 = (ended', run')" by fastforce
    have exec: "plan_execute X p (w, ls_seed st) =
        Some (run_report X p (w, ls_seed st) [0..<length (pg_nodes p)] ended' run', run_world run')"
      using valid(2) small_plan_order [OF m few, of "sl_visible_name E" decision, folded p_def] run'
      by (simp add: plan_execute_def run_report_def Let_def list_ex_iff ids_at_def)
    have "run_attempts_used run \<le> attempts_at (pg_nodes p) order" using run(1) by (auto simp: run_outcome_def)
    then have "run_attempts_used run \<le> (length intents - ls_start st) * unat ?m + 2"
      using attempts_at_all [OF run(2,3)] plan_attempts [OF le, of "sl_visible_name E" decision ?m] by (simp add: p_def)
    also have "\<dots> \<le> 14 * unat ?m + 2" using few by (simp add: remaining_nodes_def)
    finally have used: "run_attempts_used run' \<le> 14 * unat ?m + 2" using run(4) exec by (simp add: run_report_def)
    have "run_collects (collected E h before c intents) intents (ls_start st) ended' (run_world run')"
      using run_plan_nodes_collects [OF le small m, of 0 "sl_visible_name E" decision E h before c ?run0, folded p_def X_def]
        start run' le by (simp add: min_absorb1)
    then have ends: "case ended' of
        NodeDone \<Rightarrow> collected E h before c intents (length intents) (run_world run')
      | RunStopped failure _ \<Rightarrow>
          \<exists>k \<ge> ls_start st. collected E h before c intents k (run_world run') \<and> failed_after intents k failure"
      by (simp add: run_collects_def)
    show thesis
      by (rule that [of "run_report X p (w, ls_seed st) [0..<length (pg_nodes p)] ended' run'" "snd (run_world run')"
            "summarize_tool_output_stats (sl_structured_truncation E) (snd (run_world run'))" "fst (run_world run')"])
        (use ends used few in \<open>auto simp: eval exec run_report_def case_prod_unfold split: node_end.splits\<close>)
  qed
qed

section \<open>Routes\<close>

text \<open>When a round can be followed by another one.\<close>

definition can_replan :: "'f loop_state \<Rightarrow> bool" where
  "can_replan st \<longleftrightarrow>
     rb_current_round (ls_replan_budget st) < rb_max_replans (ls_replan_budget st) \<and>
     sm_total_attempts_used (ls_metrics st) < 32 \<and> sm_replans_triggered (ls_metrics st) < 8"

lemma route_from_failure_exhausted:
  "\<not> rb_current_round b < rb_max_replans b \<Longrightarrow> route_from_failure f b = terminal_route RoundBudgetExhausted"
  by (simp add: route_from_failure_def replan_continuation_def)

lemma decide_failure_route_replan:
  assumes "should_replan (decide_failure_route f st)"
  shows "can_replan st" and "decide_failure_route f st = route_from_failure f (ls_replan_budget st)"
    and "should_replan (route_from_failure f (ls_replan_budget st))"
proof -
  let ?r = "route_from_failure f (ls_replan_budget st)"
  have inner: "should_replan ?r"
    "backpressure_continuation (backpressure_budget_new 32 8) (sm_total_attempts_used (ls_metrics st))
      (sm_replans_triggered (ls_metrics st)) = KeepGoing"
    using assms
    by (auto simp: decide_failure_route_def with_session_governor_override_def with_backpressure_guard_def
        should_replan_def terminal_with_source_def split: if_splits continuation_decision.splits)
  have "\<not> is_base_round_budget_terminal ?r" using inner(1) by (simp add: should_replan_def is_base_round_budget_terminal_def)
  then show "decide_failure_route f st = ?r"
    using inner by (simp add: decide_failure_route_def with_session_governor_override_def with_backpressure_guard_def)
  have "rb_current_round (ls_replan_budget st) < rb_max_replans (ls_replan_budget st)"
  proof (rule ccontr)
    assume "\<not> rb_current_round (ls_replan_budget st) < rb_max_replans (ls_replan_budget st)"
    from route_from_failure_exhausted [OF this, of f] inner(1) show False
      by (simp add: should_replan_def terminal_route_def terminal_with_source_def)
  qed
  then show "can_replan st"
    using inner(2) by (auto simp: can_replan_def backpressure_continuation_def backpressure_budget_new_def
        not_le split: if_splits)
  show "should_replan ?r" by (fact inner(1))
qed

section \<open>What a round keeps\<close>

text \<open>The parts of the state that only the end of a round changes, and the counters that go on.\<close>

definition carried :: "'f loop_state \<Rightarrow> 'f loop_state \<Rightarrow> bool" where
  "carried st st' \<longleftrightarrow>
     ls_governor st' = ls_governor st \<and> ls_replan_budget st' = ls_replan_budget st \<and>
     ls_attempt_budget st' = ls_attempt_budget st \<and>
     sm_rounds_started (ls_metrics st') = sm_rounds_started (ls_metrics st) \<and>
     sm_total_attempts_used (ls_metrics st') = sm_total_attempts_used (ls_metrics st)"

definition replanned :: "'f loop_state \<Rightarrow> 'f loop_state \<Rightarrow> bool" where
  "replanned st st' \<longleftrightarrow> carried st st' \<and> can_replan st \<and>
     sm_replans_triggered (ls_metrics st') = saturating_inc (sm_replans_triggered (ls_metrics st))"

definition ended :: "'f loop_state \<Rightarrow> 'f loop_state \<Rightarrow> bool" where
  "ended st st' \<longleftrightarrow> carried st st' \<and> sm_replans_triggered (ls_metrics st') = sm_replans_triggered (ls_metrics st)"

definition is_failure :: "'a turn_result \<Rightarrow> bool" where
  "is_failure r \<longleftrightarrow> turn_result_failure r \<noteq> None"

lemma decide_failure_route_metrics:
  "carried st st' \<Longrightarrow> sm_replans_triggered (ls_metrics st') = sm_replans_triggered (ls_metrics st) \<Longrightarrow>
    decide_failure_route f st' = decide_failure_route f st \<and> can_replan st' = can_replan st"
  by (simp add: carried_def decide_failure_route_def can_replan_def)

lemma round_succeeded_cases:
  assumes "round_succeeded E intents report outputs stats st w = (step, w')"
    and logged: "collected E h before c intents k (w, outputs)"
  shows "case step of
      TurnEnds result st' \<Rightarrow> ended st st' \<and>
        (if vr_passed (verify_final_output (join_text [newline] outputs) intents (ls_min_anchor_matches st))
         then so_result result = FinalText (join_text [newline] outputs) \<and> collected E h before c intents k (w', outputs)
         else is_failure (so_result result))
    | NextRound st' \<Rightarrow> replanned st st' \<and> ls_start st' = 0 \<and> ls_seed st' = [] \<and>
        sm_verify_failures (ls_metrics st') = saturating_inc (sm_verify_failures (ls_metrics st)) \<and>
        collected E h before (Suc c) intents 0 (w', [])"
proof -
  define st1 where "st1 = note_round_succeeded st"
  have st1: "ended st st1" "ls_min_anchor_matches st1 = ls_min_anchor_matches st"
    "sm_verify_failures (ls_metrics st1) = sm_verify_failures (ls_metrics st)"
    by (simp_all add: st1_def note_round_succeeded_def ended_def carried_def)
  define vr where "vr = verify_final_output (join_text [newline] outputs) intents (ls_min_anchor_matches st1)"
  define w1 where "w1 = emit_event E (PlanRoundSucceeded report stats) st1 w"
  have w1: "collected E h before c intents k (w1, outputs)"
    using collected_event [OF logged, of "PlanRoundSucceeded report stats" st1] by (simp add: w1_def)
  note unfolded = assms(1) [unfolded round_succeeded_def Let_def, folded st1_def, folded vr_def w1_def]
  show ?thesis
  proof (cases "vr_passed vr")
    case True
    then have "collected E h before c intents k (w', outputs)"
      using unfolded collected_event [OF w1, of "FinalStatusSucceeded stats" st1] by auto
    then show ?thesis using True unfolded st1 by (auto simp: vr_def)
  next
    case False
    define st2 where "st2 = note_verify_failure st1"
    define e where "e = join_text '','' (vr_failure_reasons vr)"
    define retry where "retry = should_replan_for_verification_failure vr"
    define route where "route = decide_failure_route (turn_failure_from_verify_failure e retry) st2"
    define w2 where "w2 = emit_event E (VerifyFailedEvent stats e
      (map format_verification_failure_code (vr_failure_codes vr)) retry route) st2 w1"
    have st2: "ended st st2" "sm_verify_failures (ls_metrics st2) = saturating_inc (sm_verify_failures (ls_metrics st))"
      using st1(1,3) by (simp_all add: st2_def note_verify_failure_def ended_def carried_def)
    have w2: "collected E h before (Suc c) intents k (w2, outputs)"
      using collected_event [OF w1, of "VerifyFailedEvent stats e
        (map format_verification_failure_code (vr_failure_codes vr)) retry route" st2] by (simp add: w2_def)
    note unfolded' = unfolded [folded st2_def e_def retry_def, folded route_def, folded w2_def]
    show ?thesis
    proof (cases "should_replan route")
      case True
      have "can_replan st2" using decide_failure_route_replan(1) True unfolding route_def by blast
      then have "can_replan st" using st2 decide_failure_route_metrics [of st st2] by (simp add: ended_def)
      then have "replanned st (note_replan 0 [] st2)"
        using st2 by (simp add: replanned_def ended_def carried_def note_replan_def)
      moreover have "collected E h before (Suc c) intents 0 (emit_event E (ReplanTriggered stats reason route) st'' w2, [])"
        for reason st''
        using collected_restart [OF collected_event [OF w2, of "ReplanTriggered stats reason route" st'']] by simp
      ultimately show ?thesis
        using unfolded' True False st2(2) by (auto simp: decide_verify_failure_action_def note_replan_def)
    next
      case False
      then show ?thesis
        using unfolded' \<open>\<not> vr_passed vr\<close> st2 st1(2) by (auto simp: decide_verify_failure_action_def is_failure_def vr_def)
    qed
  qed
qed

lemma terminal_result_is_failure: "is_failure (terminal_turn_result_from_plan_failure failure route)"
  by (auto simp: is_failure_def terminal_turn_result_from_plan_failure_def turn_result_from_plan_failure_def Let_def
      split: option.splits turn_failure_kind.splits)

lemma round_failed_cases:
  assumes "round_failed E intents report failure outputs stats st w = (step, w')"
  shows "case step of
      TurnEnds result st' \<Rightarrow> ended st st' \<and> is_failure (so_result result) \<and>
        so_terminal_route result = Some (decide_failure_route (turn_failure_from_plan_failure failure) st) \<and>
        so_result result = terminal_turn_result_from_plan_failure failure
          (decide_failure_route (turn_failure_from_plan_failure failure) st)
    | NextRound st' \<Rightarrow> replanned st st' \<and>
        should_replan (decide_failure_route (turn_failure_from_plan_failure failure) st) \<and>
        (ls_start st', ls_seed st') = derive_replan_cursor failure outputs (length intents)"
proof -
  define st1 where "st1 = note_round_failed st"
  have st1: "ended st st1" by (simp add: st1_def note_round_failed_def ended_def carried_def)
  define route where "route = decide_failure_route (turn_failure_from_plan_failure failure) st1"
  have route: "route = decide_failure_route (turn_failure_from_plan_failure failure) st" "can_replan st1 = can_replan st"
    using decide_failure_route_metrics [of st st1] st1 by (simp_all add: route_def ended_def)
  obtain next_start next_seed where cursor: "derive_replan_cursor failure outputs (length intents) = (next_start, next_seed)"
    by fastforce
  note unfolded = assms [unfolded round_failed_def Let_def, folded st1_def, folded route_def, unfolded cursor]
  show ?thesis
  proof (cases "should_replan route")
    case True
    have "can_replan st" using decide_failure_route_replan(1) True unfolding route_def route(2) [symmetric] by blast
    then have "replanned st (note_replan next_start next_seed st1)"
      using st1 by (simp add: replanned_def ended_def carried_def note_replan_def)
    then show ?thesis
      using unfolded True cursor by (auto simp: decide_plan_failure_action_def note_replan_def route(1))
  next
    case False
    then show ?thesis
      using unfolded st1 terminal_result_is_failure [of failure route]
      by (auto simp: decide_plan_failure_action_def route(1))
  qed
qed

lemma round_failed_replans:
  assumes "round_failed E intents report failure outputs stats st w = (NextRound st', w')"
    and "collected E h before c intents k (w, outputs)"
  shows "sm_verify_failures (ls_metrics st') = sm_verify_failures (ls_metrics st) \<and> collected E h before c intents k (w', outputs)"
proof -
  define st1 where "st1 = note_round_failed st"
  define route where "route = decide_failure_route (turn_failure_from_plan_failure failure) st1"
  define w1 where "w1 = emit_event E (PlanRoundFailed report stats failure route) st1 w"
  obtain next_start next_seed where cursor: "derive_replan_cursor failure outputs (length intents) = (next_start, next_seed)"
    by fastforce
  have st1: "sm_verify_failures (ls_metrics st1) = sm_verify_failures (ls_metrics st)"
    by (simp add: st1_def note_round_failed_def)
  have w1: "collected E h before c intents k (w1, outputs)"
    using collected_event [OF assms(2), of "PlanRoundFailed report stats failure route" st1] by (simp add: w1_def)
  have "collected E h before c intents k (emit_event E (ReplanTriggered stats reason route) st'' w1, outputs)" for reason st''
    using collected_event [OF w1, of "ReplanTriggered stats reason route" st''] by simp
  then show ?thesis
    using assms(1) [unfolded round_failed_def Let_def, folded st1_def, folded route_def, folded w1_def, unfolded cursor] st1
    by (auto simp: decide_plan_failure_action_def note_replan_def split: if_splits)
qed

section \<open>Rounds\<close>

lemma unat_saturating_inc: "unat x < 2 ^ LENGTH('a) - 1 \<Longrightarrow> unat (saturating_inc (x :: 'a :: len word)) = unat x + 1"
proof -
  assume less: "unat x < 2 ^ LENGTH('a) - 1"
  then have "x \<noteq> - 1" by (auto simp: unsigned_minus_1_eq_mask mask_eq_exp_minus_1)
  moreover from this have "unat (x + 1) = unat x + 1"
    using unatSuc [of x] minus_equation_iff [of x 1] by (auto simp: add.commute add_eq_0_iff2)
  ultimately show ?thesis by (simp add: saturating_inc_def)
qed

definition round_inv ::
  "('n, 'a, 'f, 'w) safe_lane_env \<Rightarrow> ('w \<Rightarrow> ('n, 'a, 'f) turn_log) \<Rightarrow> ('n, 'a, 'f) turn_log \<Rightarrow> 'n tool_intent list \<Rightarrow> nat \<Rightarrow>
    'f loop_state \<Rightarrow> 'w \<Rightarrow> bool" where
  "round_inv E h before intents n st w \<longleftrightarrow>
     collected E h before (unat (sm_verify_failures (ls_metrics st))) intents (ls_start st) (w, ls_seed st) \<and>
     unat (sm_verify_failures (ls_metrics st)) \<le> n \<and>
     1 \<le> unat (ab_current_limit (ls_attempt_budget st)) \<and> unat (ab_current_limit (ls_attempt_budget st)) \<le> 4 \<and>
     unat (ab_max_limit (ls_attempt_budget st)) \<le> 4 \<and> unat (sm_rounds_started (ls_metrics st)) = n \<and>
     unat (sm_replans_triggered (ls_metrics st)) = n \<and> n \<le> 8 \<and> unat (sm_total_attempts_used (ls_metrics st)) < 32 \<and>
     (gd_force_no_replan (ls_governor st) \<longrightarrow> rb_max_replans (ls_replan_budget st) = 0)"

text \<open>The anchors that the final verification asks for, by the verifications that failed before.\<close>

definition required_anchors :: "nat \<Rightarrow> usize" where
  "required_anchors failures = (if failures < 2 then 0 else 1)"

lemma verify_min_anchor_matches_unat: "verify_min_anchor_matches n = required_anchors (unat n)"
  by (simp add: verify_min_anchor_matches_def required_anchors_def word_less_nat_alt)

text \<open>What is known of a turn that ends in its round \<open>n + 1\<close>.\<close>

definition turn_result_ok ::
  "('n, 'a, 'f, 'w) safe_lane_env \<Rightarrow> ('w \<Rightarrow> ('n, 'a, 'f) turn_log) \<Rightarrow> ('n, 'a, 'f) turn_log \<Rightarrow> 'n tool_intent list \<Rightarrow>
    'a safe_lane_outcome \<Rightarrow> 'w \<Rightarrow> bool" where
  "turn_result_ok E h before intents result w \<longleftrightarrow>
     is_failure (so_result result) \<or>
     (\<exists>outputs c. so_result result = FinalText (join_text [newline] outputs) \<and>
        collected E h before c intents (length intents) (w, outputs) \<and>
        vr_passed (verify_final_output (join_text [newline] outputs) intents (required_anchors c)))"

definition turn_ends :: "nat \<Rightarrow> 'f governor_decision \<Rightarrow> 'f loop_state \<Rightarrow> bool" where
  "turn_ends n governor st \<longleftrightarrow>
     ls_governor st = governor \<and> unat (sm_rounds_started (ls_metrics st)) = n + 1 \<and>
     unat (sm_replans_triggered (ls_metrics st)) = n \<and> unat (sm_total_attempts_used (ls_metrics st)) \<le> 89"

lemma advance_round_simps [simp]:
  "ls_governor (advance_round st) = ls_governor st" "ls_start (advance_round st) = ls_start st"
  "ls_seed (advance_round st) = ls_seed st" "ls_metrics (advance_round st) = ls_metrics st"
  "rb_max_replans (ls_replan_budget (advance_round st)) = rb_max_replans (ls_replan_budget st)"
  by (simp_all add: advance_round_def after_replan_def)

lemma after_retry_bounds:
  assumes "unat (ab_max_limit b) \<le> 4"
  shows "1 \<le> unat (ab_current_limit (after_retry b))" and "unat (ab_current_limit (after_retry b)) \<le> 4"
    and "ab_max_limit (after_retry b) = ab_max_limit b"
proof -
  let ?c = "max (min (saturating_inc (ab_current_limit b)) (ab_max_limit b)) 1"
  have c: "ab_current_limit (after_retry b) = ?c" by (simp add: after_retry_def)
  have "(1 :: 8 word) \<le> ?c" by simp
  then show "1 \<le> unat (ab_current_limit (after_retry b))" unfolding c by (simp only: word_le_nat_alt) simp
  have "?c \<le> max (ab_max_limit b) 1" using linear [of 1 "ab_max_limit b"] by (auto simp: le_max_iff_disj min_le_iff_disj)
  then have "unat ?c \<le> unat (max (ab_max_limit b) 1)" by (simp only: word_le_nat_alt)
  also have "\<dots> \<le> 4" using assms by (simp add: max_def)
  finally show "unat (ab_current_limit (after_retry b)) \<le> 4" unfolding c .
  show "ab_max_limit (after_retry b) = ab_max_limit b" by (simp add: after_retry_def)
qed

lemma derived_cursor_collected:
  assumes "collected E h before c intents k (w, outputs)" and "failed_after intents k failure" and "length intents \<le> usize_max"
    and "derive_replan_cursor failure outputs (length intents) = (next_start, next_seed)"
  shows "collected E h before c intents next_start (w, next_seed)"
  using assms other_node_ids parse_tool_node_id [of k] collected_restart [OF assms(1)]
  by (cases failure) (auto simp: derive_replan_cursor_def split: if_splits sum.splits)

lemma start_round_keeps:
  assumes "start_round E st w = (st1, w1)"
  shows "ls_governor st1 = ls_governor st" "ls_replan_budget st1 = ls_replan_budget st"
    "ls_attempt_budget st1 = ls_attempt_budget st" "ls_start st1 = ls_start st" "ls_seed st1 = ls_seed st"
    "sm_rounds_started (ls_metrics st1) = saturating_inc (sm_rounds_started (ls_metrics st))"
    "sm_replans_triggered (ls_metrics st1) = sm_replans_triggered (ls_metrics st)"
    "sm_total_attempts_used (ls_metrics st1) = sm_total_attempts_used (ls_metrics st)"
    "sm_verify_failures (ls_metrics st1) = sm_verify_failures (ls_metrics st)"
    "ls_min_anchor_matches st1 = required_anchors (unat (sm_verify_failures (ls_metrics st)))"
  using assms
  by (auto simp: start_round_def refresh_verify_policy_def note_round_started_def Let_def
      simp flip: verify_min_anchor_matches_unat split: if_splits)

lemma start_round_logged:
  assumes "start_round E st w = (st1, w1)" and "collected E h before c intents k (w, outputs)"
  shows "collected E h before c intents k (w1, outputs)"
proof -
  have "collected E h before c intents k (emit_event E PlanRoundStarted st' w', outputs)"
    if "collected E h before c intents k (w', outputs)" for st' w'
    using collected_event [OF that, of PlanRoundStarted st'] by simp
  moreover have "collected E h before c intents k (emit_event E (VerifyPolicyAdjusted m) st' w, outputs)" for m st'
    using collected_event [OF assms(2), of "VerifyPolicyAdjusted m" st'] by simp
  ultimately show ?thesis
    using assms by (auto simp: start_round_def Let_def split: prod.splits option.splits)
qed

lemma safe_lane_round_inv:
  fixes E :: "('n, 'a, 'f, 'w) safe_lane_env"
  assumes inv: "round_inv E h before intents n st w" and small: "length intents \<le> usize_max"
  shows "\<exists>step w'. safe_lane_round E decision intents st w = Some (step, w') \<and>
    (case step of
       TurnEnds result st' \<Rightarrow> turn_result_ok E h before intents result w' \<and> turn_ends n (ls_governor st) st'
     | NextRound st' \<Rightarrow> round_inv E h before intents (Suc n) (advance_round st') w' \<and> ls_governor st' = ls_governor st \<and>
         n < 8 \<and> \<not> gd_force_no_replan (ls_governor st))"
proof -
  let ?c = "unat (sm_verify_failures (ls_metrics st))"
  obtain st1 w1 where start: "start_round E st w = (st1, w1)" by fastforce
  note kept = start_round_keeps [OF start]
  have inv1: "collected E h before ?c intents (ls_start st1) (w1, ls_seed st1)" "ab_current_limit (ls_attempt_budget st1) \<noteq> 0"
    using inv kept start_round_logged [OF start] by (auto simp: round_inv_def)
  obtain report outputs stats w2 where eval: "evaluate_safe_lane_round E decision intents st1 w1 = Some (report, outputs, stats, w2)"
    "pr_attempts_used report \<le> 14 * unat (ab_current_limit (ls_attempt_budget st1)) + 2"
    "case pr_status report of
       PlanSucceeded \<Rightarrow> collected E h before ?c intents (length intents) (w2, outputs)
     | PlanFailed failure \<Rightarrow>
         \<exists>k \<ge> ls_start st1. collected E h before ?c intents k (w2, outputs) \<and> failed_after intents k failure"
    by (rule evaluate_round [OF inv1 small, of decision]) (rule that)
  define st2 where "st2 = record_round_execution report stats st1"
  have "pr_attempts_used report \<le> 58" using eval(2) inv kept(3) by (simp add: round_inv_def)
  then have total: "unat (u64_saturating_add (sm_total_attempts_used (ls_metrics st1)) (of_nat (pr_attempts_used report))) \<le> 89"
    using inv kept(8) by (simp add: round_inv_def u64_saturating_add_def unat_add_lem [THEN iffD1] unat_of_nat take_bit_nat_eq_self)
  have counters: "unat (sm_rounds_started (ls_metrics st2)) = n + 1" "unat (sm_replans_triggered (ls_metrics st2)) = n"
    "ls_governor st2 = ls_governor st" "unat (sm_total_attempts_used (ls_metrics st2)) \<le> 89"
    "ls_replan_budget st2 = ls_replan_budget st" "ls_attempt_budget st2 = ls_attempt_budget st"
    using inv kept total unat_saturating_inc [of "sm_rounds_started (ls_metrics st)"]
    by (simp_all add: st2_def record_round_execution_def round_inv_def)
  have verify: "sm_verify_failures (ls_metrics st2) = sm_verify_failures (ls_metrics st)"
    "ls_min_anchor_matches st2 = required_anchors ?c"
    using kept(9,10) by (simp_all add: st2_def record_round_execution_def)
  have ends: "turn_ends n (ls_governor st) st'" if "ended st2 st'" for st'
    using that counters by (simp add: turn_ends_def ended_def carried_def)
  have next_round: "round_inv E h before intents (Suc n) (advance_round st') w' \<and> ls_governor st' = ls_governor st \<and>
      n < 8 \<and> \<not> gd_force_no_replan (ls_governor st)"
    if "replanned st2 st'" "collected E h before (unat (sm_verify_failures (ls_metrics st'))) intents (ls_start st') (w', ls_seed st')"
      "unat (sm_verify_failures (ls_metrics st')) \<le> Suc n" for st' w'
  proof -
    have can: "can_replan st2" and carry: "carried st2 st'" using that(1) by (simp_all add: replanned_def)
    have "n < 8" using can counters(2) by (simp add: can_replan_def word_less_nat_alt)
    moreover have "unat (sm_total_attempts_used (ls_metrics st2)) < 32" using can by (simp add: can_replan_def word_less_nat_alt)
    moreover have "rb_max_replans (ls_replan_budget st2) \<noteq> 0" using can by (auto simp: can_replan_def)
    moreover have "unat (sm_replans_triggered (ls_metrics st')) = Suc n"
      using that(1) counters(2) \<open>n < 8\<close> unat_saturating_inc [of "sm_replans_triggered (ls_metrics st2)"]
      by (simp add: replanned_def)
    ultimately show ?thesis
      using inv that(2,3) carry counters after_retry_bounds [of "ls_attempt_budget st"]
      by (auto simp: round_inv_def carried_def advance_round_def after_replan_def)
  qed
  have round: "safe_lane_round E decision intents st w = Some
      (case pr_status report of
         PlanSucceeded \<Rightarrow> round_succeeded E intents report outputs stats st2 w2
       | PlanFailed failure \<Rightarrow> round_failed E intents report failure outputs stats st2 w2)"
    unfolding st2_def by (simp add: safe_lane_round_def start eval(1) Let_def)
  have small_count: "?c \<le> 8" using inv by (simp add: round_inv_def)
  show ?thesis
  proof (cases "pr_status report")
    case PlanSucceeded
    obtain step w' where step: "round_succeeded E intents report outputs stats st2 w2 = (step, w')" by fastforce
    have logged: "collected E h before ?c intents (length intents) (w2, outputs)" using eval(3) PlanSucceeded by simp
    note facts = round_succeeded_cases [OF step logged] round PlanSucceeded step
    show ?thesis
    proof (cases step)
      case (TurnEnds result st')
      then show ?thesis using facts ends verify(2)
        by (auto simp: turn_result_ok_def split: if_splits)
    next
      case (NextRound st')
      then have "replanned st2 st'" "sm_verify_failures (ls_metrics st') = saturating_inc (sm_verify_failures (ls_metrics st))"
        "collected E h before (Suc ?c) intents (ls_start st') (w', ls_seed st')"
        using facts(1) verify(1) by simp_all
      moreover from this(2) have "unat (sm_verify_failures (ls_metrics st')) = Suc ?c"
        using small_count unat_saturating_inc [of "sm_verify_failures (ls_metrics st)"] by simp
      moreover have "Suc ?c \<le> Suc n" using inv by (simp add: round_inv_def)
      ultimately show ?thesis using next_round [of st' w'] facts(2-) NextRound by auto
    qed
  next
    case (PlanFailed failure)
    obtain step w' where step: "round_failed E intents report failure outputs stats st2 w2 = (step, w')" by fastforce
    obtain k where k: "collected E h before ?c intents k (w2, outputs)" "failed_after intents k failure"
      using eval(3) PlanFailed by auto
    note facts = round_failed_cases [OF step] round PlanFailed step
    show ?thesis
    proof (cases step)
      case (TurnEnds result st')
      then show ?thesis using facts ends by (auto simp: turn_result_ok_def)
    next
      case (NextRound st')
      note after = round_failed_replans [OF step [unfolded NextRound] k(1)]
      have replan: "replanned st2 st'" "derive_replan_cursor failure outputs (length intents) = (ls_start st', ls_seed st')"
        using facts(1) NextRound by simp_all
      have "collected E h before ?c intents (ls_start st') (w', ls_seed st')"
        by (rule derived_cursor_collected [OF conjunct2 [OF after] k(2) small replan(2)])
      moreover have "?c \<le> Suc n" using inv by (simp add: round_inv_def)
      ultimately show ?thesis using next_round [OF replan(1), of w'] after verify(1) facts(2-) NextRound by auto
    qed
  qed
qed

lemma loop_state_new_inv:
  assumes "collected E h before 0 intents 0 (w, [])"
  shows "round_inv E h before intents 0 (loop_state_new (decide_session_governor F history)) w"
  using assms
  by (auto simp: round_inv_def loop_state_new_def Let_def decide_session_governor_def replan_budget_new_def
      attempt_budget_new_def safe_lane_metrics_default_def max_def min_def)

lemma safe_lane_loop_ends:
  assumes "length intents \<le> usize_max"
  shows "round_inv E h before intents n st w \<Longrightarrow>
    \<exists>result st' w'. safe_lane_loop E decision intents st w = Some (result, st', w') \<and>
      turn_result_ok E h before intents result w' \<and> (\<exists>n' \<le> 8. turn_ends n' (ls_governor st) st' \<and>
        n \<le> n' \<and> (gd_force_no_replan (ls_governor st) \<longrightarrow> n' = n))"
proof (induction "8 - n" arbitrary: n st w rule: less_induct)
  case less
  obtain step w1 where step: "safe_lane_round E decision intents st w = Some (step, w1)"
    "case step of
       TurnEnds result st' \<Rightarrow> turn_result_ok E h before intents result w1 \<and> turn_ends n (ls_governor st) st'
     | NextRound st' \<Rightarrow> round_inv E h before intents (Suc n) (advance_round st') w1 \<and> ls_governor st' = ls_governor st \<and>
         n < 8 \<and> \<not> gd_force_no_replan (ls_governor st)"
    using safe_lane_round_inv [OF less.prems assms, of decision] by blast
  show ?case
  proof (cases step)
    case (TurnEnds result st')
    then show ?thesis
      using step less.prems by (subst safe_lane_loop.simps) (auto simp: round_inv_def)
  next
    case (NextRound st')
    then have next_round: "round_inv E h before intents (Suc n) (advance_round st') w1" "ls_governor st' = ls_governor st"
      "n < 8" "\<not> gd_force_no_replan (ls_governor st)" using step(2) by simp_all
    have "safe_lane_loop E decision intents st w = safe_lane_loop E decision intents (advance_round st') w1"
      using step(1) NextRound by (subst safe_lane_loop.simps) simp
    moreover have "8 - Suc n < 8 - n" using next_round(3) by simp
    moreover from less.hyps [OF this next_round(1)] obtain result st2 w2 n' where
      "safe_lane_loop E decision intents (advance_round st') w1 = Some (result, st2, w2)"
      "turn_result_ok E h before intents result w2" "n' \<le> 8" "turn_ends n' (ls_governor st) st2" "Suc n \<le> n'"
      using next_round(2) by auto
    moreover from this(5) have "n \<le> n'" by simp
    ultimately show ?thesis using next_round(4) by auto
  qed
qed

section \<open>Turns\<close>

lemma turn_outcome:
  fixes E :: "('n, 'a, 'f, 'w) safe_lane_env"
  assumes "length intents \<le> usize_max"
  obtains result st w' n where "execute_turn_with_safe_lane_plan E decision intents w = Some (result, st, w')"
    "turn_result_ok E h (h w) intents result w'" "n \<le> 8" "turn_ends n (ls_governor st) st"
    "gd_force_no_replan (ls_governor st) \<Longrightarrow> n = 0"
proof -
  obtain history w1 where history: "sl_load_history E w = (history, w1)" by fastforce
  define governor where "governor = decide_session_governor (sl_f64 E) history"
  let ?st = "loop_state_new governor"
  let ?w2 = "emit_event E (LaneSelected decision (length intents) governor) ?st w1"
  have governor: "ls_governor ?st = governor" by (simp add: loop_state_new_def Let_def)
  have "h w1 = h w" if "keeps_log E h" using that history unfolding keeps_log_def by (metis snd_conv)
  then have "collected E h (h w) 0 intents 0 (w1, [])" by (simp add: collected_def gathered_nothing)
  from collected_event [OF this, of "LaneSelected decision (length intents) governor" ?st]
  have inv: "round_inv E h (h w) intents 0 ?st ?w2" unfolding governor_def by (intro loop_state_new_inv) simp
  have unfolded: "execute_turn_with_safe_lane_plan E decision intents w = safe_lane_loop E decision intents ?st ?w2"
    by (simp add: execute_turn_with_safe_lane_plan_def history governor_def Let_def)
  obtain result st w' n where "execute_turn_with_safe_lane_plan E decision intents w = Some (result, st, w')"
    "turn_result_ok E h (h w) intents result w'" "n \<le> 8" "turn_ends n governor st" "gd_force_no_replan governor \<longrightarrow> n = 0"
    unfolding unfolded using safe_lane_loop_ends [OF assms inv, of decision] governor by auto
  moreover from this have "ls_governor st = governor" by (simp add: turn_ends_def)
  ultimately show thesis by (intro that [of result st w' n]) auto
qed

lemma policy_denied_route:
  "tf_code f = failure_code_as_str CodePlanNodePolicyDenied \<Longrightarrow>
    route_from_failure f b = terminal_route (if rb_current_round b < rb_max_replans b then RoutePolicyDenied else RoundBudgetExhausted)"
  using failure_code_round_trip [of CodePlanNodePolicyDenied]
  by (simp add: route_from_failure_def replan_continuation_def route_for_code_def)

text \<open>A turn with more than fourteen calls is refused before any of them runs.\<close>

lemma oversized_rounds_are_refused:
  fixes E :: "('n, 'a, 'f, 'w) safe_lane_env"
  assumes "14 < length intents" and "length intents \<le> usize_max" and "round_inv E h before intents n st w" and "ls_start st = 0"
  shows "\<exists>report outputs stats w' e. evaluate_safe_lane_round E decision intents st w = Some (report, outputs, stats, w') \<and>
    pr_status report = PlanFailed (PlanValidationFailed e)"
proof -
  have inv: "collected E h before (unat (sm_verify_failures (ls_metrics st))) intents (ls_start st) (w, ls_seed st)" "ab_current_limit (ls_attempt_budget st) \<noteq> 0"
    using assms(3) by (auto simp: round_inv_def)
  have big: "16 < remaining_nodes intents (ls_start st)" using assms(1,4) by (simp add: remaining_nodes_def)
  obtain report outputs stats w' where "evaluate_safe_lane_round E decision intents st w = Some (report, outputs, stats, w')"
    "\<exists>e. pr_status report = PlanFailed (PlanValidationFailed e)"
    by (rule evaluate_round [OF inv assms(2), of decision]) (rule that, assumption, simp add: big)
  then show ?thesis by blast
qed

section \<open>Properties\<close>

text \<open>
  C32. A safe-lane turn always ends: after at most nine rounds and at most eighty-nine attempts, and
  after a single round when the session governor is engaged, whatever the tool calls do.
\<close>

theorem safe_lane_turns_end:
  fixes E :: "('n, 'a, 'f, 'w) safe_lane_env"
  assumes "length intents \<le> usize_max"
  shows "\<exists>result st w'. execute_turn_with_safe_lane_plan E decision intents w = Some (result, st, w') \<and>
    unat (sm_rounds_started (ls_metrics st)) = unat (sm_replans_triggered (ls_metrics st)) + 1 \<and>
    unat (sm_rounds_started (ls_metrics st)) \<le> 9 \<and> unat (sm_total_attempts_used (ls_metrics st)) \<le> 89 \<and>
    (gd_force_no_replan (ls_governor st) \<longrightarrow> sm_replans_triggered (ls_metrics st) = 0)"
proof -
  obtain result st w' n where turn: "execute_turn_with_safe_lane_plan E decision intents w = Some (result, st, w')"
    "n \<le> 8" "turn_ends n (ls_governor st) st" "gd_force_no_replan (ls_governor st) \<Longrightarrow> n = 0"
    by (rule turn_outcome [OF assms, of E decision w "\<lambda>_. []"]) (rule that)
  then show ?thesis
    by (intro exI [of _ result] exI [of _ st] exI [of _ w']) (auto simp: turn_ends_def unat_eq_zero)
qed

text \<open>
  C33. The text a safe-lane turn ends with is complete and verified. Let the environment keep a log of
  the calls it ran and of the events it was told. Then the text joins one output for each tool call, in
  order, and these outputs are those of runs of exactly these calls in this very turn, found in this
  order in what the turn added to the log. And the text has passed the final verification, which demands
  one of the values that the calls' arguments offer, if any, once two verifications have failed in the
  turn; so it meets the conditions of the verification policy.
\<close>

theorem safe_lane_text_is_verified:
  fixes E :: "('n, 'a, 'f, 'w) safe_lane_env"
  assumes "length intents \<le> usize_max" and "keeps_log E h"
    and "execute_turn_with_safe_lane_plan E decision intents w = Some (result, st, w')"
    and "so_result result = FinalText body"
  shows "\<exists>log outputs results. h w' = h w @ log \<and> body = join_text [newline] outputs \<and>
    subseq results (calls_in log) \<and> map fst results = intents \<and> map (call_output E \<circ> snd) results = map Some outputs \<and>
    vr_passed (verify_final_output body intents (required_anchors (verify_failures_in log))) \<and>
    output_acceptable body (final_output_context intents (required_anchors (verify_failures_in log)))
      safe_lane_verification_policy"
proof -
  obtain result' st' w'' n where "execute_turn_with_safe_lane_plan E decision intents w = Some (result', st', w'')"
    "turn_result_ok E h (h w) intents result' w''"
    by (rule turn_outcome [OF assms(1), of E decision w h]) (rule that)
  then have "turn_result_ok E h (h w) intents result w'" using assms(3) by simp
  then obtain outputs c where turn: "body = join_text [newline] outputs"
    "collected E h (h w) c intents (length intents) (w', outputs)"
    "vr_passed (verify_final_output body intents (required_anchors c))"
    using assms(4) by (auto simp: turn_result_ok_def is_failure_def)
  then obtain log where log: "h w' = h w @ log" "gathered E log c intents outputs"
    using assms(2) by (auto simp: collected_def)
  then show ?thesis
    using turn unfolding gathered_def verify_final_output_def verify_output_passes by blast
qed

text \<open>
  C34. A denied call ends the turn. Its denial is what the turn reports while rounds are left; but when
  the session governor allows no further round, the turn reports a tool error of the governor instead,
  although the governor had no part in the denial.
\<close>

theorem denied_calls_end_the_turn:
  assumes "kind = NodePolicyDenied \<or> kind = NodeApprovalRequired"
    and "round_failed E intents report (PlanNodeFailed x attempt kind e) outputs stats st w = (step, w')"
  shows "\<exists>result st'. step = TurnEnds result st' \<and>
    (if gd_force_no_replan (ls_governor st) \<and>
        \<not> rb_current_round (ls_replan_budget st) < rb_max_replans (ls_replan_budget st)
     then \<exists>f. so_result result = ToolFailed f \<and> tf_code f = failure_code_as_str CodePlanSessionGovernorNoReplan
     else so_result result = ToolDenied (turn_failure_of TurnPolicyDenied (failure_code_as_str CodePlanNodePolicyDenied) e))"
proof -
  let ?failure = "PlanNodeFailed x attempt kind e"
  have failure: "turn_failure_from_plan_failure ?failure =
      turn_failure_of TurnPolicyDenied (failure_code_as_str CodePlanNodePolicyDenied) e"
    using assms(1) by (auto simp: turn_failure_from_plan_failure_def code_into_turn_failure_def)
  let ?r = "decide_failure_route (turn_failure_from_plan_failure ?failure) st"
  have route: "?r = (if rb_current_round (ls_replan_budget st) < rb_max_replans (ls_replan_budget st)
      then terminal_route RoutePolicyDenied
      else if gd_force_no_replan (ls_governor st) then terminal_with_source SessionGovernorNoReplan SessionGovernor
      else terminal_route RoundBudgetExhausted)"
    using policy_denied_route [of "turn_failure_from_plan_failure ?failure" "ls_replan_budget st"]
    by (simp add: failure turn_failure_of_def decide_failure_route_def with_backpressure_guard_def should_replan_def
        with_session_governor_override_def is_base_round_budget_terminal_def terminal_route_def terminal_with_source_def)
  then have "\<not> should_replan ?r"
    by (simp add: should_replan_def terminal_route_def terminal_with_source_def)
  then obtain result st' where step: "step = TurnEnds result st'"
    "so_result result = terminal_turn_result_from_plan_failure ?failure ?r"
    using round_failed_cases [OF assms(2)] by (cases step) auto
  have denied: "turn_result_from_plan_failure ?failure =
      ToolDenied (turn_failure_of TurnPolicyDenied (failure_code_as_str CodePlanNodePolicyDenied) e)"
    by (simp add: turn_result_from_plan_failure_def failure Let_def) (simp add: turn_failure_of_def)
  have result: "so_result result = (case terminal_plan_failure_code ?r of
      Some code \<Rightarrow> ToolFailed (code_into_turn_failure code TurnNonRetryable
        (failure_code_as_str code @ '': '' @ summarize_plan_failure ?failure))
    | None \<Rightarrow> ToolDenied (turn_failure_of TurnPolicyDenied (failure_code_as_str CodePlanNodePolicyDenied) e))"
    unfolding step(2) terminal_turn_result_from_plan_failure_def denied ..
  show ?thesis
    unfolding step(1) using result
    by (simp add: route terminal_plan_failure_code_def terminal_route_def terminal_with_source_def
        code_into_turn_failure_def turn_failure_of_def)
qed

section \<open>A turn with one call\<close>

definition quiet_history :: governor_history where
  "quiet_history = \<lparr>gh_load_status = HistoryLoaded, gh_load_error = None, gh_failed_final_status_events = 0,
     gh_backpressure_failure_events = 0, gh_failed_samples = [], gh_backpressure_samples = []\<rparr>"

definition hundredths_lib :: "int f64_lib" where
  "hundredths_lib = \<lparr>f64_hundredths = int, f64_add = (+), f64_sub = (-), f64_mul = (\<lambda>a b. a * b div 100), f64_le = (\<le>)\<rparr>"

text \<open>Every call has the same answer, and the world is the log.\<close>

definition answering_env :: "string \<Rightarrow> (unit, unit, int, (unit, unit, int) turn_log) safe_lane_env" where
  "answering_env answer = \<lparr>sl_execute_turn = (\<lambda>intent _ w. (Some (FinalText answer), w @ [Inl (intent, Some (FinalText answer))])),
     sl_clock_ms = (\<lambda>_. 0), sl_emit = (\<lambda>event _ w. w @ [Inr event]), sl_load_history = (\<lambda>w. (quiet_history, w)), sl_approval_reply = (\<lambda>_. []),
     sl_visible_name = ti_tool_name, sl_structured_truncation = (\<lambda>_. False), sl_f64 = hundredths_lib\<rparr>"

lemma answering_env_log: "keeps_log (answering_env answer) id"
  by (simp add: keeps_log_def answering_env_def)

definition sample_intent :: "unit tool_intent" where
  "sample_intent = \<lparr>ti_tool_name = ''read'', ti_args = JNull, ti_source = [], ti_session_id = [], ti_turn_id = [],
     ti_tool_call_id = []\<rparr>"

definition sample_decision :: lane_decision where
  "sample_decision = \<lparr>ld_risk_score = 4, ld_complexity_score = 0, ld_reasons = []\<rparr>"

lemma safe_lane_turns_end_witness:
  "\<exists>result st w'. execute_turn_with_safe_lane_plan (answering_env ''[ok] done'') sample_decision [sample_intent] [] =
      Some (result, st, w') \<and> unat (sm_rounds_started (ls_metrics st)) \<le> 9"
proof -
  have "length [sample_intent] \<le> usize_max" by (simp add: usize_max_def)
  from safe_lane_turns_end [OF this, of "answering_env ''[ok] done''" sample_decision "[]"] show ?thesis by blast
qed

definition sample_state :: "int loop_state" where
  "sample_state = loop_state_new (decide_session_governor hundredths_lib quiet_history)"

lemma sample_round:
  "\<exists>r stats w. evaluate_safe_lane_round (answering_env ''[ok] done'') sample_decision [sample_intent]
      (fst (start_round (answering_env ''[ok] done'') sample_state w0)) (snd (start_round (answering_env ''[ok] done'') sample_state w0)) =
    Some (r, [''[ok] done''], stats, w) \<and> pr_status r = PlanSucceeded"
proof -
  let ?E = "answering_env ''[ok] done''"
  let ?X = "safe_lane_node_executor ?E [sample_intent]"
  define p where "p = build_safe_lane_plan (sl_visible_name ?E) sample_decision [sample_intent] 1 0"
  have state: "ls_start sample_state = 0" "ls_seed sample_state = []" "ab_current_limit (ls_attempt_budget sample_state) = 1"
    by (simp_all add: sample_state_def loop_state_new_def Let_def decide_session_governor_def quiet_history_def
        hundredths_lib_def attempt_budget_new_def)
  obtain w1 where world: "snd (start_round ?E sample_state w0) = w1" by simp
  have trims: "trim ''[ok] done'' = ''[ok] done''" by (rule trim_graphic_id; simp add: ascii_graphic_def)
  have small: "(1 :: 8 word) \<noteq> 0" "remaining_nodes [sample_intent] 0 \<le> 16" by (simp_all add: remaining_nodes_def)
  define n0 where "n0 = tool_plan_node (select_risk_tier sample_decision) 1 ti_tool_name (0, sample_intent)"
  have nodes: "pg_nodes p = [n0, verify_plan_node, respond_plan_node]"
    by (simp add: p_def build_safe_lane_plan_def Let_def answering_env_def n0_def)
  have budget: "pb_max_total_attempts (pg_budget p) = 3" "pb_max_wall_time_ms (pg_budget p) = 30000"
    by (simp_all add: p_def build_safe_lane_plan_def Let_def answering_env_def tool_plan_node_def verify_plan_node_def respond_plan_node_def)
  have node0: "parse_tool_node_index (tool_node_id 0) = Inr 0"
    by (rule parse_tool_node_id) (simp add: usize_max_def)
  have exec: "nx_execute ?X n0 attempt limit (w, outs) = (AttemptDone, w @ [Inl (sample_intent, Some (FinalText ''[ok] done''))], outs @ [''[ok] done''])"
    "nx_execute ?X verify_plan_node attempt limit (w, [''[ok] done'']) = (AttemptDone, w, [''[ok] done''])"
    "nx_execute ?X respond_plan_node attempt limit (w, outs) = (AttemptDone, w, outs)"
    "nx_clock_ms ?X s = 0" for attempt limit w outs s
    by (simp_all add: safe_lane_node_executor_def execute_plan_node_def n0_def tool_plan_node_def node0 answering_env_def
        tool_turn_outcome_def verify_plan_node_def respond_plan_node_def trims)
  have attempts: "attempts_of n0 = [1]" "attempts_of verify_plan_node = [1]" "attempts_of respond_plan_node = [1]"
    by (simp_all add: attempts_of_def n0_def tool_plan_node_def verify_plan_node_def respond_plan_node_def)
  have order: "topological_order p = Some (Some [0, 1, 2])"
    using small_plan_order [OF small, of "sl_visible_name ?E" sample_decision, folded p_def] nodes by (simp add: upt_rec)
  have valid: "plan_validate p = Some (Inr ())"
    unfolding p_def by (rule small_plan_valid(2) [OF small])
  have add: "usize_saturating_add a 1 = a + 1" if "a < 3" for a using that by (simp add: usize_saturating_add_def usize_max_def)
  have "\<exists>run. run_plan_nodes ?X (pg_budget p) 0 (pg_nodes p) [0, 1, 2]
      \<lparr>run_attempts_used = 0, run_events = [], run_world = (w1, [])\<rparr> = (NodeDone, run) \<and> snd (run_world run) = [''[ok] done'']"
    by (simp add: nodes attempts exec budget add [simplified] Let_def)
  then obtain run where "run_plan_nodes ?X (pg_budget p) 0 (pg_nodes p) [0, 1, 2]
      \<lparr>run_attempts_used = 0, run_events = [], run_world = (w1, [])\<rparr> = (NodeDone, run)" "snd (run_world run) = [''[ok] done'']"
    by blast
  then have "\<exists>r w. plan_execute ?X p (w1, []) = Some (r, w, [''[ok] done'']) \<and> pr_status r = PlanSucceeded"
    by (cases run; cases "run_world run") (auto simp: plan_execute_def valid order exec Let_def nodes)
  moreover have "start_round ?E sample_state w0 = (fst (start_round ?E sample_state w0), w1)" using world by (simp add: prod_eq_iff)
  note kept = start_round_keeps [OF this]
  ultimately show ?thesis
    by (auto simp: evaluate_safe_lane_round_def kept state world p_def)
qed

lemma sample_output_passes: "vr_passed (verify_final_output ''[ok] done'' [sample_intent] n)"
proof -
  have trims: "trim ''[ok] done'' = ''[ok] done''" "trim ''ok'' = ''ok''"
    by (rule trim_graphic_id; simp add: ascii_graphic_def)+
  have "read_lines ''[ok] done'' = [''[ok] done'']" by (simp add: read_lines_def newline_def)
  then have lines: "output_lines ''[ok] done'' = [''[ok] done'']" by (simp add: output_lines_def trims)
  have anchors: "normalized_anchors (collect_value_anchors None (ti_args sample_intent) []) = []"
    by (simp add: normalized_anchors_def sample_intent_def)
  have lower: "to_ascii_lowercase ''[ok] done'' = ''[ok] done''" "to_ascii_lowercase ''ok'' = ''ok''"
    by (simp_all add: to_ascii_lowercase_def byte_ascii_lowercase_def)
  have line: "line_passes policy ''[ok] done''" for policy
    by (simp add: line_passes_def parse_status_prefix_def trims lower looks_like_failure_status_def Let_def)
  have markers: "\<not> sublist m ''[ok] done''" if "m \<in> set (vp_deny_markers safe_lane_verification_policy)" "m \<noteq> []" for m
  proof -
    have "m \<in> (\<lambda>m. to_ascii_lowercase (trim m)) ` set default_deny_markers"
      using that by (auto simp: safe_lane_verification_policy_def)
    moreover have "trim d = d" if "d \<in> set default_deny_markers" for d
      by (rule trim_graphic_id) (use that in \<open>auto simp: default_deny_markers_def ascii_graphic_def\<close>)
    moreover have "to_ascii_lowercase d = d" if "d \<in> set default_deny_markers" for d
      using that by (auto simp: default_deny_markers_def to_ascii_lowercase_def byte_ascii_lowercase_def)
    ultimately have "m \<in> set default_deny_markers" by auto
    then have "CHR ''_'' \<in> set m" by (auto simp: default_deny_markers_def)
    then show ?thesis using set_mono_sublist [of m "''[ok] done''"] by auto
  qed
  show ?thesis
    unfolding verify_final_output_def verify_output_passes output_acceptable_def
    by (auto simp: Let_def trims lines lower line anchors markers list_all_iff char_count_def byte_in_def
        safe_lane_verification_policy_def [THEN arg_cong, of vp_min_output_chars] final_output_context_def)
qed

lemma answering_turn:
  "\<exists>result st w'. execute_turn_with_safe_lane_plan (answering_env ''[ok] done'') sample_decision [sample_intent] [] =
      Some (result, st, w') \<and> so_result result = FinalText ''[ok] done''"
proof -
  let ?E = "answering_env ''[ok] done''"
  let ?w0 = "emit_event ?E (LaneSelected sample_decision 1 (decide_session_governor hundredths_lib quiet_history)) sample_state []"
  obtain r stats w where eval: "evaluate_safe_lane_round ?E sample_decision [sample_intent]
      (fst (start_round ?E sample_state ?w0)) (snd (start_round ?E sample_state ?w0)) = Some (r, [''[ok] done''], stats, w)"
    "pr_status r = PlanSucceeded" using sample_round by blast
  obtain step w' where "safe_lane_round ?E sample_decision [sample_intent] sample_state ?w0 = Some (step, w')"
    "\<exists>result st. step = TurnEnds result st \<and> so_result result = FinalText ''[ok] done''"
    using eval sample_output_passes
    by (simp add: safe_lane_round_def case_prod_unfold Let_def round_succeeded_def)
  then have "\<exists>result st w'. safe_lane_loop ?E sample_decision [sample_intent] sample_state ?w0 = Some (result, st, w') \<and>
      so_result result = FinalText ''[ok] done''"
    by (subst safe_lane_loop.simps) (auto simp del: append.simps)
  moreover have "sl_load_history ?E [] = (quiet_history, [])" "sl_f64 ?E = hundredths_lib"
    by (simp_all add: answering_env_def)
  then have "execute_turn_with_safe_lane_plan ?E sample_decision [sample_intent] [] =
      safe_lane_loop ?E sample_decision [sample_intent] sample_state ?w0"
    by (simp only: execute_turn_with_safe_lane_plan_def Let_def prod.case sample_state_def list.size One_nat_def add_0 plus_nat.add_Suc)
  ultimately show ?thesis by simp
qed

lemma safe_lane_text_is_verified_witness:
  "\<exists>(log :: (unit, unit, int) turn_log) outputs results. ''[ok] done'' = join_text [newline] outputs \<and>
    subseq results (calls_in log) \<and> map fst results = [sample_intent] \<and>
    map (call_output (answering_env ''[ok] done'') \<circ> snd) results = map Some outputs \<and>
    vr_passed (verify_final_output ''[ok] done'' [sample_intent] (required_anchors (verify_failures_in log)))"
proof -
  obtain result st w' where turn: "execute_turn_with_safe_lane_plan (answering_env ''[ok] done'') sample_decision
      [sample_intent] [] = Some (result, st, w')" "so_result result = FinalText ''[ok] done''"
    using answering_turn by blast
  have "length [sample_intent] \<le> usize_max" by (simp add: usize_max_def)
  from safe_lane_text_is_verified [OF this answering_env_log turn] show ?thesis
    by (elim exE conjE) (intro exI conjI, assumption+)
qed

lemma denied_calls_end_the_turn_witness:
  "\<exists>result st'. fst (round_failed (answering_env []) [sample_intent] (empty_report PlanTopologyResolutionFailed)
      (PlanNodeFailed ''tool-1'' 1 NodePolicyDenied ''denied'') [] \<lparr>os_output_lines = 0, os_result_lines = 0,
        os_truncated_result_lines = 0\<rparr> (loop_state_new (decide_session_governor hundredths_lib quiet_history)) []) =
    TurnEnds result st'"
proof -
  let ?round = "round_failed (answering_env []) [sample_intent] (empty_report PlanTopologyResolutionFailed)
      (PlanNodeFailed ''tool-1'' 1 NodePolicyDenied ''denied'') [] \<lparr>os_output_lines = 0, os_result_lines = 0,
        os_truncated_result_lines = 0\<rparr> (loop_state_new (decide_session_governor hundredths_lib quiet_history)) []"
  have "NodePolicyDenied = NodePolicyDenied \<or> NodePolicyDenied = NodeApprovalRequired"
    and "?round = (fst ?round, snd ?round)" by simp_all
  from denied_calls_end_the_turn [OF this] show ?thesis by blast
qed

end
