(* ===== verification/Lane_Arbiter.thy ===== *)
theory Lane_Arbiter
  imports Safe_Lane_Rounds
begin

text \<open>
  The choice between the fast and the safe lane (crates/app/src/conversation/lane_arbiter.rs): risk
  keywords, length and structure of the user's text are scored against thresholds.
\<close>

section \<open>Text\<close>

definition starts_with_whitespace :: "string \<Rightarrow> bool" where
  "starts_with_whitespace s \<longleftrightarrow> list_ex (\<lambda>w. prefix w s) whitespace_encodings"

fun take_word :: "string \<Rightarrow> string \<times> string" where
  "take_word [] = ([], [])"
| "take_word (c # cs) =
     (if starts_with_whitespace (c # cs) then ([], c # cs)
      else case take_word cs of (word, rest) \<Rightarrow> (c # word, rest))"

lemma take_word_length: "length (snd (take_word s)) \<le> length s"
  by (induction s) (auto simp: case_prod_unfold)

lemma strip_words_length: "length (strip_words ws s) \<le> length s"
  by (induction ws s rule: strip_words.induct) (auto split: option.splits intro: le_trans)

lemma strip_words_step: "strip_words ws s = c # cs \<Longrightarrow> w \<in> set ws \<Longrightarrow> w \<noteq> [] \<Longrightarrow> \<not> prefix w (c # cs)"
  by (induction ws s rule: strip_words.induct) (auto simp: find_None_iff split: option.splits)

text \<open>\<open>split_whitespace\<close>: the words between runs of whitespace.\<close>

function split_whitespace :: "string \<Rightarrow> string list" where
  "split_whitespace s =
     (let t = trim_start s in
      if t = [] then [] else case take_word t of (word, rest) \<Rightarrow> word # split_whitespace rest)"
  by auto

termination
proof (relation "measure length")
  fix s t word rest
  assume t: "t = trim_start s" "t \<noteq> []" and "(word, rest) = take_word t"
  then have rest: "rest = snd (take_word t)" by (metis snd_conv)
  obtain c cs where c: "t = c # cs" using t(2) by (cases t) auto
  have "\<not> starts_with_whitespace (c # cs)"
    using strip_words_step [of whitespace_encodings s c cs] t(1) c
    by (auto simp: starts_with_whitespace_def list_ex_iff trim_start_def dest: whitespace_hd_not_graphic)
  then have "length rest \<le> length cs" using rest c take_word_length [of cs] by (simp add: case_prod_unfold)
  moreover have "length t \<le> length s" using t(1) by (simp add: trim_start_def strip_words_length)
  ultimately show "(rest, s) \<in> measure length" using c by simp
qed simp

text \<open>The places where a needle occurs, without overlaps, as what is before and after each.\<close>

function match_places :: "string \<Rightarrow> string \<Rightarrow> string \<Rightarrow> (string \<times> string) list" where
  "match_places needle before [] = []"
| "match_places needle before (c # cs) =
     (if needle \<noteq> [] \<and> prefix needle (c # cs)
      then (before, drop (length needle) (c # cs)) #
        match_places needle (before @ needle) (drop (length needle) (c # cs))
      else match_places needle (before @ [c]) cs)"
  by pat_completeness auto
termination by (relation "measure (\<lambda>(needle, before, s). length s)") auto

section \<open>Scores\<close>

datatype execution_lane = FastLane | SafeLane

record lane_arbiter_policy =
  la_risk_threshold :: u32
  la_complexity_threshold :: u32
  la_fast_lane_max_input_chars :: usize
  la_high_risk_keywords :: "string list"

definition default_high_risk_keywords :: "string list" where
  "default_high_risk_keywords = sort (remdups [''rm -rf'', ''drop table'', ''delete'', ''credential'', ''token'', ''secret'',
     ''prod'', ''production'', ''deploy'', ''payment'', ''wallet''])"

definition lane_arbiter_policy_default :: lane_arbiter_policy where
  "lane_arbiter_policy_default = \<lparr>la_risk_threshold = 4, la_complexity_threshold = 6,
     la_fast_lane_max_input_chars = 400, la_high_risk_keywords = default_high_risk_keywords\<rparr>"

definition should_use_word_boundary_match :: "string \<Rightarrow> bool" where
  "should_use_word_boundary_match keyword \<longleftrightarrow> length keyword \<le> 4 \<and> list_all is_ascii_alphanumeric keyword"

text \<open>The character at a boundary is ASCII alphanumeric exactly when its byte next to the boundary is.\<close>

definition contains_with_word_boundaries :: "string \<Rightarrow> string \<Rightarrow> bool" where
  "contains_with_word_boundaries haystack needle \<longleftrightarrow>
     needle \<noteq> [] \<and>
     list_ex (\<lambda>(before, after). (before = [] \<or> \<not> is_ascii_alphanumeric (last before)) \<and>
       (after = [] \<or> \<not> is_ascii_alphanumeric (hd after))) (match_places needle [] haystack)"

definition keyword_matches_risk_signal :: "string \<Rightarrow> string \<Rightarrow> bool" where
  "keyword_matches_risk_signal normalized_input keyword \<longleftrightarrow>
     (if should_use_word_boundary_match keyword then contains_with_word_boundaries normalized_input keyword
      else contains_text normalized_input keyword)"

definition risk_score :: "lane_arbiter_policy \<Rightarrow> string \<Rightarrow> u32" where
  "risk_score policy user_input =
     of_nat (min (length (filter (keyword_matches_risk_signal (to_ascii_lowercase user_input)) (la_high_risk_keywords policy)) * 2)
       usize_max)"

text \<open>The last three connectors and punctuation marks are Chinese, in UTF-8.\<close>

definition connectors :: "string list" where
  "connectors = ['' and '', '' then '', '' after '', '' before '', '' meanwhile '',
     [CHR 0xE5, CHR 0x90, CHR 0x8C, CHR 0xE6, CHR 0x97, CHR 0xB6],
     [CHR 0xE7, CHR 0x84, CHR 0xB6, CHR 0xE5, CHR 0x90, CHR 0x8E],
     [CHR 0xE6, CHR 0x8E, CHR 0xA5, CHR 0xE7, CHR 0x9D, CHR 0x80]]"

definition punctuation_marks :: "string list" where
  "punctuation_marks = ['','', '';'', '':'', [CHR 0xEF, CHR 0xBC, CHR 0x8C], [CHR 0xEF, CHR 0xBC, CHR 0x9B], [CHR 0xEF, CHR 0xBC, CHR 0x9A]]"

definition count_punctuation :: "string \<Rightarrow> nat" where
  "count_punctuation s = length (filter (\<lambda>i. list_ex (\<lambda>m. prefix m (drop i s)) punctuation_marks) [0..<length s])"

definition complexity_score :: "string \<Rightarrow> u32" where
  "complexity_score user_input =
     (let normalized = to_ascii_lowercase user_input;
          tokens = (of_nat (length (split_whitespace normalized)) :: u32);
          token_component = (if 50 < tokens then 6 else if 30 < tokens then 4 else if 15 < tokens then 2 else 0);
          joined = of_nat (length (filter (contains_text normalized) connectors) * 2);
          punctuation = (of_nat (count_punctuation user_input) :: u32)
      in token_component + joined + min punctuation 3)"

definition lane_reasons :: "lane_arbiter_policy \<Rightarrow> u32 \<Rightarrow> u32 \<Rightarrow> nat \<Rightarrow> string list" where
  "lane_reasons policy risk complexity chars =
     (if la_risk_threshold policy \<le> risk then
        [''risk_score_exceeded score='' @ nat_to_dec (unat risk) @ '' threshold='' @ nat_to_dec (unat (la_risk_threshold policy))]
      else []) @
     (if la_complexity_threshold policy \<le> complexity then
        [''complexity_score_exceeded score='' @ nat_to_dec (unat complexity) @ '' threshold='' @
           nat_to_dec (unat (la_complexity_threshold policy))]
      else []) @
     (if la_fast_lane_max_input_chars policy < chars then
        [''input_length_exceeded chars='' @ nat_to_dec chars @ '' threshold='' @
           nat_to_dec (la_fast_lane_max_input_chars policy)]
      else [])"

definition decide_lane :: "lane_arbiter_policy \<Rightarrow> string \<Rightarrow> execution_lane \<times> lane_decision" where
  "decide_lane policy user_input =
     (let risk = risk_score policy user_input; complexity = complexity_score user_input;
          reasons = lane_reasons policy risk complexity (char_count user_input)
      in (if reasons = [] then FastLane else SafeLane,
          \<lparr>ld_risk_score = risk, ld_complexity_score = complexity, ld_reasons = reasons\<rparr>))"

section \<open>What the lanes mean\<close>

text \<open>The structure of a text alone scores at most twenty-five: six, two for each connector, and three.\<close>

lemma complexity_score_bound: "unat (complexity_score user_input) \<le> 25"
proof -
  let ?joined = "length (filter (contains_text (to_ascii_lowercase user_input)) connectors) * 2"
  have joined: "?joined \<le> 16"
    using length_filter_le [of "contains_text (to_ascii_lowercase user_input)" connectors] by (simp add: connectors_def)
  have "unat (a + of_nat j + b :: u32) \<le> 25" if "unat a \<le> 6" "j \<le> 16" "unat b \<le> 3" for a b :: u32 and j
  proof -
    have j: "unat (of_nat j :: u32) = j" using that(2) by (simp add: unat_of_nat take_bit_nat_eq_self)
    have "unat (a + of_nat j :: u32) \<le> 22" using that j by (simp add: unat_add_lem [THEN iffD1])
    then show ?thesis using that(3) unat_plus_if' [of "a + of_nat j" b] by simp
  qed
  note bound = this [OF _ joined]
  have "unat (min p 3 :: u32) \<le> 3" for p :: u32
  proof -
    have "min p 3 \<le> (3 :: u32)" by simp
    then have "unat (min p 3) \<le> unat (3 :: u32)" by (simp only: word_le_nat_alt)
    then show ?thesis by simp
  qed
  then show ?thesis unfolding complexity_score_def Let_def by (intro bound) auto
qed

lemma safe_lane_chosen:
  "fst (decide_lane policy user_input) = SafeLane \<longleftrightarrow>
    la_risk_threshold policy \<le> risk_score policy user_input \<or>
    la_complexity_threshold policy \<le> complexity_score user_input \<or>
    la_fast_lane_max_input_chars policy < char_count user_input"
  by (simp add: decide_lane_def Let_def lane_reasons_def)

end
