(* ===== verification/Control_Plane_Turns.thy ===== *)
theory Control_Plane_Turns
  imports Payload_Templates "HOL-Library.Product_Lexorder"
begin

text \<open>
  The registry of turns of the control plane (ControlPlaneTurnRegistry in
  crates/app/src/control_plane.rs): turns are issued, report events, and end in success or failure;
  ended turns are kept up to a limit. The clock and random numbers are arguments of the operations.
  The broadcast channel is the list of the events sent; that a send without receivers fails is ignored
  by the code.
\<close>

section \<open>Turns\<close>

datatype turn_status = TurnRunning | TurnCompleted | TurnFailed | TurnCancelled

fun turn_status_as_str :: "turn_status \<Rightarrow> string" where
  "turn_status_as_str TurnRunning = ''running''"
| "turn_status_as_str TurnCompleted = ''completed''"
| "turn_status_as_str TurnFailed = ''failed''"
| "turn_status_as_str TurnCancelled = ''cancelled''"

fun turn_status_is_terminal :: "turn_status \<Rightarrow> bool" where
  "turn_status_is_terminal TurnRunning = False"
| "turn_status_is_terminal _ = True"

record 'n turn_event =
  te_turn_id :: string
  te_session_id :: string
  te_seq :: u64
  te_terminal :: bool
  te_payload :: "'n json"

record 'n turn_snapshot =
  ts_turn_id :: string
  ts_session_id :: string
  ts_status :: turn_status
  ts_submitted_at_ms :: u64
  ts_completed_at_ms :: "u64 option"
  ts_event_count :: usize
  ts_output_text :: "string option"
  ts_stop_reason :: "string option"
  ts_usage :: "'n json option"
  ts_error :: "string option"

record 'n turn_state =
  tr_snapshot :: "'n turn_snapshot"
  tr_recent_events :: "'n turn_event list"
  tr_next_seq :: u64

record 'n turn_registry =
  tg_nonce :: u64
  tg_turns :: "(string, 'n turn_state) btree"
  tg_sent :: "'n turn_event list"

definition turn_registry_new :: "'n turn_registry" where
  "turn_registry_new = \<lparr>tg_nonce = 0, tg_turns = [], tg_sent = []\<rparr>"

definition turn_event_limit :: usize where
  "turn_event_limit = 256"

definition terminal_retention_limit :: usize where
  "terminal_retention_limit = 256"

section \<open>Issuing and reading\<close>

definition turn_id_of :: "u64 \<Rightarrow> u64 \<Rightarrow> string" where
  "turn_id_of sequence random_component = ''cpt-turn-'' @ hex16 sequence @ ''-'' @ hex16 random_component"

definition issue_turn :: "u64 \<Rightarrow> u64 \<Rightarrow> string \<Rightarrow> 'n turn_registry \<Rightarrow> 'n turn_snapshot \<times> 'n turn_registry" where
  "issue_turn now random_component session_id g =
     (let sequence = tg_nonce g + 1; turn_id = turn_id_of sequence random_component;
          snapshot = \<lparr>ts_turn_id = turn_id, ts_session_id = session_id, ts_status = TurnRunning,
            ts_submitted_at_ms = now, ts_completed_at_ms = None, ts_event_count = 0, ts_output_text = None,
            ts_stop_reason = None, ts_usage = None, ts_error = None\<rparr>
      in (snapshot, g\<lparr>tg_nonce := sequence,
            tg_turns := bt_insert turn_id \<lparr>tr_snapshot = snapshot, tr_recent_events = [], tr_next_seq = 1\<rparr> (tg_turns g)\<rparr>))"

definition read_turn :: "string \<Rightarrow> 'n turn_registry \<Rightarrow> 'n turn_snapshot option" where
  "read_turn turn_id g = map_option tr_snapshot (bt_get (tg_turns g) turn_id)"

definition turn_not_found :: "string \<Rightarrow> string" where
  "turn_not_found turn_id = ''control_plane_turn_not_found: `'' @ turn_id @ ''`''"

text \<open>\<open>limit.clamp(1, max)\<close>.\<close>

definition clamp_limit :: "usize \<Rightarrow> usize \<Rightarrow> usize" where
  "clamp_limit max_limit limit = (if limit < 1 then 1 else if max_limit < limit then max_limit else limit)"

definition turn_events_after :: "string \<Rightarrow> u64 \<Rightarrow> usize \<Rightarrow> 'n turn_registry \<Rightarrow> string + 'n turn_event list" where
  "turn_events_after turn_id after_seq limit g =
     (case bt_get (tg_turns g) turn_id of
        None \<Rightarrow> Inl (turn_not_found turn_id)
      | Some turn \<Rightarrow> Inr (take (clamp_limit turn_event_limit limit)
          (filter (\<lambda>e. after_seq < te_seq e) (tr_recent_events turn))))"

section \<open>Events\<close>

definition ensure_turn_mutable :: "'n turn_state \<Rightarrow> string \<Rightarrow> string + unit" where
  "ensure_turn_mutable turn turn_id =
     (if \<not> turn_status_is_terminal (ts_status (tr_snapshot turn)) then Inr ()
      else Inl (''control_plane_turn_already_terminal: `'' @ turn_id @ ''`''))"

text \<open>\<open>push_back\<close> and \<open>pop_front\<close> while the queue is longer than its limit.\<close>

definition push_bounded :: "usize \<Rightarrow> 'e \<Rightarrow> 'e list \<Rightarrow> 'e list" where
  "push_bounded limit e es = drop (length es + 1 - limit) (es @ [e])"

definition push_event_locked :: "bool \<Rightarrow> 'n json \<Rightarrow> 'n turn_state \<Rightarrow> 'n turn_event \<times> 'n turn_state" where
  "push_event_locked terminal payload turn =
     (let snapshot = tr_snapshot turn;
          event = \<lparr>te_turn_id = ts_turn_id snapshot, te_session_id = ts_session_id snapshot, te_seq = tr_next_seq turn,
            te_terminal = terminal, te_payload = payload\<rparr>
      in (event, \<lparr>tr_snapshot = snapshot\<lparr>ts_event_count := ts_event_count snapshot + 1\<rparr>,
            tr_recent_events = push_bounded turn_event_limit event (tr_recent_events turn),
            tr_next_seq = tr_next_seq turn + 1\<rparr>))"

definition push_turn_event :: "string \<Rightarrow> bool \<Rightarrow> 'n json \<Rightarrow> 'n turn_registry \<Rightarrow> (string + 'n turn_event) \<times> 'n turn_registry" where
  "push_turn_event turn_id terminal payload g =
     (case bt_get (tg_turns g) turn_id of
        None \<Rightarrow> (Inl (turn_not_found turn_id), g)
      | Some turn \<Rightarrow>
          (case ensure_turn_mutable turn turn_id of
             Inl e \<Rightarrow> (Inl e, g)
           | Inr _ \<Rightarrow>
               (case push_event_locked terminal payload turn of (event, turn) \<Rightarrow>
                  (Inr event, g\<lparr>tg_turns := bt_insert turn_id turn (tg_turns g), tg_sent := tg_sent g @ [event]\<rparr>))))"

definition record_runtime_event :: "string \<Rightarrow> 'n json \<Rightarrow> 'n turn_registry \<Rightarrow> (string + 'n turn_event) \<times> 'n turn_registry" where
  "record_runtime_event turn_id payload g = push_turn_event turn_id False payload g"

section \<open>Ending a turn\<close>

text \<open>The ended turns beyond the limit go, those that ended first first.\<close>

definition turn_removal_key :: "string \<times> 'n turn_state \<Rightarrow> u64 \<times> u64 \<times> string" where
  "turn_removal_key entry =
     (let snapshot = tr_snapshot (snd entry) in
      (case ts_completed_at_ms snapshot of Some t \<Rightarrow> t | None \<Rightarrow> ts_submitted_at_ms snapshot,
       ts_submitted_at_ms snapshot, fst entry))"

definition turn_is_terminal :: "'n turn_state \<Rightarrow> bool" where
  "turn_is_terminal turn \<longleftrightarrow> turn_status_is_terminal (ts_status (tr_snapshot turn))"

definition prune_terminal_turns :: "(string, 'n turn_state) btree \<Rightarrow> (string, 'n turn_state) btree" where
  "prune_terminal_turns turns =
     (let terminals = filter (\<lambda>entry. turn_is_terminal (snd entry)) turns in
      if length terminals \<le> terminal_retention_limit then turns
      else
        let overflow = length terminals - terminal_retention_limit;
            candidates = sort (map turn_removal_key terminals)
        in fold (\<lambda>(_, _, turn_id). bt_remove turn_id) (take overflow candidates) turns)"

definition end_turn ::
  "string \<Rightarrow> 'n json \<Rightarrow> ('n turn_snapshot \<Rightarrow> 'n turn_snapshot) \<Rightarrow> 'n turn_registry \<Rightarrow>
    (string + 'n turn_event) \<times> 'n turn_registry" where
  "end_turn turn_id payload finish g =
     (case bt_get (tg_turns g) turn_id of
        None \<Rightarrow> (Inl (turn_not_found turn_id), g)
      | Some turn \<Rightarrow>
          (case ensure_turn_mutable turn turn_id of
             Inl e \<Rightarrow> (Inl e, g)
           | Inr _ \<Rightarrow>
               (case push_event_locked True payload (turn\<lparr>tr_snapshot := finish (tr_snapshot turn)\<rparr>) of (event, turn) \<Rightarrow>
                  (Inr event, g\<lparr>tg_turns := prune_terminal_turns (bt_insert turn_id turn (tg_turns g)),
                     tg_sent := tg_sent g @ [event]\<rparr>))))"

definition json_option :: "('v \<Rightarrow> 'n json) \<Rightarrow> 'v option \<Rightarrow> 'n json" where
  "json_option f v = (case v of Some x \<Rightarrow> f x | None \<Rightarrow> JNull)"

definition complete_success ::
  "u64 \<Rightarrow> string \<Rightarrow> string \<Rightarrow> string option \<Rightarrow> 'n json option \<Rightarrow> 'n turn_registry \<Rightarrow> (string + 'n turn_event) \<times> 'n turn_registry" where
  "complete_success now turn_id output_text stop_reason usage g =
     end_turn turn_id
       (json_object [(''event_type'', JString ''turn.completed''), (''output_text'', JString output_text),
          (''stop_reason'', json_option JString stop_reason), (''usage'', json_option id usage)])
       (\<lambda>snapshot. snapshot\<lparr>ts_status := (if stop_reason = Some ''cancelled'' then TurnCancelled else TurnCompleted),
          ts_completed_at_ms := Some now, ts_output_text := Some output_text, ts_stop_reason := stop_reason,
          ts_usage := usage, ts_error := None\<rparr>) g"

definition complete_failure ::
  "u64 \<Rightarrow> string \<Rightarrow> string \<Rightarrow> 'n turn_registry \<Rightarrow> (string + 'n turn_event) \<times> 'n turn_registry" where
  "complete_failure now turn_id error g =
     end_turn turn_id (json_object [(''event_type'', JString ''turn.failed''), (''error'', JString error)])
       (\<lambda>snapshot. snapshot\<lparr>ts_status := TurnFailed, ts_completed_at_ms := Some now, ts_error := Some error,
          ts_output_text := None, ts_stop_reason := None, ts_usage := None\<rparr>) g"

section \<open>Runs of the registry\<close>

datatype 'n turn_op =
    IssueTurn u64 u64 string
  | RuntimeEvent string "'n json"
  | CompleteSuccess u64 string string "string option" "'n json option"
  | CompleteFailure u64 string string

fun turn_op_step :: "'n turn_op \<Rightarrow> 'n turn_registry \<Rightarrow> 'n turn_registry" where
  "turn_op_step (IssueTurn now r session_id) g = snd (issue_turn now r session_id g)"
| "turn_op_step (RuntimeEvent turn_id payload) g = snd (record_runtime_event turn_id payload g)"
| "turn_op_step (CompleteSuccess now turn_id output_text stop_reason usage) g =
     snd (complete_success now turn_id output_text stop_reason usage g)"
| "turn_op_step (CompleteFailure now turn_id error) g = snd (complete_failure now turn_id error g)"

definition run_turn_ops :: "'n turn_op list \<Rightarrow> 'n turn_registry" where
  "run_turn_ops ops = fold turn_op_step ops turn_registry_new"

section \<open>The invariant\<close>

definition sent_for :: "'n turn_registry \<Rightarrow> string \<Rightarrow> 'n turn_event list" where
  "sent_for g turn_id = filter (\<lambda>e. te_turn_id e = turn_id) (tg_sent g)"

text \<open>The events of a turn are numbered from one on, and nothing follows a terminal one.\<close>

definition turn_log_ok :: "'n turn_event list \<Rightarrow> bool" where
  "turn_log_ok events \<longleftrightarrow>
     map te_seq events = map of_nat [1..<length events + 1] \<and> list_all (\<lambda>e. \<not> te_terminal e) (butlast events)"

definition turn_state_ok :: "'n turn_event list \<Rightarrow> string \<Rightarrow> 'n turn_state \<Rightarrow> bool" where
  "turn_state_ok events turn_id turn \<longleftrightarrow>
     ts_turn_id (tr_snapshot turn) = turn_id \<and> ts_event_count (tr_snapshot turn) = length events \<and>
     tr_next_seq turn = of_nat (length events + 1) \<and>
     tr_recent_events turn = drop (length events - turn_event_limit) events \<and>
     (turn_is_terminal turn \<longleftrightarrow> list_ex te_terminal events)"

definition turn_registry_ok :: "'n turn_registry \<Rightarrow> bool" where
  "turn_registry_ok g \<longleftrightarrow>
     bt_wf (tg_turns g) \<and> (\<forall>turn_id. turn_log_ok (sent_for g turn_id)) \<and>
     (\<forall>turn_id turn. bt_get (tg_turns g) turn_id = Some turn \<longrightarrow> turn_state_ok (sent_for g turn_id) turn_id turn) \<and>
     (\<forall>turn_id. bt_get (tg_turns g) turn_id \<noteq> None \<or> sent_for g turn_id \<noteq> [] \<longrightarrow>
        (\<exists>s r. turn_id = turn_id_of s r \<and> 0 < s \<and> s \<le> tg_nonce g)) \<and>
     length (filter (\<lambda>entry. turn_is_terminal (snd entry)) (tg_turns g)) \<le> terminal_retention_limit"

lemma turn_registry_new_ok: "turn_registry_ok turn_registry_new"
  by (simp add: turn_registry_ok_def turn_registry_new_def sent_for_def turn_log_ok_def)

section \<open>Bounded queues\<close>

lemma push_bounded_suffix:
  "push_bounded limit e (drop (length es - limit) es) = drop (length es + 1 - limit) (es @ [e])"
proof (cases "length es < limit")
  case True
  then show ?thesis by (simp add: push_bounded_def)
next
  case False
  then have "drop (length es - limit) es @ [e] = drop (length es - limit) (es @ [e])" by simp
  then show ?thesis using False by (simp add: push_bounded_def Suc_diff_le)
qed

section \<open>Pruning\<close>

lemma fold_bt_remove:
  "fold (\<lambda>(_, _, k). bt_remove k) ks m = filter (\<lambda>e. fst e \<notin> (\<lambda>(_, _, k). k) ` set ks) m"
  by (induction ks arbitrary: m) (auto simp: bt_remove_def case_prod_unfold conj_commute intro: filter_cong)

lemma bt_get_filter:
  "bt_get (filter (\<lambda>e. fst e \<notin> ks) m) k = (if k \<in> ks then None else bt_get m k)"
  by (induction m) auto

lemma bt_wf_filter: "bt_wf m \<Longrightarrow> bt_wf (filter P m)"
  by (simp add: bt_wf_def sorted_wrt_map sorted_wrt_filter)

lemma length_filter_notin:
  assumes "distinct (map fst m)" and "ks \<subseteq> fst ` set m"
  shows "length (filter (\<lambda>e. fst e \<notin> ks) m) + card ks = length m"
proof -
  have "length (filter (\<lambda>e. fst e \<in> ks) m) = card (fst ` set (filter (\<lambda>e. fst e \<in> ks) m))"
    using distinct_card [OF distinct_map_filter [OF assms(1), of "\<lambda>e. fst e \<in> ks"]] by simp
  also have "fst ` set (filter (\<lambda>e. fst e \<in> ks) m) = ks" using assms(2) by auto
  finally show ?thesis using sum_length_filter_compl [of "\<lambda>e. fst e \<in> ks" m] by simp
qed

lemma prune_terminal_turns_facts:
  assumes "bt_wf turns"
  shows "bt_wf (prune_terminal_turns turns)"
    and "bt_get (prune_terminal_turns turns) k = Some turn \<Longrightarrow> bt_get turns k = Some turn"
    and "bt_get turns k = Some turn \<Longrightarrow> \<not> turn_is_terminal turn \<Longrightarrow> bt_get (prune_terminal_turns turns) k = Some turn"
    and "length (filter (\<lambda>entry. turn_is_terminal (snd entry)) (prune_terminal_turns turns)) \<le> terminal_retention_limit"
proof -
  let ?terminals = "filter (\<lambda>entry. turn_is_terminal (snd entry)) turns"
  let ?n = "length ?terminals - terminal_retention_limit"
  let ?cut = "take ?n (sort (map turn_removal_key ?terminals))"
  let ?ks = "(\<lambda>(_, _, k). k) ` set ?cut"
  have pruned: "prune_terminal_turns turns =
      (if length ?terminals \<le> terminal_retention_limit then turns else filter (\<lambda>e. fst e \<notin> ?ks) turns)"
    by (simp add: prune_terminal_turns_def Let_def fold_bt_remove)
  show "bt_wf (prune_terminal_turns turns)" using assms by (simp add: pruned bt_wf_filter)
  show "bt_get (prune_terminal_turns turns) k = Some turn \<Longrightarrow> bt_get turns k = Some turn"
    by (simp add: pruned bt_get_filter split: if_splits)
  have distinct: "distinct (map fst turns)" using assms by (rule bt_wf_distinct)
  have keys: "?ks \<subseteq> fst ` set ?terminals"
    by (auto simp: turn_removal_key_def Let_def dest!: in_set_takeD)
  show "bt_get (prune_terminal_turns turns) k = Some turn"
    if "bt_get turns k = Some turn" "\<not> turn_is_terminal turn"
  proof -
    have "k \<notin> ?ks"
    proof
      assume "k \<in> ?ks"
      then obtain t where "(k, t) \<in> set turns" "turn_is_terminal t" using keys by auto
      then show False using that distinct map_of_eq_Some_iff [OF distinct] by auto
    qed
    then show ?thesis using that by (simp add: pruned bt_get_filter)
  qed
  show "length (filter (\<lambda>entry. turn_is_terminal (snd entry)) (prune_terminal_turns turns)) \<le> terminal_retention_limit"
  proof (cases "length ?terminals \<le> terminal_retention_limit")
    case True
    then show ?thesis by (simp add: pruned)
  next
    case False
    have dt: "distinct (map fst ?terminals)" by (rule distinct_map_filter [OF distinct])
    have "map (\<lambda>(_, _, k). k) (map turn_removal_key ?terminals) = map fst ?terminals"
      by (simp add: turn_removal_key_def Let_def comp_def)
    then have "distinct (map (\<lambda>(_, _, k). k) (map turn_removal_key ?terminals))" using dt by (simp only:)
    then have "distinct (map (\<lambda>(_, _, k). k) (sort (map turn_removal_key ?terminals)))"
      unfolding distinct_map set_sort distinct_sort by blast
    then have "distinct (map (\<lambda>(_, _, k). k) ?cut)" unfolding take_map [symmetric] by (rule distinct_take)
    from distinct_card [OF this] have "card ?ks = ?n" by simp
    then have "length (filter (\<lambda>e. fst e \<notin> ?ks) ?terminals) + ?n = length ?terminals"
      using length_filter_notin [OF dt keys] by simp
    then have "length (filter (\<lambda>e. fst e \<notin> ?ks) ?terminals) \<le> terminal_retention_limit" using False by simp
    then show ?thesis using False by (simp add: pruned conj_commute)
  qed
qed

section \<open>Operations keep the invariant\<close>

lemma turn_id_of_inj: "turn_id_of s r = turn_id_of s' r' \<longleftrightarrow> s = s' \<and> r = r'"
proof -
  have "length (hex16 w) = 16" for w by (simp add: hex16_def)
  then show ?thesis by (auto simp: turn_id_of_def hex16_inj append_eq_append_conv)
qed

lemma sent_for_append: "sent_for (g\<lparr>tg_turns := turns, tg_sent := tg_sent g @ [e]\<rparr>) k =
    sent_for g k @ (if te_turn_id e = k then [e] else [])"
  by (simp add: sent_for_def)

lemma turn_log_append:
  "turn_log_ok events \<Longrightarrow> \<not> list_ex te_terminal events \<Longrightarrow> te_seq e = of_nat (length events + 1) \<Longrightarrow>
    turn_log_ok (events @ [e])"
  by (auto simp: turn_log_ok_def list_ex_iff list_all_iff)

text \<open>A turn that takes one more event.\<close>

lemma pushed_turn_ok:
  assumes "turn_registry_ok g" and "bt_get (tg_turns g) k = Some turn" and "\<not> turn_is_terminal turn"
    and "ts_turn_id (tr_snapshot turn') = k" and "ts_event_count (tr_snapshot turn') = ts_event_count (tr_snapshot turn)"
    and "tr_recent_events turn' = tr_recent_events turn" and "tr_next_seq turn' = tr_next_seq turn"
    and "turn_is_terminal turn' = terminal" and "push_event_locked terminal payload turn' = (event, turn'')"
  shows "te_turn_id event = k" and "turn_log_ok (sent_for g k @ [event])"
    and "turn_state_ok (sent_for g k @ [event]) k turn''" and "turn_is_terminal turn'' = terminal"
proof -
  let ?events = "sent_for g k"
  have ok: "turn_state_ok ?events k turn" "turn_log_ok ?events" using assms(1,2) by (auto simp: turn_registry_ok_def)
  then have none: "\<not> list_ex te_terminal ?events" using assms(3) by (simp add: turn_state_ok_def)
  have event: "te_turn_id event = k" "te_seq event = of_nat (length ?events + 1)" "te_terminal event = terminal"
    using ok(1) assms(4-9) by (auto simp: push_event_locked_def Let_def turn_state_ok_def)
  show "te_turn_id event = k" by (fact event(1))
  show "turn_log_ok (?events @ [event])" using ok(2) none event(2) by (rule turn_log_append)
  show "turn_is_terminal turn'' = terminal"
    using assms(8,9) by (auto simp: push_event_locked_def Let_def turn_is_terminal_def)
  then show "turn_state_ok (?events @ [event]) k turn''"
    using ok(1) assms(4-9) none event push_bounded_suffix [of turn_event_limit event ?events]
    by (auto simp: turn_state_ok_def push_event_locked_def Let_def)
qed

lemma registry_takes_event:
  assumes ok: "turn_registry_ok g" and turn: "bt_get (tg_turns g) k = Some turn"
    and pushed: "te_turn_id event = k" "turn_log_ok (sent_for g k @ [event])" "turn_state_ok (sent_for g k @ [event]) k turn''"
    and turns: "bt_wf turns" "\<And>j t. bt_get turns j = Some t \<Longrightarrow> bt_get (bt_insert k turn'' (tg_turns g)) j = Some t"
    and few: "length (filter (\<lambda>entry. turn_is_terminal (snd entry)) turns) \<le> terminal_retention_limit"
  shows "turn_registry_ok (g\<lparr>tg_turns := turns, tg_sent := tg_sent g @ [event]\<rparr>)"
  unfolding turn_registry_ok_def sent_for_append
proof (intro conjI allI impI)
  let ?g = "g\<lparr>tg_turns := turns, tg_sent := tg_sent g @ [event]\<rparr>"
  show "bt_wf (tg_turns ?g)" using turns(1) by simp
  show "turn_log_ok (sent_for g j @ (if te_turn_id event = j then [event] else []))" for j
    using ok pushed(1,2) by (auto simp: turn_registry_ok_def)
  show "turn_state_ok (sent_for g j @ (if te_turn_id event = j then [event] else [])) j t"
    if "bt_get (tg_turns ?g) j = Some t" for j t
    using that ok pushed(1,3) turns(2) [of j t] by (auto simp: turn_registry_ok_def split: if_splits)
  show "\<exists>s r. j = turn_id_of s r \<and> 0 < s \<and> s \<le> tg_nonce ?g"
    if j: "bt_get (tg_turns ?g) j \<noteq> None \<or> sent_for g j @ (if te_turn_id event = j then [event] else []) \<noteq> []" for j
  proof -
    have "bt_get (tg_turns g) j \<noteq> None \<or> sent_for g j \<noteq> []"
      using j turn pushed(1) turns(2) [of j] by (auto split: if_splits)
    then show ?thesis using ok by (auto simp: turn_registry_ok_def)
  qed
  show "length (filter (\<lambda>entry. turn_is_terminal (snd entry)) (tg_turns ?g)) \<le> terminal_retention_limit"
    using few by simp
qed

lemma terminal_count_insert:
  "\<not> turn_is_terminal turn \<Longrightarrow> length (filter (\<lambda>entry. turn_is_terminal (snd entry)) (bt_insert k turn m)) \<le>
    length (filter (\<lambda>entry. turn_is_terminal (snd entry)) m)"
  by (induction m) (auto split: if_splits)

lemma push_turn_event_ok:
  assumes ok: "turn_registry_ok g"
  shows "turn_registry_ok (snd (push_turn_event k False payload g))"
proof (cases "bt_get (tg_turns g) k")
  case None
  then show ?thesis using ok by (simp add: push_turn_event_def)
next
  case (Some turn)
  show ?thesis
  proof (cases "turn_is_terminal turn")
    case True
    then show ?thesis using ok Some by (simp add: push_turn_event_def ensure_turn_mutable_def turn_is_terminal_def)
  next
    case False
    obtain event turn' where pushed: "push_event_locked False payload turn = (event, turn')" by fastforce
    have id: "ts_turn_id (tr_snapshot turn) = k" using ok Some by (auto simp: turn_registry_ok_def turn_state_ok_def)
    have facts: "te_turn_id event = k" "turn_log_ok (sent_for g k @ [event])" "turn_state_ok (sent_for g k @ [event]) k turn'"
      "\<not> turn_is_terminal turn'"
      using pushed_turn_ok [OF ok Some False id refl refl refl _ pushed] False by simp_all
    have wf: "bt_wf (tg_turns g)" "length (filter (\<lambda>entry. turn_is_terminal (snd entry)) (tg_turns g)) \<le> terminal_retention_limit"
      using ok by (simp_all add: turn_registry_ok_def)
    have "turn_registry_ok (g\<lparr>tg_turns := bt_insert k turn' (tg_turns g), tg_sent := tg_sent g @ [event]\<rparr>)"
      by (rule registry_takes_event [OF ok Some facts(1-3)])
        (use wf terminal_count_insert [OF facts(4), of k "tg_turns g"] in auto)
    then show ?thesis
      using Some False pushed by (simp add: push_turn_event_def ensure_turn_mutable_def turn_is_terminal_def)
  qed
qed

lemma end_turn_ok:
  assumes ok: "turn_registry_ok g"
    and finish: "\<And>snapshot. ts_turn_id (finish snapshot) = ts_turn_id snapshot \<and>
      ts_event_count (finish snapshot) = ts_event_count snapshot \<and> turn_status_is_terminal (ts_status (finish snapshot))"
  shows "turn_registry_ok (snd (end_turn k payload finish g))"
proof (cases "bt_get (tg_turns g) k")
  case None
  then show ?thesis using ok by (simp add: end_turn_def)
next
  case (Some turn)
  show ?thesis
  proof (cases "turn_is_terminal turn")
    case True
    then show ?thesis using ok Some by (simp add: end_turn_def ensure_turn_mutable_def turn_is_terminal_def)
  next
    case False
    let ?turn = "turn\<lparr>tr_snapshot := finish (tr_snapshot turn)\<rparr>"
    obtain event turn' where pushed: "push_event_locked True payload ?turn = (event, turn')" by fastforce
    have id: "ts_turn_id (tr_snapshot ?turn) = k"
      using ok Some finish by (auto simp: turn_registry_ok_def turn_state_ok_def)
    have facts: "te_turn_id event = k" "turn_log_ok (sent_for g k @ [event])" "turn_state_ok (sent_for g k @ [event]) k turn'"
      using pushed_turn_ok [OF ok Some False id _ _ _ _ pushed] finish by (simp_all add: turn_is_terminal_def)
    have wf: "bt_wf (bt_insert k turn' (tg_turns g))" using ok by (simp add: turn_registry_ok_def)
    have "turn_registry_ok (g\<lparr>tg_turns := prune_terminal_turns (bt_insert k turn' (tg_turns g)), tg_sent := tg_sent g @ [event]\<rparr>)"
      by (rule registry_takes_event [OF ok Some facts prune_terminal_turns_facts(1) [OF wf]
            prune_terminal_turns_facts(2) [OF wf] prune_terminal_turns_facts(4) [OF wf]])
    then show ?thesis
      using Some False pushed by (simp add: end_turn_def ensure_turn_mutable_def turn_is_terminal_def)
  qed
qed

lemma turn_registry_ok_ids:
  assumes "turn_registry_ok g" and "bt_get (tg_turns g) k \<noteq> None \<or> sent_for g k \<noteq> []"
  obtains s r where "k = turn_id_of s r" "0 < s" "s \<le> tg_nonce g"
  using assms unfolding turn_registry_ok_def by blast

lemma issued_turn_ok: "turn_state_ok [] k \<lparr>tr_snapshot = \<lparr>ts_turn_id = k, ts_session_id = session_id, ts_status = TurnRunning,
    ts_submitted_at_ms = now, ts_completed_at_ms = None, ts_event_count = 0, ts_output_text = None,
    ts_stop_reason = None, ts_usage = None, ts_error = None\<rparr>, tr_recent_events = [], tr_next_seq = 1\<rparr>"
  by (simp add: turn_state_ok_def turn_is_terminal_def)

lemma issue_turn_ok:
  assumes ok: "turn_registry_ok g" and room: "tg_nonce g \<noteq> - 1"
  shows "turn_registry_ok (snd (issue_turn now r session_id g))"
proof -
  let ?s = "tg_nonce g + 1"
  let ?k = "turn_id_of ?s r"
  have "?s \<noteq> 0" using room by (simp add: add_eq_0_iff2)
  then have less: "tg_nonce g < ?s" using unatSuc [of "tg_nonce g"] by (simp add: add.commute word_less_nat_alt)
  have fresh: "\<not> (bt_get (tg_turns g) ?k \<noteq> None \<or> sent_for g ?k \<noteq> [])"
  proof
    assume "bt_get (tg_turns g) ?k \<noteq> None \<or> sent_for g ?k \<noteq> []"
    with ok obtain s r' where "?k = turn_id_of s r'" "s \<le> tg_nonce g" by (rule turn_registry_ok_ids)
    then show False using less by (simp add: turn_id_of_inj)
  qed
  let ?snapshot = "fst (issue_turn now r session_id g)"
  let ?turn = "\<lparr>tr_snapshot = ?snapshot, tr_recent_events = [], tr_next_seq = 1\<rparr>"
  have g': "snd (issue_turn now r session_id g) = g\<lparr>tg_nonce := ?s, tg_turns := bt_insert ?k ?turn (tg_turns g)\<rparr>"
    by (simp add: issue_turn_def Let_def)
  have state: "turn_state_ok [] ?k ?turn" using issued_turn_ok by (simp add: issue_turn_def Let_def)
  then have running: "\<not> turn_is_terminal ?turn" by (simp add: turn_state_ok_def)
  have sent: "sent_for (g\<lparr>tg_nonce := ?s, tg_turns := turns\<rparr>) j = sent_for g j" for j turns
    by (simp add: sent_for_def)
  show ?thesis
    unfolding turn_registry_ok_def g' sent
  proof (intro conjI allI impI)
    show "bt_wf (tg_turns (g\<lparr>tg_nonce := ?s, tg_turns := bt_insert ?k ?turn (tg_turns g)\<rparr>))"
      using ok by (simp add: turn_registry_ok_def)
    show "turn_log_ok (sent_for g j)" for j using ok by (simp add: turn_registry_ok_def)
    show "turn_state_ok (sent_for g j) j t"
      if "bt_get (tg_turns (g\<lparr>tg_nonce := ?s, tg_turns := bt_insert ?k ?turn (tg_turns g)\<rparr>)) j = Some t" for j t
    proof (cases "j = ?k")
      case True
      then show ?thesis using that fresh state by simp
    next
      case False
      then show ?thesis using that ok by (simp add: turn_registry_ok_def)
    qed
    show "\<exists>s r. j = turn_id_of s r \<and> 0 < s \<and> s \<le> tg_nonce (g\<lparr>tg_nonce := ?s, tg_turns := bt_insert ?k ?turn (tg_turns g)\<rparr>)"
      if "bt_get (tg_turns (g\<lparr>tg_nonce := ?s, tg_turns := bt_insert ?k ?turn (tg_turns g)\<rparr>)) j \<noteq> None \<or> sent_for g j \<noteq> []" for j
    proof (cases "j = ?k")
      case True
      have "0 < ?s" using \<open>?s \<noteq> 0\<close> by (simp add: word_neq_0_conv)
      then show ?thesis using True by auto
    next
      case False
      then have "bt_get (tg_turns g) j \<noteq> None \<or> sent_for g j \<noteq> []" using that by simp
      with ok obtain s r where "j = turn_id_of s r" "0 < s" "s \<le> tg_nonce g" by (rule turn_registry_ok_ids)
      moreover have "s \<le> ?s" using calculation(3) less by (rule order_trans [OF _ less_imp_le])
      ultimately show ?thesis by auto
    qed
    show "length (filter (\<lambda>entry. turn_is_terminal (snd entry)) (tg_turns (g\<lparr>tg_nonce := ?s, tg_turns := bt_insert ?k ?turn (tg_turns g)\<rparr>)))
        \<le> terminal_retention_limit"
      using order_trans [OF terminal_count_insert [OF running, of ?k "tg_turns g"]] ok by (simp add: turn_registry_ok_def)
  qed
qed

lemma turn_op_step_ok: "turn_registry_ok g \<Longrightarrow> tg_nonce g \<noteq> - 1 \<Longrightarrow> turn_registry_ok (turn_op_step op g)"
  by (cases op)
    (auto simp: record_runtime_event_def complete_success_def complete_failure_def
      intro!: issue_turn_ok push_turn_event_ok end_turn_ok)

lemma turn_op_step_nonce: "tg_nonce (turn_op_step op g) \<in> {tg_nonce g, tg_nonce g + 1}"
  by (cases op)
    (auto simp: record_runtime_event_def complete_success_def complete_failure_def push_turn_event_def end_turn_def
      issue_turn_def Let_def case_prod_unfold split: option.split sum.split)

lemma run_turn_ops_ok:
  "length ops < 2 ^ 64 \<Longrightarrow> turn_registry_ok (run_turn_ops ops) \<and> unat (tg_nonce (run_turn_ops ops)) \<le> length ops"
proof (induction ops rule: rev_induct)
  case Nil
  then show ?case using turn_registry_new_ok by (simp add: run_turn_ops_def turn_registry_new_def)
next
  case (snoc op ops)
  let ?g = "run_turn_ops ops"
  have ih: "turn_registry_ok ?g" "unat (tg_nonce ?g) \<le> length ops" using snoc by auto
  have run: "run_turn_ops (ops @ [op]) = turn_op_step op ?g" by (simp add: run_turn_ops_def)
  have "unat (- 1 :: u64) = 2 ^ 64 - 1" by (simp add: unsigned_minus_1_eq_mask mask_eq_exp_minus_1)
  then have "tg_nonce ?g \<noteq> - 1" using ih(2) snoc.prems by auto
  moreover have "unat (tg_nonce ?g + 1) \<le> unat (tg_nonce ?g) + 1"
    by (simp add: unat_word_ariths(1))
  ultimately show ?case
    using turn_op_step_ok [OF ih(1)] turn_op_step_nonce [of op ?g] ih(2) unfolding run by auto
qed


section \<open>What is sent\<close>

lemma turn_op_step_sent: "length (tg_sent (turn_op_step op g)) \<le> length (tg_sent g) + 1"
  by (cases op)
    (auto simp: record_runtime_event_def complete_success_def complete_failure_def push_turn_event_def end_turn_def
      issue_turn_def Let_def case_prod_unfold split: option.split sum.split)

lemma run_turn_ops_sent: "length (tg_sent (run_turn_ops ops)) \<le> length ops"
proof (induction ops rule: rev_induct)
  case Nil
  then show ?case by (simp add: run_turn_ops_def turn_registry_new_def)
next
  case (snoc op ops)
  then show ?case using turn_op_step_sent [of op "run_turn_ops ops"] by (simp add: run_turn_ops_def)
qed

lemma sent_for_length: "length (sent_for (run_turn_ops ops) turn_id) \<le> length ops"
  using le_trans [OF length_filter_le run_turn_ops_sent] by (simp add: sent_for_def)

text \<open>
  The events that fell out of a queue of length k have numbers up to the number of events less k: a reader
  no more than k behind misses none.
\<close>

lemma later_events_are_kept:
  fixes sq :: "'e \<Rightarrow> u64"
  assumes numbered: "map sq events = map of_nat [1..<length events + 1]" and small: "length events < 2 ^ 64"
    and near: "length events \<le> unat after_seq + k"
  shows "filter (\<lambda>e. after_seq < sq e) (drop (length events - k) events) = filter (\<lambda>e. after_seq < sq e) events"
proof -
  let ?n = "length events - k"
  have seq: "sq (events ! i) = of_nat (Suc i)" if "i < length events" for i
  proof -
    have "map sq events ! i = map of_nat [1..<length events + 1] ! i" by (simp only: numbered)
    then show ?thesis using that by (simp del: upt_Suc)
  qed
  have none: "filter (\<lambda>e. after_seq < sq e) (take ?n events) = []"
  proof (rule ccontr)
    assume "filter (\<lambda>e. after_seq < sq e) (take ?n events) \<noteq> []"
    then obtain e where "e \<in> set (take ?n events)" "after_seq < sq e" by (auto simp: filter_empty_conv)
    then obtain i where i: "i < ?n" "i < length events" "after_seq < sq (events ! i)" by (auto simp: in_set_conv_nth)
    then have "unat after_seq < unat (of_nat (Suc i) :: u64)" using seq [OF i(2)] by (simp only: word_less_nat_alt)
    moreover have "unat (of_nat (Suc i) :: u64) = Suc i" using i(2) small by (simp add: unat_of_nat del: of_nat_Suc)
    ultimately show False using near i(1) by simp
  qed
  have "filter (\<lambda>e. after_seq < sq e) (take ?n events @ drop ?n events) = filter (\<lambda>e. after_seq < sq e) (drop ?n events)"
    unfolding filter_append none by simp
  then show ?thesis by simp
qed

section \<open>What a client of the registry can rely on\<close>

text \<open>
  The events of every turn are numbered without gaps from one on, only the last can be terminal, the record
  of a turn reads as ended exactly when its terminal event has been sent, and at most 256 ended turns are kept,
  for every run of the registry with fewer than \<open>2 ^ 64\<close> operations.
\<close>

theorem turn_events_are_numbered:
  fixes ops :: "'n turn_op list"
  assumes "length ops < 2 ^ 64"
  shows "map te_seq (sent_for (run_turn_ops ops) turn_id) = map of_nat [1..<length (sent_for (run_turn_ops ops) turn_id) + 1] \<and>
    list_all (\<lambda>e. \<not> te_terminal e) (butlast (sent_for (run_turn_ops ops) turn_id)) \<and>
    (\<forall>snapshot. read_turn turn_id (run_turn_ops ops) = Some snapshot \<longrightarrow>
      ts_event_count snapshot = length (sent_for (run_turn_ops ops) turn_id) \<and>
      turn_status_is_terminal (ts_status snapshot) = list_ex te_terminal (sent_for (run_turn_ops ops) turn_id)) \<and>
    length (filter (\<lambda>entry. turn_is_terminal (snd entry)) (tg_turns (run_turn_ops ops))) \<le> 256"
  using conjunct1 [OF run_turn_ops_ok [OF assms]]
  by (auto simp: turn_registry_ok_def turn_log_ok_def turn_state_ok_def turn_is_terminal_def read_turn_def terminal_retention_limit_def)

definition sample_turn_ops :: "nat turn_op list" where
  "sample_turn_ops = [IssueTurn 5 7 ''s'', RuntimeEvent (turn_id_of 1 7) JNull, CompleteFailure 9 (turn_id_of 1 7) ''x'']"

lemma turn_events_are_numbered_witness:
  "map te_seq (sent_for (run_turn_ops sample_turn_ops) (turn_id_of 1 7)) = [1, 2]"
proof -
  have "length (sent_for (run_turn_ops sample_turn_ops) (turn_id_of 1 7)) = 2"
    by (simp add: sample_turn_ops_def run_turn_ops_def turn_registry_new_def issue_turn_def record_runtime_event_def
      push_turn_event_def complete_failure_def end_turn_def push_event_locked_def ensure_turn_mutable_def sent_for_def Let_def)
  then show ?thesis
    using turn_events_are_numbered [of sample_turn_ops "turn_id_of 1 7"] by (simp add: sample_turn_ops_def upt_rec)
qed

text \<open>
  A reader of a turn that is at most 256 events behind, and asks for no fewer than 256, gets every event of the
  turn after the last one it has seen, in the order they were sent; the terminal one too.
\<close>

theorem readers_get_all_later_events:
  fixes ops :: "'n turn_op list"
  assumes "length ops < 2 ^ 64"
    and "read_turn turn_id (run_turn_ops ops) = Some snapshot"
    and "ts_event_count snapshot \<le> unat after_seq + 256" and "256 \<le> limit"
  shows "turn_events_after turn_id after_seq limit (run_turn_ops ops) =
    Inr (filter (\<lambda>e. after_seq < te_seq e) (sent_for (run_turn_ops ops) turn_id))"
proof -
  let ?g = "run_turn_ops ops"
  let ?events = "sent_for ?g turn_id"
  have ok: "turn_registry_ok ?g" using run_turn_ops_ok [OF assms(1)] by simp
  obtain turn where turn: "bt_get (tg_turns ?g) turn_id = Some turn" "snapshot = tr_snapshot turn"
    using assms(2) by (auto simp: read_turn_def)
  have state: "turn_state_ok ?events turn_id turn" and log: "turn_log_ok ?events"
    using ok turn(1) by (auto simp: turn_registry_ok_def)
  have recent: "tr_recent_events turn = drop (length ?events - 256) ?events"
    using state by (simp add: turn_state_ok_def turn_event_limit_def)
  have near: "length ?events \<le> unat after_seq + 256" using assms(3) state turn(2) by (simp add: turn_state_ok_def)
  have small: "length ?events < 2 ^ 64" using sent_for_length [of ops turn_id] assms(1) by simp
  have "length (filter (\<lambda>e. after_seq < te_seq e) (tr_recent_events turn)) \<le> 256"
    using le_trans [OF length_filter_le, of "tr_recent_events turn" 256] recent by simp
  then have "take (clamp_limit turn_event_limit limit) (filter (\<lambda>e. after_seq < te_seq e) (tr_recent_events turn)) =
      filter (\<lambda>e. after_seq < te_seq e) (tr_recent_events turn)"
    using assms(4) by (simp add: clamp_limit_def turn_event_limit_def)
  then show ?thesis
    using later_events_are_kept [OF log [unfolded turn_log_ok_def, THEN conjunct1] small near] turn(1) by (simp add: turn_events_after_def recent)
qed

lemma readers_get_all_later_events_witness:
  "\<exists>es. turn_events_after (turn_id_of 1 7) 1 300 (run_turn_ops sample_turn_ops) = Inr es \<and>
    es = filter (\<lambda>e. 1 < te_seq e) (sent_for (run_turn_ops sample_turn_ops) (turn_id_of 1 7)) \<and> length es = 1"
proof -
  let ?g = "run_turn_ops sample_turn_ops"
  have sent: "length (filter (\<lambda>e. 1 < te_seq e) (sent_for ?g (turn_id_of 1 7))) = 1"
    and "\<exists>snapshot. read_turn (turn_id_of 1 7) ?g = Some snapshot \<and> ts_event_count snapshot = 2"
    by (simp_all add: sample_turn_ops_def run_turn_ops_def turn_registry_new_def issue_turn_def record_runtime_event_def
      push_turn_event_def complete_failure_def end_turn_def push_event_locked_def ensure_turn_mutable_def sent_for_def
      read_turn_def prune_terminal_turns_def terminal_retention_limit_def turn_is_terminal_def Let_def)
  then obtain snapshot where "read_turn (turn_id_of 1 7) ?g = Some snapshot" "ts_event_count snapshot = 2" by blast
  then show ?thesis
    using readers_get_all_later_events [of sample_turn_ops "turn_id_of 1 7" snapshot 1 300] sent
    by (simp add: sample_turn_ops_def)
qed

text \<open>Pruning never removes a running turn, and a turn that has ended takes no more events.\<close>

lemma running_turns_are_kept:
  assumes "turn_registry_ok g" and "bt_get (tg_turns g) k = Some turn" and "\<not> turn_is_terminal turn" and "k \<noteq> j"
  shows "bt_get (tg_turns (snd (end_turn j payload finish g))) k = Some turn"
proof -
  have wf: "bt_wf (bt_insert j turn' (tg_turns g))" for turn' using assms(1) by (simp add: turn_registry_ok_def)
  have "bt_get (prune_terminal_turns (bt_insert j turn' (tg_turns g))) k = Some turn" for turn'
    using assms(2-4) by (intro prune_terminal_turns_facts(3) [OF wf]) simp_all
  then show ?thesis
    using assms(2) by (simp add: end_turn_def case_prod_unfold split: option.split sum.split)
qed

lemma ended_turns_refuse_events:
  assumes "read_turn k g = Some snapshot" and "turn_status_is_terminal (ts_status snapshot)"
  shows "push_turn_event k terminal payload g = (Inl (''control_plane_turn_already_terminal: `'' @ k @ ''`''), g)"
    and "end_turn k payload finish g = (Inl (''control_plane_turn_already_terminal: `'' @ k @ ''`''), g)"
  using assms by (auto simp: read_turn_def push_turn_event_def end_turn_def ensure_turn_mutable_def)

end
