(* ===== verification/Control_Plane_Events.thy ===== *)
theory Control_Plane_Events
  imports Control_Plane_Turns
begin

text \<open>
  The event log of the control plane (ControlPlaneManager in crates/app/src/control_plane.rs): events of five
  lanes get sequence numbers and the versions of the lanes, the last ones are kept for readers, and readers poll
  or wait for events after the last one they saw. The broadcast channel is the list of the events sent.
  Recording an event takes its number and pushes it in two steps, so recorders on two threads can interleave.
\<close>

section \<open>The manager\<close>

datatype state_lane = PresenceLane | HealthLane | SessionsLane | ApprovalsLane | AcpLane

datatype event_kind =
    PresenceChanged | HealthChanged | SessionChanged | SessionMessage | ApprovalRequested | ApprovalResolved
  | PairingRequested | PairingResolved | AcpSessionChanged | AcpTurnEvent

fun event_kind_as_str :: "event_kind \<Rightarrow> string" where
  "event_kind_as_str PresenceChanged = ''presence.changed''"
| "event_kind_as_str HealthChanged = ''health.changed''"
| "event_kind_as_str SessionChanged = ''session.changed''"
| "event_kind_as_str SessionMessage = ''session.message''"
| "event_kind_as_str ApprovalRequested = ''approval.requested''"
| "event_kind_as_str ApprovalResolved = ''approval.resolved''"
| "event_kind_as_str PairingRequested = ''pairing.requested''"
| "event_kind_as_str PairingResolved = ''pairing.resolved''"
| "event_kind_as_str AcpSessionChanged = ''acp.session.changed''"
| "event_kind_as_str AcpTurnEvent = ''acp.turn.event''"

record state_version =
  sv_presence :: u64
  sv_health :: u64
  sv_sessions :: u64
  sv_approvals :: u64
  sv_acp :: u64

record snapshot_state =
  ss_presence_count :: usize
  ss_session_count :: usize
  ss_pending_approval_count :: usize
  ss_acp_session_count :: usize

record snapshot_summary =
  sy_state_version :: state_version
  sy_presence_count :: usize
  sy_session_count :: usize
  sy_pending_approval_count :: usize
  sy_acp_session_count :: usize
  sy_runtime_ready :: bool

record 'n plane_event =
  pe_kind :: event_kind
  pe_event_name :: string
  pe_seq :: u64
  pe_state_version :: state_version
  pe_payload :: "'n json"
  pe_targeted :: bool

record 'n plane_manager =
  pm_seq :: u64
  pm_versions :: state_version
  pm_runtime_ready :: bool
  pm_snapshot_state :: snapshot_state
  pm_recent_events :: "'n plane_event list"
  pm_sent :: "'n plane_event list"

definition plane_manager_new :: "'n plane_manager" where
  "plane_manager_new = \<lparr>pm_seq = 0,
     pm_versions = \<lparr>sv_presence = 0, sv_health = 0, sv_sessions = 0, sv_approvals = 0, sv_acp = 0\<rparr>, pm_runtime_ready = False,
     pm_snapshot_state = \<lparr>ss_presence_count = 0, ss_session_count = 0, ss_pending_approval_count = 0, ss_acp_session_count = 0\<rparr>,
     pm_recent_events = [], pm_sent = []\<rparr>"

definition recent_event_limit :: usize where
  "recent_event_limit = 256"

definition plane_snapshot :: "'n plane_manager \<Rightarrow> snapshot_summary" where
  "plane_snapshot m =
     (let state = pm_snapshot_state m in
      \<lparr>sy_state_version = pm_versions m, sy_presence_count = ss_presence_count state, sy_session_count = ss_session_count state,
       sy_pending_approval_count = ss_pending_approval_count state, sy_acp_session_count = ss_acp_session_count state,
       sy_runtime_ready = pm_runtime_ready m\<rparr>)"

section \<open>Reading events\<close>

definition event_visible :: "bool \<Rightarrow> 'n plane_event \<Rightarrow> bool" where
  "event_visible include_targeted event \<longleftrightarrow> include_targeted \<or> \<not> pe_targeted event"

definition recent_events :: "usize \<Rightarrow> bool \<Rightarrow> 'n plane_manager \<Rightarrow> 'n plane_event list" where
  "recent_events limit include_targeted m =
     (let bounded_limit = clamp_limit recent_event_limit limit; events = filter (event_visible include_targeted) (pm_recent_events m)
      in drop (length events - bounded_limit) events)"

definition recent_events_after :: "u64 \<Rightarrow> usize \<Rightarrow> bool \<Rightarrow> 'n plane_manager \<Rightarrow> 'n plane_event list" where
  "recent_events_after after_seq limit include_targeted m =
     take (clamp_limit recent_event_limit limit)
       (filter (\<lambda>e. after_seq < pe_seq e) (filter (event_visible include_targeted) (pm_recent_events m)))"

definition clamp_wait_timeout :: "u64 \<Rightarrow> u64" where
  "clamp_wait_timeout timeout_ms = (if timeout_ms < 1 then 1 else if 30000 < timeout_ms then 30000 else timeout_ms)"

text \<open>
  Waiting for events. Each round sees the manager and the time since the call, and then, if it waits, either a
  notification or the end of the remaining time; a list of rounds that ends while the call still waits has no result.
\<close>

fun wait_rounds :: "u64 \<Rightarrow> usize \<Rightarrow> bool \<Rightarrow> u64 \<Rightarrow> ('n plane_manager \<times> u64 \<times> bool) list \<Rightarrow> 'n plane_event list option" where
  "wait_rounds after_seq limit include_targeted deadline [] = None"
| "wait_rounds after_seq limit include_targeted deadline ((m, elapsed, notified) # rounds) =
     (let events = recent_events_after after_seq limit include_targeted m in
      if events \<noteq> [] then Some events
      else if deadline \<le> elapsed then Some []
      else if \<not> notified then Some []
      else wait_rounds after_seq limit include_targeted deadline rounds)"

definition wait_for_recent_events ::
  "u64 \<Rightarrow> usize \<Rightarrow> bool \<Rightarrow> u64 \<Rightarrow> ('n plane_manager \<times> u64 \<times> bool) list \<Rightarrow> 'n plane_event list option" where
  "wait_for_recent_events after_seq limit include_targeted timeout_ms rounds =
     wait_rounds after_seq limit include_targeted (clamp_wait_timeout timeout_ms) rounds"

section \<open>Recording events\<close>

fun bump_version :: "state_lane \<Rightarrow> state_version \<Rightarrow> state_version" where
  "bump_version PresenceLane v = v\<lparr>sv_presence := sv_presence v + 1\<rparr>"
| "bump_version HealthLane v = v\<lparr>sv_health := sv_health v + 1\<rparr>"
| "bump_version SessionsLane v = v\<lparr>sv_sessions := sv_sessions v + 1\<rparr>"
| "bump_version ApprovalsLane v = v\<lparr>sv_approvals := sv_approvals v + 1\<rparr>"
| "bump_version AcpLane v = v\<lparr>sv_acp := sv_acp v + 1\<rparr>"

text \<open>The first half of \<open>record_event\<close>: the lane's version, the number and the event.\<close>

definition begin_event :: "state_lane \<Rightarrow> event_kind \<Rightarrow> 'n json \<Rightarrow> bool \<Rightarrow> 'n plane_manager \<Rightarrow> 'n plane_event \<times> 'n plane_manager" where
  "begin_event lane kind payload targeted m =
     (let versions = bump_version lane (pm_versions m); seq = pm_seq m + 1 in
      (\<lparr>pe_kind = kind, pe_event_name = event_kind_as_str kind, pe_seq = seq, pe_state_version = versions,
        pe_payload = payload, pe_targeted = targeted\<rparr>,
       m\<lparr>pm_versions := versions, pm_seq := seq\<rparr>))"

definition push_recent_event :: "'n plane_event \<Rightarrow> 'n plane_manager \<Rightarrow> 'n plane_manager" where
  "push_recent_event event m =
     m\<lparr>pm_recent_events := push_bounded recent_event_limit event (pm_recent_events m), pm_sent := pm_sent m @ [event]\<rparr>"

definition record_plane_event ::
  "state_lane \<Rightarrow> event_kind \<Rightarrow> 'n json \<Rightarrow> bool \<Rightarrow> 'n plane_manager \<Rightarrow> 'n plane_event \<times> 'n plane_manager" where
  "record_plane_event lane kind payload targeted m =
     (case begin_event lane kind payload targeted m of (event, m) \<Rightarrow> (event, push_recent_event event m))"

definition set_runtime_ready :: "bool \<Rightarrow> 'n plane_manager \<Rightarrow> 'n plane_manager" where
  "set_runtime_ready ready m = m\<lparr>pm_runtime_ready := ready\<rparr>"

definition with_snapshot_state :: "(snapshot_state \<Rightarrow> snapshot_state) \<Rightarrow> 'n plane_manager \<Rightarrow> 'n plane_manager" where
  "with_snapshot_state mutate m = m\<lparr>pm_snapshot_state := mutate (pm_snapshot_state m)\<rparr>"

definition set_presence_count :: "usize \<Rightarrow> 'n plane_manager \<Rightarrow> 'n plane_manager" where
  "set_presence_count count = with_snapshot_state (\<lambda>s. s\<lparr>ss_presence_count := count\<rparr>)"

definition set_session_count :: "usize \<Rightarrow> 'n plane_manager \<Rightarrow> 'n plane_manager" where
  "set_session_count count = with_snapshot_state (\<lambda>s. s\<lparr>ss_session_count := count\<rparr>)"

definition set_pending_approval_count :: "usize \<Rightarrow> 'n plane_manager \<Rightarrow> 'n plane_manager" where
  "set_pending_approval_count count = with_snapshot_state (\<lambda>s. s\<lparr>ss_pending_approval_count := count\<rparr>)"

definition set_acp_session_count :: "usize \<Rightarrow> 'n plane_manager \<Rightarrow> 'n plane_manager" where
  "set_acp_session_count count = with_snapshot_state (\<lambda>s. s\<lparr>ss_acp_session_count := count\<rparr>)"

definition record_presence_changed :: "usize \<Rightarrow> 'n json \<Rightarrow> 'n plane_manager \<Rightarrow> 'n plane_event \<times> 'n plane_manager" where
  "record_presence_changed count payload m =
     record_plane_event PresenceLane PresenceChanged payload False (with_snapshot_state (\<lambda>s. s\<lparr>ss_presence_count := count\<rparr>) m)"

definition record_health_changed :: "bool \<Rightarrow> 'n json \<Rightarrow> 'n plane_manager \<Rightarrow> 'n plane_event \<times> 'n plane_manager" where
  "record_health_changed ready payload m =
     record_plane_event HealthLane HealthChanged payload False (set_runtime_ready ready m)"

definition record_sessions_changed :: "usize \<Rightarrow> 'n json \<Rightarrow> 'n plane_manager \<Rightarrow> 'n plane_event \<times> 'n plane_manager" where
  "record_sessions_changed count payload m =
     record_plane_event SessionsLane SessionChanged payload False (with_snapshot_state (\<lambda>s. s\<lparr>ss_session_count := count\<rparr>) m)"

definition record_session_message :: "'n json \<Rightarrow> bool \<Rightarrow> 'n plane_manager \<Rightarrow> 'n plane_event \<times> 'n plane_manager" where
  "record_session_message payload targeted m = record_plane_event SessionsLane SessionMessage payload targeted m"

definition record_approval_requested :: "usize \<Rightarrow> 'n json \<Rightarrow> 'n plane_manager \<Rightarrow> 'n plane_event \<times> 'n plane_manager" where
  "record_approval_requested pending_count payload m =
     record_plane_event ApprovalsLane ApprovalRequested payload False
       (with_snapshot_state (\<lambda>s. s\<lparr>ss_pending_approval_count := pending_count\<rparr>) m)"

definition record_approval_resolved :: "usize \<Rightarrow> 'n json \<Rightarrow> bool \<Rightarrow> 'n plane_manager \<Rightarrow> 'n plane_event \<times> 'n plane_manager" where
  "record_approval_resolved pending_count payload targeted m =
     record_plane_event ApprovalsLane ApprovalResolved payload targeted
       (with_snapshot_state (\<lambda>s. s\<lparr>ss_pending_approval_count := pending_count\<rparr>) m)"

definition record_pairing_requested :: "'n json \<Rightarrow> 'n plane_manager \<Rightarrow> 'n plane_event \<times> 'n plane_manager" where
  "record_pairing_requested payload m = record_plane_event ApprovalsLane PairingRequested payload False m"

definition record_pairing_resolved :: "'n json \<Rightarrow> bool \<Rightarrow> 'n plane_manager \<Rightarrow> 'n plane_event \<times> 'n plane_manager" where
  "record_pairing_resolved payload targeted m = record_plane_event ApprovalsLane PairingResolved payload targeted m"

definition record_acp_session_changed :: "usize \<Rightarrow> 'n json \<Rightarrow> 'n plane_manager \<Rightarrow> 'n plane_event \<times> 'n plane_manager" where
  "record_acp_session_changed count payload m =
     record_plane_event AcpLane AcpSessionChanged payload False (with_snapshot_state (\<lambda>s. s\<lparr>ss_acp_session_count := count\<rparr>) m)"

definition record_acp_turn_event :: "'n json \<Rightarrow> bool \<Rightarrow> 'n plane_manager \<Rightarrow> 'n plane_event \<times> 'n plane_manager" where
  "record_acp_turn_event payload targeted m = record_plane_event AcpLane AcpTurnEvent payload targeted m"

section \<open>Runs of the manager, one operation after the other\<close>

datatype 'n plane_op =
    SetRuntimeReady bool | SetPresenceCount usize | SetSessionCount usize | SetPendingApprovalCount usize | SetAcpSessionCount usize
  | RecordPresence usize "'n json" | RecordHealth bool "'n json" | RecordSessions usize "'n json" | RecordMessage "'n json" bool
  | RecordApprovalRequested usize "'n json" | RecordApprovalResolved usize "'n json" bool | RecordPairingRequested "'n json"
  | RecordPairingResolved "'n json" bool | RecordAcpSession usize "'n json" | RecordAcpTurn "'n json" bool

fun plane_op_step :: "'n plane_op \<Rightarrow> 'n plane_manager \<Rightarrow> 'n plane_manager" where
  "plane_op_step (SetRuntimeReady ready) = set_runtime_ready ready"
| "plane_op_step (SetPresenceCount count) = set_presence_count count"
| "plane_op_step (SetSessionCount count) = set_session_count count"
| "plane_op_step (SetPendingApprovalCount count) = set_pending_approval_count count"
| "plane_op_step (SetAcpSessionCount count) = set_acp_session_count count"
| "plane_op_step (RecordPresence count payload) = snd \<circ> record_presence_changed count payload"
| "plane_op_step (RecordHealth ready payload) = snd \<circ> record_health_changed ready payload"
| "plane_op_step (RecordSessions count payload) = snd \<circ> record_sessions_changed count payload"
| "plane_op_step (RecordMessage payload targeted) = snd \<circ> record_session_message payload targeted"
| "plane_op_step (RecordApprovalRequested count payload) = snd \<circ> record_approval_requested count payload"
| "plane_op_step (RecordApprovalResolved count payload targeted) = snd \<circ> record_approval_resolved count payload targeted"
| "plane_op_step (RecordPairingRequested payload) = snd \<circ> record_pairing_requested payload"
| "plane_op_step (RecordPairingResolved payload targeted) = snd \<circ> record_pairing_resolved payload targeted"
| "plane_op_step (RecordAcpSession count payload) = snd \<circ> record_acp_session_changed count payload"
| "plane_op_step (RecordAcpTurn payload targeted) = snd \<circ> record_acp_turn_event payload targeted"

definition run_plane_ops :: "'n plane_op list \<Rightarrow> 'n plane_manager" where
  "run_plane_ops ops = fold plane_op_step ops plane_manager_new"

section \<open>The invariant\<close>

fun lane_of_kind :: "event_kind \<Rightarrow> state_lane" where
  "lane_of_kind PresenceChanged = PresenceLane"
| "lane_of_kind HealthChanged = HealthLane"
| "lane_of_kind SessionChanged = SessionsLane"
| "lane_of_kind SessionMessage = SessionsLane"
| "lane_of_kind ApprovalRequested = ApprovalsLane"
| "lane_of_kind ApprovalResolved = ApprovalsLane"
| "lane_of_kind PairingRequested = ApprovalsLane"
| "lane_of_kind PairingResolved = ApprovalsLane"
| "lane_of_kind AcpSessionChanged = AcpLane"
| "lane_of_kind AcpTurnEvent = AcpLane"

fun lane_version :: "state_lane \<Rightarrow> state_version \<Rightarrow> u64" where
  "lane_version PresenceLane v = sv_presence v"
| "lane_version HealthLane v = sv_health v"
| "lane_version SessionsLane v = sv_sessions v"
| "lane_version ApprovalsLane v = sv_approvals v"
| "lane_version AcpLane v = sv_acp v"

definition lane_events :: "state_lane \<Rightarrow> 'n plane_event list \<Rightarrow> 'n plane_event list" where
  "lane_events lane events = filter (\<lambda>e. lane_of_kind (pe_kind e) = lane) events"

text \<open>Numbers without gaps, the last events kept, and each version the number of events of its lane so far.\<close>

definition plane_ok :: "'n plane_manager \<Rightarrow> bool" where
  "plane_ok m \<longleftrightarrow>
     map pe_seq (pm_sent m) = map of_nat [1..<length (pm_sent m) + 1] \<and> pm_seq m = of_nat (length (pm_sent m)) \<and>
     pm_recent_events m = drop (length (pm_sent m) - recent_event_limit) (pm_sent m) \<and>
     (\<forall>lane. lane_version lane (pm_versions m) = of_nat (length (lane_events lane (pm_sent m)))) \<and>
     (\<forall>i < length (pm_sent m). \<forall>lane. lane_version lane (pe_state_version (pm_sent m ! i)) =
        of_nat (length (lane_events lane (take (Suc i) (pm_sent m)))))"

lemma lane_version_bump:
  "lane_version lane (bump_version l v) = (if lane = l then lane_version lane v + 1 else lane_version lane v)"
  by (cases lane; cases l) simp_all

lemma plane_ok_new: "plane_ok plane_manager_new"
  unfolding plane_ok_def
proof (intro conjI allI impI)
  show "lane_version lane (pm_versions (plane_manager_new :: 'n plane_manager)) =
      of_nat (length (lane_events lane (pm_sent (plane_manager_new :: 'n plane_manager))))" for lane
    by (cases lane) (simp_all add: plane_manager_new_def lane_events_def)
qed (simp_all add: plane_manager_new_def)

lemma record_plane_event_ok:
  assumes ok: "plane_ok m" and kind: "lane_of_kind kind = lane"
  shows "plane_ok (snd (record_plane_event lane kind payload targeted m))"
proof -
  let ?n = "length (pm_sent m)"
  obtain event m' where begun: "begin_event lane kind payload targeted m = (event, m')" by fastforce
  have event: "pe_kind event = kind" "pe_seq event = of_nat (Suc ?n)" "pe_state_version event = bump_version lane (pm_versions m)"
    and m': "pm_sent m' = pm_sent m" "pm_recent_events m' = pm_recent_events m" "pm_seq m' = of_nat (Suc ?n)"
      "pm_versions m' = bump_version lane (pm_versions m)"
    using begun ok by (auto simp: begin_event_def Let_def plane_ok_def)
  have result: "snd (record_plane_event lane kind payload targeted m) = push_recent_event event m'"
    by (simp add: record_plane_event_def begun)
  have count: "of_nat (length (lane_events l (pm_sent m @ [event]))) = lane_version l (bump_version lane (pm_versions m))" for l
    using ok event(1) kind by (simp add: plane_ok_def lane_version_bump lane_events_def)
  show ?thesis
    unfolding result plane_ok_def
  proof (intro conjI allI impI)
    show "map pe_seq (pm_sent (push_recent_event event m')) = map of_nat [1..<length (pm_sent (push_recent_event event m')) + 1]"
      using ok event(2) by (simp add: push_recent_event_def m' plane_ok_def)
    show "pm_seq (push_recent_event event m') = of_nat (length (pm_sent (push_recent_event event m')))"
      by (simp add: push_recent_event_def m')
    show "pm_recent_events (push_recent_event event m') =
        drop (length (pm_sent (push_recent_event event m')) - recent_event_limit) (pm_sent (push_recent_event event m'))"
      using ok push_bounded_suffix [of recent_event_limit event "pm_sent m"] by (simp add: push_recent_event_def m' plane_ok_def)
    show "lane_version l (pm_versions (push_recent_event event m')) =
        of_nat (length (lane_events l (pm_sent (push_recent_event event m'))))" for l
      using count by (simp add: push_recent_event_def m')
    show "lane_version l (pe_state_version (pm_sent (push_recent_event event m') ! i)) =
        of_nat (length (lane_events l (take (Suc i) (pm_sent (push_recent_event event m')))))"
      if "i < length (pm_sent (push_recent_event event m'))" for i l
    proof (cases "i = ?n")
      case True
      then show ?thesis using count event(3) by (simp add: push_recent_event_def m')
    next
      case False
      then have "i < ?n" using that by (simp add: push_recent_event_def m')
      then show ?thesis using ok by (simp add: push_recent_event_def m' plane_ok_def nth_append)
    qed
  qed
qed

lemma plane_ok_snapshot [simp]:
  "plane_ok (with_snapshot_state f m) = plane_ok m" "plane_ok (set_runtime_ready ready m) = plane_ok m"
  by (simp_all add: plane_ok_def with_snapshot_state_def set_runtime_ready_def)

lemmas plane_op_defs = set_presence_count_def set_session_count_def set_pending_approval_count_def set_acp_session_count_def
  record_presence_changed_def record_health_changed_def record_sessions_changed_def record_session_message_def
  record_approval_requested_def record_approval_resolved_def record_pairing_requested_def record_pairing_resolved_def
  record_acp_session_changed_def record_acp_turn_event_def

lemma plane_op_step_ok: "plane_ok m \<Longrightarrow> plane_ok (plane_op_step op m)"
  by (cases op) (simp_all add: plane_op_defs record_plane_event_ok)

lemma run_plane_ops_ok: "plane_ok (run_plane_ops ops)"
  unfolding run_plane_ops_def by (induction ops rule: rev_induct) (simp_all add: plane_ok_new plane_op_step_ok)

lemma plane_op_step_sent: "length (pm_sent (plane_op_step op m)) \<le> length (pm_sent m) + 1"
  by (cases op)
    (simp_all add: plane_op_defs record_plane_event_def begin_event_def push_recent_event_def with_snapshot_state_def
      set_runtime_ready_def Let_def)

lemma run_plane_ops_sent: "length (pm_sent (run_plane_ops ops)) \<le> length ops"
proof (induction ops rule: rev_induct)
  case Nil
  then show ?case by (simp add: run_plane_ops_def plane_manager_new_def)
next
  case (snoc op ops)
  then show ?case using plane_op_step_sent [of op "run_plane_ops ops"] by (simp add: run_plane_ops_def)
qed

section \<open>What readers get\<close>

text \<open>
  While events are recorded one after the other, a client that is not more than 256 events behind and asks for no
  fewer gets every event after the last one it saw that it may see, in order, and no targeted event when it may not
  see those.
\<close>

theorem clients_get_all_later_events:
  fixes ops :: "'n plane_op list"
  assumes "length ops < 2 ^ 64" and "length (pm_sent (run_plane_ops ops)) \<le> unat after_seq + 256" and "256 \<le> limit"
  shows "recent_events_after after_seq limit include_targeted (run_plane_ops ops) =
    filter (\<lambda>e. after_seq < pe_seq e \<and> event_visible include_targeted e) (pm_sent (run_plane_ops ops))"
proof -
  let ?m = "run_plane_ops ops"
  have ok: "map pe_seq (pm_sent ?m) = map of_nat [1..<length (pm_sent ?m) + 1]"
    "pm_recent_events ?m = drop (length (pm_sent ?m) - 256) (pm_sent ?m)"
    using run_plane_ops_ok [of ops] by (simp_all add: plane_ok_def recent_event_limit_def)
  have small: "length (pm_sent ?m) < 2 ^ 64" using run_plane_ops_sent [of ops] assms(1) by simp
  have kept: "filter (\<lambda>e. after_seq < pe_seq e) (pm_recent_events ?m) = filter (\<lambda>e. after_seq < pe_seq e) (pm_sent ?m)"
    unfolding ok(2) by (rule later_events_are_kept [OF ok(1) small assms(2)])
  have "length (filter (\<lambda>e. after_seq < pe_seq e) (filter (event_visible include_targeted) (pm_recent_events ?m))) \<le> 256"
    using le_trans [OF length_filter_le le_trans [OF length_filter_le, of "pm_recent_events ?m" 256]] ok(2) by simp
  then have "recent_events_after after_seq limit include_targeted ?m =
      filter (event_visible include_targeted) (filter (\<lambda>e. after_seq < pe_seq e) (pm_recent_events ?m))"
    using assms(3) by (simp add: recent_events_after_def clamp_limit_def recent_event_limit_def conj_commute)
  then show ?thesis unfolding kept by (simp add: conj_commute)
qed

lemma clients_get_all_later_events_witness:
  "\<exists>events. recent_events_after 0 256 False (run_plane_ops [RecordPresence 1 (JNull :: nat json), RecordMessage JNull True]) = events \<and>
    events = filter (\<lambda>e. 0 < pe_seq e \<and> event_visible False e)
      (pm_sent (run_plane_ops [RecordPresence 1 JNull, RecordMessage JNull True])) \<and> length events = 1"
proof -
  let ?ops = "[RecordPresence 1 (JNull :: nat json), RecordMessage JNull True]"
  have sent: "length (pm_sent (run_plane_ops ?ops)) = 2"
    "length (filter (\<lambda>e. 0 < pe_seq e \<and> event_visible False e) (pm_sent (run_plane_ops ?ops))) = 1"
    by (simp_all add: run_plane_ops_def plane_manager_new_def plane_op_defs record_plane_event_def begin_event_def
      push_recent_event_def with_snapshot_state_def event_visible_def Let_def)
  show ?thesis
    using clients_get_all_later_events [of ?ops 0 256 False] sent by simp
qed

text \<open>What a wait returns: the first visible later events of a round, or nothing once the time is up.\<close>

lemma wait_for_recent_events_result:
  assumes "wait_for_recent_events after_seq limit include_targeted timeout_ms rounds = Some events"
  shows "\<exists>(m, elapsed, notified) \<in> set rounds.
    events = recent_events_after after_seq limit include_targeted m \<and>
    (events = [] \<longrightarrow> clamp_wait_timeout timeout_ms \<le> elapsed \<or> \<not> notified)"
  using assms unfolding wait_for_recent_events_def
  by (induction after_seq limit include_targeted "clamp_wait_timeout timeout_ms" rounds rule: wait_rounds.induct)
    (auto simp: Let_def split: if_splits)

lemma waits_see_notified_events:
  assumes "list_all (\<lambda>(m, elapsed, notified). elapsed < clamp_wait_timeout timeout_ms \<and> notified) rounds"
    and "recent_events_after after_seq limit include_targeted m \<noteq> []"
  shows "\<exists>events. wait_for_recent_events after_seq limit include_targeted timeout_ms (rounds @ [(m, elapsed, notified)]) =
    Some events \<and> events \<noteq> []"
  using assms unfolding wait_for_recent_events_def
  by (induction rounds) (auto simp: Let_def case_prod_unfold not_le split: if_splits)

section \<open>Two recorders\<close>

text \<open>
  Two threads record at once: the first takes its number first and pushes its event second. A client that reads
  between the two pushes and then asks for what follows the event it saw never gets the first event, although it
  is kept: its number is lower.
\<close>

definition racing_events ::
  "state_lane \<Rightarrow> event_kind \<Rightarrow> 'n json \<Rightarrow> state_lane \<Rightarrow> event_kind \<Rightarrow> 'n json \<Rightarrow> 'n plane_manager \<Rightarrow>
    'n plane_event \<times> 'n plane_event \<times> 'n plane_manager \<times> 'n plane_manager" where
  "racing_events lane kind payload lane' kind' payload' m =
     (case begin_event lane kind payload False m of (first_event, m) \<Rightarrow>
      case begin_event lane' kind' payload' False m of (second_event, m) \<Rightarrow>
        let between = push_recent_event second_event m
        in (first_event, second_event, between, push_recent_event first_event between))"


lemma sent_seq_bound:
  assumes "plane_ok m" and "length (pm_sent m) < 2 ^ 64" and "e \<in> set (pm_recent_events m)"
  shows "pe_seq e \<le> pm_seq m"
proof -
  have "e \<in> set (pm_sent m)" using assms(1,3) by (auto simp: plane_ok_def dest: in_set_dropD)
  then have "pe_seq e \<in> set (map of_nat [1..<length (pm_sent m) + 1])"
    using assms(1) unfolding plane_ok_def by (metis image_eqI set_map)
  then obtain i where "pe_seq e = of_nat i" "i \<le> length (pm_sent m)" by auto
  then show ?thesis
    using assms(1,2) by (simp add: plane_ok_def word_le_nat_alt unat_of_nat)
qed

text \<open>
  Two recorders can hide an event from a polling client: when one thread takes its number first and pushes its
  event second, a client that reads between the two pushes gets the second event, and what it then asks for, the
  events after that one, never contains the first event, although it is kept and visible.
\<close>

theorem racing_recorders_hide_an_event:
  fixes ops :: "'n plane_op list"
  assumes "length ops + 2 < 2 ^ 64"
    and "racing_events lane kind payload lane' kind' payload' (run_plane_ops ops) = (first_event, second_event, between, after)"
  shows "recent_events_after (pm_seq (run_plane_ops ops)) limit include_targeted between = [second_event] \<and>
    recent_events_after (pe_seq second_event) limit include_targeted after = [] \<and>
    first_event \<in> set (pm_recent_events after) \<and> event_visible include_targeted first_event"
proof -
  let ?m = "run_plane_ops ops"
  let ?n = "length (pm_sent ?m)"
  have ok: "plane_ok ?m" by (rule run_plane_ops_ok)
  have small: "?n + 2 < 2 ^ 64" using run_plane_ops_sent [of ops] assms(1) by simp
  have seq: "pm_seq ?m = of_nat ?n" using ok by (simp add: plane_ok_def)
  have un: "unat (of_nat ?n :: u64) = ?n" "unat (of_nat ?n + 1 :: u64) = ?n + 1" "unat (of_nat ?n + 1 + 1 :: u64) = ?n + 2"
    using small by (simp_all add: unat_of_nat unat_word_ariths(1))
  have first: "pe_seq first_event = of_nat ?n + 1" "\<not> pe_targeted first_event"
    and second: "pe_seq second_event = of_nat ?n + 1 + 1" "\<not> pe_targeted second_event"
    and between: "pm_recent_events between = push_bounded recent_event_limit second_event (pm_recent_events ?m)"
    and after: "pm_recent_events after = push_bounded recent_event_limit first_event (pm_recent_events between)"
    using assms(2) seq by (auto simp: racing_events_def begin_event_def push_recent_event_def Let_def)
  have old: "\<not> pm_seq ?m < pe_seq e" "\<not> pe_seq second_event < pe_seq e" if "e \<in> set (pm_recent_events ?m)" for e
  proof -
    have le: "pe_seq e \<le> pm_seq ?m" using sent_seq_bound [OF ok _ that] small by simp
    then show "\<not> pm_seq ?m < pe_seq e" by simp
    have "pm_seq ?m < pe_seq second_event" using un by (simp add: seq second(1) word_less_nat_alt)
    then show "\<not> pe_seq second_event < pe_seq e" using le by (meson le_less_trans less_asym)
  qed
  have pushed: "\<exists>es. push_bounded recent_event_limit e q = es @ [e] \<and> set es \<subseteq> set q" for e :: "'n plane_event" and q
    by (intro exI [of _ "drop (length q + 1 - recent_event_limit) q"])
      (auto simp: push_bounded_def recent_event_limit_def dest: in_set_dropD)
  obtain es where es: "pm_recent_events between = es @ [second_event]" "set es \<subseteq> set (pm_recent_events ?m)"
    using pushed between by metis
  obtain es' where es': "pm_recent_events after = es' @ [first_event]" "set es' \<subseteq> set (pm_recent_events between)"
    using pushed after by metis
  have less: "pm_seq ?m < pe_seq second_event" "\<not> pe_seq second_event < pe_seq first_event"
    using un by (simp_all add: seq first(1) second(1) word_less_nat_alt)
  have none: "filter (\<lambda>e. pm_seq ?m < pe_seq e) (filter P es) = []"
    "filter (\<lambda>e. pe_seq second_event < pe_seq e) (filter P es') = []" for P
    using old es es' less by (auto simp: filter_empty_conv)
  have "0 < clamp_limit recent_event_limit limit" by (simp add: clamp_limit_def recent_event_limit_def)
  then show ?thesis
    using less none first(2) second(2) es'(1)
    by (simp add: recent_events_after_def event_visible_def es(1) es'(1) take_Cons')
qed


lemma racing_recorders_hide_an_event_witness:
  "\<exists>first_event second_event between after.
    racing_events HealthLane HealthChanged JNull AcpLane AcpTurnEvent JNull (run_plane_ops ([] :: nat plane_op list)) =
      (first_event, second_event, between, after) \<and>
    recent_events_after (pe_seq second_event) 256 True after = [] \<and> first_event \<in> set (pm_recent_events after)"
proof -
  obtain first_event second_event between after where
    race: "racing_events HealthLane HealthChanged JNull AcpLane AcpTurnEvent JNull (run_plane_ops ([] :: nat plane_op list)) =
      (first_event, second_event, between, after)"
    by (metis prod_cases4)
  then show ?thesis using racing_recorders_hide_an_event [OF _ race, of 256 True] by simp
qed

end
