(* ===== verification/Control_Plane_Leases.thy ===== *)
theory Control_Plane_Leases
  imports Control_Plane_Turns
begin

text \<open>
  The leases of connections and the challenges of the control plane (ControlPlaneConnectionRegistry and
  ControlPlaneChallengeRegistry in crates/app/src/control_plane.rs). The clock and random numbers are arguments
  of the operations.
\<close>

section \<open>Connections\<close>

record connection_principal =
  cn_connection_id :: string
  cn_client_id :: string
  cn_role :: string
  cn_scopes :: "string set"
  cn_device_id :: "string option"

record connection_lease =
  cl_token :: string
  cl_principal :: connection_principal
  cl_issued_at_ms :: u64
  cl_expires_at_ms :: u64
  cl_acknowledged_seq :: "u64 option"

record connection_entry =
  ce_principal :: connection_principal
  ce_issued_at_ms :: u64
  ce_expires_at_ms :: u64
  ce_acknowledged_seq :: "u64 option"

record connection_registry =
  cg_nonce :: u64
  cg_connections :: "(string, connection_entry) btree"

definition connection_registry_new :: connection_registry where
  "connection_registry_new = \<lparr>cg_nonce = 0, cg_connections = []\<rparr>"

definition connection_ttl_ms :: u64 where
  "connection_ttl_ms = 900000"

definition connection_token_of :: "u64 \<Rightarrow> u64 \<Rightarrow> string" where
  "connection_token_of sequence random_component = ''cpt-'' @ hex16 sequence @ ''-'' @ hex16 random_component"

definition lease_of :: "string \<Rightarrow> connection_entry \<Rightarrow> connection_lease" where
  "lease_of token entry =
     \<lparr>cl_token = token, cl_principal = ce_principal entry, cl_issued_at_ms = ce_issued_at_ms entry,
      cl_expires_at_ms = ce_expires_at_ms entry, cl_acknowledged_seq = ce_acknowledged_seq entry\<rparr>"

definition issue_connection_with_ttl ::
  "u64 \<Rightarrow> u64 \<Rightarrow> connection_principal \<Rightarrow> u64 \<Rightarrow> connection_registry \<Rightarrow> connection_lease \<times> connection_registry" where
  "issue_connection_with_ttl now random_component who ttl_ms g =
     (let expires_at_ms = u64_saturating_add now (max ttl_ms 1); sequence = cg_nonce g + 1;
          token = connection_token_of sequence random_component;
          entry = \<lparr>ce_principal = who, ce_issued_at_ms = now, ce_expires_at_ms = expires_at_ms, ce_acknowledged_seq = None\<rparr>
      in (lease_of token entry, g\<lparr>cg_nonce := sequence, cg_connections := bt_insert token entry (cg_connections g)\<rparr>))"

definition issue_connection ::
  "u64 \<Rightarrow> u64 \<Rightarrow> connection_principal \<Rightarrow> connection_registry \<Rightarrow> connection_lease \<times> connection_registry" where
  "issue_connection now random_component who g =
     issue_connection_with_ttl now random_component who connection_ttl_ms g"

text \<open>\<open>retain(|_, record| record.expires_at_ms > now_ms)\<close>.\<close>

definition live_connections :: "u64 \<Rightarrow> (string, connection_entry) btree \<Rightarrow> (string, connection_entry) btree" where
  "live_connections now = filter (\<lambda>entry. now < ce_expires_at_ms (snd entry))"

definition resolve_connection :: "u64 \<Rightarrow> string \<Rightarrow> connection_registry \<Rightarrow> connection_lease option \<times> connection_registry" where
  "resolve_connection now raw_token g =
     (let token = trim raw_token in
      if token = [] then (None, g)
      else let connections = live_connections now (cg_connections g)
           in (map_option (lease_of token) (bt_get connections token), g\<lparr>cg_connections := connections\<rparr>))"

definition acknowledge_seq :: "u64 \<Rightarrow> string \<Rightarrow> u64 \<Rightarrow> connection_registry \<Rightarrow> connection_lease option \<times> connection_registry" where
  "acknowledge_seq now raw_token seq g =
     (let token = trim raw_token in
      if token = [] then (None, g)
      else let connections = live_connections now (cg_connections g)
           in case bt_get connections token of
                None \<Rightarrow> (None, g\<lparr>cg_connections := connections\<rparr>)
              | Some entry \<Rightarrow>
                  (let next_acknowledged_seq = (case ce_acknowledged_seq entry of Some existing \<Rightarrow> max existing seq | None \<Rightarrow> seq);
                       entry = entry\<lparr>ce_acknowledged_seq := Some next_acknowledged_seq\<rparr>
                   in (Some (lease_of token entry), g\<lparr>cg_connections := bt_insert token entry connections\<rparr>)))"

definition revoke_connection :: "string \<Rightarrow> connection_registry \<Rightarrow> bool \<times> connection_registry" where
  "revoke_connection raw_token g =
     (let token = trim raw_token in
      if token = [] then (False, g)
      else (bt_contains_key (cg_connections g) token, g\<lparr>cg_connections := bt_remove token (cg_connections g)\<rparr>))"

definition snapshot_leases :: "u64 \<Rightarrow> connection_registry \<Rightarrow> connection_lease list \<times> connection_registry" where
  "snapshot_leases now g =
     (let connections = live_connections now (cg_connections g)
      in (sort_key cl_token (map (\<lambda>(token, entry). lease_of token entry) connections), g\<lparr>cg_connections := connections\<rparr>))"

fun restore_into :: "u64 \<Rightarrow> connection_lease list \<Rightarrow> (string, connection_entry) btree \<Rightarrow> usize \<Rightarrow> usize \<times> (string, connection_entry) btree" where
  "restore_into now [] connections restored = (restored, connections)"
| "restore_into now (lease # leases) connections restored =
     (if cl_expires_at_ms lease \<le> now then restore_into now leases connections restored
      else restore_into now leases
        (bt_insert (cl_token lease)
          \<lparr>ce_principal = cl_principal lease, ce_issued_at_ms = cl_issued_at_ms lease,
           ce_expires_at_ms = cl_expires_at_ms lease, ce_acknowledged_seq = cl_acknowledged_seq lease\<rparr> connections)
        (restored + 1))"

definition restore_leases :: "u64 \<Rightarrow> connection_lease list \<Rightarrow> connection_registry \<Rightarrow> usize \<times> connection_registry" where
  "restore_leases now leases g =
     (case restore_into now leases [] 0 of (restored, connections) \<Rightarrow> (restored, g\<lparr>cg_connections := connections\<rparr>))"

section \<open>Facts on connections\<close>

definition connections_wf :: "connection_registry \<Rightarrow> bool" where
  "connections_wf g \<longleftrightarrow> bt_wf (cg_connections g)"

lemma connections_new_wf [simp]: "connections_wf connection_registry_new"
  by (simp add: connections_wf_def connection_registry_new_def)

lemma bt_get_filter_snd:
  "bt_wf m \<Longrightarrow> bt_get (filter (\<lambda>entry. P (snd entry)) m) k =
    (case bt_get m k of Some v \<Rightarrow> if P v then Some v else None | None \<Rightarrow> None)"
proof (induction m)
  case Nil
  then show ?case by simp
next
  case (Cons e m)
  obtain a b where e: "e = (a, b)" by fastforce
  have wf: "bt_wf m" and fresh: "bt_get m a = None"
    using Cons.prems by (auto simp: e bt_wf_def map_of_eq_None_iff)
  show ?case using Cons.IH [OF wf] fresh by (auto simp: e split: option.split)
qed

lemma bt_get_live:
  "bt_wf m \<Longrightarrow> bt_get (live_connections now m) k = Some entry \<longleftrightarrow> bt_get m k = Some entry \<and> now < ce_expires_at_ms entry"
  using bt_get_filter_snd [of m "\<lambda>e. now < ce_expires_at_ms e" k]
  by (cases "bt_get m k") (auto simp: live_connections_def)

lemma bt_wf_live [simp]: "bt_wf m \<Longrightarrow> bt_wf (live_connections now m)"
  by (simp add: live_connections_def bt_wf_filter)

text \<open>A lease is resolved exactly while its connection is registered and has not expired.\<close>

lemma resolve_connection_iff:
  assumes "connections_wf g" and "resolve_connection now raw_token g = (result, g')"
  shows "result = Some lease \<longleftrightarrow>
      trim raw_token \<noteq> [] \<and>
      (\<exists>entry. bt_get (cg_connections g) (trim raw_token) = Some entry \<and> now < ce_expires_at_ms entry \<and>
        lease = lease_of (trim raw_token) entry)"
  using assms bt_get_live [of "cg_connections g" now "trim raw_token"]
  by (auto simp: resolve_connection_def connections_wf_def Let_def split: if_splits)

lemma resolve_connection_keeps:
  assumes "connections_wf g" and "resolve_connection now raw_token g = (result, g')"
  shows "connections_wf g'" and "cg_nonce g' = cg_nonce g"
    and "bt_get (cg_connections g') k = Some entry \<Longrightarrow> bt_get (cg_connections g) k = Some entry"
    and "bt_get (cg_connections g) k = Some entry \<Longrightarrow> now < ce_expires_at_ms entry \<Longrightarrow> bt_get (cg_connections g') k = Some entry"
  using assms by (auto simp: resolve_connection_def connections_wf_def Let_def bt_get_live split: if_splits)

lemma connection_ops_wf [simp]:
  assumes "connections_wf g"
  shows "connections_wf (snd (issue_connection now r who g))"
    and "connections_wf (snd (acknowledge_seq now raw seq g))"
    and "connections_wf (snd (revoke_connection raw g))"
    and "connections_wf (snd (snapshot_leases now g))"
  using assms
  by (auto simp: connections_wf_def issue_connection_def issue_connection_with_ttl_def acknowledge_seq_def
    revoke_connection_def snapshot_leases_def Let_def bt_remove_def bt_wf_filter split: option.split)

lemma restore_into_wf: "bt_wf m \<Longrightarrow> bt_wf (snd (restore_into now leases m n))"
  by (induction now leases m n rule: restore_into.induct) auto

lemma restore_leases_wf [simp]: "connections_wf (snd (restore_leases now leases g))"
  using restore_into_wf [of "[]" now leases 0] by (simp add: connections_wf_def restore_leases_def case_prod_unfold)

lemma revoked_connections_do_not_resolve:
  assumes "connections_wf g" and "trim raw = trim raw'"
  shows "fst (resolve_connection now raw' (snd (revoke_connection raw g))) = None"
proof -
  have "bt_get (filter (\<lambda>e. fst e \<noteq> k) (cg_connections g)) k = None" for k by (induction "cg_connections g") (auto simp: map_of_eq_None_iff)
  then have "bt_get (live_connections now (filter (\<lambda>e. fst e \<noteq> k) (cg_connections g))) k = None" for k
    by (auto simp: live_connections_def map_of_eq_None_iff)
  then show ?thesis using assms(2) by (simp add: resolve_connection_def revoke_connection_def Let_def bt_remove_def)
qed

section \<open>Saving and restoring\<close>

lemma lease_of_fields [simp]:
  "cl_token (lease_of k entry) = k" "cl_principal (lease_of k entry) = ce_principal entry"
  "cl_issued_at_ms (lease_of k entry) = ce_issued_at_ms entry" "cl_expires_at_ms (lease_of k entry) = ce_expires_at_ms entry"
  "cl_acknowledged_seq (lease_of k entry) = ce_acknowledged_seq entry"
  by (simp_all add: lease_of_def)

lemma connection_entry_eta:
  "\<lparr>ce_principal = ce_principal entry, ce_issued_at_ms = ce_issued_at_ms entry, ce_expires_at_ms = ce_expires_at_ms entry,
    ce_acknowledged_seq = ce_acknowledged_seq entry\<rparr> = entry"
  by simp

lemma restore_into_leases:
  "sorted_wrt (<) (map fst (m @ es)) \<Longrightarrow>
    restore_into now (map (\<lambda>(token, entry). lease_of token entry) es) m n =
      (n + length (live_connections now es), m @ live_connections now es)"
proof (induction es arbitrary: m n)
  case Nil
  then show ?case by (simp add: live_connections_def)
next
  case (Cons e es)
  obtain a b where e: "e = (a, b)" by fastforce
  have sorted: "sorted_wrt (<) (map fst (m @ es))" "sorted_wrt (<) (map fst ((m @ [(a, b)]) @ es))"
    and last: "bt_insert a b m = m @ [(a, b)]"
    using Cons.prems by (auto simp: e sorted_wrt_append intro!: bt_insert_last)
  show ?case
    using Cons.IH [OF sorted(1)] Cons.IH [OF sorted(2)] last
    by (cases "ce_expires_at_ms b \<le> now") (simp_all add: e live_connections_def connection_entry_eta not_less not_le)
qed

text \<open>Saving the leases and restoring them later gives the connections that are live by then, in the same order.\<close>

lemma restored_leases_are_the_live_ones:
  assumes "connections_wf g"
  shows "restore_leases later (fst (snapshot_leases now g)) h =
    (length (live_connections later (live_connections now (cg_connections g))),
     h\<lparr>cg_connections := live_connections later (live_connections now (cg_connections g))\<rparr>)"
proof -
  let ?live = "live_connections now (cg_connections g)"
  have sorted: "sorted_wrt (<) (map fst ?live)" using assms bt_wf_live by (simp add: connections_wf_def bt_wf_def)
  have "map cl_token (map (\<lambda>(token, entry). lease_of token entry) ?live) = map fst ?live"
    by (simp add: lease_of_def case_prod_unfold)
  then have "sorted (map cl_token (map (\<lambda>(token, entry). lease_of token entry) ?live))"
    using sorted strict_sorted_imp_sorted by (simp only:)
  then have "fst (snapshot_leases now g) = map (\<lambda>(token, entry). lease_of token entry) ?live"
    by (simp add: snapshot_leases_def Let_def sort_key_id_if_sorted)
  then show ?thesis using restore_into_leases [of "[]" ?live later 0] sorted by (simp add: restore_leases_def)
qed

section \<open>Challenges\<close>

record challenge =
  ch_nonce :: string
  ch_issued_at_ms :: u64
  ch_expires_at_ms :: u64

record challenge_registry =
  cr_nonce :: u64
  cr_challenges :: "(string, challenge) btree"

definition challenge_registry_new :: challenge_registry where
  "challenge_registry_new = \<lparr>cr_nonce = 0, cr_challenges = []\<rparr>"

definition challenge_ttl_ms :: u64 where
  "challenge_ttl_ms = 60000"

definition challenge_nonce_of :: "u64 \<Rightarrow> u64 \<Rightarrow> string" where
  "challenge_nonce_of sequence random_component = ''cpc-'' @ hex16 sequence @ ''-'' @ hex16 random_component"

definition issue_challenge_with_ttl :: "u64 \<Rightarrow> u64 \<Rightarrow> u64 \<Rightarrow> challenge_registry \<Rightarrow> challenge \<times> challenge_registry" where
  "issue_challenge_with_ttl now random_component ttl_ms g =
     (let expires_at_ms = u64_saturating_add now (max ttl_ms 1); sequence = cr_nonce g + 1;
          challenge = \<lparr>ch_nonce = challenge_nonce_of sequence random_component, ch_issued_at_ms = now, ch_expires_at_ms = expires_at_ms\<rparr>
      in (challenge, g\<lparr>cr_nonce := sequence, cr_challenges := bt_insert (ch_nonce challenge) challenge (cr_challenges g)\<rparr>))"

definition issue_challenge :: "u64 \<Rightarrow> u64 \<Rightarrow> challenge_registry \<Rightarrow> challenge \<times> challenge_registry" where
  "issue_challenge now random_component g = issue_challenge_with_ttl now random_component challenge_ttl_ms g"

definition consume_challenge :: "u64 \<Rightarrow> string \<Rightarrow> challenge_registry \<Rightarrow> challenge option \<times> challenge_registry" where
  "consume_challenge now raw_nonce g =
     (let nonce = trim raw_nonce in
      if nonce = [] then (None, g)
      else let challenges = filter (\<lambda>entry. now < ch_expires_at_ms (snd entry)) (cr_challenges g)
           in (bt_get challenges nonce, g\<lparr>cr_challenges := bt_remove nonce challenges\<rparr>))"

text \<open>Runs of the registry, with the challenges consumed and the time of each.\<close>

datatype challenge_op = IssueChallenge u64 u64 | ConsumeChallenge u64 string

fun challenge_op_step :: "challenge_op \<Rightarrow> challenge_registry \<times> (u64 \<times> challenge) list \<Rightarrow> challenge_registry \<times> (u64 \<times> challenge) list" where
  "challenge_op_step (IssueChallenge now r) (g, log) = (snd (issue_challenge now r g), log)"
| "challenge_op_step (ConsumeChallenge now raw_nonce) (g, log) =
     (case consume_challenge now raw_nonce g of (result, g) \<Rightarrow>
        (g, case result of Some challenge \<Rightarrow> log @ [(now, challenge)] | None \<Rightarrow> log))"

definition run_challenge_ops :: "challenge_op list \<Rightarrow> challenge_registry \<times> (u64 \<times> challenge) list" where
  "run_challenge_ops ops = fold challenge_op_step ops (challenge_registry_new, [])"

definition challenge_wf :: "u64 \<Rightarrow> challenge \<Rightarrow> bool" where
  "challenge_wf limit c \<longleftrightarrow> (\<exists>s r. ch_nonce c = challenge_nonce_of s r \<and> s \<le> limit) \<and>
     ch_expires_at_ms c = u64_saturating_add (ch_issued_at_ms c) challenge_ttl_ms"

definition challenges_ok :: "challenge_registry \<times> (u64 \<times> challenge) list \<Rightarrow> bool" where
  "challenges_ok s \<longleftrightarrow> (case s of (g, log) \<Rightarrow>
     bt_wf (cr_challenges g) \<and>
     (\<forall>k c. bt_get (cr_challenges g) k = Some c \<longrightarrow>
        ch_nonce c = k \<and> challenge_wf (cr_nonce g) c \<and> k \<notin> (\<lambda>(now, c). ch_nonce c) ` set log) \<and>
     (\<forall>(now, c) \<in> set log. challenge_wf (cr_nonce g) c \<and> now < ch_expires_at_ms c) \<and>
     distinct (map (\<lambda>(now, c). ch_nonce c) log))"

lemma challenge_nonce_of_inj: "challenge_nonce_of s r = challenge_nonce_of s' r' \<longleftrightarrow> s = s' \<and> r = r'"
proof -
  have "length (hex16 w) = 16" for w by (simp add: hex16_def)
  then show ?thesis by (auto simp: challenge_nonce_of_def hex16_inj append_eq_append_conv)
qed

lemma challenge_wf_mono: "challenge_wf limit c \<Longrightarrow> limit \<le> limit' \<Longrightarrow> challenge_wf limit' c"
  unfolding challenge_wf_def by (meson order_trans)

lemma u64_next_greater: "(n :: u64) \<noteq> - 1 \<Longrightarrow> n < n + 1"
proof -
  assume "n \<noteq> - 1"
  then have "n + 1 \<noteq> 0" by (simp add: add_eq_0_iff2)
  then show ?thesis using unatSuc [of n] by (simp add: add.commute word_less_nat_alt)
qed

lemma max_challenge_ttl: "max challenge_ttl_ms 1 = challenge_ttl_ms"
  by (simp add: challenge_ttl_ms_def max_def word_le_nat_alt)

lemma issue_challenge_ok:
  assumes ok: "challenges_ok (g, log)" and room: "cr_nonce g \<noteq> - 1"
  shows "challenges_ok (snd (issue_challenge now r g), log)"
proof -
  let ?s = "cr_nonce g + 1"
  let ?k = "challenge_nonce_of ?s r"
  let ?c = "\<lparr>ch_nonce = ?k, ch_issued_at_ms = now, ch_expires_at_ms = u64_saturating_add now challenge_ttl_ms\<rparr>"
  have less: "cr_nonce g < ?s" using room by (rule u64_next_greater)
  have fresh: "ch_nonce c \<noteq> ?k" if "challenge_wf (cr_nonce g) c" for c
    using that less by (auto simp: challenge_wf_def challenge_nonce_of_inj)
  have logged: "?k \<notin> (\<lambda>(now, c). ch_nonce c) ` set log"
  proof
    assume "?k \<in> (\<lambda>(now, c). ch_nonce c) ` set log"
    then obtain t c where "(t, c) \<in> set log" "ch_nonce c = ?k" by auto
    then show False using ok fresh by (auto simp: challenges_ok_def)
  qed
  have mono: "challenge_wf ?s c" if "challenge_wf (cr_nonce g) c" for c using that less by (rule challenge_wf_mono [OF _ less_imp_le])
  have issued: "challenge_wf ?s ?c" unfolding challenge_wf_def by auto
  have "snd (issue_challenge now r g) = g\<lparr>cr_nonce := ?s, cr_challenges := bt_insert ?k ?c (cr_challenges g)\<rparr>"
    by (simp add: issue_challenge_def issue_challenge_with_ttl_def Let_def max_challenge_ttl)
  then show ?thesis
    using ok mono issued logged unfolding challenges_ok_def by (auto split: if_splits)
qed

lemma consume_challenge_ok:
  assumes ok: "challenges_ok (g, log)" and consumed: "consume_challenge now raw_nonce g = (result, g')"
  shows "challenges_ok (g', case result of Some c \<Rightarrow> log @ [(now, c)] | None \<Rightarrow> log)" and "cr_nonce g' = cr_nonce g"
proof -
  let ?k = "trim raw_nonce"
  let ?m = "filter (\<lambda>entry. now < ch_expires_at_ms (snd entry)) (cr_challenges g)"
  have wf: "bt_wf (cr_challenges g)" using ok by (simp add: challenges_ok_def)
  have live: "bt_get ?m k = Some c \<longleftrightarrow> bt_get (cr_challenges g) k = Some c \<and> now < ch_expires_at_ms c" for k c
    using bt_get_filter_snd [OF wf, of "\<lambda>c. now < ch_expires_at_ms c" k] by (cases "bt_get (cr_challenges g) k") auto
  have removed: "bt_get (bt_remove ?k ?m) k = (if k = ?k then None else bt_get ?m k)" for k
    using bt_get_filter [of "{?k}" ?m k] by (simp add: bt_remove_def)
  have wf': "bt_wf (bt_remove ?k ?m)" using wf by (simp add: bt_remove_def bt_wf_filter del: filter_filter)
  show "cr_nonce g' = cr_nonce g" using consumed by (auto simp: consume_challenge_def Let_def split: if_splits)
  show "challenges_ok (g', case result of Some c \<Rightarrow> log @ [(now, c)] | None \<Rightarrow> log)"
  proof (cases "?k = []")
    case True
    then show ?thesis using ok consumed by (auto simp: consume_challenge_def)
  next
    case False
    then have g': "g' = g\<lparr>cr_challenges := bt_remove ?k ?m\<rparr>" and result: "result = bt_get ?m ?k"
      using consumed by (auto simp: consume_challenge_def Let_def)
    show ?thesis
    proof (cases result)
      case None
      then show ?thesis using ok wf' live removed by (auto simp: challenges_ok_def g' split: if_splits)
    next
      case (Some c)
      then have c: "bt_get (cr_challenges g) ?k = Some c" "now < ch_expires_at_ms c" using live result by auto
      then have "ch_nonce c = ?k" "challenge_wf (cr_nonce g) c" "?k \<notin> (\<lambda>(now, c). ch_nonce c) ` set log"
        using ok by (auto simp: challenges_ok_def)
      then show ?thesis using ok wf' live removed c(2) Some by (auto simp: challenges_ok_def g' split: if_splits)
    qed
  qed
qed


lemma run_challenge_ops_ok:
  "length ops < 2 ^ 64 \<Longrightarrow>
    challenges_ok (run_challenge_ops ops) \<and> unat (cr_nonce (fst (run_challenge_ops ops))) \<le> length ops"
proof (induction ops rule: rev_induct)
  case Nil
  then show ?case by (simp add: run_challenge_ops_def challenges_ok_def challenge_registry_new_def)
next
  case (snoc op ops)
  obtain g log where s: "run_challenge_ops ops = (g, log)" by fastforce
  have ih: "challenges_ok (g, log)" "unat (cr_nonce g) \<le> length ops" using snoc s by auto
  have run: "run_challenge_ops (ops @ [op]) = challenge_op_step op (g, log)" using s by (simp add: run_challenge_ops_def)
  have "unat (- 1 :: u64) = 2 ^ 64 - 1" by (simp add: unsigned_minus_1_eq_mask mask_eq_exp_minus_1)
  then have room: "cr_nonce g \<noteq> - 1" using ih(2) snoc.prems by auto
  have next_nonce: "unat (cr_nonce g + 1) \<le> unat (cr_nonce g) + 1" by (simp add: unat_word_ariths(1))
  show ?case
  proof (cases op)
    case (IssueChallenge now r)
    have "cr_nonce (snd (issue_challenge now r g)) = cr_nonce g + 1"
      by (simp add: issue_challenge_def issue_challenge_with_ttl_def Let_def)
    then show ?thesis using issue_challenge_ok [OF ih(1) room] next_nonce ih(2) by (simp add: run [unfolded IssueChallenge] IssueChallenge)
  next
    case (ConsumeChallenge now raw_nonce)
    obtain result g' where consumed: "consume_challenge now raw_nonce g = (result, g')" by fastforce
    show ?thesis
      using consume_challenge_ok [OF ih(1) consumed] ih(2) by (simp add: run [unfolded ConsumeChallenge] ConsumeChallenge consumed)
  qed
qed

text \<open>
  No challenge is consumed twice, however often its nonce is presented, and none after its 60 seconds, for every
  run of the registry with fewer than \<open>2 ^ 64\<close> operations: a recorded connect request cannot be replayed.
\<close>

theorem challenges_are_used_once_in_time:
  assumes "length ops < 2 ^ 64" and "run_challenge_ops ops = (g, log)"
  shows "distinct (map (\<lambda>(now, c). ch_nonce c) log) \<and>
    list_all (\<lambda>(now, c). now < u64_saturating_add (ch_issued_at_ms c) 60000) log"
  using conjunct1 [OF run_challenge_ops_ok [OF assms(1)]]
  by (auto simp: assms(2) challenges_ok_def challenge_wf_def challenge_ttl_ms_def list_all_iff)

lemma hex_digit_graphic: "d < 16 \<Longrightarrow> ascii_graphic (hex_digit d)"
  by (simp add: hex_digit_def ascii_graphic_def)

lemma trim_registry_id:
  assumes "p \<noteq> []" and "ascii_graphic (hd p)"
  shows "trim (p @ hex16 s @ ''-'' @ hex16 r) = p @ hex16 s @ ''-'' @ hex16 r"
proof (rule trim_graphic_id)
  show "ascii_graphic (hd (p @ hex16 s @ ''-'' @ hex16 r))" using assms by simp
  have "last (hex16 r) = hex_digit (unat r mod 16)" by (simp add: hex16_def last_map last_rev)
  moreover have "hex16 r \<noteq> []" by (simp add: hex16_def)
  ultimately show "ascii_graphic (last (p @ hex16 s @ ''-'' @ hex16 r))" by (simp add: hex_digit_graphic)
qed

lemma trim_challenge_nonce [simp]: "trim (challenge_nonce_of s r) = challenge_nonce_of s r" "challenge_nonce_of s r \<noteq> []"
  using trim_registry_id [of "''cpc-''" s r] by (simp_all add: challenge_nonce_of_def ascii_graphic_def)

lemma trim_connection_token [simp]: "trim (connection_token_of s r) = connection_token_of s r" "connection_token_of s r \<noteq> []"
  using trim_registry_id [of "''cpt-''" s r] by (simp_all add: connection_token_of_def ascii_graphic_def)

lemma consume_only_challenge:
  "trim n = n \<Longrightarrow> n \<noteq> [] \<Longrightarrow> now < ch_expires_at_ms c \<Longrightarrow>
    consume_challenge now n \<lparr>cr_nonce = s, cr_challenges = [(n, c)]\<rparr> = (Some c, \<lparr>cr_nonce = s, cr_challenges = []\<rparr>)"
  "trim n = n \<Longrightarrow> n \<noteq> [] \<Longrightarrow>
    consume_challenge now n \<lparr>cr_nonce = s, cr_challenges = []\<rparr> = (None, \<lparr>cr_nonce = s, cr_challenges = []\<rparr>)"
  by (simp_all add: consume_challenge_def Let_def bt_remove_def)

lemma challenges_are_used_once_in_time_witness:
  "\<exists>g c. run_challenge_ops [IssueChallenge 5 7, ConsumeChallenge 9 (challenge_nonce_of 1 7), ConsumeChallenge 9 (challenge_nonce_of 1 7)] =
      (g, [(9, c)]) \<and> 9 < u64_saturating_add (ch_issued_at_ms c) 60000"
proof -
  let ?ops = "[IssueChallenge 5 7, ConsumeChallenge 9 (challenge_nonce_of 1 7), ConsumeChallenge 9 (challenge_nonce_of 1 7)]"
  let ?n = "challenge_nonce_of 1 7"
  let ?c = "\<lparr>ch_nonce = ?n, ch_issued_at_ms = 5, ch_expires_at_ms = 60005\<rparr>"
  have "u64_saturating_add 5 challenge_ttl_ms = 60005" by (simp add: u64_saturating_add_def challenge_ttl_ms_def)
  then have issued: "snd (issue_challenge 5 7 challenge_registry_new) = \<lparr>cr_nonce = 1, cr_challenges = [(?n, ?c)]\<rparr>"
    by (simp add: issue_challenge_def issue_challenge_with_ttl_def Let_def max_challenge_ttl challenge_registry_new_def)
  have consumed: "consume_challenge 9 ?n \<lparr>cr_nonce = 1, cr_challenges = [(?n, ?c)]\<rparr> = (Some ?c, \<lparr>cr_nonce = 1, cr_challenges = []\<rparr>)"
    "consume_challenge 9 ?n \<lparr>cr_nonce = 1, cr_challenges = []\<rparr> = (None, \<lparr>cr_nonce = 1, cr_challenges = []\<rparr>)"
    by (rule consume_only_challenge; simp)+
  have run: "run_challenge_ops ?ops = (\<lparr>cr_nonce = 1, cr_challenges = []\<rparr>, [(9, ?c)])"
    by (simp add: run_challenge_ops_def issued consumed)
  then show ?thesis using challenges_are_used_once_in_time [OF _ run] by auto
qed

end
