(* ===== verification/Control_Plane_Pairing.thy ===== *)
theory Control_Plane_Pairing
  imports Control_Plane_Leases
begin

text \<open>
  Device pairing of the control plane: the registry of pairing requests and approved devices
  (ControlPlanePairingRegistry in crates/app/src/control_plane.rs) and the two tables behind it
  (crates/app/src/session/repository/persistence.rs and records.rs, with the table definitions of
  crates/app/src/memory/sqlite/schema.rs). Rows hold the scopes as a set and the status as the value
  its text stands for; the statements are modelled with their conditions and unique keys, and each of
  them, like opening the repository or a connection, can fail with a text of its own. A failed commit
  leaves the tables as they were. Columns of type \<open>i64\<close> are 64-bit words. SHA-256 is an argument.
\<close>

section \<open>The tables\<close>

datatype pairing_status = PairingPending | PairingApproved | PairingRejected

fun pairing_status_as_str :: "pairing_status \<Rightarrow> string" where
  "pairing_status_as_str PairingPending = ''pending''"
| "pairing_status_as_str PairingApproved = ''approved''"
| "pairing_status_as_str PairingRejected = ''rejected''"

record pairing_row =
  pw_pairing_request_id :: string
  pw_device_id :: string
  pw_client_id :: string
  pw_public_key :: string
  pw_role :: string
  pw_requested_scopes :: "string set"
  pw_status :: pairing_status
  pw_requested_at_ms :: u64
  pw_resolved_at_ms :: "u64 option"
  pw_issued_token_id :: "string option"
  pw_last_error :: "string option"

record device_token_row =
  dt_token_id :: string
  dt_device_id :: string
  dt_public_key :: string
  dt_role :: string
  dt_approved_scopes :: "string set"
  dt_token_hash :: string
  dt_issued_at_ms :: u64
  dt_expires_at_ms :: "u64 option"
  dt_revoked_at_ms :: "u64 option"
  dt_last_used_at_ms :: "u64 option"
  dt_pairing_request_id :: "string option"

record pairing_tables =
  pt_requests :: "pairing_row list"
  pt_tokens :: "device_token_row list"

datatype pairing_stage =
    OpenRepository | OpenForEnsure | InsertRequest | OpenForEnsuredLoad | LoadEnsured
  | OpenForTransition | UpdateRequest | OpenForTransitionedLoad | LoadTransitioned
  | OpenForApproval | BeginApproval | ApproveRow | UpsertToken | CommitApproval | OpenForApprovedLoad | LoadApproved
  | OpenForRequestList | ListRequests | OpenForTokenList | ListTokens

type_synonym pairing_faults = "pairing_stage \<Rightarrow> string option"

definition stage_ok :: "pairing_faults \<Rightarrow> pairing_stage \<Rightarrow> string \<Rightarrow> string + unit" where
  "stage_ok fails stage message = (case fails stage of Some error \<Rightarrow> Inl (message @ error) | None \<Rightarrow> Inr ())"

definition repo_required_text :: "string \<Rightarrow> string \<Rightarrow> string + string" where
  "repo_required_text v field_name =
     (if trim v = [] then Inl (''session repository requires '' @ field_name) else Inr (trim v))"

definition repo_optional_text :: "string option \<Rightarrow> string option" where
  "repo_optional_text v = (case v of Some raw \<Rightarrow> if trim raw = [] then None else Some (trim raw) | None \<Rightarrow> None)"

text \<open>\<open>encode_string_set_json\<close> followed by \<open>decode_string_set_json\<close>.\<close>

definition scope_set :: "string set \<Rightarrow> string set" where
  "scope_set scopes = trim ` scopes - {[]}"

definition load_pairing_request ::
  "pairing_faults \<Rightarrow> pairing_stage \<Rightarrow> pairing_stage \<Rightarrow> string \<Rightarrow> pairing_tables \<Rightarrow> string + pairing_row option" where
  "load_pairing_request fails opening loading raw_id t =
     try_bind (repo_required_text raw_id ''pairing_request_id'') (\<lambda>pairing_request_id.
     try_bind (stage_ok fails opening '''') (\<lambda>_.
     try_bind (stage_ok fails loading ''load control-plane pairing request row failed: '') (\<lambda>_.
     Inr (find (\<lambda>row. pw_pairing_request_id row = pairing_request_id) (pt_requests t)))))"

record new_pairing_request =
  np_pairing_request_id :: string
  np_device_id :: string
  np_client_id :: string
  np_public_key :: string
  np_role :: string
  np_requested_scopes :: "string set"

definition ensure_pairing_request ::
  "pairing_faults \<Rightarrow> u64 \<Rightarrow> new_pairing_request \<Rightarrow> pairing_tables \<Rightarrow> (string + pairing_row) \<times> pairing_tables" where
  "ensure_pairing_request fails db_now new t =
     and_then (repo_required_text (np_pairing_request_id new) ''pairing_request_id'', t) (\<lambda>pairing_request_id t.
     and_then (repo_required_text (np_device_id new) ''device_id'', t) (\<lambda>device_id t.
     and_then (repo_required_text (np_client_id new) ''client_id'', t) (\<lambda>client_id t.
     and_then (repo_required_text (np_public_key new) ''public_key'', t) (\<lambda>public_key t.
     and_then (repo_required_text (np_role new) ''role'', t) (\<lambda>role t.
     and_then (stage_ok fails OpenForEnsure '''', t) (\<lambda>_ t.
     let loaded = (\<lambda>missing t. (try_bind (load_pairing_request fails OpenForEnsuredLoad LoadEnsured pairing_request_id t)
           (\<lambda>row. case row of Some row \<Rightarrow> Inr row
            | None \<Rightarrow> Inl (''control-plane pairing request `'' @ pairing_request_id @ missing)), t));
         unique_error = ''UNIQUE constraint failed: control_plane_pairing_requests.pairing_request_id'';
         error = (case fails InsertRequest of
             Some error \<Rightarrow> Some error
           | None \<Rightarrow> if list_ex (\<lambda>row. pw_pairing_request_id row = pairing_request_id) (pt_requests t) then Some unique_error else None)
     in case error of
          Some error \<Rightarrow>
            if sublist ''UNIQUE constraint failed'' error then loaded ''` missing after concurrent insert'' t
            else (Inl (''insert control-plane pairing request row failed: '' @ error), t)
        | None \<Rightarrow>
            loaded ''` disappeared after insert''
              (t\<lparr>pt_requests := pt_requests t @
                [\<lparr>pw_pairing_request_id = pairing_request_id, pw_device_id = device_id, pw_client_id = client_id,
                  pw_public_key = public_key, pw_role = role, pw_requested_scopes = scope_set (np_requested_scopes new),
                  pw_status = PairingPending, pw_requested_at_ms = db_now, pw_resolved_at_ms = None,
                  pw_issued_token_id = None, pw_last_error = None\<rparr>]\<rparr>)))))))"

definition row_matches :: "string \<Rightarrow> pairing_status \<Rightarrow> pairing_row \<Rightarrow> bool" where
  "row_matches pairing_request_id status row \<longleftrightarrow> pw_pairing_request_id row = pairing_request_id \<and> pw_status row = status"

definition update_rows :: "(pairing_row \<Rightarrow> bool) \<Rightarrow> (pairing_row \<Rightarrow> pairing_row) \<Rightarrow> pairing_tables \<Rightarrow> pairing_tables" where
  "update_rows P f t = t\<lparr>pt_requests := map (\<lambda>row. if P row then f row else row) (pt_requests t)\<rparr>"

definition transition_pairing_request ::
  "pairing_faults \<Rightarrow> u64 \<Rightarrow> string \<Rightarrow> pairing_status \<Rightarrow> pairing_status \<Rightarrow> string option \<Rightarrow> string option \<Rightarrow> pairing_tables \<Rightarrow>
    (string + pairing_row option) \<times> pairing_tables" where
  "transition_pairing_request fails db_now raw_id expected_status next_status issued_token_id last_error t =
     and_then (repo_required_text raw_id ''pairing_request_id'', t) (\<lambda>pairing_request_id t.
     let last_error = repo_optional_text last_error;
         resolution_ts = (if next_status \<in> {PairingApproved, PairingRejected} then Some db_now else None)
     in and_then (stage_ok fails OpenForTransition '''', t) (\<lambda>_ t.
     and_then (stage_ok fails UpdateRequest ''conditionally update control-plane pairing request failed: '', t) (\<lambda>_ t.
     if \<not> list_ex (row_matches pairing_request_id expected_status) (pt_requests t) then (Inr None, t)
     else
       let t = update_rows (row_matches pairing_request_id expected_status)
           (\<lambda>row. row\<lparr>pw_status := next_status,
             pw_resolved_at_ms := (case resolution_ts of None \<Rightarrow> pw_resolved_at_ms row | ts \<Rightarrow> ts),
             pw_issued_token_id := (case issued_token_id of None \<Rightarrow> pw_issued_token_id row | i \<Rightarrow> i),
             pw_last_error := last_error\<rparr>) t
       in (try_bind (load_pairing_request fails OpenForTransitionedLoad LoadTransitioned pairing_request_id t)
             (\<lambda>row. case row of Some row \<Rightarrow> Inr (Some row)
              | None \<Rightarrow> Inl (''control-plane pairing request `'' @ pairing_request_id @ ''` missing after conditional update'')), t))))"

record new_device_token =
  nd_token_id :: string
  nd_device_id :: string
  nd_public_key :: string
  nd_role :: string
  nd_approved_scopes :: "string set"
  nd_token_hash :: string
  nd_expires_at_ms :: "u64 option"
  nd_revoked_at_ms :: "u64 option"
  nd_last_used_at_ms :: "u64 option"
  nd_pairing_request_id :: "string option"

text \<open>
  \<open>INSERT .. ON CONFLICT(device_id) DO UPDATE\<close>: the row of the device is replaced; the token id of another
  device's row violates the primary key.
\<close>

definition upsert_token_row :: "device_token_row \<Rightarrow> device_token_row list \<Rightarrow> string + device_token_row list" where
  "upsert_token_row row rows =
     (if list_ex (\<lambda>r. dt_token_id r = dt_token_id row \<and> dt_device_id r \<noteq> dt_device_id row) rows
      then Inl ''UNIQUE constraint failed: control_plane_device_tokens.token_id''
      else if list_ex (\<lambda>r. dt_device_id r = dt_device_id row) rows
      then Inr (map (\<lambda>r. if dt_device_id r = dt_device_id row then row else r) rows)
      else Inr (rows @ [row]))"

definition approve_pairing_request ::
  "pairing_faults \<Rightarrow> pairing_row \<Rightarrow> new_device_token \<Rightarrow> pairing_tables \<Rightarrow> (string + pairing_row option) \<times> pairing_tables" where
  "approve_pairing_request fails request token t =
     (if pw_status request \<noteq> PairingApproved
      then (Inl ''control-plane pairing approval persistence requires approved status'', t)
      else
        and_then (repo_required_text (pw_pairing_request_id request) ''pairing_request_id'', t) (\<lambda>pairing_request_id t.
        and_then (case pw_resolved_at_ms request of Some ts \<Rightarrow> Inr ts
          | None \<Rightarrow> Inl ''approved control-plane pairing request requires resolved_at_ms'', t) (\<lambda>resolved_at_ms t.
        and_then (case pw_issued_token_id request of Some i \<Rightarrow> Inr i
          | None \<Rightarrow> Inl ''approved control-plane pairing request requires issued_token_id'', t) (\<lambda>issued_token_id t.
        and_then (repo_required_text (nd_token_id token) ''token_id'', t) (\<lambda>new_token_id t.
        and_then (repo_required_text (nd_device_id token) ''device_id'', t) (\<lambda>device_id t.
        and_then (repo_required_text (nd_public_key token) ''public_key'', t) (\<lambda>public_key t.
        and_then (repo_required_text (nd_role token) ''role'', t) (\<lambda>role t.
        and_then (repo_required_text (nd_token_hash token) ''token_hash'', t) (\<lambda>token_hash t.
        and_then (stage_ok fails OpenForApproval '''', t) (\<lambda>_ t.
        and_then (stage_ok fails BeginApproval ''open control-plane pairing approval transaction failed: '', t) (\<lambda>_ t.
        and_then (stage_ok fails ApproveRow ''approve control-plane pairing request transaction update failed: '', t) (\<lambda>_ t.
        if \<not> list_ex (row_matches pairing_request_id PairingPending) (pt_requests t) then (Inr None, t)
        else
          let row = \<lparr>dt_token_id = new_token_id, dt_device_id = device_id, dt_public_key = public_key, dt_role = role,
                dt_approved_scopes = scope_set (nd_approved_scopes token), dt_token_hash = token_hash,
                dt_issued_at_ms = resolved_at_ms, dt_expires_at_ms = nd_expires_at_ms token,
                dt_revoked_at_ms = nd_revoked_at_ms token, dt_last_used_at_ms = nd_last_used_at_ms token,
                dt_pairing_request_id = nd_pairing_request_id token\<rparr>
          in and_then (try_bind (stage_ok fails UpsertToken ''approve control-plane pairing request token upsert failed: '')
               (\<lambda>_. map_err (\<lambda>e. ''approve control-plane pairing request token upsert failed: '' @ e)
                 (upsert_token_row row (pt_tokens t))), t) (\<lambda>tokens t.
             and_then (stage_ok fails CommitApproval ''commit control-plane pairing approval transaction failed: '', t) (\<lambda>_ t.
             let t = (update_rows (row_matches pairing_request_id PairingPending)
                 (\<lambda>row. row\<lparr>pw_status := PairingApproved, pw_resolved_at_ms := Some resolved_at_ms,
                   pw_issued_token_id := Some issued_token_id, pw_last_error := None\<rparr>) t)\<lparr>pt_tokens := tokens\<rparr>
             in (try_bind (load_pairing_request fails OpenForApprovedLoad LoadApproved pairing_request_id t)
                   (\<lambda>row. case row of Some row \<Rightarrow> Inr (Some row)
                    | None \<Rightarrow> Inl (''control-plane pairing request `'' @ pairing_request_id @ ''` missing after approval commit'')),
                 t)))))))))))))))"

definition list_pairing_rows :: "pairing_faults \<Rightarrow> pairing_tables \<Rightarrow> string + pairing_row list" where
  "list_pairing_rows fails t =
     try_bind (stage_ok fails OpenForRequestList '''') (\<lambda>_.
     try_bind (stage_ok fails ListRequests '''') (\<lambda>_.
     Inr (sort_key (\<lambda>row. (- sint (pw_requested_at_ms row), pw_pairing_request_id row)) (pt_requests t))))"

definition list_device_token_rows :: "pairing_faults \<Rightarrow> pairing_tables \<Rightarrow> string + device_token_row list" where
  "list_device_token_rows fails t =
     try_bind (stage_ok fails OpenForTokenList '''') (\<lambda>_.
     try_bind (stage_ok fails ListTokens '''') (\<lambda>_.
     Inr (sort_key (\<lambda>row. (- sint (dt_issued_at_ms row), dt_token_id row)) (pt_tokens t))))"

section \<open>The registry\<close>

record pairing_request =
  pq_pairing_request_id :: string
  pq_device_id :: string
  pq_client_id :: string
  pq_public_key :: string
  pq_role :: string
  pq_requested_scopes :: "string set"
  pq_status :: pairing_status
  pq_requested_at_ms :: u64
  pq_resolved_at_ms :: "u64 option"
  pq_issued_token_id :: "string option"
  pq_device_token :: "string option"

record approved_device =
  ad_device_id :: string
  ad_public_key :: string
  ad_role :: string
  ad_approved_scopes :: "string set"
  ad_token_id :: string
  ad_token_hash :: string
  ad_approved_at_ms :: u64

record approved_summary =
  as_device_id :: string
  as_public_key :: string
  as_role :: string
  as_approved_scopes :: "string set"
  as_issued_at_ms :: u64

datatype pairing_decision =
  PairAuthorized | PairingRequired pairing_request bool | DeviceTokenRequired | DeviceTokenInvalid

record pairing_registry =
  pg_nonce :: u64
  pg_requests :: "(string, pairing_request) btree"
  pg_approved :: "(string, approved_device) btree"
  pg_tables :: "pairing_tables option"

text \<open>What an operation takes from outside: hash, clocks, random numbers and the faults of the statements.\<close>

record pairing_env =
  pv_hash :: "string \<Rightarrow> string"
  pv_now_ms :: u64
  pv_db_now_ms :: u64
  pv_random1 :: u64
  pv_random2 :: u64
  pv_fails :: pairing_faults

definition pairing_registry_new :: pairing_registry where
  "pairing_registry_new = \<lparr>pg_nonce = 0, pg_requests = [], pg_approved = [], pg_tables = None\<rparr>"

definition request_from_row :: "pairing_row \<Rightarrow> pairing_request" where
  "request_from_row row =
     \<lparr>pq_pairing_request_id = pw_pairing_request_id row, pq_device_id = pw_device_id row, pq_client_id = pw_client_id row,
      pq_public_key = pw_public_key row, pq_role = pw_role row, pq_requested_scopes = pw_requested_scopes row,
      pq_status = pw_status row, pq_requested_at_ms = pw_requested_at_ms row, pq_resolved_at_ms = pw_resolved_at_ms row,
      pq_issued_token_id = pw_issued_token_id row, pq_device_token = None\<rparr>"

text \<open>\<open>try_into().unwrap_or(i64::MAX)\<close>.\<close>

definition u64_to_i64 :: "u64 \<Rightarrow> u64" where
  "u64_to_i64 v = (if unat v < 2 ^ 63 then v else 2 ^ 63 - 1)"

definition row_from_request :: "pairing_request \<Rightarrow> pairing_row" where
  "row_from_request request =
     \<lparr>pw_pairing_request_id = pq_pairing_request_id request, pw_device_id = pq_device_id request,
      pw_client_id = pq_client_id request, pw_public_key = pq_public_key request, pw_role = pq_role request,
      pw_requested_scopes = pq_requested_scopes request, pw_status = pq_status request,
      pw_requested_at_ms = u64_to_i64 (pq_requested_at_ms request),
      pw_resolved_at_ms = map_option u64_to_i64 (pq_resolved_at_ms request),
      pw_issued_token_id = pq_issued_token_id request, pw_last_error = None\<rparr>"

definition device_from_row :: "device_token_row \<Rightarrow> approved_device" where
  "device_from_row row =
     \<lparr>ad_device_id = dt_device_id row, ad_public_key = dt_public_key row, ad_role = dt_role row,
      ad_approved_scopes = dt_approved_scopes row, ad_token_id = dt_token_id row, ad_token_hash = dt_token_hash row,
      ad_approved_at_ms = dt_issued_at_ms row\<rparr>"

text \<open>\<open>collect::<BTreeMap<_, _>>()\<close>.\<close>

definition bt_collect :: "('k :: linorder \<times> 'v) list \<Rightarrow> ('k, 'v) btree" where
  "bt_collect es = fold (\<lambda>(k, v). bt_insert k v) es []"

definition pairing_with_memory_config :: "pairing_faults \<Rightarrow> pairing_tables \<Rightarrow> string + pairing_registry" where
  "pairing_with_memory_config fails t =
     try_bind (stage_ok fails OpenRepository '''') (\<lambda>_.
     try_bind (list_pairing_rows fails t) (\<lambda>persisted_requests.
     try_bind (list_device_token_rows fails t) (\<lambda>persisted_devices.
     Inr \<lparr>pg_nonce = 0,
       pg_requests = bt_collect (map (\<lambda>row. (pw_pairing_request_id row, request_from_row row)) persisted_requests),
       pg_approved = bt_collect (map (\<lambda>row. (dt_device_id row, device_from_row row)) persisted_devices),
       pg_tables = Some t\<rparr>)))"

definition plane_required_text :: "string \<Rightarrow> string \<Rightarrow> string + string" where
  "plane_required_text v field_name = (if trim v = [] then Inl (field_name @ '' is required'') else Inr (trim v))"

definition approved_device_requires_pairing :: "approved_device \<Rightarrow> string \<Rightarrow> string set \<Rightarrow> bool" where
  "approved_device_requires_pairing approved requested_role requested_scopes \<longleftrightarrow>
     (if ad_role approved \<noteq> requested_role then True else \<not> requested_scopes \<subseteq> ad_approved_scopes approved)"

section \<open>Persisting\<close>

definition in_tables ::
  "(pairing_tables \<Rightarrow> (string + 'a) \<times> pairing_tables) \<Rightarrow> pairing_tables \<Rightarrow> pairing_registry \<Rightarrow> (string + 'a) \<times> pairing_registry" where
  "in_tables op t g = (case op t of (result, t) \<Rightarrow> (result, g\<lparr>pg_tables := Some t\<rparr>))"

definition persist_request :: "pairing_env \<Rightarrow> pairing_request \<Rightarrow> pairing_registry \<Rightarrow> (string + unit) \<times> pairing_registry" where
  "persist_request env request g =
     (case pg_tables g of
        None \<Rightarrow> (Inr (), g)
      | Some t \<Rightarrow> in_tables (\<lambda>t.
          and_then (stage_ok (pv_fails env) OpenRepository '''', t) (\<lambda>_ t.
          and_then (ensure_pairing_request (pv_fails env) (pv_db_now_ms env)
            \<lparr>np_pairing_request_id = pq_pairing_request_id request, np_device_id = pq_device_id request,
             np_client_id = pq_client_id request, np_public_key = pq_public_key request, np_role = pq_role request,
             np_requested_scopes = pq_requested_scopes request\<rparr> t) (\<lambda>_ t.
          if pq_status request \<noteq> PairingPending
          then and_then (transition_pairing_request (pv_fails env) (pv_db_now_ms env) (pq_pairing_request_id request)
                 PairingPending (pq_status request) (pq_issued_token_id request) None t) (\<lambda>_ t. (Inr (), t))
          else (Inr (), t)))) t g)"

definition persist_approved_device ::
  "pairing_env \<Rightarrow> pairing_request \<Rightarrow> u64 \<Rightarrow> string \<Rightarrow> pairing_registry \<Rightarrow> (string + unit) \<times> pairing_registry" where
  "persist_approved_device env request resolved_at_ms new_token_id g =
     (case pg_tables g of
        None \<Rightarrow> (Inr (), g)
      | Some t \<Rightarrow>
          (case pq_device_token request of
             None \<Rightarrow> (Inl ''control-plane pairing approval requires device_token'', g)
           | Some device_token \<Rightarrow> in_tables (\<lambda>t.
               and_then (stage_ok (pv_fails env) OpenRepository '''', t) (\<lambda>_ t.
               and_then (approve_pairing_request (pv_fails env) (row_from_request request)
                 \<lparr>nd_token_id = new_token_id, nd_device_id = pq_device_id request, nd_public_key = pq_public_key request,
                  nd_role = pq_role request, nd_approved_scopes = pq_requested_scopes request,
                  nd_token_hash = pv_hash env device_token, nd_expires_at_ms = None, nd_revoked_at_ms = None,
                  nd_last_used_at_ms = Some resolved_at_ms, nd_pairing_request_id = Some (pq_pairing_request_id request)\<rparr> t)
                 (\<lambda>persisted t. case persisted of
                    None \<Rightarrow> (Inl (''control-plane pairing request `'' @ pq_pairing_request_id request @
                      ''` changed before approval persistence completed''), t)
                  | Some _ \<Rightarrow> (Inr (), t)))) t g))"

section \<open>Connecting\<close>

definition pairing_request_id_of :: "u64 \<Rightarrow> u64 \<Rightarrow> string" where
  "pairing_request_id_of sequence random_component = ''pair-'' @ hex16 sequence @ ''-'' @ hex16 random_component"

definition device_token_id_of :: "u64 \<Rightarrow> u64 \<Rightarrow> string" where
  "device_token_id_of sequence random_component = ''cpdt-'' @ hex16 sequence @ ''-'' @ hex16 random_component"

definition device_token_of :: "u64 \<Rightarrow> u64 \<Rightarrow> string" where
  "device_token_of sequence random_component = ''cpd-'' @ hex16 sequence @ ''-'' @ hex16 random_component"

record connect_claim =
  cc_device_id :: string
  cc_client_id :: string
  cc_public_key :: string
  cc_role :: string
  cc_requested_scopes :: "string set"
  cc_device_token :: "string option"

definition same_pending_request :: "connect_claim \<Rightarrow> pairing_request \<Rightarrow> bool" where
  "same_pending_request claim request \<longleftrightarrow>
     pq_status request = PairingPending \<and> pq_device_id request = cc_device_id claim \<and>
     pq_public_key request = cc_public_key claim \<and> pq_role request = cc_role claim \<and>
     pq_requested_scopes request = cc_requested_scopes claim"

definition normalize_claim :: "connect_claim \<Rightarrow> string + connect_claim" where
  "normalize_claim claim =
     try_bind (plane_required_text (cc_device_id claim) ''device_id'') (\<lambda>device_id.
     try_bind (plane_required_text (cc_client_id claim) ''client_id'') (\<lambda>client_id.
     try_bind (plane_required_text (cc_public_key claim) ''public_key'') (\<lambda>public_key.
     try_bind (plane_required_text (cc_role claim) ''role'') (\<lambda>role.
     Inr \<lparr>cc_device_id = device_id, cc_client_id = client_id, cc_public_key = public_key, cc_role = role,
          cc_requested_scopes = scope_set (cc_requested_scopes claim),
          cc_device_token = repo_optional_text (cc_device_token claim)\<rparr>))))"

definition require_pairing :: "pairing_env \<Rightarrow> connect_claim \<Rightarrow> pairing_registry \<Rightarrow> (string + pairing_decision) \<times> pairing_registry" where
  "require_pairing env claim g =
     (case find (same_pending_request claim) (bt_values (pg_requests g)) of
        Some existing \<Rightarrow> (Inr (PairingRequired existing False), g)
      | None \<Rightarrow>
          (let sequence = pg_nonce g + 1; request_id = pairing_request_id_of sequence (pv_random1 env);
               g = g\<lparr>pg_nonce := sequence\<rparr>;
               request = \<lparr>pq_pairing_request_id = request_id, pq_device_id = cc_device_id claim, pq_client_id = cc_client_id claim,
                 pq_public_key = cc_public_key claim, pq_role = cc_role claim, pq_requested_scopes = cc_requested_scopes claim,
                 pq_status = PairingPending, pq_requested_at_ms = pv_now_ms env, pq_resolved_at_ms = None,
                 pq_issued_token_id = None, pq_device_token = None\<rparr>
           in and_then (persist_request env request g) (\<lambda>_ g.
              (Inr (PairingRequired request True), g\<lparr>pg_requests := bt_insert request_id request (pg_requests g)\<rparr>))))"

definition evaluate_connect :: "pairing_env \<Rightarrow> connect_claim \<Rightarrow> pairing_registry \<Rightarrow> (string + pairing_decision) \<times> pairing_registry" where
  "evaluate_connect env raw_claim g =
     (case normalize_claim raw_claim of
        Inl e \<Rightarrow> (Inl e, g)
      | Inr claim \<Rightarrow>
          (case bt_get (pg_approved g) (cc_device_id claim) of
             None \<Rightarrow> require_pairing env claim g
           | Some approved \<Rightarrow>
               if ad_public_key approved = cc_public_key claim \<and>
                 \<not> approved_device_requires_pairing approved (cc_role claim) (cc_requested_scopes claim)
               then (case cc_device_token claim of
                       None \<Rightarrow> (Inr DeviceTokenRequired, g)
                     | Some token \<Rightarrow>
                         if pv_hash env token = ad_token_hash approved then (Inr PairAuthorized, g)
                         else (Inr DeviceTokenInvalid, g))
               else require_pairing env claim g))"

section \<open>Resolving a request\<close>

definition resolve_request :: "pairing_env \<Rightarrow> string \<Rightarrow> bool \<Rightarrow> pairing_registry \<Rightarrow> (string + pairing_request option) \<times> pairing_registry" where
  "resolve_request env raw_id approve g =
     and_then (plane_required_text raw_id ''pairing_request_id'', g) (\<lambda>pairing_request_id g.
       case bt_get (pg_requests g) pairing_request_id of
         None \<Rightarrow> (Inr None, g)
       | Some request \<Rightarrow>
           if pq_status request \<noteq> PairingPending then (Inr (Some request), g)
           else if approve then
             (let token_sequence = pg_nonce g + 1; new_token_id = device_token_id_of token_sequence (pv_random1 env);
                  device_token = device_token_of (token_sequence + 1) (pv_random2 env);
                  g = g\<lparr>pg_nonce := token_sequence + 1\<rparr>;
                  approved = \<lparr>ad_device_id = pq_device_id request, ad_public_key = pq_public_key request,
                    ad_role = pq_role request, ad_approved_scopes = pq_requested_scopes request, ad_token_id = new_token_id,
                    ad_token_hash = pv_hash env device_token, ad_approved_at_ms = pv_now_ms env\<rparr>;
                  updated = request\<lparr>pq_status := PairingApproved, pq_resolved_at_ms := Some (pv_now_ms env),
                    pq_issued_token_id := Some new_token_id, pq_device_token := Some device_token\<rparr>
              in and_then (persist_approved_device env updated (pv_now_ms env) new_token_id g) (\<lambda>_ g.
                 (Inr (Some updated), g\<lparr>pg_approved := bt_insert (pq_device_id updated) approved (pg_approved g),
                    pg_requests := bt_insert pairing_request_id updated (pg_requests g)\<rparr>)))
           else
             (let updated = request\<lparr>pq_status := PairingRejected, pq_resolved_at_ms := Some (pv_now_ms env),
                    pq_issued_token_id := None, pq_device_token := None\<rparr>
              in and_then (persist_request env updated g) (\<lambda>_ g.
                 (Inr (Some updated), g\<lparr>pg_requests := bt_insert pairing_request_id updated (pg_requests g)\<rparr>))))"

section \<open>Lists and counts\<close>

definition list_requests :: "pairing_status option \<Rightarrow> usize \<Rightarrow> pairing_registry \<Rightarrow> pairing_request list" where
  "list_requests status limit g =
     take (max limit 1) (sort_key (\<lambda>r. (- int (unat (pq_requested_at_ms r)), pq_pairing_request_id r))
       (filter (\<lambda>r. case status of Some s \<Rightarrow> pq_status r = s | None \<Rightarrow> True) (bt_values (pg_requests g))))"

definition pending_request_count :: "pairing_registry \<Rightarrow> usize" where
  "pending_request_count g = length (filter (\<lambda>r. pq_status r = PairingPending) (bt_values (pg_requests g)))"

definition approved_device_count :: "pairing_registry \<Rightarrow> usize" where
  "approved_device_count g = length (pg_approved g)"

definition approved_summary_of :: "approved_device \<Rightarrow> approved_summary" where
  "approved_summary_of approved =
     \<lparr>as_device_id = ad_device_id approved, as_public_key = ad_public_key approved, as_role = ad_role approved,
      as_approved_scopes = ad_approved_scopes approved, as_issued_at_ms = ad_approved_at_ms approved\<rparr>"

definition list_approved_devices :: "usize \<Rightarrow> pairing_registry \<Rightarrow> approved_summary list" where
  "list_approved_devices limit g =
     map approved_summary_of (take (max limit 1)
       (sort_key (\<lambda>d. (- int (unat (ad_approved_at_ms d)), ad_device_id d)) (bt_values (pg_approved g))))"

definition max_of :: "u64 list \<Rightarrow> u64 option" where
  "max_of ts = (if ts = [] then None else Some (foldr max ts 0))"

definition last_activity_ms :: "pairing_registry \<Rightarrow> u64 option" where
  "last_activity_ms g =
     (let request_activity = max_of (concat (map (\<lambda>r. pq_requested_at_ms r #
            (case pq_resolved_at_ms r of Some t \<Rightarrow> [t] | None \<Rightarrow> [])) (bt_values (pg_requests g))));
          device_activity = max_of (map ad_approved_at_ms (bt_values (pg_approved g)))
      in case (request_activity, device_activity) of
           (Some left, Some right) \<Rightarrow> Some (max left right)
         | (Some left, None) \<Rightarrow> Some left
         | (None, Some right) \<Rightarrow> Some right
         | (None, None) \<Rightarrow> None)"

end
