(* ===== verification/Pairing_Properties.thy ===== *)
theory Pairing_Properties
  imports Control_Plane_Pairing
begin

text \<open>
  What device pairing guarantees: a device is authorized only after an approval of its own key, role and scopes,
  through failing statements and restarts, and a restart keeps the approved devices. Histories of the registry are
  lists of operations; the approvals asked for are logged beside the registry.
\<close>

section \<open>Tables under the statements\<close>

lemma snd_and_then_pure:
  "P t \<Longrightarrow> (\<And>x. r = Inr x \<Longrightarrow> P (snd (f x t))) \<Longrightarrow> P (snd (and_then (r, t) f))"
  by (cases r) simp_all

lemma snd_if: "(c \<Longrightarrow> P (snd x)) \<Longrightarrow> (\<not> c \<Longrightarrow> P (snd y)) \<Longrightarrow> P (snd (if c then x else y))"
  by simp

lemma snd_case_option:
  "(x = None \<Longrightarrow> P (snd a)) \<Longrightarrow> (\<And>y. x = Some y \<Longrightarrow> P (snd (b y))) \<Longrightarrow> P (snd (case x of None \<Rightarrow> a | Some y \<Rightarrow> b y))"
  by (cases x) simp_all

lemma snd_pair: "P b \<Longrightarrow> P (snd (a, b))"
  by simp

lemma snd_and_then_seq:
  "P (snd r) \<Longrightarrow> (\<And>x s. P s \<Longrightarrow> P (snd (f x s))) \<Longrightarrow> P (snd (and_then r f))"
  by (cases r; cases "fst r") auto

lemmas snd_steps = snd_and_then_pure snd_case_option snd_if snd_pair

lemma snd_and_then_id: "(\<And>x s. snd (f x s) = s) \<Longrightarrow> snd (and_then r f) = snd r"
  by (cases r; cases "fst r") auto

definition scopes_norm :: "string set \<Rightarrow> bool" where
  "scopes_norm scopes \<longleftrightarrow> (\<forall>s \<in> scopes. trim s = s \<and> s \<noteq> [])"

lemma scope_set_norm [simp]: "scopes_norm (scope_set scopes)"
  by (auto simp: scopes_norm_def scope_set_def)

lemma scope_set_id: "scopes_norm scopes \<Longrightarrow> scope_set scopes = scopes"
  by (force simp: scopes_norm_def scope_set_def)

definition text_norm :: "string \<Rightarrow> bool" where
  "text_norm v \<longleftrightarrow> trim v = v \<and> v \<noteq> []"

lemma text_norm_trim: "trim v \<noteq> [] \<Longrightarrow> text_norm (trim v)"
  by (simp add: text_norm_def)

definition row_norm :: "pairing_row \<Rightarrow> bool" where
  "row_norm row \<longleftrightarrow> text_norm (pw_pairing_request_id row) \<and> text_norm (pw_device_id row) \<and> text_norm (pw_client_id row) \<and>
     text_norm (pw_public_key row) \<and> text_norm (pw_role row) \<and> scopes_norm (pw_requested_scopes row)"

definition rows_norm :: "pairing_tables \<Rightarrow> bool" where
  "rows_norm t \<longleftrightarrow> list_all row_norm (pt_requests t)"

lemma repo_required_text_Inr: "repo_required_text v f = Inr w \<longleftrightarrow> trim v \<noteq> [] \<and> w = trim v"
  by (auto simp: repo_required_text_def)

definition keeps_tokens :: "pairing_tables \<Rightarrow> pairing_tables \<Rightarrow> bool" where
  "keeps_tokens t t' \<longleftrightarrow> pt_tokens t' = pt_tokens t \<and> (rows_norm t \<longrightarrow> rows_norm t')"

lemma keeps_tokens_refl [simp]: "keeps_tokens t t"
  by (simp add: keeps_tokens_def)

lemma keeps_tokens_insert: "row_norm row \<Longrightarrow> keeps_tokens t (t\<lparr>pt_requests := pt_requests t @ [row]\<rparr>)"
  by (simp add: keeps_tokens_def rows_norm_def)

lemma ensure_keeps_tokens: "keeps_tokens t (snd (ensure_pairing_request fails db_now new t))"
  unfolding ensure_pairing_request_def Let_def
  by (intro snd_steps [where P = "keeps_tokens t"] keeps_tokens_refl keeps_tokens_insert)
    (simp_all only: row_norm_def repo_required_text_Inr pairing_row.simps text_norm_trim scope_set_norm simp_thms)

lemma update_rows_norm:
  assumes "rows_norm t" and "\<And>row. row_norm (f row) = row_norm row"
  shows "rows_norm (update_rows P f t)"
  using assms by (auto simp: rows_norm_def update_rows_def list_all_iff)

lemma keeps_tokens_update:
  "(\<And>row. row_norm (f row) = row_norm row) \<Longrightarrow> keeps_tokens t (update_rows P f t)"
  using update_rows_norm by (simp add: keeps_tokens_def update_rows_def)

lemma transition_keeps_tokens:
  "keeps_tokens t (snd (transition_pairing_request fails db_now raw_id expected next_status issued last_error t))"
  unfolding transition_pairing_request_def Let_def
  by (intro snd_steps [where P = "keeps_tokens t"] keeps_tokens_refl keeps_tokens_update) (simp add: row_norm_def)

lemma upsert_token_row_set:
  "upsert_token_row row rows = Inr rows' \<Longrightarrow> set rows' \<subseteq> insert row (set rows)"
  by (auto simp: upsert_token_row_def split: if_splits)

definition approved_row :: "pairing_row \<Rightarrow> new_device_token \<Rightarrow> device_token_row \<Rightarrow> bool" where
  "approved_row request token row \<longleftrightarrow>
     dt_device_id row = trim (nd_device_id token) \<and> dt_public_key row = trim (nd_public_key token) \<and>
     dt_role row = trim (nd_role token) \<and> dt_approved_scopes row = scope_set (nd_approved_scopes token) \<and>
     dt_token_id row = trim (nd_token_id token) \<and> dt_token_hash row = trim (nd_token_hash token)"

definition adds_token :: "pairing_row \<Rightarrow> new_device_token \<Rightarrow> pairing_tables \<Rightarrow> pairing_tables \<Rightarrow> bool" where
  "adds_token request token t t' \<longleftrightarrow>
     (\<forall>row \<in> set (pt_tokens t'). row \<in> set (pt_tokens t) \<or> approved_row request token row) \<and> (rows_norm t \<longrightarrow> rows_norm t')"

lemma adds_token_refl [simp]: "adds_token request token t t"
  by (simp add: adds_token_def)

lemma adds_token_approved:
  assumes "approved_row request token row" and "upsert_token_row row (pt_tokens t) = Inr tokens"
    and "\<And>r. row_norm (f r) = row_norm r"
  shows "adds_token request token t ((update_rows P f t)\<lparr>pt_tokens := tokens\<rparr>)"
proof -
  have "rows_norm t \<Longrightarrow> rows_norm ((update_rows P f t)\<lparr>pt_tokens := tokens\<rparr>)"
    using update_rows_norm [of t f P] assms(3) by (simp add: rows_norm_def)
  then show ?thesis using assms(1) upsert_token_row_set [OF assms(2)] by (auto simp: adds_token_def)
qed

lemma row_norm_resolved:
  "row_norm (row\<lparr>pw_status := a, pw_resolved_at_ms := b, pw_issued_token_id := c, pw_last_error := d\<rparr>) = row_norm row"
  by (simp add: row_norm_def)

lemma approve_adds_token: "adds_token request token t (snd (approve_pairing_request fails request token t))"
  unfolding approve_pairing_request_def Let_def
  by (intro snd_steps [where P = "adds_token request token t"] adds_token_refl adds_token_approved)
    (auto simp only: approved_row_def repo_required_text_Inr device_token_row.simps try_bind_Ok map_err_Inr row_norm_resolved)

section \<open>Histories\<close>

record pairing_approval =
  pa_device_id :: string
  pa_public_key :: string
  pa_role :: string
  pa_scopes :: "string set"
  pa_token :: string

datatype pairing_op = EvaluateConnect pairing_env connect_claim | ResolveRequest pairing_env string bool | Restart

definition approval_of :: "pairing_env \<Rightarrow> pairing_request \<Rightarrow> pairing_registry \<Rightarrow> pairing_approval" where
  "approval_of env request g =
     \<lparr>pa_device_id = pq_device_id request, pa_public_key = pq_public_key request, pa_role = pq_role request,
      pa_scopes = pq_requested_scopes request, pa_token = device_token_of (pg_nonce g + 2) (pv_random2 env)\<rparr>"

text \<open>The approvals an operator asks for: those of requests that are pending.\<close>

definition asked_approval :: "pairing_op \<Rightarrow> pairing_registry \<Rightarrow> pairing_approval list" where
  "asked_approval op g =
     (case op of
        ResolveRequest env raw_id approve \<Rightarrow>
          (case bt_get (pg_requests g) (trim raw_id) of
             Some request \<Rightarrow> if approve \<and> pq_status request = PairingPending then [approval_of env request g] else []
           | None \<Rightarrow> [])
      | _ \<Rightarrow> [])"

text \<open>A restart reads the tables again; without tables it starts empty.\<close>

fun pairing_op_step :: "pairing_op \<Rightarrow> pairing_registry \<Rightarrow> pairing_registry" where
  "pairing_op_step (EvaluateConnect env claim) g = snd (evaluate_connect env claim g)"
| "pairing_op_step (ResolveRequest env raw_id approve) g = snd (resolve_request env raw_id approve g)"
| "pairing_op_step Restart g =
     (case pg_tables g of
        None \<Rightarrow> pairing_registry_new
      | Some t \<Rightarrow> (case pairing_with_memory_config (\<lambda>_. None) t of Inl _ \<Rightarrow> g | Inr g \<Rightarrow> g))"

definition run_pairing_ops :: "pairing_op list \<Rightarrow> pairing_registry \<Rightarrow> pairing_registry \<times> pairing_approval list" where
  "run_pairing_ops ops g0 = fold (\<lambda>op (g, log). (pairing_op_step op g, log @ asked_approval op g)) ops (g0, [])"

text \<open>A fresh registry, without tables or with empty ones.\<close>

definition fresh_registry :: "bool \<Rightarrow> pairing_registry" where
  "fresh_registry persistent = pairing_registry_new\<lparr>pg_tables := (if persistent then Some \<lparr>pt_requests = [], pt_tokens = []\<rparr> else None)\<rparr>"

section \<open>The invariant\<close>

definition approval_matches :: "(string \<Rightarrow> string) \<Rightarrow> pairing_approval \<Rightarrow> string \<Rightarrow> string \<Rightarrow> string \<Rightarrow> string set \<Rightarrow> string \<Rightarrow> bool" where
  "approval_matches hash a device_id public_key role scopes token_hash \<longleftrightarrow>
     pa_device_id a = device_id \<and> pa_public_key a = public_key \<and> pa_role a = role \<and> pa_scopes a = scopes \<and>
     hash (pa_token a) = token_hash"

definition request_norm :: "pairing_request \<Rightarrow> bool" where
  "request_norm r \<longleftrightarrow> text_norm (pq_device_id r) \<and> text_norm (pq_public_key r) \<and> text_norm (pq_role r) \<and>
     scopes_norm (pq_requested_scopes r)"

definition device_backed :: "(string \<Rightarrow> string) \<Rightarrow> pairing_approval list \<Rightarrow> approved_device \<Rightarrow> bool" where
  "device_backed hash log d \<longleftrightarrow>
     (\<exists>a \<in> set log. approval_matches hash a (ad_device_id d) (ad_public_key d) (ad_role d) (ad_approved_scopes d) (ad_token_hash d))"

definition token_backed :: "(string \<Rightarrow> string) \<Rightarrow> pairing_approval list \<Rightarrow> device_token_row \<Rightarrow> bool" where
  "token_backed hash log row \<longleftrightarrow>
     (\<exists>a \<in> set log. approval_matches hash a (dt_device_id row) (dt_public_key row) (dt_role row) (dt_approved_scopes row) (dt_token_hash row))"

definition pairing_ok :: "(string \<Rightarrow> string) \<Rightarrow> pairing_registry \<times> pairing_approval list \<Rightarrow> bool" where
  "pairing_ok hash s \<longleftrightarrow> (case s of (g, log) \<Rightarrow>
     (\<forall>k d. bt_get (pg_approved g) k = Some d \<longrightarrow> ad_device_id d = k \<and> device_backed hash log d) \<and>
     (\<forall>k r. bt_get (pg_requests g) k = Some r \<longrightarrow> request_norm r) \<and>
     (\<forall>t. pg_tables g = Some t \<longrightarrow> rows_norm t \<and> (\<forall>row \<in> set (pt_tokens t). token_backed hash log row)))"

lemma backed_append:
  "device_backed hash log d \<Longrightarrow> device_backed hash (log @ extra) d"
  "token_backed hash log row \<Longrightarrow> token_backed hash (log @ extra) row"
  by (auto simp: device_backed_def token_backed_def)

lemma pairing_ok_append: "pairing_ok hash (g, log) \<Longrightarrow> pairing_ok hash (g, log @ extra)"
  by (auto simp: pairing_ok_def backed_append)

lemma pairing_ok_fresh: "pairing_ok hash (fresh_registry persistent, [])"
  by (auto simp: pairing_ok_def fresh_registry_def pairing_registry_new_def rows_norm_def)

text \<open>The hash writes hexadecimal digits.\<close>

definition plain_hash :: "(string \<Rightarrow> string) \<Rightarrow> bool" where
  "plain_hash hash \<longleftrightarrow> (\<forall>token. trim (hash token) = hash token)"

lemma persist_request_keeps:
  assumes "persist_request env request g = (result, g')"
  shows "pg_nonce g' = pg_nonce g" and "pg_requests g' = pg_requests g" and "pg_approved g' = pg_approved g"
    and "pg_tables g = None \<Longrightarrow> pg_tables g' = None"
    and "pg_tables g = Some t \<Longrightarrow> \<exists>t'. pg_tables g' = Some t' \<and> keeps_tokens t t'"
proof -
  have trans: "keeps_tokens a b \<Longrightarrow> keeps_tokens b c \<Longrightarrow> keeps_tokens a c" for a b c by (simp add: keeps_tokens_def)
  show "pg_nonce g' = pg_nonce g" and "pg_requests g' = pg_requests g" and "pg_approved g' = pg_approved g"
    and "pg_tables g = None \<Longrightarrow> pg_tables g' = None"
    using assms by (auto simp: persist_request_def in_tables_def split: option.splits prod.splits)
  show "\<exists>t'. pg_tables g' = Some t' \<and> keeps_tokens t t'" if "pg_tables g = Some t"
  proof -
    let ?op = "\<lambda>t. and_then (stage_ok (pv_fails env) OpenRepository '''', t) (\<lambda>_ t.
          and_then (ensure_pairing_request (pv_fails env) (pv_db_now_ms env)
            \<lparr>np_pairing_request_id = pq_pairing_request_id request, np_device_id = pq_device_id request,
             np_client_id = pq_client_id request, np_public_key = pq_public_key request, np_role = pq_role request,
             np_requested_scopes = pq_requested_scopes request\<rparr> t) (\<lambda>_ t.
          if pq_status request \<noteq> PairingPending
          then and_then (transition_pairing_request (pv_fails env) (pv_db_now_ms env) (pq_pairing_request_id request)
                 PairingPending (pq_status request) (pq_issued_token_id request) None t) (\<lambda>_ t. (Inr (), t))
          else (Inr (), t)))"
    have step: "keeps_tokens t (snd (ensure_pairing_request fails now new s))"
      "keeps_tokens t (snd (transition_pairing_request fails now raw expected status issued error s))"
      if "keeps_tokens t s" for s fails now new raw expected status issued error
      using that trans ensure_keeps_tokens transition_keeps_tokens by blast+
    have "keeps_tokens t (snd (?op t))"
      by (intro snd_steps [where P = "keeps_tokens t"] snd_and_then_seq [where P = "keeps_tokens t"] step keeps_tokens_refl) assumption+
    moreover have "pg_tables g' = Some (snd (?op t))"
      using assms that by (auto simp: persist_request_def in_tables_def split: prod.splits)
    ultimately show ?thesis by simp
  qed
qed


lemma persist_approved_device_keeps:
  assumes "persist_approved_device env request resolved_at_ms new_token_id g = (result, g')"
  shows "pg_nonce g' = pg_nonce g" and "pg_requests g' = pg_requests g" and "pg_approved g' = pg_approved g"
    and "pg_tables g = None \<Longrightarrow> pg_tables g' = None"
    and "pg_tables g = Some t \<Longrightarrow> pq_device_token request = Some token \<Longrightarrow>
      \<exists>t'. pg_tables g' = Some t' \<and> adds_token (row_from_request request)
        \<lparr>nd_token_id = new_token_id, nd_device_id = pq_device_id request, nd_public_key = pq_public_key request,
         nd_role = pq_role request, nd_approved_scopes = pq_requested_scopes request,
         nd_token_hash = pv_hash env token, nd_expires_at_ms = None, nd_revoked_at_ms = None,
         nd_last_used_at_ms = Some resolved_at_ms, nd_pairing_request_id = Some (pq_pairing_request_id request)\<rparr> t t'"
proof -
  show "pg_nonce g' = pg_nonce g" and "pg_requests g' = pg_requests g" and "pg_approved g' = pg_approved g"
    and "pg_tables g = None \<Longrightarrow> pg_tables g' = None"
    using assms by (auto simp: persist_approved_device_def in_tables_def split: option.splits prod.splits)
  let ?token = "\<lparr>nd_token_id = new_token_id, nd_device_id = pq_device_id request, nd_public_key = pq_public_key request,
         nd_role = pq_role request, nd_approved_scopes = pq_requested_scopes request,
         nd_token_hash = pv_hash env token, nd_expires_at_ms = None, nd_revoked_at_ms = None,
         nd_last_used_at_ms = Some resolved_at_ms, nd_pairing_request_id = Some (pq_pairing_request_id request)\<rparr>"
  let ?op = "\<lambda>t. and_then (stage_ok (pv_fails env) OpenRepository '''', t) (\<lambda>_ t.
               and_then (approve_pairing_request (pv_fails env) (row_from_request request) ?token t)
                 (\<lambda>persisted t. case persisted of
                    None \<Rightarrow> (Inl (''control-plane pairing request `'' @ pq_pairing_request_id request @
                      ''` changed before approval persistence completed''), t)
                  | Some _ \<Rightarrow> (Inr (), t)))"
  show "\<exists>t'. pg_tables g' = Some t' \<and> adds_token (row_from_request request) ?token t t'"
    if "pg_tables g = Some t" "pq_device_token request = Some token"
  proof -
    have "snd (and_then r (\<lambda>persisted t. case persisted of None \<Rightarrow> (Inl e, t) | Some _ \<Rightarrow> (Inr (), t))) = snd r"
      for r :: "(string + pairing_row option) \<times> pairing_tables" and e
      by (rule snd_and_then_id) (simp split: option.split)
    then have "adds_token (row_from_request request) ?token t (snd (?op t))"
      by (intro snd_and_then_pure [where P = "adds_token (row_from_request request) ?token t"] adds_token_refl) (simp only: approve_adds_token)
    moreover have "pg_tables g' = Some (snd (?op t))"
      using assms that by (auto simp: persist_approved_device_def in_tables_def split: prod.splits)
    ultimately show ?thesis by simp
  qed
qed

section \<open>Every operation keeps the invariant\<close>

lemma require_pairing_ok:
  assumes ok: "pairing_ok hash (g, log)"
    and claim: "text_norm (cc_device_id claim)" "text_norm (cc_public_key claim)" "text_norm (cc_role claim)"
      "scopes_norm (cc_requested_scopes claim)"
  shows "pairing_ok hash (snd (require_pairing env claim g), log)"
proof (cases "find (same_pending_request claim) (bt_values (pg_requests g))")
  case (Some existing)
  then show ?thesis using ok by (simp add: require_pairing_def)
next
  case None
  let ?id = "pairing_request_id_of (pg_nonce g + 1) (pv_random1 env)"
  let ?request = "\<lparr>pq_pairing_request_id = ?id, pq_device_id = cc_device_id claim, pq_client_id = cc_client_id claim,
                 pq_public_key = cc_public_key claim, pq_role = cc_role claim, pq_requested_scopes = cc_requested_scopes claim,
                 pq_status = PairingPending, pq_requested_at_ms = pv_now_ms env, pq_resolved_at_ms = None,
                 pq_issued_token_id = None, pq_device_token = None\<rparr>"
  let ?g = "g\<lparr>pg_nonce := pg_nonce g + 1\<rparr>"
  obtain result g' where persisted: "persist_request env ?request ?g = (result, g')" by fastforce
  have norm: "request_norm ?request" using claim by (simp add: request_norm_def)
  have kept: "pairing_ok hash (g', log)"
    using ok persist_request_keeps [OF persisted]
    by (cases "pg_tables g") (fastforce simp: pairing_ok_def keeps_tokens_def)+
  then have "pairing_ok hash (g'\<lparr>pg_requests := bt_insert ?id ?request (pg_requests g')\<rparr>, log)"
    using norm by (auto simp: pairing_ok_def)
  then show ?thesis
    using kept None by (cases result) (simp_all add: require_pairing_def Let_def persisted)
qed

lemma plane_required_text_Inr: "plane_required_text v f = Inr w \<longleftrightarrow> trim v \<noteq> [] \<and> w = trim v"
  by (auto simp: plane_required_text_def)

lemma normalize_claim_Inr:
  "normalize_claim raw = Inr claim \<longleftrightarrow>
    trim (cc_device_id raw) \<noteq> [] \<and> trim (cc_client_id raw) \<noteq> [] \<and> trim (cc_public_key raw) \<noteq> [] \<and> trim (cc_role raw) \<noteq> [] \<and>
    claim = \<lparr>cc_device_id = trim (cc_device_id raw), cc_client_id = trim (cc_client_id raw),
      cc_public_key = trim (cc_public_key raw), cc_role = trim (cc_role raw),
      cc_requested_scopes = scope_set (cc_requested_scopes raw), cc_device_token = repo_optional_text (cc_device_token raw)\<rparr>"
  by (auto simp: normalize_claim_def try_bind_Ok plane_required_text_Inr)

lemma evaluate_connect_ok:
  assumes ok: "pairing_ok hash (g, log)"
  shows "pairing_ok hash (snd (evaluate_connect env raw g), log)"
proof (cases "normalize_claim raw")
  case (Inl e)
  then show ?thesis using ok by (simp add: evaluate_connect_def)
next
  case (Inr claim)
  then have "pairing_ok hash (snd (require_pairing env claim g), log)"
    by (intro require_pairing_ok [OF ok]) (auto simp: normalize_claim_Inr text_norm_trim)
  then show ?thesis
    using ok Inr by (auto simp: evaluate_connect_def split: option.split)
qed

lemma resolve_request_ok:
  assumes ok: "pairing_ok hash (g, log)" and hash: "pv_hash env = hash" "plain_hash hash"
  shows "pairing_ok hash (snd (resolve_request env raw_id approve g), log @ asked_approval (ResolveRequest env raw_id approve) g)"
proof (cases "trim raw_id = [] \<or> bt_get (pg_requests g) (trim raw_id) = None")
  case True
  then show ?thesis
    using pairing_ok_append [OF ok]
    by (auto simp: resolve_request_def plane_required_text_def)
next
  case False
  then obtain request where id: "trim raw_id \<noteq> []" and request: "bt_get (pg_requests g) (trim raw_id) = Some request" by auto
  have norm: "request_norm request" using ok request by (simp add: pairing_ok_def)
  show ?thesis
  proof (cases "pq_status request = PairingPending")
    case False
    then show ?thesis using ok id request by (simp add: resolve_request_def plane_required_text_def asked_approval_def)
  next
    case pending: True
    show ?thesis
    proof (cases approve)
      case False
      let ?updated = "request\<lparr>pq_status := PairingRejected, pq_resolved_at_ms := Some (pv_now_ms env),
                    pq_issued_token_id := None, pq_device_token := None\<rparr>"
      obtain result g' where persisted: "persist_request env ?updated g = (result, g')" by fastforce
      have kept: "pairing_ok hash (g', log)"
        using ok persist_request_keeps [OF persisted]
        by (cases "pg_tables g") (fastforce simp: pairing_ok_def keeps_tokens_def)+
      moreover have "request_norm ?updated" using norm by (simp add: request_norm_def)
      ultimately have "pairing_ok hash (g'\<lparr>pg_requests := bt_insert (trim raw_id) ?updated (pg_requests g')\<rparr>, log)"
        by (auto simp: pairing_ok_def)
      then show ?thesis
        using kept id request pending False
        by (cases result) (simp_all add: resolve_request_def plane_required_text_def asked_approval_def persisted Let_def)
    next
      case True
      let ?a = "approval_of env request g"
      let ?token = "device_token_of (pg_nonce g + 2) (pv_random2 env)"
      let ?id = "device_token_id_of (pg_nonce g + 1) (pv_random1 env)"
      let ?updated = "request\<lparr>pq_status := PairingApproved, pq_resolved_at_ms := Some (pv_now_ms env),
                    pq_issued_token_id := Some ?id, pq_device_token := Some ?token\<rparr>"
      let ?g = "g\<lparr>pg_nonce := pg_nonce g + 2\<rparr>"
      obtain result g' where persisted: "persist_approved_device env ?updated (pv_now_ms env) ?id ?g = (result, g')" by fastforce
      note keeps = persist_approved_device_keeps [OF persisted]
      have log: "asked_approval (ResolveRequest env raw_id approve) g = [?a]"
        using True pending request by (simp add: asked_approval_def)
      have kept: "pairing_ok hash (g', log @ [?a])"
      proof (cases "pg_tables g")
        case None
        then show ?thesis using pairing_ok_append [OF ok, of "[?a]"] keeps(1-4) by (simp add: pairing_ok_def)
      next
        case (Some t)
        then obtain t' where t': "pg_tables g' = Some t'" and adds: "adds_token (row_from_request ?updated)
            \<lparr>nd_token_id = ?id, nd_device_id = pq_device_id request, nd_public_key = pq_public_key request,
             nd_role = pq_role request, nd_approved_scopes = pq_requested_scopes request,
             nd_token_hash = hash ?token, nd_expires_at_ms = None, nd_revoked_at_ms = None,
             nd_last_used_at_ms = Some (pv_now_ms env), nd_pairing_request_id = Some (pq_pairing_request_id request)\<rparr> t t'"
          using keeps(5) [of t ?token] hash(1) by auto
        have "token_backed hash (log @ [?a]) row" if "row \<in> set (pt_tokens t')" for row
        proof (cases "row \<in> set (pt_tokens t)")
          case True
          then show ?thesis using ok Some by (auto simp: pairing_ok_def intro: backed_append)
        next
          case False
          with adds that have "dt_device_id row = pq_device_id request" "dt_public_key row = pq_public_key request"
            "dt_role row = pq_role request" "dt_approved_scopes row = pq_requested_scopes request" "dt_token_hash row = hash ?token"
            using norm hash(2)
            by (auto simp: adds_token_def approved_row_def request_norm_def text_norm_def plain_hash_def scope_set_id)
          then show ?thesis by (auto simp: token_backed_def approval_matches_def approval_of_def)
        qed
        moreover have "rows_norm t'" using adds ok Some by (simp add: adds_token_def pairing_ok_def)
        ultimately show ?thesis
          using pairing_ok_append [OF ok, of "[?a]"] keeps(2,3) t' by (simp add: pairing_ok_def)
      qed
      let ?approved = "\<lparr>ad_device_id = pq_device_id request, ad_public_key = pq_public_key request,
                    ad_role = pq_role request, ad_approved_scopes = pq_requested_scopes request, ad_token_id = ?id,
                    ad_token_hash = pv_hash env ?token, ad_approved_at_ms = pv_now_ms env\<rparr>"
      have "device_backed hash (log @ [?a]) ?approved"
        by (simp add: device_backed_def approval_matches_def approval_of_def hash(1))
      moreover have "request_norm ?updated" using norm by (simp add: request_norm_def)
      ultimately have "pairing_ok hash (g'\<lparr>pg_approved := bt_insert (pq_device_id request) ?approved (pg_approved g'),
          pg_requests := bt_insert (trim raw_id) ?updated (pg_requests g')\<rparr>, log @ [?a])"
        using kept by (auto simp: pairing_ok_def)
      then show ?thesis
        using kept id request pending True persisted unfolding log
        by (cases result) (simp_all add: resolve_request_def plane_required_text_def Let_def add.assoc)
    qed
  qed
qed

lemma fold_bt_insert_get: "bt_get (fold (\<lambda>(k, v). bt_insert k v) es m) = bt_get m ++ bt_get (rev es)"
proof (induction es arbitrary: m)
  case Nil
  then show ?case by simp
next
  case (Cons e es)
  then show ?case by (cases e) (auto simp: map_add_def fun_eq_iff split: option.split)
qed

lemma bt_collect_get: "bt_get (bt_collect es) = bt_get (rev es)"
  by (simp add: bt_collect_def fold_bt_insert_get)

lemma restart_ok:
  assumes ok: "pairing_ok hash (g, log)"
  shows "pairing_ok hash (pairing_op_step Restart g, log)"
proof (cases "pg_tables g")
  case None
  then show ?thesis by (auto simp: pairing_ok_def pairing_registry_new_def)
next
  case (Some t)
  have norm: "rows_norm t" and backed: "\<forall>row \<in> set (pt_tokens t). token_backed hash log row"
    using ok Some by (simp_all add: pairing_ok_def)
  obtain rows tokens where lists: "list_pairing_rows (\<lambda>_. None) t = Inr rows" "set rows = set (pt_requests t)"
    "list_device_token_rows (\<lambda>_. None) t = Inr tokens" "set tokens = set (pt_tokens t)"
    by (simp add: list_pairing_rows_def list_device_token_rows_def stage_ok_def)
  have "request_norm r" if "bt_get (rev (map (\<lambda>row. (pw_pairing_request_id row, request_from_row row)) rows)) k = Some r" for k r
    using map_of_SomeD [OF that] norm lists(2)
    by (auto simp: rows_norm_def list_all_iff row_norm_def request_norm_def request_from_row_def)
  moreover have "ad_device_id d = k \<and> device_backed hash log d"
    if "bt_get (rev (map (\<lambda>row. (dt_device_id row, device_from_row row)) tokens)) k = Some d" for k d
    using map_of_SomeD [OF that] backed lists(4)
    by (auto simp: token_backed_def device_backed_def device_from_row_def)
  ultimately show ?thesis
    using Some norm backed lists(1,3)
    by (simp add: pairing_with_memory_config_def stage_ok_def pairing_ok_def bt_collect_get)
qed

definition uses_hash :: "(string \<Rightarrow> string) \<Rightarrow> pairing_op \<Rightarrow> bool" where
  "uses_hash hash op \<longleftrightarrow> (case op of EvaluateConnect env _ \<Rightarrow> pv_hash env = hash | ResolveRequest env _ _ \<Rightarrow> pv_hash env = hash | Restart \<Rightarrow> True)"

lemma run_pairing_ops_ok:
  assumes "plain_hash hash" and "list_all (uses_hash hash) ops"
  shows "pairing_ok hash (run_pairing_ops ops (fresh_registry persistent))"
  using assms(2)
proof (induction ops rule: rev_induct)
  case Nil
  then show ?case by (simp add: run_pairing_ops_def pairing_ok_fresh)
next
  case (snoc op ops)
  obtain g log where s: "run_pairing_ops ops (fresh_registry persistent) = (g, log)" by fastforce
  have ih: "pairing_ok hash (g, log)" using snoc s by simp
  have "pairing_ok hash (pairing_op_step op g, log @ asked_approval op g)"
  proof (cases op)
    case (EvaluateConnect env claim)
    then show ?thesis using evaluate_connect_ok [OF ih] by (simp add: asked_approval_def)
  next
    case (ResolveRequest env raw_id approve)
    then show ?thesis using resolve_request_ok [OF ih _ assms(1)] snoc.prems by (simp add: uses_hash_def)
  next
    case Restart
    then show ?thesis using restart_ok [OF ih] by (simp add: asked_approval_def)
  qed
  then show ?case using s by (simp add: run_pairing_ops_def)
qed


section \<open>The guarantee\<close>

text \<open>
  A device that is authorized on connect was approved: an operator asked to approve a pairing request of the same
  device, public key and role whose scopes contain the requested ones, and the presented token has the hash of the
  token generated then. It holds for every history of connects, resolutions and restarts, with or without tables and
  whichever statements fail.
\<close>

theorem only_approved_devices_are_authorized:
  assumes "plain_hash hash" and "list_all (uses_hash hash) ops"
    and "run_pairing_ops ops (fresh_registry persistent) = (g, log)"
    and "pv_hash env = hash" and "evaluate_connect env claim g = (Inr PairAuthorized, g')"
  shows "\<exists>a \<in> set log. pa_device_id a = trim (cc_device_id claim) \<and> pa_public_key a = trim (cc_public_key claim) \<and>
    pa_role a = trim (cc_role claim) \<and> scope_set (cc_requested_scopes claim) \<subseteq> pa_scopes a \<and>
    (\<exists>token. cc_device_token claim = Some token \<and> hash (trim token) = hash (pa_token a))"
proof -
  have ok: "pairing_ok hash (g, log)" using run_pairing_ops_ok [OF assms(1,2), of persistent] assms(3) by simp
  obtain norm where norm: "normalize_claim claim = Inr norm" using assms(5) by (cases "normalize_claim claim") (simp_all add: evaluate_connect_def)
  have "fst (require_pairing env norm g) \<noteq> Inr PairAuthorized"
  proof (cases "find (same_pending_request norm) (bt_values (pg_requests g))")
    case None
    then show ?thesis by (auto simp: require_pairing_def Let_def and_then_def split: prod.split sum.split)
  qed (simp add: require_pairing_def)
  then obtain d token where d: "bt_get (pg_approved g) (cc_device_id norm) = Some d" "ad_public_key d = cc_public_key norm"
    "\<not> approved_device_requires_pairing d (cc_role norm) (cc_requested_scopes norm)"
    "cc_device_token norm = Some token" "pv_hash env token = ad_token_hash d"
    using assms(5) norm by (auto simp: evaluate_connect_def split: option.splits if_splits)
  have "ad_device_id d = cc_device_id norm" "device_backed hash log d" using ok d(1) by (auto simp: pairing_ok_def)
  then obtain a where a: "a \<in> set log" "approval_matches hash a (cc_device_id norm) (ad_public_key d) (ad_role d) (ad_approved_scopes d) (ad_token_hash d)"
    by (auto simp: device_backed_def)
  have "ad_role d = cc_role norm" "cc_requested_scopes norm \<subseteq> ad_approved_scopes d"
    using d(3) by (auto simp: approved_device_requires_pairing_def split: if_splits)
  moreover obtain raw where "cc_device_token claim = Some raw" "token = trim raw"
    using d(4) norm by (auto simp: normalize_claim_Inr repo_optional_text_def split: option.splits if_splits)
  ultimately show ?thesis
    using a d(2,5) norm assms(4) by (intro bexI [OF _ a(1)]) (auto simp: approval_matches_def normalize_claim_Inr)
qed


lemma text_norm_hex16: "text_norm (hex16 w)"
proof -
  have "last (hex16 w) = hex_digit (unat w mod 16)" "hex16 w \<noteq> []" by (simp_all add: hex16_def last_map last_rev)
  moreover have "hd (hex16 w) = hex_digit (unat w div 16 ^ 15 mod 16)" by (simp add: hex16_def upt_rec)
  ultimately show ?thesis by (simp add: text_norm_def trim_graphic_id hex_digit_graphic)
qed

definition sample_pairing_env :: pairing_env where
  "sample_pairing_env = \<lparr>pv_hash = (\<lambda>token. hex16 (of_nat (length token))), pv_now_ms = 7, pv_db_now_ms = 8, pv_random1 = 0,
     pv_random2 = 0, pv_fails = (\<lambda>_. None)\<rparr>"

definition sample_claim :: "string option \<Rightarrow> connect_claim" where
  "sample_claim token = \<lparr>cc_device_id = ''a'', cc_client_id = ''b'', cc_public_key = ''a'', cc_role = ''b'',
     cc_requested_scopes = {}, cc_device_token = token\<rparr>"

definition sample_pairing_ops :: "pairing_op list" where
  "sample_pairing_ops =
     [EvaluateConnect sample_pairing_env (sample_claim None), ResolveRequest sample_pairing_env (pairing_request_id_of 1 0) True]"

lemma sample_texts [simp]: "trim ''a'' = ''a''" "trim ''b'' = ''b''"
  by (simp_all add: trim_graphic_id ascii_graphic_def)

lemma pairing_request_id_norm [simp]: "text_norm (pairing_request_id_of s r)"
  using trim_registry_id [of "''pair-''" s r] by (simp add: text_norm_def pairing_request_id_of_def ascii_graphic_def)

lemma text_norm_simps: "text_norm v \<Longrightarrow> trim v = v \<and> v \<noteq> []"
  by (simp add: text_norm_def)

lemma device_token_norm: "text_norm (device_token_of s r)"
  using trim_registry_id [of "''cpd-''" s r] by (simp add: text_norm_def device_token_of_def ascii_graphic_def)

lemma only_approved_devices_are_authorized_witness:
  "\<exists>g log g'. run_pairing_ops sample_pairing_ops (fresh_registry False) = (g, log) \<and>
    evaluate_connect sample_pairing_env (sample_claim (Some (device_token_of 3 0))) g = (Inr PairAuthorized, g') \<and>
    (\<exists>a \<in> set log. pa_device_id a = ''a'')"
proof -
  let ?ops = sample_pairing_ops
  let ?env = sample_pairing_env
  obtain g log where run: "run_pairing_ops ?ops (fresh_registry False) = (g, log)" by fastforce
  note ids = text_norm_simps [OF pairing_request_id_norm] text_norm_simps [OF device_token_norm]
  have scopes: "scope_set {} = {}" by (simp add: scope_set_def)
  have "g = fst (run_pairing_ops ?ops (fresh_registry False))" using run by simp
  then have "evaluate_connect ?env (sample_claim (Some (device_token_of 3 0))) g = (Inr PairAuthorized, g)"
    by (simp add: run_pairing_ops_def sample_pairing_ops_def evaluate_connect_def normalize_claim_def plane_required_text_def
      sample_claim_def scopes repo_optional_text_def fresh_registry_def pairing_registry_new_def require_pairing_def bt_values_def
      persist_request_def persist_approved_device_def resolve_request_def Let_def ids sample_pairing_env_def
      approved_device_requires_pairing_def)
  moreover have "list_all (uses_hash (pv_hash ?env)) ?ops" by (simp add: sample_pairing_ops_def uses_hash_def)
  moreover have "plain_hash (pv_hash ?env)" using text_norm_hex16 by (simp add: plain_hash_def sample_pairing_env_def text_norm_def)
  ultimately show ?thesis
    using only_approved_devices_are_authorized [of "pv_hash ?env" ?ops False g log ?env "sample_claim (Some (device_token_of 3 0))" g] run
    by (fastforce simp: sample_claim_def)
qed

end
