(* ===== verification/Pairing_Restart.thy ===== *)
theory Pairing_Restart
  imports Pairing_Properties
begin

text \<open>
  Restarts of the pairing registry. While the statements succeed, the tables hold what the registry in memory
  holds: approved devices exactly, requests up to the clock that wrote their times and the plain device token, which
  is never stored. A read that fails after a committed approval leaves the two apart for good.
\<close>

section \<open>Statements that succeed\<close>

abbreviation no_faults :: pairing_faults where
  "no_faults \<equiv> \<lambda>_. None"

definition row_of_id :: "string \<Rightarrow> pairing_tables \<Rightarrow> pairing_row option" where
  "row_of_id k t = find (\<lambda>row. pw_pairing_request_id row = k) (pt_requests t)"

definition token_of_device :: "string \<Rightarrow> pairing_tables \<Rightarrow> device_token_row option" where
  "token_of_device k t = find (\<lambda>row. dt_device_id row = k) (pt_tokens t)"

lemma repo_text_norm: "text_norm v \<Longrightarrow> repo_required_text v f = Inr v"
  by (simp add: repo_required_text_def text_norm_def)

lemma stage_no_faults [simp]: "stage_ok no_faults stage m = Inr ()"
  by (simp add: stage_ok_def)

lemma load_no_faults: "text_norm k \<Longrightarrow> load_pairing_request no_faults a b k t = Inr (row_of_id k t)"
  by (simp add: load_pairing_request_def repo_text_norm row_of_id_def)

definition new_norm :: "new_pairing_request \<Rightarrow> bool" where
  "new_norm new \<longleftrightarrow> text_norm (np_pairing_request_id new) \<and> text_norm (np_device_id new) \<and> text_norm (np_client_id new) \<and>
     text_norm (np_public_key new) \<and> text_norm (np_role new) \<and> scopes_norm (np_requested_scopes new)"

definition new_row :: "u64 \<Rightarrow> new_pairing_request \<Rightarrow> pairing_row" where
  "new_row db_now new =
     \<lparr>pw_pairing_request_id = np_pairing_request_id new, pw_device_id = np_device_id new, pw_client_id = np_client_id new,
      pw_public_key = np_public_key new, pw_role = np_role new, pw_requested_scopes = np_requested_scopes new,
      pw_status = PairingPending, pw_requested_at_ms = db_now, pw_resolved_at_ms = None, pw_issued_token_id = None,
      pw_last_error = None\<rparr>"

lemma find_append: "find P (xs @ ys) = (case find P xs of Some x \<Rightarrow> Some x | None \<Rightarrow> find P ys)"
  by (induction xs) auto

lemma ensure_new_request:
  assumes "new_norm new" and "row_of_id (np_pairing_request_id new) t = None"
  shows "ensure_pairing_request no_faults db_now new t =
    (Inr (new_row db_now new), t\<lparr>pt_requests := pt_requests t @ [new_row db_now new]\<rparr>)"
proof -
  have "\<not> list_ex (\<lambda>row. pw_pairing_request_id row = np_pairing_request_id new) (pt_requests t)"
    using assms(2) by (simp add: row_of_id_def find_None_iff list_ex_iff)
  then show ?thesis
    using assms unfolding ensure_pairing_request_def new_norm_def
    by (simp add: repo_text_norm load_no_faults row_of_id_def find_append new_row_def scope_set_id
      del: append.simps)
qed

lemma unique_error_text:
  "sublist ''UNIQUE constraint failed'' ''UNIQUE constraint failed: control_plane_pairing_requests.pairing_request_id''"
  by code_simp

lemma ensure_existing_request:
  assumes "new_norm new" and "row_of_id (np_pairing_request_id new) t = Some row"
  shows "ensure_pairing_request no_faults db_now new t = (Inr row, t)"
proof -
  have "list_ex (\<lambda>row. pw_pairing_request_id row = np_pairing_request_id new) (pt_requests t)"
    using assms(2) by (auto simp: row_of_id_def find_Some_iff list_ex_iff)
  then show ?thesis
    using assms unique_error_text unfolding ensure_pairing_request_def new_norm_def
    by (simp add: repo_text_norm load_no_faults del: append.simps)
qed


lemma row_of_id_update:
  "(\<And>row. pw_pairing_request_id (f row) = pw_pairing_request_id row) \<Longrightarrow>
    row_of_id k (update_rows P f t) = map_option (\<lambda>row. if P row then f row else row) (row_of_id k t)"
proof -
  assume id: "\<And>row. pw_pairing_request_id (f row) = pw_pairing_request_id row"
  have "find (\<lambda>row. pw_pairing_request_id row = k) (map (\<lambda>row. if P row then f row else row) rows) =
      map_option (\<lambda>row. if P row then f row else row) (find (\<lambda>row. pw_pairing_request_id row = k) rows)" for rows
    by (induction rows) (auto simp: id)
  then show ?thesis by (simp add: row_of_id_def update_rows_def)
qed

lemma row_of_id_token_update [simp]: "row_of_id k (t\<lparr>pt_tokens := tokens\<rparr>) = row_of_id k t"
  by (simp add: row_of_id_def)

lemma row_of_id_matches:
  "row_of_id k t = Some row \<Longrightarrow> pw_status row = s \<Longrightarrow> list_ex (row_matches k s) (pt_requests t)"
  by (auto simp: row_of_id_def find_Some_iff list_ex_iff row_matches_def)

lemma row_of_id_key: "row_of_id k t = Some row \<Longrightarrow> pw_pairing_request_id row = k"
  by (auto simp: row_of_id_def find_Some_iff)

definition reject_row :: "u64 \<Rightarrow> pairing_row \<Rightarrow> pairing_row" where
  "reject_row db_now row = row\<lparr>pw_status := PairingRejected, pw_resolved_at_ms := Some db_now, pw_last_error := None\<rparr>"

lemma reject_pending_request:
  assumes "text_norm k" and "row_of_id k t = Some row" and "pw_status row = PairingPending"
  shows "\<exists>result. transition_pairing_request no_faults db_now k PairingPending PairingRejected None None t =
    (Inr result, update_rows (row_matches k PairingPending) (reject_row db_now) t)"
proof -
  let ?t = "update_rows (row_matches k PairingPending) (reject_row db_now) t"
  have f: "(\<lambda>row. row\<lparr>pw_status := PairingRejected, pw_resolved_at_ms := Some db_now, pw_last_error := None\<rparr>) = reject_row db_now"
    by (simp add: fun_eq_iff reject_row_def)
  have "row_of_id k ?t = Some (reject_row db_now row)"
    using assms row_of_id_key [OF assms(2)] by (simp add: row_of_id_update reject_row_def row_matches_def)
  then show ?thesis
    using assms row_of_id_matches [OF assms(2,3)] unfolding transition_pairing_request_def
    by (simp add: repo_text_norm load_no_faults repo_optional_text_def f Let_def del: append.simps)
qed

lemma reject_resolved_request:
  assumes "text_norm k" and "row_of_id k t = Some row" and "pw_status row \<noteq> PairingPending"
    and "distinct (map pw_pairing_request_id (pt_requests t))"
  shows "transition_pairing_request no_faults db_now k PairingPending status issued error t = (Inr None, t)"
proof -
  have "\<not> list_ex (row_matches k PairingPending) (pt_requests t)"
  proof
    assume "list_ex (row_matches k PairingPending) (pt_requests t)"
    then obtain r where r: "r \<in> set (pt_requests t)" "pw_pairing_request_id r = k" "pw_status r = PairingPending"
      by (auto simp: list_ex_iff row_matches_def)
    have "row \<in> set (pt_requests t)" "pw_pairing_request_id row = k"
      using assms(2) by (auto simp: row_of_id_def find_Some_iff)
    then have "r = row" using r assms(4) by (metis distinct_map inj_onD)
    then show False using r(3) assms(3) by simp
  qed
  then show ?thesis
    using assms unfolding transition_pairing_request_def by (simp add: repo_text_norm del: append.simps)
qed

definition approve_row :: "u64 \<Rightarrow> string \<Rightarrow> pairing_row \<Rightarrow> pairing_row" where
  "approve_row resolved_at_ms issued row = row\<lparr>pw_status := PairingApproved, pw_resolved_at_ms := Some resolved_at_ms,
     pw_issued_token_id := Some issued, pw_last_error := None\<rparr>"

definition token_norm :: "new_device_token \<Rightarrow> bool" where
  "token_norm token \<longleftrightarrow> text_norm (nd_token_id token) \<and> text_norm (nd_device_id token) \<and> text_norm (nd_public_key token) \<and>
     text_norm (nd_role token) \<and> scopes_norm (nd_approved_scopes token) \<and> text_norm (nd_token_hash token)"

definition token_row :: "u64 \<Rightarrow> new_device_token \<Rightarrow> device_token_row" where
  "token_row resolved_at_ms token =
     \<lparr>dt_token_id = nd_token_id token, dt_device_id = nd_device_id token, dt_public_key = nd_public_key token,
      dt_role = nd_role token, dt_approved_scopes = nd_approved_scopes token, dt_token_hash = nd_token_hash token,
      dt_issued_at_ms = resolved_at_ms, dt_expires_at_ms = nd_expires_at_ms token,
      dt_revoked_at_ms = nd_revoked_at_ms token, dt_last_used_at_ms = nd_last_used_at_ms token,
      dt_pairing_request_id = nd_pairing_request_id token\<rparr>"

lemma approve_pending_request:
  assumes "text_norm (pw_pairing_request_id request)" and "pw_status request = PairingApproved"
    and "pw_resolved_at_ms request = Some ts" and "pw_issued_token_id request = Some issued" and "token_norm token"
    and "row_of_id (pw_pairing_request_id request) t = Some row" and "pw_status row = PairingPending"
    and fails: "\<And>stage. stage \<noteq> LoadApproved \<Longrightarrow> fails stage = None"
  shows "upsert_token_row (token_row ts token) (pt_tokens t) = Inl e \<Longrightarrow>
      \<exists>e'. approve_pairing_request fails request token t = (Inl e', t)"
    and "upsert_token_row (token_row ts token) (pt_tokens t) = Inr tokens \<Longrightarrow>
      \<exists>result. approve_pairing_request fails request token t =
        (result, (update_rows (row_matches (pw_pairing_request_id request) PairingPending) (approve_row ts issued) t)\<lparr>pt_tokens := tokens\<rparr>) \<and>
        (case fails LoadApproved of None \<Rightarrow> \<exists>row. result = Inr (Some row)
         | Some error \<Rightarrow> result = Inl (''load control-plane pairing request row failed: '' @ error))"
proof -
  let ?k = "pw_pairing_request_id request"
  have stage: "stage \<noteq> LoadApproved \<Longrightarrow> stage_ok fails stage m = Inr ()" for stage m using fails by (simp add: stage_ok_def)
  have row: "\<lparr>dt_token_id = nd_token_id token, dt_device_id = nd_device_id token, dt_public_key = nd_public_key token,
      dt_role = nd_role token, dt_approved_scopes = scope_set (nd_approved_scopes token), dt_token_hash = nd_token_hash token,
      dt_issued_at_ms = ts, dt_expires_at_ms = nd_expires_at_ms token,
      dt_revoked_at_ms = nd_revoked_at_ms token, dt_last_used_at_ms = nd_last_used_at_ms token,
      dt_pairing_request_id = nd_pairing_request_id token\<rparr> = token_row ts token"
    using assms(5) by (simp add: token_row_def token_norm_def scope_set_id)
  note open_facts = assms(1-5,7) row_of_id_matches [OF assms(6,7)]
  show "\<exists>e'. approve_pairing_request fails request token t = (Inl e', t)"
    if "upsert_token_row (token_row ts token) (pt_tokens t) = Inl e"
    using open_facts that unfolding approve_pairing_request_def token_norm_def
    by (simp add: repo_text_norm stage row del: append.simps)
  show "\<exists>result. approve_pairing_request fails request token t =
        (result, (update_rows (row_matches ?k PairingPending) (approve_row ts issued) t)\<lparr>pt_tokens := tokens\<rparr>) \<and>
        (case fails LoadApproved of None \<Rightarrow> \<exists>row. result = Inr (Some row)
         | Some error \<Rightarrow> result = Inl (''load control-plane pairing request row failed: '' @ error))"
    if "upsert_token_row (token_row ts token) (pt_tokens t) = Inr tokens"
  proof -
    let ?t = "(update_rows (row_matches ?k PairingPending) (approve_row ts issued) t)\<lparr>pt_tokens := tokens\<rparr>"
    have f: "(\<lambda>row. row\<lparr>pw_status := PairingApproved, pw_resolved_at_ms := Some ts,
     pw_issued_token_id := Some issued, pw_last_error := None\<rparr>) = approve_row ts issued"
      by (simp add: fun_eq_iff approve_row_def)
    have "row_of_id ?k ?t = Some (approve_row ts issued row)"
      using assms row_of_id_key [OF assms(6)] by (simp add: row_of_id_update approve_row_def row_matches_def)
    then have found: "find (\<lambda>row. pw_pairing_request_id row = ?k) (pt_requests ?t) = Some (approve_row ts issued row)"
      by (simp add: row_of_id_def)
    show ?thesis
      using open_facts that found unfolding approve_pairing_request_def token_norm_def load_pairing_request_def
      by (cases "fails LoadApproved")
        (simp_all add: repo_text_norm stage row f stage_ok_def [of fails LoadApproved] del: append.simps)
  qed
qed

section \<open>Tables and memory agree\<close>

definition request_core :: "pairing_request \<Rightarrow> string \<times> string \<times> string \<times> string \<times> string set \<times> pairing_status \<times> string option" where
  "request_core r = (pq_device_id r, pq_client_id r, pq_public_key r, pq_role r, pq_requested_scopes r, pq_status r, pq_issued_token_id r)"

definition row_core :: "pairing_row \<Rightarrow> string \<times> string \<times> string \<times> string \<times> string set \<times> pairing_status \<times> string option" where
  "row_core r = (pw_device_id r, pw_client_id r, pw_public_key r, pw_role r, pw_requested_scopes r, pw_status r, pw_issued_token_id r)"

definition request_wf :: "u64 \<Rightarrow> string \<Rightarrow> pairing_request \<Rightarrow> bool" where
  "request_wf nonce k r \<longleftrightarrow>
     pq_pairing_request_id r = k \<and> (\<exists>s x. k = pairing_request_id_of s x \<and> s \<le> nonce) \<and> text_norm (pq_client_id r) \<and> request_norm r \<and>
     (pq_status r = PairingPending \<longrightarrow> pq_issued_token_id r = None)"

definition tables_agree :: "pairing_registry \<Rightarrow> pairing_tables \<Rightarrow> bool" where
  "tables_agree g t \<longleftrightarrow>
     pg_tables g = Some t \<and>
     (\<forall>k. map_option request_core (bt_get (pg_requests g) k) = map_option row_core (row_of_id k t)) \<and>
     (\<forall>k. bt_get (pg_approved g) k = map_option device_from_row (token_of_device k t)) \<and>
     distinct (map pw_pairing_request_id (pt_requests t)) \<and> distinct (map dt_device_id (pt_tokens t)) \<and>
     (\<forall>k r. bt_get (pg_requests g) k = Some r \<longrightarrow> request_wf (pg_nonce g) k r)"

lemma tables_agree_fresh: "tables_agree (fresh_registry True) \<lparr>pt_requests = [], pt_tokens = []\<rparr>"
  by (simp add: tables_agree_def fresh_registry_def pairing_registry_new_def row_of_id_def token_of_device_def)

lemma device_token_id_norm [simp]: "text_norm (device_token_id_of s r)"
  using trim_registry_id [of "''cpdt-''" s r] by (simp add: text_norm_def device_token_id_of_def ascii_graphic_def)

lemma pairing_request_id_of_inj: "pairing_request_id_of s r = pairing_request_id_of s' r' \<longleftrightarrow> s = s' \<and> r = r'"
proof -
  have "length (hex16 w) = 16" for w by (simp add: hex16_def)
  then show ?thesis by (auto simp: pairing_request_id_of_def hex16_inj append_eq_append_conv)
qed

lemma request_wf_mono: "request_wf n k r \<Longrightarrow> n \<le> m \<Longrightarrow> request_wf m k r"
  unfolding request_wf_def by (meson order_trans)

lemma upsert_token_row_finds:
  assumes "upsert_token_row row rows = Inr rows'" and "distinct (map dt_device_id rows)"
  shows "find (\<lambda>r. dt_device_id r = k) rows' = (if k = dt_device_id row then Some row else find (\<lambda>r. dt_device_id r = k) rows)"
    and "distinct (map dt_device_id rows')"
proof -
  let ?d = "dt_device_id row"
  have keys: "map dt_device_id (map (\<lambda>r. if dt_device_id r = ?d then row else r) rs) = map dt_device_id rs" for rs
    by (induction rs) auto
  have replaced: "find (\<lambda>r. dt_device_id r = k) (map (\<lambda>r. if dt_device_id r = ?d then row else r) rs) =
      (if k = ?d then Some row else find (\<lambda>r. dt_device_id r = k) rs)"
    if "k = ?d \<Longrightarrow> list_ex (\<lambda>r. dt_device_id r = ?d) rs" for rs
    using that by (induction rs) auto
  show "find (\<lambda>r. dt_device_id r = k) rows' = (if k = ?d then Some row else find (\<lambda>r. dt_device_id r = k) rows)"
  proof (cases "list_ex (\<lambda>r. dt_device_id r = ?d) rows")
    case True
    then have "rows' = map (\<lambda>r. if dt_device_id r = ?d then row else r) rows" using assms(1) by (simp add: upsert_token_row_def split: if_splits)
    then show ?thesis using replaced [of rows] True by simp
  next
    case False
    then have rows': "rows' = rows @ [row]" using assms(1) by (simp add: upsert_token_row_def split: if_splits)
    have "find (\<lambda>r. dt_device_id r = ?d) rows = None" using False by (simp add: find_None_iff list_ex_iff)
    then show ?thesis by (cases "find (\<lambda>r. dt_device_id r = k) rows") (auto simp: rows' find_append)
  qed
  show "distinct (map dt_device_id rows')"
  proof (cases "list_ex (\<lambda>r. dt_device_id r = ?d) rows")
    case True
    then have "rows' = map (\<lambda>r. if dt_device_id r = ?d then row else r) rows" using assms(1) by (simp add: upsert_token_row_def split: if_splits)
    then show ?thesis using keys [of rows] assms(2) by (simp only:)
  next
    case False
    then have rows': "rows' = rows @ [row]" using assms(1) by (simp add: upsert_token_row_def split: if_splits)
    have "?d \<notin> dt_device_id ` set rows" using False by (auto simp: list_ex_iff)
    then show ?thesis using assms(2) by (simp add: rows')
  qed
qed


section \<open>The operations keep them together\<close>

lemma persist_new_request:
  assumes "pg_tables g = Some t" and "pv_fails env = no_faults" and "pq_status request = PairingPending"
    and "text_norm (pq_pairing_request_id request)" and "text_norm (pq_client_id request)" and "request_norm request"
    and "row_of_id (pq_pairing_request_id request) t = None"
  shows "\<exists>row. persist_request env request g = (Inr (), g\<lparr>pg_tables := Some (t\<lparr>pt_requests := pt_requests t @ [row]\<rparr>)\<rparr>) \<and>
    pw_pairing_request_id row = pq_pairing_request_id request \<and>
    row_core row = (pq_device_id request, pq_client_id request, pq_public_key request, pq_role request,
      pq_requested_scopes request, PairingPending, None)"
proof -
  let ?new = "\<lparr>np_pairing_request_id = pq_pairing_request_id request, np_device_id = pq_device_id request,
             np_client_id = pq_client_id request, np_public_key = pq_public_key request, np_role = pq_role request,
             np_requested_scopes = pq_requested_scopes request\<rparr>"
  have "ensure_pairing_request no_faults (pv_db_now_ms env) ?new t =
      (Inr (new_row (pv_db_now_ms env) ?new), t\<lparr>pt_requests := pt_requests t @ [new_row (pv_db_now_ms env) ?new]\<rparr>)"
    by (rule ensure_new_request) (use assms in \<open>simp_all add: new_norm_def request_norm_def\<close>)
  then have "persist_request env request g =
      (Inr (), g\<lparr>pg_tables := Some (t\<lparr>pt_requests := pt_requests t @ [new_row (pv_db_now_ms env) ?new]\<rparr>)\<rparr>)"
    using assms by (simp add: persist_request_def in_tables_def)
  then show ?thesis
    by (intro exI [of _ "new_row (pv_db_now_ms env) ?new"]) (simp add: new_row_def row_core_def)
qed

lemma persist_rejection:
  assumes "pg_tables g = Some t" and "pv_fails env = no_faults" and "pq_status request = PairingRejected"
    and "pq_issued_token_id request = None"
    and "text_norm (pq_pairing_request_id request)" and "text_norm (pq_client_id request)" and "request_norm request"
    and "row_of_id (pq_pairing_request_id request) t = Some row" and "distinct (map pw_pairing_request_id (pt_requests t))"
  shows "persist_request env request g = (Inr (), g\<lparr>pg_tables := Some (if pw_status row = PairingPending
      then update_rows (row_matches (pq_pairing_request_id request) PairingPending) (reject_row (pv_db_now_ms env)) t else t)\<rparr>)"
proof -
  let ?new = "\<lparr>np_pairing_request_id = pq_pairing_request_id request, np_device_id = pq_device_id request,
             np_client_id = pq_client_id request, np_public_key = pq_public_key request, np_role = pq_role request,
             np_requested_scopes = pq_requested_scopes request\<rparr>"
  have ensured: "ensure_pairing_request no_faults (pv_db_now_ms env) ?new t = (Inr row, t)"
    by (rule ensure_existing_request) (use assms in \<open>simp_all add: new_norm_def request_norm_def\<close>)
  show ?thesis
  proof (cases "pw_status row = PairingPending")
    case True
    then show ?thesis
      using assms ensured reject_pending_request [OF assms(5,8) True, of "pv_db_now_ms env"]
      by (auto simp: persist_request_def in_tables_def)
  next
    case False
    then show ?thesis
      using assms ensured reject_resolved_request [OF assms(5,8) False assms(9)]
      by (simp add: persist_request_def in_tables_def)
  qed
qed

lemma core_pending: "request_core r = row_core row \<Longrightarrow> pw_status row = pq_status r"
  by (simp add: request_core_def row_core_def)

lemma tables_agree_row:
  assumes "tables_agree g t" and "bt_get (pg_requests g) k = Some r"
  obtains row where "row_of_id k t = Some row" and "row_core row = request_core r" and "pw_status row = pq_status r"
    and "request_wf (pg_nonce g) k r" and "text_norm k"
proof -
  have "map_option request_core (bt_get (pg_requests g) k) = map_option row_core (row_of_id k t)"
    using assms(1) unfolding tables_agree_def by blast
  then have "map_option row_core (row_of_id k t) = Some (request_core r)" using assms(2) by simp
  then obtain row where row: "row_of_id k t = Some row" "row_core row = request_core r" by (auto simp: map_option_eq_Some)
  have wf: "request_wf (pg_nonce g) k r" using assms by (simp add: tables_agree_def)
  show thesis
    by (rule that [OF row core_pending [OF row(2) [symmetric]] wf]) (use wf in \<open>auto simp: request_wf_def\<close>)
qed

lemma require_pairing_agrees:
  assumes agree: "tables_agree g t" and fails: "pv_fails env = no_faults" and room: "pg_nonce g \<noteq> - 1"
    and claim: "text_norm (cc_device_id claim)" "text_norm (cc_client_id claim)" "text_norm (cc_public_key claim)"
      "text_norm (cc_role claim)" "scopes_norm (cc_requested_scopes claim)"
  shows "\<exists>t'. tables_agree (snd (require_pairing env claim g)) t' \<and> pt_tokens t' = pt_tokens t"
proof (cases "find (same_pending_request claim) (bt_values (pg_requests g))")
  case (Some existing)
  then show ?thesis using agree by (auto simp: require_pairing_def)
next
  case None
  let ?s = "pg_nonce g + 1"
  let ?id = "pairing_request_id_of ?s (pv_random1 env)"
  let ?request = "\<lparr>pq_pairing_request_id = ?id, pq_device_id = cc_device_id claim, pq_client_id = cc_client_id claim,
                 pq_public_key = cc_public_key claim, pq_role = cc_role claim, pq_requested_scopes = cc_requested_scopes claim,
                 pq_status = PairingPending, pq_requested_at_ms = pv_now_ms env, pq_resolved_at_ms = None,
                 pq_issued_token_id = None, pq_device_token = None\<rparr>"
  have less: "pg_nonce g < ?s" using room by (rule u64_next_greater)
  have "bt_get (pg_requests g) ?id = None"
  proof (cases "bt_get (pg_requests g) ?id")
    case (Some r)
    then have "request_wf (pg_nonce g) ?id r" using agree by (simp add: tables_agree_def)
    then show ?thesis using less by (auto simp: request_wf_def pairing_request_id_of_inj)
  qed simp
  moreover have core: "map_option request_core (bt_get (pg_requests g) k) = map_option row_core (row_of_id k t)" for k
    using agree unfolding tables_agree_def by blast
  ultimately have fresh: "row_of_id ?id t = None" using core [of ?id] by simp
  then have unused: "?id \<notin> pw_pairing_request_id ` set (pt_requests t)" by (auto simp: row_of_id_def find_None_iff)
  obtain row where persisted: "persist_request env ?request (g\<lparr>pg_nonce := ?s\<rparr>) =
        (Inr (), g\<lparr>pg_nonce := ?s, pg_tables := Some (t\<lparr>pt_requests := pt_requests t @ [row]\<rparr>)\<rparr>)"
    and row: "pw_pairing_request_id row = ?id" "row_core row = request_core ?request"
    using persist_new_request [of "g\<lparr>pg_nonce := ?s\<rparr>" t env ?request] agree fails fresh claim
    by (auto simp: tables_agree_def request_norm_def request_core_def)
  let ?t = "t\<lparr>pt_requests := pt_requests t @ [row]\<rparr>"
  have rows: "row_of_id k ?t = (if k = ?id then Some row else row_of_id k t)" for k
    using fresh row(1) by (auto simp: row_of_id_def find_append split: option.split)
  have wf: "request_wf ?s ?id ?request"
    using claim unfolding request_wf_def by (auto simp: request_norm_def)
  have "tables_agree (g\<lparr>pg_nonce := ?s, pg_tables := Some ?t, pg_requests := bt_insert ?id ?request (pg_requests g)\<rparr>) ?t"
    using agree core rows row wf unused request_wf_mono [OF _ less_imp_le [OF less]]
    unfolding tables_agree_def by (auto simp: token_of_device_def)
  then show ?thesis
    using None persisted by (auto simp: require_pairing_def Let_def)
qed


lemma evaluate_connect_agrees:
  assumes "tables_agree g t" and "pv_fails env = no_faults" and "pg_nonce g \<noteq> - 1"
  shows "\<exists>t'. tables_agree (snd (evaluate_connect env raw g)) t' \<and> pt_tokens t' = pt_tokens t"
proof (cases "normalize_claim raw")
  case (Inl e)
  then show ?thesis using assms by (auto simp: evaluate_connect_def)
next
  case (Inr claim)
  then have "\<exists>t'. tables_agree (snd (require_pairing env claim g)) t' \<and> pt_tokens t' = pt_tokens t"
    by (intro require_pairing_agrees [OF assms]) (auto simp: normalize_claim_Inr text_norm_trim)
  then show ?thesis
    using assms(1) Inr by (auto simp: evaluate_connect_def split: option.split)
qed

definition token_for :: "pairing_env \<Rightarrow> pairing_request \<Rightarrow> string \<Rightarrow> string \<Rightarrow> new_device_token" where
  "token_for env request device_token new_token_id =
     \<lparr>nd_token_id = new_token_id, nd_device_id = pq_device_id request, nd_public_key = pq_public_key request,
      nd_role = pq_role request, nd_approved_scopes = pq_requested_scopes request,
      nd_token_hash = pv_hash env device_token, nd_expires_at_ms = None, nd_revoked_at_ms = None,
      nd_last_used_at_ms = Some (pv_now_ms env), nd_pairing_request_id = Some (pq_pairing_request_id request)\<rparr>"

lemma persist_approved_step:
  assumes "pg_tables g = Some t" and "pv_fails env OpenRepository = None" and "pq_device_token request = Some device_token"
    and "approve_pairing_request (pv_fails env) (row_from_request request) (token_for env request device_token new_token_id) t = (r, t')"
  shows "persist_approved_device env request (pv_now_ms env) new_token_id g =
    (case r of
       Inl e \<Rightarrow> Inl e
     | Inr None \<Rightarrow> Inl (''control-plane pairing request `'' @ pq_pairing_request_id request @
         ''` changed before approval persistence completed'')
     | Inr (Some _) \<Rightarrow> Inr (), g\<lparr>pg_tables := Some t'\<rparr>)"
  using assms
  by (cases r) (simp_all add: persist_approved_device_def in_tables_def stage_ok_def token_for_def [symmetric] split: option.split
    del: append.simps)

lemma row_core_updates:
  "row_core (reject_row db_now row) = (pw_device_id row, pw_client_id row, pw_public_key row, pw_role row,
    pw_requested_scopes row, PairingRejected, pw_issued_token_id row)"
  "row_core (approve_row ts issued row) = (pw_device_id row, pw_client_id row, pw_public_key row, pw_role row,
    pw_requested_scopes row, PairingApproved, Some issued)"
  "pw_pairing_request_id (reject_row db_now row) = pw_pairing_request_id row"
  "pw_pairing_request_id (approve_row ts issued row) = pw_pairing_request_id row"
  by (simp_all add: row_core_def reject_row_def approve_row_def)

lemma update_rows_ids:
  assumes "\<And>row. pw_pairing_request_id (f row) = pw_pairing_request_id row"
  shows "map pw_pairing_request_id (pt_requests (update_rows P f t)) = map pw_pairing_request_id (pt_requests t)"
  using assms by (simp add: update_rows_def comp_def if_distrib cong: if_cong)

lemma reject_agrees:
  assumes agree: "tables_agree g t" and fails: "pv_fails env = no_faults"
    and request: "bt_get (pg_requests g) k = Some request" and pending: "pq_status request = PairingPending"
  defines "updated \<equiv> request\<lparr>pq_status := PairingRejected, pq_resolved_at_ms := Some (pv_now_ms env),
      pq_issued_token_id := None, pq_device_token := None\<rparr>"
  shows "\<exists>t' g'. persist_request env updated g = (Inr (), g') \<and>
    tables_agree (g'\<lparr>pg_requests := bt_insert k updated (pg_requests g')\<rparr>) t'"
proof -
  obtain row where row: "row_of_id k t = Some row" "row_core row = request_core request" "pw_status row = pq_status request"
    and wf: "request_wf (pg_nonce g) k request" and norm: "text_norm k"
    using agree request by (rule tables_agree_row)
  let ?t = "update_rows (row_matches k PairingPending) (reject_row (pv_db_now_ms env)) t"
  have id: "pq_pairing_request_id updated = k" using wf by (simp add: updated_def request_wf_def)
  have persisted: "persist_request env updated g = (Inr (), g\<lparr>pg_tables := Some ?t\<rparr>)"
    using persist_rejection [of g t env updated row] agree fails wf row pending norm id
    by (auto simp: tables_agree_def updated_def request_wf_def request_norm_def)
  have core: "map_option request_core (bt_get (pg_requests g) j) = map_option row_core (row_of_id j t)" for j
    using agree unfolding tables_agree_def by blast
  have rows: "row_of_id j ?t = (if j = k then Some (reject_row (pv_db_now_ms env) row) else row_of_id j t)" for j
    using row pending row_of_id_key [of j t]
    by (cases "row_of_id j t") (auto simp: row_of_id_update row_core_updates row_matches_def)
  have ids: "distinct (map pw_pairing_request_id (pt_requests ?t))"
    using agree update_rows_ids [of "reject_row (pv_db_now_ms env)" "row_matches k PairingPending" t]
    by (simp add: row_core_updates tables_agree_def)
  have tokens: "pt_tokens ?t = pt_tokens t" "token_of_device j ?t = token_of_device j t" for j
    by (simp_all add: update_rows_def token_of_device_def)
  have "request_core updated = row_core (reject_row (pv_db_now_ms env) row)"
    using row(2) wf pending unfolding row_core_updates
    by (auto simp: request_core_def row_core_def updated_def request_wf_def)
  moreover have "request_wf (pg_nonce g) k updated" using wf by (auto simp: request_wf_def updated_def request_norm_def)
  ultimately have "tables_agree (g\<lparr>pg_tables := Some ?t, pg_requests := bt_insert k updated (pg_requests g)\<rparr>) ?t"
    using agree core rows ids tokens unfolding tables_agree_def by (auto simp: row_core_updates)
  then show ?thesis using persisted by auto
qed

lemma approve_agrees:
  assumes agree: "tables_agree g t" and fails: "pv_fails env = no_faults"
    and request: "bt_get (pg_requests g) k = Some request" and pending: "pq_status request = PairingPending"
    and hash: "text_norm (pv_hash env device_token)" and early: "unat (pv_now_ms env) < 2 ^ 63" and id_norm: "text_norm new_token_id"
  defines "updated \<equiv> request\<lparr>pq_status := PairingApproved, pq_resolved_at_ms := Some (pv_now_ms env),
      pq_issued_token_id := Some new_token_id, pq_device_token := Some device_token\<rparr>"
    and "approved \<equiv> \<lparr>ad_device_id = pq_device_id request, ad_public_key = pq_public_key request,
      ad_role = pq_role request, ad_approved_scopes = pq_requested_scopes request, ad_token_id = new_token_id,
      ad_token_hash = pv_hash env device_token, ad_approved_at_ms = pv_now_ms env\<rparr>"
  shows "(\<exists>e. persist_approved_device env updated (pv_now_ms env) new_token_id g = (Inl e, g)) \<or>
    (\<exists>t' g'. persist_approved_device env updated (pv_now_ms env) new_token_id g = (Inr (), g') \<and>
      tables_agree (g'\<lparr>pg_approved := bt_insert (pq_device_id request) approved (pg_approved g'),
        pg_requests := bt_insert k updated (pg_requests g')\<rparr>) t')"
proof -
  obtain row where row: "row_of_id k t = Some row" "row_core row = request_core request" "pw_status row = pq_status request"
    and wf: "request_wf (pg_nonce g) k request" and norm: "text_norm k"
    using agree request by (rule tables_agree_row)
  let ?now = "pv_now_ms env"
  let ?new = "token_for env updated device_token new_token_id"
  let ?persisted = "row_from_request updated"
  have now: "u64_to_i64 ?now = ?now" using early by (simp add: u64_to_i64_def)
  have id: "pw_pairing_request_id ?persisted = k" using wf by (simp add: row_from_request_def updated_def request_wf_def)
  have new_norm: "token_norm ?new" using wf hash id_norm by (simp add: token_norm_def token_for_def updated_def request_wf_def request_norm_def)
  have fields: "text_norm (pw_pairing_request_id ?persisted)" "pw_status ?persisted = PairingApproved"
    "pw_resolved_at_ms ?persisted = Some ?now" "pw_issued_token_id ?persisted = Some new_token_id"
    "row_of_id (pw_pairing_request_id ?persisted) t = Some row" "pw_status row = PairingPending"
    using norm now row pending by (simp_all add: id) (simp_all add: row_from_request_def updated_def now)
  note approve = approve_pending_request [OF fields(1-4) new_norm fields(5,6), of no_faults]
  have stored: "pg_tables g = Some t" using agree by (simp add: tables_agree_def)
  have token: "pq_device_token updated = Some device_token" by (simp add: updated_def)
  show ?thesis
  proof (cases "upsert_token_row (token_row ?now ?new) (pt_tokens t)")
    case (Inl e)
    then obtain e' where "approve_pairing_request no_faults ?persisted ?new t = (Inl e', t)" using approve(1) by auto
    then have "persist_approved_device env updated ?now new_token_id g = (Inl e', g\<lparr>pg_tables := Some t\<rparr>)"
      using persist_approved_step [OF stored, of env updated device_token new_token_id] fails token by simp
    moreover have "g\<lparr>pg_tables := Some t\<rparr> = g" using stored by simp
    ultimately show ?thesis by auto
  next
    case (Inr tokens)
    let ?t = "(update_rows (row_matches k PairingPending) (approve_row ?now new_token_id) t)\<lparr>pt_tokens := tokens\<rparr>"
    obtain result_row where "approve_pairing_request no_faults ?persisted ?new t = (Inr (Some result_row), ?t)"
      using approve(2) Inr id by auto
    then have persisted: "persist_approved_device env updated ?now new_token_id g = (Inr (), g\<lparr>pg_tables := Some ?t\<rparr>)"
      using persist_approved_step [OF stored, of env updated device_token new_token_id] fails token by simp
    have core: "map_option request_core (bt_get (pg_requests g) j) = map_option row_core (row_of_id j t)"
      and devices: "bt_get (pg_approved g) j = map_option device_from_row (token_of_device j t)"
      and distinct: "distinct (map dt_device_id (pt_tokens t))" for j
      using agree unfolding tables_agree_def by blast+
    have rows: "row_of_id j ?t = (if j = k then Some (approve_row ?now new_token_id row) else row_of_id j t)" for j
      using row pending row_of_id_key [of j t]
      by (cases "row_of_id j t") (auto simp: row_of_id_update row_core_updates row_matches_def)
    have tokens: "token_of_device j ?t = (if j = pq_device_id request then Some (token_row ?now ?new) else token_of_device j t)" for j
      using upsert_token_row_finds(1) [OF Inr distinct, of j] by (simp add: token_of_device_def token_row_def token_for_def updated_def)
    have "request_core updated = row_core (approve_row ?now new_token_id row)"
      using row(2) unfolding row_core_updates by (simp add: request_core_def row_core_def updated_def)
    moreover have "request_wf (pg_nonce g) k updated" using wf by (auto simp: request_wf_def updated_def request_norm_def)
    moreover have "device_from_row (token_row ?now ?new) = approved"
      by (simp add: device_from_row_def token_row_def token_for_def approved_def updated_def)
    ultimately have "tables_agree (g\<lparr>pg_tables := Some ?t, pg_approved := bt_insert (pq_device_id request) approved (pg_approved g),
        pg_requests := bt_insert k updated (pg_requests g)\<rparr>) ?t"
      using agree core devices rows tokens upsert_token_row_finds(2) [OF Inr distinct]
        update_rows_ids [of "approve_row ?now new_token_id" "row_matches k PairingPending" t]
      unfolding tables_agree_def by (auto simp: row_core_updates)
    then show ?thesis using persisted by auto
  qed
qed


lemma tables_agree_nonce:
  assumes "tables_agree g t" and "pg_nonce g \<le> n"
  shows "tables_agree (g\<lparr>pg_nonce := n\<rparr>) t"
proof -
  have "request_wf n k r" if "bt_get (pg_requests g) k = Some r" for k r
    using that assms(1) by (intro request_wf_mono [OF _ assms(2)]) (simp add: tables_agree_def)
  then show ?thesis using assms(1) by (simp add: tables_agree_def)
qed

lemma resolve_request_agrees:
  assumes agree: "tables_agree g t" and fails: "pv_fails env = no_faults" and early: "unat (pv_now_ms env) < 2 ^ 63"
    and hash: "\<And>token. text_norm (pv_hash env token)" and room: "unat (pg_nonce g) + 2 < 2 ^ 64"
  shows "\<exists>t'. tables_agree (snd (resolve_request env raw_id approve g)) t'"
proof (cases "trim raw_id = [] \<or> bt_get (pg_requests g) (trim raw_id) = None")
  case True
  then show ?thesis using agree by (auto simp: resolve_request_def plane_required_text_def)
next
  case False
  then obtain request where id: "trim raw_id \<noteq> []" and request: "bt_get (pg_requests g) (trim raw_id) = Some request" by auto
  show ?thesis
  proof (cases "pq_status request = PairingPending")
    case False
    then show ?thesis using agree id request by (auto simp: resolve_request_def plane_required_text_def)
  next
    case pending: True
    show ?thesis
    proof (cases approve)
      case False
      show ?thesis
        using reject_agrees [OF agree fails request pending] id request pending False
        by (auto simp: resolve_request_def plane_required_text_def Let_def)
    next
      case True
      have "pg_nonce g \<le> pg_nonce g + 2"
        using room by (simp add: word_le_nat_alt unat_word_ariths(1))
      then have next_agree: "tables_agree (g\<lparr>pg_nonce := pg_nonce g + 2\<rparr>) t" by (rule tables_agree_nonce [OF agree])
      have same: "bt_get (pg_requests (g\<lparr>pg_nonce := pg_nonce g + 2\<rparr>)) (trim raw_id) = Some request" using request by simp
      show ?thesis
        using approve_agrees [OF next_agree fails same pending hash early device_token_id_norm,
            of "device_token_of (pg_nonce g + 2) (pv_random2 env)" "pg_nonce g + 1" "pv_random1 env"]
          next_agree id request pending True
        by (auto simp: resolve_request_def plane_required_text_def Let_def add.assoc)
    qed
  qed
qed

section \<open>A restart keeps what was approved\<close>

definition reliable :: "pairing_op \<Rightarrow> bool" where
  "reliable op \<longleftrightarrow> (case op of
     EvaluateConnect env _ \<Rightarrow> pv_fails env = no_faults
   | ResolveRequest env _ _ \<Rightarrow> pv_fails env = no_faults \<and> unat (pv_now_ms env) < 2 ^ 63 \<and> (\<forall>token. text_norm (pv_hash env token))
   | Restart \<Rightarrow> False)"

lemma persist_request_nonce [simp]: "pg_nonce (snd (persist_request env request g)) = pg_nonce g"
  using persist_request_keeps(1) [of env request g] by (metis prod.collapse)

lemma persist_approved_nonce [simp]: "pg_nonce (snd (persist_approved_device env request ts i g)) = pg_nonce g"
  using persist_approved_device_keeps(1) [of env request ts i g] by (metis prod.collapse)

lemma pairing_op_nonce:
  assumes "reliable op"
  shows "unat (pg_nonce (pairing_op_step op g)) \<le> unat (pg_nonce g) + 2"
proof -
  have step: "unat (n + 1) \<le> unat n + 1" "unat (n + 2) \<le> unat n + 2" for n :: u64
    by (simp_all add: unat_word_ariths(1))
  have then_nonce: "pg_nonce (snd (and_then r f)) = n" if "pg_nonce (snd r) = n" "\<And>x s. pg_nonce s = n \<Longrightarrow> pg_nonce (snd (f x s)) = n"
    for r :: "(string + unit) \<times> pairing_registry" and f :: "unit \<Rightarrow> pairing_registry \<Rightarrow> (string + 'b) \<times> pairing_registry" and n
    using that by (rule snd_and_then_seq [where P = "\<lambda>s. pg_nonce s = n"])
  have pair: "pg_nonce (snd (require_pairing env claim g)) \<in> {pg_nonce g, pg_nonce g + 1}" for env claim
    by (auto simp: require_pairing_def Let_def then_nonce split: option.split)
  have connect: "pg_nonce (snd (evaluate_connect env claim g)) \<in> {pg_nonce g, pg_nonce g + 1}" for env claim
    using pair by (auto simp: evaluate_connect_def split: sum.split option.split)
  have resolve: "pg_nonce (snd (resolve_request env raw approve g)) \<in> {pg_nonce g, pg_nonce g + 2}" for env raw approve
    by (cases "trim raw = []") (auto simp: resolve_request_def plane_required_text_def Let_def then_nonce add.assoc split: option.split)
  show ?thesis
  proof (cases op)
    case (EvaluateConnect env claim)
    then show ?thesis using connect [of env claim] step(1) [of "pg_nonce g"] by auto
  next
    case (ResolveRequest env raw approve)
    then show ?thesis using resolve [of env raw approve] step(2) [of "pg_nonce g"] by auto
  next
    case Restart
    then show ?thesis using assms by (simp add: reliable_def)
  qed
qed

lemma run_reliable:
  assumes "list_all reliable ops" and "2 * length ops < 2 ^ 64 - 2"
  shows "(\<exists>t. tables_agree (fst (run_pairing_ops ops (fresh_registry True))) t) \<and>
    unat (pg_nonce (fst (run_pairing_ops ops (fresh_registry True)))) \<le> 2 * length ops"
  using assms
proof (induction ops rule: rev_induct)
  case Nil
  then show ?case using tables_agree_fresh by (auto simp: run_pairing_ops_def fresh_registry_def pairing_registry_new_def)
next
  case (snoc op ops)
  obtain g log where s: "run_pairing_ops ops (fresh_registry True) = (g, log)" by fastforce
  obtain t where ih: "tables_agree g t" "unat (pg_nonce g) \<le> 2 * length ops" using snoc s by auto
  have op: "reliable op" using snoc.prems by simp
  have room: "unat (pg_nonce g) + 2 < 2 ^ 64" using ih(2) snoc.prems(2) by simp
  have "unat (- 1 :: u64) = 2 ^ 64 - 1" by (simp add: unsigned_minus_1_eq_mask mask_eq_exp_minus_1)
  then have room1: "pg_nonce g \<noteq> - 1" using room by auto
  have "\<exists>t'. tables_agree (pairing_op_step op g) t'"
    using op evaluate_connect_agrees [OF ih(1) _ room1] resolve_request_agrees [OF ih(1) _ _ _ room]
    by (cases op) (fastforce simp: reliable_def)+
  then show ?case using s pairing_op_nonce [OF op, of g] ih(2) by (simp add: run_pairing_ops_def)
qed

lemma map_of_rows:
  assumes "distinct (map key rows)" and "set sorted_rows = set rows"
  shows "bt_get (rev (map (\<lambda>row. (key row, f row)) sorted_rows)) k = map_option f (find (\<lambda>row. key row = k) rows)"
proof (cases "find (\<lambda>row. key row = k) rows")
  case None
  then have "k \<notin> fst ` set (rev (map (\<lambda>row. (key row, f row)) sorted_rows))" using assms(2) by (auto simp: find_None_iff)
  then show ?thesis using None map_of_eq_None_iff by fastforce
next
  case (Some row)
  then have row: "row \<in> set rows" "key row = k" by (auto simp: find_Some_iff)
  let ?es = "rev (map (\<lambda>row. (key row, f row)) sorted_rows)"
  have "k \<in> fst ` set ?es" using row assms(2) by force
  then obtain v where v: "bt_get ?es k = Some v" using map_of_eq_None_iff [of ?es k] by (cases "bt_get ?es k") auto
  then have "(k, v) \<in> set ?es" by (rule map_of_SomeD)
  then obtain r where "r \<in> set rows" "key r = k" "v = f r" using assms(2) by auto
  then have "r = row" using row assms(1) by (metis distinct_map inj_onD)
  then show ?thesis using v Some \<open>v = f r\<close> by simp
qed

text \<open>
  A restart loses nothing that matters: after any history of connects and resolutions whose statements
  succeed, the registry loaded from the tables has the same approved devices, and the same requests with the same
  device, client, key, role, scopes, status and token id; what is not read back is the plain device token.
\<close>

theorem restart_keeps_pairings:
  assumes "list_all reliable ops" and "2 * length ops < 2 ^ 64 - 2"
    and "run_pairing_ops ops (fresh_registry True) = (g, log)"
  shows "bt_get (pg_approved (pairing_op_step Restart g)) k = bt_get (pg_approved g) k \<and>
    map_option request_core (bt_get (pg_requests (pairing_op_step Restart g)) k) = map_option request_core (bt_get (pg_requests g) k)"
proof -
  obtain t where agree: "tables_agree g t" using run_reliable [OF assms(1,2)] assms(3) by auto
  obtain rows tokens where lists: "list_pairing_rows no_faults t = Inr rows" "set rows = set (pt_requests t)"
    "list_device_token_rows no_faults t = Inr tokens" "set tokens = set (pt_tokens t)"
    by (simp add: list_pairing_rows_def list_device_token_rows_def)
  have restarted: "pairing_op_step Restart g = \<lparr>pg_nonce = 0,
       pg_requests = bt_collect (map (\<lambda>row. (pw_pairing_request_id row, request_from_row row)) rows),
       pg_approved = bt_collect (map (\<lambda>row. (dt_device_id row, device_from_row row)) tokens), pg_tables = Some t\<rparr>"
    using agree lists(1,3) by (simp add: tables_agree_def pairing_with_memory_config_def)
  have "map_option request_core (bt_get (pg_requests (pairing_op_step Restart g)) k) =
      map_option (request_core \<circ> request_from_row) (row_of_id k t)"
    using agree map_of_rows [of pw_pairing_request_id "pt_requests t" rows request_from_row k] lists(2)
    unfolding restarted by (simp add: bt_collect_get row_of_id_def tables_agree_def option.map_comp)
  moreover have "request_core \<circ> request_from_row = row_core"
    by (simp add: fun_eq_iff request_core_def row_core_def request_from_row_def)
  moreover have "bt_get (pg_approved (pairing_op_step Restart g)) k = map_option device_from_row (token_of_device k t)"
    using agree map_of_rows [of dt_device_id "pt_tokens t" tokens device_from_row k] lists(4)
    unfolding restarted by (simp add: bt_collect_get token_of_device_def tables_agree_def)
  ultimately show ?thesis using agree unfolding tables_agree_def by metis
qed


lemma sample_ops_reliable: "list_all reliable sample_pairing_ops"
  by (simp add: sample_pairing_ops_def reliable_def sample_pairing_env_def text_norm_hex16)

lemma restart_keeps_pairings_witness:
  "\<exists>g log. run_pairing_ops sample_pairing_ops (fresh_registry True) = (g, log) \<and>
    bt_get (pg_approved (pairing_op_step Restart g)) ''a'' = bt_get (pg_approved g) ''a''"
proof -
  obtain g log where run: "run_pairing_ops sample_pairing_ops (fresh_registry True) = (g, log)" by fastforce
  have "2 * length sample_pairing_ops < 2 ^ 64 - 2" by (simp add: sample_pairing_ops_def)
  then show ?thesis using restart_keeps_pairings [OF sample_ops_reliable _ run, of "''a''"] run by auto
qed

section \<open>A failed read after the commit\<close>

lemma upsert_fresh:
  "list_all (\<lambda>r. dt_token_id r \<noteq> dt_token_id row) rows \<Longrightarrow> \<exists>rows'. upsert_token_row row rows = Inr rows'"
  by (auto simp: upsert_token_row_def list_all_iff list_ex_iff)

lemma approve_resolved_request:
  assumes "text_norm (pw_pairing_request_id request)" and "pw_status request = PairingApproved"
    and "pw_resolved_at_ms request = Some ts" and "pw_issued_token_id request = Some issued" and "token_norm token"
    and "row_of_id (pw_pairing_request_id request) t = Some row" and "pw_status row \<noteq> PairingPending"
    and "distinct (map pw_pairing_request_id (pt_requests t))"
  shows "approve_pairing_request no_faults request token t = (Inr None, t)"
proof -
  let ?k = "pw_pairing_request_id request"
  have "\<not> list_ex (row_matches ?k PairingPending) (pt_requests t)"
  proof
    assume "list_ex (row_matches ?k PairingPending) (pt_requests t)"
    then obtain r where r: "r \<in> set (pt_requests t)" "pw_pairing_request_id r = ?k" "pw_status r = PairingPending"
      by (auto simp: list_ex_iff row_matches_def)
    have "row \<in> set (pt_requests t)" "pw_pairing_request_id row = ?k"
      using assms(6) by (auto simp: row_of_id_def find_Some_iff)
    then have "r = row" using r assms(8) by (metis distinct_map inj_onD)
    then show False using r(3) assms(7) by simp
  qed
  then show ?thesis
    using assms(1-5) unfolding approve_pairing_request_def token_norm_def by (simp add: repo_text_norm)
qed

text \<open>
  When the read that follows the commit of an approval fails, the approval is reported as failed and the registry in
  memory is unchanged, but the tables hold it: every later approval of the request fails, a rejection is reported as
  done, and after a restart the device is approved, with a token nobody was given.
\<close>

theorem failed_read_after_approval_sticks:
  assumes agree: "tables_agree g t" and request: "bt_get (pg_requests g) k = Some request" "pq_status request = PairingPending"
    and fails: "pv_fails env = (\<lambda>_. None)(LoadApproved := Some error)" and early: "unat (pv_now_ms env) < 2 ^ 63"
    and hash: "\<And>token. text_norm (pv_hash env token)"
    and fresh: "list_all (\<lambda>row. dt_token_id row \<noteq> device_token_id_of (pg_nonce g + 1) (pv_random1 env)) (pt_tokens t)"
    and resolved: "resolve_request env k True g = (result, g1)"
    and later: "pv_fails env2 = (\<lambda>_. None)" "\<And>token. text_norm (pv_hash env2 token)"
  shows "result = Inl (''load control-plane pairing request row failed: '' @ error) \<and>
    pg_requests g1 = pg_requests g \<and> pg_approved g1 = pg_approved g \<and>
    fst (resolve_request env2 k True g1) =
      Inl (''control-plane pairing request `'' @ k @ ''` changed before approval persistence completed'') \<and>
    (\<exists>r. fst (resolve_request env2 k False g1) = Inr (Some r) \<and> pq_status r = PairingRejected) \<and>
    (\<exists>d. bt_get (pg_approved (pairing_op_step Restart (snd (resolve_request env2 k False g1)))) (pq_device_id request) = Some d)"
proof -
  obtain row where row: "row_of_id k t = Some row" "pw_status row = pq_status request"
    and wf: "request_wf (pg_nonce g) k request" and norm: "text_norm k"
    using agree request(1) by (rule tables_agree_row)
  have k: "trim k = k" "k \<noteq> []" using norm by (simp_all add: text_norm_def)
  have stored: "pg_tables g = Some t" and ids: "distinct (map pw_pairing_request_id (pt_requests t))"
    and devices: "distinct (map dt_device_id (pt_tokens t))"
    using agree by (simp_all add: tables_agree_def)
  let ?now = "pv_now_ms env"
  let ?id = "device_token_id_of (pg_nonce g + 1) (pv_random1 env)"
  let ?secret = "device_token_of (pg_nonce g + 2) (pv_random2 env)"
  define updated where "updated = request\<lparr>pq_status := PairingApproved, pq_resolved_at_ms := Some ?now,
      pq_issued_token_id := Some ?id, pq_device_token := Some ?secret\<rparr>"
  let ?new = "token_for env updated ?secret ?id"
  have now: "u64_to_i64 ?now = ?now" using early by (simp add: u64_to_i64_def)
  have key: "pw_pairing_request_id (row_from_request updated) = k" using wf by (simp add: row_from_request_def updated_def request_wf_def)
  have "token_norm ?new" using wf hash by (simp add: token_norm_def token_for_def updated_def request_wf_def request_norm_def)
  moreover have "text_norm (pw_pairing_request_id (row_from_request updated))" "pw_status (row_from_request updated) = PairingApproved"
    "pw_resolved_at_ms (row_from_request updated) = Some ?now" "pw_issued_token_id (row_from_request updated) = Some ?id"
    "row_of_id (pw_pairing_request_id (row_from_request updated)) t = Some row" "pw_status row = PairingPending"
    using norm row request(2) by (simp_all add: key) (simp_all add: row_from_request_def updated_def now)
  moreover obtain tokens where tokens: "upsert_token_row (token_row ?now ?new) (pt_tokens t) = Inr tokens"
    using upsert_fresh [of "token_row ?now ?new" "pt_tokens t"] fresh by (auto simp: token_row_def token_for_def)
  define t1 where "t1 = (update_rows (row_matches k PairingPending) (approve_row ?now ?id) t)\<lparr>pt_tokens := tokens\<rparr>"
  ultimately have approved: "approve_pairing_request (pv_fails env) (row_from_request updated) ?new t =
      (Inl (''load control-plane pairing request row failed: '' @ error), t1)"
    using approve_pending_request(2) [of "row_from_request updated" ?now ?id ?new t row "pv_fails env" tokens] fails tokens
    by (auto simp: key t1_def simp del: append.simps)
  define g' where "g' = g\<lparr>pg_nonce := pg_nonce g + 2, pg_tables := Some t1\<rparr>"
  have stored': "pg_tables (g\<lparr>pg_nonce := pg_nonce g + 2\<rparr>) = Some t" and open_ok: "pv_fails env OpenRepository = None"
    and secret: "pq_device_token updated = Some ?secret"
    using stored fails by (simp_all add: updated_def)
  have persisted: "persist_approved_device env updated ?now ?id (g\<lparr>pg_nonce := pg_nonce g + 2\<rparr>) =
      (Inl (''load control-plane pairing request row failed: '' @ error), g')"
    using persist_approved_step [OF stored' open_ok secret approved] by (simp only: sum.case g'_def)
  have first: "result = Inl (''load control-plane pairing request row failed: '' @ error)" "g1 = g'"
    using resolved persisted request k
    by (simp_all add: resolve_request_def plane_required_text_def Let_def add.assoc updated_def del: append.simps)
  have row1: "row_of_id k t1 = Some (approve_row ?now ?id row)"
    using row request(2) row_of_id_key [OF row(1)]
    by (simp add: t1_def row_of_id_update row_core_updates row_matches_def)
  have ids1: "distinct (map pw_pairing_request_id (pt_requests t1))"
    using ids update_rows_ids [of "approve_row ?now ?id" "row_matches k PairingPending" t]
    by (simp add: t1_def row_core_updates)
  have not_pending: "pw_status (approve_row ?now ?id row) \<noteq> PairingPending" by (simp add: approve_row_def)
  show ?thesis
  proof (intro conjI)
    let ?id2 = "device_token_id_of (pg_nonce g1 + 1) (pv_random1 env2)"
    let ?secret2 = "device_token_of (pg_nonce g1 + 2) (pv_random2 env2)"
    define updated2 where "updated2 = request\<lparr>pq_status := PairingApproved, pq_resolved_at_ms := Some (pv_now_ms env2),
      pq_issued_token_id := Some ?id2, pq_device_token := Some ?secret2\<rparr>"
    have key2: "pw_pairing_request_id (row_from_request updated2) = k" using wf by (simp add: row_from_request_def updated2_def request_wf_def)
    have "approve_pairing_request no_faults (row_from_request updated2) (token_for env2 updated2 ?secret2 ?id2) t1 = (Inr None, t1)"
    proof (rule approve_resolved_request [OF _ _ _ _ _ _ not_pending ids1])
      show "text_norm (pw_pairing_request_id (row_from_request updated2))"
        "row_of_id (pw_pairing_request_id (row_from_request updated2)) t1 = Some (approve_row ?now ?id row)"
        using norm row1 by (simp_all add: key2)
      show "token_norm (token_for env2 updated2 ?secret2 ?id2)"
        using wf later(2) by (simp add: token_norm_def token_for_def updated2_def request_wf_def request_norm_def)
    qed (simp_all add: row_from_request_def updated2_def)
    then have refused: "approve_pairing_request (pv_fails env2) (row_from_request updated2) (token_for env2 updated2 ?secret2 ?id2) t1 = (Inr None, t1)"
      using later(1) by simp
    have stored2: "pg_tables (g1\<lparr>pg_nonce := pg_nonce g1 + 2\<rparr>) = Some t1" "pv_fails env2 OpenRepository = None"
      "pq_device_token updated2 = Some ?secret2"
      using first(2) later(1) by (simp_all add: g'_def updated2_def)
    have id2: "pq_pairing_request_id updated2 = k" using wf by (simp add: updated2_def request_wf_def)
    have "persist_approved_device env2 updated2 (pv_now_ms env2) ?id2 (g1\<lparr>pg_nonce := pg_nonce g1 + 2\<rparr>) =
        (Inl (''control-plane pairing request `'' @ k @ ''` changed before approval persistence completed''),
         g1\<lparr>pg_nonce := pg_nonce g1 + 2, pg_tables := Some t1\<rparr>)"
      using persist_approved_step [OF stored2 refused] by (simp only: sum.case option.case id2)
    then show "fst (resolve_request env2 k True g1) =
        Inl (''control-plane pairing request `'' @ k @ ''` changed before approval persistence completed'')"
      using request k first(2)
      by (simp add: resolve_request_def plane_required_text_def Let_def add.assoc updated2_def g'_def del: append.simps)
    let ?rejected = "request\<lparr>pq_status := PairingRejected, pq_resolved_at_ms := Some (pv_now_ms env2),
      pq_issued_token_id := None, pq_device_token := None\<rparr>"
    have "persist_request env2 ?rejected g1 = (Inr (), g1\<lparr>pg_tables := Some t1\<rparr>)"
      using persist_rejection [of g1 t1 env2 ?rejected "approve_row ?now ?id row"] first(2) later(1) wf norm row1 not_pending ids1
      by (auto simp: g'_def request_wf_def request_norm_def)
    then have rejected: "resolve_request env2 k False g1 =
        (Inr (Some ?rejected), g1\<lparr>pg_tables := Some t1, pg_requests := bt_insert k ?rejected (pg_requests g)\<rparr>)"
      using request k first(2) by (simp add: resolve_request_def plane_required_text_def Let_def g'_def)
    then show "\<exists>r. fst (resolve_request env2 k False g1) = Inr (Some r) \<and> pq_status r = PairingRejected" by simp
    obtain trows where trows: "list_device_token_rows no_faults t1 = Inr trows" "set trows = set (pt_tokens t1)"
      by (simp add: list_device_token_rows_def)
    have "token_of_device (pq_device_id request) t1 = Some (token_row ?now ?new)"
      using upsert_token_row_finds(1) [OF tokens devices, of "pq_device_id request"]
      by (simp add: token_of_device_def t1_def token_row_def token_for_def updated_def)
    moreover have "distinct (map dt_device_id (pt_tokens t1))" using upsert_token_row_finds(2) [OF tokens devices] by (simp add: t1_def)
    ultimately have "bt_get (rev (map (\<lambda>row. (dt_device_id row, device_from_row row)) trows)) (pq_device_id request) =
        Some (device_from_row (token_row ?now ?new))"
      using map_of_rows [of dt_device_id "pt_tokens t1" trows device_from_row "pq_device_id request"] trows(2)
      by (simp add: token_of_device_def)
    then show "\<exists>d. bt_get (pg_approved (pairing_op_step Restart (snd (resolve_request env2 k False g1)))) (pq_device_id request) = Some d"
      unfolding rejected using trows(1)
      by (simp add: pairing_with_memory_config_def list_pairing_rows_def bt_collect_get)
  qed (use first in \<open>simp_all add: g'_def\<close>)
qed


lemma sample_request_pending:
  "\<exists>g t request. tables_agree g t \<and> bt_get (pg_requests g) (pairing_request_id_of 1 0) = Some request \<and>
    pq_status request = PairingPending \<and> pt_tokens t = []"
proof -
  let ?g = "fresh_registry True"
  let ?env = "sample_pairing_env"
  let ?claim = "\<lparr>cc_device_id = ''a'', cc_client_id = ''b'', cc_public_key = ''a'', cc_role = ''b'',
     cc_requested_scopes = {}, cc_device_token = None\<rparr>"
  have norms: "text_norm ''a''" "text_norm ''b''" by (simp_all add: text_norm_def)
  let ?id = "pairing_request_id_of 1 0"
  let ?request = "\<lparr>pq_pairing_request_id = ?id, pq_device_id = ''a'', pq_client_id = ''b'',
                 pq_public_key = ''a'', pq_role = ''b'', pq_requested_scopes = {},
                 pq_status = PairingPending, pq_requested_at_ms = 7, pq_resolved_at_ms = None,
                 pq_issued_token_id = None, pq_device_token = None\<rparr>"
  have "\<exists>row. persist_request ?env ?request (?g\<lparr>pg_nonce := 1\<rparr>) =
      (Inr (), ?g\<lparr>pg_nonce := 1, pg_tables := Some (\<lparr>pt_requests = [], pt_tokens = []\<rparr>\<lparr>pt_requests := [] @ [row]\<rparr>)\<rparr>)"
    using persist_new_request [of "?g\<lparr>pg_nonce := 1\<rparr>" "\<lparr>pt_requests = [], pt_tokens = []\<rparr>" ?env ?request] norms
    by (auto simp: sample_pairing_env_def fresh_registry_def request_norm_def scopes_norm_def row_of_id_def)
  then have "bt_get (pg_requests (snd (require_pairing ?env ?claim ?g))) ?id = Some ?request"
    by (auto simp: require_pairing_def Let_def fresh_registry_def pairing_registry_new_def bt_values_def sample_pairing_env_def)
  moreover have "\<exists>t'. tables_agree (snd (require_pairing ?env ?claim ?g)) t' \<and> pt_tokens t' = pt_tokens \<lparr>pt_requests = [], pt_tokens = []\<rparr>"
    by (rule require_pairing_agrees [OF tables_agree_fresh])
      (use norms in \<open>simp_all add: sample_pairing_env_def fresh_registry_def pairing_registry_new_def scopes_norm_def\<close>)
  ultimately show ?thesis by fastforce
qed

lemma failed_read_after_approval_sticks_witness:
  "\<exists>g result g1. resolve_request (sample_pairing_env\<lparr>pv_fails := (\<lambda>_. None)(LoadApproved := Some ''disk'')\<rparr>)
      (pairing_request_id_of 1 0) True g = (result, g1) \<and>
    fst (resolve_request sample_pairing_env (pairing_request_id_of 1 0) True g1) =
      Inl (''control-plane pairing request `'' @ pairing_request_id_of 1 0 @ ''` changed before approval persistence completed'')"
proof -
  let ?env = "sample_pairing_env\<lparr>pv_fails := (\<lambda>_. None)(LoadApproved := Some ''disk'')\<rparr>"
  let ?k = "pairing_request_id_of 1 0"
  obtain g t request where g: "tables_agree g t" "bt_get (pg_requests g) ?k = Some request"
    "pq_status request = PairingPending" "pt_tokens t = []"
    using sample_request_pending by blast
  obtain result g1 where resolved: "resolve_request ?env ?k True g = (result, g1)" by fastforce
  have env: "pv_fails ?env = (\<lambda>_. None)(LoadApproved := Some ''disk'')" "unat (pv_now_ms ?env) < 2 ^ 63"
    "text_norm (pv_hash ?env token)" "pv_fails sample_pairing_env = no_faults" "text_norm (pv_hash sample_pairing_env token)"
    "list_all (\<lambda>row. dt_token_id row \<noteq> device_token_id_of (pg_nonce g + 1) (pv_random1 ?env)) (pt_tokens t)" for token
    by (simp_all add: sample_pairing_env_def text_norm_hex16 g(4))
  show ?thesis
    using failed_read_after_approval_sticks [OF g(1-3) env(1,2,3,6) resolved env(4,5)] resolved by blast
qed

end
