(* ===== verification/Spec2Isabelle.thy ===== *)
theory Spec2Isabelle
  imports Kernel_Properties Task_Supervisor Task_State Policy_Interleaving Audit_Journal_Proofs
    Agent_Mailbox Architecture_Guard Integration_Catalog Plugin_Bootstrap
    Protocol_Routing Protocol_Transport Connector_Circuit Batch_Scheduler
    Programmatic_Steps Plugin_Activation Codebase_Awareness Child_Environment Work_Properties
    Bash_Properties Web_Properties Dispatch_Properties Plan_Properties
    Safe_Lane_Properties Lane_Arbiter Control_Plane_Events Pairing_Restart
begin

text \<open>
  Loong, the runtime of an agent, written in Rust: the contracts and the kernel that governs every
  call an agent makes (crates/contracts, crates/kernel), the control-plane protocol (crates/protocol),
  the resilience layer of programmatic tool calls (crates/spec), and of the application (crates/app)
  the queue of work units, the tools with their policies and leases, the safe lane that plans and
  verifies the tool calls of a turn, and the registries of its control plane.

  How the parts interact. A caller holds a capability token issued by the policy engine. The kernel
  looks up the token's vertical pack, checks the pack's capabilities and connectors, asks the policy
  engine and its extensions, runs the adapter of the plane, and records each decision in the audit
  sink, for which the JSON-lines journal is the durable one. Plugins are translated, planned, checked
  for slot conflicts, absorbed into the integration catalog and the pack, and bootstrapped. A
  programmatic tool call interprets a list of steps; its connector calls go through the rate limiter,
  the circuit breaker of the connector and the retry loop before they reach the kernel; a batch of
  them goes through the scheduler. Work units are leased by workers, retried and recovered.
  The application's shell and file policies are extensions of the kernel; the request that passes
  them is prepared, narrowed and dispatched to a tool, directly or, for tools that providers do not
  see, through tool.invoke with a lease that a search has issued. When the lane arbiter sends a turn
  to the safe lane, its tool calls become a plan, which is validated, ordered and executed node by
  node; the outputs are verified, and a failure is routed to another round or to the end of the turn.
  Clients of the control plane pair their devices, hold connection leases and poll for events.

  Which theory models what.
    Loong_Prelude: results (try_bind, and_then, try_all), ordered maps (bt_get, bt_insert, the
      BTreeMap), machine integers with their saturating operations, ASCII text.
    Contracts, Kernel_Errors, Task_State, Vertical_Packs: crates/contracts/src/contracts.rs,
      errors.rs, fault.rs, task_state.rs, pack.rs, namespace.rs, clock.rs.
    Policy_Engine, Policy_Interleaving: kernel/src/policy.rs, sequentially and as atomic steps of
      concurrent threads.
    Audit_Sinks, Audit_Journal, Audit_Journal_Proofs: kernel/src/audit.rs.
    Execution_Planes: runtime.rs, tool.rs, memory.rs, connector.rs, harness.rs.
    Kernel_Core, Kernel_Calls, Kernel_Properties, Kernel_Safety: kernel.rs, policy_ext.rs.
    Task_Supervisor, Agent_Mailbox, Architecture_Guard: task_supervisor.rs, mailbox.rs, architecture.rs.
    Integration_Catalog, Plugin_Bootstrap: integration.rs, bootstrap.rs.
    Plugin_Manifests, Plugin_Runtime, Plugin_Absorb, Plugin_Activation: plugin.rs, plugin_ir.rs,
      plugin_ir/runtime.rs. Codebase_Awareness: awareness.rs.
    Protocol_Routing, Protocol_Transport: protocol/src/lib.rs.
    Connector_Circuit, Batch_Scheduler, Programmatic_Invocation, Payload_Templates,
      Programmatic_Steps: spec/src/programmatic.rs, spec_runtime.rs, spec_runtime/connector_circuit.rs.
    Fnv_Hash: the hash of batch jitter, fingerprints and identifiers.
    Secret_Refs, Child_Environment: contracts/src/secret_ref.rs, secret_resolver.rs,
      child_process_env.rs, app/src/secrets.rs.
    Work_Types, Work_Store, Work_Repository, Work_Editing: contracts/src/work_types.rs and
      app/src/work/repository.rs; Work_Lifecycle, Work_Invariants, Work_Properties prove about them.
    Tools (app/src/tools). Bash_Syntax, Bash_Governance, Bash_Properties: bash/ast.rs, rules.rs,
      governance.rs. Tool_Config: runtime_config.rs, runtime_config_narrowing.rs. Tool_Requests:
      tool_identity.rs, tool_internal_context.rs, tool_lease_binding.rs, tool_request_prep.rs,
      shell_request_prep.rs. Tool_Lease: tool_lease_authority.rs and crypto/timing.rs. Tool_Paths:
      file_policy_ext.rs, tool_path.rs and the resolution of paths in file.rs. Shell_Policy,
      Process_Tools: shell_policy_ext.rs, shell.rs, bash.rs, process_exec.rs and process_launch.rs.
      Tool_Routing, Tool_Dispatch: routing.rs, tool_dispatch.rs, tool_lease.rs,
      direct_policy_preflight.rs and what they call of a request. Web_Targets, Web_Requests,
      Web_Properties: web_http.rs, http_request.rs, web_fetch.rs, download_guard.rs and the outbound
      policy of channels in app/src/channel/core/http.rs. Process_Properties and Dispatch_Properties
      prove about them.
    The safe lane (app/src/conversation). Lane_Arbiter: lane_arbiter.rs. Plan_Graph, Plan_Executor:
      plan_ir.rs, plan_executor.rs; Plan_Order, Plan_Validation, Plan_Properties prove about them.
      Plan_Verifier: plan_verifier.rs. Safe_Lane_Routing, Safe_Lane_Rounds: turn_budget.rs,
      safe_lane_failure.rs, turn_engine_outcome.rs and turn_coordinator/safe_lane_*.rs;
      Safe_Lane_Plans, Safe_Lane_Runs, Safe_Lane_Properties prove about them.
    The control plane (app/src/control_plane.rs). Control_Plane_Turns, Control_Plane_Events,
      Control_Plane_Leases: turns and their events, the event log, connection leases and challenges.
      Control_Plane_Pairing: device pairing with its tables (session/repository/persistence.rs and
      records.rs); Pairing_Properties, Pairing_Restart prove about it.

  How state corresponds. A struct is a record with prefixed fields, an enum a datatype, a Result a
  sum with the error on the left, a method on a shared reference a function from the state to the
  result and the new state. A mutex or atomic is its value in the sequential models; where the code
  allows interleaving (token issue against revocation, circuit probes, rate limiting, batches, the
  creation of the lease secret, recorders of events), the atomic sections are the steps of a run. A
  B-tree map is an association list in the order of its keys. A database table is a list of rows, a
  statement the list operation its text describes. A path is the list of its components. What the
  tools act on outside (files, processes, the network, the event log) is a world that the arguments
  for it change.

  What the groups of lemmas show. The safety lemmas of the kernel: no adapter runs without an
  authorized token, revocation is final, a scoped token stays in its scope, every governed call leaves
  its audit trail. The journal lemmas: appending keeps a journal valid, repair yields a valid one and
  agrees with verification, equal tail hashes mean equal histories. The resilience lemmas: circuits
  trip, bound their probes and recover; calls are spaced, retried and settled once; batches end and
  run every call once. The plugin lemmas: slots stay exclusive through planning and absorption. The
  work-unit lemmas: each operation moves each row by one step of the relation unit_step, which gives
  the store's invariant, the safety of leases and the progress of the queue. The tool lemmas: what
  ran is the program, tool or path that the request names and the rules, the lease or the roots admit;
  leases are accepted exactly when they are signed, current and bound; narrowing only narrows; web
  requests reach admitted hosts and public addresses. The safe-lane lemmas: a plan validates exactly
  when its graph is acyclic and well formed, its runs keep the order and the budgets, a turn ends, and
  its text is made of verified outputs of its own calls. The control-plane lemmas: events are numbered
  without gaps and readers get them, challenges are used once and in time, only approved devices are
  authorized, and a restart keeps the pairings; with two runs that show where this fails.

  Bounds and fuel. u64, u32 and i64 values are words, or integers with saturation written out; usize
  counters are naturals with the 64-bit bound in the statements that need it. The lease version and
  the attempt count of a work unit, an i64 that is only counted up, are unbounded. Every loop is a
  total function by structural recursion or a measure, with three exceptions, which may run forever
  as far as their definitions go and are partial functions into options: the drain loop of the
  mailbox, the counting loop of the plan's order (count_off) and the loop over the rounds of a turn
  (safe_lane_loop). The last two are proved to end. The dependency query terminates because each round
  adds a unit not seen before. No definition uses fuel.

  Parameters. serde_json (codecs of JSON columns, entries and frames), SHA-256, SQLite, the file
  system, clocks, random numbers, semver and floating point, tokio's channels, the parsers of bash and
  of rule files (tree-sitter, Starlark), URLs, DNS and the HTTP client, the processes of the system,
  what a tool call of a turn does, and the adapters, connectors and policy extensions that users plug
  in are arguments. Four arguments stand for short pieces of the repository's own code around these:
  the secret store of leases (the cache and the staged publication of tool_lease_authority.rs), the
  wait for a process with its output and timeout (process_exec.rs), the order in which the parallel
  calls of a programmatic batch complete, and the tools whose own code is not modelled
  (ds_execute). A law a property needs of one of them is a hypothesis of that property, such as
  codec_ok (what was encoded decodes to itself). Two such laws only make a run observable:
  logs_messages and keeps_log say that the world records what was sent or run.

  Not modelled: walking plugin packages and parsing manifest texts (serde and the file system); the
  Windows-only comparison of environment names; futures dropped at an await; paths that are not UTF-8;
  the serde data types of protocol/src/control_plane.rs and workflow_types.rs, which have no
  operations; the daemon's command line and HTTP services, the benchmarks, and those parts of the
  application that are glue to external services or format and store texts (providers, channels,
  sessions and memory, migration, the terminal interface).
\<close>

end
